(* ===== verification/Prelude.thy ===== *)
theory Prelude
  imports Main
begin

section \<open>Shared vocabulary of the development\<close>

text \<open>
  What the component theories share: the types that stand for the program's
  identifiers and instants, the Python string methods the source calls, and the
  programs themselves.

  \<^item> A \<open>uuid.UUID\<close> is its canonical text, so that an f-string that interpolates one
    is a concatenation. A timezone-aware \<open>datetime\<close> is the integer number of
    microseconds since the epoch (the resolution of Python's type).
  \<^item> A Python \<open>str\<close> is a HOL \<open>string\<close>. The string methods are written for ASCII text.
  \<^item> A service method is a program \<open>'s \<Rightarrow> ('e + 'a) \<times> 's\<close>: it reads and writes a
    state and either raises (\<open>Inl\<close>) or returns (\<open>Inr\<close>). The state that a raising
    program leaves behind is kept, because the database session holds flushed but
    uncommitted writes at that moment; what becomes of them is decided by the
    request boundary (theory \<open>Database\<close>).
\<close>

type_synonym uuid = string
type_synonym datetime = int
type_synonym ('s, 'e, 'a) prog = "'s \<Rightarrow> ('e + 'a) \<times> 's"

named_theorems prog_simps \<open>unfolding rules of the program combinators\<close>
named_theorems row_simps \<open>reading table rows back after a write\<close>


subsection \<open>Instants and durations\<close>

definition seconds :: "int \<Rightarrow> int" where
  "seconds n = n * 1000000"

definition minutes :: "int \<Rightarrow> int" where
  "minutes n = seconds (n * 60)"

lemma seconds_mono [simp]: "seconds a \<le> seconds b \<longleftrightarrow> a \<le> b"
  by (simp add: seconds_def)

lemma minutes_pos [simp]: "0 < minutes n \<longleftrightarrow> 0 < n"
  by (simp add: minutes_def seconds_def)


subsection \<open>Programs that may raise\<close>

definition ret :: "'a \<Rightarrow> ('s, 'e, 'a) prog" where
  "ret x = (\<lambda>s. (Inr x, s))"

definition raise :: "'e \<Rightarrow> ('s, 'e, 'a) prog" where
  "raise e = (\<lambda>s. (Inl e, s))"

definition andthen :: "('s, 'e, 'a) prog \<Rightarrow> ('a \<Rightarrow> ('s, 'e, 'b) prog) \<Rightarrow> ('s, 'e, 'b) prog" where
  "andthen m f = (\<lambda>s. case m s of (Inl e, s') \<Rightarrow> (Inl e, s') | (Inr x, s') \<Rightarrow> f x s')"

definition reads :: "('s \<Rightarrow> 'a) \<Rightarrow> ('s, 'e, 'a) prog" where
  "reads g = (\<lambda>s. (Inr (g s), s))"

definition modifies :: "('s \<Rightarrow> 's) \<Rightarrow> ('s, 'e, unit) prog" where
  "modifies g = (\<lambda>s. (Inr (), g s))"

definition guard :: "bool \<Rightarrow> 'e \<Rightarrow> ('s, 'e, unit) prog" where
  "guard b e = (if b then ret () else raise e)"

definition lift_result :: "'e + 'a \<Rightarrow> ('s, 'e, 'a) prog" where
  "lift_result r = (\<lambda>s. (r, s))"

definition orelse :: "'a option \<Rightarrow> 'e \<Rightarrow> ('s, 'e, 'a) prog" where
  "orelse v e = (case v of None \<Rightarrow> raise e | Some x \<Rightarrow> ret x)"

lemmas prog_defs [prog_simps] =
  ret_def raise_def andthen_def reads_def modifies_def guard_def lift_result_def orelse_def

text \<open>A program that returned decomposes into the runs of its parts.\<close>

lemma andthen_Inr:
  "andthen m f s = (Inr y, s') \<longleftrightarrow> (\<exists>x s1. m s = (Inr x, s1) \<and> f x s1 = (Inr y, s'))"
  by (auto simp: andthen_def split: prod.splits sum.splits)

lemma andthen_Inl:
  "andthen m f s = (Inl e, s') \<longleftrightarrow>
     m s = (Inl e, s') \<or> (\<exists>x s1. m s = (Inr x, s1) \<and> f x s1 = (Inl e, s'))"
  by (auto simp: andthen_def split: prod.splits sum.splits)

lemma ret_Inr [simp]: "ret x s = (Inr y, s') \<longleftrightarrow> y = x \<and> s' = s"
  by (auto simp: ret_def)

lemma ret_Inl [simp]: "ret x s = (Inl e, s') \<longleftrightarrow> False"
  by (simp add: ret_def)

lemma raise_Inr [simp]: "raise e s = (Inr y, s') \<longleftrightarrow> False"
  by (simp add: raise_def)

lemma raise_Inl [simp]: "raise e s = (Inl e', s') \<longleftrightarrow> e' = e \<and> s' = s"
  by (auto simp: raise_def)

lemma reads_Inr [simp]: "reads g s = (Inr y, s') \<longleftrightarrow> y = g s \<and> s' = s"
  by (auto simp: reads_def)

lemma reads_Inl [simp]: "reads g s = (Inl e, s') \<longleftrightarrow> False"
  by (simp add: reads_def)

lemma modifies_Inr [simp]: "modifies g s = (Inr y, s') \<longleftrightarrow> s' = g s"
  by (auto simp: modifies_def)

lemma modifies_Inl [simp]: "modifies g s = (Inl e, s') \<longleftrightarrow> False"
  by (simp add: modifies_def)

lemma guard_Inr [simp]: "guard b e s = (Inr y, s') \<longleftrightarrow> b \<and> s' = s"
  by (auto simp: guard_def)

lemma guard_Inl [simp]: "guard b e s = (Inl e', s') \<longleftrightarrow> \<not> b \<and> e' = e \<and> s' = s"
  by (auto simp: guard_def)

lemma lift_result_eq [simp]: "lift_result r s = (r', s') \<longleftrightarrow> r' = r \<and> s' = s"
  by (auto simp: lift_result_def)

lemma orelse_Inr [simp]: "orelse v e s = (Inr y, s') \<longleftrightarrow> v = Some y \<and> s' = s"
  by (auto simp: orelse_def split: option.splits)

lemma orelse_Inl [simp]: "orelse v e s = (Inl e', s') \<longleftrightarrow> v = None \<and> e' = e \<and> s' = s"
  by (auto simp: orelse_def split: option.splits)

text \<open>
  A program preserves \<open>P\<close> when every run from a \<open>P\<close> state, returning or raising,
  ends in a \<open>P\<close> state.
\<close>

definition preserves :: "('s \<Rightarrow> bool) \<Rightarrow> ('s, 'e, 'a) prog \<Rightarrow> bool" where
  "preserves P m \<longleftrightarrow> (\<forall>s. P s \<longrightarrow> P (snd (m s)))"

lemma preservesI: "(\<And>s. P s \<Longrightarrow> P (snd (m s))) \<Longrightarrow> preserves P m"
  by (simp add: preserves_def)

lemma preservesD: "preserves P m \<Longrightarrow> P s \<Longrightarrow> m s = (r, s') \<Longrightarrow> P s'"
  by (force simp: preserves_def)

lemma preserves_ret [intro!]: "preserves P (ret x)"
  and preserves_raise [intro!]: "preserves P (raise e)"
  and preserves_reads [intro!]: "preserves P (reads g)"
  and preserves_guard [intro!]: "preserves P (guard b e)"
  and preserves_lift [intro!]: "preserves P (lift_result r)"
  and preserves_orelse [intro!]: "preserves P (orelse v e)"
  by (auto simp: preserves_def prog_defs split: option.splits)

lemma preserves_modifies: "(\<And>s. P s \<Longrightarrow> P (g s)) \<Longrightarrow> preserves P (modifies g)"
  by (simp add: preserves_def modifies_def)

lemma preserves_andthen:
  "preserves P m \<Longrightarrow> (\<And>x. preserves P (f x)) \<Longrightarrow> preserves P (andthen m f)"
  by (auto simp: preserves_def andthen_def split: prod.splits sum.splits)

lemma preserves_if: "(b \<Longrightarrow> preserves P m) \<Longrightarrow> (\<not> b \<Longrightarrow> preserves P n) \<Longrightarrow> preserves P (if b then m else n)"
  by simp


subsection \<open>Python strings\<close>

definition code_of :: "char \<Rightarrow> nat" where
  "code_of c = of_char c"

definition py_isspace :: "char \<Rightarrow> bool" where
  "py_isspace c \<longleftrightarrow> code_of c \<in> {9, 10, 11, 12, 13, 28, 29, 30, 31, 32}"

definition py_upper_char :: "char \<Rightarrow> char" where
  "py_upper_char c = (if 97 \<le> code_of c \<and> code_of c \<le> 122 then char_of (code_of c - 32) else c)"

definition py_lower_char :: "char \<Rightarrow> char" where
  "py_lower_char c = (if 65 \<le> code_of c \<and> code_of c \<le> 90 then char_of (code_of c + 32) else c)"

definition py_strip :: "string \<Rightarrow> string" where
  "py_strip s = rev (dropWhile py_isspace (rev (dropWhile py_isspace s)))"

definition py_upper :: "string \<Rightarrow> string" where
  "py_upper s = map py_upper_char s"

definition py_lower :: "string \<Rightarrow> string" where
  "py_lower s = map py_lower_char s"

lemma code_of_char_of [simp]: "n < 256 \<Longrightarrow> code_of (char_of n) = n"
  by (simp add: code_of_def)

lemma py_upper_char_idem [simp]: "py_upper_char (py_upper_char c) = py_upper_char c"
  by (auto simp: py_upper_char_def)

lemma py_lower_char_idem [simp]: "py_lower_char (py_lower_char c) = py_lower_char c"
  by (auto simp: py_lower_char_def)

lemma py_upper_idem [simp]: "py_upper (py_upper s) = py_upper s"
  by (simp add: py_upper_def)

lemma py_lower_idem [simp]: "py_lower (py_lower s) = py_lower s"
  by (simp add: py_lower_def)

lemma py_isspace_upper [simp]: "py_isspace (py_upper_char c) = py_isspace c"
  by (auto simp: py_isspace_def py_upper_char_def)

lemma py_isspace_lower [simp]: "py_isspace (py_lower_char c) = py_isspace c"
  by (auto simp: py_isspace_def py_lower_char_def)

lemma py_strip_idem [simp]: "py_strip (py_strip s) = py_strip s"
proof -
  let ?d = "dropWhile py_isspace"
  have last: "t = [] \<or> \<not> py_isspace (hd t)" if "t = ?d u" for t u
    using that hd_dropWhile by (metis)
  have idem: "?d (?d u) = ?d u" for u
    by (induction u) auto
  have keep: "?d (rev (?d (rev t))) = rev (?d (rev t))" if h: "t = [] \<or> \<not> py_isspace (hd t)" for t
  proof (cases "?d (rev t)")
    case Nil
    show ?thesis unfolding Nil by simp
  next
    case (Cons x xs)
    obtain p where p: "rev t = p @ ?d (rev t)" using takeWhile_dropWhile_id by metis
    then have "t = rev (?d (rev t)) @ rev p" by (metis rev_append rev_rev_ident)
    moreover have "rev (?d (rev t)) \<noteq> []" using Cons by simp
    ultimately have "hd (rev (?d (rev t))) = hd t" and "t \<noteq> []"
      by (metis hd_append2, metis append_is_Nil_conv)
    then have "\<not> py_isspace (hd (rev (?d (rev t))))" using h by simp
    with \<open>rev (?d (rev t)) \<noteq> []\<close> show ?thesis
      by (metis dropWhile.simps(2) list.exhaust_sel)
  qed
  show ?thesis
    unfolding py_strip_def
    using keep [OF last [OF refl], of s] by (simp add: idem)
qed

lemma py_strip_upper: "py_strip (py_upper s) = py_upper (py_strip s)"
proof -
  have d: "dropWhile py_isspace (map py_upper_char u) = map py_upper_char (dropWhile py_isspace u)" for u
    by (induction u) auto
  show ?thesis by (simp add: py_strip_def py_upper_def d rev_map)
qed

lemma py_strip_lower: "py_strip (py_lower s) = py_lower (py_strip s)"
proof -
  have d: "dropWhile py_isspace (map py_lower_char u) = map py_lower_char (dropWhile py_isspace u)" for u
    by (induction u) auto
  show ?thesis by (simp add: py_strip_def py_lower_def d rev_map)
qed

text \<open>Decimal rendering of a non-negative \<open>int\<close>, as an f-string interpolates it.\<close>

definition digit_char :: "nat \<Rightarrow> char" where
  "digit_char d = char_of (48 + d)"

fun show_nat :: "nat \<Rightarrow> string" where
  "show_nat n = (if n < 10 then [digit_char n] else show_nat (n div 10) @ [digit_char (n mod 10)])"

declare show_nat.simps [simp del]

definition show_int :: "int \<Rightarrow> string" where
  "show_int i = (if i < 0 then ''-'' @ show_nat (nat (- i)) else show_nat (nat i))"

lemma digit_char_inj: "a < 10 \<Longrightarrow> b < 10 \<Longrightarrow> digit_char a = digit_char b \<longleftrightarrow> a = b"
proof -
  assume "a < 10" "b < 10"
  have "(of_char (digit_char a) :: nat) = 48 + a" if "a < 10" for a
    using that by (simp add: digit_char_def)
  then show ?thesis using \<open>a < 10\<close> \<open>b < 10\<close> by (metis add_left_cancel)
qed

lemma show_nat_nonempty [simp]: "show_nat n \<noteq> []"
  by (subst show_nat.simps) simp

lemma show_nat_inj: "show_nat m = show_nat n \<longleftrightarrow> m = n"
proof (induction m arbitrary: n rule: show_nat.induct)
  case (1 m)
  have last: "last (show_nat k) = digit_char (k mod 10)" for k
    by (subst show_nat.simps) simp
  have front: "butlast (show_nat k) = (if k < 10 then [] else show_nat (k div 10))" for k
    by (subst show_nat.simps) simp
  show ?case
  proof
    assume eq: "show_nat m = show_nat n"
    then have "m mod 10 = n mod 10" using last [of m] last [of n]
      by (metis digit_char_inj mod_less_divisor zero_less_numeral)
    moreover have "m div 10 = n div 10"
    proof (cases "m < 10")
      case True
      then have "butlast (show_nat n) = []" using eq front [of m] by simp
      then have "n < 10" using front [of n] by (metis show_nat_nonempty)
      with True show ?thesis by simp
    next
      case False
      then have f: "butlast (show_nat n) = show_nat (m div 10)" using eq front [of m] by simp
      then have "\<not> n < 10" using front [of n] by (metis show_nat_nonempty)
      then have "show_nat (m div 10) = show_nat (n div 10)" using f front [of n] by simp
      then show ?thesis using "1.IH" [OF False] by blast
    qed
    ultimately show "m = n" by (metis div_mult_mod_eq)
  qed simp
qed


subsection \<open>Lists\<close>

lemma find_Some_D: "find P xs = Some x \<Longrightarrow> x \<in> set xs \<and> P x"
  by (induction xs) (auto split: if_splits)

lemma find_None_iff': "find P xs = None \<longleftrightarrow> (\<forall>x \<in> set xs. \<not> P x)"
  by (auto simp: find_None_iff)

text \<open>A lookup by a key that is unique in the list is membership.\<close>

lemma find_distinct_key:
  assumes "distinct (map k xs)" and "x \<in> set xs" and "k x = a" and "Q x"
  shows "find (\<lambda>y. k y = a \<and> Q y) xs = Some x"
  using assms by (induction xs) auto

text \<open>Sorting by a key commutes with a map that keeps the key, and a row whose key is at
  least every other key sorts last.\<close>

lemma sort_key_map:
  assumes "\<And>x. k (f x) = k x"
  shows "sort_key k (map f xs) = map f (sort_key k xs)"
proof -
  have "insort_key k (f x) (map f ys) = map f (insort_key k x ys)" for x ys
    by (induction ys) (simp_all add: assms)
  then show ?thesis by (induction xs) simp_all
qed

lemma sort_key_snoc:
  assumes "\<And>x. x \<in> set xs \<Longrightarrow> k x \<le> k a"
  shows "sort_key k (xs @ [a]) = sort_key k xs @ [a]"
proof -
  have "k x \<le> k a \<Longrightarrow> insort_key k x (ys @ [a]) = insort_key k x ys @ [a]" for x ys
    by (induction ys) auto
  with assms show ?thesis by (induction xs) simp_all
qed

lemma distinct_map_inj: "distinct (map k xs) \<Longrightarrow> x \<in> set xs \<Longrightarrow> y \<in> set xs \<Longrightarrow> k x = k y \<Longrightarrow> x = y"
  by (metis (no_types, lifting) distinct_map inj_onD)

end
