(* ===== verification/Database.thy ===== *)
theory Database
  imports Prelude
begin

section \<open>Tables, the generic repository, pagination and the request session\<close>

text \<open>
  The layer every domain stores its rows through: \<open>app/database/base.py\<close> (the columns
  every table has), \<open>app/database/repositories/generic.py\<close> (\<open>GenericRepository\<close>),
  \<open>app/database/utils/\<close> (filters, sorting, pagination) and
  \<open>app/database/session.py\<close> (the transaction around a request).

  A table is the list of its rows in insertion order. A \<open>SELECT\<close> is a filter, an
  \<open>UPDATE\<close> a map, an \<open>INSERT\<close> an append that fails with \<open>DuplicateRecordError\<close> when
  the primary key or a \<open>UNIQUE\<close> column would repeat. The order in which SQL returns
  rows whose sort key is equal is not specified; the model returns the later
  insertion first under \<open>DESC\<close>.
\<close>

record base_model =
  row_id :: uuid
  created_at :: datetime
  updated_at :: datetime
  deleted_at :: "datetime option"
  is_deleted :: bool
  created_by :: "uuid option"
  updated_by :: "uuid option"
  version :: int

datatype db_error =
    DuplicateRecordError
  | ConflictError
  | RecordNotFoundError uuid
  | InvalidFilterError string

datatype sort_order = ASC | DESC

definition MAX_BULK_CREATE_SIZE :: nat where
  "MAX_BULK_CREATE_SIZE = 1000"

definition DEFAULT_PAGE :: int where
  "DEFAULT_PAGE = 1"

definition new_base :: "uuid \<Rightarrow> datetime \<Rightarrow> uuid option \<Rightarrow> base_model" where
  "new_base i now actor =
     \<lparr>row_id = i, created_at = now, updated_at = now, deleted_at = None, is_deleted = False,
      created_by = actor, updated_by = None, version = 1\<rparr>"

definition mark_deleted :: "datetime \<Rightarrow> 'a base_model_scheme \<Rightarrow> 'a base_model_scheme" where
  "mark_deleted now r = r\<lparr>is_deleted := True, deleted_at := Some now\<rparr>"

definition restore_deleted :: "'a base_model_scheme \<Rightarrow> 'a base_model_scheme" where
  "restore_deleted r = r\<lparr>is_deleted := False, deleted_at := None\<rparr>"


text \<open>The shared audit log (\<open>audit_log_entries\<close>): the services only append to it.\<close>

record audit_entry =
  ae_actor_user_id :: "uuid option"
  ae_action :: string
  ae_entity_type :: string
  ae_entity_id :: "uuid option"
  ae_description :: string
  ae_metadata :: "(string \<times> string) list"
  ae_organization_id :: "uuid option"
  ae_location_id :: "uuid option"


subsection \<open>Statements\<close>

definition base_select :: "bool \<Rightarrow> 'a base_model_scheme list \<Rightarrow> 'a base_model_scheme list" where
  "base_select include_deleted t = filter (\<lambda>r. include_deleted \<or> \<not> is_deleted r) t"

text \<open>
  A filter value: a plain value compares with \<open>=\<close>, a list, tuple or set is \<open>IN\<close>,
  and \<open>AnyOfOrNull\<close> is \<open>IN (values) OR IS NULL\<close>. A \<open>None\<close> value is skipped before
  the column name is looked at. A NULL column satisfies neither \<open>=\<close> nor \<open>IN\<close>.
\<close>

datatype 'v filter_value = EqualTo 'v | AnyOf "'v list" | AnyOfOrNull "'v list"

fun filter_matches :: "'v filter_value \<Rightarrow> 'v option \<Rightarrow> bool" where
  "filter_matches (EqualTo v) c = (c = Some v)"
| "filter_matches (AnyOf vs) c = (case c of None \<Rightarrow> False | Some v \<Rightarrow> v \<in> set vs)"
| "filter_matches (AnyOfOrNull vs) c = (case c of None \<Rightarrow> True | Some v \<Rightarrow> v \<in> set vs)"

fun apply_filters ::
  "(string \<rightharpoonup> ('r \<Rightarrow> 'v option)) \<Rightarrow> (string \<times> 'v filter_value option) list \<Rightarrow> 'r list \<Rightarrow>
   db_error + 'r list" where
  "apply_filters columns [] t = Inr t"
| "apply_filters columns ((field, value) # fs) t =
     (case value of
        None \<Rightarrow> apply_filters columns fs t
      | Some v \<Rightarrow>
          (case columns field of
             None \<Rightarrow> Inl (InvalidFilterError field)
           | Some column \<Rightarrow> apply_filters columns fs (filter (\<lambda>r. filter_matches v (column r)) t)))"

definition apply_sorting ::
  "('r \<Rightarrow> 'k::linorder) \<Rightarrow> sort_order \<Rightarrow> 'r list \<Rightarrow> 'r list" where
  "apply_sorting key ord t = (case ord of ASC \<Rightarrow> sort_key key t | DESC \<Rightarrow> rev (sort_key key t))"

definition get_by_id :: "bool \<Rightarrow> uuid \<Rightarrow> 'a base_model_scheme list \<Rightarrow> 'a base_model_scheme option" where
  "get_by_id include_deleted i t = find (\<lambda>r. row_id r = i) (base_select include_deleted t)"

definition get_required ::
  "bool \<Rightarrow> uuid \<Rightarrow> 'a base_model_scheme list \<Rightarrow> db_error + 'a base_model_scheme" where
  "get_required include_deleted i t =
     (case get_by_id include_deleted i t of
        None \<Rightarrow> Inl (RecordNotFoundError i) | Some r \<Rightarrow> Inr r)"

definition get_all ::
  "('a base_model_scheme \<Rightarrow> bool) \<Rightarrow> ('a base_model_scheme \<Rightarrow> 'k::linorder) \<Rightarrow> sort_order \<Rightarrow> bool \<Rightarrow>
   nat option \<Rightarrow> 'a base_model_scheme list \<Rightarrow> 'a base_model_scheme list" where
  "get_all P key ord include_deleted limit t =
     (let rows = apply_sorting key ord (filter P (base_select include_deleted t))
      in case limit of None \<Rightarrow> rows | Some n \<Rightarrow> take n rows)"

definition delete_row :: "'a base_model_scheme \<Rightarrow> 'a base_model_scheme list \<Rightarrow> 'a base_model_scheme list" where
  "delete_row inst t = filter (\<lambda>r. row_id r \<noteq> row_id inst) t"

text \<open>\<open>results[0] if results else None\<close> after \<open>get_all(filters, limit=1)\<close>.\<close>

definition first_row :: "('a base_model_scheme \<Rightarrow> bool) \<Rightarrow> 'a base_model_scheme list \<Rightarrow> 'a base_model_scheme option" where
  "first_row P t = (case get_all P created_at DESC False (Some 1) t of [] \<Rightarrow> None | r # _ \<Rightarrow> Some r)"

definition count_rows :: "('a base_model_scheme \<Rightarrow> bool) \<Rightarrow> bool \<Rightarrow> 'a base_model_scheme list \<Rightarrow> nat" where
  "count_rows P include_deleted t = length (filter P (base_select include_deleted t))"

definition exists_row :: "('a base_model_scheme \<Rightarrow> bool) \<Rightarrow> bool \<Rightarrow> 'a base_model_scheme list \<Rightarrow> bool" where
  "exists_row P include_deleted t = (take 1 (filter P (base_select include_deleted t)) \<noteq> [])"

text \<open>
  \<open>create\<close> and \<open>bulk_create\<close> flush; the primary key and the table's \<open>UNIQUE\<close> columns
  (\<open>uniq\<close>, a predicate on the whole table) are checked there.
\<close>

definition create_row ::
  "('a base_model_scheme list \<Rightarrow> bool) \<Rightarrow> 'a base_model_scheme \<Rightarrow> 'a base_model_scheme list \<Rightarrow>
   db_error + 'a base_model_scheme list" where
  "create_row uniq r t =
     (if distinct (map row_id (t @ [r])) \<and> uniq (t @ [r]) then Inr (t @ [r])
      else Inl DuplicateRecordError)"

definition bulk_create ::
  "('a base_model_scheme list \<Rightarrow> bool) \<Rightarrow> 'a base_model_scheme list \<Rightarrow> 'a base_model_scheme list \<Rightarrow>
   db_error + 'a base_model_scheme list" where
  "bulk_create uniq rs t =
     (if length rs > MAX_BULK_CREATE_SIZE then Inl ConflictError
      else if distinct (map row_id (t @ rs)) \<and> uniq (t @ rs) then Inr (t @ rs)
      else Inl DuplicateRecordError)"

text \<open>
  \<open>update\<close> assigns every given column except the protected ones, bumps the version
  the instance was loaded with, and lets \<open>onupdate\<close> stamp \<open>updated_at\<close>.
\<close>

definition assign ::
  "datetime \<Rightarrow> ('a base_model_scheme \<Rightarrow> 'a base_model_scheme) \<Rightarrow> int \<Rightarrow>
   'a base_model_scheme \<Rightarrow> 'a base_model_scheme" where
  "assign now data loaded_version r =
     (data r)\<lparr>row_id := row_id r, created_at := created_at r, created_by := created_by r,
              deleted_at := deleted_at r, is_deleted := is_deleted r,
              version := loaded_version + 1, updated_at := now\<rparr>"

definition update_row ::
  "datetime \<Rightarrow> ('a base_model_scheme \<Rightarrow> 'a base_model_scheme) \<Rightarrow> 'a base_model_scheme \<Rightarrow>
   'a base_model_scheme list \<Rightarrow> 'a base_model_scheme list" where
  "update_row now data inst t =
     map (\<lambda>r. if row_id r = row_id inst then assign now data (version inst) r else r) t"

definition soft_delete ::
  "datetime \<Rightarrow> 'a base_model_scheme \<Rightarrow> 'a base_model_scheme list \<Rightarrow> 'a base_model_scheme list" where
  "soft_delete now inst t = map (\<lambda>r. if row_id r = row_id inst then mark_deleted now r else r) t"

definition restore ::
  "'a base_model_scheme \<Rightarrow> 'a base_model_scheme list \<Rightarrow> 'a base_model_scheme list" where
  "restore inst t = map (\<lambda>r. if row_id r = row_id inst then restore_deleted r else r) t"


subsection \<open>Pagination\<close>

record page_params =
  page :: int
  page_size :: int

record pagination_meta =
  meta_page :: int
  meta_page_size :: int
  total_items :: int
  total_pages :: int
  has_next :: bool
  has_previous :: bool

definition make_page_params :: "int \<Rightarrow> int \<Rightarrow> int \<Rightarrow> int option \<Rightarrow> page_params" where
  "make_page_params default_size max_size p req_size =
     (let resolved = (case req_size of Some n \<Rightarrow> n | None \<Rightarrow> default_size)
      in \<lparr>page = max p DEFAULT_PAGE, page_size = min (max resolved 1) max_size\<rparr>)"

definition page_offset :: "page_params \<Rightarrow> int" where
  "page_offset ps = (page ps - 1) * page_size ps"

definition ceil_div :: "int \<Rightarrow> int \<Rightarrow> int" where
  "ceil_div a b = - ((- a) div b)"

definition from_total :: "page_params \<Rightarrow> int \<Rightarrow> pagination_meta" where
  "from_total ps n =
     (let pages = (if n \<noteq> 0 then ceil_div n (page_size ps) else 0)
      in \<lparr>meta_page = page ps, meta_page_size = page_size ps, total_items = n,
          total_pages = pages, has_next = page ps < pages,
          has_previous = (1 < page ps \<and> 0 < pages)\<rparr>)"

definition paginate :: "page_params \<Rightarrow> 'r list \<Rightarrow> 'r list" where
  "paginate ps rows = take (nat (page_size ps)) (drop (nat (page_offset ps)) rows)"

definition paginate_rows ::
  "page_params \<Rightarrow> ('a base_model_scheme \<Rightarrow> bool) \<Rightarrow> ('a base_model_scheme \<Rightarrow> 'k::linorder) \<Rightarrow>
   sort_order \<Rightarrow> bool \<Rightarrow> 'a base_model_scheme list \<Rightarrow>
   'a base_model_scheme list \<times> pagination_meta" where
  "paginate_rows ps P key ord include_deleted t =
     (let n = int (count_rows P include_deleted t);
          rows = apply_sorting key ord (filter P (base_select include_deleted t))
      in (paginate ps rows, from_total ps n))"


subsection \<open>The request session\<close>

text \<open>
  \<open>get_db_session\<close> yields a session, commits when the request handler returns and
  rolls back when it raises. The state of a program under it is a pair: what the
  session manages and what it does not (Redis, a message sent). Only the first is
  restored.
\<close>

definition with_db_session :: "('db \<times> 'x, 'e, 'a) prog \<Rightarrow> ('db \<times> 'x, 'e, 'a) prog" where
  "with_db_session m =
     (\<lambda>(db, x). case m (db, x) of
        (Inl e, (db', x')) \<Rightarrow> (Inl e, (db, x'))
      | (Inr v, (db', x')) \<Rightarrow> (Inr v, (db', x')))"


text \<open>Programs over the managed half of that state.\<close>

definition reads_db :: "('db \<Rightarrow> 'a) \<Rightarrow> ('db \<times> 'x, 'e, 'a) prog" where
  "reads_db g = reads (\<lambda>(db, x). g db)"

definition modifies_db :: "('db \<Rightarrow> 'db) \<Rightarrow> ('db \<times> 'x, 'e, unit) prog" where
  "modifies_db g = modifies (\<lambda>(db, x). (g db, x))"

text \<open>A statement that may fail: on failure nothing is written.\<close>

definition stores_db :: "(db_error \<Rightarrow> 'e) \<Rightarrow> ('db \<Rightarrow> db_error + 'db) \<Rightarrow> ('db \<times> 'x, 'e, unit) prog" where
  "stores_db wrap g = (\<lambda>(db, x). case g db of Inl e \<Rightarrow> (Inl (wrap e), (db, x)) | Inr db' \<Rightarrow> (Inr (), (db', x)))"

text \<open>A call on the unmanaged half (Redis).\<close>

definition calls_outside :: "('d \<Rightarrow> 'e) \<Rightarrow> ('x, 'd, 'a) prog \<Rightarrow> ('db \<times> 'x, 'e, 'a) prog" where
  "calls_outside wrap m =
     (\<lambda>(db, x). case m x of (Inl e, x') \<Rightarrow> (Inl (wrap e), (db, x')) | (Inr v, x') \<Rightarrow> (Inr v, (db, x')))"


section \<open>Lemmas\<close>

lemma reads_db_Inr [simp]: "reads_db g (db, x) = (Inr y, s') \<longleftrightarrow> y = g db \<and> s' = (db, x)"
  and reads_db_Inl [simp]: "reads_db g (db, x) = (Inl e, s') \<longleftrightarrow> False"
  and modifies_db_Inr [simp]: "modifies_db h (db, x) = (Inr u, s') \<longleftrightarrow> s' = (h db, x)"
  and modifies_db_Inl [simp]: "modifies_db h (db, x) = (Inl e, s') \<longleftrightarrow> False"
  by (simp_all add: reads_db_def modifies_db_def)

lemma stores_db_Inr [simp]:
  "stores_db w g (db, x) = (Inr u, s') \<longleftrightarrow> (\<exists>db'. g db = Inr db' \<and> s' = (db', x))"
  and stores_db_Inl [simp]:
  "stores_db w g (db, x) = (Inl e, s') \<longleftrightarrow> (\<exists>d. g db = Inl d \<and> e = w d \<and> s' = (db, x))"
  by (auto simp: stores_db_def split: sum.splits)

lemma calls_outside_Inr [simp]:
  "calls_outside w m (db, x) = (Inr v, s') \<longleftrightarrow> (\<exists>x'. m x = (Inr v, x') \<and> s' = (db, x'))"
  and calls_outside_Inl [simp]:
  "calls_outside w m (db, x) = (Inl e, s') \<longleftrightarrow> (\<exists>d x'. m x = (Inl d, x') \<and> e = w d \<and> s' = (db, x'))"
  by (auto simp: calls_outside_def split: sum.splits prod.splits)

lemmas db_prog_defs [prog_simps] = reads_db_def modifies_db_def stores_db_def calls_outside_def

text \<open>An invariant of the managed half: what each statement has to show.\<close>

lemma preserves_reads_db [intro!]: "preserves (\<lambda>s. P (fst s)) (reads_db g)"
  by (simp add: preserves_def reads_db_def reads_def)

lemma preserves_modifies_db: "(\<And>db. P db \<Longrightarrow> P (g db)) \<Longrightarrow> preserves (\<lambda>s. P (fst s)) (modifies_db g)"
  by (auto simp: preserves_def modifies_db_def modifies_def)

lemma preserves_stores_db:
  "(\<And>db db'. P db \<Longrightarrow> g db = Inr db' \<Longrightarrow> P db') \<Longrightarrow> preserves (\<lambda>s. P (fst s)) (stores_db w g)"
  by (auto simp: preserves_def stores_db_def split: sum.splits)

lemma preserves_calls_outside [intro!]: "preserves (\<lambda>s. P (fst s)) (calls_outside w m)"
  by (auto simp: preserves_def calls_outside_def split: sum.splits prod.splits)

lemma with_db_session_preserves:
  assumes "preserves (\<lambda>s. P (fst s)) m"
  shows "preserves (\<lambda>s. P (fst s)) (with_db_session m)"
proof (rule preservesI)
  fix s :: "'a \<times> 'b" assume p: "P (fst s)"
  obtain db x where s: "s = (db, x)" by (cases s)
  obtain r db' x' where m: "m (db, x) = (r, (db', x'))" by (metis prod.exhaust)
  have "P db'" using assms p s m unfolding preserves_def by (metis fst_conv snd_conv)
  with m p s show "P (fst (snd (with_db_session m s)))"
    by (cases r) (auto simp: with_db_session_def)
qed

lemma in_base_select [simp]: "r \<in> set (base_select d t) \<longleftrightarrow> r \<in> set t \<and> (d \<or> \<not> is_deleted r)"
  by (auto simp: base_select_def)

lemma get_by_id_Some: "get_by_id d i t = Some r \<Longrightarrow> r \<in> set t \<and> row_id r = i \<and> (d \<or> \<not> is_deleted r)"
  unfolding get_by_id_def by (drule find_Some_D) auto

lemma get_by_id_I:
  assumes "distinct (map row_id t)" and "r \<in> set t" and "d \<or> \<not> is_deleted r"
  shows "get_by_id d (row_id r) t = Some r"
proof -
  have "distinct (map row_id (base_select d t))"
    using assms(1) by (simp add: base_select_def distinct_map_filter)
  from find_distinct_key [OF this, where Q = "\<lambda>_. True"] assms show ?thesis
    by (simp add: get_by_id_def)
qed

lemma create_row_Inr:
  "create_row u r t = Inr t' \<longleftrightarrow> t' = t @ [r] \<and> distinct (map row_id t') \<and> u t'"
  by (auto simp: create_row_def)

lemma bulk_create_Inr:
  "bulk_create u rs t = Inr t' \<longleftrightarrow>
     length rs \<le> MAX_BULK_CREATE_SIZE \<and> t' = t @ rs \<and> distinct (map row_id t') \<and> u t'"
  by (auto simp: bulk_create_def simp del: distinct_append map_append)

lemma row_id_assign [row_simps, simp]: "row_id (assign now f v r) = row_id r"
  and is_deleted_assign [row_simps, simp]: "is_deleted (assign now f v r) = is_deleted r"
  and version_assign [row_simps, simp]: "version (assign now f v r) = v + 1"
  and created_at_assign [row_simps, simp]: "created_at (assign now f v r) = created_at r"
  by (simp_all add: assign_def)

lemma row_id_extend [simp]: "row_id (base_model.extend b m) = row_id b"
  and is_deleted_extend [simp]: "is_deleted (base_model.extend b m) = is_deleted b"
  and version_extend [simp]: "version (base_model.extend b m) = version b"
  and created_at_extend [simp]: "created_at (base_model.extend b m) = created_at b"
  and more_extend [simp]: "base_model.more (base_model.extend b m) = m"
  by (simp_all add: base_model.extend_def)

lemma row_id_new_base [simp]: "row_id (new_base i now actor) = i"
  and is_deleted_new_base [simp]: "is_deleted (new_base i now actor) = False"
  and version_new_base [simp]: "version (new_base i now actor) = 1"
  and created_at_new_base [simp]: "created_at (new_base i now actor) = now"
  by (simp_all add: new_base_def)

lemma map_row_id_update [row_simps, simp]: "map row_id (update_row now f i t) = map row_id t"
  by (simp add: update_row_def comp_def if_distrib cong: if_cong)

lemma set_update_row:
  "set (update_row now f i t) =
     (\<lambda>r. if row_id r = row_id i then assign now f (version i) r else r) ` set t"
  by (simp add: update_row_def)

lemma length_update_row [simp]: "length (update_row now f i t) = length t"
  by (simp add: update_row_def)

lemma apply_sorting_set [simp]: "set (apply_sorting k s t) = set t"
  by (simp add: apply_sorting_def split: sort_order.splits)

lemma get_all_first:
  assumes "get_all P k s d (Some 1) t = r # rs"
  shows "r \<in> set t \<and> P r \<and> (d \<or> \<not> is_deleted r)"
proof -
  have "r \<in> set (apply_sorting k s (filter P (base_select d t)))"
    using assms by (metis get_all_def in_set_takeD list.set_intros(1) option.simps(5))
  then show ?thesis by auto
qed

lemma get_all_first_None:
  "get_all P k s d (Some 1) t = [] \<longleftrightarrow> (\<forall>r \<in> set t. P r \<longrightarrow> \<not> d \<and> is_deleted r)"
proof -
  have "get_all P k s d (Some 1) t = [] \<longleftrightarrow> set (apply_sorting k s (filter P (base_select d t))) = {}"
    by (simp only: get_all_def Let_def option.case set_empty take_eq_Nil) simp
  also have "\<dots> \<longleftrightarrow> (\<forall>r \<in> set t. P r \<longrightarrow> \<not> d \<and> is_deleted r)"
    unfolding apply_sorting_set by auto
  finally show ?thesis .
qed

lemma first_row_Some: "first_row P t = Some r \<Longrightarrow> r \<in> set t \<and> P r \<and> \<not> is_deleted r"
  unfolding first_row_def by (auto split: list.splits dest: get_all_first simp del: One_nat_def)

lemma first_row_None: "first_row P t = None \<longleftrightarrow> (\<forall>r \<in> set t. P r \<longrightarrow> is_deleted r)"
  using get_all_first_None [of P created_at DESC False t]
  by (auto simp: first_row_def split: list.splits simp del: One_nat_def)

lemma filter_map_same: "(\<And>r. P (f r) = P r) \<Longrightarrow> filter P (map f t) = map f (filter P t)"
  by (simp add: filter_map comp_def)

lemma get_all_map:
  assumes "\<And>r. P (f r) = P r" and "\<And>r. k (f r) = k r" and "\<And>r. is_deleted (f r) = is_deleted r"
  shows "get_all P k s d l (map f t) = map f (get_all P k s d l t)"
proof -
  have "filter P (base_select d (map f t)) = map f (filter P (base_select d t))"
    unfolding base_select_def by (simp add: filter_map comp_def assms)
  then have "apply_sorting k s (filter P (base_select d (map f t))) = map f (apply_sorting k s (filter P (base_select d t)))"
    by (simp add: apply_sorting_def sort_key_map [of k f, OF assms(2)] rev_map split: sort_order.splits)
  then show ?thesis by (simp add: get_all_def Let_def take_map split: option.splits)
qed

text \<open>A row whose key is at least every other key is the first under \<open>DESC\<close>.\<close>

lemma get_all_desc_snoc:
  assumes "\<And>r. r \<in> set t \<Longrightarrow> k r \<le> k a" and "P a" and "d \<or> \<not> is_deleted a"
  shows "get_all P k DESC d (Some 1) (t @ [a]) = [a]"
proof -
  have "filter P (base_select d (t @ [a])) = filter P (base_select d t) @ [a]"
    using assms(2,3) by (simp add: base_select_def)
  moreover have "sort_key k (filter P (base_select d t) @ [a]) = sort_key k (filter P (base_select d t)) @ [a]"
    by (rule sort_key_snoc) (use assms(1) in auto)
  ultimately show ?thesis by (simp add: get_all_def apply_sorting_def Let_def)
qed

text \<open>The first row under \<open>DESC\<close> has the greatest key.\<close>

lemma get_all_desc_first_max:
  assumes "get_all P k DESC d (Some 1) t = r # rs" and "x \<in> set t" and "P x" and "d \<or> \<not> is_deleted x"
  shows "k x \<le> k r"
proof -
  define s where "s = sort_key k (filter P (base_select d t))"
  have x: "x \<in> set s" unfolding s_def set_sort using assms by auto
  have take: "take 1 (rev s) = r # rs"
    using assms(1) by (simp add: get_all_def apply_sorting_def Let_def s_def)
  then obtain ys where "rev s = r # ys" by (cases "rev s") auto
  then have s: "s = rev ys @ [r]" by (metis rev.simps(2) rev_rev_ident)
  have "sorted (map k s)" by (simp add: s_def)
  then show ?thesis using x by (auto simp: s sorted_append)
qed

lemma make_page_params_bounds:
  assumes "1 \<le> max_size"
  shows "1 \<le> page (make_page_params ds max_size p sz)"
    and "1 \<le> page_size (make_page_params ds max_size p sz)"
    and "page_size (make_page_params ds max_size p sz) \<le> max_size"
  using assms by (simp_all add: make_page_params_def DEFAULT_PAGE_def Let_def)

lemma ceil_div_bounds:
  assumes "0 < b"
  shows "a \<le> ceil_div a b * b" and "ceil_div a b * b < a + b"
proof -
  have "(- a) div b * b + (- a) mod b = - a" by (rule div_mult_mod_eq)
  moreover have "0 \<le> (- a) mod b" "(- a) mod b < b" using assms by simp_all
  moreover have "ceil_div a b * b = - ((- a) div b * b)" by (simp add: ceil_div_def)
  ultimately show "a \<le> ceil_div a b * b" "ceil_div a b * b < a + b" by linarith+
qed

text \<open>Consecutive slices of width \<open>n\<close> cover a list.\<close>

lemma concat_slices:
  "concat (map (\<lambda>k. take n (drop (k * n) xs)) [0..<m]) = take (m * n) xs"
  by (induction m) (simp_all add: add.commute [of n] take_add)

lemma with_db_session_Inl:
  "with_db_session m (db, x) = (Inl e, s') \<longleftrightarrow>
     (\<exists>db' x'. m (db, x) = (Inl e, (db', x')) \<and> s' = (db, x'))"
  by (auto simp: with_db_session_def split: prod.splits sum.splits)

lemma with_db_session_Inr:
  "with_db_session m (db, x) = (Inr v, s') \<longleftrightarrow> m (db, x) = (Inr v, s')"
  by (auto simp: with_db_session_def split: prod.splits sum.splits)


subsection \<open>Histories of requests\<close>

text \<open>
  A history runs one request after another, each in its own session: what a request that
  raised had written is rolled back. A property of the database that every returning
  request keeps, and a reflexive and transitive relation that every returning request
  establishes between the database before and after it, hold over every history.
\<close>

fun run_requests :: "('c \<Rightarrow> ('db \<times> 'x, 'e, 'a) prog) \<Rightarrow> 'c list \<Rightarrow> 'db \<times> 'x \<Rightarrow> 'db \<times> 'x" where
  "run_requests run [] s = s"
| "run_requests run (c # cs) s = run_requests run cs (snd (with_db_session (run c) s))"

locale request_contract =
  fixes run :: "'c \<Rightarrow> ('db \<times> 'x, 'e, 'a) prog"
    and inv :: "'db \<Rightarrow> bool"
    and leads :: "'db \<Rightarrow> 'db \<Rightarrow> bool"
  assumes keeps_inv: "run c (db, x) = (Inr v, (db', x')) \<Longrightarrow> inv db \<Longrightarrow> inv db'"
    and keeps_leads: "run c (db, x) = (Inr v, (db', x')) \<Longrightarrow> inv db \<Longrightarrow> leads db db'"
    and leads_refl: "inv db \<Longrightarrow> leads db db"
    and leads_trans: "leads db1 db2 \<Longrightarrow> leads db2 db3 \<Longrightarrow> leads db1 db3"
begin

lemma request_step:
  assumes "inv db"
  shows "inv (fst (snd (with_db_session (run c) (db, x))))" and "leads db (fst (snd (with_db_session (run c) (db, x))))"
proof -
  obtain r db' x' where r: "run c (db, x) = (r, (db', x'))" by (metis prod.exhaust)
  then show "inv (fst (snd (with_db_session (run c) (db, x))))" "leads db (fst (snd (with_db_session (run c) (db, x))))"
    using assms keeps_inv keeps_leads leads_refl by (cases r; auto simp: with_db_session_def)+
qed

lemma history:
  assumes "inv db"
  shows "inv (fst (run_requests run cs (db, x))) \<and> leads db (fst (run_requests run cs (db, x)))"
  using assms
proof (induction cs arbitrary: db x)
  case Nil
  then show ?case by (simp add: leads_refl)
next
  case (Cons c cs)
  obtain db' x' where s: "snd (with_db_session (run c) (db, x)) = (db', x')" by (metis prod.exhaust)
  with request_step [OF Cons.prems, of c x] have "inv db'" "leads db db'" by simp_all
  with Cons.IH [of db' x'] s show ?case using leads_trans by auto
qed

lemmas history_inv = history [THEN conjunct1]
lemmas history_leads = history [THEN conjunct2]

end

section \<open>Properties\<close>

text \<open>
  Paging is a partition of the result set: for any page size the server settles
  on (whatever the caller asked for), the pages \<open>1 .. total_pages\<close> that \<open>PaginationMeta\<close>
  announces, read one after the other through \<open>paginate\<close>, are exactly the rows in
  order, none lost and none repeated.
\<close>

theorem pages_partition:
  assumes max: "1 \<le> max_size"
    and sz: "sz = page_size (make_page_params ds max_size 1 req)"
    and total: "m = total_pages (from_total (make_page_params ds max_size 1 req) (int (length rows)))"
  shows "concat (map (\<lambda>k. paginate (make_page_params ds max_size (int k + 1) req) rows) [0..<nat m]) = rows"
proof -
  let ?n = "nat sz"
  have sz1: "1 \<le> sz" using make_page_params_bounds(2) [OF max] sz by simp
  have slice: "paginate (make_page_params ds max_size (int k + 1) req) rows = take ?n (drop (k * ?n) rows)" for k
    using sz1 sz
    by (simp add: paginate_def page_offset_def make_page_params_def DEFAULT_PAGE_def Let_def nat_mult_distrib)
  have m: "m = (if rows = [] then 0 else ceil_div (int (length rows)) sz)"
    using total sz by (simp add: from_total_def Let_def)
  have "length rows \<le> nat m * ?n"
  proof (cases "rows = []")
    case False
    have "int (length rows) \<le> m * sz"
      using False sz1 m ceil_div_bounds(1) [of sz "int (length rows)"] by simp
    then have "length rows \<le> nat (m * sz)" by simp
    moreover have "nat (m * sz) = nat m * ?n" using sz1 by (simp add: mult.commute [of m] nat_mult_distrib)
    ultimately show ?thesis by simp
  qed simp
  then show ?thesis unfolding slice concat_slices by simp
qed

theorem pages_partition_witness:
  "concat (map (\<lambda>k. paginate (make_page_params 25 2 (int k + 1) (Some 7)) [10, 20, 30 :: nat])
     [0..<nat 2]) = [10, 20, 30]"
  by (rule pages_partition [where max_size = 2 and ds = 25 and req = "Some 7" and sz = 2])
    (simp_all add: make_page_params_def from_total_def ceil_div_def DEFAULT_PAGE_def)

end
