(* ===== verification/RateLimit.thy ===== *)
theory RateLimit
  imports Prelude
begin

section \<open>Redis-backed rate limiting\<close>

text \<open>
  \<open>VoucherRedemptionRateLimiter\<close> (\<open>app/domains/voucher/service.py\<close>) and \<open>OtpRateLimiter\<close>
  (\<open>app/domains/otp/service.py\<close>): an INCR + EXPIRE + TTL counter per caller or per
  identifier. The Redis server is not part of the repository, so its three commands
  are a parameter (\<open>redis_ops\<close>) over an arbitrary server state \<open>'r\<close>, and what the
  code relies on is the predicate \<open>redis_laws\<close>, the documented behaviour of INCR,
  EXPIRE and TTL: INCR treats a missing or expired key as 0 and returns the new
  value, keeps the key's expiry, and gives a created key none; EXPIRE changes no value.
  Limiter programs return \<open>()\<close> or raise the number of seconds to wait.
\<close>

record 'r redis_ops =
  incr :: "string \<Rightarrow> 'r \<Rightarrow> int \<times> 'r"
  expire :: "string \<Rightarrow> int \<Rightarrow> 'r \<Rightarrow> 'r"
  ttl :: "string \<Rightarrow> 'r \<Rightarrow> int"

text \<open>\<open>val r k\<close> is the live value of a key (0 when there is none), \<open>expires r k\<close> says
  that the key carries an expiry.\<close>

definition redis_laws ::
  "'r redis_ops \<Rightarrow> ('r \<Rightarrow> string \<Rightarrow> int) \<Rightarrow> ('r \<Rightarrow> string \<Rightarrow> bool) \<Rightarrow> bool" where
  "redis_laws ops val expires \<longleftrightarrow>
     (\<forall>k r. fst (incr ops k r) = val r k + 1) \<and>
     (\<forall>k r. val (snd (incr ops k r)) = (val r)(k := val r k + 1)) \<and>
     (\<forall>k r j. expires (snd (incr ops k r)) j = (if j = k \<and> val r k = 0 then False else expires r j)) \<and>
     (\<forall>k n r. 0 < n \<longrightarrow> val (expire ops k n r) = val r) \<and>
     (\<forall>k n r. 0 < n \<longrightarrow> expires (expire ops k n r) = (expires r)(k := val r k \<noteq> 0 \<or> expires r k))"

definition VOUCHER_REDEMPTION_RATE_LIMIT_KEY :: "string \<Rightarrow> string" where
  "VOUCHER_REDEMPTION_RATE_LIMIT_KEY source = ''voucher:redemption_attempts:'' @ source"

definition OTP_REQUEST_RATE_LIMIT_KEY :: "string \<Rightarrow> string" where
  "OTP_REQUEST_RATE_LIMIT_KEY identifier = ''otp:request_count:'' @ identifier"

definition VoucherRedemptionRateLimiter_check_and_increment ::
  "'r redis_ops \<Rightarrow> string \<Rightarrow> int \<Rightarrow> int \<Rightarrow> ('r, int, unit) prog" where
  "VoucherRedemptionRateLimiter_check_and_increment ops source max_attempts window_minutes r =
     (let key = VOUCHER_REDEMPTION_RATE_LIMIT_KEY source;
          (current, r1) = incr ops key r;
          r2 = (if current = 1 then expire ops key (window_minutes * 60) r1 else r1)
      in if max_attempts < current
         then (Inl (if 0 < ttl ops key r2 then ttl ops key r2 else window_minutes * 60), r2)
         else (Inr (), r2))"

definition OtpRateLimiter_check_and_increment ::
  "'r redis_ops \<Rightarrow> string \<Rightarrow> int \<Rightarrow> int \<Rightarrow> ('r, int, unit) prog" where
  "OtpRateLimiter_check_and_increment ops identifier max_requests window_minutes r =
     (let key = OTP_REQUEST_RATE_LIMIT_KEY identifier;
          (current, r1) = incr ops key r;
          r2 = (if current = 1 then expire ops key (window_minutes * 60) r1 else r1)
      in if max_requests < current
         then (Inl (if 0 < ttl ops key r2 then ttl ops key r2 else window_minutes * 60), r2)
         else (Inr (), r2))"

text \<open>A burst of calls: each element of the list is the caller of one check. The result
  says which were admitted.\<close>

fun run_checks ::
  "(string \<Rightarrow> ('r, int, unit) prog) \<Rightarrow> string list \<Rightarrow> 'r \<Rightarrow> (string \<times> bool) list \<times> 'r" where
  "run_checks check [] r = ([], r)"
| "run_checks check (c # cs) r =
     (case check c r of
        (Inr _, r') \<Rightarrow> (case run_checks check cs r' of (out, r'') \<Rightarrow> ((c, True) # out, r''))
      | (Inl _, r') \<Rightarrow> (case run_checks check cs r' of (out, r'') \<Rightarrow> ((c, False) # out, r'')))"

definition admitted :: "string \<Rightarrow> (string \<times> bool) list \<Rightarrow> nat" where
  "admitted c out = length (filter (\<lambda>x. x = (c, True)) out)"

text \<open>Every live counter carries an expiry, so no caller can be shut out for good.\<close>

definition all_counters_expire :: "('r \<Rightarrow> string \<Rightarrow> int) \<Rightarrow> ('r \<Rightarrow> string \<Rightarrow> bool) \<Rightarrow> 'r \<Rightarrow> bool" where
  "all_counters_expire val expires r \<longleftrightarrow> (\<forall>k. 0 \<le> val r k \<and> (val r k \<noteq> 0 \<longrightarrow> expires r k))"


subsection \<open>The contract both limiters meet\<close>

locale window_limiter =
  fixes check :: "'r redis_ops \<Rightarrow> string \<Rightarrow> int \<Rightarrow> int \<Rightarrow> ('r, int, unit) prog"
    and key :: "string \<Rightarrow> string"
  assumes key_inj: "key a = key b \<Longrightarrow> a = b"
    and admits: "redis_laws ops val ex \<Longrightarrow> 0 < w \<Longrightarrow>
      (\<exists>r'. check ops c m w r = (Inr (), r')) \<longleftrightarrow> val r (key c) < m"
    and counts: "redis_laws ops val ex \<Longrightarrow> 0 < w \<Longrightarrow>
      val (snd (check ops c m w r)) = (val r)(key c := val r (key c) + 1)"
    and arms: "redis_laws ops val ex \<Longrightarrow> 0 < w \<Longrightarrow> all_counters_expire val ex r \<Longrightarrow>
      all_counters_expire val ex (snd (check ops c m w r))"
begin

lemma check_cases:
  assumes "redis_laws ops val ex" and "0 < w"
  obtains r' where "val r (key c) < m" and "check ops c m w r = (Inr (), r')"
      and "val r' = (val r)(key c := val r (key c) + 1)"
  | e r' where "m \<le> val r (key c)" and "check ops c m w r = (Inl e, r')"
      and "val r' = (val r)(key c := val r (key c) + 1)"
proof (cases "check ops c m w r")
  case (Pair a r')
  have v: "val r' = (val r)(key c := val r (key c) + 1)"
    using counts [OF assms, of c m r] Pair by simp
  show ?thesis
  proof (cases a)
    case (Inl e)
    then have "m \<le> val r (key c)" using admits [OF assms, of c m r] Pair by auto
    with that(2) Pair Inl v show ?thesis by blast
  next
    case (Inr u)
    then have "val r (key c) < m" using admits [OF assms, of c m r] Pair by auto
    with that(1) Pair Inr v show ?thesis by simp
  qed
qed

lemma admitted_exact:
  assumes laws: "redis_laws ops val ex" "0 < w" and "0 \<le> m"
  shows "0 \<le> val r (key c) \<Longrightarrow>
    int (admitted c (fst (run_checks (\<lambda>s. check ops s m w) cs r))) =
      min (int (count_list cs c)) (max 0 (m - val r (key c)))"
proof (induction cs arbitrary: r)
  case Nil
  then show ?case by (simp add: admitted_def)
next
  case (Cons d cs)
  note laws
  show ?case
  proof (rule check_cases [OF laws, where r = r and c = d and m = m])
    fix r' assume lt: "val r (key d) < m" and run: "check ops d m w r = (Inr (), r')"
      and v: "val r' = (val r)(key d := val r (key d) + 1)"
    have "0 \<le> val r' (key c)" using Cons.prems v by (auto dest: key_inj)
    note ih = Cons.IH [OF this]
    show ?thesis
      using run ih v lt key_inj [of d c] Cons.prems
      by (cases "d = c") (auto simp: admitted_def split: prod.splits)
  next
    fix e r' assume le: "m \<le> val r (key d)" and run: "check ops d m w r = (Inl e, r')"
      and v: "val r' = (val r)(key d := val r (key d) + 1)"
    have "0 \<le> val r' (key c)" using Cons.prems v by (auto dest: key_inj)
    note ih = Cons.IH [OF this]
    show ?thesis
      using run ih v le key_inj [of d c] Cons.prems
      by (cases "d = c") (auto simp: admitted_def split: prod.splits)
  qed
qed

lemma run_checks_arms:
  assumes "redis_laws ops val ex" "0 < w"
  shows "all_counters_expire val ex r \<Longrightarrow>
    all_counters_expire val ex (snd (run_checks (\<lambda>s. check ops s m w) cs r))"
proof (induction cs arbitrary: r)
  case Nil
  then show ?case by simp
next
  case (Cons c cs)
  from arms [OF assms Cons.prems, of c m]
  have "all_counters_expire val ex (snd (check ops c m w r))" .
  from Cons.IH [OF this] show ?case by (auto split: prod.splits sum.splits)
qed

end

text \<open>One argument discharges the contract for both counters.\<close>

lemma limiter_contract:
  assumes eq: "\<And>ops c m w r. check ops c m w r =
      (let k = key c; (current, r1) = incr ops k r;
           r2 = (if current = 1 then expire ops k (w * 60) r1 else r1)
       in if m < current then (Inl (if 0 < ttl ops k r2 then ttl ops k r2 else w * 60), r2)
          else (Inr (), r2))"
    and inj: "\<And>a b. key a = key b \<Longrightarrow> a = b"
  shows "window_limiter check key"
proof
  fix a b show "key a = key b \<Longrightarrow> a = b" by (rule inj)
next
  fix ops :: "'a redis_ops" and val ex w c m r
  assume laws: "redis_laws ops val ex" and w: "0 < (w :: int)"
  then show "(\<exists>r'. check ops c m w r = (Inr (), r')) \<longleftrightarrow> val r (key c) < m"
    by (auto simp: eq Let_def redis_laws_def split: prod.splits) (metis fst_conv linorder_not_less zless_add1_eq less_le)+
next
  fix ops :: "'a redis_ops" and val ex w c m r
  assume laws: "redis_laws ops val ex" and w: "0 < (w :: int)"
  then show "val (snd (check ops c m w r)) = (val r)(key c := val r (key c) + 1)"
    by (auto simp: eq Let_def redis_laws_def split: prod.splits) (metis snd_conv)+
next
  fix ops :: "'a redis_ops" and val ex w c m r
  assume laws: "redis_laws ops val ex" and w: "0 < (w :: int)"
    and a: "all_counters_expire val ex r"
  define k where "k = key c"
  obtain current r1 where i: "incr ops k r = (current, r1)" by fastforce
  have cur: "current = val r k + 1" and v1: "val r1 = (val r)(k := val r k + 1)"
    and e1: "\<And>j. ex r1 j = (if j = k \<and> val r k = 0 then False else ex r j)"
    using laws i by (auto simp: redis_laws_def) (metis fst_conv snd_conv)+
  have v2: "val (expire ops k (w * 60) r1) = val r1"
    and e2: "ex (expire ops k (w * 60) r1) = (ex r1)(k := val r1 k \<noteq> 0 \<or> ex r1 k)"
    using laws w by (simp_all add: redis_laws_def)
  have post: "snd (check ops c m w r) = (if current = 1 then expire ops k (w * 60) r1 else r1)"
    using i by (auto simp: eq Let_def k_def)
  show "all_counters_expire val ex (snd (check ops c m w r))"
    using a unfolding post all_counters_expire_def by (auto simp: v1 v2 e1 e2 cur)
qed

interpretation vl: window_limiter
  VoucherRedemptionRateLimiter_check_and_increment VOUCHER_REDEMPTION_RATE_LIMIT_KEY
  by (rule limiter_contract)
    (simp_all add: VoucherRedemptionRateLimiter_check_and_increment_def VOUCHER_REDEMPTION_RATE_LIMIT_KEY_def)

interpretation ol: window_limiter
  OtpRateLimiter_check_and_increment OTP_REQUEST_RATE_LIMIT_KEY
  by (rule limiter_contract)
    (simp_all add: OtpRateLimiter_check_and_increment_def OTP_REQUEST_RATE_LIMIT_KEY_def)


section \<open>Properties\<close>

text \<open>A store that meets the documented behaviour: a counter and an expiry flag per key.\<close>

definition store_ops :: "((string \<Rightarrow> int) \<times> (string \<Rightarrow> bool)) redis_ops" where
  "store_ops =
     \<lparr>incr = (\<lambda>k (v, x). (v k + 1, (v(k := v k + 1), x(k := v k \<noteq> 0 \<and> x k)))),
      expire = (\<lambda>k n (v, x). (v, x(k := v k \<noteq> 0 \<or> x k))),
      ttl = (\<lambda>k (v, x). if x k then 60 else -1)\<rparr>"

lemma store_laws: "redis_laws store_ops fst snd"
  by (auto simp: redis_laws_def store_ops_def fun_eq_iff)

text \<open>
  Voucher rate limiting is exact: in any burst of validate and redeem calls from
  any mix of sources, a source that starts with a fresh counter is let through exactly
  \<open>min (its calls) max_attempts\<close> times, whatever the other sources do.
\<close>

theorem voucher_rate_limit_exact:
  assumes "redis_laws ops val expires" and "0 < window_minutes" and "0 \<le> max_attempts"
    and "val r (VOUCHER_REDEMPTION_RATE_LIMIT_KEY source) = 0"
  shows "int (admitted source (fst (run_checks
      (\<lambda>s. VoucherRedemptionRateLimiter_check_and_increment ops s max_attempts window_minutes) calls r)))
    = min (int (count_list calls source)) max_attempts"
  using vl.admitted_exact [OF assms(1-3), of r source calls] assms(3,4) by simp

theorem voucher_rate_limit_exact_witness:
  "int (admitted ''a'' (fst (run_checks
      (\<lambda>s. VoucherRedemptionRateLimiter_check_and_increment store_ops s 2 1)
      [''a'', ''b'', ''a'', ''a''] (\<lambda>_. 0, \<lambda>_. False))))
    = min (int (count_list [''a'', ''b'', ''a'', ''a''] ''a'')) 2"
  by (rule voucher_rate_limit_exact [OF store_laws]) simp_all

text \<open>
  The OTP request counter never shuts an identifier out for good: if every live
  counter carries an expiry before a burst of requests, every live counter carries one
  after it, refused requests included.
\<close>

theorem otp_rate_limit_counters_expire:
  assumes "redis_laws ops val expires" and "0 < window_minutes"
    and "all_counters_expire val expires r"
  shows "all_counters_expire val expires (snd (run_checks
    (\<lambda>s. OtpRateLimiter_check_and_increment ops s max_requests window_minutes) calls r))"
  using assms by (rule ol.run_checks_arms)

theorem otp_rate_limit_counters_expire_witness:
  "all_counters_expire fst snd (snd (run_checks
    (\<lambda>s. OtpRateLimiter_check_and_increment store_ops s 1 60) [''x'', ''y'', ''x''] (\<lambda>_. 0, \<lambda>_. False)))"
  by (rule otp_rate_limit_counters_expire [OF store_laws]) (simp_all add: all_counters_expire_def)

end
