(* ===== verification/Rbac.thy ===== *)
theory Rbac
  imports Database "HOL-Library.Char_ord" "HOL-Library.List_Lexorder"
begin

section \<open>Role-based access control\<close>

text \<open>
  \<open>app/domains/rbac/authorization.py\<close> with the value objects of \<open>context.py\<close>, the
  queries of \<open>repository.py\<close> it reads, the caller confinement of \<open>location_scope.py\<close>
  and the assignment guards of \<open>service.py\<close>. A user's grants come from active role
  assignments (with the permissions of parent roles) and from per-user overrides; a
  grant satisfies a check when it is at least as broad as the check and names the
  same entity at its own level; a matching deny wins over every allow.
\<close>

datatype ScopeType = GLOBAL | ORGANIZATION | LOCATION | ROUTER | DEVICE

fun SCOPE_HIERARCHY_ORDER :: "ScopeType \<Rightarrow> nat" where
  "SCOPE_HIERARCHY_ORDER GLOBAL = 0"
| "SCOPE_HIERARCHY_ORDER ORGANIZATION = 1"
| "SCOPE_HIERARCHY_ORDER LOCATION = 2"
| "SCOPE_HIERARCHY_ORDER ROUTER = 3"
| "SCOPE_HIERARCHY_ORDER DEVICE = 4"

fun scope_value :: "ScopeType \<Rightarrow> string" where
  "scope_value GLOBAL = ''global''"
| "scope_value ORGANIZATION = ''organization''"
| "scope_value LOCATION = ''location''"
| "scope_value ROUTER = ''router''"
| "scope_value DEVICE = ''device''"

definition parse_scope :: "string \<Rightarrow> ScopeType option" where
  "parse_scope s =
     (if s = ''global'' then Some GLOBAL else if s = ''organization'' then Some ORGANIZATION
      else if s = ''location'' then Some LOCATION else if s = ''router'' then Some ROUTER
      else if s = ''device'' then Some DEVICE else None)"

datatype Effect = Allow | Deny

record scope_context =
  sc_organization_id :: "uuid option"
  sc_location_id :: "uuid option"
  sc_router_id :: "uuid option"
  sc_msp_id :: "uuid option"

record grant_scope =
  gs_scope_type :: ScopeType
  gs_organization_id :: "uuid option"
  gs_location_id :: "uuid option"
  gs_router_id :: "uuid option"
  gs_msp_id :: "uuid option"

definition global_scope :: scope_context where
  "global_scope = \<lparr>sc_organization_id = None, sc_location_id = None, sc_router_id = None, sc_msp_id = None\<rparr>"

record role = base_model +
  role_scope_type :: ScopeType
  parent_role_id :: "uuid option"
  role_is_active :: bool

record permission = base_model +
  perm_key :: string
  perm_is_active :: bool

record role_permission = base_model +
  rp_role_id :: uuid
  rp_permission_id :: uuid

record user_role = base_model +
  ur_user_id :: uuid
  ur_role_id :: uuid
  ur_scope_type :: ScopeType
  ur_organization_id :: "uuid option"
  ur_location_id :: "uuid option"
  ur_router_id :: "uuid option"
  ur_msp_id :: "uuid option"
  ur_is_active :: bool
  ur_expires_at :: "datetime option"

record permission_override = base_model +
  po_user_id :: uuid
  po_permission_id :: uuid
  po_effect :: Effect
  po_scope_type :: ScopeType
  po_organization_id :: "uuid option"
  po_location_id :: "uuid option"
  po_router_id :: "uuid option"
  po_is_active :: bool
  po_expires_at :: "datetime option"

record rbac_db =
  roles :: "role list"
  permissions :: "permission list"
  role_permissions :: "role_permission list"
  user_roles :: "user_role list"
  overrides :: "permission_override list"

record effective_grant =
  eg_permission_key :: string
  eg_effect :: Effect
  eg_scope :: grant_scope
  eg_source :: string

record effective_grants =
  allow :: "effective_grant list"
  deny :: "effective_grant list"


subsection \<open>Queries\<close>

text \<open>A relationship attribute (\<open>row.role\<close>, \<open>row.permission\<close>) loads the row the foreign
  key names, soft-deleted ones included.\<close>

definition loaded :: "uuid \<Rightarrow> 'a base_model_scheme list \<Rightarrow> 'a base_model_scheme option" where
  "loaded i t = get_by_id True i t"

definition get_active_user_roles :: "rbac_db \<Rightarrow> uuid \<Rightarrow> datetime \<Rightarrow> user_role list" where
  "get_active_user_roles db user now =
     filter (\<lambda>ur. ur_user_id ur = user \<and> ur_is_active ur \<and> \<not> is_deleted ur \<and>
                  (case ur_expires_at ur of None \<Rightarrow> True | Some t \<Rightarrow> now < t)) (user_roles db)"

definition get_active_overrides_for_user :: "rbac_db \<Rightarrow> uuid \<Rightarrow> datetime \<Rightarrow> permission_override list" where
  "get_active_overrides_for_user db user now =
     filter (\<lambda>po. po_user_id po = user \<and> po_is_active po \<and> \<not> is_deleted po \<and>
                  (case po_expires_at po of None \<Rightarrow> True | Some t \<Rightarrow> now < t)) (overrides db)"

definition get_role_permissions :: "rbac_db \<Rightarrow> uuid \<Rightarrow> role_permission list" where
  "get_role_permissions db role =
     filter (\<lambda>rp. rp_role_id rp = role \<and> \<not> is_deleted rp) (role_permissions db)"

definition get_role_by_id :: "rbac_db \<Rightarrow> uuid \<Rightarrow> role option" where
  "get_role_by_id db i = get_by_id False i (roles db)"

text \<open>The loop of \<open>get_parent_chain\<close>: \<open>depth\<close> counts up to \<open>max_depth\<close>, here the steps that
  are left. A parent that is gone or was seen before ends the walk.\<close>

fun parent_walk :: "rbac_db \<Rightarrow> nat \<Rightarrow> uuid list \<Rightarrow> role option \<Rightarrow> role list" where
  "parent_walk db 0 seen current = []"
| "parent_walk db (Suc left) seen current =
     (case current of
        None \<Rightarrow> []
      | Some c \<Rightarrow>
          (case parent_role_id c of
             None \<Rightarrow> []
           | Some pid \<Rightarrow>
               (case get_role_by_id db pid of
                  None \<Rightarrow> []
                | Some parent \<Rightarrow>
                    if row_id parent \<in> set seen then []
                    else parent # parent_walk db left (row_id parent # seen) (Some parent))))"

definition get_parent_chain :: "rbac_db \<Rightarrow> uuid \<Rightarrow> nat \<Rightarrow> role list" where
  "get_parent_chain db role max_depth = parent_walk db max_depth [role] (get_role_by_id db role)"


subsection \<open>Resolving grants\<close>

text \<open>\<open>RoleResolver.get_active_assignments\<close>.\<close>

definition get_active_assignments :: "rbac_db \<Rightarrow> uuid \<Rightarrow> datetime \<Rightarrow> (user_role \<times> role) list" where
  "get_active_assignments db user now =
     List.map_filter
       (\<lambda>ur. case loaded (ur_role_id ur) (roles db) of
               None \<Rightarrow> None
             | Some r \<Rightarrow> if role_is_active r \<and> \<not> is_deleted r then Some (ur, r) else None)
       (get_active_user_roles db user now)"

definition assignment_grant_scope :: "user_role \<Rightarrow> grant_scope" where
  "assignment_grant_scope ur =
     \<lparr>gs_scope_type = ur_scope_type ur, gs_organization_id = ur_organization_id ur,
      gs_location_id = ur_location_id ur, gs_router_id = ur_router_id ur, gs_msp_id = ur_msp_id ur\<rparr>"

definition assignment_matches_context :: "user_role \<Rightarrow> scope_context \<Rightarrow> bool" where
  "assignment_matches_context ur ctx =
     (case ur_scope_type ur of
        GLOBAL \<Rightarrow> True
      | ORGANIZATION \<Rightarrow> sc_organization_id ctx \<noteq> None \<and> ur_organization_id ur = sc_organization_id ctx
      | LOCATION \<Rightarrow> sc_location_id ctx \<noteq> None \<and> ur_location_id ur = sc_location_id ctx
      | ROUTER \<Rightarrow> sc_router_id ctx \<noteq> None \<and> ur_router_id ur = sc_router_id ctx
      | DEVICE \<Rightarrow> False)"

text \<open>\<open>RoleResolver.get_active_roles\<close>: distinct roles in assignment order.\<close>

fun distinct_roles :: "uuid list \<Rightarrow> role list \<Rightarrow> role list" where
  "distinct_roles seen [] = []"
| "distinct_roles seen (r # rs) =
     (if row_id r \<in> set seen then distinct_roles seen rs
      else r # distinct_roles (row_id r # seen) rs)"

definition get_active_roles :: "rbac_db \<Rightarrow> uuid \<Rightarrow> scope_context option \<Rightarrow> datetime \<Rightarrow> role list" where
  "get_active_roles db user ctx now =
     (let assignments = get_active_assignments db user now;
          narrowed = (case ctx of
                        None \<Rightarrow> assignments
                      | Some c \<Rightarrow> filter (\<lambda>(ur, r). assignment_matches_context ur c) assignments)
      in distinct_roles [] (map snd narrowed))"

text \<open>\<open>ScopeResolver.satisfies\<close>.\<close>

definition satisfies :: "grant_scope \<Rightarrow> ScopeType \<Rightarrow> scope_context \<Rightarrow> bool" where
  "satisfies g requested_scope_type requested =
     (if gs_scope_type g = GLOBAL then True
      else if SCOPE_HIERARCHY_ORDER (gs_scope_type g) > SCOPE_HIERARCHY_ORDER requested_scope_type then False
      else case gs_scope_type g of
             ORGANIZATION \<Rightarrow> gs_organization_id g \<noteq> None \<and> sc_organization_id requested \<noteq> None \<and>
                             gs_organization_id g = sc_organization_id requested
           | LOCATION \<Rightarrow> gs_location_id g \<noteq> None \<and> sc_location_id requested \<noteq> None \<and>
                         gs_location_id g = sc_location_id requested
           | ROUTER \<Rightarrow> gs_router_id g \<noteq> None \<and> sc_router_id requested \<noteq> None \<and>
                       gs_router_id g = sc_router_id requested
           | _ \<Rightarrow> False)"

definition role_own_keys :: "rbac_db \<Rightarrow> uuid \<Rightarrow> string list" where
  "role_own_keys db role =
     List.map_filter
       (\<lambda>rp. case loaded (rp_permission_id rp) (permissions db) of
               None \<Rightarrow> None
             | Some p \<Rightarrow> if perm_is_active p \<and> \<not> is_deleted p then Some (perm_key p) else None)
       (get_role_permissions db role)"

text \<open>\<open>PermissionResolver.resolve_role_permission_keys\<close>; \<open>max_depth\<close> is
  \<open>Settings.rbac_max_parent_role_depth\<close>. The Python set is a list without repetition.\<close>

definition resolve_role_permission_keys :: "rbac_db \<Rightarrow> nat \<Rightarrow> uuid \<Rightarrow> string list" where
  "resolve_role_permission_keys db max_depth role =
     remdups (role_own_keys db role @
              concat (map (\<lambda>parent. role_own_keys db (row_id parent)) (get_parent_chain db role max_depth)))"

definition assignment_grants :: "rbac_db \<Rightarrow> nat \<Rightarrow> user_role \<times> role \<Rightarrow> effective_grant list" where
  "assignment_grants db max_depth a =
     map (\<lambda>key. \<lparr>eg_permission_key = key, eg_effect = Allow, eg_scope = assignment_grant_scope (fst a),
                 eg_source = ''role:'' @ row_id (snd a)\<rparr>)
       (resolve_role_permission_keys db max_depth (row_id (snd a)))"

definition override_grants :: "rbac_db \<Rightarrow> uuid \<Rightarrow> datetime \<Rightarrow> effective_grant list" where
  "override_grants db user now =
     List.map_filter
       (\<lambda>po. case loaded (po_permission_id po) (permissions db) of
               None \<Rightarrow> None
             | Some p \<Rightarrow>
                 if is_deleted p then None
                 else Some \<lparr>eg_permission_key = perm_key p, eg_effect = po_effect po,
                            eg_scope = \<lparr>gs_scope_type = po_scope_type po,
                                        gs_organization_id = po_organization_id po,
                                        gs_location_id = po_location_id po,
                                        gs_router_id = po_router_id po, gs_msp_id = None\<rparr>,
                            eg_source = ''override''\<rparr>)
       (get_active_overrides_for_user db user now)"

definition resolve :: "rbac_db \<Rightarrow> nat \<Rightarrow> uuid \<Rightarrow> datetime \<Rightarrow> effective_grants" where
  "resolve db max_depth user now =
     (let assignments = get_active_assignments db user now;
          ovr = override_grants db user now
      in \<lparr>allow = concat (map (assignment_grants db max_depth) assignments) @
                  filter (\<lambda>g. eg_effect g \<noteq> Deny) ovr,
          deny = filter (\<lambda>g. eg_effect g = Deny) ovr\<rparr>)"


subsection \<open>The cached form\<close>

text \<open>\<open>EffectiveGrant.to_json\<close> and \<open>from_json\<close>: the payload \<open>PermissionCache\<close> stores. A
  missing id is \<open>None\<close>; \<open>_maybe_uuid\<close> also reads an empty string as none. An unknown
  scope name makes \<open>ScopeType(...)\<close> raise.\<close>

record json_grant =
  j_permission_key :: string
  j_effect :: string
  j_scope_type :: string
  j_organization_id :: "string option"
  j_location_id :: "string option"
  j_router_id :: "string option"
  j_msp_id :: "string option"
  j_source :: string

fun effect_value :: "Effect \<Rightarrow> string" where
  "effect_value Allow = ''allow''"
| "effect_value Deny = ''deny''"

definition grant_to_json :: "effective_grant \<Rightarrow> json_grant" where
  "grant_to_json g =
     \<lparr>j_permission_key = eg_permission_key g, j_effect = effect_value (eg_effect g),
      j_scope_type = scope_value (gs_scope_type (eg_scope g)),
      j_organization_id = gs_organization_id (eg_scope g), j_location_id = gs_location_id (eg_scope g),
      j_router_id = gs_router_id (eg_scope g), j_msp_id = gs_msp_id (eg_scope g), j_source = eg_source g\<rparr>"

definition maybe_uuid :: "string option \<Rightarrow> uuid option" where
  "maybe_uuid v = (case v of None \<Rightarrow> None | Some s \<Rightarrow> if s = [] then None else Some s)"

definition grant_from_json :: "json_grant \<Rightarrow> effective_grant option" where
  "grant_from_json j =
     (case parse_scope (j_scope_type j) of
        None \<Rightarrow> None
      | Some st \<Rightarrow>
          Some \<lparr>eg_permission_key = j_permission_key j,
                eg_effect = (if j_effect j = ''deny'' then Deny else Allow),
                eg_scope = \<lparr>gs_scope_type = st, gs_organization_id = maybe_uuid (j_organization_id j),
                            gs_location_id = maybe_uuid (j_location_id j),
                            gs_router_id = maybe_uuid (j_router_id j), gs_msp_id = maybe_uuid (j_msp_id j)\<rparr>,
                eg_source = j_source j\<rparr>)"

definition grants_to_json :: "effective_grants \<Rightarrow> json_grant list \<times> json_grant list" where
  "grants_to_json gs = (map grant_to_json (allow gs), map grant_to_json (deny gs))"

definition grants_from_json :: "json_grant list \<times> json_grant list \<Rightarrow> effective_grants option" where
  "grants_from_json js =
     (case (those (map grant_from_json (fst js)), those (map grant_from_json (snd js))) of
        (Some a, Some d) \<Rightarrow> Some \<lparr>allow = a, deny = d\<rparr>
      | _ \<Rightarrow> None)"


subsection \<open>The check\<close>

definition granted :: "string \<Rightarrow> ScopeType \<Rightarrow> scope_context \<Rightarrow> effective_grant list \<Rightarrow> bool" where
  "granted key st ctx gs = list_ex (\<lambda>g. eg_permission_key g = key \<and> satisfies (eg_scope g) st ctx) gs"

text \<open>\<open>AccessValidator.has_permission\<close> on the grants \<open>get_effective_grants\<close> returned.\<close>

definition has_permission :: "effective_grants \<Rightarrow> string \<Rightarrow> ScopeType \<Rightarrow> scope_context option \<Rightarrow> bool" where
  "has_permission gs key st ctx =
     (let context = (case ctx of Some c \<Rightarrow> c | None \<Rightarrow> global_scope)
      in if granted key st context (deny gs) then False else granted key st context (allow gs))"

record denial_entry =
  de_user :: uuid
  de_permission_key :: string
  de_scope :: string
  de_organization_id :: "uuid option"
  de_location_id :: "uuid option"

datatype rbac_error =
    PermissionDeniedError string string
  | CircularRoleHierarchyError uuid uuid
  | InvalidScopeAssignmentError
  | RoleEscalationError string

definition describe_scope :: "ScopeType \<Rightarrow> scope_context \<Rightarrow> string" where
  "describe_scope st ctx =
     (let identifier =
        (case sc_organization_id ctx of Some i \<Rightarrow> Some i
         | None \<Rightarrow> (case sc_location_id ctx of Some i \<Rightarrow> Some i | None \<Rightarrow> sc_router_id ctx))
      in case identifier of
           None \<Rightarrow> ''global scope''
         | Some i \<Rightarrow> if st = GLOBAL then ''global scope'' else scope_value st @ '' scope ('' @ i @ '')'')"

text \<open>
  \<open>AccessValidator.check\<close>. The denial row is written on a connection of its own, so it
  belongs to the part of the state a request's rollback does not touch; \<open>audit_up\<close>
  says whether that connection works, a failure there is swallowed.
\<close>

definition check_permission ::
  "bool \<Rightarrow> effective_grants \<Rightarrow> uuid \<Rightarrow> string \<Rightarrow> ScopeType \<Rightarrow> scope_context option \<Rightarrow>
   ('db \<times> denial_entry list, rbac_error, unit) prog" where
  "check_permission audit_up gs user key st ctx =
     (let context = (case ctx of Some c \<Rightarrow> c | None \<Rightarrow> global_scope);
          scope = describe_scope st context
      in if has_permission gs key st (Some context) then ret ()
         else andthen
           (modifies (\<lambda>(db, audit).
              (db, if audit_up
                   then audit @ [\<lparr>de_user = user, de_permission_key = key, de_scope = scope,
                                  de_organization_id = sc_organization_id context,
                                  de_location_id = sc_location_id context\<rparr>]
                   else audit)))
           (\<lambda>_. raise (PermissionDeniedError key scope)))"


subsection \<open>Guards of the role service\<close>

definition assert_no_cycle :: "rbac_db \<Rightarrow> uuid \<Rightarrow> uuid \<Rightarrow> rbac_error + unit" where
  "assert_no_cycle db role proposed_parent =
     (if proposed_parent = role then Inl (CircularRoleHierarchyError role proposed_parent)
      else if list_ex (\<lambda>a. row_id a = role) (get_parent_chain db proposed_parent 50)
      then Inl (CircularRoleHierarchyError role proposed_parent)
      else Inr ())"

definition validate_scope_assignment ::
  "ScopeType list \<Rightarrow> ScopeType \<Rightarrow> ScopeType \<Rightarrow> uuid option \<Rightarrow> uuid option \<Rightarrow> uuid option \<Rightarrow>
   rbac_error + unit" where
  "validate_scope_assignment allowed_scopes role_scope st org loc rtr =
     (if st \<notin> set (role_scope # allowed_scopes) then Inl InvalidScopeAssignmentError
      else if (st = ORGANIZATION \<and> org = None) \<or> (st = LOCATION \<and> loc = None) \<or> (st = ROUTER \<and> rtr = None)
      then Inl InvalidScopeAssignmentError
      else Inr ())"

definition assert_no_role_escalation ::
  "rbac_db \<Rightarrow> nat \<Rightarrow> effective_grants \<Rightarrow> uuid \<Rightarrow> ScopeType \<Rightarrow> scope_context \<Rightarrow> rbac_error + unit" where
  "assert_no_role_escalation db max_depth actor_grants role st target =
     (case find (\<lambda>key. \<not> has_permission actor_grants key st (Some target))
             (resolve_role_permission_keys db max_depth role) of
        None \<Rightarrow> Inr ()
      | Some key \<Rightarrow> Inl (RoleEscalationError key))"


subsection \<open>Confinement to locations\<close>

type_synonym location_scope = "uuid list option"

definition CallerLocationScope :: "(user_role \<times> role) list \<Rightarrow> location_scope" where
  "CallerLocationScope assignments =
     (if list_ex (\<lambda>(ur, r). ur_scope_type ur \<in> {GLOBAL, ORGANIZATION}) assignments then None
      else Some (remdups (List.map_filter (\<lambda>(ur, r). ur_location_id ur) assignments)))"

definition enforce_entity_location :: "uuid option \<Rightarrow> location_scope \<Rightarrow> 'e \<Rightarrow> 'e + unit" where
  "enforce_entity_location entity_location_id caller_location_scope err =
     (case caller_location_scope of
        None \<Rightarrow> Inr ()
      | Some sites \<Rightarrow>
          (case entity_location_id of
             None \<Rightarrow> Inr ()
           | Some l \<Rightarrow> if l \<in> set sites then Inr () else Inl err))"

text \<open>\<open>confine_location_filter\<close> returns the filter value a listing applies.\<close>

definition confine_location_filter ::
  "uuid option \<Rightarrow> location_scope \<Rightarrow> 'e \<Rightarrow> bool \<Rightarrow> 'e + uuid filter_value option" where
  "confine_location_filter requested scope err include_organization_wide =
     (case scope of
        None \<Rightarrow> Inr (map_option EqualTo requested)
      | Some sites \<Rightarrow>
          (case requested of
             Some l \<Rightarrow> if l \<in> set sites then Inr (Some (EqualTo l)) else Inl err
           | None \<Rightarrow>
               if include_organization_wide then Inr (Some (filter_value.AnyOfOrNull (sort sites)))
               else Inr (Some (AnyOf (sort sites)))))"


section \<open>Lemmas\<close>

lemma set_map_filter: "set (List.map_filter f xs) = {y. \<exists>x \<in> set xs. f x = Some y}"
  by (force simp: map_filter_def)

lemma satisfies_order:
  "satisfies g st c \<Longrightarrow> SCOPE_HIERARCHY_ORDER (gs_scope_type g) \<le> SCOPE_HIERARCHY_ORDER st"
  by (auto simp: satisfies_def split: if_splits)

lemma parse_scope_value [simp]: "parse_scope (scope_value st) = Some st"
  by (cases st) (simp_all add: parse_scope_def)

text \<open>A walk is empty or takes one step to a live role it has not seen.\<close>

lemma parent_walk_Suc:
  "parent_walk db (Suc n) seen cur = [] \<or>
   (\<exists>p \<in> set (roles db). \<not> is_deleted p \<and> row_id p \<notin> set seen \<and>
      parent_walk db (Suc n) seen cur = p # parent_walk db n (row_id p # seen) (Some p))"
  using get_by_id_Some [of False _ "roles db"]
  by (fastforce simp: get_role_by_id_def split: option.split)

declare parent_walk.simps(2) [simp del]

lemma parent_walk_length: "length (parent_walk db n seen cur) \<le> n"
proof (induction n arbitrary: seen cur)
  case (Suc n)
  from parent_walk_Suc [of db n seen cur] show ?case by (auto simp: Suc)
qed simp

lemma parent_walk_fresh:
  "distinct (map row_id (parent_walk db n seen cur)) \<and>
   (\<forall>r \<in> set (parent_walk db n seen cur). row_id r \<notin> set seen)"
proof (induction n arbitrary: seen cur)
  case (Suc n)
  from parent_walk_Suc [of db n seen cur] show ?case
  proof
    assume "\<exists>p \<in> set (roles db). \<not> is_deleted p \<and> row_id p \<notin> set seen \<and>
      parent_walk db (Suc n) seen cur = p # parent_walk db n (row_id p # seen) (Some p)"
    then obtain p where "row_id p \<notin> set seen"
      and eq: "parent_walk db (Suc n) seen cur = p # parent_walk db n (row_id p # seen) (Some p)"
      by blast
    with Suc [of "row_id p # seen" "Some p"] show ?thesis unfolding eq by auto
  qed simp
qed simp

lemma parent_walk_stored: "set (parent_walk db n seen cur) \<subseteq> {r \<in> set (roles db). \<not> is_deleted r}"
proof (induction n arbitrary: seen cur)
  case (Suc n)
  from parent_walk_Suc [of db n seen cur] show ?case
    using Suc by (elim disjE bexE) auto
qed simp

lemma those_map_Some: "(\<And>x. x \<in> set xs \<Longrightarrow> f x = Some (g x)) \<Longrightarrow> those (map f xs) = Some (map g xs)"
  by (induction xs) auto

lemma granted_iff:
  "granted key st ctx gs \<longleftrightarrow> (\<exists>g \<in> set gs. eg_permission_key g = key \<and> satisfies (eg_scope g) st ctx)"
  by (auto simp: granted_def list_ex_iff)

lemma enforce_entity_location_Inr:
  "enforce_entity_location l sc e = Inr u \<longleftrightarrow>
     (case sc of None \<Rightarrow> True | Some sites \<Rightarrow> (case l of None \<Rightarrow> True | Some x \<Rightarrow> x \<in> set sites))"
  by (auto simp: enforce_entity_location_def split: option.splits)


section \<open>Properties\<close>

text \<open>The scope a role assignment at \<open>st\<close> for \<open>target\<close> carries, and contexts whose broader
  ids describe the narrower target (what \<open>dependencies._current_scope_context\<close> derives
  from the target row).\<close>

definition assigned_scope :: "ScopeType \<Rightarrow> scope_context \<Rightarrow> grant_scope" where
  "assigned_scope st target =
     \<lparr>gs_scope_type = st, gs_organization_id = sc_organization_id target,
      gs_location_id = sc_location_id target, gs_router_id = sc_router_id target,
      gs_msp_id = sc_msp_id target\<rparr>"

definition honest :: "(uuid \<Rightarrow> uuid) \<Rightarrow> (uuid \<Rightarrow> uuid) \<Rightarrow> scope_context \<Rightarrow> bool" where
  "honest org_of loc_of c \<longleftrightarrow>
     (\<forall>l. sc_location_id c = Some l \<longrightarrow> sc_organization_id c = Some (org_of l)) \<and>
     (\<forall>r. sc_router_id c = Some r \<longrightarrow> sc_location_id c = Some (loc_of r))"

lemma satisfies_trans:
  assumes "satisfies g st target" and "satisfies (assigned_scope st target) st' c"
    and "honest org_of loc_of target" and "honest org_of loc_of c"
  shows "satisfies g st' c"
proof (cases "gs_scope_type g")
  case ORGANIZATION
  with assms show ?thesis
    by (cases st; cases st') (auto simp: satisfies_def assigned_scope_def honest_def)
next
  case LOCATION
  with assms show ?thesis
    by (cases st; cases st') (auto simp: satisfies_def assigned_scope_def honest_def)
next
  case ROUTER
  with assms show ?thesis
    by (cases st; cases st') (auto simp: satisfies_def assigned_scope_def honest_def)
next
  case DEVICE
  with assms(1) show ?thesis by (simp add: satisfies_def split: if_splits)
qed (simp add: satisfies_def)

text \<open>A small installation for the witnesses: one organization-level role with one
  permission, held by user \<open>u\<close> at organization \<open>o\<close>.\<close>

definition ex_db :: rbac_db where
  "ex_db =
     \<lparr>roles = [base_model.extend (new_base ''r'' 0 None) (role.fields ORGANIZATION None True)],
      permissions = [base_model.extend (new_base ''p'' 0 None) (permission.fields ''voucher.read'' True)],
      role_permissions = [base_model.extend (new_base ''rp'' 0 None) (role_permission.fields ''r'' ''p'')],
      user_roles = [base_model.extend (new_base ''ur'' 0 None)
        (user_role.fields ''u'' ''r'' ORGANIZATION (Some ''o'') None None None True None)],
      overrides = []\<rparr>"

definition ex_org :: scope_context where
  "ex_org = global_scope\<lparr>sc_organization_id := Some ''o''\<rparr>"

definition ex_site :: scope_context where
  "ex_site = ex_org\<lparr>sc_location_id := Some ''l''\<rparr>"





text \<open>
  A denial survives the request it denies. Under the request session, a check that
  refuses leaves the database as it was, and the denial entry, written on its own
  connection, is still there after the rollback.
\<close>

theorem denial_recorded_despite_rollback:
  assumes "\<not> has_permission gs key st (Some c)"
  shows "with_db_session (check_permission True gs user key st (Some c)) (db, audit) =
    (Inl (PermissionDeniedError key (describe_scope st c)),
     (db, audit @ [\<lparr>de_user = user, de_permission_key = key, de_scope = describe_scope st c,
                    de_organization_id = sc_organization_id c, de_location_id = sc_location_id c\<rparr>]))"
  using assms by (simp add: with_db_session_def check_permission_def prog_defs Let_def)

theorem denial_recorded_despite_rollback_witness:
  "snd (snd (with_db_session (check_permission True (resolve ex_db 10 ''u'' 5) ''u'' ''voucher.manage'' ORGANIZATION
      (Some ex_org)) (7 :: nat, []))) \<noteq> []"
proof -
  have "\<not> has_permission (resolve ex_db 10 ''u'' 5) ''voucher.manage'' ORGANIZATION (Some ex_org)"
    by code_simp
  from denial_recorded_despite_rollback [OF this, of "''u''" "7 :: nat" "[]"] show ?thesis by simp
qed

text \<open>
  The permission cache is transparent: the grants read back from the cached payload
  are the grants that were stored, allow and deny lists, scopes and sources included.
\<close>

theorem cached_grants_roundtrip:
  assumes "\<forall>g \<in> set (allow gs) \<union> set (deny gs).
    gs_organization_id (eg_scope g) \<noteq> Some [] \<and> gs_location_id (eg_scope g) \<noteq> Some [] \<and>
    gs_router_id (eg_scope g) \<noteq> Some [] \<and> gs_msp_id (eg_scope g) \<noteq> Some []"
  shows "grants_from_json (grants_to_json gs) = Some gs"
proof -
  have u: "maybe_uuid v = v" if "v \<noteq> Some []" for v
    using that by (auto simp: maybe_uuid_def split: option.splits)
  have one: "grant_from_json (grant_to_json g) = Some g" if "g \<in> set (allow gs) \<union> set (deny gs)" for g
    using that assms by (cases "eg_effect g") (simp_all add: grant_from_json_def grant_to_json_def u)
  have "those (map (grant_from_json \<circ> grant_to_json) xs) = Some (map (\<lambda>g. g) xs)"
    if "set xs \<subseteq> set (allow gs) \<union> set (deny gs)" for xs
    using that one by (intro those_map_Some) auto
  then show ?thesis by (simp add: grants_from_json_def grants_to_json_def)
qed

theorem cached_grants_roundtrip_witness:
  "grants_from_json (grants_to_json (resolve ex_db 10 ''u'' 5)) = Some (resolve ex_db 10 ''u'' 5)"
  by (rule cached_grants_roundtrip) code_simp

text \<open>
  C40. Walking up the role hierarchy always ends and never repeats: whatever the stored
  parent links are, cyclic ones included, the chain has at most \<open>max_depth\<close> roles, all
  different, none of them the starting role, and all of them live rows.
\<close>

theorem parent_chain_bounded:
  "length (get_parent_chain db role max_depth) \<le> max_depth \<and>
   distinct (role # map row_id (get_parent_chain db role max_depth)) \<and>
   set (get_parent_chain db role max_depth) \<subseteq> {r \<in> set (roles db). \<not> is_deleted r}"
proof -
  have "role \<notin> set (map row_id (get_parent_chain db role max_depth))"
    using parent_walk_fresh [of db max_depth "[role]" "get_role_by_id db role"]
    by (auto simp: get_parent_chain_def)
  then show ?thesis
    using parent_walk_length parent_walk_fresh parent_walk_stored
    by (simp add: get_parent_chain_def)
qed

text \<open>
  Listing and direct access agree for a confined caller: a row that the confined
  listing filter lets through is one the caller may open by its id, and with
  organization-wide rows included the two are equivalent.
\<close>

theorem listing_within_entity_access:
  assumes "confine_location_filter None (Some sites) err wide = Inr (Some f)"
  shows "(filter_matches f loc \<longrightarrow> enforce_entity_location loc (Some sites) err = Inr ()) \<and>
    (wide \<longrightarrow> (filter_matches f loc \<longleftrightarrow> enforce_entity_location loc (Some sites) err = Inr ()))"
  using assms
  by (auto simp: confine_location_filter_def enforce_entity_location_Inr split: if_splits option.splits)

theorem listing_within_entity_access_witness:
  "filter_matches (filter_value.AnyOfOrNull [''l'']) (Some ''l'') \<and>
   enforce_entity_location (Some ''l'') (Some [''l'']) (0 :: nat) = Inr ()"
proof -
  have h: "confine_location_filter None (Some [''l'']) (0 :: nat) True = Inr (Some (filter_value.AnyOfOrNull [''l'']))"
    by (simp add: confine_location_filter_def)
  from listing_within_entity_access [OF h, of "Some ''l''"] show ?thesis by simp
qed

end
