(* ===== verification/Voucher.thy ===== *)
theory Voucher
  imports Complex_Main Database RateLimit Rbac
begin

section \<open>Vouchers: data, validation and the service\<close>

text \<open>
  \<open>app/domains/voucher\<close>: the tables of \<open>models.py\<close>, the statuses and the transition graph
  of \<open>constants.py\<close>, the pure checks of \<open>validators.py\<close>, the statements of
  \<open>repository.py\<close> and the operations of \<open>service.py\<close>. A batch is created, submitted,
  approved and activated, and later expires or is revoked; its vouchers are generated
  or imported unused and redeemed up to \<open>max_uses_per_voucher\<close> times.

  The state of a service program is the voucher tables with the audit log, managed by
  the request's session, and the Redis server. Random choices (\<open>secrets.choice\<close>) come
  from a tape of numbers and new row ids from a supply \<open>nat \<Rightarrow> uuid\<close>; successive
  reads of the clock inside one operation are successive values of \<open>clock\<close>. The
  organization and location services are parameters: \<open>get_org\<close> gives the id of the
  organization it returns, \<open>None\<close> where it raises. Log lines are not modelled.
\<close>

datatype VoucherBatchStatus = DRAFT | PENDING_APPROVAL | APPROVED | BATCH_ACTIVE | BATCH_EXPIRED | BATCH_REVOKED

datatype VoucherStatus = UNUSED | ACTIVE | EXHAUSTED | EXPIRED | REVOKED

fun batch_status_value :: "VoucherBatchStatus \<Rightarrow> string" where
  "batch_status_value DRAFT = ''draft''"
| "batch_status_value PENDING_APPROVAL = ''pending_approval''"
| "batch_status_value APPROVED = ''approved''"
| "batch_status_value BATCH_ACTIVE = ''active''"
| "batch_status_value BATCH_EXPIRED = ''expired''"
| "batch_status_value BATCH_REVOKED = ''revoked''"

fun VOUCHER_BATCH_STATUS_TRANSITIONS :: "VoucherBatchStatus \<Rightarrow> VoucherBatchStatus list" where
  "VOUCHER_BATCH_STATUS_TRANSITIONS DRAFT = [PENDING_APPROVAL, APPROVED, BATCH_REVOKED]"
| "VOUCHER_BATCH_STATUS_TRANSITIONS PENDING_APPROVAL = [APPROVED, BATCH_REVOKED]"
| "VOUCHER_BATCH_STATUS_TRANSITIONS APPROVED = [BATCH_ACTIVE, BATCH_REVOKED]"
| "VOUCHER_BATCH_STATUS_TRANSITIONS BATCH_ACTIVE = [BATCH_EXPIRED, BATCH_REVOKED]"
| "VOUCHER_BATCH_STATUS_TRANSITIONS BATCH_EXPIRED = []"
| "VOUCHER_BATCH_STATUS_TRANSITIONS BATCH_REVOKED = []"

definition VOUCHER_CODE_ALPHABET :: string where
  "VOUCHER_CODE_ALPHABET = ''ABCDEFGHJKLMNPQRSTUVWXYZ23456789''"

definition MIN_CODE_LENGTH :: int where
  "MIN_CODE_LENGTH = 4"

definition MAX_CODE_LENGTH :: int where
  "MAX_CODE_LENGTH = 20"

definition CODE_GENERATION_MAX_ROUNDS :: nat where
  "CODE_GENERATION_MAX_ROUNDS = 10"

record voucher_plan = base_model +
  plan_name :: string
  plan_organization_id :: "uuid option"
  plan_description :: "string option"
  plan_queue_profile_id :: "uuid option"
  default_validity_minutes :: int
  default_data_limit_mb :: "int option"
  default_max_uses_per_voucher :: int
  plan_is_active :: bool

record voucher_series = base_model +
  series_name :: string
  series_organization_id :: uuid
  series_location_id :: "uuid option"
  series_plan_id :: uuid
  series_description :: "string option"
  series_is_active :: bool

record voucher_batch = base_model +
  b_name :: string
  b_organization_id :: uuid
  b_location_id :: "uuid option"
  b_plan_id :: "uuid option"
  b_series_id :: "uuid option"
  b_quantity :: int
  b_code_length :: int
  b_code_prefix :: "string option"
  b_validity_minutes :: int
  b_session_timeout_minutes :: "int option"
  b_expires_at :: "datetime option"
  b_max_uses_per_voucher :: int
  b_data_limit_mb :: "int option"
  b_status :: VoucherBatchStatus
  b_created_by_user_id :: "uuid option"
  b_approved_by_user_id :: "uuid option"
  b_approved_at :: "datetime option"
  b_notes :: "string option"

record voucher = base_model +
  v_batch_id :: uuid
  v_organization_id :: uuid
  v_plan_id :: "uuid option"
  v_code :: string
  v_status :: VoucherStatus
  v_use_count :: int
  v_redeemed_at :: "datetime option"
  v_last_used_at :: "datetime option"
  v_redeemed_identifier :: "string option"
  v_expires_at :: "datetime option"

definition is_batch_expired :: "voucher_batch \<Rightarrow> datetime \<Rightarrow> bool" where
  "is_batch_expired b now = (case b_expires_at b of None \<Rightarrow> False | Some t \<Rightarrow> t < now)"

definition is_post_redemption_expired :: "voucher \<Rightarrow> datetime \<Rightarrow> bool" where
  "is_post_redemption_expired v now = (case v_expires_at v of None \<Rightarrow> False | Some t \<Rightarrow> t < now)"

record voucher_db =
  plans :: "voucher_plan list"
  series :: "voucher_series list"
  batches :: "voucher_batch list"
  vouchers :: "voucher list"
  audit_log :: "audit_entry list"

record voucher_service =
  audit_writer :: bool
  caller_location_scope :: location_scope
  redemption_max_attempts_per_window :: int
  redemption_window_minutes :: int

datatype voucher_error =
    VoucherBatchNotFoundError uuid
  | CrossLocationVoucherBatchAccessError
  | CrossOrganizationVoucherBatchAccessError
  | InvalidBatchStatusTransitionError VoucherBatchStatus VoucherBatchStatus
  | VoucherBatchQuantityExceededError int
  | InvalidCodeLengthError int
  | VoucherCodeGenerationExhaustedError int int
  | VoucherNotFoundError
  | VoucherBatchNotActiveError VoucherBatchStatus
  | VoucherRevokedError
  | VoucherExhaustedError
  | VoucherExpiredError
  | VoucherRedemptionRateLimitExceededError int
  | VoucherPlanNotFoundError uuid
  | CrossOrganizationVoucherPlanAccessError
  | VoucherSeriesNotFoundError uuid
  | CrossLocationVoucherSeriesAccessError
  | CrossOrganizationVoucherSeriesAccessError
  | OrganizationLookupFailed
  | LocationLookupFailed
  | VoucherDatabaseError db_error

type_synonym ('r, 'a) vprog = "(voucher_db \<times> 'r, voucher_error, 'a) prog"


subsection \<open>Validators\<close>

definition validate_code_length :: "int \<Rightarrow> voucher_error + unit" where
  "validate_code_length n =
     (if MIN_CODE_LENGTH \<le> n \<and> n \<le> MAX_CODE_LENGTH then Inr () else Inl (InvalidCodeLengthError n))"

definition validate_quantity :: "int \<Rightarrow> voucher_error + unit" where
  "validate_quantity n =
     (if n > int MAX_BULK_CREATE_SIZE then Inl (VoucherBatchQuantityExceededError n) else Inr ())"

definition validate_batch_status_transition ::
  "VoucherBatchStatus \<Rightarrow> VoucherBatchStatus \<Rightarrow> voucher_error + unit" where
  "validate_batch_status_transition current target =
     (if target \<notin> set (VOUCHER_BATCH_STATUS_TRANSITIONS current)
      then Inl (InvalidBatchStatusTransitionError current target) else Inr ())"

definition normalize_redeemed_identifier :: "string \<Rightarrow> string" where
  "normalize_redeemed_identifier s = py_strip s"

text \<open>The separators that \<open>str.translate\<close> deletes; their Unicode dashes are outside ASCII.\<close>

definition is_code_separator :: "char \<Rightarrow> bool" where
  "is_code_separator c \<longleftrightarrow> c \<in> {CHR '' '', CHR 0x09, CHR ''-'', CHR ''_''}"

definition normalize_voucher_code :: "string \<Rightarrow> string" where
  "normalize_voucher_code code = py_upper (py_strip code)"

definition voucher_code_lookup_candidates :: "string \<Rightarrow> string list" where
  "voucher_code_lookup_candidates code =
     (let exact = normalize_voucher_code code;
          stripped = filter (\<lambda>c. \<not> is_code_separator c) exact
      in if stripped = exact then [exact] else [exact, stripped])"


subsection \<open>Repository statements\<close>

definition unique_codes :: "voucher list \<Rightarrow> bool" where
  "unique_codes t = distinct (map v_code t)"

definition get_voucher_by_code :: "string \<Rightarrow> voucher list \<Rightarrow> voucher option" where
  "get_voucher_by_code code t =
     (case get_all (\<lambda>v. v_code v = code) created_at DESC False (Some 1) t of
        [] \<Rightarrow> None | v # _ \<Rightarrow> Some v)"

definition find_existing_codes :: "string list \<Rightarrow> voucher list \<Rightarrow> string list" where
  "find_existing_codes codes t =
     (if codes = [] then []
      else map v_code (get_all (\<lambda>v. v_code v \<in> set codes) created_at DESC True None t))"

definition update_batch ::
  "datetime \<Rightarrow> (voucher_batch \<Rightarrow> voucher_batch) \<Rightarrow> voucher_batch \<Rightarrow> ('r, voucher_batch) vprog" where
  "update_batch now data b =
     andthen (modifies_db (\<lambda>db. db\<lparr>batches := update_row now data b (batches db)\<rparr>))
       (\<lambda>_. ret (assign now data (version b) b))"

definition refresh_row :: "'a base_model_scheme \<Rightarrow> 'a base_model_scheme list \<Rightarrow> 'a base_model_scheme" where
  "refresh_row r t = (case get_by_id True (row_id r) t of None \<Rightarrow> r | Some r' \<Rightarrow> r')"

text \<open>
  \<open>redeem_voucher_conditionally\<close>: one conditional UPDATE. Its WHERE clause
  (\<open>redeem_matches\<close>) re-checks the validated snapshot and that the voucher's batch is
  still an active, undeleted one; its SET clause (\<open>redeem_values\<close>) works on the stored
  row. The outcome is the refreshed voucher, or that no row matched, with both rows
  refreshed.
\<close>

datatype redeem_outcome = Won voucher | Lost voucher voucher_batch

definition redeem_matches ::
  "voucher_db \<Rightarrow> voucher \<Rightarrow> VoucherStatus \<Rightarrow> int \<Rightarrow> voucher \<Rightarrow> bool" where
  "redeem_matches db voucher expected_status expected_use_count r \<longleftrightarrow>
     row_id r = row_id voucher \<and> v_status r = expected_status \<and> v_use_count r = expected_use_count \<and>
     \<not> is_deleted r \<and>
     v_batch_id r \<in> set (map row_id (filter (\<lambda>b. b_status b = BATCH_ACTIVE \<and> \<not> is_deleted b) (batches db)))"

definition redeem_values ::
  "int \<Rightarrow> datetime \<Rightarrow> (datetime \<times> string \<times> datetime) option \<Rightarrow> voucher \<Rightarrow> voucher" where
  "redeem_values max_uses last_used_at first_use r =
     (let r1 = r\<lparr>v_use_count := v_use_count r + 1, v_last_used_at := Some last_used_at,
                 updated_at := last_used_at, version := version r + 1,
                 v_status := (if v_use_count r + 1 \<ge> max_uses then EXHAUSTED else ACTIVE)\<rparr>
      in case first_use of
           None \<Rightarrow> r1
         | Some (redeemed_at, identifier, expires_at) \<Rightarrow>
             r1\<lparr>v_redeemed_at := Some redeemed_at, v_redeemed_identifier := Some identifier,
                v_expires_at := Some expires_at\<rparr>)"

definition redeem_voucher_conditionally ::
  "voucher \<Rightarrow> voucher_batch \<Rightarrow> VoucherStatus \<Rightarrow> int \<Rightarrow> int \<Rightarrow> datetime \<Rightarrow>
   (datetime \<times> string \<times> datetime) option \<Rightarrow> ('r, redeem_outcome) vprog" where
  "redeem_voucher_conditionally voucher batch expected_status expected_use_count max_uses last_used_at first_use =
     (\<lambda>(db, x).
        let hit = redeem_matches db voucher expected_status expected_use_count;
            db' = db\<lparr>vouchers := map (\<lambda>r. if hit r then redeem_values max_uses last_used_at first_use r else r)
                                  (vouchers db)\<rparr>
        in if list_ex hit (vouchers db)
           then (Inr (Won (refresh_row voucher (vouchers db'))), (db', x))
           else (Inr (Lost (refresh_row voucher (vouchers db)) (refresh_row batch (batches db))), (db, x)))"

definition get_batch_status_counts :: "uuid \<Rightarrow> voucher list \<Rightarrow> VoucherStatus \<Rightarrow> int" where
  "get_batch_status_counts batch t st =
     int (length (filter (\<lambda>v. v_batch_id v = batch \<and> \<not> is_deleted v \<and> v_status v = st) t))"

definition revocable :: "uuid \<Rightarrow> voucher \<Rightarrow> bool" where
  "revocable batch v \<longleftrightarrow> v_batch_id v = batch \<and> v_status v \<notin> {EXHAUSTED, EXPIRED, REVOKED}"

definition bulk_revoke_vouchers_for_batch :: "datetime \<Rightarrow> uuid \<Rightarrow> ('r, int) vprog" where
  "bulk_revoke_vouchers_for_batch now batch =
     (\<lambda>(db, x). (Inr (int (length (filter (revocable batch) (vouchers db)))),
        (db\<lparr>vouchers := map (\<lambda>v. if revocable batch v then v\<lparr>v_status := REVOKED, updated_at := now\<rparr> else v)
                         (vouchers db)\<rparr>, x)))"


subsection \<open>Audit and batch access\<close>

definition quoted :: "string \<Rightarrow> string" where
  "quoted s = [CHR 0x27] @ s @ [CHR 0x27]"

definition write_audit :: "voucher_service \<Rightarrow> audit_entry \<Rightarrow> ('r, unit) vprog" where
  "write_audit svc e =
     (if audit_writer svc then modifies_db (\<lambda>db. db\<lparr>audit_log := audit_log db @ [e]\<rparr>) else ret ())"

definition audit_batch ::
  "voucher_service \<Rightarrow> uuid option \<Rightarrow> string \<Rightarrow> voucher_batch \<Rightarrow> string \<Rightarrow> string \<Rightarrow> uuid option \<Rightarrow>
   ('r, unit) vprog" where
  "audit_batch svc actor action b description entity_type entity_id =
     write_audit svc
       \<lparr>ae_actor_user_id = actor, ae_action = action, ae_entity_type = entity_type,
        ae_entity_id = (case entity_id of Some i \<Rightarrow> Some i | None \<Rightarrow> Some (row_id b)),
        ae_description = description,
        ae_metadata = [(''batch_status'', batch_status_value (b_status b))],
        ae_organization_id = Some (b_organization_id b), ae_location_id = b_location_id b\<rparr>"

definition refresh_batch_expiry :: "datetime \<Rightarrow> voucher_batch \<Rightarrow> ('r, voucher_batch) vprog" where
  "refresh_batch_expiry now b =
     (if b_status b = BATCH_ACTIVE \<and> is_batch_expired b now
      then update_batch now (\<lambda>r. r\<lparr>b_status := BATCH_EXPIRED\<rparr>) b
      else ret b)"

definition get_batch ::
  "voucher_service \<Rightarrow> datetime \<Rightarrow> uuid \<Rightarrow> uuid option \<Rightarrow> ('r, voucher_batch) vprog" where
  "get_batch svc now batch_id requesting_organization_id =
     andthen (reads_db (\<lambda>db. get_by_id False batch_id (batches db))) (\<lambda>found.
     andthen (orelse found (VoucherBatchNotFoundError batch_id)) (\<lambda>b.
     andthen (guard (case requesting_organization_id of None \<Rightarrow> True | Some o' \<Rightarrow> b_organization_id b = o')
                CrossOrganizationVoucherBatchAccessError) (\<lambda>_.
     andthen (lift_result (enforce_entity_location (b_location_id b) (caller_location_scope svc)
                CrossLocationVoucherBatchAccessError)) (\<lambda>_.
     refresh_batch_expiry now b))))"

definition submit_batch :: "datetime \<Rightarrow> voucher_batch \<Rightarrow> uuid option \<Rightarrow> ('r, voucher_batch) vprog" where
  "submit_batch now b actor =
     andthen (lift_result (validate_batch_status_transition (b_status b) PENDING_APPROVAL)) (\<lambda>_.
     update_batch now (\<lambda>r. r\<lparr>b_status := PENDING_APPROVAL, updated_by := actor\<rparr>) b)"

definition approve_and_activate ::
  "voucher_service \<Rightarrow> datetime \<Rightarrow> voucher_batch \<Rightarrow> uuid option \<Rightarrow> ('r, voucher_batch) vprog" where
  "approve_and_activate svc now b actor =
     andthen (lift_result (validate_batch_status_transition (b_status b) APPROVED)) (\<lambda>_.
     andthen (update_batch now (\<lambda>r. r\<lparr>b_status := APPROVED, b_approved_by_user_id := actor,
                b_approved_at := Some now, updated_by := actor\<rparr>) b) (\<lambda>approved.
     andthen (audit_batch svc actor ''voucher_batch_approved'' approved
                (''Voucher batch '' @ quoted (b_name approved) @ '' approved'') ''voucher_batch'' None) (\<lambda>_.
     andthen (lift_result (validate_batch_status_transition APPROVED BATCH_ACTIVE)) (\<lambda>_.
     andthen (update_batch now (\<lambda>r. r\<lparr>b_status := BATCH_ACTIVE, updated_by := actor\<rparr>) approved) (\<lambda>activated.
     andthen (audit_batch svc actor ''voucher_batch_activated'' activated
                (''Voucher batch '' @ quoted (b_name activated) @ '' activated'') ''voucher_batch'' None) (\<lambda>_.
     ret activated))))))"

definition approve_batch ::
  "voucher_service \<Rightarrow> (nat \<Rightarrow> datetime) \<Rightarrow> uuid \<Rightarrow> uuid option \<Rightarrow> uuid option \<Rightarrow> ('r, voucher_batch) vprog" where
  "approve_batch svc clock batch_id actor requesting_organization_id =
     andthen (get_batch svc (clock 0) batch_id requesting_organization_id) (\<lambda>b.
     approve_and_activate svc (clock 1) b actor)"

definition revoke_batch ::
  "voucher_service \<Rightarrow> (nat \<Rightarrow> datetime) \<Rightarrow> uuid \<Rightarrow> uuid option \<Rightarrow> uuid option \<Rightarrow> string option \<Rightarrow>
   ('r, voucher_batch) vprog" where
  "revoke_batch svc clock batch_id actor requesting_organization_id reason =
     andthen (get_batch svc (clock 0) batch_id requesting_organization_id) (\<lambda>b.
     andthen (lift_result (validate_batch_status_transition (b_status b) BATCH_REVOKED)) (\<lambda>_.
     andthen (update_batch (clock 1) (\<lambda>r. r\<lparr>b_status := BATCH_REVOKED, updated_by := actor\<rparr>) b) (\<lambda>updated.
     andthen (bulk_revoke_vouchers_for_batch (clock 2) (row_id b)) (\<lambda>revoked_count.
     andthen (audit_batch svc actor ''voucher_batch_revoked'' updated
                (''Voucher batch '' @ quoted (b_name updated) @ '' revoked'' @
                 (case reason of None \<Rightarrow> [] | Some t \<Rightarrow> if t = [] then [] else '': '' @ t))
                ''voucher_batch'' None) (\<lambda>_.
     ret updated)))))"


subsection \<open>Plans and series\<close>

type_synonym org_lookup = "uuid \<Rightarrow> uuid option"
type_synonym loc_lookup = "uuid \<Rightarrow> uuid \<Rightarrow> bool"

definition same_organization :: "uuid option \<Rightarrow> uuid \<Rightarrow> bool" where
  "same_organization requesting o' = (case requesting of None \<Rightarrow> True | Some r \<Rightarrow> o' = r)"

definition location_ok :: "loc_lookup \<Rightarrow> uuid option \<Rightarrow> uuid \<Rightarrow> bool" where
  "location_ok get_loc location_id o' = (case location_id of None \<Rightarrow> True | Some l \<Rightarrow> get_loc l o')"

record plan_fields =
  pf_organization_id :: "uuid option"
  pf_name :: string
  pf_description :: "string option"
  pf_queue_profile_id :: "uuid option"
  pf_default_validity_minutes :: int
  pf_default_data_limit_mb :: "int option"
  pf_default_max_uses_per_voucher :: int

definition create_plan ::
  "voucher_service \<Rightarrow> org_lookup \<Rightarrow> uuid \<Rightarrow> datetime \<Rightarrow> uuid option \<Rightarrow> uuid option \<Rightarrow> plan_fields \<Rightarrow>
   ('r, voucher_plan) vprog" where
  "create_plan svc get_org new_id now actor requesting a =
     andthen
       (case pf_organization_id a of
          None \<Rightarrow> guard (requesting = None) CrossOrganizationVoucherPlanAccessError
        | Some org \<Rightarrow>
            andthen (orelse (get_org org) OrganizationLookupFailed) (\<lambda>o'.
            guard (same_organization requesting o') CrossOrganizationVoucherPlanAccessError)) (\<lambda>_.
     let plan = base_model.extend (new_base new_id now actor)
                  (voucher_plan.fields (pf_name a) (pf_organization_id a) (pf_description a)
                     (pf_queue_profile_id a) (pf_default_validity_minutes a) (pf_default_data_limit_mb a)
                     (pf_default_max_uses_per_voucher a) True)
     in andthen (stores_db VoucherDatabaseError
                   (\<lambda>db. map_sum id (\<lambda>t. db\<lparr>plans := t\<rparr>) (create_row (\<lambda>_. True) plan (plans db)))) (\<lambda>_.
        andthen (write_audit svc
          \<lparr>ae_actor_user_id = actor, ae_action = ''voucher_plan_created'', ae_entity_type = ''voucher_plan'',
           ae_entity_id = Some (row_id plan),
           ae_description = ''Voucher plan '' @ quoted (plan_name plan) @ '' created'',
           ae_metadata = (case pf_queue_profile_id a of None \<Rightarrow> [] | Some q \<Rightarrow> [(''queue_profile_id'', q)]),
           ae_organization_id = plan_organization_id plan, ae_location_id = None\<rparr>) (\<lambda>_.
        ret plan)))"

definition get_plan :: "uuid \<Rightarrow> uuid option \<Rightarrow> ('r, voucher_plan) vprog" where
  "get_plan plan_id requesting =
     andthen (reads_db (\<lambda>db. get_by_id False plan_id (plans db))) (\<lambda>found.
     andthen (orelse found (VoucherPlanNotFoundError plan_id)) (\<lambda>p.
     andthen (guard (case (plan_organization_id p, requesting) of
                       (Some o', Some r) \<Rightarrow> o' = r | _ \<Rightarrow> True)
                CrossOrganizationVoucherPlanAccessError) (\<lambda>_.
     ret p)))"

definition get_plan_queue_profile_id :: "uuid \<Rightarrow> ('r, uuid option) vprog" where
  "get_plan_queue_profile_id plan_id =
     reads_db (\<lambda>db. case get_by_id False plan_id (plans db) of
                      None \<Rightarrow> None | Some p \<Rightarrow> plan_queue_profile_id p)"

definition list_plans ::
  "int \<Rightarrow> int \<Rightarrow> uuid option \<Rightarrow> int \<Rightarrow> int \<Rightarrow> ('r, voucher_plan list \<times> pagination_meta) vprog" where
  "list_plans default_size max_size requesting p psize =
     reads_db (\<lambda>db. paginate_rows (make_page_params default_size max_size p (Some psize))
       (\<lambda>r. case requesting of None \<Rightarrow> True | Some o' \<Rightarrow> plan_organization_id r = Some o')
       created_at DESC False (plans db))"

record series_fields =
  sf_organization_id :: uuid
  sf_location_id :: "uuid option"
  sf_plan_id :: uuid
  sf_name :: string
  sf_description :: "string option"

definition create_series ::
  "voucher_service \<Rightarrow> org_lookup \<Rightarrow> loc_lookup \<Rightarrow> uuid \<Rightarrow> datetime \<Rightarrow> uuid option \<Rightarrow> uuid option \<Rightarrow>
   series_fields \<Rightarrow> ('r, voucher_series) vprog" where
  "create_series svc get_org get_loc new_id now actor requesting a =
     andthen (orelse (get_org (sf_organization_id a)) OrganizationLookupFailed) (\<lambda>o'.
     andthen (guard (same_organization requesting o') CrossOrganizationVoucherSeriesAccessError) (\<lambda>_.
     andthen (guard (location_ok get_loc (sf_location_id a) o') LocationLookupFailed) (\<lambda>_.
     andthen (get_plan (sf_plan_id a) (Some o')) (\<lambda>_.
     let s = base_model.extend (new_base new_id now actor)
               (voucher_series.fields (sf_name a) o' (sf_location_id a) (sf_plan_id a) (sf_description a) True)
     in andthen (stores_db VoucherDatabaseError
                   (\<lambda>db. map_sum id (\<lambda>t. db\<lparr>series := t\<rparr>) (create_row (\<lambda>_. True) s (series db)))) (\<lambda>_.
        andthen (write_audit svc
          \<lparr>ae_actor_user_id = actor, ae_action = ''voucher_series_created'', ae_entity_type = ''voucher_series'',
           ae_entity_id = Some (row_id s),
           ae_description = ''Voucher series '' @ quoted (series_name s) @ '' created'',
           ae_metadata = [(''plan_id'', sf_plan_id a)],
           ae_organization_id = Some (series_organization_id s), ae_location_id = series_location_id s\<rparr>) (\<lambda>_.
        ret s))))))"

definition get_series :: "voucher_service \<Rightarrow> uuid \<Rightarrow> uuid option \<Rightarrow> ('r, voucher_series) vprog" where
  "get_series svc series_id requesting =
     andthen (reads_db (\<lambda>db. get_by_id False series_id (series db))) (\<lambda>found.
     andthen (orelse found (VoucherSeriesNotFoundError series_id)) (\<lambda>s.
     andthen (guard (same_organization requesting (series_organization_id s))
                CrossOrganizationVoucherSeriesAccessError) (\<lambda>_.
     andthen (lift_result (enforce_entity_location (series_location_id s) (caller_location_scope svc)
                CrossLocationVoucherSeriesAccessError)) (\<lambda>_.
     ret s))))"

definition list_series ::
  "int \<Rightarrow> int \<Rightarrow> uuid option \<Rightarrow> int \<Rightarrow> int \<Rightarrow> ('r, voucher_series list \<times> pagination_meta) vprog" where
  "list_series default_size max_size requesting p psize =
     reads_db (\<lambda>db. paginate_rows (make_page_params default_size max_size p (Some psize))
       (\<lambda>r. same_organization requesting (series_organization_id r))
       created_at DESC False (series db))"

definition get_voucher_by_id :: "uuid \<Rightarrow> ('r, voucher option) vprog" where
  "get_voucher_by_id voucher_id = reads_db (\<lambda>db. get_by_id False voucher_id (vouchers db))"

text \<open>\<open>list_batches\<close> refreshes every batch of the page, in order.\<close>

fun refresh_all :: "(nat \<Rightarrow> datetime) \<Rightarrow> nat \<Rightarrow> voucher_batch list \<Rightarrow> ('r, voucher_batch list) vprog" where
  "refresh_all clock n [] = ret []"
| "refresh_all clock n (b # bs) =
     andthen (refresh_batch_expiry (clock n) b) (\<lambda>b'.
     andthen (refresh_all clock (Suc n) bs) (\<lambda>bs'. ret (b' # bs')))"

definition list_batches ::
  "int \<Rightarrow> int \<Rightarrow> (nat \<Rightarrow> datetime) \<Rightarrow> uuid option \<Rightarrow> int \<Rightarrow> int \<Rightarrow>
   ('r, voucher_batch list \<times> pagination_meta) vprog" where
  "list_batches default_size max_size clock requesting p psize =
     andthen (reads_db (\<lambda>db. paginate_rows (make_page_params default_size max_size p (Some psize))
                (\<lambda>b. same_organization requesting (b_organization_id b)) created_at DESC False (batches db)))
       (\<lambda>(bs, meta). andthen (refresh_all clock 0 bs) (\<lambda>bs'. ret (bs', meta)))"


subsection \<open>Code generation\<close>

text \<open>\<open>secrets_choice(VOUCHER_CODE_ALPHABET)\<close> is the next number of the tape, reduced to an
  index; \<open>random_code\<close> consumes \<open>code_length\<close> of them from position \<open>pos\<close>.\<close>

definition secrets_choice :: "(nat \<Rightarrow> nat) \<Rightarrow> nat \<Rightarrow> char" where
  "secrets_choice tape pos = VOUCHER_CODE_ALPHABET ! (tape pos mod length VOUCHER_CODE_ALPHABET)"

definition random_code :: "(nat \<Rightarrow> nat) \<Rightarrow> nat \<Rightarrow> int \<Rightarrow> string option \<Rightarrow> string" where
  "random_code tape pos code_length code_prefix =
     (let body = map (\<lambda>i. secrets_choice tape (pos + i)) [0..<nat code_length]
      in case code_prefix of None \<Rightarrow> body | Some p \<Rightarrow> p @ body)"

text \<open>The \<open>for _ in range(CODE_GENERATION_MAX_ROUNDS)\<close> loop; a set of codes is a list
  without repetition.\<close>

fun generate_rounds ::
  "nat \<Rightarrow> voucher list \<Rightarrow> int \<Rightarrow> int \<Rightarrow> string option \<Rightarrow> (nat \<Rightarrow> nat) \<Rightarrow> nat \<Rightarrow> string list \<Rightarrow> string list" where
  "generate_rounds 0 t quantity code_length code_prefix tape pos generated = generated"
| "generate_rounds (Suc rounds) t quantity code_length code_prefix tape pos generated =
     (let needed = quantity - int (length generated)
      in if needed \<le> 0 then generated
         else
           let drawn = map (\<lambda>i. random_code tape (pos + i * nat code_length) code_length code_prefix)
                         [0..<nat needed];
               candidates = filter (\<lambda>c. c \<notin> set generated) (remdups drawn);
               pos' = pos + nat needed * nat code_length
           in if candidates = []
              then generate_rounds rounds t quantity code_length code_prefix tape pos' generated
              else
                let existing = find_existing_codes candidates t
                in generate_rounds rounds t quantity code_length code_prefix tape pos'
                     (generated @ filter (\<lambda>c. c \<notin> set existing) candidates))"

definition generate_codes ::
  "(nat \<Rightarrow> nat) \<Rightarrow> int \<Rightarrow> int \<Rightarrow> string option \<Rightarrow> ('r, string list) vprog" where
  "generate_codes tape quantity code_length code_prefix =
     andthen (reads_db (\<lambda>db. generate_rounds CODE_GENERATION_MAX_ROUNDS (vouchers db)
                               quantity code_length code_prefix tape 0 [])) (\<lambda>generated.
     andthen (guard (quantity \<le> int (length generated))
                (VoucherCodeGenerationExhaustedError quantity (int (length generated)))) (\<lambda>_.
     ret (take (nat quantity) generated)))"

text \<open>The dictionary each code is inserted with, and \<open>bulk_create_vouchers\<close>.\<close>

definition new_voucher :: "uuid \<Rightarrow> datetime \<Rightarrow> uuid option \<Rightarrow> voucher_batch \<Rightarrow> string \<Rightarrow> voucher" where
  "new_voucher i now actor b code =
     base_model.extend (new_base i now actor)
       (voucher.fields (row_id b) (b_organization_id b) (b_plan_id b) code UNUSED 0 None None None None)"

definition new_vouchers ::
  "(nat \<Rightarrow> uuid) \<Rightarrow> datetime \<Rightarrow> uuid option \<Rightarrow> voucher_batch \<Rightarrow> string list \<Rightarrow> voucher list" where
  "new_vouchers ids now actor b codes =
     map (\<lambda>(i, code). new_voucher (ids i) now actor b code) (enumerate 0 codes)"

definition bulk_create_vouchers :: "voucher list \<Rightarrow> ('r, voucher list) vprog" where
  "bulk_create_vouchers rows =
     andthen (stores_db VoucherDatabaseError
                (\<lambda>db. map_sum id (\<lambda>t. db\<lparr>vouchers := t\<rparr>) (bulk_create unique_codes rows (vouchers db)))) (\<lambda>_.
     ret rows)"

record batch_fields =
  bf_organization_id :: uuid
  bf_location_id :: "uuid option"
  bf_name :: string
  bf_quantity :: int
  bf_code_length :: int
  bf_code_prefix :: "string option"
  bf_validity_minutes :: int
  bf_batch_expires_at :: "datetime option"
  bf_max_uses_per_voucher :: int
  bf_data_limit_mb :: "int option"
  bf_notes :: "string option"
  bf_has_manage_permission :: bool
  bf_plan_id :: "uuid option"
  bf_series_id :: "uuid option"
  bf_session_timeout_minutes :: "int option"

definition new_batch :: "uuid \<Rightarrow> datetime \<Rightarrow> uuid option \<Rightarrow> uuid \<Rightarrow> batch_fields \<Rightarrow> voucher_batch" where
  "new_batch i now actor o' a =
     base_model.extend (new_base i now actor)
       (voucher_batch.fields (bf_name a) o' (bf_location_id a) (bf_plan_id a) (bf_series_id a)
          (bf_quantity a) (bf_code_length a) (bf_code_prefix a) (bf_validity_minutes a)
          (bf_session_timeout_minutes a) (bf_batch_expires_at a) (bf_max_uses_per_voucher a)
          (bf_data_limit_mb a) DRAFT actor None None (bf_notes a))"

definition create_batch ::
  "voucher_service \<Rightarrow> org_lookup \<Rightarrow> loc_lookup \<Rightarrow> (nat \<Rightarrow> uuid) \<Rightarrow> (nat \<Rightarrow> nat) \<Rightarrow> (nat \<Rightarrow> datetime) \<Rightarrow>
   uuid option \<Rightarrow> uuid option \<Rightarrow> batch_fields \<Rightarrow> ('r, voucher_batch) vprog" where
  "create_batch svc get_org get_loc ids tape clock actor requesting a =
     andthen (lift_result (validate_quantity (bf_quantity a))) (\<lambda>_.
     andthen (lift_result (validate_code_length (bf_code_length a))) (\<lambda>_.
     andthen (orelse (get_org (bf_organization_id a)) OrganizationLookupFailed) (\<lambda>o'.
     andthen (guard (same_organization requesting o') CrossOrganizationVoucherBatchAccessError) (\<lambda>_.
     andthen (guard (location_ok get_loc (bf_location_id a) o') LocationLookupFailed) (\<lambda>_.
     andthen (case bf_plan_id a of None \<Rightarrow> ret () | Some p \<Rightarrow> andthen (get_plan p requesting) (\<lambda>_. ret ())) (\<lambda>_.
     andthen (case bf_series_id a of None \<Rightarrow> ret ()
              | Some s \<Rightarrow> andthen (get_series svc s requesting) (\<lambda>_. ret ())) (\<lambda>_.
     let b = new_batch (ids 0) (clock 0) actor o' a
     in andthen (stores_db VoucherDatabaseError
                   (\<lambda>db. map_sum id (\<lambda>t. db\<lparr>batches := t\<rparr>) (create_row (\<lambda>_. True) b (batches db)))) (\<lambda>_.
        andthen (audit_batch svc actor ''voucher_batch_created'' b
                   (''Voucher batch '' @ quoted (b_name b) @ '' created ('' @ show_int (bf_quantity a) @
                    '' vouchers requested)'') ''voucher_batch'' None) (\<lambda>_.
        andthen (if 0 < bf_quantity a
                 then andthen (generate_codes tape (bf_quantity a) (bf_code_length a) (bf_code_prefix a)) (\<lambda>codes.
                      andthen (bulk_create_vouchers (new_vouchers (\<lambda>i. ids (Suc i)) (clock 1) actor b codes)) (\<lambda>_.
                      ret ()))
                 else ret ()) (\<lambda>_.
        andthen (submit_batch (clock 2) b actor) (\<lambda>submitted.
        if bf_has_manage_permission a then approve_and_activate svc (clock 3) submitted actor
        else ret submitted)))))))))))"


subsection \<open>Validation and redemption\<close>

fun first_match :: "string list \<Rightarrow> voucher list \<Rightarrow> voucher option" where
  "first_match [] t = None"
| "first_match (c # cs) t = (case get_voucher_by_code c t of Some v \<Rightarrow> Some v | None \<Rightarrow> first_match cs t)"

definition get_voucher_and_batch :: "datetime \<Rightarrow> string \<Rightarrow> ('r, voucher \<times> voucher_batch) vprog" where
  "get_voucher_and_batch now code =
     andthen (reads_db (\<lambda>db. first_match (voucher_code_lookup_candidates code) (vouchers db))) (\<lambda>found.
     andthen (orelse found VoucherNotFoundError) (\<lambda>v.
     andthen (reads_db (\<lambda>db. get_by_id False (v_batch_id v) (batches db))) (\<lambda>found_batch.
     andthen (orelse found_batch (VoucherBatchNotFoundError (v_batch_id v))) (\<lambda>b.
     andthen (refresh_batch_expiry now b) (\<lambda>b'.
     ret (v, b'))))))"

definition redemption_failure_reason :: "voucher \<Rightarrow> voucher_batch \<Rightarrow> datetime \<Rightarrow> string option" where
  "redemption_failure_reason v b now =
     (if v_status v = REVOKED then Some ''revoked''
      else if v_status v = EXHAUSTED then Some ''exhausted''
      else if v_status v = EXPIRED then Some ''expired''
      else if b_status b \<noteq> BATCH_ACTIVE then Some ''batch_not_active''
      else if v_status v = ACTIVE \<and> is_post_redemption_expired v now then Some ''expired''
      else None)"

definition raise_for_reason :: "string \<Rightarrow> VoucherBatchStatus \<Rightarrow> ('r, 'a) vprog" where
  "raise_for_reason reason st =
     (if reason = ''revoked'' then raise VoucherRevokedError
      else if reason = ''exhausted'' then raise VoucherExhaustedError
      else if reason = ''expired'' then raise VoucherExpiredError
      else raise (VoucherBatchNotActiveError st))"

definition AUDITED_FAILURE_REASONS :: "string list" where
  "AUDITED_FAILURE_REASONS = [''revoked'', ''exhausted'']"

definition record_redemption_failure :: "voucher_service \<Rightarrow> voucher option \<Rightarrow> string \<Rightarrow> ('r, unit) vprog" where
  "record_redemption_failure svc v reason =
     (if reason \<notin> set AUDITED_FAILURE_REASONS then ret ()
      else write_audit svc
        \<lparr>ae_actor_user_id = None, ae_action = ''voucher_redemption_failed'', ae_entity_type = ''voucher'',
         ae_entity_id = map_option row_id v,
         ae_description = ''Voucher redemption attempt rejected (reason='' @ reason @ '')'',
         ae_metadata = [(''reason'', reason)], ae_organization_id = None, ae_location_id = None\<rparr>)"

definition enforce_redemption_rate_limit ::
  "'r redis_ops \<Rightarrow> voucher_service \<Rightarrow> string \<Rightarrow> ('r, unit) vprog" where
  "enforce_redemption_rate_limit redis svc source =
     calls_outside VoucherRedemptionRateLimitExceededError
       (VoucherRedemptionRateLimiter_check_and_increment redis source
          (redemption_max_attempts_per_window svc) (redemption_window_minutes svc))"

text \<open>The read and validate phase that \<open>validate_voucher\<close> and \<open>redeem_voucher\<close> open with: it
  ends with the rows the call validated and the instant it did.\<close>

definition check_phase ::
  "'r redis_ops \<Rightarrow> voucher_service \<Rightarrow> (nat \<Rightarrow> datetime) \<Rightarrow> string \<Rightarrow> string \<Rightarrow>
   ('r, voucher \<times> voucher_batch) vprog" where
  "check_phase redis svc clock code source =
     andthen (enforce_redemption_rate_limit redis svc source) (\<lambda>_.
     andthen (get_voucher_and_batch (clock 0) code) (\<lambda>(v, b).
     case redemption_failure_reason v b (clock 1) of
       None \<Rightarrow> ret (v, b)
     | Some reason \<Rightarrow>
         andthen (record_redemption_failure svc (Some v) reason) (\<lambda>_.
         raise_for_reason reason (b_status b))))"

record validation_result =
  vr_voucher :: voucher
  vr_batch :: voucher_batch
  vr_is_first_use :: bool
  vr_uses_remaining :: int

definition validate_voucher ::
  "'r redis_ops \<Rightarrow> voucher_service \<Rightarrow> (nat \<Rightarrow> datetime) \<Rightarrow> string \<Rightarrow> string \<Rightarrow> ('r, validation_result) vprog" where
  "validate_voucher redis svc clock code source =
     andthen (check_phase redis svc clock code source) (\<lambda>(v, b).
     ret \<lparr>vr_voucher = v, vr_batch = b, vr_is_first_use = (v_use_count v = 0),
          vr_uses_remaining = b_max_uses_per_voucher b - v_use_count v\<rparr>)"

text \<open>The write phase of \<open>redeem_voucher\<close>, on the rows \<open>v\<close> and \<open>b\<close> the check phase validated
  at \<open>now\<close>; \<open>later\<close> is the clock read of a call that lost the race.\<close>

definition redeem_phase ::
  "voucher_service \<Rightarrow> datetime \<Rightarrow> datetime \<Rightarrow> string \<Rightarrow> voucher \<Rightarrow> voucher_batch \<Rightarrow>
   ('r, voucher \<times> voucher_batch) vprog" where
  "redeem_phase svc now later identifier v b =
     (let first_use = (if v_status v = UNUSED
                       then Some (now, normalize_redeemed_identifier identifier,
                                  now + minutes (b_validity_minutes b))
                       else None)
      in andthen (redeem_voucher_conditionally v b (v_status v) (v_use_count v)
                    (b_max_uses_per_voucher b) now first_use) (\<lambda>outcome.
         case outcome of
           Lost v' b' \<Rightarrow>
             let race_reason = (case redemption_failure_reason v' b' later of
                                  None \<Rightarrow> ''exhausted'' | Some r \<Rightarrow> r)
             in andthen (record_redemption_failure svc (Some v') race_reason) (\<lambda>_.
                raise_for_reason race_reason (b_status b'))
         | Won updated \<Rightarrow>
             andthen (audit_batch svc None ''voucher_redeemed'' b
                        (''Voucher '' @ quoted (v_code updated) @ '' redeemed (use '' @
                         show_int (v_use_count updated) @ ''/'' @ show_int (b_max_uses_per_voucher b) @ '')'')
                        ''voucher'' (Some (row_id updated))) (\<lambda>_.
             ret (updated, b))))"

definition redeem_voucher ::
  "'r redis_ops \<Rightarrow> voucher_service \<Rightarrow> (nat \<Rightarrow> datetime) \<Rightarrow> string \<Rightarrow> string \<Rightarrow> string \<Rightarrow>
   ('r, voucher \<times> voucher_batch) vprog" where
  "redeem_voucher redis svc clock code identifier source =
     andthen (check_phase redis svc clock code source) (\<lambda>(v, b).
     redeem_phase svc (clock 1) (clock 2) identifier v b)"


subsection \<open>Listing, statistics and import\<close>

definition list_vouchers ::
  "int \<Rightarrow> int \<Rightarrow> voucher_service \<Rightarrow> datetime \<Rightarrow> uuid \<Rightarrow> uuid option \<Rightarrow> int \<Rightarrow> int \<Rightarrow>
   ('r, voucher list \<times> pagination_meta) vprog" where
  "list_vouchers default_size max_size svc now batch_id requesting p psize =
     andthen (get_batch svc now batch_id requesting) (\<lambda>b.
     reads_db (\<lambda>db. paginate_rows (make_page_params default_size max_size p (Some psize))
       (\<lambda>v. v_batch_id v = row_id b) created_at ASC False (vouchers db)))"

record voucher_batch_stats =
  st_batch_id :: uuid
  st_total :: int
  st_unused :: int
  st_active :: int
  st_exhausted :: int
  st_expired :: int
  st_revoked :: int
  st_redemption_rate :: rat

text \<open>The rate is the exact quotient (the code rounds it to a float).\<close>

definition get_batch_stats ::
  "voucher_service \<Rightarrow> datetime \<Rightarrow> uuid \<Rightarrow> uuid option \<Rightarrow> ('r, voucher_batch_stats) vprog" where
  "get_batch_stats svc now batch_id requesting =
     andthen (get_batch svc now batch_id requesting) (\<lambda>b.
     andthen (reads_db (\<lambda>db. get_batch_status_counts (row_id b) (vouchers db))) (\<lambda>counts.
     let total = counts UNUSED + counts ACTIVE + counts EXHAUSTED + counts EXPIRED + counts REVOKED;
         redeemed = total - counts UNUSED
     in ret \<lparr>st_batch_id = row_id b, st_total = total, st_unused = counts UNUSED, st_active = counts ACTIVE,
             st_exhausted = counts EXHAUSTED, st_expired = counts EXPIRED, st_revoked = counts REVOKED,
             st_redemption_rate = (if total \<noteq> 0 then of_int redeemed / of_int total else 0)\<rparr>))"

text \<open>The scan of \<open>import_vouchers\<close>: the accepted candidates in order, and the rejects.\<close>

fun import_scan :: "string list \<Rightarrow> string list \<Rightarrow> string list \<times> (string \<times> string) list" where
  "import_scan seen [] = ([], [])"
| "import_scan seen (raw # rest) =
     (let code = normalize_voucher_code raw
      in if code = [] then
           (case import_scan seen rest of (cs, rej) \<Rightarrow> (cs, (raw, ''empty code'') # rej))
         else if code \<in> set seen then
           (case import_scan seen rest of (cs, rej) \<Rightarrow> (cs, (code, ''duplicate within import request'') # rej))
         else
           (case import_scan (code # seen) rest of (cs, rej) \<Rightarrow> (code # cs, rej)))"

definition import_vouchers ::
  "voucher_service \<Rightarrow> (nat \<Rightarrow> uuid) \<Rightarrow> (nat \<Rightarrow> datetime) \<Rightarrow> uuid \<Rightarrow> uuid option \<Rightarrow> uuid option \<Rightarrow> string list \<Rightarrow>
   ('r, voucher list \<times> (string \<times> string) list) vprog" where
  "import_vouchers svc ids clock batch_id actor requesting codes =
     andthen (get_batch svc (clock 0) batch_id requesting) (\<lambda>b.
     andthen (guard (b_status b \<notin> {BATCH_EXPIRED, BATCH_REVOKED}) (VoucherBatchNotActiveError (b_status b))) (\<lambda>_.
     andthen (guard (length codes \<le> MAX_BULK_CREATE_SIZE)
                (VoucherBatchQuantityExceededError (int (length codes)))) (\<lambda>_.
     let (candidates, scan_rejected) = import_scan [] codes
     in andthen (reads_db (\<lambda>db. find_existing_codes candidates (vouchers db))) (\<lambda>existing.
        let to_insert = filter (\<lambda>c. c \<notin> set existing) candidates;
            rejected = scan_rejected @
              map (\<lambda>c. (c, ''code already exists'')) (filter (\<lambda>c. c \<in> set existing) candidates)
        in andthen (if to_insert = [] then ret []
                    else bulk_create_vouchers (new_vouchers ids (clock 1) actor b to_insert)) (\<lambda>imported.
           andthen (if imported = [] then ret ()
                    else audit_batch svc actor ''voucher_codes_imported'' b
                           (show_nat (length imported) @ '' pre-printed voucher codes imported ('' @
                            show_nat (length rejected) @ '' rejected)'') ''voucher_batch'' None) (\<lambda>_.
           ret (imported, rejected)))))))"


subsection \<open>Redemption analytics\<close>

text \<open>The aggregate queries: vouchers joined with their batch (soft-deleted batches join
  too), restricted to one tenant and a half-open date range.\<close>

definition joined :: "voucher_db \<Rightarrow> (voucher \<times> voucher_batch) list" where
  "joined db = concat (map (\<lambda>v. map (\<lambda>b. (v, b)) (filter (\<lambda>b. row_id b = v_batch_id v) (batches db))) (vouchers db))"

definition tenant_scoped :: "uuid \<Rightarrow> uuid option \<Rightarrow> voucher \<times> voucher_batch \<Rightarrow> bool" where
  "tenant_scoped org loc r \<longleftrightarrow> v_organization_id (fst r) = org \<and>
     (case loc of None \<Rightarrow> True | Some l \<Rightarrow> b_location_id (snd r) = Some l)"

definition redeemed_within :: "datetime \<Rightarrow> datetime \<Rightarrow> voucher \<Rightarrow> bool" where
  "redeemed_within start end v =
     (case v_redeemed_at v of None \<Rightarrow> False | Some t \<Rightarrow> start \<le> t \<and> t < end)"

definition count_vouchers_issued :: "uuid \<Rightarrow> uuid option \<Rightarrow> datetime \<Rightarrow> datetime \<Rightarrow> voucher_db \<Rightarrow> nat" where
  "count_vouchers_issued org loc start end db =
     length (filter (\<lambda>r. tenant_scoped org loc r \<and> start \<le> created_at (fst r) \<and> created_at (fst r) < end \<and>
                         \<not> is_deleted (fst r)) (joined db))"

definition count_vouchers_redeemed :: "uuid \<Rightarrow> uuid option \<Rightarrow> datetime \<Rightarrow> datetime \<Rightarrow> voucher_db \<Rightarrow> nat" where
  "count_vouchers_redeemed org loc start end db =
     length (filter (\<lambda>r. tenant_scoped org loc r \<and> redeemed_within start end (fst r) \<and>
                         \<not> is_deleted (fst r)) (joined db))"

definition get_redemption_counts_by_plan ::
  "uuid \<Rightarrow> uuid option \<Rightarrow> datetime \<Rightarrow> datetime \<Rightarrow> voucher_db \<Rightarrow> (uuid option \<times> nat) list" where
  "get_redemption_counts_by_plan org loc start end db =
     (let rows = filter (\<lambda>r. tenant_scoped org loc r \<and> redeemed_within start end (fst r) \<and>
                             \<not> is_deleted (fst r)) (joined db)
      in map (\<lambda>p. (p, length (filter (\<lambda>r. v_plan_id (fst r) = p) rows)))
           (remdups (map (\<lambda>r. v_plan_id (fst r)) rows)))"

end
