(* ===== verification/StatusGraph.thy ===== *)
theory StatusGraph
  imports Prelude
begin

section \<open>Tables whose rows move along a status graph\<close>

text \<open>
  A table whose rows carry a key and a status. \<open>tracks\<close> relates two versions of the table: every
  row is still there under its key, with a status that the graph reaches. The extension
  \<open>status_graph\<close> is for graphs without cycles.
\<close>

locale status_moves =
  fixes key :: "'r \<Rightarrow> 'k" and status :: "'r \<Rightarrow> 's" and succs :: "'s \<Rightarrow> 's list"
begin

definition edges :: "('s \<times> 's) set" where
  "edges = {(s, t). t \<in> set (succs s)}"

definition tracks :: "'r list \<Rightarrow> 'r list \<Rightarrow> bool" where
  "tracks t t' \<longleftrightarrow> (\<forall>r \<in> set t. \<exists>r' \<in> set t'. key r' = key r \<and> (status r, status r') \<in> edges\<^sup>*)"

lemma tracks_refl [simp]: "tracks t t"
  by (auto simp: tracks_def)

lemma tracks_trans: "tracks t u \<Longrightarrow> tracks u w \<Longrightarrow> tracks t w"
  unfolding tracks_def by (metis rtrancl_trans)

lemma tracks_append [simp]: "tracks t (t @ rs)"
  by (auto simp: tracks_def)

lemma tracks_map:
  assumes "\<And>r. r \<in> set t \<Longrightarrow> key (f r) = key r"
    and "\<And>r. r \<in> set t \<Longrightarrow> status (f r) = status r \<or> status (f r) \<in> set (succs (status r))"
  shows "tracks t (map f t)"
  using assms by (fastforce simp: tracks_def edges_def)

text \<open>A status without successors is final.\<close>

lemma final_path: "(s, t) \<in> edges\<^sup>* \<Longrightarrow> succs s = [] \<Longrightarrow> t = s"
  by (auto simp: edges_def elim: converse_rtranclE)

lemma final_stays:
  assumes "tracks t t'" and "r \<in> set t" and "succs (status r) = []"
    and "distinct (map key t')" and "r' \<in> set t'" and "key r' = key r"
  shows "status r' = status r"
proof -
  obtain r2 where r2: "r2 \<in> set t'" "key r2 = key r" "(status r, status r2) \<in> edges\<^sup>*"
    using assms(1,2) by (auto simp: tracks_def)
  then have "r2 = r'" using assms by (metis distinct_map_inj)
  with final_path [OF r2(3)] assms(3) show ?thesis by simp
qed

end

locale status_graph = status_moves key status succs
  for key :: "'r \<Rightarrow> 'k" and status :: "'r \<Rightarrow> 's" and succs :: "'s \<Rightarrow> 's list" +
  fixes rank :: "'s \<Rightarrow> nat"
  assumes rank: "t \<in> set (succs s) \<Longrightarrow> rank s < rank t"
begin

lemma rank_path: "(s, t) \<in> edges\<^sup>* \<Longrightarrow> s = t \<or> rank s < rank t"
  by (induction rule: rtrancl_induct) (auto simp: edges_def dest: rank)

text \<open>A status that was left is never entered again.\<close>

lemma no_return: "(s, t) \<in> edges\<^sup>* \<Longrightarrow> (t, s) \<in> edges\<^sup>* \<Longrightarrow> s = t"
  by (metis less_asym rank_path)

end

end
