(* ===== verification/VoucherLifecycle.thy ===== *)
theory VoucherLifecycle
  imports Voucher StatusGraph
begin

section \<open>The life of batches and vouchers\<close>

text \<open>
  The invariant of the voucher tables and how the administrative operations change them.

  \<^item> \<open>db_wf\<close>: ids and codes are unique, every voucher belongs to a stored batch and its
    use count, dates and status agree with the terms of that batch.
  \<^item> \<open>evolves db db'\<close>: what every committed administrative operation guarantees: the
    invariant is kept, no redemption is added or lost, a batch keeps its terms, and
    batches and vouchers move along their status graphs only.
  \<^item> \<open>admin_command\<close> and \<open>run_admin\<close>: the operations as data, so that histories of them
    are lists.
\<close>

subsection \<open>Status graphs\<close>

fun batch_rank :: "VoucherBatchStatus \<Rightarrow> nat" where
  "batch_rank DRAFT = 0"
| "batch_rank PENDING_APPROVAL = 1"
| "batch_rank APPROVED = 2"
| "batch_rank BATCH_ACTIVE = 3"
| "batch_rank BATCH_EXPIRED = 4"
| "batch_rank BATCH_REVOKED = 4"

text \<open>The moves of a voucher; \<open>ACTIVE\<close> stays \<open>ACTIVE\<close> while uses are left.\<close>

fun voucher_succs :: "VoucherStatus \<Rightarrow> VoucherStatus list" where
  "voucher_succs UNUSED = [ACTIVE, EXHAUSTED, REVOKED]"
| "voucher_succs ACTIVE = [EXHAUSTED, REVOKED]"
| "voucher_succs EXHAUSTED = []"
| "voucher_succs EXPIRED = []"
| "voucher_succs REVOKED = []"

fun voucher_rank :: "VoucherStatus \<Rightarrow> nat" where
  "voucher_rank UNUSED = 0"
| "voucher_rank ACTIVE = 1"
| "voucher_rank EXHAUSTED = 2"
| "voucher_rank EXPIRED = 2"
| "voucher_rank REVOKED = 2"

interpretation bg: status_graph "row_id :: voucher_batch \<Rightarrow> uuid" b_status VOUCHER_BATCH_STATUS_TRANSITIONS batch_rank
proof
  show "t \<in> set (VOUCHER_BATCH_STATUS_TRANSITIONS s) \<Longrightarrow> batch_rank s < batch_rank t" for s t
    by (cases s) auto
qed

interpretation vg: status_graph "row_id :: voucher \<Rightarrow> uuid" v_status voucher_succs voucher_rank
proof
  show "t \<in> set (voucher_succs s) \<Longrightarrow> voucher_rank s < voucher_rank t" for s t
    by (cases s) auto
qed


subsection \<open>The invariant\<close>

text \<open>The terms a batch fixes for its vouchers: id, organization, uses and validity.\<close>

definition batch_terms :: "voucher_batch \<Rightarrow> uuid \<times> uuid \<times> int \<times> int" where
  "batch_terms b = (row_id b, b_organization_id b, b_max_uses_per_voucher b, b_validity_minutes b)"

definition origin :: "voucher \<Rightarrow> uuid \<times> uuid \<times> uuid \<times> string" where
  "origin v = (row_id v, v_batch_id v, v_organization_id v, v_code v)"

definition dated :: "int \<Rightarrow> voucher \<Rightarrow> bool" where
  "dated validity v =
     (case v_redeemed_at v of None \<Rightarrow> False | Some t \<Rightarrow> v_expires_at v = Some (t + minutes validity))"

definition undated :: "voucher \<Rightarrow> bool" where
  "undated v \<longleftrightarrow> v_redeemed_at v = None \<and> v_expires_at v = None"

fun uses_ok :: "int \<Rightarrow> int \<Rightarrow> voucher \<Rightarrow> VoucherStatus \<Rightarrow> bool" where
  "uses_ok m d v UNUSED = (v_use_count v = 0 \<and> undated v)"
| "uses_ok m d v ACTIVE = (0 < v_use_count v \<and> v_use_count v < m \<and> dated d v)"
| "uses_ok m d v EXHAUSTED = (v_use_count v = m \<and> dated d v)"
| "uses_ok m d v EXPIRED = False"
| "uses_ok m d v REVOKED =
     (v_use_count v = 0 \<and> undated v \<or> 0 < v_use_count v \<and> v_use_count v < m \<and> dated d v)"

definition voucher_wf :: "(uuid \<times> uuid \<times> int \<times> int) list \<Rightarrow> voucher \<Rightarrow> bool" where
  "voucher_wf T v =
     list_ex (\<lambda>(i, org, m, d). i = v_batch_id v \<and> org = v_organization_id v \<and> uses_ok m d v (v_status v)) T"

definition db_wf :: "voucher_db \<Rightarrow> bool" where
  "db_wf db \<longleftrightarrow>
     distinct (map row_id (batches db)) \<and> distinct (map row_id (vouchers db)) \<and>
     unique_codes (vouchers db) \<and> list_all (\<lambda>b. 1 \<le> b_max_uses_per_voucher b) (batches db) \<and>
     list_all (voucher_wf (map batch_terms (batches db))) (vouchers db)"

definition uses :: "voucher list \<Rightarrow> uuid \<Rightarrow> int" where
  "uses t i = sum_list (map v_use_count (filter (\<lambda>v. row_id v = i) t))"

definition evolves :: "voucher_db \<Rightarrow> voucher_db \<Rightarrow> bool" where
  "evolves db db' \<longleftrightarrow>
     (db_wf db \<longrightarrow>
        db_wf db' \<and> uses (vouchers db') = uses (vouchers db) \<and>
        batch_terms ` set (batches db) \<subseteq> batch_terms ` set (batches db') \<and>
        origin ` set (vouchers db) \<subseteq> origin ` set (vouchers db') \<and>
        bg.tracks (batches db) (batches db') \<and> vg.tracks (vouchers db) (vouchers db'))"

lemma evolves_refl [simp]: "evolves db db"
  by (simp add: evolves_def)

lemma evolves_trans:
  assumes ab: "evolves a b" and bc: "evolves b c"
  shows "evolves a c"
  unfolding evolves_def
proof
  assume "db_wf a"
  note b = ab [unfolded evolves_def, rule_format, OF this]
  note c = bc [unfolded evolves_def, rule_format, OF conjunct1 [OF b]]
  show "db_wf c \<and> uses (vouchers c) = uses (vouchers a) \<and>
      batch_terms ` set (batches a) \<subseteq> batch_terms ` set (batches c) \<and>
      origin ` set (vouchers a) \<subseteq> origin ` set (vouchers c) \<and>
      bg.tracks (batches a) (batches c) \<and> vg.tracks (vouchers a) (vouchers c)"
  proof (intro conjI)
    show "db_wf c" using c by blast
    show "uses (vouchers c) = uses (vouchers a)" using b c by (elim conjE) (simp only:)
    show "batch_terms ` set (batches a) \<subseteq> batch_terms ` set (batches c)"
      using b c by (elim conjE) (rule subset_trans)
    show "origin ` set (vouchers a) \<subseteq> origin ` set (vouchers c)"
      using b c by (elim conjE) (rule subset_trans)
    show "bg.tracks (batches a) (batches c)" using b c by (elim conjE) (rule bg.tracks_trans)
    show "vg.tracks (vouchers a) (vouchers c)" using b c by (elim conjE) (rule vg.tracks_trans)
  qed
qed

lemma evolves_other_tables:
  "batches db' = batches db \<Longrightarrow> vouchers db' = vouchers db \<Longrightarrow> evolves db db'"
  by (simp add: evolves_def db_wf_def)

lemma voucher_wf_iff:
  "voucher_wf T v \<longleftrightarrow>
     (\<exists>m d. (v_batch_id v, v_organization_id v, m, d) \<in> set T \<and> uses_ok m d v (v_status v))"
  by (force simp: voucher_wf_def list_ex_iff)

lemma voucher_wf_mono: "voucher_wf T v \<Longrightarrow> set T \<subseteq> set T' \<Longrightarrow> voucher_wf T' v"
  by (auto simp: voucher_wf_iff)

lemma uses_append [simp]: "uses (t @ rs) i = uses t i + uses rs i"
  by (simp add: uses_def)

lemma uses_map_same:
  "(\<And>v. v \<in> set t \<Longrightarrow> row_id (f v) = row_id v \<and> v_use_count (f v) = v_use_count v) \<Longrightarrow> uses (map f t) = uses t"
  unfolding uses_def fun_eq_iff by (induction t) auto

lemma uses_zero: "(\<And>v. v \<in> set t \<Longrightarrow> v_use_count v = 0) \<Longrightarrow> uses t i = 0"
  unfolding uses_def by (induction t) auto

lemma uses_at: "distinct (map row_id t) \<Longrightarrow> v \<in> set t \<Longrightarrow> uses t (row_id v) = v_use_count v"
proof (induction t)
  case (Cons a t)
  then show ?case
  proof (cases "v = a")
    case True
    have "row_id a \<notin> row_id ` set t" using Cons.prems by simp
    then have "filter (\<lambda>x. row_id x = row_id a) t = []"
      unfolding filter_empty_conv by (metis image_eqI)
    with True show ?thesis by (simp add: uses_def)
  next
    case False
    moreover have "v \<in> set t" using False Cons.prems by simp
    ultimately have "row_id v \<noteq> row_id a" using Cons.prems(1) by (metis distinct.simps(2) image_eqI list.simps(9) set_map)
    with False Cons show ?thesis by (simp add: uses_def)
  qed
qed simp


subsection \<open>What each statement does\<close>

text \<open>A batch write: the terms stay, the status moves along an edge.\<close>

lemma assign_terms:
  assumes "\<And>r. batch_terms (data r) = batch_terms r"
  shows "batch_terms (assign now data n b) = batch_terms b"
  using assms [of b] by (simp add: assign_def batch_terms_def)

lemma update_batch_evolves:
  assumes run: "update_batch now data b (db, x) = (Inr b', (db', x'))"
    and b: "b \<in> set (batches db)"
    and terms: "\<And>r. batch_terms (data r) = batch_terms r"
    and status: "\<And>r. b_status (data r) = s" "s \<in> set (VOUCHER_BATCH_STATUS_TRANSITIONS (b_status b))"
  shows "evolves db db' \<and> b' \<in> set (batches db') \<and> row_id b' = row_id b \<and>
    batch_terms b' = batch_terms b \<and> b_status b' = s \<and> x' = x"
proof -
  let ?f = "\<lambda>r. if row_id r = row_id b then assign now data (version b) r else r"
  have db': "db' = db\<lparr>batches := update_row now data b (batches db)\<rparr>" and b': "b' = assign now data (version b) b"
    and x: "x' = x"
    using run by (auto simp: update_batch_def andthen_Inr)
  have rows: "batches db' = map ?f (batches db)" by (simp add: db' update_row_def)
  have tm: "map batch_terms (batches db') = map batch_terms (batches db)"
    unfolding rows using terms by (simp add: assign_terms)
  have st: "b_status (assign now data n r) = s" for n r
    using status(1) [of r] by (simp add: assign_def)
  have mx: "b_max_uses_per_voucher (?f r) = b_max_uses_per_voucher r" for r
    using assign_terms [of data now "version b" r, OF terms] by (simp add: batch_terms_def)
  have "evolves db db'"
  proof -
    have wf: "db_wf db'" if "db_wf db"
    proof -
      have "map row_id (batches db') = map row_id (batches db)" by (simp add: db')
      moreover have "list_all (\<lambda>b. 1 \<le> b_max_uses_per_voucher b) (batches db')"
        using that mx unfolding rows db_wf_def list.pred_map comp_def by simp
      moreover have "vouchers db' = vouchers db" by (simp add: db')
      ultimately show ?thesis using that unfolding db_wf_def tm by simp
    qed
    have tr: "bg.tracks (batches db) (batches db')" if "db_wf db"
      unfolding rows
    proof (rule bg.tracks_map)
      show "row_id (?f r) = row_id r" for r by simp
      show "b_status (?f r) = b_status r \<or> b_status (?f r) \<in> set (VOUCHER_BATCH_STATUS_TRANSITIONS (b_status r))"
        if "r \<in> set (batches db)" for r
        using that \<open>db_wf db\<close> b st status(2) by (auto simp: db_wf_def dest: distinct_map_inj)
    qed
    have "set (map batch_terms (batches db')) = set (map batch_terms (batches db))" by (simp only: tm)
    then show ?thesis using wf tr by (auto simp: evolves_def db')
  qed
  moreover have "b' \<in> set (batches db')" using b by (auto simp: rows b')
  moreover have "batch_terms b' = batch_terms b" unfolding b' using terms by (rule assign_terms)
  ultimately show ?thesis using b' x st by simp
qed

lemma refresh_batch_expiry_evolves:
  assumes "refresh_batch_expiry now b (db, x) = (Inr b', (db', x'))" and "b \<in> set (batches db)"
  shows "evolves db db' \<and> b' \<in> set (batches db') \<and> row_id b' = row_id b \<and>
    batch_terms b' = batch_terms b \<and> x' = x"
proof (cases "b_status b = BATCH_ACTIVE \<and> is_batch_expired b now")
  case True
  then have "update_batch now (\<lambda>r. r\<lparr>b_status := BATCH_EXPIRED\<rparr>) b (db, x) = (Inr b', (db', x'))"
    using assms(1) by (simp add: refresh_batch_expiry_def)
  from update_batch_evolves [OF this assms(2), of BATCH_EXPIRED] True show ?thesis
    by (simp add: batch_terms_def)
next
  case False
  then show ?thesis using assms by (auto simp: refresh_batch_expiry_def)
qed

lemma get_batch_evolves:
  assumes "get_batch svc now i req (db, x) = (Inr b, (db', x'))"
  shows "evolves db db' \<and> b \<in> set (batches db') \<and> row_id b = i \<and> x' = x \<and>
    same_organization req (b_organization_id b)"
proof -
  from assms obtain b0 where b0: "get_by_id False i (batches db) = Some b0"
      and org: "same_organization req (b_organization_id b0)"
      and run: "refresh_batch_expiry now b0 (db, x) = (Inr b, (db', x'))"
    by (auto simp: get_batch_def andthen_Inr same_organization_def)
  with refresh_batch_expiry_evolves [OF run] get_by_id_Some [OF b0] show ?thesis
    by (auto simp: batch_terms_def)
qed

lemma write_audit_state [simp]:
  "write_audit svc e (db, x) = (Inr u, s) \<longleftrightarrow>
     s = ((if audit_writer svc then db\<lparr>audit_log := audit_log db @ [e]\<rparr> else db), x)"
  and write_audit_Inl [simp]: "write_audit svc e (db, x) = (Inl err, s) \<longleftrightarrow> False"
  by (auto simp: write_audit_def)

lemma audit_batch_evolves:
  assumes "audit_batch svc actor act b desc et ei (db, x) = (Inr u, (db', x'))"
  shows "evolves db db' \<and> batches db' = batches db \<and> vouchers db' = vouchers db \<and> x' = x"
  using assms by (auto simp: audit_batch_def intro: evolves_other_tables split: if_splits)

text \<open>New rows: vouchers of a stored batch, and a batch.\<close>

lemma new_voucher_fields [simp]:
  "row_id (new_voucher i now actor b code) = i"
  "v_code (new_voucher i now actor b code) = code"
  "v_batch_id (new_voucher i now actor b code) = row_id b"
  "v_organization_id (new_voucher i now actor b code) = b_organization_id b"
  "v_status (new_voucher i now actor b code) = UNUSED"
  "v_use_count (new_voucher i now actor b code) = 0"
  "v_redeemed_at (new_voucher i now actor b code) = None"
  "v_expires_at (new_voucher i now actor b code) = None"
  "is_deleted (new_voucher i now actor b code) = False"
  by (simp_all add: new_voucher_def voucher.defs base_model.defs new_base_def)

lemma new_batch_fields [simp]:
  "row_id (new_batch i now actor o' a) = i"
  "b_status (new_batch i now actor o' a) = DRAFT"
  "b_max_uses_per_voucher (new_batch i now actor o' a) = bf_max_uses_per_voucher a"
  by (simp_all add: new_batch_def voucher_batch.defs base_model.defs new_base_def)

lemma in_new_vouchers:
  assumes "v \<in> set (new_vouchers ids now actor b codes)"
  obtains i code where "v = new_voucher (ids i) now actor b code" and "code \<in> set codes"
  using assms by (auto simp: new_vouchers_def in_set_enumerate_eq)

lemma new_vouchers_codes [simp]: "map v_code (new_vouchers ids now actor b codes) = codes"
  by (simp add: new_vouchers_def comp_def case_prod_unfold)

lemma bulk_create_vouchers_Inr:
  "bulk_create_vouchers rows (db, x) = (Inr rows', (db', x')) \<longleftrightarrow>
     rows' = rows \<and> x' = x \<and> length rows \<le> MAX_BULK_CREATE_SIZE \<and>
     distinct (map row_id (vouchers db @ rows)) \<and> unique_codes (vouchers db @ rows) \<and>
     db' = db\<lparr>vouchers := vouchers db @ rows\<rparr>"
  by (auto simp: bulk_create_vouchers_def andthen_Inr bulk_create_def simp del: map_append distinct_append
      split: if_splits)

lemma add_vouchers_evolves:
  assumes run: "bulk_create_vouchers (new_vouchers ids now actor b codes) (db, x) = (Inr rows, (db', x'))"
    and b: "batch_terms b \<in> batch_terms ` set (batches db)"
  shows "evolves db db' \<and> batches db' = batches db \<and> x' = x"
proof -
  let ?rs = "new_vouchers ids now actor b codes"
  have d: "distinct (map row_id (vouchers db @ ?rs))" and u: "unique_codes (vouchers db @ ?rs)"
    and db': "db' = db\<lparr>vouchers := vouchers db @ ?rs\<rparr>" and x: "x' = x"
    using run by (simp_all only: bulk_create_vouchers_Inr)
  have ok: "voucher_wf (map batch_terms (batches db)) v" if "v \<in> set ?rs" for v
  proof -
    have "(row_id b, b_organization_id b, b_max_uses_per_voucher b, b_validity_minutes b)
        \<in> set (map batch_terms (batches db))"
      using b by (simp add: batch_terms_def [of b])
    with that show ?thesis
      unfolding voucher_wf_iff by (elim in_new_vouchers) (auto simp: undated_def)
  qed
  have z: "uses ?rs i = 0" for i by (rule uses_zero) (auto elim: in_new_vouchers)
  have "db_wf db'" if "db_wf db"
    using that d u ok unfolding db' db_wf_def list_all_iff by (simp add: ball_Un)
  then have "evolves db db'" by (simp add: evolves_def db' fun_eq_iff z image_Un)
  with x show ?thesis by (simp add: db')
qed

lemma add_batch_evolves:
  assumes "create_row (\<lambda>_. True) b (batches db) = Inr t" and "1 \<le> b_max_uses_per_voucher b"
  shows "evolves db (db\<lparr>batches := t\<rparr>) \<and> b \<in> set t"
proof -
  have t: "t = batches db @ [b]" and d: "distinct (map row_id t)"
    using assms(1) by (auto simp: create_row_Inr)
  have "db_wf (db\<lparr>batches := t\<rparr>)" if "db_wf db"
    using that d assms(2) unfolding db_wf_def
    by (auto simp: t list_all_iff intro: voucher_wf_mono)
  then show ?thesis by (auto simp: evolves_def t)
qed

text \<open>The cascade of a revocation.\<close>

lemma uses_ok_revoked:
  "uses_ok m d v (v_status v) \<Longrightarrow> v_status v \<in> {UNUSED, ACTIVE, REVOKED} \<Longrightarrow> uses_ok m d v REVOKED"
  by auto

lemma bulk_revoke_evolves:
  assumes run: "bulk_revoke_vouchers_for_batch now i (db, x) = (Inr n, (db', x'))"
  shows "evolves db db' \<and> batches db' = batches db \<and> x' = x"
proof -
  define f where "f = (\<lambda>v :: voucher. if revocable i v then v\<lparr>v_status := REVOKED, updated_at := now\<rparr> else v)"
  have db': "db' = db\<lparr>vouchers := map f (vouchers db)\<rparr>" and x: "x' = x"
    using run by (auto simp: bulk_revoke_vouchers_for_batch_def f_def)
  have same [simp]: "row_id (f v) = row_id v" "v_code (f v) = v_code v" "origin (f v) = origin v"
      "v_use_count (f v) = v_use_count v" for v
    by (simp_all add: f_def origin_def)
  have rev: "v_status v \<in> {UNUSED, ACTIVE}" if "revocable i v" for v
    using that by (cases "v_status v") (auto simp: revocable_def)
  have wf1: "voucher_wf T (f v)" if v: "voucher_wf T v" for T v
  proof (cases "revocable i v")
    case True
    obtain m d where md: "(v_batch_id v, v_organization_id v, m, d) \<in> set T" "uses_ok m d v (v_status v)"
      using v by (auto simp: voucher_wf_iff)
    have "uses_ok m d v REVOKED" using uses_ok_revoked [OF md(2)] rev [OF True] by blast
    then have "uses_ok m d (f v) (v_status (f v))" using True
      by (simp add: f_def dated_def undated_def split: option.splits)
    with md(1) True show ?thesis unfolding voucher_wf_iff by (auto simp: f_def)
  qed (use v in \<open>simp add: f_def\<close>)
  have "db_wf db'" if "db_wf db"
    using that wf1 unfolding db_wf_def db' unique_codes_def
    by (simp add: comp_def list.pred_map list_all_iff)
  moreover have "vg.tracks (vouchers db) (map f (vouchers db))"
  proof (rule vg.tracks_map)
    show "v_status (f v) = v_status v \<or> v_status (f v) \<in> set (voucher_succs (v_status v))" for v
      using rev [of v] by (auto simp: f_def)
  qed simp
  moreover have "uses (map f (vouchers db)) = uses (vouchers db)" by (rule uses_map_same) simp
  ultimately have "evolves db db'" by (simp add: evolves_def db' image_image)
  with x show ?thesis by (simp add: db')
qed


subsection \<open>Operations\<close>

lemma submit_batch_evolves:
  assumes "submit_batch now b actor (db, x) = (Inr b', (db', x'))" and "b \<in> set (batches db)"
  shows "evolves db db' \<and> b' \<in> set (batches db') \<and> b_status b' = PENDING_APPROVAL \<and> x' = x"
proof -
  from assms(1) have
    ok: "validate_batch_status_transition (b_status b) PENDING_APPROVAL = Inr ()" and
    run: "update_batch now (\<lambda>r. r\<lparr>b_status := PENDING_APPROVAL, updated_by := actor\<rparr>) b (db, x) = (Inr b', (db', x'))"
    by (auto simp: submit_batch_def andthen_Inr)
  from update_batch_evolves [OF run assms(2), of PENDING_APPROVAL] ok show ?thesis
    by (auto simp: batch_terms_def validate_batch_status_transition_def split: if_splits)
qed

lemma approve_and_activate_evolves:
  assumes "approve_and_activate svc now b actor (db, x) = (Inr b', (db', x'))" and b: "b \<in> set (batches db)"
  shows "evolves db db' \<and> b' \<in> set (batches db') \<and> b_status b' = BATCH_ACTIVE \<and> x' = x"
proof -
  from assms(1) obtain b1 s1 s2 s3 s4 u1 u2 where
    ok: "validate_batch_status_transition (b_status b) APPROVED = Inr ()" and
    r1: "update_batch now (\<lambda>r. r\<lparr>b_status := APPROVED, b_approved_by_user_id := actor,
                b_approved_at := Some now, updated_by := actor\<rparr>) b (db, x) = (Inr b1, s1)" and
    r2: "audit_batch svc actor ''voucher_batch_approved'' b1
                (''Voucher batch '' @ quoted (b_name b1) @ '' approved'') ''voucher_batch'' None s1 = (Inr u1, s2)" and
    r3: "update_batch now (\<lambda>r. r\<lparr>b_status := BATCH_ACTIVE, updated_by := actor\<rparr>) b1 s2 = (Inr b', s3)" and
    r4: "audit_batch svc actor ''voucher_batch_activated'' b'
                (''Voucher batch '' @ quoted (b_name b') @ '' activated'') ''voucher_batch'' None s3 = (Inr u2, (db', x'))"
    by (auto simp: approve_and_activate_def andthen_Inr)
  obtain d1 x1 d2 x2 d3 x3 where s: "s1 = (d1, x1)" "s2 = (d2, x2)" "s3 = (d3, x3)" by (metis prod.exhaust)
  have e1: "evolves db d1 \<and> b1 \<in> set (batches d1) \<and> b_status b1 = APPROVED \<and> x1 = x"
    using update_batch_evolves [OF r1 [unfolded s] b, of APPROVED] ok
    by (auto simp: batch_terms_def validate_batch_status_transition_def split: if_splits)
  have e2: "evolves d1 d2 \<and> batches d2 = batches d1 \<and> x2 = x1"
    using audit_batch_evolves [OF r2 [unfolded s]] by simp
  have e3: "evolves d2 d3 \<and> b' \<in> set (batches d3) \<and> b_status b' = BATCH_ACTIVE \<and> x3 = x2"
    using update_batch_evolves [OF r3 [unfolded s], of BATCH_ACTIVE] e1 e2 by (auto simp: batch_terms_def)
  have e4: "evolves d3 db' \<and> batches db' = batches d3 \<and> x' = x3"
    using audit_batch_evolves [OF r4 [unfolded s]] by simp
  show ?thesis using e1 e2 e3 e4 evolves_trans by metis
qed

lemma approve_batch_evolves:
  assumes "approve_batch svc clock i actor req (db, x) = (Inr b, (db', x'))"
  shows "evolves db db' \<and> b \<in> set (batches db') \<and> b_status b = BATCH_ACTIVE"
proof -
  from assms obtain b0 d x1 where
    g: "get_batch svc (clock 0) i req (db, x) = (Inr b0, (d, x1))" and
    a: "approve_and_activate svc (clock 1) b0 actor (d, x1) = (Inr b, (db', x'))"
    by (auto simp: approve_batch_def andthen_Inr)
  from get_batch_evolves [OF g] approve_and_activate_evolves [OF a] show ?thesis
    using evolves_trans by blast
qed

lemma revoke_batch_runs:
  assumes "revoke_batch svc clock i actor req reason (db, x) = (Inr b, (db', x'))"
  obtains d1 d2 d3 b0 n where "evolves db d1" and "evolves d1 d2" and "evolves d2 d3" and "evolves d3 db'"
    and "b \<in> set (batches d2)" and "row_id b = i" and "b_status b = BATCH_REVOKED"
    and "bulk_revoke_vouchers_for_batch (clock 2) i (d2, x) = (Inr n, (d3, x))"
    and "batches db' = batches d2" and "vouchers db' = vouchers d3" and "vouchers d2 = vouchers db"
proof -
  from assms obtain b0 d1 x1 d2 x2 d3 x3 n u where
    g: "get_batch svc (clock 0) i req (db, x) = (Inr b0, (d1, x1))" and
    ok: "validate_batch_status_transition (b_status b0) BATCH_REVOKED = Inr ()" and
    up: "update_batch (clock 1) (\<lambda>r. r\<lparr>b_status := BATCH_REVOKED, updated_by := actor\<rparr>) b0 (d1, x1) = (Inr b, (d2, x2))" and
    rv: "bulk_revoke_vouchers_for_batch (clock 2) (row_id b0) (d2, x2) = (Inr n, (d3, x3))" and
    au: "audit_batch svc actor ''voucher_batch_revoked'' b
                (''Voucher batch '' @ quoted (b_name b) @ '' revoked'' @
                 (case reason of None \<Rightarrow> [] | Some t \<Rightarrow> if t = [] then [] else '': '' @ t))
                ''voucher_batch'' None (d3, x3) = (Inr u, (db', x'))"
    by (auto simp: revoke_batch_def andthen_Inr)
  note g' = get_batch_evolves [OF g]
  have u': "evolves d1 d2 \<and> b \<in> set (batches d2) \<and> row_id b = row_id b0 \<and> b_status b = BATCH_REVOKED \<and> x2 = x1"
    using update_batch_evolves [OF up, of BATCH_REVOKED] g' ok
    by (auto simp: batch_terms_def validate_batch_status_transition_def split: if_splits)
  note r' = bulk_revoke_evolves [OF rv]
  note a' = audit_batch_evolves [OF au]
  have "vouchers d1 = vouchers db"
    using g by (auto simp: get_batch_def andthen_Inr refresh_batch_expiry_def update_batch_def split: if_splits)
  moreover have "vouchers d2 = vouchers d1" using up by (auto simp: update_batch_def andthen_Inr)
  ultimately show ?thesis using that g' u' r' a' rv by metis
qed

lemma revoke_batch_evolves:
  assumes "revoke_batch svc clock i actor req reason (db, x) = (Inr b, (db', x'))"
  shows "evolves db db'"
  using revoke_batch_runs [OF assms] evolves_trans by metis

lemma refresh_keeps_others:
  assumes r: "refresh_batch_expiry now b (db, x) = (Inr b', (d, x1))"
    and bs: "set bs \<subseteq> set (batches db)" "row_id b \<notin> row_id ` set bs"
  shows "set bs \<subseteq> set (batches d)"
proof
  fix c assume c: "c \<in> set bs"
  then have "row_id c \<noteq> row_id b" using bs(2) by (metis image_eqI)
  moreover have "c \<in> set (batches db)" using c bs(1) by auto
  ultimately show "c \<in> set (batches d)"
    using r by (auto simp: refresh_batch_expiry_def update_batch_def andthen_Inr set_update_row
        split: if_splits intro!: rev_image_eqI)
qed

lemma refresh_all_evolves:
  assumes "refresh_all clock n bs (db, x) = (Inr bs', (db', x'))"
    and "set bs \<subseteq> set (batches db)" and "distinct (map row_id bs)"
  shows "evolves db db'"
  using assms
proof (induction bs arbitrary: n db x bs')
  case (Cons b bs)
  from Cons.prems(1) obtain b' d x1 bs1 where
    r: "refresh_batch_expiry (clock n) b (db, x) = (Inr b', (d, x1))" and
    rest: "refresh_all clock (Suc n) bs (d, x1) = (Inr bs1, (db', x'))"
    by (auto simp: andthen_Inr)
  have keep: "set bs \<subseteq> set (batches d)"
    using Cons.prems(2,3) by (intro refresh_keeps_others [OF r]) auto
  have "evolves db d" using refresh_batch_expiry_evolves [OF r] Cons.prems(2) by simp
  moreover have "evolves d db'" using Cons.IH [OF rest keep] Cons.prems(3) by auto
  ultimately show ?case by (rule evolves_trans)
qed auto

lemma paginate_rows_filter:
  assumes "paginate_rows ps P k ord del t = (rs, meta)"
  shows "\<forall>r \<in> set rs. P r"
proof -
  have "set rs \<subseteq> set (apply_sorting k ord (filter P (base_select del t)))"
    using assms set_take_subset set_drop_subset by (fastforce simp: paginate_rows_def paginate_def Let_def)
  then show ?thesis by auto
qed

lemma paginate_rows_subset:
  assumes "paginate_rows ps P k ord del t = (rs, meta)" and "distinct (map row_id t)"
  shows "set rs \<subseteq> set t \<and> distinct (map row_id rs)"
proof -
  let ?all = "apply_sorting k ord (filter P (base_select del t))"
  have rs: "rs = paginate ps ?all" using assms(1) by (simp add: paginate_rows_def Let_def)
  have "distinct (map row_id (filter P (base_select del t)))"
    using assms(2) by (simp add: base_select_def distinct_map_filter)
  then have "distinct (map row_id ?all)"
    by (cases ord) (simp_all add: apply_sorting_def distinct_map rev_map [symmetric])
  then have "distinct (map row_id rs)"
    unfolding rs paginate_def by (metis distinct_drop distinct_take drop_map take_map)
  moreover have "set rs \<subseteq> set t"
    unfolding rs paginate_def using set_take_subset set_drop_subset by fastforce
  ultimately show ?thesis by simp
qed

lemma list_batches_evolves:
  assumes "list_batches ds ms clock req p n (db, x) = (Inr r, (db', x'))"
  shows "evolves db db'"
proof -
  from assms obtain bs meta bs' where
    page: "paginate_rows (make_page_params ds ms p (Some n))
       (\<lambda>b. same_organization req (b_organization_id b)) created_at DESC False (batches db) = (bs, meta)" and
    run: "refresh_all clock 0 bs (db, x) = (Inr bs', (db', x'))"
    by (auto simp: list_batches_def andthen_Inr split: prod.splits)
  show ?thesis
  proof (cases "db_wf db")
    case True
    with paginate_rows_subset [OF page] refresh_all_evolves [OF run] show ?thesis by (simp add: db_wf_def)
  qed (simp add: evolves_def)
qed

lemma import_vouchers_runs:
  assumes "import_vouchers svc ids clock i actor req codes (db, x) = (Inr (imported, rejected), (db', x'))"
  obtains b d1 d2 candidates scan_rejected where
    "get_batch svc (clock 0) i req (db, x) = (Inr b, (d1, x))"
    and "b_status b \<notin> {BATCH_EXPIRED, BATCH_REVOKED}" and "length codes \<le> MAX_BULK_CREATE_SIZE"
    and "import_scan [] codes = (candidates, scan_rejected)"
    and "let new = filter (\<lambda>c. c \<notin> set (find_existing_codes candidates (vouchers d1))) candidates
         in (if new = [] then imported = [] \<and> d2 = d1
             else imported = new_vouchers ids (clock 1) actor b new \<and>
                  bulk_create_vouchers imported (d1, x) = (Inr imported, (d2, x)))"
    and "rejected = scan_rejected @ map (\<lambda>c. (c, ''code already exists''))
           (filter (\<lambda>c. c \<in> set (find_existing_codes candidates (vouchers d1))) candidates)"
    and "evolves d2 db'" and "vouchers db' = vouchers d2" and "batches db' = batches d2"
proof -
  obtain candidates scan_rejected where sc: "import_scan [] codes = (candidates, scan_rejected)" by fastforce
  from assms obtain b d1 x1 where
    g: "get_batch svc (clock 0) i req (db, x) = (Inr b, (d1, x1))" and
    st: "b_status b \<notin> {BATCH_EXPIRED, BATCH_REVOKED}" and len: "length codes \<le> MAX_BULK_CREATE_SIZE"
    by (auto simp: import_vouchers_def andthen_Inr)
  have x1: "x1 = x" using get_batch_evolves [OF g] by simp
  let ?ex = "find_existing_codes candidates (vouchers d1)"
  let ?new = "filter (\<lambda>c. c \<notin> set ?ex) candidates"
  from assms g st len obtain d2 x2 where
    ins: "(if ?new = [] then ret [] else bulk_create_vouchers (new_vouchers ids (clock 1) actor b ?new)) (d1, x)
       = (Inr imported, (d2, x2))" and
    au: "\<exists>u. (if imported = [] then ret ()
             else audit_batch svc actor ''voucher_codes_imported'' b
                  (show_nat (length imported) @ '' pre-printed voucher codes imported ('' @
                   show_nat (length rejected) @ '' rejected)'') ''voucher_batch'' None) (d2, x2) = (Inr u, (db', x'))" and
    rj: "rejected = scan_rejected @ map (\<lambda>c. (c, ''code already exists'')) (filter (\<lambda>c. c \<in> set ?ex) candidates)"
    by (auto simp: import_vouchers_def andthen_Inr sc Let_def x1)
  have ins': "let new = ?new in (if new = [] then imported = [] \<and> d2 = d1
             else imported = new_vouchers ids (clock 1) actor b new \<and>
                  bulk_create_vouchers imported (d1, x) = (Inr imported, (d2, x)))"
    using ins by (cases "?new = []") (auto simp: Let_def bulk_create_vouchers_Inr)
  have "evolves d2 db' \<and> batches db' = batches d2 \<and> vouchers db' = vouchers d2"
    using au by (cases "imported = []") (auto dest: audit_batch_evolves simp del: append_Cons append_Nil)
  then show ?thesis using that [OF g [unfolded x1] st len sc ins' rj] by blast
qed

lemma import_vouchers_evolves:
  assumes "import_vouchers svc ids clock i actor req codes (db, x) = (Inr r, (db', x'))"
  shows "evolves db db'"
proof -
  obtain imported rejected where r: "r = (imported, rejected)" by fastforce
  show ?thesis
  proof (rule import_vouchers_runs [OF assms [unfolded r]])
    fix b d1 d2 candidates scan_rejected
    assume g: "get_batch svc (clock 0) i req (db, x) = (Inr b, (d1, x))"
      and ins: "let new = filter (\<lambda>c. c \<notin> set (find_existing_codes candidates (vouchers d1))) candidates
         in (if new = [] then imported = [] \<and> d2 = d1
             else imported = new_vouchers ids (clock 1) actor b new \<and>
                  bulk_create_vouchers imported (d1, x) = (Inr imported, (d2, x)))"
      and last: "evolves d2 db'"
    note g' = get_batch_evolves [OF g]
    have "evolves d1 d2"
      using ins add_vouchers_evolves [of ids "clock 1" actor b _ d1 x _ d2 x] g'
      by (auto simp: Let_def split: if_splits)
    with g' last show "evolves db db'" using evolves_trans by blast
  qed
qed

lemma create_batch_runs:
  assumes run: "create_batch svc get_org get_loc ids tape clock actor req a (db, x) = (Inr r, (db', x'))"
  obtains o' b t d2 x2 d3 x3 d4 x4 b4 where
    "validate_quantity (bf_quantity a) = Inr ()" and "validate_code_length (bf_code_length a) = Inr ()"
    and "get_org (bf_organization_id a) = Some o'" and "same_organization req o'"
    and "b = new_batch (ids 0) (clock 0) actor o' a"
    and "create_row (\<lambda>_. True) b (batches db) = Inr t"
    and "evolves (db\<lparr>batches := t\<rparr>) d2" and "batches d2 = t" and "vouchers d2 = vouchers db"
    and "(if 0 < bf_quantity a
          then andthen (generate_codes tape (bf_quantity a) (bf_code_length a) (bf_code_prefix a)) (\<lambda>codes.
               andthen (bulk_create_vouchers (new_vouchers (\<lambda>i. ids (Suc i)) (clock 1) actor b codes)) (\<lambda>_.
               ret ()))
          else ret ()) (d2, x2) = (Inr (), (d3, x3))"
    and "submit_batch (clock 2) b actor (d3, x3) = (Inr b4, (d4, x4))"
    and "(if bf_has_manage_permission a then approve_and_activate svc (clock 3) b4 actor else ret b4) (d4, x4)
            = (Inr r, (db', x'))"
proof -
  from run obtain o' dp xp ds xs where
    val: "validate_quantity (bf_quantity a) = Inr ()" "validate_code_length (bf_code_length a) = Inr ()"
      "get_org (bf_organization_id a) = Some o'" "same_organization req o'" and
    plan: "(case bf_plan_id a of None \<Rightarrow> ret () | Some p \<Rightarrow> andthen (get_plan p req) (\<lambda>_. ret ())) (db, x) = (Inr (), (dp, xp))" and
    ser: "(case bf_series_id a of None \<Rightarrow> ret ()
              | Some s \<Rightarrow> andthen (get_series svc s req) (\<lambda>_. ret ())) (dp, xp) = (Inr (), (ds, xs))" and
    rest: "(let b = new_batch (ids 0) (clock 0) actor o' a
     in andthen (stores_db VoucherDatabaseError
                   (\<lambda>db. map_sum id (\<lambda>t. db\<lparr>batches := t\<rparr>) (create_row (\<lambda>_. True) b (batches db)))) (\<lambda>_.
        andthen (audit_batch svc actor ''voucher_batch_created'' b
                   (''Voucher batch '' @ quoted (b_name b) @ '' created ('' @ show_int (bf_quantity a) @
                    '' vouchers requested)'') ''voucher_batch'' None) (\<lambda>_.
        andthen (if 0 < bf_quantity a
                 then andthen (generate_codes tape (bf_quantity a) (bf_code_length a) (bf_code_prefix a)) (\<lambda>codes.
                      andthen (bulk_create_vouchers (new_vouchers (\<lambda>i. ids (Suc i)) (clock 1) actor b codes)) (\<lambda>_.
                      ret ()))
                 else ret ()) (\<lambda>_.
        andthen (submit_batch (clock 2) b actor) (\<lambda>submitted.
        if bf_has_manage_permission a then approve_and_activate svc (clock 3) submitted actor
        else ret submitted))))) (ds, xs) = (Inr r, (db', x'))"
    by (auto simp: create_batch_def andthen_Inr)
  have "dp = db" using plan by (auto simp: get_plan_def andthen_Inr split: option.splits)
  moreover have "ds = dp" using ser by (auto simp: get_series_def andthen_Inr split: option.splits)
  ultimately have ds: "ds = db" by simp
  define b where "b = new_batch (ids 0) (clock 0) actor o' a"
  from rest obtain t d2 x2 d3 x3 d4 x4 b4 u where
    c: "create_row (\<lambda>_. True) b (batches db) = Inr t" and
    au: "audit_batch svc actor ''voucher_batch_created'' b
                   (''Voucher batch '' @ quoted (b_name b) @ '' created ('' @ show_int (bf_quantity a) @
                    '' vouchers requested)'') ''voucher_batch'' None (db\<lparr>batches := t\<rparr>, xs) = (Inr u, (d2, x2))" and
    gen: "(if 0 < bf_quantity a
                 then andthen (generate_codes tape (bf_quantity a) (bf_code_length a) (bf_code_prefix a)) (\<lambda>codes.
                      andthen (bulk_create_vouchers (new_vouchers (\<lambda>i. ids (Suc i)) (clock 1) actor b codes)) (\<lambda>_.
                      ret ()))
                 else ret ()) (d2, x2) = (Inr (), (d3, x3))" and
    sub: "submit_batch (clock 2) b actor (d3, x3) = (Inr b4, (d4, x4))" and
    fin: "(if bf_has_manage_permission a then approve_and_activate svc (clock 3) b4 actor else ret b4) (d4, x4)
            = (Inr r, (db', x'))"
    unfolding Let_def b_def [symmetric] ds
    by (simp only: andthen_Inr stores_db_Inr) (auto simp: map_sum_def split: sum.splits)
  from audit_batch_evolves [OF au] have "evolves (db\<lparr>batches := t\<rparr>) d2" "batches d2 = t" "vouchers d2 = vouchers db"
    by simp_all
  from that [OF val b_def c this gen sub fin] show ?thesis .
qed

lemma create_batch_evolves:
  assumes run: "create_batch svc get_org get_loc ids tape clock actor req a (db, x) = (Inr r, (db', x'))"
    and uses: "1 \<le> bf_max_uses_per_voucher a"
  shows "evolves db db'"
proof (rule create_batch_runs [OF run])
  fix o' b t d2 x2 d3 x3 d4 x4 b4
  assume b: "b = new_batch (ids 0) (clock 0) actor o' a"
    and c: "create_row (\<lambda>_. True) b (batches db) = Inr t"
    and e2: "evolves (db\<lparr>batches := t\<rparr>) d2" "batches d2 = t"
    and gen: "(if 0 < bf_quantity a
                 then andthen (generate_codes tape (bf_quantity a) (bf_code_length a) (bf_code_prefix a)) (\<lambda>codes.
                      andthen (bulk_create_vouchers (new_vouchers (\<lambda>i. ids (Suc i)) (clock 1) actor b codes)) (\<lambda>_.
                      ret ()))
                 else ret ()) (d2, x2) = (Inr (), (d3, x3))"
    and sub: "submit_batch (clock 2) b actor (d3, x3) = (Inr b4, (d4, x4))"
    and fin: "(if bf_has_manage_permission a then approve_and_activate svc (clock 3) b4 actor else ret b4) (d4, x4)
            = (Inr r, (db', x'))"
  have e1: "evolves db (db\<lparr>batches := t\<rparr>) \<and> b \<in> set t" by (rule add_batch_evolves [OF c]) (simp add: b uses)
  have e3: "evolves d2 d3 \<and> batches d3 = batches d2"
    using gen e1 e2 add_vouchers_evolves [of "\<lambda>i. ids (Suc i)" "clock 1" actor b _ d2 x2 _ d3 x3]
    by (auto simp: andthen_Inr generate_codes_def split: if_splits)
  have e4: "evolves d3 d4 \<and> b4 \<in> set (batches d4)"
    using submit_batch_evolves [OF sub] e1 e2 e3 by simp
  have e5: "evolves d4 db'"
    using fin approve_and_activate_evolves [of svc "clock 3" b4 actor d4 x4 r db' x'] e4
    by (auto split: if_splits)
  show ?thesis using e1 e2 e3 e4 e5 evolves_trans by metis
qed


subsection \<open>Administrative commands\<close>

datatype admin_command =
    CreatePlan uuid datetime "uuid option" "uuid option" plan_fields
  | CreateSeries uuid datetime "uuid option" "uuid option" series_fields
  | CreateBatch "nat \<Rightarrow> uuid" "nat \<Rightarrow> nat" "nat \<Rightarrow> datetime" "uuid option" "uuid option" batch_fields
  | ApproveBatch "nat \<Rightarrow> datetime" uuid "uuid option" "uuid option"
  | RevokeBatch "nat \<Rightarrow> datetime" uuid "uuid option" "uuid option" "string option"
  | ImportVouchers "nat \<Rightarrow> uuid" "nat \<Rightarrow> datetime" uuid "uuid option" "uuid option" "string list"
  | ListBatches "nat \<Rightarrow> datetime" "uuid option" int int
  | ListVouchers datetime uuid "uuid option" int int
  | BatchStats datetime uuid "uuid option"

definition ignoring :: "('r, 'a) vprog \<Rightarrow> ('r, unit) vprog" where
  "ignoring m = andthen m (\<lambda>_. ret ())"

fun run_admin :: "voucher_service \<Rightarrow> org_lookup \<Rightarrow> loc_lookup \<Rightarrow> admin_command \<Rightarrow> ('r, unit) vprog" where
  "run_admin svc get_org get_loc (CreatePlan i now actor req a) =
     ignoring (create_plan svc get_org i now actor req a)"
| "run_admin svc get_org get_loc (CreateSeries i now actor req a) =
     ignoring (create_series svc get_org get_loc i now actor req a)"
| "run_admin svc get_org get_loc (CreateBatch ids tape clock actor req a) =
     ignoring (create_batch svc get_org get_loc ids tape clock actor req a)"
| "run_admin svc get_org get_loc (ApproveBatch clock i actor req) =
     ignoring (approve_batch svc clock i actor req)"
| "run_admin svc get_org get_loc (RevokeBatch clock i actor req reason) =
     ignoring (revoke_batch svc clock i actor req reason)"
| "run_admin svc get_org get_loc (ImportVouchers ids clock i actor req codes) =
     ignoring (import_vouchers svc ids clock i actor req codes)"
| "run_admin svc get_org get_loc (ListBatches clock req p n) = ignoring (list_batches 25 100 clock req p n)"
| "run_admin svc get_org get_loc (ListVouchers now i req p n) = ignoring (list_vouchers 25 100 svc now i req p n)"
| "run_admin svc get_org get_loc (BatchStats now i req) = ignoring (get_batch_stats svc now i req)"

text \<open>What the request schema guarantees before the service is called:
  \<open>max_uses_per_voucher >= 1\<close> (\<open>schemas.VoucherBatchCreateRequest\<close>).\<close>

fun admin_valid :: "admin_command \<Rightarrow> bool" where
  "admin_valid (CreateBatch ids tape clock actor req a) = (1 \<le> bf_max_uses_per_voucher a)"
| "admin_valid _ = True"

text \<open>A history of requests, each in a session of its own.\<close>

fun run_history ::
  "voucher_service \<Rightarrow> org_lookup \<Rightarrow> loc_lookup \<Rightarrow> admin_command list \<Rightarrow> voucher_db \<times> 'r \<Rightarrow> voucher_db \<times> 'r" where
  "run_history svc get_org get_loc [] s = s"
| "run_history svc get_org get_loc (c # cs) s =
     run_history svc get_org get_loc cs (snd (with_db_session (run_admin svc get_org get_loc c) s))"

lemma ignoring_Inr: "ignoring m s = (Inr u, s') \<longleftrightarrow> (\<exists>y. m s = (Inr y, s'))"
  by (auto simp: ignoring_def andthen_Inr)

text \<open>Plans and series live in tables of their own.\<close>

definition holds :: "voucher_batch list \<Rightarrow> voucher list \<Rightarrow> voucher_db \<Rightarrow> bool" where
  "holds B V db \<longleftrightarrow> batches db = B \<and> vouchers db = V"

lemma holds_evolves:
  assumes "\<And>B V. preserves (\<lambda>s. holds B V (fst s)) m" and "m (db, x) = (r, (db', x'))"
  shows "evolves db db'"
  using preservesD [OF assms(1) [of "batches db" "vouchers db"] _ assms(2)]
  by (intro evolves_other_tables) (simp_all add: holds_def)

lemma preserves_write_audit [intro!]: "preserves (\<lambda>s. holds B V (fst s)) (write_audit svc e)"
  unfolding write_audit_def by (intro preserves_if preserves_modifies_db preserves_ret) (simp add: holds_def)

lemma create_plan_holds: "preserves (\<lambda>s. holds B V (fst s)) (create_plan svc get_org i now actor req a)"
  unfolding create_plan_def Let_def
  by (intro preserves_andthen preserves_stores_db preserves_write_audit preserves_ret;
     auto simp: holds_def map_sum_def split: sum.splits option.splits intro!: preserves_andthen)

lemma get_plan_holds: "preserves (\<lambda>s. holds B V (fst s)) (get_plan i req)"
  unfolding get_plan_def by (intro preserves_andthen preserves_reads_db preserves_orelse preserves_guard preserves_ret)

lemma create_series_holds:
  "preserves (\<lambda>s. holds B V (fst s)) (create_series svc get_org get_loc i now actor req a)"
  unfolding create_series_def Let_def
  by (intro preserves_andthen preserves_stores_db preserves_write_audit preserves_ret get_plan_holds
       preserves_orelse preserves_guard;
     auto simp: holds_def map_sum_def split: sum.splits)

lemmas create_plan_evolves = holds_evolves [OF create_plan_holds]
lemmas create_series_evolves = holds_evolves [OF create_series_holds]

lemma list_vouchers_evolves:
  "list_vouchers ds ms svc now i req p n (db, x) = (Inr r, (db', x')) \<Longrightarrow> evolves db db'"
  by (auto simp: list_vouchers_def andthen_Inr dest: get_batch_evolves)

lemma get_batch_stats_evolves:
  "get_batch_stats svc now i req (db, x) = (Inr r, (db', x')) \<Longrightarrow> evolves db db'"
  by (auto simp: get_batch_stats_def andthen_Inr Let_def dest: get_batch_evolves)

lemma run_admin_evolves:
  assumes "run_admin svc get_org get_loc c (db, x) = (Inr u, (db', x'))" and "admin_valid c"
  shows "evolves db db'"
  using assms
  by (cases c)
    (auto simp: ignoring_Inr intro: create_plan_evolves create_series_evolves create_batch_evolves
      revoke_batch_evolves import_vouchers_evolves list_batches_evolves list_vouchers_evolves
      get_batch_stats_evolves dest: approve_batch_evolves)

text \<open>Committed or rolled back, a request relates the tables before and after it.\<close>

lemma session_admin_evolves:
  assumes "with_db_session (run_admin svc get_org get_loc c) (db, x) = (r, (db', x'))" and "admin_valid c"
  shows "evolves db db'"
proof (cases r)
  case (Inl e)
  then show ?thesis using assms(1) by (auto simp: with_db_session_Inl)
next
  case (Inr u)
  then show ?thesis using assms run_admin_evolves [of svc get_org get_loc c db x u db' x']
    by (simp add: with_db_session_Inr)
qed

lemma run_history_evolves:
  "list_all admin_valid cs \<Longrightarrow> evolves (fst s) (fst (run_history svc get_org get_loc cs s))"
proof (induction cs arbitrary: s)
  case (Cons c cs)
  obtain db x where s: "s = (db, x)" by fastforce
  obtain r db' x' where r: "with_db_session (run_admin svc get_org get_loc c) (db, x) = (r, (db', x'))"
    by (metis prod.exhaust)
  have "evolves db db'" using session_admin_evolves [OF r] Cons.prems by simp
  moreover have "evolves db' (fst (run_history svc get_org get_loc cs (db', x')))"
    using Cons.IH [of "(db', x')"] Cons.prems by simp
  ultimately show ?case by (simp add: s r evolves_trans)
qed simp


subsection \<open>Codes\<close>

lemma find_existing_codes_set:
  "set (find_existing_codes codes t) = set codes \<inter> v_code ` set t"
proof (cases "codes = []")
  case False
  have "set (find_existing_codes codes t)
      = v_code ` set (apply_sorting created_at DESC (filter (\<lambda>v. v_code v \<in> set codes) (base_select True t)))"
    using False by (simp add: find_existing_codes_def get_all_def Let_def)
  then show ?thesis unfolding apply_sorting_set by auto
qed (simp add: find_existing_codes_def)

lemma secrets_choice_in: "secrets_choice tape pos \<in> set VOUCHER_CODE_ALPHABET"
  unfolding secrets_choice_def by (rule nth_mem) (simp add: VOUCHER_CODE_ALPHABET_def)

text \<open>A code of the right shape: the prefix, then \<open>code_length\<close> symbols of the alphabet.\<close>

definition well_formed_code :: "int \<Rightarrow> string option \<Rightarrow> string \<Rightarrow> bool" where
  "well_formed_code n p c \<longleftrightarrow>
     (\<exists>body. c = (case p of None \<Rightarrow> [] | Some q \<Rightarrow> q) @ body \<and> length body = nat n \<and>
             set body \<subseteq> set VOUCHER_CODE_ALPHABET)"

lemma random_code_wf: "well_formed_code n p (random_code tape pos n p)"
  using secrets_choice_in
  by (cases p) (auto simp: well_formed_code_def random_code_def Let_def)

text \<open>What a set of generated codes satisfies at any moment of the loop.\<close>

definition codes_ok :: "voucher list \<Rightarrow> int \<Rightarrow> int \<Rightarrow> string option \<Rightarrow> string list \<Rightarrow> bool" where
  "codes_ok t q n p g \<longleftrightarrow>
     distinct g \<and> set g \<inter> v_code ` set t = {} \<and> (\<forall>c \<in> set g. well_formed_code n p c) \<and> int (length g) \<le> q"

lemma generate_rounds_ok: "codes_ok t q n p g \<Longrightarrow> codes_ok t q n p (generate_rounds k t q n p tape pos g)"
proof (induction k arbitrary: pos g)
  case (Suc k)
  define needed where "needed = q - int (length g)"
  define drawn where "drawn = map (\<lambda>i. random_code tape (pos + i * nat n) n p) [0..<nat needed]"
  define cand where "cand = filter (\<lambda>c. c \<notin> set g) (remdups drawn)"
  define fresh where "fresh = filter (\<lambda>c. c \<notin> set (find_existing_codes cand t)) cand"
  have step: "generate_rounds (Suc k) t q n p tape pos g =
      (if needed \<le> 0 then g
       else generate_rounds k t q n p tape (pos + nat needed * nat n) (if cand = [] then g else g @ fresh))"
    by (simp add: Let_def needed_def drawn_def cand_def fresh_def)
  have "length fresh \<le> length (remdups drawn)"
    unfolding fresh_def cand_def by (meson le_trans length_filter_le)
  also have "\<dots> \<le> length drawn" by (rule length_remdups_leq)
  finally have len: "length fresh \<le> nat needed" by (simp add: drawn_def)
  have new: "codes_ok t q n p (g @ fresh)" if "0 < needed"
    unfolding codes_ok_def
  proof (intro conjI)
    show "distinct (g @ fresh)" using Suc.prems by (auto simp: codes_ok_def fresh_def cand_def)
    show "set (g @ fresh) \<inter> v_code ` set t = {}"
      using Suc.prems by (auto simp: codes_ok_def fresh_def find_existing_codes_set)
    show "\<forall>c \<in> set (g @ fresh). well_formed_code n p c"
      using Suc.prems random_code_wf by (auto simp: codes_ok_def fresh_def cand_def drawn_def)
    show "int (length (g @ fresh)) \<le> q" using len that by (simp add: needed_def)
  qed
  show ?case unfolding step using Suc.IH new Suc.prems by simp
qed simp

lemma generate_codes_Inr:
  assumes "generate_codes tape q n p (db, x) = (Inr codes, (db', x'))" and "0 \<le> q"
  shows "codes_ok (vouchers db) q n p codes \<and> int (length codes) = q \<and> db' = db \<and> x' = x"
proof -
  define g where "g = generate_rounds CODE_GENERATION_MAX_ROUNDS (vouchers db) q n p tape 0 []"
  have "codes_ok (vouchers db) q n p g"
    unfolding g_def by (rule generate_rounds_ok) (simp add: codes_ok_def assms(2))
  moreover from assms(1) have "q \<le> int (length g)" "codes = take (nat q) g" "db' = db" "x' = x"
    by (auto simp: generate_codes_def andthen_Inr g_def)
  ultimately show ?thesis by (auto simp: codes_ok_def)
qed

end
