(* ===== verification/VoucherRace.thy ===== *)
theory VoucherRace
  imports VoucherLifecycle
begin

section \<open>Concurrent redemption\<close>

text \<open>
  \<open>redeem_voucher\<close> is a check followed by one conditional UPDATE, and requests interleave.
  A world holds the committed tables, the Redis server, the redemptions that have passed
  their check and not yet written (each with the rows and the instant it validated), and
  the log of redemptions that committed. A step is one of:

  \<^item> a request passes the check phase (its reads see the committed tables) or is refused;
  \<^item> a checked redemption writes and commits, or loses and is rolled back. The UPDATE
    locks the row until the commit, so write and commit are one step;
  \<^item> an administrative request runs in its own session.
\<close>

record 'r world =
  tables :: voucher_db
  store :: 'r
  in_flight :: "(voucher \<times> voucher_batch \<times> datetime) list"
  redeemed :: "uuid list"

inductive step ::
  "'r redis_ops \<Rightarrow> voucher_service \<Rightarrow> org_lookup \<Rightarrow> loc_lookup \<Rightarrow> 'r world \<Rightarrow> 'r world \<Rightarrow> bool"
  for redis svc get_org get_loc where
  check_passes:
    "check_phase redis svc clock code source (tables w, store w) = (Inr (v, b), (db', r')) \<Longrightarrow>
     step redis svc get_org get_loc w (w\<lparr>store := r', in_flight := in_flight w @ [(v, b, clock 1)]\<rparr>)"
| check_refuses:
    "check_phase redis svc clock code source (tables w, store w) = (Inl e, (db', r')) \<Longrightarrow>
     step redis svc get_org get_loc w (w\<lparr>store := r'\<rparr>)"
| redeem_wins:
    "(v, b, now) \<in> set (in_flight w) \<Longrightarrow>
     redeem_phase svc now later identifier v b (tables w, store w) = (Inr (v', b'), (db', r')) \<Longrightarrow>
     step redis svc get_org get_loc w
       (w\<lparr>tables := db', store := r', in_flight := remove1 (v, b, now) (in_flight w),
          redeemed := redeemed w @ [row_id v']\<rparr>)"
| redeem_loses:
    "(v, b, now) \<in> set (in_flight w) \<Longrightarrow>
     redeem_phase svc now later identifier v b (tables w, store w) = (Inl e, (db', r')) \<Longrightarrow>
     step redis svc get_org get_loc w
       (w\<lparr>store := r', in_flight := remove1 (v, b, now) (in_flight w)\<rparr>)"
| admin:
    "admin_valid c \<Longrightarrow>
     with_db_session (run_admin svc get_org get_loc c) (tables w, store w) = (res, (db', r')) \<Longrightarrow>
     step redis svc get_org get_loc w (w\<lparr>tables := db', store := r'\<rparr>)"

definition empty_world :: "'r \<Rightarrow> 'r world" where
  "empty_world r =
     \<lparr>tables = \<lparr>plans = [], series = [], batches = [], vouchers = [], audit_log = []\<rparr>,
      store = r, in_flight = [], redeemed = []\<rparr>"

definition reachable ::
  "'r redis_ops \<Rightarrow> voucher_service \<Rightarrow> org_lookup \<Rightarrow> loc_lookup \<Rightarrow> 'r \<Rightarrow> 'r world \<Rightarrow> bool" where
  "reachable redis svc get_org get_loc r w \<longleftrightarrow> (step redis svc get_org get_loc)\<^sup>*\<^sup>* (empty_world r) w"


subsection \<open>The check phase\<close>

text \<open>What a validated snapshot says about the tables, now and in every later state.\<close>

definition snapshot_ok :: "voucher_db \<Rightarrow> voucher \<times> voucher_batch \<times> datetime \<Rightarrow> bool" where
  "snapshot_ok db s \<longleftrightarrow>
     (case s of (v, b, now) \<Rightarrow>
        v_status v \<in> {UNUSED, ACTIVE} \<and> row_id b = v_batch_id v \<and>
        origin v \<in> origin ` set (vouchers db) \<and> batch_terms b \<in> batch_terms ` set (batches db))"

lemma snapshot_ok_mono:
  "snapshot_ok db s \<Longrightarrow> origin ` set (vouchers db) \<subseteq> origin ` set (vouchers db') \<Longrightarrow>
   batch_terms ` set (batches db) \<subseteq> batch_terms ` set (batches db') \<Longrightarrow> snapshot_ok db' s"
  unfolding snapshot_ok_def by (auto split: prod.splits)

lemma get_voucher_by_code_Some:
  assumes "get_voucher_by_code c t = Some v"
  shows "v \<in> set t \<and> v_code v = c \<and> \<not> is_deleted v"
proof -
  obtain rs where "get_all (\<lambda>v. v_code v = c) created_at DESC False (Some 1) t = v # rs"
    using assms by (auto simp: get_voucher_by_code_def split: list.splits)
  from get_all_first [OF this] show ?thesis by simp
qed

lemma first_match_Some:
  "first_match cs t = Some v \<Longrightarrow> v \<in> set t \<and> v_code v \<in> set cs \<and> \<not> is_deleted v"
  by (induction cs) (auto split: option.splits dest: get_voucher_by_code_Some)

lemma raise_for_reason_Inr [simp]: "raise_for_reason r st s = (Inr y, s') \<longleftrightarrow> False"
  by (simp add: raise_for_reason_def)

lemma check_phase_Inr:
  assumes "check_phase redis svc clock code source (db, r) = (Inr (v, b), (db', r'))"
  shows "db' = db \<and> v \<in> set (vouchers db) \<and> \<not> is_deleted v \<and> b \<in> set (batches db) \<and> \<not> is_deleted b \<and>
    row_id b = v_batch_id v \<and> b_status b = BATCH_ACTIVE \<and> \<not> is_batch_expired b (clock 0) \<and>
    v_status v \<in> {UNUSED, ACTIVE} \<and> redemption_failure_reason v b (clock 1) = None \<and>
    v_code v \<in> set (voucher_code_lookup_candidates code)"
proof -
  from assms obtain r1 b0 where
    fm: "first_match (voucher_code_lookup_candidates code) (vouchers db) = Some v" and
    gb: "get_by_id False (v_batch_id v) (batches db) = Some b0" and
    rf: "refresh_batch_expiry (clock 0) b0 (db, r1) = (Inr b, (db', r'))" and
    ok: "redemption_failure_reason v b (clock 1) = None"
    by (auto simp: check_phase_def andthen_Inr enforce_redemption_rate_limit_def get_voucher_and_batch_def
        split: option.splits)
  from ok have st: "v_status v \<in> {UNUSED, ACTIVE}" "b_status b = BATCH_ACTIVE"
    by (cases "v_status v"; auto simp: redemption_failure_reason_def split: if_splits)+
  have idle: "\<not> (b_status b0 = BATCH_ACTIVE \<and> is_batch_expired b0 (clock 0))"
  proof
    assume "b_status b0 = BATCH_ACTIVE \<and> is_batch_expired b0 (clock 0)"
    then have "b_status b = BATCH_EXPIRED"
      using rf by (auto simp: refresh_batch_expiry_def update_batch_def andthen_Inr assign_def)
    with st(2) show False by simp
  qed
  then have "b = b0 \<and> db' = db" using rf by (auto simp: refresh_batch_expiry_def)
  with st ok idle first_match_Some [OF fm] get_by_id_Some [OF gb] show ?thesis by auto
qed

lemma check_phase_snapshot:
  assumes "check_phase redis svc clock code source (db, r) = (Inr (v, b), (db', r'))"
  shows "snapshot_ok db (v, b, clock 1)"
  using check_phase_Inr [OF assms] by (auto simp: snapshot_ok_def)


subsection \<open>The write phase\<close>

lemma redeem_values_same [simp]:
  "row_id (redeem_values m now f r) = row_id r"
  "v_code (redeem_values m now f r) = v_code r"
  "v_batch_id (redeem_values m now f r) = v_batch_id r"
  "v_organization_id (redeem_values m now f r) = v_organization_id r"
  "is_deleted (redeem_values m now f r) = is_deleted r"
  "v_use_count (redeem_values m now f r) = v_use_count r + 1"
  "v_status (redeem_values m now f r) = (if m \<le> v_use_count r + 1 then EXHAUSTED else ACTIVE)"
  by (simp_all add: redeem_values_def Let_def split: option.splits)

lemma redeem_phase_Inr:
  assumes "redeem_phase svc now later ident v b (db, x) = (Inr (v', b'), (db', x'))"
  obtains r first_use where "r \<in> set (vouchers db)"
    and "redeem_matches db v (v_status v) (v_use_count v) r"
    and "first_use = (if v_status v = UNUSED
           then Some (now, normalize_redeemed_identifier ident, now + minutes (b_validity_minutes b)) else None)"
    and "vouchers db' = map (\<lambda>r. if redeem_matches db v (v_status v) (v_use_count v) r
           then redeem_values (b_max_uses_per_voucher b) now first_use r else r) (vouchers db)"
    and "batches db' = batches db" and "x' = x"
    and "v' = refresh_row v (vouchers db')"
proof -
  define fu where "fu = (if v_status v = UNUSED
           then Some (now, normalize_redeemed_identifier ident, now + minutes (b_validity_minutes b)) else None)"
  define hit where "hit = redeem_matches db v (v_status v) (v_use_count v)"
  from assms have ex: "list_ex hit (vouchers db)"
    by (auto simp: redeem_phase_def andthen_Inr redeem_voucher_conditionally_def hit_def Let_def
        split: redeem_outcome.splits if_splits option.splits) (metis redeem_outcome.exhaust)
  then obtain r where "r \<in> set (vouchers db)" "hit r" by (auto simp: list_ex_iff)
  moreover from assms ex have "vouchers db' = map (\<lambda>r. if hit r
           then redeem_values (b_max_uses_per_voucher b) now fu r else r) (vouchers db)"
    "batches db' = batches db" "x' = x" "v' = refresh_row v (vouchers db')"
    by (auto simp: redeem_phase_def andthen_Inr redeem_voucher_conditionally_def hit_def [symmetric] fu_def [symmetric]
        Let_def audit_batch_def split: if_splits)
  ultimately show ?thesis using that fu_def unfolding hit_def by blast
qed

lemma redeem_values_wf:
  assumes "uses_ok m d r (v_status r)" and "v_status r \<in> {UNUSED, ACTIVE}" and "1 \<le> m"
    and "v_status r = UNUSED \<longrightarrow> f = Some (now, ident, now + minutes d)"
    and "v_status r = ACTIVE \<longrightarrow> f = None"
  shows "uses_ok m d (redeem_values m now f r) (v_status (redeem_values m now f r))"
  using assms
  by (auto simp: redeem_values_def Let_def dated_def undated_def split: option.splits)

lemma uses_map_one:
  assumes "distinct (map row_id t)" and "r \<in> set t" and "hit r" and "\<And>v. hit v \<Longrightarrow> row_id v = row_id r"
    and "\<And>v. row_id (f v) = row_id v" and "\<And>v. v_use_count (f v) = v_use_count v + 1"
  shows "uses (map (\<lambda>v. if hit v then f v else v) t) i = uses t i + (if i = row_id r then 1 else 0)"
  using assms(1,2)
proof (induction t)
  case (Cons a t)
  let ?g = "\<lambda>v. if hit v then f v else v"
  have cons: "uses (x # xs) i = (if row_id x = i then v_use_count x else 0) + uses xs i" for x xs
    by (simp add: uses_def)
  show ?case
  proof (cases "a = r")
    case True
    have "row_id r \<notin> row_id ` set t" using Cons.prems(1) True by simp
    then have "map ?g t = t" using assms(4) by (intro map_idI) (metis image_eqI)
    with True assms(3,5,6) show ?thesis by (simp add: cons)
  next
    case False
    then have r: "r \<in> set t" using Cons.prems by simp
    then have "row_id a \<noteq> row_id r" using Cons.prems(1) by (metis distinct.simps(2) image_eqI list.simps(9) set_map)
    then have "\<not> hit a" using assms(4) by metis
    with Cons.IH r Cons.prems(1) show ?thesis by (simp add: cons)
  qed
qed simp

lemma terms_functional:
  assumes "db_wf db" and "(i, o1, m1, d1) \<in> batch_terms ` set (batches db)"
    and "(i, o2, m2, d2) \<in> batch_terms ` set (batches db)"
  shows "m1 = m2 \<and> d1 = d2 \<and> 1 \<le> m1"
proof -
  obtain b1 b2 where b: "b1 \<in> set (batches db)" "b2 \<in> set (batches db)"
      "batch_terms b1 = (i, o1, m1, d1)" "batch_terms b2 = (i, o2, m2, d2)"
    using assms(2,3) by (metis imageE)
  then have "b1 = b2" using assms(1) distinct_map_inj [of row_id "batches db" b1 b2]
    by (auto simp: db_wf_def batch_terms_def)
  moreover have "1 \<le> b_max_uses_per_voucher b1" using assms(1) b(1) by (auto simp: db_wf_def list_all_iff)
  ultimately show ?thesis using b by (auto simp: batch_terms_def)
qed

lemma wf_voucher_terms:
  assumes "db_wf db" and "v \<in> set (vouchers db)"
  obtains m d where "(v_batch_id v, v_organization_id v, m, d) \<in> batch_terms ` set (batches db)"
    and "uses_ok m d v (v_status v)"
proof -
  have "voucher_wf (map batch_terms (batches db)) v" using assms by (simp add: db_wf_def list_all_iff)
  then show ?thesis using that unfolding voucher_wf_iff by auto
qed

text \<open>A redemption that commits adds exactly one use to exactly the voucher it checked.\<close>

lemma redeem_commit:
  assumes wf: "db_wf db" and snap: "snapshot_ok db (v, b, now)"
    and run: "redeem_phase svc now later ident v b (db, x) = (Inr (v', b'), (db', x'))"
  shows "db_wf db' \<and> origin ` set (vouchers db') = origin ` set (vouchers db) \<and> batches db' = batches db \<and>
    (\<forall>i. uses (vouchers db') i = uses (vouchers db) i + (if i = row_id v then 1 else 0)) \<and>
    row_id v' = row_id v \<and> vg.tracks (vouchers db) (vouchers db')"
proof (rule redeem_phase_Inr [OF run])
  fix r fu
  assume r: "r \<in> set (vouchers db)" "redeem_matches db v (v_status v) (v_use_count v) r"
    and fu: "fu = (if v_status v = UNUSED
           then Some (now, normalize_redeemed_identifier ident, now + minutes (b_validity_minutes b)) else None)"
    and vs: "vouchers db' = map (\<lambda>r. if redeem_matches db v (v_status v) (v_use_count v) r
           then redeem_values (b_max_uses_per_voucher b) now fu r else r) (vouchers db)"
    and bs: "batches db' = batches db" and v': "v' = refresh_row v (vouchers db')"
  define hit where "hit = redeem_matches db v (v_status v) (v_use_count v)"
  define g where "g = (\<lambda>r. if hit r then redeem_values (b_max_uses_per_voucher b) now fu r else r)"
  have vs': "vouchers db' = map g (vouchers db)" by (simp add: vs g_def hit_def)
  have hit: "row_id q = row_id v \<and> v_status q = v_status v" if "hit q" for q
    using that by (simp add: hit_def redeem_matches_def)
  have st: "v_status v \<in> {UNUSED, ACTIVE}" and bb: "row_id b = v_batch_id v"
    and ov: "origin v \<in> origin ` set (vouchers db)" and tb: "batch_terms b \<in> batch_terms ` set (batches db)"
    using snap by (simp_all add: snapshot_ok_def)
  have same [simp]: "row_id (g q) = row_id q" "v_code (g q) = v_code q" "origin (g q) = origin q" for q
    by (simp_all add: g_def origin_def)
  have batch_q: "v_batch_id q = v_batch_id v" if "hit q" "q \<in> set (vouchers db)" for q
  proof -
    obtain w where w: "w \<in> set (vouchers db)" "origin v = origin w" using ov by auto
    with hit [OF that(1)] that(2) wf have "w = q"
      by (auto simp: origin_def db_wf_def dest: distinct_map_inj)
    with w show ?thesis by (simp add: origin_def)
  qed
  have row: "voucher_wf (map batch_terms (batches db)) (g q)" if q: "q \<in> set (vouchers db)" for q
  proof (cases "hit q")
    case True
    obtain m d where md: "(v_batch_id q, v_organization_id q, m, d) \<in> batch_terms ` set (batches db)"
        "uses_ok m d q (v_status q)"
      using wf_voucher_terms [OF wf q] .
    have "m = b_max_uses_per_voucher b \<and> d = b_validity_minutes b \<and> 1 \<le> m"
      using terms_functional [OF wf md(1)] tb batch_q [OF True q] bb by (auto simp: batch_terms_def)
    then have m: "m = b_max_uses_per_voucher b" and d: "d = b_validity_minutes b" and "1 \<le> m" by simp_all
    have "uses_ok m d (g q) (v_status (g q))"
      using redeem_values_wf [OF md(2) _ \<open>1 \<le> m\<close>, of fu now "normalize_redeemed_identifier ident"]
        hit [OF True] st True by (auto simp: g_def fu m d)
    moreover have "(v_batch_id (g q), v_organization_id (g q), m, d) \<in> set (map batch_terms (batches db))"
      using md(1) by (simp add: g_def)
    ultimately show ?thesis unfolding voucher_wf_iff by blast
  next
    case False
    with wf q show ?thesis by (simp add: g_def db_wf_def list_all_iff)
  qed
  have u: "uses (vouchers db') i = uses (vouchers db) i + (if i = row_id r then 1 else 0)" for i
    unfolding vs' g_def
    by (rule uses_map_one) (use wf r hit in \<open>auto simp: db_wf_def hit_def\<close>)
  have rv: "row_id r = row_id v" using hit r by (simp add: hit_def)
  have "db_wf db'"
    using wf row by (simp add: db_wf_def vs' bs unique_codes_def comp_def list_all_iff)
  moreover have "origin ` set (vouchers db') = origin ` set (vouchers db)" by (simp add: vs' image_image)
  moreover have "row_id v' = row_id v"
    by (auto simp: v' refresh_row_def split: option.splits dest: get_by_id_Some)
  moreover have "vg.tracks (vouchers db) (vouchers db')"
    unfolding vs'
  proof (rule vg.tracks_map)
    show "v_status (g q) = v_status q \<or> v_status (g q) \<in> set (voucher_succs (v_status q))" for q
      using hit [of q] st by (auto simp: g_def)
  qed simp
  ultimately show ?thesis using bs u rv by simp
qed


subsection \<open>The invariant of the world\<close>

definition world_ok :: "'r world \<Rightarrow> bool" where
  "world_ok w \<longleftrightarrow>
     db_wf (tables w) \<and> (\<forall>s \<in> set (in_flight w). snapshot_ok (tables w) s) \<and>
     (\<forall>i. int (count_list (redeemed w) i) = uses (vouchers (tables w)) i)"

lemma world_ok_step:
  assumes "step redis svc get_org get_loc w w'" and ok: "world_ok w"
  shows "world_ok w'"
  using assms(1)
proof cases
  case (check_passes clock code source v b db' r')
  then show ?thesis using ok check_phase_snapshot [OF check_passes(2)] by (auto simp: world_ok_def)
next
  case (check_refuses clock code source e db' r')
  then show ?thesis using ok by (simp add: world_ok_def)
next
  case (redeem_wins v b now later ident v' b' db' r')
  have "db_wf (tables w)" "snapshot_ok (tables w) (v, b, now)"
    using ok redeem_wins(2) by (auto simp: world_ok_def)
  note c = redeem_commit [OF this redeem_wins(3)]
  have "snapshot_ok db' s" if "s \<in> set (in_flight w)" for s
    using ok that c by (auto simp: world_ok_def intro: snapshot_ok_mono)
  with c ok redeem_wins(1) show ?thesis by (auto simp: world_ok_def dest: notin_set_remove1)
next
  case (redeem_loses v b now later ident e db' r')
  then show ?thesis using ok by (auto simp: world_ok_def dest: notin_set_remove1)
next
  case (admin c res db' r')
  have "evolves (tables w) db'" using session_admin_evolves [OF admin(3,2)] .
  then have e: "db_wf db' \<and> uses (vouchers db') = uses (vouchers (tables w)) \<and>
      batch_terms ` set (batches (tables w)) \<subseteq> batch_terms ` set (batches db') \<and>
      origin ` set (vouchers (tables w)) \<subseteq> origin ` set (vouchers db')"
    using ok by (simp add: evolves_def world_ok_def)
  then have "snapshot_ok db' s" if "s \<in> set (in_flight w)" for s
    using ok that by (auto simp: world_ok_def intro: snapshot_ok_mono)
  with e ok admin(1) show ?thesis by (simp add: world_ok_def)
qed

lemma world_ok_empty: "world_ok (empty_world r)"
  by (simp add: world_ok_def empty_world_def db_wf_def unique_codes_def uses_def)

lemma world_ok_reachable: "reachable redis svc get_org get_loc r w \<Longrightarrow> world_ok w"
  unfolding reachable_def
  by (induction rule: rtranclp_induct) (auto intro: world_ok_empty world_ok_step)

lemma wf_voucher_uses:
  assumes "db_wf db" and "v \<in> set (vouchers db)" and "b \<in> set (batches db)" and "row_id b = v_batch_id v"
  shows "uses_ok (b_max_uses_per_voucher b) (b_validity_minutes b) v (v_status v) \<and> 1 \<le> b_max_uses_per_voucher b"
proof -
  obtain m d where md: "(v_batch_id v, v_organization_id v, m, d) \<in> batch_terms ` set (batches db)"
      "uses_ok m d v (v_status v)"
    using wf_voucher_terms [OF assms(1,2)] .
  have "(v_batch_id v, b_organization_id b, b_max_uses_per_voucher b, b_validity_minutes b)
      \<in> batch_terms ` set (batches db)"
    using imageI [OF assms(3), of batch_terms] assms(4) by (simp add: batch_terms_def)
  from terms_functional [OF assms(1) md(1) this] md(2) show ?thesis by simp
qed

lemma uses_ok_bounds: "uses_ok m d v s \<Longrightarrow> 1 \<le> m \<Longrightarrow> 0 \<le> v_use_count v \<and> v_use_count v \<le> m"
  by (cases s) auto


subsection \<open>Success and refusal\<close>

lemma get_voucher_by_code_I:
  assumes "unique_codes t" and "v \<in> set t" and "\<not> is_deleted v"
  shows "get_voucher_by_code (v_code v) t = Some v"
proof (cases "get_voucher_by_code (v_code v) t")
  case None
  then have "get_all (\<lambda>u. v_code u = v_code v) created_at DESC False (Some 1) t = []"
    by (auto simp: get_voucher_by_code_def split: list.splits)
  with assms(2,3) show ?thesis unfolding get_all_first_None by blast
next
  case (Some u)
  with get_voucher_by_code_Some [OF Some] assms have "u = v"
    by (auto simp: unique_codes_def dest: distinct_map_inj)
  with Some show ?thesis by simp
qed

lemma check_phase_I:
  assumes wf: "db_wf db" and v: "v \<in> set (vouchers db)" "\<not> is_deleted v"
    and b: "b \<in> set (batches db)" "\<not> is_deleted b" "row_id b = v_batch_id v"
    and code: "first_match (voucher_code_lookup_candidates code) (vouchers db) = Some v"
    and fresh: "\<not> is_batch_expired b (clock 0)"
    and ok: "redemption_failure_reason v b (clock 1) = None"
    and limit: "VoucherRedemptionRateLimiter_check_and_increment redis source
       (redemption_max_attempts_per_window svc) (redemption_window_minutes svc) r = (Inr (), r')"
  shows "check_phase redis svc clock code source (db, r) = (Inr (v, b), (db, r'))"
proof -
  have "get_by_id False (v_batch_id v) (batches db) = Some b"
    using get_by_id_I [of "batches db" b False] wf b by (simp add: db_wf_def)
  with fresh ok limit code show ?thesis
    by (simp add: check_phase_def andthen_Inr enforce_redemption_rate_limit_def get_voucher_and_batch_def
        refresh_batch_expiry_def)
qed

lemma redeem_phase_I:
  assumes wf: "db_wf db" and v: "v \<in> set (vouchers db)" "\<not> is_deleted v"
    and b: "b \<in> set (batches db)" "\<not> is_deleted b" "row_id b = v_batch_id v" "b_status b = BATCH_ACTIVE"
  shows "\<exists>db'. redeem_phase svc now later ident v b (db, x) =
      (Inr (redeem_values (b_max_uses_per_voucher b) now
              (if v_status v = UNUSED
               then Some (now, normalize_redeemed_identifier ident, now + minutes (b_validity_minutes b)) else None) v,
            b), (db', x)) \<and>
      vouchers db' = map (\<lambda>q. if row_id q = row_id v then redeem_values (b_max_uses_per_voucher b) now
              (if v_status v = UNUSED
               then Some (now, normalize_redeemed_identifier ident, now + minutes (b_validity_minutes b)) else None) q
            else q) (vouchers db) \<and>
      batches db' = batches db"
proof -
  define fu where "fu = (if v_status v = UNUSED
      then Some (now, normalize_redeemed_identifier ident, now + minutes (b_validity_minutes b)) else None)"
  define hit where "hit = redeem_matches db v (v_status v) (v_use_count v)"
  define t where "t = map (\<lambda>q. if row_id q = row_id v then redeem_values (b_max_uses_per_voucher b) now fu q else q)
      (vouchers db)"
  have hit_iff: "hit q \<longleftrightarrow> row_id q = row_id v" if "q \<in> set (vouchers db)" for q
  proof
    assume "row_id q = row_id v"
    then have "q = v" using wf v(1) that distinct_map_inj [of row_id "vouchers db" q v] by (simp add: db_wf_def)
    moreover have "v_batch_id v \<in> set (map row_id (filter (\<lambda>b. b_status b = BATCH_ACTIVE \<and> \<not> is_deleted b) (batches db)))"
      using b by auto (metis (mono_tags, lifting) image_eqI mem_Collect_eq)
    ultimately show "hit q" using v(2) by (simp add: hit_def redeem_matches_def)
  qed (simp add: hit_def redeem_matches_def)
  have rows: "map (\<lambda>r. if hit r then redeem_values (b_max_uses_per_voucher b) now fu r else r) (vouchers db) = t"
    unfolding t_def by (rule map_cong) (simp_all add: hit_iff)
  have ex: "list_ex hit (vouchers db)" using v(1) hit_iff by (auto simp: list_ex_iff)
  have ids: "map row_id t = map row_id (vouchers db)" by (simp add: t_def comp_def if_distrib cong: if_cong)
  have "redeem_values (b_max_uses_per_voucher b) now fu v \<in> set t" using v(1) by (auto simp: t_def)
  moreover have "distinct (map row_id t)" using wf ids by (simp add: db_wf_def)
  ultimately have "get_by_id True (row_id v) t = Some (redeem_values (b_max_uses_per_voucher b) now fu v)"
    using get_by_id_I [of t "redeem_values (b_max_uses_per_voucher b) now fu v" True] by simp
  then have won: "redeem_voucher_conditionally v b (v_status v) (v_use_count v) (b_max_uses_per_voucher b) now fu (db, x)
      = (Inr (Won (redeem_values (b_max_uses_per_voucher b) now fu v)), (db\<lparr>vouchers := t\<rparr>, x))"
    using ex rows by (simp add: redeem_voucher_conditionally_def hit_def [symmetric] Let_def refresh_row_def)
  show ?thesis
    unfolding redeem_phase_def fu_def [symmetric] Let_def andthen_Inr
    using won by (auto simp: audit_batch_def t_def andthen_Inr)
qed

lemma filter_map_others:
  "(\<And>q. row_id (f q) = row_id q) \<Longrightarrow>
   filter (\<lambda>q. row_id q \<noteq> i) (map (\<lambda>q. if row_id q = i then f q else q) t) = filter (\<lambda>q. row_id q \<noteq> i) t"
  by (induction t) auto

text \<open>After a redemption committed, no other request's snapshot of the same use matches.\<close>

lemma redeem_phase_stale:
  assumes "\<forall>q \<in> set (vouchers db). row_id q = row_id v \<longrightarrow> v_use_count q \<noteq> v_use_count v"
  shows "\<exists>e db'. redeem_phase svc now later ident v b (db, x) = (Inl e, (db', x)) \<and>
    e \<in> {VoucherRevokedError, VoucherExhaustedError, VoucherExpiredError} \<union> range VoucherBatchNotActiveError \<and>
    (v_status (refresh_row v (vouchers db)) = EXHAUSTED \<longrightarrow> e = VoucherExhaustedError)"
proof -
  have no: "\<not> list_ex (redeem_matches db v (v_status v) (v_use_count v)) (vouchers db)"
    using assms by (auto simp: list_ex_iff redeem_matches_def)
  define v' where "v' = refresh_row v (vouchers db)"
  define b' where "b' = refresh_row b (batches db)"
  define reason where "reason = (case redemption_failure_reason v' b' later of None \<Rightarrow> ''exhausted'' | Some r \<Rightarrow> r)"
  have run: "redeem_phase svc now later ident v b (db, x) =
      andthen (record_redemption_failure svc (Some v') reason) (\<lambda>_. raise_for_reason reason (b_status b')) (db, x)"
    using no
    by (simp add: redeem_phase_def redeem_voucher_conditionally_def Let_def v'_def b'_def reason_def andthen_def)
  have "\<exists>db'. record_redemption_failure svc (Some v') reason (db, x) = (Inr (), (db', x))"
    by (cases "reason \<in> set AUDITED_FAILURE_REASONS") (simp_all add: record_redemption_failure_def)
  then obtain db' where rec: "record_redemption_failure svc (Some v') reason (db, x) = (Inr (), (db', x))" ..
  have "v_status v' = EXHAUSTED \<longrightarrow> reason = ''exhausted''"
    by (simp add: reason_def redemption_failure_reason_def)
  then show ?thesis
    unfolding run using rec by (auto simp: andthen_Inl raise_for_reason_def v'_def [symmetric])
qed


section \<open>Properties\<close>

text \<open>
  C1. No voucher is redeemed more often than it may be, whatever the interleaving. In
  every state the system can reach from an empty installation by any interleaving of
  redemption checks, redemption writes and administrative requests, the number of
  committed redemptions of a voucher equals its stored \<open>use_count\<close> and is at most the
  \<open>max_uses_per_voucher\<close> of its batch (so a single-use code is redeemed at most once).
\<close>

theorem redemptions_within_limit:
  assumes "reachable redis svc get_org get_loc r w"
    and "v \<in> set (vouchers (tables w))" and "b \<in> set (batches (tables w))" and "row_id b = v_batch_id v"
  shows "int (count_list (redeemed w) (row_id v)) = v_use_count v \<and>
    v_use_count v \<le> b_max_uses_per_voucher b \<and>
    (v_status v = EXHAUSTED \<longleftrightarrow> v_use_count v = b_max_uses_per_voucher b)"
proof -
  have ok: "db_wf (tables w)" and log: "int (count_list (redeemed w) (row_id v)) = uses (vouchers (tables w)) (row_id v)"
    using world_ok_reachable [OF assms(1)] by (simp_all add: world_ok_def)
  have "uses (vouchers (tables w)) (row_id v) = v_use_count v"
    using ok assms(2) by (intro uses_at) (simp_all add: db_wf_def)
  moreover note u = wf_voucher_uses [OF ok assms(2-4)]
  moreover have "v_status v = EXHAUSTED \<longleftrightarrow> v_use_count v = b_max_uses_per_voucher b"
    using u by (cases "v_status v") auto
  ultimately show ?thesis using log uses_ok_bounds by auto
qed


text \<open>
  A history for the witnesses: an organization with one batch holding one single-use
  voucher \<open>WIFIADGK\<close>, and two requests that both pass the check before either writes. The
  Redis server here always answers that the window is fresh.
\<close>

definition quiet_ops :: "unit redis_ops" where
  "quiet_ops = \<lparr>incr = (\<lambda>k r. (1, r)), expire = (\<lambda>k n r. r), ttl = (\<lambda>k r. 0)\<rparr>"

definition ex_svc :: voucher_service where
  "ex_svc = \<lparr>audit_writer = False, caller_location_scope = None,
             redemption_max_attempts_per_window = 10, redemption_window_minutes = 15\<rparr>"

definition ex_fields :: batch_fields where
  "ex_fields =
     \<lparr>bf_organization_id = ''o'', bf_location_id = None, bf_name = ''lobby'', bf_quantity = 1,
      bf_code_length = 4, bf_code_prefix = Some ''WIFI'', bf_validity_minutes = 60,
      bf_batch_expires_at = None, bf_max_uses_per_voucher = 1, bf_data_limit_mb = None, bf_notes = None,
      bf_has_manage_permission = True, bf_plan_id = None, bf_series_id = None,
      bf_session_timeout_minutes = None\<rparr>"

definition ex_create :: admin_command where
  "ex_create = CreateBatch (\<lambda>n. replicate n (CHR ''i'')) (\<lambda>n. 3 * n) (\<lambda>n. int n) None (Some ''o'') ex_fields"

definition ex_batch :: voucher_batch where
  "ex_batch = (new_batch [] 0 None ''o'' ex_fields)
     \<lparr>b_status := BATCH_ACTIVE, b_approved_at := Some 3, version := 4, updated_at := 3\<rparr>"

definition ex_voucher :: voucher where
  "ex_voucher = new_voucher ''i'' 1 None ex_batch ''WIFIADGK''"

definition ex_redeemed :: voucher where
  "ex_redeemed = redeem_values 1 101 (Some (101, ''guest'', 101 + minutes 60)) ex_voucher"

definition ex_tables :: "voucher list \<Rightarrow> voucher_db" where
  "ex_tables vs = \<lparr>plans = [], series = [], batches = [ex_batch], vouchers = vs, audit_log = []\<rparr>"

lemma ex_created:
  "with_db_session (run_admin ex_svc Some (\<lambda>_ _. True) ex_create) (tables (empty_world ()), ()) =
   (Inr (), (ex_tables [ex_voucher], ()))"
  by code_simp

lemma ex_checks:
  "check_phase quiet_ops ex_svc (\<lambda>n. 100 + int n) ''wifi-adgk'' ''10.0.0.7'' (ex_tables [ex_voucher], ()) =
   (Inr (ex_voucher, ex_batch), (ex_tables [ex_voucher], ()))"
  by code_simp

lemma ex_redeems:
  "redeem_phase ex_svc 101 200 ''guest '' ex_voucher ex_batch (ex_tables [ex_voucher], ()) =
   (Inr (ex_redeemed, ex_batch), (ex_tables [ex_redeemed], ()))"
  by code_simp

definition ex_world :: "voucher list \<Rightarrow> nat \<Rightarrow> uuid list \<Rightarrow> unit world" where
  "ex_world vs n won =
     \<lparr>tables = ex_tables vs, store = (), in_flight = replicate n (ex_voucher, ex_batch, 101), redeemed = won\<rparr>"

lemma ex_reachable: "reachable quiet_ops ex_svc Some (\<lambda>_ _. True) () (ex_world [ex_redeemed] 1 [''i''])"
proof -
  let ?step = "step quiet_ops ex_svc Some (\<lambda>_ _. True)"
  have 1: "?step (empty_world ()) (ex_world [ex_voucher] 0 [])"
    using step.admin [of ex_create ex_svc Some "\<lambda>_ _. True" "empty_world ()"] ex_created
    by (simp add: ex_world_def empty_world_def ex_create_def ex_fields_def)
  have check: "?step (ex_world [ex_voucher] n []) (ex_world [ex_voucher] (Suc n) [])" for n
    using step.check_passes [of quiet_ops ex_svc "\<lambda>n. 100 + int n" "''wifi-adgk''" "''10.0.0.7''"
        "ex_world [ex_voucher] n []"] ex_checks
    by (simp add: ex_world_def replicate_append_same)
  have id: "row_id ex_redeemed = ''i''" by (simp add: ex_redeemed_def ex_voucher_def)
  have 4: "?step (ex_world [ex_voucher] 2 []) (ex_world [ex_redeemed] 1 [''i''])"
    using step.redeem_wins [of ex_voucher ex_batch 101 "ex_world [ex_voucher] 2 []" ex_svc 200 "''guest ''"
        ex_redeemed ex_batch "ex_tables [ex_redeemed]" "()" quiet_ops Some "\<lambda>_ _. True"] ex_redeems
    by (simp add: ex_world_def numeral_2_eq_2 id)
  have "(?step)\<^sup>*\<^sup>* (empty_world ()) (ex_world [ex_voucher] 2 [])"
    using 1 check [of 0] check [of 1] by (simp add: numeral_2_eq_2)
  with 4 show ?thesis unfolding reachable_def by simp
qed

theorem redemptions_within_limit_witness:
  "int (count_list [''i''] (row_id ex_redeemed)) = 1 \<and> v_use_count ex_redeemed = 1 \<and> v_status ex_redeemed = EXHAUSTED"
  using redemptions_within_limit [OF ex_reachable, of ex_redeemed ex_batch]
  by (simp add: ex_world_def ex_tables_def ex_redeemed_def ex_voucher_def ex_batch_def ex_fields_def)

text \<open>
  One winner per use. Two requests that validated the same state of a voucher cannot
  both succeed: once the first has committed, the second (with whatever batch row and
  at whatever time) raises, with one of the four documented errors, and with
  \<open>VoucherExhaustedError\<close> when the first took the last use.
\<close>

theorem second_redeemer_refused:
  assumes "db_wf db" and "snapshot_ok db (v, b, now)"
    and "redeem_phase svc now later ident v b (db, x) = (Inr (v', b'), (db', x'))"
  shows "\<exists>e db2. redeem_phase svc now2 later2 ident2 v b2 (db', x') = (Inl e, (db2, x')) \<and>
    e \<in> {VoucherRevokedError, VoucherExhaustedError, VoucherExpiredError} \<union> range VoucherBatchNotActiveError \<and>
    (b_max_uses_per_voucher b \<le> v_use_count v + 1 \<longrightarrow> e = VoucherExhaustedError)"
proof (rule redeem_phase_Inr [OF assms(3)])
  fix r fu
  assume r: "r \<in> set (vouchers db)" "redeem_matches db v (v_status v) (v_use_count v) r"
    and vs: "vouchers db' = map (\<lambda>r. if redeem_matches db v (v_status v) (v_use_count v) r
           then redeem_values (b_max_uses_per_voucher b) now fu r else r) (vouchers db)"
  have only: "redeem_matches db v (v_status v) (v_use_count v) q" if "q \<in> set (vouchers db)" "row_id q = row_id v" for q
  proof -
    have "q = r" using that r assms(1) distinct_map_inj [of row_id "vouchers db" q r]
      by (simp add: db_wf_def redeem_matches_def)
    with r show ?thesis by simp
  qed
  have adv: "v_use_count q = v_use_count v + 1 \<and>
      (b_max_uses_per_voucher b \<le> v_use_count v + 1 \<longrightarrow> v_status q = EXHAUSTED)"
    if "q \<in> set (vouchers db')" "row_id q = row_id v" for q
    using that only unfolding vs by (auto simp: redeem_matches_def split: if_splits)
  have "refresh_row v (vouchers db') \<in> set (vouchers db') \<and> row_id (refresh_row v (vouchers db')) = row_id v"
  proof -
    have "redeem_values (b_max_uses_per_voucher b) now fu r \<in> set (vouchers db')"
      unfolding vs using r by force
    moreover have "distinct (map row_id (vouchers db'))"
      using redeem_commit [OF assms] by (simp add: db_wf_def)
    moreover have "row_id r = row_id v" using r(2) by (simp add: redeem_matches_def)
    ultimately show ?thesis
      using get_by_id_I [of "vouchers db'" "redeem_values (b_max_uses_per_voucher b) now fu r" True]
      by (simp add: refresh_row_def)
  qed
  with adv redeem_phase_stale [of db' v svc now2 later2 ident2 b2 x'] show ?thesis by force
qed

theorem second_redeemer_refused_witness:
  "\<exists>e db2. redeem_phase ex_svc 150 160 ''rival'' ex_voucher ex_batch (ex_tables [ex_redeemed], ()) = (Inl e, (db2, ())) \<and>
    e = VoucherExhaustedError"
proof -
  have "db_wf (ex_tables [ex_voucher])" and "snapshot_ok (ex_tables [ex_voucher]) (ex_voucher, ex_batch, 101)"
    by (simp_all add: db_wf_def ex_tables_def unique_codes_def voucher_wf_def batch_terms_def ex_batch_def
        ex_voucher_def undated_def ex_fields_def snapshot_ok_def)
  from second_redeemer_refused [OF this ex_redeems, of 150 160 "''rival''" ex_batch] show ?thesis
    by (auto simp: ex_batch_def ex_voucher_def ex_fields_def)
qed

text \<open>
  A good voucher is redeemed. If the rate limiter admits the caller, the code resolves
  to an undeleted voucher that is unused, or active and not past its expiry, and its
  batch is active, undeleted and not past its expiry, then \<open>redeem_voucher\<close> returns. The
  stored row counts one more use, is \<open>EXHAUSTED\<close> exactly when that was the last one, and
  on the first use carries the redemption time, the stripped identifier and an expiry
  \<open>validity_minutes\<close> later; every other voucher is untouched.
\<close>

theorem redeem_voucher_succeeds:
  assumes "db_wf db" and "v \<in> set (vouchers db)" and "\<not> is_deleted v"
    and "b \<in> set (batches db)" and "\<not> is_deleted b" and "row_id b = v_batch_id v"
    and "first_match (voucher_code_lookup_candidates code) (vouchers db) = Some v"
    and "b_status b = BATCH_ACTIVE" and "\<not> is_batch_expired b (clock 0)"
    and "v_status v = UNUSED \<or> v_status v = ACTIVE \<and> \<not> is_post_redemption_expired v (clock 1)"
    and "VoucherRedemptionRateLimiter_check_and_increment redis source
       (redemption_max_attempts_per_window svc) (redemption_window_minutes svc) r = (Inr (), r')"
  shows "\<exists>v' db'. redeem_voucher redis svc clock code identifier source (db, r) = (Inr (v', b), (db', r')) \<and>
    v' \<in> set (vouchers db') \<and> row_id v' = row_id v \<and> v_use_count v' = v_use_count v + 1 \<and>
    v_status v' = (if b_max_uses_per_voucher b \<le> v_use_count v + 1 then EXHAUSTED else ACTIVE) \<and>
    (v_status v = UNUSED \<longrightarrow> v_redeemed_at v' = Some (clock 1) \<and>
       v_redeemed_identifier v' = Some (py_strip identifier) \<and>
       v_expires_at v' = Some (clock 1 + minutes (b_validity_minutes b))) \<and>
    filter (\<lambda>q. row_id q \<noteq> row_id v) (vouchers db') = filter (\<lambda>q. row_id q \<noteq> row_id v) (vouchers db)"
proof -
  have ok: "redemption_failure_reason v b (clock 1) = None"
    using assms(8,10) by (auto simp: redemption_failure_reason_def)
  define v' where "v' = redeem_values (b_max_uses_per_voucher b) (clock 1)
      (if v_status v = UNUSED then Some (clock 1, normalize_redeemed_identifier identifier,
         clock 1 + minutes (b_validity_minutes b)) else None) v"
  obtain db' where run: "redeem_phase svc (clock 1) (clock 2) identifier v b (db, r') = (Inr (v', b), (db', r'))"
    and rows: "vouchers db' = map (\<lambda>q. if row_id q = row_id v then redeem_values (b_max_uses_per_voucher b) (clock 1)
      (if v_status v = UNUSED then Some (clock 1, normalize_redeemed_identifier identifier,
         clock 1 + minutes (b_validity_minutes b)) else None) q else q) (vouchers db)"
    using redeem_phase_I [OF assms(1-6,8), where svc = svc and now = "clock 1" and later = "clock 2"
        and ident = "identifier" and x = r'] v'_def by blast
  have "redeem_voucher redis svc clock code identifier source (db, r) = (Inr (v', b), (db', r'))"
    using check_phase_I [OF assms(1-7,9) ok assms(11)] run by (simp add: redeem_voucher_def andthen_Inr)
  moreover have "v' \<in> set (vouchers db')" using assms(2) by (auto simp: rows v'_def)
  moreover have "filter (\<lambda>q. row_id q \<noteq> row_id v) (vouchers db') = filter (\<lambda>q. row_id q \<noteq> row_id v) (vouchers db)"
    unfolding rows by (rule filter_map_others) simp
  ultimately show ?thesis
    by (auto simp: v'_def redeem_values_def Let_def normalize_redeemed_identifier_def)
qed

theorem redeem_voucher_succeeds_witness:
  "\<exists>v' db'. redeem_voucher quiet_ops ex_svc (\<lambda>n. 100 + int n) '' wifi-adgk'' ''guest '' ''ip'' (ex_tables [ex_voucher], ()) =
     (Inr (v', ex_batch), (db', ())) \<and> v_status v' = EXHAUSTED \<and> v_redeemed_identifier v' = Some (py_strip ''guest '')"
proof -
  have f: "first_match (voucher_code_lookup_candidates '' wifi-adgk'') (vouchers (ex_tables [ex_voucher])) = Some ex_voucher"
    and c: "VoucherRedemptionRateLimiter_check_and_increment quiet_ops ''ip''
       (redemption_max_attempts_per_window ex_svc) (redemption_window_minutes ex_svc) () = (Inr (), ())"
    by code_simp+
  have w: "db_wf (ex_tables [ex_voucher])"
    by (simp add: db_wf_def ex_tables_def unique_codes_def voucher_wf_def batch_terms_def ex_batch_def
        ex_voucher_def undated_def ex_fields_def)
  have v: "ex_voucher \<in> set (vouchers (ex_tables [ex_voucher]))" "\<not> is_deleted ex_voucher"
      "v_status ex_voucher = UNUSED" "v_use_count ex_voucher = 0"
    and b: "ex_batch \<in> set (batches (ex_tables [ex_voucher]))" "\<not> is_deleted ex_batch"
      "row_id ex_batch = v_batch_id ex_voucher" "b_status ex_batch = BATCH_ACTIVE"
      "b_max_uses_per_voucher ex_batch = 1" "b_expires_at ex_batch = None"
    by (simp_all add: ex_tables_def ex_voucher_def ex_batch_def ex_fields_def new_batch_def voucher_batch.defs
        base_model.defs new_base_def)
  have e: "\<not> is_batch_expired ex_batch (100 + int 0)" using b(6) by (simp add: is_batch_expired_def)
  from redeem_voucher_succeeds [where clock = "\<lambda>n. 100 + int n", OF w v(1,2) b(1-3) f b(4) e _ c, of "''guest ''"]
  show ?thesis using v(3,4) b(5) by auto
qed

end
