(* ===== verification/VoucherAdmin.thy ===== *)
theory VoucherAdmin
  imports VoucherRace
begin

section \<open>Issuing, importing, revoking and looking up vouchers\<close>

text \<open>
  The functional properties of the administrative operations and of the code lookup,
  over the invariant of \<open>VoucherLifecycle\<close>.
\<close>

subsection \<open>Statements that leave a table alone\<close>

definition vouchers_are :: "voucher list \<Rightarrow> voucher_db \<Rightarrow> bool" where
  "vouchers_are V db \<longleftrightarrow> vouchers db = V"

lemma update_batch_vouchers [intro!]: "preserves (\<lambda>s. vouchers_are V (fst s)) (update_batch now data b)"
  unfolding update_batch_def
  by (intro preserves_andthen preserves_modifies_db preserves_ret) (simp add: vouchers_are_def)

lemma write_audit_vouchers [intro!]: "preserves (\<lambda>s. vouchers_are V (fst s)) (write_audit svc e)"
  unfolding write_audit_def
  by (intro preserves_if preserves_modifies_db preserves_ret) (simp add: vouchers_are_def)

lemma audit_batch_vouchers [intro!]: "preserves (\<lambda>s. vouchers_are V (fst s)) (audit_batch svc a1 a2 b a3 a4 a5)"
  unfolding audit_batch_def by (rule write_audit_vouchers)

lemma refresh_batch_expiry_vouchers [intro!]:
  "preserves (\<lambda>s. vouchers_are V (fst s)) (refresh_batch_expiry now b)"
  unfolding refresh_batch_expiry_def by (intro preserves_if update_batch_vouchers preserves_ret)

lemma submit_batch_vouchers: "preserves (\<lambda>s. vouchers_are V (fst s)) (submit_batch now b actor)"
  unfolding submit_batch_def by (intro preserves_andthen preserves_lift update_batch_vouchers)

lemma approve_vouchers: "preserves (\<lambda>s. vouchers_are V (fst s)) (approve_and_activate svc now b actor)"
  unfolding approve_and_activate_def
  by (intro preserves_andthen preserves_lift update_batch_vouchers audit_batch_vouchers preserves_ret)

lemma get_batch_vouchers: "preserves (\<lambda>s. vouchers_are V (fst s)) (get_batch svc now i req)"
  unfolding get_batch_def
  by (intro preserves_andthen preserves_reads_db preserves_orelse preserves_guard preserves_lift
      refresh_batch_expiry_vouchers)

lemma vouchers_unchanged:
  assumes "\<And>V. preserves (\<lambda>s. vouchers_are V (fst s)) m" and "m (db, x) = (r, (db', x'))"
  shows "vouchers db' = vouchers db"
  using preservesD [OF assms(1) [of "vouchers db"] _ assms(2)] by (simp add: vouchers_are_def)


subsection \<open>The import scan\<close>

lemma import_scan_props:
  assumes "import_scan seen codes = (cs, rej)"
  shows "length cs + length rej = length codes \<and> distinct cs \<and> set cs \<inter> set seen = {} \<and> [] \<notin> set cs \<and>
    set cs \<subseteq> normalize_voucher_code ` set codes \<and>
    (\<forall>raw \<in> set codes. normalize_voucher_code raw \<noteq> [] \<longrightarrow> normalize_voucher_code raw \<in> set cs \<union> set seen)"
  using assms
proof (induction seen codes arbitrary: cs rej rule: import_scan.induct)
  case (2 seen raw rest)
  define code where "code = normalize_voucher_code raw"
  consider (empty) "code = []" | (dup) "code \<noteq> []" "code \<in> set seen" | (new) "code \<noteq> []" "code \<notin> set seen"
    by blast
  then show ?case
  proof cases
    case empty
    then obtain cs' rej' where "import_scan seen rest = (cs', rej')" by fastforce
    with "2.IH"(1) [OF code_def empty] "2.prems" empty show ?thesis
      by (auto simp: code_def [symmetric])
  next
    case dup
    then obtain cs' rej' where "import_scan seen rest = (cs', rej')" by fastforce
    with "2.IH"(2) [OF code_def dup] "2.prems" dup show ?thesis
      by (auto simp: code_def [symmetric])
  next
    case new
    then obtain cs' rej' where "import_scan (code # seen) rest = (cs', rej')" by fastforce
    with "2.IH"(3) [OF code_def new] "2.prems" new show ?thesis
      by (auto simp: code_def [symmetric])
  qed
qed simp


subsection \<open>Code lookup\<close>

lemma candidates_upper: "c \<in> set (voucher_code_lookup_candidates typed) \<Longrightarrow> py_upper c = c"
proof -
  have f: "py_upper (filter P (py_upper s)) = filter P (py_upper s)" for P s
    by (induction s) (auto simp: py_upper_def)
  assume "c \<in> set (voucher_code_lookup_candidates typed)"
  then show ?thesis
    using f [of "\<lambda>c. \<not> is_code_separator c" "py_strip typed"]
    by (auto simp: voucher_code_lookup_candidates_def normalize_voucher_code_def Let_def split: if_splits)
qed

lemma get_voucher_by_code_None:
  "get_voucher_by_code c t = None \<longleftrightarrow> (\<forall>v \<in> set t. v_code v = c \<longrightarrow> is_deleted v)"
proof -
  have "get_voucher_by_code c t = None \<longleftrightarrow> get_all (\<lambda>v. v_code v = c) created_at DESC False (Some 1) t = []"
    by (auto simp: get_voucher_by_code_def split: list.splits)
  then show ?thesis unfolding get_all_first_None by simp
qed


section \<open>Properties\<close>

lemma ex_wf: "db_wf (ex_tables [ex_voucher])"
  by (simp add: db_wf_def ex_tables_def unique_codes_def voucher_wf_def batch_terms_def ex_batch_def
      ex_voucher_def undated_def ex_fields_def)

text \<open>
  The administrative operations keep the books. After any history of plan, series and
  batch creation, approval, revocation, import and listing requests, each committed or
  rolled back, the tables are still well formed, no redemption was added or lost, and
  every batch is still there with the terms it was created with and, once expired or
  revoked, with the same status.
\<close>

theorem admin_history_invariant:
  assumes "db_wf db" and "list_all admin_valid cs"
    and "fst (run_history svc get_org get_loc cs (db, x)) = db'"
  shows "db_wf db' \<and> uses (vouchers db') = uses (vouchers db) \<and>
    (\<forall>b \<in> set (batches db). \<exists>b' \<in> set (batches db'). batch_terms b' = batch_terms b \<and>
       (b_status b \<in> {BATCH_EXPIRED, BATCH_REVOKED} \<longrightarrow> b_status b' = b_status b))"
proof -
  have "evolves db db'" using run_history_evolves [OF assms(2), of "(db, x)"] assms(3) by force
  then have e: "db_wf db'" "uses (vouchers db') = uses (vouchers db)"
    "batch_terms ` set (batches db) \<subseteq> batch_terms ` set (batches db')" "bg.tracks (batches db) (batches db')"
    using assms(1) by (simp_all add: evolves_def)
  have "\<exists>b' \<in> set (batches db'). batch_terms b' = batch_terms b \<and>
       (b_status b \<in> {BATCH_EXPIRED, BATCH_REVOKED} \<longrightarrow> b_status b' = b_status b)" if b: "b \<in> set (batches db)" for b
  proof -
    from e(3) b obtain b' where b': "b' \<in> set (batches db')" "batch_terms b' = batch_terms b"
      by (metis imageE imageI subsetD)
    then have "row_id b' = row_id b" by (simp add: batch_terms_def)
    with bg.final_stays [OF e(4) b _ _ b'(1)] e(1) b' show ?thesis by (auto simp: db_wf_def)
  qed
  with e show ?thesis by blast
qed

theorem admin_history_invariant_witness:
  "db_wf (fst (run_history ex_svc Some (\<lambda>_ _. True) [RevokeBatch int [] None None None, ex_create]
     (ex_tables [ex_voucher], ())))"
proof -
  have "list_all admin_valid [RevokeBatch int [] None None None, ex_create]"
    by (simp add: ex_create_def ex_fields_def)
  then show ?thesis by (rule conjunct1 [OF admin_history_invariant [OF ex_wf _ refl]])
qed

text \<open>
  A batch is issued in full. When \<open>create_batch\<close> returns, exactly \<open>quantity\<close> vouchers were
  appended, with different codes, none of which any earlier voucher (soft-deleted ones
  included) has, each the prefix followed by \<open>code_length\<close> symbols of the code alphabet;
  all are unused vouchers of the new batch, which is active for a caller with the manage
  permission and awaits approval otherwise.
\<close>

theorem create_batch_issues:
  assumes "create_batch svc get_org get_loc ids tape clock actor req a (db, x) = (Inr r, (db', x'))"
    and "0 \<le> bf_quantity a"
  shows "\<exists>new. vouchers db' = vouchers db @ new \<and> int (length new) = bf_quantity a \<and>
    distinct (map v_code new) \<and> v_code ` set new \<inter> v_code ` set (vouchers db) = {} \<and>
    (\<forall>v \<in> set new. well_formed_code (bf_code_length a) (bf_code_prefix a) (v_code v) \<and>
       v_status v = UNUSED \<and> v_batch_id v = row_id r) \<and>
    r \<in> set (batches db') \<and> row_id r = ids 0 \<and>
    b_status r = (if bf_has_manage_permission a then BATCH_ACTIVE else PENDING_APPROVAL)"
proof (rule create_batch_runs [OF assms(1)])
  fix o' b t d2 x2 d3 x3 d4 x4 b4
  assume b: "b = new_batch (ids 0) (clock 0) actor o' a"
    and c: "create_row (\<lambda>_. True) b (batches db) = Inr t"
    and d2: "batches d2 = t" "vouchers d2 = vouchers db"
    and gen: "(if 0 < bf_quantity a
                 then andthen (generate_codes tape (bf_quantity a) (bf_code_length a) (bf_code_prefix a)) (\<lambda>codes.
                      andthen (bulk_create_vouchers (new_vouchers (\<lambda>i. ids (Suc i)) (clock 1) actor b codes)) (\<lambda>_.
                      ret ()))
                 else ret ()) (d2, x2) = (Inr (), (d3, x3))"
    and sub: "submit_batch (clock 2) b actor (d3, x3) = (Inr b4, (d4, x4))"
    and fin: "(if bf_has_manage_permission a then approve_and_activate svc (clock 3) b4 actor else ret b4) (d4, x4)
            = (Inr r, (db', x'))"
  have "\<exists>codes. codes_ok (vouchers db) (bf_quantity a) (bf_code_length a) (bf_code_prefix a) codes \<and>
      int (length codes) = bf_quantity a \<and> batches d3 = batches d2 \<and>
      vouchers d3 = vouchers db @ new_vouchers (\<lambda>i. ids (Suc i)) (clock 1) actor b codes"
  proof (cases "0 < bf_quantity a")
    case True
    with gen obtain codes d x1 rows where
      g: "generate_codes tape (bf_quantity a) (bf_code_length a) (bf_code_prefix a) (d2, x2) = (Inr codes, (d, x1))" and
      s: "bulk_create_vouchers (new_vouchers (\<lambda>i. ids (Suc i)) (clock 1) actor b codes) (d, x1) = (Inr rows, (d3, x3))"
      by (auto simp: andthen_Inr)
    from generate_codes_Inr [OF g] True s d2 show ?thesis by (auto simp: bulk_create_vouchers_Inr)
  next
    case False
    then show ?thesis using gen d2 assms(2)
      by (intro exI [of _ "[]"]) (auto simp: codes_ok_def new_vouchers_def)
  qed
  then obtain codes where ok: "codes_ok (vouchers db) (bf_quantity a) (bf_code_length a) (bf_code_prefix a) codes"
    and len: "int (length codes) = bf_quantity a" and d3: "batches d3 = batches d2"
    and vs: "vouchers d3 = vouchers db @ new_vouchers (\<lambda>i. ids (Suc i)) (clock 1) actor b codes"
    by blast
  define new where "new = new_vouchers (\<lambda>i. ids (Suc i)) (clock 1) actor b codes"
  have "b \<in> set (batches d3)" using c d2 d3 by (auto simp: create_row_Inr)
  note sb = submit_batch_evolves [OF sub this]
  have ids: "row_id b4 = row_id b"
    using sub by (auto simp: submit_batch_def andthen_Inr update_batch_def)
  have v4: "vouchers d4 = vouchers d3" by (rule vouchers_unchanged [OF submit_batch_vouchers sub])
  have fin': "r \<in> set (batches db') \<and> row_id r = row_id b4 \<and> vouchers db' = vouchers d4 \<and>
      b_status r = (if bf_has_manage_permission a then BATCH_ACTIVE else PENDING_APPROVAL)"
  proof (cases "bf_has_manage_permission a")
    case True
    then have ap: "approve_and_activate svc (clock 3) b4 actor (d4, x4) = (Inr r, (db', x'))" using fin by simp
    have "row_id r = row_id b4"
      using ap by (auto simp: approve_and_activate_def andthen_Inr update_batch_def)
    with approve_and_activate_evolves [OF ap] sb vouchers_unchanged [OF approve_vouchers ap] True show ?thesis
      by simp
  next
    case False
    with fin sb show ?thesis by auto
  qed
  have codes: "map v_code new = codes" by (simp add: new_def)
  have len': "length new = length codes" by (simp add: new_def new_vouchers_def)
  have all: "\<forall>v \<in> set new. v_code v \<in> set codes \<and> v_status v = UNUSED \<and> v_batch_id v = row_id b"
    unfolding new_def by (auto elim: in_new_vouchers)
  have dis: "v_code ` set new \<inter> v_code ` set (vouchers db) = {}"
    using ok codes unfolding codes_ok_def by (metis set_map)
  have stored: "vouchers db' = vouchers db @ new" using fin' v4 vs by (simp only: new_def)
  have bid: "row_id b = ids 0" by (simp add: b)
  show ?thesis
  proof (intro exI [of _ new] conjI ballI)
    show "distinct (map v_code new)" using ok by (simp add: codes codes_ok_def)
    show "well_formed_code (bf_code_length a) (bf_code_prefix a) (v_code v)" if "v \<in> set new" for v
      using that all ok by (simp add: codes_ok_def)
  qed (use stored len len' dis fin' all ids bid in simp_all)
qed

theorem create_batch_issues_witness:
  "\<exists>r db'. create_batch ex_svc Some (\<lambda>_ _. True) (\<lambda>n. replicate n (CHR ''i'')) (\<lambda>n. 3 * n) int None (Some ''o'') ex_fields
     (tables (empty_world ()), ()) = (Inr r, (db', ())) \<and> length (vouchers db') = 1 \<and> b_status r = BATCH_ACTIVE"
proof -
  have run: "create_batch ex_svc Some (\<lambda>_ _. True) (\<lambda>n. replicate n (CHR ''i'')) (\<lambda>n. 3 * n) int None (Some ''o'') ex_fields
     (tables (empty_world ()), ()) = (Inr ex_batch, (ex_tables [ex_voucher], ()))"
    by code_simp
  from create_batch_issues [OF run] run show ?thesis by (auto simp: ex_fields_def ex_tables_def)
qed

text \<open>
  An import is a partition. Every submitted code is either imported or rejected; the
  imported ones are appended as unused vouchers of the batch, with normalised, non-empty,
  pairwise different codes that no earlier voucher has; and after the import every
  submitted code that is not blank is the code of a stored voucher.
\<close>

theorem import_partition:
  assumes "import_vouchers svc ids clock i actor req codes (db, x) = (Inr (imported, rejected), (db', x'))"
  shows "length imported + length rejected = length codes \<and> vouchers db' = vouchers db @ imported \<and>
    distinct (map v_code imported) \<and> v_code ` set imported \<inter> v_code ` set (vouchers db) = {} \<and>
    (\<forall>v \<in> set imported. v_status v = UNUSED \<and> v_batch_id v = i \<and> v_code v \<noteq> [] \<and>
       v_code v \<in> normalize_voucher_code ` set codes) \<and>
    (\<forall>raw \<in> set codes. normalize_voucher_code raw \<noteq> [] \<longrightarrow>
       normalize_voucher_code raw \<in> v_code ` set (vouchers db'))"
proof (rule import_vouchers_runs [OF assms])
  fix b d1 d2 candidates scan_rejected
  assume g: "get_batch svc (clock 0) i req (db, x) = (Inr b, (d1, x))"
    and sc: "import_scan [] codes = (candidates, scan_rejected)"
    and ins: "let new = filter (\<lambda>c. c \<notin> set (find_existing_codes candidates (vouchers d1))) candidates
         in (if new = [] then imported = [] \<and> d2 = d1
             else imported = new_vouchers ids (clock 1) actor b new \<and>
                  bulk_create_vouchers imported (d1, x) = (Inr imported, (d2, x)))"
    and rj: "rejected = scan_rejected @ map (\<lambda>c. (c, ''code already exists''))
           (filter (\<lambda>c. c \<in> set (find_existing_codes candidates (vouchers d1))) candidates)"
    and last: "vouchers db' = vouchers d2"
  define new where "new = filter (\<lambda>c. c \<notin> set (find_existing_codes candidates (vouchers d1))) candidates"
  have d1: "vouchers d1 = vouchers db" by (rule vouchers_unchanged [OF get_batch_vouchers g])
  have row: "row_id b = i" using get_batch_evolves [OF g] by simp
  have imp: "imported = new_vouchers ids (clock 1) actor b new" and d2: "vouchers d2 = vouchers d1 @ imported"
    using ins by (auto simp: new_def [symmetric] Let_def new_vouchers_def bulk_create_vouchers_Inr split: if_splits)
  have codes: "map v_code imported = new" by (simp add: imp)
  then have cset: "v_code ` set imported = set new" by (metis set_map)
  have newset: "set new = set candidates - v_code ` set (vouchers db)"
    by (auto simp: new_def find_existing_codes_set d1)
  note p = import_scan_props [OF sc]
  have len: "length imported + length rejected = length codes"
  proof -
    have "length imported = length new" using codes by (metis length_map)
    moreover have "length new + length (filter (\<lambda>c. c \<in> set (find_existing_codes candidates (vouchers d1))) candidates)
        = length candidates"
      unfolding new_def using sum_length_filter_compl [of "\<lambda>c. c \<in> set (find_existing_codes candidates (vouchers d1))" candidates]
      by simp
    ultimately show ?thesis using p by (simp add: rj)
  qed
  have rows: "v_status v = UNUSED \<and> v_batch_id v = i \<and> v_code v \<in> set new" if "v \<in> set imported" for v
    using that row unfolding imp by (auto elim: in_new_vouchers)
  have all: "normalize_voucher_code raw \<in> v_code ` set (vouchers db')"
    if "raw \<in> set codes" "normalize_voucher_code raw \<noteq> []" for raw
  proof -
    have "normalize_voucher_code raw \<in> set candidates" using p that by simp
    then show ?thesis unfolding last d2 d1 set_append image_Un cset newset by blast
  qed
  have "vouchers db' = vouchers db @ imported" by (simp add: last d2 d1)
  moreover have "distinct (map v_code imported)" using p by (simp add: codes) (simp add: new_def)
  moreover have "v_code ` set imported \<inter> v_code ` set (vouchers db) = {}" using cset newset by blast
  moreover have "v_code v \<noteq> [] \<and> v_code v \<in> normalize_voucher_code ` set codes" if "v \<in> set imported" for v
  proof -
    have "v_code v \<in> set candidates" using rows [OF that] newset by blast
    with p show ?thesis by (metis subsetD)
  qed
  ultimately show ?thesis using len rows all by blast
qed

theorem import_partition_witness:
  "\<exists>imported rejected db'. import_vouchers ex_svc (\<lambda>n. ''j'') int [] None None [''wifiadgk'', '' ab-1 '', ''  '']
     (ex_tables [ex_voucher], ()) = (Inr (imported, rejected), (db', ())) \<and>
     length imported + length rejected = 3 \<and> length imported = 1"
proof -
  have run: "import_vouchers ex_svc (\<lambda>n. ''j'') int [] None None [''wifiadgk'', '' ab-1 '', ''  ''] (ex_tables [ex_voucher], ())
     = (Inr ([new_voucher ''j'' 1 None ex_batch ''AB-1''],
             [(''  '', ''empty code''), (''WIFIADGK'', ''code already exists'')]),
        (ex_tables [ex_voucher, new_voucher ''j'' 1 None ex_batch ''AB-1''], ()))"
    by code_simp
  from import_partition [OF run] run show ?thesis by auto
qed

text \<open>
  Revoking a batch kills its vouchers. When \<open>revoke_batch\<close> returns, the stored batch is
  revoked, no voucher of it can be redeemed any more (whatever batch row and instant
  the classifier is given), and the vouchers of every other batch are untouched.
\<close>

theorem revoke_batch_cascades:
  assumes "revoke_batch svc clock i actor req reason (db, x) = (Inr b, (db', x'))"
  shows "b \<in> set (batches db') \<and> row_id b = i \<and> b_status b = BATCH_REVOKED \<and>
    (\<forall>v \<in> set (vouchers db'). v_batch_id v = i \<longrightarrow> redemption_failure_reason v any_batch now \<noteq> None) \<and>
    filter (\<lambda>v. v_batch_id v \<noteq> i) (vouchers db') = filter (\<lambda>v. v_batch_id v \<noteq> i) (vouchers db)"
proof (rule revoke_batch_runs [OF assms])
  fix d1 d2 d3 n
  assume b: "b \<in> set (batches d2)" "row_id b = i" "b_status b = BATCH_REVOKED"
    and rv: "bulk_revoke_vouchers_for_batch (clock 2) i (d2, x) = (Inr n, (d3, x))"
    and last: "batches db' = batches d2" "vouchers db' = vouchers d3"
    and same: "vouchers d2 = vouchers db"
  define f where "f = (\<lambda>v :: voucher. if revocable i v then v\<lparr>v_status := REVOKED, updated_at := clock 2\<rparr> else v)"
  have vs: "vouchers db' = map f (vouchers db)"
    using rv last same by (auto simp: bulk_revoke_vouchers_for_batch_def f_def)
  have dead: "redemption_failure_reason (f v) any_batch now \<noteq> None" if "v_batch_id (f v) = i" for v
  proof -
    have "v_batch_id v = i" using that by (simp add: f_def split: if_splits)
    then show ?thesis by (cases "v_status v") (auto simp: f_def revocable_def redemption_failure_reason_def)
  qed
  have "filter (\<lambda>v. v_batch_id v \<noteq> i) (map f t) = filter (\<lambda>v. v_batch_id v \<noteq> i) t" for t
    by (induction t) (auto simp: f_def revocable_def)
  with dead b last(1) show ?thesis by (auto simp: vs)
qed

theorem revoke_batch_cascades_witness:
  "\<exists>b db'. revoke_batch ex_svc int [] None None (Some ''lost'') (ex_tables [ex_voucher], ()) = (Inr b, (db', ())) \<and>
     list_all (\<lambda>v. v_batch_id v = [] \<longrightarrow> redemption_failure_reason v ex_batch 5 \<noteq> None) (vouchers db')"
proof -
  let ?run = "revoke_batch ex_svc int [] None None (Some ''lost'') (ex_tables [ex_voucher], ())"
  have "\<not> isl (fst ?run)" by code_simp
  then have run: "?run = (Inr (projr (fst ?run)), (fst (snd ?run), snd (snd ?run)))"
    by (metis prod.collapse sum.collapse(2))
  have "\<forall>v \<in> set (vouchers (fst (snd ?run))). v_batch_id v = [] \<longrightarrow> redemption_failure_reason v ex_batch 5 \<noteq> None"
    using revoke_batch_cascades [OF run] by blast
  with run show ?thesis by (auto simp: list_all_iff)
qed

text \<open>
  A typed code finds its voucher. Lower case, surrounding blanks and separators do
  not matter: if what was typed, upper-cased, stripped and without separators, is the
  code of an undeleted voucher, the lookup returns exactly that voucher, unless the
  spelling with separators is itself the code of another voucher.
\<close>

theorem typed_code_finds_voucher:
  assumes "unique_codes t" and "v \<in> set t" and "\<not> is_deleted v"
    and "filter (\<lambda>c. \<not> is_code_separator c) (normalize_voucher_code typed) = v_code v"
    and "normalize_voucher_code typed \<notin> v_code ` (set t - {v})"
  shows "first_match (voucher_code_lookup_candidates typed) t = Some v"
proof (cases "normalize_voucher_code typed = v_code v")
  case True
  then show ?thesis using assms(4) get_voucher_by_code_I [OF assms(1-3)]
    by (simp add: voucher_code_lookup_candidates_def Let_def)
next
  case False
  then have "normalize_voucher_code typed \<notin> v_code ` set t" using assms(5) by auto
  then have "get_voucher_by_code (normalize_voucher_code typed) t = None"
    unfolding get_voucher_by_code_None by (metis image_eqI)
  then show ?thesis
    using False assms(4) get_voucher_by_code_I [OF assms(1-3)]
    by (simp add: voucher_code_lookup_candidates_def Let_def)
qed

theorem typed_code_finds_voucher_witness:
  "first_match (voucher_code_lookup_candidates '' wifi-ad gk '') [ex_voucher] = Some ex_voucher"
proof (rule typed_code_finds_voucher)
  show "filter (\<lambda>c. \<not> is_code_separator c) (normalize_voucher_code '' wifi-ad gk '') = v_code ex_voucher"
    by code_simp
qed (simp_all add: ex_voucher_def unique_codes_def)

text \<open>
  A lower-case prefix makes a batch unredeemable. \<open>create_batch\<close> stores the prefix as it
  was given, but the lookup upper-cases what is typed, so a voucher whose code begins
  with a prefix that has a lower-case letter is never found, whatever is typed.
\<close>

theorem lowercase_prefix_never_found:
  assumes "v_code v = prefix @ body" and "py_upper prefix \<noteq> prefix"
  shows "first_match (voucher_code_lookup_candidates typed) t \<noteq> Some v"
proof
  assume "first_match (voucher_code_lookup_candidates typed) t = Some v"
  then have "py_upper (prefix @ body) = prefix @ body"
    using first_match_Some candidates_upper assms(1) by metis
  then have "py_upper prefix = prefix" by (simp add: py_upper_def)
  with assms(2) show False by simp
qed

theorem lowercase_prefix_never_found_witness:
  "first_match (voucher_code_lookup_candidates ''wifiABCD'') [new_voucher ''i'' 0 None ex_batch (''wifi'' @ ''ABCD'')]
    \<noteq> Some (new_voucher ''i'' 0 None ex_batch (''wifi'' @ ''ABCD''))"
  by (rule lowercase_prefix_never_found [where prefix = "''wifi''" and body = "''ABCD''"])
    (simp, code_simp)

text \<open>
  Validation is read-only and truthful. A request that only validates a code leaves
  the committed tables as they were, whether it returns or raises; and when it returns,
  the voucher is stored, has at least one use left, and is reported as a first use
  exactly when it is unused.
\<close>

theorem validate_voucher_read_only:
  assumes "with_db_session (validate_voucher redis svc clock code source) (db, r) = (res, (db', r'))"
    and "db_wf db"
  shows "db' = db \<and> (\<forall>ok. res = Inr ok \<longrightarrow>
    vr_voucher ok \<in> set (vouchers db) \<and> 0 < vr_uses_remaining ok \<and>
    (vr_is_first_use ok \<longleftrightarrow> v_status (vr_voucher ok) = UNUSED))"
proof (cases res)
  case (Inl e)
  then show ?thesis using assms(1) by (auto simp: with_db_session_Inl)
next
  case (Inr ok)
  with assms(1) obtain v b where
    run: "check_phase redis svc clock code source (db, r) = (Inr (v, b), (db', r'))" and
    ok: "ok = \<lparr>vr_voucher = v, vr_batch = b, vr_is_first_use = (v_use_count v = 0),
          vr_uses_remaining = b_max_uses_per_voucher b - v_use_count v\<rparr>"
    by (auto simp: with_db_session_Inr validate_voucher_def andthen_Inr)
  note c = check_phase_Inr [OF run]
  have u: "uses_ok (b_max_uses_per_voucher b) (b_validity_minutes b) v (v_status v) \<and> 1 \<le> b_max_uses_per_voucher b"
    using wf_voucher_uses [OF assms(2), of v b] c by auto
  then have "0 < b_max_uses_per_voucher b - v_use_count v \<and> (v_use_count v = 0 \<longleftrightarrow> v_status v = UNUSED)"
    using c by auto
  with c Inr ok show ?thesis by simp
qed

theorem validate_voucher_read_only_witness:
  "fst (snd (with_db_session (validate_voucher quiet_ops ex_svc int ''wifiadgk'' ''ip'') (ex_tables [ex_voucher], ())))
     = ex_tables [ex_voucher]"
proof -
  obtain res db' r' where run: "with_db_session (validate_voucher quiet_ops ex_svc int ''wifiadgk'' ''ip'')
      (ex_tables [ex_voucher], ()) = (res, (db', r'))"
    by (metis prod.exhaust)
  from validate_voucher_read_only [OF run ex_wf] have "db' = ex_tables [ex_voucher]" by blast
  then show ?thesis unfolding run by simp
qed

lemma status_counts_total:
  "get_batch_status_counts i t UNUSED + get_batch_status_counts i t ACTIVE + get_batch_status_counts i t EXHAUSTED +
   get_batch_status_counts i t EXPIRED + get_batch_status_counts i t REVOKED =
   int (length (filter (\<lambda>v. v_batch_id v = i \<and> \<not> is_deleted v) t))"
proof (induction t)
  case (Cons v t)
  then show ?case by (cases "v_status v") (auto simp: get_batch_status_counts_def)
qed (simp add: get_batch_status_counts_def)

lemma status_counts_pos: "0 \<le> get_batch_status_counts i t st"
  by (simp add: get_batch_status_counts_def)

lemma status_counts_expired:
  assumes "db_wf db"
  shows "get_batch_status_counts i (vouchers db) EXPIRED = 0"
proof -
  have "v_status v \<noteq> EXPIRED" if "v \<in> set (vouchers db)" for v
    using wf_voucher_terms [OF assms that] by (metis uses_ok.simps(4))
  then show ?thesis by (auto simp: get_batch_status_counts_def filter_empty_conv)
qed

text \<open>
  The statistics of a batch add up: the total is the number of undeleted vouchers of
  the batch, the redemption rate lies between 0 and 1 and is 0 exactly when every one of
  them is unused, and the \<open>expired\<close> count of well-formed tables is always 0 (no
  operation ever stores that status).
\<close>

theorem batch_stats_consistent:
  assumes "get_batch_stats svc now i req (db, x) = (Inr st, (db', x'))" and "db_wf db"
  shows "st_total st = int (length (filter (\<lambda>v. v_batch_id v = i \<and> \<not> is_deleted v) (vouchers db))) \<and>
    0 \<le> st_redemption_rate st \<and> st_redemption_rate st \<le> 1 \<and>
    (st_redemption_rate st = 0 \<longleftrightarrow> st_unused st = st_total st) \<and> st_expired st = 0"
proof -
  from assms(1) obtain b where
    g: "get_batch svc now i req (db, x) = (Inr b, (db', x'))" and
    st: "st = (let counts = get_batch_status_counts (row_id b) (vouchers db');
         total = counts UNUSED + counts ACTIVE + counts EXHAUSTED + counts EXPIRED + counts REVOKED;
         redeemed = total - counts UNUSED
     in \<lparr>st_batch_id = row_id b, st_total = total, st_unused = counts UNUSED, st_active = counts ACTIVE,
             st_exhausted = counts EXHAUSTED, st_expired = counts EXPIRED, st_revoked = counts REVOKED,
             st_redemption_rate = (if total \<noteq> 0 then of_int redeemed / of_int total else 0)\<rparr>)"
    by (auto simp: get_batch_stats_def andthen_Inr Let_def)
  have i: "row_id b = i" and d: "vouchers db' = vouchers db"
    using get_batch_evolves [OF g] vouchers_unchanged [OF get_batch_vouchers g] by simp_all
  define c where "c = get_batch_status_counts i (vouchers db)"
  define n where "n = c UNUSED + c ACTIVE + c EXHAUSTED + c EXPIRED + c REVOKED"
  have n: "n = int (length (filter (\<lambda>v. v_batch_id v = i \<and> \<not> is_deleted v) (vouchers db)))"
    unfolding n_def c_def by (rule status_counts_total)
  have le: "0 \<le> c UNUSED" "c UNUSED \<le> n" "0 \<le> n"
    using status_counts_pos [of i "vouchers db"] by (simp_all add: n_def c_def)
  have rate: "st_redemption_rate st = (if n \<noteq> 0 then of_int (n - c UNUSED) / of_int n else 0)"
    and tot: "st_total st = n" "st_unused st = c UNUSED" "st_expired st = c EXPIRED"
    by (simp_all add: st i d Let_def c_def n_def)
  have "c EXPIRED = 0" unfolding c_def by (rule status_counts_expired [OF assms(2)])
  with n le rate tot show ?thesis by (auto simp: divide_le_eq)
qed

theorem batch_stats_consistent_witness:
  "\<exists>st db'. get_batch_stats ex_svc 7 [] None (ex_tables [ex_voucher], ()) = (Inr st, (db', ())) \<and>
     st_total st = 1 \<and> st_redemption_rate st = 0 \<and> st_expired st = 0"
proof -
  let ?run = "get_batch_stats ex_svc 7 [] None (ex_tables [ex_voucher], ())"
  have "\<not> isl (fst ?run)" and u: "st_unused (projr (fst ?run)) = 1" by code_simp+
  then have run: "?run = (Inr (projr (fst ?run)), (fst (snd ?run), snd (snd ?run)))"
    by (metis prod.collapse sum.collapse(2))
  from batch_stats_consistent [OF run ex_wf] run u show ?thesis
    by (auto simp: ex_tables_def ex_voucher_def ex_batch_def)
qed

end
