(* ===== verification/VoucherTenancy.thy ===== *)
theory VoucherTenancy
  imports VoucherAdmin
begin

section \<open>Tenant isolation\<close>

text \<open>
  A request made on behalf of one organization (\<open>requesting_organization_id\<close>) never changes a
  batch or a voucher of another one.
\<close>

definition foreign_batches :: "uuid \<Rightarrow> voucher_db \<Rightarrow> voucher_batch list" where
  "foreign_batches org db = filter (\<lambda>b. b_organization_id b \<noteq> org) (batches db)"

definition foreign_vouchers :: "uuid \<Rightarrow> voucher_db \<Rightarrow> voucher list" where
  "foreign_vouchers org db = filter (\<lambda>v. v_organization_id v \<noteq> org) (vouchers db)"

definition isolated :: "uuid \<Rightarrow> voucher_db \<Rightarrow> voucher_db \<Rightarrow> bool" where
  "isolated org db db' \<longleftrightarrow>
     evolves db db' \<and>
     (db_wf db \<longrightarrow> foreign_batches org db' = foreign_batches org db \<and> foreign_vouchers org db' = foreign_vouchers org db)"

lemma isolated_refl [simp]: "isolated org db db"
  by (simp add: isolated_def)

lemma isolated_trans: "isolated org a b \<Longrightarrow> isolated org b c \<Longrightarrow> isolated org a c"
  unfolding isolated_def using evolves_trans [of a b c] by (metis evolves_def)

lemma isolated_other_tables:
  "batches db' = batches db \<Longrightarrow> vouchers db' = vouchers db \<Longrightarrow> isolated org db db'"
  by (simp add: isolated_def evolves_other_tables foreign_batches_def foreign_vouchers_def)

lemma filter_map_foreign:
  assumes "\<And>r. r \<in> set t \<Longrightarrow> P r \<Longrightarrow> f r = r" and "\<And>r. r \<in> set t \<Longrightarrow> \<not> P r \<Longrightarrow> \<not> P (f r)"
  shows "filter P (map f t) = filter P t"
  using assms by (induction t) auto

lemma update_batch_isolated:
  assumes run: "update_batch now data b (db, x) = (Inr b', (db', x'))"
    and b: "b \<in> set (batches db)" "b_organization_id b = org"
    and terms: "\<And>r. batch_terms (data r) = batch_terms r"
    and ev: "evolves db db'"
  shows "isolated org db db'"
proof -
  let ?f = "\<lambda>r. if row_id r = row_id b then assign now data (version b) r else r"
  have rows: "batches db' = map ?f (batches db)" "vouchers db' = vouchers db"
    using run by (auto simp: update_batch_def andthen_Inr update_row_def)
  have "filter (\<lambda>b. b_organization_id b \<noteq> org) (map ?f (batches db)) = filter (\<lambda>b. b_organization_id b \<noteq> org) (batches db)"
    if wf: "db_wf db"
  proof (rule filter_map_foreign)
    fix r assume r: "r \<in> set (batches db)"
    show "?f r = r" if "b_organization_id r \<noteq> org"
      using that wf b r distinct_map_inj [of row_id "batches db" r b] by (auto simp: db_wf_def)
    show "\<not> b_organization_id (?f r) \<noteq> org" if "\<not> b_organization_id r \<noteq> org"
      using that assign_terms [of data now "version b" r, OF terms] by (simp add: batch_terms_def)
  qed
  with ev show ?thesis by (simp add: isolated_def foreign_batches_def foreign_vouchers_def rows)
qed

lemma refresh_isolated:
  assumes run: "refresh_batch_expiry now b (db, x) = (Inr b', (db', x'))"
    and b: "b \<in> set (batches db)" "b_organization_id b = org"
  shows "isolated org db db' \<and> b' \<in> set (batches db') \<and> b_organization_id b' = org"
proof -
  note e = refresh_batch_expiry_evolves [OF run b(1)]
  have "isolated org db db'"
  proof (cases "b_status b = BATCH_ACTIVE \<and> is_batch_expired b now")
    case True
    then have "update_batch now (\<lambda>r. r\<lparr>b_status := BATCH_EXPIRED\<rparr>) b (db, x) = (Inr b', (db', x'))"
      using run by (simp add: refresh_batch_expiry_def)
    from update_batch_isolated [OF this b] e show ?thesis by (simp add: batch_terms_def)
  next
    case False
    then show ?thesis using run by (auto simp: refresh_batch_expiry_def)
  qed
  with e b show ?thesis by (simp add: batch_terms_def)
qed

lemma get_batch_isolated:
  assumes "get_batch svc now i (Some org) (db, x) = (Inr b, (db', x'))"
  shows "isolated org db db' \<and> b \<in> set (batches db') \<and> b_organization_id b = org \<and> row_id b = i"
proof -
  from assms obtain b0 where b0: "get_by_id False i (batches db) = Some b0" "b_organization_id b0 = org"
      and run: "refresh_batch_expiry now b0 (db, x) = (Inr b, (db', x'))"
    by (auto simp: get_batch_def andthen_Inr)
  from refresh_isolated [OF run] get_by_id_Some [OF b0(1)] b0(2) get_batch_evolves [OF assms] show ?thesis by simp
qed

lemma audit_batch_isolated:
  "audit_batch svc a1 a2 b a3 a4 a5 (db, x) = (Inr u, (db', x')) \<Longrightarrow> isolated org db db' \<and> batches db' = batches db"
  using audit_batch_evolves isolated_other_tables by metis

lemma submit_batch_isolated:
  assumes run: "submit_batch now b actor (db, x) = (Inr b', (db', x'))"
    and b: "b \<in> set (batches db)" "b_organization_id b = org"
  shows "isolated org db db' \<and> b' \<in> set (batches db') \<and> b_organization_id b' = org"
proof -
  note e = submit_batch_evolves [OF run b(1)]
  have up: "update_batch now (\<lambda>r. r\<lparr>b_status := PENDING_APPROVAL, updated_by := actor\<rparr>) b (db, x) = (Inr b', (db', x'))"
    using run by (auto simp: submit_batch_def andthen_Inr)
  then have "b_organization_id b' = b_organization_id b" by (auto simp: update_batch_def andthen_Inr assign_def)
  with update_batch_isolated [OF up b] e b show ?thesis by (simp add: batch_terms_def)
qed

lemma approve_isolated:
  assumes run: "approve_and_activate svc now b actor (db, x) = (Inr b', (db', x'))"
    and b: "b \<in> set (batches db)" "b_organization_id b = org"
  shows "isolated org db db'"
proof -
  from run obtain b1 d1 x1 d2 x2 d3 x3 u1 u2 where
    ok: "validate_batch_status_transition (b_status b) APPROVED = Inr ()" and
    r1: "update_batch now (\<lambda>r. r\<lparr>b_status := APPROVED, b_approved_by_user_id := actor,
                b_approved_at := Some now, updated_by := actor\<rparr>) b (db, x) = (Inr b1, (d1, x1))" and
    r2: "audit_batch svc actor ''voucher_batch_approved'' b1
                (''Voucher batch '' @ quoted (b_name b1) @ '' approved'') ''voucher_batch'' None (d1, x1) = (Inr u1, (d2, x2))" and
    r3: "update_batch now (\<lambda>r. r\<lparr>b_status := BATCH_ACTIVE, updated_by := actor\<rparr>) b1 (d2, x2) = (Inr b', (d3, x3))" and
    r4: "audit_batch svc actor ''voucher_batch_activated'' b'
                (''Voucher batch '' @ quoted (b_name b') @ '' activated'') ''voucher_batch'' None (d3, x3) = (Inr u2, (db', x'))"
    by (auto simp: approve_and_activate_def andthen_Inr)
  have e1: "evolves db d1 \<and> b1 \<in> set (batches d1) \<and> b_status b1 = APPROVED \<and> batch_terms b1 = batch_terms b"
    using update_batch_evolves [OF r1 b(1), of APPROVED] ok
    by (auto simp: batch_terms_def validate_batch_status_transition_def split: if_splits)
  have i1: "isolated org db d1" using update_batch_isolated [OF r1 b] e1 by (simp add: batch_terms_def)
  have i2: "isolated org d1 d2" and s2: "batches d2 = batches d1" using audit_batch_isolated [OF r2] by simp_all
  have o1: "b1 \<in> set (batches d2)" "b_organization_id b1 = org" using e1 s2 b(2) by (simp_all add: batch_terms_def)
  have e3: "evolves d2 d3"
    using update_batch_evolves [OF r3 o1(1), of BATCH_ACTIVE] e1 by (simp add: batch_terms_def)
  have i3: "isolated org d2 d3" using update_batch_isolated [OF r3 o1] e3 by (simp add: batch_terms_def)
  have "isolated org d3 db'" using audit_batch_isolated [OF r4] by simp
  with i1 i2 i3 show ?thesis using isolated_trans by metis
qed

lemma bulk_create_isolated:
  assumes run: "bulk_create_vouchers (new_vouchers ids now actor b codes) (db, x) = (Inr rows, (db', x'))"
    and b: "b \<in> set (batches db)" "b_organization_id b = org"
  shows "isolated org db db' \<and> batches db' = batches db"
proof -
  have e: "evolves db db' \<and> batches db' = batches db" using add_vouchers_evolves [OF run] b by simp
  have "vouchers db' = vouchers db @ new_vouchers ids now actor b codes"
    using run by (simp add: bulk_create_vouchers_Inr)
  moreover have "filter (\<lambda>v. v_organization_id v \<noteq> org) (new_vouchers ids now actor b codes) = []"
    using b(2) by (auto simp: filter_empty_conv elim: in_new_vouchers)
  ultimately show ?thesis using e by (simp add: isolated_def foreign_batches_def foreign_vouchers_def)
qed

lemma bulk_revoke_isolated:
  assumes run: "bulk_revoke_vouchers_for_batch now i (db, x) = (Inr n, (db', x'))"
    and b: "b \<in> set (batches db)" "b_organization_id b = org" "row_id b = i"
  shows "isolated org db db'"
proof -
  let ?f = "\<lambda>v :: voucher. if revocable i v then v\<lparr>v_status := REVOKED, updated_at := now\<rparr> else v"
  note e = bulk_revoke_evolves [OF run]
  have vs: "vouchers db' = map ?f (vouchers db)" using run by (auto simp: bulk_revoke_vouchers_for_batch_def)
  have own: "v_organization_id v = org" if wf: "db_wf db" and v: "v \<in> set (vouchers db)" "revocable i v" for v
  proof -
    obtain m d where "(v_batch_id v, v_organization_id v, m, d) \<in> batch_terms ` set (batches db)"
      using wf_voucher_terms [OF wf v(1)] by blast
    then obtain c where c: "c \<in> set (batches db)" "row_id c = i" "b_organization_id c = v_organization_id v"
      using v(2) by (auto simp: batch_terms_def revocable_def)
    then have "c = b" using wf b distinct_map_inj [of row_id "batches db" c b] by (simp add: db_wf_def)
    with c b show ?thesis by simp
  qed
  have "filter (\<lambda>v. v_organization_id v \<noteq> org) (map ?f (vouchers db)) = filter (\<lambda>v. v_organization_id v \<noteq> org) (vouchers db)"
    if "db_wf db"
    by (rule filter_map_foreign) (use own that in auto)
  with e show ?thesis by (simp add: isolated_def foreign_batches_def foreign_vouchers_def vs)
qed


subsection \<open>Operations\<close>

lemma approve_batch_isolated:
  assumes "approve_batch svc clock i actor (Some org) (db, x) = (Inr b, (db', x'))"
  shows "isolated org db db'"
proof -
  from assms obtain b0 d x1 where
    g: "get_batch svc (clock 0) i (Some org) (db, x) = (Inr b0, (d, x1))" and
    a: "approve_and_activate svc (clock 1) b0 actor (d, x1) = (Inr b, (db', x'))"
    by (auto simp: approve_batch_def andthen_Inr)
  from get_batch_isolated [OF g] approve_isolated [OF a] show ?thesis using isolated_trans by blast
qed

lemma revoke_batch_isolated:
  assumes "revoke_batch svc clock i actor (Some org) reason (db, x) = (Inr b, (db', x'))"
  shows "isolated org db db'"
proof -
  from assms obtain b0 d1 x1 d2 x2 d3 x3 n u where
    g: "get_batch svc (clock 0) i (Some org) (db, x) = (Inr b0, (d1, x1))" and
    ok: "validate_batch_status_transition (b_status b0) BATCH_REVOKED = Inr ()" and
    up: "update_batch (clock 1) (\<lambda>r. r\<lparr>b_status := BATCH_REVOKED, updated_by := actor\<rparr>) b0 (d1, x1) = (Inr b, (d2, x2))" and
    rv: "bulk_revoke_vouchers_for_batch (clock 2) (row_id b0) (d2, x2) = (Inr n, (d3, x3))" and
    au: "audit_batch svc actor ''voucher_batch_revoked'' b
                (''Voucher batch '' @ quoted (b_name b) @ '' revoked'' @
                 (case reason of None \<Rightarrow> [] | Some t \<Rightarrow> if t = [] then [] else '': '' @ t))
                ''voucher_batch'' None (d3, x3) = (Inr u, (db', x'))"
    by (auto simp: revoke_batch_def andthen_Inr)
  note g' = get_batch_isolated [OF g]
  then have b0: "b0 \<in> set (batches d1)" "b_organization_id b0 = org" by simp_all
  have e: "evolves d1 d2 \<and> b \<in> set (batches d2) \<and> row_id b = row_id b0 \<and> batch_terms b = batch_terms b0"
    using update_batch_evolves [OF up b0(1), of BATCH_REVOKED] ok
    by (auto simp: batch_terms_def validate_batch_status_transition_def split: if_splits)
  have i2: "isolated org d1 d2" using update_batch_isolated [OF up b0] e by (simp add: batch_terms_def)
  have i3: "isolated org d2 d3"
    using bulk_revoke_isolated [OF rv, of b] e b0 by (simp add: batch_terms_def)
  have "isolated org d3 db'" using audit_batch_isolated [OF au] by simp
  with g' i2 i3 show ?thesis using isolated_trans by metis
qed

lemma import_vouchers_isolated:
  assumes "import_vouchers svc ids clock i actor (Some org) codes (db, x) = (Inr r, (db', x'))"
  shows "isolated org db db'"
proof -
  obtain imported rejected where r: "r = (imported, rejected)" by fastforce
  show ?thesis
  proof (rule import_vouchers_runs [OF assms [unfolded r]])
    fix b d1 d2 candidates scan_rejected
    assume g: "get_batch svc (clock 0) i (Some org) (db, x) = (Inr b, (d1, x))"
      and ins: "let new = filter (\<lambda>c. c \<notin> set (find_existing_codes candidates (vouchers d1))) candidates
         in (if new = [] then imported = [] \<and> d2 = d1
             else imported = new_vouchers ids (clock 1) actor b new \<and>
                  bulk_create_vouchers imported (d1, x) = (Inr imported, (d2, x)))"
      and last: "vouchers db' = vouchers d2" "batches db' = batches d2"
    note g' = get_batch_isolated [OF g]
    have "isolated org d1 d2"
      using ins bulk_create_isolated [of ids "clock 1" actor b _ d1 x _ d2 x org] g'
      by (auto simp: Let_def split: if_splits)
    moreover have "isolated org d2 db'" using last by (intro isolated_other_tables)
    ultimately show "isolated org db db'" using g' isolated_trans by blast
  qed
qed

lemma create_batch_isolated:
  assumes run: "create_batch svc get_org get_loc ids tape clock actor (Some org) a (db, x) = (Inr r, (db', x'))"
    and uses: "1 \<le> bf_max_uses_per_voucher a"
  shows "isolated org db db'"
proof (rule create_batch_runs [OF run])
  fix o' b t d2 x2 d3 x3 d4 x4 b4
  assume o': "same_organization (Some org) o'" and b: "b = new_batch (ids 0) (clock 0) actor o' a"
    and c: "create_row (\<lambda>_. True) b (batches db) = Inr t"
    and e2: "batches d2 = t" "vouchers d2 = vouchers db"
    and gen: "(if 0 < bf_quantity a
                 then andthen (generate_codes tape (bf_quantity a) (bf_code_length a) (bf_code_prefix a)) (\<lambda>codes.
                      andthen (bulk_create_vouchers (new_vouchers (\<lambda>i. ids (Suc i)) (clock 1) actor b codes)) (\<lambda>_.
                      ret ()))
                 else ret ()) (d2, x2) = (Inr (), (d3, x3))"
    and sub: "submit_batch (clock 2) b actor (d3, x3) = (Inr b4, (d4, x4))"
    and fin: "(if bf_has_manage_permission a then approve_and_activate svc (clock 3) b4 actor else ret b4) (d4, x4)
            = (Inr r, (db', x'))"
  have org: "b_organization_id b = org"
    using o' by (simp add: b new_batch_def voucher_batch.defs base_model.defs new_base_def same_organization_def)
  have "t = batches db @ [b]" using c by (simp add: create_row_Inr)
  moreover have "evolves db (db\<lparr>batches := t\<rparr>)" using add_batch_evolves [OF c] uses by (simp add: b)
  ultimately have "isolated org db (db\<lparr>batches := t\<rparr>)"
    using org by (simp add: isolated_def foreign_batches_def foreign_vouchers_def)
  moreover have "isolated org (db\<lparr>batches := t\<rparr>) d2" using e2 by (intro isolated_other_tables) simp_all
  ultimately have i2: "isolated org db d2" by (rule isolated_trans)
  have b2: "b \<in> set (batches d2)" using \<open>t = batches db @ [b]\<close> e2 by simp
  have i3: "isolated org d2 d3 \<and> batches d3 = batches d2"
    using gen b2 org bulk_create_isolated [of "\<lambda>i. ids (Suc i)" "clock 1" actor b _ d2 x2 _ d3 x3 org]
    by (auto simp: andthen_Inr generate_codes_def split: if_splits)
  have i4: "isolated org d3 d4 \<and> b4 \<in> set (batches d4) \<and> b_organization_id b4 = org"
    using submit_batch_isolated [OF sub _ org] b2 i3 by simp
  have "isolated org d4 db'"
    using fin approve_isolated [of svc "clock 3" b4 actor d4 x4 r db' x' org] i4 by (auto split: if_splits)
  with i2 i3 i4 show ?thesis using isolated_trans by metis
qed

lemma refresh_all_isolated:
  assumes "refresh_all clock n bs (db, x) = (Inr bs', (db', x'))"
    and "set bs \<subseteq> set (batches db)" and "distinct (map row_id bs)" and "\<forall>b \<in> set bs. b_organization_id b = org"
  shows "isolated org db db'"
  using assms
proof (induction bs arbitrary: n db x bs')
  case (Cons b bs)
  from Cons.prems(1) obtain b' d x1 bs1 where
    r: "refresh_batch_expiry (clock n) b (db, x) = (Inr b', (d, x1))" and
    rest: "refresh_all clock (Suc n) bs (d, x1) = (Inr bs1, (db', x'))"
    by (auto simp: andthen_Inr)
  have keep: "set bs \<subseteq> set (batches d)"
    using Cons.prems(2,3) by (intro refresh_keeps_others [OF r]) auto
  have "isolated org db d" using refresh_isolated [OF r] Cons.prems(2,4) by simp
  moreover have "isolated org d db'" using Cons.IH [OF rest keep] Cons.prems(3,4) by auto
  ultimately show ?case by (rule isolated_trans)
qed auto

lemma list_batches_isolated:
  assumes "list_batches ds ms clock (Some org) p n (db, x) = (Inr r, (db', x'))"
  shows "isolated org db db'"
proof -
  from assms obtain bs meta bs' where
    page: "paginate_rows (make_page_params ds ms p (Some n))
       (\<lambda>b. same_organization (Some org) (b_organization_id b)) created_at DESC False (batches db) = (bs, meta)" and
    run: "refresh_all clock 0 bs (db, x) = (Inr bs', (db', x'))"
    by (auto simp: list_batches_def andthen_Inr split: prod.splits)
  have own: "\<forall>b \<in> set bs. b_organization_id b = org"
    using paginate_rows_filter [OF page] by (auto simp: same_organization_def)
  show ?thesis
  proof (cases "db_wf db")
    case True
    with paginate_rows_subset [OF page] refresh_all_isolated [OF run _ _ own] show ?thesis by (simp add: db_wf_def)
  next
    case False
    then show ?thesis by (simp add: isolated_def evolves_def)
  qed
qed

fun requesting_organization :: "admin_command \<Rightarrow> uuid option" where
  "requesting_organization (CreatePlan i now actor req a) = req"
| "requesting_organization (CreateSeries i now actor req a) = req"
| "requesting_organization (CreateBatch ids tape clock actor req a) = req"
| "requesting_organization (ApproveBatch clock i actor req) = req"
| "requesting_organization (RevokeBatch clock i actor req reason) = req"
| "requesting_organization (ImportVouchers ids clock i actor req codes) = req"
| "requesting_organization (ListBatches clock req p n) = req"
| "requesting_organization (ListVouchers now i req p n) = req"
| "requesting_organization (BatchStats now i req) = req"

lemma holds_isolated:
  assumes "\<And>B V. preserves (\<lambda>s. holds B V (fst s)) m" and "m (db, x) = (r, (db', x'))"
  shows "isolated org db db'"
  using preservesD [OF assms(1) [of "batches db" "vouchers db"] _ assms(2)]
  by (intro isolated_other_tables) (simp_all add: holds_def)

lemma run_admin_isolated:
  assumes run: "run_admin svc get_org get_loc c (db, x) = (Inr u, (db', x'))" and "admin_valid c"
    and req: "requesting_organization c = Some org"
  shows "isolated org db db'"
proof (cases c)
  case (CreatePlan i now actor r a)
  with run show ?thesis by (auto simp: ignoring_Inr intro: holds_isolated [OF create_plan_holds])
next
  case (CreateSeries i now actor r a)
  with run show ?thesis by (auto simp: ignoring_Inr intro: holds_isolated [OF create_series_holds])
next
  case (CreateBatch ids tape clock actor r a)
  with assms show ?thesis by (auto simp: ignoring_Inr intro: create_batch_isolated)
next
  case (ApproveBatch clock i actor r)
  with assms show ?thesis by (auto simp: ignoring_Inr intro: approve_batch_isolated)
next
  case (RevokeBatch clock i actor r reason)
  with assms show ?thesis by (auto simp: ignoring_Inr intro: revoke_batch_isolated)
next
  case (ImportVouchers ids clock i actor r codes)
  with assms show ?thesis by (auto simp: ignoring_Inr intro: import_vouchers_isolated)
next
  case (ListBatches clock r p n)
  with assms show ?thesis by (auto simp: ignoring_Inr intro: list_batches_isolated)
next
  case (ListVouchers now i r p n)
  with assms show ?thesis by (auto simp: ignoring_Inr list_vouchers_def andthen_Inr dest: get_batch_isolated)
next
  case (BatchStats now i r)
  with assms show ?thesis by (auto simp: ignoring_Inr get_batch_stats_def andthen_Inr Let_def dest: get_batch_isolated)
qed


section \<open>Properties\<close>

text \<open>
  C33. Tenants are isolated. Whatever administrative request an organization makes, with
  whatever ids, and whether it commits or is rolled back, the batches and the vouchers of
  every other organization are the same rows, in the same order, afterwards.
\<close>

theorem tenant_isolation:
  assumes "with_db_session (run_admin svc get_org get_loc c) (db, x) = (res, (db', x'))"
    and "db_wf db" and "admin_valid c" and "requesting_organization c = Some org"
  shows "foreign_batches org db' = foreign_batches org db \<and> foreign_vouchers org db' = foreign_vouchers org db"
proof (cases res)
  case (Inl e)
  then show ?thesis using assms(1) by (auto simp: with_db_session_Inl)
next
  case (Inr u)
  then have "run_admin svc get_org get_loc c (db, x) = (Inr u, (db', x'))"
    using assms(1) by (simp add: with_db_session_Inr)
  from run_admin_isolated [OF this assms(3,4)] assms(2) show ?thesis by (simp add: isolated_def)
qed

theorem tenant_isolation_witness:
  "foreign_vouchers ''rival'' (fst (snd (with_db_session
      (run_admin ex_svc Some (\<lambda>_ _. True) (RevokeBatch int [] None (Some ''rival'') None)) (ex_tables [ex_voucher], ()))))
    = foreign_vouchers ''rival'' (ex_tables [ex_voucher]) \<and> foreign_vouchers ''rival'' (ex_tables [ex_voucher]) \<noteq> []"
proof -
  obtain res db' x' where run: "with_db_session (run_admin ex_svc Some (\<lambda>_ _. True)
      (RevokeBatch int [] None (Some ''rival'') None)) (ex_tables [ex_voucher], ()) = (res, (db', x'))"
    by (metis prod.exhaust)
  from tenant_isolation [OF run ex_wf, of "''rival''"]
  have "foreign_vouchers ''rival'' db' = foreign_vouchers ''rival'' (ex_tables [ex_voucher])" by simp
  moreover have "foreign_vouchers ''rival'' (ex_tables [ex_voucher]) \<noteq> []" by code_simp
  ultimately show ?thesis unfolding run by simp
qed

end
