(* ===== verification/Otp.thy ===== *)
theory Otp
  imports Database RateLimit
begin

section \<open>One-time codes\<close>

text \<open>
  \<open>app/domains/otp\<close>: \<open>models.OtpRequest\<close>, \<open>validators.py\<close>, \<open>repository.py\<close> and \<open>OtpService\<close>
  (\<open>service.py\<close>): request a code, send it, verify it.

  The state of a program is the managed part (the \<open>otp_requests\<close> table and the audit log)
  and the unmanaged part (the Redis server and the messages handed to a provider). The
  digest \<open>hash_otp_code\<close> (SHA-256) is a parameter \<open>hash\<close>. A provider is a parameter: its
  class name and whether it accepts a message. A message keeps the arguments of its
  template; the HTML of an e-mail is not rendered. Random digits come from a tape, and
  successive clock reads from \<open>clock\<close>.
\<close>

datatype OtpChannel = SMS | EMAIL | WHATSAPP

fun channel_value :: "OtpChannel \<Rightarrow> string" where
  "channel_value SMS = ''sms''"
| "channel_value EMAIL = ''email''"
| "channel_value WHATSAPP = ''whatsapp''"

datatype OtpPurpose = GUEST_LOGIN | ACCOUNT_DATA_MASKING

fun purpose_value :: "OtpPurpose \<Rightarrow> string" where
  "purpose_value GUEST_LOGIN = ''guest_login''"
| "purpose_value ACCOUNT_DATA_MASKING = ''account_data_masking''"

record otp_request = base_model +
  o_identifier :: string
  channel :: OtpChannel
  purpose :: OtpPurpose
  code_hash :: string
  expires_at :: datetime
  verified_at :: "datetime option"
  attempt_count :: int
  max_attempts :: int
  is_consumed :: bool
  o_organization_id :: "uuid option"
  o_location_id :: "uuid option"
  provider_outcome :: "string option"
  provider_name :: "string option"
  provider_response_ms :: "int option"

definition is_expired :: "otp_request \<Rightarrow> datetime \<Rightarrow> bool" where
  "is_expired r now \<longleftrightarrow> expires_at r < now"

definition is_locked_out :: "otp_request \<Rightarrow> bool" where
  "is_locked_out r \<longleftrightarrow> max_attempts r \<le> attempt_count r"

record otp_db =
  otp_requests :: "otp_request list"
  otp_audit :: "audit_entry list"

datatype otp_message =
    SmsMessage string string
  | WhatsAppMessage string string string
  | EmailMessage string string string string int

record otp_service =
  has_audit_writer :: bool
  code_length :: int
  expiry_seconds :: int
  max_verification_attempts :: int
  max_requests_per_window :: int
  request_window_minutes :: int
  sms_message_template :: string
  provider_class :: "OtpChannel \<Rightarrow> string"
  provider_accepts :: "otp_message \<Rightarrow> bool"

datatype otp_error =
    InvalidOtpIdentifierError OtpChannel string
  | OtpRequestRateLimitExceededError int
  | OtpNotFoundError string string
  | OtpAlreadyConsumedError
  | OtpAttemptsExceededError
  | OtpExpiredError
  | OtpCodeMismatchError int
  | ProviderError
  | OtpDatabaseError db_error

type_synonym ('r, 'a) oprog = "(otp_db \<times> 'r \<times> otp_message list, otp_error, 'a) prog"


subsection \<open>Validators\<close>

definition normalize_otp_identifier :: "string \<Rightarrow> string" where
  "normalize_otp_identifier s =
     (let stripped = py_strip s
      in if CHR ''@'' \<in> set stripped then py_lower stripped else stripped)"

text \<open>\<open>$\<close> of a regular expression also matches before one final newline.\<close>

definition at_dollar :: "(string \<Rightarrow> bool) \<Rightarrow> string \<Rightarrow> bool" where
  "at_dollar P s \<longleftrightarrow> P s \<or> (s \<noteq> [] \<and> last s = CHR 0x0A \<and> P (butlast s))"

definition is_digit :: "char \<Rightarrow> bool" where
  "is_digit c \<longleftrightarrow> 48 \<le> code_of c \<and> code_of c \<le> 57"

definition phone_body :: "string \<Rightarrow> bool" where
  "phone_body s =
     (let d = (case s of [] \<Rightarrow> [] | c # cs \<Rightarrow> if c = CHR ''+'' then cs else s)
      in (case d of
            [] \<Rightarrow> False
          | c # cs \<Rightarrow> is_digit c \<and> c \<noteq> CHR ''0'' \<and> list_all is_digit cs \<and> 7 \<le> length cs \<and> length cs \<le> 14))"

definition email_atom :: "char \<Rightarrow> bool" where
  "email_atom c \<longleftrightarrow> c \<noteq> CHR ''@'' \<and> \<not> py_isspace c"

definition email_body :: "string \<Rightarrow> bool" where
  "email_body s =
     (let user = takeWhile (\<lambda>c. c \<noteq> CHR ''@'') s; host = dropWhile (\<lambda>c. c \<noteq> CHR ''@'') s
      in user \<noteq> [] \<and> list_all email_atom user \<and>
         (case host of
            [] \<Rightarrow> False
          | at # d \<Rightarrow> list_all email_atom d \<and> list_ex (\<lambda>i. d ! i = CHR ''.'') [1..<length d - 1]))"

definition validate_identifier :: "string \<Rightarrow> OtpChannel \<Rightarrow> otp_error + unit" where
  "validate_identifier s ch =
     (if ch = SMS \<or> ch = WHATSAPP
      then (if at_dollar phone_body s then Inr () else Inl (InvalidOtpIdentifierError ch s))
      else (if at_dollar email_body s then Inr () else Inl (InvalidOtpIdentifierError ch s)))"


subsection \<open>Repository statements\<close>

definition get_latest_for_identifier :: "string \<Rightarrow> OtpPurpose \<Rightarrow> otp_request list \<Rightarrow> otp_request option" where
  "get_latest_for_identifier i p t =
     (case get_all (\<lambda>r. o_identifier r = i \<and> purpose r = p) created_at DESC False (Some 1) t of
        [] \<Rightarrow> None | r # _ \<Rightarrow> Some r)"

definition update_otp_request ::
  "datetime \<Rightarrow> (otp_request \<Rightarrow> otp_request) \<Rightarrow> otp_request \<Rightarrow> ('r, otp_request) oprog" where
  "update_otp_request now data r =
     andthen (modifies_db (\<lambda>db. db\<lparr>otp_requests := update_row now data r (otp_requests db)\<rparr>)) (\<lambda>_.
     ret (assign now data (version r) r))"

definition list_requests ::
  "int \<Rightarrow> int \<Rightarrow> (otp_request \<Rightarrow> bool) \<Rightarrow> int \<Rightarrow> int \<Rightarrow> otp_request list \<Rightarrow> otp_request list \<times> pagination_meta" where
  "list_requests default_size max_size P p psize t =
     paginate_rows (make_page_params default_size max_size p (Some psize)) P created_at DESC False t"


subsection \<open>Request\<close>

definition CODE_ALPHABET :: string where
  "CODE_ALPHABET = ''0123456789''"

definition generate_numeric_code :: "(nat \<Rightarrow> nat) \<Rightarrow> int \<Rightarrow> string" where
  "generate_numeric_code tape n = map (\<lambda>i. CODE_ALPHABET ! (tape i mod length CODE_ALPHABET)) [0..<nat n]"

text \<open>\<open>str.replace\<close>: every occurrence, left to right; an empty pattern does not occur here.\<close>

fun py_replace :: "string \<Rightarrow> string \<Rightarrow> nat \<Rightarrow> string \<Rightarrow> string" where
  "py_replace old new 0 s = s"
| "py_replace old new (Suc fuel) s =
     (case s of
        [] \<Rightarrow> []
      | c # cs \<Rightarrow>
          if old \<noteq> [] \<and> take (length old) s = old
          then new @ py_replace old new fuel (drop (length old) s)
          else c # py_replace old new fuel cs)"

definition otp_message_text :: "OtpPurpose \<Rightarrow> string \<Rightarrow> int \<Rightarrow> string" where
  "otp_message_text p code mins =
     (if p = ACCOUNT_DATA_MASKING
      then ''Your Wyfy Guest verification code to change your dashboard'' @ [CHR 0x27] @
           ''s guest-data masking setting is '' @ code @ ''. It expires in '' @ show_int mins @
           '' minute(s). Ignore this if you didn'' @ [CHR 0x27] @ ''t request it.''
      else ''Your Wyfy Guest verification code is '' @ code @ ''. It expires in '' @ show_int mins @ '' minute(s).'')"

definition otp_subject :: "OtpPurpose \<Rightarrow> string" where
  "otp_subject p =
     (if p = ACCOUNT_DATA_MASKING then ''Your Wyfy Guest data-masking verification code''
      else ''Your Wyfy Guest verification code'')"

definition otp_intro :: "OtpPurpose \<Rightarrow> string" where
  "otp_intro p =
     (if p = ACCOUNT_DATA_MASKING
      then ''Use this code to change your dashboard'' @ [CHR 0x27] @
           ''s guest-data masking setting. Ignore this message if you didn'' @ [CHR 0x27] @ ''t request it.''
      else ''Use this code to finish signing in.'')"

definition dispatch_message :: "otp_service \<Rightarrow> string \<Rightarrow> string \<Rightarrow> OtpChannel \<Rightarrow> OtpPurpose \<Rightarrow> otp_message" where
  "dispatch_message svc recipient code ch p =
     (let mins = max (expiry_seconds svc div 60) 1;
          message = otp_message_text p code mins
      in case ch of
           SMS \<Rightarrow> SmsMessage recipient
                    (if sms_message_template svc \<noteq> [] \<and> p = GUEST_LOGIN
                     then py_replace ''{#num#}'' code (length (sms_message_template svc)) (sms_message_template svc)
                     else message)
         | WHATSAPP \<Rightarrow> WhatsAppMessage recipient code message
         | EMAIL \<Rightarrow> EmailMessage recipient (otp_subject p) (otp_intro p) code mins)"

text \<open>\<open>_send_recorded\<close>: the outcome is written on the row whether the provider accepts or
  not; a rejection is raised again. \<open>ms\<close> is the measured response time.\<close>

definition send_recorded ::
  "otp_service \<Rightarrow> datetime \<Rightarrow> int \<Rightarrow> otp_request \<Rightarrow> OtpChannel \<Rightarrow> otp_message \<Rightarrow> ('r, unit) oprog" where
  "send_recorded svc now ms r ch msg =
     (let name = take 40 (provider_class svc ch);
          accepted = provider_accepts svc msg;
          outcome = (if take 7 name = ''Logging'' then ''not_attempted''
                     else if accepted then ''accepted'' else ''rejected'')
      in andthen (modifies (\<lambda>(db, r', out).
           (db\<lparr>otp_requests := map (\<lambda>q. if row_id q = row_id r
                then q\<lparr>provider_outcome := Some outcome, provider_name := Some name,
                       provider_response_ms := Some ms, updated_at := now\<rparr> else q) (otp_requests db)\<rparr>,
            r', if accepted then out @ [msg] else out))) (\<lambda>_.
         guard accepted ProviderError))"

definition new_otp_request ::
  "uuid \<Rightarrow> (nat \<Rightarrow> datetime) \<Rightarrow> otp_service \<Rightarrow> string \<Rightarrow> OtpChannel \<Rightarrow> OtpPurpose \<Rightarrow> string \<Rightarrow> uuid option \<Rightarrow>
   uuid option \<Rightarrow> otp_request" where
  "new_otp_request i clock svc ident ch p digest org loc =
     base_model.extend (new_base i (clock 1) None)
       (otp_request.fields ident ch p digest (clock 0 + seconds (expiry_seconds svc)) None 0
          (max_verification_attempts svc) False org loc None None None)"

definition otp_rate_limit :: "'r redis_ops \<Rightarrow> otp_service \<Rightarrow> string \<Rightarrow> ('r, unit) oprog" where
  "otp_rate_limit redis svc ident =
     calls_outside OtpRequestRateLimitExceededError
       (\<lambda>(r, out). case OtpRateLimiter_check_and_increment redis ident (max_requests_per_window svc)
                      (request_window_minutes svc) r of (a, r') \<Rightarrow> (a, (r', out)))"

definition request_otp ::
  "(string \<Rightarrow> string) \<Rightarrow> 'r redis_ops \<Rightarrow> otp_service \<Rightarrow> uuid \<Rightarrow> (nat \<Rightarrow> nat) \<Rightarrow> (nat \<Rightarrow> datetime) \<Rightarrow> int \<Rightarrow>
   string \<Rightarrow> OtpChannel \<Rightarrow> OtpPurpose \<Rightarrow> uuid option \<Rightarrow> uuid option \<Rightarrow> ('r, otp_request) oprog" where
  "request_otp hash redis svc new_id tape clock ms raw ch p org loc =
     (let ident = normalize_otp_identifier raw
      in andthen (lift_result (validate_identifier ident ch)) (\<lambda>_.
         andthen (otp_rate_limit redis svc ident) (\<lambda>_.
         let code = generate_numeric_code tape (code_length svc);
             row = new_otp_request new_id clock svc ident ch p (hash code) org loc
         in andthen (stores_db OtpDatabaseError
              (\<lambda>db. map_sum id (\<lambda>t. db\<lparr>otp_requests := t\<rparr>) (create_row (\<lambda>_. True) row (otp_requests db)))) (\<lambda>_.
            andthen (send_recorded svc (clock 2) ms row ch (dispatch_message svc ident code ch p)) (\<lambda>_.
            ret row)))))"


subsection \<open>Verify\<close>

definition OTP_AUDITED_FAILURE_REASONS :: "string list" where
  "OTP_AUDITED_FAILURE_REASONS = [''code_mismatch'', ''attempts_exceeded'']"

definition otp_write_audit :: "otp_service \<Rightarrow> audit_entry \<Rightarrow> ('r, unit) oprog" where
  "otp_write_audit svc e =
     (if has_audit_writer svc then modifies_db (\<lambda>db. db\<lparr>otp_audit := otp_audit db @ [e]\<rparr>) else ret ())"

definition record_failure ::
  "otp_service \<Rightarrow> otp_request option \<Rightarrow> OtpPurpose \<Rightarrow> string \<Rightarrow> ('r, unit) oprog" where
  "record_failure svc r p reason =
     (if reason \<notin> set OTP_AUDITED_FAILURE_REASONS then ret ()
      else otp_write_audit svc
        \<lparr>ae_actor_user_id = None, ae_action = ''otp_verification_failed'', ae_entity_type = ''otp_request'',
         ae_entity_id = map_option row_id r,
         ae_description = ''OTP verification failed (purpose='' @ purpose_value p @ '', reason='' @ reason @ '')'',
         ae_metadata = [(''reason'', reason)],
         ae_organization_id = Option.bind r o_organization_id, ae_location_id = Option.bind r o_location_id\<rparr>)"

text \<open>The read and check half of \<open>verify_otp\<close> and the write half that a matching code
  reaches. \<open>clock 0\<close> is the check's instant, \<open>clock 1\<close> the one \<open>onupdate\<close> stamps.\<close>

definition verify_check ::
  "(string \<Rightarrow> string) \<Rightarrow> otp_service \<Rightarrow> (nat \<Rightarrow> datetime) \<Rightarrow> string \<Rightarrow> string \<Rightarrow> OtpPurpose \<Rightarrow> ('r, otp_request) oprog" where
  "verify_check hash svc clock raw code p =
     (let ident = normalize_otp_identifier raw
      in andthen (reads_db (\<lambda>db. get_latest_for_identifier ident p (otp_requests db))) (\<lambda>found.
         case found of
           None \<Rightarrow> andthen (record_failure svc None p ''not_found'') (\<lambda>_.
                    raise (OtpNotFoundError ident (purpose_value p)))
         | Some r \<Rightarrow>
             if is_consumed r then
               andthen (record_failure svc (Some r) p ''already_consumed'') (\<lambda>_. raise OtpAlreadyConsumedError)
             else if is_locked_out r then
               andthen (record_failure svc (Some r) p ''attempts_exceeded'') (\<lambda>_. raise OtpAttemptsExceededError)
             else if is_expired r (clock 0) then
               andthen (record_failure svc (Some r) p ''expired'') (\<lambda>_. raise OtpExpiredError)
             else if hash code \<noteq> code_hash r then
               andthen (update_otp_request (clock 1) (\<lambda>q. q\<lparr>attempt_count := attempt_count r + 1\<rparr>) r) (\<lambda>u.
               andthen (record_failure svc (Some u) p ''code_mismatch'') (\<lambda>_.
               raise (OtpCodeMismatchError (max (max_attempts u - attempt_count u) 0))))
             else ret r))"

definition verify_write ::
  "otp_service \<Rightarrow> (nat \<Rightarrow> datetime) \<Rightarrow> OtpPurpose \<Rightarrow> otp_request \<Rightarrow> ('r, otp_request) oprog" where
  "verify_write svc clock p r =
     andthen (update_otp_request (clock 1) (\<lambda>q. q\<lparr>is_consumed := True, verified_at := Some (clock 0)\<rparr>) r) (\<lambda>v.
     andthen (otp_write_audit svc
       \<lparr>ae_actor_user_id = None, ae_action = ''otp_verified'', ae_entity_type = ''otp_request'',
        ae_entity_id = Some (row_id v),
        ae_description = ''OTP verified (purpose='' @ purpose_value p @ '')'',
        ae_metadata = [(''channel'', channel_value (channel v))],
        ae_organization_id = o_organization_id v, ae_location_id = o_location_id v\<rparr>) (\<lambda>_.
     ret v))"

definition verify_otp ::
  "(string \<Rightarrow> string) \<Rightarrow> otp_service \<Rightarrow> (nat \<Rightarrow> datetime) \<Rightarrow> string \<Rightarrow> string \<Rightarrow> OtpPurpose \<Rightarrow> ('r, otp_request) oprog" where
  "verify_otp hash svc clock raw code p =
     andthen (verify_check hash svc clock raw code p) (verify_write svc clock p)"


section \<open>Lemmas\<close>

lemma normalize_idem [simp]: "normalize_otp_identifier (normalize_otp_identifier s) = normalize_otp_identifier s"
proof -
  have "CHR ''@'' \<in> set (py_lower t)" if "CHR ''@'' \<in> set t" for t
    using that by (force simp: py_lower_def py_lower_char_def code_of_def)
  then show ?thesis by (simp add: normalize_otp_identifier_def Let_def py_strip_lower)
qed

lemma get_latest_map:
  assumes "\<And>r. o_identifier (f r) = o_identifier r" and "\<And>r. purpose (f r) = purpose r"
    and "\<And>r. created_at (f r) = created_at r" and "\<And>r. is_deleted (f r) = is_deleted r"
  shows "get_latest_for_identifier i p (map f t) = map_option f (get_latest_for_identifier i p t)"
  unfolding get_latest_for_identifier_def using assms
  by (subst get_all_map [of _ f]) (auto split: list.splits)

lemma get_latest_Some:
  assumes "get_latest_for_identifier i p t = Some r"
  shows "r \<in> set t \<and> o_identifier r = i \<and> purpose r = p \<and> \<not> is_deleted r"
proof -
  obtain rs where "get_all (\<lambda>r. o_identifier r = i \<and> purpose r = p) created_at DESC False (Some 1) t = r # rs"
    using assms by (auto simp: get_latest_for_identifier_def split: list.splits)
  from get_all_first [OF this] show ?thesis by simp
qed

lemma get_latest_snoc:
  assumes "\<And>r. r \<in> set t \<Longrightarrow> created_at r \<le> created_at a" and "o_identifier a = i" and "purpose a = p"
    and "\<not> is_deleted a"
  shows "get_latest_for_identifier i p (t @ [a]) = Some a"
  using get_all_desc_snoc [of t created_at a "\<lambda>r. o_identifier r = i \<and> purpose r = p" False] assms
  by (simp add: get_latest_for_identifier_def)

text \<open>The two writes of the service on a stored row, and what they leave as the latest.\<close>

lemma assign_otp [simp]:
  "o_identifier (assign now (\<lambda>q. q\<lparr>attempt_count := n\<rparr>) v r) = o_identifier r"
  "purpose (assign now (\<lambda>q. q\<lparr>attempt_count := n\<rparr>) v r) = purpose r"
  "attempt_count (assign now (\<lambda>q. q\<lparr>attempt_count := n\<rparr>) v r) = n"
  "max_attempts (assign now (\<lambda>q. q\<lparr>attempt_count := n\<rparr>) v r) = max_attempts r"
  "is_consumed (assign now (\<lambda>q. q\<lparr>attempt_count := n\<rparr>) v r) = is_consumed r"
  "code_hash (assign now (\<lambda>q. q\<lparr>attempt_count := n\<rparr>) v r) = code_hash r"
  "expires_at (assign now (\<lambda>q. q\<lparr>attempt_count := n\<rparr>) v r) = expires_at r"
  "o_identifier (assign now (\<lambda>q. q\<lparr>is_consumed := True, verified_at := t\<rparr>) v r) = o_identifier r"
  "purpose (assign now (\<lambda>q. q\<lparr>is_consumed := True, verified_at := t\<rparr>) v r) = purpose r"
  "is_consumed (assign now (\<lambda>q. q\<lparr>is_consumed := True, verified_at := t\<rparr>) v r)"
  "verified_at (assign now (\<lambda>q. q\<lparr>is_consumed := True, verified_at := t\<rparr>) v r) = t"
  by (simp_all add: assign_def)

lemma get_latest_update:
  assumes latest: "get_latest_for_identifier i p t = Some r"
    and "\<And>q. o_identifier (assign now data (version r) q) = o_identifier q"
    and "\<And>q. purpose (assign now data (version r) q) = purpose q"
  shows "get_latest_for_identifier i p (update_row now data r t) = Some (assign now data (version r) r)"
  unfolding update_row_def using assms by (subst get_latest_map) (auto simp: latest)

lemma record_failure_runs:
  "\<exists>db'. record_failure svc r p reason (db, x) = (Inr (), (db', x)) \<and> otp_requests db' = otp_requests db"
  by (cases "reason \<in> set OTP_AUDITED_FAILURE_REASONS")
    (auto simp: record_failure_def otp_write_audit_def modifies_db_def prog_defs)

lemma verify_check_Inr:
  "verify_check hash svc clock raw code p (db, x) = (Inr r, s') \<longleftrightarrow>
     s' = (db, x) \<and> get_latest_for_identifier (normalize_otp_identifier raw) p (otp_requests db) = Some r \<and>
     \<not> is_consumed r \<and> \<not> is_locked_out r \<and> \<not> is_expired r (clock 0) \<and> hash code = code_hash r"
  by (auto simp: verify_check_def Let_def andthen_Inr split: option.splits if_splits)

lemma verify_write_runs:
  "\<exists>db'. verify_write svc clock p r (db, x) =
      (Inr (assign (clock 1) (\<lambda>q. q\<lparr>is_consumed := True, verified_at := Some (clock 0)\<rparr>) (version r) r), (db', x)) \<and>
     otp_requests db' =
       update_row (clock 1) (\<lambda>q. q\<lparr>is_consumed := True, verified_at := Some (clock 0)\<rparr>) r (otp_requests db)"
  by (auto simp: verify_write_def update_otp_request_def otp_write_audit_def modifies_db_def prog_defs)

lemma verify_otp_Inr:
  assumes "verify_otp hash svc clock raw code p (db, x) = (Inr v, (db', x'))"
  obtains r where "get_latest_for_identifier (normalize_otp_identifier raw) p (otp_requests db) = Some r"
    and "\<not> is_consumed r" and "\<not> is_locked_out r" and "\<not> is_expired r (clock 0)" and "hash code = code_hash r"
    and "v = assign (clock 1) (\<lambda>q. q\<lparr>is_consumed := True, verified_at := Some (clock 0)\<rparr>) (version r) r"
    and "otp_requests db' =
       update_row (clock 1) (\<lambda>q. q\<lparr>is_consumed := True, verified_at := Some (clock 0)\<rparr>) r (otp_requests db)"
    and "x' = x"
proof -
  from assms obtain r where
    c: "get_latest_for_identifier (normalize_otp_identifier raw) p (otp_requests db) = Some r"
      "\<not> is_consumed r" "\<not> is_locked_out r" "\<not> is_expired r (clock 0)" "hash code = code_hash r" and
    w: "verify_write svc clock p r (db, x) = (Inr v, (db', x'))"
    by (auto simp: verify_otp_def andthen_Inr verify_check_Inr)
  from verify_write_runs [of svc clock p r db x] w that [OF c] show ?thesis by auto
qed

lemma verify_otp_I:
  assumes "get_latest_for_identifier (normalize_otp_identifier raw) p (otp_requests db) = Some r"
    and "\<not> is_consumed r" and "\<not> is_locked_out r" and "\<not> is_expired r (clock 0)" and "hash code = code_hash r"
  shows "\<exists>v db'. verify_otp hash svc clock raw code p (db, x) = (Inr v, (db', x)) \<and> row_id v = row_id r \<and> is_consumed v"
proof -
  have "verify_check hash svc clock raw code p (db, x) = (Inr r, (db, x))"
    using assms by (simp add: verify_check_Inr)
  then show ?thesis using verify_write_runs [of svc clock p r db x] by (auto simp: verify_otp_def andthen_Inr)
qed

lemma verify_otp_consumed:
  assumes "get_latest_for_identifier (normalize_otp_identifier raw) p (otp_requests db) = Some r" and "is_consumed r"
  shows "\<exists>db'. verify_otp hash svc clock raw code p (db, x) = (Inl OtpAlreadyConsumedError, (db', x))"
  using assms record_failure_runs [of svc "Some r" p "''already_consumed''" db x]
  by (auto simp: verify_otp_def verify_check_def Let_def andthen_Inl andthen_Inr)

lemma verify_otp_locked:
  assumes "get_latest_for_identifier (normalize_otp_identifier raw) p (otp_requests db) = Some r"
    and "\<not> is_consumed r" and "is_locked_out r"
  shows "\<exists>db'. verify_otp hash svc clock raw code p (db, x) = (Inl OtpAttemptsExceededError, (db', x))"
  using assms record_failure_runs [of svc "Some r" p "''attempts_exceeded''" db x]
  by (auto simp: verify_otp_def verify_check_def Let_def andthen_Inl andthen_Inr)

text \<open>A wrong code, at the session's level: the stored row counts it.\<close>

lemma verify_otp_mismatch:
  assumes "get_latest_for_identifier (normalize_otp_identifier raw) p (otp_requests db) = Some r"
    and "\<not> is_consumed r" and "\<not> is_locked_out r" and "\<not> is_expired r (clock 0)" and "hash code \<noteq> code_hash r"
  shows "\<exists>db'. verify_otp hash svc clock raw code p (db, x) =
      (Inl (OtpCodeMismatchError (max (max_attempts r - (attempt_count r + 1)) 0)), (db', x)) \<and>
     otp_requests db' = update_row (clock 1) (\<lambda>q. q\<lparr>attempt_count := attempt_count r + 1\<rparr>) r (otp_requests db)"
proof -
  let ?u = "assign (clock 1) (\<lambda>q. q\<lparr>attempt_count := attempt_count r + 1\<rparr>) (version r) r"
  let ?db = "db\<lparr>otp_requests := update_row (clock 1) (\<lambda>q. q\<lparr>attempt_count := attempt_count r + 1\<rparr>) r (otp_requests db)\<rparr>"
  obtain db' where rec: "record_failure svc (Some ?u) p ''code_mismatch'' (?db, x) = (Inr (), (db', x))"
      "otp_requests db' = otp_requests ?db"
    using record_failure_runs [of svc "Some ?u" p "''code_mismatch''" ?db x] by blast
  have up: "update_otp_request (clock 1) (\<lambda>q. q\<lparr>attempt_count := attempt_count r + 1\<rparr>) r (db, x) = (Inr ?u, (?db, x))"
    by (simp add: update_otp_request_def andthen_Inr)
  have "verify_check hash svc clock raw code p (db, x) =
      (Inl (OtpCodeMismatchError (max (max_attempts r - (attempt_count r + 1)) 0)), (db', x))"
    using assms up rec(1) by (auto simp: verify_check_def Let_def andthen_Inl andthen_Inr)
  then show ?thesis using rec(2) by (auto simp: verify_otp_def andthen_Inl)
qed

text \<open>A series of guesses, one call after the other; \<open>attempt\<close> is the call made for a guess.\<close>

fun run_guesses :: "('g \<Rightarrow> ('s, 'e, 'a) prog) \<Rightarrow> 'g list \<Rightarrow> 's \<Rightarrow> ('e + 'a) list \<times> 's" where
  "run_guesses attempt [] s = ([], s)"
| "run_guesses attempt (c # cs) s =
     (case attempt c s of (r, s') \<Rightarrow> (case run_guesses attempt cs s' of (rs, s'') \<Rightarrow> (r # rs, s'')))"

lemma guesses_locked:
  assumes "get_latest_for_identifier (normalize_otp_identifier raw) p (otp_requests db) = Some r"
    and "\<not> is_consumed r" and "is_locked_out r"
  shows "fst (run_guesses (\<lambda>c. verify_otp hash svc clock raw c p) cs (db, x)) =
    replicate (length cs) (Inl OtpAttemptsExceededError)"
  using assms
proof (induction cs arbitrary: db)
  case (Cons c cs)
  obtain db' where run: "verify_otp hash svc clock raw c p (db, x) = (Inl OtpAttemptsExceededError, (db', x))"
      "otp_requests db' = otp_requests db"
    using Cons.prems record_failure_runs [of svc "Some r" p "''attempts_exceeded''" db x]
    by (auto simp: verify_otp_def verify_check_def Let_def andthen_Inl andthen_Inr)
  with Cons.IH [of db'] Cons.prems show ?case by (auto split: prod.splits)
qed simp

text \<open>Requests in a row: who asked, over which channel, and the row's id, digits and clock.\<close>

record otp_ask =
  ask_raw :: string
  ask_channel :: OtpChannel
  ask_purpose :: OtpPurpose
  ask_id :: uuid
  ask_tape :: "nat \<Rightarrow> nat"
  ask_clock :: "nat \<Rightarrow> datetime"

fun run_asks ::
  "(string \<Rightarrow> string) \<Rightarrow> 'r redis_ops \<Rightarrow> otp_service \<Rightarrow> otp_ask list \<Rightarrow> otp_db \<times> 'r \<times> otp_message list \<Rightarrow>
   otp_db \<times> 'r \<times> otp_message list" where
  "run_asks hash redis svc [] s = s"
| "run_asks hash redis svc (a # as) s =
     run_asks hash redis svc as
       (snd (with_db_session (request_otp hash redis svc (ask_id a) (ask_tape a) (ask_clock a) 0
          (ask_raw a) (ask_channel a) (ask_purpose a) None None) s))"

fun recipient :: "otp_message \<Rightarrow> string" where
  "recipient (SmsMessage to body) = to"
| "recipient (WhatsAppMessage to code body) = to"
| "recipient (EmailMessage to subject intro code mins) = to"

definition messages_to :: "string \<Rightarrow> otp_message list \<Rightarrow> nat" where
  "messages_to i out = length (filter (\<lambda>m. recipient m = i) out)"

lemma dispatch_recipient [simp]: "recipient (dispatch_message svc i code ch p) = i"
  by (cases ch) (simp_all add: dispatch_message_def Let_def)

text \<open>What a request does to the unmanaged half: either nothing (a malformed identifier), or
  the limiter ran and at most one message went to the identifier, only if it was admitted.\<close>

lemma request_otp_outside:
  assumes "request_otp hash redis svc i tape clock ms raw ch p org loc (db, r, out) = (res, (db', r', out'))"
  shows "(r' = r \<and> out' = out) \<or>
    (\<exists>a. OtpRateLimiter_check_and_increment redis (normalize_otp_identifier raw) (max_requests_per_window svc)
        (request_window_minutes svc) r = (a, r') \<and>
      (out' = out \<or> a = Inr () \<and> (\<exists>m. out' = out @ [m] \<and> recipient m = normalize_otp_identifier raw)))"
proof -
  define ident where "ident = normalize_otp_identifier raw"
  define lim where "lim = OtpRateLimiter_check_and_increment redis ident (max_requests_per_window svc)
      (request_window_minutes svc) r"
  show ?thesis
  proof (cases "validate_identifier ident ch")
    case (Inl e)
    then show ?thesis using assms by (simp add: request_otp_def Let_def ident_def [symmetric] andthen_def lift_result_def)
  next
    case (Inr u)
    obtain a r1 where l: "lim = (a, r1)" by fastforce
    show ?thesis
    proof (cases a)
      case (Inl e)
      with l Inr assms show ?thesis
        by (auto simp: request_otp_def Let_def ident_def [symmetric] lim_def andthen_def lift_result_def
            otp_rate_limit_def calls_outside_def)
    next
      case (Inr w)
      with l \<open>validate_identifier ident ch = Inr u\<close> assms show ?thesis
        by (auto simp: request_otp_def Let_def ident_def [symmetric] lim_def andthen_def lift_result_def
            otp_rate_limit_def calls_outside_def stores_db_def send_recorded_def modifies_def guard_def ret_def raise_def
            split: sum.splits if_splits)
    qed
  qed
qed


section \<open>Properties\<close>

definition plain_hash :: "string \<Rightarrow> string" where
  "plain_hash c = ''h:'' @ c"

definition ex_otp_svc :: otp_service where
  "ex_otp_svc =
     \<lparr>has_audit_writer = True, code_length = 6, expiry_seconds = 300, max_verification_attempts = 2,
      max_requests_per_window = 1, request_window_minutes = 60, sms_message_template = [],
      provider_class = (\<lambda>_. ''TwilioSmsProvider''), provider_accepts = (\<lambda>_. True)\<rparr>"

definition ex_row :: otp_request where
  "ex_row = new_otp_request ''i'' (\<lambda>_. 0) ex_otp_svc ''a@b.c'' EMAIL GUEST_LOGIN (plain_hash ''042817'') None None"

definition ex_otp_db :: otp_db where
  "ex_otp_db = \<lparr>otp_requests = [ex_row], otp_audit = []\<rparr>"

lemma ex_row_facts:
  "get_latest_for_identifier (normalize_otp_identifier '' A@b.C '') GUEST_LOGIN (otp_requests ex_otp_db) = Some ex_row"
  "\<not> is_consumed ex_row" "\<not> is_locked_out ex_row" "\<not> is_expired ex_row 7"
  "plain_hash ''042817'' = code_hash ex_row" "plain_hash ''000000'' \<noteq> code_hash ex_row"
  by code_simp+





text \<open>
  Lockout as designed. Within one session, wrong guesses are counted: with \<open>n\<close> attempts
  left, the first \<open>n\<close> wrong codes are refused with the number of remaining attempts
  counting down to 0, and every later guess, a right one included, is refused as locked.
\<close>

theorem lockout_within_session:
  assumes "get_latest_for_identifier (normalize_otp_identifier raw) p (otp_requests db) = Some r"
    and "\<not> is_consumed r" and "\<not> is_expired r (clock 0)" and "int n = max_attempts r - attempt_count r"
    and "\<forall>c \<in> set wrong. hash c \<noteq> code_hash r" and "length wrong = n"
  shows "fst (run_guesses (\<lambda>c. verify_otp hash svc clock raw c p) (wrong @ later) (db, x)) =
    map (\<lambda>k. Inl (OtpCodeMismatchError (int n - 1 - int k))) [0..<n] @
    replicate (length later) (Inl OtpAttemptsExceededError)"
  using assms
proof (induction wrong arbitrary: n db r)
  case Nil
  then show ?case using guesses_locked [of raw p db r] by (simp add: is_locked_out_def)
next
  case (Cons c wrong)
  then obtain m where m: "n = Suc m" by (cases n) auto
  have open_: "\<not> is_locked_out r" using Cons.prems(4) m by (simp add: is_locked_out_def)
  obtain db' where run: "verify_otp hash svc clock raw c p (db, x) =
        (Inl (OtpCodeMismatchError (max (max_attempts r - (attempt_count r + 1)) 0)), (db', x))"
      and rows: "otp_requests db' = update_row (clock 1) (\<lambda>q. q\<lparr>attempt_count := attempt_count r + 1\<rparr>) r (otp_requests db)"
    using verify_otp_mismatch [OF Cons.prems(1,2) open_, of clock hash c svc x] Cons.prems(3,5) by auto
  define r' where "r' = assign (clock 1) (\<lambda>q. q\<lparr>attempt_count := attempt_count r + 1\<rparr>) (version r) r"
  have latest: "get_latest_for_identifier (normalize_otp_identifier raw) p (otp_requests db') = Some r'"
    unfolding rows r'_def by (rule get_latest_update [OF Cons.prems(1)]) simp_all
  have "fst (run_guesses (\<lambda>c. verify_otp hash svc clock raw c p) (wrong @ later) (db', x)) =
      map (\<lambda>k. Inl (OtpCodeMismatchError (int m - 1 - int k))) [0..<m] @
      replicate (length later) (Inl OtpAttemptsExceededError)"
    by (rule Cons.IH [OF latest]) (use Cons.prems m in \<open>auto simp: r'_def is_expired_def\<close>)
  moreover have "max (max_attempts r - (attempt_count r + 1)) 0 = int m" using Cons.prems(4) m by simp
  ultimately show ?case using run by (auto simp: m upt_conv_Cons map_Suc_upt [symmetric] comp_def simp del: upt_Suc split: prod.splits)
qed

theorem lockout_within_session_witness:
  "fst (run_guesses (\<lambda>c. verify_otp plain_hash ex_otp_svc (\<lambda>_. 7) '' A@b.C '' c GUEST_LOGIN)
      ([''000000'', ''000000''] @ [''042817'']) (ex_otp_db, ((), []))) =
    [Inl (OtpCodeMismatchError 1), Inl (OtpCodeMismatchError 0), Inl OtpAttemptsExceededError]"
proof -
  have n: "int 2 = max_attempts ex_row - attempt_count ex_row" by code_simp
  have w: "\<forall>c \<in> set [''000000'', ''000000'']. plain_hash c \<noteq> code_hash ex_row" using ex_row_facts(6) by simp
  show ?thesis
    using lockout_within_session [where clock = "\<lambda>_. 7" and svc = ex_otp_svc and later = "[''042817'']" and x = "((), [])",
        OF ex_row_facts(1,2,4) n w]
    by (simp add: numeral_2_eq_2)
qed

lemma session_mismatch:
  assumes "get_latest_for_identifier (normalize_otp_identifier raw) p (otp_requests db) = Some r"
    and "\<not> is_consumed r" and "\<not> is_locked_out r" and "\<not> is_expired r (clock 0)" and "hash c \<noteq> code_hash r"
  shows "with_db_session (verify_otp hash svc clock raw c p) (db, x) =
    (Inl (OtpCodeMismatchError (max (max_attempts r - (attempt_count r + 1)) 0)), (db, x))"
  using verify_otp_mismatch [where hash = hash and svc = svc and x = x and code = c and clock = clock, OF assms(1-4)]
    assms(5)
  by (auto simp: with_db_session_Inl)

text \<open>
  C39. The lockout is lost with the request. Each verification runs in its own request
  session, which rolls back when the service raises, and a wrong code raises. So however
  many wrong codes are tried, one request each, the tables are unchanged, every refusal
  reports the same number of remaining attempts, and the right code still verifies.
\<close>

theorem lockout_never_persists:
  assumes "get_latest_for_identifier (normalize_otp_identifier raw) p (otp_requests db) = Some r"
    and "\<not> is_consumed r" and "\<not> is_locked_out r" and "\<not> is_expired r (clock 0)"
    and "\<forall>c \<in> set wrong. hash c \<noteq> code_hash r" and "hash right = code_hash r"
  shows "run_guesses (\<lambda>c. with_db_session (verify_otp hash svc clock raw c p)) wrong (db, x) =
      (replicate (length wrong) (Inl (OtpCodeMismatchError (max (max_attempts r - (attempt_count r + 1)) 0))), (db, x)) \<and>
    (\<exists>v db'. with_db_session (verify_otp hash svc clock raw right p) (db, x) = (Inr v, (db', x)) \<and> is_consumed v)"
proof -
  have "run_guesses (\<lambda>c. with_db_session (verify_otp hash svc clock raw c p)) wrong (db, x) =
      (replicate (length wrong) (Inl (OtpCodeMismatchError (max (max_attempts r - (attempt_count r + 1)) 0))), (db, x))"
    using assms(5)
  proof (induction wrong)
    case (Cons c cs)
    then have "with_db_session (verify_otp hash svc clock raw c p) (db, x) =
        (Inl (OtpCodeMismatchError (max (max_attempts r - (attempt_count r + 1)) 0)), (db, x))"
      by (intro session_mismatch [where clock = clock, OF assms(1-4)]) simp
    with Cons show ?case by simp
  qed simp
  moreover have "\<exists>v db'. with_db_session (verify_otp hash svc clock raw right p) (db, x) = (Inr v, (db', x)) \<and> is_consumed v"
    using verify_otp_I [where hash = hash and svc = svc and code = right and x = x and clock = clock, OF assms(1-4)]
      assms(6)
    by (auto simp: with_db_session_Inr)
  ultimately show ?thesis by blast
qed

theorem lockout_never_persists_witness:
  "snd (run_guesses (\<lambda>c. with_db_session (verify_otp plain_hash ex_otp_svc (\<lambda>_. 7) '' A@b.C '' c GUEST_LOGIN))
      (replicate 50 ''000000'') (ex_otp_db, ((), []))) = (ex_otp_db, ((), [])) \<and> max_attempts ex_row = 2"
proof -
  have "\<forall>c \<in> set (replicate 50 ''000000''). plain_hash c \<noteq> code_hash ex_row" using ex_row_facts(6) by simp
  from lockout_never_persists [where clock = "\<lambda>_. 7", OF ex_row_facts(1-4) this ex_row_facts(5), of ex_otp_svc "((), [])"]
  have "snd (run_guesses (\<lambda>c. with_db_session (verify_otp plain_hash ex_otp_svc (\<lambda>_. 7) '' A@b.C '' c GUEST_LOGIN))
      (replicate 50 ''000000'') (ex_otp_db, ((), []))) = (ex_otp_db, ((), []))"
    by (elim conjE) (simp only: snd_conv)
  moreover have "max_attempts ex_row = 2" by code_simp
  ultimately show ?thesis by blast
qed

text \<open>
  Consumption is not atomic. The check of \<open>verify_otp\<close> and the write that consumes the
  row are separate statements and the write is unconditional, so two requests that both
  pass the check before either writes both return successfully with the same code.
\<close>

theorem concurrent_verifications_both_succeed:
  assumes "verify_check hash svc clock raw code p (db, x) = (Inr r, (db, x))"
    and "verify_check hash svc clock2 raw code p (db, x) = (Inr r2, (db, x))"
    and "verify_write svc clock p r (db, x) = (res, (db1, x1))"
  shows "res = Inr (assign (clock 1) (\<lambda>q. q\<lparr>is_consumed := True, verified_at := Some (clock 0)\<rparr>) (version r) r) \<and>
    row_id r2 = row_id r \<and> (\<exists>v2 db2. verify_write svc clock2 p r2 (db1, x1) = (Inr v2, (db2, x1)) \<and> is_consumed v2)"
  using assms verify_write_runs [of svc clock p r db x] verify_write_runs [of svc clock2 p r2 db1 x1]
  by (auto simp: verify_check_Inr)

theorem concurrent_verifications_both_succeed_witness:
  "\<exists>v db1. verify_write ex_otp_svc (\<lambda>_. 7) GUEST_LOGIN ex_row (ex_otp_db, ((), [])) = (Inr v, (db1, ((), []))) \<and>
    (\<exists>v2 db2. verify_write ex_otp_svc (\<lambda>_. 8) GUEST_LOGIN ex_row (db1, ((), [])) = (Inr v2, (db2, ((), []))))"
proof -
  have c: "verify_check plain_hash ex_otp_svc (\<lambda>_. n) '' A@b.C '' ''042817'' GUEST_LOGIN (ex_otp_db, ((), [])) =
      (Inr ex_row, (ex_otp_db, ((), [])))" if "\<not> is_expired ex_row n" for n
    using ex_row_facts(1,2,3,5) that unfolding verify_check_Inr by blast
  have late: "\<not> is_expired ex_row 8" by code_simp
  obtain res db1 where w: "verify_write ex_otp_svc (\<lambda>_. 7) GUEST_LOGIN ex_row (ex_otp_db, ((), [])) = (res, (db1, ((), [])))"
    using verify_write_runs [of ex_otp_svc "\<lambda>_. 7" GUEST_LOGIN ex_row ex_otp_db "((), [])"] by auto
  from concurrent_verifications_both_succeed [OF c [OF ex_row_facts(4)] c [OF late] w] w show ?thesis by blast
qed

text \<open>
  A contact is not flooded. In any burst of code requests by anyone, over any
  channel and for any purpose, an identifier whose counter starts fresh is sent at most
  \<open>max_requests_per_window\<close> messages.
\<close>

theorem messages_bounded:
  assumes laws: "redis_laws redis val ex" and w: "0 < request_window_minutes svc"
    and m: "0 \<le> max_requests_per_window svc"
    and fresh: "val r (OTP_REQUEST_RATE_LIMIT_KEY i) = 0" and none: "messages_to i out = 0"
  shows "int (messages_to i (snd (snd (run_asks hash redis svc asks (db, r, out))))) \<le> max_requests_per_window svc"
proof -
  define bounded where "bounded = (\<lambda>s :: otp_db \<times> 'a \<times> otp_message list. int (messages_to i (snd (snd s))) \<le> max_requests_per_window svc \<and>
      int (messages_to i (snd (snd s))) \<le> val (fst (snd s)) (OTP_REQUEST_RATE_LIMIT_KEY i) \<and>
      0 \<le> val (fst (snd s)) (OTP_REQUEST_RATE_LIMIT_KEY i))"
  have step: "bounded (snd (with_db_session (request_otp hash redis svc (ask_id a) (ask_tape a) (ask_clock a) 0
          (ask_raw a) (ask_channel a) (ask_purpose a) None None) s))" if s: "bounded s" for a s
  proof -
    obtain db r out where sdef: "s = (db, r, out)" by (metis prod.exhaust)
    obtain res db' r' out' where run: "request_otp hash redis svc (ask_id a) (ask_tape a) (ask_clock a) 0
          (ask_raw a) (ask_channel a) (ask_purpose a) None None (db, r, out) = (res, (db', r', out'))"
      by (metis prod.exhaust)
    have snd_run: "snd (snd (with_db_session (request_otp hash redis svc (ask_id a) (ask_tape a) (ask_clock a) 0
          (ask_raw a) (ask_channel a) (ask_purpose a) None None) s)) = (r', out')"
      using run by (cases res) (auto simp: sdef with_db_session_def)
    let ?k = "normalize_otp_identifier (ask_raw a)"
    from request_otp_outside [OF run] consider "r' = r" "out' = out"
      | e where "OtpRateLimiter_check_and_increment redis ?k (max_requests_per_window svc) (request_window_minutes svc) r = (e, r')"
          "out' = out"
      | msg where "OtpRateLimiter_check_and_increment redis ?k (max_requests_per_window svc) (request_window_minutes svc) r = (Inr (), r')"
          "out' = out @ [msg]" "recipient msg = ?k"
      by blast
    then show ?thesis
    proof cases
      case 1
      then show ?thesis using s snd_run by (simp add: bounded_def sdef)
    next
      case 2
      then have "val r' = (val r)(OTP_REQUEST_RATE_LIMIT_KEY ?k := val r (OTP_REQUEST_RATE_LIMIT_KEY ?k) + 1)"
        using ol.counts [OF laws w, of ?k "max_requests_per_window svc" r] by simp
      with 2 s snd_run show ?thesis by (auto simp: bounded_def sdef)
    next
      case 3
      then have v: "val r' = (val r)(OTP_REQUEST_RATE_LIMIT_KEY ?k := val r (OTP_REQUEST_RATE_LIMIT_KEY ?k) + 1)"
        using ol.counts [OF laws w, of ?k "max_requests_per_window svc" r] by simp
      have lt: "val r (OTP_REQUEST_RATE_LIMIT_KEY ?k) < max_requests_per_window svc"
        using 3(1) ol.admits [OF laws w, of ?k "max_requests_per_window svc" r] by blast
      show ?thesis
        using 3 v lt s snd_run ol.key_inj [of ?k i]
        by (cases "?k = i") (auto simp: bounded_def sdef messages_to_def)
    qed
  qed
  have all: "bounded (run_asks hash redis svc asks s)" if "bounded s" for s
    using that by (induction asks arbitrary: s) (simp_all add: step)
  have "bounded (db, r, out)" using fresh none m by (simp add: bounded_def)
  from all [OF this] show ?thesis by (simp add: bounded_def)
qed

theorem messages_bounded_witness:
  "int (messages_to ''a@b.c'' (snd (snd (run_asks plain_hash store_ops ex_otp_svc
     (replicate 3 \<lparr>ask_raw = ''A@b.c'', ask_channel = EMAIL, ask_purpose = GUEST_LOGIN, ask_id = ''k'',
        ask_tape = (\<lambda>i. i), ask_clock = int\<rparr>) (ex_otp_db, (\<lambda>_. 0, \<lambda>_. False), []))))) \<le> 1"
  using messages_bounded [OF store_laws, of ex_otp_svc "(\<lambda>_. 0, \<lambda>_. False)" "''a@b.c''" "[]"]
  by (simp add: ex_otp_svc_def messages_to_def)

end
