(* ===== verification/Credits.thy ===== *)
theory Credits
  imports Database
begin

section \<open>Prepaid credits: the wallet and its ledger\<close>

text \<open>
  \<open>app/domains/billing\<close>: \<open>models.CreditWallet\<close> and \<open>models.CreditLedgerEntry\<close>, the statements of
  \<open>credits_repository.py\<close> and \<open>CreditWalletService\<close> of \<open>credits_service.py\<close>. Every change of a
  wallet is one append to the ledger under the wallet's row lock, so operations on a
  wallet are a sequence. Amounts are Python integers (minor units).

  The managed state is the two tables and the low-balance alerts that the hook queued.
  \<open>before_write\<close> (the invoice a top-up may issue) is a parameter: the invoice id it
  returns, or the error it raises. The database constraints the model enforces on an
  insert are the unique idempotency key, the unique debit per recipient and the
  non-negative balances.
\<close>

datatype CreditBucket = MARKETING

datatype CreditEntryType = TOPUP | RESERVE | RELEASE | DEBIT | REFUND | ADJUSTMENT

definition DEFAULT_LOW_BALANCE_THRESHOLD_MINOR :: int where
  "DEFAULT_LOW_BALANCE_THRESHOLD_MINOR = 10000"

definition MAX_ENTRY_AMOUNT_MINOR :: int where
  "MAX_ENTRY_AMOUNT_MINOR = 1000000000"

record credit_wallet = base_model +
  w_organization_id :: uuid
  w_bucket :: CreditBucket
  available_minor :: int
  reserved_minor :: int
  low_balance_threshold_minor :: int
  low_balance_notified_at :: "datetime option"

record credit_ledger_entry = base_model +
  e_organization_id :: uuid
  e_bucket :: CreditBucket
  entry_type :: CreditEntryType
  delta_available_minor :: int
  delta_reserved_minor :: int
  balance_available_after_minor :: int
  balance_reserved_after_minor :: int
  e_campaign_id :: "uuid option"
  e_recipient_id :: "uuid option"
  is_test_send :: bool
  unit_price_minor :: "int option"
  units :: "int option"
  reference :: "string option"
  note_text :: "string option"
  invoice_id :: "uuid option"
  actor_user_id :: "uuid option"
  idempotency_key :: string

record credits_db =
  wallets :: "credit_wallet list"
  ledger :: "credit_ledger_entry list"
  alerts :: "credit_wallet list"

datatype integrity_error = UniqueViolation | CheckViolation

datatype credits_error =
    CreditValueError
  | IdempotencyKeyReusedError string
  | AdjustmentExceedsAvailableError int int
  | InsufficientCreditsError int int
  | CreditReservationExceededError int int
  | CreditIntegrityError integrity_error
  | InvoiceError

type_synonym ('x, 'a) cprog = "(credits_db \<times> 'x, credits_error, 'a) prog"

text \<open>The optional columns an operation passes on (\<open>fields\<close>).\<close>

record entry_fields =
  ef_campaign_id :: "uuid option"
  ef_recipient_id :: "uuid option"
  ef_unit_price_minor :: "int option"
  ef_units :: "int option"
  ef_is_test_send :: bool
  ef_actor_user_id :: "uuid option"
  ef_reference :: "string option"
  ef_note :: "string option"

definition no_fields :: entry_fields where
  "no_fields =
     \<lparr>ef_campaign_id = None, ef_recipient_id = None, ef_unit_price_minor = None, ef_units = None,
      ef_is_test_send = False, ef_actor_user_id = None, ef_reference = None, ef_note = None\<rparr>"

record ledger_write =
  lw_entry :: credit_ledger_entry
  lw_wallet :: credit_wallet
  lw_created :: bool

text \<open>What a call draws from outside: fresh row ids, clock reads and whether the service has
  a low-balance hook.\<close>

record credit_env =
  wallet_id :: uuid
  entry_id :: uuid
  now_at :: "nat \<Rightarrow> datetime"
  low_balance_hook :: bool


subsection \<open>Repository\<close>

definition of_wallet :: "uuid \<Rightarrow> CreditBucket \<Rightarrow> credit_wallet \<Rightarrow> bool" where
  "of_wallet org b w \<longleftrightarrow> w_organization_id w = org \<and> w_bucket w = b"

definition of_entry :: "uuid \<Rightarrow> CreditBucket \<Rightarrow> credit_ledger_entry \<Rightarrow> bool" where
  "of_entry org b e \<longleftrightarrow> e_organization_id e = org \<and> e_bucket e = b"

definition new_wallet :: "uuid \<Rightarrow> datetime \<Rightarrow> uuid \<Rightarrow> CreditBucket \<Rightarrow> credit_wallet" where
  "new_wallet i now org b =
     base_model.extend (new_base i now None)
       (credit_wallet.fields org b 0 0 DEFAULT_LOW_BALANCE_THRESHOLD_MINOR None)"

definition get_wallet :: "uuid \<Rightarrow> CreditBucket \<Rightarrow> credits_db \<Rightarrow> credit_wallet option" where
  "get_wallet org b db = find (of_wallet org b) (wallets db)"

text \<open>\<open>INSERT ... ON CONFLICT DO NOTHING\<close>, then the locked row.\<close>

definition lock_wallet :: "credit_env \<Rightarrow> uuid \<Rightarrow> CreditBucket \<Rightarrow> ('x, credit_wallet) cprog" where
  "lock_wallet env org b =
     andthen (modifies_db (\<lambda>db. if list_ex (of_wallet org b) (wallets db) then db
                else db\<lparr>wallets := wallets db @ [new_wallet (wallet_id env) (now_at env 0) org b]\<rparr>)) (\<lambda>_.
     andthen (reads_db (get_wallet org b)) (\<lambda>w.
     orelse w (CreditIntegrityError UniqueViolation)))"

definition get_entry_by_key :: "uuid \<Rightarrow> CreditBucket \<Rightarrow> string \<Rightarrow> credits_db \<Rightarrow> credit_ledger_entry option" where
  "get_entry_by_key org b key db = find (\<lambda>e. of_entry org b e \<and> idempotency_key e = key) (ledger db)"

text \<open>The constraints of \<open>credit_ledger_entries\<close>, checked when the row is flushed.\<close>

definition entry_integrity :: "credit_ledger_entry \<Rightarrow> credit_ledger_entry list \<Rightarrow> integrity_error option" where
  "entry_integrity e t =
     (if list_ex (\<lambda>q. of_entry (e_organization_id e) (e_bucket e) q \<and> idempotency_key q = idempotency_key e) t
      then Some UniqueViolation
      else if entry_type e = DEBIT \<and> e_recipient_id e \<noteq> None \<and>
              list_ex (\<lambda>q. entry_type q = DEBIT \<and> e_recipient_id q = e_recipient_id e) t
      then Some UniqueViolation
      else if balance_available_after_minor e < 0 \<or> balance_reserved_after_minor e < 0
      then Some CheckViolation
      else None)"

definition insert_entry :: "credit_ledger_entry \<Rightarrow> credits_db \<Rightarrow> integrity_error + credits_db" where
  "insert_entry e db =
     (case entry_integrity e (ledger db) of
        Some v \<Rightarrow> Inl v | None \<Rightarrow> Inr (db\<lparr>ledger := ledger db @ [e]\<rparr>))"

text \<open>The attribute writes on the locked row, flushed by \<open>save_wallet\<close>.\<close>

definition save_wallet ::
  "datetime \<Rightarrow> (credit_wallet \<Rightarrow> credit_wallet) \<Rightarrow> credit_wallet \<Rightarrow> credits_db \<Rightarrow> credits_db" where
  "save_wallet now f w db =
     db\<lparr>wallets := map (\<lambda>q. if of_wallet (w_organization_id w) (w_bucket w) q
                         then (f q)\<lparr>updated_at := now\<rparr> else q) (wallets db)\<rparr>"

definition has_prefix :: "string \<Rightarrow> string \<Rightarrow> bool" where
  "has_prefix p s \<longleftrightarrow> take (length p) s = p"

definition count_campaign_entries ::
  "uuid \<Rightarrow> CreditBucket \<Rightarrow> uuid \<Rightarrow> CreditEntryType \<Rightarrow> string option \<Rightarrow> credits_db \<Rightarrow> nat" where
  "count_campaign_entries org b campaign ty key_prefix db =
     length (filter (\<lambda>e. of_entry org b e \<and> e_campaign_id e = Some campaign \<and> entry_type e = ty \<and>
                         (case key_prefix of None \<Rightarrow> True | Some p \<Rightarrow> has_prefix p (idempotency_key e)))
               (ledger db))"

definition campaign_reserved_outstanding :: "uuid \<Rightarrow> CreditBucket \<Rightarrow> uuid \<Rightarrow> credits_db \<Rightarrow> int" where
  "campaign_reserved_outstanding org b campaign db =
     sum_list (map delta_reserved_minor
       (filter (\<lambda>e. of_entry org b e \<and> e_campaign_id e = Some campaign) (ledger db)))"


subsection \<open>The wallet service\<close>

definition require_positive :: "int \<Rightarrow> credits_error + unit" where
  "require_positive n = (if n \<le> 0 \<or> MAX_ENTRY_AMOUNT_MINOR < n then Inl CreditValueError else Inr ())"

definition LOW_BALANCE_ENTRY_TYPES :: "CreditEntryType list" where
  "LOW_BALANCE_ENTRY_TYPES = [RESERVE, DEBIT, ADJUSTMENT]"

definition maybe_alert_low_balance ::
  "credit_env \<Rightarrow> CreditEntryType \<Rightarrow> credit_wallet \<Rightarrow> ('x, credit_wallet) cprog" where
  "maybe_alert_low_balance env ty w =
     (if \<not> low_balance_hook env \<or> ty \<notin> set LOW_BALANCE_ENTRY_TYPES \<or> low_balance_notified_at w \<noteq> None \<or>
         low_balance_threshold_minor w \<le> available_minor w
      then ret w
      else andthen (modifies_db (\<lambda>db. db\<lparr>alerts := alerts db @ [w]\<rparr>)) (\<lambda>_.
           andthen (modifies_db (save_wallet (now_at env 3)
                      (\<lambda>q. q\<lparr>low_balance_notified_at := Some (now_at env 3)\<rparr>) w)) (\<lambda>_.
           ret (w\<lparr>low_balance_notified_at := Some (now_at env 3), updated_at := now_at env 3\<rparr>))))"

definition new_entry ::
  "credit_env \<Rightarrow> uuid \<Rightarrow> CreditBucket \<Rightarrow> CreditEntryType \<Rightarrow> int \<Rightarrow> int \<Rightarrow> int \<Rightarrow> int \<Rightarrow> string \<Rightarrow> entry_fields \<Rightarrow>
   uuid option \<Rightarrow> credit_ledger_entry" where
  "new_entry env org b ty da dr na nr key f invoice =
     base_model.extend (new_base (entry_id env) (now_at env 1) (ef_actor_user_id f))
       (credit_ledger_entry.fields org b ty da dr na nr (ef_campaign_id f) (ef_recipient_id f) (ef_is_test_send f)
          (ef_unit_price_minor f) (ef_units f) (ef_reference f) (ef_note f) invoice (ef_actor_user_id f) key)"

text \<open>The new balances on the wallet row, with the low-balance alert re-armed when the
  balance is back at the threshold.\<close>

definition settle :: "int \<Rightarrow> int \<Rightarrow> credit_wallet \<Rightarrow> credit_wallet" where
  "settle na nr w =
     w\<lparr>available_minor := na, reserved_minor := nr,
       low_balance_notified_at :=
         (if low_balance_notified_at w \<noteq> None \<and> low_balance_threshold_minor w \<le> na then None
          else low_balance_notified_at w)\<rparr>"

definition same_request ::
  "credit_ledger_entry \<Rightarrow> CreditEntryType \<Rightarrow> int \<Rightarrow> int \<Rightarrow> entry_fields \<Rightarrow> bool" where
  "same_request e ty da dr f \<longleftrightarrow>
     entry_type e = ty \<and> delta_available_minor e = da \<and> delta_reserved_minor e = dr \<and>
     e_campaign_id e = ef_campaign_id f \<and> e_recipient_id e = ef_recipient_id f"

text \<open>The insert inside the \<open>try\<close>: a violated CHECK surfaces as insufficient credits, any other
  integrity error is raised again.\<close>

definition store_entry :: "int \<Rightarrow> credit_wallet \<Rightarrow> credit_ledger_entry \<Rightarrow> ('x, unit) cprog" where
  "store_entry da w e =
     (\<lambda>(db, x). case insert_entry e db of
        Inr db' \<Rightarrow> (Inr (), (db', x))
      | Inl v \<Rightarrow> (Inl (case v of
                       UniqueViolation \<Rightarrow> CreditIntegrityError UniqueViolation
                     | CheckViolation \<Rightarrow> InsufficientCreditsError (max 0 (- da)) (available_minor w)), (db, x)))"

definition apply_entry ::
  "credit_env \<Rightarrow> uuid \<Rightarrow> CreditBucket \<Rightarrow> CreditEntryType \<Rightarrow> int \<Rightarrow> int \<Rightarrow> string \<Rightarrow> entry_fields \<Rightarrow>
   (credit_wallet \<Rightarrow> credits_error + uuid option) option \<Rightarrow> ('x, ledger_write) cprog" where
  "apply_entry env org b ty da dr key f before_write =
     andthen (guard (key \<noteq> []) CreditValueError) (\<lambda>_.
     andthen (lock_wallet env org b) (\<lambda>w.
     andthen (reads_db (get_entry_by_key org b key)) (\<lambda>existing.
     case existing of
       Some e \<Rightarrow>
         andthen (guard (same_request e ty da dr f) (IdempotencyKeyReusedError key)) (\<lambda>_.
         ret \<lparr>lw_entry = e, lw_wallet = w, lw_created = False\<rparr>)
     | None \<Rightarrow>
         let na = available_minor w + da; nr = reserved_minor w + dr
         in andthen (guard (0 \<le> na)
                (if ty = ADJUSTMENT then AdjustmentExceedsAvailableError da (available_minor w)
                 else InsufficientCreditsError (- da) (available_minor w))) (\<lambda>_.
            andthen (guard (0 \<le> nr) (CreditReservationExceededError (- dr) (reserved_minor w))) (\<lambda>_.
            andthen (lift_result (case before_write of None \<Rightarrow> Inr None | Some g \<Rightarrow> g w)) (\<lambda>invoice.
            let e = new_entry env org b ty da dr na nr key f invoice
            in andthen (store_entry da w e) (\<lambda>_.
               andthen (modifies_db (save_wallet (now_at env 2) (settle na nr) w)) (\<lambda>_.
               andthen (maybe_alert_low_balance env ty ((settle na nr w)\<lparr>updated_at := now_at env 2\<rparr>)) (\<lambda>w'.
               ret \<lparr>lw_entry = e, lw_wallet = w', lw_created = True\<rparr>))))))))) "

definition topup ::
  "credit_env \<Rightarrow> uuid \<Rightarrow> int \<Rightarrow> string \<Rightarrow> uuid option \<Rightarrow> string option \<Rightarrow> string option \<Rightarrow> CreditBucket \<Rightarrow>
   (credit_wallet \<Rightarrow> credits_error + uuid option) option \<Rightarrow> ('x, ledger_write) cprog" where
  "topup env org amount key actor ref note b before_write =
     andthen (lift_result (require_positive amount)) (\<lambda>_.
     apply_entry env org b TOPUP amount 0 key
       (no_fields\<lparr>ef_actor_user_id := actor, ef_reference := ref, ef_note := note\<rparr>) before_write)"

definition reserve :: "credit_env \<Rightarrow> uuid \<Rightarrow> int \<Rightarrow> string \<Rightarrow> uuid \<Rightarrow> CreditBucket \<Rightarrow> ('x, ledger_write) cprog" where
  "reserve env org amount key campaign b =
     andthen (lift_result (require_positive amount)) (\<lambda>_.
     apply_entry env org b RESERVE (- amount) amount key (no_fields\<lparr>ef_campaign_id := Some campaign\<rparr>) None)"

definition release :: "credit_env \<Rightarrow> uuid \<Rightarrow> int \<Rightarrow> string \<Rightarrow> uuid \<Rightarrow> CreditBucket \<Rightarrow> ('x, ledger_write) cprog" where
  "release env org amount key campaign b =
     andthen (lift_result (require_positive amount)) (\<lambda>_.
     apply_entry env org b RELEASE amount (- amount) key (no_fields\<lparr>ef_campaign_id := Some campaign\<rparr>) None)"

definition debit ::
  "credit_env \<Rightarrow> uuid \<Rightarrow> int \<Rightarrow> string \<Rightarrow> uuid option \<Rightarrow> uuid option \<Rightarrow> int option \<Rightarrow> int option \<Rightarrow> bool \<Rightarrow> CreditBucket \<Rightarrow>
   ('x, ledger_write) cprog" where
  "debit env org amount key campaign recipient price n test_send b =
     andthen (lift_result (require_positive amount)) (\<lambda>_.
     apply_entry env org b DEBIT (if test_send then - amount else 0) (if test_send then 0 else - amount) key
       (no_fields\<lparr>ef_campaign_id := campaign, ef_recipient_id := recipient, ef_unit_price_minor := price,
                  ef_units := n, ef_is_test_send := test_send\<rparr>) None)"

definition refund ::
  "credit_env \<Rightarrow> uuid \<Rightarrow> int \<Rightarrow> string \<Rightarrow> uuid option \<Rightarrow> uuid option \<Rightarrow> string option \<Rightarrow> string option \<Rightarrow> CreditBucket \<Rightarrow>
   ('x, ledger_write) cprog" where
  "refund env org amount key campaign actor ref note b =
     andthen (lift_result (require_positive amount)) (\<lambda>_.
     apply_entry env org b REFUND amount 0 key
       (no_fields\<lparr>ef_campaign_id := campaign, ef_actor_user_id := actor, ef_reference := ref, ef_note := note\<rparr>) None)"

definition adjust ::
  "credit_env \<Rightarrow> uuid \<Rightarrow> int \<Rightarrow> string \<Rightarrow> uuid option \<Rightarrow> string option \<Rightarrow> string option \<Rightarrow> CreditBucket \<Rightarrow>
   ('x, ledger_write) cprog" where
  "adjust env org amount key actor ref note b =
     andthen (guard (\<not> (amount = 0 \<or> MAX_ENTRY_AMOUNT_MINOR < \<bar>amount\<bar>)) CreditValueError) (\<lambda>_.
     apply_entry env org b ADJUSTMENT amount 0 key
       (no_fields\<lparr>ef_actor_user_id := actor, ef_reference := ref, ef_note := note\<rparr>) None)"

definition reserve_key :: "uuid \<Rightarrow> nat \<Rightarrow> string" where
  "reserve_key campaign n = ''reserve:'' @ campaign @ '':'' @ show_nat n"

text \<open>\<open>reserve_for_campaign\<close> takes the lock itself before the reservation takes it again.\<close>

definition reserve_for_campaign ::
  "credit_env \<Rightarrow> uuid \<Rightarrow> uuid \<Rightarrow> int \<Rightarrow> int option \<Rightarrow> CreditBucket \<Rightarrow> ('x, int) cprog" where
  "reserve_for_campaign env org campaign amount unit_minor b =
     (if amount \<le> 0 then ret 0
      else andthen (lock_wallet env org b) (\<lambda>w.
        let go = (\<lambda>n. andthen (reads_db (count_campaign_entries org b campaign RESERVE None)) (\<lambda>k.
                      andthen (reserve env org n (reserve_key campaign k) campaign b) (\<lambda>_. ret n)))
        in case unit_minor of
             None \<Rightarrow> go amount
           | Some u \<Rightarrow>
               if u \<le> 0 then ret 0
               else let n = min (amount div u) (available_minor w div u) * u
                    in if n \<le> 0 then ret 0 else go n))"

definition release_campaign_remainder ::
  "credit_env \<Rightarrow> uuid \<Rightarrow> uuid \<Rightarrow> string \<Rightarrow> int \<Rightarrow> CreditBucket \<Rightarrow> ('x, int) cprog" where
  "release_campaign_remainder env org campaign key_base hold b =
     andthen (lock_wallet env org b) (\<lambda>_.
     andthen (reads_db (campaign_reserved_outstanding org b campaign)) (\<lambda>outstanding.
     let amount = outstanding - max 0 hold
     in if amount \<le> 0 then ret 0
        else andthen (reads_db (count_campaign_entries org b campaign RELEASE (Some key_base))) (\<lambda>prior.
             andthen (release env org amount (if prior = 0 then key_base else key_base @ '':'' @ show_nat prior)
                        campaign b) (\<lambda>_.
             ret amount))))"

record wallet_view =
  v_available_minor :: int
  v_reserved_minor :: int
  v_threshold_minor :: int
  v_is_low :: bool

definition wallet_summary :: "credit_wallet option \<Rightarrow> wallet_view" where
  "wallet_summary w =
     (let available = (case w of None \<Rightarrow> 0 | Some q \<Rightarrow> available_minor q);
          reserved = (case w of None \<Rightarrow> 0 | Some q \<Rightarrow> reserved_minor q);
          threshold = (case w of None \<Rightarrow> DEFAULT_LOW_BALANCE_THRESHOLD_MINOR | Some q \<Rightarrow> low_balance_threshold_minor q)
      in \<lparr>v_available_minor = available, v_reserved_minor = reserved, v_threshold_minor = threshold,
          v_is_low = (available < threshold)\<rparr>)"


subsection \<open>Reconciliation\<close>

record wallet_mismatch =
  m_organization_id :: uuid
  m_bucket :: CreditBucket
  m_available_minor :: int
  m_reserved_minor :: int
  m_ledger_available_minor :: int
  m_ledger_reserved_minor :: int

definition ledger_available :: "uuid \<Rightarrow> CreditBucket \<Rightarrow> credit_ledger_entry list \<Rightarrow> int" where
  "ledger_available org b t = sum_list (map delta_available_minor (filter (of_entry org b) t))"

definition ledger_reserved :: "uuid \<Rightarrow> CreditBucket \<Rightarrow> credit_ledger_entry list \<Rightarrow> int" where
  "ledger_reserved org b t = sum_list (map delta_reserved_minor (filter (of_entry org b) t))"

definition mismatch_of :: "credits_db \<Rightarrow> uuid \<Rightarrow> CreditBucket \<Rightarrow> int \<Rightarrow> int \<Rightarrow> wallet_mismatch" where
  "mismatch_of db org b av rs =
     \<lparr>m_organization_id = org, m_bucket = b, m_available_minor = av, m_reserved_minor = rs,
      m_ledger_available_minor = ledger_available org b (ledger db),
      m_ledger_reserved_minor = ledger_reserved org b (ledger db)\<rparr>"

text \<open>The wallet side, then the ledger groups without a wallet.\<close>

definition find_wallet_mismatches :: "credits_db \<Rightarrow> wallet_mismatch list" where
  "find_wallet_mismatches db =
     map (\<lambda>w. mismatch_of db (w_organization_id w) (w_bucket w) (available_minor w) (reserved_minor w))
       (filter (\<lambda>w. available_minor w \<noteq> ledger_available (w_organization_id w) (w_bucket w) (ledger db) \<or>
                    reserved_minor w \<noteq> ledger_reserved (w_organization_id w) (w_bucket w) (ledger db)) (wallets db)) @
     map (\<lambda>(org, b). mismatch_of db org b 0 0)
       (filter (\<lambda>(org, b). \<not> list_ex (of_wallet org b) (wallets db))
          (remdups (map (\<lambda>e. (e_organization_id e, e_bucket e)) (ledger db))))"


section \<open>The books balance\<close>

definition balances :: "credit_wallet \<Rightarrow> uuid \<times> CreditBucket \<times> int \<times> int" where
  "balances w = (w_organization_id w, w_bucket w, available_minor w, reserved_minor w)"

definition entry_key :: "credit_ledger_entry \<Rightarrow> uuid \<times> CreditBucket \<times> string" where
  "entry_key e = (e_organization_id e, e_bucket e, idempotency_key e)"

definition recipient_debit :: "credit_ledger_entry \<Rightarrow> bool" where
  "recipient_debit e \<longleftrightarrow> entry_type e = DEBIT \<and> e_recipient_id e \<noteq> None"

text \<open>Wallets and idempotency keys are unique, a recipient is debited at most once, every ledger row has a wallet, every wallet is
  non-negative and the sum of its ledger, and every ledger row carries the balances that
  the rows up to it sum to.\<close>

definition credits_wf :: "credits_db \<Rightarrow> bool" where
  "credits_wf db \<longleftrightarrow>
     distinct (map (\<lambda>(org, b, av, rs). (org, b)) (map balances (wallets db))) \<and>
     distinct (map entry_key (ledger db)) \<and>
     distinct (map e_recipient_id (filter recipient_debit (ledger db))) \<and>
     (\<forall>e \<in> set (ledger db). \<exists>av rs. (e_organization_id e, e_bucket e, av, rs) \<in> set (map balances (wallets db))) \<and>
     (\<forall>(org, b, av, rs) \<in> set (map balances (wallets db)).
        0 \<le> av \<and> 0 \<le> rs \<and> av = ledger_available org b (ledger db) \<and> rs = ledger_reserved org b (ledger db)) \<and>
     (\<forall>i < length (ledger db).
        balance_available_after_minor (ledger db ! i) =
          ledger_available (e_organization_id (ledger db ! i)) (e_bucket (ledger db ! i)) (take (Suc i) (ledger db)) \<and>
        balance_reserved_after_minor (ledger db ! i) =
          ledger_reserved (e_organization_id (ledger db ! i)) (e_bucket (ledger db ! i)) (take (Suc i) (ledger db)))"

lemma credits_wf_cong:
  "map balances (wallets db') = map balances (wallets db) \<Longrightarrow> ledger db' = ledger db \<Longrightarrow> credits_wf db' = credits_wf db"
  by (simp only: credits_wf_def)

lemma ledger_sums_snoc [simp]:
  "ledger_available org b (t @ [e]) = ledger_available org b t + (if of_entry org b e then delta_available_minor e else 0)"
  "ledger_reserved org b (t @ [e]) = ledger_reserved org b t + (if of_entry org b e then delta_reserved_minor e else 0)"
  by (simp_all add: ledger_available_def ledger_reserved_def)

text \<open>The locked wallet.\<close>

definition ensure_wallet :: "credit_env \<Rightarrow> uuid \<Rightarrow> CreditBucket \<Rightarrow> credits_db \<Rightarrow> credits_db" where
  "ensure_wallet env org b db =
     (if list_ex (of_wallet org b) (wallets db) then db
      else db\<lparr>wallets := wallets db @ [new_wallet (wallet_id env) (now_at env 0) org b]\<rparr>)"

lemma new_wallet_fields [simp]:
  "w_organization_id (new_wallet i now org b) = org" "w_bucket (new_wallet i now org b) = b"
  "available_minor (new_wallet i now org b) = 0" "reserved_minor (new_wallet i now org b) = 0"
  "low_balance_notified_at (new_wallet i now org b) = None"
  by (simp_all add: new_wallet_def credit_wallet.defs base_model.defs new_base_def)

lemma get_wallet_Some: "get_wallet org b db = Some w \<Longrightarrow> w \<in> set (wallets db) \<and> of_wallet org b w"
  unfolding get_wallet_def by (rule find_Some_D)

lemma get_wallet_ensure: "\<exists>w. get_wallet org b (ensure_wallet env org b db) = Some w"
proof -
  have "list_ex (of_wallet org b) (wallets (ensure_wallet env org b db))"
    by (auto simp: ensure_wallet_def of_wallet_def)
  then show ?thesis unfolding get_wallet_def by (auto simp: list_ex_iff find_None_iff dest!: not_None_eq [THEN iffD1, rotated])
      (metis find_None_iff not_None_eq)
qed

lemma lock_wallet_runs:
  "lock_wallet env org b (db, x) = (r, s') \<longleftrightarrow>
     (\<exists>w. get_wallet org b (ensure_wallet env org b db) = Some w \<and> r = Inr w \<and> s' = (ensure_wallet env org b db, x))"
proof -
  obtain w where w: "get_wallet org b (ensure_wallet env org b db) = Some w" using get_wallet_ensure by blast
  have "lock_wallet env org b (db, x) = (Inr w, (ensure_wallet env org b db, x))"
    using w by (simp add: lock_wallet_def andthen_Inr ensure_wallet_def)
  with w show ?thesis by auto
qed

lemma ensure_wallet_ledger [simp]: "ledger (ensure_wallet env org b db) = ledger db"
  and ensure_wallet_alerts [simp]: "alerts (ensure_wallet env org b db) = alerts db"
  by (simp_all add: ensure_wallet_def)

lemma ensure_wallet_again:
  assumes "get_wallet org b db = Some w"
  shows "ensure_wallet env org b db = db"
  using get_wallet_Some [OF assms] by (auto simp: ensure_wallet_def list_ex_iff)

lemma ledger_sum_none:
  assumes "\<forall>e \<in> set t. \<not> of_entry org b e"
  shows "ledger_available org b t = 0" and "ledger_reserved org b t = 0"
proof -
  have "filter (of_entry org b) t = []" using assms by (simp add: filter_empty_conv)
  then show "ledger_available org b t = 0" "ledger_reserved org b t = 0"
    by (simp_all add: ledger_available_def ledger_reserved_def)
qed

lemma credits_wf_ensure:
  assumes wf: "credits_wf db"
  shows "credits_wf (ensure_wallet env org b db)"
proof (cases "list_ex (of_wallet org b) (wallets db)")
  case True
  then show ?thesis using wf by (simp add: ensure_wallet_def)
next
  case False
  let ?w = "new_wallet (wallet_id env) (now_at env 0) org b"
  have db: "ensure_wallet env org b db = db\<lparr>wallets := wallets db @ [?w]\<rparr>" using False by (simp add: ensure_wallet_def)
  have no: "(org, b, av, rs) \<notin> set (map balances (wallets db))" for av rs
    using False by (auto simp: balances_def list_ex_iff of_wallet_def)
  then have none: "\<forall>e \<in> set (ledger db). \<not> of_entry org b e"
    using wf unfolding credits_wf_def of_entry_def by metis
  have new: "balances ?w = (org, b, 0, 0)" by (simp add: balances_def)
  have dist: "distinct (map (\<lambda>(org, b, av, rs). (org, b)) (map balances (wallets db) @ [(org, b, 0, 0)]))"
  proof -
    have "(org, b) \<notin> set (map (\<lambda>(org, b, av, rs). (org, b)) (map balances (wallets db)))"
      using no by (auto simp: balances_def image_iff)
    then show ?thesis using wf by (simp add: credits_wf_def)
  qed
  have bal: "map balances (wallets (ensure_wallet env org b db)) = map balances (wallets db) @ [(org, b, 0, 0)]"
    by (simp add: db new)
  show ?thesis
    unfolding credits_wf_def bal ensure_wallet_ledger
  proof (intro conjI)
    show "\<forall>e \<in> set (ledger db). \<exists>av rs. (e_organization_id e, e_bucket e, av, rs) \<in> set (map balances (wallets db) @ [(org, b, 0, 0)])"
      using wf unfolding credits_wf_def set_append by blast
    show "\<forall>(o', b', av, rs) \<in> set (map balances (wallets db) @ [(org, b, 0, 0)]).
        0 \<le> av \<and> 0 \<le> rs \<and> av = ledger_available o' b' (ledger db) \<and> rs = ledger_reserved o' b' (ledger db)"
      using wf ledger_sum_none [OF none] unfolding credits_wf_def by simp
    show "distinct (map (\<lambda>(org, b, av, rs). (org, b)) (map balances (wallets db) @ [(org, b, 0, 0)]))" by (rule dist)
    show "distinct (map entry_key (ledger db))" using wf unfolding credits_wf_def by blast
    show "distinct (map e_recipient_id (filter recipient_debit (ledger db)))" using wf unfolding credits_wf_def by blast
    show "\<forall>i < length (ledger db).
        balance_available_after_minor (ledger db ! i) =
          ledger_available (e_organization_id (ledger db ! i)) (e_bucket (ledger db ! i)) (take (Suc i) (ledger db)) \<and>
        balance_reserved_after_minor (ledger db ! i) =
          ledger_reserved (e_organization_id (ledger db ! i)) (e_bucket (ledger db ! i)) (take (Suc i) (ledger db))"
      using wf unfolding credits_wf_def by blast
  qed
qed

text \<open>A posted entry.\<close>

lemma new_entry_fields [simp]:
  "e_organization_id (new_entry env org b ty da dr na nr key f invoice) = org"
  "e_bucket (new_entry env org b ty da dr na nr key f invoice) = b"
  "entry_type (new_entry env org b ty da dr na nr key f invoice) = ty"
  "delta_available_minor (new_entry env org b ty da dr na nr key f invoice) = da"
  "delta_reserved_minor (new_entry env org b ty da dr na nr key f invoice) = dr"
  "balance_available_after_minor (new_entry env org b ty da dr na nr key f invoice) = na"
  "balance_reserved_after_minor (new_entry env org b ty da dr na nr key f invoice) = nr"
  "e_campaign_id (new_entry env org b ty da dr na nr key f invoice) = ef_campaign_id f"
  "e_recipient_id (new_entry env org b ty da dr na nr key f invoice) = ef_recipient_id f"
  "idempotency_key (new_entry env org b ty da dr na nr key f invoice) = key"
  by (simp_all add: new_entry_def credit_ledger_entry.defs base_model.defs new_base_def)

definition post :: "datetime \<Rightarrow> credit_ledger_entry \<Rightarrow> int \<Rightarrow> int \<Rightarrow> credit_wallet \<Rightarrow> credits_db \<Rightarrow> credits_db" where
  "post now e na nr w db = save_wallet now (settle na nr) w (db\<lparr>ledger := ledger db @ [e]\<rparr>)"

lemma settle_fields [simp]:
  "w_organization_id (settle na nr w) = w_organization_id w" "w_bucket (settle na nr w) = w_bucket w"
  "available_minor (settle na nr w) = na" "reserved_minor (settle na nr w) = nr"
  "low_balance_threshold_minor (settle na nr w) = low_balance_threshold_minor w"
  by (simp_all add: settle_def)

lemma balances_settle: "balances ((settle na nr q)\<lparr>updated_at := now\<rparr>) = (w_organization_id q, w_bucket q, na, nr)"
  by (simp add: balances_def)

lemma entry_integrity_None:
  assumes "entry_integrity e t = None"
  shows "entry_key e \<notin> entry_key ` set t"
    and "recipient_debit e \<Longrightarrow> e_recipient_id e \<notin> e_recipient_id ` set (filter recipient_debit t)"
  using assms
  by (auto simp: entry_integrity_def entry_key_def recipient_debit_def of_entry_def list_ex_iff split: if_splits)

lemma credits_wf_post:
  assumes wf: "credits_wf db" and w: "get_wallet org b db = Some w"
    and ig: "entry_integrity e (ledger db) = None"
    and e: "e_organization_id e = org" "e_bucket e = b" "delta_available_minor e = da" "delta_reserved_minor e = dr"
      "balance_available_after_minor e = available_minor w + da" "balance_reserved_after_minor e = reserved_minor w + dr"
    and nonneg: "0 \<le> available_minor w + da" "0 \<le> reserved_minor w + dr"
  shows "credits_wf (post now e (available_minor w + da) (reserved_minor w + dr) w db)"
proof -
  let ?na = "available_minor w + da" and ?nr = "reserved_minor w + dr"
  let ?g = "\<lambda>(o', b', av, rs). if o' = org \<and> b' = b then (o', b', ?na, ?nr) else (o', b', av, rs)"
  let ?db = "post now e ?na ?nr w db"
  have ow: "of_wallet org b w" "w \<in> set (wallets db)" using get_wallet_Some [OF w] by simp_all
  have bal: "map balances (wallets ?db) = map ?g (map balances (wallets db))"
    using ow(1) by (auto simp: post_def save_wallet_def balances_settle of_wallet_def) (auto simp: balances_def)
  have led: "ledger ?db = ledger db @ [e]" by (simp add: post_def save_wallet_def)
  have oe: "of_entry o' b' e \<longleftrightarrow> o' = org \<and> b' = b" for o' b' using e by (auto simp: of_entry_def)
  have "(org, b, available_minor w, reserved_minor w) \<in> set (map balances (wallets db))"
    using ow by (force simp: balances_def of_wallet_def)
  then have sums: "available_minor w = ledger_available org b (ledger db)" "reserved_minor w = ledger_reserved org b (ledger db)"
    using wf unfolding credits_wf_def by blast+
  show ?thesis
    unfolding credits_wf_def bal led
  proof (intro conjI)
    have "map (\<lambda>(o', b', av, rs). (o', b')) (map ?g xs) = map (\<lambda>(o', b', av, rs). (o', b')) xs" for xs
      by (induction xs) auto
    then show "distinct (map (\<lambda>(o', b', av, rs). (o', b')) (map ?g (map balances (wallets db))))"
      using wf by (simp only: credits_wf_def)
    show "distinct (map entry_key (ledger db @ [e]))"
      using wf entry_integrity_None(1) [OF ig] by (auto simp: credits_wf_def)
    show "distinct (map e_recipient_id (filter recipient_debit (ledger db @ [e])))"
      using wf entry_integrity_None(2) [OF ig] by (simp add: credits_wf_def)
    show "\<forall>q \<in> set (ledger db @ [e]). \<exists>av rs. (e_organization_id q, e_bucket q, av, rs) \<in> set (map ?g (map balances (wallets db)))"
    proof
      fix q assume "q \<in> set (ledger db @ [e])"
      then have "\<exists>av rs. (e_organization_id q, e_bucket q, av, rs) \<in> set (map balances (wallets db))"
        using wf e \<open>(org, b, available_minor w, reserved_minor w) \<in> set (map balances (wallets db))\<close>
        unfolding credits_wf_def by auto
      then obtain av rs where q: "(e_organization_id q, e_bucket q, av, rs) \<in> set (map balances (wallets db))" by blast
      have "?g (e_organization_id q, e_bucket q, av, rs) \<in> set (map ?g (map balances (wallets db)))"
        using q by (metis (no_types, lifting) image_eqI set_map)
      then show "\<exists>av rs. (e_organization_id q, e_bucket q, av, rs) \<in> set (map ?g (map balances (wallets db)))"
        by (auto split: if_splits)
    qed
    have old: "0 \<le> av \<and> 0 \<le> rs \<and> av = ledger_available o' b' (ledger db) \<and> rs = ledger_reserved o' b' (ledger db)"
      if "(o', b', av, rs) \<in> set (map balances (wallets db))" for o' b' av rs
      using wf that unfolding credits_wf_def by blast
    show "\<forall>(o', b', av, rs) \<in> set (map ?g (map balances (wallets db))).
        0 \<le> av \<and> 0 \<le> rs \<and> av = ledger_available o' b' (ledger db @ [e]) \<and> rs = ledger_reserved o' b' (ledger db @ [e])"
    proof (rule ballI)
      fix t assume "t \<in> set (map ?g (map balances (wallets db)))"
      then obtain o' b' av rs where t: "t = ?g (o', b', av, rs)" "(o', b', av, rs) \<in> set (map balances (wallets db))"
        by (metis (no_types, lifting) imageE prod_cases4 set_map)
      then show "case t of (o', b', av, rs) \<Rightarrow>
          0 \<le> av \<and> 0 \<le> rs \<and> av = ledger_available o' b' (ledger db @ [e]) \<and> rs = ledger_reserved o' b' (ledger db @ [e])"
        using old [OF t(2)] nonneg sums e(3,4) by (auto simp: oe)
    qed
    show "\<forall>i < length (ledger db @ [e]).
        balance_available_after_minor ((ledger db @ [e]) ! i) =
          ledger_available (e_organization_id ((ledger db @ [e]) ! i)) (e_bucket ((ledger db @ [e]) ! i)) (take (Suc i) (ledger db @ [e])) \<and>
        balance_reserved_after_minor ((ledger db @ [e]) ! i) =
          ledger_reserved (e_organization_id ((ledger db @ [e]) ! i)) (e_bucket ((ledger db @ [e]) ! i)) (take (Suc i) (ledger db @ [e]))"
      using wf e sums unfolding credits_wf_def by (auto simp: nth_append less_Suc_eq oe)
  qed
qed

text \<open>What a call of \<open>_apply\<close> that returns did.\<close>

definition alerted :: "credit_env \<Rightarrow> CreditEntryType \<Rightarrow> credit_wallet \<Rightarrow> bool" where
  "alerted env ty w \<longleftrightarrow>
     low_balance_hook env \<and> ty \<in> set LOW_BALANCE_ENTRY_TYPES \<and> low_balance_notified_at w = None \<and>
     available_minor w < low_balance_threshold_minor w"

lemma maybe_alert_runs:
  "maybe_alert_low_balance env ty w (db, x) =
     (if alerted env ty w
      then (Inr (w\<lparr>low_balance_notified_at := Some (now_at env 3), updated_at := now_at env 3\<rparr>),
            (save_wallet (now_at env 3) (\<lambda>q. q\<lparr>low_balance_notified_at := Some (now_at env 3)\<rparr>) w
               (db\<lparr>alerts := alerts db @ [w]\<rparr>), x))
      else (Inr w, (db, x)))"
  by (auto simp: maybe_alert_low_balance_def alerted_def prog_defs modifies_db_def)

lemma store_entry_Inr [simp]:
  "store_entry da w e (db, x) = (Inr u, s') \<longleftrightarrow> (\<exists>db'. insert_entry e db = Inr db' \<and> s' = (db', x))"
  by (auto simp: store_entry_def split: sum.splits)

text \<open>The database once the alert, if one was due, is queued and remembered.\<close>

definition alert_post :: "credit_env \<Rightarrow> CreditEntryType \<Rightarrow> credit_wallet \<Rightarrow> credits_db \<Rightarrow> credits_db" where
  "alert_post env ty w db =
     (if alerted env ty w
      then save_wallet (now_at env 3) (\<lambda>q. q\<lparr>low_balance_notified_at := Some (now_at env 3)\<rparr>) w
             (db\<lparr>alerts := alerts db @ [w]\<rparr>)
      else db)"

lemma save_wallet_others [simp]: "ledger (save_wallet t g w db) = ledger db" "alerts (save_wallet t g w db) = alerts db"
  by (simp_all add: save_wallet_def)

lemma alert_post_others [simp]:
  "ledger (alert_post env ty w db) = ledger db"
  "alerts (alert_post env ty w db) = alerts db @ (if alerted env ty w then [w] else [])"
  by (simp_all add: alert_post_def)

lemma alert_post_balances [simp]: "map balances (wallets (alert_post env ty w db)) = map balances (wallets db)"
  by (simp add: alert_post_def save_wallet_def balances_def)

lemma post_others [simp]:
  "ledger (post now e na nr w db) = ledger db @ [e]" "alerts (post now e na nr w db) = alerts db"
  by (simp_all add: post_def)

text \<open>The state that posting an entry for the locked wallet leaves.\<close>

definition posted ::
  "credit_env \<Rightarrow> CreditEntryType \<Rightarrow> credit_ledger_entry \<Rightarrow> credit_wallet \<Rightarrow> credits_db \<Rightarrow> credits_db" where
  "posted env ty e w db =
     (let na = balance_available_after_minor e; nr = balance_reserved_after_minor e
      in alert_post env ty ((settle na nr w)\<lparr>updated_at := now_at env 2\<rparr>) (post (now_at env 2) e na nr w db))"

lemma apply_entry_Inr:
  assumes "apply_entry env org b ty da dr key f bw (db, x) = (Inr lw, (db', x'))"
  obtains (replay) w e where "get_wallet org b (ensure_wallet env org b db) = Some w" and "x' = x" and "key \<noteq> []"
      and "get_entry_by_key org b key db = Some e" and "same_request e ty da dr f"
      and "db' = ensure_wallet env org b db" and "lw = \<lparr>lw_entry = e, lw_wallet = w, lw_created = False\<rparr>"
  | (created) w e invoice where "get_wallet org b (ensure_wallet env org b db) = Some w" and "x' = x" and "key \<noteq> []"
      and "get_entry_by_key org b key db = None"
      and "0 \<le> available_minor w + da" and "0 \<le> reserved_minor w + dr"
      and "e = new_entry env org b ty da dr (available_minor w + da) (reserved_minor w + dr) key f invoice"
      and "entry_integrity e (ledger db) = None"
      and "db' = posted env ty e w (ensure_wallet env org b db)"
      and "lw_entry lw = e" and "lw_created lw"
proof -
  let ?db1 = "ensure_wallet env org b db"
  obtain w where w: "get_wallet org b ?db1 = Some w" using get_wallet_ensure by blast
  have lock: "lock_wallet env org b (db, x) = (Inr w, (?db1, x))" using w by (simp add: lock_wallet_runs)
  have key: "key \<noteq> []" using assms by (auto simp: apply_entry_def andthen_Inr)
  have same: "get_entry_by_key org b key ?db1 = get_entry_by_key org b key db" by (simp add: get_entry_by_key_def)
  show ?thesis
  proof (cases "get_entry_by_key org b key db")
    case (Some e)
    with assms lock same key have "same_request e ty da dr f" "db' = ?db1" "x' = x"
        "lw = \<lparr>lw_entry = e, lw_wallet = w, lw_created = False\<rparr>"
      by (auto simp: apply_entry_def andthen_Inr)
    with replay [OF w _ key Some] show ?thesis by blast
  next
    case None
    define na where "na = available_minor w + da"
    define nr where "nr = reserved_minor w + dr"
    define w2 where "w2 = (settle na nr w)\<lparr>updated_at := now_at env 2\<rparr>"
    from assms lock same key None obtain invoice db2 where
      nn: "0 \<le> na" "0 \<le> nr" and
      ins: "insert_entry (new_entry env org b ty da dr na nr key f invoice) ?db1 = Inr db2" and
      al: "\<exists>w'. maybe_alert_low_balance env ty w2 (save_wallet (now_at env 2) (settle na nr) w db2, x) = (Inr w', (db', x')) \<and>
             lw = \<lparr>lw_entry = new_entry env org b ty da dr na nr key f invoice, lw_wallet = w', lw_created = True\<rparr>"
      by (auto simp: apply_entry_def andthen_Inr Let_def na_def [symmetric] nr_def [symmetric] w2_def)
    define e where "e = new_entry env org b ty da dr na nr key f invoice"
    have ig: "entry_integrity e (ledger db) = None" and db2: "db2 = ?db1\<lparr>ledger := ledger ?db1 @ [e]\<rparr>"
      using ins by (auto simp: insert_entry_def e_def split: option.splits)
    have "save_wallet (now_at env 2) (settle na nr) w db2 = post (now_at env 2) e na nr w ?db1"
      by (simp add: post_def db2)
    with al have r: "x' = x" "db' = posted env ty e w ?db1" "lw_entry lw = e" "lw_created lw"
      by (auto simp: maybe_alert_runs posted_def alert_post_def e_def w2_def split: if_splits)
    from created [OF w r(1) key None nn [unfolded na_def nr_def] e_def [unfolded na_def nr_def] ig r(2-4)]
    show ?thesis .
  qed
qed

text \<open>A recorded request is answered from the ledger; a different request under its key is refused.\<close>

lemma apply_entry_replay:
  assumes "get_wallet org b db = Some w" and "get_entry_by_key org b key db = Some e" and "key \<noteq> []"
  shows "apply_entry env org b ty da dr key f bw (db, x) =
    (if same_request e ty da dr f then (Inr \<lparr>lw_entry = e, lw_wallet = w, lw_created = False\<rparr>, (db, x))
     else (Inl (IdempotencyKeyReusedError key), (db, x)))"
proof -
  have lock: "lock_wallet env org b (db, x) = (Inr w, (db, x))"
    using assms(1) ensure_wallet_again [OF assms(1)] by (simp add: lock_wallet_runs)
  with assms(2,3) show ?thesis
    by (simp add: apply_entry_def andthen_def guard_def ret_def raise_def reads_db_def reads_def)
qed

lemma apply_entry_wf:
  assumes run: "apply_entry env org b ty da dr key f bw (db, x) = (Inr lw, (db', x'))" and wf: "credits_wf db"
  shows "credits_wf db'"
  using run
proof (cases rule: apply_entry_Inr)
  case replay
  then show ?thesis using credits_wf_ensure [OF wf] by simp
next
  case (created w e invoice)
  have "credits_wf (post (now_at env 2) e (available_minor w + da) (reserved_minor w + dr) w (ensure_wallet env org b db))"
    using created by (intro credits_wf_post [OF credits_wf_ensure [OF wf]]) auto
  moreover have "map balances (wallets db') =
      map balances (wallets (post (now_at env 2) e (available_minor w + da) (reserved_minor w + dr) w (ensure_wallet env org b db)))"
    and "ledger db' = ledger (post (now_at env 2) e (available_minor w + da) (reserved_minor w + dr) w (ensure_wallet env org b db))"
    using created by (simp_all add: posted_def Let_def)
  ultimately show ?thesis using credits_wf_cong by blast
qed

end
