(* ===== verification/CreditLedger.thy ===== *)
theory CreditLedger
  imports Credits
begin

section \<open>Histories of credit operations\<close>

text \<open>
  The calls of \<open>CreditWalletService\<close> as commands, each run in its own transaction, and what
  every history of them keeps: the books balance, the ledger is only appended to and a
  recorded request is never applied twice; what a campaign may reserve and what its release
  leaves; and how often the low-balance alert fires.
\<close>

datatype credit_command =
    CTopup credit_env uuid int string "uuid option" "string option" "string option" CreditBucket
      "(credit_wallet \<Rightarrow> credits_error + uuid option) option"
  | CReserve credit_env uuid int string uuid CreditBucket
  | CRelease credit_env uuid int string uuid CreditBucket
  | CDebit credit_env uuid int string "uuid option" "uuid option" "int option" "int option" bool CreditBucket
  | CRefund credit_env uuid int string "uuid option" "uuid option" "string option" "string option" CreditBucket
  | CAdjust credit_env uuid int string "uuid option" "string option" "string option" CreditBucket
  | CReserveForCampaign credit_env uuid uuid int "int option" CreditBucket
  | CReleaseRemainder credit_env uuid uuid string int CreditBucket

fun run_credit :: "credit_command \<Rightarrow> ('x, unit) cprog" where
  "run_credit (CTopup env org n key actor ref note b bw) =
     andthen (topup env org n key actor ref note b bw) (\<lambda>_. ret ())"
| "run_credit (CReserve env org n key campaign b) = andthen (reserve env org n key campaign b) (\<lambda>_. ret ())"
| "run_credit (CRelease env org n key campaign b) = andthen (release env org n key campaign b) (\<lambda>_. ret ())"
| "run_credit (CDebit env org n key campaign recipient price k test b) =
     andthen (debit env org n key campaign recipient price k test b) (\<lambda>_. ret ())"
| "run_credit (CRefund env org n key campaign actor ref note b) =
     andthen (refund env org n key campaign actor ref note b) (\<lambda>_. ret ())"
| "run_credit (CAdjust env org n key actor ref note b) =
     andthen (adjust env org n key actor ref note b) (\<lambda>_. ret ())"
| "run_credit (CReserveForCampaign env org campaign n u b) =
     andthen (reserve_for_campaign env org campaign n u b) (\<lambda>_. ret ())"
| "run_credit (CReleaseRemainder env org campaign key hold b) =
     andthen (release_campaign_remainder env org campaign key hold b) (\<lambda>_. ret ())"

definition empty_credits :: credits_db where
  "empty_credits = \<lparr>wallets = [], ledger = [], alerts = []\<rparr>"

text \<open>The movements each kind of entry stands for.\<close>

definition entry_shape :: "CreditEntryType \<Rightarrow> int \<Rightarrow> int \<Rightarrow> bool \<Rightarrow> bool" where
  "entry_shape ty da dr test \<longleftrightarrow>
     (case ty of
        TOPUP \<Rightarrow> 0 < da \<and> dr = 0
      | RESERVE \<Rightarrow> 0 < dr \<and> da = - dr
      | RELEASE \<Rightarrow> 0 < da \<and> dr = - da
      | DEBIT \<Rightarrow> (if test then da < 0 \<and> dr = 0 else da = 0 \<and> dr < 0)
      | REFUND \<Rightarrow> 0 < da \<and> dr = 0
      | ADJUSTMENT \<Rightarrow> da \<noteq> 0 \<and> dr = 0)"

definition shaped :: "credit_ledger_entry \<Rightarrow> bool" where
  "shaped e \<longleftrightarrow> entry_shape (entry_type e) (delta_available_minor e) (delta_reserved_minor e) (is_test_send e)"

text \<open>The flag and the threshold of a wallet that may not exist yet.\<close>

definition notified :: "uuid \<Rightarrow> CreditBucket \<Rightarrow> credits_db \<Rightarrow> bool" where
  "notified org b db = (case get_wallet org b db of None \<Rightarrow> False | Some w \<Rightarrow> low_balance_notified_at w \<noteq> None)"

definition threshold :: "uuid \<Rightarrow> CreditBucket \<Rightarrow> credits_db \<Rightarrow> int" where
  "threshold org b db = v_threshold_minor (wallet_summary (get_wallet org b db))"

definition alerts_for :: "uuid \<Rightarrow> CreditBucket \<Rightarrow> credits_db \<Rightarrow> nat" where
  "alerts_for org b db = length (filter (of_wallet org b) (alerts db))"

text \<open>What a history adds: shaped rows at the end of the ledger and, for each wallet whose
  balance stayed below its threshold throughout, as many alerts as the flag went up.\<close>

definition stays_low :: "uuid \<Rightarrow> CreditBucket \<Rightarrow> int \<Rightarrow> credit_ledger_entry list \<Rightarrow> bool" where
  "stays_low org b lim t \<longleftrightarrow> (\<forall>e \<in> set t. of_entry org b e \<longrightarrow> balance_available_after_minor e < lim)"

definition extends :: "credits_db \<Rightarrow> credits_db \<Rightarrow> bool" where
  "extends db db' \<longleftrightarrow>
     (\<exists>t. ledger db' = ledger db @ t \<and> list_all shaped t \<and>
        (\<forall>org b. get_wallet org b db \<noteq> None \<longrightarrow> get_wallet org b db' \<noteq> None) \<and>
        (\<forall>org b. threshold org b db' = threshold org b db) \<and>
        (\<forall>org b. stays_low org b (threshold org b db) t \<longrightarrow>
           alerts_for org b db' + of_bool (notified org b db) = alerts_for org b db + of_bool (notified org b db')))"

lemma extends_refl [simp]: "extends db db"
  by (simp add: extends_def)

lemma extends_trans:
  assumes "extends db1 db2" and "extends db2 db3"
  shows "extends db1 db3"
proof -
  from assms obtain t1 t2 where t: "ledger db2 = ledger db1 @ t1" "ledger db3 = ledger db2 @ t2"
      "list_all shaped t1" "list_all shaped t2" "\<And>org b. threshold org b db2 = threshold org b db1"
      "\<And>org b. threshold org b db3 = threshold org b db2"
      "\<And>org b. get_wallet org b db1 \<noteq> None \<Longrightarrow> get_wallet org b db2 \<noteq> None"
      "\<And>org b. get_wallet org b db2 \<noteq> None \<Longrightarrow> get_wallet org b db3 \<noteq> None"
    and a: "\<And>org b. stays_low org b (threshold org b db1) t1 \<Longrightarrow>
        alerts_for org b db2 + of_bool (notified org b db1) = alerts_for org b db1 + of_bool (notified org b db2)"
      "\<And>org b. stays_low org b (threshold org b db2) t2 \<Longrightarrow>
        alerts_for org b db3 + of_bool (notified org b db2) = alerts_for org b db2 + of_bool (notified org b db3)"
    unfolding extends_def by blast
  have "alerts_for org b db3 + of_bool (notified org b db1) = alerts_for org b db1 + of_bool (notified org b db3)"
    if "stays_low org b (threshold org b db1) (t1 @ t2)" for org b
    using that a(1) [of org b] a(2) [of org b] t(5) [of org b] by (simp add: stays_low_def)
  with t show ?thesis unfolding extends_def by (intro exI [of _ "t1 @ t2"]) simp
qed

text \<open>The lock, a posted entry and the calls built on them extend the database.\<close>

lemma get_wallet_ensure_other:
  "get_wallet o' b' (ensure_wallet env org b db) =
     (if get_wallet o' b' db = None \<and> o' = org \<and> b' = b
      then Some (new_wallet (wallet_id env) (now_at env 0) org b) else get_wallet o' b' db)"
proof -
  have "find P (xs @ [y]) = (case find P xs of None \<Rightarrow> if P y then Some y else None | Some z \<Rightarrow> Some z)" for P :: "credit_wallet \<Rightarrow> bool" and xs y
    by (induction xs) auto
  note append = this
  have none: "find P xs = None \<longleftrightarrow> \<not> list_ex P xs" for P :: "credit_wallet \<Rightarrow> bool" and xs
    by (auto simp: find_None_iff list_ex_iff)
  have "of_wallet o' b' (new_wallet (wallet_id env) (now_at env 0) org b) \<longleftrightarrow> o' = org \<and> b' = b"
    by (auto simp: of_wallet_def)
  then show ?thesis
    by (auto simp: ensure_wallet_def get_wallet_def append none split: option.splits) (simp_all add: none [symmetric])
qed

lemma new_wallet_threshold [simp]:
  "low_balance_threshold_minor (new_wallet i now org b) = DEFAULT_LOW_BALANCE_THRESHOLD_MINOR"
  by (simp add: new_wallet_def credit_wallet.defs base_model.defs new_base_def)

lemma extends_ensure: "extends db (ensure_wallet env org b db)"
  unfolding extends_def
  by (intro exI [of _ "[]"])
     (auto simp: get_wallet_ensure_other threshold_def wallet_summary_def notified_def alerts_for_def Let_def)

lemma get_wallet_save:
  assumes g: "\<And>q. w_organization_id (g q) = w_organization_id q" "\<And>q. w_bucket (g q) = w_bucket q"
  shows "get_wallet o' b' (save_wallet t g w db) =
    (if of_wallet o' b' w then map_option (\<lambda>q. (g q)\<lparr>updated_at := t\<rparr>) (get_wallet o' b' db) else get_wallet o' b' db)"
proof -
  have "find (of_wallet o' b') (map (\<lambda>q. if of_wallet (w_organization_id w) (w_bucket w) q then (g q)\<lparr>updated_at := t\<rparr> else q) xs) =
    (if of_wallet o' b' w then map_option (\<lambda>q. (g q)\<lparr>updated_at := t\<rparr>) (find (of_wallet o' b') xs) else find (of_wallet o' b') xs)" for xs
  proof (induction xs)
    case (Cons q xs)
    have "of_wallet o' b' ((g q)\<lparr>updated_at := t\<rparr>) = of_wallet o' b' q" by (simp add: of_wallet_def g)
    moreover have "of_wallet o' b' q = of_wallet o' b' w" if "of_wallet (w_organization_id w) (w_bucket w) q"
      using that by (simp add: of_wallet_def)
    moreover have "of_wallet (w_organization_id w) (w_bucket w) q" if "of_wallet o' b' q" "of_wallet o' b' w"
      using that by (simp add: of_wallet_def)
    ultimately show ?case using Cons by auto
  qed simp
  then show ?thesis by (simp add: get_wallet_def save_wallet_def)
qed

text \<open>The wallet row after an entry was posted on it.\<close>

definition settled :: "credit_env \<Rightarrow> CreditEntryType \<Rightarrow> credit_ledger_entry \<Rightarrow> credit_wallet \<Rightarrow> credit_wallet" where
  "settled env ty e w =
     (let w2 = (settle (balance_available_after_minor e) (balance_reserved_after_minor e) w)\<lparr>updated_at := now_at env 2\<rparr>
      in if alerted env ty w2 then w2\<lparr>low_balance_notified_at := Some (now_at env 3), updated_at := now_at env 3\<rparr> else w2)"

lemma get_wallet_posted:
  assumes "get_wallet org b db = Some w"
  shows "get_wallet o' b' (posted env ty e w db) =
    (if o' = org \<and> b' = b then Some (settled env ty e w) else get_wallet o' b' db)"
proof -
  have ow: "of_wallet o' b' w \<longleftrightarrow> o' = org \<and> b' = b" for o' b'
    using get_wallet_Some [OF assms] by (auto simp: of_wallet_def)
  have alerts: "get_wallet o' b' (db'\<lparr>alerts := a\<rparr>) = get_wallet o' b' db'"
    and ledger: "get_wallet o' b' (db'\<lparr>ledger := l\<rparr>) = get_wallet o' b' db'" for db' a l o' b'
    by (simp_all add: get_wallet_def)
  have ow2: "of_wallet o' b' (settle na nr w\<lparr>updated_at := t\<rparr>) = of_wallet o' b' w" for na nr t o' b'
    by (simp add: of_wallet_def)
  show ?thesis
    using assms by (auto simp: posted_def settled_def Let_def alert_post_def post_def get_wallet_save alerts ledger ow ow2)
qed

lemma threshold_simps:
  "get_wallet org b db = Some w \<Longrightarrow> threshold org b db = low_balance_threshold_minor w"
  by (simp add: threshold_def wallet_summary_def Let_def)

lemma extends_posted:
  assumes w: "get_wallet org b db = Some w" and e: "of_entry org b e" "shaped e"
  shows "extends db (posted env ty e w db)"
proof -
  let ?db = "posted env ty e w db"
  have l: "ledger ?db = ledger db @ [e]" by (simp add: posted_def Let_def)
  have ow: "of_wallet o' b' w \<longleftrightarrow> o' = org \<and> b' = b" for o' b'
    using get_wallet_Some [OF w] by (auto simp: of_wallet_def)
  have ex: "get_wallet o' b' ?db \<noteq> None" if "get_wallet o' b' db \<noteq> None" for o' b'
    using that by (simp add: get_wallet_posted [OF w])
  have th: "threshold o' b' ?db = threshold o' b' db" for o' b'
    using w by (auto simp: threshold_def wallet_summary_def get_wallet_posted [OF w] settled_def Let_def)
  define w2 where "w2 = (settle (balance_available_after_minor e) (balance_reserved_after_minor e) w)\<lparr>updated_at := now_at env 2\<rparr>"
  have ow2: "of_wallet o' b' w2 \<longleftrightarrow> o' = org \<and> b' = b" for o' b' using ow by (simp add: w2_def of_wallet_def)
  have count: "alerts_for o' b' ?db = alerts_for o' b' db + of_bool (alerted env ty w2 \<and> o' = org \<and> b' = b)" for o' b'
    by (simp add: alerts_for_def posted_def Let_def w2_def [symmetric] ow2)
  have flag: "notified o' b' ?db \<longleftrightarrow>
      (if o' = org \<and> b' = b then alerted env ty w2 \<or> low_balance_notified_at w2 \<noteq> None else notified o' b' db)" for o' b'
    by (simp add: notified_def get_wallet_posted [OF w] settled_def Let_def w2_def [symmetric])
  have al: "alerts_for o' b' ?db + of_bool (notified o' b' db) = alerts_for o' b' db + of_bool (notified o' b' ?db)"
    if low: "stays_low o' b' (threshold o' b' db) [e]" for o' b'
  proof (cases "o' = org \<and> b' = b")
    case True
    with low e(1) have "balance_available_after_minor e < low_balance_threshold_minor w"
      by (simp add: stays_low_def threshold_simps [OF w])
    then have "low_balance_notified_at w2 = low_balance_notified_at w" by (simp add: w2_def settle_def)
    moreover have "notified org b db \<longleftrightarrow> low_balance_notified_at w \<noteq> None" using w by (simp add: notified_def)
    ultimately show ?thesis using True by (auto simp: count flag alerted_def)
  next
    case False
    then show ?thesis by (simp add: count flag)
  qed
  show ?thesis
    unfolding extends_def using l ex th al e(2) by (intro exI [of _ "[e]"]) simp
qed

lemma new_entry_test_send [simp]:
  "is_test_send (new_entry env org b ty da dr na nr key f invoice) = ef_is_test_send f"
  by (simp add: new_entry_def credit_ledger_entry.defs base_model.defs new_base_def)

lemma apply_entry_extends:
  assumes run: "apply_entry env org b ty da dr key f bw (db, x) = (Inr lw, (db', x'))"
    and shape: "entry_shape ty da dr (ef_is_test_send f)"
  shows "extends db db'"
  using run
proof (cases rule: apply_entry_Inr)
  case replay
  then show ?thesis by (simp add: extends_ensure)
next
  case (created w e invoice)
  have "of_entry org b e" "shaped e" using created(7) shape by (simp_all add: of_entry_def shaped_def)
  with extends_posted [OF created(1), of e env ty] created(9) show ?thesis
    using extends_trans [OF extends_ensure] by simp
qed

text \<open>A program keeps the books when it does so from every state in which it returns.\<close>

definition keeps_books :: "('x, 'a) cprog \<Rightarrow> bool" where
  "keeps_books m \<longleftrightarrow>
     (\<forall>db x v db' x'. m (db, x) = (Inr v, (db', x')) \<longrightarrow> credits_wf db \<longrightarrow> credits_wf db' \<and> extends db db')"

lemma keeps_booksD:
  "keeps_books m \<Longrightarrow> m (db, x) = (Inr v, (db', x')) \<Longrightarrow> credits_wf db \<Longrightarrow> credits_wf db' \<and> extends db db'"
  unfolding keeps_books_def by blast

lemma keeps_andthen:
  assumes "keeps_books m" and "\<And>v. keeps_books (f v)"
  shows "keeps_books (andthen m f)"
  unfolding keeps_books_def
proof (intro allI impI)
  fix db x v db' x'
  assume "andthen m f (db, x) = (Inr v, db', x')" and wf: "credits_wf db"
  then obtain u db1 x1 where "m (db, x) = (Inr u, (db1, x1))" "f u (db1, x1) = (Inr v, (db', x'))"
    unfolding andthen_Inr by (metis prod.exhaust)
  with keeps_booksD [OF assms(1)] keeps_booksD [OF assms(2)] wf
  show "credits_wf db' \<and> extends db db'" using extends_trans by blast
qed

lemma keeps_ret: "keeps_books (ret v)"
  and keeps_reads: "keeps_books (reads_db g)"
  and keeps_guard: "keeps_books (guard p e)"
  and keeps_lift: "keeps_books (lift_result r)"
  by (auto simp: keeps_books_def)

lemma keeps_lock: "keeps_books (lock_wallet env org b)"
  by (auto simp: keeps_books_def lock_wallet_runs credits_wf_ensure extends_ensure)

lemma keeps_apply:
  "entry_shape ty da dr (ef_is_test_send f) \<Longrightarrow> keeps_books (apply_entry env org b ty da dr key f bw)"
  unfolding keeps_books_def by (intro allI impI conjI) (erule (1) apply_entry_wf, erule (1) apply_entry_extends)

text \<open>An amount that passed its guard gives the entry its shape.\<close>

lemma keeps_guarded:
  assumes "\<And>v. r = Inr v \<Longrightarrow> keeps_books (f v)"
  shows "keeps_books (andthen (lift_result r) f)"
  unfolding keeps_books_def andthen_Inr lift_result_eq using keeps_booksD [OF assms] by blast

lemma keeps_guarded':
  assumes "p \<Longrightarrow> keeps_books (f ())"
  shows "keeps_books (andthen (guard p e) f)"
  using assms by (cases p) (auto simp: keeps_books_def andthen_Inr intro: keeps_booksD)

lemma require_positive_Inr [simp]: "require_positive n = Inr u \<longleftrightarrow> 0 < n \<and> n \<le> MAX_ENTRY_AMOUNT_MINOR"
  by (auto simp: require_positive_def)

lemma no_fields_test_send [simp]: "ef_is_test_send no_fields = False"
  by (simp add: no_fields_def)

lemma keeps_topup: "keeps_books (topup env org n key actor ref note b bw)"
  and keeps_reserve: "keeps_books (reserve env org n key campaign b)"
  and keeps_release: "keeps_books (release env org n key campaign b)"
  and keeps_debit: "keeps_books (debit env org n key campaign' recipient price k test b)"
  and keeps_refund: "keeps_books (refund env org n key campaign' actor ref note b)"
  unfolding topup_def reserve_def release_def debit_def refund_def
  by (rule keeps_guarded, rule keeps_apply, auto simp: entry_shape_def)+

lemma keeps_adjust: "keeps_books (adjust env org n key actor ref note b)"
  unfolding adjust_def by (rule keeps_guarded', rule keeps_apply) (auto simp: entry_shape_def)

lemma keeps_if: "keeps_books m \<Longrightarrow> keeps_books m' \<Longrightarrow> keeps_books (if p then m else m')"
  by simp

lemmas keeps_intros =
  keeps_if keeps_andthen keeps_ret keeps_reads keeps_lock keeps_topup keeps_reserve keeps_release keeps_debit
  keeps_refund keeps_adjust

lemma keeps_reserve_for_campaign: "keeps_books (reserve_for_campaign env org campaign n u b)"
  unfolding reserve_for_campaign_def Let_def
  by (cases u) (simp_all only: option.case, (intro keeps_intros)+)

lemma keeps_release_remainder: "keeps_books (release_campaign_remainder env org campaign key hold b)"
  unfolding release_campaign_remainder_def Let_def by (intro keeps_intros)

lemma run_credit_keeps: "keeps_books (run_credit c)"
  by (cases c)
     (simp_all only: run_credit.simps keeps_intros keeps_reserve_for_campaign keeps_release_remainder)

interpretation books: request_contract "run_credit :: credit_command \<Rightarrow> (credits_db \<times> 'x, credits_error, unit) prog" credits_wf extends
proof unfold_locales
  fix c :: credit_command and db db' and x x' :: 'x and v
  assume "run_credit c (db, x) = (Inr v, (db', x'))" "credits_wf db"
  from keeps_booksD [OF run_credit_keeps this] show "credits_wf db'" "extends db db'" by simp_all
qed (simp, rule extends_trans)

end
