(* ===== verification/CreditBooks.thy ===== *)
theory CreditBooks
  imports CreditLedger
begin

section \<open>Properties of the wallet and its ledger\<close>

text \<open>
  The properties of \<open>CreditWalletService\<close>, read off the contract \<open>books\<close> (an interpretation of
  \<open>request_contract\<close> on the service's commands) and the description of a single posting.
\<close>

subsection \<open>Reading the contract\<close>

lemma credits_wf_empty: "credits_wf empty_credits"
  by (simp add: credits_wf_def empty_credits_def)

lemma history_wf: "credits_wf (fst (run_requests run_credit cs (empty_credits, x)))"
  using books.history_inv [OF credits_wf_empty] .

lemma history_extends: "credits_wf db \<Longrightarrow> extends db (fst (run_requests run_credit cs (db, x)))"
  using books.history_leads .

lemma wf_wallet:
  assumes "credits_wf db" and "w \<in> set (wallets db)"
  shows "0 \<le> available_minor w" "0 \<le> reserved_minor w"
    "available_minor w = ledger_available (w_organization_id w) (w_bucket w) (ledger db)"
    "reserved_minor w = ledger_reserved (w_organization_id w) (w_bucket w) (ledger db)"
proof -
  have b: "balances w \<in> set (map balances (wallets db))" using assms(2) by simp
  have "\<forall>(org, b, av, rs) \<in> set (map balances (wallets db)).
      0 \<le> av \<and> 0 \<le> rs \<and> av = ledger_available org b (ledger db) \<and> rs = ledger_reserved org b (ledger db)"
    using assms(1) unfolding credits_wf_def by blast
  from bspec [OF this b] show "0 \<le> available_minor w" "0 \<le> reserved_minor w"
    "available_minor w = ledger_available (w_organization_id w) (w_bucket w) (ledger db)"
    "reserved_minor w = ledger_reserved (w_organization_id w) (w_bucket w) (ledger db)"
    unfolding balances_def by simp_all
qed

lemma wf_no_mismatch:
  assumes "credits_wf db"
  shows "find_wallet_mismatches db = []"
proof -
  have "filter (\<lambda>w. available_minor w \<noteq> ledger_available (w_organization_id w) (w_bucket w) (ledger db) \<or>
                    reserved_minor w \<noteq> ledger_reserved (w_organization_id w) (w_bucket w) (ledger db)) (wallets db) = []"
    using wf_wallet(3,4) [OF assms] by (auto simp: filter_empty_conv)
  moreover have "list_ex (of_wallet (e_organization_id e) (e_bucket e)) (wallets db)" if "e \<in> set (ledger db)" for e
  proof -
    from assms that obtain av rs where "(e_organization_id e, e_bucket e, av, rs) \<in> set (map balances (wallets db))"
      unfolding credits_wf_def by blast
    then show ?thesis by (auto simp: list_ex_iff of_wallet_def balances_def)
  qed
  then have "filter (\<lambda>(org, b). \<not> list_ex (of_wallet org b) (wallets db))
      (remdups (map (\<lambda>e. (e_organization_id e, e_bucket e)) (ledger db))) = []"
    by (auto simp: filter_empty_conv)
  ultimately show ?thesis by (simp only: find_wallet_mismatches_def list.map append_Nil)
qed

text \<open>Money in and money out, by kind of entry.\<close>

definition funded :: "uuid \<Rightarrow> CreditBucket \<Rightarrow> credit_ledger_entry list \<Rightarrow> int" where
  "funded org b t =
     sum_list (map delta_available_minor
       (filter (\<lambda>e. of_entry org b e \<and> entry_type e \<in> set [TOPUP, REFUND, ADJUSTMENT]) t))"

definition charged :: "uuid \<Rightarrow> CreditBucket \<Rightarrow> credit_ledger_entry list \<Rightarrow> int" where
  "charged org b t =
     sum_list (map (\<lambda>e. - delta_available_minor e - delta_reserved_minor e)
       (filter (\<lambda>e. of_entry org b e \<and> entry_type e = DEBIT) t))"

lemma shaped_conserves:
  assumes "list_all shaped t"
  shows "ledger_available org b t + ledger_reserved org b t = funded org b t - charged org b t"
  using assms
proof (induction t)
  case Nil
  then show ?case by (simp add: ledger_available_def ledger_reserved_def funded_def charged_def)
next
  case (Cons e t)
  then have "shaped e" by simp
  then have "delta_available_minor e + delta_reserved_minor e =
      (if entry_type e \<in> set [TOPUP, REFUND, ADJUSTMENT] then delta_available_minor e else 0) -
      (if entry_type e = DEBIT then - delta_available_minor e - delta_reserved_minor e else 0)"
    by (cases "entry_type e") (auto simp: shaped_def entry_shape_def)
  with Cons show ?case
    by (auto simp: ledger_available_def ledger_reserved_def funded_def charged_def)
qed

lemma history_shaped: "list_all shaped (ledger (fst (run_requests run_credit cs (empty_credits, x))))"
proof -
  obtain t where "ledger (fst (run_requests run_credit cs (empty_credits, x))) = ledger empty_credits @ t" "list_all shaped t"
    using history_extends [OF credits_wf_empty, of cs x] unfolding extends_def by blast
  then show ?thesis by (simp add: empty_credits_def)
qed


subsection \<open>The books balance\<close>

text \<open>
  C2. After any history of wallet operations, each in its own transaction, from the empty
  database: the nightly reconciliation finds no mismatch, no balance is negative, every
  ledger row carries the balances that the rows up to it sum to, no idempotency key is used
  twice in a wallet and no recipient is debited twice.
\<close>

theorem books_balance:
  "let db = fst (run_requests run_credit cs (empty_credits, x))
   in find_wallet_mismatches db = [] \<and>
      list_all (\<lambda>w. 0 \<le> available_minor w \<and> 0 \<le> reserved_minor w) (wallets db) \<and>
      list_all (\<lambda>i. let e = ledger db ! i; org = e_organization_id e; b = e_bucket e in
          balance_available_after_minor e = ledger_available org b (take (Suc i) (ledger db)) \<and>
          balance_reserved_after_minor e = ledger_reserved org b (take (Suc i) (ledger db))) [0..<length (ledger db)] \<and>
      distinct (map entry_key (ledger db)) \<and>
      distinct (map e_recipient_id (filter recipient_debit (ledger db)))"
proof -
  let ?db = "fst (run_requests run_credit cs (empty_credits, x))"
  have wf: "credits_wf ?db" by (rule history_wf)
  from wf have "distinct (map entry_key (ledger ?db))" "distinct (map e_recipient_id (filter recipient_debit (ledger ?db)))"
    "\<forall>i < length (ledger ?db).
        balance_available_after_minor (ledger ?db ! i) =
          ledger_available (e_organization_id (ledger ?db ! i)) (e_bucket (ledger ?db ! i)) (take (Suc i) (ledger ?db)) \<and>
        balance_reserved_after_minor (ledger ?db ! i) =
          ledger_reserved (e_organization_id (ledger ?db ! i)) (e_bucket (ledger ?db ! i)) (take (Suc i) (ledger ?db))"
    unfolding credits_wf_def by blast+
  then show ?thesis
    using wf_no_mismatch [OF wf] wf_wallet(1,2) [OF wf] by (simp add: Let_def list_all_iff)
qed

text \<open>
  C34. Money is conserved: after any history, what a wallet holds (available plus reserved)
  is what top-ups, refunds and adjustments put in less what debits charged. Reservations and
  releases only move it between the two balances, so what was charged never exceeds what was
  put in.
\<close>

theorem money_conserved:
  "let db = fst (run_requests run_credit cs (empty_credits, x))
   in list_all (\<lambda>w. let org = w_organization_id w; b = w_bucket w in
          available_minor w + reserved_minor w = funded org b (ledger db) - charged org b (ledger db) \<and>
          charged org b (ledger db) \<le> funded org b (ledger db)) (wallets db)"
proof -
  let ?db = "fst (run_requests run_credit cs (empty_credits, x))"
  have "available_minor w + reserved_minor w =
      funded (w_organization_id w) (w_bucket w) (ledger ?db) - charged (w_organization_id w) (w_bucket w) (ledger ?db) \<and>
    charged (w_organization_id w) (w_bucket w) (ledger ?db) \<le> funded (w_organization_id w) (w_bucket w) (ledger ?db)"
    if "w \<in> set (wallets ?db)" for w
    using wf_wallet [OF history_wf that] shaped_conserves [OF history_shaped, of "w_organization_id w" "w_bucket w" cs x]
    by linarith
  then show ?thesis by (simp add: Let_def list_all_iff)
qed


subsection \<open>A request is applied once\<close>

lemma get_entry_by_key_append:
  "ledger db' = ledger db @ t \<Longrightarrow> get_entry_by_key org b key db = Some e \<Longrightarrow> get_entry_by_key org b key db' = Some e"
proof -
  have "find P xs = Some e \<Longrightarrow> find P (xs @ ys) = Some e" for P :: "credit_ledger_entry \<Rightarrow> bool" and xs ys
    by (induction xs) (auto split: if_splits)
  then show "ledger db' = ledger db @ t \<Longrightarrow> get_entry_by_key org b key db = Some e \<Longrightarrow> get_entry_by_key org b key db' = Some e"
    by (simp add: get_entry_by_key_def)
qed

lemma get_entry_by_key_new:
  assumes "get_entry_by_key org b key db = None" and "ledger db' = ledger db @ [e]"
    and "of_entry org b e" and "idempotency_key e = key"
  shows "get_entry_by_key org b key db' = Some e"
proof -
  have "find P xs = None \<Longrightarrow> P e \<Longrightarrow> find P (xs @ [e]) = Some e" for P :: "credit_ledger_entry \<Rightarrow> bool" and xs
    by (induction xs) (auto split: if_splits)
  with assms show ?thesis by (simp add: get_entry_by_key_def)
qed

text \<open>After a call returned, its wallet exists and its key finds the entry it returned.\<close>

lemma apply_entry_recorded:
  assumes "apply_entry env org b ty da dr key f bw (db, x) = (Inr lw, (db', x'))"
  shows "get_wallet org b db' \<noteq> None \<and> get_entry_by_key org b key db' = Some (lw_entry lw) \<and>
    same_request (lw_entry lw) ty da dr f \<and> key \<noteq> []"
  using assms
proof (cases rule: apply_entry_Inr)
  case (replay w e)
  moreover have "get_entry_by_key org b key db' = get_entry_by_key org b key db"
    using replay by (simp add: get_entry_by_key_def)
  ultimately show ?thesis by simp
next
  case (created w e invoice)
  have "get_wallet org b db' = Some (settled env ty e w)" using created(9) get_wallet_posted [OF created(1)] by simp
  moreover have "get_entry_by_key org b key db' = Some e"
    using created by (intro get_entry_by_key_new [of org b key db]) (simp_all add: posted_def Let_def of_entry_def)
  moreover have "same_request e ty da dr f" using created(7) by (simp add: same_request_def)
  ultimately show ?thesis using created by simp
qed

text \<open>
  C31. Idempotency: once a call of \<open>_apply\<close> returned, then however many wallet operations
  follow, the same request under its key returns the original entry, marked as not created,
  and changes nothing; a request that differs in its type, its amounts, its campaign or its
  recipient is refused with \<open>IdempotencyKeyReusedError\<close> and changes nothing either.
\<close>

theorem replay_returns_original:
  assumes "apply_entry env org b ty da dr key f bw (db, x) = (Inr lw, (db1, x1))"
    and "credits_wf db"
    and "db2 = fst (run_requests run_credit cs (db1, x1))"
  shows "\<exists>w. get_wallet org b db2 = Some w \<and>
      apply_entry env' org b ty' da' dr' key f' bw' (db2, y) =
        (if ty' = ty \<and> da' = da \<and> dr' = dr \<and> ef_campaign_id f' = ef_campaign_id f \<and>
            ef_recipient_id f' = ef_recipient_id f
         then (Inr \<lparr>lw_entry = lw_entry lw, lw_wallet = w, lw_created = False\<rparr>, (db2, y))
         else (Inl (IdempotencyKeyReusedError key), (db2, y)))"
proof -
  have rec: "get_wallet org b db1 \<noteq> None" "get_entry_by_key org b key db1 = Some (lw_entry lw)"
      "same_request (lw_entry lw) ty da dr f" "key \<noteq> []"
    using apply_entry_recorded [OF assms(1)] by simp_all
  have wf1: "credits_wf db1" using apply_entry_wf [OF assms(1,2)] .
  obtain t where t: "ledger db2 = ledger db1 @ t" and "get_wallet org b db2 \<noteq> None"
    using history_extends [OF wf1, of cs x1] rec(1) unfolding assms(3) extends_def by blast
  then obtain w where w: "get_wallet org b db2 = Some w" by blast
  have e: "get_entry_by_key org b key db2 = Some (lw_entry lw)" by (rule get_entry_by_key_append [OF t rec(2)])
  have "same_request (lw_entry lw) ty' da' dr' f' \<longleftrightarrow>
      ty' = ty \<and> da' = da \<and> dr' = dr \<and> ef_campaign_id f' = ef_campaign_id f \<and> ef_recipient_id f' = ef_recipient_id f"
    using rec(3) by (auto simp: same_request_def)
  with w show ?thesis by (simp add: apply_entry_replay [OF w e rec(4)])
qed


subsection \<open>The low-balance alert\<close>

text \<open>
  The low-balance alert fires once per crossing: over any run of operations during
  which a wallet's balance never comes back to its threshold, at most one alert is queued
  for the wallet, and none if one had been queued before and not been re-armed.
\<close>

theorem low_balance_alert_once:
  assumes "credits_wf db" and "db' = fst (run_requests run_credit cs (db, x))"
    and "list_all (\<lambda>e. of_entry org b e \<longrightarrow> balance_available_after_minor e < threshold org b db)
           (drop (length (ledger db)) (ledger db'))"
  shows "alerts_for org b db' \<le> alerts_for org b db + (if notified org b db then 0 else 1)"
proof -
  obtain t where t: "ledger db' = ledger db @ t"
    and a: "stays_low org b (threshold org b db) t \<Longrightarrow>
      alerts_for org b db' + of_bool (notified org b db) = alerts_for org b db + of_bool (notified org b db')"
    using history_extends [OF assms(1), of cs x] unfolding assms(2) extends_def by blast
  have "stays_low org b (threshold org b db) t" using assms(3) t by (simp add: stays_low_def list_all_iff)
  from a [OF this] show ?thesis by (auto split: if_splits simp: of_bool_def)
qed


subsection \<open>Reservations of a campaign\<close>

text \<open>A request under a fresh key that leaves both balances non-negative is posted.\<close>

lemma apply_entry_creates:
  assumes w: "get_wallet org b db = Some w" and key: "key \<noteq> []" "get_entry_by_key org b key db = None"
    and nn: "0 \<le> available_minor w + da" "0 \<le> reserved_minor w + dr" and ty: "ty \<noteq> DEBIT"
    and e_def: "e = new_entry env org b ty da dr (available_minor w + da) (reserved_minor w + dr) key f None"
  shows "\<exists>w'. apply_entry env org b ty da dr key f None (db, x) =
    (Inr \<lparr>lw_entry = e, lw_wallet = w', lw_created = True\<rparr>, (posted env ty e w db, x))"
proof -
  let ?na = "available_minor w + da" and ?nr = "reserved_minor w + dr"
  have lock: "lock_wallet env org b (db, x) = (Inr w, (db, x))"
    using w ensure_wallet_again [OF w] by (simp add: lock_wallet_runs)
  have "entry_integrity e (ledger db) = None"
    using key(2) nn ty by (simp add: entry_integrity_def e_def get_entry_by_key_def find_None_iff list_ex_iff)
  then have ins: "store_entry da w e (db, x) = (Inr (), (db\<lparr>ledger := ledger db @ [e]\<rparr>, x))"
    by (simp add: insert_entry_def)
  have "\<exists>w'. maybe_alert_low_balance env ty ((settle ?na ?nr w)\<lparr>updated_at := now_at env 2\<rparr>)
      (post (now_at env 2) e ?na ?nr w db, x) = (Inr w', (posted env ty e w db, x))"
    by (cases "alerted env ty ((settle ?na ?nr w)\<lparr>updated_at := now_at env 2\<rparr>)")
       (simp_all add: maybe_alert_runs posted_def alert_post_def Let_def e_def)
  then obtain w' where al: "maybe_alert_low_balance env ty ((settle ?na ?nr w)\<lparr>updated_at := now_at env 2\<rparr>)
      (post (now_at env 2) e ?na ?nr w db, x) = (Inr w', (posted env ty e w db, x))" by blast
  have "apply_entry env org b ty da dr key f None (db, x) =
      (Inr \<lparr>lw_entry = e, lw_wallet = w', lw_created = True\<rparr>, (posted env ty e w db, x))"
    using key lock nn ins al unfolding apply_entry_def Let_def post_def
    by (simp add: andthen_Inr e_def [symmetric])
  then show ?thesis by blast
qed

lemma posted_balances:
  assumes w: "get_wallet org b db = Some w"
    and e: "e = new_entry env org b ty da dr (available_minor w + da) (reserved_minor w + dr) key f invoice"
  shows "\<exists>w'. get_wallet org b (posted env ty e w db) = Some w' \<and>
    available_minor w' = available_minor w + da \<and> reserved_minor w' = reserved_minor w + dr"
  using get_wallet_posted [OF w, of org b env ty e] by (simp add: settled_def Let_def e)

lemma posted_outstanding:
  assumes "e = new_entry env org b ty da dr na nr key (no_fields\<lparr>ef_campaign_id := Some c\<rparr>) invoice"
  shows "campaign_reserved_outstanding org b c' (posted env ty e w db) =
    campaign_reserved_outstanding org b c' db + (if c' = c then dr else 0)"
  by (simp add: campaign_reserved_outstanding_def posted_def Let_def assms of_entry_def)

text \<open>A campaign's call that posts \<open>da\<close> and \<open>dr\<close>.\<close>

lemma campaign_posting:
  assumes w: "get_wallet org b db = Some w" and key: "key \<noteq> []" "get_entry_by_key org b key db = None"
    and nn: "0 \<le> available_minor w + da" "0 \<le> reserved_minor w + dr" and ty: "ty \<noteq> DEBIT"
  obtains lw db' w' where
    "apply_entry env org b ty da dr key (no_fields\<lparr>ef_campaign_id := Some c\<rparr>) None (db, x) = (Inr lw, (db', x))"
    and "get_wallet org b db' = Some w'"
    and "available_minor w' = available_minor w + da" and "reserved_minor w' = reserved_minor w + dr"
    and "\<And>c'. campaign_reserved_outstanding org b c' db' =
           campaign_reserved_outstanding org b c' db + (if c' = c then dr else 0)"
proof -
  define e where "e = new_entry env org b ty da dr (available_minor w + da) (reserved_minor w + dr) key
      (no_fields\<lparr>ef_campaign_id := Some c\<rparr>) None"
  from apply_entry_creates [OF w key nn ty e_def, of x] obtain w1 where
    run: "apply_entry env org b ty da dr key (no_fields\<lparr>ef_campaign_id := Some c\<rparr>) None (db, x) =
      (Inr \<lparr>lw_entry = e, lw_wallet = w1, lw_created = True\<rparr>, (posted env ty e w db, x))" ..
  from posted_balances [OF w e_def] obtain w' where b: "get_wallet org b (posted env ty e w db) = Some w' \<and>
      available_minor w' = available_minor w + da \<and> reserved_minor w' = reserved_minor w + dr" ..
  from that [OF run b [THEN conjunct1] b [THEN conjunct2, THEN conjunct1] b [THEN conjunct2, THEN conjunct2]
      posted_outstanding [OF e_def]]
  show ?thesis .
qed

lemma require_positive_eq [simp]: "Inr u = require_positive n \<longleftrightarrow> 0 < n \<and> n \<le> MAX_ENTRY_AMOUNT_MINOR"
  using require_positive_Inr [of n u] by argo

lemma reserve_key_nonempty [simp]: "reserve_key c n \<noteq> []"
  by (simp add: reserve_key_def)

text \<open>
  With a unit price, \<open>reserve_for_campaign\<close> never fails for lack of credit: it reserves
  the largest whole number of units that the requested amount and the available balance
  both cover, moves exactly that from available to reserved, and adds it to what the campaign
  has outstanding and to no other campaign.
\<close>

theorem reserve_for_campaign_whole_units:
  assumes "get_wallet org b db = Some w" and "0 \<le> available_minor w" and "0 \<le> reserved_minor w"
    and "0 < amount" and "amount \<le> MAX_ENTRY_AMOUNT_MINOR" and "0 < u"
    and "get_entry_by_key org b (reserve_key c (count_campaign_entries org b c RESERVE None db)) db = None"
  shows "\<exists>n db' w'. reserve_for_campaign env org c amount (Some u) b (db, x) = (Inr n, (db', x)) \<and>
      n mod u = 0 \<and> 0 \<le> n \<and> n \<le> min amount (available_minor w) \<and> min amount (available_minor w) < n + u \<and>
      get_wallet org b db' = Some w' \<and>
      available_minor w' = available_minor w - n \<and> reserved_minor w' = reserved_minor w + n \<and>
      (\<forall>c'. campaign_reserved_outstanding org b c' db' =
         campaign_reserved_outstanding org b c' db + (if c' = c then n else 0))"
proof -
  define n where "n = min (amount div u) (available_minor w div u) * u"
  have units: "n mod u = 0" "0 \<le> n" "n \<le> min amount (available_minor w)" "min amount (available_minor w) < n + u"
  proof -
    let ?m = "min amount (available_minor w)"
    have m: "min (amount div u) (available_minor w div u) = ?m div u"
      using zdiv_mono1 [OF _ assms(6), of amount "available_minor w"] zdiv_mono1 [OF _ assms(6), of "available_minor w" amount]
      by (cases "amount \<le> available_minor w") (simp_all add: min_def)
    have "?m = n + ?m mod u" using m by (simp add: n_def mult.commute)
    moreover have "0 \<le> ?m mod u" "?m mod u < u" using assms(6) by simp_all
    ultimately show "n \<le> ?m" "?m < n + u" by linarith+
    show "0 \<le> n" using m assms by (simp add: n_def pos_imp_zdiv_nonneg_iff)
  qed (simp add: n_def)
  have lock: "lock_wallet env org b (db, x) = (Inr w, (db, x))"
    using assms(1) ensure_wallet_again [OF assms(1)] by (simp add: lock_wallet_runs)
  show ?thesis
  proof (cases "n \<le> 0")
    case True
    with units have n: "n = 0" by simp
    have "reserve_for_campaign env org c amount (Some u) b (db, x) = (Inr 0, (db, x))"
      using True lock assms(4,6) by (simp add: reserve_for_campaign_def andthen_Inr Let_def n_def)
    with assms(1) units n show ?thesis by (intro exI [of _ 0] exI [of _ db] exI [of _ w]) simp
  next
    case False
    let ?k = "reserve_key c (count_campaign_entries org b c RESERVE None db)"
    have "0 \<le> available_minor w + - n" "0 \<le> reserved_minor w + n" using units assms(3) by simp_all
    from campaign_posting [OF assms(1) reserve_key_nonempty assms(7) this, of RESERVE env c x]
    obtain lw db' w' where r: "apply_entry env org b RESERVE (- n) n ?k (no_fields\<lparr>ef_campaign_id := Some c\<rparr>) None (db, x) =
          (Inr lw, (db', x))" "get_wallet org b db' = Some w'"
        "available_minor w' = available_minor w + - n" "reserved_minor w' = reserved_minor w + n"
        "\<And>c'. campaign_reserved_outstanding org b c' db' =
           campaign_reserved_outstanding org b c' db + (if c' = c then n else 0)" by blast
    have "reserve env org n ?k c b (db, x) = (Inr lw, (db', x))"
      using r(1) False units assms(5) by (simp add: reserve_def andthen_Inr)
    then have "reserve_for_campaign env org c amount (Some u) b (db, x) = (Inr n, (db', x))"
      using False lock assms(4,6) by (simp add: reserve_for_campaign_def andthen_Inr Let_def n_def [symmetric])
    with r units show ?thesis by (intro exI [of _ n] exI [of _ db'] exI [of _ w']) simp
  qed
qed


text \<open>The key of a release: \<open>key_base\<close> itself the first time, with a counter later.\<close>

definition release_key :: "string \<Rightarrow> nat \<Rightarrow> string" where
  "release_key key_base prior = (if prior = 0 then key_base else key_base @ '':'' @ show_nat prior)"

lemma release_runs:
  assumes w: "get_wallet org b db = Some w"
  shows "release_campaign_remainder env org c key_base hold b (db, x) = (Inr n, (db', x)) \<longleftrightarrow>
    (let amount = campaign_reserved_outstanding org b c db - max 0 hold in
     if amount \<le> 0 then n = 0 \<and> db' = db
     else n = amount \<and> (\<exists>lw. release env org amount
         (release_key key_base (count_campaign_entries org b c RELEASE (Some key_base) db)) c b (db, x) = (Inr lw, (db', x))))"
proof -
  have "lock_wallet env org b (db, x) = (Inr w, (db, x))"
    using w ensure_wallet_again [OF w] by (simp add: lock_wallet_runs)
  then show ?thesis
    by (auto simp: release_campaign_remainder_def andthen_Inr Let_def release_key_def)
qed

text \<open>
  \<open>release_campaign_remainder\<close> gives back exactly what the campaign has outstanding
  beyond the amount held for recipients not yet settled: afterwards the campaign's
  outstanding reservation is the held amount, the released credit is available again, no
  other campaign's reservation changed, and a second call releases nothing.
\<close>

theorem release_leaves_hold:
  assumes "get_wallet org b db = Some w" and "0 \<le> available_minor w"
    and "max 0 hold < campaign_reserved_outstanding org b c db"
    and "campaign_reserved_outstanding org b c db - max 0 hold \<le> min (reserved_minor w) MAX_ENTRY_AMOUNT_MINOR"
    and "get_entry_by_key org b (release_key key_base
           (count_campaign_entries org b c RELEASE (Some key_base) db)) db = None"
    and "key_base \<noteq> []"
  shows "\<exists>n db' w'. release_campaign_remainder env org c key_base hold b (db, x) = (Inr n, (db', x)) \<and>
      n = campaign_reserved_outstanding org b c db - max 0 hold \<and>
      campaign_reserved_outstanding org b c db' = max 0 hold \<and>
      get_wallet org b db' = Some w' \<and>
      available_minor w' = available_minor w + n \<and> reserved_minor w' = reserved_minor w - n \<and>
      (\<forall>c'. c' \<noteq> c \<longrightarrow> campaign_reserved_outstanding org b c' db' = campaign_reserved_outstanding org b c' db) \<and>
      release_campaign_remainder env' org c key_base' hold b (db', x') = (Inr 0, (db', x'))"
proof -
  let ?n = "campaign_reserved_outstanding org b c db - max 0 hold"
  let ?k = "release_key key_base (count_campaign_entries org b c RELEASE (Some key_base) db)"
  have k: "?k \<noteq> []" using assms(6) by (simp add: release_key_def)
  have "0 \<le> available_minor w + ?n" "0 \<le> reserved_minor w + - ?n" using assms(2-4) by simp_all
  from campaign_posting [OF assms(1) k assms(5) this, of RELEASE env c x]
  obtain lw db' w' where r: "apply_entry env org b RELEASE ?n (- ?n) ?k (no_fields\<lparr>ef_campaign_id := Some c\<rparr>) None (db, x) =
        (Inr lw, (db', x))" and w': "get_wallet org b db' = Some w'"
      "available_minor w' = available_minor w + ?n" "reserved_minor w' = reserved_minor w + - ?n"
    and out: "\<And>c'. campaign_reserved_outstanding org b c' db' =
         campaign_reserved_outstanding org b c' db + (if c' = c then - ?n else 0)" by blast
  have "release env org ?n ?k c b (db, x) = (Inr lw, (db', x))"
    using r assms(3,4) by (simp add: release_def andthen_Inr)
  then have "release_campaign_remainder env org c key_base hold b (db, x) = (Inr ?n, (db', x))"
    using assms(3) unfolding release_runs [OF assms(1)] by (auto simp: Let_def)
  moreover have hold: "campaign_reserved_outstanding org b c db' = max 0 hold" using out [of c] by simp
  then have "release_campaign_remainder env' org c key_base' hold b (db', x') = (Inr 0, (db', x'))"
    unfolding release_runs [OF w'(1)] by (simp add: Let_def)
  moreover have "\<forall>c'. c' \<noteq> c \<longrightarrow> campaign_reserved_outstanding org b c' db' = campaign_reserved_outstanding org b c' db"
    using out by simp
  ultimately show ?thesis using w' hold by (intro exI [of _ ?n] exI [of _ db'] exI [of _ w']) simp
qed



subsection \<open>A campaign's reservation is not its own\<close>

text \<open>An organization with 20000 credits, of which two campaigns reserve 6000 each.\<close>

definition ex_env :: credit_env where
  "ex_env = \<lparr>wallet_id = ''w1'', entry_id = ''e1'', now_at = int, low_balance_hook = True\<rparr>"

definition ex_commands :: "credit_command list" where
  "ex_commands =
     [CTopup ex_env ''org'' 20000 ''t1'' None None None MARKETING None,
      CReserveForCampaign ex_env ''org'' ''A'' 6000 (Some 50) MARKETING,
      CReserveForCampaign ex_env ''org'' ''B'' 6000 (Some 50) MARKETING]"

definition ex_credits :: credits_db where
  "ex_credits = fst (run_requests run_credit ex_commands (empty_credits, ()))"

definition ex_wallet :: credit_wallet where
  "ex_wallet = the (get_wallet ''org'' MARKETING ex_credits)"

lemma ex_credits_wf: "credits_wf ex_credits"
  unfolding ex_credits_def by (rule history_wf)

lemma ex_wallet_balances:
  "get_wallet ''org'' MARKETING ex_credits = Some ex_wallet \<and> available_minor ex_wallet = 8000 \<and>
   reserved_minor ex_wallet = 12000 \<and> notified ''org'' MARKETING ex_credits \<and>
   campaign_reserved_outstanding ''org'' MARKETING ''A'' ex_credits = 6000"
  by code_simp

text \<open>
  The reserved balance is checked for the wallet only: with two campaigns that reserved
  6000 each, a debit of 9000 for the first one is accepted, although it reserved 6000, and
  the second one's debit of the 6000 it reserved is then refused.
\<close>

theorem campaign_spends_other_reservation:
  "case debit ex_env ''org'' 9000 ''d1'' (Some ''A'') (Some ''r1'') None None False MARKETING (ex_credits, ()) of
     (Inl _, _) \<Rightarrow> False
   | (Inr _, (db, _)) \<Rightarrow>
       campaign_reserved_outstanding ''org'' MARKETING ''A'' ex_credits = 6000 \<and>
       campaign_reserved_outstanding ''org'' MARKETING ''A'' db = - 3000 \<and>
       campaign_reserved_outstanding ''org'' MARKETING ''B'' db = 6000 \<and>
       fst (debit ex_env ''org'' 6000 ''d2'' (Some ''B'') (Some ''r2'') None None False MARKETING (db, ())) =
         Inl (CreditReservationExceededError 6000 3000)"
  by code_simp


subsection \<open>Witnesses\<close>

theorem reserve_for_campaign_whole_units_witness:
  "\<exists>n db' w'. reserve_for_campaign ex_env ''org'' ''A'' 9975 (Some 50) MARKETING (ex_credits, ()) = (Inr n, (db', ())) \<and>
      n mod 50 = 0 \<and> 0 \<le> n \<and> n \<le> min 9975 (available_minor ex_wallet) \<and> min 9975 (available_minor ex_wallet) < n + 50 \<and>
      get_wallet ''org'' MARKETING db' = Some w' \<and>
      available_minor w' = available_minor ex_wallet - n \<and> reserved_minor w' = reserved_minor ex_wallet + n \<and>
      (\<forall>c'. campaign_reserved_outstanding ''org'' MARKETING c' db' =
         campaign_reserved_outstanding ''org'' MARKETING c' ex_credits + (if c' = ''A'' then n else 0))"
proof (rule reserve_for_campaign_whole_units)
  show "get_entry_by_key ''org'' MARKETING (reserve_key ''A''
      (count_campaign_entries ''org'' MARKETING ''A'' RESERVE None ex_credits)) ex_credits = None" by code_simp
qed (simp_all add: ex_wallet_balances MAX_ENTRY_AMOUNT_MINOR_def)

theorem release_leaves_hold_witness:
  "\<exists>n db' w'. release_campaign_remainder ex_env ''org'' ''A'' ''release:A:final'' 1000 MARKETING (ex_credits, ()) = (Inr n, (db', ())) \<and>
      n = campaign_reserved_outstanding ''org'' MARKETING ''A'' ex_credits - max 0 1000 \<and>
      campaign_reserved_outstanding ''org'' MARKETING ''A'' db' = max 0 1000 \<and>
      get_wallet ''org'' MARKETING db' = Some w' \<and>
      available_minor w' = available_minor ex_wallet + n \<and> reserved_minor w' = reserved_minor ex_wallet - n \<and>
      (\<forall>c'. c' \<noteq> ''A'' \<longrightarrow>
         campaign_reserved_outstanding ''org'' MARKETING c' db' = campaign_reserved_outstanding ''org'' MARKETING c' ex_credits) \<and>
      release_campaign_remainder ex_env ''org'' ''A'' ''release:A:again'' 1000 MARKETING (db', ()) = (Inr 0, (db', ()))"
proof (rule release_leaves_hold)
  show "get_entry_by_key ''org'' MARKETING (release_key ''release:A:final''
      (count_campaign_entries ''org'' MARKETING ''A'' RELEASE (Some ''release:A:final'') ex_credits)) ex_credits = None" by code_simp
qed (simp_all add: ex_wallet_balances MAX_ENTRY_AMOUNT_MINOR_def)

text \<open>One more reservation leaves the balance low: no second alert.\<close>

definition ex_more :: "credit_command list" where
  "ex_more = [CReserveForCampaign ex_env ''org'' ''A'' 1000 (Some 50) MARKETING]"

theorem low_balance_alert_once_witness:
  "alerts_for ''org'' MARKETING (fst (run_requests run_credit ex_more (ex_credits, ())))
     \<le> alerts_for ''org'' MARKETING ex_credits + (if notified ''org'' MARKETING ex_credits then 0 else 1)"
proof (rule low_balance_alert_once [OF ex_credits_wf refl])
  show "list_all (\<lambda>e. of_entry ''org'' MARKETING e \<longrightarrow> balance_available_after_minor e < threshold ''org'' MARKETING ex_credits)
      (drop (length (ledger ex_credits)) (ledger (fst (run_requests run_credit ex_more (ex_credits, ())))))" by code_simp
qed

text \<open>The top-up of the example, repeated after the two reservations.\<close>

definition ex_topup_fields :: entry_fields where
  "ex_topup_fields = no_fields\<lparr>ef_actor_user_id := None, ef_reference := None, ef_note := None\<rparr>"

definition ex_topup :: "(credits_error + ledger_write) \<times> (credits_db \<times> unit)" where
  "ex_topup = apply_entry ex_env ''org'' MARKETING TOPUP 20000 0 ''t1'' ex_topup_fields None (empty_credits, ())"

definition ex_topup_write :: ledger_write where
  "ex_topup_write = (case ex_topup of (Inr lw, _) \<Rightarrow> lw)"

lemma ex_topup_runs: "apply_entry ex_env ''org'' MARKETING TOPUP 20000 0 ''t1'' ex_topup_fields None (empty_credits, ()) =
    (Inr ex_topup_write, (fst (snd ex_topup), snd (snd ex_topup)))"
  by code_simp

theorem replay_returns_original_witness:
  "\<exists>w. get_wallet ''org'' MARKETING (fst (run_requests run_credit (tl ex_commands) (fst (snd ex_topup), snd (snd ex_topup)))) = Some w \<and>
      apply_entry ex_env ''org'' MARKETING TOPUP 20000 0 ''t1'' ex_topup_fields None
        (fst (run_requests run_credit (tl ex_commands) (fst (snd ex_topup), snd (snd ex_topup))), ()) =
        (Inr \<lparr>lw_entry = lw_entry ex_topup_write, lw_wallet = w, lw_created = False\<rparr>,
         (fst (run_requests run_credit (tl ex_commands) (fst (snd ex_topup), snd (snd ex_topup))), ()))"
  using replay_returns_original [OF ex_topup_runs credits_wf_empty refl,
      where cs = "tl ex_commands" and env' = ex_env and ty' = TOPUP and da' = 20000 and dr' = 0 and f' = ex_topup_fields
        and bw' = None and y = "()"] by simp

end
