(* ===== verification/Billing.thy ===== *)
theory Billing
  imports Database Complex_Main "HOL-Library.Product_Lexorder"
begin

section \<open>Billing rules\<close>

text \<open>
  \<open>app/domains/billing/validators.py\<close> and \<open>number_generator.py\<close>: plan feature values, discounts,
  the GST split, month arithmetic, minor units and the numbering of documents.

  A \<open>Decimal\<close> is a rational number. This is exact while a result fits the 28 significant
  digits of Python's default context, which the \<open>Numeric(12, 2)\<close> and \<open>Numeric(5, 2)\<close> columns
  the rules are applied to ensure. \<open>quantize(Decimal("0.01"))\<close> rounds half to even, the
  default of that context. A \<open>datetime\<close> is here its calendar fields, because the rules read
  and replace them.
\<close>

subsection \<open>Plan features\<close>

datatype PlanFeatureKey =
    MAX_ORGANIZATIONS | MAX_LOCATIONS | MAX_ROUTERS | MAX_GUESTS | MAX_ADMIN_USERS
  | CAPTIVE_PORTAL_BUILDER | AI_FEATURES | ANALYTICS | MONITORING | WHITE_LABEL | API_ACCESS | PMS_INTEGRATION
  | SMS_QUOTA | EMAIL_QUOTA | STORAGE_QUOTA_MB | SUPPORT_LEVEL
  | MAX_CONCURRENT_SESSIONS | MAX_STAFF_USERS | MAX_API_KEYS
  | DASHBOARD | GUEST_WIFI | CAPTIVE_PORTAL | FREERADIUS | WIREGUARD | REPORTS | ALERTS | BILLING | VOUCHER_LOGIN
  | QR_LOGIN | SOCIAL_LOGIN | MOBILE_OTP | NOTIFICATION_CENTER | AUDIT_LOGS | MULTI_ROUTER | MULTI_LOCATION
  | CAMPAIGNS | VLAN | DHCP | MFA | EXPORTS | ISP_FAILOVER | GUEST_MARKETING | GUEST_MARKETING_BYO
  | TRAFFIC_FLOW | TRAFFIC_FLOW_RECORDS

datatype PlanFeatureType = LIMIT | BOOLEAN | TIER

definition SupportTier_values :: "string list" where
  "SupportTier_values = [''basic'', ''priority'', ''dedicated'']"

definition LIMIT_FEATURE_KEYS :: "PlanFeatureKey list" where
  "LIMIT_FEATURE_KEYS =
     [MAX_ORGANIZATIONS, MAX_LOCATIONS, MAX_ROUTERS, MAX_GUESTS, MAX_ADMIN_USERS, SMS_QUOTA, EMAIL_QUOTA,
      STORAGE_QUOTA_MB, MAX_CONCURRENT_SESSIONS, MAX_STAFF_USERS, MAX_API_KEYS]"

definition BOOLEAN_FEATURE_KEYS :: "PlanFeatureKey list" where
  "BOOLEAN_FEATURE_KEYS =
     [CAPTIVE_PORTAL_BUILDER, AI_FEATURES, ANALYTICS, MONITORING, WHITE_LABEL, API_ACCESS, PMS_INTEGRATION, DASHBOARD,
      GUEST_WIFI, CAPTIVE_PORTAL, FREERADIUS, WIREGUARD, REPORTS, ALERTS, BILLING, VOUCHER_LOGIN, QR_LOGIN,
      SOCIAL_LOGIN, MOBILE_OTP, NOTIFICATION_CENTER, AUDIT_LOGS, MULTI_ROUTER, MULTI_LOCATION, CAMPAIGNS, VLAN, DHCP,
      MFA, EXPORTS, ISP_FAILOVER, GUEST_MARKETING, GUEST_MARKETING_BYO, TRAFFIC_FLOW, TRAFFIC_FLOW_RECORDS]"

definition TIER_FEATURE_KEYS :: "PlanFeatureKey list" where
  "TIER_FEATURE_KEYS = [SUPPORT_LEVEL]"

text \<open>The dictionary as its literal builds it; \<open>expected_feature_type\<close> indexes it.\<close>

definition FEATURE_KEY_TYPE :: "(PlanFeatureKey \<times> PlanFeatureType) list" where
  "FEATURE_KEY_TYPE =
     map (\<lambda>k. (k, LIMIT)) LIMIT_FEATURE_KEYS @ map (\<lambda>k. (k, BOOLEAN)) BOOLEAN_FEATURE_KEYS @
     map (\<lambda>k. (k, TIER)) TIER_FEATURE_KEYS"

datatype billing_error =
    BillingKeyError
  | BillingValueError
  | InvalidPlanFeatureValueError
  | InvalidDiscountValueError

definition expected_feature_type :: "PlanFeatureKey \<Rightarrow> billing_error + PlanFeatureType" where
  "expected_feature_type k = (case map_of FEATURE_KEY_TYPE k of None \<Rightarrow> Inl BillingKeyError | Some t \<Rightarrow> Inr t)"

definition validate_feature_value ::
  "PlanFeatureKey \<Rightarrow> PlanFeatureType \<Rightarrow> rat option \<Rightarrow> bool option \<Rightarrow> string option \<Rightarrow> billing_error + unit" where
  "validate_feature_value k ty limit_value is_enabled tier_value =
     (case expected_feature_type k of
        Inl e \<Rightarrow> Inl e
      | Inr required \<Rightarrow>
          if ty \<noteq> required then Inl InvalidPlanFeatureValueError
          else case ty of
            LIMIT \<Rightarrow>
              (case limit_value of
                 None \<Rightarrow> Inl InvalidPlanFeatureValueError
               | Some v \<Rightarrow>
                   if v < 0 then Inl InvalidPlanFeatureValueError
                   else if is_enabled \<noteq> None \<or> tier_value \<noteq> None then Inl InvalidPlanFeatureValueError
                   else Inr ())
          | BOOLEAN \<Rightarrow>
              if is_enabled = None then Inl InvalidPlanFeatureValueError
              else if limit_value \<noteq> None \<or> tier_value \<noteq> None then Inl InvalidPlanFeatureValueError
              else Inr ()
          | TIER \<Rightarrow>
              (case tier_value of
                 None \<Rightarrow> Inl InvalidPlanFeatureValueError
               | Some t \<Rightarrow>
                   if t \<notin> set SupportTier_values then Inl InvalidPlanFeatureValueError
                   else if limit_value \<noteq> None \<or> is_enabled \<noteq> None then Inl InvalidPlanFeatureValueError
                   else Inr ()))"


subsection \<open>Normal forms of identifiers\<close>

definition normalize_slug :: "string \<Rightarrow> string" where
  "normalize_slug s = py_lower (py_strip s)"

definition normalize_coupon_code :: "string \<Rightarrow> string" where
  "normalize_coupon_code s = py_upper (py_strip s)"

text \<open>On ASCII text \<open>casefold\<close> is \<open>lower\<close>.\<close>

definition normalize_region :: "string \<Rightarrow> string" where
  "normalize_region s = py_lower (py_strip s)"


subsection \<open>Money\<close>

definition round_half_even :: "rat \<Rightarrow> int" where
  "round_half_even q =
     (let f = \<lfloor>q\<rfloor>; r = q - of_int f
      in if r < 1 / 2 then f else if 1 / 2 < r then f + 1 else if even f then f else f + 1)"

definition quantize_cents :: "rat \<Rightarrow> rat" where
  "quantize_cents q = of_int (round_half_even (q * 100)) / 100"

text \<open>\<open>ROUND_HALF_UP\<close>: ties away from zero.\<close>

definition round_half_up :: "rat \<Rightarrow> int" where
  "round_half_up q = (if 0 \<le> q then \<lfloor>q + 1 / 2\<rfloor> else - \<lfloor>- q + 1 / 2\<rfloor>)"

datatype DiscountType = PERCENTAGE | FLAT

definition MAX_PERCENTAGE_DISCOUNT_VALUE :: rat where
  "MAX_PERCENTAGE_DISCOUNT_VALUE = 100"

definition validate_discount_value :: "DiscountType \<Rightarrow> rat \<Rightarrow> billing_error + unit" where
  "validate_discount_value ty v =
     (if v < 0 then Inl InvalidDiscountValueError
      else if ty = PERCENTAGE \<and> MAX_PERCENTAGE_DISCOUNT_VALUE < v then Inl InvalidDiscountValueError
      else Inr ())"

definition compute_discount_amount :: "DiscountType \<Rightarrow> rat \<Rightarrow> rat \<Rightarrow> rat" where
  "compute_discount_amount ty v base =
     quantize_cents (if ty = PERCENTAGE then base * v / 100 else min v base)"

definition compute_taxable_value :: "rat \<Rightarrow> rat \<Rightarrow> rat" where
  "compute_taxable_value subtotal discount =
     (let taxable = subtotal - discount in if 0 < taxable then taxable else 0)"

definition ZERO_DECIMAL_CURRENCIES :: "string list" where
  "ZERO_DECIMAL_CURRENCIES =
     [''BIF'', ''CLP'', ''DJF'', ''GNF'', ''JPY'', ''KMF'', ''KRW'', ''MGA'', ''PYG'', ''RWF'', ''UGX'', ''VND'',
      ''VUV'', ''XAF'', ''XOF'', ''XPF'']"

definition to_minor_units :: "rat \<Rightarrow> string \<Rightarrow> int" where
  "to_minor_units amount currency =
     (if py_upper currency \<in> set ZERO_DECIMAL_CURRENCIES then round_half_up amount
      else round_half_up (amount * 100))"

datatype TaxType = GST | VAT | SALES_TAX | NoTax

record gst_breakdown =
  cgst_amount :: rat
  sgst_amount :: rat
  igst_amount :: rat
  tax_amount :: rat
  is_intra_state :: bool

definition ZERO_BREAKDOWN :: gst_breakdown where
  "ZERO_BREAKDOWN = \<lparr>cgst_amount = 0, sgst_amount = 0, igst_amount = 0, tax_amount = 0, is_intra_state = False\<rparr>"

definition compute_tax_breakdown ::
  "rat \<Rightarrow> TaxType option \<Rightarrow> rat \<Rightarrow> bool \<Rightarrow> string \<Rightarrow> string \<Rightarrow> string \<Rightarrow> string \<Rightarrow> gst_breakdown" where
  "compute_tax_breakdown subtotal tax_type rate exempt platform_state platform_country billing_state billing_country =
     (if exempt \<or> tax_type = None \<or> tax_type = Some NoTax \<or> rate \<le> 0 then ZERO_BREAKDOWN
      else if tax_type = Some GST then
        (let intra = (normalize_region platform_country = normalize_region billing_country \<and>
                      normalize_region platform_state = normalize_region billing_state);
             half = quantize_cents (subtotal * rate / 2 / 100);
             full = quantize_cents (subtotal * rate / 100);
             (cgst, sgst, igst) = (if intra then (half, half, 0) else (0, 0, full))
         in \<lparr>cgst_amount = cgst, sgst_amount = sgst, igst_amount = igst,
             tax_amount = quantize_cents (cgst + sgst + igst), is_intra_state = intra\<rparr>)
      else
        \<lparr>cgst_amount = 0, sgst_amount = 0, igst_amount = 0,
         tax_amount = quantize_cents (subtotal * rate / 100), is_intra_state = False\<rparr>)"


subsection \<open>Billing periods\<close>

record py_datetime =
  dt_year :: int
  dt_month :: int
  dt_day :: int
  dt_hour :: int
  dt_minute :: int
  dt_second :: int
  dt_microsecond :: int

definition isleap :: "int \<Rightarrow> bool" where
  "isleap y \<longleftrightarrow> y mod 4 = 0 \<and> (y mod 100 \<noteq> 0 \<or> y mod 400 = 0)"

text \<open>\<open>calendar.monthrange(year, month)[1]\<close>.\<close>

definition month_days :: "int \<Rightarrow> int \<Rightarrow> int" where
  "month_days y m =
     [0, 31, 28, 31, 30, 31, 30, 31, 31, 30, 31, 30, 31] ! nat m + (if m = 2 \<and> isleap y then 1 else 0)"

definition valid_datetime :: "py_datetime \<Rightarrow> bool" where
  "valid_datetime d \<longleftrightarrow>
     1 \<le> dt_year d \<and> dt_year d \<le> 9999 \<and> 1 \<le> dt_month d \<and> dt_month d \<le> 12 \<and>
     1 \<le> dt_day d \<and> dt_day d \<le> month_days (dt_year d) (dt_month d) \<and>
     0 \<le> dt_hour d \<and> dt_hour d \<le> 23 \<and> 0 \<le> dt_minute d \<and> dt_minute d \<le> 59 \<and>
     0 \<le> dt_second d \<and> dt_second d \<le> 59 \<and> 0 \<le> dt_microsecond d \<and> dt_microsecond d \<le> 999999"

text \<open>\<open>datetime.replace\<close> raises \<open>ValueError\<close> when the fields are not a date.\<close>

definition dt_replace :: "py_datetime \<Rightarrow> billing_error + py_datetime" where
  "dt_replace d = (if valid_datetime d then Inr d else Inl BillingValueError)"

definition add_months :: "py_datetime \<Rightarrow> int \<Rightarrow> billing_error + py_datetime" where
  "add_months d months =
     (let month_index = dt_month d - 1 + months;
          year = dt_year d + month_index div 12;
          month = month_index mod 12 + 1;
          day = min (dt_day d) (month_days year month)
      in dt_replace (d\<lparr>dt_year := year, dt_month := month, dt_day := day\<rparr>))"

definition subtract_months :: "py_datetime \<Rightarrow> int \<Rightarrow> billing_error + py_datetime" where
  "subtract_months d months = add_months d (- months)"

datatype BillingCycle = MONTHLY | YEARLY | NoCycle

definition BillingCycle_of :: "string \<Rightarrow> billing_error + BillingCycle" where
  "BillingCycle_of s =
     (if s = ''monthly'' then Inr MONTHLY else if s = ''yearly'' then Inr YEARLY
      else if s = ''none'' then Inr NoCycle else Inl BillingValueError)"

definition add_billing_cycle :: "py_datetime \<Rightarrow> string \<Rightarrow> billing_error + py_datetime" where
  "add_billing_cycle start cycle =
     (case BillingCycle_of cycle of
        Inl e \<Rightarrow> Inl e
      | Inr MONTHLY \<Rightarrow> add_months start 1
      | Inr YEARLY \<Rightarrow> add_months start 12
      | Inr NoCycle \<Rightarrow> Inr start)"

definition current_month_period :: "py_datetime \<Rightarrow> billing_error + (py_datetime \<times> py_datetime)" where
  "current_month_period now =
     (case dt_replace (now\<lparr>dt_day := 1, dt_hour := 0, dt_minute := 0, dt_second := 0, dt_microsecond := 0\<rparr>) of
        Inl e \<Rightarrow> Inl e | Inr start \<Rightarrow> Inr (start, now))"


subsection \<open>Document numbers\<close>

datatype document_kind = InvoiceDoc | CreditNoteDoc | DebitNoteDoc

fun number_prefix :: "document_kind \<Rightarrow> string" where
  "number_prefix InvoiceDoc = ''INV''"
| "number_prefix CreditNoteDoc = ''CN''"
| "number_prefix DebitNoteDoc = ''DN''"

definition NUMBER_SEQUENCE_DIGITS :: nat where
  "NUMBER_SEQUENCE_DIGITS = 5"

definition counter_key :: "string \<Rightarrow> nat \<Rightarrow> string" where
  "counter_key prefix year = py_lower prefix @ '':'' @ show_nat year"

definition zero_padded :: "nat \<Rightarrow> nat \<Rightarrow> string" where
  "zero_padded width n = (let s = show_nat n in replicate (width - length s) (digit_char 0) @ s)"

definition format_number :: "string \<Rightarrow> nat \<Rightarrow> nat \<Rightarrow> string" where
  "format_number prefix year seqno =
     prefix @ ''-'' @ show_nat year @ ''-'' @ zero_padded NUMBER_SEQUENCE_DIGITS seqno"

text \<open>The rows of \<open>invoice_number_counters\<close>: the unique key and the last value. The upsert is
  one statement, so it is one step of the model.\<close>

type_synonym counters = "(string \<times> nat) list"

definition increment_and_get_next :: "string \<Rightarrow> counters \<Rightarrow> nat \<times> counters" where
  "increment_and_get_next key t =
     (case map_of t key of
        None \<Rightarrow> (1, t @ [(key, 1)])
      | Some v \<Rightarrow> (v + 1, map (\<lambda>(k, n). if k = key then (k, n + 1) else (k, n)) t))"

text \<open>The body that the three generators share, at the year of the instant they are given.\<close>

definition generate_number :: "document_kind \<Rightarrow> nat \<Rightarrow> (counters \<times> 'x, 'e, string) prog" where
  "generate_number kind year =
     (\<lambda>(t, x). let (seqno, t') = increment_and_get_next (counter_key (number_prefix kind) year) t
               in (Inr (format_number (number_prefix kind) year seqno), (t', x)))"

definition generate_invoice_number :: "py_datetime \<Rightarrow> (counters \<times> 'x, 'e, string) prog" where
  "generate_invoice_number moment = generate_number InvoiceDoc (nat (dt_year moment))"

definition generate_credit_note_number :: "py_datetime \<Rightarrow> (counters \<times> 'x, 'e, string) prog" where
  "generate_credit_note_number moment = generate_number CreditNoteDoc (nat (dt_year moment))"

definition generate_debit_note_number :: "py_datetime \<Rightarrow> (counters \<times> 'x, 'e, string) prog" where
  "generate_debit_note_number moment = generate_number DebitNoteDoc (nat (dt_year moment))"


section \<open>Rounding\<close>

lemma round_half_even_bounds: "\<bar>of_int (round_half_even q) - q\<bar> \<le> 1 / 2"
proof -
  have "of_int \<lfloor>q\<rfloor> \<le> q" "q < of_int \<lfloor>q\<rfloor> + 1" by linarith+
  then show ?thesis by (auto simp: round_half_even_def Let_def abs_le_iff)
qed

lemma round_half_even_of_int [simp]: "round_half_even (of_int n) = n"
  by (simp add: round_half_even_def)

lemma round_half_even_mono:
  assumes "p \<le> q"
  shows "round_half_even p \<le> round_half_even q"
proof (cases "\<lfloor>p\<rfloor> = \<lfloor>q\<rfloor>")
  case True
  then show ?thesis using assms by (auto simp: round_half_even_def Let_def)
next
  case False
  then have "\<lfloor>p\<rfloor> + 1 \<le> \<lfloor>q\<rfloor>" using floor_mono [OF assms] by linarith
  moreover have "round_half_even p \<le> \<lfloor>p\<rfloor> + 1" "\<lfloor>q\<rfloor> \<le> round_half_even q"
    by (auto simp: round_half_even_def Let_def)
  ultimately show ?thesis by linarith
qed

text \<open>A whole number of cents.\<close>

definition cents :: "int \<Rightarrow> rat" where
  "cents n = of_int n / 100"

lemma quantize_cents [simp]: "quantize_cents (cents n) = cents n"
  by (simp add: quantize_cents_def cents_def)

lemma quantize_zero [simp]: "quantize_cents 0 = 0"
  using quantize_cents [of 0] by (simp add: cents_def)

lemma quantize_mono: "p \<le> q \<Longrightarrow> quantize_cents p \<le> quantize_cents q"
  by (simp add: quantize_cents_def round_half_even_mono divide_right_mono)

lemma quantize_is_cents: "\<exists>n. quantize_cents q = cents n"
  by (auto simp: quantize_cents_def cents_def)

lemma quantize_error: "\<bar>quantize_cents q - q\<bar> \<le> 1 / 200"
  using round_half_even_bounds [of "q * 100"] by (auto simp: quantize_cents_def abs_le_iff field_simps)

lemma quantize_nonneg: "0 \<le> q \<Longrightarrow> 0 \<le> quantize_cents q"
  using quantize_mono [of 0 q] by simp

lemma cents_add: "cents a + cents b = cents (a + b)"
  by (simp add: cents_def add_divide_distrib)

lemma round_half_up_of_int [simp]: "round_half_up (of_int n) = n"
  by (simp add: round_half_up_def floor_eq_iff)

lemma round_half_up_bounds: "\<bar>of_int (round_half_up q) - q\<bar> \<le> 1 / 2"
proof -
  have "of_int \<lfloor>q + 1 / 2\<rfloor> \<le> q + 1 / 2" "q + 1 / 2 < of_int \<lfloor>q + 1 / 2\<rfloor> + 1"
    "of_int \<lfloor>- q + 1 / 2\<rfloor> \<le> - q + 1 / 2" "- q + 1 / 2 < of_int \<lfloor>- q + 1 / 2\<rfloor> + 1" by linarith+
  then show ?thesis unfolding round_half_up_def abs_le_iff by (cases "0 \<le> q") (simp_all, linarith+)
qed


section \<open>Properties\<close>

subsection \<open>Charges\<close>

text \<open>
  A discount that passed validation never exceeds the amount it is taken from: applied
  to a whole number of cents, it is a whole number of cents between nothing and the amount,
  within half a cent of the exact discount; so the taxable value is exactly the difference,
  and never negative.
\<close>

theorem discount_within_base:
  assumes "validate_discount_value ty v = Inr ()" and "0 \<le> n" and "base = cents n"
  shows "0 \<le> compute_discount_amount ty v base \<and> compute_discount_amount ty v base \<le> base \<and>
    (\<exists>k. compute_discount_amount ty v base = cents k) \<and>
    \<bar>compute_discount_amount ty v base - (if ty = PERCENTAGE then base * v / 100 else min v base)\<bar> \<le> 1 / 200 \<and>
    compute_taxable_value base (compute_discount_amount ty v base) = base - compute_discount_amount ty v base"
proof -
  let ?raw = "if ty = PERCENTAGE then base * v / 100 else min v base"
  have v: "0 \<le> v" "ty = PERCENTAGE \<Longrightarrow> v \<le> 100"
    using assms(1) by (auto simp: validate_discount_value_def MAX_PERCENTAGE_DISCOUNT_VALUE_def split: if_splits)
  have b: "0 \<le> base" using assms(2,3) by (simp add: cents_def)
  have raw: "0 \<le> ?raw" "?raw \<le> base"
    using v b mult_left_mono [of v 100 base] by auto
  have "quantize_cents ?raw \<le> base" using quantize_mono [OF raw(2)] assms(3) by simp
  moreover have "0 \<le> quantize_cents ?raw" using quantize_nonneg [OF raw(1)] .
  ultimately show ?thesis
    using quantize_error [of ?raw] quantize_is_cents [of ?raw]
    by (auto simp: compute_discount_amount_def compute_taxable_value_def Let_def)
qed

theorem discount_within_base_witness:
  "0 \<le> compute_discount_amount PERCENTAGE (25 / 2) (cents 9999) \<and>
   compute_discount_amount PERCENTAGE (25 / 2) (cents 9999) \<le> cents 9999"
  using discount_within_base [of PERCENTAGE "25 / 2" 9999 "cents 9999"]
  by (simp add: validate_discount_value_def MAX_PERCENTAGE_DISCOUNT_VALUE_def)

text \<open>
  The GST split: for a taxed sale the three components add up to the tax, the tax is
  within one cent of the exact rate, and exactly one of the two regimes applies. Seller and
  buyer in the same state and country (up to case and surrounding blanks) pay two equal
  halves and no integrated tax; any others pay the integrated tax alone, which is within
  half a cent of the exact rate. No component is negative.
\<close>

theorem gst_split:
  assumes "0 < rate" and "0 \<le> subtotal"
    and "t = compute_tax_breakdown subtotal (Some GST) rate False ps pc bs bc"
  shows "tax_amount t = cgst_amount t + sgst_amount t + igst_amount t \<and>
    cgst_amount t = sgst_amount t \<and> 0 \<le> cgst_amount t \<and> 0 \<le> igst_amount t \<and>
    \<bar>tax_amount t - subtotal * rate / 100\<bar> \<le> (if is_intra_state t then 1 / 100 else 1 / 200) \<and>
    is_intra_state t = (py_lower (py_strip pc) = py_lower (py_strip bc) \<and> py_lower (py_strip ps) = py_lower (py_strip bs)) \<and>
    (if is_intra_state t then igst_amount t = 0 else cgst_amount t = 0)"
proof -
  let ?half = "quantize_cents (subtotal * rate / 2 / 100)" and ?full = "quantize_cents (subtotal * rate / 100)"
  have two: "quantize_cents (?half + ?half) = ?half + ?half"
  proof -
    obtain k where "?half = cents k" using quantize_is_cents by blast
    then show ?thesis by (simp only: cents_add quantize_cents)
  qed
  have one: "quantize_cents ?full = ?full"
    using quantize_is_cents [of "subtotal * rate / 100"] by auto
  have nn: "0 \<le> ?half" "0 \<le> ?full" using assms(1,2) by (auto intro!: quantize_nonneg)
  have eh: "\<bar>?half + ?half - subtotal * rate / 100\<bar> \<le> 1 / 100"
    using quantize_error [of "subtotal * rate / 2 / 100"] by arith
  have ef: "\<bar>?full - subtotal * rate / 100\<bar> \<le> 1 / 200" by (rule quantize_error)
  show ?thesis
    using assms(1) two one nn eh ef
    by (simp add: assms(3) compute_tax_breakdown_def normalize_region_def Let_def)
qed

theorem gst_split_witness:
  "let t = compute_tax_breakdown (cents 99999) (Some GST) 18 False ''Karnataka'' ''IN'' '' karnataka'' ''in''
   in tax_amount t = cgst_amount t + sgst_amount t + igst_amount t \<and> cgst_amount t = sgst_amount t"
  using gst_split [of 18 "cents 99999" _ "''Karnataka''" "''IN''" "'' karnataka''" "''in''", OF _ _ refl]
  by (simp add: Let_def cents_def)

text \<open>
  Amounts sent to the payment providers: an amount that is a whole number of the
  currency's smallest unit becomes exactly that number, whether the currency has cents or
  not and however its code is capitalised; any other amount is rounded to a nearest unit.
\<close>

theorem minor_units_exact:
  "(if py_upper currency \<in> set ZERO_DECIMAL_CURRENCIES
    then to_minor_units (of_int n) currency = n
    else to_minor_units (cents n) currency = n) \<and>
   to_minor_units amount (py_lower currency) = to_minor_units amount currency \<and>
   \<bar>of_int (to_minor_units amount currency) -
      (if py_upper currency \<in> set ZERO_DECIMAL_CURRENCIES then amount else amount * 100)\<bar> \<le> 1 / 2"
proof -
  have "py_upper_char (py_lower_char c) = py_upper_char c" for c
    by (auto simp: py_upper_char_def py_lower_char_def) (simp add: code_of_def)
  then have "py_upper (py_lower currency) = py_upper currency" by (simp add: py_upper_def py_lower_def)
  then show ?thesis
    using round_half_up_bounds [of amount] round_half_up_bounds [of "amount * 100"]
    by (simp add: to_minor_units_def cents_def)
qed


subsection \<open>Plan features\<close>

lemma expected_feature_type_total: "\<exists>ty. expected_feature_type k = Inr ty"
  by (cases k)
     (simp_all add: expected_feature_type_def FEATURE_KEY_TYPE_def LIMIT_FEATURE_KEYS_def BOOLEAN_FEATURE_KEYS_def
        TIER_FEATURE_KEYS_def)

text \<open>
  Every feature key has a value type, and a feature value is accepted exactly when it
  declares that type and fills the one column of that type: a non-negative limit, a flag, or
  one of the support tiers.
\<close>

theorem feature_value_accepted_iff:
  "(\<exists>required. expected_feature_type k = Inr required \<and>
     (validate_feature_value k ty limit_value is_enabled tier_value = Inr () \<longleftrightarrow>
        ty = required \<and>
        (case required of
           LIMIT \<Rightarrow> (\<exists>v. limit_value = Some v \<and> 0 \<le> v) \<and> is_enabled = None \<and> tier_value = None
         | BOOLEAN \<Rightarrow> limit_value = None \<and> is_enabled \<noteq> None \<and> tier_value = None
         | TIER \<Rightarrow> limit_value = None \<and> is_enabled = None \<and>
             (\<exists>t. tier_value = Some t \<and> t \<in> {''basic'', ''priority'', ''dedicated''}))))"
proof -
  obtain required where r: "expected_feature_type k = Inr required" using expected_feature_type_total by blast
  show ?thesis
    by (rule exI [of _ required], cases required; cases limit_value; cases is_enabled; cases tier_value)
       (auto simp: validate_feature_value_def r SupportTier_values_def)
qed


subsection \<open>Billing periods\<close>

text \<open>Months counted from year zero, and the fields in the order they compare.\<close>

definition month_number :: "py_datetime \<Rightarrow> int" where
  "month_number d = 12 * dt_year d + (dt_month d - 1)"

definition dt_tuple :: "py_datetime \<Rightarrow> int \<times> int \<times> int \<times> int \<times> int \<times> int \<times> int" where
  "dt_tuple d = (dt_year d, dt_month d, dt_day d, dt_hour d, dt_minute d, dt_second d, dt_microsecond d)"

definition same_time :: "py_datetime \<Rightarrow> py_datetime \<Rightarrow> bool" where
  "same_time d e \<longleftrightarrow>
     dt_hour e = dt_hour d \<and> dt_minute e = dt_minute d \<and> dt_second e = dt_second d \<and> dt_microsecond e = dt_microsecond d"

lemma month_days_bounds:
  assumes "1 \<le> m" "m \<le> 12"
  shows "28 \<le> month_days y m" "month_days y m \<le> 31"
proof -
  have "m = 1 \<or> m = 2 \<or> m = 3 \<or> m = 4 \<or> m = 5 \<or> m = 6 \<or> m = 7 \<or> m = 8 \<or> m = 9 \<or> m = 10 \<or> m = 11 \<or> m = 12"
    using assms by presburger
  then show "28 \<le> month_days y m" "month_days y m \<le> 31" by (auto simp: month_days_def)
qed

text \<open>The date that the month arithmetic computes before it is checked.\<close>

definition month_shift :: "py_datetime \<Rightarrow> int \<Rightarrow> py_datetime" where
  "month_shift d n =
     (let year = dt_year d + (dt_month d - 1 + n) div 12; month = (dt_month d - 1 + n) mod 12 + 1
      in d\<lparr>dt_year := year, dt_month := month, dt_day := min (dt_day d) (month_days year month)\<rparr>)"

lemma add_months_shift: "add_months d n = dt_replace (month_shift d n)"
  by (simp add: add_months_def month_shift_def Let_def)

lemma month_shift_fields:
  "dt_year (month_shift d n) = (month_number d + n) div 12" "dt_month (month_shift d n) = (month_number d + n) mod 12 + 1"
  "dt_day (month_shift d n) = min (dt_day d) (month_days (dt_year (month_shift d n)) (dt_month (month_shift d n)))"
  "month_number (month_shift d n) = month_number d + n" "same_time d (month_shift d n)"
proof -
  have a: "month_number d + n = (dt_month d - 1 + n) + 12 * dt_year d" by (simp add: month_number_def)
  show "dt_year (month_shift d n) = (month_number d + n) div 12" "dt_month (month_shift d n) = (month_number d + n) mod 12 + 1"
    unfolding a by (simp_all add: month_shift_def Let_def)
  then show "month_number (month_shift d n) = month_number d + n" by (simp add: month_number_def)
  show "dt_day (month_shift d n) = min (dt_day d) (month_days (dt_year (month_shift d n)) (dt_month (month_shift d n)))"
    "same_time d (month_shift d n)"
    by (simp_all add: month_shift_def same_time_def Let_def)
qed

lemma month_shift_valid:
  assumes "valid_datetime d"
  shows "valid_datetime (month_shift d n) \<longleftrightarrow> 12 \<le> month_number d + n \<and> month_number d + n < 120000"
proof -
  let ?e = "month_shift d n"
  have m: "1 \<le> dt_month ?e" "dt_month ?e \<le> 12" by (simp_all add: month_shift_fields)
  have "1 \<le> dt_day ?e" "dt_day ?e \<le> month_days (dt_year ?e) (dt_month ?e)"
    using assms month_days_bounds [OF m, of "dt_year ?e"] month_shift_fields(3) [of d n] by (auto simp: valid_datetime_def)
  moreover have "1 \<le> dt_year ?e \<and> dt_year ?e \<le> 9999 \<longleftrightarrow> 12 \<le> month_number d + n \<and> month_number d + n < 120000"
    unfolding month_shift_fields by presburger
  ultimately show ?thesis
    using assms m month_shift_fields(5) [of d n] unfolding valid_datetime_def same_time_def by auto
qed

lemma later_month_later:
  assumes "valid_datetime d" "valid_datetime e" "month_number d < month_number e"
  shows "dt_tuple d < dt_tuple e"
proof -
  have "1 \<le> dt_month d" "dt_month d \<le> 12" "1 \<le> dt_month e" "dt_month e \<le> 12"
    using assms(1,2) by (simp_all add: valid_datetime_def)
  then have "dt_year d < dt_year e \<or> dt_year d = dt_year e \<and> dt_month d < dt_month e"
    using assms(3) unfolding month_number_def by linarith
  then show ?thesis by (auto simp: dt_tuple_def)
qed

text \<open>
  Month arithmetic: from a valid instant, \<open>_add_months\<close> returns whenever the target
  month lies in the years 1 to 9999 and raises \<open>ValueError\<close> otherwise; what it returns is a
  valid instant exactly that many months later, at the same time of day, on the same day of
  the month or on the last day of a shorter month; for a positive number of months it is
  later than the start, so a subscription's next period end lies after the current one.
\<close>

theorem add_months_calendar:
  assumes "valid_datetime d"
  shows "if 12 \<le> month_number d + n \<and> month_number d + n < 120000
    then \<exists>e. add_months d n = Inr e \<and> valid_datetime e \<and> month_number e = month_number d + n \<and> same_time d e \<and>
           dt_day e = min (dt_day d) (month_days (dt_year e) (dt_month e)) \<and> (0 < n \<longrightarrow> dt_tuple d < dt_tuple e) \<and>
           (n = 1 \<longrightarrow> add_billing_cycle d ''monthly'' = Inr e) \<and> (n = 12 \<longrightarrow> add_billing_cycle d ''yearly'' = Inr e)
    else add_months d n = Inl BillingValueError"
proof (cases "12 \<le> month_number d + n \<and> month_number d + n < 120000")
  case True
  with month_shift_valid [OF assms, of n] have v: "valid_datetime (month_shift d n)" by simp
  then have r: "add_months d n = Inr (month_shift d n)" by (simp add: add_months_shift dt_replace_def)
  have "0 < n \<longrightarrow> dt_tuple d < dt_tuple (month_shift d n)"
    using later_month_later [OF assms v] by (simp add: month_shift_fields(4))
  moreover have "n = 1 \<longrightarrow> add_billing_cycle d ''monthly'' = Inr (month_shift d n)"
    "n = 12 \<longrightarrow> add_billing_cycle d ''yearly'' = Inr (month_shift d n)"
    using r by (auto simp: add_billing_cycle_def BillingCycle_of_def)
  ultimately show ?thesis using True r v month_shift_fields(3-5) [of d n] by auto
next
  case False
  then show ?thesis using month_shift_valid [OF assms, of n] by (auto simp: add_months_shift dt_replace_def)
qed

definition ex_date :: py_datetime where
  "ex_date = \<lparr>dt_year = 2027, dt_month = 1, dt_day = 31, dt_hour = 9, dt_minute = 30, dt_second = 0, dt_microsecond = 0\<rparr>"

theorem add_months_calendar_witness:
  "\<exists>e. add_months ex_date 1 = Inr e \<and> valid_datetime e \<and> dt_tuple ex_date < dt_tuple e"
proof -
  have "valid_datetime ex_date" "12 \<le> month_number ex_date + 1 \<and> month_number ex_date + 1 < 120000" by code_simp+
  with add_months_calendar [of ex_date 1] show ?thesis by auto
qed

text \<open>
  \<open>subtract_months\<close> undoes month addition, and addition undoes it, for instants on the
  days 1 to 28.
\<close>

theorem subtract_months_inverse:
  assumes "valid_datetime d" and "dt_day d \<le> 28" and "subtract_months d n = Inr e"
  shows "add_months e n = Inr d \<and> subtract_months e (- n) = Inr d"
proof -
  let ?e = "month_shift d (- n)"
  have e: "e = ?e" using assms(3) by (simp add: subtract_months_def add_months_shift dt_replace_def split: if_splits)
  have day: "dt_day (month_shift c k) = dt_day c" if "dt_day c \<le> 28" for c k
  proof -
    have "1 \<le> dt_month (month_shift c k)" "dt_month (month_shift c k) \<le> 12" by (simp_all add: month_shift_fields)
    from month_days_bounds(1) [OF this, of "dt_year (month_shift c k)"] show ?thesis using that month_shift_fields(3) [of c k] by (simp add: min_def)
  qed
  have "dt_day (month_shift ?e n) = dt_day d" using day [of ?e] day [OF assms(2)] assms(2) by simp
  moreover have "dt_year (month_shift ?e n) = dt_year d" "dt_month (month_shift ?e n) = dt_month d"
    using assms(1) unfolding month_shift_fields(1,2) month_shift_fields(4)
    by (simp_all add: month_number_def valid_datetime_def div_add1_eq mod_pos_pos_trivial div_pos_pos_trivial)
  moreover have "same_time d (month_shift ?e n)"
    using month_shift_fields(5) [of d "- n"] month_shift_fields(5) [of ?e n] by (simp add: same_time_def)
  ultimately have "month_shift ?e n = d" by (simp add: same_time_def)
  then show ?thesis using assms(1) e by (simp add: add_months_shift subtract_months_def dt_replace_def)
qed

theorem subtract_months_inverse_witness:
  "add_months (month_shift (ex_date\<lparr>dt_day := 15\<rparr>) (- 11)) 11 = Inr (ex_date\<lparr>dt_day := 15\<rparr>)"
proof -
  have "valid_datetime (ex_date\<lparr>dt_day := 15\<rparr>)" "dt_day (ex_date\<lparr>dt_day := 15\<rparr>) \<le> 28"
    "subtract_months (ex_date\<lparr>dt_day := 15\<rparr>) 11 = Inr (month_shift (ex_date\<lparr>dt_day := 15\<rparr>) (- 11))" by code_simp+
  from subtract_months_inverse [OF this] show ?thesis by simp
qed

text \<open>On the last days of a month it is no inverse: from 31 March back to February and forward
  again is 28 March.\<close>

lemma subtract_months_month_end:
  "(case subtract_months (ex_date\<lparr>dt_month := 3\<rparr>) 1 of Inl _ \<Rightarrow> False | Inr e \<Rightarrow>
      (case add_months e 1 of Inl _ \<Rightarrow> False | Inr f \<Rightarrow> dt_month f = 3 \<and> dt_day f = 28))"
  by code_simp



subsection \<open>Document numbers\<close>

text \<open>The digits of a number and their value.\<close>

definition digits_value :: "string \<Rightarrow> nat" where
  "digits_value s = foldl (\<lambda>a c. 10 * a + (code_of c - 48)) 0 s"

lemma digits_value_show [simp]: "digits_value (show_nat n) = n"
proof (induction n rule: show_nat.induct)
  case (1 n)
  have d: "code_of (digit_char k) - 48 = k" if "k < 10" for k using that by (simp add: digit_char_def)
  show ?case
  proof (cases "n < 10")
    case True
    then show ?thesis by (subst show_nat.simps) (simp add: digits_value_def d)
  next
    case False
    have "digits_value (show_nat n) = 10 * digits_value (show_nat (n div 10)) + n mod 10"
      using False by (subst show_nat.simps) (simp add: digits_value_def d)
    with 1 False show ?thesis by simp
  qed
qed

lemma zero_padded_inj: "zero_padded w m = zero_padded w n \<longleftrightarrow> m = n"
proof -
  have "foldl (\<lambda>a c. 10 * a + (code_of c - 48)) 0 (replicate k (digit_char 0)) = 0" for k
    by (induction k) (simp_all add: digit_char_def)
  then have "digits_value (zero_padded w k) = k" for k
    using digits_value_show [of k] by (simp add: zero_padded_def digits_value_def Let_def)
  then show ?thesis by metis
qed

lemma show_nat_digits: "c \<in> set (show_nat n) \<Longrightarrow> 48 \<le> code_of c \<and> code_of c \<le> 57"
proof (induction n rule: show_nat.induct)
  case (1 n)
  have d: "48 \<le> code_of (digit_char k) \<and> code_of (digit_char k) \<le> 57" if "k < 10" for k
    using that by (simp add: digit_char_def)
  from 1 show ?case
    by (cases "n < 10") (auto simp: d show_nat.simps [of n])
qed

lemma split_at:
  assumes "z \<notin> set p" "z \<notin> set q"
  shows "p @ z # r = q @ z # s \<longleftrightarrow> p = q \<and> r = s"
  using assms
proof (induction p arbitrary: q)
  case Nil
  then show ?case by (cases q) auto
next
  case (Cons a p)
  then show ?case by (cases q) auto
qed

lemma number_prefix_eq [simp]: "number_prefix k = number_prefix k' \<longleftrightarrow> k = k'"
  by (cases k; cases k') simp_all

lemma format_number_inj:
  "format_number (number_prefix k) y n = format_number (number_prefix k') y' n' \<longleftrightarrow> k = k' \<and> y = y' \<and> n = n'"
proof -
  have p: "CHR ''-'' \<notin> set (number_prefix k)" for k by (cases k) simp_all
  have "code_of (CHR ''-'') = 45" by (simp add: code_of_def)
  then have s: "CHR ''-'' \<notin> set (show_nat n)" for n using show_nat_digits by fastforce
  show ?thesis by (auto simp: format_number_def split_at p s show_nat_inj zero_padded_inj)
qed

lemma counter_key_inj:
  "counter_key (number_prefix k) y = counter_key (number_prefix k') y' \<longleftrightarrow> k = k' \<and> y = y'"
proof -
  have low: "py_lower (number_prefix InvoiceDoc) = ''inv''" "py_lower (number_prefix CreditNoteDoc) = ''cn''"
    "py_lower (number_prefix DebitNoteDoc) = ''dn''" by code_simp+
  have "CHR '':'' \<notin> set (py_lower (number_prefix k))" for k by (cases k) (simp_all only: low, simp_all)
  moreover have "py_lower (number_prefix k) = py_lower (number_prefix k') \<longleftrightarrow> k = k'" for k k'
    by (cases k; cases k') (simp_all only: low, simp_all)
  ultimately show ?thesis by (simp add: counter_key_def split_at show_nat_inj)
qed

text \<open>The upsert.\<close>

definition last_number :: "counters \<Rightarrow> string \<Rightarrow> nat" where
  "last_number t key = (case map_of t key of None \<Rightarrow> 0 | Some v \<Rightarrow> v)"

lemma increment_next:
  assumes "increment_and_get_next key t = (n, t')"
  shows "n = Suc (last_number t key)" and "last_number t' key' = (if key' = key then n else last_number t key')"
proof -
  have m: "map_of (map (\<lambda>(k, n). if k = key then (k, n + 1) else (k, n)) t) k =
      (if k = key then map_option Suc (map_of t k) else map_of t k)" for k and t :: counters
    by (induction t) auto
  have a: "map_of (t @ [(key, 1)]) k = (case map_of t k of None \<Rightarrow> if k = key then Some 1 else None | Some v \<Rightarrow> Some v)" for k
    by (simp add: map_add_def split: option.splits)
  show "n = Suc (last_number t key)" "last_number t' key' = (if key' = key then n else last_number t key')"
    using assms by (auto simp: increment_and_get_next_def last_number_def m a split: option.splits)
qed

text \<open>A request that numbers a document and then fails or commits, and the numbers that the
  committed requests of a history carry.\<close>

definition document_request :: "document_kind \<times> nat \<times> bool \<Rightarrow> (counters \<times> 'x, unit, string) prog" where
  "document_request r =
     (case r of (kind, year, fails) \<Rightarrow>
        andthen (generate_number kind year) (\<lambda>number. andthen (guard (\<not> fails) ()) (\<lambda>_. ret number)))"

fun issued :: "(document_kind \<times> nat \<times> bool) list \<Rightarrow> counters \<Rightarrow> ((document_kind \<times> nat) \<times> string) list" where
  "issued [] t = []"
| "issued (r # rs) t =
     (case with_db_session (document_request r) (t, ()) of
        (Inl _, (t', _)) \<Rightarrow> issued rs t'
      | (Inr number, (t', _)) \<Rightarrow> ((fst r, fst (snd r)), number) # issued rs t')"

lemma issued_numbers:
  "map snd (filter (\<lambda>i. fst i = (k, y)) (issued rs t)) =
     map (format_number (number_prefix k) y)
       [Suc (last_number t (counter_key (number_prefix k) y)) ..<
        Suc (last_number t (counter_key (number_prefix k) y) + length (filter (\<lambda>i. fst i = (k, y)) (issued rs t)))]"
proof (induction rs arbitrary: t)
  case (Cons r rs)
  obtain kind year fails where r: "r = (kind, year, fails)" by (cases r)
  obtain n t' where n: "increment_and_get_next (counter_key (number_prefix kind) year) t = (n, t')" by fastforce
  have run: "with_db_session (document_request r) (t, ()) =
      (if fails then (Inl (), (t, ())) else (Inr (format_number (number_prefix kind) year n), (t', ())))"
    by (simp add: with_db_session_def document_request_def r generate_number_def n andthen_def guard_def raise_def ret_def)
  show ?case
  proof (cases fails)
    case True
    then show ?thesis using Cons run by simp
  next
    case False
    have l: "last_number t' (counter_key (number_prefix k) y) =
        (if k = kind \<and> y = year then n else last_number t (counter_key (number_prefix k) y))"
      "n = Suc (last_number t (counter_key (number_prefix kind) year))"
      using increment_next [OF n] by (auto simp: counter_key_inj)
    have u: "[Suc a..<Suc (Suc (a + m))] = Suc a # [Suc (Suc a)..<Suc (Suc (a + m))]" for a m
      by (simp add: upt_conv_Cons del: upt_Suc)
    show ?thesis using False Cons [of t'] run l by (simp add: r u del: upt_Suc)
  qed
qed simp

lemma distinct_by_class:
  assumes "\<And>c. distinct (map f (filter (\<lambda>x. g x = c) xs))"
    and "\<And>x y. x \<in> set xs \<Longrightarrow> y \<in> set xs \<Longrightarrow> f x = f y \<Longrightarrow> g x = g y"
  shows "distinct (map f xs)"
  using assms
proof (induction xs)
  case (Cons a xs)
  have "distinct (map f (filter (\<lambda>x. g x = c) xs))" for c
    using Cons.prems(1) [of c] by (simp split: if_splits)
  moreover have "f a \<noteq> f y" if "y \<in> set xs" for y
  proof
    assume eq: "f a = f y"
    then have "g y = g a" using Cons.prems(2) [of a y] that by simp
    with that have "y \<in> set (filter (\<lambda>x. g x = g a) xs)" by simp
    then show False using Cons.prems(1) [of "g a"] eq by auto
  qed
  moreover have "distinct (map f xs)"
  proof (rule Cons.IH)
    show "g x = g y" if "x \<in> set xs" "y \<in> set xs" "f x = f y" for x y using Cons.prems(2) [of x y] that by simp
  qed (rule calculation)
  ultimately show ?case by force
qed simp

text \<open>
  C35. Document numbering: however requests for invoices, credit notes and debit notes of
  any years follow each other, and whichever of them fail after drawing a number, the
  documents of one kind and year carry the numbers 1, 2, 3 and so on in order, without a gap,
  and no two documents of any kind or year carry the same number.
\<close>

theorem numbers_gapless_and_unique:
  "map snd (filter (\<lambda>i. fst i = (k, y)) (issued rs [])) =
     map (format_number (number_prefix k) y) [1 ..< Suc (length (filter (\<lambda>i. fst i = (k, y)) (issued rs [])))] \<and>
   distinct (map snd (issued rs []))"
proof
  have z: "last_number [] key = 0" for key by (simp add: last_number_def)
  show seq: "map snd (filter (\<lambda>i. fst i = (k, y)) (issued rs [])) =
     map (format_number (number_prefix k) y) [1 ..< Suc (length (filter (\<lambda>i. fst i = (k, y)) (issued rs [])))]" for k y
    using issued_numbers [of k y rs "[]"] by (simp only: z One_nat_def add_0)
  have inj: "inj_on (format_number (number_prefix k) y) A" for k y A
    by (rule inj_onI) (simp add: format_number_inj)
  have cls: "distinct (map snd (filter (\<lambda>i. fst i = c) (issued rs [])))" for c
  proof -
    obtain k y where "c = (k, y)" by (cases c)
    then show ?thesis using seq [of k y] by (simp only: distinct_map distinct_upt inj)
  qed
  have shape: "\<exists>n. snd i = format_number (number_prefix (fst (fst i))) (snd (fst i)) n" if "i \<in> set (issued rs [])" for i
  proof -
    obtain k y where ky: "fst i = (k, y)" by (cases "fst i")
    with that have "snd i \<in> set (map snd (filter (\<lambda>j. fst j = (k, y)) (issued rs [])))" by auto
    then have "snd i \<in> format_number (number_prefix k) y ` set [1 ..< Suc (length (filter (\<lambda>j. fst j = (k, y)) (issued rs [])))]"
      unfolding seq set_map .
    then show ?thesis using ky by auto
  qed
  show "distinct (map snd (issued rs []))"
  proof (rule distinct_by_class [of snd fst])
    fix i j assume "i \<in> set (issued rs [])" "j \<in> set (issued rs [])" "snd i = snd j"
    with shape [of i] shape [of j] show "fst i = fst j" by (auto simp: format_number_inj intro: prod_eqI)
  qed (rule cls)
qed

end
