(* ===== verification/Calendar.thy ===== *)
theory Calendar
  imports Billing
begin

section \<open>Instants and calendar fields\<close>

text \<open>
  The billing services keep \<open>datetime\<close> columns, step them by billing cycles (theory \<open>Billing\<close>,
  on calendar fields) and by \<open>timedelta(days=n)\<close>, and compare them. This theory ties the two
  views together: the instant of a \<open>datetime\<close> (microseconds since the epoch, in UTC, as every
  value of these services is), the addition of days with its \<open>OverflowError\<close>, and that the
  order of the instants is the order of the fields.
\<close>

definition days_before_year :: "int \<Rightarrow> int" where
  "days_before_year y = (let z = y - 1 in z * 365 + z div 4 - z div 100 + z div 400)"

definition days_before_month :: "int \<Rightarrow> int \<Rightarrow> int" where
  "days_before_month y m = sum_list (map (\<lambda>k. month_days y (int k)) [1..<nat m])"

text \<open>\<open>date.toordinal\<close>.\<close>

definition toordinal :: "py_datetime \<Rightarrow> int" where
  "toordinal d = days_before_year (dt_year d) + days_before_month (dt_year d) (dt_month d) + dt_day d"

definition EPOCH_ORDINAL :: int where
  "EPOCH_ORDINAL = 719163"

definition time_of_day :: "py_datetime \<Rightarrow> int" where
  "time_of_day d = seconds ((dt_hour d * 60 + dt_minute d) * 60 + dt_second d) + dt_microsecond d"

definition days :: "int \<Rightarrow> int" where
  "days n = minutes (n * 1440)"

definition instant :: "py_datetime \<Rightarrow> datetime" where
  "instant d = days (toordinal d - EPOCH_ORDINAL) + time_of_day d"

text \<open>The day after; \<open>None\<close> is the \<open>OverflowError\<close> past year 9999.\<close>

definition next_day :: "py_datetime \<Rightarrow> py_datetime option" where
  "next_day d =
     (if dt_day d < month_days (dt_year d) (dt_month d) then Some (d\<lparr>dt_day := dt_day d + 1\<rparr>)
      else if dt_month d < 12 then Some (d\<lparr>dt_month := dt_month d + 1, dt_day := 1\<rparr>)
      else if dt_year d < 9999 then Some (d\<lparr>dt_year := dt_year d + 1, dt_month := 1, dt_day := 1\<rparr>)
      else None)"

text \<open>\<open>d + timedelta(days=n)\<close>.\<close>

fun add_days :: "py_datetime \<Rightarrow> nat \<Rightarrow> py_datetime option" where
  "add_days d 0 = Some d"
| "add_days d (Suc n) = (case next_day d of None \<Rightarrow> None | Some e \<Rightarrow> add_days e n)"


section \<open>Lemmas\<close>

lemma days_linear: "days n = n * 86400000000"
  by (simp add: days_def minutes_def seconds_def)

lemma days_before_month_Suc:
  assumes "1 \<le> m"
  shows "days_before_month y (m + 1) = days_before_month y m + month_days y m"
proof -
  have "nat (m + 1) = Suc (nat m)" "1 \<le> nat m" "int (nat m) = m" using assms by simp_all
  then show ?thesis by (simp add: days_before_month_def)
qed

lemma days_before_january [simp]: "days_before_month y 1 = 0"
  by (simp add: days_before_month_def)

lemma div_step:
  fixes y k :: int
  assumes "0 < k"
  shows "y div k = (y - 1) div k + (if y mod k = 0 then 1 else 0)"
proof -
  have "y - 1 = y div k * k + (y mod k - 1)" by (simp add: div_mult_mod_eq [symmetric])
  then have e: "(y - 1) div k = y div k + (y mod k - 1) div k" using assms by (metis add.commute div_mult_self1 less_irrefl)
  have b: "0 \<le> y mod k" "y mod k < k" using assms by simp_all
  show ?thesis
  proof (cases "y mod k = 0")
    case True
    have "(- 1) div k = - 1" using assms by (simp add: div_eq_minus1)
    then show ?thesis using e True by simp
  next
    case False
    then have "(y mod k - 1) div k = 0" using b by (intro div_pos_pos_trivial) linarith+
    then show ?thesis using e False by simp
  qed
qed

lemma year_length: "days_before_year (y + 1) = days_before_year y + (if isleap y then 366 else 365)"
proof -
  define a b c where "a = (y - 1) div 4" and "b = (y - 1) div 100" and "c = (y - 1) div 400"
  define p q r where "p \<longleftrightarrow> y mod 4 = 0" and "q \<longleftrightarrow> y mod 100 = 0" and "r \<longleftrightarrow> y mod 400 = 0"
  have "y div 4 = a + (if p then 1 else 0)" "y div 100 = b + (if q then 1 else 0)"
    "y div 400 = c + (if r then 1 else 0)"
    unfolding a_def b_def c_def p_def q_def r_def by (rule div_step, simp)+
  moreover have "days_before_year y = (y - 1) * 365 + a - b + c"
    by (simp add: days_before_year_def Let_def a_def b_def c_def)
  moreover have "days_before_year (y + 1) = y * 365 + y div 4 - y div 100 + y div 400"
    by (simp add: days_before_year_def)
  ultimately have "days_before_year (y + 1) = days_before_year y + 365 +
      (if p then 1 else 0) - (if q then 1 else 0) + (if r then 1 else 0)" by (simp only:) (simp add: algebra_simps)
  moreover have "r \<Longrightarrow> q" "q \<Longrightarrow> p"
    unfolding p_def q_def r_def using mod_mod_cancel [of 100 400 y] mod_mod_cancel [of 4 100 y] by simp_all
  moreover have "isleap y \<longleftrightarrow> p \<and> (\<not> q \<or> r)" by (simp add: isleap_def p_def q_def r_def)
  ultimately show ?thesis by auto
qed

lemma december_end: "days_before_month y 12 + month_days y 12 = (if isleap y then 366 else 365)"
proof -
  have "[1..<12::nat] = [1,2,3,4,5,6,7,8,9,10,11]" by (simp add: upt_rec)
  then show ?thesis by (simp add: days_before_month_def month_days_def)
qed

text \<open>The day the month of that number begins after.\<close>

definition month_start :: "int \<Rightarrow> int" where
  "month_start n = days_before_year (n div 12) + days_before_month (n div 12) (n mod 12 + 1)"

definition month_length :: "int \<Rightarrow> int" where
  "month_length n = month_days (n div 12) (n mod 12 + 1)"

lemma month_start_step: "month_start (n + 1) = month_start n + month_length n"
proof (cases "n mod 12 = 11")
  case True
  have "n + 1 = (n div 12 + 1) * 12 + 0" using div_mult_mod_eq [of n 12] True by simp
  then have "(n + 1) div 12 = n div 12 + 1" "(n + 1) mod 12 = 0" by (metis add_0_right nonzero_mult_div_cancel_right zero_neq_numeral, metis add_0_right mod_mult_self2_is_0)
  with True december_end [of "n div 12"] year_length [of "n div 12"] show ?thesis
    by (simp add: month_start_def month_length_def)
next
  case False
  moreover have "0 \<le> n mod 12" "n mod 12 < 12" by simp_all
  ultimately have r: "0 \<le> n mod 12 + 1" "n mod 12 + 1 < 12" by linarith+
  have "n + 1 = 12 * (n div 12) + (n mod 12 + 1)" by simp
  then have "(n + 1) div 12 = n div 12" "(n + 1) mod 12 = n mod 12 + 1"
    using r by (metis int_div_pos_eq, metis int_mod_pos_eq)
  with days_before_month_Suc [of "n mod 12 + 1" "n div 12"] show ?thesis
    by (simp add: month_start_def month_length_def)
qed

lemma month_length_pos: "0 < month_length n"
proof -
  have "0 \<le> n mod 12" "n mod 12 < 12" by simp_all
  then have "1 \<le> n mod 12 + 1" "n mod 12 + 1 \<le> 12" by linarith+
  from month_days_bounds(1) [OF this, of "n div 12"] show ?thesis by (simp add: month_length_def)
qed

lemma month_start_mono:
  assumes "m < n"
  shows "month_start m + month_length m \<le> month_start n"
  using assms
proof (induction n rule: int_gr_induct)
  case base
  then show ?case by (simp add: month_start_step)
next
  case (step n)
  then show ?case using month_length_pos [of n] by (simp add: month_start_step)
qed

lemma fields_of_month_number:
  assumes "valid_datetime d"
  shows "month_number d div 12 = dt_year d" "month_number d mod 12 + 1 = dt_month d"
  using assms by (auto simp: month_number_def valid_datetime_def)

lemma toordinal_month:
  assumes "valid_datetime d"
  shows "toordinal d = month_start (month_number d) + dt_day d"
    and "1 \<le> dt_day d" and "dt_day d \<le> month_length (month_number d)"
  using assms fields_of_month_number [OF assms]
  by (auto simp: toordinal_def month_start_def month_length_def valid_datetime_def)

lemma time_of_day_bounds:
  assumes "valid_datetime d"
  shows "0 \<le> time_of_day d" "time_of_day d < days 1"
  using assms by (auto simp: time_of_day_def days_linear seconds_def valid_datetime_def)

lemma toordinal_less:
  assumes "valid_datetime d" "valid_datetime e"
    and "(dt_year d, dt_month d, dt_day d) < (dt_year e, dt_month e, dt_day e)"
  shows "toordinal d < toordinal e"
proof -
  note d = toordinal_month [OF assms(1)] and e = toordinal_month [OF assms(2)]
  have "1 \<le> dt_month d" "dt_month d \<le> 12" "1 \<le> dt_month e" "dt_month e \<le> 12"
    using assms(1,2) by (simp_all add: valid_datetime_def)
  then have "month_number d < month_number e \<or> month_number d = month_number e \<and> dt_day d < dt_day e"
    using assms(3) by (auto simp: month_number_def)
  then show ?thesis
  proof
    assume "month_number d < month_number e"
    from month_start_mono [OF this] d e show ?thesis by linarith
  qed (use d e in simp)
qed

lemma time_of_day_less:
  assumes "valid_datetime d" "valid_datetime e"
    and "(dt_hour d, dt_minute d, dt_second d, dt_microsecond d) < (dt_hour e, dt_minute e, dt_second e, dt_microsecond e)"
  shows "time_of_day d < time_of_day e"
  using assms by (auto simp: time_of_day_def seconds_def valid_datetime_def)

lemma instant_less:
  assumes "valid_datetime d" "valid_datetime e" "dt_tuple d < dt_tuple e"
  shows "instant d < instant e"
proof (cases "(dt_year d, dt_month d, dt_day d) < (dt_year e, dt_month e, dt_day e)")
  case True
  have "toordinal d + 1 \<le> toordinal e" using toordinal_less [OF assms(1,2) True] by simp
  then have "days (toordinal d - EPOCH_ORDINAL) + days 1 \<le> days (toordinal e - EPOCH_ORDINAL)"
    by (simp add: days_linear)
  then show ?thesis
    using time_of_day_bounds [OF assms(1)] time_of_day_bounds [OF assms(2)] by (simp add: instant_def)
next
  case False
  then have "dt_year d = dt_year e" "dt_month d = dt_month e" "dt_day d = dt_day e"
    and less: "(dt_hour d, dt_minute d, dt_second d, dt_microsecond d) < (dt_hour e, dt_minute e, dt_second e, dt_microsecond e)"
    using assms(3) by (auto simp: dt_tuple_def)
  then have "toordinal d = toordinal e" by (simp add: toordinal_def)
  with time_of_day_less [OF assms(1,2) less] show ?thesis by (simp add: instant_def)
qed

lemma instant_less_iff:
  assumes "valid_datetime d" "valid_datetime e"
  shows "instant d < instant e \<longleftrightarrow> dt_tuple d < dt_tuple e"
proof
  assume less: "instant d < instant e"
  show "dt_tuple d < dt_tuple e"
  proof (rule ccontr)
    assume "\<not> dt_tuple d < dt_tuple e"
    then consider "dt_tuple d = dt_tuple e" | "dt_tuple e < dt_tuple d" by (metis linorder_less_linear)
    then show False
    proof cases
      case 1
      then have "d = e" by (simp add: dt_tuple_def)
      with less show False by simp
    next
      case 2
      from instant_less [OF assms(2,1) this] less show False by simp
    qed
  qed
qed (rule instant_less [OF assms])

text \<open>The next day, and \<open>n\<close> days on.\<close>

lemma next_day_Some:
  assumes "valid_datetime d" and "next_day d = Some e"
  shows "valid_datetime e" and "instant e = instant d + days 1"
proof -
  note b = month_days_bounds
  show v: "valid_datetime e"
    using assms b(1) [of 1 "dt_year d + 1"] b(1) [of "dt_month d + 1" "dt_year d"]
    by (auto simp: next_day_def valid_datetime_def split: if_splits)
  have t: "time_of_day e = time_of_day d" using assms(2) by (auto simp: next_day_def time_of_day_def split: if_splits)
  consider "dt_day d < month_days (dt_year d) (dt_month d)" "e = d\<lparr>dt_day := dt_day d + 1\<rparr>"
    | "dt_day d = month_days (dt_year d) (dt_month d)" "month_number e = month_number d + 1" "dt_day e = 1"
    using assms by (auto simp: next_day_def month_number_def valid_datetime_def split: if_splits)
  then have "toordinal e = toordinal d + 1"
  proof cases
    case 1
    then show ?thesis by (simp add: toordinal_def)
  next
    case 2
    have "month_length (month_number d) = dt_day d"
      using 2(1) fields_of_month_number [OF assms(1)] by (simp add: month_length_def)
    then show ?thesis
      using 2(2,3) toordinal_month(1) [OF assms(1)] toordinal_month(1) [OF v] month_start_step [of "month_number d"] by simp
  qed
  with t show "instant e = instant d + days 1" by (simp add: instant_def days_linear)
qed

lemma add_days_Some:
  assumes "valid_datetime d" and "add_days d n = Some e"
  shows "valid_datetime e \<and> instant e = instant d + days (int n)"
  using assms
proof (induction n arbitrary: d)
  case 0
  then show ?case by (simp add: days_linear)
next
  case (Suc n)
  then obtain c where c: "next_day d = Some c" "add_days c n = Some e" by (auto split: option.splits)
  with Suc.IH [of c] next_day_Some [OF Suc.prems(1) c(1)] show ?case by (simp add: days_linear)
qed

text \<open>A billing cycle never ends before it starts; a monthly or yearly one ends later.\<close>

lemma add_billing_cycle_instant:
  assumes "valid_datetime d" and "add_billing_cycle d cycle = Inr e"
  shows "valid_datetime e" and "instant d \<le> instant e" and "cycle \<noteq> ''none'' \<Longrightarrow> instant d < instant e"
proof -
  have m: "valid_datetime e' \<and> instant d < instant e'" if "add_months d n = Inr e'" "0 < n" for n e'
  proof -
    have e: "e' = month_shift d n" "valid_datetime e'"
      using that(1) by (auto simp: add_months_shift dt_replace_def split: if_splits)
    from later_month_later [OF assms(1) e(2)] that(2) e instant_less [OF assms(1) e(2)] show ?thesis
      by (simp add: month_shift_fields(4))
  qed
  consider "cycle = ''none''" "e = d" | "valid_datetime e" "instant d < instant e"
    using assms(2) m [of 1 e] m [of 12 e]
    by (auto simp: add_billing_cycle_def BillingCycle_of_def split: if_splits)
  then show "valid_datetime e" "instant d \<le> instant e" "cycle \<noteq> ''none'' \<Longrightarrow> instant d < instant e"
    using assms(1) by (cases; simp)+
qed


section \<open>Properties\<close>

text \<open>
  Python compares two aware datetimes by their calendar fields, the services subtract
  them as instants: on valid datetimes both orders agree, equal instants are equal
  datetimes, and adding days moves the instant by exactly that many days whenever it does
  not overflow.
\<close>

theorem calendar_order:
  assumes "valid_datetime d" and "valid_datetime e"
  shows "(dt_tuple d < dt_tuple e \<longleftrightarrow> instant d < instant e) \<and> (d = e \<longleftrightarrow> instant d = instant e) \<and>
    (case add_days d n of None \<Rightarrow> True | Some f \<Rightarrow> valid_datetime f \<and> instant f - instant d = days (int n))"
proof -
  have "dt_tuple d = dt_tuple e \<Longrightarrow> d = e" by (simp add: dt_tuple_def)
  then have "d = e \<longleftrightarrow> instant d = instant e"
    using instant_less_iff [OF assms] instant_less_iff [OF assms(2,1)] by (metis less_irrefl linorder_less_linear)
  then show ?thesis
    using instant_less_iff [OF assms] add_days_Some [OF assms(1), of n] by (auto split: option.splits)
qed

theorem calendar_order_witness:
  "dt_tuple ex_date < dt_tuple (ex_date\<lparr>dt_year := 2028, dt_month := 2, dt_day := 29\<rparr>) \<longleftrightarrow>
   instant ex_date < instant (ex_date\<lparr>dt_year := 2028, dt_month := 2, dt_day := 29\<rparr>)"
proof -
  have "valid_datetime ex_date" "valid_datetime (ex_date\<lparr>dt_year := 2028, dt_month := 2, dt_day := 29\<rparr>)" by code_simp+
  from calendar_order [OF this, of 3] show ?thesis by blast
qed

end
