(* ===== verification/Transitions.thy ===== *)
theory Transitions
  imports Database
begin

section \<open>Control flow and what every run respects\<close>

text \<open>
  \<open>try\<close>/\<open>except\<close> and \<open>for\<close> loops as program combinators, and a calculus for relations between
  the database before and after a run. A service method can stop anywhere by raising, and a
  background task that catches the exception keeps the writes flushed so far; a relation
  that has to hold of such runs is therefore stated of the state a run ends in, whether it
  returned or raised.
\<close>

definition catching :: "('s, 'e, 'a) prog \<Rightarrow> ('e \<Rightarrow> ('s, 'e, 'a) prog) \<Rightarrow> ('s, 'e, 'a) prog" where
  "catching m h = (\<lambda>s. case m s of (Inl e, s') \<Rightarrow> h e s' | (Inr v, s') \<Rightarrow> (Inr v, s'))"

text \<open>A loop over a list that carries the loop's local variables.\<close>

fun for_each :: "('i \<Rightarrow> 'v \<Rightarrow> ('s, 'e, 'v) prog) \<Rightarrow> 'i list \<Rightarrow> 'v \<Rightarrow> ('s, 'e, 'v) prog" where
  "for_each body [] v = ret v"
| "for_each body (i # is) v = andthen (body i v) (for_each body is)"

text \<open>A read and a write of the half that no transaction manages.\<close>

definition reads_world :: "('x \<Rightarrow> 'a) \<Rightarrow> ('db \<times> 'x, 'e, 'a) prog" where
  "reads_world g = reads (\<lambda>(db, x). g x)"

definition modifies_world :: "('x \<Rightarrow> 'x) \<Rightarrow> ('db \<times> 'x, 'e, unit) prog" where
  "modifies_world g = modifies (\<lambda>(db, x). (db, g x))"

lemmas control_defs [prog_simps] = catching_def reads_world_def modifies_world_def

lemma catching_Inr:
  "catching m h s = (Inr v, s') \<longleftrightarrow>
     m s = (Inr v, s') \<or> (\<exists>e s1. m s = (Inl e, s1) \<and> h e s1 = (Inr v, s'))"
  by (auto simp: catching_def split: prod.splits sum.splits)

lemma catching_Inl:
  "catching m h s = (Inl e, s') \<longleftrightarrow> (\<exists>d s1. m s = (Inl d, s1) \<and> h d s1 = (Inl e, s'))"
  by (auto simp: catching_def split: prod.splits sum.splits)

lemma reads_world_Inr [simp]: "reads_world g (db, x) = (Inr y, s') \<longleftrightarrow> y = g x \<and> s' = (db, x)"
  and reads_world_Inl [simp]: "reads_world g (db, x) = (Inl e, s') \<longleftrightarrow> False"
  and modifies_world_Inr [simp]: "modifies_world h (db, x) = (Inr u, s') \<longleftrightarrow> s' = (db, h x)"
  and modifies_world_Inl [simp]: "modifies_world h (db, x) = (Inl e, s') \<longleftrightarrow> False"
  by (auto simp: reads_world_def modifies_world_def)


subsection \<open>Relations on the database\<close>

text \<open>\<open>moves R m db x\<close>: the run of \<open>m\<close> from \<open>(db, x)\<close> ends in a database \<open>R\<close> relates \<open>db\<close> to.\<close>

definition moves :: "('db \<Rightarrow> 'db \<Rightarrow> bool) \<Rightarrow> ('db \<times> 'x, 'e, 'a) prog \<Rightarrow> 'db \<Rightarrow> 'x \<Rightarrow> bool" where
  "moves R m db x \<longleftrightarrow> R db (fst (snd (m (db, x))))"

definition honours :: "('db \<Rightarrow> 'db \<Rightarrow> bool) \<Rightarrow> ('db \<times> 'x, 'e, 'a) prog \<Rightarrow> bool" where
  "honours R m \<longleftrightarrow> (\<forall>db x. moves R m db x)"

lemma honoursI: "(\<And>db x. moves R m db x) \<Longrightarrow> honours R m"
  by (simp add: honours_def)

lemma honoursD: "honours R m \<Longrightarrow> moves R m db x"
  by (simp add: honours_def)

lemma moves_result: "moves R m db x \<Longrightarrow> m (db, x) = (r, (db', x')) \<Longrightarrow> R db db'"
  by (simp add: moves_def)

lemma honours_result: "honours R m \<Longrightarrow> m (db, x) = (r, (db', x')) \<Longrightarrow> R db db'"
  by (metis moves_result honoursD)

lemma honours_mono: "honours R m \<Longrightarrow> (\<And>a b. R a b \<Longrightarrow> S a b) \<Longrightarrow> honours S m"
  by (auto simp: honours_def moves_def)

text \<open>Steps that leave the database as it is.\<close>

lemma moves_andthen_reads_db [simp]: "moves R (andthen (reads_db g) f) db x = moves R (f (g db)) db x"
  and moves_andthen_reads_world [simp]: "moves R (andthen (reads_world h) f) db x = moves R (f (h x)) db x"
  and moves_andthen_modifies_world [simp]: "moves R (andthen (modifies_world k) f') db x = moves R (f' ()) db (k x)"
  and moves_andthen_ret [simp]: "moves R (andthen (ret v) f) db x = moves R (f v) db x"
  by (simp_all add: moves_def prog_simps)

lemma moves_andthen_guard [simp]:
  "moves R (andthen (guard b e) f) db x = (if b then moves R (f ()) db x else R db db)"
  by (simp add: moves_def prog_simps)

lemma moves_andthen_lift [simp]:
  "moves R (andthen (lift_result r) f) db x = (case r of Inl e \<Rightarrow> R db db | Inr v \<Rightarrow> moves R (f v) db x)"
  by (simp add: moves_def prog_simps split: sum.splits)

lemma moves_andthen_orelse [simp]:
  "moves R (andthen (orelse v e) f) db x = (case v of None \<Rightarrow> R db db | Some y \<Rightarrow> moves R (f y) db x)"
  by (simp add: moves_def prog_simps split: option.splits)

lemma moves_ret [simp]: "moves R (ret v) db x = R db db"
  and moves_raise [simp]: "moves R (raise e) db x = R db db"
  and moves_guard [simp]: "moves R (guard b e) db x = R db db"
  and moves_orelse [simp]: "moves R (orelse o' e) db x = R db db"
  and moves_lift [simp]: "moves R (lift_result r) db x = R db db"
  and moves_reads_db [simp]: "moves R (reads_db g) db x = R db db"
  and moves_modifies_world [simp]: "moves R (modifies_world k) db x = R db db"
  and moves_modifies_db [simp]: "moves R (modifies_db h) db x = R db (h db)"
  by (simp_all add: moves_def prog_simps split: option.splits)

lemma andthen_assoc: "andthen (andthen m f) g = andthen m (\<lambda>v. andthen (f v) g)"
  by (rule ext) (auto simp: andthen_def split: prod.splits sum.splits)

text \<open>A relation that composes.\<close>

locale step_relation =
  fixes R :: "'db \<Rightarrow> 'db \<Rightarrow> bool"
  assumes step_refl: "R db db"
    and step_trans: "R a b \<Longrightarrow> R b c \<Longrightarrow> R a c"
begin

lemma moves_andthen:
  assumes "moves R m db x"
    and "\<And>v db' x'. m (db, x) = (Inr v, (db', x')) \<Longrightarrow> moves R (f v) db' x'"
  shows "moves R (andthen m f) db x"
proof -
  obtain r db' x' where run: "m (db, x) = (r, (db', x'))" by (metis prod.exhaust)
  show ?thesis
  proof (cases r)
    case (Inl e)
    with run assms(1) show ?thesis by (simp add: moves_def andthen_def)
  next
    case (Inr v)
    with run assms(2) have "moves R (f v) db' x'" by simp
    with run Inr assms(1) show ?thesis using step_trans by (fastforce simp: moves_def andthen_def)
  qed
qed

lemma moves_modifies:
  "R db (h db) \<Longrightarrow> moves R (f ()) (h db) x \<Longrightarrow> moves R (andthen (modifies_db h) f) db x"
  by (rule moves_andthen) auto

lemma honours_andthen: "honours R m \<Longrightarrow> (\<And>v. honours R (f v)) \<Longrightarrow> honours R (andthen m f)"
  by (simp add: honours_def moves_andthen)

lemma honours_catching: "honours R m \<Longrightarrow> (\<And>e. honours R (h e)) \<Longrightarrow> honours R (catching m h)"
proof (rule honoursI)
  fix db x
  assume m: "honours R m" and h: "\<And>e. honours R (h e)"
  obtain r db' x' where run: "m (db, x) = (r, (db', x'))" by (metis prod.exhaust)
  have r: "R db db'" using honours_result [OF m run] .
  show "moves R (catching m h) db x"
  proof (cases r)
    case (Inl e)
    obtain r2 db2 x2 where run2: "h e (db', x') = (r2, (db2, x2))" by (metis prod.exhaust)
    from step_trans [OF r honours_result [OF h run2]] run run2 Inl show ?thesis by (simp add: moves_def catching_def)
  qed (use run r in \<open>simp add: moves_def catching_def\<close>)
qed

lemma honours_for_each: "(\<And>i v. honours R (body i v)) \<Longrightarrow> honours R (for_each body is v)"
  by (induction "is" arbitrary: v) (auto simp: step_refl honours_andthen intro!: honoursI dest: honoursD)

lemma honours_still: "(\<And>db x. fst (snd (m (db, x))) = db) \<Longrightarrow> honours R m"
  by (simp add: honours_def moves_def step_refl)

lemma honours_ret: "honours R (ret v)"
  and honours_raise: "honours R (raise e)"
  and honours_guard: "honours R (guard b e)"
  and honours_lift: "honours R (lift_result r)"
  and honours_orelse: "honours R (orelse o' e)"
  and honours_reads_db: "honours R (reads_db g)"
  and honours_reads_world: "honours R (reads_world h)"
  and honours_modifies_world: "honours R (modifies_world k)"
  by (rule honours_still, simp add: prog_simps split: option.splits)+

lemma honours_if: "honours R m \<Longrightarrow> honours R n \<Longrightarrow> honours R (if b then m else n)"
  by simp

lemma honours_option: "honours R m \<Longrightarrow> (\<And>y. honours R (f y)) \<Longrightarrow> honours R (case v of None \<Rightarrow> m | Some y \<Rightarrow> f y)"
  by (cases v) simp_all

lemma honours_modifies: "(\<And>db. R db (h db)) \<Longrightarrow> honours R (modifies_db h)"
  by (simp add: honours_def)

lemma honours_stores: "(\<And>db db'. g db = Inr db' \<Longrightarrow> R db db') \<Longrightarrow> honours R (stores_db w g)"
  by (auto simp: honours_def moves_def stores_db_def step_refl split: sum.splits)

lemma honours_session: "honours R m \<Longrightarrow> honours R (with_db_session m)"
proof (rule honoursI)
  fix db x assume m: "honours R m"
  obtain r db' x' where run: "m (db, x) = (r, (db', x'))" by (metis prod.exhaust)
  with honours_result [OF m run] show "moves R (with_db_session m) db x"
    by (cases r) (simp_all add: moves_def with_db_session_def step_refl)
qed

lemmas honours_intros =
  honours_andthen honours_ret honours_raise honours_guard honours_lift honours_orelse honours_reads_db honours_reads_world
  honours_modifies_world honours_if honours_option

lemma honours_case_prod: "(\<And>a b. honours R (f a b)) \<Longrightarrow> honours R (case v of (a, b) \<Rightarrow> f a b)"
  by (cases v) simp

lemma honours_case_list:
  "honours R m \<Longrightarrow> (\<And>y ys. honours R (f y ys)) \<Longrightarrow> honours R (case xs of [] \<Rightarrow> m | y # ys \<Rightarrow> f y ys)"
  by (cases xs) simp_all

lemma honours_case_sum:
  "(\<And>e. honours R (f e)) \<Longrightarrow> (\<And>v. honours R (g v)) \<Longrightarrow> honours R (case r of Inl e \<Rightarrow> f e | Inr v \<Rightarrow> g v)"
  by (cases r) simp_all

lemma honours_discard: "honours R m \<Longrightarrow> honours R (andthen m (\<lambda>_. ret ()))"
  by (rule honours_andthen [OF _ honours_ret])

text \<open>The rules for control flow, in the order in which they are tried.\<close>

lemmas honours_control =
  honours_andthen honours_catching honours_for_each honours_session honours_if honours_option honours_case_prod
  honours_case_list honours_case_sum honours_ret honours_raise honours_guard honours_lift honours_orelse honours_reads_db
  honours_reads_world honours_modifies_world

end


subsection \<open>Relations between whole states\<close>

text \<open>Like \<open>honours\<close>, for relations that also look at the state no transaction manages.\<close>

definition stays :: "('s \<Rightarrow> 's \<Rightarrow> bool) \<Rightarrow> ('s, 'e, 'a) prog \<Rightarrow> bool" where
  "stays R m \<longleftrightarrow> (\<forall>s. R s (snd (m s)))"

lemma stays_result: "stays R m \<Longrightarrow> m s = (r, s') \<Longrightarrow> R s s'"
  unfolding stays_def by (metis snd_conv)

locale state_relation =
  fixes R :: "'db \<times> 'x \<Rightarrow> 'db \<times> 'x \<Rightarrow> bool"
  assumes state_refl: "R s s"
    and state_trans: "R s t \<Longrightarrow> R t u \<Longrightarrow> R s u"
begin

lemma stays_andthen: "stays R m \<Longrightarrow> (\<And>v. stays R (f v)) \<Longrightarrow> stays R (andthen m f)"
  unfolding stays_def andthen_def by (auto split: prod.split sum.split) (metis snd_conv state_trans)+

lemma stays_catching: "stays R m \<Longrightarrow> (\<And>e. stays R (h e)) \<Longrightarrow> stays R (catching m h)"
  unfolding stays_def catching_def by (auto split: prod.split sum.split) (metis snd_conv state_trans)+

lemma stays_ret: "stays R (ret v)"
  and stays_raise: "stays R (raise e)"
  and stays_guard: "stays R (guard b e)"
  and stays_lift: "stays R (lift_result r)"
  and stays_orelse: "stays R (orelse o' e)"
  and stays_reads_db: "stays R (reads_db g)"
  and stays_reads_world: "stays R (reads_world h)"
  by (auto simp: stays_def prog_simps state_refl split: sum.splits option.splits prod.splits)

lemma stays_for_each: "(\<And>i v. stays R (body i v)) \<Longrightarrow> stays R (for_each body is v)"
  by (induction "is" arbitrary: v) (auto intro: stays_andthen stays_ret)

lemma stays_if: "stays R m \<Longrightarrow> stays R n \<Longrightarrow> stays R (if b then m else n)"
  and stays_option: "stays R m \<Longrightarrow> (\<And>y. stays R (f y)) \<Longrightarrow> stays R (case v of None \<Rightarrow> m | Some y \<Rightarrow> f y)"
  by (simp_all split: option.split)

lemma stays_case_prod: "(\<And>a b. stays R (g a b)) \<Longrightarrow> stays R (case p of (a, b) \<Rightarrow> g a b)"
  by (cases p) simp

lemmas stays_control =
  stays_andthen stays_catching stays_ret stays_raise stays_guard stays_lift stays_orelse stays_reads_db stays_reads_world
  stays_for_each stays_if stays_option stays_case_prod

end

end
