(* ===== verification/BillingData.thy ===== *)
theory BillingData
  imports Calendar Transitions "HOL-Library.List_Lexorder" "HOL-Library.Char_ord"
begin

section \<open>The tables, settings and repositories of the billing services\<close>

text \<open>
  \<open>app/domains/billing/models.py\<close>, \<open>constants.py\<close>, \<open>exceptions.py\<close> and \<open>repository.py\<close> as far as
  the plan, license, coupon, subscription, payment, renewal and invoice services use them, with
  the columns they read of \<open>organizations\<close> and \<open>captive_portal_configs\<close>.

  The state is a pair. The managed half is the database. The unmanaged half is the clock and
  the supply of fresh identifiers (both only advance), the calls sent to the payment
  providers, and the Redis server. Providers and Redis are not part of the repository: the
  providers are a function of the calls made so far, and Redis is a state \<open>'r\<close> with the
  operations of the environment and the laws \<open>kv_laws\<close>: \<open>GET\<close> answers what the key holds, \<open>SET\<close>
  and \<open>DEL\<close> change that key only, and any key may expire at any command.

  Enumerations are data types; \<open>billing_cycle\<close> and \<open>provider\<close> stay strings because the code
  looks them up at run time. A \<open>Numeric(12, 2)\<close> is a rational number.
\<close>

datatype PlanType = FREE_TRIAL | STARTER | PROFESSIONAL | BUSINESS | ENTERPRISE | MSP | CUSTOM

datatype LicenseStatus =
  PENDING_ACTIVATION | LICENSE_ACTIVE | LICENSE_SUSPENDED | LICENSE_EXPIRED | LICENSE_CANCELLED

datatype LicenseChangeType = ASSIGNED | UPGRADED | DOWNGRADED

datatype SubscriptionStatus = TRIALING | SUB_ACTIVE | PAST_DUE | PAUSED | SUB_CANCELLED

datatype PaymentStatus = PENDING | SUCCEEDED | FAILED | REFUNDED | PARTIALLY_REFUNDED

datatype InvoiceStatus =
  INVOICE_DRAFT | INVOICE_ISSUED | INVOICE_PAID | INVOICE_OVERDUE | INVOICE_CANCELLED | INVOICE_VOID

datatype NoteType = CREDIT_NOTE | DEBIT_NOTE

datatype PaymentMethodType = CARD | BANK_ACCOUNT | UPI | OTHER_METHOD

fun LicenseStatus_value :: "LicenseStatus \<Rightarrow> string" where
  "LicenseStatus_value PENDING_ACTIVATION = ''pending_activation''"
| "LicenseStatus_value LICENSE_ACTIVE = ''active''"
| "LicenseStatus_value LICENSE_SUSPENDED = ''suspended''"
| "LicenseStatus_value LICENSE_EXPIRED = ''expired''"
| "LicenseStatus_value LICENSE_CANCELLED = ''cancelled''"

fun LicenseChangeType_value :: "LicenseChangeType \<Rightarrow> string" where
  "LicenseChangeType_value ASSIGNED = ''assigned''"
| "LicenseChangeType_value UPGRADED = ''upgraded''"
| "LicenseChangeType_value DOWNGRADED = ''downgraded''"

fun SubscriptionStatus_value :: "SubscriptionStatus \<Rightarrow> string" where
  "SubscriptionStatus_value TRIALING = ''trialing''"
| "SubscriptionStatus_value SUB_ACTIVE = ''active''"
| "SubscriptionStatus_value PAST_DUE = ''past_due''"
| "SubscriptionStatus_value PAUSED = ''paused''"
| "SubscriptionStatus_value SUB_CANCELLED = ''cancelled''"

fun PlanFeatureKey_value :: "PlanFeatureKey \<Rightarrow> string" where
  "PlanFeatureKey_value MAX_ORGANIZATIONS = ''max_organizations''"
| "PlanFeatureKey_value MAX_LOCATIONS = ''max_locations''"
| "PlanFeatureKey_value MAX_ROUTERS = ''max_routers''"
| "PlanFeatureKey_value MAX_GUESTS = ''max_guests''"
| "PlanFeatureKey_value MAX_ADMIN_USERS = ''max_admin_users''"
| "PlanFeatureKey_value CAPTIVE_PORTAL_BUILDER = ''captive_portal_builder''"
| "PlanFeatureKey_value AI_FEATURES = ''ai_features''"
| "PlanFeatureKey_value ANALYTICS = ''analytics''"
| "PlanFeatureKey_value MONITORING = ''monitoring''"
| "PlanFeatureKey_value WHITE_LABEL = ''white_label''"
| "PlanFeatureKey_value API_ACCESS = ''api_access''"
| "PlanFeatureKey_value PMS_INTEGRATION = ''pms_integration''"
| "PlanFeatureKey_value SMS_QUOTA = ''sms_quota''"
| "PlanFeatureKey_value EMAIL_QUOTA = ''email_quota''"
| "PlanFeatureKey_value STORAGE_QUOTA_MB = ''storage_quota_mb''"
| "PlanFeatureKey_value SUPPORT_LEVEL = ''support_level''"
| "PlanFeatureKey_value MAX_CONCURRENT_SESSIONS = ''max_concurrent_sessions''"
| "PlanFeatureKey_value MAX_STAFF_USERS = ''max_staff_users''"
| "PlanFeatureKey_value MAX_API_KEYS = ''max_api_keys''"
| "PlanFeatureKey_value DASHBOARD = ''dashboard''"
| "PlanFeatureKey_value GUEST_WIFI = ''guest_wifi''"
| "PlanFeatureKey_value CAPTIVE_PORTAL = ''captive_portal''"
| "PlanFeatureKey_value FREERADIUS = ''freeradius''"
| "PlanFeatureKey_value WIREGUARD = ''wireguard''"
| "PlanFeatureKey_value REPORTS = ''reports''"
| "PlanFeatureKey_value ALERTS = ''alerts''"
| "PlanFeatureKey_value BILLING = ''billing''"
| "PlanFeatureKey_value VOUCHER_LOGIN = ''voucher_login''"
| "PlanFeatureKey_value QR_LOGIN = ''qr_login''"
| "PlanFeatureKey_value SOCIAL_LOGIN = ''social_login''"
| "PlanFeatureKey_value MOBILE_OTP = ''mobile_otp''"
| "PlanFeatureKey_value NOTIFICATION_CENTER = ''notification_center''"
| "PlanFeatureKey_value AUDIT_LOGS = ''audit_logs''"
| "PlanFeatureKey_value MULTI_ROUTER = ''multi_router''"
| "PlanFeatureKey_value MULTI_LOCATION = ''multi_location''"
| "PlanFeatureKey_value CAMPAIGNS = ''campaigns''"
| "PlanFeatureKey_value VLAN = ''vlan''"
| "PlanFeatureKey_value DHCP = ''dhcp''"
| "PlanFeatureKey_value MFA = ''mfa''"
| "PlanFeatureKey_value EXPORTS = ''exports''"
| "PlanFeatureKey_value ISP_FAILOVER = ''isp_failover''"
| "PlanFeatureKey_value GUEST_MARKETING = ''guest_marketing''"
| "PlanFeatureKey_value GUEST_MARKETING_BYO = ''guest_marketing_byo''"
| "PlanFeatureKey_value TRAFFIC_FLOW = ''traffic_flow''"
| "PlanFeatureKey_value TRAFFIC_FLOW_RECORDS = ''traffic_flow_records''"

definition RENEWABLE_SUBSCRIPTION_STATUSES :: "SubscriptionStatus list" where
  "RENEWABLE_SUBSCRIPTION_STATUSES = [TRIALING, SUB_ACTIVE, PAST_DUE]"

definition CYCLIC_BILLING_CYCLES :: "string list" where
  "CYCLIC_BILLING_CYCLES = [''monthly'', ''yearly'']"

definition FEATURE_REQUIRES :: "(PlanFeatureKey \<times> PlanFeatureKey) list" where
  "FEATURE_REQUIRES = [(GUEST_MARKETING_BYO, GUEST_MARKETING), (TRAFFIC_FLOW_RECORDS, TRAFFIC_FLOW)]"


subsection \<open>Rows\<close>

record plan = base_model +
  p_name :: string
  p_slug :: string
  p_plan_type :: PlanType
  p_description :: "string option"
  p_billing_cycle :: string
  p_base_price :: rat
  p_currency :: string
  p_is_active :: bool
  p_is_public :: bool
  p_created_by_user_id :: "uuid option"
  p_sort_order :: int

record plan_feature = base_model +
  pf_plan_id :: uuid
  pf_feature_key :: PlanFeatureKey
  pf_feature_type :: PlanFeatureType
  pf_limit_value :: "rat option"
  pf_is_enabled :: "bool option"
  pf_tier_value :: "string option"

record feature_override = base_model +
  fo_organization_id :: uuid
  fo_feature_key :: PlanFeatureKey
  fo_is_enabled :: bool
  fo_reason :: "string option"
  fo_set_by_user_id :: "uuid option"

record license = base_model +
  l_organization_id :: uuid
  l_plan_id :: uuid
  l_status :: LicenseStatus
  l_activated_at :: "py_datetime option"
  l_expires_at :: "py_datetime option"
  l_suspended_at :: "py_datetime option"
  l_suspended_reason :: "string option"
  l_cancelled_at :: "py_datetime option"

record license_change_log = base_model +
  cl_license_id :: uuid
  cl_from_plan_id :: "uuid option"
  cl_to_plan_id :: uuid
  cl_change_type :: LicenseChangeType
  cl_changed_at :: py_datetime
  cl_changed_by_user_id :: "uuid option"
  cl_reason :: "string option"

record subscription = base_model +
  s_organization_id :: uuid
  s_license_id :: uuid
  s_plan_id :: uuid
  s_status :: SubscriptionStatus
  s_billing_cycle :: string
  s_current_period_start :: py_datetime
  s_current_period_end :: py_datetime
  s_trial_end :: "py_datetime option"
  s_auto_renew :: bool
  s_cancel_at_period_end :: bool
  s_started_at :: py_datetime
  s_cancelled_at :: "py_datetime option"
  s_applied_coupon_id :: "uuid option"
  s_past_due_at :: "py_datetime option"
  s_last_renewal_reminder_sent_at :: "py_datetime option"
  s_last_expiry_reminder_sent_at :: "py_datetime option"

record coupon = base_model +
  c_code :: string
  c_discount_type :: DiscountType
  c_discount_value :: rat
  c_currency :: "string option"
  c_organization_id :: "uuid option"
  c_max_uses :: "int option"
  c_current_uses :: int
  c_valid_from :: py_datetime
  c_valid_until :: "py_datetime option"
  c_is_active :: bool

record coupon_plan = base_model +
  cp_coupon_id :: uuid
  cp_plan_id :: uuid

record coupon_usage = base_model +
  cu_coupon_id :: uuid
  cu_organization_id :: uuid
  cu_subscription_id :: "uuid option"
  cu_used_at :: py_datetime
  cu_discount_amount_applied :: rat

record payment = base_model +
  pay_organization_id :: uuid
  pay_subscription_id :: "uuid option"
  pay_amount :: rat
  pay_currency :: string
  pay_status :: PaymentStatus
  pay_provider :: string
  pay_provider_payment_id :: "string option"
  pay_idempotency_key :: string
  pay_failure_reason :: "string option"
  pay_refunded_amount :: rat
  pay_razorpay_order_id :: "string option"
  pay_razorpay_signature :: "string option"

record payment_method = base_model +
  pm_organization_id :: uuid
  pm_provider :: string
  pm_provider_payment_method_id :: string
  pm_method_type :: PaymentMethodType
  pm_last4 :: "string option"
  pm_is_default :: bool
  pm_is_active :: bool

record tax_rate = base_model +
  tr_name :: string
  tr_tax_type :: TaxType
  tr_rate_percentage :: rat
  tr_country_code :: string
  tr_is_active :: bool

text \<open>The address block of a profile; an invoice keeps a copy of it (\<open>billing_snapshot\<close>).\<close>

record billing_details =
  bd_billing_name :: string
  bd_address_line1 :: string
  bd_address_line2 :: "string option"
  bd_city :: string
  bd_state :: string
  bd_country :: string
  bd_postal_code :: string
  bd_gst_identifier :: "string option"
  bd_tax_exempt :: bool

record billing_profile = base_model +
  bp_organization_id :: uuid
  bp_details :: billing_details

record invoice = base_model +
  i_organization_id :: uuid
  i_subscription_id :: "uuid option"
  i_payment_id :: "uuid option"
  i_invoice_number :: string
  i_status :: InvoiceStatus
  i_issue_date :: py_datetime
  i_due_date :: py_datetime
  i_subtotal :: rat
  i_discount_amount :: rat
  i_cgst_amount :: rat
  i_sgst_amount :: rat
  i_igst_amount :: rat
  i_tax_amount :: rat
  i_tax_rate_percentage :: rat
  i_total_amount :: rat
  i_currency :: string
  i_billing_snapshot :: billing_details

record invoice_item = base_model +
  ii_invoice_id :: uuid
  ii_description :: string
  ii_quantity :: rat
  ii_unit_price :: rat
  ii_amount :: rat

record credit_debit_note = base_model +
  n_invoice_id :: uuid
  n_note_type :: NoteType
  n_note_number :: string
  n_amount :: rat
  n_reason :: string
  n_issued_at :: py_datetime

text \<open>The columns of \<open>organizations\<close> and \<open>captive_portal_configs\<close> that billing reads or writes.\<close>

record organization = base_model +
  org_name :: string
  org_type :: string
  org_parent_organization_id :: "uuid option"
  org_contact_email :: string
  org_subscription_tier :: "string option"

record portal_config = base_model +
  pc_organization_id :: uuid
  pc_location_id :: "uuid option"
  pc_name :: string
  pc_is_active :: bool
  pc_is_default :: bool
  pc_powered_by_enabled :: bool

datatype UsageMetricKey =
    ORGANIZATIONS | LOCATIONS | ROUTERS | ACTIVE_DEVICES | GUESTS | GUEST_SESSIONS | OTP_REQUESTS | SMS_USAGE | EMAIL_USAGE
  | STORAGE_USAGE_MB | API_REQUESTS | BANDWIDTH_USAGE_MB

record usage_metric = base_model +
  um_organization_id :: uuid
  um_metric_key :: UsageMetricKey
  um_period_start :: py_datetime
  um_period_end :: py_datetime
  um_value :: rat
  um_recorded_at :: py_datetime

datatype NotificationEventType = SUBSCRIPTION_RENEWAL_REMINDER | SUBSCRIPTION_EXPIRY_REMINDER

text \<open>A queued e-mail, without the rendered body.\<close>

record queued_email =
  qe_event_type :: NotificationEventType
  qe_recipient :: string
  qe_subject :: string
  qe_organization_id :: uuid

record billing_db =
  plans :: "plan list"
  plan_features :: "plan_feature list"
  feature_overrides :: "feature_override list"
  licenses :: "license list"
  change_logs :: "license_change_log list"
  subscriptions :: "subscription list"
  coupons :: "coupon list"
  coupon_plans :: "coupon_plan list"
  coupon_usages :: "coupon_usage list"
  payments :: "payment list"
  payment_methods :: "payment_method list"
  tax_rates :: "tax_rate list"
  billing_profiles :: "billing_profile list"
  number_counters :: counters
  invoices :: "invoice list"
  invoice_items :: "invoice_item list"
  credit_debit_notes :: "credit_debit_note list"
  organizations :: "organization list"
  portal_configs :: "portal_config list"
  usage_metrics :: "usage_metric list"
  outbox :: "queued_email list"
  audit_log :: "audit_entry list"


subsection \<open>Exceptions\<close>

datatype billing_exc =
    PlanNotFoundError string
  | DuplicatePlanSlugError string
  | PlanInactiveError uuid
  | DuplicatePlanFeatureError uuid PlanFeatureKey
  | ValidatorError billing_error
  | LicenseNotFoundError uuid
  | DuplicateLicenseError uuid
  | InvalidLicenseStatusTransitionError LicenseStatus string
  | LicenseNotActiveError uuid
  | FeatureNotEntitledError uuid PlanFeatureKey
  | SamePlanError uuid
  | DowngradeBelowUsageError "string list"
  | SubscriptionNotFoundError uuid
  | DuplicateSubscriptionError uuid
  | InvalidSubscriptionStatusTransitionError SubscriptionStatus SubscriptionStatus
  | InvalidSubscriptionStatusForRenewalError SubscriptionStatus
  | SubscriptionReactivationNotAllowedError uuid
  | CouponNotFoundError string
  | DuplicateCouponCodeError string
  | CouponInactiveError string
  | CouponNotYetValidError string
  | CouponExpiredError string
  | CouponExhaustedError string
  | CouponNotApplicableToOrganizationError string uuid
  | CouponNotApplicableToPlanError string uuid
  | PaymentGatewayNotConfiguredError uuid rat string
  | PaymentNotFoundError uuid
  | PaymentMethodNotFoundError uuid
  | PaymentNotRefundableError uuid PaymentStatus
  | RefundExceedsRefundableAmountError uuid rat rat
  | PaymentNotRetryableError uuid PaymentStatus
  | NoDefaultPaymentMethodError uuid
  | UnsupportedPaymentProviderError string
  | PaymentProviderError string
  | WebhookSignatureInvalidError string
  | TaxRateNotFoundError uuid
  | InvalidTaxRateError
  | BillingProfileNotFoundError uuid
  | BillingProfileMissingError uuid
  | InvoiceNotFoundError uuid
  | InvalidInvoiceStatusTransitionError InvoiceStatus string
  | InvalidNoteAmountError
  | OrganizationNotFoundError uuid
  | BillingDbError db_error
  | OverflowError
  | AttributeError
  | BillingLookupError

text \<open>\<open>str\<close> of a \<open>Decimal\<close> with two places, as the money columns hold them.\<close>

definition show_money :: "rat \<Rightarrow> string" where
  "show_money q =
     (let c = round_half_even (q * 100); n = nat \<bar>c\<bar>
      in (if c < 0 then ''-'' else '''') @ show_nat (n div 100) @ ''.'' @ zero_padded 2 (n mod 100))"

text \<open>An f-string that puts a value in single quotes.\<close>

definition quoted :: "string \<Rightarrow> string" where
  "quoted s = char_of (39 :: nat) # s @ [char_of (39 :: nat)]"

definition not_configured_text :: "uuid \<Rightarrow> rat \<Rightarrow> string \<Rightarrow> string" where
  "not_configured_text org amount currency =
     ''No real payment gateway is configured -- cannot charge organization '' @ org @ '' '' @ show_money amount @ '' '' @
     currency @ ''. This is an honest placeholder pending BE-013 Part 3's real Stripe/'' @
     ''Razorpay integration (see renewal_service.PaymentGatewayProtocol).''"

definition no_payment_method_text :: "uuid \<Rightarrow> string" where
  "no_payment_method_text org = ''Organization '' @ org @ '' has no default, active payment method on file''"


subsection \<open>The environment\<close>

datatype provider_call =
    StripePaymentIntentCreate int string string string
  | StripeRefundCreate "string option" int string
  | RazorpayOrderCreate int string uuid
  | RazorpayCreateRecurring int string string string uuid
  | RazorpayRefund "string option" int

text \<open>\<open>Declined\<close> is \<open>stripe.CardError\<close> or Razorpay's \<open>BadRequestError\<close>, \<open>ProviderFault\<close> any other
  exception of the SDK that the code catches, \<open>Completed\<close> the returned object's id and status.\<close>

datatype provider_reply = Declined string | ProviderFault string | Completed "string option" string

text \<open>What one organization is entitled to; the cache holds this value.\<close>

record entitlement_snapshot =
  es_organization_id :: uuid
  es_plan_id :: uuid
  es_license_status :: LicenseStatus
  es_expires_at :: "py_datetime option"
  es_enabled_features :: "PlanFeatureKey list"
  es_limits :: "(PlanFeatureKey \<times> rat) list"
  es_tiers :: "(PlanFeatureKey \<times> string) list"

datatype cache_value = SnapshotValue entitlement_snapshot | MarkerValue

record 'r kv_ops =
  kv_get :: "string \<Rightarrow> 'r \<Rightarrow> cache_value option \<times> 'r"
  kv_set :: "string \<Rightarrow> cache_value \<Rightarrow> int \<Rightarrow> 'r \<Rightarrow> 'r"
  kv_set_nx :: "string \<Rightarrow> cache_value \<Rightarrow> int \<Rightarrow> 'r \<Rightarrow> bool \<times> 'r"
  kv_delete :: "string \<Rightarrow> 'r \<Rightarrow> 'r"

definition kv_laws :: "'r kv_ops \<Rightarrow> ('r \<Rightarrow> string \<Rightarrow> cache_value option) \<Rightarrow> bool" where
  "kv_laws ops view \<longleftrightarrow>
     (\<forall>k r. fst (kv_get ops k r) = view (snd (kv_get ops k r)) k \<and> view (snd (kv_get ops k r)) \<subseteq>\<^sub>m view r) \<and>
     (\<forall>k v n r. view (kv_set ops k v n r) \<subseteq>\<^sub>m (view r)(k \<mapsto> v)) \<and>
     (\<forall>k v n r. view (snd (kv_set_nx ops k v n r)) \<subseteq>\<^sub>m
        (if fst (kv_set_nx ops k v n r) then (view r)(k \<mapsto> v) else view r)) \<and>
     (\<forall>k v n r. \<not> fst (kv_set_nx ops k v n r) \<longrightarrow> view r k \<noteq> None) \<and>
     (\<forall>k r. view (kv_delete ops k r) \<subseteq>\<^sub>m (view r)(k := None))"

text \<open>What the usage service reads of other domains: counted rows, the guest summary of a period
  and the one-time codes per channel.\<close>

record usage_reading =
  ur_locations :: nat
  ur_routers :: nat
  ur_active_sessions :: nat
  ur_unique_guests :: nat
  ur_visitors :: nat
  ur_total_bandwidth_bytes :: nat
  ur_otp_by_channel :: "(string \<times> nat) list"

record 'r billing_env =
  time_at :: "nat \<Rightarrow> py_datetime"
  uuid_at :: "nat \<Rightarrow> uuid"
  trial_period_days :: nat
  grace_period_days :: nat
  renewal_reminder_days_before :: nat
  expiry_reminder_days_before :: nat
  invoice_due_days :: nat
  platform_gst_state :: string
  platform_gst_country :: string
  entitlement_cache_ttl :: int
  webhook_dedup_ttl :: int
  payment_default_provider :: string
  stripe_secret_key :: string
  razorpay_key_id :: string
  razorpay_key_secret :: string
  provider_api :: "provider_call list \<Rightarrow> provider_call \<Rightarrow> provider_reply"
  redis_ops :: "'r kv_ops"
  usage_reads :: "nat \<Rightarrow> uuid \<Rightarrow> py_datetime \<Rightarrow> py_datetime \<Rightarrow> usage_reading"

record 'r billing_world =
  w_clock :: nat
  w_supply :: nat
  w_calls :: "provider_call list"
  w_redis :: 'r

type_synonym ('r, 'a) bprog = "(billing_db \<times> 'r billing_world, billing_exc, 'a) prog"

text \<open>\<open>datetime.now(UTC)\<close>, \<open>uuid.uuid4()\<close> and the clock of the database.\<close>

definition py_now :: "'r billing_env \<Rightarrow> ('r, py_datetime) bprog" where
  "py_now env =
     andthen (reads_world w_clock) (\<lambda>n.
     andthen (modifies_world (\<lambda>w. w\<lparr>w_clock := Suc n\<rparr>)) (\<lambda>_. ret (time_at env n)))"

definition uuid4 :: "'r billing_env \<Rightarrow> ('r, uuid) bprog" where
  "uuid4 env =
     andthen (reads_world w_supply) (\<lambda>n.
     andthen (modifies_world (\<lambda>w. w\<lparr>w_supply := Suc n\<rparr>)) (\<lambda>_. ret (uuid_at env n)))"

definition db_now :: "'r billing_env \<Rightarrow> ('r, datetime) bprog" where
  "db_now env = reads_world (\<lambda>w. instant (time_at env (w_clock w)))"

definition call_provider :: "'r billing_env \<Rightarrow> provider_call \<Rightarrow> ('r, provider_reply) bprog" where
  "call_provider env c =
     andthen (reads_world w_calls) (\<lambda>cs.
     andthen (modifies_world (\<lambda>w. w\<lparr>w_calls := cs @ [c]\<rparr>)) (\<lambda>_. ret (provider_api env cs c)))"

definition cache_key :: "uuid \<Rightarrow> string" where
  "cache_key org = ''billing:entitlement_snapshot:'' @ org"

definition cache_get :: "'r billing_env \<Rightarrow> uuid \<Rightarrow> ('r, entitlement_snapshot option) bprog" where
  "cache_get env org =
     andthen (reads_world (\<lambda>w. kv_get (redis_ops env) (cache_key org) (w_redis w))) (\<lambda>(v, r).
     andthen (modifies_world (\<lambda>w. w\<lparr>w_redis := r\<rparr>)) (\<lambda>_.
     ret (case v of Some (SnapshotValue s) \<Rightarrow> Some s | _ \<Rightarrow> None)))"

definition cache_set :: "'r billing_env \<Rightarrow> uuid \<Rightarrow> entitlement_snapshot \<Rightarrow> ('r, unit) bprog" where
  "cache_set env org s =
     modifies_world (\<lambda>w. w\<lparr>w_redis := kv_set (redis_ops env) (cache_key org) (SnapshotValue s) (entitlement_cache_ttl env) (w_redis w)\<rparr>)"

definition cache_invalidate :: "'r billing_env \<Rightarrow> uuid \<Rightarrow> ('r, unit) bprog" where
  "cache_invalidate env org =
     modifies_world (\<lambda>w. w\<lparr>w_redis := kv_delete (redis_ops env) (cache_key org) (w_redis w)\<rparr>)"

definition write_audit ::
  "uuid option \<Rightarrow> string \<Rightarrow> string \<Rightarrow> uuid option \<Rightarrow> string \<Rightarrow> (string \<times> string) list \<Rightarrow> uuid option \<Rightarrow> ('r, unit) bprog" where
  "write_audit actor action entity_type entity description metadata org =
     modifies_db (audit_log_update (\<lambda>t. t @
       [\<lparr>ae_actor_user_id = actor, ae_action = action, ae_entity_type = entity_type, ae_entity_id = entity,
         ae_description = description, ae_metadata = metadata, ae_organization_id = org, ae_location_id = None\<rparr>]))"


subsection \<open>Repositories\<close>

text \<open>
  The three writes of \<open>GenericRepository\<close> on a table of this database, given the table and
  its update function: \<open>create\<close> (a fresh id, the unique columns checked), \<open>update\<close> (the
  returned instance is refreshed) and \<open>soft_delete\<close>; \<open>delete\<close> removes the row. Foreign keys
  always point at rows that the services have just read.
\<close>

definition insert_row ::
  "'r billing_env \<Rightarrow> uuid option \<Rightarrow> (billing_db \<Rightarrow> 'a base_model_scheme list) \<Rightarrow>
   (('a base_model_scheme list \<Rightarrow> 'a base_model_scheme list) \<Rightarrow> billing_db \<Rightarrow> billing_db) \<Rightarrow>
   ('a base_model_scheme list \<Rightarrow> bool) \<Rightarrow> 'a \<Rightarrow> ('r, 'a base_model_scheme) bprog" where
  "insert_row env actor get upd uniq columns =
     andthen (uuid4 env) (\<lambda>i.
     andthen (db_now env) (\<lambda>now.
     let r = base_model.extend (new_base i now actor) columns
     in andthen (stores_db BillingDbError (\<lambda>db.
          case create_row uniq r (get db) of Inl e \<Rightarrow> Inl e | Inr t \<Rightarrow> Inr (upd (\<lambda>_. t) db))) (\<lambda>_.
        ret r)))"

definition save_row ::
  "'r billing_env \<Rightarrow> (('a base_model_scheme list \<Rightarrow> 'a base_model_scheme list) \<Rightarrow> billing_db \<Rightarrow> billing_db) \<Rightarrow>
   'a base_model_scheme \<Rightarrow> ('a base_model_scheme \<Rightarrow> 'a base_model_scheme) \<Rightarrow> ('r, 'a base_model_scheme) bprog" where
  "save_row env upd inst data =
     andthen (db_now env) (\<lambda>now.
     andthen (modifies_db (upd (update_row now data inst))) (\<lambda>_.
     ret (assign now data (version inst) inst)))"

definition hide_row ::
  "'r billing_env \<Rightarrow> (('a base_model_scheme list \<Rightarrow> 'a base_model_scheme list) \<Rightarrow> billing_db \<Rightarrow> billing_db) \<Rightarrow>
   'a base_model_scheme \<Rightarrow> ('r, 'a base_model_scheme) bprog" where
  "hide_row env upd inst =
     andthen (db_now env) (\<lambda>now.
     andthen (modifies_db (upd (soft_delete now inst))) (\<lambda>_. ret (mark_deleted now inst)))"

definition create_plan_row ::
  "'r billing_env \<Rightarrow> uuid option \<Rightarrow> string \<Rightarrow> string \<Rightarrow> PlanType \<Rightarrow> string option \<Rightarrow> string \<Rightarrow> rat \<Rightarrow> string \<Rightarrow> bool \<Rightarrow> bool \<Rightarrow>
   int \<Rightarrow> ('r, plan) bprog" where
  "create_plan_row env actor name slug ty description cycle price currency active public order =
     insert_row env actor plans plans_update (\<lambda>t. distinct (map p_slug t))
       (plan.fields name slug ty description cycle price currency active public actor order)"

definition get_plan_by_slug :: "string \<Rightarrow> billing_db \<Rightarrow> plan option" where
  "get_plan_by_slug slug db = first_row (\<lambda>p. p_slug p = slug) (plans db)"

record feature_input =
  fi_feature_key :: PlanFeatureKey
  fi_feature_type :: PlanFeatureType
  fi_limit_value :: "rat option"
  fi_is_enabled :: "bool option"
  fi_tier_value :: "string option"

definition create_plan_feature :: "'r billing_env \<Rightarrow> uuid \<Rightarrow> feature_input \<Rightarrow> ('r, plan_feature) bprog" where
  "create_plan_feature env plan_id f =
     insert_row env None plan_features plan_features_update (\<lambda>t. distinct (map (\<lambda>r. (pf_plan_id r, pf_feature_key r)) t))
       (plan_feature.fields plan_id (fi_feature_key f) (fi_feature_type f) (fi_limit_value f) (fi_is_enabled f)
          (fi_tier_value f))"

definition list_plan_features :: "uuid \<Rightarrow> billing_db \<Rightarrow> plan_feature list" where
  "list_plan_features plan_id db =
     get_all (\<lambda>f. pf_plan_id f = plan_id) (\<lambda>f. PlanFeatureKey_value (pf_feature_key f)) ASC False None (plan_features db)"

definition list_plan_features_for_plans :: "uuid list \<Rightarrow> billing_db \<Rightarrow> (uuid \<times> plan_feature list) list" where
  "list_plan_features_for_plans plan_ids db =
     map (\<lambda>i. (i, sort_key (\<lambda>f. PlanFeatureKey_value (pf_feature_key f))
                    (filter (\<lambda>f. pf_plan_id f = i \<and> \<not> is_deleted f) (plan_features db)))) (remdups plan_ids)"

definition delete_plan_features :: "uuid \<Rightarrow> ('r, unit) bprog" where
  "delete_plan_features plan_id =
     andthen (reads_db (list_plan_features plan_id)) (\<lambda>fs.
     for_each (\<lambda>f _. modifies_db (plan_features_update (delete_row f))) fs ())"

definition create_license_row ::
  "'r billing_env \<Rightarrow> uuid option \<Rightarrow> uuid \<Rightarrow> uuid \<Rightarrow> LicenseStatus \<Rightarrow> py_datetime option \<Rightarrow> ('r, license) bprog" where
  "create_license_row env actor org plan_id status expires =
     insert_row env actor licenses licenses_update (\<lambda>t. distinct (map l_organization_id t))
       (license.fields org plan_id status None expires None None None)"

definition get_license_by_organization_id :: "uuid \<Rightarrow> billing_db \<Rightarrow> license option" where
  "get_license_by_organization_id org db = first_row (\<lambda>l. l_organization_id l = org) (licenses db)"

definition create_change_log ::
  "'r billing_env \<Rightarrow> uuid \<Rightarrow> uuid option \<Rightarrow> uuid \<Rightarrow> LicenseChangeType \<Rightarrow> py_datetime \<Rightarrow> uuid option \<Rightarrow> string option \<Rightarrow>
   ('r, license_change_log) bprog" where
  "create_change_log env license_id from_plan to_plan ty changed_at actor reason =
     insert_row env None change_logs change_logs_update (\<lambda>_. True)
       (license_change_log.fields license_id from_plan to_plan ty changed_at actor reason)"

definition list_change_logs :: "uuid \<Rightarrow> billing_db \<Rightarrow> license_change_log list" where
  "list_change_logs license_id db =
     get_all (\<lambda>c. cl_license_id c = license_id) (\<lambda>c. instant (cl_changed_at c)) DESC False None (change_logs db)"

definition create_subscription_row ::
  "'r billing_env \<Rightarrow> uuid option \<Rightarrow> uuid \<Rightarrow> uuid \<Rightarrow> uuid \<Rightarrow> SubscriptionStatus \<Rightarrow> string \<Rightarrow> py_datetime \<Rightarrow> py_datetime \<Rightarrow>
   py_datetime option \<Rightarrow> uuid option \<Rightarrow> ('r, subscription) bprog" where
  "create_subscription_row env actor org license_id plan_id status cycle start period_end trial_end coupon_id =
     insert_row env actor subscriptions subscriptions_update (\<lambda>t. distinct (map s_organization_id t))
       (subscription.fields org license_id plan_id status cycle start period_end trial_end True False start None coupon_id
          None None None)"

definition get_subscription_by_organization_id :: "uuid \<Rightarrow> billing_db \<Rightarrow> subscription option" where
  "get_subscription_by_organization_id org db = first_row (\<lambda>s. s_organization_id s = org) (subscriptions db)"

definition list_by_status :: "SubscriptionStatus list \<Rightarrow> billing_db \<Rightarrow> subscription list" where
  "list_by_status sts db = get_all (\<lambda>s. s_status s \<in> set sts) created_at DESC False None (subscriptions db)"

text \<open>The two hand-written sweep queries; SQL returns their rows in no particular order, here
  in insertion order.\<close>

definition lapsed_non_renewing :: "py_datetime \<Rightarrow> subscription \<Rightarrow> bool" where
  "lapsed_non_renewing now s \<longleftrightarrow>
     \<not> is_deleted s \<and> \<not> s_auto_renew s \<and> s_billing_cycle s \<in> set CYCLIC_BILLING_CYCLES \<and>
     s_status s \<in> {SUB_ACTIVE, TRIALING} \<and> instant (s_current_period_end s) \<le> instant now"

definition due_for_renewal :: "py_datetime \<Rightarrow> subscription \<Rightarrow> bool" where
  "due_for_renewal now s \<longleftrightarrow>
     \<not> is_deleted s \<and> s_auto_renew s \<and> s_billing_cycle s \<in> set CYCLIC_BILLING_CYCLES \<and>
     s_status s \<in> set RENEWABLE_SUBSCRIPTION_STATUSES \<and> instant (s_current_period_end s) \<le> instant now"

definition list_lapsed_non_renewing :: "py_datetime \<Rightarrow> billing_db \<Rightarrow> subscription list" where
  "list_lapsed_non_renewing now db = filter (lapsed_non_renewing now) (subscriptions db)"

definition list_due_for_renewal :: "py_datetime \<Rightarrow> billing_db \<Rightarrow> subscription list" where
  "list_due_for_renewal now db = filter (due_for_renewal now) (subscriptions db)"

definition get_coupon_by_code :: "string \<Rightarrow> billing_db \<Rightarrow> coupon option" where
  "get_coupon_by_code code db = first_row (\<lambda>c. c_code c = code) (coupons db)"

definition applicable_associations :: "uuid \<Rightarrow> billing_db \<Rightarrow> coupon_plan list" where
  "applicable_associations coupon_id db =
     get_all (\<lambda>a. cp_coupon_id a = coupon_id) created_at DESC False None (coupon_plans db)"

definition list_applicable_plan_ids :: "uuid \<Rightarrow> billing_db \<Rightarrow> uuid list" where
  "list_applicable_plan_ids coupon_id db = map cp_plan_id (applicable_associations coupon_id db)"

definition set_applicable_plans :: "'r billing_env \<Rightarrow> uuid \<Rightarrow> uuid list \<Rightarrow> ('r, unit) bprog" where
  "set_applicable_plans env coupon_id plan_ids =
     andthen (reads_db (applicable_associations coupon_id)) (\<lambda>old.
     andthen (for_each (\<lambda>a _. modifies_db (coupon_plans_update (delete_row a))) old ()) (\<lambda>_.
     for_each (\<lambda>p _. andthen (insert_row env None coupon_plans coupon_plans_update
         (\<lambda>t. distinct (map (\<lambda>a. (cp_coupon_id a, cp_plan_id a)) t)) (coupon_plan.fields coupon_id p)) (\<lambda>_. ret ()))
       plan_ids ()))"

text \<open>One \<open>UPDATE\<close> evaluated by the server: the row is counted from its stored value.\<close>

definition increment_current_uses :: "uuid \<Rightarrow> ('r, unit) bprog" where
  "increment_current_uses coupon_id =
     modifies_db (coupons_update (map (\<lambda>c. if row_id c = coupon_id
       then c\<lparr>c_current_uses := c_current_uses c + 1, version := version c + 1\<rparr> else c)))"

definition create_coupon_usage ::
  "'r billing_env \<Rightarrow> uuid \<Rightarrow> uuid \<Rightarrow> uuid option \<Rightarrow> py_datetime \<Rightarrow> rat \<Rightarrow> ('r, coupon_usage) bprog" where
  "create_coupon_usage env coupon_id org subscription_id used_at amount =
     insert_row env None coupon_usages coupon_usages_update (\<lambda>_. True)
       (coupon_usage.fields coupon_id org subscription_id used_at amount)"

definition get_usage_for_subscription :: "uuid \<Rightarrow> billing_db \<Rightarrow> coupon_usage option" where
  "get_usage_for_subscription subscription_id db =
     (case get_all (\<lambda>u. cu_subscription_id u = Some subscription_id) (\<lambda>u. instant (cu_used_at u)) ASC False (Some 1)
             (coupon_usages db) of [] \<Rightarrow> None | u # _ \<Rightarrow> Some u)"

definition create_payment ::
  "'r billing_env \<Rightarrow> uuid option \<Rightarrow> uuid \<Rightarrow> uuid option \<Rightarrow> rat \<Rightarrow> string \<Rightarrow> string \<Rightarrow> string \<Rightarrow> ('r, payment) bprog" where
  "create_payment env actor org subscription_id amount currency provider key =
     insert_row env actor payments payments_update (\<lambda>t. distinct (map pay_idempotency_key t))
       (payment.fields org subscription_id amount currency PENDING provider None key None 0 None None)"

definition get_payment_by_idempotency_key :: "string \<Rightarrow> billing_db \<Rightarrow> payment option" where
  "get_payment_by_idempotency_key key db = first_row (\<lambda>p. pay_idempotency_key p = key) (payments db)"

definition get_payment_by_provider_payment_id :: "string \<Rightarrow> billing_db \<Rightarrow> payment option" where
  "get_payment_by_provider_payment_id pid db = first_row (\<lambda>p. pay_provider_payment_id p = Some pid) (payments db)"

definition get_payment_by_razorpay_order_id :: "string \<Rightarrow> billing_db \<Rightarrow> payment option" where
  "get_payment_by_razorpay_order_id oid db = first_row (\<lambda>p. pay_razorpay_order_id p = Some oid) (payments db)"

definition list_failed_payments :: "uuid option \<Rightarrow> billing_db \<Rightarrow> payment list" where
  "list_failed_payments org db =
     get_all (\<lambda>p. pay_status p = FAILED \<and> (case org of None \<Rightarrow> True | Some i \<Rightarrow> pay_organization_id p = i))
       created_at DESC False None (payments db)"

definition create_payment_method ::
  "'r billing_env \<Rightarrow> uuid option \<Rightarrow> uuid \<Rightarrow> string \<Rightarrow> string \<Rightarrow> PaymentMethodType \<Rightarrow> string option \<Rightarrow> ('r, payment_method) bprog" where
  "create_payment_method env actor org provider token ty last4 =
     insert_row env actor payment_methods payment_methods_update
       (\<lambda>t. distinct (map (\<lambda>m. (pm_organization_id m, pm_provider m, pm_provider_payment_method_id m)) t))
       (payment_method.fields org provider token ty last4 False True)"

definition list_payment_methods :: "uuid \<Rightarrow> billing_db \<Rightarrow> payment_method list" where
  "list_payment_methods org db =
     get_all (\<lambda>m. pm_organization_id m = org \<and> pm_is_active m) created_at DESC False None (payment_methods db)"

definition get_default_payment_method :: "uuid \<Rightarrow> billing_db \<Rightarrow> payment_method option" where
  "get_default_payment_method org db =
     first_row (\<lambda>m. pm_organization_id m = org \<and> pm_is_default m \<and> pm_is_active m) (payment_methods db)"

definition set_as_default :: "'r billing_env \<Rightarrow> payment_method \<Rightarrow> ('r, payment_method) bprog" where
  "set_as_default env m =
     andthen (modifies_db (payment_methods_update (map (\<lambda>q.
       if pm_organization_id q = pm_organization_id m \<and> row_id q \<noteq> row_id m \<and> pm_is_default q
       then q\<lparr>pm_is_default := False\<rparr> else q)))) (\<lambda>_.
     save_row env payment_methods_update m (\<lambda>q. q\<lparr>pm_is_default := True\<rparr>))"

text \<open>The upsert of \<open>NumberCounterRepository\<close> (theory \<open>Billing\<close>) on the counters of this database,
  and the number it is formatted into.\<close>

definition next_document_number :: "document_kind \<Rightarrow> py_datetime \<Rightarrow> ('r, string) bprog" where
  "next_document_number kind moment =
     (\<lambda>(db, w). case generate_number kind (nat (dt_year moment)) (number_counters db, w) of
        (r, (t, w')) \<Rightarrow> (r, (db\<lparr>number_counters := t\<rparr>, w')))"

definition get_active_tax_rate :: "string \<Rightarrow> billing_db \<Rightarrow> tax_rate option" where
  "get_active_tax_rate country db = first_row (\<lambda>t. tr_country_code t = country \<and> tr_is_active t) (tax_rates db)"

definition get_profile_by_organization_id :: "uuid \<Rightarrow> billing_db \<Rightarrow> billing_profile option" where
  "get_profile_by_organization_id org db = first_row (\<lambda>p. bp_organization_id p = org) (billing_profiles db)"

definition list_unpaid_for_subscription :: "uuid \<Rightarrow> billing_db \<Rightarrow> invoice list" where
  "list_unpaid_for_subscription subscription_id db =
     get_all (\<lambda>i. i_subscription_id i = Some subscription_id \<and> i_status i \<in> {INVOICE_ISSUED, INVOICE_OVERDUE})
       (\<lambda>i. instant (i_issue_date i)) DESC False None (invoices db)"

definition has_discounted_invoice :: "uuid \<Rightarrow> billing_db \<Rightarrow> bool" where
  "has_discounted_invoice subscription_id db =
     exists_row (\<lambda>i. i_subscription_id i = Some subscription_id \<and> i_status i \<notin> {INVOICE_VOID, INVOICE_CANCELLED} \<and>
       0 < i_discount_amount i) False (invoices db)"

definition list_issued_past_due :: "py_datetime \<Rightarrow> billing_db \<Rightarrow> invoice list" where
  "list_issued_past_due now db =
     filter (\<lambda>i. \<not> is_deleted i \<and> i_status i = INVOICE_ISSUED \<and> instant (i_due_date i) \<le> instant now) (invoices db)"

definition list_items :: "uuid \<Rightarrow> billing_db \<Rightarrow> invoice_item list" where
  "list_items invoice_id db = get_all (\<lambda>i. ii_invoice_id i = invoice_id) created_at ASC False None (invoice_items db)"

definition list_notes :: "uuid \<Rightarrow> billing_db \<Rightarrow> credit_debit_note list" where
  "list_notes invoice_id db =
     get_all (\<lambda>n. n_invoice_id n = invoice_id) (\<lambda>n. instant (n_issued_at n)) DESC False None (credit_debit_notes db)"

definition list_feature_overrides :: "uuid \<Rightarrow> billing_db \<Rightarrow> feature_override list" where
  "list_feature_overrides org db =
     get_all (\<lambda>f. fo_organization_id f = org) created_at DESC False None (feature_overrides db)"

definition list_powered_by_disabled :: "uuid \<Rightarrow> billing_db \<Rightarrow> portal_config list" where
  "list_powered_by_disabled org db =
     filter (\<lambda>c. pc_organization_id c = org \<and> \<not> pc_powered_by_enabled c \<and> \<not> is_deleted c) (portal_configs db)"

definition get_organization :: "uuid \<Rightarrow> ('r, organization) bprog" where
  "get_organization org =
     andthen (reads_db (\<lambda>db. get_by_id False org (organizations db))) (\<lambda>o'.
     orelse o' (OrganizationNotFoundError org))"


section \<open>Lemmas\<close>

text \<open>Reading the clocks, and calling out, leave the database as it is.\<close>

lemma moves_andthen_py_now [simp]:
  "moves R (andthen (py_now env) f) db w = moves R (f (time_at env (w_clock w))) db (w\<lparr>w_clock := Suc (w_clock w)\<rparr>)"
  and moves_andthen_uuid4 [simp]:
  "moves R (andthen (uuid4 env) f') db w = moves R (f' (uuid_at env (w_supply w))) db (w\<lparr>w_supply := Suc (w_supply w)\<rparr>)"
  and moves_andthen_db_now [simp]:
  "moves R (andthen (db_now env) g) db w = moves R (g (instant (time_at env (w_clock w)))) db w"
  by (simp_all add: moves_def py_now_def uuid4_def db_now_def prog_simps)

lemma py_now_Inr [simp]:
  "py_now env (db, w) = (Inr t, s') \<longleftrightarrow> t = time_at env (w_clock w) \<and> s' = (db, w\<lparr>w_clock := Suc (w_clock w)\<rparr>)"
  and py_now_Inl [simp]: "py_now env (db, w) = (Inl e, s') \<longleftrightarrow> False"
  and uuid4_Inr [simp]:
  "uuid4 env (db, w) = (Inr i, s') \<longleftrightarrow> i = uuid_at env (w_supply w) \<and> s' = (db, w\<lparr>w_supply := Suc (w_supply w)\<rparr>)"
  and uuid4_Inl [simp]: "uuid4 env (db, w) = (Inl e, s') \<longleftrightarrow> False"
  and db_now_Inr [simp]: "db_now env (db, w) = (Inr n, s') \<longleftrightarrow> n = instant (time_at env (w_clock w)) \<and> s' = (db, w)"
  and db_now_Inl [simp]: "db_now env (db, w) = (Inl e, s') \<longleftrightarrow> False"
  by (auto simp: py_now_def uuid4_def db_now_def andthen_Inr andthen_Inl)

lemma call_provider_Inr [simp]:
  "call_provider env c (db, w) = (Inr v, s') \<longleftrightarrow>
     v = provider_api env (w_calls w) c \<and> s' = (db, w\<lparr>w_calls := w_calls w @ [c]\<rparr>)"
  and call_provider_Inl [simp]: "call_provider env c (db, w) = (Inl e, s') \<longleftrightarrow> False"
  by (auto simp: call_provider_def andthen_Inr andthen_Inl)

lemma save_row_Inr [simp]:
  "save_row env upd inst data (db, w) = (Inr r, s') \<longleftrightarrow>
     r = assign (instant (time_at env (w_clock w))) data (version inst) inst \<and>
     s' = (upd (update_row (instant (time_at env (w_clock w))) data inst) db, w)"
  and save_row_Inl [simp]: "save_row env upd inst data (db, w) = (Inl e, s') \<longleftrightarrow> False"
  by (auto simp: save_row_def andthen_Inr andthen_Inl)

lemma insert_row_Inr:
  "insert_row env actor get upd uniq columns (db, w) = (Inr r, (db', w')) \<longleftrightarrow>
     r = base_model.extend (new_base (uuid_at env (w_supply w)) (instant (time_at env (w_clock w))) actor) columns \<and>
     create_row uniq r (get db) = Inr (get db @ [r]) \<and> db' = upd (\<lambda>_. get db @ [r]) db \<and>
     w' = w\<lparr>w_supply := Suc (w_supply w)\<rparr>"
  by (auto simp: insert_row_def andthen_Inr Let_def create_row_def split: sum.splits if_splits)

lemma insert_row_Inl:
  "insert_row env actor get upd uniq columns (db, w) = (Inl e, (db', w')) \<Longrightarrow> db' = db \<and> e = BillingDbError DuplicateRecordError"
  by (auto simp: insert_row_def andthen_Inr andthen_Inl Let_def create_row_def split: sum.splits if_splits)

lemma write_audit_run [simp]:
  "write_audit actor action ty entity description metadata org (db, w) = (Inr u, s') \<longleftrightarrow>
     s' = (audit_log_update (\<lambda>t. t @ [\<lparr>ae_actor_user_id = actor, ae_action = action, ae_entity_type = ty,
       ae_entity_id = entity, ae_description = description, ae_metadata = metadata, ae_organization_id = org,
       ae_location_id = None\<rparr>]) db, w)"
  and write_audit_Inl [simp]:
  "write_audit actor action ty entity description metadata org (db, w) = (Inl e, s') \<longleftrightarrow> False"
  by (simp_all add: write_audit_def)

end
