(* ===== verification/Usage.thy ===== *)
theory Usage
  imports BillingData
begin

section \<open>Usage metrics\<close>

text \<open>
  \<open>UsageService\<close> of \<open>app/domains/billing/service.py\<close>. The figures it composes from other domains
  (locations, routers, sessions, the guest summary, one-time codes per channel) are one read
  of the environment at the moment of the call; the organizations are rows of this database.
\<close>

fun UsageMetricKey_value :: "UsageMetricKey \<Rightarrow> string" where
  "UsageMetricKey_value ORGANIZATIONS = ''organizations''"
| "UsageMetricKey_value LOCATIONS = ''locations''"
| "UsageMetricKey_value ROUTERS = ''routers''"
| "UsageMetricKey_value ACTIVE_DEVICES = ''active_devices''"
| "UsageMetricKey_value GUESTS = ''guests''"
| "UsageMetricKey_value GUEST_SESSIONS = ''guest_sessions''"
| "UsageMetricKey_value OTP_REQUESTS = ''otp_requests''"
| "UsageMetricKey_value SMS_USAGE = ''sms_usage''"
| "UsageMetricKey_value EMAIL_USAGE = ''email_usage''"
| "UsageMetricKey_value STORAGE_USAGE_MB = ''storage_usage_mb''"
| "UsageMetricKey_value API_REQUESTS = ''api_requests''"
| "UsageMetricKey_value BANDWIDTH_USAGE_MB = ''bandwidth_usage_mb''"

fun USAGE_METRIC_TO_LIMIT_FEATURE :: "UsageMetricKey \<Rightarrow> PlanFeatureKey option" where
  "USAGE_METRIC_TO_LIMIT_FEATURE ORGANIZATIONS = Some MAX_ORGANIZATIONS"
| "USAGE_METRIC_TO_LIMIT_FEATURE LOCATIONS = Some MAX_LOCATIONS"
| "USAGE_METRIC_TO_LIMIT_FEATURE ROUTERS = Some MAX_ROUTERS"
| "USAGE_METRIC_TO_LIMIT_FEATURE GUESTS = Some MAX_GUESTS"
| "USAGE_METRIC_TO_LIMIT_FEATURE SMS_USAGE = Some SMS_QUOTA"
| "USAGE_METRIC_TO_LIMIT_FEATURE EMAIL_USAGE = Some EMAIL_QUOTA"
| "USAGE_METRIC_TO_LIMIT_FEATURE STORAGE_USAGE_MB = Some STORAGE_QUOTA_MB"
| "USAGE_METRIC_TO_LIMIT_FEATURE _ = None"

definition BYTES_PER_MB :: nat where
  "BYTES_PER_MB = 1024 * 1024"

definition get_current_period_metric :: "uuid \<Rightarrow> UsageMetricKey \<Rightarrow> py_datetime \<Rightarrow> billing_db \<Rightarrow> usage_metric option" where
  "get_current_period_metric org k start db =
     first_row (\<lambda>m. um_organization_id m = org \<and> um_metric_key m = k \<and> instant (um_period_start m) = instant start)
       (usage_metrics db)"

definition list_current_period_metrics :: "uuid \<Rightarrow> py_datetime \<Rightarrow> billing_db \<Rightarrow> usage_metric list" where
  "list_current_period_metrics org start db =
     get_all (\<lambda>m. um_organization_id m = org \<and> instant (um_period_start m) = instant start)
       (\<lambda>m. UsageMetricKey_value (um_metric_key m)) ASC False None (usage_metrics db)"

definition create_usage_metric ::
  "'r billing_env \<Rightarrow> uuid \<Rightarrow> UsageMetricKey \<Rightarrow> py_datetime \<Rightarrow> py_datetime \<Rightarrow> rat \<Rightarrow> py_datetime \<Rightarrow> ('r, usage_metric) bprog" where
  "create_usage_metric env org k start period_end v now =
     insert_row env None usage_metrics usage_metrics_update (\<lambda>_. True)
       (usage_metric.fields org k start period_end v now)"

definition is_msp :: "organization \<Rightarrow> bool" where
  "is_msp o' \<longleftrightarrow> org_type o' = ''msp''"

definition list_children :: "uuid \<Rightarrow> billing_db \<Rightarrow> organization list" where
  "list_children org db =
     get_all (\<lambda>o'. org_parent_organization_id o' = Some org) org_name ASC False None (organizations db)"

text \<open>The dictionary of values in the order of the code; \<open>channels.get(key, 0)\<close> reads the last
  pair of a key.\<close>

definition channel_count :: "usage_reading \<Rightarrow> string \<Rightarrow> rat" where
  "channel_count u channel = of_nat (case map_of (rev (ur_otp_by_channel u)) channel of None \<Rightarrow> 0 | Some n \<Rightarrow> n)"

definition usage_values :: "usage_reading \<Rightarrow> nat \<Rightarrow> (UsageMetricKey \<times> rat) list" where
  "usage_values u children =
     (let sms = channel_count u ''sms''; email = channel_count u ''email''
      in [(ORGANIZATIONS, of_nat (1 + children)), (LOCATIONS, of_nat (ur_locations u)), (ROUTERS, of_nat (ur_routers u)),
          (ACTIVE_DEVICES, of_nat (ur_active_sessions u)), (GUESTS, of_nat (ur_unique_guests u)),
          (GUEST_SESSIONS, of_nat (ur_visitors u)), (OTP_REQUESTS, sms + email), (SMS_USAGE, sms), (EMAIL_USAGE, email),
          (STORAGE_USAGE_MB, 0), (API_REQUESTS, 0),
          (BANDWIDTH_USAGE_MB, quantize_cents (of_nat (ur_total_bandwidth_bytes u) / of_nat BYTES_PER_MB))])"

definition usage_read :: "'r billing_env \<Rightarrow> uuid \<Rightarrow> py_datetime \<Rightarrow> py_datetime \<Rightarrow> ('r, usage_reading) bprog" where
  "usage_read env org start period_end = reads_world (\<lambda>w. usage_reads env (w_clock w) org start period_end)"

definition record_metric ::
  "'r billing_env \<Rightarrow> uuid \<Rightarrow> py_datetime \<Rightarrow> py_datetime \<Rightarrow> py_datetime \<Rightarrow> UsageMetricKey \<times> rat \<Rightarrow> ('r, usage_metric) bprog" where
  "record_metric env org start period_end now kv =
     (case kv of (k, v) \<Rightarrow>
        andthen (reads_db (get_current_period_metric org k start)) (\<lambda>existing.
        case existing of
          Some m \<Rightarrow> save_row env usage_metrics_update m (\<lambda>r. r\<lparr>um_value := v, um_period_end := period_end, um_recorded_at := now\<rparr>)
        | None \<Rightarrow> create_usage_metric env org k start period_end v now))"

definition record_current_usage :: "'r billing_env \<Rightarrow> uuid \<Rightarrow> ('r, usage_metric list) bprog" where
  "record_current_usage env org =
     andthen (py_now env) (\<lambda>now.
     andthen (lift_result (map_sum ValidatorError id (current_month_period now))) (\<lambda>(start, period_end).
     andthen (get_organization org) (\<lambda>o'.
     andthen (if is_msp o' then reads_db (list_children org) else ret []) (\<lambda>children.
     andthen (usage_read env org start period_end) (\<lambda>u.
     for_each (\<lambda>kv results.
       andthen (record_metric env org start period_end now kv) (\<lambda>m. ret (results @ [m])))
       (usage_values u (length children)) [])))))"

definition get_current_usage :: "'r billing_env \<Rightarrow> uuid \<Rightarrow> ('r, usage_metric list) bprog" where
  "get_current_usage env org =
     andthen (py_now env) (\<lambda>now.
     andthen (lift_result (map_sum ValidatorError id (current_month_period now))) (\<lambda>(start, period_end).
     andthen (reads_db (list_current_period_metrics org start)) (\<lambda>existing.
     if existing \<noteq> [] then ret existing else record_current_usage env org)))"

definition limit_values_for_plan :: "uuid \<Rightarrow> billing_db \<Rightarrow> (PlanFeatureKey \<times> rat) list" where
  "limit_values_for_plan plan_id db =
     List.map_filter (\<lambda>f. if pf_feature_type f = LIMIT then map_option (\<lambda>v. (pf_feature_key f, v)) (pf_limit_value f) else None)
       (list_plan_features plan_id db)"

text \<open>The limit a metric is held against; a dictionary keeps the last value of a key.\<close>

definition metric_limit :: "(PlanFeatureKey \<times> rat) list \<Rightarrow> usage_metric \<Rightarrow> rat option" where
  "metric_limit limits m =
     (case USAGE_METRIC_TO_LIMIT_FEATURE (um_metric_key m) of None \<Rightarrow> None | Some k \<Rightarrow> map_of (rev limits) k)"

definition check_usage_against_plan :: "'r billing_env \<Rightarrow> uuid \<Rightarrow> uuid \<Rightarrow> ('r, string list) bprog" where
  "check_usage_against_plan env org plan_id =
     andthen (record_current_usage env org) (\<lambda>metrics.
     andthen (reads_db (limit_values_for_plan plan_id)) (\<lambda>limits.
     ret (map (\<lambda>m. UsageMetricKey_value (um_metric_key m))
       (filter (\<lambda>m. case metric_limit limits m of None \<Rightarrow> False | Some v \<Rightarrow> v < um_value m) metrics))))"

record usage_limit_check =
  uc_metric_key :: UsageMetricKey
  uc_current_value :: rat
  uc_limit_value :: rat
  uc_exceeded :: bool

definition validate_usage_against_license ::
  "'r billing_env \<Rightarrow> uuid \<Rightarrow> ('r, usage_metric list \<times> usage_limit_check list) bprog" where
  "validate_usage_against_license env org =
     andthen (reads_db (get_license_by_organization_id org)) (\<lambda>found.
     andthen (orelse found (LicenseNotFoundError org)) (\<lambda>l.
     andthen (get_current_usage env org) (\<lambda>metrics.
     andthen (reads_db (limit_values_for_plan (l_plan_id l))) (\<lambda>limits.
     ret (metrics, List.map_filter (\<lambda>m. map_option (\<lambda>v.
       \<lparr>uc_metric_key = um_metric_key m, uc_current_value = um_value m, uc_limit_value = v, uc_exceeded = (v < um_value m)\<rparr>)
         (metric_limit limits m)) metrics)))))"

end
