(* ===== verification/License.thy ===== *)
theory License
  imports Usage
begin

section \<open>Plans, licenses and entitlements\<close>

text \<open>
  \<open>PlanService\<close>, \<open>LicenseService\<close> and \<open>EntitlementChecker\<close> of \<open>app/domains/billing/service.py\<close>, the
  request gates of \<open>dependencies.py\<close> and the attribution reset of the captive portal that a
  downgrade triggers. The optional collaborators of \<open>LicenseService\<close> are the record
  \<open>license_deps\<close>; \<open>http_deps\<close> and \<open>sweep_deps\<close> are the two ways the billing domain wires it. Audit rows are always written, as
  in both wirings; log lines are not modelled.
\<close>

subsection \<open>Plans\<close>

definition get_plan :: "bool \<Rightarrow> uuid \<Rightarrow> ('r, plan) bprog" where
  "get_plan include_deleted plan_id =
     andthen (reads_db (\<lambda>db. get_by_id include_deleted plan_id (plans db))) (\<lambda>p.
     orelse p (PlanNotFoundError plan_id))"

definition audit_plan :: "uuid option \<Rightarrow> string \<Rightarrow> uuid \<Rightarrow> string \<Rightarrow> ('r, unit) bprog" where
  "audit_plan actor action plan_id description = write_audit actor action ''plan'' (Some plan_id) description [] None"

definition validate_features :: "feature_input list \<Rightarrow> ('r, unit) bprog" where
  "validate_features fs =
     for_each (\<lambda>f _. lift_result (map_sum ValidatorError id
       (validate_feature_value (fi_feature_key f) (fi_feature_type f) (fi_limit_value f) (fi_is_enabled f)
          (fi_tier_value f)))) fs ()"

definition create_features :: "'r billing_env \<Rightarrow> uuid \<Rightarrow> feature_input list \<Rightarrow> ('r, unit) bprog" where
  "create_features env plan_id fs =
     andthen (for_each (\<lambda>f seen.
       andthen (guard (fi_feature_key f \<notin> set seen) (DuplicatePlanFeatureError plan_id (fi_feature_key f))) (\<lambda>_.
       andthen (create_plan_feature env plan_id f) (\<lambda>_. ret (fi_feature_key f # seen)))) fs []) (\<lambda>_. ret ())"

definition create_plan ::
  "'r billing_env \<Rightarrow> uuid option \<Rightarrow> string \<Rightarrow> string \<Rightarrow> PlanType \<Rightarrow> string option \<Rightarrow> string \<Rightarrow> rat \<Rightarrow> string \<Rightarrow> bool \<Rightarrow> bool \<Rightarrow>
   int \<Rightarrow> feature_input list \<Rightarrow> ('r, plan) bprog" where
  "create_plan env actor name slug ty description cycle price currency active public order features =
     (let normalized = normalize_slug slug
      in andthen (reads_db (get_plan_by_slug normalized)) (\<lambda>existing.
         andthen (guard (existing = None) (DuplicatePlanSlugError normalized)) (\<lambda>_.
         andthen (validate_features features) (\<lambda>_.
         andthen (create_plan_row env actor name normalized ty description cycle price currency active public order) (\<lambda>p.
         andthen (create_features env (row_id p) features) (\<lambda>_.
         andthen (audit_plan actor ''plan_created'' (row_id p) (''Plan '' @ quoted (p_name p) @ '' created'')) (\<lambda>_.
         ret p)))))))"

text \<open>The columns a \<open>PlanUpdateRequest\<close> may carry; \<open>None\<close> is a column that was not sent.\<close>

record plan_data =
  pd_name :: "string option"
  pd_description :: "string option option"
  pd_billing_cycle :: "string option"
  pd_base_price :: "rat option"
  pd_currency :: "string option"
  pd_is_active :: "bool option"
  pd_is_public :: "bool option"
  pd_sort_order :: "int option"

definition sent :: "'a option \<Rightarrow> 'a \<Rightarrow> 'a" where
  "sent v old = (case v of None \<Rightarrow> old | Some new \<Rightarrow> new)"

definition put_plan_data :: "plan_data \<Rightarrow> plan \<Rightarrow> plan" where
  "put_plan_data d p =
     p\<lparr>p_name := sent (pd_name d) (p_name p), p_description := sent (pd_description d) (p_description p),
       p_billing_cycle := sent (pd_billing_cycle d) (p_billing_cycle p),
       p_base_price := sent (pd_base_price d) (p_base_price p), p_currency := sent (pd_currency d) (p_currency p),
       p_is_active := sent (pd_is_active d) (p_is_active p), p_is_public := sent (pd_is_public d) (p_is_public p),
       p_sort_order := sent (pd_sort_order d) (p_sort_order p)\<rparr>"

definition update_plan ::
  "'r billing_env \<Rightarrow> uuid option \<Rightarrow> uuid \<Rightarrow> plan_data \<Rightarrow> feature_input list option \<Rightarrow> ('r, plan) bprog" where
  "update_plan env actor plan_id data features =
     andthen (get_plan False plan_id) (\<lambda>p.
     andthen (save_row env plans_update p (\<lambda>r. (put_plan_data data r)\<lparr>updated_by := actor\<rparr>)) (\<lambda>updated.
     andthen (case features of
         None \<Rightarrow> ret ()
       | Some fs \<Rightarrow>
           andthen (validate_features fs) (\<lambda>_.
           andthen (delete_plan_features plan_id) (\<lambda>_.
           create_features env plan_id fs))) (\<lambda>_.
     andthen (audit_plan actor ''plan_updated'' (row_id updated) (''Plan '' @ quoted (p_name updated) @ '' updated'')) (\<lambda>_.
     ret updated))))"

definition deactivate_plan :: "'r billing_env \<Rightarrow> uuid option \<Rightarrow> uuid \<Rightarrow> ('r, plan) bprog" where
  "deactivate_plan env actor plan_id =
     andthen (get_plan False plan_id) (\<lambda>p.
     andthen (save_row env plans_update p (\<lambda>r. r\<lparr>p_is_active := False, updated_by := actor\<rparr>)) (\<lambda>updated.
     andthen (hide_row env plans_update updated) (\<lambda>hidden.
     andthen (audit_plan actor ''plan_deactivated'' (row_id hidden)
       (''Plan '' @ quoted (p_name hidden) @ '' deactivated'')) (\<lambda>_.
     ret hidden))))"


subsection \<open>The license lifecycle\<close>

fun LICENSE_TRANSITIONS :: "LicenseStatus \<Rightarrow> LicenseStatus list" where
  "LICENSE_TRANSITIONS PENDING_ACTIVATION = [LICENSE_ACTIVE, LICENSE_CANCELLED]"
| "LICENSE_TRANSITIONS LICENSE_ACTIVE = [LICENSE_SUSPENDED, LICENSE_EXPIRED, LICENSE_CANCELLED]"
| "LICENSE_TRANSITIONS LICENSE_SUSPENDED = [LICENSE_ACTIVE, LICENSE_EXPIRED, LICENSE_CANCELLED]"
| "LICENSE_TRANSITIONS LICENSE_EXPIRED = []"
| "LICENSE_TRANSITIONS LICENSE_CANCELLED = []"

definition assert_transition :: "LicenseStatus \<Rightarrow> LicenseStatus \<Rightarrow> ('r, unit) bprog" where
  "assert_transition current target =
     guard (target \<in> set (LICENSE_TRANSITIONS current))
       (InvalidLicenseStatusTransitionError current (LicenseStatus_value target))"

record license_deps =
  has_organization_sync :: bool
  has_usage_validator :: bool
  has_entitlement_cache :: bool
  has_white_label_reset :: bool
  has_subscription_repository :: bool
  has_feature_overrides :: bool

definition http_deps :: license_deps where
  "http_deps =
     \<lparr>has_organization_sync = True, has_usage_validator = True, has_entitlement_cache = True,
      has_white_label_reset = True, has_subscription_repository = True, has_feature_overrides = True\<rparr>"

definition sweep_deps :: "license_deps" where
  "sweep_deps =
     \<lparr>has_organization_sync = False, has_usage_validator = False, has_entitlement_cache = False,
      has_white_label_reset = False, has_subscription_repository = False, has_feature_overrides = False\<rparr>"

definition get_license :: "uuid \<Rightarrow> uuid option \<Rightarrow> ('r, license) bprog" where
  "get_license license_id org =
     andthen (reads_db (\<lambda>db. get_by_id False license_id (licenses db))) (\<lambda>found.
     case found of
       None \<Rightarrow> raise (LicenseNotFoundError license_id)
     | Some l \<Rightarrow>
         if org \<noteq> None \<and> org \<noteq> Some (l_organization_id l) then raise (LicenseNotFoundError license_id)
         else ret l)"

definition get_license_for_organization :: "uuid \<Rightarrow> ('r, license) bprog" where
  "get_license_for_organization org =
     andthen (reads_db (get_license_by_organization_id org)) (\<lambda>l. orelse l (LicenseNotFoundError org))"

definition invalidate_entitlement_cache :: "license_deps \<Rightarrow> 'r billing_env \<Rightarrow> uuid \<Rightarrow> ('r, unit) bprog" where
  "invalidate_entitlement_cache deps env org =
     (if has_entitlement_cache deps then cache_invalidate env org else ret ())"

definition list_change_history :: "uuid \<Rightarrow> uuid option \<Rightarrow> ('r, license_change_log list) bprog" where
  "list_change_history license_id requesting =
     andthen (get_license license_id requesting) (\<lambda>_. reads_db (list_change_logs license_id))"

definition get_active_plan :: "uuid \<Rightarrow> ('r, plan) bprog" where
  "get_active_plan plan_id =
     andthen (reads_db (\<lambda>db. get_by_id False plan_id (plans db))) (\<lambda>found.
     andthen (orelse found (PlanNotFoundError plan_id)) (\<lambda>p.
     andthen (guard (p_is_active p) (PlanInactiveError plan_id)) (\<lambda>_.
     ret p)))"

definition sync_subscription_plan :: "license_deps \<Rightarrow> 'r billing_env \<Rightarrow> uuid \<Rightarrow> plan \<Rightarrow> ('r, unit) bprog" where
  "sync_subscription_plan deps env org new_plan =
     (if \<not> has_subscription_repository deps then ret ()
      else andthen (reads_db (get_subscription_by_organization_id org)) (\<lambda>found.
        case found of
          None \<Rightarrow> ret ()
        | Some s \<Rightarrow>
            if s_plan_id s = row_id new_plan \<and> s_billing_cycle s = p_billing_cycle new_plan then ret ()
            else andthen (save_row env subscriptions_update s
                   (\<lambda>r. r\<lparr>s_plan_id := row_id new_plan, s_billing_cycle := p_billing_cycle new_plan\<rparr>)) (\<lambda>_. ret ())))"

text \<open>\<open>OrganizationService.sync_subscription_tier\<close> writes the one column.\<close>

definition sync_subscription_tier :: "license_deps \<Rightarrow> 'r billing_env \<Rightarrow> uuid \<Rightarrow> string \<Rightarrow> ('r, unit) bprog" where
  "sync_subscription_tier deps env org slug =
     (if has_organization_sync deps
      then andthen (get_organization org) (\<lambda>o'.
           andthen (save_row env organizations_update o' (\<lambda>r. r\<lparr>org_subscription_tier := Some slug\<rparr>)) (\<lambda>_. ret ()))
      else ret ())"

definition audit_license :: "uuid option \<Rightarrow> string \<Rightarrow> license \<Rightarrow> string \<Rightarrow> ('r, unit) bprog" where
  "audit_license actor action l description =
     write_audit actor action ''license'' (Some (row_id l)) description [] (Some (l_organization_id l))"

definition assign_license ::
  "license_deps \<Rightarrow> 'r billing_env \<Rightarrow> uuid option \<Rightarrow> uuid \<Rightarrow> uuid \<Rightarrow> py_datetime option \<Rightarrow> ('r, license) bprog" where
  "assign_license deps env actor org plan_id expires_at =
     andthen (reads_db (get_license_by_organization_id org)) (\<lambda>existing.
     andthen (guard (existing = None) (DuplicateLicenseError org)) (\<lambda>_.
     andthen (get_active_plan plan_id) (\<lambda>p.
     andthen (create_license_row env actor org (row_id p) PENDING_ACTIVATION expires_at) (\<lambda>l.
     andthen (py_now env) (\<lambda>now.
     andthen (create_change_log env (row_id l) None (row_id p) ASSIGNED now actor None) (\<lambda>_.
     andthen (sync_subscription_tier deps env org (p_slug p)) (\<lambda>_.
     andthen (invalidate_entitlement_cache deps env org) (\<lambda>_.
     andthen (audit_license actor ''license_assigned'' l (''License assigned to organization '' @ org)) (\<lambda>_.
     ret l)))))))))"

definition activate_license ::
  "license_deps \<Rightarrow> 'r billing_env \<Rightarrow> uuid option \<Rightarrow> uuid \<Rightarrow> uuid option \<Rightarrow> ('r, license) bprog" where
  "activate_license deps env actor license_id requesting =
     andthen (get_license license_id requesting) (\<lambda>l.
     andthen (assert_transition (l_status l) LICENSE_ACTIVE) (\<lambda>_.
     andthen (py_now env) (\<lambda>now.
     andthen (save_row env licenses_update l (\<lambda>r.
       (if l_status l = LICENSE_SUSPENDED then r\<lparr>l_suspended_at := None, l_suspended_reason := None\<rparr> else r)
         \<lparr>l_status := LICENSE_ACTIVE, updated_by := actor,
          l_activated_at := (if l_activated_at l = None then Some now else l_activated_at r)\<rparr>)) (\<lambda>updated.
     andthen (invalidate_entitlement_cache deps env (l_organization_id updated)) (\<lambda>_.
     andthen (audit_license actor ''license_activated'' updated (''License '' @ row_id updated @ '' activated'')) (\<lambda>_.
     ret updated))))))"

definition suspend_license ::
  "license_deps \<Rightarrow> 'r billing_env \<Rightarrow> uuid option \<Rightarrow> uuid \<Rightarrow> uuid option \<Rightarrow> string \<Rightarrow> ('r, license) bprog" where
  "suspend_license deps env actor license_id requesting reason =
     andthen (get_license license_id requesting) (\<lambda>l.
     andthen (assert_transition (l_status l) LICENSE_SUSPENDED) (\<lambda>_.
     andthen (py_now env) (\<lambda>now.
     andthen (save_row env licenses_update l (\<lambda>r.
       r\<lparr>l_status := LICENSE_SUSPENDED, l_suspended_at := Some now, l_suspended_reason := Some reason,
         updated_by := actor\<rparr>)) (\<lambda>updated.
     andthen (invalidate_entitlement_cache deps env (l_organization_id updated)) (\<lambda>_.
     andthen (audit_license actor ''license_suspended'' updated
       (''License '' @ row_id updated @ '' suspended: '' @ reason)) (\<lambda>_.
     ret updated))))))"

definition cancel_license ::
  "license_deps \<Rightarrow> 'r billing_env \<Rightarrow> uuid option \<Rightarrow> uuid \<Rightarrow> uuid option \<Rightarrow> ('r, license) bprog" where
  "cancel_license deps env actor license_id requesting =
     andthen (get_license license_id requesting) (\<lambda>l.
     andthen (assert_transition (l_status l) LICENSE_CANCELLED) (\<lambda>_.
     andthen (py_now env) (\<lambda>now.
     andthen (save_row env licenses_update l (\<lambda>r.
       r\<lparr>l_status := LICENSE_CANCELLED, l_cancelled_at := Some now, updated_by := actor\<rparr>)) (\<lambda>updated.
     andthen (invalidate_entitlement_cache deps env (l_organization_id updated)) (\<lambda>_.
     andthen (audit_license actor ''license_cancelled'' updated (''License '' @ row_id updated @ '' cancelled'')) (\<lambda>_.
     ret updated))))))"

definition expire_license :: "license_deps \<Rightarrow> 'r billing_env \<Rightarrow> uuid \<Rightarrow> ('r, license) bprog" where
  "expire_license deps env license_id =
     andthen (get_license license_id None) (\<lambda>l.
     andthen (assert_transition (l_status l) LICENSE_EXPIRED) (\<lambda>_.
     andthen (save_row env licenses_update l (\<lambda>r. r\<lparr>l_status := LICENSE_EXPIRED\<rparr>)) (\<lambda>updated.
     andthen (invalidate_entitlement_cache deps env (l_organization_id updated)) (\<lambda>_.
     andthen (audit_license None ''license_expired'' updated (''License '' @ row_id updated @ '' expired'')) (\<lambda>_.
     ret updated)))))"

text \<open>\<open>PoweredByAttributionResetService\<close>; the captive portal's own cache is left out.\<close>

definition restore_powered_by_attribution ::
  "'r billing_env \<Rightarrow> uuid \<Rightarrow> uuid option \<Rightarrow> ('r, nat) bprog" where
  "restore_powered_by_attribution env org actor =
     andthen (reads_db (list_powered_by_disabled org)) (\<lambda>configs.
     andthen (for_each (\<lambda>c _.
       andthen (save_row env portal_configs_update c (\<lambda>r. r\<lparr>pc_powered_by_enabled := True, updated_by := actor\<rparr>)) (\<lambda>u.
       modifies_db (audit_log_update (\<lambda>t. t @
         [\<lparr>ae_actor_user_id = actor, ae_action = ''captive_portal_powered_by_restored'',
           ae_entity_type = ''captive_portal_config'', ae_entity_id = Some (row_id u),
           ae_description = ''Captive portal config '' @ quoted (pc_name u) @ '': '' @ quoted (''Powered by'') @
             '' attribution restored by license downgrade (white_label entitlement removed)'',
           ae_metadata = [(''is_active'', if pc_is_active u then ''True'' else ''False''),
             (''is_default'', if pc_is_default u then ''True'' else ''False'')],
           ae_organization_id = Some (pc_organization_id u), ae_location_id = pc_location_id u\<rparr>])))) configs ()) (\<lambda>_.
     ret (length configs)))"

definition enabled_boolean_feature :: "PlanFeatureKey \<Rightarrow> plan_feature \<Rightarrow> bool" where
  "enabled_boolean_feature k f \<longleftrightarrow>
     pf_feature_key f = k \<and> pf_feature_type f = BOOLEAN \<and> pf_is_enabled f = Some True"

definition reset_white_label_on_downgrade ::
  "license_deps \<Rightarrow> 'r billing_env \<Rightarrow> uuid \<Rightarrow> uuid \<Rightarrow> uuid option \<Rightarrow> ('r, unit) bprog" where
  "reset_white_label_on_downgrade deps env org new_plan_id actor =
     (if \<not> has_white_label_reset deps then ret ()
      else andthen (reads_db (list_plan_features new_plan_id)) (\<lambda>fs.
        if list_ex (enabled_boolean_feature WHITE_LABEL) fs then ret ()
        else andthen (restore_powered_by_attribution env org actor) (\<lambda>_. ret ())))"

definition change_plan ::
  "license_deps \<Rightarrow> 'r billing_env \<Rightarrow> uuid option \<Rightarrow> uuid \<Rightarrow> uuid option \<Rightarrow> uuid \<Rightarrow> string option \<Rightarrow> LicenseChangeType \<Rightarrow>
   ('r, license) bprog" where
  "change_plan deps env actor license_id requesting new_plan_id reason ty =
     andthen (get_license license_id requesting) (\<lambda>l.
     andthen (guard (l_status l = LICENSE_ACTIVE) (InvalidLicenseStatusTransitionError (l_status l) ''plan_change'')) (\<lambda>_.
     andthen (guard (l_plan_id l \<noteq> new_plan_id) (SamePlanError new_plan_id)) (\<lambda>_.
     andthen (get_active_plan new_plan_id) (\<lambda>new_plan.
     andthen (if ty = DOWNGRADED \<and> has_usage_validator deps
       then andthen (check_usage_against_plan env (l_organization_id l) new_plan_id) (\<lambda>exceeded.
            guard (exceeded = []) (DowngradeBelowUsageError exceeded))
       else ret ()) (\<lambda>_.
     andthen (save_row env licenses_update l (\<lambda>r. r\<lparr>l_plan_id := row_id new_plan, updated_by := actor\<rparr>)) (\<lambda>updated.
     andthen (py_now env) (\<lambda>now.
     andthen (create_change_log env (row_id l) (Some (l_plan_id l)) (row_id new_plan) ty now actor reason) (\<lambda>_.
     andthen (sync_subscription_plan deps env (l_organization_id updated) new_plan) (\<lambda>_.
     andthen (sync_subscription_tier deps env (l_organization_id updated) (p_slug new_plan)) (\<lambda>_.
     andthen (invalidate_entitlement_cache deps env (l_organization_id updated)) (\<lambda>_.
     andthen (audit_license actor (if ty = UPGRADED then ''license_upgraded'' else ''license_downgraded'') updated
       (''License '' @ row_id updated @ '' '' @ LicenseChangeType_value ty @ '' to plan '' @ row_id new_plan)) (\<lambda>_.
     andthen (if ty = DOWNGRADED
         then reset_white_label_on_downgrade deps env (l_organization_id updated) (row_id new_plan) actor
         else ret ()) (\<lambda>_.
     ret updated)))))))))))))"

definition upgrade_license ::
  "license_deps \<Rightarrow> 'r billing_env \<Rightarrow> uuid option \<Rightarrow> uuid \<Rightarrow> uuid option \<Rightarrow> uuid \<Rightarrow> string option \<Rightarrow> ('r, license) bprog" where
  "upgrade_license deps env actor license_id requesting new_plan_id reason =
     change_plan deps env actor license_id requesting new_plan_id reason UPGRADED"

definition downgrade_license ::
  "license_deps \<Rightarrow> 'r billing_env \<Rightarrow> uuid option \<Rightarrow> uuid \<Rightarrow> uuid option \<Rightarrow> uuid \<Rightarrow> string option \<Rightarrow> ('r, license) bprog" where
  "downgrade_license deps env actor license_id requesting new_plan_id reason =
     change_plan deps env actor license_id requesting new_plan_id reason DOWNGRADED"

definition validate_license :: "'r billing_env \<Rightarrow> uuid \<Rightarrow> ('r, license) bprog" where
  "validate_license env org =
     andthen (get_license_for_organization org) (\<lambda>l.
     andthen (guard (l_status l = LICENSE_ACTIVE) (LicenseNotActiveError org)) (\<lambda>_.
     case l_expires_at l of
       None \<Rightarrow> ret l
     | Some t \<Rightarrow>
         andthen (py_now env) (\<lambda>now.
         andthen (guard (\<not> instant t \<le> instant now) (LicenseNotActiveError org)) (\<lambda>_. ret l))))"


subsection \<open>Entitlements\<close>

text \<open>\<open>_apply_feature_overrides\<close>: the live overrides in the order the query returns them, then
  every dependent feature whose prerequisite is off.\<close>

definition apply_override :: "feature_override \<Rightarrow> PlanFeatureKey list \<Rightarrow> PlanFeatureKey list" where
  "apply_override ov ks =
     (if fo_feature_key ov \<notin> set BOOLEAN_FEATURE_KEYS then ks
      else if fo_is_enabled ov then List.insert (fo_feature_key ov) ks
      else removeAll (fo_feature_key ov) ks)"

definition apply_feature_overrides :: "license_deps \<Rightarrow> uuid \<Rightarrow> PlanFeatureKey list \<Rightarrow> billing_db \<Rightarrow> PlanFeatureKey list" where
  "apply_feature_overrides deps org enabled db =
     (let effective = (if has_feature_overrides deps then fold apply_override (list_feature_overrides org db) enabled else enabled)
      in fold (\<lambda>(dependent, prerequisite) ks. if prerequisite \<notin> set ks then removeAll dependent ks else ks)
           FEATURE_REQUIRES effective)"

definition get_entitlement_snapshot :: "license_deps \<Rightarrow> uuid \<Rightarrow> ('r, entitlement_snapshot) bprog" where
  "get_entitlement_snapshot deps org =
     andthen (get_license_for_organization org) (\<lambda>l.
     andthen (reads_db (list_plan_features (l_plan_id l))) (\<lambda>fs.
     let enabled = map pf_feature_key (filter (\<lambda>f. pf_feature_type f = BOOLEAN \<and> pf_is_enabled f = Some True) fs);
         limits = List.map_filter (\<lambda>f. if pf_feature_type f = LIMIT
           then map_option (\<lambda>v. (pf_feature_key f, v)) (pf_limit_value f) else None) fs;
         tiers = List.map_filter (\<lambda>f. if pf_feature_type f = TIER
           then map_option (\<lambda>v. (pf_feature_key f, v)) (pf_tier_value f) else None) fs
     in andthen (reads_db (apply_feature_overrides deps org enabled)) (\<lambda>effective.
        ret \<lparr>es_organization_id = org, es_plan_id = l_plan_id l, es_license_status = l_status l,
             es_expires_at = l_expires_at l, es_enabled_features = effective, es_limits = limits, es_tiers = tiers\<rparr>)))"

definition get_plan_feature_enabled :: "uuid \<Rightarrow> PlanFeatureKey \<Rightarrow> ('r, bool) bprog" where
  "get_plan_feature_enabled org k =
     andthen (reads_db (get_license_by_organization_id org)) (\<lambda>found.
     case found of
       None \<Rightarrow> ret False
     | Some l \<Rightarrow> andthen (reads_db (list_plan_features (l_plan_id l))) (\<lambda>fs. ret (list_ex (enabled_boolean_feature k) fs)))"

definition get_snapshot :: "license_deps \<Rightarrow> 'r billing_env \<Rightarrow> uuid \<Rightarrow> ('r, entitlement_snapshot) bprog" where
  "get_snapshot deps env org =
     andthen (cache_get env org) (\<lambda>cached.
     case cached of
       Some s \<Rightarrow> ret s
     | None \<Rightarrow>
         andthen (get_entitlement_snapshot deps org) (\<lambda>s.
         andthen (cache_set env org s) (\<lambda>_. ret s)))"

definition snapshot_is_active :: "'r billing_env \<Rightarrow> entitlement_snapshot \<Rightarrow> ('r, bool) bprog" where
  "snapshot_is_active env s =
     (if es_license_status s \<noteq> LICENSE_ACTIVE then ret False
      else case es_expires_at s of
        None \<Rightarrow> ret True
      | Some t \<Rightarrow> andthen (py_now env) (\<lambda>now. ret (instant now < instant t)))"

definition require_active_license :: "license_deps \<Rightarrow> 'r billing_env \<Rightarrow> uuid option \<Rightarrow> ('r, uuid option) bprog" where
  "require_active_license deps env org =
     (case org of
        None \<Rightarrow> ret None
      | Some i \<Rightarrow>
          andthen (catching (get_snapshot deps env i) (\<lambda>e.
            raise (case e of LicenseNotFoundError _ \<Rightarrow> LicenseNotActiveError i | _ \<Rightarrow> e))) (\<lambda>s.
          andthen (snapshot_is_active env s) (\<lambda>active.
          andthen (guard active (LicenseNotActiveError i)) (\<lambda>_. ret (Some i)))))"

definition SAFE_HTTP_METHODS :: "string list" where
  "SAFE_HTTP_METHODS = [''GET'', ''HEAD'', ''OPTIONS'']"

definition require_active_license_for_writes ::
  "license_deps \<Rightarrow> 'r billing_env \<Rightarrow> string \<Rightarrow> uuid option \<Rightarrow> ('r, uuid option) bprog" where
  "require_active_license_for_writes deps env http_method org =
     (if http_method \<in> set SAFE_HTTP_METHODS then ret None else require_active_license deps env org)"

definition require_feature :: "license_deps \<Rightarrow> 'r billing_env \<Rightarrow> PlanFeatureKey \<Rightarrow> uuid option \<Rightarrow> ('r, uuid option) bprog" where
  "require_feature deps env k org =
     andthen (require_active_license deps env org) (\<lambda>granted.
     case granted of
       None \<Rightarrow> ret None
     | Some i \<Rightarrow>
         andthen (get_snapshot deps env i) (\<lambda>s.
         andthen (guard (k \<in> set (es_enabled_features s)) (FeatureNotEntitledError i k)) (\<lambda>_. ret (Some i))))"

end
