(* ===== verification/Coupon.thy ===== *)
theory Coupon
  imports License
begin

section \<open>Coupons\<close>

text \<open>
  \<open>CouponService\<close> of \<open>app/domains/billing/service.py\<close>: the catalogue, the check of a code
  without side effects, and its redemption, which re-validates the code, freezes the
  discount in a usage row and counts the use in one server-side \<open>UPDATE\<close>.
\<close>

definition get_coupon :: "uuid \<Rightarrow> ('r, coupon) bprog" where
  "get_coupon coupon_id =
     andthen (reads_db (\<lambda>db. get_by_id False coupon_id (coupons db))) (\<lambda>c. orelse c (CouponNotFoundError coupon_id))"

definition get_by_code :: "string \<Rightarrow> ('r, coupon) bprog" where
  "get_by_code code =
     andthen (reads_db (get_coupon_by_code (normalize_coupon_code code))) (\<lambda>c. orelse c (CouponNotFoundError code))"

text \<open>What an organization's caller sees: its own coupons and the global ones.\<close>

definition coupon_visible :: "uuid option \<Rightarrow> bool \<Rightarrow> bool option \<Rightarrow> coupon \<Rightarrow> bool" where
  "coupon_visible org all_organizations active c \<longleftrightarrow>
     \<not> is_deleted c \<and> (case active of None \<Rightarrow> True | Some b \<Rightarrow> c_is_active c = b) \<and>
     (all_organizations \<or> org \<noteq> None \<and> c_organization_id c = org \<or> c_organization_id c = None)"

definition list_coupons :: "page_params \<Rightarrow> uuid option \<Rightarrow> bool \<Rightarrow> bool option \<Rightarrow> billing_db \<Rightarrow> coupon list \<times> pagination_meta" where
  "list_coupons ps org all_organizations active db =
     (let rows = apply_sorting created_at DESC (filter (coupon_visible org all_organizations active) (coupons db))
      in (paginate ps rows, from_total ps (int (length rows))))"

definition audit_coupon :: "uuid option \<Rightarrow> string \<Rightarrow> coupon \<Rightarrow> string \<Rightarrow> ('r, unit) bprog" where
  "audit_coupon actor action c description =
     write_audit actor action ''coupon'' (Some (row_id c)) description [] (c_organization_id c)"

definition create_coupon ::
  "'r billing_env \<Rightarrow> uuid option \<Rightarrow> string \<Rightarrow> DiscountType \<Rightarrow> rat \<Rightarrow> string option \<Rightarrow> uuid option \<Rightarrow> int option \<Rightarrow> py_datetime \<Rightarrow>
   py_datetime option \<Rightarrow> bool \<Rightarrow> uuid list \<Rightarrow> ('r, coupon) bprog" where
  "create_coupon env actor code ty v currency org max_uses valid_from valid_until active plan_ids =
     (let normalized = normalize_coupon_code code
      in andthen (reads_db (get_coupon_by_code normalized)) (\<lambda>existing.
         andthen (guard (existing = None) (DuplicateCouponCodeError normalized)) (\<lambda>_.
         andthen (lift_result (map_sum ValidatorError id (validate_discount_value ty v))) (\<lambda>_.
         andthen (insert_row env actor coupons coupons_update (\<lambda>t. distinct (map c_code t))
           (coupon.fields normalized ty v currency org max_uses 0 valid_from valid_until active)) (\<lambda>c.
         andthen (if plan_ids \<noteq> [] then set_applicable_plans env (row_id c) plan_ids else ret ()) (\<lambda>_.
         andthen (audit_coupon actor ''coupon_created'' c (''Coupon '' @ quoted (c_code c) @ '' created'')) (\<lambda>_.
         ret c)))))))"

record coupon_data =
  cd_discount_type :: "DiscountType option"
  cd_discount_value :: "rat option"
  cd_currency :: "string option option"
  cd_max_uses :: "int option option"
  cd_valid_from :: "py_datetime option"
  cd_valid_until :: "py_datetime option option"
  cd_is_active :: "bool option"

definition put_coupon_data :: "coupon_data \<Rightarrow> coupon \<Rightarrow> coupon" where
  "put_coupon_data d c =
     c\<lparr>c_discount_type := sent (cd_discount_type d) (c_discount_type c),
       c_discount_value := sent (cd_discount_value d) (c_discount_value c),
       c_currency := sent (cd_currency d) (c_currency c), c_max_uses := sent (cd_max_uses d) (c_max_uses c),
       c_valid_from := sent (cd_valid_from d) (c_valid_from c), c_valid_until := sent (cd_valid_until d) (c_valid_until c),
       c_is_active := sent (cd_is_active d) (c_is_active c)\<rparr>"

definition update_coupon ::
  "'r billing_env \<Rightarrow> uuid option \<Rightarrow> uuid \<Rightarrow> coupon_data \<Rightarrow> uuid list option \<Rightarrow> ('r, coupon) bprog" where
  "update_coupon env actor coupon_id data plan_ids =
     andthen (get_coupon coupon_id) (\<lambda>c.
     andthen (if cd_discount_type data \<noteq> None \<or> cd_discount_value data \<noteq> None
       then lift_result (map_sum ValidatorError id (validate_discount_value
              (sent (cd_discount_type data) (c_discount_type c)) (sent (cd_discount_value data) (c_discount_value c))))
       else ret ()) (\<lambda>_.
     andthen (save_row env coupons_update c (\<lambda>r. (put_coupon_data data r)\<lparr>updated_by := actor\<rparr>)) (\<lambda>updated.
     andthen (case plan_ids of None \<Rightarrow> ret () | Some ids \<Rightarrow> set_applicable_plans env (row_id updated) ids) (\<lambda>_.
     andthen (audit_coupon actor ''coupon_updated'' updated (''Coupon '' @ quoted (c_code updated) @ '' updated'')) (\<lambda>_.
     ret updated)))))"

definition deactivate_coupon :: "'r billing_env \<Rightarrow> uuid option \<Rightarrow> uuid \<Rightarrow> ('r, coupon) bprog" where
  "deactivate_coupon env actor coupon_id =
     andthen (get_coupon coupon_id) (\<lambda>c.
     andthen (save_row env coupons_update c (\<lambda>r. r\<lparr>c_is_active := False, updated_by := actor\<rparr>)) (\<lambda>updated.
     andthen (hide_row env coupons_update updated) (\<lambda>hidden.
     andthen (audit_coupon actor ''coupon_deactivated'' hidden (''Coupon '' @ quoted (c_code hidden) @ '' deactivated'')) (\<lambda>_.
     ret hidden))))"

text \<open>The checks of \<open>validate_coupon\<close> in the order of the code, at the instant they are made.\<close>

definition coupon_problem :: "coupon \<Rightarrow> py_datetime \<Rightarrow> uuid \<Rightarrow> string \<Rightarrow> billing_exc option" where
  "coupon_problem c now org code =
     (if \<not> c_is_active c then Some (CouponInactiveError code)
      else if instant now < instant (c_valid_from c) then Some (CouponNotYetValidError code)
      else if (case c_valid_until c of None \<Rightarrow> False | Some t \<Rightarrow> instant t \<le> instant now) then Some (CouponExpiredError code)
      else if (case c_max_uses c of None \<Rightarrow> False | Some n \<Rightarrow> n \<le> c_current_uses c) then Some (CouponExhaustedError code)
      else if c_organization_id c \<noteq> None \<and> c_organization_id c \<noteq> Some org
      then Some (CouponNotApplicableToOrganizationError code org)
      else None)"

definition validate_coupon :: "'r billing_env \<Rightarrow> string \<Rightarrow> uuid \<Rightarrow> uuid \<Rightarrow> ('r, coupon) bprog" where
  "validate_coupon env code org plan_id =
     (let normalized = normalize_coupon_code code
      in andthen (reads_db (get_coupon_by_code normalized)) (\<lambda>found.
         andthen (orelse found (CouponNotFoundError normalized)) (\<lambda>c.
         andthen (py_now env) (\<lambda>now.
         andthen (lift_result (case coupon_problem c now org normalized of None \<Rightarrow> Inr () | Some e \<Rightarrow> Inl e)) (\<lambda>_.
         andthen (reads_db (list_applicable_plan_ids (row_id c))) (\<lambda>plan_ids.
         andthen (guard (plan_ids = [] \<or> plan_id \<in> set plan_ids) (CouponNotApplicableToPlanError normalized plan_id)) (\<lambda>_.
         ret c)))))))"

definition apply_coupon ::
  "'r billing_env \<Rightarrow> string \<Rightarrow> uuid \<Rightarrow> uuid option \<Rightarrow> uuid \<Rightarrow> rat \<Rightarrow> ('r, rat) bprog" where
  "apply_coupon env code org subscription_id plan_id base_amount =
     andthen (validate_coupon env code org plan_id) (\<lambda>c.
     let discount = compute_discount_amount (c_discount_type c) (c_discount_value c) base_amount
     in andthen (py_now env) (\<lambda>now.
        andthen (create_coupon_usage env (row_id c) org subscription_id now discount) (\<lambda>_.
        andthen (increment_current_uses (row_id c)) (\<lambda>_.
        andthen (audit_coupon None ''coupon_applied'' c
          (''Coupon '' @ quoted (c_code c) @ '' applied for organization '' @ org @ '' (discount='' @ show_money discount @ '')'')) (\<lambda>_.
        ret discount)))))"

end
