(* ===== verification/Subscriptions.thy ===== *)
theory Subscriptions
  imports Coupon
begin

section \<open>Subscriptions\<close>

text \<open>
  \<open>SubscriptionService\<close> of \<open>app/domains/billing/service.py\<close>, composed with the license service
  (created and activated with the subscription, suspended with an immediate cancellation,
  re-activated with a reactivation) and the coupon service.
\<close>

fun SUBSCRIPTION_TRANSITIONS :: "SubscriptionStatus \<Rightarrow> SubscriptionStatus list" where
  "SUBSCRIPTION_TRANSITIONS TRIALING = [SUB_ACTIVE, PAST_DUE, SUB_CANCELLED]"
| "SUBSCRIPTION_TRANSITIONS SUB_ACTIVE = [PAST_DUE, PAUSED, SUB_CANCELLED]"
| "SUBSCRIPTION_TRANSITIONS PAST_DUE = [SUB_ACTIVE, SUB_CANCELLED]"
| "SUBSCRIPTION_TRANSITIONS PAUSED = [SUB_ACTIVE, SUB_CANCELLED]"
| "SUBSCRIPTION_TRANSITIONS SUB_CANCELLED = [SUB_ACTIVE]"

definition assert_subscription_transition :: "SubscriptionStatus \<Rightarrow> SubscriptionStatus \<Rightarrow> ('r, unit) bprog" where
  "assert_subscription_transition current target =
     guard (target \<in> set (SUBSCRIPTION_TRANSITIONS current)) (InvalidSubscriptionStatusTransitionError current target)"

definition get_subscription :: "uuid \<Rightarrow> uuid option \<Rightarrow> ('r, subscription) bprog" where
  "get_subscription subscription_id org =
     andthen (reads_db (\<lambda>db. get_by_id False subscription_id (subscriptions db))) (\<lambda>found.
     case found of
       None \<Rightarrow> raise (SubscriptionNotFoundError subscription_id)
     | Some s \<Rightarrow>
         if org \<noteq> None \<and> org \<noteq> Some (s_organization_id s) then raise (SubscriptionNotFoundError subscription_id)
         else ret s)"

definition get_subscription_for_organization :: "uuid \<Rightarrow> ('r, subscription) bprog" where
  "get_subscription_for_organization org =
     andthen (reads_db (get_subscription_by_organization_id org)) (\<lambda>s. orelse s (SubscriptionNotFoundError org))"

definition find_subscription_for_organization :: "uuid \<Rightarrow> ('r, subscription option) bprog" where
  "find_subscription_for_organization org = reads_db (get_subscription_by_organization_id org)"

definition audit_subscription :: "uuid option \<Rightarrow> string \<Rightarrow> subscription \<Rightarrow> string \<Rightarrow> ('r, unit) bprog" where
  "audit_subscription actor action s description =
     write_audit actor action ''subscription'' (Some (row_id s)) description [] (Some (s_organization_id s))"

text \<open>\<open>now + timedelta(days=n)\<close> and the next billing period as programs.\<close>

definition plus_days :: "py_datetime \<Rightarrow> nat \<Rightarrow> ('r, py_datetime) bprog" where
  "plus_days t n = orelse (add_days t n) OverflowError"

definition next_period_end :: "py_datetime \<Rightarrow> string \<Rightarrow> ('r, py_datetime) bprog" where
  "next_period_end now cycle = lift_result (map_sum ValidatorError id (add_billing_cycle now cycle))"

definition create_subscription ::
  "license_deps \<Rightarrow> 'r billing_env \<Rightarrow> uuid option \<Rightarrow> uuid \<Rightarrow> uuid \<Rightarrow> string option \<Rightarrow> ('r, subscription) bprog" where
  "create_subscription deps env actor org plan_id coupon_code =
     andthen (reads_db (get_subscription_by_organization_id org)) (\<lambda>existing.
     andthen (guard (existing = None) (DuplicateSubscriptionError org)) (\<lambda>_.
     andthen (get_active_plan plan_id) (\<lambda>p.
     andthen (case coupon_code of
         None \<Rightarrow> ret None
       | Some code \<Rightarrow> andthen (validate_coupon env code org (row_id p)) (\<lambda>c. ret (Some c))) (\<lambda>applied.
     andthen (assign_license deps env actor org (row_id p) None) (\<lambda>l.
     andthen (activate_license deps env actor (row_id l) None) (\<lambda>l'.
     andthen (py_now env) (\<lambda>now.
     andthen (if p_plan_type p = FREE_TRIAL
         then andthen (plus_days now (trial_period_days env)) (\<lambda>t. ret (TRIALING, Some t, t))
         else andthen (next_period_end now (p_billing_cycle p)) (\<lambda>t. ret (SUB_ACTIVE, None, t)))
       (\<lambda>(status, trial_end, period_end).
     andthen (create_subscription_row env actor org (row_id l') (row_id p) status (p_billing_cycle p) now period_end
         trial_end (map_option row_id applied)) (\<lambda>s.
     andthen (case applied of
         None \<Rightarrow> ret ()
       | Some c \<Rightarrow>
           andthen (apply_coupon env (c_code c) org (Some (row_id s)) (row_id p) (p_base_price p)) (\<lambda>_. ret ())) (\<lambda>_.
     andthen (audit_subscription actor ''subscription_created'' s
         (''Subscription '' @ row_id s @ '' created on plan '' @ row_id p)) (\<lambda>_.
     ret s)))))))))))"

definition cancel_subscription ::
  "license_deps \<Rightarrow> 'r billing_env \<Rightarrow> uuid option \<Rightarrow> uuid \<Rightarrow> uuid option \<Rightarrow> bool \<Rightarrow> ('r, subscription) bprog" where
  "cancel_subscription deps env actor subscription_id requesting immediate =
     andthen (get_subscription subscription_id requesting) (\<lambda>s.
     andthen (guard (s_status s \<in> {TRIALING, SUB_ACTIVE, PAST_DUE, PAUSED})
       (InvalidSubscriptionStatusTransitionError (s_status s) SUB_CANCELLED)) (\<lambda>_.
     andthen (if immediate
         then andthen (assert_subscription_transition (s_status s) SUB_CANCELLED) (\<lambda>_.
              andthen (py_now env) (\<lambda>now.
              andthen (save_row env subscriptions_update s (\<lambda>r.
                r\<lparr>s_status := SUB_CANCELLED, s_cancelled_at := Some now, s_auto_renew := False,
                  s_cancel_at_period_end := False, s_past_due_at := None, updated_by := actor\<rparr>)) (\<lambda>updated.
              andthen (suspend_license deps env actor (s_license_id s) None ''Subscription cancelled'') (\<lambda>_.
              ret updated))))
         else save_row env subscriptions_update s (\<lambda>r. r\<lparr>s_cancel_at_period_end := True, updated_by := actor\<rparr>)) (\<lambda>updated.
     andthen (audit_subscription actor ''subscription_cancelled'' updated
         (''Subscription '' @ row_id updated @ '' cancelled ('' @ (if immediate then ''immediate'' else ''at period end'') @ '')'')) (\<lambda>_.
     ret updated))))"

definition reactivate_subscription ::
  "license_deps \<Rightarrow> 'r billing_env \<Rightarrow> uuid option \<Rightarrow> uuid \<Rightarrow> uuid option \<Rightarrow> ('r, subscription) bprog" where
  "reactivate_subscription deps env actor subscription_id requesting =
     andthen (get_subscription subscription_id requesting) (\<lambda>s.
     andthen (assert_subscription_transition (s_status s) SUB_ACTIVE) (\<lambda>_.
     andthen (get_license (s_license_id s) None) (\<lambda>l.
     andthen (guard (l_status l \<noteq> LICENSE_EXPIRED) (SubscriptionReactivationNotAllowedError (row_id s))) (\<lambda>_.
     andthen (if l_status l = LICENSE_SUSPENDED
         then andthen (activate_license deps env actor (row_id l) None) (\<lambda>_. ret ()) else ret ()) (\<lambda>_.
     andthen (py_now env) (\<lambda>now.
     andthen (next_period_end now (s_billing_cycle s)) (\<lambda>period_end.
     andthen (save_row env subscriptions_update s (\<lambda>r.
       r\<lparr>s_status := SUB_ACTIVE, s_cancelled_at := None, s_cancel_at_period_end := False, s_auto_renew := True,
         s_current_period_start := now, s_current_period_end := period_end, updated_by := actor\<rparr>)) (\<lambda>updated.
     andthen (audit_subscription actor ''subscription_reactivated'' updated
         (''Subscription '' @ row_id updated @ '' reactivated'')) (\<lambda>_.
     ret updated)))))))))"

definition pause_subscription ::
  "'r billing_env \<Rightarrow> uuid option \<Rightarrow> uuid \<Rightarrow> uuid option \<Rightarrow> ('r, subscription) bprog" where
  "pause_subscription env actor subscription_id requesting =
     andthen (get_subscription subscription_id requesting) (\<lambda>s.
     andthen (assert_subscription_transition (s_status s) PAUSED) (\<lambda>_.
     andthen (save_row env subscriptions_update s (\<lambda>r. r\<lparr>s_status := PAUSED, updated_by := actor\<rparr>)) (\<lambda>updated.
     andthen (audit_subscription actor ''subscription_paused'' updated (''Subscription '' @ row_id updated @ '' paused'')) (\<lambda>_.
     ret updated))))"

definition resume_subscription ::
  "'r billing_env \<Rightarrow> uuid option \<Rightarrow> uuid \<Rightarrow> uuid option \<Rightarrow> ('r, subscription) bprog" where
  "resume_subscription env actor subscription_id requesting =
     andthen (get_subscription subscription_id requesting) (\<lambda>s.
     andthen (assert_subscription_transition (s_status s) SUB_ACTIVE) (\<lambda>_.
     andthen (py_now env) (\<lambda>now.
     andthen (if instant (s_current_period_end s) \<le> instant now
         then andthen (next_period_end now (s_billing_cycle s)) (\<lambda>t. ret (now, t))
         else ret (s_current_period_start s, s_current_period_end s)) (\<lambda>(period_start, period_end).
     andthen (save_row env subscriptions_update s (\<lambda>r.
       r\<lparr>s_status := SUB_ACTIVE, updated_by := actor, s_current_period_start := period_start,
         s_current_period_end := period_end\<rparr>)) (\<lambda>updated.
     andthen (audit_subscription actor ''subscription_resumed'' updated (''Subscription '' @ row_id updated @ '' resumed'')) (\<lambda>_.
     ret updated))))))"

definition update_renewal_settings ::
  "'r billing_env \<Rightarrow> uuid option \<Rightarrow> uuid \<Rightarrow> uuid \<Rightarrow> bool \<Rightarrow> ('r, subscription) bprog" where
  "update_renewal_settings env actor subscription_id org auto_renew =
     andthen (get_subscription subscription_id None) (\<lambda>s.
     andthen (guard (s_organization_id s = org) (SubscriptionNotFoundError subscription_id)) (\<lambda>_.
     andthen (save_row env subscriptions_update s (\<lambda>r. r\<lparr>s_auto_renew := auto_renew, updated_by := actor\<rparr>)) (\<lambda>updated.
     andthen (audit_subscription actor ''subscription_renewal_settings_updated'' updated
         (''Subscription '' @ row_id updated @ '' renewal settings updated (auto_renew='' @
          (if auto_renew then ''True'' else ''False'') @ '')'')) (\<lambda>_.
     ret updated))))"

end
