(* ===== verification/Payments.thy ===== *)
theory Payments
  imports Subscriptions
begin

section \<open>Payments and the provider gateways\<close>

text \<open>
  \<open>payment_gateways.py\<close> (\<open>_BaseGateway\<close> and its Stripe and Razorpay subclasses) and
  \<open>PaymentService\<close> and \<open>PaymentMethodService\<close> of \<open>service.py\<close>. A gateway is the record of what the
  subclass supplies: its name, whether its keys are set, and its charge, refund, retry and
  checkout-order methods; the base class is written over that record. Every call to a
  provider's SDK is one step that records the call and asks the environment for the reply.
\<close>

definition save_payment :: "'r billing_env \<Rightarrow> payment \<Rightarrow> (payment \<Rightarrow> payment) \<Rightarrow> ('r, payment) bprog" where
  "save_payment env p data = save_row env payments_update p data"

definition default_payment_method_token :: "uuid \<Rightarrow> ('r, string) bprog" where
  "default_payment_method_token org =
     andthen (reads_db (get_default_payment_method org)) (\<lambda>found.
     andthen (orelse found (NoDefaultPaymentMethodError org)) (\<lambda>m. ret (pm_provider_payment_method_id m)))"

text \<open>The \<open>try\<close> both subclasses put around it: the row is marked failed and the error raised
  again.\<close>

definition token_or_fail :: "'r billing_env \<Rightarrow> payment \<Rightarrow> ('r, string) bprog" where
  "token_or_fail env p =
     catching (default_payment_method_token (pay_organization_id p)) (\<lambda>e.
       case e of
         NoDefaultPaymentMethodError org \<Rightarrow>
           andthen (save_payment env p (\<lambda>r. r\<lparr>pay_status := FAILED, pay_failure_reason := Some (no_payment_method_text org)\<rparr>)) (\<lambda>_.
           raise e)
       | _ \<Rightarrow> raise e)"

definition mark_declined :: "'r billing_env \<Rightarrow> payment \<Rightarrow> string \<Rightarrow> ('r, payment) bprog" where
  "mark_declined env p reason = save_payment env p (\<lambda>r. r\<lparr>pay_status := FAILED, pay_failure_reason := Some reason\<rparr>)"

definition mark_succeeded :: "'r billing_env \<Rightarrow> payment \<Rightarrow> string option \<Rightarrow> ('r, payment) bprog" where
  "mark_succeeded env p pid =
     save_payment env p (\<lambda>r. r\<lparr>pay_status := SUCCEEDED, pay_provider_payment_id := pid, pay_failure_reason := None\<rparr>)"


subsection \<open>Stripe\<close>

definition stripe_attempt_charge :: "'r billing_env \<Rightarrow> payment \<Rightarrow> string \<Rightarrow> ('r, payment) bprog" where
  "stripe_attempt_charge env p key =
     andthen (token_or_fail env p) (\<lambda>token.
     andthen (call_provider env (StripePaymentIntentCreate (to_minor_units (pay_amount p) (pay_currency p))
       (py_lower (pay_currency p)) token key)) (\<lambda>reply.
     case reply of
       Declined reason \<Rightarrow> mark_declined env p reason
     | ProviderFault reason \<Rightarrow> raise (PaymentProviderError reason)
     | Completed pid status \<Rightarrow>
         if status = ''succeeded'' then mark_succeeded env p pid
         else save_payment env p (\<lambda>r. r\<lparr>pay_provider_payment_id := pid\<rparr>)))"

text \<open>\<open>uuid.uuid4().hex[:12]\<close>.\<close>

definition derive_retry_idempotency_key :: "'r billing_env \<Rightarrow> string \<Rightarrow> ('r, string) bprog" where
  "derive_retry_idempotency_key env key = andthen (uuid4 env) (\<lambda>i. ret (key @ '':retry:'' @ take 12 i))"

definition stripe_retry :: "'r billing_env \<Rightarrow> payment \<Rightarrow> ('r, payment) bprog" where
  "stripe_retry env p =
     andthen (derive_retry_idempotency_key env (pay_idempotency_key p)) (\<lambda>key. stripe_attempt_charge env p key)"

text \<open>What a refund of \<open>n\<close> makes of the row; the same in both subclasses.\<close>

definition refunded_row :: "payment \<Rightarrow> rat \<Rightarrow> payment \<Rightarrow> payment" where
  "refunded_row p n r =
     (let total = pay_refunded_amount p + n
      in r\<lparr>pay_refunded_amount := total, pay_status := (if pay_amount p \<le> total then REFUNDED else PARTIALLY_REFUNDED)\<rparr>)"

definition refund_amount_of :: "payment \<Rightarrow> rat option \<Rightarrow> rat" where
  "refund_amount_of p amount = (case amount of Some n \<Rightarrow> n | None \<Rightarrow> pay_amount p - pay_refunded_amount p)"

definition stripe_refund :: "'r billing_env \<Rightarrow> payment \<Rightarrow> rat option \<Rightarrow> ('r, payment) bprog" where
  "stripe_refund env p amount =
     (let n = refund_amount_of p amount
      in andthen (uuid4 env) (\<lambda>i.
         andthen (call_provider env (StripeRefundCreate (pay_provider_payment_id p) (to_minor_units n (pay_currency p))
           (pay_idempotency_key p @ '':refund:'' @ take 12 i))) (\<lambda>reply.
         case reply of
           Completed _ _ \<Rightarrow> save_payment env p (refunded_row p n)
         | Declined reason \<Rightarrow> raise (PaymentProviderError reason)
         | ProviderFault reason \<Rightarrow> raise (PaymentProviderError reason))))"


subsection \<open>Razorpay\<close>

definition razorpay_attempt_charge :: "'r billing_env \<Rightarrow> payment \<Rightarrow> ('r, payment) bprog" where
  "razorpay_attempt_charge env p =
     andthen (token_or_fail env p) (\<lambda>token.
     let minor = to_minor_units (pay_amount p) (pay_currency p); currency = py_upper (pay_currency p)
     in andthen (call_provider env (RazorpayOrderCreate minor currency (row_id p))) (\<lambda>order_reply.
        case order_reply of
          Declined reason \<Rightarrow> mark_declined env p reason
        | ProviderFault reason \<Rightarrow> raise (PaymentProviderError reason)
        | Completed None _ \<Rightarrow> raise BillingLookupError
        | Completed (Some order_id) _ \<Rightarrow>
            andthen (call_provider env (RazorpayCreateRecurring minor currency order_id token (row_id p))) (\<lambda>reply.
            case reply of
              Declined reason \<Rightarrow> mark_declined env p reason
            | ProviderFault reason \<Rightarrow> raise (PaymentProviderError reason)
            | Completed pid status \<Rightarrow>
                if status = ''captured'' then mark_succeeded env p pid
                else if status = ''failed''
                then save_payment env p (\<lambda>r. r\<lparr>pay_status := FAILED, pay_provider_payment_id := pid,
                       pay_failure_reason := Some ''razorpay_payment_failed''\<rparr>)
                else save_payment env p (\<lambda>r. r\<lparr>pay_provider_payment_id := pid\<rparr>))))"

definition razorpay_refund :: "'r billing_env \<Rightarrow> payment \<Rightarrow> rat option \<Rightarrow> ('r, payment) bprog" where
  "razorpay_refund env p amount =
     (let n = refund_amount_of p amount
      in andthen (call_provider env (RazorpayRefund (pay_provider_payment_id p) (to_minor_units n (pay_currency p)))) (\<lambda>reply.
         case reply of
           Completed _ _ \<Rightarrow> save_payment env p (refunded_row p n)
         | Declined reason \<Rightarrow> raise (PaymentProviderError reason)
         | ProviderFault reason \<Rightarrow> raise (PaymentProviderError reason)))"

definition razorpay_create_checkout_order :: "'r billing_env \<Rightarrow> payment \<Rightarrow> ('r, payment) bprog" where
  "razorpay_create_checkout_order env p =
     andthen (call_provider env (RazorpayOrderCreate (to_minor_units (pay_amount p) (pay_currency p))
       (py_upper (pay_currency p)) (row_id p))) (\<lambda>reply.
     case reply of
       Completed order_id _ \<Rightarrow> save_payment env p (\<lambda>r. r\<lparr>pay_razorpay_order_id := order_id\<rparr>)
     | Declined reason \<Rightarrow> raise (PaymentProviderError reason)
     | ProviderFault reason \<Rightarrow> raise (PaymentProviderError reason))"


subsection \<open>The shared base class\<close>

record 'r gateway =
  gw_provider :: string
  gw_configured :: bool
  gw_charge_impl :: "payment \<Rightarrow> ('r, payment) bprog"
  gw_refund_impl :: "payment \<Rightarrow> rat option \<Rightarrow> ('r, payment) bprog"
  gw_retry_impl :: "payment \<Rightarrow> ('r, payment) bprog"

definition StripePaymentGateway :: "'r billing_env \<Rightarrow> 'r gateway" where
  "StripePaymentGateway env =
     \<lparr>gw_provider = ''stripe'', gw_configured = (stripe_secret_key env \<noteq> ''''),
      gw_charge_impl = (\<lambda>p. stripe_attempt_charge env p (pay_idempotency_key p)),
      gw_refund_impl = stripe_refund env, gw_retry_impl = stripe_retry env\<rparr>"

definition RazorpayPaymentGateway :: "'r billing_env \<Rightarrow> 'r gateway" where
  "RazorpayPaymentGateway env =
     \<lparr>gw_provider = ''razorpay'', gw_configured = (razorpay_key_id env \<noteq> '''' \<and> razorpay_key_secret env \<noteq> ''''),
      gw_charge_impl = razorpay_attempt_charge env,
      gw_refund_impl = razorpay_refund env, gw_retry_impl = razorpay_attempt_charge env\<rparr>"

definition build_payment_gateway :: "'r billing_env \<Rightarrow> 'r gateway" where
  "build_payment_gateway env =
     (if payment_default_provider env = ''razorpay'' then RazorpayPaymentGateway env else StripePaymentGateway env)"

definition not_configured :: "uuid \<Rightarrow> rat \<Rightarrow> string \<Rightarrow> ('r, 'a) bprog" where
  "not_configured org amount currency = raise (PaymentGatewayNotConfiguredError org amount currency)"

definition fail_not_configured :: "'r billing_env \<Rightarrow> payment \<Rightarrow> ('r, payment) bprog" where
  "fail_not_configured env p =
     andthen (mark_declined env p ''payment_gateway_not_configured'') (\<lambda>u.
     not_configured (pay_organization_id u) (pay_amount u) (pay_currency u))"

definition charge_via_provider :: "'r billing_env \<Rightarrow> 'r gateway \<Rightarrow> payment \<Rightarrow> ('r, payment) bprog" where
  "charge_via_provider env gw p = (if \<not> gw_configured gw then fail_not_configured env p else gw_charge_impl gw p)"

definition gateway_refund :: "'r gateway \<Rightarrow> payment \<Rightarrow> rat option \<Rightarrow> ('r, payment) bprog" where
  "gateway_refund gw p amount =
     (if \<not> gw_configured gw
      then not_configured (pay_organization_id p) (case amount of Some n \<Rightarrow> n | None \<Rightarrow> pay_amount p) (pay_currency p)
      else gw_refund_impl gw p amount)"

definition gateway_retry :: "'r gateway \<Rightarrow> payment \<Rightarrow> ('r, payment) bprog" where
  "gateway_retry gw p =
     (if \<not> gw_configured gw then not_configured (pay_organization_id p) (pay_amount p) (pay_currency p)
      else gw_retry_impl gw p)"

text \<open>\<open>create_checkout_order\<close> of the base class; only Razorpay implements the rest.\<close>

definition gateway_create_checkout_order :: "'r billing_env \<Rightarrow> payment \<Rightarrow> ('r, payment) bprog" where
  "gateway_create_checkout_order env p =
     (if \<not> gw_configured (RazorpayPaymentGateway env) then fail_not_configured env p
      else razorpay_create_checkout_order env p)"

record payment_result =
  pr_success :: bool
  pr_reference :: "string option"
  pr_failure_reason :: "string option"

definition gateway_charge ::
  "'r billing_env \<Rightarrow> 'r gateway \<Rightarrow> uuid \<Rightarrow> rat \<Rightarrow> string \<Rightarrow> uuid \<Rightarrow> ('r, payment_result) bprog" where
  "gateway_charge env gw org amount currency subscription_id =
     (if amount \<le> 0 then ret \<lparr>pr_success = True, pr_reference = None, pr_failure_reason = None\<rparr>
      else if \<not> gw_configured gw then not_configured org amount currency
      else andthen (uuid4 env) (\<lambda>i.
           andthen (create_payment env None org (Some subscription_id) amount currency (gw_provider gw)
             (''renewal:'' @ subscription_id @ '':'' @ i)) (\<lambda>p.
           andthen (charge_via_provider env gw p) (\<lambda>q.
           ret (case pay_status q of
                  SUCCEEDED \<Rightarrow> \<lparr>pr_success = True, pr_reference = pay_provider_payment_id q, pr_failure_reason = None\<rparr>
                | FAILED \<Rightarrow> \<lparr>pr_success = False, pr_reference = None, pr_failure_reason = pay_failure_reason q\<rparr>
                | _ \<Rightarrow> \<lparr>pr_success = False, pr_reference = None,
                        pr_failure_reason = Some ''payment_pending_provider_confirmation''\<rparr>)))))"

text \<open>\<open>renewal_service.UnconfiguredPaymentGateway\<close>.\<close>

definition unconfigured_charge :: "uuid \<Rightarrow> rat \<Rightarrow> string \<Rightarrow> uuid \<Rightarrow> ('r, payment_result) bprog" where
  "unconfigured_charge org amount currency subscription_id =
     (if amount \<le> 0 then ret \<lparr>pr_success = True, pr_reference = None, pr_failure_reason = None\<rparr>
      else not_configured org amount currency)"


subsection \<open>The payment service\<close>

definition gateway_for :: "'r billing_env \<Rightarrow> string \<Rightarrow> ('r, 'r gateway) bprog" where
  "gateway_for env provider =
     (if provider = ''stripe'' then ret (StripePaymentGateway env)
      else if provider = ''razorpay'' then ret (RazorpayPaymentGateway env)
      else raise (UnsupportedPaymentProviderError provider))"

definition get_payment :: "uuid \<Rightarrow> uuid option \<Rightarrow> ('r, payment) bprog" where
  "get_payment payment_id org =
     andthen (reads_db (\<lambda>db. get_by_id False payment_id (payments db))) (\<lambda>found.
     case found of
       None \<Rightarrow> raise (PaymentNotFoundError payment_id)
     | Some p \<Rightarrow>
         if org \<noteq> None \<and> org \<noteq> Some (pay_organization_id p) then raise (PaymentNotFoundError payment_id) else ret p)"

definition audit_payment :: "uuid option \<Rightarrow> string \<Rightarrow> payment \<Rightarrow> string \<Rightarrow> ('r, unit) bprog" where
  "audit_payment actor action p description =
     write_audit actor action ''payment'' (Some (row_id p)) description [] (Some (pay_organization_id p))"

text \<open>The insert with its \<open>except DuplicateRecordError\<close>: the row that won the race is returned
  and the caller returns it too (\<open>False\<close>).\<close>

definition create_payment_or_winner ::
  "'r billing_env \<Rightarrow> uuid option \<Rightarrow> uuid \<Rightarrow> uuid option \<Rightarrow> rat \<Rightarrow> string \<Rightarrow> string \<Rightarrow> string \<Rightarrow> ('r, payment \<times> bool) bprog" where
  "create_payment_or_winner env actor org subscription_id amount currency provider key =
     catching (andthen (create_payment env actor org subscription_id amount currency provider key) (\<lambda>p. ret (p, True)))
       (\<lambda>e. if e = BillingDbError DuplicateRecordError
            then andthen (reads_db (get_payment_by_idempotency_key key)) (\<lambda>winner.
                 andthen (orelse winner e) (\<lambda>p. ret (p, False)))
            else raise e)"

definition initiate_payment ::
  "'r billing_env \<Rightarrow> uuid option \<Rightarrow> uuid \<Rightarrow> uuid option \<Rightarrow> rat \<Rightarrow> string \<Rightarrow> string \<Rightarrow> string \<Rightarrow> ('r, payment) bprog" where
  "initiate_payment env actor org subscription_id amount currency provider key =
     andthen (reads_db (get_payment_by_idempotency_key key)) (\<lambda>existing.
     case existing of
       Some p \<Rightarrow> ret p
     | None \<Rightarrow>
         andthen (gateway_for env provider) (\<lambda>gw.
         andthen (create_payment_or_winner env actor org subscription_id amount currency provider key) (\<lambda>(p, created).
         if \<not> created then ret p
         else
           andthen (audit_payment actor ''payment_initiated'' p
             (''Payment '' @ row_id p @ '' initiated for organization '' @ org @ '' ('' @ show_money amount @ '' '' @ currency @
              '' via '' @ provider @ '')'')) (\<lambda>_.
           andthen (charge_via_provider env gw p) (\<lambda>q.
           andthen (if pay_status q = SUCCEEDED
             then audit_payment actor ''payment_succeeded'' q (''Payment '' @ row_id q @ '' succeeded'')
             else if pay_status q = FAILED
             then audit_payment actor ''payment_failed'' q (''Payment '' @ row_id q @ '' failed: '' @
                    (case pay_failure_reason q of Some t \<Rightarrow> t | None \<Rightarrow> ''None''))
             else ret ()) (\<lambda>_.
           ret q))))))"

definition create_checkout_order :: "'r billing_env \<Rightarrow> uuid option \<Rightarrow> uuid \<Rightarrow> string \<Rightarrow> ('r, payment) bprog" where
  "create_checkout_order env actor org key =
     andthen (reads_db (get_payment_by_idempotency_key key)) (\<lambda>existing.
     case existing of
       Some p \<Rightarrow> ret p
     | None \<Rightarrow>
         andthen (get_license_for_organization org) (\<lambda>l.
         andthen (guard (l_status l \<in> {LICENSE_ACTIVE, PENDING_ACTIVATION, LICENSE_SUSPENDED}) (LicenseNotActiveError org)) (\<lambda>_.
         andthen (get_plan False (l_plan_id l)) (\<lambda>pl.
         andthen (reads_db (get_subscription_by_organization_id org)) (\<lambda>sub.
         andthen (create_payment_or_winner env actor org (map_option row_id sub) (p_base_price pl) (p_currency pl)
           ''razorpay'' key) (\<lambda>(p, created).
         if \<not> created then ret p
         else
           andthen (audit_payment actor ''payment_initiated'' p
             (''Checkout order requested for organization '' @ org @ '' ('' @ show_money (pay_amount p) @ '' '' @
              pay_currency p @ '' via razorpay, plan '' @ quoted (p_slug pl) @ '')'')) (\<lambda>_.
           gateway_create_checkout_order env p)))))))"

definition refund_payment ::
  "'r billing_env \<Rightarrow> uuid option \<Rightarrow> uuid \<Rightarrow> uuid option \<Rightarrow> rat option \<Rightarrow> ('r, payment) bprog" where
  "refund_payment env actor payment_id requesting amount =
     andthen (get_payment payment_id requesting) (\<lambda>p.
     andthen (guard (pay_status p \<in> {SUCCEEDED, PARTIALLY_REFUNDED}) (PaymentNotRefundableError payment_id (pay_status p))) (\<lambda>_.
     let refundable = pay_amount p - pay_refunded_amount p;
         n = (case amount of Some a \<Rightarrow> a | None \<Rightarrow> refundable)
     in andthen (guard (\<not> (n \<le> 0 \<or> refundable < n)) (RefundExceedsRefundableAmountError payment_id n refundable)) (\<lambda>_.
        andthen (gateway_for env (pay_provider p)) (\<lambda>gw.
        andthen (gateway_refund gw p (Some n)) (\<lambda>updated.
        andthen (audit_payment actor ''payment_refunded'' updated
          (''Payment '' @ row_id updated @ '' refunded '' @ show_money n @ '' ('' @
           (if pay_status updated = REFUNDED then ''full'' else ''partial'') @ '')'')) (\<lambda>_.
        ret updated))))))"

definition is_payment_retry_eligible :: "PaymentStatus \<Rightarrow> bool" where
  "is_payment_retry_eligible status \<longleftrightarrow> status = FAILED"

definition retry_failed_payment :: "'r billing_env \<Rightarrow> uuid option \<Rightarrow> uuid \<Rightarrow> uuid option \<Rightarrow> ('r, payment) bprog" where
  "retry_failed_payment env actor payment_id requesting =
     andthen (get_payment payment_id requesting) (\<lambda>p.
     andthen (guard (is_payment_retry_eligible (pay_status p)) (PaymentNotRetryableError payment_id (pay_status p))) (\<lambda>_.
     andthen (gateway_for env (pay_provider p)) (\<lambda>gw.
     andthen (gateway_retry gw p) (\<lambda>updated.
     andthen (audit_payment actor ''payment_retried'' updated
       (''Payment '' @ row_id updated @ '' retried ('' @
        (if pay_status updated = SUCCEEDED then ''succeeded'' else ''failed again'') @ '')'')) (\<lambda>_.
     ret updated)))))"


subsection \<open>Payment methods\<close>

definition audit_payment_method :: "uuid option \<Rightarrow> string \<Rightarrow> payment_method \<Rightarrow> string \<Rightarrow> ('r, unit) bprog" where
  "audit_payment_method actor action m description =
     write_audit actor action ''payment_method'' (Some (row_id m)) description [] (Some (pm_organization_id m))"

definition register_payment_method ::
  "'r billing_env \<Rightarrow> uuid option \<Rightarrow> uuid \<Rightarrow> string \<Rightarrow> string \<Rightarrow> PaymentMethodType \<Rightarrow> string option \<Rightarrow> bool \<Rightarrow>
   ('r, payment_method) bprog" where
  "register_payment_method env actor org provider token ty last4 as_default =
     andthen (create_payment_method env actor org provider token ty last4) (\<lambda>m.
     andthen (if as_default then set_as_default env m else ret m) (\<lambda>m'.
     andthen (audit_payment_method actor ''payment_method_registered'' m'
       (''Payment method '' @ row_id m' @ '' registered for organization '' @ org)) (\<lambda>_.
     ret m')))"

definition get_payment_method :: "uuid \<Rightarrow> uuid option \<Rightarrow> ('r, payment_method) bprog" where
  "get_payment_method method_id org =
     andthen (reads_db (\<lambda>db. get_by_id False method_id (payment_methods db))) (\<lambda>found.
     case found of
       None \<Rightarrow> raise (PaymentMethodNotFoundError method_id)
     | Some m \<Rightarrow>
         if org \<noteq> None \<and> org \<noteq> Some (pm_organization_id m) then raise (PaymentMethodNotFoundError method_id) else ret m)"

definition remove_payment_method :: "'r billing_env \<Rightarrow> uuid option \<Rightarrow> uuid \<Rightarrow> uuid option \<Rightarrow> ('r, payment_method) bprog" where
  "remove_payment_method env actor method_id requesting =
     andthen (get_payment_method method_id requesting) (\<lambda>m.
     andthen (save_row env payment_methods_update m (\<lambda>r.
       r\<lparr>pm_is_active := False, pm_is_default := False, updated_by := actor\<rparr>)) (\<lambda>updated.
     andthen (hide_row env payment_methods_update updated) (\<lambda>hidden.
     andthen (audit_payment_method actor ''payment_method_removed'' hidden (''Payment method '' @ row_id hidden @ '' removed'')) (\<lambda>_.
     ret hidden))))"

end
