(* ===== verification/Renewal.thy ===== *)
theory Renewal
  imports Payments
begin

section \<open>The renewal engine\<close>

text \<open>
  \<open>RenewalService\<close> of \<open>app/domains/billing/renewal_service.py\<close> and the task that runs it
  (\<open>tasks.py\<close>). The payment gateway is the program \<open>charge\<close> (\<open>PaymentGatewayProtocol\<close>), so the
  service can be run with either real gateway or with the unconfigured one. The task runs
  one sweep in one transaction: every phase and every subscription is isolated by an
  \<open>except Exception\<close> that logs and goes on, so what an item flushed before it raised is
  committed with the rest. Of a reminder e-mail the rendered body is left out.
\<close>

type_synonym 'r charge_port = "uuid \<Rightarrow> rat \<Rightarrow> string \<Rightarrow> uuid \<Rightarrow> ('r, payment_result) bprog"

definition compute_renewal_charge_amount :: "plan \<Rightarrow> rat" where
  "compute_renewal_charge_amount p = p_base_price p"

definition audit_renewal :: "string \<Rightarrow> subscription \<Rightarrow> string \<Rightarrow> ('r, unit) bprog" where
  "audit_renewal action s description =
     write_audit None action ''subscription'' (Some (row_id s)) description [] (Some (s_organization_id s))"

definition mark_renewed :: "'r billing_env \<Rightarrow> subscription \<Rightarrow> plan \<Rightarrow> rat \<Rightarrow> ('r, subscription) bprog" where
  "mark_renewed env s p amount =
     andthen (py_now env) (\<lambda>now.
     andthen (next_period_end now (s_billing_cycle s)) (\<lambda>period_end.
     andthen (save_row env subscriptions_update s (\<lambda>r.
       r\<lparr>s_status := SUB_ACTIVE, s_current_period_start := now, s_current_period_end := period_end,
         s_past_due_at := None\<rparr>)) (\<lambda>updated.
     andthen (audit_renewal ''subscription_renewed'' updated
       (''Subscription '' @ row_id updated @ '' renewed (charged '' @ show_money amount @ '' '' @ p_currency p @ '')'')) (\<lambda>_.
     ret updated))))"

definition mark_past_due :: "'r billing_env \<Rightarrow> subscription \<Rightarrow> string \<Rightarrow> ('r, subscription) bprog" where
  "mark_past_due env s reason =
     andthen (case s_past_due_at s of
         None \<Rightarrow> andthen (py_now env) (\<lambda>now. ret (Some now))
       | Some t \<Rightarrow> ret (Some t)) (\<lambda>since.
     andthen (save_row env subscriptions_update s (\<lambda>r. r\<lparr>s_status := PAST_DUE, s_past_due_at := since\<rparr>)) (\<lambda>updated.
     andthen (audit_renewal ''subscription_renewal_failed'' updated
       (''Subscription '' @ row_id updated @ '' renewal failed: '' @ reason)) (\<lambda>_.
     ret updated)))"

definition apostrophe_s :: string where
  "apostrophe_s = [char_of (39 :: nat), CHR ''s'']"

definition finalize_scheduled_cancellation ::
  "license_deps \<Rightarrow> 'r billing_env \<Rightarrow> subscription \<Rightarrow> ('r, subscription) bprog" where
  "finalize_scheduled_cancellation deps env s =
     andthen (py_now env) (\<lambda>now.
     andthen (save_row env subscriptions_update s (\<lambda>r.
       r\<lparr>s_status := SUB_CANCELLED, s_cancelled_at := Some now, s_auto_renew := False, s_past_due_at := None\<rparr>)) (\<lambda>updated.
     andthen (suspend_license deps env None (s_license_id updated) None
       ''Subscription's scheduled (cancel-at-period-end) cancellation took effect'') (\<lambda>_.
     andthen (audit_renewal ''subscription_cancelled'' updated
       (''Subscription '' @ row_id updated @ apostrophe_s @ '' scheduled cancel-at-period-end took effect'')) (\<lambda>_.
     ret updated))))"

definition process_renewal ::
  "license_deps \<Rightarrow> 'r billing_env \<Rightarrow> 'r charge_port \<Rightarrow> uuid \<Rightarrow> ('r, subscription) bprog" where
  "process_renewal deps env charge subscription_id =
     andthen (reads_db (\<lambda>db. get_by_id False subscription_id (subscriptions db))) (\<lambda>found.
     andthen (orelse found (SubscriptionNotFoundError subscription_id)) (\<lambda>s.
     andthen (guard (s_status s \<in> set RENEWABLE_SUBSCRIPTION_STATUSES) (InvalidSubscriptionStatusForRenewalError (s_status s))) (\<lambda>_.
     andthen (py_now env) (\<lambda>now.
     if s_cancel_at_period_end s \<and> instant (s_current_period_end s) \<le> instant now
     then finalize_scheduled_cancellation deps env s
     else
       andthen (get_plan False (s_plan_id s)) (\<lambda>p.
       let amount = compute_renewal_charge_amount p
       in andthen (catching
            (andthen (charge (s_organization_id s) amount (p_currency p) (row_id s)) (\<lambda>result. ret (Inr result)))
            (\<lambda>e. case e of
               PaymentGatewayNotConfiguredError org n currency \<Rightarrow> ret (Inl (not_configured_text org n currency))
             | _ \<Rightarrow> raise e)) (\<lambda>outcome.
          case outcome of
            Inl reason \<Rightarrow> mark_past_due env s reason
          | Inr result \<Rightarrow>
              if \<not> pr_success result
              then mark_past_due env s (case pr_failure_reason result of
                     None \<Rightarrow> ''payment_declined'' | Some t \<Rightarrow> if t = '''' then ''payment_declined'' else t)
              else mark_renewed env s p amount))))))"

definition confirm_renewal_payment_succeeded :: "'r billing_env \<Rightarrow> uuid \<Rightarrow> ('r, subscription) bprog" where
  "confirm_renewal_payment_succeeded env subscription_id =
     andthen (reads_db (\<lambda>db. get_by_id False subscription_id (subscriptions db))) (\<lambda>found.
     andthen (orelse found (SubscriptionNotFoundError subscription_id)) (\<lambda>s.
     andthen (get_plan False (s_plan_id s)) (\<lambda>p.
     mark_renewed env s p (compute_renewal_charge_amount p))))"

definition confirm_renewal_payment_failed :: "'r billing_env \<Rightarrow> uuid \<Rightarrow> string \<Rightarrow> ('r, subscription) bprog" where
  "confirm_renewal_payment_failed env subscription_id reason =
     andthen (reads_db (\<lambda>db. get_by_id False subscription_id (subscriptions db))) (\<lambda>found.
     andthen (orelse found (SubscriptionNotFoundError subscription_id)) (\<lambda>s.
     mark_past_due env s reason))"


subsection \<open>The sweep\<close>

text \<open>\<open>failed\<close> lists the subscription only: the text of the exception goes to a log.\<close>

record renewal_sweep_result =
  subscriptions_checked :: nat
  renewed_count :: nat
  failed_ids :: "uuid list"

definition process_due_renewals ::
  "license_deps \<Rightarrow> 'r billing_env \<Rightarrow> 'r charge_port \<Rightarrow> ('r, renewal_sweep_result) bprog" where
  "process_due_renewals deps env charge =
     andthen (py_now env) (\<lambda>now.
     andthen (reads_db (list_due_for_renewal now)) (\<lambda>due.
     andthen (for_each (\<lambda>s (renewed, failed).
       catching
         (andthen (process_renewal deps env charge (row_id s)) (\<lambda>result.
          ret (if s_status result = SUB_ACTIVE then Suc renewed else renewed, failed)))
         (\<lambda>_. ret (renewed, failed @ [row_id s]))) due (0, [])) (\<lambda>(renewed, failed).
     ret \<lparr>subscriptions_checked = length due, renewed_count = renewed, failed_ids = failed\<rparr>)))"

definition lapse_one :: "license_deps \<Rightarrow> 'r billing_env \<Rightarrow> py_datetime \<Rightarrow> subscription \<Rightarrow> ('r, subscription) bprog" where
  "lapse_one deps env now s =
     andthen (save_row env subscriptions_update s (\<lambda>r.
       r\<lparr>s_status := SUB_CANCELLED, s_cancelled_at := Some now, s_past_due_at := None\<rparr>)) (\<lambda>updated.
     andthen (suspend_license deps env None (s_license_id updated) None
       ''Subscription's billing period ended with auto-renewal turned off'') (\<lambda>_.
     ret updated))"

definition lapse_non_renewing_subscriptions :: "license_deps \<Rightarrow> 'r billing_env \<Rightarrow> ('r, uuid list) bprog" where
  "lapse_non_renewing_subscriptions deps env =
     andthen (py_now env) (\<lambda>now.
     andthen (reads_db (list_lapsed_non_renewing now)) (\<lambda>lapsed.
     for_each (\<lambda>s ids.
       andthen (catching (andthen (lapse_one deps env now s) (\<lambda>u. ret (Some u))) (\<lambda>_. ret None)) (\<lambda>outcome.
       case outcome of
         None \<Rightarrow> ret ids
       | Some updated \<Rightarrow>
           andthen (audit_renewal ''subscription_cancelled'' updated
             (''Subscription '' @ row_id updated @ '' lapsed at period end (auto-renewal was off)'')) (\<lambda>_.
           ret (ids @ [row_id updated])))) lapsed []))"

definition expire_one :: "license_deps \<Rightarrow> 'r billing_env \<Rightarrow> py_datetime \<Rightarrow> subscription \<Rightarrow> ('r, subscription) bprog" where
  "expire_one deps env now s =
     andthen (expire_license deps env (s_license_id s)) (\<lambda>_.
     save_row env subscriptions_update s (\<lambda>r.
       r\<lparr>s_status := SUB_CANCELLED, s_cancelled_at := Some now, s_auto_renew := False, s_past_due_at := None\<rparr>))"

definition expire_lapsed_subscriptions :: "license_deps \<Rightarrow> 'r billing_env \<Rightarrow> ('r, uuid list) bprog" where
  "expire_lapsed_subscriptions deps env =
     andthen (py_now env) (\<lambda>now.
     andthen (reads_db (list_by_status [PAST_DUE])) (\<lambda>past_due.
     for_each (\<lambda>s ids.
       case s_past_due_at s of
         None \<Rightarrow> ret ids
       | Some since \<Rightarrow>
           andthen (plus_days since (grace_period_days env)) (\<lambda>deadline.
           if instant now < instant deadline then ret ids
           else
             andthen (catching (andthen (expire_one deps env now s) (\<lambda>u. ret (Some u))) (\<lambda>_. ret None)) (\<lambda>outcome.
             case outcome of
               None \<Rightarrow> ret ids
             | Some updated \<Rightarrow>
                 andthen (audit_renewal ''subscription_expired_after_grace_period'' updated
                   (''Subscription '' @ row_id updated @ apostrophe_s @ '' license expired after its '' @
                    show_nat (grace_period_days env) @ ''-day grace period lapsed'')) (\<lambda>_.
                 ret (ids @ [row_id updated]))))) past_due []))"

definition send_reminder_email ::
  "subscription \<Rightarrow> NotificationEventType \<Rightarrow> string \<Rightarrow> ('r, unit) bprog" where
  "send_reminder_email s ty subject =
     andthen (get_organization (s_organization_id s)) (\<lambda>o'.
     modifies_db (outbox_update (\<lambda>q. q @
       [\<lparr>qe_event_type = ty, qe_recipient = org_contact_email o', qe_subject = subject,
         qe_organization_id = s_organization_id s\<rparr>])))"

text \<open>Reading the name of a plan that is not found is an \<open>AttributeError\<close>.\<close>

definition plan_for_email :: "subscription \<Rightarrow> ('r, plan) bprog" where
  "plan_for_email s =
     andthen (reads_db (\<lambda>db. get_by_id False (s_plan_id s) (plans db))) (\<lambda>found. orelse found AttributeError)"

definition reminded_since :: "py_datetime option \<Rightarrow> py_datetime \<Rightarrow> bool" where
  "reminded_since sent_at since \<longleftrightarrow> (case sent_at of None \<Rightarrow> False | Some t \<Rightarrow> instant since \<le> instant t)"

definition send_renewal_reminders :: "'r billing_env \<Rightarrow> ('r, nat) bprog" where
  "send_renewal_reminders env =
     andthen (py_now env) (\<lambda>now.
     andthen (plus_days now (renewal_reminder_days_before env)) (\<lambda>window_end.
     andthen (reads_db (list_by_status [TRIALING, SUB_ACTIVE])) (\<lambda>candidates.
     for_each (\<lambda>s sent_count.
       if \<not> s_auto_renew s then ret sent_count
       else if \<not> (instant now \<le> instant (s_current_period_end s) \<and> instant (s_current_period_end s) \<le> instant window_end)
       then ret sent_count
       else if reminded_since (s_last_renewal_reminder_sent_at s) (s_current_period_start s) then ret sent_count
       else
         andthen (plan_for_email s) (\<lambda>_.
         andthen (send_reminder_email s SUBSCRIPTION_RENEWAL_REMINDER ''Your Wyfy Guest subscription renews soon'') (\<lambda>_.
         andthen (save_row env subscriptions_update s (\<lambda>r. r\<lparr>s_last_renewal_reminder_sent_at := Some now\<rparr>)) (\<lambda>_.
         ret (Suc sent_count))))) candidates 0)))"

definition send_expiry_reminders :: "'r billing_env \<Rightarrow> ('r, nat) bprog" where
  "send_expiry_reminders env =
     andthen (py_now env) (\<lambda>now.
     andthen (reads_db (list_by_status [PAST_DUE])) (\<lambda>past_due.
     for_each (\<lambda>s sent_count.
       case s_past_due_at s of
         None \<Rightarrow> ret sent_count
       | Some since \<Rightarrow>
           andthen (plus_days since (grace_period_days env)) (\<lambda>deadline.
           if instant deadline \<le> instant now then ret sent_count
           else if days (int (expiry_reminder_days_before env)) < instant deadline - instant now then ret sent_count
           else if reminded_since (s_last_expiry_reminder_sent_at s) since then ret sent_count
           else
             andthen (plan_for_email s) (\<lambda>_.
             andthen (send_reminder_email s SUBSCRIPTION_EXPIRY_REMINDER
               ''Action needed: your Wyfy Guest license will expire soon'') (\<lambda>_.
             andthen (save_row env subscriptions_update s (\<lambda>r. r\<lparr>s_last_expiry_reminder_sent_at := Some now\<rparr>)) (\<lambda>_.
             ret (Suc sent_count)))))) past_due 0))"

record renewal_sweep_report =
  sr_renewal :: renewal_sweep_result
  sr_lapsed_subscription_ids :: "uuid list"
  sr_expired_subscription_ids :: "uuid list"
  sr_renewal_reminders_sent :: nat
  sr_expiry_reminders_sent :: nat

text \<open>A phase that fails leaves its default in the report.\<close>

definition phase :: "('r, 'a) bprog \<Rightarrow> 'a \<Rightarrow> ('r, 'a) bprog" where
  "phase m d = catching m (\<lambda>_. ret d)"

definition run_renewal_sweep ::
  "license_deps \<Rightarrow> 'r billing_env \<Rightarrow> 'r charge_port \<Rightarrow> ('r, renewal_sweep_report) bprog" where
  "run_renewal_sweep deps env charge =
     andthen (phase (process_due_renewals deps env charge) \<lparr>subscriptions_checked = 0, renewed_count = 0, failed_ids = []\<rparr>) (\<lambda>renewal.
     andthen (phase (lapse_non_renewing_subscriptions deps env) []) (\<lambda>lapsed.
     andthen (phase (expire_lapsed_subscriptions deps env) []) (\<lambda>expired.
     andthen (phase (send_renewal_reminders env) 0) (\<lambda>renewal_sent.
     andthen (phase (send_expiry_reminders env) 0) (\<lambda>expiry_sent.
     ret \<lparr>sr_renewal = renewal, sr_lapsed_subscription_ids = lapsed, sr_expired_subscription_ids = expired,
          sr_renewal_reminders_sent = renewal_sent, sr_expiry_reminders_sent = expiry_sent\<rparr>)))))"

text \<open>\<open>_run_renewal_sweep_async\<close>: a session of its own and the gateway of the settings.\<close>

definition run_renewal_sweep_task :: "'r billing_env \<Rightarrow> ('r, renewal_sweep_report) bprog" where
  "run_renewal_sweep_task env =
     with_db_session (run_renewal_sweep sweep_deps env (gateway_charge env (build_payment_gateway env)))"

end
