(* ===== verification/Invoices.thy ===== *)
theory Invoices
  imports Renewal
begin

section \<open>Tax rates, billing profiles and invoices\<close>

text \<open>
  \<open>TaxRateService\<close>, \<open>BillingProfileService\<close> and \<open>InvoiceService\<close> of \<open>app/domains/billing/service.py\<close> and the
  overdue task of \<open>tasks.py\<close>. The amounts are computed by the rules of theory \<open>Billing\<close>, the
  numbers by its document counters. \<open>coupon_repository\<close> is wired, as in \<open>dependencies.py\<close>.
  Rendering and e-mailing an invoice are not modelled.
\<close>

fun INVOICE_TRANSITIONS :: "InvoiceStatus \<Rightarrow> InvoiceStatus list" where
  "INVOICE_TRANSITIONS INVOICE_DRAFT = [INVOICE_ISSUED, INVOICE_CANCELLED]"
| "INVOICE_TRANSITIONS INVOICE_ISSUED = [INVOICE_PAID, INVOICE_OVERDUE, INVOICE_VOID]"
| "INVOICE_TRANSITIONS INVOICE_OVERDUE = [INVOICE_PAID, INVOICE_VOID]"
| "INVOICE_TRANSITIONS INVOICE_PAID = []"
| "INVOICE_TRANSITIONS INVOICE_CANCELLED = []"
| "INVOICE_TRANSITIONS INVOICE_VOID = []"

fun InvoiceStatus_value :: "InvoiceStatus \<Rightarrow> string" where
  "InvoiceStatus_value INVOICE_DRAFT = ''draft''"
| "InvoiceStatus_value INVOICE_ISSUED = ''issued''"
| "InvoiceStatus_value INVOICE_PAID = ''paid''"
| "InvoiceStatus_value INVOICE_OVERDUE = ''overdue''"
| "InvoiceStatus_value INVOICE_CANCELLED = ''cancelled''"
| "InvoiceStatus_value INVOICE_VOID = ''void''"

definition assert_invoice_transition :: "InvoiceStatus \<Rightarrow> InvoiceStatus \<Rightarrow> ('r, unit) bprog" where
  "assert_invoice_transition current target =
     guard (target \<in> set (INVOICE_TRANSITIONS current))
       (InvalidInvoiceStatusTransitionError current (InvoiceStatus_value target))"


subsection \<open>Tax rates\<close>

definition get_tax_rate :: "uuid \<Rightarrow> ('r, tax_rate) bprog" where
  "get_tax_rate tax_rate_id =
     andthen (reads_db (\<lambda>db. get_by_id False tax_rate_id (tax_rates db))) (\<lambda>t. orelse t (TaxRateNotFoundError tax_rate_id))"

definition audit_tax_rate :: "uuid option \<Rightarrow> string \<Rightarrow> uuid \<Rightarrow> string \<Rightarrow> ('r, unit) bprog" where
  "audit_tax_rate actor action i description = write_audit actor action ''tax_rate'' (Some i) description [] None"

definition create_tax_rate ::
  "'r billing_env \<Rightarrow> uuid option \<Rightarrow> string \<Rightarrow> TaxType \<Rightarrow> rat \<Rightarrow> string \<Rightarrow> bool \<Rightarrow> ('r, tax_rate) bprog" where
  "create_tax_rate env actor name ty rate country active =
     andthen (guard (\<not> (rate < 0 \<or> 100 < rate)) InvalidTaxRateError) (\<lambda>_.
     andthen (insert_row env actor tax_rates tax_rates_update (\<lambda>_. True)
       (tax_rate.fields name ty rate (py_upper country) active)) (\<lambda>t.
     andthen (audit_tax_rate actor ''tax_rate_created'' (row_id t)
       (''Tax rate '' @ quoted (tr_name t) @ '' created for '' @ tr_country_code t)) (\<lambda>_.
     ret t)))"

record tax_rate_data =
  td_name :: "string option"
  td_tax_type :: "TaxType option"
  td_rate_percentage :: "rat option"
  td_country_code :: "string option"
  td_is_active :: "bool option"

definition put_tax_rate_data :: "tax_rate_data \<Rightarrow> tax_rate \<Rightarrow> tax_rate" where
  "put_tax_rate_data d t =
     t\<lparr>tr_name := sent (td_name d) (tr_name t), tr_tax_type := sent (td_tax_type d) (tr_tax_type t),
       tr_rate_percentage := sent (td_rate_percentage d) (tr_rate_percentage t),
       tr_country_code := sent (map_option py_upper (td_country_code d)) (tr_country_code t),
       tr_is_active := sent (td_is_active d) (tr_is_active t)\<rparr>"

definition update_tax_rate :: "'r billing_env \<Rightarrow> uuid option \<Rightarrow> uuid \<Rightarrow> tax_rate_data \<Rightarrow> ('r, tax_rate) bprog" where
  "update_tax_rate env actor tax_rate_id data =
     andthen (get_tax_rate tax_rate_id) (\<lambda>t.
     andthen (guard (case td_rate_percentage data of None \<Rightarrow> True | Some r \<Rightarrow> \<not> (r < 0 \<or> 100 < r)) InvalidTaxRateError) (\<lambda>_.
     andthen (save_row env tax_rates_update t (\<lambda>r. (put_tax_rate_data data r)\<lparr>updated_by := actor\<rparr>)) (\<lambda>updated.
     andthen (audit_tax_rate actor ''tax_rate_updated'' (row_id updated) (''Tax rate '' @ row_id updated @ '' updated'')) (\<lambda>_.
     ret updated))))"


subsection \<open>Billing profiles\<close>

definition get_billing_profile :: "uuid \<Rightarrow> ('r, billing_profile) bprog" where
  "get_billing_profile org =
     andthen (reads_db (get_profile_by_organization_id org)) (\<lambda>p. orelse p (BillingProfileNotFoundError org))"

definition upsert_billing_profile ::
  "'r billing_env \<Rightarrow> uuid option \<Rightarrow> uuid \<Rightarrow> billing_details \<Rightarrow> ('r, billing_profile) bprog" where
  "upsert_billing_profile env actor org details =
     (let d = details\<lparr>bd_country := py_upper (bd_country details)\<rparr>
      in andthen (reads_db (get_profile_by_organization_id org)) (\<lambda>existing.
         andthen (case existing of
             None \<Rightarrow> insert_row env actor billing_profiles billing_profiles_update (\<lambda>t. distinct (map bp_organization_id t))
                       (billing_profile.fields org d)
           | Some p \<Rightarrow> save_row env billing_profiles_update p (\<lambda>r. r\<lparr>bp_details := d, updated_by := actor\<rparr>)) (\<lambda>p.
         andthen (write_audit actor ''billing_profile_updated'' ''billing_profile'' (Some (row_id p))
           (''Billing profile updated for organization '' @ org) [] (Some org)) (\<lambda>_.
         ret p))))"


subsection \<open>Invoices\<close>

definition get_invoice :: "uuid \<Rightarrow> uuid option \<Rightarrow> ('r, invoice) bprog" where
  "get_invoice invoice_id org =
     andthen (reads_db (\<lambda>db. get_by_id False invoice_id (invoices db))) (\<lambda>found.
     case found of
       None \<Rightarrow> raise (InvoiceNotFoundError invoice_id)
     | Some i \<Rightarrow>
         if org \<noteq> None \<and> org \<noteq> Some (i_organization_id i) then raise (InvoiceNotFoundError invoice_id) else ret i)"

definition audit_invoice :: "uuid option \<Rightarrow> string \<Rightarrow> invoice \<Rightarrow> string \<Rightarrow> ('r, unit) bprog" where
  "audit_invoice actor action i description =
     write_audit actor action ''invoice'' (Some (row_id i)) description [] (Some (i_organization_id i))"

definition resolve_coupon_discount :: "subscription \<Rightarrow> billing_db \<Rightarrow> rat" where
  "resolve_coupon_discount s db =
     (if s_applied_coupon_id s = None then 0
      else if has_discounted_invoice (row_id s) db then 0
      else case get_usage_for_subscription (row_id s) db of None \<Rightarrow> 0 | Some u \<Rightarrow> cu_discount_amount_applied u)"

definition create_invoice ::
  "'r billing_env \<Rightarrow> uuid \<Rightarrow> uuid option \<Rightarrow> string \<Rightarrow> InvoiceStatus \<Rightarrow> py_datetime \<Rightarrow> py_datetime \<Rightarrow> rat \<Rightarrow> rat \<Rightarrow>
   gst_breakdown \<Rightarrow> rat \<Rightarrow> rat \<Rightarrow> string \<Rightarrow> billing_details \<Rightarrow> ('r, invoice) bprog" where
  "create_invoice env org subscription_id number status issued_on due subtotal discount b rate invoice_total currency snapshot =
     insert_row env None invoices invoices_update (\<lambda>t. distinct (map i_invoice_number t))
       (invoice.fields org subscription_id None number status issued_on due subtotal discount (cgst_amount b) (sgst_amount b)
          (igst_amount b) (tax_amount b) rate invoice_total currency snapshot)"

definition create_invoice_item :: "'r billing_env \<Rightarrow> uuid \<Rightarrow> string \<Rightarrow> rat \<Rightarrow> rat \<Rightarrow> rat \<Rightarrow> ('r, invoice_item) bprog" where
  "create_invoice_item env invoice_id description quantity unit_price amount =
     insert_row env None invoice_items invoice_items_update (\<lambda>_. True)
       (invoice_item.fields invoice_id description quantity unit_price amount)"

text \<open>The rate looked up for a profile and the tax on a value, as both callers compute them.\<close>

definition applicable_tax_rate :: "billing_details \<Rightarrow> billing_db \<Rightarrow> tax_rate option" where
  "applicable_tax_rate d db = (if bd_tax_exempt d then None else get_active_tax_rate (bd_country d) db)"

definition rate_of :: "tax_rate option \<Rightarrow> rat" where
  "rate_of t = (case t of None \<Rightarrow> 0 | Some r \<Rightarrow> tr_rate_percentage r)"

definition invoice_tax :: "'r billing_env \<Rightarrow> billing_details \<Rightarrow> tax_rate option \<Rightarrow> rat \<Rightarrow> gst_breakdown" where
  "invoice_tax env d t taxable =
     compute_tax_breakdown taxable (map_option tr_tax_type t) (rate_of t) (bd_tax_exempt d) (platform_gst_state env)
       (platform_gst_country env) (bd_state d) (bd_country d)"

definition generate_invoice_for_subscription :: "'r billing_env \<Rightarrow> uuid \<Rightarrow> ('r, invoice) bprog" where
  "generate_invoice_for_subscription env subscription_id =
     andthen (reads_db (\<lambda>db. get_by_id False subscription_id (subscriptions db))) (\<lambda>found.
     andthen (orelse found (SubscriptionNotFoundError subscription_id)) (\<lambda>s.
     andthen (get_plan False (s_plan_id s)) (\<lambda>p.
     andthen (get_billing_profile (s_organization_id s)) (\<lambda>profile.
     let subtotal = compute_renewal_charge_amount p; d = bp_details profile
     in andthen (reads_db (resolve_coupon_discount s)) (\<lambda>discount.
        let taxable = compute_taxable_value subtotal discount
        in andthen (reads_db (applicable_tax_rate d)) (\<lambda>t.
           let b = invoice_tax env d t taxable;
               invoice_total = quantize_cents (taxable + tax_amount b)
           in andthen (py_now env) (\<lambda>now.
              andthen (next_document_number InvoiceDoc now) (\<lambda>number.
              andthen (plus_days now (invoice_due_days env)) (\<lambda>due.
              andthen (create_invoice env (s_organization_id s) (Some (row_id s)) number INVOICE_ISSUED now due subtotal
                discount b (rate_of t) invoice_total (p_currency p) d) (\<lambda>i.
              andthen (create_invoice_item env (row_id i) (p_name p @ '' subscription ('' @ p_billing_cycle p @ '')'') 1
                subtotal subtotal) (\<lambda>_.
              andthen (audit_invoice None ''invoice_generated'' i (''Invoice '' @ i_invoice_number i @
                '' generated for subscription '' @ row_id s)) (\<lambda>_.
              ret i))))))))))))"

definition mark_invoice_paid :: "'r billing_env \<Rightarrow> uuid \<Rightarrow> uuid \<Rightarrow> ('r, invoice) bprog" where
  "mark_invoice_paid env invoice_id payment_id =
     andthen (get_invoice invoice_id None) (\<lambda>i.
     andthen (assert_invoice_transition (i_status i) INVOICE_PAID) (\<lambda>_.
     andthen (save_row env invoices_update i (\<lambda>r. r\<lparr>i_status := INVOICE_PAID, i_payment_id := Some payment_id\<rparr>)) (\<lambda>updated.
     andthen (audit_invoice None ''invoice_marked_paid'' updated
       (''Invoice '' @ i_invoice_number updated @ '' marked paid via payment '' @ payment_id)) (\<lambda>_.
     ret updated))))"

definition mark_invoice_paid_for_payment :: "'r billing_env \<Rightarrow> payment \<Rightarrow> ('r, invoice option) bprog" where
  "mark_invoice_paid_for_payment env p =
     (case pay_subscription_id p of
        None \<Rightarrow> ret None
      | Some subscription_id \<Rightarrow>
          andthen (reads_db (list_unpaid_for_subscription subscription_id)) (\<lambda>candidates.
          case candidates of
            [] \<Rightarrow> ret None
          | i # _ \<Rightarrow> andthen (mark_invoice_paid env (row_id i) (row_id p)) (\<lambda>updated. ret (Some updated))))"

definition void_invoice :: "'r billing_env \<Rightarrow> uuid option \<Rightarrow> uuid \<Rightarrow> uuid option \<Rightarrow> ('r, invoice) bprog" where
  "void_invoice env actor invoice_id requesting =
     andthen (get_invoice invoice_id requesting) (\<lambda>i.
     andthen (if i_status i = INVOICE_DRAFT then ret INVOICE_CANCELLED
       else if i_status i \<in> {INVOICE_ISSUED, INVOICE_OVERDUE} then ret INVOICE_VOID
       else raise (InvalidInvoiceStatusTransitionError (i_status i) ''void'')) (\<lambda>target.
     andthen (assert_invoice_transition (i_status i) target) (\<lambda>_.
     andthen (save_row env invoices_update i (\<lambda>r. r\<lparr>i_status := target, updated_by := actor\<rparr>)) (\<lambda>updated.
     andthen (audit_invoice actor ''invoice_voided'' updated
       (''Invoice '' @ i_invoice_number updated @ '' '' @ InvoiceStatus_value target @ '' (was '' @
        InvoiceStatus_value (i_status i) @ '')'')) (\<lambda>_.
     ret updated)))))"

definition mark_overdue_invoices :: "'r billing_env \<Rightarrow> ('r, uuid list) bprog" where
  "mark_overdue_invoices env =
     andthen (py_now env) (\<lambda>now.
     andthen (reads_db (list_issued_past_due now)) (\<lambda>due.
     for_each (\<lambda>i ids.
       andthen (catching
         (andthen (save_row env invoices_update i (\<lambda>r. r\<lparr>i_status := INVOICE_OVERDUE\<rparr>)) (\<lambda>u. ret (Some u)))
         (\<lambda>_. ret None)) (\<lambda>outcome.
       case outcome of
         None \<Rightarrow> ret ids
       | Some updated \<Rightarrow>
           andthen (audit_invoice None ''invoice_marked_overdue'' updated
             (''Invoice '' @ i_invoice_number updated @ '' marked overdue'')) (\<lambda>_.
           ret (ids @ [row_id updated])))) due []))"

definition run_invoice_overdue_sweep :: "'r billing_env \<Rightarrow> ('r, uuid list) bprog" where
  "run_invoice_overdue_sweep env = with_db_session (mark_overdue_invoices env)"

definition create_note ::
  "'r billing_env \<Rightarrow> uuid option \<Rightarrow> uuid \<Rightarrow> NoteType \<Rightarrow> string \<Rightarrow> rat \<Rightarrow> string \<Rightarrow> py_datetime \<Rightarrow> ('r, credit_debit_note) bprog" where
  "create_note env actor invoice_id ty number amount reason issued_on =
     insert_row env actor credit_debit_notes credit_debit_notes_update (\<lambda>t. distinct (map n_note_number t))
       (credit_debit_note.fields invoice_id ty number amount reason issued_on)"

definition issue_credit_note ::
  "'r billing_env \<Rightarrow> uuid option \<Rightarrow> uuid \<Rightarrow> uuid option \<Rightarrow> rat \<Rightarrow> string \<Rightarrow> ('r, credit_debit_note) bprog" where
  "issue_credit_note env actor invoice_id requesting amount reason =
     andthen (get_invoice invoice_id requesting) (\<lambda>i.
     andthen (guard (i_status i \<in> {INVOICE_ISSUED, INVOICE_OVERDUE, INVOICE_PAID})
       (InvalidInvoiceStatusTransitionError (i_status i) ''credit_note'')) (\<lambda>_.
     andthen (guard (\<not> amount \<le> 0) InvalidNoteAmountError) (\<lambda>_.
     andthen (guard (\<not> i_total_amount i < amount) InvalidNoteAmountError) (\<lambda>_.
     andthen (py_now env) (\<lambda>now.
     andthen (next_document_number CreditNoteDoc now) (\<lambda>number.
     andthen (create_note env actor (row_id i) CREDIT_NOTE number amount reason now) (\<lambda>n.
     andthen (audit_invoice actor ''credit_note_issued'' i (''Credit note '' @ n_note_number n @ '' issued against invoice '' @
       i_invoice_number i @ '' ('' @ show_money amount @ '')'')) (\<lambda>_.
     ret n))))))))"

definition issue_debit_note ::
  "'r billing_env \<Rightarrow> uuid option \<Rightarrow> uuid \<Rightarrow> uuid option \<Rightarrow> rat \<Rightarrow> string \<Rightarrow> ('r, credit_debit_note) bprog" where
  "issue_debit_note env actor invoice_id requesting amount reason =
     andthen (get_invoice invoice_id requesting) (\<lambda>i.
     andthen (guard (i_status i \<in> {INVOICE_ISSUED, INVOICE_OVERDUE, INVOICE_PAID})
       (InvalidInvoiceStatusTransitionError (i_status i) ''debit_note'')) (\<lambda>_.
     andthen (guard (\<not> amount \<le> 0) InvalidNoteAmountError) (\<lambda>_.
     andthen (py_now env) (\<lambda>now.
     andthen (next_document_number DebitNoteDoc now) (\<lambda>number.
     andthen (create_note env actor (row_id i) DEBIT_NOTE number amount reason now) (\<lambda>n.
     andthen (audit_invoice actor ''debit_note_issued'' i (''Debit note '' @ n_note_number n @ '' issued against invoice '' @
       i_invoice_number i @ '' ('' @ show_money amount @ '')'')) (\<lambda>_.
     ret n)))))))"

definition resolve_subscription_for_organization :: "uuid \<Rightarrow> uuid option \<Rightarrow> ('r, uuid) bprog" where
  "resolve_subscription_for_organization org subscription_id =
     (case subscription_id of
        Some i \<Rightarrow>
          andthen (reads_db (\<lambda>db. get_by_id False i (subscriptions db))) (\<lambda>found.
          case found of
            None \<Rightarrow> raise (SubscriptionNotFoundError i)
          | Some s \<Rightarrow> if s_organization_id s \<noteq> org then raise (SubscriptionNotFoundError i) else ret (row_id s))
      | None \<Rightarrow>
          andthen (reads_db (get_subscription_by_organization_id org)) (\<lambda>found.
          andthen (orelse found (SubscriptionNotFoundError org)) (\<lambda>s. ret (row_id s))))"

text \<open>A line is its description, quantity and unit price.\<close>

type_synonym invoice_line = "string \<times> rat \<times> rat"

definition lines_subtotal :: "invoice_line list \<Rightarrow> rat" where
  "lines_subtotal ls = quantize_cents (sum_list (map (\<lambda>(description, quantity, unit_price). quantity * unit_price) ls))"

definition issue_invoice_from_lines ::
  "'r billing_env \<Rightarrow> uuid \<Rightarrow> billing_profile \<Rightarrow> invoice_line list \<Rightarrow> InvoiceStatus \<Rightarrow> uuid option \<Rightarrow> (invoice \<Rightarrow> string) \<Rightarrow>
   ('r, invoice) bprog" where
  "issue_invoice_from_lines env org profile ls status actor audit_description =
     (let subtotal = lines_subtotal ls; d = bp_details profile
      in andthen (reads_db (applicable_tax_rate d)) (\<lambda>t.
         let b = invoice_tax env d t subtotal;
             invoice_total = quantize_cents (subtotal + tax_amount b)
         in andthen (py_now env) (\<lambda>now.
            andthen (next_document_number InvoiceDoc now) (\<lambda>number.
            andthen (if status = INVOICE_PAID then ret now else plus_days now (invoice_due_days env)) (\<lambda>due.
            andthen (create_invoice env org None number status now due subtotal 0 b (rate_of t) invoice_total ''INR'' d) (\<lambda>i.
            andthen (for_each (\<lambda>(description, quantity, unit_price) _.
              andthen (create_invoice_item env (row_id i) description quantity unit_price
                (quantize_cents (quantity * unit_price))) (\<lambda>_. ret ())) ls ()) (\<lambda>_.
            andthen (audit_invoice actor ''invoice_generated'' i (audit_description i)) (\<lambda>_.
            ret i))))))))"

definition create_manual_invoice :: "'r billing_env \<Rightarrow> uuid \<Rightarrow> invoice_line list \<Rightarrow> ('r, invoice) bprog" where
  "create_manual_invoice env org ls =
     andthen (get_billing_profile org) (\<lambda>profile.
     issue_invoice_from_lines env org profile ls INVOICE_ISSUED None
       (\<lambda>i. ''Invoice '' @ i_invoice_number i @ '' manually created for organization '' @ org))"

text \<open>\<open>f"{whole:,}"\<close>: the digits in groups of three.\<close>

fun group_digits :: "string \<Rightarrow> string" where
  "group_digits s =
     (if length s \<le> 3 then s
      else group_digits (take (length s - 3) s) @ '','' @ drop (length s - 3) s)"

declare group_digits.simps [simp del]

definition MINOR_PER_CREDIT :: int where
  "MINOR_PER_CREDIT = 100"

definition credits_label :: "int \<Rightarrow> string" where
  "credits_label n =
     (let whole = n div MINOR_PER_CREDIT; part = n mod MINOR_PER_CREDIT
      in (if whole < 0 then ''-'' else '''') @ group_digits (show_nat (nat \<bar>whole\<bar>)) @
         (if part \<noteq> 0 then ''.'' @ zero_padded 2 (nat part) else ''''))"

definition generate_invoice_for_credit_topup ::
  "'r billing_env \<Rightarrow> uuid \<Rightarrow> int \<Rightarrow> int \<Rightarrow> string option \<Rightarrow> uuid option \<Rightarrow> ('r, invoice) bprog" where
  "generate_invoice_for_credit_topup env org amount_paid_minor_inr credits_minor reference actor =
     andthen (reads_db (get_profile_by_organization_id org)) (\<lambda>found.
     andthen (orelse found (BillingProfileMissingError org)) (\<lambda>profile.
     let taxable = quantize_cents (of_int amount_paid_minor_inr / 100);
         label = credits_label credits_minor;
         description = ''Marketing credits: '' @ label @ '' credits'' @
           (case reference of None \<Rightarrow> '''' | Some r \<Rightarrow> if r = '''' then '''' else '' (ref '' @ r @ '')'')
     in issue_invoice_from_lines env org profile [(description, 1, taxable)] INVOICE_PAID actor
          (\<lambda>i. ''Invoice '' @ i_invoice_number i @ '' issued for a marketing credits top-up ('' @ label @ '' credits)'')))"

definition record_invoice_emailed ::
  "uuid option \<Rightarrow> invoice \<Rightarrow> string \<Rightarrow> bool \<Rightarrow> string option \<Rightarrow> ('r, unit) bprog" where
  "record_invoice_emailed actor i recipient email_sent email_error =
     audit_invoice actor ''invoice_emailed'' i (''Invoice '' @ i_invoice_number i @ '' '' @
       (if email_sent then ''emailed to '' @ recipient
        else case email_error of
          Some e \<Rightarrow> if e \<noteq> '''' then ''email to '' @ recipient @ '' FAILED: '' @ e
                    else ''email to '' @ recipient @ '' not sent: no provider configured''
        | None \<Rightarrow> ''email to '' @ recipient @ '' not sent: no provider configured''))"

end
