(* ===== verification/Webhooks.thy ===== *)
theory Webhooks
  imports Invoices
begin

section \<open>Provider webhooks\<close>

text \<open>
  \<open>app/domains/billing/webhooks.py\<close> and the two endpoints of \<open>router.py\<close> that call it. The
  signature check of the SDKs is a parameter: the endpoint is given its outcome. An event is
  first marked as seen in Redis, which no rollback undoes, and then applied to the database.
\<close>

definition WEBHOOK_EVENT_DEDUP_KEY_PREFIX :: string where
  "WEBHOOK_EVENT_DEDUP_KEY_PREFIX = ''billing:webhook_event''"

definition dedup_key :: "string \<Rightarrow> string \<Rightarrow> string" where
  "dedup_key provider event_id = WEBHOOK_EVENT_DEDUP_KEY_PREFIX @ '':'' @ provider @ '':'' @ event_id"

definition mark_processed_if_new :: "'r billing_env \<Rightarrow> string \<Rightarrow> string \<Rightarrow> ('r, bool) bprog" where
  "mark_processed_if_new env provider event_id =
     andthen (reads_world (\<lambda>w. kv_set_nx (redis_ops env) (dedup_key provider event_id) MarkerValue (webhook_dedup_ttl env) (w_redis w)))
       (\<lambda>(was_set, r).
     andthen (modifies_world (\<lambda>w. w\<lparr>w_redis := r\<rparr>)) (\<lambda>_. ret was_set))"

definition or_reported :: "string option \<Rightarrow> string" where
  "or_reported reason = (case reason of None \<Rightarrow> ''provider_reported_failure''
     | Some t \<Rightarrow> if t = '''' then ''provider_reported_failure'' else t)"

definition resolve_and_update_payment ::
  "'r billing_env \<Rightarrow> string option \<Rightarrow> bool \<Rightarrow> string option \<Rightarrow> ('r, payment option) bprog" where
  "resolve_and_update_payment env provider_payment_id succeeded failure_reason =
     (case provider_payment_id of
        None \<Rightarrow> ret None
      | Some pid \<Rightarrow>
          if pid = '''' then ret None
          else andthen (reads_db (get_payment_by_provider_payment_id pid)) (\<lambda>found.
            case found of
              None \<Rightarrow> ret None
            | Some p \<Rightarrow>
                if pay_status p \<in> {SUCCEEDED, FAILED} then ret (Some p)
                else if succeeded
                then andthen (save_payment env p (\<lambda>r. r\<lparr>pay_status := SUCCEEDED, pay_failure_reason := None\<rparr>)) (\<lambda>u. ret (Some u))
                else andthen (save_payment env p (\<lambda>r. r\<lparr>pay_status := FAILED,
                       pay_failure_reason := Some (or_reported failure_reason)\<rparr>)) (\<lambda>u. ret (Some u))))"

definition resolve_checkout_payment_by_order_id ::
  "'r billing_env \<Rightarrow> string option \<Rightarrow> string option \<Rightarrow> string \<Rightarrow> bool \<Rightarrow> string option \<Rightarrow> ('r, payment option) bprog" where
  "resolve_checkout_payment_by_order_id env order_id provider_payment_id signature succeeded failure_reason =
     (case order_id of
        None \<Rightarrow> ret None
      | Some oid \<Rightarrow>
          if oid = '''' then ret None
          else andthen (reads_db (get_payment_by_razorpay_order_id oid)) (\<lambda>found.
            let sig = (if signature = '''' then None else Some signature)
            in case found of
              None \<Rightarrow> ret None
            | Some p \<Rightarrow>
                if pay_status p \<in> {SUCCEEDED, FAILED} then ret (Some p)
                else if succeeded
                then andthen (save_payment env p (\<lambda>r. r\<lparr>pay_status := SUCCEEDED, pay_provider_payment_id := provider_payment_id,
                       pay_razorpay_signature := sig, pay_failure_reason := None\<rparr>)) (\<lambda>u. ret (Some u))
                else andthen (save_payment env p (\<lambda>r. r\<lparr>pay_status := FAILED, pay_provider_payment_id := provider_payment_id,
                       pay_razorpay_signature := sig, pay_failure_reason := Some (or_reported failure_reason)\<rparr>)) (\<lambda>u.
                     ret (Some u))))"

definition activate_license_if_needed :: "license_deps \<Rightarrow> 'r billing_env \<Rightarrow> uuid \<Rightarrow> ('r, unit) bprog" where
  "activate_license_if_needed deps env org =
     andthen (reads_db (get_license_by_organization_id org)) (\<lambda>found.
     case found of
       None \<Rightarrow> ret ()
     | Some l \<Rightarrow>
         if l_status l = LICENSE_ACTIVE then ret ()
         else catching (andthen (activate_license deps env None (row_id l) None) (\<lambda>_. ret ())) (\<lambda>e.
           case e of InvalidLicenseStatusTransitionError _ _ \<Rightarrow> ret () | _ \<Rightarrow> raise e))"

definition audit_webhook_received :: "string \<Rightarrow> string \<Rightarrow> string \<Rightarrow> payment option \<Rightarrow> ('r, unit) bprog" where
  "audit_webhook_received provider event_type event_id p =
     write_audit None ''billing_webhook_received'' (if p \<noteq> None then ''payment'' else ''webhook_event'') (map_option row_id p)
       (provider @ '' webhook received and processed: event_type='' @ quoted event_type @ '' event_id='' @ quoted event_id)
       [(''provider'', provider), (''event_type'', event_type)] (map_option pay_organization_id p)"

text \<open>What both handlers do with the payment a success event resolved to, license activation
  aside.\<close>

definition confirm_if_subscription :: "'r billing_env \<Rightarrow> payment option \<Rightarrow> ('r, unit) bprog" where
  "confirm_if_subscription env p =
     (case Option.bind p pay_subscription_id of
        None \<Rightarrow> ret ()
      | Some subscription_id \<Rightarrow> andthen (confirm_renewal_payment_succeeded env subscription_id) (\<lambda>_. ret ()))"

definition fail_if_subscription :: "'r billing_env \<Rightarrow> payment option \<Rightarrow> string option \<Rightarrow> ('r, unit) bprog" where
  "fail_if_subscription env p reason =
     (case Option.bind p pay_subscription_id of
        None \<Rightarrow> ret ()
      | Some subscription_id \<Rightarrow>
          andthen (confirm_renewal_payment_failed env subscription_id (or_reported reason)) (\<lambda>_. ret ()))"

definition settle_invoice :: "'r billing_env \<Rightarrow> payment option \<Rightarrow> ('r, unit) bprog" where
  "settle_invoice env p =
     (case p of None \<Rightarrow> ret () | Some q \<Rightarrow> andthen (mark_invoice_paid_for_payment env q) (\<lambda>_. ret ()))"

record stripe_event =
  se_id :: string
  se_type :: string
  se_intent_id :: "string option"
  se_error_message :: "string option"

definition process_stripe_event :: "'r billing_env \<Rightarrow> stripe_event \<Rightarrow> ('r, bool) bprog" where
  "process_stripe_event env ev =
     andthen (mark_processed_if_new env ''stripe'' (se_id ev)) (\<lambda>is_new.
     if \<not> is_new then ret False
     else
       andthen (if se_type ev = ''payment_intent.succeeded''
           then andthen (resolve_and_update_payment env (se_intent_id ev) True None) (\<lambda>p.
                andthen (confirm_if_subscription env p) (\<lambda>_.
                andthen (settle_invoice env p) (\<lambda>_. ret p)))
           else if se_type ev = ''payment_intent.payment_failed''
           then andthen (resolve_and_update_payment env (se_intent_id ev) False (se_error_message ev)) (\<lambda>p.
                andthen (fail_if_subscription env p (se_error_message ev)) (\<lambda>_. ret p))
           else ret None) (\<lambda>p.
       andthen (audit_webhook_received ''stripe'' (se_type ev) (se_id ev) p) (\<lambda>_.
       ret True)))"

record razorpay_event =
  re_event_id :: string
  re_event :: string
  re_payment_id :: "string option"
  re_order_id :: "string option"
  re_error_description :: "string option"

definition process_razorpay_event ::
  "license_deps \<Rightarrow> 'r billing_env \<Rightarrow> razorpay_event \<Rightarrow> string \<Rightarrow> ('r, bool) bprog" where
  "process_razorpay_event deps env ev signature =
     andthen (mark_processed_if_new env ''razorpay'' (re_event_id ev)) (\<lambda>is_new.
     if \<not> is_new then ret False
     else
       andthen (if re_event ev = ''payment.captured''
           then andthen (resolve_and_update_payment env (re_payment_id ev) True None) (\<lambda>p.
                andthen (case p of
                    Some q \<Rightarrow> ret (Some q)
                  | None \<Rightarrow> resolve_checkout_payment_by_order_id env (re_order_id ev) (re_payment_id ev) signature True None) (\<lambda>p.
                andthen (case p of
                    None \<Rightarrow> ret ()
                  | Some q \<Rightarrow>
                      if pay_subscription_id q \<noteq> None then confirm_if_subscription env p
                      else activate_license_if_needed deps env (pay_organization_id q)) (\<lambda>_.
                andthen (settle_invoice env p) (\<lambda>_. ret p))))
           else if re_event ev = ''payment.failed''
           then andthen (resolve_and_update_payment env (re_payment_id ev) False (re_error_description ev)) (\<lambda>p.
                andthen (case p of
                    Some q \<Rightarrow> ret (Some q)
                  | None \<Rightarrow> resolve_checkout_payment_by_order_id env (re_order_id ev) (re_payment_id ev) signature False
                              (re_error_description ev)) (\<lambda>p.
                andthen (fail_if_subscription env p (re_error_description ev)) (\<lambda>_. ret p)))
           else ret None) (\<lambda>p.
       andthen (audit_webhook_received ''razorpay'' (re_event ev) (re_event_id ev) p) (\<lambda>_.
       ret True)))"

definition log_signature_failure :: "string \<Rightarrow> string \<Rightarrow> ('r, unit) bprog" where
  "log_signature_failure provider reason =
     write_audit None ''billing_webhook_rejected'' ''webhook_event'' None
       (provider @ '' webhook REJECTED: signature verification failed ('' @ reason @ '')'') [(''provider'', provider)] None"

text \<open>The endpoints: \<open>Inl reason\<close> is a signature the SDK did not accept.\<close>

definition stripe_webhook :: "'r billing_env \<Rightarrow> string + stripe_event \<Rightarrow> ('r, unit) bprog" where
  "stripe_webhook env delivery =
     with_db_session (case delivery of
        Inl reason \<Rightarrow> andthen (log_signature_failure ''stripe'' reason) (\<lambda>_. raise (WebhookSignatureInvalidError reason))
      | Inr ev \<Rightarrow> andthen (process_stripe_event env ev) (\<lambda>_. ret ()))"

definition razorpay_webhook ::
  "license_deps \<Rightarrow> 'r billing_env \<Rightarrow> string \<Rightarrow> string + razorpay_event \<Rightarrow> ('r, unit) bprog" where
  "razorpay_webhook deps env signature delivery =
     with_db_session (case delivery of
        Inl reason \<Rightarrow> andthen (log_signature_failure ''razorpay'' reason) (\<lambda>_. raise (WebhookSignatureInvalidError reason))
      | Inr ev \<Rightarrow> andthen (process_razorpay_event deps env ev signature) (\<lambda>_. ret ()))"

end
