(* ===== verification/Footprints.thy ===== *)
theory Footprints
  imports Webhooks
begin

named_theorems footprint

section \<open>Which tables each operation writes\<close>

text \<open>
  The frame of the billing services: \<open>touches T\<close> relates two databases that agree on every
  table outside \<open>T\<close>, and every operation honours it for the tables it writes, on every run,
  also on one that raises. A relation that looks at some tables only is then kept by every
  operation whose footprint avoids them (locale \<open>table_relation\<close>).
\<close>

datatype billing_table =
    PlanTable | PlanFeatureTable | FeatureOverrideTable | LicenseTable | ChangeLogTable
  | SubscriptionTable | CouponTable | CouponPlanTable | CouponUsageTable | PaymentTable
  | PaymentMethodTable | TaxRateTable | BillingProfileTable | CounterTable | InvoiceTable
  | InvoiceItemTable | NoteTable | OrganizationTable | PortalTable | UsageTable
  | OutboxTable | AuditTable

fun same_table :: "billing_table \<Rightarrow> billing_db \<Rightarrow> billing_db \<Rightarrow> bool" where
  "same_table PlanTable a b \<longleftrightarrow> plans b = plans a"
| "same_table PlanFeatureTable a b \<longleftrightarrow> plan_features b = plan_features a"
| "same_table FeatureOverrideTable a b \<longleftrightarrow> feature_overrides b = feature_overrides a"
| "same_table LicenseTable a b \<longleftrightarrow> licenses b = licenses a"
| "same_table ChangeLogTable a b \<longleftrightarrow> change_logs b = change_logs a"
| "same_table SubscriptionTable a b \<longleftrightarrow> subscriptions b = subscriptions a"
| "same_table CouponTable a b \<longleftrightarrow> coupons b = coupons a"
| "same_table CouponPlanTable a b \<longleftrightarrow> coupon_plans b = coupon_plans a"
| "same_table CouponUsageTable a b \<longleftrightarrow> coupon_usages b = coupon_usages a"
| "same_table PaymentTable a b \<longleftrightarrow> payments b = payments a"
| "same_table PaymentMethodTable a b \<longleftrightarrow> payment_methods b = payment_methods a"
| "same_table TaxRateTable a b \<longleftrightarrow> tax_rates b = tax_rates a"
| "same_table BillingProfileTable a b \<longleftrightarrow> billing_profiles b = billing_profiles a"
| "same_table CounterTable a b \<longleftrightarrow> number_counters b = number_counters a"
| "same_table InvoiceTable a b \<longleftrightarrow> invoices b = invoices a"
| "same_table InvoiceItemTable a b \<longleftrightarrow> invoice_items b = invoice_items a"
| "same_table NoteTable a b \<longleftrightarrow> credit_debit_notes b = credit_debit_notes a"
| "same_table OrganizationTable a b \<longleftrightarrow> organizations b = organizations a"
| "same_table PortalTable a b \<longleftrightarrow> portal_configs b = portal_configs a"
| "same_table UsageTable a b \<longleftrightarrow> usage_metrics b = usage_metrics a"
| "same_table OutboxTable a b \<longleftrightarrow> outbox b = outbox a"
| "same_table AuditTable a b \<longleftrightarrow> audit_log b = audit_log a"

definition touches :: "billing_table set \<Rightarrow> billing_db \<Rightarrow> billing_db \<Rightarrow> bool" where
  "touches T a b \<longleftrightarrow> (\<forall>t. t \<notin> T \<longrightarrow> same_table t a b)"

lemma same_table_refl [simp]: "same_table t a a"
  by (cases t) simp_all

lemma same_table_trans: "same_table t a b \<Longrightarrow> same_table t b c \<Longrightarrow> same_table t a c"
  by (cases t) simp_all

lemma touches_refl [simp]: "touches T a a"
  by (simp add: touches_def)

lemma touches_mono: "touches S a b \<Longrightarrow> S \<subseteq> T \<Longrightarrow> touches T a b"
  by (auto simp: touches_def)

lemma touches_tables:
      "touches T a b \<Longrightarrow> PlanTable \<notin> T \<Longrightarrow> plans b = plans a"
      "touches T a b \<Longrightarrow> PlanFeatureTable \<notin> T \<Longrightarrow> plan_features b = plan_features a"
      "touches T a b \<Longrightarrow> FeatureOverrideTable \<notin> T \<Longrightarrow> feature_overrides b = feature_overrides a"
      "touches T a b \<Longrightarrow> LicenseTable \<notin> T \<Longrightarrow> licenses b = licenses a"
      "touches T a b \<Longrightarrow> ChangeLogTable \<notin> T \<Longrightarrow> change_logs b = change_logs a"
      "touches T a b \<Longrightarrow> SubscriptionTable \<notin> T \<Longrightarrow> subscriptions b = subscriptions a"
      "touches T a b \<Longrightarrow> CouponTable \<notin> T \<Longrightarrow> coupons b = coupons a"
      "touches T a b \<Longrightarrow> CouponPlanTable \<notin> T \<Longrightarrow> coupon_plans b = coupon_plans a"
      "touches T a b \<Longrightarrow> CouponUsageTable \<notin> T \<Longrightarrow> coupon_usages b = coupon_usages a"
      "touches T a b \<Longrightarrow> PaymentTable \<notin> T \<Longrightarrow> payments b = payments a"
      "touches T a b \<Longrightarrow> PaymentMethodTable \<notin> T \<Longrightarrow> payment_methods b = payment_methods a"
      "touches T a b \<Longrightarrow> TaxRateTable \<notin> T \<Longrightarrow> tax_rates b = tax_rates a"
      "touches T a b \<Longrightarrow> BillingProfileTable \<notin> T \<Longrightarrow> billing_profiles b = billing_profiles a"
      "touches T a b \<Longrightarrow> CounterTable \<notin> T \<Longrightarrow> number_counters b = number_counters a"
      "touches T a b \<Longrightarrow> InvoiceTable \<notin> T \<Longrightarrow> invoices b = invoices a"
      "touches T a b \<Longrightarrow> InvoiceItemTable \<notin> T \<Longrightarrow> invoice_items b = invoice_items a"
      "touches T a b \<Longrightarrow> NoteTable \<notin> T \<Longrightarrow> credit_debit_notes b = credit_debit_notes a"
      "touches T a b \<Longrightarrow> OrganizationTable \<notin> T \<Longrightarrow> organizations b = organizations a"
      "touches T a b \<Longrightarrow> PortalTable \<notin> T \<Longrightarrow> portal_configs b = portal_configs a"
      "touches T a b \<Longrightarrow> UsageTable \<notin> T \<Longrightarrow> usage_metrics b = usage_metrics a"
      "touches T a b \<Longrightarrow> OutboxTable \<notin> T \<Longrightarrow> outbox b = outbox a"
      "touches T a b \<Longrightarrow> AuditTable \<notin> T \<Longrightarrow> audit_log b = audit_log a"
  unfolding touches_def by (metis same_table.simps)+

lemma touches_update:
  "PlanTable \<in> T \<Longrightarrow> touches T db (plans_update f0 db)"
  "PlanFeatureTable \<in> T \<Longrightarrow> touches T db (plan_features_update f1 db)"
  "FeatureOverrideTable \<in> T \<Longrightarrow> touches T db (feature_overrides_update f2 db)"
  "LicenseTable \<in> T \<Longrightarrow> touches T db (licenses_update f3 db)"
  "ChangeLogTable \<in> T \<Longrightarrow> touches T db (change_logs_update f4 db)"
  "SubscriptionTable \<in> T \<Longrightarrow> touches T db (subscriptions_update f5 db)"
  "CouponTable \<in> T \<Longrightarrow> touches T db (coupons_update f6 db)"
  "CouponPlanTable \<in> T \<Longrightarrow> touches T db (coupon_plans_update f7 db)"
  "CouponUsageTable \<in> T \<Longrightarrow> touches T db (coupon_usages_update f8 db)"
  "PaymentTable \<in> T \<Longrightarrow> touches T db (payments_update f9 db)"
  "PaymentMethodTable \<in> T \<Longrightarrow> touches T db (payment_methods_update f10 db)"
  "TaxRateTable \<in> T \<Longrightarrow> touches T db (tax_rates_update f11 db)"
  "BillingProfileTable \<in> T \<Longrightarrow> touches T db (billing_profiles_update f12 db)"
  "CounterTable \<in> T \<Longrightarrow> touches T db (number_counters_update f13 db)"
  "InvoiceTable \<in> T \<Longrightarrow> touches T db (invoices_update f14 db)"
  "InvoiceItemTable \<in> T \<Longrightarrow> touches T db (invoice_items_update f15 db)"
  "NoteTable \<in> T \<Longrightarrow> touches T db (credit_debit_notes_update f16 db)"
  "OrganizationTable \<in> T \<Longrightarrow> touches T db (organizations_update f17 db)"
  "PortalTable \<in> T \<Longrightarrow> touches T db (portal_configs_update f18 db)"
  "UsageTable \<in> T \<Longrightarrow> touches T db (usage_metrics_update f19 db)"
  "OutboxTable \<in> T \<Longrightarrow> touches T db (outbox_update f20 db)"
  "AuditTable \<in> T \<Longrightarrow> touches T db (audit_log_update f21 db)"
  unfolding touches_def by (intro allI impI, case_tac t; simp; fail)+


interpretation frame: step_relation "touches T" for T
  by unfold_locales (auto simp: touches_def intro: same_table_trans)

text \<open>The primitive steps.\<close>

lemma touches_insert:
  "(\<And>f db. touches T db (upd f db)) \<Longrightarrow> honours (touches T) (insert_row env actor get upd uniq columns)"
  unfolding insert_row_def Let_def uuid4_def db_now_def
  by (intro frame.honours_intros frame.honours_stores) (auto split: sum.splits)

lemma touches_save: "(\<And>f db. touches T db (upd f db)) \<Longrightarrow> honours (touches T) (save_row env upd inst data)"
  and touches_hide: "(\<And>f db. touches T db (upd' f db)) \<Longrightarrow> honours (touches T) (hide_row env upd' inst')"
  unfolding save_row_def hide_row_def db_now_def
  by (intro frame.honours_intros frame.honours_modifies; assumption)+

lemma touches_clock: "honours (touches T) (py_now env)"
  and touches_supply: "honours (touches T) (uuid4 env)"
  and touches_db_now: "honours (touches T) (db_now env)"
  and touches_provider: "honours (touches T) (call_provider env c)"
  and touches_cache_set: "honours (touches T) (cache_set env org s)"
  and touches_cache_invalidate: "honours (touches T) (cache_invalidate env org)"
  and touches_usage_read: "honours (touches T) (usage_read env org a b)"
  unfolding py_now_def uuid4_def db_now_def call_provider_def cache_set_def cache_invalidate_def usage_read_def
  by (intro frame.honours_intros)+

lemma touches_cache_get: "honours (touches T) (cache_get env org)"
  and touches_dedup: "honours (touches T) (mark_processed_if_new env provider event_id)"
  unfolding cache_get_def mark_processed_if_new_def
  by (intro frame.honours_intros; auto simp: case_prod_unfold intro!: frame.honours_intros)+

lemma touches_audit: "AuditTable \<in> T \<Longrightarrow> honours (touches T) (write_audit actor action ty entity description metadata org)"
  unfolding write_audit_def by (intro frame.honours_modifies touches_update)

lemma touches_document_number: "CounterTable \<in> T \<Longrightarrow> honours (touches T) (next_document_number kind moment)"
  unfolding next_document_number_def honours_def moves_def
  by (auto split: prod.splits) (metis touches_update(14))

lemmas touches_steps [footprint] =
  frame.honours_control frame.honours_modifies
  touches_insert touches_save touches_hide touches_clock touches_supply touches_db_now touches_provider touches_cache_set
  touches_cache_invalidate touches_usage_read touches_cache_get touches_dedup touches_audit touches_document_number touches_update



subsection \<open>Plans and usage\<close>

lemma get_plan_touches [footprint]: "honours (touches T) (get_plan include_deleted plan_id)"
  unfolding get_plan_def Let_def by (auto intro!: footprint split: prod.splits option.splits provider_reply.splits)

lemma validate_features_touches [footprint]: "honours (touches T) (validate_features fs)"
  unfolding validate_features_def Let_def by (auto intro!: footprint split: prod.splits option.splits provider_reply.splits)

lemma create_plan_feature_touches [footprint]: "PlanFeatureTable \<in> T \<Longrightarrow> honours (touches T) (create_plan_feature env plan_id f)"
  unfolding create_plan_feature_def Let_def by (auto intro!: footprint split: prod.splits option.splits provider_reply.splits)

lemma create_plan_row_touches [footprint]: "PlanTable \<in> T \<Longrightarrow> honours (touches T) (create_plan_row env actor name slug ty description cycle price currency active public order)"
  unfolding create_plan_row_def Let_def by (auto intro!: footprint split: prod.splits option.splits provider_reply.splits)

lemma audit_plan_touches [footprint]: "AuditTable \<in> T \<Longrightarrow> honours (touches T) (audit_plan actor action plan_id description)"
  unfolding audit_plan_def Let_def by (auto intro!: footprint split: prod.splits option.splits provider_reply.splits)

lemma create_features_touches [footprint]: "PlanFeatureTable \<in> T \<Longrightarrow> honours (touches T) (create_features env plan_id fs)"
  unfolding create_features_def Let_def by (auto intro!: footprint split: prod.splits option.splits provider_reply.splits)

lemma create_plan_touches [footprint]: "{PlanTable, PlanFeatureTable, AuditTable} \<subseteq> T \<Longrightarrow> honours (touches T) (create_plan env actor name slug ty description cycle price currency active public order features)"
  unfolding create_plan_def Let_def by (auto intro!: footprint split: prod.splits option.splits provider_reply.splits)

lemma delete_plan_features_touches [footprint]: "PlanFeatureTable \<in> T \<Longrightarrow> honours (touches T) (delete_plan_features plan_id)"
  unfolding delete_plan_features_def Let_def by (auto intro!: footprint split: prod.splits option.splits provider_reply.splits)

lemma update_plan_touches [footprint]: "{PlanTable, PlanFeatureTable, AuditTable} \<subseteq> T \<Longrightarrow> honours (touches T) (update_plan env actor plan_id data features)"
  unfolding update_plan_def Let_def by (auto intro!: footprint split: prod.splits option.splits provider_reply.splits)

lemma deactivate_plan_touches [footprint]: "{PlanTable, AuditTable} \<subseteq> T \<Longrightarrow> honours (touches T) (deactivate_plan env actor plan_id)"
  unfolding deactivate_plan_def Let_def by (auto intro!: footprint split: prod.splits option.splits provider_reply.splits)

lemma get_organization_touches [footprint]: "honours (touches T) (get_organization org)"
  unfolding get_organization_def Let_def by (auto intro!: footprint split: prod.splits option.splits provider_reply.splits)

lemma create_usage_metric_touches [footprint]: "UsageTable \<in> T \<Longrightarrow> honours (touches T) (create_usage_metric env org k start period_end v now)"
  unfolding create_usage_metric_def Let_def by (auto intro!: footprint split: prod.splits option.splits provider_reply.splits)

lemma record_metric_touches [footprint]: "UsageTable \<in> T \<Longrightarrow> honours (touches T) (record_metric env org start period_end now kv)"
  unfolding record_metric_def Let_def by (auto intro!: footprint split: prod.splits option.splits provider_reply.splits)

lemma record_current_usage_touches [footprint]: "UsageTable \<in> T \<Longrightarrow> honours (touches T) (record_current_usage env org)"
  unfolding record_current_usage_def Let_def by (auto intro!: footprint split: prod.splits option.splits provider_reply.splits)

lemma get_current_usage_touches [footprint]: "UsageTable \<in> T \<Longrightarrow> honours (touches T) (get_current_usage env org)"
  unfolding get_current_usage_def Let_def by (auto intro!: footprint split: prod.splits option.splits provider_reply.splits)

lemma check_usage_against_plan_touches [footprint]: "UsageTable \<in> T \<Longrightarrow> honours (touches T) (check_usage_against_plan env org plan_id)"
  unfolding check_usage_against_plan_def Let_def by (auto intro!: footprint split: prod.splits option.splits provider_reply.splits)

lemma validate_usage_against_license_touches [footprint]: "UsageTable \<in> T \<Longrightarrow> honours (touches T) (validate_usage_against_license env org)"
  unfolding validate_usage_against_license_def Let_def by (auto intro!: footprint split: prod.splits option.splits provider_reply.splits)


subsection \<open>Licenses\<close>

lemma get_license_touches [footprint]: "honours (touches T) (get_license license_id org)"
  unfolding get_license_def Let_def by (auto intro!: footprint split: prod.splits option.splits provider_reply.splits)

lemma get_license_for_organization_touches [footprint]: "honours (touches T) (get_license_for_organization org)"
  unfolding get_license_for_organization_def Let_def by (auto intro!: footprint split: prod.splits option.splits provider_reply.splits)

lemma assert_transition_touches [footprint]: "honours (touches T) (assert_transition current target)"
  unfolding assert_transition_def Let_def by (auto intro!: footprint split: prod.splits option.splits provider_reply.splits)

lemma invalidate_entitlement_cache_touches [footprint]: "honours (touches T) (invalidate_entitlement_cache deps env org)"
  unfolding invalidate_entitlement_cache_def Let_def by (auto intro!: footprint split: prod.splits option.splits provider_reply.splits)

lemma get_active_plan_touches [footprint]: "honours (touches T) (get_active_plan plan_id)"
  unfolding get_active_plan_def Let_def by (auto intro!: footprint split: prod.splits option.splits provider_reply.splits)

lemma sync_subscription_plan_touches [footprint]: "SubscriptionTable \<in> T \<Longrightarrow> honours (touches T) (sync_subscription_plan deps env org new_plan)"
  unfolding sync_subscription_plan_def Let_def by (auto intro!: footprint split: prod.splits option.splits provider_reply.splits)

lemma sync_subscription_tier_touches [footprint]: "OrganizationTable \<in> T \<Longrightarrow> honours (touches T) (sync_subscription_tier deps env org slug)"
  unfolding sync_subscription_tier_def Let_def by (auto intro!: footprint split: prod.splits option.splits provider_reply.splits)

lemma audit_license_touches [footprint]: "AuditTable \<in> T \<Longrightarrow> honours (touches T) (audit_license actor action l description)"
  unfolding audit_license_def Let_def by (auto intro!: footprint split: prod.splits option.splits provider_reply.splits)

lemma create_license_row_touches [footprint]: "LicenseTable \<in> T \<Longrightarrow> honours (touches T) (create_license_row env actor org plan_id status expires)"
  unfolding create_license_row_def Let_def by (auto intro!: footprint split: prod.splits option.splits provider_reply.splits)

lemma create_change_log_touches [footprint]: "ChangeLogTable \<in> T \<Longrightarrow> honours (touches T) (create_change_log env license_id from_plan to_plan ty changed_at actor reason)"
  unfolding create_change_log_def Let_def by (auto intro!: footprint split: prod.splits option.splits provider_reply.splits)

lemma assign_license_touches [footprint]: "{LicenseTable, ChangeLogTable, OrganizationTable, AuditTable} \<subseteq> T \<Longrightarrow> honours (touches T) (assign_license deps env actor org plan_id expires_at)"
  unfolding assign_license_def Let_def by (auto intro!: footprint split: prod.splits option.splits provider_reply.splits)

lemma activate_license_touches [footprint]: "{LicenseTable, AuditTable} \<subseteq> T \<Longrightarrow> honours (touches T) (activate_license deps env actor license_id requesting)"
  unfolding activate_license_def Let_def by (auto intro!: footprint split: prod.splits option.splits provider_reply.splits)

lemma suspend_license_touches [footprint]: "{LicenseTable, AuditTable} \<subseteq> T \<Longrightarrow> honours (touches T) (suspend_license deps env actor license_id requesting reason)"
  unfolding suspend_license_def Let_def by (auto intro!: footprint split: prod.splits option.splits provider_reply.splits)

lemma cancel_license_touches [footprint]: "{LicenseTable, AuditTable} \<subseteq> T \<Longrightarrow> honours (touches T) (cancel_license deps env actor license_id requesting)"
  unfolding cancel_license_def Let_def by (auto intro!: footprint split: prod.splits option.splits provider_reply.splits)

lemma expire_license_touches [footprint]: "{LicenseTable, AuditTable} \<subseteq> T \<Longrightarrow> honours (touches T) (expire_license deps env license_id)"
  unfolding expire_license_def Let_def by (auto intro!: footprint split: prod.splits option.splits provider_reply.splits)

lemma restore_powered_by_attribution_touches [footprint]: "{PortalTable, AuditTable} \<subseteq> T \<Longrightarrow> honours (touches T) (restore_powered_by_attribution env org actor)"
  unfolding restore_powered_by_attribution_def Let_def by (auto intro!: footprint split: prod.splits option.splits provider_reply.splits)

lemma reset_white_label_on_downgrade_touches [footprint]: "{PortalTable, AuditTable} \<subseteq> T \<Longrightarrow> honours (touches T) (reset_white_label_on_downgrade deps env org new_plan_id actor)"
  unfolding reset_white_label_on_downgrade_def Let_def by (auto intro!: footprint split: prod.splits option.splits provider_reply.splits)

lemma change_plan_touches [footprint]: "{LicenseTable, ChangeLogTable, SubscriptionTable, OrganizationTable, UsageTable, PortalTable, AuditTable} \<subseteq> T \<Longrightarrow> honours (touches T) (change_plan deps env actor license_id requesting new_plan_id reason ty)"
  unfolding change_plan_def Let_def by (auto intro!: footprint split: prod.splits option.splits provider_reply.splits)

lemma upgrade_license_touches [footprint]: "{LicenseTable, ChangeLogTable, SubscriptionTable, OrganizationTable, UsageTable, PortalTable, AuditTable} \<subseteq> T \<Longrightarrow> honours (touches T) (upgrade_license deps env actor license_id requesting new_plan_id reason)"
  unfolding upgrade_license_def Let_def by (auto intro!: footprint split: prod.splits option.splits provider_reply.splits)

lemma downgrade_license_touches [footprint]: "{LicenseTable, ChangeLogTable, SubscriptionTable, OrganizationTable, UsageTable, PortalTable, AuditTable} \<subseteq> T \<Longrightarrow> honours (touches T) (downgrade_license deps env actor license_id requesting new_plan_id reason)"
  unfolding downgrade_license_def Let_def by (auto intro!: footprint split: prod.splits option.splits provider_reply.splits)

lemma get_entitlement_snapshot_touches [footprint]: "honours (touches T) (get_entitlement_snapshot deps org)"
  unfolding get_entitlement_snapshot_def Let_def by (auto intro!: footprint split: prod.splits option.splits provider_reply.splits)

lemma get_snapshot_touches [footprint]: "honours (touches T) (get_snapshot deps env org)"
  unfolding get_snapshot_def Let_def by (auto intro!: footprint split: prod.splits option.splits provider_reply.splits)

lemma snapshot_is_active_touches [footprint]: "honours (touches T) (snapshot_is_active env s)"
  unfolding snapshot_is_active_def Let_def by (auto intro!: footprint split: prod.splits option.splits provider_reply.splits)

lemma require_active_license_touches [footprint]: "honours (touches T) (require_active_license deps env org)"
  unfolding require_active_license_def Let_def by (auto intro!: footprint split: billing_exc.splits prod.splits option.splits provider_reply.splits)


subsection \<open>Coupons\<close>

lemma get_coupon_touches [footprint]: "honours (touches T) (get_coupon coupon_id)"
  unfolding get_coupon_def Let_def by (auto intro!: footprint split: prod.splits option.splits provider_reply.splits)

lemma audit_coupon_touches [footprint]: "AuditTable \<in> T \<Longrightarrow> honours (touches T) (audit_coupon actor action c description)"
  unfolding audit_coupon_def Let_def by (auto intro!: footprint split: prod.splits option.splits provider_reply.splits)

lemma set_applicable_plans_touches [footprint]: "CouponPlanTable \<in> T \<Longrightarrow> honours (touches T) (set_applicable_plans env coupon_id plan_ids)"
  unfolding set_applicable_plans_def Let_def by (auto intro!: footprint split: prod.splits option.splits provider_reply.splits)

lemma create_coupon_touches [footprint]: "{CouponTable, CouponPlanTable, AuditTable} \<subseteq> T \<Longrightarrow> honours (touches T) (create_coupon env actor code ty v currency org max_uses valid_from valid_until active plan_ids)"
  unfolding create_coupon_def Let_def by (auto intro!: footprint split: prod.splits option.splits provider_reply.splits)

lemma update_coupon_touches [footprint]: "{CouponTable, CouponPlanTable, AuditTable} \<subseteq> T \<Longrightarrow> honours (touches T) (update_coupon env actor coupon_id data plan_ids)"
  unfolding update_coupon_def Let_def by (auto intro!: footprint split: prod.splits option.splits provider_reply.splits)

lemma deactivate_coupon_touches [footprint]: "{CouponTable, AuditTable} \<subseteq> T \<Longrightarrow> honours (touches T) (deactivate_coupon env actor coupon_id)"
  unfolding deactivate_coupon_def Let_def by (auto intro!: footprint split: prod.splits option.splits provider_reply.splits)

lemma validate_coupon_touches [footprint]: "honours (touches T) (validate_coupon env code org plan_id)"
  unfolding validate_coupon_def Let_def by (auto intro!: footprint split: prod.splits option.splits provider_reply.splits)

lemma create_coupon_usage_touches [footprint]: "CouponUsageTable \<in> T \<Longrightarrow> honours (touches T) (create_coupon_usage env coupon_id org subscription_id used_at amount)"
  unfolding create_coupon_usage_def Let_def by (auto intro!: footprint split: prod.splits option.splits provider_reply.splits)

lemma increment_current_uses_touches [footprint]: "CouponTable \<in> T \<Longrightarrow> honours (touches T) (increment_current_uses coupon_id)"
  unfolding increment_current_uses_def Let_def by (auto intro!: footprint split: prod.splits option.splits provider_reply.splits)

lemma apply_coupon_touches [footprint]: "{CouponTable, CouponUsageTable, AuditTable} \<subseteq> T \<Longrightarrow> honours (touches T) (apply_coupon env code org subscription_id plan_id base_amount)"
  unfolding apply_coupon_def Let_def by (auto intro!: footprint split: prod.splits option.splits provider_reply.splits)


subsection \<open>Subscriptions\<close>

lemma get_subscription_touches [footprint]: "honours (touches T) (get_subscription subscription_id org)"
  unfolding get_subscription_def Let_def by (auto intro!: footprint split: prod.splits option.splits provider_reply.splits)

lemma assert_subscription_transition_touches [footprint]: "honours (touches T) (assert_subscription_transition current target)"
  unfolding assert_subscription_transition_def Let_def by (auto intro!: footprint split: prod.splits option.splits provider_reply.splits)

lemma audit_subscription_touches [footprint]: "AuditTable \<in> T \<Longrightarrow> honours (touches T) (audit_subscription actor action s description)"
  unfolding audit_subscription_def Let_def by (auto intro!: footprint split: prod.splits option.splits provider_reply.splits)

lemma plus_days_touches [footprint]: "honours (touches T) (plus_days t n)"
  unfolding plus_days_def Let_def by (auto intro!: footprint split: prod.splits option.splits provider_reply.splits)

lemma next_period_end_touches [footprint]: "honours (touches T) (next_period_end now cycle)"
  unfolding next_period_end_def Let_def by (auto intro!: footprint split: prod.splits option.splits provider_reply.splits)

lemma create_subscription_row_touches [footprint]: "SubscriptionTable \<in> T \<Longrightarrow> honours (touches T) (create_subscription_row env actor org license_id plan_id status cycle start period_end trial_end coupon_id)"
  unfolding create_subscription_row_def Let_def by (auto intro!: footprint split: prod.splits option.splits provider_reply.splits)

lemma create_subscription_touches [footprint]: "{SubscriptionTable, LicenseTable, ChangeLogTable, OrganizationTable, CouponTable, CouponUsageTable, AuditTable} \<subseteq> T \<Longrightarrow> honours (touches T) (create_subscription deps env actor org plan_id coupon_code)"
  unfolding create_subscription_def Let_def by (auto intro!: footprint split: prod.splits option.splits provider_reply.splits)

lemma cancel_subscription_touches [footprint]: "{SubscriptionTable, LicenseTable, AuditTable} \<subseteq> T \<Longrightarrow> honours (touches T) (cancel_subscription deps env actor subscription_id requesting immediate)"
  unfolding cancel_subscription_def Let_def by (auto intro!: footprint split: prod.splits option.splits provider_reply.splits)

lemma reactivate_subscription_touches [footprint]: "{SubscriptionTable, LicenseTable, AuditTable} \<subseteq> T \<Longrightarrow> honours (touches T) (reactivate_subscription deps env actor subscription_id requesting)"
  unfolding reactivate_subscription_def Let_def by (auto intro!: footprint split: prod.splits option.splits provider_reply.splits)

lemma pause_subscription_touches [footprint]: "{SubscriptionTable, AuditTable} \<subseteq> T \<Longrightarrow> honours (touches T) (pause_subscription env actor subscription_id requesting)"
  unfolding pause_subscription_def Let_def by (auto intro!: footprint split: prod.splits option.splits provider_reply.splits)

lemma resume_subscription_touches [footprint]: "{SubscriptionTable, AuditTable} \<subseteq> T \<Longrightarrow> honours (touches T) (resume_subscription env actor subscription_id requesting)"
  unfolding resume_subscription_def Let_def by (auto intro!: footprint split: prod.splits option.splits provider_reply.splits)

lemma update_renewal_settings_touches [footprint]: "{SubscriptionTable, AuditTable} \<subseteq> T \<Longrightarrow> honours (touches T) (update_renewal_settings env actor subscription_id org auto_renew)"
  unfolding update_renewal_settings_def Let_def by (auto intro!: footprint split: prod.splits option.splits provider_reply.splits)


subsection \<open>Payments\<close>

lemma save_payment_touches [footprint]: "PaymentTable \<in> T \<Longrightarrow> honours (touches T) (save_payment env p data)"
  unfolding save_payment_def Let_def by (auto intro!: footprint split: prod.splits option.splits provider_reply.splits)

lemma create_payment_touches [footprint]: "PaymentTable \<in> T \<Longrightarrow> honours (touches T) (create_payment env actor org subscription_id amount currency provider key)"
  unfolding create_payment_def Let_def by (auto intro!: footprint split: prod.splits option.splits provider_reply.splits)

lemma default_payment_method_token_touches [footprint]: "honours (touches T) (default_payment_method_token org)"
  unfolding default_payment_method_token_def Let_def by (auto intro!: footprint split: prod.splits option.splits provider_reply.splits)

lemma token_or_fail_touches [footprint]: "PaymentTable \<in> T \<Longrightarrow> honours (touches T) (token_or_fail env p)"
  unfolding token_or_fail_def Let_def by (auto intro!: footprint split: billing_exc.splits prod.splits option.splits provider_reply.splits)

lemma mark_declined_touches [footprint]: "PaymentTable \<in> T \<Longrightarrow> honours (touches T) (mark_declined env p reason)"
  unfolding mark_declined_def Let_def by (auto intro!: footprint split: prod.splits option.splits provider_reply.splits)

lemma mark_succeeded_touches [footprint]: "PaymentTable \<in> T \<Longrightarrow> honours (touches T) (mark_succeeded env p pid)"
  unfolding mark_succeeded_def Let_def by (auto intro!: footprint split: prod.splits option.splits provider_reply.splits)

lemma stripe_attempt_charge_touches [footprint]: "PaymentTable \<in> T \<Longrightarrow> honours (touches T) (stripe_attempt_charge env p key)"
  unfolding stripe_attempt_charge_def Let_def by (auto intro!: footprint split: prod.splits option.splits provider_reply.splits)

lemma derive_retry_idempotency_key_touches [footprint]: "honours (touches T) (derive_retry_idempotency_key env key)"
  unfolding derive_retry_idempotency_key_def Let_def by (auto intro!: footprint split: prod.splits option.splits provider_reply.splits)

lemma stripe_retry_touches [footprint]: "PaymentTable \<in> T \<Longrightarrow> honours (touches T) (stripe_retry env p)"
  unfolding stripe_retry_def Let_def by (auto intro!: footprint split: prod.splits option.splits provider_reply.splits)

lemma stripe_refund_touches [footprint]: "PaymentTable \<in> T \<Longrightarrow> honours (touches T) (stripe_refund env p amount)"
  unfolding stripe_refund_def Let_def by (auto intro!: footprint split: prod.splits option.splits provider_reply.splits)

lemma razorpay_attempt_charge_touches [footprint]: "PaymentTable \<in> T \<Longrightarrow> honours (touches T) (razorpay_attempt_charge env p)"
  unfolding razorpay_attempt_charge_def Let_def by (auto intro!: footprint split: prod.splits option.splits provider_reply.splits)

lemma razorpay_refund_touches [footprint]: "PaymentTable \<in> T \<Longrightarrow> honours (touches T) (razorpay_refund env p amount)"
  unfolding razorpay_refund_def Let_def by (auto intro!: footprint split: prod.splits option.splits provider_reply.splits)

lemma razorpay_create_checkout_order_touches [footprint]: "PaymentTable \<in> T \<Longrightarrow> honours (touches T) (razorpay_create_checkout_order env p)"
  unfolding razorpay_create_checkout_order_def Let_def by (auto intro!: footprint split: prod.splits option.splits provider_reply.splits)

lemma not_configured_touches [footprint]: "honours (touches T) (not_configured org amount currency)"
  unfolding not_configured_def Let_def by (auto intro!: footprint split: prod.splits option.splits provider_reply.splits)

lemma fail_not_configured_touches [footprint]: "PaymentTable \<in> T \<Longrightarrow> honours (touches T) (fail_not_configured env p)"
  unfolding fail_not_configured_def Let_def by (auto intro!: footprint split: prod.splits option.splits provider_reply.splits)

lemma gateway_create_checkout_order_touches [footprint]: "PaymentTable \<in> T \<Longrightarrow> honours (touches T) (gateway_create_checkout_order env p)"
  unfolding gateway_create_checkout_order_def Let_def by (auto intro!: footprint split: prod.splits option.splits provider_reply.splits)

text \<open>What a subclass of \<open>_BaseGateway\<close> promises, and what the base class makes of it.\<close>

locale payment_gateway =
  fixes gw :: "'r gateway"
  assumes charge_frame: "PaymentTable \<in> T \<Longrightarrow> honours (touches T) (gw_charge_impl gw p)"
    and refund_frame: "PaymentTable \<in> T \<Longrightarrow> honours (touches T) (gw_refund_impl gw p amount)"
    and retry_frame: "PaymentTable \<in> T \<Longrightarrow> honours (touches T) (gw_retry_impl gw p)"
begin

lemma charge_via_provider_touches: "PaymentTable \<in> T \<Longrightarrow> honours (touches T) (charge_via_provider env gw p)"
  unfolding charge_via_provider_def by (auto intro!: footprint charge_frame)

lemma gateway_refund_touches: "PaymentTable \<in> T \<Longrightarrow> honours (touches T) (gateway_refund gw p amount)"
  unfolding gateway_refund_def by (auto intro!: footprint refund_frame)

lemma gateway_retry_touches: "PaymentTable \<in> T \<Longrightarrow> honours (touches T) (gateway_retry gw p)"
  unfolding gateway_retry_def by (auto intro!: footprint retry_frame)

lemma gateway_charge_touches:
  "PaymentTable \<in> T \<Longrightarrow> honours (touches T) (gateway_charge env gw org amount currency subscription_id)"
  unfolding gateway_charge_def by (auto intro!: footprint charge_via_provider_touches)

end

interpretation stripe: payment_gateway "StripePaymentGateway env" for env
  by unfold_locales (auto simp: StripePaymentGateway_def intro!: footprint)

interpretation razorpay: payment_gateway "RazorpayPaymentGateway env" for env
  by unfold_locales (auto simp: RazorpayPaymentGateway_def intro!: footprint)

lemmas gateway_footprints [footprint] =
  stripe.charge_via_provider_touches stripe.gateway_refund_touches stripe.gateway_retry_touches stripe.gateway_charge_touches
  razorpay.charge_via_provider_touches razorpay.gateway_refund_touches razorpay.gateway_retry_touches
  razorpay.gateway_charge_touches

lemma andthen_gateway_for:
  "andthen (gateway_for env provider) f =
     (if provider = ''stripe'' then f (StripePaymentGateway env)
      else if provider = ''razorpay'' then f (RazorpayPaymentGateway env)
      else raise (UnsupportedPaymentProviderError provider))"
  by (rule ext) (simp add: gateway_for_def prog_simps)

lemma get_payment_touches [footprint]: "honours (touches T) (get_payment payment_id org)"
  unfolding get_payment_def Let_def by (auto intro!: footprint split: prod.splits option.splits provider_reply.splits)

lemma audit_payment_touches [footprint]: "AuditTable \<in> T \<Longrightarrow> honours (touches T) (audit_payment actor action p description)"
  unfolding audit_payment_def Let_def by (auto intro!: footprint split: prod.splits option.splits provider_reply.splits)

lemma create_payment_or_winner_touches [footprint]: "PaymentTable \<in> T \<Longrightarrow> honours (touches T) (create_payment_or_winner env actor org subscription_id amount currency provider key)"
  unfolding create_payment_or_winner_def Let_def by (auto intro!: footprint split: prod.splits option.splits provider_reply.splits)

lemma initiate_payment_touches [footprint]: "{PaymentTable, AuditTable} \<subseteq> T \<Longrightarrow> honours (touches T) (initiate_payment env actor org subscription_id amount currency provider key)"
  unfolding initiate_payment_def Let_def by (auto simp: andthen_gateway_for intro!: footprint split: prod.splits option.splits provider_reply.splits)

lemma create_checkout_order_touches [footprint]: "{PaymentTable, AuditTable} \<subseteq> T \<Longrightarrow> honours (touches T) (create_checkout_order env actor org key)"
  unfolding create_checkout_order_def Let_def by (auto intro!: footprint split: prod.splits option.splits provider_reply.splits)

lemma refund_payment_touches [footprint]: "{PaymentTable, AuditTable} \<subseteq> T \<Longrightarrow> honours (touches T) (refund_payment env actor payment_id requesting amount)"
  unfolding refund_payment_def Let_def by (auto simp: andthen_gateway_for intro!: footprint split: prod.splits option.splits provider_reply.splits)

lemma retry_failed_payment_touches [footprint]: "{PaymentTable, AuditTable} \<subseteq> T \<Longrightarrow> honours (touches T) (retry_failed_payment env actor payment_id requesting)"
  unfolding retry_failed_payment_def Let_def by (auto simp: andthen_gateway_for intro!: footprint split: prod.splits option.splits provider_reply.splits)

lemma audit_payment_method_touches [footprint]: "AuditTable \<in> T \<Longrightarrow> honours (touches T) (audit_payment_method actor action m description)"
  unfolding audit_payment_method_def Let_def by (auto intro!: footprint split: prod.splits option.splits provider_reply.splits)

lemma create_payment_method_touches [footprint]: "PaymentMethodTable \<in> T \<Longrightarrow> honours (touches T) (create_payment_method env actor org provider token ty last4)"
  unfolding create_payment_method_def Let_def by (auto intro!: footprint split: prod.splits option.splits provider_reply.splits)

lemma set_as_default_touches [footprint]: "PaymentMethodTable \<in> T \<Longrightarrow> honours (touches T) (set_as_default env m)"
  unfolding set_as_default_def Let_def by (auto intro!: footprint split: prod.splits option.splits provider_reply.splits)

lemma register_payment_method_touches [footprint]: "{PaymentMethodTable, AuditTable} \<subseteq> T \<Longrightarrow> honours (touches T) (register_payment_method env actor org provider token ty last4 as_default)"
  unfolding register_payment_method_def Let_def by (auto intro!: footprint split: prod.splits option.splits provider_reply.splits)

lemma get_payment_method_touches [footprint]: "honours (touches T) (get_payment_method method_id org)"
  unfolding get_payment_method_def Let_def by (auto intro!: footprint split: prod.splits option.splits provider_reply.splits)

lemma remove_payment_method_touches [footprint]: "{PaymentMethodTable, AuditTable} \<subseteq> T \<Longrightarrow> honours (touches T) (remove_payment_method env actor method_id requesting)"
  unfolding remove_payment_method_def Let_def by (auto intro!: footprint split: prod.splits option.splits provider_reply.splits)


subsection \<open>Renewals\<close>

lemma audit_renewal_touches [footprint]: "AuditTable \<in> T \<Longrightarrow> honours (touches T) (audit_renewal action s description)"
  unfolding audit_renewal_def Let_def by (auto intro!: footprint split: prod.splits option.splits provider_reply.splits)

lemma mark_renewed_touches [footprint]: "{SubscriptionTable, AuditTable} \<subseteq> T \<Longrightarrow> honours (touches T) (mark_renewed env s p amount)"
  unfolding mark_renewed_def Let_def by (auto intro!: footprint split: prod.splits option.splits provider_reply.splits)

lemma mark_past_due_touches [footprint]: "{SubscriptionTable, AuditTable} \<subseteq> T \<Longrightarrow> honours (touches T) (mark_past_due env s reason)"
  unfolding mark_past_due_def Let_def by (auto intro!: footprint split: prod.splits option.splits provider_reply.splits)

lemma finalize_scheduled_cancellation_touches [footprint]: "{SubscriptionTable, LicenseTable, AuditTable} \<subseteq> T \<Longrightarrow> honours (touches T) (finalize_scheduled_cancellation deps env s)"
  unfolding finalize_scheduled_cancellation_def Let_def by (auto intro!: footprint split: prod.splits option.splits provider_reply.splits)

lemma confirm_renewal_payment_succeeded_touches [footprint]: "{SubscriptionTable, AuditTable} \<subseteq> T \<Longrightarrow> honours (touches T) (confirm_renewal_payment_succeeded env subscription_id)"
  unfolding confirm_renewal_payment_succeeded_def Let_def by (auto intro!: footprint split: prod.splits option.splits provider_reply.splits)

lemma confirm_renewal_payment_failed_touches [footprint]: "{SubscriptionTable, AuditTable} \<subseteq> T \<Longrightarrow> honours (touches T) (confirm_renewal_payment_failed env subscription_id reason)"
  unfolding confirm_renewal_payment_failed_def Let_def by (auto intro!: footprint split: prod.splits option.splits provider_reply.splits)

lemma lapse_one_touches [footprint]: "{SubscriptionTable, LicenseTable, AuditTable} \<subseteq> T \<Longrightarrow> honours (touches T) (lapse_one deps env now s)"
  unfolding lapse_one_def Let_def by (auto intro!: footprint split: prod.splits option.splits provider_reply.splits)

lemma lapse_non_renewing_subscriptions_touches [footprint]: "{SubscriptionTable, LicenseTable, AuditTable} \<subseteq> T \<Longrightarrow> honours (touches T) (lapse_non_renewing_subscriptions deps env)"
  unfolding lapse_non_renewing_subscriptions_def Let_def by (auto intro!: footprint split: prod.splits option.splits provider_reply.splits)

lemma expire_one_touches [footprint]: "{SubscriptionTable, LicenseTable, AuditTable} \<subseteq> T \<Longrightarrow> honours (touches T) (expire_one deps env now s)"
  unfolding expire_one_def Let_def by (auto intro!: footprint split: prod.splits option.splits provider_reply.splits)

lemma expire_lapsed_subscriptions_touches [footprint]: "{SubscriptionTable, LicenseTable, AuditTable} \<subseteq> T \<Longrightarrow> honours (touches T) (expire_lapsed_subscriptions deps env)"
  unfolding expire_lapsed_subscriptions_def Let_def by (auto intro!: footprint split: prod.splits option.splits provider_reply.splits)

lemma send_reminder_email_touches [footprint]: "OutboxTable \<in> T \<Longrightarrow> honours (touches T) (send_reminder_email s ty subject)"
  unfolding send_reminder_email_def Let_def by (auto intro!: footprint split: prod.splits option.splits provider_reply.splits)

lemma plan_for_email_touches [footprint]: "honours (touches T) (plan_for_email s)"
  unfolding plan_for_email_def Let_def by (auto intro!: footprint split: prod.splits option.splits provider_reply.splits)

lemma send_renewal_reminders_touches [footprint]: "{SubscriptionTable, OutboxTable} \<subseteq> T \<Longrightarrow> honours (touches T) (send_renewal_reminders env)"
  unfolding send_renewal_reminders_def Let_def by (auto intro!: footprint split: prod.splits option.splits provider_reply.splits)

lemma send_expiry_reminders_touches [footprint]: "{SubscriptionTable, OutboxTable} \<subseteq> T \<Longrightarrow> honours (touches T) (send_expiry_reminders env)"
  unfolding send_expiry_reminders_def Let_def by (auto intro!: footprint split: prod.splits option.splits provider_reply.splits)


subsection \<open>Invoices\<close>

lemma get_tax_rate_touches [footprint]: "honours (touches T) (get_tax_rate tax_rate_id)"
  unfolding get_tax_rate_def Let_def by (auto intro!: footprint split: prod.splits option.splits provider_reply.splits)

lemma audit_tax_rate_touches [footprint]: "AuditTable \<in> T \<Longrightarrow> honours (touches T) (audit_tax_rate actor action i description)"
  unfolding audit_tax_rate_def Let_def by (auto intro!: footprint split: prod.splits option.splits provider_reply.splits)

lemma create_tax_rate_touches [footprint]: "{TaxRateTable, AuditTable} \<subseteq> T \<Longrightarrow> honours (touches T) (create_tax_rate env actor name ty rate country active)"
  unfolding create_tax_rate_def Let_def by (auto intro!: footprint split: prod.splits option.splits provider_reply.splits)

lemma update_tax_rate_touches [footprint]: "{TaxRateTable, AuditTable} \<subseteq> T \<Longrightarrow> honours (touches T) (update_tax_rate env actor tax_rate_id data)"
  unfolding update_tax_rate_def Let_def by (auto intro!: footprint split: prod.splits option.splits provider_reply.splits)

lemma get_billing_profile_touches [footprint]: "honours (touches T) (get_billing_profile org)"
  unfolding get_billing_profile_def Let_def by (auto intro!: footprint split: prod.splits option.splits provider_reply.splits)

lemma upsert_billing_profile_touches [footprint]: "{BillingProfileTable, AuditTable} \<subseteq> T \<Longrightarrow> honours (touches T) (upsert_billing_profile env actor org details)"
  unfolding upsert_billing_profile_def Let_def by (auto intro!: footprint split: prod.splits option.splits provider_reply.splits)

lemma get_invoice_touches [footprint]: "honours (touches T) (get_invoice invoice_id org)"
  unfolding get_invoice_def Let_def by (auto intro!: footprint split: prod.splits option.splits provider_reply.splits)

lemma audit_invoice_touches [footprint]: "AuditTable \<in> T \<Longrightarrow> honours (touches T) (audit_invoice actor action i description)"
  unfolding audit_invoice_def Let_def by (auto intro!: footprint split: prod.splits option.splits provider_reply.splits)

lemma assert_invoice_transition_touches [footprint]: "honours (touches T) (assert_invoice_transition current target)"
  unfolding assert_invoice_transition_def Let_def by (auto intro!: footprint split: prod.splits option.splits provider_reply.splits)

lemma create_invoice_touches [footprint]: "InvoiceTable \<in> T \<Longrightarrow> honours (touches T) (create_invoice env org subscription_id number status issued_on due subtotal discount b rate invoice_total currency snapshot)"
  unfolding create_invoice_def Let_def by (auto intro!: footprint split: prod.splits option.splits provider_reply.splits)

lemma create_invoice_item_touches [footprint]: "InvoiceItemTable \<in> T \<Longrightarrow> honours (touches T) (create_invoice_item env invoice_id description quantity unit_price amount)"
  unfolding create_invoice_item_def Let_def by (auto intro!: footprint split: prod.splits option.splits provider_reply.splits)

lemma generate_invoice_for_subscription_touches [footprint]: "{CounterTable, InvoiceTable, InvoiceItemTable, AuditTable} \<subseteq> T \<Longrightarrow> honours (touches T) (generate_invoice_for_subscription env subscription_id)"
  unfolding generate_invoice_for_subscription_def Let_def by (auto intro!: footprint split: prod.splits option.splits provider_reply.splits)

lemma mark_invoice_paid_touches [footprint]: "{InvoiceTable, AuditTable} \<subseteq> T \<Longrightarrow> honours (touches T) (mark_invoice_paid env invoice_id payment_id)"
  unfolding mark_invoice_paid_def Let_def by (auto intro!: footprint split: prod.splits option.splits provider_reply.splits)

lemma mark_invoice_paid_for_payment_touches [footprint]: "{InvoiceTable, AuditTable} \<subseteq> T \<Longrightarrow> honours (touches T) (mark_invoice_paid_for_payment env p)"
  unfolding mark_invoice_paid_for_payment_def Let_def by (auto intro!: footprint split: prod.splits option.splits provider_reply.splits)

lemma void_invoice_touches [footprint]: "{InvoiceTable, AuditTable} \<subseteq> T \<Longrightarrow> honours (touches T) (void_invoice env actor invoice_id requesting)"
  unfolding void_invoice_def Let_def by (auto intro!: footprint split: prod.splits option.splits provider_reply.splits)

lemma mark_overdue_invoices_touches [footprint]: "{InvoiceTable, AuditTable} \<subseteq> T \<Longrightarrow> honours (touches T) (mark_overdue_invoices env)"
  unfolding mark_overdue_invoices_def Let_def by (auto intro!: footprint split: prod.splits option.splits provider_reply.splits)

lemma create_note_touches [footprint]: "NoteTable \<in> T \<Longrightarrow> honours (touches T) (create_note env actor invoice_id ty number amount reason issued_on)"
  unfolding create_note_def Let_def by (auto intro!: footprint split: prod.splits option.splits provider_reply.splits)

lemma issue_credit_note_touches [footprint]: "{CounterTable, NoteTable, AuditTable} \<subseteq> T \<Longrightarrow> honours (touches T) (issue_credit_note env actor invoice_id requesting amount reason)"
  unfolding issue_credit_note_def Let_def by (auto intro!: footprint split: prod.splits option.splits provider_reply.splits)

lemma issue_debit_note_touches [footprint]: "{CounterTable, NoteTable, AuditTable} \<subseteq> T \<Longrightarrow> honours (touches T) (issue_debit_note env actor invoice_id requesting amount reason)"
  unfolding issue_debit_note_def Let_def by (auto intro!: footprint split: prod.splits option.splits provider_reply.splits)

lemma issue_invoice_from_lines_touches [footprint]: "{CounterTable, InvoiceTable, InvoiceItemTable, AuditTable} \<subseteq> T \<Longrightarrow> honours (touches T) (issue_invoice_from_lines env org profile ls status actor audit_description)"
  unfolding issue_invoice_from_lines_def Let_def by (auto intro!: footprint split: prod.splits option.splits provider_reply.splits)

lemma create_manual_invoice_touches [footprint]: "{CounterTable, InvoiceTable, InvoiceItemTable, AuditTable} \<subseteq> T \<Longrightarrow> honours (touches T) (create_manual_invoice env org ls)"
  unfolding create_manual_invoice_def Let_def by (auto intro!: footprint split: prod.splits option.splits provider_reply.splits)

lemma generate_invoice_for_credit_topup_touches [footprint]: "{CounterTable, InvoiceTable, InvoiceItemTable, AuditTable} \<subseteq> T \<Longrightarrow> honours (touches T) (generate_invoice_for_credit_topup env org amount_paid_minor_inr credits_minor reference actor)"
  unfolding generate_invoice_for_credit_topup_def Let_def by (auto intro!: footprint split: prod.splits option.splits provider_reply.splits)


subsection \<open>Webhooks\<close>

lemma resolve_and_update_payment_touches [footprint]: "PaymentTable \<in> T \<Longrightarrow> honours (touches T) (resolve_and_update_payment env provider_payment_id succeeded failure_reason)"
  unfolding resolve_and_update_payment_def Let_def by (auto intro!: footprint split: prod.splits option.splits provider_reply.splits)

lemma resolve_checkout_payment_by_order_id_touches [footprint]: "PaymentTable \<in> T \<Longrightarrow> honours (touches T) (resolve_checkout_payment_by_order_id env order_id provider_payment_id signature succeeded failure_reason)"
  unfolding resolve_checkout_payment_by_order_id_def Let_def by (auto intro!: footprint split: prod.splits option.splits provider_reply.splits)

lemma activate_license_if_needed_touches [footprint]: "{LicenseTable, AuditTable} \<subseteq> T \<Longrightarrow> honours (touches T) (activate_license_if_needed deps env org)"
  unfolding activate_license_if_needed_def Let_def by (auto intro!: footprint split: billing_exc.splits prod.splits option.splits provider_reply.splits)

lemma audit_webhook_received_touches [footprint]: "AuditTable \<in> T \<Longrightarrow> honours (touches T) (audit_webhook_received provider event_type event_id p)"
  unfolding audit_webhook_received_def Let_def by (auto intro!: footprint split: prod.splits option.splits provider_reply.splits)

lemma confirm_if_subscription_touches [footprint]: "{SubscriptionTable, AuditTable} \<subseteq> T \<Longrightarrow> honours (touches T) (confirm_if_subscription env p)"
  unfolding confirm_if_subscription_def Let_def by (auto intro!: footprint split: prod.splits option.splits provider_reply.splits)

lemma fail_if_subscription_touches [footprint]: "{SubscriptionTable, AuditTable} \<subseteq> T \<Longrightarrow> honours (touches T) (fail_if_subscription env p reason)"
  unfolding fail_if_subscription_def Let_def by (auto intro!: footprint split: prod.splits option.splits provider_reply.splits)

lemma settle_invoice_touches [footprint]: "{InvoiceTable, AuditTable} \<subseteq> T \<Longrightarrow> honours (touches T) (settle_invoice env p)"
  unfolding settle_invoice_def Let_def by (auto intro!: footprint split: prod.splits option.splits provider_reply.splits)

lemma process_stripe_event_touches [footprint]: "{PaymentTable, SubscriptionTable, InvoiceTable, AuditTable} \<subseteq> T \<Longrightarrow> honours (touches T) (process_stripe_event env ev)"
  unfolding process_stripe_event_def Let_def by (auto intro!: footprint split: prod.splits option.splits provider_reply.splits)

lemma process_razorpay_event_touches [footprint]: "{PaymentTable, SubscriptionTable, InvoiceTable, LicenseTable, AuditTable} \<subseteq> T \<Longrightarrow> honours (touches T) (process_razorpay_event deps env ev signature)"
  unfolding process_razorpay_event_def Let_def by (auto intro!: footprint split: prod.splits option.splits provider_reply.splits)

lemma log_signature_failure_touches [footprint]: "AuditTable \<in> T \<Longrightarrow> honours (touches T) (log_signature_failure provider reason)"
  unfolding log_signature_failure_def Let_def by (auto intro!: footprint split: prod.splits option.splits provider_reply.splits)


subsection \<open>The sweep over a payment gateway\<close>

text \<open>
  \<open>renewal_service.PaymentGatewayProtocol\<close>: what the sweep relies on of the \<open>charge\<close> it is given.
  A charge of nothing succeeds without a provider, and no charge writes anything but payments.
\<close>

locale payment_gateway_protocol =
  fixes charge :: "'r charge_port"
  assumes charge_frame: "PaymentTable \<in> T \<Longrightarrow> honours (touches T) (charge org amount currency subscription_id)"
    and charge_nothing: "amount \<le> 0 \<Longrightarrow>
      charge org amount currency subscription_id s = (Inr \<lparr>pr_success = True, pr_reference = None, pr_failure_reason = None\<rparr>, s)"
begin

lemma process_renewal_touches:
  "{SubscriptionTable, LicenseTable, PaymentTable, AuditTable} \<subseteq> T \<Longrightarrow>
     honours (touches T) (process_renewal deps env charge subscription_id)"
  unfolding process_renewal_def Let_def
  by (auto intro!: footprint charge_frame split: billing_exc.splits sum.splits)

lemma process_due_renewals_touches:
  "{SubscriptionTable, LicenseTable, PaymentTable, AuditTable} \<subseteq> T \<Longrightarrow>
     honours (touches T) (process_due_renewals deps env charge)"
  unfolding process_due_renewals_def by (auto intro!: footprint process_renewal_touches split: prod.splits)

lemma run_renewal_sweep_touches:
  "{SubscriptionTable, LicenseTable, PaymentTable, OutboxTable, AuditTable} \<subseteq> T \<Longrightarrow>
     honours (touches T) (run_renewal_sweep deps env charge)"
  unfolding run_renewal_sweep_def phase_def by (auto intro!: footprint process_due_renewals_touches)

end

interpretation stripe_port: payment_gateway_protocol "gateway_charge env (StripePaymentGateway env)" for env
  by unfold_locales (auto intro!: footprint simp: gateway_charge_def)

interpretation razorpay_port: payment_gateway_protocol "gateway_charge env (RazorpayPaymentGateway env)" for env
  by unfold_locales (auto intro!: footprint simp: gateway_charge_def)

interpretation unconfigured_port: payment_gateway_protocol unconfigured_charge
  by unfold_locales (auto intro!: footprint simp: unconfigured_charge_def)

interpretation settings_port: payment_gateway_protocol "gateway_charge env (build_payment_gateway env)" for env
  by unfold_locales (auto intro!: footprint simp: build_payment_gateway_def gateway_charge_def)


subsection \<open>Relations on some tables\<close>

text \<open>The row an insert adds.\<close>

definition new_row :: "'r billing_env \<Rightarrow> 'r billing_world \<Rightarrow> uuid option \<Rightarrow> 'a \<Rightarrow> 'a base_model_scheme" where
  "new_row env w actor columns =
     base_model.extend (new_base (uuid_at env (w_supply w)) (instant (time_at env (w_clock w))) actor) columns"

locale table_relation = step_relation R for R :: "billing_db \<Rightarrow> billing_db \<Rightarrow> bool" +
  fixes watched :: "billing_table set"
  assumes unwatched: "touches (- watched) a b \<Longrightarrow> R a b"
begin

lemma honours_untouched: "honours (touches (- watched)) m \<Longrightarrow> honours R m"
  by (erule honours_mono) (rule unwatched)

lemma moves_untouched: "honours (touches (- watched)) m \<Longrightarrow> moves R m db x"
  by (rule honoursD [OF honours_untouched])

lemma moves_save:
  assumes "R db (upd (update_row (instant (time_at env (w_clock w))) data inst) db)" and "\<And>r. honours R (f r)"
  shows "moves R (andthen (save_row env upd inst data) f) db w"
proof (rule moves_andthen)
  show "moves R (save_row env upd inst data) db w" using assms(1) by (simp add: moves_def save_row_def db_now_def prog_simps)
qed (rule honoursD [OF assms(2)])

lemma honours_save:
  "(\<And>db now. R db (upd (update_row now data inst) db)) \<Longrightarrow> honours R (save_row env upd inst data)"
  by (rule honoursI) (simp add: moves_def save_row_def db_now_def prog_simps)

lemma moves_insert:
  assumes "create_row uniq (new_row env w actor columns) (get db) = Inr (get db @ [new_row env w actor columns]) \<Longrightarrow>
      R db (upd (\<lambda>_. get db @ [new_row env w actor columns]) db)"
  shows "moves R (insert_row env actor get upd uniq columns) db w"
proof -
  obtain v db' w' where run: "insert_row env actor get upd uniq columns (db, w) = (v, (db', w'))" by (metis prod.exhaust)
  have "R db db'"
  proof (cases v)
    case (Inl e)
    with run insert_row_Inl [of env actor get upd uniq columns db w e db' w'] show ?thesis by (simp add: step_refl)
  next
    case (Inr u)
    with run have "insert_row env actor get upd uniq columns (db, w) = (Inr u, (db', w'))" by simp
    with assms show ?thesis unfolding insert_row_Inr new_row_def by blast
  qed
  with run show ?thesis by (simp add: moves_def)
qed

lemma honours_insert:
  "(\<And>db w. create_row uniq (new_row env w actor columns) (get db) = Inr (get db @ [new_row env w actor columns]) \<Longrightarrow>
      R db (upd (\<lambda>_. get db @ [new_row env w actor columns]) db)) \<Longrightarrow> honours R (insert_row env actor get upd uniq columns)"
  by (rule honoursI, rule moves_insert)

end

text \<open>Reads that hand a stored row to the rest of the program.\<close>

lemma moves_get_license:
  "R db db \<Longrightarrow> (\<And>l. l \<in> set (licenses db) \<Longrightarrow> row_id l = i \<Longrightarrow> \<not> is_deleted l \<Longrightarrow> moves R (f l) db x) \<Longrightarrow>
     moves R (andthen (get_license i org) f) db x"
  by (auto simp: get_license_def andthen_assoc moves_def prog_simps split: option.splits dest: get_by_id_Some)

lemma moves_get_subscription:
  "R db db \<Longrightarrow> (\<And>s. s \<in> set (subscriptions db) \<Longrightarrow> row_id s = i \<Longrightarrow> \<not> is_deleted s \<Longrightarrow> moves R (f s) db x) \<Longrightarrow>
     moves R (andthen (get_subscription i org) f) db x"
  by (auto simp: get_subscription_def andthen_assoc moves_def prog_simps split: option.splits dest: get_by_id_Some)

lemma moves_get_payment:
  "R db db \<Longrightarrow> (\<And>p. p \<in> set (payments db) \<Longrightarrow> row_id p = i \<Longrightarrow> \<not> is_deleted p \<Longrightarrow> moves R (f p) db x) \<Longrightarrow>
     moves R (andthen (get_payment i org) f) db x"
  by (auto simp: get_payment_def andthen_assoc moves_def prog_simps split: option.splits dest: get_by_id_Some)

lemma moves_get_invoice:
  "R db db \<Longrightarrow> (\<And>v. v \<in> set (invoices db) \<Longrightarrow> row_id v = i \<Longrightarrow> \<not> is_deleted v \<Longrightarrow> moves R (f v) db x) \<Longrightarrow>
     moves R (andthen (get_invoice i org) f) db x"
  by (auto simp: get_invoice_def andthen_assoc moves_def prog_simps split: option.splits dest: get_by_id_Some)

lemma moves_assert_transition [simp]:
  "moves R (andthen (assert_transition c t) f) db x =
     (if t \<in> set (LICENSE_TRANSITIONS c) then moves R (f ()) db x else R db db)"
  and moves_assert_subscription [simp]:
  "moves R (andthen (assert_subscription_transition sc st) g) db x =
     (if st \<in> set (SUBSCRIPTION_TRANSITIONS sc) then moves R (g ()) db x else R db db)"
  and moves_assert_invoice [simp]:
  "moves R (andthen (assert_invoice_transition ic it) h) db x =
     (if it \<in> set (INVOICE_TRANSITIONS ic) then moves R (h ()) db x else R db db)"
  by (simp_all add: assert_transition_def assert_subscription_transition_def assert_invoice_transition_def)

end
