(* ===== verification/Outcomes.thy ===== *)
theory Outcomes
  imports Transitions
begin

section \<open>What a run that returns has established\<close>

text \<open>
  \<open>ensures P m db x\<close>: if \<open>m\<close>, started in \<open>(db, x)\<close>, returns, then \<open>P\<close> holds of the returned value and
  the state it leaves; a run that raises is not constrained. The simplification rules compute
  it through a program step by step.
\<close>

definition ensures :: "('a \<Rightarrow> 'db \<Rightarrow> 'x \<Rightarrow> bool) \<Rightarrow> ('db \<times> 'x, 'e, 'a) prog \<Rightarrow> 'db \<Rightarrow> 'x \<Rightarrow> bool" where
  "ensures P m db x \<longleftrightarrow> (\<forall>v db' x'. m (db, x) = (Inr v, (db', x')) \<longrightarrow> P v db' x')"

lemma ensuresI: "(\<And>v db' x'. m (db, x) = (Inr v, (db', x')) \<Longrightarrow> P v db' x') \<Longrightarrow> ensures P m db x"
  by (simp add: ensures_def)

lemma ensuresD: "ensures P m db x \<Longrightarrow> m (db, x) = (Inr v, (db', x')) \<Longrightarrow> P v db' x'"
  by (simp add: ensures_def)

lemma ensures_mono:
  "ensures P m db x \<Longrightarrow> (\<And>v db' x'. P v db' x' \<Longrightarrow> Q v db' x') \<Longrightarrow> ensures Q m db x"
  by (auto simp: ensures_def)

lemma ensures_honours: "honours R m \<Longrightarrow> ensures (\<lambda>_ db' _. R db db') m db x"
  by (auto intro: ensuresI honours_result)

lemma ensures_conj: "ensures P m db x \<Longrightarrow> ensures Q m db x \<Longrightarrow> ensures (\<lambda>v db' x'. P v db' x' \<and> Q v db' x') m db x"
  by (simp add: ensures_def)

text \<open>The rules are equations between predicates on states, so that they also apply to the rest
  of a program under the binder of a step before it.\<close>

lemma ensures_True [simp]: "ensures (\<lambda>_ _ _. True) m = (\<lambda>_ _. True)"
  by (intro ext) (simp add: ensures_def)

lemma ensures_andthen [simp]: "ensures P (andthen m f) = ensures (\<lambda>v. ensures P (f v)) m"
  by (intro ext) (auto simp: ensures_def andthen_Inr)

lemma ensures_ret [simp]: "ensures P (ret v) = P v"
  and ensures_raise [simp]: "ensures P (raise e) = (\<lambda>_ _. True)"
  and ensures_guard [simp]: "ensures Q (guard b e) = (\<lambda>db x. b \<longrightarrow> Q () db x)"
  and ensures_reads_db [simp]: "ensures P (reads_db g) = (\<lambda>db. P (g db) db)"
  and ensures_reads_world [simp]: "ensures P (reads_world h) = (\<lambda>db x. P (h x) db x)"
  and ensures_modifies_db [simp]: "ensures Q (modifies_db k) = (\<lambda>db. Q () (k db))"
  and ensures_modifies_world [simp]: "ensures Q (modifies_world k') = (\<lambda>db x. Q () db (k' x))"
  by (intro ext, simp add: ensures_def prog_simps; blast?)+

lemma ensures_lift [simp]: "ensures P (lift_result r) = (\<lambda>db x. case r of Inl e \<Rightarrow> True | Inr v \<Rightarrow> P v db x)"
  and ensures_orelse [simp]: "ensures P (orelse o' e) = (\<lambda>db x. case o' of None \<Rightarrow> True | Some v \<Rightarrow> P v db x)"
  by (intro ext, auto simp: ensures_def prog_simps split: sum.splits option.splits)+

lemma ensures_if [simp]: "ensures P (if b then m else n) = (\<lambda>db x. if b then ensures P m db x else ensures P n db x)"
  by (intro ext) simp

lemma ensures_option [simp]:
  "ensures P (case o' of None \<Rightarrow> m | Some y \<Rightarrow> f y) = (\<lambda>db x. case o' of None \<Rightarrow> ensures P m db x | Some y \<Rightarrow> ensures P (f y) db x)"
  by (intro ext) (simp split: option.split)

lemma ensures_session [simp]: "ensures P (with_db_session m) = ensures P m"
  by (intro ext) (auto simp: ensures_def with_db_session_def split: prod.splits sum.splits)

lemma ensures_catching:
  "ensures P m db x \<Longrightarrow> (\<And>e db x. ensures P (h e) db x) \<Longrightarrow> ensures P (catching m h) db x"
  by (auto simp: ensures_def catching_Inr)

text \<open>A loop keeps what every iteration keeps.\<close>

lemma ensures_for_each:
  assumes "P v db x" and "\<And>i v db x. i \<in> set is \<Longrightarrow> P v db x \<Longrightarrow> ensures P (body i v) db x"
  shows "ensures P (for_each body is v) db x"
  using assms
proof (induction "is" arbitrary: v db x)
  case (Cons i "is")
  have "ensures (\<lambda>v. ensures P (for_each body is v)) (body i v) db x"
  proof (rule ensures_mono)
    show "ensures P (body i v) db x" using Cons.prems by simp
    show "ensures P (for_each body is v') db' x'" if "P v' db' x'" for v' db' x'
      using that by (rule Cons.IH) (use Cons.prems(2) in simp)
  qed
  then show ?case by simp
qed simp


subsection \<open>Programs that never raise\<close>

definition always_returns :: "('s, 'e, 'a) prog \<Rightarrow> bool" where
  "always_returns m \<longleftrightarrow> (\<forall>s. \<exists>v s'. m s = (Inr v, s'))"

lemma always_returnsD: "always_returns m \<Longrightarrow> \<exists>v db' x'. m (db, x) = (Inr v, (db', x'))"
  unfolding always_returns_def by (metis prod.exhaust)

lemma returns_andthen: "always_returns m \<Longrightarrow> (\<And>v. always_returns (f v)) \<Longrightarrow> always_returns (andthen m f)"
  unfolding always_returns_def andthen_Inr by meson

lemma returns_catching: "(\<And>e. always_returns (h e)) \<Longrightarrow> always_returns (catching m h)"
  unfolding always_returns_def catching_def by (auto split: prod.splits sum.splits)

lemma returns_ret: "always_returns (ret v)"
  and returns_reads_db: "always_returns (reads_db g)"
  and returns_reads_world: "always_returns (reads_world h)"
  and returns_modifies_db: "always_returns (modifies_db k)"
  and returns_modifies_world: "always_returns (modifies_world k')"
  by (auto simp: always_returns_def prog_simps split: prod.splits)

lemma returns_for_each: "(\<And>i v. always_returns (body i v)) \<Longrightarrow> always_returns (for_each body is v)"
  by (induction "is" arbitrary: v) (auto intro: returns_andthen returns_ret)

lemma returns_option: "always_returns m \<Longrightarrow> (\<And>y. always_returns (f y)) \<Longrightarrow> always_returns (case v of None \<Rightarrow> m | Some y \<Rightarrow> f y)"
  and returns_if: "always_returns m \<Longrightarrow> always_returns n \<Longrightarrow> always_returns (if b then m else n)"
  by (simp_all split: option.split)

lemma returns_case_prod: "(\<And>a b. always_returns (f a b)) \<Longrightarrow> always_returns (case v of (a, b) \<Rightarrow> f a b)"
  by (cases v) simp

lemma returns_session: "always_returns m \<Longrightarrow> always_returns (with_db_session m)"
  unfolding always_returns_def with_db_session_def by (auto split: prod.splits sum.splits) (metis Inl_Inr_False prod.inject)

lemmas returns_intros =
  returns_andthen returns_catching returns_for_each returns_ret returns_reads_db returns_reads_world returns_modifies_db
  returns_modifies_world returns_option returns_if returns_case_prod returns_session

end
