(* ===== verification/BillingHistory.thy ===== *)
theory BillingHistory
  imports Footprints StatusGraph Outcomes
begin

section \<open>Histories of the billing services\<close>

text \<open>
  Every endpoint and background task of \<open>app/domains/billing\<close> that reads or writes these tables,
  as the inductive set \<open>billing_request\<close> of programs: with whatever arguments, in the wiring of
  \<open>dependencies.py\<close> or \<open>tasks.py\<close>. A step runs one of them in a session of its own; a history is a
  sequence of steps. Locale \<open>history_relation\<close>: a relation that composes and that every request
  in its session honours, in environments of a kind, relates the two ends of every history.
\<close>

definition discard :: "('r, 'a) bprog \<Rightarrow> ('r, unit) bprog" where
  "discard m = andthen m (\<lambda>_. ret ())"

inductive billing_request :: "'r billing_env \<Rightarrow> ('r, unit) bprog \<Rightarrow> bool" for env where
  "billing_request env (discard (create_plan env actor name slug ty description cycle price currency active public order features))"
| "billing_request env (discard (update_plan env actor plan_id data features))"
| "billing_request env (discard (deactivate_plan env actor plan_id))"
| "billing_request env (discard (assign_license http_deps env actor org plan_id expires_at))"
| "billing_request env (discard (activate_license http_deps env actor license_id requesting))"
| "billing_request env (discard (suspend_license http_deps env actor license_id requesting reason))"
| "billing_request env (discard (cancel_license http_deps env actor license_id requesting))"
| "billing_request env (discard (upgrade_license http_deps env actor license_id requesting new_plan_id reason))"
| "billing_request env (discard (downgrade_license http_deps env actor license_id requesting new_plan_id reason))"
| "billing_request env (discard (validate_usage_against_license env org))"
| "billing_request env (discard (record_current_usage env org))"
| "billing_request env (discard (require_active_license http_deps env org))"
| "billing_request env (discard (require_feature http_deps env k org))"
| "billing_request env (discard (create_coupon env actor code ty v currency org max_uses valid_from valid_until active plan_ids))"
| "billing_request env (discard (update_coupon env actor coupon_id data plan_ids))"
| "billing_request env (discard (deactivate_coupon env actor coupon_id))"
| "billing_request env (discard (create_subscription http_deps env actor org plan_id coupon_code))"
| "billing_request env (discard (cancel_subscription http_deps env actor subscription_id requesting immediate))"
| "billing_request env (discard (reactivate_subscription http_deps env actor subscription_id requesting))"
| "billing_request env (discard (pause_subscription env actor subscription_id requesting))"
| "billing_request env (discard (resume_subscription env actor subscription_id requesting))"
| "billing_request env (discard (update_renewal_settings env actor subscription_id org auto_renew))"
| "billing_request env (discard (initiate_payment env actor org subscription_id amount currency provider key))"
| "billing_request env (discard (create_checkout_order env actor org key))"
| "billing_request env (discard (refund_payment env actor payment_id requesting amount))"
| "billing_request env (discard (retry_failed_payment env actor payment_id requesting))"
| "billing_request env (discard (register_payment_method env actor org provider token ty last4 as_default))"
| "billing_request env (discard (remove_payment_method env actor method_id requesting))"
| "billing_request env (discard (create_tax_rate env actor name ty rate country active))"
| "billing_request env (discard (update_tax_rate env actor tax_rate_id data))"
| "billing_request env (discard (upsert_billing_profile env actor org details))"
| "billing_request env (discard (generate_invoice_for_subscription env subscription_id))"
| "billing_request env (discard (create_manual_invoice env org ls))"
| "billing_request env (discard (generate_invoice_for_credit_topup env org amount_paid_minor_inr credits_minor reference actor))"
| "billing_request env (discard (void_invoice env actor invoice_id requesting))"
| "billing_request env (discard (issue_credit_note env actor invoice_id requesting amount reason))"
| "billing_request env (discard (issue_debit_note env actor invoice_id requesting amount reason))"
| "billing_request env (discard (stripe_webhook env delivery))"
| "billing_request env (discard (razorpay_webhook http_deps env signature delivery))"
| "billing_request env (discard (run_renewal_sweep_task env))"
| "billing_request env (discard (run_invoice_overdue_sweep env))"

definition billing_step ::
  "'r billing_env \<Rightarrow> billing_db \<times> 'r billing_world \<Rightarrow> billing_db \<times> 'r billing_world \<Rightarrow> bool" where
  "billing_step env s s' \<longleftrightarrow> (\<exists>m. billing_request env m \<and> s' = snd (with_db_session m s))"

locale history_relation = step_relation R for R :: "billing_db \<Rightarrow> billing_db \<Rightarrow> bool" +
  fixes env_ok :: "'r billing_env \<Rightarrow> bool"
  assumes request_keeps: "env_ok env \<Longrightarrow> billing_request env m \<Longrightarrow> honours R (with_db_session m)"
begin

lemma step_keeps: "env_ok env \<Longrightarrow> billing_step env s s' \<Longrightarrow> R (fst s) (fst s')"
  unfolding billing_step_def by (metis honours_result prod.collapse request_keeps)

lemma history: "env_ok env \<Longrightarrow> (billing_step env)\<^sup>*\<^sup>* s s' \<Longrightarrow> R (fst s) (fst s')"
  by (rotate_tac, induction rule: rtranclp_induct) (auto intro: step_refl step_trans step_keeps)

end

lemma ensures_py_now [simp]:
  "ensures P (py_now env) = (\<lambda>db w. P (time_at env (w_clock w)) db (w\<lparr>w_clock := Suc (w_clock w)\<rparr>))"
  and ensures_uuid4 [simp]:
  "ensures Q (uuid4 env) = (\<lambda>db w. Q (uuid_at env (w_supply w)) db (w\<lparr>w_supply := Suc (w_supply w)\<rparr>))"
  and ensures_call_provider [simp]:
  "ensures P'' (call_provider env c) = (\<lambda>db w. P'' (provider_api env (w_calls w) c) db (w\<lparr>w_calls := w_calls w @ [c]\<rparr>))"
  and ensures_save_row [simp]:
  "ensures P' (save_row env upd inst data) = (\<lambda>db w.
     P' (assign (instant (time_at env (w_clock w))) data (version inst) inst)
       (upd (update_row (instant (time_at env (w_clock w))) data inst) db) w)"
  and ensures_insert_row [simp]:
  "ensures Q' (insert_row env actor get ins uniq columns) = (\<lambda>db w.
     create_row uniq (new_row env w actor columns) (get db) = Inr (get db @ [new_row env w actor columns]) \<longrightarrow>
      Q' (new_row env w actor columns) (ins (\<lambda>_. get db @ [new_row env w actor columns]) db)
        (w\<lparr>w_supply := Suc (w_supply w)\<rparr>))"
  by (intro ext, auto simp: ensures_def insert_row_Inr new_row_def)+

lemma moves_andthen_call_provider [simp]:
  "moves R (andthen (call_provider env c) f) db w =
     moves R (f (provider_api env (w_calls w) c)) db (w\<lparr>w_calls := w_calls w @ [c]\<rparr>)"
  by (simp add: moves_def call_provider_def prog_simps)

lemma andthen_ret: "andthen (ret v) f = f v"
  and andthen_raise: "andthen (raise e) f = raise e"
  and andthen_if: "andthen (if b then m else n) f = (if b then andthen m f else andthen n f)"
  and andthen_option: "andthen (case o' of None \<Rightarrow> m | Some y \<Rightarrow> g y) f = (case o' of None \<Rightarrow> andthen m f | Some y \<Rightarrow> andthen (g y) f)"
  by (rule ext, simp add: prog_simps split: option.splits)+

context table_relation
begin

lemma moves_honours: "honours R m \<Longrightarrow> (\<And>v db' x'. moves R (f v) db' x') \<Longrightarrow> moves R (andthen m f) db x"
  by (rule moves_andthen [OF honoursD])

lemma moves_save_then:
  "R db (upd (update_row (instant (time_at env (w_clock w))) data inst) db) \<Longrightarrow>
     (\<And>r. moves R (f r) (upd (update_row (instant (time_at env (w_clock w))) data inst) db) w) \<Longrightarrow>
     moves R (andthen (save_row env upd inst data) f) db w"
  by (rule moves_andthen) (auto simp: moves_def save_row_def db_now_def prog_simps)

lemma honours_returning:
  assumes "\<And>db x. ensures (\<lambda>_ db' _. R db db') m db x"
  shows "honours R (with_db_session m)"
proof (rule honoursI)
  fix db x
  obtain r db' x' where run: "m (db, x) = (r, (db', x'))" by (metis prod.exhaust)
  with ensuresD [OF assms] show "moves R (with_db_session m) db x"
    by (cases r) (auto simp: moves_def with_db_session_def step_refl)
qed

lemma honours_case_reply:
  "(\<And>t. honours R (f t)) \<Longrightarrow> (\<And>t. honours R (g t)) \<Longrightarrow> (\<And>i t. honours R (h i t)) \<Longrightarrow>
     honours R (case v of Declined t \<Rightarrow> f t | ProviderFault t \<Rightarrow> g t | Completed i t \<Rightarrow> h i t)"
  by (cases v) simp_all

lemma honours_request: "honours R m \<Longrightarrow> honours R (with_db_session (discard m))"
  unfolding discard_def by (intro honours_session honours_discard)

lemma moves_ensures:
  "honours R m \<Longrightarrow> ensures Q m db x \<Longrightarrow> (\<And>v db' x'. Q v db' x' \<Longrightarrow> moves R (f v) db' x') \<Longrightarrow> moves R (andthen m f) db x"
  by (rule moves_andthen [OF honoursD]) (auto dest: ensuresD)

text \<open>What the moments a program reads, and computes from them, are known to be.\<close>

lemma honours_now: "(\<And>n. honours R (f (time_at env n))) \<Longrightarrow> honours R (andthen (py_now env) f)"
  by (simp add: honours_def)

lemma honours_next_period:
  "(\<And>e. add_billing_cycle t c = Inr e \<Longrightarrow> honours R (f e)) \<Longrightarrow> honours R (andthen (next_period_end t c) f)"
  by (cases "add_billing_cycle t c") (auto simp: honours_def next_period_end_def step_refl)

lemma honours_plus_days:
  "(\<And>e. add_days t n = Some e \<Longrightarrow> honours R (f e)) \<Longrightarrow> honours R (andthen (plus_days t n) f)"
  by (cases "add_days t n") (auto simp: honours_def plus_days_def step_refl)

end

lemma discard_touches [footprint]: "honours (touches T) m \<Longrightarrow> honours (touches T) (discard m)"
  unfolding discard_def by (auto intro!: footprint)

lemma stripe_webhook_touches [footprint]:
  "{PaymentTable, SubscriptionTable, InvoiceTable, AuditTable} \<subseteq> T \<Longrightarrow> honours (touches T) (stripe_webhook env delivery)"
  unfolding stripe_webhook_def by (auto intro!: footprint split: sum.splits)

lemma razorpay_webhook_touches [footprint]:
  "{PaymentTable, SubscriptionTable, InvoiceTable, LicenseTable, AuditTable} \<subseteq> T \<Longrightarrow>
     honours (touches T) (razorpay_webhook deps env signature delivery)"
  unfolding razorpay_webhook_def by (auto intro!: footprint split: sum.splits)

lemma renewal_sweep_task_touches [footprint]:
  "{SubscriptionTable, LicenseTable, PaymentTable, OutboxTable, AuditTable} \<subseteq> T \<Longrightarrow>
     honours (touches T) (run_renewal_sweep_task env)"
  unfolding run_renewal_sweep_task_def by (auto intro!: footprint settings_port.run_renewal_sweep_touches)

lemma overdue_sweep_touches [footprint]:
  "{InvoiceTable, AuditTable} \<subseteq> T \<Longrightarrow> honours (touches T) (run_invoice_overdue_sweep env)"
  unfolding run_invoice_overdue_sweep_def by (auto intro!: footprint)

lemma require_feature_touches [footprint]: "honours (touches T) (require_feature deps env k org)"
  unfolding require_feature_def by (auto intro!: footprint split: option.splits)

end
