(* ===== verification/BillingSample.thy ===== *)
theory BillingSample
  imports BillingHistory
begin

section \<open>A small billing installation\<close>

text \<open>
  One organization on a monthly plan, with a license, a subscription and a card on file, and an
  environment around it: a clock that advances a day per read, a supply of ids, a provider
  that accepts every charge, and Redis as a map of keys that never expire. The properties of
  the billing services are shown at it to have inhabitants.
\<close>

definition sample_kv :: "(string \<Rightarrow> cache_value option) kv_ops" where
  "sample_kv =
     \<lparr>kv_get = (\<lambda>k r. (r k, r)), kv_set = (\<lambda>k v n r. r(k \<mapsto> v)),
      kv_set_nx = (\<lambda>k v n r. if r k = None then (True, r(k \<mapsto> v)) else (False, r)),
      kv_delete = (\<lambda>k r. r(k := None))\<rparr>"

lemma sample_kv_laws: "kv_laws sample_kv id"
  by (auto simp: kv_laws_def sample_kv_def)

definition day_of_2026 :: "int \<Rightarrow> int \<Rightarrow> py_datetime" where
  "day_of_2026 m d =
     \<lparr>dt_year = 2026, dt_month = m, dt_day = d, dt_hour = 0, dt_minute = 0, dt_second = 0, dt_microsecond = 0\<rparr>"

text \<open>Reads 0 to 27 fall on the days of March, later ones stay on its 28th.\<close>

definition sample_time :: "nat \<Rightarrow> py_datetime" where
  "sample_time n = day_of_2026 3 (if n < 28 then int n + 1 else 28)"

definition sample_env :: "(string \<Rightarrow> cache_value option) billing_env" where
  "sample_env =
     \<lparr>time_at = sample_time, uuid_at = (\<lambda>n. CHR ''u'' # show_nat n), trial_period_days = 14, grace_period_days = 7,
      renewal_reminder_days_before = 3, expiry_reminder_days_before = 3, invoice_due_days = 15,
      platform_gst_state = ''KA'', platform_gst_country = ''IN'', entitlement_cache_ttl = 300, webhook_dedup_ttl = 86400,
      payment_default_provider = ''stripe'', stripe_secret_key = ''sk'', razorpay_key_id = '''', razorpay_key_secret = '''',
      provider_api = (\<lambda>cs c. Completed (Some ''pi'') ''succeeded''), redis_ops = sample_kv,
      usage_reads = (\<lambda>n org a b. \<lparr>ur_locations = 1, ur_routers = 1, ur_active_sessions = 0, ur_unique_guests = 0,
        ur_visitors = 0, ur_total_bandwidth_bytes = 0, ur_otp_by_channel = []\<rparr>)\<rparr>"

definition sample_base :: "uuid \<Rightarrow> base_model" where
  "sample_base i = new_base i 0 None"

definition sample_plan :: plan where
  "sample_plan = base_model.extend (sample_base ''P'')
     (plan.fields ''Pro'' ''pro'' PROFESSIONAL None ''monthly'' 100 ''USD'' True True None 0)"

definition sample_license :: license where
  "sample_license = base_model.extend (sample_base ''L'')
     (license.fields ''O'' ''P'' LICENSE_ACTIVE (Some (day_of_2026 1 1)) None None None None)"

definition sample_subscription :: subscription where
  "sample_subscription = base_model.extend (sample_base ''S'')
     (subscription.fields ''O'' ''L'' ''P'' SUB_ACTIVE ''monthly'' (day_of_2026 2 1) (day_of_2026 3 1) None True False
        (day_of_2026 1 1) None None None None None)"

definition sample_method :: payment_method where
  "sample_method = base_model.extend (sample_base ''M'') (payment_method.fields ''O'' ''stripe'' ''tok'' CARD None True True)"

definition sample_organization :: organization where
  "sample_organization = base_model.extend (sample_base ''O'') (organization.fields ''Hotel'' ''standard'' None ''a@b'' None)"

definition empty_billing :: billing_db where
  "empty_billing = \<lparr>plans = [], plan_features = [], feature_overrides = [], licenses = [], change_logs = [], subscriptions = [],
     coupons = [], coupon_plans = [], coupon_usages = [], payments = [], payment_methods = [], tax_rates = [],
     billing_profiles = [], number_counters = [], invoices = [], invoice_items = [], credit_debit_notes = [],
     organizations = [], portal_configs = [], usage_metrics = [], outbox = [], audit_log = []\<rparr>"

definition sample_db :: billing_db where
  "sample_db = empty_billing\<lparr>plans := [sample_plan], licenses := [sample_license], subscriptions := [sample_subscription],
     payment_methods := [sample_method], organizations := [sample_organization]\<rparr>"

definition sample_world :: "(string \<Rightarrow> cache_value option) billing_world" where
  "sample_world = \<lparr>w_clock = 0, w_supply = 0, w_calls = [], w_redis = (\<lambda>_. None)\<rparr>"

text \<open>One request run at this installation is a history.\<close>

lemma sample_step:
  "billing_request sample_env m \<Longrightarrow> with_db_session m (sample_db, sample_world) = (r, s') \<Longrightarrow>
     (billing_step sample_env)\<^sup>*\<^sup>* (sample_db, sample_world) s'"
  by (rule r_into_rtranclp) (auto simp: billing_step_def)

end
