(* ===== verification/LicenseLifecycle.thy ===== *)
theory LicenseLifecycle
  imports BillingSample
begin

section \<open>The life of licenses\<close>

text \<open>
  Over every history of billing requests and sweeps: there is at most one license per
  organization, no license disappears, and its status moves along \<open>LICENSE_TRANSITIONS\<close> only.
  The relation \<open>licensed\<close> holds between the database before and after every run, also one
  that raised and whose flushed writes a sweep keeps.
\<close>

definition license_key :: "license \<Rightarrow> uuid \<times> uuid" where
  "license_key l = (row_id l, l_organization_id l)"

interpretation lg: status_moves license_key l_status LICENSE_TRANSITIONS .

definition licenses_unique :: "license list \<Rightarrow> bool" where
  "licenses_unique t \<longleftrightarrow> distinct (map row_id t) \<and> distinct (map l_organization_id t)"

definition licensed :: "billing_db \<Rightarrow> billing_db \<Rightarrow> bool" where
  "licensed a b \<longleftrightarrow>
     (licenses_unique (licenses a) \<longrightarrow> licenses_unique (licenses b) \<and> lg.tracks (licenses a) (licenses b))"

interpretation lic: table_relation licensed "{LicenseTable}"
  by unfold_locales (auto simp: licensed_def intro: lg.tracks_trans dest: touches_tables(4))

lemma licensed_save_same:
  assumes "\<And>r. l_organization_id (data r) = l_organization_id r" and "\<And>r. l_status (data r) = l_status r"
  shows "licensed db (licenses_update (update_row now data l) db)"
proof -
  have "lg.tracks t (update_row now data l t)" for t
    unfolding update_row_def by (rule lg.tracks_map) (auto simp: license_key_def assign_def assms)
  moreover have "map l_organization_id (update_row now data l t) = map l_organization_id t" for t
    by (auto simp: update_row_def assign_def assms)
  ultimately show ?thesis by (simp add: licensed_def licenses_unique_def)
qed

text \<open>A write of a license that was read in the same state, along an edge of the graph.\<close>

lemma licensed_save:
  assumes "l \<in> set (licenses db)"
    and "\<And>r. l_organization_id (data r) = l_organization_id r"
    and "\<And>r. row_id r = row_id l \<Longrightarrow> l_status r = l_status l \<Longrightarrow>
      l_status (data r) = l_status r \<or> l_status (data r) \<in> set (LICENSE_TRANSITIONS (l_status l))"
  shows "licensed db (licenses_update (update_row now data l) db)"
proof -
  let ?f = "\<lambda>r. if row_id r = row_id l then assign now data (version l) r else r"
  have org: "l_organization_id (assign now data v r) = l_organization_id r" for v r
    by (simp add: assign_def assms(2))
  have st: "l_status (assign now data v r) = l_status (data r)" for v r
    by (simp add: assign_def)
  have "lg.tracks (licenses db) (map ?f (licenses db))" if u: "distinct (map row_id (licenses db))"
  proof (rule lg.tracks_map)
    fix r assume r: "r \<in> set (licenses db)"
    show "license_key (?f r) = license_key r" by (simp add: license_key_def org)
    show "l_status (?f r) = l_status r \<or> l_status (?f r) \<in> set (LICENSE_TRANSITIONS (l_status r))"
    proof (cases "row_id r = row_id l")
      case True
      with u r assms(1) have "r = l" by (blast dest: distinct_map_inj)
      with assms(3) [of l] show ?thesis by (simp add: st)
    qed simp
  qed
  moreover have "map l_organization_id (map ?f (licenses db)) = map l_organization_id (licenses db)"
    by (simp add: org)
  ultimately show ?thesis
    by (simp add: licensed_def licenses_unique_def update_row_def [symmetric] del: map_map) 
qed


lemma licensed_audit_license: "honours licensed (andthen (invalidate_entitlement_cache deps env org) (\<lambda>_.
    andthen (audit_license actor action l description) (\<lambda>_. ret l)))"
  by (rule lic.honours_untouched) (auto intro!: footprint)

lemma licensed_activate: "honours licensed (activate_license deps env actor license_id requesting)"
  and licensed_suspend: "honours licensed (suspend_license deps env actor license_id requesting reason)"
  and licensed_cancel: "honours licensed (cancel_license deps env actor license_id requesting)"
  and licensed_expire: "honours licensed (expire_license deps env license_id)"
  unfolding activate_license_def suspend_license_def cancel_license_def expire_license_def
  by (rule honoursI, rule moves_get_license, rule lic.step_refl,
      auto simp: lic.step_refl intro!: lic.moves_save licensed_save licensed_audit_license)+


lemma licensed_create_row: "honours licensed (create_license_row env actor org plan_id status expires)"
  unfolding create_license_row_def
  by (rule lic.honours_insert) (auto simp: licensed_def licenses_unique_def create_row_Inr)

lemma licensed_save_plan: "honours licensed (save_row env licenses_update l (\<lambda>r. r\<lparr>l_plan_id := i, updated_by := actor\<rparr>))"
  by (rule lic.honours_save) (simp add: licensed_save_same)

lemmas licensed_ops = licensed_activate licensed_suspend licensed_cancel licensed_expire licensed_create_row licensed_save_plan

lemma licensed_license_service:
  "honours licensed (assign_license deps env actor org plan_id expires_at)"
  "honours licensed (change_plan deps env actor license_id requesting new_plan_id reason ty)"
  "honours licensed (activate_license_if_needed deps env org)"
  unfolding assign_license_def change_plan_def activate_license_if_needed_def
  by (rule licensed_ops lic.honours_control |
      (rule lic.honours_untouched, (auto intro!: footprint split: billing_exc.splits; fail)))+

lemmas licensed_services = licensed_ops licensed_license_service

lemma licensed_subscription_service:
  "honours licensed (create_subscription deps env actor org plan_id coupon_code)"
  "honours licensed (cancel_subscription deps env actor subscription_id requesting immediate)"
  "honours licensed (reactivate_subscription deps env actor subscription_id requesting)"
  "honours licensed (lapse_non_renewing_subscriptions deps env)"
  "honours licensed (expire_lapsed_subscriptions deps env)"
  "honours licensed (finalize_scheduled_cancellation deps env s)"
  "honours licensed (process_razorpay_event deps env ev signature)"
  unfolding create_subscription_def cancel_subscription_def reactivate_subscription_def
    lapse_non_renewing_subscriptions_def lapse_one_def expire_lapsed_subscriptions_def expire_one_def
    finalize_scheduled_cancellation_def process_razorpay_event_def
  by (rule licensed_services lic.honours_control |
      (rule lic.honours_untouched, (auto intro!: footprint split: billing_exc.splits; fail)))+

lemma licensed_sweep: "honours licensed (run_renewal_sweep_task env)"
  unfolding run_renewal_sweep_task_def run_renewal_sweep_def phase_def process_due_renewals_def process_renewal_def Let_def
  by (rule licensed_services licensed_subscription_service lic.honours_control |
      (rule lic.honours_untouched, (auto intro!: footprint settings_port.charge_frame split: billing_exc.splits; fail)))+

interpretation license_history: history_relation licensed "\<lambda>_ :: 'r billing_env. True"
proof unfold_locales
  fix env :: "'r billing_env" and m
  assume "billing_request env m"
  then show "honours licensed (with_db_session m)"
    by (cases rule: billing_request.cases)
       (simp_all only: upgrade_license_def downgrade_license_def razorpay_webhook_def,
        (rule lic.honours_request licensed_services licensed_subscription_service licensed_sweep lic.honours_control |
          (rule lic.honours_untouched, (auto intro!: footprint; fail)))+)
qed

text \<open>
  C4. License lifecycle. Over every history of billing requests, webhooks and sweeps there stays
  at most one license per organization, no license disappears or changes its organization, its
  status moves along \<open>LICENSE_TRANSITIONS\<close> only, and an expired or cancelled license stays so.
\<close>

theorem license_lifecycle:
  assumes "(billing_step env)\<^sup>*\<^sup>* (db, w) (db', w')"
    and "distinct (map row_id (licenses db))" and "distinct (map l_organization_id (licenses db))"
    and "l \<in> set (licenses db)"
  shows "distinct (map row_id (licenses db')) \<and> distinct (map l_organization_id (licenses db')) \<and>
    (\<exists>l' \<in> set (licenses db'). row_id l' = row_id l \<and> l_organization_id l' = l_organization_id l \<and>
       (l_status l, l_status l') \<in> {(a, b). b \<in> set (LICENSE_TRANSITIONS a)}\<^sup>* \<and>
       (l_status l \<in> {LICENSE_EXPIRED, LICENSE_CANCELLED} \<longrightarrow> l_status l' = l_status l))"
proof -
  have h: "licenses_unique (licenses db')" "lg.tracks (licenses db) (licenses db')"
    using license_history.history [OF TrueI assms(1)] assms(2,3) by (simp_all add: licensed_def licenses_unique_def)
  obtain r where r: "r \<in> set (licenses db')" "license_key r = license_key l" "(l_status l, l_status r) \<in> lg.edges\<^sup>*"
    using h(2) assms(4) by (auto simp: lg.tracks_def)
  with lg.final_path [OF r(3)] have
    "row_id r = row_id l" "l_organization_id r = l_organization_id l"
    "l_status l \<in> {LICENSE_EXPIRED, LICENSE_CANCELLED} \<longrightarrow> l_status r = l_status l"
    by (auto simp: license_key_def)
  with h(1) r show ?thesis unfolding licenses_unique_def lg.edges_def by blast
qed

definition sample_suspended :: "billing_db \<times> (string \<Rightarrow> cache_value option) billing_world" where
  "sample_suspended =
     snd (with_db_session (discard (suspend_license http_deps sample_env None ''L'' None ''late'')) (sample_db, sample_world))"

theorem license_lifecycle_witness:
  "map l_status (licenses (fst sample_suspended)) = [LICENSE_SUSPENDED] \<and>
   (LICENSE_ACTIVE, LICENSE_SUSPENDED) \<in> {(a, b). b \<in> set (LICENSE_TRANSITIONS a)}\<^sup>*"
proof -
  have step: "(billing_step sample_env)\<^sup>*\<^sup>* (sample_db, sample_world) (fst sample_suspended, snd sample_suspended)"
    by (rule r_into_rtranclp) (auto simp: billing_step_def sample_suspended_def intro: billing_request.intros)
  have st: "map l_status (licenses (fst sample_suspended)) = [LICENSE_SUSPENDED]" by code_simp
  have "(l_status sample_license, LICENSE_SUSPENDED) \<in> {(a, b). b \<in> set (LICENSE_TRANSITIONS a)}\<^sup>*"
    using license_lifecycle [OF step, of sample_license] st by (auto simp: sample_db_def empty_billing_def)
  then show ?thesis using st by (simp add: sample_license_def license.defs base_model.defs)
qed

end
