(* ===== verification/Accounts.thy ===== *)
theory Accounts
  imports BillingSample
begin

section \<open>Licenses and subscriptions in step\<close>

text \<open>
  The invariant \<open>accounts_ok\<close> of the license and subscription tables: one of each per
  organization, every subscription tied to a stored license of its organization on the same
  plan, and every subscription row consistent in itself (\<open>subscription_ok\<close>). Every operation keeps it
  at every moment, except that a plan change writes the license first and the subscription
  next; it keeps it when it returns, and a request that raises is rolled back.
\<close>

definition subscription_ok :: "subscription \<Rightarrow> bool" where
  "subscription_ok s \<longleftrightarrow>
     \<not> is_deleted s \<and> instant (s_current_period_start s) \<le> instant (s_current_period_end s) \<and>
     (s_status s = PAST_DUE \<longrightarrow> s_past_due_at s \<noteq> None) \<and>
     (s_status s = SUB_CANCELLED \<longrightarrow> s_past_due_at s = None \<and> s_cancelled_at s \<noteq> None)"

text \<open>A license as a subscription refers to it.\<close>

definition license_terms :: "license list \<Rightarrow> (uuid \<times> uuid \<times> uuid) set" where
  "license_terms t = (\<lambda>l. (row_id l, l_organization_id l, l_plan_id l)) ` set t"

definition has_license :: "license list \<Rightarrow> subscription \<Rightarrow> bool" where
  "has_license t s \<longleftrightarrow> (s_license_id s, s_organization_id s, s_plan_id s) \<in> license_terms t"

definition accounts_ok :: "billing_db \<Rightarrow> bool" where
  "accounts_ok db \<longleftrightarrow>
     distinct (map row_id (licenses db)) \<and> distinct (map l_organization_id (licenses db)) \<and>
     distinct (map row_id (subscriptions db)) \<and> distinct (map s_organization_id (subscriptions db)) \<and>
     list_all subscription_ok (subscriptions db) \<and> list_all (has_license (licenses db)) (subscriptions db)"

definition accounted :: "billing_db \<Rightarrow> billing_db \<Rightarrow> bool" where
  "accounted a b \<longleftrightarrow> (accounts_ok a \<longrightarrow> accounts_ok b)"

interpretation acc: table_relation accounted "{LicenseTable, SubscriptionTable}"
proof unfold_locales
  fix a b assume t: "touches (- {LicenseTable, SubscriptionTable}) a b"
  then have "licenses b = licenses a" "subscriptions b = subscriptions a" by (auto dest: touches_tables(4,6))
  then show "accounted a b" by (simp add: accounted_def accounts_ok_def)
qed (auto simp: accounted_def)

text \<open>\<open>datetime.now\<close> returns a date of the calendar.\<close>

definition clock_valid :: "'r billing_env \<Rightarrow> bool" where
  "clock_valid env \<longleftrightarrow> (\<forall>n. valid_datetime (time_at env n))"


subsection \<open>Writes\<close>

lemma license_terms_update:
  assumes "\<And>r. l_organization_id (data r) = l_organization_id r" and "\<And>r. l_plan_id (data r) = l_plan_id r"
  shows "license_terms (update_row now data l t) = license_terms t"
  unfolding license_terms_def update_row_def list.set_map image_image
  by (rule image_cong) (simp_all add: assign_def assms)

lemma accounted_save_license:
  assumes "\<And>r. l_organization_id (data r) = l_organization_id r" and "\<And>r. l_plan_id (data r) = l_plan_id r"
  shows "honours accounted (save_row env licenses_update l data)"
proof (rule acc.honours_save)
  fix db :: billing_db and now
  let ?t = "update_row now data l (licenses db)"
  have "map l_organization_id ?t = map l_organization_id (licenses db)"
    by (auto simp: update_row_def assign_def assms)
  moreover have "license_terms ?t = license_terms (licenses db)" by (rule license_terms_update) (simp_all add: assms)
  then have "has_license ?t = has_license (licenses db)" by (rule_tac ext) (simp add: has_license_def)
  ultimately show "accounted db (licenses_update (update_row now data l) db)"
    by (auto simp: accounted_def accounts_ok_def list_all_iff)
qed

lemma accounted_update_subscription:
  assumes "\<And>r. s_organization_id (data r) = s_organization_id r" and "\<And>r. s_plan_id (data r) = s_plan_id r"
    and "\<And>r. s_license_id (data r) = s_license_id r"
    and "\<And>r. accounts_ok db \<Longrightarrow> r \<in> set (subscriptions db) \<Longrightarrow> row_id r = row_id s \<Longrightarrow> subscription_ok r \<Longrightarrow> subscription_ok (data r)"
  shows "accounted db (subscriptions_update (update_row now data s) db)"
proof -
  have a: "s_organization_id (assign now data v r) = s_organization_id r" "s_license_id (assign now data v r) = s_license_id r"
    "s_plan_id (assign now data v r) = s_plan_id r" for v r
    by (simp_all add: assign_def assms)
  have ok: "subscription_ok (assign now data v r)" if "subscription_ok (data r)" "subscription_ok r" for v r
    using that by (simp add: subscription_ok_def assign_def)
  have "map s_organization_id (update_row now data s t) = map s_organization_id t" for t
    by (auto simp: update_row_def a)
  then show ?thesis
    by (auto simp: accounted_def accounts_ok_def list_all_iff set_update_row has_license_def a intro!: ok assms(4))
qed

lemma accounted_save_subscription:
  assumes "\<And>r. s_organization_id (data r) = s_organization_id r" and "\<And>r. s_plan_id (data r) = s_plan_id r"
    and "\<And>r. s_license_id (data r) = s_license_id r" and "\<And>r. subscription_ok r \<Longrightarrow> subscription_ok (data r)"
  shows "honours accounted (save_row env subscriptions_update s data)"
  by (rule acc.honours_save, rule accounted_update_subscription) (simp_all add: assms)

lemma accounted_create_license: "honours accounted (create_license_row env actor org plan_id status expires)"
  unfolding create_license_row_def
  by (rule acc.honours_insert)
     (auto simp: accounted_def accounts_ok_def create_row_Inr list_all_iff has_license_def license_terms_def)

lemma accounted_license_service:
  "honours accounted (activate_license deps env actor license_id requesting)"
  "honours accounted (suspend_license deps env actor license_id requesting reason)"
  "honours accounted (cancel_license deps env actor license_id requesting)"
  "honours accounted (expire_license deps env license_id)"
  "honours accounted (assign_license deps env actor org plan_id expires_at)"
  "honours accounted (activate_license_if_needed deps env org)"
  unfolding activate_license_def suspend_license_def cancel_license_def expire_license_def assign_license_def
    activate_license_if_needed_def
  by (rule accounted_create_license acc.honours_control | (rule accounted_save_license, (simp; fail), (simp; fail)) |
      (rule acc.honours_untouched, (auto intro!: footprint split: billing_exc.splits; fail)))+


lemma next_period_after_now:
  assumes "clock_valid env" and "add_billing_cycle (time_at env n) cycle = Inr e"
  shows "instant (time_at env n) \<le> instant e"
  using add_billing_cycle_instant(2) [OF _ assms(2)] assms(1) by (simp add: clock_valid_def)

lemma trial_end_after_now:
  assumes "clock_valid env" and "add_days (time_at env n) k = Some e"
  shows "instant (time_at env n) \<le> instant e"
  using add_days_Some [OF _ assms(2)] assms(1) by (simp add: clock_valid_def days_def minutes_def seconds_def)

lemma accounted_renewed: "clock_valid env \<Longrightarrow> honours accounted (mark_renewed env s p amount)"
  unfolding mark_renewed_def
  by (intro acc.honours_now acc.honours_next_period acc.honours_andthen accounted_save_subscription)
     (auto simp: subscription_ok_def next_period_after_now intro!: acc.honours_untouched footprint)

lemma accounted_past_due: "honours accounted (mark_past_due env s reason)"
proof -
  have "honours accounted (andthen (save_row env subscriptions_update s
      (\<lambda>r. r\<lparr>s_status := PAST_DUE, s_past_due_at := Some t\<rparr>)) (\<lambda>updated.
      andthen (audit_renewal action updated (d updated)) (\<lambda>_. ret updated)))" for t action d
    by (intro acc.honours_andthen accounted_save_subscription)
       (auto simp: subscription_ok_def intro!: acc.honours_untouched footprint)
  then show ?thesis
    unfolding mark_past_due_def
    by (cases "s_past_due_at s") (auto simp: andthen_assoc andthen_ret intro!: acc.honours_now)
qed

lemmas accounted_services = accounted_license_service accounted_past_due

lemma accounted_renewals:
  assumes "clock_valid env"
  shows "honours accounted (finalize_scheduled_cancellation deps env s)"
    "honours accounted (confirm_renewal_payment_succeeded env subscription_id)"
    "honours accounted (confirm_renewal_payment_failed env subscription_id reason)"
    "honours accounted (lapse_non_renewing_subscriptions deps env)"
    "honours accounted (expire_lapsed_subscriptions deps env)"
    "honours accounted (send_renewal_reminders env)"
    "honours accounted (send_expiry_reminders env)"
    "honours accounted (process_renewal deps env (gateway_charge env (build_payment_gateway env)) i)"
  unfolding finalize_scheduled_cancellation_def confirm_renewal_payment_succeeded_def confirm_renewal_payment_failed_def
    lapse_non_renewing_subscriptions_def lapse_one_def expire_lapsed_subscriptions_def expire_one_def
    send_renewal_reminders_def send_expiry_reminders_def process_renewal_def Let_def
  by (rule accounted_services accounted_renewed [OF assms] acc.honours_control |
      (rule accounted_save_subscription, (simp; fail), (simp; fail), (simp; fail), (simp add: subscription_ok_def; fail)) |
      (rule acc.honours_untouched, (auto intro!: footprint settings_port.charge_frame split: billing_exc.splits; fail)))+


lemma accounted_subscription_service:
  "honours accounted (cancel_subscription deps env actor subscription_id requesting immediate)"
  "honours accounted (pause_subscription env actor subscription_id requesting)"
  "honours accounted (update_renewal_settings env actor subscription_id org auto_renew)"
  unfolding cancel_subscription_def pause_subscription_def update_renewal_settings_def
  by (rule accounted_services acc.honours_control |
      (rule accounted_save_subscription, (simp; fail), (simp; fail), (simp; fail), (simp add: subscription_ok_def; fail)) |
      (rule acc.honours_untouched, (auto intro!: footprint; fail)))+

lemma accounted_reactivate:
  "clock_valid env \<Longrightarrow> honours accounted (reactivate_subscription deps env actor subscription_id requesting)"
  unfolding reactivate_subscription_def
  by (rule accounted_services acc.honours_now acc.honours_next_period acc.honours_control |
      (rule accounted_save_subscription, (simp; fail), (simp; fail), (simp; fail),
        (simp add: subscription_ok_def next_period_after_now; fail)) |
      (rule acc.honours_untouched, (auto intro!: footprint; fail)))+

lemma accounts_okD: "accounts_ok db \<Longrightarrow> s \<in> set (subscriptions db) \<Longrightarrow> subscription_ok s"
  by (simp add: accounts_ok_def list_all_iff)

lemma accounted_audit: "honours accounted (andthen (audit_subscription actor action u d) (\<lambda>_. ret v))"
  by (rule acc.honours_untouched) (auto intro!: footprint)

lemma map_sum_Inr: "map_sum f g r = Inr v \<longleftrightarrow> (\<exists>u. r = Inr u \<and> v = g u)"
  by (cases r) auto

lemma accounted_resume:
  "clock_valid env \<Longrightarrow> honours accounted (resume_subscription env actor subscription_id requesting)"
  unfolding resume_subscription_def
  by (rule honoursI, rule moves_get_subscription, rule acc.step_refl)
     (auto simp: acc.step_refl andthen_if andthen_assoc andthen_ret next_period_end_def subscription_ok_def map_sum_Inr
       dest: accounts_okD next_period_after_now split: sum.splits
       intro!: acc.moves_save accounted_update_subscription accounted_audit)



subsection \<open>A new subscription\<close>

text \<open>Across an operation that does not write licenses they stay what they are.\<close>

lemma ensures_licenses:
  assumes "honours (touches (- {LicenseTable})) m" and "\<And>v db' x'. licenses db' = licenses db \<Longrightarrow> Q v db' x'"
  shows "ensures Q m db x"
  using ensures_honours [OF assms(1)] by (rule ensures_mono) (auto intro!: assms(2) dest: touches_tables(4))

lemma get_active_plan_ensures: "ensures (\<lambda>p db' w'. row_id p = plan_id \<and> db' = db) (get_active_plan plan_id) db w"
  by (auto simp: get_active_plan_def dest: get_by_id_Some split: option.splits)

lemma license_terms_append [simp]:
  "license_terms (t @ [new_row env w actor (license.fields org plan_id st a b c d e)]) =
     insert (uuid_at env (w_supply w), org, plan_id) (license_terms t)"
  by (simp add: license_terms_def new_row_def license.defs base_model.defs new_base_def)

lemma row_id_new_row [simp]: "row_id (new_row env w actor columns) = uuid_at env (w_supply w)"
  by (simp add: new_row_def base_model.defs new_base_def)

lemma assign_license_ensures:
  "ensures (\<lambda>l db' w'. (row_id l, org, plan_id) \<in> license_terms (licenses db'))
     (assign_license deps env actor org plan_id expires_at) db w"
  by (simp add: assign_license_def create_license_row_def get_active_plan_def split: option.split)
     (auto intro!: ensures_licenses footprint dest: get_by_id_Some)

lemma activate_license_ensures:
  assumes "(i, org, plan_id) \<in> license_terms (licenses db)"
  shows "ensures (\<lambda>l db' w'. row_id l = i \<and> (i, org, plan_id) \<in> license_terms (licenses db'))
     (activate_license deps env actor i requesting) db w"
  by (simp add: activate_license_def get_license_def assert_transition_def split: option.split)
     (auto dest: get_by_id_Some simp: assms license_terms_update intro!: ensures_licenses footprint)

lemma accounted_create_row:
  assumes "(i, org, plan_id) \<in> license_terms (licenses db)" and "instant start \<le> instant period_end"
    and "status \<in> {TRIALING, SUB_ACTIVE}" and "\<And>v. honours accounted (f v)"
  shows "moves accounted (andthen (create_subscription_row env actor org i plan_id status cycle start period_end trial_end c) f) db w"
proof (rule acc.moves_andthen)
  show "moves accounted (create_subscription_row env actor org i plan_id status cycle start period_end trial_end c) db w"
    unfolding create_subscription_row_def
  proof (rule acc.moves_insert)
    let ?s = "new_row env w actor (subscription.fields org i plan_id status cycle start period_end trial_end True False start
      None c None None None)"
    have "has_license (licenses db) ?s" "subscription_ok ?s"
      using assms(1-3) by (auto simp: has_license_def subscription_ok_def new_row_def subscription.defs base_model.defs new_base_def)
    then show "accounted db (subscriptions_update (\<lambda>_. subscriptions db @ [?s]) db)"
      if "create_row (\<lambda>t. distinct (map s_organization_id t)) ?s (subscriptions db) = Inr (subscriptions db @ [?s])"
      using that by (auto simp: accounted_def accounts_ok_def create_row_Inr)
  qed
qed (rule honoursD [OF assms(4)])

lemma accounted_create:
  assumes "clock_valid env"
  shows "honours accounted (create_subscription deps env actor org plan_id coupon_code)"
proof (rule honoursI)
  fix db and w :: "'a billing_world"
  have tail: "honours accounted (andthen (case applied of
         None \<Rightarrow> ret ()
       | Some c \<Rightarrow>
           andthen (apply_coupon env (c_code c) org (Some (row_id s)) (row_id p) (p_base_price p)) (\<lambda>_. ret ())) (\<lambda>_.
     andthen (audit_subscription actor action s d) (\<lambda>_. ret s)))" for applied p s action d
    by (rule acc.honours_untouched) (auto intro!: footprint split: option.splits)
  have coupon: "honours (touches T) (case coupon_code of
         None \<Rightarrow> ret None
       | Some code \<Rightarrow> andthen (validate_coupon env code org i) (\<lambda>c. ret (Some c)))" for T i
    by (auto intro!: footprint split: option.splits)
  have row: "moves accounted (andthen (create_subscription_row env actor org i pid status cycle start period_end trial_end c) f) db1 w1"
    if "(i, org, pid) \<in> license_terms (licenses db1)" "status \<in> {TRIALING, SUB_ACTIVE}" "instant start \<le> instant period_end"
      "\<And>v. honours accounted (f v)" for i pid status cycle start period_end trial_end c f db1 w1
    using that by (intro accounted_create_row)
  show "moves accounted (create_subscription deps env actor org plan_id coupon_code) db w"
    unfolding create_subscription_def
    apply (simp add: acc.step_refl)
    apply (intro impI)
    apply (rule acc.moves_ensures [OF acc.honours_untouched get_active_plan_ensures])
     apply (auto intro!: footprint)[1]
    apply (rule acc.moves_honours [OF acc.honours_untouched [OF coupon]])
    apply (rule acc.moves_ensures [OF accounted_license_service(5) assign_license_ensures])
    apply (rule acc.moves_ensures [OF accounted_license_service(1) activate_license_ensures], assumption)
    by (auto simp: andthen_if andthen_assoc andthen_ret plus_days_def next_period_end_def acc.step_refl map_sum_Inr
       split: option.split sum.split intro!: row tail dest: next_period_after_now [OF assms] trial_end_after_now [OF assms])
qed



subsection \<open>A plan change\<close>

text \<open>The subscription of an organization is moved to a plan: every other column that matters
  here, and every other subscription, stays.\<close>

definition moved_row :: "uuid \<Rightarrow> uuid \<Rightarrow> subscription \<Rightarrow> subscription \<Rightarrow> bool" where
  "moved_row org plan_id s s' \<longleftrightarrow>
     row_id s' = row_id s \<and> s_organization_id s' = s_organization_id s \<and> s_license_id s' = s_license_id s \<and>
     (subscription_ok s \<longrightarrow> subscription_ok s') \<and>
     s_plan_id s' = (if s_organization_id s = org then plan_id else s_plan_id s)"

definition moved_to_plan :: "uuid \<Rightarrow> uuid \<Rightarrow> subscription list \<Rightarrow> subscription list \<Rightarrow> bool" where
  "moved_to_plan org plan_id t t' \<longleftrightarrow> list_all2 (moved_row org plan_id) t t'"

lemma moved_to_plan_columns:
  "moved_to_plan org plan_id t t' \<Longrightarrow> map row_id t' = map row_id t \<and> map s_organization_id t' = map s_organization_id t"
  unfolding moved_to_plan_def by (induction rule: list_all2_induct) (auto simp: moved_row_def)

lemma moved_to_plan_member: "moved_to_plan org plan_id t t' \<Longrightarrow> s' \<in> set t' \<Longrightarrow> \<exists>s \<in> set t. moved_row org plan_id s s'"
  unfolding moved_to_plan_def by (induction rule: list_all2_induct) auto

lemma moved_to_plan_map: "(\<And>s. s \<in> set t \<Longrightarrow> moved_row org plan_id s (f s)) \<Longrightarrow> moved_to_plan org plan_id t (map f t)"
  unfolding moved_to_plan_def by (simp add: list.rel_map list.rel_refl_strong)

lemma sync_subscription_plan_ensures:
  assumes "distinct (map row_id (subscriptions db))" and "distinct (map s_organization_id (subscriptions db))"
    and "list_all subscription_ok (subscriptions db)"
  shows "ensures (\<lambda>_ db' _. licenses db' = licenses db \<and>
      moved_to_plan org (row_id p) (subscriptions db) (subscriptions db')) (sync_subscription_plan http_deps env org p) db w"
proof (cases "get_subscription_by_organization_id org db")
  case None
  then have "s_organization_id s \<noteq> org" if "s \<in> set (subscriptions db)" for s
    using that assms(3) by (auto simp: get_subscription_by_organization_id_def first_row_None list_all_iff subscription_ok_def)
  then have "moved_to_plan org (row_id p) (subscriptions db) (map id (subscriptions db))"
    by (intro moved_to_plan_map) (auto simp: moved_row_def)
  with None show ?thesis by (simp add: sync_subscription_plan_def http_deps_def)
next
  case (Some s)
  then have s: "s \<in> set (subscriptions db)" "s_organization_id s = org"
    by (auto simp: get_subscription_by_organization_id_def dest: first_row_Some)
  then have only: "row_id r = row_id s \<longleftrightarrow> s_organization_id r = org" if "r \<in> set (subscriptions db)" for r
    using that assms(1,2) by (metis distinct_map_inj)
  then have same: "r = s" if "r \<in> set (subscriptions db)" "s_organization_id r = org" for r
    using that assms(1) s(1) by (metis distinct_map_inj)
  have "moved_to_plan org (row_id p) (subscriptions db) (map id (subscriptions db))" if "s_plan_id s = row_id p"
    by (rule moved_to_plan_map) (use same that in \<open>auto simp: moved_row_def\<close>)
  moreover have "moved_to_plan org (row_id p) (subscriptions db) (update_row now
      (\<lambda>r. r\<lparr>s_plan_id := row_id p, s_billing_cycle := p_billing_cycle p\<rparr>) s (subscriptions db))" for now
    unfolding update_row_def by (rule moved_to_plan_map) (use only in \<open>auto simp: moved_row_def assign_def subscription_ok_def\<close>)
  ultimately show ?thesis using Some by (simp add: sync_subscription_plan_def http_deps_def)
qed

lemma accounts_ok_moved:
  assumes ok: "accounts_ok db" and l: "l \<in> set (licenses db)"
    and lic: "licenses db' = update_row now (\<lambda>r. r\<lparr>l_plan_id := plan_id, updated_by := actor\<rparr>) l (licenses db)"
    and sub: "moved_to_plan (l_organization_id l) plan_id (subscriptions db) (subscriptions db')"
  shows "accounts_ok db'"
proof -
  have org: "map l_organization_id (licenses db') = map l_organization_id (licenses db)"
    by (auto simp: lic update_row_def assign_def)
  have terms: "(i, o', p) \<in> license_terms (licenses db) \<Longrightarrow>
      (i, o', if o' = l_organization_id l then plan_id else p) \<in> license_terms (licenses db')" for i o' p
  proof -
    assume "(i, o', p) \<in> license_terms (licenses db)"
    then obtain r where r: "r \<in> set (licenses db)" "row_id r = i" "l_organization_id r = o'" "l_plan_id r = p"
      by (auto simp: license_terms_def)
    have "row_id r = row_id l \<longleftrightarrow> o' = l_organization_id l"
      using ok l r by (metis accounts_ok_def distinct_map_inj)
    moreover let ?f = "\<lambda>r. if row_id r = row_id l then assign now (\<lambda>r. r\<lparr>l_plan_id := plan_id, updated_by := actor\<rparr>) (version l) r else r"
    have "?f r \<in> set (licenses db')" using r(1) by (simp add: lic update_row_def)
    then have "(row_id (?f r), l_organization_id (?f r), l_plan_id (?f r)) \<in> license_terms (licenses db')"
      unfolding license_terms_def by (rule imageI)
    ultimately show ?thesis using r by (auto simp: assign_def split: if_splits)
  qed
  have "subscription_ok s' \<and> has_license (licenses db') s'" if "s' \<in> set (subscriptions db')" for s'
    using moved_to_plan_member [OF sub that] ok terms
    by (fastforce simp: accounts_ok_def list_all_iff has_license_def moved_row_def)
  then show ?thesis
    using ok moved_to_plan_columns [OF sub] by (simp add: accounts_ok_def org list_all_iff) (simp add: lic)
qed


lemma ensures_accounts:
  assumes "honours (touches (- {LicenseTable, SubscriptionTable})) m"
    and "\<And>v db' x'. licenses db' = licenses db \<Longrightarrow> subscriptions db' = subscriptions db \<Longrightarrow> Q v db' x'"
  shows "ensures Q m db x"
  using ensures_honours [OF assms(1)] by (rule ensures_mono) (auto intro!: assms(2) dest: touches_tables(4,6))

lemma plan_change_tail:
  assumes ok: "accounts_ok db" and l: "l \<in> set (licenses db)"
    and db1: "licenses db1 = licenses db" "subscriptions db1 = subscriptions db"
    and rest: "\<And>u. honours (touches (- {LicenseTable, SubscriptionTable})) (rest u)"
  shows "ensures (\<lambda>_ db' _. accounts_ok db')
    (andthen (save_row env licenses_update l (\<lambda>r. r\<lparr>l_plan_id := row_id p, updated_by := actor\<rparr>)) (\<lambda>updated.
     andthen (py_now env) (\<lambda>now.
     andthen (create_change_log env i j k ty now actor reason) (\<lambda>_.
     andthen (sync_subscription_plan http_deps env (l_organization_id updated) p) (\<lambda>_.
     rest updated))))) db1 w"
proof -
  have rest': "ensures (\<lambda>_ db' _. accounts_ok db') (rest u) db2 w2" if "accounts_ok db2" for u db2 w2
    by (rule ensures_accounts [OF rest]) (use that in \<open>simp add: accounts_ok_def\<close>)
  have synced: "ensures (\<lambda>_. ensures (\<lambda>_ db' _. accounts_ok db') (rest u))
      (sync_subscription_plan http_deps env (l_organization_id l) p) db2 w2"
    if db2: "licenses db2 = update_row now (\<lambda>r. r\<lparr>l_plan_id := row_id p, updated_by := actor\<rparr>) l (licenses db)"
      "subscriptions db2 = subscriptions db" for now db2 w2 u
  proof (rule ensures_mono [OF sync_subscription_plan_ensures])
    show "distinct (map row_id (subscriptions db2))" "distinct (map s_organization_id (subscriptions db2))"
      "list_all subscription_ok (subscriptions db2)" using ok db2(2) by (simp_all add: accounts_ok_def)
    show "ensures (\<lambda>_ db' _. accounts_ok db') (rest u) db' w'"
      if "licenses db' = licenses db2 \<and> moved_to_plan (l_organization_id l) (row_id p) (subscriptions db2) (subscriptions db')" for db' w'
      by (rule rest', rule accounts_ok_moved [OF ok l]) (use that db2 in auto)
  qed
  have org: "l_organization_id (assign now (\<lambda>r. r\<lparr>l_plan_id := row_id p, updated_by := actor\<rparr>) v l) = l_organization_id l" for now v
    by (simp add: assign_def)
  show ?thesis
    by (simp add: org) (rule ensures_accounts, (auto intro!: footprint; fail), rule synced, simp_all add: db1)
qed

lemma ensures_get_license:
  "(\<And>l. l \<in> set (licenses db) \<Longrightarrow> row_id l = i \<Longrightarrow> ensures P (f l) db w) \<Longrightarrow> ensures P (andthen (get_license i org) f) db w"
  by (auto simp: get_license_def split: option.split dest: get_by_id_Some)

lemma ensures_accounts_then:
  assumes "honours (touches (- {LicenseTable, SubscriptionTable})) m"
    and "\<And>v db' x'. licenses db' = licenses db \<Longrightarrow> subscriptions db' = subscriptions db \<Longrightarrow> ensures P (f v) db' x'"
  shows "ensures P (andthen m f) db x"
  using ensures_accounts [OF assms] by simp

lemma change_plan_ensures:
  "ensures (\<lambda>_ db' _. accounted db db') (change_plan http_deps env actor license_id requesting new_plan_id reason ty) db w"
proof (cases "accounts_ok db")
  case ok: True
  have "ensures (\<lambda>_ db' _. accounts_ok db') (change_plan http_deps env actor license_id requesting new_plan_id reason ty) db w"
    unfolding change_plan_def
    by (rule ensures_get_license)
       (((rule plan_change_tail [OF ok], assumption, (simp; fail), (simp; fail)) |
         (rule ensures_accounts_then, (auto intro!: footprint; fail)))+, auto intro!: footprint)
  then show ?thesis by (rule ensures_mono) (simp add: accounted_def)
qed (simp add: accounted_def)

lemma accounted_sweep:
  assumes "clock_valid env"
  shows "honours accounted (run_renewal_sweep_task env)"
  unfolding run_renewal_sweep_task_def run_renewal_sweep_def phase_def process_due_renewals_def
  by (rule accounted_renewals [OF assms] acc.honours_control | (rule acc.honours_untouched, (auto intro!: footprint; fail)))+

lemma accounted_webhooks:
  assumes "clock_valid env"
  shows "honours accounted (stripe_webhook env delivery)" "honours accounted (razorpay_webhook deps env signature delivery')"
  unfolding stripe_webhook_def razorpay_webhook_def process_stripe_event_def process_razorpay_event_def
    confirm_if_subscription_def fail_if_subscription_def
  by (rule accounted_renewals [OF assms] accounted_services acc.honours_control |
      (rule acc.honours_untouched, (auto intro!: footprint; fail)))+

lemma accounted_change_plan:
  "honours accounted (with_db_session (discard (change_plan http_deps env actor license_id requesting new_plan_id reason ty)))"
  by (rule acc.honours_returning) (auto simp: discard_def intro: ensures_mono [OF change_plan_ensures])

interpretation accounts: history_relation accounted "clock_valid :: 'r billing_env \<Rightarrow> bool"
proof unfold_locales
  fix env :: "'r billing_env" and m
  assume clock: "clock_valid env" and "billing_request env m"
  from this(2) show "honours accounted (with_db_session m)"
    by (cases rule: billing_request.cases)
       (simp_all only: upgrade_license_def downgrade_license_def,
        (rule accounted_change_plan acc.honours_request accounted_license_service accounted_subscription_service
           accounted_create [OF clock] accounted_reactivate [OF clock] accounted_resume [OF clock] accounted_sweep [OF clock]
           accounted_webhooks [OF clock] |
         (rule acc.honours_untouched, (auto intro!: footprint; fail)))+)
qed

text \<open>
  C9. Accounts stay in step. Over every history of billing requests, webhooks and sweeps, with a
  clock that returns calendar dates: each organization has at most one license and one
  subscription; every subscription points to the license of its organization, on the same plan;
  no billing period ends before it starts; a past-due subscription knows since when, and a
  cancelled one is not past due and knows when it was cancelled.
\<close>

theorem accounts_invariant:
  assumes "(billing_step env)\<^sup>*\<^sup>* (db, w) (db', w')" and "accounts_ok db" and "clock_valid env"
  shows "accounts_ok db'"
  using accounts.history [OF assms(3,1)] assms(2) by (simp add: accounted_def)

definition sample_resubscribed :: "billing_db \<times> (string \<Rightarrow> cache_value option) billing_world" where
  "sample_resubscribed =
     snd (with_db_session (discard (cancel_subscription http_deps sample_env None ''S'' None True)) (sample_db, sample_world))"

lemma sample_clock_valid: "clock_valid sample_env"
  by (simp add: clock_valid_def sample_env_def sample_time_def day_of_2026_def valid_datetime_def month_days_def)

theorem accounts_invariant_witness:
  "map s_status (subscriptions (fst sample_resubscribed)) = [SUB_CANCELLED] \<and> accounts_ok (fst sample_resubscribed)"
proof
  show "map s_status (subscriptions (fst sample_resubscribed)) = [SUB_CANCELLED]" by code_simp
  have "accounts_ok sample_db" by code_simp
  moreover have "(billing_step sample_env)\<^sup>*\<^sup>* (sample_db, sample_world) (fst sample_resubscribed, snd sample_resubscribed)"
    by (rule r_into_rtranclp) (auto simp: billing_step_def sample_resubscribed_def intro: billing_request.intros)
  ultimately show "accounts_ok (fst sample_resubscribed)"
    using accounts_invariant sample_clock_valid by blast
qed

end
