(* ===== verification/PaymentRules.thy ===== *)
theory PaymentRules
  imports BillingSample
begin

section \<open>Payments: what is charged and what is refunded\<close>

text \<open>
  Over every history a payment keeps its terms (organization, amount, currency, provider and
  idempotency key), what was refunded of it never shrinks and never exceeds the amount
  (\<open>settled\<close>); a repeated payment request with a known key is answered from the table.
\<close>

definition payment_terms :: "payment \<Rightarrow> uuid \<times> uuid \<times> uuid option \<times> rat \<times> string \<times> string \<times> string \<times> bool" where
  "payment_terms p = (row_id p, pay_organization_id p, pay_subscription_id p, pay_amount p, pay_currency p, pay_provider p,
     pay_idempotency_key p, is_deleted p)"

definition refund_ok :: "payment \<Rightarrow> bool" where
  "refund_ok p \<longleftrightarrow> 0 \<le> pay_refunded_amount p \<and> (pay_refunded_amount p = 0 \<or> pay_refunded_amount p \<le> pay_amount p)"

definition payments_ok :: "payment list \<Rightarrow> bool" where
  "payments_ok t \<longleftrightarrow> distinct (map row_id t) \<and> distinct (map pay_idempotency_key t) \<and> list_all refund_ok t"

definition payments_kept :: "payment list \<Rightarrow> payment list \<Rightarrow> bool" where
  "payments_kept t t' \<longleftrightarrow>
     (\<forall>p \<in> set t. \<exists>p' \<in> set t'. payment_terms p' = payment_terms p \<and> pay_refunded_amount p \<le> pay_refunded_amount p')"

definition settled :: "billing_db \<Rightarrow> billing_db \<Rightarrow> bool" where
  "settled a b \<longleftrightarrow> (payments_ok (payments a) \<longrightarrow> payments_ok (payments b) \<and> payments_kept (payments a) (payments b))"

lemma payments_kept_refl [simp]: "payments_kept t t"
  by (auto simp: payments_kept_def)

lemma payments_kept_trans: "payments_kept t u \<Longrightarrow> payments_kept u v \<Longrightarrow> payments_kept t v"
  unfolding payments_kept_def by (metis order_trans)

interpretation pay: table_relation settled "{PaymentTable}"
  by unfold_locales (auto simp: settled_def intro: payments_kept_trans dest: touches_tables(10))

text \<open>A write of a payment: terms kept, the refunded amount not smaller and within bounds.\<close>

lemma settled_update:
  assumes "\<And>r. payment_terms (data r) = payment_terms r"
    and "\<And>r. payments_ok (payments db) \<Longrightarrow> r \<in> set (payments db) \<Longrightarrow> row_id r = row_id p \<Longrightarrow>
      refund_ok (data r) \<and> pay_refunded_amount r \<le> pay_refunded_amount (data r)"
  shows "settled db (payments_update (update_row now data p) db)"
proof -
  let ?f = "\<lambda>r. if row_id r = row_id p then assign now data (version p) r else r"
  have same: "payment_terms (assign now data v r) = payment_terms r" "refund_ok (assign now data v r) = refund_ok (data r)"
    "pay_refunded_amount (assign now data v r) = pay_refunded_amount (data r)" for v r
    using assms(1) [of r] by (simp_all add: payment_terms_def refund_ok_def assign_def)
  have keys: "pay_idempotency_key r' = pay_idempotency_key r" if "payment_terms r' = payment_terms r" for r r'
    using that by (simp add: payment_terms_def)
  have "map pay_idempotency_key (map ?f t) = map pay_idempotency_key t" for t
    by (auto intro: keys same)
  moreover have "payments_kept (payments db) (map ?f (payments db))" if "payments_ok (payments db)"
    unfolding payments_kept_def
  proof
    fix q assume "q \<in> set (payments db)"
    with assms(2) [OF that] show "\<exists>p' \<in> set (map ?f (payments db)). payment_terms p' = payment_terms q \<and>
        pay_refunded_amount q \<le> pay_refunded_amount p'"
      by (intro bexI [of _ "?f q"]) (auto simp: same)
  qed
  moreover have "list_all refund_ok (map ?f (payments db))" if "payments_ok (payments db)"
    using assms(2) [OF that] that by (auto simp: list_all_iff payments_ok_def same)
  ultimately show ?thesis
    by (simp add: settled_def payments_ok_def update_row_def [symmetric] del: map_map)
qed

lemma settled_save:
  assumes "\<And>r. payment_terms (data r) = payment_terms r" and "\<And>r. pay_refunded_amount (data r) = pay_refunded_amount r"
  shows "honours settled (save_payment env p data)"
  unfolding save_payment_def
proof (rule pay.honours_save, rule settled_update [OF assms(1)])
  fix db :: billing_db and r assume "payments_ok (payments db)" "r \<in> set (payments db)"
  moreover have "pay_amount (data r) = pay_amount r" using assms(1) [of r] by (simp add: payment_terms_def)
  ultimately show "refund_ok (data r) \<and> pay_refunded_amount r \<le> pay_refunded_amount (data r)"
    by (simp add: payments_ok_def list_all_iff refund_ok_def assms(2))
qed

lemma settled_create: "honours settled (create_payment env actor org subscription_id amount currency provider key)"
  unfolding create_payment_def
proof (rule pay.honours_insert)
  fix db :: billing_db and w
  let ?p = "new_row env w actor (payment.fields org subscription_id amount currency PENDING provider None key None 0 None None)"
  assume "create_row (\<lambda>t. distinct (map pay_idempotency_key t)) ?p (payments db) = Inr (payments db @ [?p])"
  moreover have "refund_ok ?p" by (simp add: refund_ok_def new_row_def payment.defs base_model.defs)
  ultimately show "settled db (payments_update (\<lambda>_. payments db @ [?p]) db)"
    by (auto simp: settled_def payments_ok_def payments_kept_def create_row_Inr)
qed

lemma settled_charges:
  "honours settled (token_or_fail env p)" "honours settled (mark_declined env p reason)" "honours settled (mark_succeeded env p pid)"
  "honours settled (stripe_attempt_charge env p key)" "honours settled (razorpay_attempt_charge env p)"
  "honours settled (razorpay_create_checkout_order env p)" "honours settled (fail_not_configured env p)"
  "honours settled (resolve_and_update_payment env pid' succeeded failure_reason)"
  "honours settled (resolve_checkout_payment_by_order_id env oid pid' signature succeeded failure_reason)"
  unfolding token_or_fail_def mark_declined_def mark_succeeded_def stripe_attempt_charge_def razorpay_attempt_charge_def Let_def
    razorpay_create_checkout_order_def fail_not_configured_def resolve_and_update_payment_def
    resolve_checkout_payment_by_order_id_def
  by ((rule pay.honours_case_reply pay.honours_control | (rule settled_save, (simp add: payment_terms_def; fail), (simp; fail)) |
      (rule pay.honours_untouched, (auto intro!: footprint split: billing_exc.splits; fail)) |
      (split billing_exc.split, intro conjI allI impI))+)

lemma settled_refund:
  assumes "p \<in> set (payments db)" and "0 < n" and "n \<le> pay_amount p - pay_refunded_amount p"
  shows "moves settled (save_payment env p (refunded_row p n)) db w"
proof -
  have "settled db (payments_update (update_row now (refunded_row p n) p) db)" for now
  proof (rule settled_update)
    show "payment_terms (refunded_row p n r) = payment_terms r" for r
      by (simp add: refunded_row_def Let_def payment_terms_def)
    fix r assume ok: "payments_ok (payments db)" and r: "r \<in> set (payments db)" "row_id r = row_id p"
    with assms(1) have "r = p" by (metis distinct_map_inj payments_ok_def)
    moreover have "refund_ok p" using ok assms(1) by (simp add: payments_ok_def list_all_iff)
    ultimately show "refund_ok (refunded_row p n r) \<and> pay_refunded_amount r \<le> pay_refunded_amount (refunded_row p n r)"
      using assms(2,3) by (simp add: refunded_row_def Let_def refund_ok_def)
  qed
  then show ?thesis by (simp add: moves_def save_payment_def save_row_def db_now_def prog_simps)
qed

lemma settled_refund_payment: "honours settled (refund_payment env actor payment_id requesting amount)"
proof (rule honoursI)
  fix db and w :: "'a billing_world"
  have audit: "honours settled (andthen (audit_payment actor action u d) (\<lambda>_. ret u))" for action d and u
    by (rule pay.honours_untouched) (auto intro!: footprint)
  have via: "moves settled (andthen (gateway_refund gw p (Some n)) f) db w'"
    if "gw \<in> {StripePaymentGateway env, RazorpayPaymentGateway env}" "p \<in> set (payments db)" "0 < n"
      "n \<le> pay_amount p - pay_refunded_amount p" "\<And>u. honours settled (f u)" for gw p n w' and f :: "payment \<Rightarrow> ('a, payment) bprog"
  proof (rule pay.moves_andthen)
    show "moves settled (gateway_refund gw p (Some n)) db w'"
      using that(1-4) by (auto simp: gateway_refund_def not_configured_def StripePaymentGateway_def RazorpayPaymentGateway_def
        stripe_refund_def razorpay_refund_def refund_amount_of_def pay.step_refl
        split: provider_reply.split intro!: settled_refund)
  qed (rule honoursD [OF that(5)])
  show "moves settled (refund_payment env actor payment_id requesting amount) db w"
    unfolding refund_payment_def Let_def
    by (rule moves_get_payment, rule pay.step_refl)
       (auto simp: andthen_gateway_for pay.step_refl intro!: via audit)
qed


text \<open>Every operation of the payment service, the webhooks and the sweep.\<close>

lemma settled_gateway:
  assumes "gw \<in> {StripePaymentGateway env, RazorpayPaymentGateway env}"
  shows "honours settled (charge_via_provider env gw p)" "honours settled (gateway_retry gw p)"
    "honours settled (gateway_charge env gw org amount currency subscription_id)"
proof -
  show charge: "honours settled (charge_via_provider env gw p)" for p
    using assms by (auto simp: charge_via_provider_def StripePaymentGateway_def RazorpayPaymentGateway_def intro: settled_charges)
  show "honours settled (gateway_retry gw p)"
    using assms by (auto simp: gateway_retry_def not_configured_def StripePaymentGateway_def RazorpayPaymentGateway_def
      stripe_retry_def intro!: settled_charges pay.honours_andthen pay.honours_raise
      intro: pay.honours_untouched [OF derive_retry_idempotency_key_touches])
  show "honours settled (gateway_charge env gw org amount currency subscription_id)"
    unfolding gateway_charge_def
    by (rule settled_create charge pay.honours_control | (rule pay.honours_untouched, (auto intro!: footprint; fail)))+
qed

lemma settled_payment_service:
  "honours settled (create_payment_or_winner env actor org subscription_id amount currency provider key)"
  "honours settled (initiate_payment env actor org subscription_id amount currency provider key)"
  "honours settled (create_checkout_order env actor org key)"
  "honours settled (retry_failed_payment env actor payment_id requesting)"
  unfolding create_payment_or_winner_def initiate_payment_def create_checkout_order_def retry_failed_payment_def
    andthen_gateway_for gateway_create_checkout_order_def
  by (rule settled_create settled_charges settled_gateway pay.honours_control |
      (rule insertI1 insertI2 singletonI) | (rule pay.honours_untouched, (auto intro!: footprint; fail)))+

lemma settled_webhooks_and_sweep:
  "honours settled (stripe_webhook env delivery)" "honours settled (razorpay_webhook deps env signature delivery')"
  "honours settled (run_renewal_sweep_task env)"
  unfolding stripe_webhook_def razorpay_webhook_def process_stripe_event_def process_razorpay_event_def
    run_renewal_sweep_task_def run_renewal_sweep_def phase_def process_due_renewals_def process_renewal_def Let_def
    build_payment_gateway_def
  by (rule settled_charges pay.honours_control | (rule settled_gateway, (simp; fail)) |
      (rule pay.honours_untouched, (auto intro!: footprint split: billing_exc.splits; fail)))+

interpretation settlement: history_relation settled "\<lambda>_ :: 'r billing_env. True"
proof unfold_locales
  fix env :: "'r billing_env" and m
  assume "billing_request env m"
  then show "honours settled (with_db_session m)"
    by (cases rule: billing_request.cases)
       (simp_all only:, (rule pay.honours_request settled_refund_payment settled_payment_service settled_webhooks_and_sweep |
          (rule pay.honours_untouched, (auto intro!: footprint; fail)))+)
qed

text \<open>
  C7. Refunds stay within the payment. Over every history of billing requests, webhooks and
  sweeps a payment keeps its organization, amount, currency, provider and key, what was
  refunded of it never decreases, and the sum of its refunds is never more than its amount.
\<close>

theorem refunds_within_payment:
  assumes "(billing_step env)\<^sup>*\<^sup>* (db, w) (db', w')" and "payments_ok (payments db)" and "p \<in> set (payments db)"
  shows "payments_ok (payments db') \<and>
    (\<exists>p' \<in> set (payments db'). payment_terms p' = payment_terms p \<and> pay_refunded_amount p \<le> pay_refunded_amount p' \<and>
       (pay_refunded_amount p' = 0 \<or> pay_refunded_amount p' \<le> pay_amount p'))"
proof -
  have "payments_ok (payments db')" "payments_kept (payments db) (payments db')"
    using settlement.history [OF TrueI assms(1)] assms(2) by (simp_all add: settled_def)
  moreover obtain p' where "p' \<in> set (payments db')" "payment_terms p' = payment_terms p"
    "pay_refunded_amount p \<le> pay_refunded_amount p'"
    using calculation(2) assms(3) by (auto simp: payments_kept_def)
  ultimately show ?thesis unfolding payments_ok_def list_all_iff refund_ok_def by blast
qed


definition sample_payment :: payment where
  "sample_payment = base_model.extend (sample_base ''Y'')
     (payment.fields ''O'' None 100 ''USD'' SUCCEEDED ''stripe'' (Some ''pi'') ''k1'' None 30 None None)"

definition sample_refunded :: "billing_db \<times> (string \<Rightarrow> cache_value option) billing_world" where
  "sample_refunded =
     snd (with_db_session (discard (refund_payment sample_env None ''Y'' None (Some 70))) (sample_db\<lparr>payments := [sample_payment]\<rparr>, sample_world))"

theorem refunds_within_payment_witness:
  "map pay_status (payments (fst sample_refunded)) = [REFUNDED] \<and>
   (\<exists>p' \<in> set (payments (fst sample_refunded)). payment_terms p' = payment_terms sample_payment \<and> 30 \<le> pay_refunded_amount p' \<and>
      pay_refunded_amount p' \<le> 100)"
proof
  show "map pay_status (payments (fst sample_refunded)) = [REFUNDED]" by code_simp
  have "(billing_step sample_env)\<^sup>*\<^sup>* (sample_db\<lparr>payments := [sample_payment]\<rparr>, sample_world) (fst sample_refunded, snd sample_refunded)"
    by (rule r_into_rtranclp) (auto simp: billing_step_def sample_refunded_def intro: billing_request.intros)
  from refunds_within_payment [OF this, of sample_payment] show
    "\<exists>p' \<in> set (payments (fst sample_refunded)). payment_terms p' = payment_terms sample_payment \<and> 30 \<le> pay_refunded_amount p' \<and>
      pay_refunded_amount p' \<le> 100"
    by (force simp: payments_ok_def refund_ok_def payment_terms_def sample_payment_def sample_base_def new_base_def payment.defs base_model.defs)
qed


subsection \<open>Repeated requests\<close>

lemma ensures_kept:
  assumes "honours settled m" and "payments_ok (payments db)"
    and "\<And>v db' x'. payments_ok (payments db') \<Longrightarrow> payments_kept (payments db) (payments db') \<Longrightarrow> Q v db' x'"
  shows "ensures Q m db x"
  using ensures_honours [OF assms(1)] by (rule ensures_mono) (use assms(2,3) in \<open>auto simp: settled_def\<close>)

definition recorded :: "string \<Rightarrow> uuid \<Rightarrow> billing_db \<Rightarrow> bool" where
  "recorded key i db \<longleftrightarrow>
     (\<exists>p \<in> set (payments db). row_id p = i \<and> pay_idempotency_key p = key \<and> \<not> is_deleted p)"

lemma recorded_kept: "recorded key i a \<Longrightarrow> payments_kept (payments a) (payments b) \<Longrightarrow> recorded key i b"
  unfolding recorded_def payments_kept_def payment_terms_def by (metis prod.inject)

lemma attempt_same_row:
  "ensures (\<lambda>q _ _. row_id q = row_id p) (stripe_attempt_charge env p key) db w"
  "ensures (\<lambda>q _ _. row_id q = row_id p) (razorpay_attempt_charge env p) db w"
  by (auto simp: ensures_def stripe_attempt_charge_def razorpay_attempt_charge_def Let_def andthen_Inr mark_declined_def
        mark_succeeded_def save_payment_def split: provider_reply.splits option.splits if_splits)

lemma charge_same_row:
  assumes "gw \<in> {StripePaymentGateway env, RazorpayPaymentGateway env}"
  shows "ensures (\<lambda>q _ _. row_id q = row_id p) (charge_via_provider env gw p) db w"
  using assms
  by (auto simp: charge_via_provider_def StripePaymentGateway_def RazorpayPaymentGateway_def fail_not_configured_def
    not_configured_def intro!: attempt_same_row)

lemma recorded_found: "get_payment_by_idempotency_key key db = Some p \<Longrightarrow> recorded key (row_id p) db"
  by (auto simp: recorded_def get_payment_by_idempotency_key_def dest: first_row_Some)

lemma create_payment_or_winner_recorded:
  assumes "payments_ok (payments db)"
  shows "ensures (\<lambda>(p, created) db' _. recorded key (row_id p) db' \<and> payments_ok (payments db'))
    (create_payment_or_winner env actor org subscription_id amount currency provider key) db w"
proof -
  have "ensures (\<lambda>_ db' _. payments_ok (payments db'))
      (create_payment_or_winner env actor org subscription_id amount currency provider key) db w"
    by (rule ensures_kept [OF settled_payment_service(1) assms])
  moreover have "ensures (\<lambda>(p, created) db' _. recorded key (row_id p) db')
      (create_payment_or_winner env actor org subscription_id amount currency provider key) db w"
  proof (rule ensuresI)
    fix v db' w'
    assume "create_payment_or_winner env actor org subscription_id amount currency provider key (db, w) = (Inr v, (db', w'))"
    then consider
      p where "create_payment env actor org subscription_id amount currency provider key (db, w) = (Inr p, (db', w'))" "v = (p, True)"
      | p where "get_payment_by_idempotency_key key db' = Some p" "v = (p, False)"
      by (auto simp: create_payment_or_winner_def catching_Inr andthen_Inr andthen_Inl split: if_splits option.splits)
    then show "(case v of (p, created) \<Rightarrow> \<lambda>db' _. recorded key (row_id p) db') db' w'"
    proof cases
      case 1
      then show ?thesis
        by (auto simp: create_payment_def insert_row_Inr recorded_def payment.defs base_model.defs new_base_def)
    qed (simp add: recorded_found)
  qed
  ultimately show ?thesis by (auto simp: ensures_def)
qed

lemma initiate_payment_recorded:
  assumes "payments_ok (payments db)"
  shows "ensures (\<lambda>q db' _. recorded key (row_id q) db' \<and> payments_ok (payments db'))
    (initiate_payment env actor org subscription_id amount currency provider key) db w"
proof (cases "get_payment_by_idempotency_key key db")
  case (Some p)
  with assms recorded_found show ?thesis by (simp add: initiate_payment_def)
next
  case None
  let ?Q = "\<lambda>i db' _. recorded key i db' \<and> payments_ok (payments db')"
  have charged: "ensures (\<lambda>q db' w'. row_id q = row_id p \<and> ?Q (row_id p) db' w') (charge_via_provider env gw p) db1 w1"
    if "gw \<in> {StripePaymentGateway env, RazorpayPaymentGateway env}" "recorded key (row_id p) db1" "payments_ok (payments db1)" for gw p db1 w1
    using that by (intro ensures_conj charge_same_row ensures_kept [OF settled_gateway(1)]) (auto intro: recorded_kept)
  show ?thesis
    using None
    by (simp add: initiate_payment_def andthen_gateway_for case_prod_unfold audit_payment_def write_audit_def)
       (auto intro!: ensures_mono [OF create_payment_or_winner_recorded [OF assms]] ensures_mono [OF charged] simp: recorded_def)
qed

lemma initiate_payment_known:
  assumes "recorded key i db" and "payments_ok (payments db)"
  shows "\<exists>p. initiate_payment env actor org subscription_id amount currency provider key (db, w) = (Inr p, (db, w)) \<and>
    row_id p = i \<and> p \<in> set (payments db)"
proof -
  obtain p where p: "p \<in> set (payments db)" "row_id p = i" "pay_idempotency_key p = key" "\<not> is_deleted p"
    using assms(1) by (auto simp: recorded_def)
  obtain q where q: "get_payment_by_idempotency_key key db = Some q"
    using p by (cases "get_payment_by_idempotency_key key db") (auto simp: get_payment_by_idempotency_key_def first_row_None)
  then have "q \<in> set (payments db)" "pay_idempotency_key q = key"
    by (auto simp: get_payment_by_idempotency_key_def dest: first_row_Some)
  with p assms(2) have "q = p" by (metis distinct_map_inj payments_ok_def)
  with p q show ?thesis by (auto simp: initiate_payment_def prog_simps)
qed


text \<open>
  C27. Payment requests are idempotent. When a payment request has returned, a request with the
  same idempotency key, after any further history of billing requests, webhooks and sweeps,
  returns the same payment, writes nothing and calls no provider, whatever its other arguments
  are (also when they name another organization or amount).
\<close>

theorem payment_request_idempotent:
  assumes "initiate_payment env actor org subscription_id amount currency provider key (db, w) = (Inr p, (db', w'))"
    and "(billing_step env)\<^sup>*\<^sup>* (db', w') (db'', w'')" and "payments_ok (payments db)"
  shows "\<exists>q. initiate_payment env actor' org' subscription_id' amount' currency' provider' key (db'', w'') = (Inr q, (db'', w'')) \<and>
    row_id q = row_id p"
proof -
  have "recorded key (row_id p) db'" "payments_ok (payments db')"
    using ensuresD [OF initiate_payment_recorded [OF assms(3)] assms(1)] by simp_all
  moreover have "settled db' db''" using settlement.history [OF TrueI assms(2)] by simp
  ultimately have "recorded key (row_id p) db''" "payments_ok (payments db'')"
    by (auto simp: settled_def intro: recorded_kept)
  with initiate_payment_known show ?thesis by blast
qed

definition sample_paid :: "(billing_exc + payment) \<times> billing_db \<times> (string \<Rightarrow> cache_value option) billing_world" where
  "sample_paid = initiate_payment sample_env None ''O'' None 50 ''USD'' ''stripe'' ''k2'' (sample_db, sample_world)"

theorem payment_request_idempotent_witness:
  "\<exists>p q db w. sample_paid = (Inr p, (db, w)) \<and> pay_status p = SUCCEEDED \<and>
     initiate_payment sample_env None ''O'' None 50 ''USD'' ''stripe'' ''k2'' (db, w) = (Inr q, (db, w)) \<and> row_id q = row_id p"
proof -
  have "(case fst sample_paid of Inl e \<Rightarrow> False | Inr p \<Rightarrow> pay_status p = SUCCEEDED)" by code_simp
  moreover obtain r db w where s: "sample_paid = (r, (db, w))" by (metis prod.exhaust)
  ultimately have "case r of Inl e \<Rightarrow> False | Inr p \<Rightarrow> pay_status p = SUCCEEDED" by (metis fst_conv)
  then obtain p where "sample_paid = (Inr p, (db, w))" "pay_status p = SUCCEEDED" using s by (cases r) simp_all
  moreover have "payments_ok (payments sample_db)" by (simp add: payments_ok_def sample_db_def empty_billing_def)
  ultimately show ?thesis
    using payment_request_idempotent [OF _ rtranclp.rtrancl_refl, of sample_env None "''O''" None 50 "''USD''" "''stripe''" "''k2''"
      sample_db sample_world p db w None "''O''" None 50 "''USD''" "''stripe''"]
    unfolding sample_paid_def by blast
qed

end
