(* ===== verification/InvoiceRules.thy ===== *)
theory InvoiceRules
  imports BillingSample
begin

section \<open>Invoices: amounts, statuses and the one coupon discount\<close>

text \<open>
  Over every history an invoice keeps its number, its parties and its amounts, and moves along
  \<open>INVOICE_TRANSITIONS\<close> only, a graph without cycles; the coupon of a subscription is granted on at
  most one of its live invoices.
\<close>

fun invoice_rank :: "InvoiceStatus \<Rightarrow> nat" where
  "invoice_rank INVOICE_DRAFT = 0"
| "invoice_rank INVOICE_ISSUED = 1"
| "invoice_rank INVOICE_OVERDUE = 2"
| "invoice_rank INVOICE_PAID = 3"
| "invoice_rank INVOICE_CANCELLED = 3"
| "invoice_rank INVOICE_VOID = 3"

text \<open>Everything but the status, the payment that settled it and the audit columns.\<close>

definition invoice_terms :: "invoice \<Rightarrow> (uuid \<times> string \<times> uuid \<times> uuid option \<times> bool) \<times> (rat \<times> rat \<times> rat \<times> rat \<times> rat) \<times>
    (rat \<times> rat \<times> rat \<times> string) \<times> py_datetime \<times> py_datetime \<times> billing_details" where
  "invoice_terms i =
     ((row_id i, i_invoice_number i, i_organization_id i, i_subscription_id i, is_deleted i),
      (i_subtotal i, i_discount_amount i, i_cgst_amount i, i_sgst_amount i, i_igst_amount i),
      (i_tax_amount i, i_tax_rate_percentage i, i_total_amount i, i_currency i), i_issue_date i, i_due_date i, i_billing_snapshot i)"

interpretation ig: status_graph invoice_terms i_status INVOICE_TRANSITIONS invoice_rank
proof
  show "t \<in> set (INVOICE_TRANSITIONS s) \<Longrightarrow> invoice_rank s < invoice_rank t" for s t by (cases s) auto
qed

text \<open>The invoices on which a subscription's coupon counts as granted (\<open>has_discounted_invoice\<close>).\<close>

definition grants_discount :: "uuid \<Rightarrow> invoice \<Rightarrow> bool" where
  "grants_discount subscription_id i \<longleftrightarrow>
     i_subscription_id i = Some subscription_id \<and> i_status i \<notin> {INVOICE_VOID, INVOICE_CANCELLED} \<and>
     0 < i_discount_amount i \<and> \<not> is_deleted i"

definition invoice_ok :: "invoice \<Rightarrow> bool" where
  "invoice_ok i \<longleftrightarrow>
     i_total_amount i = quantize_cents (compute_taxable_value (i_subtotal i) (i_discount_amount i) + i_tax_amount i) \<or>
     i_discount_amount i = 0 \<and> i_total_amount i = quantize_cents (i_subtotal i + i_tax_amount i)"

definition invoices_ok :: "invoice list \<Rightarrow> bool" where
  "invoices_ok t \<longleftrightarrow>
     distinct (map row_id t) \<and> distinct (map i_invoice_number t) \<and> list_all invoice_ok t \<and>
     (\<forall>sid. length (filter (grants_discount sid) t) \<le> 1)"

definition invoiced :: "billing_db \<Rightarrow> billing_db \<Rightarrow> bool" where
  "invoiced a b \<longleftrightarrow> (invoices_ok (invoices a) \<longrightarrow> invoices_ok (invoices b) \<and> ig.tracks (invoices a) (invoices b))"

interpretation ivc: table_relation invoiced "{InvoiceTable}"
  by unfold_locales (auto simp: invoiced_def intro: ig.tracks_trans dest: touches_tables(15))

lemma length_filter_map_le:
  "(\<And>x. x \<in> set xs \<Longrightarrow> P (f x) \<Longrightarrow> Q x) \<Longrightarrow> length (filter P (map f xs)) \<le> length (filter Q xs)"
  by (induction xs) (auto simp: le_SucI)

text \<open>A status change of a stored invoice along an edge.\<close>

lemma invoiced_update:
  assumes i: "i \<in> set (invoices db)" and edge: "\<And>r. i_status (data r) \<in> set (INVOICE_TRANSITIONS (i_status i))"
    and data: "\<And>r. invoice_terms (data r) = invoice_terms r"
  shows "invoiced db (invoices_update (update_row now data i) db)"
proof -
  let ?f = "\<lambda>r. if row_id r = row_id i then assign now data (version i) r else r"
  have same: "invoice_terms (assign now data v r) = invoice_terms r" "i_status (assign now data v r) = i_status (data r)" for v r
    using data [of r] by (simp_all add: invoice_terms_def assign_def)
  have ok: "invoice_ok r' = invoice_ok r" if "invoice_terms r' = invoice_terms r" for r r'
    using that by (simp add: invoice_terms_def invoice_ok_def)
  have "ig.tracks (invoices db) (map ?f (invoices db))" if "distinct (map row_id (invoices db))"
    by (rule ig.tracks_map) (use that i edge in \<open>auto simp: same dest: distinct_map_inj\<close>)
  moreover have "map i_invoice_number (map ?f t) = map i_invoice_number t" for t
    using same(1) by (auto simp: invoice_terms_def)
  moreover have "list_all invoice_ok (map ?f t) = list_all invoice_ok t" for t
    by (induction t) (auto simp: ok [OF same(1)])
  moreover have "length (filter (grants_discount sid) (map ?f (invoices db))) \<le> length (filter (grants_discount sid) (invoices db))"
    if "distinct (map row_id (invoices db))" for sid
  proof (rule length_filter_map_le)
    fix r assume r: "r \<in> set (invoices db)" and g: "grants_discount sid (?f r)"
    show "grants_discount sid r"
    proof (cases "row_id r = row_id i")
      case True
      with that r i have "r = i" by (blast dest: distinct_map_inj)
      with g edge [of i] same show ?thesis
        by (cases "i_status i") (auto simp: grants_discount_def invoice_terms_def)
    qed (use g in simp)
  qed
  ultimately show ?thesis
    unfolding invoiced_def invoices_ok_def
    by (auto simp: update_row_def [symmetric] simp del: map_map) (meson le_trans)
qed


lemma honours_audit_invoice: "honours invoiced (andthen (audit_invoice actor action i d) (\<lambda>_. ret v))"
  by (rule ivc.honours_untouched) (auto intro!: footprint)

lemma invoiced_paid: "honours invoiced (mark_invoice_paid env invoice_id payment_id)"
  and invoiced_void: "honours invoiced (void_invoice env actor invoice_id requesting)"
  unfolding mark_invoice_paid_def void_invoice_def
  by (rule honoursI, rule moves_get_invoice, rule ivc.step_refl,
      auto simp: ivc.step_refl andthen_if andthen_ret andthen_raise invoice_terms_def intro!: ivc.moves_save invoiced_update honours_audit_invoice)+

lemma discounted_iff: "has_discounted_invoice sid db \<longleftrightarrow> (\<exists>i \<in> set (invoices db). grants_discount sid i)"
  by (auto simp: has_discounted_invoice_def exists_row_def base_select_def grants_discount_def filter_empty_conv)

lemma invoiced_create:
  assumes net: "invoice_total = quantize_cents (compute_taxable_value subtotal discount + tax_amount b) \<or>
      discount = 0 \<and> invoice_total = quantize_cents (subtotal + tax_amount b)"
    and once: "\<And>sid i. 0 < discount \<Longrightarrow> subscription_id = Some sid \<Longrightarrow> i \<in> set (invoices db) \<Longrightarrow> \<not> grants_discount sid i"
    and rest: "\<And>v. honours invoiced (f v)"
  shows "moves invoiced (andthen (create_invoice env org subscription_id number status issued_on due subtotal discount b rate invoice_total
    currency snapshot) f) db w"
proof (rule ivc.moves_andthen)
  show "moves invoiced (create_invoice env org subscription_id number status issued_on due subtotal discount b rate invoice_total
      currency snapshot) db w"
    unfolding create_invoice_def
  proof (rule ivc.moves_insert)
    let ?i = "new_row env w None (invoice.fields org subscription_id None number status issued_on due subtotal discount (cgst_amount b)
      (sgst_amount b) (igst_amount b) (tax_amount b) rate invoice_total currency snapshot)"
    have ok: "invoice_ok ?i" using net by (simp add: invoice_ok_def new_row_def invoice.defs base_model.defs)
    have count: "length (filter (grants_discount sid) (invoices db @ [?i])) \<le> max 1 (length (filter (grants_discount sid) (invoices db)))" for sid
    proof (cases "grants_discount sid ?i")
      case True
      then have "0 < discount" "subscription_id = Some sid"
        by (simp_all add: grants_discount_def new_row_def invoice.defs base_model.defs)
      with once have "\<forall>i \<in> set (invoices db). \<not> grants_discount sid i" by blast
      then have "filter (grants_discount sid) (invoices db) = []" by (simp add: filter_empty_conv)
      then show ?thesis by (simp only: filter_append) simp
    qed simp
    have once': "\<forall>sid. length (filter (grants_discount sid) (invoices db @ [?i])) \<le> 1"
      if "\<forall>sid. length (filter (grants_discount sid) (invoices db)) \<le> 1"
      using count that by (metis max.absorb1)
    show "invoiced db (invoices_update (\<lambda>_. invoices db @ [?i]) db)"
      if "create_row (\<lambda>t. distinct (map i_invoice_number t)) ?i (invoices db) = Inr (invoices db @ [?i])"
      unfolding invoiced_def
    proof
      assume "invoices_ok (invoices db)"
      then have "invoices_ok (invoices db @ [?i])"
        unfolding invoices_ok_def using that once' ok by (simp add: create_row_Inr del: filter_append)
      then show "invoices_ok (invoices (invoices_update (\<lambda>_. invoices db @ [?i]) db)) \<and>
          ig.tracks (invoices db) (invoices (invoices_update (\<lambda>_. invoices db @ [?i]) db))" by simp
    qed
  qed
qed (rule honoursD [OF rest])


lemma ensures_invoices:
  assumes "honours (touches (- {InvoiceTable})) m" and "\<And>v db' x'. invoices db' = invoices db \<Longrightarrow> Q v db' x'"
  shows "ensures Q m db x"
  using ensures_honours [OF assms(1)] by (rule ensures_mono) (auto intro!: assms(2) dest: touches_tables(15))

lemma moves_invoices_then:
  assumes "honours (touches (- {InvoiceTable})) m" and "\<And>v db' x'. invoices db' = invoices db \<Longrightarrow> moves invoiced (f v) db' x'"
  shows "moves invoiced (andthen m f) db x"
  by (rule ivc.moves_ensures [OF ivc.honours_untouched ensures_invoices]) (use assms in auto)

lemma discount_granted_once:
  "0 < resolve_coupon_discount s db \<Longrightarrow> i \<in> set (invoices db) \<Longrightarrow> \<not> grants_discount (row_id s) i"
  by (auto simp: resolve_coupon_discount_def discounted_iff split: if_splits)

lemma invoiced_generate: "honours invoiced (generate_invoice_for_subscription env subscription_id)"
proof (rule honoursI)
  fix db and w :: "'a billing_world"
  have rest: "honours invoiced (andthen (create_invoice_item env i d q u a) (\<lambda>_. andthen (audit_invoice actor action v t) (\<lambda>_. ret v)))"
    for i d q u a actor action v t
    by (rule ivc.honours_untouched) (auto intro!: footprint)
  show "moves invoiced (generate_invoice_for_subscription env subscription_id) db w"
    unfolding generate_invoice_for_subscription_def Let_def
    by (simp add: ivc.step_refl split: option.split)
       (intro allI impI, (simp | (rule moves_invoices_then, (auto intro!: footprint; fail)))+,
        rule invoiced_create, auto simp: discount_granted_once intro!: rest)
qed


lemma invoiced_lines:
  "honours invoiced (issue_invoice_from_lines env org profile ls status actor audit_description)"
proof (rule honoursI)
  fix db and w :: "'a billing_world"
  have rest: "honours invoiced (andthen (for_each (\<lambda>(description, quantity, unit_price) _.
        andthen (create_invoice_item env (row_id i) description quantity unit_price (quantize_cents (quantity * unit_price))) (\<lambda>_. ret ())) ls ())
      (\<lambda>_. andthen (audit_invoice actor action i (audit_description i)) (\<lambda>_. ret i)))" for i action
    by (rule ivc.honours_untouched) (auto intro!: footprint split: prod.splits)
  show "moves invoiced (issue_invoice_from_lines env org profile ls status actor audit_description) db w"
    unfolding issue_invoice_from_lines_def Let_def
    by ((simp split del: if_split | (rule moves_invoices_then, (auto intro!: footprint; fail)))+, rule invoiced_create,
        auto intro!: rest)
qed

text \<open>The overdue sweep writes the rows it listed at its start; until its turn comes, a row is
  still as it was listed.\<close>

lemma save_never_raises:
  "catching (andthen (save_row env upd inst data) (\<lambda>u. ret (Some u))) h = andthen (save_row env upd inst data) (\<lambda>u. ret (Some u))"
proof
  fix s show "catching (andthen (save_row env upd inst data) (\<lambda>u. ret (Some u))) h s = andthen (save_row env upd inst data) (\<lambda>u. ret (Some u)) s"
    by (cases s) (simp add: catching_def save_row_def db_now_def prog_simps)
qed

lemma invoiced_overdue_loop:
  assumes "\<forall>i \<in> set is. i \<in> set (invoices db) \<and> i_status i = INVOICE_ISSUED" and "distinct (map row_id is)"
  shows "moves invoiced (for_each (\<lambda>i ids.
       andthen (save_row env invoices_update i (\<lambda>r. r\<lparr>i_status := INVOICE_OVERDUE\<rparr>)) (\<lambda>updated.
       andthen (audit_invoice None action updated (d updated)) (\<lambda>_. ret (ids @ [row_id updated])))) is ids) db w"
  using assms
proof (induction "is" arbitrary: db w ids)
  case (Cons i "is")
  let ?db' = "invoices_update (update_row (instant (time_at env (w_clock w))) (\<lambda>r. r\<lparr>i_status := INVOICE_OVERDUE\<rparr>) i) db"
  have step: "invoiced db ?db'" using Cons.prems by (intro invoiced_update) (auto simp: invoice_terms_def)
  have "j \<in> set (invoices ?db') \<and> i_status j = INVOICE_ISSUED" if j: "j \<in> set is" for j
  proof -
    have "row_id j \<noteq> row_id i" using j Cons.prems(2) by (force simp: image_iff)
    with j Cons.prems(1) show ?thesis by (auto simp: set_update_row intro!: image_eqI [of _ _ j])
  qed
  then have later: "\<forall>j \<in> set is. j \<in> set (invoices (audit_log_update f ?db')) \<and> i_status j = INVOICE_ISSUED" for f by simp
  have audit: "invoiced ?db' (audit_log_update f ?db')" for f by (simp add: invoiced_def)
  show ?case
    unfolding for_each.simps andthen_assoc audit_invoice_def write_audit_def andthen_ret
    by (rule ivc.moves_save_then, rule step, rule ivc.moves_modifies, rule audit,
        rule Cons.IH [unfolded audit_invoice_def write_audit_def]) (use later Cons.prems(2) in auto)
qed (simp add: ivc.step_refl)

lemma invoiced_overdue: "honours invoiced (mark_overdue_invoices env)"
proof (rule honoursI)
  fix db and w :: "'a billing_world"
  show "moves invoiced (mark_overdue_invoices env) db w"
  proof (cases "invoices_ok (invoices db)")
    case True
    then have "distinct (map row_id (list_issued_past_due now db))" for now
      by (simp add: list_issued_past_due_def invoices_ok_def distinct_map_filter)
    then show ?thesis
      unfolding mark_overdue_invoices_def save_never_raises andthen_assoc andthen_ret option.case
      by simp (rule invoiced_overdue_loop, auto simp: list_issued_past_due_def)
  qed (simp add: moves_def invoiced_def)
qed

lemma invoiced_service:
  "honours invoiced (mark_invoice_paid_for_payment env p)"
  "honours invoiced (settle_invoice env q)"
  "honours invoiced (create_manual_invoice env org ls)"
  "honours invoiced (generate_invoice_for_credit_topup env org amount_paid_minor_inr credits_minor reference actor)"
  "honours invoiced (run_invoice_overdue_sweep env)"
  unfolding mark_invoice_paid_for_payment_def settle_invoice_def create_manual_invoice_def
    generate_invoice_for_credit_topup_def run_invoice_overdue_sweep_def Let_def
  by (rule invoiced_paid invoiced_lines invoiced_overdue ivc.honours_control |
      (rule ivc.honours_untouched, (auto intro!: footprint; fail)))+

lemma invoiced_webhooks:
  "honours invoiced (stripe_webhook env delivery)" "honours invoiced (razorpay_webhook deps env signature delivery')"
  unfolding stripe_webhook_def razorpay_webhook_def process_stripe_event_def process_razorpay_event_def
  by (rule invoiced_service ivc.honours_control | (rule ivc.honours_untouched, (auto intro!: footprint; fail)))+

interpretation invoicing: history_relation invoiced "\<lambda>_ :: 'r billing_env. True"
proof unfold_locales
  fix env :: "'r billing_env" and m
  assume "billing_request env m"
  then show "honours invoiced (with_db_session m)"
    by (cases rule: billing_request.cases)
       (simp_all only:, (rule ivc.honours_request invoiced_generate invoiced_void invoiced_service invoiced_webhooks |
          (rule ivc.honours_untouched, (auto intro!: footprint; fail)))+)
qed



definition sample_invoice :: invoice where
  "sample_invoice = base_model.extend (sample_base ''I'')
     (invoice.fields ''O'' (Some ''S'') None ''INV-2026-00001'' INVOICE_ISSUED (day_of_2026 2 1) (day_of_2026 2 16) 100 10 0 0 0 0 0 90 ''USD''
        \<lparr>bd_billing_name = ''Hotel'', bd_address_line1 = ''Main'', bd_address_line2 = None, bd_city = ''Pune'', bd_state = ''MH'',
          bd_country = ''IN'', bd_postal_code = ''411001'', bd_gst_identifier = None, bd_tax_exempt = True\<rparr>)"

definition sample_voided :: "billing_db \<times> (string \<Rightarrow> cache_value option) billing_world" where
  "sample_voided =
     snd (with_db_session (discard (void_invoice sample_env None ''I'' None)) (sample_db\<lparr>invoices := [sample_invoice]\<rparr>, sample_world))"


end
