(* ===== verification/CouponRules.thy ===== *)
theory CouponRules
  imports BillingSample
begin

section \<open>Coupons: every use is counted\<close>

text \<open>
  Over every history the use counter of a coupon is the number of its redemptions, and a
  redemption is granted only to a coupon that is active, valid at that moment, not used up
  and meant for the organization and the plan.
\<close>

definition uses_of :: "uuid \<Rightarrow> coupon_usage list \<Rightarrow> nat" where
  "uses_of i us = length (filter (\<lambda>u. cu_coupon_id u = i) us)"

definition uses_ok :: "coupon list \<Rightarrow> coupon_usage list \<Rightarrow> bool" where
  "uses_ok cs us \<longleftrightarrow>
     distinct (map row_id cs) \<and> (\<forall>c \<in> set cs. c_current_uses c = int (uses_of (row_id c) us)) \<and>
     (\<forall>u \<in> set us. cu_coupon_id u \<in> row_id ` set cs)"

definition counted :: "billing_db \<Rightarrow> billing_db \<Rightarrow> bool" where
  "counted a b \<longleftrightarrow> (uses_ok (coupons a) (coupon_usages a) \<longrightarrow> uses_ok (coupons b) (coupon_usages b))"

interpretation cpn: table_relation counted "{CouponTable, CouponUsageTable}"
proof unfold_locales
  fix a b assume "touches (- {CouponTable, CouponUsageTable}) a b"
  then have "coupons b = coupons a" "coupon_usages b = coupon_usages a" by (auto dest: touches_tables(7,9))
  then show "counted a b" by (simp add: counted_def)
qed (auto simp: counted_def)

lemma uses_ok_map:
  assumes "\<And>c. row_id (f c) = row_id c" and "\<And>c. c_current_uses (f c) = c_current_uses c"
  shows "uses_ok (map f cs) us = uses_ok cs us"
  by (simp add: uses_ok_def assms comp_def image_image)

lemma counted_save:
  assumes "\<And>r. c_current_uses (data r) = c_current_uses r"
  shows "honours counted (save_row env coupons_update c data)"
  by (rule cpn.honours_save) (simp add: counted_def update_row_def uses_ok_map assign_def assms)

lemma counted_hide: "honours counted (hide_row env coupons_update c)"
  by (auto simp: honours_def moves_def hide_row_def db_now_def prog_simps counted_def soft_delete_def mark_deleted_def uses_ok_map)

lemma uses_of_none: "\<forall>u \<in> set us. cu_coupon_id u \<in> A \<Longrightarrow> i \<notin> A \<Longrightarrow> uses_of i us = 0"
  by (auto simp: uses_of_def filter_empty_conv)

lemma counted_create: "honours counted (insert_row env actor coupons coupons_update uniq
    (coupon.fields code ty v currency org max_uses 0 valid_from valid_until active))"
proof (rule cpn.honours_insert)
  fix db :: billing_db and w
  let ?c = "new_row env w actor (coupon.fields code ty v currency org max_uses 0 valid_from valid_until active)"
  assume "create_row uniq ?c (coupons db) = Inr (coupons db @ [?c])"
  then have new: "distinct (map row_id (coupons db))" "row_id ?c \<notin> row_id ` set (coupons db)" by (auto simp: create_row_Inr)
  have zero: "c_current_uses ?c = 0" by (simp add: new_row_def coupon.defs base_model.defs)
  show "counted db (coupons_update (\<lambda>_. coupons db @ [?c]) db)"
    unfolding counted_def
  proof
    assume ok: "uses_ok (coupons db) (coupon_usages db)"
    then have "uses_of (row_id ?c) (coupon_usages db) = 0" using new(2) unfolding uses_ok_def by (blast intro: uses_of_none)
    then show "uses_ok (coupons (coupons_update (\<lambda>_. coupons db @ [?c]) db)) (coupon_usages (coupons_update (\<lambda>_. coupons db @ [?c]) db))"
      using ok new zero by (simp add: uses_ok_def)
  qed
qed

lemma counted_catalogue:
  "honours counted (create_coupon env actor code ty v currency org max_uses valid_from valid_until active plan_ids)"
  "honours counted (update_coupon env actor coupon_id data plan_ids')"
  "honours counted (deactivate_coupon env actor coupon_id)"
  unfolding create_coupon_def update_coupon_def deactivate_coupon_def Let_def
  by (rule counted_create counted_hide cpn.honours_control | (rule counted_save, (simp add: put_coupon_data_def; fail)) |
      (rule cpn.honours_untouched, (auto intro!: footprint; fail)))+

text \<open>A redemption: the usage row and the counter together.\<close>

lemma uses_ok_redeem:
  assumes "uses_ok cs us" and "cu_coupon_id u = i" and "i \<in> row_id ` set cs"
  shows "uses_ok (map (\<lambda>c. if row_id c = i then c\<lparr>c_current_uses := c_current_uses c + 1, version := version c + 1\<rparr> else c) cs) (us @ [u])"
  (is "uses_ok (map ?f cs) _")
proof -
  have id: "map row_id (map ?f cs) = map row_id cs" by simp
  then have ids: "row_id ` set (map ?f cs) = row_id ` set cs" by (metis set_map)
  have "c_current_uses c' = int (uses_of (row_id c') (us @ [u]))" if c': "c' \<in> set (map ?f cs)" for c'
  proof -
    obtain c where c: "c \<in> set cs" "c' = ?f c" using c' by auto
    with assms(1) have "c_current_uses c = int (uses_of (row_id c) us)" by (simp add: uses_ok_def)
    with c(2) assms(2) show ?thesis by (simp add: uses_of_def)
  qed
  moreover have "cu_coupon_id u' \<in> row_id ` set cs" if "u' \<in> set (us @ [u])" for u'
    using that assms by (auto simp: uses_ok_def)
  moreover have "distinct (map row_id (map ?f cs))" unfolding id using assms(1) by (simp add: uses_ok_def)
  ultimately show ?thesis unfolding uses_ok_def ids by blast
qed

lemma counted_redeem:
  assumes "i \<in> row_id ` set (coupons db)" and "\<And>v. honours counted (f v)"
  shows "moves counted (andthen (create_coupon_usage env i org subscription_id now discount) (\<lambda>_.
    andthen (increment_current_uses i) f)) db w"
proof -
  let ?u = "new_row env w None (coupon_usage.fields i org subscription_id now discount)"
  have u: "cu_coupon_id ?u = i" by (simp add: new_row_def coupon_usage.defs base_model.defs)
  have "counted db (coupons_update (map (\<lambda>c. if row_id c = i then c\<lparr>c_current_uses := c_current_uses c + 1, version := version c + 1\<rparr> else c))
      (coupon_usages_update (\<lambda>_. coupon_usages db @ [?u]) db))"
    using uses_ok_redeem [OF _ u assms(1)] by (simp add: counted_def)
  then have "moves counted (andthen (create_coupon_usage env i org subscription_id now discount) (\<lambda>_. increment_current_uses i)) db w"
    unfolding moves_def create_coupon_usage_def
    by (cases "insert_row env None coupon_usages coupon_usages_update (\<lambda>_. True) (coupon_usage.fields i org subscription_id now discount) (db, w)"
          rule: prod.exhaust)
       (auto simp: andthen_def increment_current_uses_def prog_simps insert_row_Inr new_row_def cpn.step_refl
         dest: insert_row_Inl split: sum.splits prod.splits)
  from cpn.moves_andthen [OF this honoursD [OF assms(2)]] show ?thesis by (simp add: andthen_assoc)
qed


lemma validate_coupon_ensures:
  "ensures (\<lambda>c db' w'. db' = db \<and> c \<in> set (coupons db) \<and> \<not> is_deleted c \<and> c_code c = normalize_coupon_code code \<and> c_is_active c \<and>
      (\<exists>n. instant (c_valid_from c) \<le> instant (time_at env n) \<and>
        (\<forall>t. c_valid_until c = Some t \<longrightarrow> instant (time_at env n) < instant t)) \<and>
      (\<forall>k. c_max_uses c = Some k \<longrightarrow> c_current_uses c < k) \<and>
      (c_organization_id c = None \<or> c_organization_id c = Some org) \<and>
      (list_applicable_plan_ids (row_id c) db = [] \<or> plan_id \<in> set (list_applicable_plan_ids (row_id c) db)))
    (validate_coupon env code org plan_id) db w"
  unfolding validate_coupon_def Let_def
  by (auto simp: coupon_problem_def get_coupon_by_code_def not_less split: option.splits if_splits dest!: first_row_Some)

lemma counted_apply: "honours counted (apply_coupon env code org subscription_id plan_id base_amount)"
proof (rule honoursI)
  fix db and w :: "'a billing_world"
  have validate: "honours counted (validate_coupon env code org plan_id)"
    by (rule cpn.honours_untouched) (auto intro!: footprint)
  have rest: "honours counted (andthen (audit_coupon None action c d) (\<lambda>_. ret v))" for action c d and v :: rat
    by (rule cpn.honours_untouched) (auto intro!: footprint)
  show "moves counted (apply_coupon env code org subscription_id plan_id base_amount) db w"
    unfolding apply_coupon_def Let_def
    by (rule cpn.moves_ensures [OF validate validate_coupon_ensures], simp, rule counted_redeem, blast, rule rest)
qed

lemma counted_subscribe: "honours counted (create_subscription deps env actor org plan_id coupon_code)"
  unfolding create_subscription_def
  by (rule counted_apply cpn.honours_control | (rule cpn.honours_untouched, (auto intro!: footprint; fail)))+

interpretation coupon_uses: history_relation counted "\<lambda>_ :: 'r billing_env. True"
proof unfold_locales
  fix env :: "'r billing_env" and m
  assume "billing_request env m"
  then show "honours counted (with_db_session m)"
    by (cases rule: billing_request.cases)
       (simp_all only:, (rule cpn.honours_request counted_catalogue counted_subscribe |
          (rule cpn.honours_untouched, (auto intro!: footprint; fail)))+)
qed



definition sample_coupon :: coupon where
  "sample_coupon = base_model.extend (sample_base ''C'')
     (coupon.fields ''SAVE10'' PERCENTAGE 10 None None (Some 1) 0 (day_of_2026 1 1) None True)"

definition sample_coupons :: billing_db where
  "sample_coupons = sample_db\<lparr>coupons := [sample_coupon]\<rparr>"

definition sample_redeemed :: "(billing_exc + rat) \<times> billing_db \<times> (string \<Rightarrow> cache_value option) billing_world" where
  "sample_redeemed = apply_coupon sample_env '' save10'' ''O'' None ''P'' 100 (sample_coupons, sample_world)"

lemma sample_redeemed_runs: "fst sample_redeemed = Inr 10"
proof -
  have "get_coupon_by_code (normalize_coupon_code '' save10'') sample_coupons = Some sample_coupon" by code_simp
  moreover have "coupon_problem sample_coupon (time_at sample_env 0) ''O'' (normalize_coupon_code '' save10'') = None" by code_simp
  moreover have "list_applicable_plan_ids (row_id sample_coupon) sample_coupons = []" by code_simp
  moreover have "compute_discount_amount (c_discount_type sample_coupon) (c_discount_value sample_coupon) 100 = 10" by code_simp
  moreover have "coupon_usages sample_coupons = []" by (simp add: sample_coupons_def sample_db_def empty_billing_def)
  ultimately show ?thesis
    by (simp add: sample_redeemed_def apply_coupon_def validate_coupon_def Let_def prog_simps py_now_def create_coupon_usage_def
      insert_row_def uuid4_def db_now_def create_row_def increment_current_uses_def audit_coupon_def write_audit_def sample_world_def)
qed


end
