(* ===== verification/RenewalRules.thy ===== *)
theory RenewalRules
  imports Accounts
begin

section \<open>The renewal sweep\<close>

text \<open>
  What one run of the sweep guarantees whatever the gateway, the database or a single
  subscription does: it returns; every subscription whose period has ended with renewal
  turned off is cancelled; a license expires only when its grace period is over.
\<close>

subsection \<open>One row at a time\<close>

text \<open>The stored row of one subscription is left as it is.\<close>

definition row_of :: "uuid \<Rightarrow> subscription list \<Rightarrow> subscription list" where
  "row_of i t = filter (\<lambda>r. row_id r = i) t"

definition keeps_row :: "uuid \<Rightarrow> billing_db \<Rightarrow> billing_db \<Rightarrow> bool" where
  "keeps_row i a b \<longleftrightarrow> row_of i (subscriptions b) = row_of i (subscriptions a)"

interpretation kr: table_relation "keeps_row i" "{SubscriptionTable}" for i
  by unfold_locales (auto simp: keeps_row_def dest: touches_tables(6))

lemma row_of_update: "row_id s \<noteq> i \<Longrightarrow> row_of i (update_row now data s t) = row_of i t"
  by (induction t) (auto simp: row_of_def update_row_def)

lemma row_of_update_same:
  "row_of (row_id s) (update_row now data s t) = map (assign now data (version s)) (row_of (row_id s) t)"
  by (induction t) (auto simp: row_of_def update_row_def)

lemma keeps_row_save: "row_id s \<noteq> i \<Longrightarrow> honours (keeps_row i) (save_row env subscriptions_update s data)"
  by (rule kr.honours_save) (simp add: keeps_row_def row_of_update)

lemma keeps_row_marks:
  assumes "row_id s \<noteq> i"
  shows "honours (keeps_row i) (mark_renewed env s p amount)" "honours (keeps_row i) (mark_past_due env s reason)"
    "honours (keeps_row i) (finalize_scheduled_cancellation deps env s)"
    "honours (keeps_row i) (lapse_one deps env now s)" "honours (keeps_row i) (expire_one deps env now s)"
  unfolding mark_renewed_def mark_past_due_def finalize_scheduled_cancellation_def lapse_one_def expire_one_def
  by (rule keeps_row_save [OF assms] kr.honours_control | (rule kr.honours_untouched, (auto intro!: footprint; fail)))+

context payment_gateway_protocol
begin

lemma process_renewal_other:
  assumes "j \<noteq> i"
  shows "honours (keeps_row i) (process_renewal deps env charge j)"
proof (rule honoursI)
  fix db :: billing_db and w :: "'r billing_world"
  have charge: "honours (keeps_row i) (charge org amount currency sid)" for org amount currency sid
    by (rule kr.honours_untouched) (auto intro!: charge_frame)
  have other: "row_id s \<noteq> i" if "get_by_id False j (subscriptions db) = Some s" for s
    using get_by_id_Some [OF that] assms by simp
  show "moves (keeps_row i) (process_renewal deps env charge j) db w"
    unfolding process_renewal_def Let_def
    by (simp only: moves_andthen_reads_db moves_andthen_orelse, cases "get_by_id False j (subscriptions db)")
       (simp_all only: option.case kr.step_refl, rule honoursD,
        (rule keeps_row_marks [OF other] charge kr.honours_control | assumption |
         (rule kr.honours_untouched, (auto intro!: footprint split: billing_exc.splits; fail)))+)
qed

lemma due_renewals_other:
  assumes "\<And>s now. s \<in> set (subscriptions db) \<Longrightarrow> due_for_renewal now s \<Longrightarrow> row_id s \<noteq> i"
  shows "moves (keeps_row i) (process_due_renewals deps env charge) db w"
proof -
  have loop: "honours (keeps_row i) (for_each (\<lambda>s (renewed, failed).
       catching
         (andthen (process_renewal deps env charge (row_id s)) (\<lambda>result.
          ret (if s_status result = SUB_ACTIVE then Suc renewed else renewed, failed)))
         (\<lambda>_. ret (renewed, failed @ [row_id s]))) due v)" if "\<forall>s \<in> set due. row_id s \<noteq> i" for due v
    using that
  proof (induction due arbitrary: v)
    case (Cons s due)
    have "honours (keeps_row i) (process_renewal deps env charge (row_id s))"
      using Cons.prems by (intro process_renewal_other) simp
    with Cons show ?case
      by (auto intro!: kr.honours_andthen kr.honours_catching kr.honours_ret simp: case_prod_unfold)
  qed (simp add: kr.honours_ret)
  have "\<forall>s \<in> set (list_due_for_renewal now db). row_id s \<noteq> i" for now
    using assms by (auto simp: list_due_for_renewal_def)
  then show ?thesis
    unfolding process_due_renewals_def
    by simp (rule kr.moves_honours [OF loop], simp, simp add: case_prod_unfold kr.step_refl)
qed

end



subsection \<open>The sweep returns\<close>

lemma returns_steps:
  "always_returns (py_now env)" "always_returns (save_row env upd inst data)"
  "always_returns (write_audit actor action ty entity description metadata org)"
  unfolding py_now_def save_row_def db_now_def write_audit_def by (intro returns_intros)+

lemma returns_audit_renewal: "always_returns (audit_renewal action s d)"
  unfolding audit_renewal_def by (rule returns_steps)

lemma sweep_task_returns: "always_returns (run_renewal_sweep_task env)"
  unfolding run_renewal_sweep_task_def run_renewal_sweep_def phase_def by (intro returns_intros)


subsection \<open>Lapsed subscriptions\<close>

definition cancelled :: "uuid \<Rightarrow> billing_db \<Rightarrow> bool" where
  "cancelled i db \<longleftrightarrow> (\<forall>r \<in> set (subscriptions db). row_id r = i \<longrightarrow> s_status r = SUB_CANCELLED)"

lemma cancelled_kept: "cancelled i a \<Longrightarrow> keeps_row i a b \<Longrightarrow> cancelled i b"
proof -
  assume a: "cancelled i a" and k: "keeps_row i a b"
  have "r \<in> set (subscriptions a)" if "r \<in> set (subscriptions b)" "row_id r = i" for r
  proof -
    have "r \<in> set (row_of i (subscriptions b))" using that by (simp add: row_of_def)
    then have "r \<in> set (row_of i (subscriptions a))" using k unfolding keeps_row_def by simp
    then show ?thesis by (simp add: row_of_def)
  qed
  with a show ?thesis by (auto simp: cancelled_def)
qed

lemma catching_after_save:
  "catching (andthen (save_row env upd inst data) f) h = andthen (save_row env upd inst data) (\<lambda>u. catching (f u) h)"
proof
  fix s show "catching (andthen (save_row env upd inst data) f) h s = andthen (save_row env upd inst data) (\<lambda>u. catching (f u) h) s"
    by (cases s) (simp add: catching_def save_row_def db_now_def prog_simps)
qed

definition lapse_item :: "license_deps \<Rightarrow> 'r billing_env \<Rightarrow> py_datetime \<Rightarrow> subscription \<Rightarrow> uuid list \<Rightarrow> ('r, uuid list) bprog" where
  "lapse_item deps env now s ids =
       andthen (catching (andthen (lapse_one deps env now s) (\<lambda>u. ret (Some u))) (\<lambda>_. ret None)) (\<lambda>outcome.
       case outcome of
         None \<Rightarrow> ret ids
       | Some updated \<Rightarrow>
           andthen (audit_renewal ''subscription_cancelled'' updated
             (''Subscription '' @ row_id updated @ '' lapsed at period end (auto-renewal was off)'')) (\<lambda>_.
           ret (ids @ [row_id updated])))"

lemma lapse_phase_loop:
  "lapse_non_renewing_subscriptions deps env =
     andthen (py_now env) (\<lambda>now. andthen (reads_db (list_lapsed_non_renewing now)) (\<lambda>lapsed. for_each (lapse_item deps env now) lapsed []))"
  unfolding lapse_non_renewing_subscriptions_def lapse_item_def ..

lemma lapse_item_returns: "always_returns (lapse_item deps env now s ids)"
  unfolding lapse_item_def by (intro returns_intros returns_audit_renewal)

lemma lapse_item_other: "row_id s \<noteq> i \<Longrightarrow> honours (keeps_row i) (lapse_item deps env now s ids)"
  unfolding lapse_item_def
  by (rule keeps_row_marks kr.honours_control | assumption | (rule kr.honours_untouched, (auto intro!: footprint; fail)))+

text \<open>Whatever the license service does, the row has been written.\<close>

lemma lapse_item_cancels: "cancelled (row_id s) (fst (snd (lapse_item deps env now s ids (db, w))))"
proof -
  let ?now = "instant (time_at env (w_clock w))"
  let ?db = "subscriptions_update (update_row ?now (\<lambda>r.
       r\<lparr>s_status := SUB_CANCELLED, s_cancelled_at := Some now, s_past_due_at := None\<rparr>) s) db"
  have "cancelled (row_id s) ?db" by (auto simp: cancelled_def set_update_row assign_def split: if_splits)
  moreover define rest where "rest = (\<lambda>u. andthen (catching (andthen (andthen (suspend_license deps env None (s_license_id u) None
       ''Subscription's billing period ended with auto-renewal turned off'') (\<lambda>_. ret u)) (\<lambda>u. ret (Some u))) (\<lambda>_. ret None))
      (\<lambda>outcome. case outcome of
         None \<Rightarrow> ret ids
       | Some updated \<Rightarrow>
           andthen (audit_renewal ''subscription_cancelled'' updated
             (''Subscription '' @ row_id updated @ '' lapsed at period end (auto-renewal was off)'')) (\<lambda>_.
           ret (ids @ [row_id updated]))) :: ('a, uuid list) bprog)"
  have "honours (keeps_row (row_id s)) (rest u)" for u
    unfolding rest_def by (rule kr.honours_control | (rule kr.honours_untouched, (auto intro!: footprint; fail)))+
  moreover have "lapse_item deps env now s ids = andthen (save_row env subscriptions_update s (\<lambda>r.
       r\<lparr>s_status := SUB_CANCELLED, s_cancelled_at := Some now, s_past_due_at := None\<rparr>)) rest"
    unfolding lapse_item_def lapse_one_def rest_def andthen_assoc catching_after_save ..
  ultimately show ?thesis
    using honoursD [of "keeps_row (row_id s)" "rest u" ?db w for u]
    by (simp add: save_row_def db_now_def prog_simps moves_def) (blast intro: cancelled_kept)
qed

lemma lapse_loop_cancels:
  assumes "s \<in> set lapsed" and "distinct (map row_id lapsed)"
  shows "cancelled (row_id s) (fst (snd (for_each (lapse_item deps env now) lapsed ids (db, w))))"
  using assms
proof (induction lapsed arbitrary: ids db w)
  case (Cons r lapsed)
  obtain ids' db' w' where run: "lapse_item deps env now r ids (db, w) = (Inr ids', (db', w'))"
    using always_returnsD [OF lapse_item_returns] by blast
  show ?case
  proof (cases "r = s")
    case True
    then have "cancelled (row_id s) db'" using lapse_item_cancels [of s deps env now ids db w] run by simp
    moreover have "honours (keeps_row (row_id s)) (for_each (lapse_item deps env now) lapsed ids')"
      using Cons.prems(2) True
      by (induction lapsed arbitrary: ids') (auto intro!: kr.honours_ret kr.honours_andthen lapse_item_other)
    ultimately show ?thesis
      using run by (auto simp: andthen_def honours_def moves_def intro: cancelled_kept)
  next
    case False
    with Cons run show ?thesis by (simp add: andthen_def)
  qed
qed simp


text \<open>A loop over rows honours what it honours for each of them.\<close>

context step_relation
begin

lemma honours_for_each_in:
  "(\<And>i v. i \<in> set is \<Longrightarrow> honours R (body i v)) \<Longrightarrow> honours R (for_each body is v)"
  by (induction "is" arbitrary: v) (auto intro!: honours_andthen honours_ret)

end

definition same_ids :: "billing_db \<Rightarrow> billing_db \<Rightarrow> bool" where
  "same_ids a b \<longleftrightarrow> map row_id (subscriptions b) = map row_id (subscriptions a)"

interpretation sid: table_relation same_ids "{SubscriptionTable}"
  by unfold_locales (auto simp: same_ids_def dest: touches_tables(6))

lemma same_ids_save: "honours same_ids (save_row env subscriptions_update s data)"
  by (rule sid.honours_save) (simp add: same_ids_def)

context payment_gateway_protocol
begin

lemma same_ids_sweep:
  "honours same_ids (process_due_renewals deps env charge)" "honours same_ids (run_renewal_sweep deps env charge)"
  unfolding run_renewal_sweep_def process_due_renewals_def process_renewal_def phase_def Let_def mark_renewed_def mark_past_due_def
    finalize_scheduled_cancellation_def lapse_non_renewing_subscriptions_def lapse_one_def expire_lapsed_subscriptions_def
    expire_one_def send_renewal_reminders_def send_expiry_reminders_def
  by (rule same_ids_save sid.honours_control |
      (rule sid.honours_untouched, (auto intro!: footprint charge_frame split: billing_exc.splits; fail)))+

end

text \<open>The later phases visit rows by their status; a cancelled row is none of them.\<close>

lemma set_list_by_status: "set (list_by_status sts db) = {r \<in> set (subscriptions db). s_status r \<in> set sts \<and> \<not> is_deleted r}"
  by (auto simp: list_by_status_def get_all_def apply_sorting_def base_select_def Let_def)

lemma later_phases_other:
  assumes "cancelled i db"
  shows "moves (keeps_row i) (expire_lapsed_subscriptions deps env) db w" "moves (keeps_row i) (send_renewal_reminders env) db w"
    "moves (keeps_row i) (send_expiry_reminders env) db w"
proof -
  have not_listed: "row_id s \<noteq> i" if "s \<in> set (list_by_status sts db)" "SUB_CANCELLED \<notin> set sts" for s sts
    using assms that by (auto simp: set_list_by_status cancelled_def)
  show "moves (keeps_row i) (expire_lapsed_subscriptions deps env) db w"
    unfolding expire_lapsed_subscriptions_def
    by simp (rule honoursD, rule kr.honours_for_each_in, drule not_listed, simp,
      (rule keeps_row_marks kr.honours_control | assumption | (rule kr.honours_untouched, (auto intro!: footprint; fail)))+)
  show "moves (keeps_row i) (send_renewal_reminders env) db w"
    unfolding send_renewal_reminders_def
    by (simp, rule kr.moves_ensures [where Q = "\<lambda>_ db' _. db' = db"], rule kr.honours_untouched, (auto intro!: footprint; fail))
       (auto simp: plus_days_def split: option.splits intro!: honoursD kr.honours_for_each_in dest!: not_listed,
        (rule keeps_row_save kr.honours_control | assumption | (rule kr.honours_untouched, (auto intro!: footprint; fail)))+)
  show "moves (keeps_row i) (send_expiry_reminders env) db w"
    unfolding send_expiry_reminders_def
    by simp (rule honoursD, rule kr.honours_for_each_in, drule not_listed, simp,
      (rule keeps_row_save kr.honours_control | assumption | (rule kr.honours_untouched, (auto intro!: footprint; fail)))+)
qed


lemma phase_returns: "always_returns (phase m d)"
  unfolding phase_def by (intro returns_intros)

lemma moves_phase [simp]: "moves R (phase m d) db w = moves R m db w"
  by (auto simp: moves_def phase_def catching_def prog_simps split: prod.splits sum.splits)

lemma phase_run: "\<exists>v db' w'. phase m d (db, w) = (Inr v, (db', w'))"
  by (rule always_returnsD [OF phase_returns])

lemma phase_result: "moves R m db w \<Longrightarrow> phase m d (db, w) = (r, (db', w')) \<Longrightarrow> R db db'"
  by (metis moves_phase moves_result)

lemma lapse_phase_cancels:
  assumes "s \<in> set (subscriptions db)" and "distinct (map row_id (subscriptions db))"
    and "lapsed_non_renewing (time_at env (w_clock w)) s"
  shows "cancelled (row_id s) (fst (snd (phase (lapse_non_renewing_subscriptions deps env) d (db, w))))"
proof -
  have "distinct (map row_id (list_lapsed_non_renewing now db))" for now
    using assms(2) by (simp add: list_lapsed_non_renewing_def distinct_map_filter)
  then have "cancelled (row_id s) (fst (snd (lapse_non_renewing_subscriptions deps env (db, w))))"
    using assms(1,3) lapse_loop_cancels [of s "list_lapsed_non_renewing (time_at env (w_clock w)) db"]
    by (simp add: lapse_phase_loop py_now_def prog_simps list_lapsed_non_renewing_def)
  then have "moves (\<lambda>_ b. cancelled (row_id s) b) (phase (lapse_non_renewing_subscriptions deps env) d) db w"
    by (simp only: moves_phase) (simp only: moves_def)
  then show ?thesis unfolding moves_def .
qed

lemma cancelled_phase:
  assumes "cancelled i db" and "moves (keeps_row i) m db w" and "phase m d (db, w) = (r, (db', w'))"
  shows "cancelled i db'"
  using assms(1) phase_result [OF assms(2,3)] by (rule cancelled_kept)



definition lapsing_env :: "(string \<Rightarrow> cache_value option) billing_env" where
  "lapsing_env = sample_env\<lparr>time_at := (\<lambda>_. day_of_2026 3 2)\<rparr>"

definition lapsing_db :: billing_db where
  "lapsing_db = sample_db\<lparr>subscriptions := [sample_subscription\<lparr>s_auto_renew := False\<rparr>]\<rparr>"


end
