(* ===== verification/RenewalOutcomes.thy ===== *)
theory RenewalOutcomes
  imports RenewalRules PaymentRules
begin

section \<open>What a renewal does and when a license expires\<close>

text \<open>
  The outcomes of one renewal: a paid next period, a past-due subscription, or the cancellation
  that was scheduled. And the condition under which the sweep expires a license: a subscription
  of it has been past due for the whole grace period.
\<close>

subsection \<open>The grace period\<close>

text \<open>Licenses outside a set of ids are left as they are.\<close>

definition other_licenses :: "uuid set \<Rightarrow> billing_db \<Rightarrow> license list" where
  "other_licenses L db = filter (\<lambda>l. row_id l \<notin> L) (licenses db)"

definition keeps_others :: "uuid set \<Rightarrow> billing_db \<Rightarrow> billing_db \<Rightarrow> bool" where
  "keeps_others L a b \<longleftrightarrow> other_licenses L b = other_licenses L a"

interpretation ko: table_relation "keeps_others L" "{LicenseTable}" for L
  by unfold_locales (auto simp: keeps_others_def other_licenses_def dest: touches_tables(4))

lemma keeps_others_update: "row_id l \<in> L \<Longrightarrow> filter (\<lambda>l. row_id l \<notin> L) (update_row now data l t) = filter (\<lambda>l. row_id l \<notin> L) t"
  by (induction t) (auto simp: update_row_def)

lemma keeps_others_expire:
  assumes "i \<in> L"
  shows "honours (keeps_others L) (expire_license deps env i)"
  unfolding expire_license_def
proof (rule honoursI, rule moves_get_license, rule ko.step_refl)
  fix db :: billing_db and w :: "'a billing_world" and l :: license
  assume "row_id l = i"
  with assms have save: "honours (keeps_others L) (save_row env licenses_update l data)" for data
    by (intro ko.honours_save) (simp add: keeps_others_def other_licenses_def keeps_others_update)
  show "moves (keeps_others L) (andthen (assert_transition (l_status l) LICENSE_EXPIRED) (\<lambda>_.
     andthen (save_row env licenses_update l (\<lambda>r. r\<lparr>l_status := LICENSE_EXPIRED\<rparr>)) (\<lambda>updated.
     andthen (invalidate_entitlement_cache deps env (l_organization_id updated)) (\<lambda>_.
     andthen (audit_license None ''license_expired'' updated (''License '' @ row_id updated @ '' expired'')) (\<lambda>_.
     ret updated))))) db w"
    by (rule honoursD, (rule save ko.honours_control | (rule ko.honours_untouched, (auto intro!: footprint; fail)))+)
qed

definition grace_over :: "'r billing_env \<Rightarrow> py_datetime \<Rightarrow> subscription \<Rightarrow> bool" where
  "grace_over env now s \<longleftrightarrow>
     s_status s = PAST_DUE \<and> (\<exists>since deadline. s_past_due_at s = Some since \<and>
       add_days since (grace_period_days env) = Some deadline \<and> instant deadline \<le> instant now)"

lemma expire_phase_others:
  assumes "\<And>s. s \<in> set (subscriptions db) \<Longrightarrow> grace_over env (time_at env (w_clock w)) s \<Longrightarrow> s_license_id s \<in> L"
  shows "moves (keeps_others L) (expire_lapsed_subscriptions deps env) db w"
  unfolding expire_lapsed_subscriptions_def
proof (simp, rule honoursD, rule ko.honours_for_each_in)
  fix s ids assume s: "s \<in> set (list_by_status [PAST_DUE] db)"
  let ?now = "time_at env (w_clock w)"
  have expire: "honours (keeps_others L) (expire_one deps env ?now s)"
    if "s_past_due_at s = Some since" "add_days since (grace_period_days env) = Some deadline" "\<not> instant ?now < instant deadline" for since deadline
  proof -
    have "s_license_id s \<in> L" using assms [of s] s that by (auto simp: set_list_by_status grace_over_def)
    then show ?thesis
      unfolding expire_one_def
      by (rule ko.honours_andthen [OF keeps_others_expire]) (rule ko.honours_untouched, (auto intro!: footprint; fail))
  qed
  show "honours (keeps_others L) (case s_past_due_at s of
         None \<Rightarrow> ret ids
       | Some since \<Rightarrow>
           andthen (plus_days since (grace_period_days env)) (\<lambda>deadline.
           if instant ?now < instant deadline then ret ids
           else
             andthen (catching (andthen (expire_one deps env ?now s) (\<lambda>u. ret (Some u))) (\<lambda>_. ret None)) (\<lambda>outcome.
             case outcome of
               None \<Rightarrow> ret ids
             | Some updated \<Rightarrow>
                 andthen (audit_renewal ''subscription_expired_after_grace_period'' updated
                   (''Subscription '' @ row_id updated @ apostrophe_s @ '' license expired after its '' @
                    show_nat (grace_period_days env) @ ''-day grace period lapsed'')) (\<lambda>_.
                 ret (ids @ [row_id updated])))))"
  proof (cases "s_past_due_at s")
    case (Some since)
    then show ?thesis
      by simp (rule ko.honours_plus_days, split if_split, intro conjI impI,
        (rule expire ko.honours_control | assumption | (rule ko.honours_untouched, (auto intro!: footprint; fail)))+)
  qed (simp add: ko.honours_ret)
qed

text \<open>
  The grace period is honoured. The expiry phase of the sweep changes a license only if a
  subscription of it is past due since a moment that lies the whole grace period back.
\<close>

theorem grace_period_honoured:
  assumes "expire_lapsed_subscriptions deps env (db, w) = (r, (db', w'))"
    and "l \<in> set (licenses db)" and "l \<notin> set (licenses db')" and "\<And>s t. s \<in> set (subscriptions db) \<Longrightarrow> s_past_due_at s = Some t \<Longrightarrow> valid_datetime t"
  shows "\<exists>s since. s \<in> set (subscriptions db) \<and> s_license_id s = row_id l \<and> s_status s = PAST_DUE \<and>
    s_past_due_at s = Some since \<and> instant since + days (int (grace_period_days env)) \<le> instant (time_at env (w_clock w))"
proof (rule ccontr)
  assume none: "\<not> ?thesis"
  let ?L = "- {row_id l}"
  have "moves (keeps_others ?L) (expire_lapsed_subscriptions deps env) db w"
  proof (rule expire_phase_others)
    fix s assume s: "s \<in> set (subscriptions db)" and g: "grace_over env (time_at env (w_clock w)) s"
    then obtain since deadline where d: "s_status s = PAST_DUE" "s_past_due_at s = Some since"
      "add_days since (grace_period_days env) = Some deadline" "instant deadline \<le> instant (time_at env (w_clock w))"
      by (auto simp: grace_over_def)
    then have "instant deadline = instant since + days (int (grace_period_days env))"
      using add_days_Some [OF assms(4) [OF s]] by blast
    with d s none show "s_license_id s \<in> ?L" by auto
  qed
  then have "other_licenses ?L db' = other_licenses ?L db"
    using assms(1) by (simp add: moves_def keeps_others_def)
  moreover have "l \<in> set (other_licenses ?L db)" using assms(2) by (simp add: other_licenses_def)
  ultimately have "l \<in> set (other_licenses ?L db')" by simp
  with assms(3) show False by (simp add: other_licenses_def)
qed


definition overdue_db :: billing_db where
  "overdue_db = sample_db\<lparr>subscriptions := [sample_subscription\<lparr>s_status := PAST_DUE, s_past_due_at := Some (day_of_2026 2 1)\<rparr>]\<rparr>"

theorem grace_period_honoured_witness:
  "sample_license \<notin> set (licenses (fst (snd (expire_lapsed_subscriptions sweep_deps sample_env (overdue_db, sample_world))))) \<and>
   instant (day_of_2026 2 1) + days 7 \<le> instant (day_of_2026 3 1)"
proof -
  let ?run = "expire_lapsed_subscriptions sweep_deps sample_env (overdue_db, sample_world)"
  have run: "?run = (fst ?run, (fst (snd ?run), snd (snd ?run)))" by simp
  have gone: "sample_license \<notin> set (licenses (fst (snd ?run)))" by code_simp
  have valid: "valid_datetime t" if "s \<in> set (subscriptions overdue_db)" "s_past_due_at s = Some t" for s t
  proof -
    have "valid_datetime (day_of_2026 2 1)" by code_simp
    with that show ?thesis by (simp add: overdue_db_def)
  qed
  have "sample_license \<in> set (licenses overdue_db)" by (simp add: overdue_db_def sample_db_def)
  then have "\<exists>s since. s \<in> set (subscriptions overdue_db) \<and> s_license_id s = row_id sample_license \<and> s_status s = PAST_DUE \<and>
      s_past_due_at s = Some since \<and>
      instant since + days (int (grace_period_days sample_env)) \<le> instant (time_at sample_env (w_clock sample_world))"
    by (rule grace_period_honoured [OF run _ gone]) (rule valid)
  then obtain s since where "s \<in> set (subscriptions overdue_db)" "s_past_due_at s = Some since"
    "instant since + days (int (grace_period_days sample_env)) \<le> instant (time_at sample_env (w_clock sample_world))"
    by blast
  then have "instant (day_of_2026 2 1) + days 7 \<le> instant (day_of_2026 3 1)"
    by (simp add: overdue_db_def sample_env_def sample_world_def sample_time_def)
  with gone show ?thesis ..
qed


subsection \<open>One renewal\<close>

text \<open>A charge that returns leaves the returned payment in the table, with the terms it had.\<close>

definition stored_payment :: "payment \<Rightarrow> payment \<Rightarrow> billing_db \<Rightarrow> bool" where
  "stored_payment p q db \<longleftrightarrow> payment_terms q = payment_terms p \<and> q \<in> set (payments db)"

lemma stored_save:
  assumes "p \<in> set (payments db)" and "\<And>r. payment_terms (data r) = payment_terms r"
  shows "ensures (\<lambda>q db' _. stored_payment p q db') (save_payment env p data) db w"
proof -
  have "payment_terms (assign now data v p) = payment_terms p" for now v
    using assms(2) [of p] by (simp add: payment_terms_def assign_def)
  then show ?thesis using assms(1) by (auto simp: save_payment_def stored_payment_def set_update_row)
qed

lemma stored_attempt:
  assumes "p \<in> set (payments db)"
  shows "ensures (\<lambda>q db' _. stored_payment p q db') (stripe_attempt_charge env p key) db w"
    "ensures (\<lambda>q db' _. stored_payment p q db') (razorpay_attempt_charge env p) db w"
proof -
  have token: "ensures (\<lambda>_ db' _. db' = db) (token_or_fail env p) db w" for w
    unfolding token_or_fail_def
    by (rule ensures_catching) (auto simp: default_payment_method_token_def split: option.splits billing_exc.splits)
  note save = stored_save [OF assms]
  show "ensures (\<lambda>q db' _. stored_payment p q db') (stripe_attempt_charge env p key) db w"
    unfolding stripe_attempt_charge_def ensures_andthen
    by (rule ensures_mono [OF token])
       (auto simp: mark_declined_def mark_succeeded_def payment_terms_def split: provider_reply.split intro!: save)
  show "ensures (\<lambda>q db' _. stored_payment p q db') (razorpay_attempt_charge env p) db w"
    unfolding razorpay_attempt_charge_def ensures_andthen Let_def
    by (rule ensures_mono [OF token])
       (auto simp: mark_declined_def mark_succeeded_def payment_terms_def split: provider_reply.split option.split intro!: save)
qed

lemma stored_charge:
  assumes "gw \<in> {StripePaymentGateway env, RazorpayPaymentGateway env}" and "p \<in> set (payments db)"
  shows "ensures (\<lambda>q db' _. stored_payment p q db') (charge_via_provider env gw p) db w"
  using assms(1) stored_attempt [OF assms(2)]
  by (auto simp: charge_via_provider_def StripePaymentGateway_def RazorpayPaymentGateway_def fail_not_configured_def not_configured_def)

definition paid_for :: "uuid \<Rightarrow> uuid \<Rightarrow> rat \<Rightarrow> string \<Rightarrow> billing_db \<Rightarrow> bool" where
  "paid_for org sid amount currency db \<longleftrightarrow>
     (\<exists>p \<in> set (payments db). pay_status p = SUCCEEDED \<and> pay_organization_id p = org \<and> pay_subscription_id p = Some sid \<and>
        pay_amount p = amount \<and> pay_currency p = currency)"

lemma charge_success:
  assumes "gw \<in> {StripePaymentGateway env, RazorpayPaymentGateway env}"
  shows "ensures (\<lambda>res db' _. pr_success res \<longrightarrow> amount \<le> 0 \<or> paid_for org sid amount currency db')
    (gateway_charge env gw org amount currency sid) db w"
proof -
  have terms: "paid_for org sid amount currency db'"
    if "stored_payment (new_row env w' None (payment.fields org (Some sid) amount currency PENDING pr None key None 0 None None)) q db'"
      "pay_status q = SUCCEEDED" for pr key w' q db'
    using that by (auto simp: paid_for_def stored_payment_def payment_terms_def new_row_def payment.defs base_model.defs)
  show ?thesis
    unfolding gateway_charge_def create_payment_def
    by (auto simp: not_configured_def intro!: ensures_mono [OF stored_charge [OF assms]] split: PaymentStatus.splits dest: terms)
qed

lemma renewal_charge:
  assumes "gw \<in> {StripePaymentGateway env, RazorpayPaymentGateway env}"
  shows "ensures (\<lambda>outcome db' _. touches {PaymentTable} db db' \<and>
      (\<forall>res. outcome = Inr res \<longrightarrow> pr_success res \<longrightarrow> amount \<le> 0 \<or> paid_for org sid amount currency db'))
    (catching (andthen (gateway_charge env gw org amount currency sid) (\<lambda>result. ret (Inr result)))
       (\<lambda>e. case e of PaymentGatewayNotConfiguredError org n currency \<Rightarrow> ret (Inl (not_configured_text org n currency))
          | _ \<Rightarrow> raise e)) db w"
proof (rule ensures_conj)
  show "ensures (\<lambda>_ db' _. touches {PaymentTable} db db') (catching (andthen (gateway_charge env gw org amount currency sid) (\<lambda>result. ret (Inr result)))
       (\<lambda>e. case e of PaymentGatewayNotConfiguredError org n currency \<Rightarrow> ret (Inl (not_configured_text org n currency))
          | _ \<Rightarrow> raise e)) db w"
    using assms by (intro ensures_honours)
      (auto intro!: footprint stripe.gateway_charge_touches razorpay.gateway_charge_touches split: billing_exc.splits)
qed (rule ensures_catching, simp, rule ensures_mono [OF charge_success [OF assms]], auto split: billing_exc.splits)

definition renewal_result :: "'r billing_env \<Rightarrow> subscription \<Rightarrow> subscription \<Rightarrow> billing_db \<Rightarrow> bool" where
  "renewal_result env s u db \<longleftrightarrow> (case s_status u of
     SUB_ACTIVE \<Rightarrow>
       (\<exists>n. s_current_period_start u = time_at env n \<and>
          add_billing_cycle (time_at env n) (s_billing_cycle s) = Inr (s_current_period_end u)) \<and>
       s_past_due_at u = None \<and>
       (\<exists>p. get_by_id False (s_plan_id s) (plans db) = Some p \<and>
          (p_base_price p \<le> 0 \<or> paid_for (s_organization_id s) (row_id s) (p_base_price p) (p_currency p) db))
   | PAST_DUE \<Rightarrow>
       s_current_period_start u = s_current_period_start s \<and> s_current_period_end u = s_current_period_end s \<and>
       (case s_past_due_at s of Some t \<Rightarrow> s_past_due_at u = Some t | None \<Rightarrow> (\<exists>n. s_past_due_at u = Some (time_at env n)))
   | SUB_CANCELLED \<Rightarrow> s_cancel_at_period_end s \<and> (\<exists>n. instant (s_current_period_end s) \<le> instant (time_at env n))
   | _ \<Rightarrow> False)"

lemma renewal_result_frame:
  "plans b = plans a \<Longrightarrow> payments b = payments a \<Longrightarrow> renewal_result env s u b = renewal_result env s u a"
  by (simp add: renewal_result_def paid_for_def cong: SubscriptionStatus.case_cong)

lemma renewal_result_updates [simp]:
  "renewal_result env s u (audit_log_update f db) = renewal_result env s u db"
  "renewal_result env s u (subscriptions_update g db) = renewal_result env s u db"
  by (rule renewal_result_frame; simp)+

definition renews_to :: "'r billing_env \<Rightarrow> subscription \<Rightarrow> subscription \<Rightarrow> billing_db \<Rightarrow> bool" where
  "renews_to env s u db \<longleftrightarrow> row_id u = row_id s \<and> u \<in> set (subscriptions db) \<and> renewal_result env s u db"

lemma updated_member: "s \<in> set t \<Longrightarrow> assign now data (version s) s \<in> set (update_row now data s t)"
  by (auto simp: set_update_row)

lemma ensures_next_period_end [simp]:
  "ensures P (next_period_end t c) = (\<lambda>db x. \<forall>e. add_billing_cycle t c = Inr e \<longrightarrow> P e db x)"
  by (intro ext) (cases "add_billing_cycle t c"; simp add: next_period_end_def)

lemma mark_renewed_result:
  assumes "s \<in> set (subscriptions db)" and "get_by_id False (s_plan_id s) (plans db) = Some p"
    and "p_base_price p \<le> 0 \<or> paid_for (s_organization_id s) (row_id s) (p_base_price p) (p_currency p) db"
  shows "ensures (\<lambda>u db' _. renews_to env s u db') (mark_renewed env s p amount) db w"
  using assms
  by (simp add: mark_renewed_def audit_renewal_def write_audit_def renews_to_def updated_member)
     (auto simp: renewal_result_def assign_def paid_for_def)

lemma mark_past_due_result:
  assumes "s \<in> set (subscriptions db)"
  shows "ensures (\<lambda>u db' _. renews_to env s u db') (mark_past_due env s reason) db w"
  using assms
  by (simp add: mark_past_due_def audit_renewal_def write_audit_def renews_to_def updated_member split: option.split)
     (auto simp: renewal_result_def assign_def)

lemma finalize_result:
  assumes "s \<in> set (subscriptions db)" and "s_cancel_at_period_end s" and "instant (s_current_period_end s) \<le> instant (time_at env n)"
  shows "ensures (\<lambda>u db' _. renews_to env s u db') (finalize_scheduled_cancellation deps env s) db w"
proof -
  have tail: "ensures (\<lambda>u db' _. renews_to env s u db') (andthen (suspend_license deps env None i None reason) (\<lambda>_.
     andthen (audit_renewal action u d) (\<lambda>_. ret u))) db w" if "renews_to env s u db" for i reason action d u db w
    unfolding ensures_andthen
    by (rule ensures_mono [OF ensures_honours [OF suspend_license_touches [OF subset_refl]]])
       (use that in \<open>auto simp: audit_renewal_def write_audit_def renews_to_def touches_tables(6)
          renewal_result_frame [OF touches_tables(1) touches_tables(10)]\<close>)
  have "renews_to env s (assign now (\<lambda>r. r\<lparr>s_status := SUB_CANCELLED, s_cancelled_at := Some t, s_auto_renew := False,
      s_past_due_at := None\<rparr>) (version s) s) (subscriptions_update (update_row now (\<lambda>r. r\<lparr>s_status := SUB_CANCELLED,
      s_cancelled_at := Some t, s_auto_renew := False, s_past_due_at := None\<rparr>) s) db)" for now t
    using assms by (simp add: renews_to_def updated_member, auto simp: renewal_result_def assign_def)
  with tail show ?thesis
    unfolding finalize_scheduled_cancellation_def by (simp only: ensures_andthen ensures_py_now ensures_save_row)
qed

text \<open>
  C22. What a renewal comes to. A renewal that returns leaves the subscription it returns in
  the table, in one of three states: active with the billing cycle that starts at a clock
  reading, no longer past due, and the plan's base price paid in full by a succeeded payment
  of the subscription (or nothing to pay); past due with its period unchanged and the moment
  it first became past due; or cancelled, when that was scheduled and the period is over.
\<close>

theorem renewal_outcome:
  assumes "get_by_id False i (subscriptions db) = Some s"
    and "process_renewal deps env (gateway_charge env (build_payment_gateway env)) i (db, w) = (Inr u, (db', w'))"
  shows "row_id u = row_id s \<and> u \<in> set (subscriptions db') \<and> renewal_result env s u db'"
proof -
  have gw: "build_payment_gateway env \<in> {StripePaymentGateway env, RazorpayPaymentGateway env}"
    by (simp add: build_payment_gateway_def)
  have s: "s \<in> set (subscriptions db)" using get_by_id_Some [OF assms(1)] by simp
  note charged = ensures_mono [OF renewal_charge [OF gw]]
  have "ensures (\<lambda>u db' _. renews_to env s u db') (process_renewal deps env (gateway_charge env (build_payment_gateway env)) i) db w"
    using s unfolding process_renewal_def Let_def compute_renewal_charge_amount_def get_plan_def
    by (simp add: assms(1) split: option.split)
       (auto simp: touches_tables intro!: charged finalize_result mark_past_due_result mark_renewed_result split: sum.split)
  then have "renews_to env s u db'" using assms(2) by (simp add: ensures_def)
  then show ?thesis by (simp add: renews_to_def)
qed


definition sample_renewal :: "(billing_exc + subscription) \<times> billing_db \<times> (string \<Rightarrow> cache_value option) billing_world" where
  "sample_renewal =
     process_renewal sweep_deps sample_env (gateway_charge sample_env (build_payment_gateway sample_env)) ''S'' (sample_db, sample_world)"

theorem renewal_outcome_witness:
  "\<exists>u db' w'. sample_renewal = (Inr u, (db', w')) \<and> s_status u = SUB_ACTIVE \<and> renewal_result sample_env sample_subscription u db'"
proof -
  have status: "case fst sample_renewal of Inr u \<Rightarrow> s_status u = SUB_ACTIVE | Inl e \<Rightarrow> False" by code_simp
  obtain r db' w' where r: "sample_renewal = (r, (db', w'))" by (cases sample_renewal) auto
  have "case r of Inr u \<Rightarrow> s_status u = SUB_ACTIVE | Inl e \<Rightarrow> False" using status by (simp only: r fst_conv)
  with r obtain u where run: "sample_renewal = (Inr u, (db', w'))" "s_status u = SUB_ACTIVE" by (cases r) auto
  have "get_by_id False ''S'' (subscriptions sample_db) = Some sample_subscription" by code_simp
  from renewal_outcome [OF this run(1) [unfolded sample_renewal_def]] run show ?thesis by blast
qed

end
