(* ===== verification/EntitlementCache.thy ===== *)
theory EntitlementCache
  imports LicenseLifecycle
begin

section \<open>The entitlement cache\<close>

text \<open>
  \<open>EntitlementChecker\<close> answers the license gate of every request from Redis and asks the license
  service on a miss; the license service deletes the entry of an organization with every write
  of its license. The specification of the gate reads the database: \<open>license_gate\<close>. A cache is
  \<open>coherent\<close> when the license part of every entry agrees with the stored license. Requests that
  use the services as \<open>dependencies.py\<close> wires them keep coherence, also when they raise and their
  session is rolled back, and in a coherent state the cached gate decides like the specification.
\<close>

subsection \<open>What is cached\<close>

type_synonym 'r cache_view = "'r \<Rightarrow> string \<Rightarrow> cache_value option"

definition license_of :: "uuid \<Rightarrow> billing_db \<Rightarrow> license option" where
  "license_of org db = get_license_by_organization_id org db"

definition coherent :: "'r cache_view \<Rightarrow> billing_db \<Rightarrow> 'r billing_world \<Rightarrow> bool" where
  "coherent view db w \<longleftrightarrow>
     (\<forall>org s. view (w_redis w) (cache_key org) = Some (SnapshotValue s) \<longrightarrow>
        (\<exists>l. license_of org db = Some l \<and> es_license_status s = l_status l \<and> es_plan_id s = l_plan_id l \<and>
           es_expires_at s = l_expires_at l))"

text \<open>Nothing is added to the cache; and neither cache nor licenses are touched.\<close>

definition shrinks :: "'r cache_view \<Rightarrow> billing_db \<times> 'r billing_world \<Rightarrow> billing_db \<times> 'r billing_world \<Rightarrow> bool" where
  "shrinks view s s' \<longleftrightarrow> view (w_redis (snd s')) \<subseteq>\<^sub>m view (w_redis (snd s))"

definition calm :: "billing_db \<times> 'r billing_world \<Rightarrow> billing_db \<times> 'r billing_world \<Rightarrow> bool" where
  "calm s s' \<longleftrightarrow> licenses (fst s') = licenses (fst s) \<and> w_redis (snd s') = w_redis (snd s)"

interpretation shrink: state_relation "shrinks view" for view
  by unfold_locales (auto simp: shrinks_def intro: map_le_trans)

interpretation calm: state_relation calm
  by unfold_locales (auto simp: calm_def)

lemma calm_shrinks: "stays calm m \<Longrightarrow> stays (shrinks view) m"
  unfolding stays_def calm_def shrinks_def by simp

lemma coherent_shrinks: "coherent view db w \<Longrightarrow> shrinks view (db, w) (db', w') \<Longrightarrow> coherent view db w'"
  unfolding coherent_def shrinks_def map_le_def by (metis domI snd_conv)

lemma coherent_calm: "coherent view db w \<Longrightarrow> calm (db, w) (db', w') \<Longrightarrow> coherent view db' w'"
  by (simp add: coherent_def calm_def license_of_def get_license_by_organization_id_def)

named_theorems calm_steps

lemma calm_modifies [calm_steps]: "(\<And>db. licenses (h db) = licenses db) \<Longrightarrow> stays calm (modifies_db h)"
  by (simp add: stays_def calm_def prog_simps split: prod.split)

lemma calm_clock [calm_steps]: "stays calm (py_now env)" "stays calm (uuid4 env)" "stays calm (db_now env)"
  by (simp_all add: stays_def calm_def py_now_def uuid4_def db_now_def prog_simps split: prod.split)

lemma calm_insert [calm_steps]:
  "(\<And>f db. licenses (upd f db) = licenses db) \<Longrightarrow> stays calm (insert_row env actor get upd uniq columns)"
  unfolding insert_row_def Let_def
  by (intro calm.stays_control calm_steps)
     (auto simp: stays_def calm_def stores_db_def split: prod.split sum.split)

lemma calm_save [calm_steps]:
  "(\<And>f db. licenses (upd f db) = licenses db) \<Longrightarrow> stays calm (save_row env upd inst data)"
  unfolding save_row_def by (intro calm.stays_control calm_steps) simp

lemma calm_reads [calm_steps]:
  "stays calm (get_license license_id requesting)" "stays calm (get_license_for_organization org)" "stays calm (get_active_plan plan_id)"
  "stays calm (get_organization org)" "stays calm (assert_transition a b)"
  unfolding get_license_def get_license_for_organization_def get_active_plan_def get_organization_def assert_transition_def
  by (intro calm.stays_control)+

lemma calm_write_audit [calm_steps]: "stays calm (write_audit actor action ty entity description metadata org)"
  unfolding write_audit_def by (intro calm_steps) simp

lemma calm_usage_read [calm_steps]: "stays calm (usage_read env org start period_end)"
  unfolding usage_read_def by (rule calm.stays_reads_world)

lemma calm_writes [calm_steps]:
  "stays calm (audit_license actor action l description)"
  "stays calm (create_change_log env license_id old new ty now actor reason)"
  "stays calm (sync_subscription_tier deps env org slug)" "stays calm (sync_subscription_plan deps env org new_plan)"
  "stays calm (record_metric env org start period_end now kv)" "stays calm (restore_powered_by_attribution env org actor)"
  unfolding audit_license_def create_change_log_def sync_subscription_tier_def sync_subscription_plan_def record_metric_def
    create_usage_metric_def restore_powered_by_attribution_def
  by (rule calm.stays_control calm_steps | (simp; fail))+

lemma calm_plan_change [calm_steps]:
  "stays calm (record_current_usage env org)" "stays calm (check_usage_against_plan env org plan_id)"
  "stays calm (reset_white_label_on_downgrade deps env org plan_id actor)"
  unfolding record_current_usage_def check_usage_against_plan_def reset_white_label_on_downgrade_def Let_def
  by (rule calm.stays_control calm_steps | (simp; fail))+


subsection \<open>Writes and invalidations\<close>

text \<open>The cache agrees with the licenses except for the organizations of a set, whose entry a
  request still has to delete.\<close>

definition agrees :: "'r cache_view \<Rightarrow> uuid \<Rightarrow> billing_db \<Rightarrow> 'r billing_world \<Rightarrow> bool" where
  "agrees view org db w \<longleftrightarrow>
     (\<forall>s. view (w_redis w) (cache_key org) = Some (SnapshotValue s) \<longrightarrow>
        (\<exists>l. license_of org db = Some l \<and> es_license_status s = l_status l \<and> es_plan_id s = l_plan_id l \<and>
           es_expires_at s = l_expires_at l))"

definition fresh_but :: "'r cache_view \<Rightarrow> uuid set \<Rightarrow> billing_db \<Rightarrow> 'r billing_world \<Rightarrow> bool" where
  "fresh_but view X db w \<longleftrightarrow> licenses_unique (licenses db) \<and> (\<forall>org. org \<notin> X \<longrightarrow> agrees view org db w)"

lemma coherent_iff: "coherent view db w \<longleftrightarrow> (\<forall>org. agrees view org db w)"
  by (auto simp: coherent_def agrees_def)

lemma fresh_but_none: "fresh_but view {} db w \<longleftrightarrow> licenses_unique (licenses db) \<and> coherent view db w"
  by (simp add: fresh_but_def coherent_iff)

lemma fresh_but_calm: "fresh_but view X db w \<Longrightarrow> calm (db, w) (db', w') \<Longrightarrow> fresh_but view X db' w'"
  by (simp add: fresh_but_def agrees_def calm_def license_of_def get_license_by_organization_id_def)

lemma calm_then:
  assumes "stays calm m" and "fresh_but view X db w"
    and "\<And>v db' w'. fresh_but view X db' w' \<Longrightarrow> licenses db' = licenses db \<Longrightarrow> ensures Q (f v) db' w'"
  shows "ensures Q (andthen m f) db w"
  unfolding ensures_andthen
proof (rule ensuresI)
  fix v db' w' assume run: "m (db, w) = (Inr v, (db', w'))"
  have "calm (db, w) (db', w')" by (rule stays_result [OF assms(1) run])
  with assms(2) show "ensures Q (f v) db' w'"
    by (intro assms(3)) (auto intro: fresh_but_calm simp: calm_def)
qed

lemma license_of_cong:
  assumes "filter (\<lambda>l. l_organization_id l = org) (licenses b) = filter (\<lambda>l. l_organization_id l = org) (licenses a)"
  shows "license_of org b = license_of org a"
proof -
  have "filter P (base_select False t) = base_select False (filter P t)" for P :: "license \<Rightarrow> bool" and t
    by (simp add: base_select_def conj_commute)
  with assms show ?thesis
    by (simp add: license_of_def get_license_by_organization_id_def first_row_def get_all_def)
qed

lemma agrees_other: "agrees view org db w \<Longrightarrow> license_of org db' = license_of org db \<Longrightarrow> w_redis w' = w_redis w \<Longrightarrow> agrees view org db' w'"
  by (simp add: agrees_def)

text \<open>A write of a license concerns its organization only.\<close>

lemma fresh_but_save:
  assumes fresh: "fresh_but view X db w" and l: "l \<in> set (licenses db)"
    and data: "\<And>r. l_organization_id (data r) = l_organization_id r"
  shows "fresh_but view (insert (l_organization_id l) X) (licenses_update (update_row now data l) db) w"
proof -
  have u: "licenses_unique (licenses db)" using fresh by (simp add: fresh_but_def)
  have org: "l_organization_id (assign now data v r) = l_organization_id r" for v r by (simp add: assign_def data)
  have "map l_organization_id (update_row now data l t) = map l_organization_id t" for t
    by (simp add: update_row_def org)
  with u have "licenses_unique (update_row now data l (licenses db))" by (simp add: licenses_unique_def)
  moreover have "agrees view o' (licenses_update (update_row now data l) db) w" if "o' \<noteq> l_organization_id l" "o' \<notin> X" for o'
  proof (rule agrees_other)
    show "agrees view o' db w" using fresh that by (simp add: fresh_but_def)
    have "row_id r \<noteq> row_id l" if "r \<in> set (licenses db)" "l_organization_id r = o'" for r
      using u l that \<open>o' \<noteq> l_organization_id l\<close> by (metis distinct_map_inj licenses_unique_def)
    moreover have "filter (\<lambda>r. l_organization_id r = o') (update_row now data l t) = filter (\<lambda>r. l_organization_id r = o') t"
      if "\<And>r. r \<in> set t \<Longrightarrow> l_organization_id r = o' \<Longrightarrow> row_id r \<noteq> row_id l" for t
      unfolding update_row_def using that by (induction t) (auto simp: org)
    ultimately have "filter (\<lambda>r. l_organization_id r = o') (update_row now data l (licenses db)) = filter (\<lambda>r. l_organization_id r = o') (licenses db)"
      by blast
    then show "license_of o' (licenses_update (update_row now data l) db) = license_of o' db" by (intro license_of_cong) simp
  qed simp
  ultimately show ?thesis by (auto simp: fresh_but_def)
qed

lemma save_then:
  assumes "fresh_but view X db w" and "l \<in> set (licenses db)" and "\<And>r. l_organization_id (data r) = l_organization_id r"
    and "\<And>u db' w'. l_organization_id u = l_organization_id l \<Longrightarrow> fresh_but view (insert (l_organization_id l) X) db' w' \<Longrightarrow>
      ensures Q (f u) db' w'"
  shows "ensures Q (andthen (save_row env licenses_update l data) f) db w"
proof -
  have "l_organization_id (assign now data v l) = l_organization_id l" for now v by (simp add: assign_def assms(3))
  then show ?thesis using assms by (auto intro!: assms(4) fresh_but_save)
qed

lemma get_license_then:
  assumes "fresh_but view X db w" and "\<And>l. l \<in> set (licenses db) \<Longrightarrow> ensures Q (f l) db w"
  shows "ensures Q (andthen (get_license license_id requesting) f) db w"
  using assms(2) by (auto simp: get_license_def split: option.split dest!: get_by_id_Some)

lemma cache_key_inj: "cache_key a = cache_key b \<longleftrightarrow> a = b"
  by (simp add: cache_key_def)

lemma invalidate_then:
  assumes laws: "kv_laws (redis_ops env) view" and fresh: "fresh_but view (insert org X) db w"
    and rest: "\<And>w'. fresh_but view X db w' \<Longrightarrow> ensures Q (f ()) db w'"
  shows "ensures Q (andthen (invalidate_entitlement_cache http_deps env org) f) db w"
proof -
  let ?w = "w\<lparr>w_redis := kv_delete (redis_ops env) (cache_key org) (w_redis w)\<rparr>"
  have del: "view (w_redis ?w) \<subseteq>\<^sub>m (view (w_redis w))(cache_key org := None)" using laws by (simp add: kv_laws_def)
  have "view (w_redis ?w) k = None \<or> (k \<noteq> cache_key org \<and> view (w_redis w) k = view (w_redis ?w) k)" for k
    using del unfolding map_le_def dom_def by (metis (mono_tags, lifting) fun_upd_other fun_upd_same mem_Collect_eq)
  then have "agrees view o' db ?w" if "o' \<notin> X" for o'
    using fresh that unfolding fresh_but_def agrees_def by (metis insertE option.discI)
  with fresh have "fresh_but view X db ?w" by (simp add: fresh_but_def)
  then show ?thesis
    by (simp add: invalidate_entitlement_cache_def http_deps_def cache_invalidate_def rest)
qed

lemma create_then:
  assumes fresh: "fresh_but view X db w"
    and rest: "\<And>l db' w'. l_organization_id l = org \<Longrightarrow> fresh_but view (insert org X) db' w' \<Longrightarrow> ensures Q (f l) db' w'"
  shows "ensures Q (andthen (create_license_row env actor org plan_id st expires_at) f) db w"
proof -
  let ?l = "new_row env w actor (license.fields org plan_id st None expires_at None None None)"
  let ?db = "licenses_update (\<lambda>_. licenses db @ [?l]) db" and ?w = "w\<lparr>w_supply := Suc (w_supply w)\<rparr>"
  have org: "l_organization_id ?l = org" by (simp add: new_row_def license.defs base_model.defs)
  have "fresh_but view (insert org X) ?db ?w"
    if "create_row (\<lambda>t. distinct (map l_organization_id t)) ?l (licenses db) = Inr (licenses db @ [?l])"
  proof -
    have "licenses_unique (licenses ?db)"
      using that fresh by (simp add: create_row_Inr fresh_but_def licenses_unique_def)
    moreover have "agrees view o' ?db ?w" if "o' \<noteq> org" "o' \<notin> X" for o'
      by (rule agrees_other [of view o' db w]) (use that fresh org in \<open>auto simp: fresh_but_def intro: license_of_cong\<close>)
    ultimately show ?thesis by (simp add: fresh_but_def)
  qed
  with org show ?thesis by (simp add: create_license_row_def rest)
qed


subsection \<open>Requests keep the cache coherent\<close>

lemma calm_return: "stays calm m \<Longrightarrow> fresh_but view X db w \<Longrightarrow> ensures (\<lambda>_ db' w'. fresh_but view X db' w') m db w"
  by (rule ensuresI) (blast intro: fresh_but_calm dest: stays_result)

lemma write_then_invalidate:
  assumes "kv_laws (redis_ops env) view" and "fresh_but view {} db w" and "l \<in> set (licenses db)"
    and "\<And>r. l_organization_id (data r) = l_organization_id r"
  shows "ensures (\<lambda>_ db' w'. fresh_but view {} db' w')
    (andthen (save_row env licenses_update l data) (\<lambda>u.
     andthen (invalidate_entitlement_cache http_deps env (l_organization_id u)) (\<lambda>_.
     andthen (audit_license actor action u (d u)) (\<lambda>_. ret u)))) db w"
  by (rule save_then [OF assms(2-4)], rule invalidate_then [OF assms(1)], simp)
     (rule calm_return, auto intro!: calm.stays_control calm_steps)

lemma refresh_status:
  assumes "kv_laws (redis_ops env) view" and "fresh_but view {} db w"
  shows "ensures (\<lambda>_ db' w'. fresh_but view {} db' w') (activate_license http_deps env actor license_id requesting) db w"
    "ensures (\<lambda>_ db' w'. fresh_but view {} db' w') (suspend_license http_deps env actor license_id requesting reason) db w"
    "ensures (\<lambda>_ db' w'. fresh_but view {} db' w') (cancel_license http_deps env actor license_id requesting) db w"
    "ensures (\<lambda>_ db' w'. fresh_but view {} db' w') (expire_license http_deps env license_id) db w"
  unfolding activate_license_def suspend_license_def cancel_license_def expire_license_def assert_transition_def
  by (rule get_license_then [OF assms(2)], simp only: ensures_andthen [of _ "guard b e" for b e] ensures_guard, rule impI,
      ((rule calm_then [OF calm_clock(1) assms(2)])?, rule write_then_invalidate [OF assms(1)];
       (simp add: assms(2); fail)?))+

lemma refresh_assign:
  assumes "kv_laws (redis_ops env) view" and "fresh_but view {} db w"
  shows "ensures (\<lambda>_ db' w'. fresh_but view {} db' w') (assign_license http_deps env actor org plan_id expires_at) db w"
  unfolding assign_license_def
  by (rule calm_then [OF calm.stays_reads_db assms(2)], rule calm_then [OF calm.stays_guard], assumption,
      rule calm_then [OF calm_reads(3)], assumption, rule create_then, assumption, rule calm_then [OF calm_clock(1)], assumption,
      rule calm_then [OF calm_writes(2)], assumption, rule calm_then [OF calm_writes(3)], assumption,
      rule invalidate_then [OF assms(1)], assumption, rule calm_return)
     (auto intro!: calm.stays_control calm_steps)

lemma refresh_change_plan:
  assumes "kv_laws (redis_ops env) view" and "fresh_but view {} db w"
  shows "ensures (\<lambda>_ db' w'. fresh_but view {} db' w') (change_plan http_deps env actor license_id requesting new_plan_id reason ty) db w"
proof -
  have usage: "stays calm (if b then andthen (check_usage_against_plan env org plan_id) (\<lambda>exceeded.
      guard (exceeded = []) (DowngradeBelowUsageError exceeded)) else ret ())" for b org plan_id
    by (intro calm.stays_control calm_steps)
  show ?thesis
    unfolding change_plan_def
    by (rule get_license_then [OF assms(2)], rule calm_then [OF calm.stays_guard assms(2)],
        rule calm_then [OF calm.stays_guard], assumption, rule calm_then [OF calm_reads(3)], assumption,
        rule calm_then [OF usage], assumption, rule save_then, assumption, simp, simp,
        rule calm_then [OF calm_clock(1)], assumption, rule calm_then [OF calm_writes(2)], assumption,
        rule calm_then [OF calm_writes(4)], assumption, rule calm_then [OF calm_writes(3)], assumption,
        rule invalidate_then [OF assms(1)], simp, rule calm_return)
       (auto intro!: calm.stays_control calm_steps)
qed


text \<open>Whether they return or raise, the services add nothing to the cache.\<close>

lemma shrink_modifies: "stays (shrinks view) (modifies_db h)"
  by (simp add: stays_def shrinks_def prog_simps split: prod.split)

lemma shrink_rows:
  "stays (shrinks view) (save_row env upd inst data)" "stays (shrinks view) (insert_row env actor get upd' uniq columns)"
  unfolding save_row_def insert_row_def Let_def
  by (rule shrink.stays_control shrink_modifies calm_shrinks [OF calm_clock(1)] calm_shrinks [OF calm_clock(2)] calm_shrinks [OF calm_clock(3)]
     | (auto simp: stays_def shrinks_def stores_db_def split: prod.split sum.split; fail))+

lemma shrink_invalidate: "kv_laws (redis_ops env) view \<Longrightarrow> stays (shrinks view) (invalidate_entitlement_cache deps env org)"
  unfolding invalidate_entitlement_cache_def
  by (rule shrink.stays_control | rule conjI impI)+
     (auto simp: cache_invalidate_def stays_def shrinks_def prog_simps kv_laws_def map_le_def split: prod.split if_splits,
      metis domI fun_upd_apply option.simps(3))

lemma shrink_license_service:
  assumes "kv_laws (redis_ops env) view"
  shows "stays (shrinks view) (assign_license http_deps env actor org plan_id expires_at)"
    "stays (shrinks view) (activate_license http_deps env actor license_id requesting)"
    "stays (shrinks view) (suspend_license http_deps env actor license_id requesting reason)"
    "stays (shrinks view) (cancel_license http_deps env actor license_id requesting)"
    "stays (shrinks view) (expire_license http_deps env license_id)"
    "stays (shrinks view) (change_plan http_deps env actor license_id requesting new_plan_id reason' ty)"
  unfolding assign_license_def activate_license_def suspend_license_def cancel_license_def expire_license_def change_plan_def
    create_license_row_def
  by (rule shrink_invalidate [OF assms] shrink_rows shrink.stays_control | (rule calm_shrinks, (rule calm_steps; fail)))+


subsection \<open>The gate\<close>

text \<open>The specification: the license row and the clock decide.\<close>

definition license_gate :: "'r billing_env \<Rightarrow> uuid \<Rightarrow> billing_db \<Rightarrow> 'r billing_world \<Rightarrow> billing_exc + uuid option" where
  "license_gate env org db w =
     (case license_of org db of
        None \<Rightarrow> Inl (LicenseNotActiveError org)
      | Some l \<Rightarrow>
          if l_status l = LICENSE_ACTIVE \<and>
             (case l_expires_at l of None \<Rightarrow> True | Some t \<Rightarrow> instant (time_at env (w_clock w)) < instant t)
          then Inr (Some org) else Inl (LicenseNotActiveError org))"

definition snapshot_agrees :: "license \<Rightarrow> entitlement_snapshot \<Rightarrow> bool" where
  "snapshot_agrees l s \<longleftrightarrow>
     es_license_status s = l_status l \<and> es_plan_id s = l_plan_id l \<and> es_expires_at s = l_expires_at l"

lemma agrees_iff:
  "agrees view org db w \<longleftrightarrow>
     (\<forall>s. view (w_redis w) (cache_key org) = Some (SnapshotValue s) \<longrightarrow> (\<exists>l. license_of org db = Some l \<and> snapshot_agrees l s))"
  by (simp add: agrees_def snapshot_agrees_def)

lemma entitlement_snapshot_run:
  "\<exists>s. get_entitlement_snapshot deps org (db, w) =
     (case license_of org db of None \<Rightarrow> (Inl (LicenseNotFoundError org), (db, w)) | Some l \<Rightarrow> (Inr s, (db, w))) \<and>
   (\<forall>l. license_of org db = Some l \<longrightarrow> snapshot_agrees l s)"
  by (cases "license_of org db")
     (auto simp: get_entitlement_snapshot_def get_license_for_organization_def license_of_def Let_def prog_simps snapshot_agrees_def)

text \<open>Answering from the cache, or filling it, keeps it coherent.\<close>

lemma get_snapshot_run:
  assumes laws: "kv_laws (redis_ops env) view" and coh: "coherent view db w"
  obtains (missing) w' where "get_snapshot deps env org (db, w) = (Inl (LicenseNotFoundError org), (db, w'))" "license_of org db = None"
      "coherent view db w'" "w_clock w' = w_clock w"
  | (found) s l w' where "get_snapshot deps env org (db, w) = (Inr s, (db, w'))" "license_of org db = Some l" "snapshot_agrees l s"
      "coherent view db w'" "w_clock w' = w_clock w"
proof -
  obtain v r where get: "kv_get (redis_ops env) (cache_key org) (w_redis w) = (v, r)" by (cases "kv_get (redis_ops env) (cache_key org) (w_redis w)")
  let ?w = "w\<lparr>w_redis := r\<rparr>"
  have v: "v = view r (cache_key org)" and sub: "view r \<subseteq>\<^sub>m view (w_redis w)"
    using laws get unfolding kv_laws_def by (metis fst_conv snd_conv)+
  have coh1: "coherent view db ?w"
    using coherent_shrinks [OF coh] sub by (fastforce simp: shrinks_def)
  consider (hit) s where "v = Some (SnapshotValue s)" | (miss) "\<And>s. v \<noteq> Some (SnapshotValue s)" by blast
  then show thesis
  proof cases
    case hit
    then obtain l where "license_of org db = Some l" "snapshot_agrees l s"
      using coh1 v by (auto simp: coherent_iff agrees_iff)
    moreover have "get_snapshot deps env org (db, w) = (Inr s, (db, ?w))"
      by (simp add: get_snapshot_def cache_get_def prog_simps get hit)
    ultimately show thesis using coh1 found [of s ?w l] by simp
  next
    case miss
    then have cached: "(case v of Some (SnapshotValue s) \<Rightarrow> Some s | _ \<Rightarrow> None) = None" by (auto split: option.split cache_value.split)
    obtain s where s: "get_entitlement_snapshot deps org (db, ?w) =
        (case license_of org db of None \<Rightarrow> (Inl (LicenseNotFoundError org), (db, ?w)) | Some l \<Rightarrow> (Inr s, (db, ?w)))"
      "\<And>l. license_of org db = Some l \<Longrightarrow> snapshot_agrees l s"
      using entitlement_snapshot_run by blast
    show thesis
    proof (cases "license_of org db")
      case None
      then have "get_snapshot deps env org (db, w) = (Inl (LicenseNotFoundError org), (db, ?w))"
        using s(1) by (simp add: get_snapshot_def cache_get_def prog_simps get cached)
      then show thesis using None coh1 missing [of ?w] by simp
    next
      case (Some l)
      let ?w2 = "?w\<lparr>w_redis := kv_set (redis_ops env) (cache_key org) (SnapshotValue s) (entitlement_cache_ttl env) r\<rparr>"
      have "get_snapshot deps env org (db, w) = (Inr s, (db, ?w2))"
        using s(1) Some by (simp add: get_snapshot_def cache_get_def cache_set_def prog_simps get cached)
      moreover have "view (w_redis ?w2) \<subseteq>\<^sub>m (view r)(cache_key org \<mapsto> SnapshotValue s)" using laws by (simp add: kv_laws_def)
      then have "view (w_redis ?w2) k = None \<or> view (w_redis ?w2) k = ((view r)(cache_key org \<mapsto> SnapshotValue s)) k" for k
        by (auto simp: map_le_def dom_def)
      note entry = this
      have "agrees view o' db ?w2" for o'
        unfolding agrees_iff
      proof (intro allI impI)
        fix t assume "view (w_redis ?w2) (cache_key o') = Some (SnapshotValue t)"
        with entry [of "cache_key o'"] have "((view r)(cache_key org \<mapsto> SnapshotValue s)) (cache_key o') = Some (SnapshotValue t)" by simp
        then have "o' = org \<and> t = s \<or> view (w_redis ?w) (cache_key o') = Some (SnapshotValue t)"
          by (auto simp: cache_key_inj split: if_splits)
        then show "\<exists>l. license_of o' db = Some l \<and> snapshot_agrees l t"
          using Some s(2) coh1 by (auto simp: coherent_iff agrees_iff)
      qed
      ultimately show thesis using Some s(2) found [of s ?w2 l] by (simp add: coherent_iff)
    qed
  qed
qed

lemma require_active_license_run:
  assumes "kv_laws (redis_ops env) view" and "coherent view db w"
  shows "\<exists>w'. require_active_license deps env (Some org) (db, w) = (license_gate env org db w, (db, w')) \<and> coherent view db w'"
  using assms
proof (cases rule: get_snapshot_run [of env view db w deps org])
  case (missing w')
  then show ?thesis
    by (simp add: require_active_license_def license_gate_def catching_def prog_simps)
next
  case (found s l w')
  moreover have "coherent view db (w'\<lparr>w_clock := n\<rparr>)" for n using found by (simp add: coherent_def)
  ultimately show ?thesis
    by (auto simp: require_active_license_def license_gate_def catching_def snapshot_is_active_def prog_simps snapshot_agrees_def
      py_now_def split: option.split)
qed

lemma require_feature_run:
  assumes "kv_laws (redis_ops env) view" and "coherent view db w"
  shows "\<exists>r w'. require_feature deps env k org (db, w) = (r, (db, w')) \<and> coherent view db w'"
proof (cases org)
  case None
  then show ?thesis using assms by (auto simp: require_feature_def require_active_license_def prog_simps)
next
  case (Some i)
  obtain w1 where gate: "require_active_license deps env (Some i) (db, w) = (license_gate env i db w, (db, w1))" "coherent view db w1"
    using require_active_license_run [OF assms] by blast
  from assms(1) gate(2) show ?thesis
    by (cases rule: get_snapshot_run [of env view db w1 deps i])
       (use gate Some in \<open>auto simp: require_feature_def license_gate_def prog_simps split: option.split\<close>)
qed


subsection \<open>Refinement\<close>

inductive license_request :: "'r billing_env \<Rightarrow> ('r, unit) bprog \<Rightarrow> bool" for env where
  "license_request env (discard (assign_license http_deps env actor org plan_id expires_at))"
| "license_request env (discard (activate_license http_deps env actor license_id requesting))"
| "license_request env (discard (suspend_license http_deps env actor license_id requesting reason))"
| "license_request env (discard (cancel_license http_deps env actor license_id requesting))"
| "license_request env (discard (expire_license http_deps env license_id))"
| "license_request env (discard (upgrade_license http_deps env actor license_id requesting new_plan_id reason'))"
| "license_request env (discard (downgrade_license http_deps env actor license_id requesting new_plan_id reason'))"
| "license_request env (discard (require_active_license http_deps env org'))"
| "license_request env (discard (require_feature http_deps env k org'))"

definition license_step ::
  "'r billing_env \<Rightarrow> billing_db \<times> 'r billing_world \<Rightarrow> billing_db \<times> 'r billing_world \<Rightarrow> bool" where
  "license_step env s s' \<longleftrightarrow> (\<exists>m. license_request env m \<and> s' = snd (with_db_session m s))"

lemma license_stepI: "license_request env m \<Longrightarrow> license_step env s (snd (with_db_session m s))"
  by (auto simp: license_step_def)

text \<open>A request that adds nothing to the cache may raise anywhere: its writes are rolled back.\<close>

lemma session_fresh:
  assumes "stays (shrinks view) m" and "fresh_but view {} db w" and "ensures (\<lambda>_ db' w'. fresh_but view {} db' w') m db w"
    and "snd (with_db_session (discard m) (db, w)) = (db', w')"
  shows "fresh_but view {} db' w'"
proof -
  obtain r db1 w1 where run: "m (db, w) = (r, (db1, w1))" by (metis prod.exhaust)
  show ?thesis
  proof (cases r)
    case (Inl e)
    then have "db' = db" "w' = w1" using assms(4) run by (simp_all add: discard_def with_db_session_def andthen_def)
    moreover have "coherent view db w1"
      using coherent_shrinks [of view db w db1 w1] stays_result [OF assms(1) run] assms(2) by (simp add: fresh_but_none)
    ultimately show ?thesis using assms(2) by (simp add: fresh_but_none)
  next
    case (Inr v)
    then have "db' = db1" "w' = w1" using assms(4) run by (simp_all add: discard_def with_db_session_def andthen_def ret_def)
    moreover have "fresh_but view {} db1 w1" using assms(3) run Inr by (simp add: ensures_def)
    ultimately show ?thesis by simp
  qed
qed

lemma license_step_fresh:
  assumes "kv_laws (redis_ops env) view" and "license_step env (db, w) (db', w')" and "fresh_but view {} db w"
  shows "fresh_but view {} db' w'"
proof -
  obtain m where m: "license_request env m" and run: "snd (with_db_session m (db, w)) = (db', w')"
    using assms(2) by (auto simp: license_step_def)
  note keep = session_fresh [OF shrink_license_service(1) [OF assms(1)] assms(3) refresh_assign [OF assms(1,3)]]
    session_fresh [OF shrink_license_service(2) [OF assms(1)] assms(3) refresh_status(1) [OF assms(1,3)]]
    session_fresh [OF shrink_license_service(3) [OF assms(1)] assms(3) refresh_status(2) [OF assms(1,3)]]
    session_fresh [OF shrink_license_service(4) [OF assms(1)] assms(3) refresh_status(3) [OF assms(1,3)]]
    session_fresh [OF shrink_license_service(5) [OF assms(1)] assms(3) refresh_status(4) [OF assms(1,3)]]
    session_fresh [OF shrink_license_service(6) [OF assms(1)] assms(3) refresh_change_plan [OF assms(1,3)]]
  have gate: "fresh_but view {} db' w'" if "g (db, w) = (r, (db, w1))" "coherent view db w1" "m = discard g"
    for g :: "('a, uuid option) bprog" and r w1
    using that run assms(3) by (auto simp: with_db_session_def discard_def andthen_def ret_def fresh_but_none split: sum.splits)
  have coh: "coherent view db w" using assms(3) by (simp add: fresh_but_none)
  from m show ?thesis
  proof cases
    case (8 org')
    show ?thesis
    proof (cases org')
      case None
      show ?thesis by (rule gate [OF _ coh 8]) (simp add: None require_active_license_def prog_simps)
    next
      case (Some i)
      then show ?thesis using require_active_license_run [OF assms(1) coh, of http_deps i] gate [OF _ _ 8] by blast
    qed
  next
    case (9 k org')
    then show ?thesis using require_feature_run [OF assms(1) coh, of http_deps k org'] gate [OF _ _ 9] by blast
  qed (use run keep in \<open>auto simp: upgrade_license_def downgrade_license_def\<close>)
qed

text \<open>
  C8. The cached license gate refines the gate that reads the database. With any Redis that keeps
  its documented promises, after any sequence of license requests and gate checks, each in its
  own session and each allowed to raise anywhere, the check answered from the cache decides
  exactly as the stored license and the clock do; entries may expire at any time.
\<close>

theorem cached_gate_refines:
  assumes "kv_laws (redis_ops env) view" and "(license_step env)\<^sup>*\<^sup>* (db, w) (db', w')"
    and "licenses_unique (licenses db)" and "coherent view db w"
  shows "fst (require_active_license http_deps env (Some org) (db', w')) = license_gate env org db' w' \<and>
    coherent view db' w' \<and> licenses_unique (licenses db')"
proof -
  have "fresh_but view {} (fst s') (snd s')" if "(license_step env)\<^sup>*\<^sup>* s s'" "fresh_but view {} (fst s) (snd s)" for s s'
    using that(1,2)
  proof (induction rule: rtranclp_induct)
    case (step y z)
    then show ?case using license_step_fresh [OF assms(1), of "fst y" "snd y" "fst z" "snd z"] by simp
  qed simp
  from this [OF assms(2)] have fresh: "fresh_but view {} db' w'" using assms(3,4) by (simp add: fresh_but_none)
  then have "coherent view db' w'" by (simp add: fresh_but_none)
  from require_active_license_run [OF assms(1) this, of http_deps org] fresh show ?thesis
    by (auto simp: fresh_but_none)
qed


definition sample_gated :: "billing_db \<times> (string \<Rightarrow> cache_value option) billing_world" where
  "sample_gated =
     snd (with_db_session (discard (suspend_license http_deps sample_env None ''L'' None ''overdue''))
       (snd (with_db_session (discard (require_active_license http_deps sample_env (Some ''O''))) (sample_db, sample_world))))"

theorem cached_gate_refines_witness:
  "fst (require_active_license http_deps sample_env (Some ''O'') (sample_db, sample_world)) = Inr (Some ''O'') \<and>
   fst (require_active_license http_deps sample_env (Some ''O'') sample_gated) = Inl (LicenseNotActiveError ''O'')"
proof -
  have laws: "kv_laws (redis_ops sample_env) id" using sample_kv_laws by (simp add: sample_env_def)
  have unique: "licenses_unique (licenses sample_db)" by code_simp
  have coh: "coherent id sample_db sample_world" by (simp add: coherent_def sample_world_def)
  have before: "license_gate sample_env ''O'' sample_db sample_world = Inr (Some ''O'')" by code_simp
  have after: "license_gate sample_env ''O'' (fst sample_gated) (snd sample_gated) = Inl (LicenseNotActiveError ''O'')" by code_simp
  obtain db' w' where g: "sample_gated = (db', w')" by (cases sample_gated)
  have "(license_step sample_env)\<^sup>*\<^sup>* (sample_db, sample_world) sample_gated"
    unfolding sample_gated_def
    by (rule rtranclp.rtrancl_into_rtrancl [OF r_into_rtranclp]; rule license_stepI; rule license_request.intros)
  then have steps: "(license_step sample_env)\<^sup>*\<^sup>* (sample_db, sample_world) (db', w')" by (simp only: g)
  have "fst (require_active_license http_deps sample_env (Some ''O'') (db', w')) = license_gate sample_env ''O'' db' w'"
    using cached_gate_refines [OF laws steps unique coh] by blast
  moreover have "fst (require_active_license http_deps sample_env (Some ''O'') (sample_db, sample_world)) =
      license_gate sample_env ''O'' sample_db sample_world"
    using cached_gate_refines [OF laws rtranclp.rtrancl_refl unique coh] by blast
  ultimately show ?thesis using before after by (simp only: g fst_conv snd_conv)
qed


subsection \<open>The sweep and the cache\<close>

definition same_redis :: "billing_db \<times> 'r billing_world \<Rightarrow> billing_db \<times> 'r billing_world \<Rightarrow> bool" where
  "same_redis s s' \<longleftrightarrow> w_redis (snd s') = w_redis (snd s)"

interpretation sr: state_relation same_redis
  by unfold_locales (auto simp: same_redis_def)

named_theorems redis_steps

lemma redis_basic [redis_steps]:
  "stays same_redis (modifies_db h)" "stays same_redis (py_now env)" "stays same_redis (uuid4 env)" "stays same_redis (db_now env)"
  "stays same_redis (call_provider env c)" "stays same_redis (stores_db wr g)"
  by (simp_all add: stays_def same_redis_def py_now_def uuid4_def db_now_def call_provider_def prog_simps split: prod.split sum.split)

lemma redis_rows [redis_steps]:
  "stays same_redis (save_row env upd inst data)" "stays same_redis (insert_row env actor get upd' uniq columns)"
  "stays same_redis (write_audit actor' action ty entity description metadata org)"
  unfolding save_row_def insert_row_def Let_def write_audit_def by (intro sr.stays_control redis_steps)+

lemma sweep_never_invalidates: "invalidate_entitlement_cache sweep_deps env org = ret ()"
  by (simp add: invalidate_entitlement_cache_def sweep_deps_def)

lemma redis_sweep_licenses [redis_steps]:
  "stays same_redis (suspend_license sweep_deps env actor license_id requesting reason)" "stays same_redis (expire_license sweep_deps env license_id)"
  unfolding suspend_license_def expire_license_def get_license_def assert_transition_def sweep_never_invalidates audit_license_def
  by (rule sr.stays_control redis_steps)+

lemma redis_charges [redis_steps]:
  "stays same_redis (stripe_attempt_charge env p key)" "stays same_redis (razorpay_attempt_charge env p)"
  unfolding stripe_attempt_charge_def razorpay_attempt_charge_def token_or_fail_def default_payment_method_token_def save_payment_def
    mark_declined_def mark_succeeded_def Let_def
  by (rule sr.stays_control redis_steps | (split provider_reply.split billing_exc.split, intro conjI allI impI))+

lemma redis_gateway [redis_steps]: "stays same_redis (gateway_charge env (build_payment_gateway env) org amount currency subscription_id)"
  unfolding gateway_charge_def charge_via_provider_def build_payment_gateway_def StripePaymentGateway_def RazorpayPaymentGateway_def
    fail_not_configured_def mark_declined_def save_payment_def not_configured_def create_payment_def
  by (auto intro!: sr.stays_control redis_steps)

lemma redis_renewal [redis_steps]:
  "stays same_redis (audit_renewal action s d)" "stays same_redis (mark_renewed env s p amount)" "stays same_redis (mark_past_due env s reason)"
  "stays same_redis (finalize_scheduled_cancellation sweep_deps env s)" "stays same_redis (lapse_one sweep_deps env now s)"
  "stays same_redis (expire_one sweep_deps env now s)" "stays same_redis (send_reminder_email s ty subject)" "stays same_redis (plan_for_email s)"
  "stays same_redis (plus_days t n)" "stays same_redis (next_period_end t c)" "stays same_redis (get_plan b plan_id)"
  unfolding audit_renewal_def mark_renewed_def mark_past_due_def finalize_scheduled_cancellation_def lapse_one_def expire_one_def
    send_reminder_email_def plan_for_email_def plus_days_def next_period_end_def get_plan_def get_organization_def
  by (rule sr.stays_control redis_steps)+

lemma redis_sweep: "stays same_redis (run_renewal_sweep sweep_deps env (gateway_charge env (build_payment_gateway env)))"
  unfolding run_renewal_sweep_def phase_def process_due_renewals_def process_renewal_def Let_def
    lapse_non_renewing_subscriptions_def expire_lapsed_subscriptions_def send_renewal_reminders_def send_expiry_reminders_def
  by (rule sr.stays_control redis_steps | (split billing_exc.split sum.split, intro conjI allI impI))+

text \<open>
  The sweep leaves the entitlement cache as it is. The sweep's license service has no cache to
  invalidate, so whatever the sweep did to the license of an organization (suspended at the end
  of the period, expired after the grace period), a cached active entry keeps the license gate
  open until it expires.
\<close>

theorem sweep_leaves_gate_open:
  assumes "run_renewal_sweep_task env (db, w) = (r, (db', w'))"
    and "fst (kv_get (redis_ops env) (cache_key org) (w_redis w)) = Some (SnapshotValue s)"
    and "es_license_status s = LICENSE_ACTIVE" and "es_expires_at s = None"
  shows "w_redis w' = w_redis w \<and> fst (require_active_license http_deps env (Some org) (db', w')) = Inr (Some org)"
proof -
  have "stays same_redis (run_renewal_sweep_task env)"
    using redis_sweep [of env]
    by (auto simp: run_renewal_sweep_task_def with_db_session_def stays_def same_redis_def split: prod.split sum.split)
       (metis snd_conv)+
  from stays_result [OF this assms(1)] have same: "w_redis w' = w_redis w" by (simp add: same_redis_def)
  obtain q where "kv_get (redis_ops env) (cache_key org) (w_redis w') = (Some (SnapshotValue s), q)"
    using assms(2) same by (metis fst_conv prod.exhaust)
  with assms(3,4) same show ?thesis
    by (simp add: require_active_license_def catching_def get_snapshot_def cache_get_def snapshot_is_active_def prog_simps)
qed


definition cached_world :: "(string \<Rightarrow> cache_value option) billing_world" where
  "cached_world = sample_world\<lparr>w_redis := [cache_key ''O'' \<mapsto> SnapshotValue
     \<lparr>es_organization_id = ''O'', es_plan_id = ''P'', es_license_status = LICENSE_ACTIVE, es_expires_at = None,
      es_enabled_features = [], es_limits = [], es_tiers = []\<rparr>]\<rparr>"

theorem sweep_leaves_gate_open_witness:
  "fst (require_active_license http_deps sample_env (Some ''O'') (snd (run_renewal_sweep_task sample_env (sample_db, cached_world)))) =
     Inr (Some ''O'')"
proof -
  obtain r db' w' where run: "run_renewal_sweep_task sample_env (sample_db, cached_world) = (r, (db', w'))" by (metis prod.exhaust)
  show ?thesis
    unfolding run using sweep_leaves_gate_open [OF run, of "''O''"] by (simp add: cached_world_def sample_env_def sample_kv_def)
qed

end
