(* ===== verification/RenewalGaps.thy ===== *)
theory RenewalGaps
  imports BillingSample
begin

section \<open>Where the billing services fall short\<close>

text \<open>
  Reachable behaviour that the code does not mean: a past-due subscription resumed without a
  charge, a cancelled one revived by a late webhook, and a webhook whose handling failed and
  that is never applied.
\<close>

text \<open>
  Resuming skips the bill. \<open>resume_subscription\<close> accepts a past-due subscription: it becomes
  active for a whole new period while no provider is asked and no payment is recorded, and it
  keeps the moment it became past due, so that its next failed renewal starts with the old
  grace period.
\<close>

theorem resume_past_due_unpaid:
  assumes "get_by_id False i (subscriptions db) = Some s" and "s_status s = PAST_DUE"
    and "instant (s_current_period_end s) \<le> instant (time_at env (w_clock w))"
    and "add_billing_cycle (time_at env (w_clock w)) (s_billing_cycle s) = Inr period_end"
  shows "\<exists>u db' w'. resume_subscription env actor i None (db, w) = (Inr u, (db', w')) \<and> s_status u = SUB_ACTIVE \<and>
    s_current_period_end u = period_end \<and> s_past_due_at u = s_past_due_at s \<and> payments db' = payments db \<and> w_calls w' = w_calls w"
  using assms
  by (simp add: resume_subscription_def get_subscription_def assert_subscription_transition_def next_period_end_def
    audit_subscription_def write_audit_def save_row_def db_now_def py_now_def prog_simps assign_def)

definition past_due_db :: billing_db where
  "past_due_db = sample_db\<lparr>subscriptions := [sample_subscription\<lparr>s_status := PAST_DUE, s_past_due_at := Some (day_of_2026 2 1)\<rparr>]\<rparr>"

theorem resume_past_due_unpaid_witness:
  "\<exists>u db' w'. resume_subscription sample_env None ''S'' None (past_due_db, sample_world) = (Inr u, (db', w')) \<and> s_status u = SUB_ACTIVE \<and>
     s_current_period_end u = day_of_2026 4 1 \<and> s_past_due_at u = Some (day_of_2026 2 1) \<and> payments db' = [] \<and> w_calls w' = []"
proof -
  let ?s = "sample_subscription\<lparr>s_status := PAST_DUE, s_past_due_at := Some (day_of_2026 2 1)\<rparr>"
  have "get_by_id False ''S'' (subscriptions past_due_db) = Some ?s" by code_simp
  moreover have "instant (s_current_period_end ?s) \<le> instant (time_at sample_env (w_clock sample_world))" by code_simp
  moreover have "add_billing_cycle (time_at sample_env (w_clock sample_world)) (s_billing_cycle ?s) = Inr (day_of_2026 4 1)" by code_simp
  ultimately show ?thesis
    using resume_past_due_unpaid [of "''S''" past_due_db ?s sample_env sample_world "day_of_2026 4 1" None]
    by (simp add: past_due_db_def sample_db_def empty_billing_def sample_world_def)
qed

text \<open>A payment confirmed late makes any subscription active again, a cancelled one too.\<close>

lemma late_payment_revives:
  assumes "get_by_id False i (subscriptions db) = Some s" and "get_by_id False (s_plan_id s) (plans db) = Some p"
    and "add_billing_cycle (time_at env (w_clock w)) (s_billing_cycle s) = Inr period_end"
  shows "\<exists>u s'. confirm_renewal_payment_succeeded env i (db, w) = (Inr u, s') \<and> s_status u = SUB_ACTIVE \<and> s_current_period_end u = period_end"
  using assms
  by (simp add: confirm_renewal_payment_succeeded_def get_plan_def mark_renewed_def next_period_end_def audit_renewal_def write_audit_def
    save_row_def db_now_def py_now_def prog_simps assign_def)

text \<open>
  A webhook that failed is never applied. The event is marked in Redis before it is applied;
  when applying it raises, the database is rolled back and the provider told to deliver again,
  but every later delivery finds the mark, answers success and changes nothing.
\<close>

theorem failed_webhook_never_applied:
  assumes "process_stripe_event env ev (db, w) = (Inl e, (db1, w1))"
    and "fst (kv_set_nx (redis_ops env) (dedup_key ''stripe'' (se_id ev)) MarkerValue (webhook_dedup_ttl env) (w_redis w1)) = False"
  shows "fst (stripe_webhook env (Inr ev) (db, w)) = Inl e \<and> fst (snd (stripe_webhook env (Inr ev) (db, w))) = db \<and>
    fst (stripe_webhook env (Inr ev) (snd (stripe_webhook env (Inr ev) (db, w)))) = Inr () \<and>
    fst (snd (stripe_webhook env (Inr ev) (snd (stripe_webhook env (Inr ev) (db, w))))) = db"
proof -
  obtain r where again: "kv_set_nx (redis_ops env) (dedup_key ''stripe'' (se_id ev)) MarkerValue (webhook_dedup_ttl env) (w_redis w1) = (False, r)"
    using assms(2) by (metis fst_conv prod.exhaust)
  have first: "stripe_webhook env (Inr ev) (db, w) = (Inl e, (db, w1))"
    by (simp add: stripe_webhook_def with_db_session_def andthen_def assms(1))
  have "stripe_webhook env (Inr ev) (db, w1) = (Inr (), (db, w1\<lparr>w_redis := r\<rparr>))"
    by (simp add: stripe_webhook_def with_db_session_def process_stripe_event_def mark_processed_if_new_def prog_simps again)
  with first show ?thesis by simp
qed

definition retired_plan_db :: billing_db where
  "retired_plan_db = sample_db\<lparr>plans := [sample_plan\<lparr>is_deleted := True\<rparr>],
     payments := [base_model.extend (sample_base ''Y'')
       (payment.fields ''O'' (Some ''S'') 100 ''USD'' PENDING ''stripe'' (Some ''pi'') ''k1'' None 0 None None)]\<rparr>"

definition captured_event :: stripe_event where
  "captured_event = \<lparr>se_id = ''e1'', se_type = ''payment_intent.succeeded'', se_intent_id = Some ''pi'', se_error_message = None\<rparr>"

theorem failed_webhook_never_applied_witness:
  "fst (stripe_webhook sample_env (Inr captured_event) (retired_plan_db, sample_world)) = Inl (PlanNotFoundError ''P'') \<and>
   fst (snd (stripe_webhook sample_env (Inr captured_event)
     (snd (stripe_webhook sample_env (Inr captured_event) (retired_plan_db, sample_world))))) = retired_plan_db"
proof -
  let ?run = "process_stripe_event sample_env captured_event (retired_plan_db, sample_world)"
  have "fst ?run = Inl (PlanNotFoundError ''P'')" by code_simp
  then have run: "?run = (Inl (PlanNotFoundError ''P''), (fst (snd ?run), snd (snd ?run)))" by (simp add: prod_eq_iff)
  have "fst (kv_set_nx (redis_ops sample_env) (dedup_key ''stripe'' (se_id captured_event)) MarkerValue
     (webhook_dedup_ttl sample_env) (w_redis (snd (snd ?run)))) = False" by code_simp
  from failed_webhook_never_applied [OF run this] show ?thesis by blast
qed

end
