(* ===== verification/OrganizationData.thy ===== *)
theory OrganizationData
  imports Transitions
begin

section \<open>Organizations: data\<close>

text \<open>
  \<open>app/domains/organization/enums.py\<close> and \<open>models.py\<close>: organizations, which an MSP organization can own,
  and the memberships of users. Of the JSON column \<open>settings\<close> the code reads and writes the
  \<open>branding\<close> dictionary; what else is stored there is kept as it is.
\<close>

definition in_quotes :: "string \<Rightarrow> string" where
  "in_quotes s = [CHR 0x27] @ s @ [CHR 0x27]"

datatype OrganizationType = STANDARD | MSP

datatype OrganizationStatus = ORG_TRIAL | ORG_ACTIVE | ORG_SUSPENDED | ORG_ARCHIVED

fun OrganizationStatus_value :: "OrganizationStatus \<Rightarrow> string" where
  "OrganizationStatus_value ORG_TRIAL = ''trial''"
| "OrganizationStatus_value ORG_ACTIVE = ''active''"
| "OrganizationStatus_value ORG_SUSPENDED = ''suspended''"
| "OrganizationStatus_value ORG_ARCHIVED = ''archived''"

datatype MembershipStatus = INVITED | MEMBER_ACTIVE | MEMBER_SUSPENDED | REMOVED

fun MembershipStatus_value :: "MembershipStatus \<Rightarrow> string" where
  "MembershipStatus_value INVITED = ''invited''"
| "MembershipStatus_value MEMBER_ACTIVE = ''active''"
| "MembershipStatus_value MEMBER_SUSPENDED = ''suspended''"
| "MembershipStatus_value REMOVED = ''removed''"

record org_settings =
  os_branding :: "(string \<times> string) list option"
  os_other :: "(string \<times> string) list"

record organization_row = base_model +
  og_name :: string
  og_slug :: string
  og_legal_name :: "string option"
  og_org_type :: OrganizationType
  og_status :: OrganizationStatus
  og_parent :: "uuid option"
  og_contact_email :: string
  og_contact_phone :: "string option"
  og_timezone :: string
  og_default_locale :: string
  og_settings :: org_settings
  og_subscription_tier :: "string option"

definition org_is_msp :: "organization_row \<Rightarrow> bool" where
  "org_is_msp o' \<longleftrightarrow> og_org_type o' = MSP"

record organization_member = base_model +
  om_organization_id :: uuid
  om_user_id :: uuid
  om_status :: MembershipStatus
  om_invited_by_user_id :: "uuid option"
  om_invited_at :: datetime
  om_joined_at :: "datetime option"
  om_is_primary_contact :: bool

text \<open>The partial unique index \<open>uq_organization_members_active_org_user\<close>.\<close>

definition one_active_membership :: "organization_member list \<Rightarrow> bool" where
  "one_active_membership t \<longleftrightarrow>
     distinct (map (\<lambda>m. (om_organization_id m, om_user_id m)) (filter (\<lambda>m. om_status m = MEMBER_ACTIVE) t))"

end
