(* ===== verification/Auth.thy ===== *)
theory Auth
  imports OrganizationData Otp
begin

section \<open>Authentication\<close>

text \<open>
  The identity tables, one session for the authentication, organization and user services.
  \<open>app/domains/auth\<close>: accounts, passwords, sessions with rotating refresh tokens, second factors
  and the tokens mailed for verification and reset (\<open>service.py\<close>, \<open>security.py\<close>, \<open>jwt.py\<close>,
  \<open>password.py\<close>, \<open>mfa.py\<close>, \<open>repository.py\<close>, \<open>models.py\<close>). Outside the repository, and therefore fields
  of \<open>auth_env\<close>: Argon2 (\<open>pw_hash\<close>, \<open>pw_verify\<close>), SHA-256, Fernet, TOTP, the JWT library, the clock,
  the random sources and the Redis commands. One thing is special here:
  \<open>record_login_attempt\<close> commits in the middle of a request, so the committed tables are part of
  the state and a request that raises later falls back to them (\<open>auth_request\<close>). Profile columns
  that no code of this domain reads are left out of the user row.
\<close>

subsection \<open>Tables\<close>

record user = base_model +
  u_first_name :: string
  u_last_name :: string
  u_email :: string
  u_username :: string
  u_phone :: "string option"
  u_password_hash :: string
  u_timezone :: string
  u_language :: string
  u_is_active :: bool
  u_is_verified :: bool
  u_email_verified_at :: "datetime option"
  u_tokens_invalidated_at :: "datetime option"
  u_last_login_at :: "datetime option"
  u_failed_login_attempts :: int
  u_locked_until :: "datetime option"
  u_password_changed_at :: "datetime option"
  u_must_change_password :: bool
  u_data_masking_enabled :: bool
  u_mfa_enabled :: bool

record session = base_model +
  sn_user_id :: uuid
  sn_device_id :: string
  sn_device_name :: "string option"
  sn_ip_address :: string
  sn_user_agent :: string
  sn_location :: "string option"
  sn_refresh_token_jti :: string
  sn_expires_at :: datetime
  sn_last_activity_at :: datetime
  sn_is_active :: bool

record password_history = base_model +
  ph_user_id :: uuid
  ph_password_hash :: string

record login_attempt = base_model +
  la_user_id :: "uuid option"
  la_email :: string
  la_ip_address :: string
  la_user_agent :: string
  la_success :: bool
  la_failure_reason :: "string option"

record mfa_credential = base_model +
  mc_user_id :: uuid
  mc_secret_encrypted :: string
  mc_enrolled_at :: "datetime option"
  mc_last_verified_at :: "datetime option"

record recovery_code = base_model +
  rc_user_id :: uuid
  rc_code_hash :: string
  rc_used_at :: "datetime option"

record api_key = base_model +
  ak_organization_id :: uuid
  ak_user_id :: uuid
  ak_name :: string
  ak_key_hash :: string
  ak_display_prefix :: string
  ak_expires_at :: "datetime option"
  ak_revoked_at :: "datetime option"
  ak_last_used_at :: "datetime option"

text \<open>What is queued for delivery: the recipient, the first name, the link, and for a verification
  mail whether it is the first one.\<close>

datatype auth_mail =
    EmailVerification string string string bool
  | PasswordReset string string string

record auth_db =
  users :: "user list"
  sessions :: "session list"
  password_histories :: "password_history list"
  login_attempts :: "login_attempt list"
  mfa_credentials :: "mfa_credential list"
  recovery_codes :: "recovery_code list"
  api_keys :: "api_key list"
  org_rows :: "organization_row list"
  org_members :: "organization_member list"
  auth_audits :: "audit_entry list"
  auth_outbox :: "auth_mail list"

definition session_is_expired :: "datetime \<Rightarrow> session \<Rightarrow> bool" where
  "session_is_expired now s \<longleftrightarrow> sn_expires_at s < now"

datatype auth_exc =
    UserNotFoundError
  | InvalidCredentialsError string
  | EmailAlreadyExistsError string
  | UsernameAlreadyExistsError string
  | EmailNotVerifiedError
  | PasswordChangeRequiredError
  | PasswordReuseError string
  | PasswordTooWeakError string
  | PasswordStrengthError string
  | InvalidTokenError string
  | MfaAlreadyEnabledError
  | MfaNotEnrolledError
  | MfaNotEnabledError
  | MfaRequiredError
  | InvalidMfaCodeError
  | AccountLockedError datetime
  | RateLimitError int
  | JWTError
  | MfaSecretDecryptionError
  | UnauthorizedError string
  | InvalidNotificationRecipientError string
  | ApiKeyNotFoundError uuid
  | ApiKeyAlreadyRevokedError uuid
  | ApiKeyAuthenticationError
  | CrossOrganizationApiKeyAccessError
  | ForbiddenError string
  | OrganizationNotFoundError uuid
  | DuplicateSlugError string
  | NotAnMspOrganizationError uuid
  | CircularOrganizationHierarchyError uuid uuid
  | MspDowngradeWithChildrenError uuid
  | OrganizationArchivedError uuid
  | CrossOrganizationAccessError
  | OrganizationMembershipNotFoundError uuid
  | DuplicateMembershipError uuid uuid
  | MembershipSuspendedError uuid uuid
  | InvalidMembershipStatusTransitionError string
  | LastActiveMemberError uuid
  | InvalidBrandingFieldError string
  | CrossOrganizationUserAccessError
  | SelfDeactivationNotAllowedError uuid
  | SelfImpersonationNotAllowedError uuid
  | ImpersonationTargetInactiveError uuid
  | StaffImpersonationNotAllowedError uuid
  | AuthDbError db_error


subsection \<open>The environment\<close>

record jwt_claims =
  jc_sub :: uuid
  jc_email :: string
  jc_jti :: string
  jc_type :: string
  jc_iat :: int
  jc_exp :: int

datatype auth_value = UserIdValue uuid | CountValue int

record 'r auth_redis =
  ar_get :: "string \<Rightarrow> 'r \<Rightarrow> auth_value option"
  ar_set :: "string \<Rightarrow> auth_value \<Rightarrow> int \<Rightarrow> 'r \<Rightarrow> 'r"
  ar_delete :: "string \<Rightarrow> 'r \<Rightarrow> 'r"
  ar_incr :: "string \<Rightarrow> 'r \<Rightarrow> int \<times> 'r"
  ar_expire :: "string \<Rightarrow> int \<Rightarrow> 'r \<Rightarrow> 'r"
  ar_ttl :: "string \<Rightarrow> 'r \<Rightarrow> int"

record 'r auth_env =
  auth_time_at :: "nat \<Rightarrow> datetime"
  auth_uuid_at :: "nat \<Rightarrow> uuid"
  random_secret_at :: "nat \<Rightarrow> string"
  random_choice_at :: "nat \<Rightarrow> nat"
  token_urlsafe_at :: "nat \<Rightarrow> string"
  pw_hash :: "nat \<Rightarrow> string \<Rightarrow> string"
  pw_verify :: "string \<Rightarrow> string \<Rightarrow> bool option"
  sha256 :: "string \<Rightarrow> string"
  fernet_encrypt :: "nat \<Rightarrow> string \<Rightarrow> string"
  fernet_decrypt :: "string \<Rightarrow> string option"
  totp_verify :: "string \<Rightarrow> string \<Rightarrow> datetime \<Rightarrow> bool"
  provisioning_uri :: "string \<Rightarrow> string \<Rightarrow> string"
  jwt_encode :: "jwt_claims \<Rightarrow> string"
  jwt_decode :: "datetime \<Rightarrow> string \<Rightarrow> string + jwt_claims"
  signing_forbidden :: bool
  redis_server :: "'r auth_redis"
  access_token_expire_minutes :: int
  refresh_token_expire_days :: int
  max_login_attempts :: int
  account_lockout_minutes :: int
  password_history_limit :: int
  mfa_recovery_code_count :: nat
  frontend_base_url :: string

record 'r auth_world =
  aw_committed :: auth_db
  aw_clock :: nat
  aw_supply :: nat
  aw_redis :: 'r

type_synonym ('r, 'a) aprog = "(auth_db \<times> 'r auth_world, auth_exc, 'a) prog"

definition auth_now :: "'r auth_env \<Rightarrow> ('r, datetime) aprog" where
  "auth_now env =
     andthen (reads_world aw_clock) (\<lambda>n.
     andthen (modifies_world (\<lambda>w. w\<lparr>aw_clock := Suc n\<rparr>)) (\<lambda>_. ret (auth_time_at env n)))"

definition draw :: "(nat \<Rightarrow> 'a) \<Rightarrow> ('r, 'a) aprog" where
  "draw source =
     andthen (reads_world aw_supply) (\<lambda>n.
     andthen (modifies_world (\<lambda>w. w\<lparr>aw_supply := Suc n\<rparr>)) (\<lambda>_. ret (source n)))"

definition draws :: "nat \<Rightarrow> (nat \<Rightarrow> 'a) \<Rightarrow> ('r, 'a list) aprog" where
  "draws k source =
     andthen (reads_world aw_supply) (\<lambda>n.
     andthen (modifies_world (\<lambda>w. w\<lparr>aw_supply := n + k\<rparr>)) (\<lambda>_. ret (map source [n..<n + k])))"

definition auth_uuid4 :: "'r auth_env \<Rightarrow> ('r, uuid) aprog" where
  "auth_uuid4 env = draw (auth_uuid_at env)"

definition auth_db_now :: "'r auth_env \<Rightarrow> ('r, datetime) aprog" where
  "auth_db_now env = reads_world (\<lambda>w. auth_time_at env (aw_clock w))"

text \<open>\<open>session.commit()\<close>, and the session of one request.\<close>

definition commit :: "('r, unit) aprog" where
  "commit = (\<lambda>(db, w). (Inr (), (db, w\<lparr>aw_committed := db\<rparr>)))"

definition auth_request :: "('r, 'a) aprog \<Rightarrow> ('r, 'a) aprog" where
  "auth_request m = (\<lambda>(db, w).
     case m (db, w\<lparr>aw_committed := db\<rparr>) of
       (Inl e, (db', w')) \<Rightarrow> (Inl e, (aw_committed w', w'))
     | (Inr v, (db', w')) \<Rightarrow> (Inr v, (db', w')))"

definition redis_run :: "('r \<Rightarrow> 'a \<times> 'r) \<Rightarrow> ('r, 'a) aprog" where
  "redis_run f =
     andthen (reads_world (\<lambda>w. f (aw_redis w))) (\<lambda>(v, r).
     andthen (modifies_world (\<lambda>w. w\<lparr>aw_redis := r\<rparr>)) (\<lambda>_. ret v))"

definition create_in ::
  "'r auth_env \<Rightarrow> (auth_db \<Rightarrow> 'a base_model_scheme list) \<Rightarrow>
   (('a base_model_scheme list \<Rightarrow> 'a base_model_scheme list) \<Rightarrow> auth_db \<Rightarrow> auth_db) \<Rightarrow>
   ('a base_model_scheme list \<Rightarrow> bool) \<Rightarrow> 'a \<Rightarrow> ('r, 'a base_model_scheme) aprog" where
  "create_in env get upd uniq columns =
     andthen (auth_uuid4 env) (\<lambda>i.
     andthen (auth_db_now env) (\<lambda>now.
     let r = base_model.extend (new_base i now None) columns
     in andthen (stores_db AuthDbError (\<lambda>db.
          case create_row uniq r (get db) of Inl e \<Rightarrow> Inl e | Inr t \<Rightarrow> Inr (upd (\<lambda>_. t) db))) (\<lambda>_.
        ret r)))"

definition update_in ::
  "'r auth_env \<Rightarrow> (('a base_model_scheme list \<Rightarrow> 'a base_model_scheme list) \<Rightarrow> auth_db \<Rightarrow> auth_db) \<Rightarrow>
   'a base_model_scheme \<Rightarrow> ('a base_model_scheme \<Rightarrow> 'a base_model_scheme) \<Rightarrow> ('r, 'a base_model_scheme) aprog" where
  "update_in env upd inst data =
     andthen (auth_db_now env) (\<lambda>now.
     andthen (modifies_db (upd (update_row now data inst))) (\<lambda>_.
     ret (assign now data (version inst) inst)))"


subsection \<open>Passwords\<close>

definition MIN_LENGTH :: nat where
  "MIN_LENGTH = 12"

definition MAX_LENGTH :: nat where
  "MAX_LENGTH = 128"

definition COMMON_PASSWORDS :: "string list" where
  "COMMON_PASSWORDS =
     [''password'', ''123456'', ''12345678'', ''qwerty'', ''abc123'', ''password123'', ''admin'', ''letmein'', ''welcome'', ''monkey'',
      ''dragon'', ''master'', ''princess'', ''qazwsx'', ''123123'', ''654321'', ''superman'', ''iloveyou'', ''trustno1'']"

definition in_range :: "char \<Rightarrow> char \<Rightarrow> char \<Rightarrow> bool" where
  "in_range lo hi c \<longleftrightarrow> code_of lo \<le> code_of c \<and> code_of c \<le> code_of hi"

definition is_special_char :: "char \<Rightarrow> bool" where
  "is_special_char c \<longleftrightarrow> c \<in> set ''!@#$%^&*-_=+''"

definition validate_strength :: "string \<Rightarrow> string + unit" where
  "validate_strength password =
     (if length password < MIN_LENGTH then Inl (''Password must be at least '' @ show_nat MIN_LENGTH @ '' characters'')
      else if MAX_LENGTH < length password then Inl (''Password must not exceed '' @ show_nat MAX_LENGTH @ '' characters'')
      else if \<not> list_ex (in_range (CHR ''A'') (CHR ''Z'')) password then Inl ''Password must contain at least one uppercase letter''
      else if \<not> list_ex (in_range (CHR ''a'') (CHR ''z'')) password then Inl ''Password must contain at least one lowercase letter''
      else if \<not> list_ex (in_range (CHR ''0'') (CHR ''9'')) password then Inl ''Password must contain at least one digit''
      else if \<not> list_ex is_special_char password then Inl ''Password must contain at least one special character (!@#$%^&*-_=+)''
      else if py_lower password \<in> set COMMON_PASSWORDS then Inl ''Password is too common. Please choose a stronger password''
      else Inr ())"

text \<open>\<open>PasswordManager.hash\<close>, and the same with the error translated as the service does.\<close>

definition PasswordManager_hash :: "'r auth_env \<Rightarrow> string \<Rightarrow> ('r, string) aprog" where
  "PasswordManager_hash env password =
     andthen (lift_result (map_sum PasswordStrengthError id (validate_strength password))) (\<lambda>_.
     draw (\<lambda>n. pw_hash env n password))"

definition hash_or_too_weak :: "'r auth_env \<Rightarrow> string \<Rightarrow> ('r, string) aprog" where
  "hash_or_too_weak env password =
     catching (PasswordManager_hash env password) (\<lambda>e.
       raise (case e of PasswordStrengthError t \<Rightarrow> PasswordTooWeakError t | _ \<Rightarrow> e))"

definition verify_password_safe :: "'r auth_env \<Rightarrow> string \<Rightarrow> string \<Rightarrow> bool" where
  "verify_password_safe env password stored = (pw_verify env password stored = Some True)"


subsection \<open>Repository\<close>

definition get_user_by_email :: "string \<Rightarrow> auth_db \<Rightarrow> user option" where
  "get_user_by_email email db = first_row (\<lambda>u. u_email u = py_lower email) (users db)"

definition get_user_by_username :: "string \<Rightarrow> auth_db \<Rightarrow> user option" where
  "get_user_by_username username db = first_row (\<lambda>u. u_username u = py_lower username) (users db)"

definition get_user_by_id :: "uuid \<Rightarrow> auth_db \<Rightarrow> user option" where
  "get_user_by_id i db = get_by_id False i (users db)"

definition create_user ::
  "'r auth_env \<Rightarrow> string \<Rightarrow> string \<Rightarrow> string \<Rightarrow> string \<Rightarrow> string \<Rightarrow> string option \<Rightarrow> string \<Rightarrow> string \<Rightarrow> ('r, user) aprog" where
  "create_user env first_name last_name email username password_hash phone timezone language =
     create_in env users users_update (\<lambda>t. distinct (map u_email t) \<and> distinct (map u_username t))
       (user.fields first_name last_name (py_lower email) (py_lower username) phone password_hash timezone language True False
          None None None 0 None None False True False)"

definition update_user :: "'r auth_env \<Rightarrow> user \<Rightarrow> (user \<Rightarrow> user) \<Rightarrow> ('r, user) aprog" where
  "update_user env u data = update_in env users_update u data"

definition create_refresh_token ::
  "'r auth_env \<Rightarrow> uuid \<Rightarrow> string \<Rightarrow> string \<Rightarrow> string option \<Rightarrow> string \<Rightarrow> string \<Rightarrow> string option \<Rightarrow> datetime \<Rightarrow> ('r, session) aprog" where
  "create_refresh_token env user_id jti device_id device_name ip agent location expires =
     andthen (auth_now env) (\<lambda>now.
     create_in env sessions sessions_update (\<lambda>t. distinct (map sn_refresh_token_jti t))
       (session.fields user_id device_id device_name ip agent location jti expires now True))"

definition get_session_by_refresh_token :: "string \<Rightarrow> auth_db \<Rightarrow> session option" where
  "get_session_by_refresh_token jti db = first_row (\<lambda>s. sn_refresh_token_jti s = jti) (sessions db)"

text \<open>One conditional UPDATE: the row is written only while it is active and still carries the
  token that was read.\<close>

definition rotates :: "session \<Rightarrow> string \<Rightarrow> session \<Rightarrow> bool" where
  "rotates s expected r \<longleftrightarrow> row_id r = row_id s \<and> sn_refresh_token_jti r = expected \<and> sn_is_active r"

definition rotate_refresh_token :: "'r auth_env \<Rightarrow> session \<Rightarrow> string \<Rightarrow> string \<Rightarrow> ('r, bool) aprog" where
  "rotate_refresh_token env s new_jti expected =
     andthen (auth_now env) (\<lambda>now.
     andthen (reads_db (\<lambda>db. list_ex (rotates s expected) (sessions db))) (\<lambda>rotated.
     andthen (stores_db AuthDbError (\<lambda>db.
       let t = map (\<lambda>r. if rotates s expected r
                 then r\<lparr>sn_refresh_token_jti := new_jti, sn_last_activity_at := now, updated_at := now\<rparr> else r) (sessions db)
       in if distinct (map sn_refresh_token_jti t) then Inr (sessions_update (\<lambda>_. t) db) else Inl DuplicateRecordError)) (\<lambda>_.
     ret rotated)))"

definition get_active_sessions :: "'r auth_env \<Rightarrow> uuid \<Rightarrow> ('r, session list) aprog" where
  "get_active_sessions env user_id =
     andthen (reads_db (\<lambda>db. get_all (\<lambda>s. sn_user_id s = user_id \<and> sn_is_active s) created_at DESC False None (sessions db))) (\<lambda>rows.
     andthen (auth_now env) (\<lambda>now. ret (filter (\<lambda>s. now < sn_expires_at s) rows)))"

definition repo_revoke_session :: "'r auth_env \<Rightarrow> uuid \<Rightarrow> ('r, unit) aprog" where
  "repo_revoke_session env session_id =
     andthen (reads_db (\<lambda>db. get_by_id False session_id (sessions db))) (\<lambda>found.
     case found of
       None \<Rightarrow> ret ()
     | Some s \<Rightarrow> andthen (update_in env sessions_update s (\<lambda>r. r\<lparr>sn_is_active := False\<rparr>)) (\<lambda>_. ret ()))"

definition revoke_all_sessions :: "'r auth_env \<Rightarrow> uuid \<Rightarrow> ('r, nat) aprog" where
  "revoke_all_sessions env user_id =
     andthen (reads_db (\<lambda>db. get_all (\<lambda>s. sn_user_id s = user_id \<and> sn_is_active s) created_at DESC False None (sessions db))) (\<lambda>active.
     andthen (for_each (\<lambda>s _. andthen (update_in env sessions_update s (\<lambda>r. r\<lparr>sn_is_active := False\<rparr>)) (\<lambda>_. ret ())) active ()) (\<lambda>_.
     ret (length active)))"

definition cleanup_expired_sessions :: "'r auth_env \<Rightarrow> ('r, nat) aprog" where
  "cleanup_expired_sessions env =
     andthen (auth_now env) (\<lambda>now.
     andthen (reads_db (\<lambda>db. filter (\<lambda>s. sn_expires_at s < now) (sessions db))) (\<lambda>expired.
     andthen (for_each (\<lambda>s _. modifies_db (sessions_update (delete_row s))) expired ()) (\<lambda>_.
     ret (length expired))))"

definition add_password_history :: "'r auth_env \<Rightarrow> uuid \<Rightarrow> string \<Rightarrow> ('r, password_history) aprog" where
  "add_password_history env user_id h =
     create_in env password_histories password_histories_update (\<lambda>_. True) (password_history.fields user_id h)"

definition get_recent_password_hashes :: "uuid \<Rightarrow> int \<Rightarrow> auth_db \<Rightarrow> string list" where
  "get_recent_password_hashes user_id limit db =
     map ph_password_hash (get_all (\<lambda>p. ph_user_id p = user_id) created_at DESC False (Some (nat limit)) (password_histories db))"

definition record_login_attempt ::
  "'r auth_env \<Rightarrow> uuid option \<Rightarrow> string \<Rightarrow> string \<Rightarrow> string \<Rightarrow> bool \<Rightarrow> string option \<Rightarrow> ('r, login_attempt) aprog" where
  "record_login_attempt env user_id email ip agent success reason =
     andthen (create_in env login_attempts login_attempts_update (\<lambda>_. True)
       (login_attempt.fields user_id (py_lower email) ip agent success reason)) (\<lambda>attempt.
     andthen commit (\<lambda>_. ret attempt))"

definition get_mfa_credential :: "uuid \<Rightarrow> auth_db \<Rightarrow> mfa_credential option" where
  "get_mfa_credential user_id db = first_row (\<lambda>c. mc_user_id c = user_id) (mfa_credentials db)"

definition get_active_recovery_code :: "uuid \<Rightarrow> string \<Rightarrow> auth_db \<Rightarrow> recovery_code option" where
  "get_active_recovery_code user_id h db =
     find (\<lambda>c. \<not> is_deleted c \<and> rc_user_id c = user_id \<and> rc_code_hash c = h \<and> rc_used_at c = None) (recovery_codes db)"

definition replace_recovery_codes :: "'r auth_env \<Rightarrow> uuid \<Rightarrow> string list \<Rightarrow> ('r, unit) aprog" where
  "replace_recovery_codes env user_id hashes =
     andthen (modifies_db (recovery_codes_update (filter (\<lambda>c. is_deleted c \<or> rc_user_id c \<noteq> user_id)))) (\<lambda>_.
     andthen (draws (length hashes) (auth_uuid_at env)) (\<lambda>ids.
     andthen (auth_db_now env) (\<lambda>now.
     stores_db AuthDbError (\<lambda>db.
       case bulk_create (\<lambda>t. distinct (map rc_code_hash t))
              (map (\<lambda>(i, h). base_model.extend (new_base i now None) (recovery_code.fields user_id h None)) (zip ids hashes))
              (recovery_codes db) of
         Inl e \<Rightarrow> Inl e
       | Inr t \<Rightarrow> Inr (recovery_codes_update (\<lambda>_. t) db)))))"


subsection \<open>Tokens and counters\<close>

definition VERIFICATION_TOKEN_KEY :: "string \<Rightarrow> string" where
  "VERIFICATION_TOKEN_KEY h = ''auth:email_verification:'' @ h"

definition RESET_TOKEN_KEY :: "string \<Rightarrow> string" where
  "RESET_TOKEN_KEY h = ''auth:password_reset:'' @ h"

definition LOGIN_RATE_LIMIT_KEY :: "string \<Rightarrow> string \<Rightarrow> string" where
  "LOGIN_RATE_LIMIT_KEY email ip = ''auth:login_attempts:'' @ email @ '':'' @ ip"

definition hash_token :: "'r auth_env \<Rightarrow> string \<Rightarrow> string" where
  "hash_token env token = sha256 env token"

definition redis_get :: "'r auth_env \<Rightarrow> string \<Rightarrow> ('r, auth_value option) aprog" where
  "redis_get env k = reads_world (\<lambda>w. ar_get (redis_server env) k (aw_redis w))"

definition redis_write :: "('r \<Rightarrow> 'r) \<Rightarrow> ('r, unit) aprog" where
  "redis_write f = modifies_world (\<lambda>w. w\<lparr>aw_redis := f (aw_redis w)\<rparr>)"

definition issue_cache_token :: "'r auth_env \<Rightarrow> (string \<Rightarrow> string) \<Rightarrow> uuid \<Rightarrow> int \<Rightarrow> ('r, string) aprog" where
  "issue_cache_token env key user_id ttl_seconds =
     andthen (auth_uuid4 env) (\<lambda>token.
     andthen (redis_write (ar_set (redis_server env) (key (hash_token env token)) (UserIdValue user_id) ttl_seconds)) (\<lambda>_.
     ret token))"

definition peek_cache_token :: "'r auth_env \<Rightarrow> (string \<Rightarrow> string) \<Rightarrow> string \<Rightarrow> ('r, uuid option) aprog" where
  "peek_cache_token env key token =
     andthen (redis_get env (key (hash_token env token))) (\<lambda>v.
     ret (case v of Some (UserIdValue i) \<Rightarrow> Some i | _ \<Rightarrow> None))"

text \<open>A read and then a delete, in two commands.\<close>

definition consume_cache_token :: "'r auth_env \<Rightarrow> (string \<Rightarrow> string) \<Rightarrow> string \<Rightarrow> ('r, uuid option) aprog" where
  "consume_cache_token env key token =
     andthen (peek_cache_token env key token) (\<lambda>v.
     case v of
       None \<Rightarrow> ret None
     | Some i \<Rightarrow> andthen (redis_write (ar_delete (redis_server env) (key (hash_token env token)))) (\<lambda>_. ret (Some i)))"

definition check_rate_limit :: "'r auth_env \<Rightarrow> string \<Rightarrow> string \<Rightarrow> ('r, unit) aprog" where
  "check_rate_limit env email ip =
     (let key = LOGIN_RATE_LIMIT_KEY email ip
      in andthen (redis_get env key) (\<lambda>attempts.
         case attempts of
           Some (CountValue n) \<Rightarrow>
             if max_login_attempts env \<le> n
             then andthen (reads_world (\<lambda>w. ar_ttl (redis_server env) key (aw_redis w))) (\<lambda>t.
                  raise (RateLimitError (if 0 < t then t else account_lockout_minutes env * 60)))
             else ret ()
         | _ \<Rightarrow> ret ()))"

definition count_login_attempt :: "'r auth_env \<Rightarrow> string \<Rightarrow> string \<Rightarrow> bool \<Rightarrow> ('r, unit) aprog" where
  "count_login_attempt env email ip success =
     (let key = LOGIN_RATE_LIMIT_KEY email ip
      in if success then redis_write (ar_delete (redis_server env) key)
         else andthen (redis_run (ar_incr (redis_server env) key)) (\<lambda>current.
              if current = 1 then redis_write (ar_expire (redis_server env) key (account_lockout_minutes env * 60)) else ret ()))"

definition check_account_lock :: "'r auth_env \<Rightarrow> datetime option \<Rightarrow> ('r, unit) aprog" where
  "check_account_lock env locked_until =
     (case locked_until of
        None \<Rightarrow> ret ()
      | Some t \<Rightarrow> andthen (auth_now env) (\<lambda>now. guard (\<not> now < t) (AccountLockedError t)))"

end
