(* ===== verification/AuthService.thy ===== *)
theory AuthService
  imports Auth
begin

section \<open>The authentication service\<close>

text \<open>
  \<open>app/domains/auth/service.py\<close> (\<open>AuthService\<close>), the token half of \<open>jwt.py\<close> (\<open>JWTManager\<close>) and
  \<open>dependencies.py\<close> (\<open>_resolve_user_from_jwt\<close>), method by method. A method that reads the clock or
  draws a random value does so at the place where the source does. \<open>reset_password\<close> and \<open>refresh\<close>
  are written as the two phases between which another request can run.
\<close>

subsection \<open>Tokens\<close>

record token_pair =
  access_token :: string
  refresh_token :: string
  token_type :: string
  expires_in :: int
  refresh_expires_in :: int

record token_dict = token_pair +
  access_jti :: string
  refresh_jti :: string

text \<open>\<open>int(t.timestamp())\<close>.\<close>

definition timestamp :: "datetime \<Rightarrow> int" where
  "timestamp t = t div 1000000"

definition jwt_manager_encode :: "'r auth_env \<Rightarrow> jwt_claims \<Rightarrow> ('r, string) aprog" where
  "jwt_manager_encode env claims =
     andthen (guard (\<not> signing_forbidden env) JWTError) (\<lambda>_. ret (jwt_encode env claims))"

definition create_jwt :: "'r auth_env \<Rightarrow> string \<Rightarrow> int \<Rightarrow> uuid \<Rightarrow> string \<Rightarrow> ('r, string \<times> string) aprog" where
  "create_jwt env kind lifetime user_id email =
     andthen (auth_now env) (\<lambda>now.
     andthen (auth_uuid4 env) (\<lambda>jti.
     andthen (jwt_manager_encode env
       \<lparr>jc_sub = user_id, jc_email = email, jc_jti = jti, jc_type = kind,
        jc_iat = timestamp now, jc_exp = timestamp (now + lifetime)\<rparr>) (\<lambda>token.
     ret (token, jti))))"

definition create_access_token :: "'r auth_env \<Rightarrow> uuid \<Rightarrow> string \<Rightarrow> int option \<Rightarrow> ('r, string \<times> string) aprog" where
  "create_access_token env user_id email expires_in_minutes =
     create_jwt env ''access''
       (minutes (case expires_in_minutes of None \<Rightarrow> access_token_expire_minutes env | Some m \<Rightarrow> m)) user_id email"

definition jwt_create_refresh_token :: "'r auth_env \<Rightarrow> uuid \<Rightarrow> string \<Rightarrow> ('r, string \<times> string) aprog" where
  "jwt_create_refresh_token env user_id email =
     create_jwt env ''refresh'' (minutes (refresh_token_expire_days env * 1440)) user_id email"

definition create_token_pair :: "'r auth_env \<Rightarrow> uuid \<Rightarrow> string \<Rightarrow> ('r, token_dict) aprog" where
  "create_token_pair env user_id email =
     andthen (create_access_token env user_id email None) (\<lambda>(access, a_jti).
     andthen (jwt_create_refresh_token env user_id email) (\<lambda>(refresh, r_jti).
     ret \<lparr>access_token = access, refresh_token = refresh, token_type = ''bearer'',
          expires_in = access_token_expire_minutes env * 60,
          refresh_expires_in = refresh_token_expire_days env * 86400,
          access_jti = a_jti, refresh_jti = r_jti\<rparr>))"

definition token_pair_from_dict :: "token_dict \<Rightarrow> token_pair" where
  "token_pair_from_dict d = token_pair.truncate d"

text \<open>\<open>validate_token(token, expected_type=...)\<close>; the failure is the text of the exception.\<close>

definition validate_token :: "'r auth_env \<Rightarrow> string \<Rightarrow> string \<Rightarrow> datetime \<Rightarrow> string + jwt_claims" where
  "validate_token env token expected_type now =
     (case jwt_decode env now token of
        Inl e \<Rightarrow> Inl e
      | Inr claims \<Rightarrow>
          if jc_type claims \<noteq> expected_type then Inl (''Invalid token type. Expected '' @ expected_type) else Inr claims)"


subsection \<open>Devices and mail\<close>

record device_info =
  di_ip_address :: string
  di_user_agent :: string
  di_device_name :: "string option"
  di_location :: "string option"
  di_device_id :: "string option"

definition generate_device_id :: "'r auth_env \<Rightarrow> string \<Rightarrow> string \<Rightarrow> string" where
  "generate_device_id env ip agent = take 16 (sha256 env (ip @ ''|'' @ agent))"

definition make_device_info ::
  "'r auth_env \<Rightarrow> string \<Rightarrow> string \<Rightarrow> string option \<Rightarrow> string option \<Rightarrow> string option \<Rightarrow> device_info" where
  "make_device_info env ip agent name location device_id =
     \<lparr>di_ip_address = ip, di_user_agent = agent, di_device_name = name, di_location = location,
      di_device_id = (if device_id = None \<or> device_id = Some [] then Some (generate_device_id env ip agent) else device_id)\<rparr>"

definition rstrip_slash :: "string \<Rightarrow> string" where
  "rstrip_slash s = rev (dropWhile (\<lambda>c. c = CHR ''/'') (rev s))"

definition verify_email_url :: "'r auth_env \<Rightarrow> string \<Rightarrow> string" where
  "verify_email_url env token = rstrip_slash (frontend_base_url env) @ ''/verify-email?token='' @ token"

definition reset_url :: "'r auth_env \<Rightarrow> string \<Rightarrow> string" where
  "reset_url env token = rstrip_slash (frontend_base_url env) @ ''/reset-password?token='' @ token"

text \<open>\<open>NotificationService.enqueue\<close> on the e-mail channel: the recipient is validated, then a
  delivery row is written in the request's own session.\<close>

definition enqueue_mail :: "string \<Rightarrow> auth_mail \<Rightarrow> ('r, unit) aprog" where
  "enqueue_mail receiver mail =
     andthen (lift_result (map_sum (\<lambda>_. InvalidNotificationRecipientError receiver) id (validate_identifier receiver EMAIL))) (\<lambda>_.
     modifies_db (auth_outbox_update (\<lambda>t. t @ [mail])))"


subsection \<open>Registration\<close>

definition register ::
  "'r auth_env \<Rightarrow> string \<Rightarrow> string \<Rightarrow> string \<Rightarrow> string \<Rightarrow> string \<Rightarrow> string option \<Rightarrow> string \<Rightarrow> string \<Rightarrow> ('r, user \<times> string) aprog" where
  "register env first_name last_name email username password phone timezone language =
     andthen (reads_db (get_user_by_email email)) (\<lambda>same_email.
     andthen (guard (same_email = None) (EmailAlreadyExistsError email)) (\<lambda>_.
     andthen (reads_db (get_user_by_username username)) (\<lambda>same_name.
     andthen (guard (same_name = None) (UsernameAlreadyExistsError username)) (\<lambda>_.
     andthen (PasswordManager_hash env password) (\<lambda>h.
     andthen (create_user env first_name last_name email username h phone timezone language) (\<lambda>u.
     andthen (add_password_history env (row_id u) h) (\<lambda>_.
     andthen (issue_cache_token env VERIFICATION_TOKEN_KEY (row_id u) 86400) (\<lambda>token.
     andthen (enqueue_mail (u_email u) (EmailVerification (u_email u) (u_first_name u) (verify_email_url env token) True)) (\<lambda>_.
     ret (u, token))))))))))"


subsection \<open>Helpers of the login\<close>

definition register_failed_attempt :: "'r auth_env \<Rightarrow> user \<Rightarrow> ('r, unit) aprog" where
  "register_failed_attempt env u =
     (let failed = u_failed_login_attempts u + 1
      in andthen
           (if max_login_attempts env \<le> failed
            then andthen (auth_now env) (\<lambda>now. ret (Some (now + minutes (account_lockout_minutes env))))
            else ret (u_locked_until u)) (\<lambda>locked_until.
         andthen (update_user env u (\<lambda>r. r\<lparr>u_failed_login_attempts := failed, u_locked_until := locked_until\<rparr>)) (\<lambda>_.
         ret ())))"

definition record_attempt ::
  "'r auth_env \<Rightarrow> uuid option \<Rightarrow> string \<Rightarrow> device_info \<Rightarrow> bool \<Rightarrow> string option \<Rightarrow> ('r, unit) aprog" where
  "record_attempt env user_id email dev success reason =
     andthen (record_login_attempt env user_id email (di_ip_address dev) (di_user_agent dev) success reason) (\<lambda>_.
     if success then ret () else count_login_attempt env email (di_ip_address dev) False)"

text \<open>A failure that is recorded and then raised.\<close>

definition fail_login :: "'r auth_env \<Rightarrow> uuid option \<Rightarrow> string \<Rightarrow> device_info \<Rightarrow> string \<Rightarrow> auth_exc \<Rightarrow> ('r, 'a) aprog" where
  "fail_login env user_id email dev reason e =
     andthen (record_attempt env user_id email dev False (Some reason)) (\<lambda>_. raise e)"

definition reject_recent_passwords :: "'r auth_env \<Rightarrow> uuid \<Rightarrow> string \<Rightarrow> ('r, unit) aprog" where
  "reject_recent_passwords env user_id new_password =
     (if password_history_limit env \<le> 0 then ret ()
      else andthen (reads_db (get_recent_password_hashes user_id (password_history_limit env))) (\<lambda>recent.
           guard (\<not> list_ex (verify_password_safe env new_password) recent)
             (PasswordReuseError ''This password was used recently. Please choose a different one.'')))"

definition decrypt_secret :: "'r auth_env \<Rightarrow> string \<Rightarrow> ('r, string) aprog" where
  "decrypt_secret env ciphertext = orelse (fernet_decrypt env ciphertext) MfaSecretDecryptionError"

text \<open>\<open>mfa.verify_code\<close> reads the clock inside the TOTP library.\<close>

definition verify_code :: "'r auth_env \<Rightarrow> string \<Rightarrow> string \<Rightarrow> ('r, bool) aprog" where
  "verify_code env secret code = andthen (auth_now env) (\<lambda>now. ret (totp_verify env secret code now))"

definition hash_recovery_code :: "'r auth_env \<Rightarrow> string \<Rightarrow> string" where
  "hash_recovery_code env code = sha256 env code"

definition mark_recovery_code_used :: "'r auth_env \<Rightarrow> recovery_code \<Rightarrow> ('r, unit) aprog" where
  "mark_recovery_code_used env c =
     andthen (auth_now env) (\<lambda>now.
     andthen (update_in env recovery_codes_update c (\<lambda>r. r\<lparr>rc_used_at := Some now\<rparr>)) (\<lambda>_. ret ()))"

definition verify_totp :: "'r auth_env \<Rightarrow> uuid \<Rightarrow> string \<Rightarrow> ('r, bool) aprog" where
  "verify_totp env user_id code =
     andthen (reads_db (get_mfa_credential user_id)) (\<lambda>credential.
     case credential of
       None \<Rightarrow> ret False
     | Some c \<Rightarrow>
         andthen (decrypt_secret env (mc_secret_encrypted c)) (\<lambda>secret.
         andthen (verify_code env secret code) (\<lambda>ok.
         if ok
         then andthen (auth_now env) (\<lambda>now.
              andthen (update_in env mfa_credentials_update c (\<lambda>r. r\<lparr>mc_last_verified_at := Some now\<rparr>)) (\<lambda>_.
              ret True))
         else ret False)))"

definition verify_mfa_or_recovery_code :: "'r auth_env \<Rightarrow> uuid \<Rightarrow> string \<Rightarrow> ('r, bool) aprog" where
  "verify_mfa_or_recovery_code env user_id code =
     andthen (verify_totp env user_id code) (\<lambda>ok.
     if ok then ret True
     else andthen (reads_db (get_active_recovery_code user_id (hash_recovery_code env code))) (\<lambda>found.
          case found of
            None \<Rightarrow> ret False
          | Some c \<Rightarrow> andthen (mark_recovery_code_used env c) (\<lambda>_. ret True)))"


subsection \<open>Login\<close>

text \<open>\<open>not value\<close> of an optional string.\<close>

definition absent :: "string option \<Rightarrow> bool" where
  "absent v \<longleftrightarrow> v = None \<or> v = Some []"

definition login_password_step :: "'r auth_env \<Rightarrow> string \<Rightarrow> string \<Rightarrow> device_info \<Rightarrow> ('r, user) aprog" where
  "login_password_step env email password dev =
     andthen (check_rate_limit env email (di_ip_address dev)) (\<lambda>_.
     andthen (reads_db (get_user_by_email email)) (\<lambda>found.
     case found of
       None \<Rightarrow> fail_login env None email dev ''user_not_found'' (InvalidCredentialsError ''Invalid email or password'')
     | Some u \<Rightarrow>
         if \<not> u_is_active u
         then fail_login env (Some (row_id u)) email dev ''account_inactive'' (InvalidCredentialsError ''Account is inactive'')
         else andthen (check_account_lock env (u_locked_until u)) (\<lambda>_.
              if \<not> verify_password_safe env password (u_password_hash u)
              then andthen (register_failed_attempt env u) (\<lambda>_.
                   fail_login env (Some (row_id u)) email dev ''invalid_password'' (InvalidCredentialsError ''Invalid email or password''))
              else if \<not> u_is_verified u
              then fail_login env (Some (row_id u)) email dev ''email_not_verified'' EmailNotVerifiedError
              else ret u)))"

definition login_mfa_step :: "'r auth_env \<Rightarrow> string \<Rightarrow> device_info \<Rightarrow> string option \<Rightarrow> user \<Rightarrow> ('r, unit) aprog" where
  "login_mfa_step env email dev mfa_code u =
     (if \<not> u_mfa_enabled u then ret ()
      else if absent mfa_code then fail_login env (Some (row_id u)) email dev ''mfa_code_required'' MfaRequiredError
      else andthen (verify_mfa_or_recovery_code env (row_id u) (the mfa_code)) (\<lambda>ok.
           if ok then ret ()
           else fail_login env (Some (row_id u)) email dev ''invalid_mfa_code'' InvalidMfaCodeError))"

definition set_password :: "'r auth_env \<Rightarrow> user \<Rightarrow> string \<Rightarrow> ('r, user) aprog" where
  "set_password env u h =
     andthen (auth_now env) (\<lambda>now.
     andthen (update_user env u
       (\<lambda>r. r\<lparr>u_password_hash := h, u_password_changed_at := Some now, u_must_change_password := False\<rparr>)) (\<lambda>u'.
     andthen (add_password_history env (row_id u) h) (\<lambda>_.
     ret u')))"

definition login_change_step :: "'r auth_env \<Rightarrow> string \<Rightarrow> device_info \<Rightarrow> string option \<Rightarrow> user \<Rightarrow> ('r, user) aprog" where
  "login_change_step env email dev new_password u =
     (if \<not> u_must_change_password u then ret u
      else if absent new_password
      then fail_login env (Some (row_id u)) email dev ''password_change_required'' PasswordChangeRequiredError
      else andthen (guard (\<not> verify_password_safe env (the new_password) (u_password_hash u))
             (PasswordReuseError ''New password must be different from the temporary password'')) (\<lambda>_.
           andthen (reject_recent_passwords env (row_id u) (the new_password)) (\<lambda>_.
           andthen (hash_or_too_weak env (the new_password)) (\<lambda>h.
           set_password env u h))))"

definition login_session_step :: "'r auth_env \<Rightarrow> string \<Rightarrow> device_info \<Rightarrow> user \<Rightarrow> ('r, user \<times> token_pair \<times> uuid) aprog" where
  "login_session_step env email dev u =
     andthen (auth_now env) (\<lambda>now.
     andthen (update_user env u
       (\<lambda>r. r\<lparr>u_failed_login_attempts := 0, u_locked_until := None, u_last_login_at := Some now\<rparr>)) (\<lambda>u'.
     andthen (create_token_pair env (row_id u) (u_email u)) (\<lambda>tokens.
     andthen (auth_now env) (\<lambda>later.
     andthen (create_refresh_token env (row_id u) (refresh_jti tokens)
       (case di_device_id dev of Some d \<Rightarrow> if d = [] then ''unknown'' else d | None \<Rightarrow> ''unknown'')
       (di_device_name dev) (di_ip_address dev) (di_user_agent dev) (di_location dev)
       (later + minutes (refresh_token_expire_days env * 1440))) (\<lambda>s.
     andthen (count_login_attempt env email (di_ip_address dev) True) (\<lambda>_.
     andthen (record_attempt env (Some (row_id u)) email dev True None) (\<lambda>_.
     ret (u', token_pair_from_dict tokens, row_id s))))))))"

definition login ::
  "'r auth_env \<Rightarrow> string \<Rightarrow> string \<Rightarrow> device_info \<Rightarrow> string option \<Rightarrow> string option \<Rightarrow> ('r, user \<times> token_pair \<times> uuid) aprog" where
  "login env raw_email password dev mfa_code new_password =
     (let email = py_lower (py_strip raw_email)
      in andthen (login_password_step env email password dev) (\<lambda>u.
         andthen (login_mfa_step env email dev mfa_code u) (\<lambda>_.
         andthen (login_change_step env email dev new_password u) (\<lambda>u'.
         login_session_step env email dev u'))))"


subsection \<open>Refresh\<close>

definition invalid_refresh :: auth_exc where
  "invalid_refresh = InvalidTokenError ''Refresh token is invalid or has been revoked''"

text \<open>What \<open>refresh\<close> reads and checks, and what it then writes.\<close>

definition refresh_check :: "'r auth_env \<Rightarrow> string \<Rightarrow> ('r, string \<times> session \<times> user) aprog" where
  "refresh_check env token =
     andthen (auth_now env) (\<lambda>now.
     andthen (lift_result (map_sum InvalidTokenError id (validate_token env token ''refresh'' now))) (\<lambda>claims.
     andthen (reads_db (get_session_by_refresh_token (jc_jti claims))) (\<lambda>found.
     andthen (orelse found invalid_refresh) (\<lambda>s.
     andthen (guard (sn_is_active s) invalid_refresh) (\<lambda>_.
     andthen (auth_now env) (\<lambda>later.
     andthen (guard (\<not> session_is_expired later s) invalid_refresh) (\<lambda>_.
     andthen (reads_db (get_user_by_id (jc_sub claims))) (\<lambda>owner.
     andthen (orelse owner (InvalidCredentialsError ''User is not active'')) (\<lambda>u.
     andthen (guard (u_is_active u) (InvalidCredentialsError ''User is not active'')) (\<lambda>_.
     ret (jc_jti claims, s, u)))))))))))"

definition refresh_write :: "'r auth_env \<Rightarrow> string \<times> session \<times> user \<Rightarrow> ('r, token_pair) aprog" where
  "refresh_write env = (\<lambda>(jti, s, u).
     andthen (create_token_pair env (row_id u) (u_email u)) (\<lambda>tokens.
     andthen (rotate_refresh_token env s (refresh_jti tokens) jti) (\<lambda>rotated.
     andthen (guard rotated invalid_refresh) (\<lambda>_.
     ret (token_pair_from_dict tokens)))))"

definition refresh :: "'r auth_env \<Rightarrow> string \<Rightarrow> ('r, token_pair) aprog" where
  "refresh env token = andthen (refresh_check env token) (refresh_write env)"


subsection \<open>Sessions\<close>

definition get_user :: "uuid \<Rightarrow> ('r, user option) aprog" where
  "get_user user_id = reads_db (get_user_by_id user_id)"

definition logout :: "'r auth_env \<Rightarrow> uuid \<Rightarrow> ('r, unit) aprog" where
  "logout env session_id = repo_revoke_session env session_id"

definition logout_all :: "'r auth_env \<Rightarrow> uuid \<Rightarrow> ('r, nat) aprog" where
  "logout_all env user_id = revoke_all_sessions env user_id"

definition list_sessions :: "'r auth_env \<Rightarrow> uuid \<Rightarrow> ('r, session list) aprog" where
  "list_sessions env user_id = get_active_sessions env user_id"

definition revoke_session :: "'r auth_env \<Rightarrow> uuid \<Rightarrow> ('r, unit) aprog" where
  "revoke_session env session_id = repo_revoke_session env session_id"


subsection \<open>Passwords\<close>

definition change_password :: "'r auth_env \<Rightarrow> uuid \<Rightarrow> string \<Rightarrow> string \<Rightarrow> ('r, unit) aprog" where
  "change_password env user_id current_password new_password =
     andthen (reads_db (get_user_by_id user_id)) (\<lambda>found.
     andthen (orelse found UserNotFoundError) (\<lambda>u.
     andthen (guard (verify_password_safe env current_password (u_password_hash u))
       (InvalidCredentialsError ''Current password is incorrect'')) (\<lambda>_.
     andthen (guard (\<not> verify_password_safe env new_password (u_password_hash u))
       (PasswordReuseError ''New password must be different from the current password'')) (\<lambda>_.
     andthen (reject_recent_passwords env user_id new_password) (\<lambda>_.
     andthen (hash_or_too_weak env new_password) (\<lambda>h.
     andthen (set_password env u h) (\<lambda>_.
     andthen (revoke_all_sessions env user_id) (\<lambda>_.
     ret ()))))))))"

definition initiate_password_reset :: "'r auth_env \<Rightarrow> string \<Rightarrow> ('r, unit) aprog" where
  "initiate_password_reset env email =
     andthen (reads_db (get_user_by_email email)) (\<lambda>found.
     case found of
       None \<Rightarrow> ret ()
     | Some u \<Rightarrow>
         andthen (issue_cache_token env RESET_TOKEN_KEY (row_id u) 3600) (\<lambda>token.
         enqueue_mail (u_email u) (PasswordReset (u_email u) (u_first_name u) (reset_url env token))))"

definition invalid_reset :: auth_exc where
  "invalid_reset = InvalidTokenError ''Reset token is invalid or expired''"

text \<open>\<open>reset_password\<close> up to the point where the token has been found again, the deletion of the
  token, and the writes.\<close>

definition reset_check :: "'r auth_env \<Rightarrow> string \<Rightarrow> string \<Rightarrow> ('r, user \<times> string) aprog" where
  "reset_check env token new_password =
     andthen (peek_cache_token env RESET_TOKEN_KEY token) (\<lambda>peeked.
     andthen (orelse peeked invalid_reset) (\<lambda>user_id.
     andthen (reads_db (get_user_by_id user_id)) (\<lambda>found.
     andthen (orelse found UserNotFoundError) (\<lambda>u.
     andthen (reject_recent_passwords env user_id new_password) (\<lambda>_.
     andthen (hash_or_too_weak env new_password) (\<lambda>h.
     ret (u, h)))))))"

definition reset_write :: "'r auth_env \<Rightarrow> user \<times> string \<Rightarrow> ('r, unit) aprog" where
  "reset_write env = (\<lambda>(u, h).
     andthen (set_password env u h) (\<lambda>_.
     andthen (revoke_all_sessions env (row_id u)) (\<lambda>_.
     ret ())))"

definition reset_password :: "'r auth_env \<Rightarrow> string \<Rightarrow> string \<Rightarrow> ('r, unit) aprog" where
  "reset_password env token new_password =
     andthen (reset_check env token new_password) (\<lambda>uh.
     andthen (consume_cache_token env RESET_TOKEN_KEY token) (\<lambda>consumed.
     andthen (guard (consumed \<noteq> None) invalid_reset) (\<lambda>_.
     reset_write env uh)))"


subsection \<open>Verification of the e-mail address\<close>

definition verify_email :: "'r auth_env \<Rightarrow> string \<Rightarrow> ('r, user) aprog" where
  "verify_email env token =
     andthen (consume_cache_token env VERIFICATION_TOKEN_KEY token) (\<lambda>consumed.
     andthen (orelse consumed (InvalidTokenError ''Verification token is invalid or expired'')) (\<lambda>user_id.
     andthen (reads_db (get_user_by_id user_id)) (\<lambda>found.
     andthen (orelse found UserNotFoundError) (\<lambda>u.
     andthen (auth_now env) (\<lambda>now.
     update_user env u (\<lambda>r. r\<lparr>u_is_verified := True, u_email_verified_at := Some now\<rparr>))))))"

definition resend_verification :: "'r auth_env \<Rightarrow> string \<Rightarrow> ('r, unit) aprog" where
  "resend_verification env email =
     andthen (reads_db (get_user_by_email email)) (\<lambda>found.
     case found of
       None \<Rightarrow> ret ()
     | Some u \<Rightarrow>
         if u_is_verified u then ret ()
         else andthen (issue_cache_token env VERIFICATION_TOKEN_KEY (row_id u) 86400) (\<lambda>token.
              enqueue_mail (u_email u) (EmailVerification (u_email u) (u_first_name u) (verify_email_url env token) False)))"


subsection \<open>Second factors\<close>

definition enroll_mfa :: "'r auth_env \<Rightarrow> uuid \<Rightarrow> ('r, string \<times> string) aprog" where
  "enroll_mfa env user_id =
     andthen (reads_db (get_user_by_id user_id)) (\<lambda>found.
     andthen (orelse found UserNotFoundError) (\<lambda>u.
     andthen (guard (\<not> u_mfa_enabled u) MfaAlreadyEnabledError) (\<lambda>_.
     andthen (draw (random_secret_at env)) (\<lambda>secret.
     andthen (draw (\<lambda>n. fernet_encrypt env n secret)) (\<lambda>encrypted.
     andthen (reads_db (get_mfa_credential user_id)) (\<lambda>existing.
     andthen (case existing of
         Some c \<Rightarrow> update_in env mfa_credentials_update c (\<lambda>r. r\<lparr>mc_secret_encrypted := encrypted, mc_enrolled_at := None\<rparr>)
       | None \<Rightarrow> create_in env mfa_credentials mfa_credentials_update (\<lambda>t. distinct (map mc_user_id t))
           (mfa_credential.fields user_id encrypted None None)) (\<lambda>_.
     ret (secret, provisioning_uri env secret (u_email u)))))))))"

text \<open>\<open>mfa.generate_recovery_codes\<close>: each code is ten draws of \<open>secrets.choice\<close>, with a hyphen in the
  middle.\<close>

definition RECOVERY_CODE_ALPHABET :: string where
  "RECOVERY_CODE_ALPHABET = ''23456789ABCDEFGHJKLMNPQRSTUVWXYZ''"

definition RECOVERY_CODE_LENGTH :: nat where
  "RECOVERY_CODE_LENGTH = 10"

definition recovery_choice :: "'r auth_env \<Rightarrow> nat \<Rightarrow> char" where
  "recovery_choice env n = RECOVERY_CODE_ALPHABET ! (random_choice_at env n mod length RECOVERY_CODE_ALPHABET)"

fun generate_recovery_codes :: "'r auth_env \<Rightarrow> nat \<Rightarrow> ('r, string list) aprog" where
  "generate_recovery_codes env 0 = ret []"
| "generate_recovery_codes env (Suc count) =
     andthen (draws RECOVERY_CODE_LENGTH (recovery_choice env)) (\<lambda>raw.
     andthen (generate_recovery_codes env count) (\<lambda>rest.
     ret ((take 5 raw @ ''-'' @ drop 5 raw) # rest)))"

definition issue_recovery_codes :: "'r auth_env \<Rightarrow> uuid \<Rightarrow> ('r, string list) aprog" where
  "issue_recovery_codes env user_id =
     andthen (generate_recovery_codes env (mfa_recovery_code_count env)) (\<lambda>codes.
     andthen (replace_recovery_codes env user_id (map (hash_recovery_code env) codes)) (\<lambda>_.
     ret codes))"

definition verify_and_enable_mfa :: "'r auth_env \<Rightarrow> uuid \<Rightarrow> string \<Rightarrow> ('r, string list) aprog" where
  "verify_and_enable_mfa env user_id code =
     andthen (reads_db (get_user_by_id user_id)) (\<lambda>found.
     andthen (orelse found UserNotFoundError) (\<lambda>u.
     andthen (reads_db (get_mfa_credential user_id)) (\<lambda>credential.
     andthen (orelse credential MfaNotEnrolledError) (\<lambda>c.
     andthen (decrypt_secret env (mc_secret_encrypted c)) (\<lambda>secret.
     andthen (verify_code env secret code) (\<lambda>ok.
     andthen (guard ok InvalidMfaCodeError) (\<lambda>_.
     andthen (auth_now env) (\<lambda>now.
     andthen (update_in env mfa_credentials_update c
       (\<lambda>r. r\<lparr>mc_enrolled_at := (case mc_enrolled_at c of Some t \<Rightarrow> Some t | None \<Rightarrow> Some now), mc_last_verified_at := Some now\<rparr>)) (\<lambda>_.
     andthen (update_user env u (\<lambda>r. r\<lparr>u_mfa_enabled := True\<rparr>)) (\<lambda>_.
     issue_recovery_codes env user_id))))))))))"

definition disable_mfa :: "'r auth_env \<Rightarrow> uuid \<Rightarrow> string \<Rightarrow> string \<Rightarrow> ('r, unit) aprog" where
  "disable_mfa env user_id password code =
     andthen (reads_db (get_user_by_id user_id)) (\<lambda>found.
     andthen (orelse found UserNotFoundError) (\<lambda>u.
     andthen (guard (u_mfa_enabled u) MfaNotEnabledError) (\<lambda>_.
     andthen (guard (verify_password_safe env password (u_password_hash u)) (InvalidCredentialsError ''Invalid email or password'')) (\<lambda>_.
     andthen (verify_mfa_or_recovery_code env user_id code) (\<lambda>ok.
     andthen (guard ok InvalidMfaCodeError) (\<lambda>_.
     andthen (reads_db (get_mfa_credential user_id)) (\<lambda>credential.
     andthen (update_user env u (\<lambda>r. r\<lparr>u_mfa_enabled := False\<rparr>)) (\<lambda>_.
     andthen (case credential of None \<Rightarrow> ret () | Some c \<Rightarrow> modifies_db (mfa_credentials_update (delete_row c))) (\<lambda>_.
     replace_recovery_codes env user_id [])))))))))"

definition regenerate_recovery_codes :: "'r auth_env \<Rightarrow> uuid \<Rightarrow> string \<Rightarrow> ('r, string list) aprog" where
  "regenerate_recovery_codes env user_id code =
     andthen (reads_db (get_user_by_id user_id)) (\<lambda>found.
     andthen (orelse found MfaNotEnabledError) (\<lambda>u.
     andthen (guard (u_mfa_enabled u) MfaNotEnabledError) (\<lambda>_.
     andthen (verify_mfa_or_recovery_code env user_id code) (\<lambda>ok.
     andthen (guard ok InvalidMfaCodeError) (\<lambda>_.
     issue_recovery_codes env user_id)))))"


subsection \<open>The access token of a request\<close>

definition unauthorized :: "string \<Rightarrow> auth_exc" where
  "unauthorized detail = UnauthorizedError detail"

definition resolve_user_from_jwt :: "'r auth_env \<Rightarrow> string \<Rightarrow> ('r, user) aprog" where
  "resolve_user_from_jwt env token =
     andthen (auth_now env) (\<lambda>now.
     andthen (lift_result (map_sum (\<lambda>_. unauthorized ''Invalid or expired token'') id (validate_token env token ''access'' now))) (\<lambda>claims.
     andthen (reads_db (get_user_by_id (jc_sub claims))) (\<lambda>found.
     andthen (orelse found (unauthorized ''User is not active'')) (\<lambda>u.
     andthen (guard (u_is_active u) (unauthorized ''User is not active'')) (\<lambda>_.
     andthen (guard (case u_tokens_invalidated_at u of None \<Rightarrow> True | Some t \<Rightarrow> \<not> seconds (jc_iat claims) < t)
       (unauthorized ''Session has been terminated'')) (\<lambda>_.
     ret u))))))"


subsection \<open>API keys\<close>

text \<open>\<open>app/domains/api_keys/service.py\<close> and \<open>repository.py\<close>.\<close>

definition API_KEY_PREFIX :: string where
  "API_KEY_PREFIX = ''cgst_''"

definition API_KEY_DISPLAY_PREFIX_LENGTH :: nat where
  "API_KEY_DISPLAY_PREFIX_LENGTH = 12"

definition hash_key :: "'r auth_env \<Rightarrow> string \<Rightarrow> string" where
  "hash_key env plaintext = sha256 env plaintext"

definition generate_plaintext_key :: "'r auth_env \<Rightarrow> ('r, string) aprog" where
  "generate_plaintext_key env = draw (\<lambda>n. API_KEY_PREFIX @ token_urlsafe_at env n)"

definition create_api_key ::
  "'r auth_env \<Rightarrow> uuid \<Rightarrow> uuid \<Rightarrow> string \<Rightarrow> datetime option \<Rightarrow> ('r, api_key \<times> string) aprog" where
  "create_api_key env actor org name expires =
     andthen (generate_plaintext_key env) (\<lambda>key.
     andthen (auth_uuid4 env) (\<lambda>i.
     andthen (auth_db_now env) (\<lambda>now.
     let row = base_model.extend (new_base i now (Some actor))
                 (api_key.fields org actor name (hash_key env key) (take API_KEY_DISPLAY_PREFIX_LENGTH key) expires None None)
     in andthen (stores_db AuthDbError (\<lambda>db.
          case create_row (\<lambda>t. distinct (map ak_key_hash t)) row (api_keys db) of
            Inl e \<Rightarrow> Inl e | Inr t \<Rightarrow> Inr (api_keys_update (\<lambda>_. t) db))) (\<lambda>_.
        ret (row, key)))))"

definition enforce_key_scope :: "api_key \<Rightarrow> uuid option \<Rightarrow> ('r, unit) aprog" where
  "enforce_key_scope k requesting =
     guard (requesting = None \<or> requesting = Some (ak_organization_id k)) CrossOrganizationApiKeyAccessError"

definition get_api_key :: "uuid \<Rightarrow> uuid option \<Rightarrow> ('r, api_key) aprog" where
  "get_api_key key_id requesting =
     andthen (reads_db (\<lambda>db. get_by_id False key_id (api_keys db))) (\<lambda>found.
     andthen (orelse found (ApiKeyNotFoundError key_id)) (\<lambda>k.
     andthen (enforce_key_scope k requesting) (\<lambda>_.
     ret k)))"

definition list_api_keys :: "uuid option \<Rightarrow> page_params \<Rightarrow> auth_db \<Rightarrow> api_key list \<times> pagination_meta" where
  "list_api_keys requesting params db =
     paginate_rows params (\<lambda>k. requesting = None \<or> requesting = Some (ak_organization_id k)) created_at DESC False (api_keys db)"

definition revoke_api_key :: "'r auth_env \<Rightarrow> uuid \<Rightarrow> uuid option \<Rightarrow> ('r, api_key) aprog" where
  "revoke_api_key env key_id requesting =
     andthen (get_api_key key_id requesting) (\<lambda>k.
     andthen (guard (ak_revoked_at k = None) (ApiKeyAlreadyRevokedError key_id)) (\<lambda>_.
     andthen (auth_now env) (\<lambda>now.
     update_in env api_keys_update k (\<lambda>r. r\<lparr>ak_revoked_at := Some now\<rparr>))))"

definition get_active_api_key_by_hash :: "string \<Rightarrow> auth_db \<Rightarrow> api_key option" where
  "get_active_api_key_by_hash h db = find (\<lambda>k. \<not> is_deleted k \<and> ak_key_hash k = h) (api_keys db)"

definition resolve_active_key :: "'r auth_env \<Rightarrow> string \<Rightarrow> ('r, api_key) aprog" where
  "resolve_active_key env plaintext =
     andthen (reads_db (get_active_api_key_by_hash (hash_key env plaintext))) (\<lambda>found.
     andthen (orelse found ApiKeyAuthenticationError) (\<lambda>k.
     andthen (guard (ak_revoked_at k = None) ApiKeyAuthenticationError) (\<lambda>_.
     andthen (case ak_expires_at k of
         None \<Rightarrow> ret ()
       | Some t \<Rightarrow> andthen (auth_now env) (\<lambda>now. guard (\<not> t \<le> now) ApiKeyAuthenticationError)) (\<lambda>_.
     andthen (auth_now env) (\<lambda>now.
     update_in env api_keys_update k (\<lambda>r. r\<lparr>ak_last_used_at := Some now\<rparr>))))))"


subsection \<open>The caller of a request\<close>

definition resolve_user_from_api_key :: "'r auth_env \<Rightarrow> string \<Rightarrow> uuid option \<Rightarrow> ('r, user) aprog" where
  "resolve_user_from_api_key env plaintext org_header =
     andthen (catching (resolve_active_key env plaintext) (\<lambda>e.
       raise (if e = ApiKeyAuthenticationError then unauthorized ''Invalid or expired API key'' else e))) (\<lambda>k.
     andthen (guard (org_header = None \<or> org_header = Some (ak_organization_id k))
       (ForbiddenError ''X-Organization-Id does not match this API key's organization'')) (\<lambda>_.
     andthen (reads_db (get_user_by_id (ak_user_id k))) (\<lambda>found.
     andthen (orelse found (unauthorized ''User is not active'')) (\<lambda>u.
     andthen (guard (u_is_active u) (unauthorized ''User is not active'')) (\<lambda>_.
     ret u)))))"

definition get_current_user :: "'r auth_env \<Rightarrow> string option \<Rightarrow> string option \<Rightarrow> uuid option \<Rightarrow> ('r, user) aprog" where
  "get_current_user env x_api_key bearer org_header =
     (if \<not> absent x_api_key then resolve_user_from_api_key env (the x_api_key) org_header
      else case bearer of
        Some token \<Rightarrow> resolve_user_from_jwt env token
      | None \<Rightarrow> raise (unauthorized ''Missing or invalid authentication credentials''))"

end
