(* ===== verification/AuthSample.thy ===== *)
theory AuthSample
  imports AuthService
begin

section \<open>A small deployment of the authentication service\<close>

text \<open>Concrete functions for what the environment stands for, and one account with a second factor:
  hashes that spell out their input, tokens that spell out their kind and identifier, and a
  Redis server as an association list.\<close>

type_synonym sample_redis = "(string \<times> auth_value) list"

definition sample_redis_server :: "sample_redis auth_redis" where
  "sample_redis_server =
     \<lparr>ar_get = (\<lambda>k r. map_of r k), ar_set = (\<lambda>k v ttl r. (k, v) # filter (\<lambda>(l, _). l \<noteq> k) r),
      ar_delete = (\<lambda>k r. filter (\<lambda>(l, _). l \<noteq> k) r),
      ar_incr = (\<lambda>k r. let n = (case map_of r k of Some (CountValue m) \<Rightarrow> m + 1 | _ \<Rightarrow> 1)
                       in (n, (k, CountValue n) # filter (\<lambda>(l, _). l \<noteq> k) r)),
      ar_expire = (\<lambda>k ttl r. r), ar_ttl = (\<lambda>k r. 900)\<rparr>"

definition sample_auth_env :: "sample_redis auth_env" where
  "sample_auth_env =
     \<lparr>auth_time_at = (\<lambda>n. seconds (1000 + int n)), auth_uuid_at = (\<lambda>n. ''id-'' @ replicate n CHR ''i''),
      random_secret_at = (\<lambda>n. ''SECRET''), random_choice_at = (\<lambda>n. n), token_urlsafe_at = (\<lambda>n. ''key'' @ replicate n CHR ''k''),
      pw_hash = (\<lambda>n p. ''h:'' @ p), pw_verify = (\<lambda>p h. Some (h = ''h:'' @ p)), sha256 = (\<lambda>s. ''s:'' @ s),
      fernet_encrypt = (\<lambda>n s. s), fernet_decrypt = Some, totp_verify = (\<lambda>s c t. c = s), provisioning_uri = (\<lambda>s a. s @ a),
      jwt_encode = (\<lambda>c. hd (jc_type c) # jc_jti c),
      jwt_decode = (\<lambda>t token. Inr \<lparr>jc_sub = ''alice'', jc_email = ''alice@example.com'', jc_jti = tl token,
         jc_type = (if take 1 token = ''r'' then ''refresh'' else ''access''), jc_iat = 1000, jc_exp = 9000\<rparr>),
      signing_forbidden = False, redis_server = sample_redis_server, access_token_expire_minutes = 15, refresh_token_expire_days = 7,
      max_login_attempts = 5, account_lockout_minutes = 15, password_history_limit = 5, mfa_recovery_code_count = 2,
      frontend_base_url = ''https://app.example.com/''\<rparr>"

definition sample_user :: user where
  "sample_user =
     base_model.extend (new_base ''alice'' 0 None)
       (user.fields ''Alice'' ''Doe'' ''alice@example.com'' ''alice'' None ''h:Correct-Horse-9'' ''UTC'' ''en'' True True
          (Some 0) None None 0 None None False True True)"

definition sample_auth_db :: auth_db where
  "sample_auth_db =
     \<lparr>users = [sample_user], sessions = [], password_histories = [], login_attempts = [],
      mfa_credentials = [base_model.extend (new_base ''cred'' 0 None) (mfa_credential.fields ''alice'' ''424242'' (Some 0) None)],
      recovery_codes = [base_model.extend (new_base ''code'' 0 None) (recovery_code.fields ''alice'' ''s:ABCDE-FGHJK'' None)],
      api_keys = [], org_rows = [], org_members = [], auth_audits = [], auth_outbox = []\<rparr>"

definition sample_auth_world :: "sample_redis auth_world" where
  "sample_auth_world = \<lparr>aw_committed = sample_auth_db, aw_clock = 0, aw_supply = 0, aw_redis = []\<rparr>"

definition sample_device :: device_info where
  "sample_device = make_device_info sample_auth_env ''10.0.0.1'' ''browser'' None None None"

end
