(* ===== verification/Progress.thy ===== *)
theory Progress
  imports Outcomes
begin

section \<open>Runs that return\<close>

text \<open>
  \<open>yields P m db x\<close>: the run of \<open>m\<close> from \<open>(db, x)\<close> returns, and \<open>P\<close> holds of the value and the state.
  This is \<open>ensures\<close> together with the fact that nothing is raised, and its rules compute the
  condition under which a service method gets through all its checks.
\<close>

definition yields :: "('a \<Rightarrow> 'db \<Rightarrow> 'x \<Rightarrow> bool) \<Rightarrow> ('db \<times> 'x, 'e, 'a) prog \<Rightarrow> 'db \<Rightarrow> 'x \<Rightarrow> bool" where
  "yields P m db x \<longleftrightarrow> (\<exists>v db' x'. m (db, x) = (Inr v, (db', x')) \<and> P v db' x')"

lemma yieldsD: "yields P m db x \<Longrightarrow> \<exists>v db' x'. m (db, x) = (Inr v, (db', x')) \<and> P v db' x'"
  by (simp add: yields_def)

lemma yields_mono: "yields P m db x \<Longrightarrow> (\<And>v db' x'. P v db' x' \<Longrightarrow> Q v db' x') \<Longrightarrow> yields Q m db x"
  by (auto simp: yields_def)

text \<open>A run that returns has what \<open>ensures\<close> promises of it.\<close>

lemma yields_ensures: "yields P m db x \<Longrightarrow> ensures Q m db x \<Longrightarrow> yields (\<lambda>v db' x'. P v db' x' \<and> Q v db' x') m db x"
  by (auto simp: yields_def ensures_def)

lemma yields_andthen [simp]: "yields P (andthen m f) = yields (\<lambda>v. yields P (f v)) m"
  unfolding yields_def andthen_Inr by (intro ext) (metis prod.exhaust)

lemma yields_ret [simp]: "yields P (ret v) = P v"
  and yields_raise [simp]: "yields P (raise e) = (\<lambda>_ _. False)"
  and yields_guard [simp]: "yields Q (guard b e) = (\<lambda>db x. b \<and> Q () db x)"
  and yields_reads_db [simp]: "yields P (reads_db g) = (\<lambda>db. P (g db) db)"
  and yields_reads_world [simp]: "yields P (reads_world h) = (\<lambda>db x. P (h x) db x)"
  and yields_modifies_db [simp]: "yields Q (modifies_db k) = (\<lambda>db. Q () (k db))"
  and yields_modifies_world [simp]: "yields Q (modifies_world k') = (\<lambda>db x. Q () db (k' x))"
  by (intro ext, auto simp: yields_def prog_simps)+

lemma yields_lift [simp]: "yields P (lift_result r) = (\<lambda>db x. case r of Inl e \<Rightarrow> False | Inr v \<Rightarrow> P v db x)"
  and yields_orelse [simp]: "yields P (orelse o' e) = (\<lambda>db x. case o' of None \<Rightarrow> False | Some v \<Rightarrow> P v db x)"
  by (intro ext, auto simp: yields_def prog_simps split: sum.splits option.splits)+

lemma ensures_stores [simp]:
  "ensures P (stores_db wrap f) = (\<lambda>db w. case f db of Inl e \<Rightarrow> True | Inr db' \<Rightarrow> P () db' w)"
  by (intro ext) (auto simp: ensures_def stores_db_def split: sum.splits)

lemma yields_stores [simp]:
  "yields P (stores_db wrap f) = (\<lambda>db x. case f db of Inl e \<Rightarrow> False | Inr db' \<Rightarrow> P () db' x)"
  by (intro ext) (auto simp: yields_def stores_db_def split: sum.splits)

lemma yields_if [simp]: "yields P (if b then m else n) = (\<lambda>db x. if b then yields P m db x else yields P n db x)"
  by (intro ext) simp

lemma yields_option [simp]:
  "yields P (case o' of None \<Rightarrow> m | Some y \<Rightarrow> f y) = (\<lambda>db x. case o' of None \<Rightarrow> yields P m db x | Some y \<Rightarrow> yields P (f y) db x)"
  by (intro ext) (simp split: option.split)

lemma yields_case_prod [simp]: "yields P (case p of (a, b) \<Rightarrow> f a b) = yields P (f (fst p) (snd p))"
  by (simp add: split_def)



subsection \<open>Runs that raise\<close>

text \<open>\<open>raises P m db x\<close>: the run of \<open>m\<close> raises, and \<open>P\<close> holds of the error and the state at that point.\<close>

definition raises :: "('e \<Rightarrow> 'db \<Rightarrow> 'x \<Rightarrow> bool) \<Rightarrow> ('db \<times> 'x, 'e, 'a) prog \<Rightarrow> 'db \<Rightarrow> 'x \<Rightarrow> bool" where
  "raises P m db x \<longleftrightarrow> (\<exists>e db' x'. m (db, x) = (Inl e, (db', x')) \<and> P e db' x')"

lemma raisesD: "raises P m db x \<Longrightarrow> \<exists>e db' x'. m (db, x) = (Inl e, (db', x')) \<and> P e db' x'"
  by (simp add: raises_def)

lemma raises_mono: "raises P m db x \<Longrightarrow> (\<And>e db' x'. P e db' x' \<Longrightarrow> Q e db' x') \<Longrightarrow> raises Q m db x"
  by (auto simp: raises_def)

lemma raises_andthen [simp]:
  "raises P (andthen m f) = (\<lambda>db x. raises P m db x \<or> yields (\<lambda>v. raises P (f v)) m db x)"
  unfolding raises_def yields_def andthen_Inl by (intro ext) (metis prod.exhaust)

lemma raises_ret [simp]: "raises P (ret v) = (\<lambda>_ _. False)"
  and raises_raise [simp]: "raises P (raise e) = P e"
  and raises_guard [simp]: "raises P (guard b e) = (\<lambda>db x. \<not> b \<and> P e db x)"
  and raises_reads_db [simp]: "raises P (reads_db g) = (\<lambda>_ _. False)"
  and raises_reads_world [simp]: "raises P (reads_world h) = (\<lambda>_ _. False)"
  and raises_modifies_db [simp]: "raises P (modifies_db k) = (\<lambda>_ _. False)"
  and raises_modifies_world [simp]: "raises P (modifies_world k') = (\<lambda>_ _. False)"
  by (intro ext, auto simp: raises_def prog_simps)+

lemma raises_lift [simp]: "raises P (lift_result r) = (\<lambda>db x. case r of Inl e \<Rightarrow> P e db x | Inr v \<Rightarrow> False)"
  and raises_orelse [simp]: "raises P (orelse o' e) = (\<lambda>db x. case o' of None \<Rightarrow> P e db x | Some v \<Rightarrow> False)"
  by (intro ext, auto simp: raises_def prog_simps split: sum.splits option.splits)+

lemma raises_stores [simp]:
  "raises P (stores_db wrap f) = (\<lambda>db x. case f db of Inl e \<Rightarrow> P (wrap e) db x | Inr db' \<Rightarrow> False)"
  by (intro ext) (auto simp: raises_def stores_db_def split: sum.splits)

lemma raises_if [simp]: "raises P (if b then m else n) = (\<lambda>db x. if b then raises P m db x else raises P n db x)"
  by (intro ext) simp

lemma raises_option [simp]:
  "raises P (case o' of None \<Rightarrow> m | Some y \<Rightarrow> f y) = (\<lambda>db x. case o' of None \<Rightarrow> raises P m db x | Some y \<Rightarrow> raises P (f y) db x)"
  by (intro ext) (simp split: option.split)

end
