(* ===== verification/AuthRules.thy ===== *)
theory AuthRules
  imports AuthSample Progress
begin

section \<open>What a successful login has checked\<close>

text \<open>
  The steps of \<open>AuthService.login\<close> in the calculus of theory \<open>Outcomes\<close>: what a login that returns
  tokens has established about the account, the password, the second factor and the session.
\<close>

subsection \<open>The steps every method is made of\<close>

lemma ensures_auth_now [simp]:
  "ensures P (auth_now env) = (\<lambda>db w. P (auth_time_at env (aw_clock w)) db (w\<lparr>aw_clock := Suc (aw_clock w)\<rparr>))"
  by (simp add: auth_now_def)

lemma ensures_draw [simp]:
  "ensures P (draw source) = (\<lambda>db w. P (source (aw_supply w)) db (w\<lparr>aw_supply := Suc (aw_supply w)\<rparr>))"
  by (simp add: draw_def)

lemma ensures_draws [simp]:
  "ensures P (draws k source) =
     (\<lambda>db w. P (map source [aw_supply w..<aw_supply w + k]) db (w\<lparr>aw_supply := aw_supply w + k\<rparr>))"
  by (simp add: draws_def)

lemma ensures_auth_uuid4 [simp]:
  "ensures P (auth_uuid4 env) = (\<lambda>db w. P (auth_uuid_at env (aw_supply w)) db (w\<lparr>aw_supply := Suc (aw_supply w)\<rparr>))"
  by (simp add: auth_uuid4_def)

lemma ensures_auth_db_now [simp]:
  "ensures P (auth_db_now env) = (\<lambda>db w. P (auth_time_at env (aw_clock w)) db w)"
  by (simp add: auth_db_now_def)

lemma ensures_commit [simp]: "ensures P commit = (\<lambda>db w. P () db (w\<lparr>aw_committed := db\<rparr>))"
  by (intro ext) (simp add: ensures_def commit_def)

lemma ensures_redis [simp]:
  "ensures P (redis_get env k) = (\<lambda>db w. P (ar_get (redis_server env) k (aw_redis w)) db w)"
  "ensures Q (redis_write f) = (\<lambda>db w. Q () db (w\<lparr>aw_redis := f (aw_redis w)\<rparr>))"
  by (simp_all add: redis_get_def redis_write_def)

lemma ensures_redis_run [simp]:
  "ensures P (redis_run f) = (\<lambda>db w. P (fst (f (aw_redis w))) db (w\<lparr>aw_redis := snd (f (aw_redis w))\<rparr>))"
  by (simp add: redis_run_def split_def)

lemma ensures_update_in [simp]:
  "ensures P (update_in env upd inst data) =
     (\<lambda>db w. P (assign (auth_time_at env (aw_clock w)) data (version inst) inst)
               (upd (update_row (auth_time_at env (aw_clock w)) data inst) db) w)"
  by (simp add: update_in_def)

lemma ensures_create_in:
  "ensures P (create_in env get upd uniq columns) = (\<lambda>db w.
     let r = base_model.extend (new_base (auth_uuid_at env (aw_supply w)) (auth_time_at env (aw_clock w)) None) columns;
         w' = w\<lparr>aw_supply := Suc (aw_supply w)\<rparr>
     in case create_row uniq r (get db) of Inl e \<Rightarrow> True | Inr t \<Rightarrow> P r (upd (\<lambda>_. t) db) w')"
  by (intro ext) (simp add: create_in_def Let_def split: sum.split)

text \<open>\<open>fail_login\<close> never returns.\<close>

lemma ensures_fail_login [simp]: "ensures P (fail_login env user_id email dev reason e) = (\<lambda>_ _. True)"
  by (simp add: fail_login_def)

lemma create_row_snoc: "create_row uniq r t = Inr t' \<Longrightarrow> t' = t @ [r]"
  by (simp add: create_row_def split: if_splits)


subsection \<open>Login\<close>

text \<open>The second factor: a TOTP code of the enrolled secret at a time the clock showed during
  the request, or a recovery code nobody has used.\<close>

definition second_factor :: "'r auth_env \<Rightarrow> auth_db \<Rightarrow> uuid \<Rightarrow> string \<Rightarrow> datetime set \<Rightarrow> bool" where
  "second_factor env db user_id code moments \<longleftrightarrow>
     (\<exists>c secret t. get_mfa_credential user_id db = Some c \<and> fernet_decrypt env (mc_secret_encrypted c) = Some secret \<and>
        t \<in> moments \<and> totp_verify env secret code t) \<or>
     get_active_recovery_code user_id (hash_recovery_code env code) db \<noteq> None"

definition clock_readings :: "'r auth_env \<Rightarrow> 'r auth_world \<Rightarrow> datetime set" where
  "clock_readings env w = auth_time_at env ` {aw_clock w..}"

lemma second_factor_later:
  "second_factor env db user_id code (clock_readings env w') \<Longrightarrow> aw_clock w \<le> aw_clock w' \<Longrightarrow>
   second_factor env db user_id code (clock_readings env w)"
  unfolding second_factor_def clock_readings_def by force

text \<open>What the password step lets through, and that it writes nothing then.\<close>

definition password_passed :: "'r auth_env \<Rightarrow> string \<Rightarrow> string \<Rightarrow> datetime \<Rightarrow> auth_db \<Rightarrow> user \<Rightarrow> bool" where
  "password_passed env email password now db u \<longleftrightarrow>
     get_user_by_email email db = Some u \<and> u_is_active u \<and> u_is_verified u \<and>
     (\<forall>t. u_locked_until u = Some t \<longrightarrow> t \<le> now) \<and> verify_password_safe env password (u_password_hash u)"

lemma password_step:
  "ensures (\<lambda>u db' w'. db' = db \<and> aw_clock w \<le> aw_clock w' \<and> password_passed env email password (auth_time_at env (aw_clock w)) db u)
     (login_password_step env email password dev) db w"
  by (auto simp: login_password_step_def check_rate_limit_def check_account_lock_def password_passed_def Let_def
      split: option.splits auth_value.splits)

lemma second_factor_step:
  "ensures (\<lambda>ok db' w'. users db' = users db \<and> password_histories db' = password_histories db \<and> aw_clock w \<le> aw_clock w' \<and>
       (ok \<longrightarrow> second_factor env db user_id code (clock_readings env w)))
     (verify_mfa_or_recovery_code env user_id code) db w"
  by (force simp: verify_mfa_or_recovery_code_def verify_totp_def decrypt_secret_def verify_code_def mark_recovery_code_used_def
      second_factor_def clock_readings_def split: option.splits)

lemma mfa_step:
  "ensures (\<lambda>_ db' w'. users db' = users db \<and> password_histories db' = password_histories db \<and> aw_clock w \<le> aw_clock w' \<and>
       (u_mfa_enabled u \<longrightarrow> (\<exists>code. mfa_code = Some code \<and> code \<noteq> [] \<and>
          second_factor env db (row_id u) code (clock_readings env w))))
     (login_mfa_step env email dev mfa_code u) db w"
  using ensures_mono [OF second_factor_step [of db w env "row_id u" "the mfa_code"]]
  by (auto simp: login_mfa_step_def absent_def elim!: ensures_mono)

text \<open>Hashing a password that the policy refuses raises.\<close>

lemma ensures_hash [simp]:
  "ensures P (hash_or_too_weak env password) =
     (\<lambda>db w. validate_strength password = Inr () \<longrightarrow>
        P (pw_hash env (aw_supply w) password) db (w\<lparr>aw_supply := Suc (aw_supply w)\<rparr>))"
  by (intro ext, cases "validate_strength password")
     (auto simp: hash_or_too_weak_def PasswordManager_hash_def ensures_def catching_Inr andthen_Inr andthen_Inl prog_simps draw_def)

lemma ensures_history [simp]:
  "ensures P (reject_recent_passwords env user_id password) =
     (\<lambda>db w. password_history_limit env \<le> 0 \<or>
        \<not> list_ex (verify_password_safe env password) (get_recent_password_hashes user_id (password_history_limit env) db) \<longrightarrow>
        P () db w)"
  by (intro ext) (auto simp: reject_recent_passwords_def)

lemma set_password_step:
  "ensures (\<lambda>u' db' w'. row_id u' = row_id u \<and> u_email u' = u_email u \<and> u_password_hash u' = h \<and>
       sessions db' = sessions db \<and> aw_clock w \<le> aw_clock w' \<and>
       users db' = update_row (auth_time_at env (Suc (aw_clock w))) (\<lambda>r. r\<lparr>u_password_hash := h,
         u_password_changed_at := Some (auth_time_at env (aw_clock w)), u_must_change_password := False\<rparr>) u (users db))
     (set_password env u h) db w"
  by (auto simp: set_password_def update_user_def add_password_history_def ensures_create_in Let_def assign_def
      split: sum.split)

text \<open>The new password a login with a temporary one has to bring.\<close>

definition acceptable_change :: "'r auth_env \<Rightarrow> auth_db \<Rightarrow> user \<Rightarrow> string \<Rightarrow> bool" where
  "acceptable_change env db u new \<longleftrightarrow>
     new \<noteq> [] \<and> validate_strength new = Inr () \<and> \<not> verify_password_safe env new (u_password_hash u) \<and>
     (0 < password_history_limit env \<longrightarrow>
        \<not> list_ex (verify_password_safe env new) (get_recent_password_hashes (row_id u) (password_history_limit env) db))"

lemma change_step:
  "ensures (\<lambda>u' db' w'. row_id u' = row_id u \<and> u_email u' = u_email u \<and> sessions db' = sessions db \<and> aw_clock w \<le> aw_clock w' \<and>
       (u_must_change_password u \<longrightarrow> (\<exists>new. new_password = Some new \<and> acceptable_change env db u new)))
     (login_change_step env email dev new_password u) db w"
  by (auto simp: login_change_step_def absent_def acceptable_change_def intro!: ensures_mono [OF set_password_step])

text \<open>The session a login opens, and the token that belongs to it.\<close>

definition opened_session :: "'r auth_env \<Rightarrow> uuid \<Rightarrow> string \<Rightarrow> uuid \<Rightarrow> auth_db \<Rightarrow> bool" where
  "opened_session env user_id token session_id db \<longleftrightarrow>
     (\<exists>s claims. s \<in> set (sessions db) \<and> row_id s = session_id \<and> sn_user_id s = user_id \<and> sn_is_active s \<and> \<not> is_deleted s \<and>
        token = jwt_encode env claims \<and> jc_type claims = ''refresh'' \<and> jc_sub claims = user_id \<and>
        jc_jti claims = sn_refresh_token_jti s)"

lemma opened_sessionI:
  "s \<in> set (sessions db) \<Longrightarrow> row_id s = sid \<and> sn_user_id s = user_id \<and> sn_is_active s \<and> \<not> is_deleted s \<Longrightarrow>
      jc_type claims = ''refresh'' \<and> jc_sub claims = user_id \<and> jc_jti claims = sn_refresh_token_jti s \<Longrightarrow>
   opened_session env user_id (jwt_encode env claims) sid db"
  by (auto simp: opened_session_def)

lemma token_pair_step:
  "ensures (\<lambda>d db' w'. db' = db \<and>
       (\<exists>claims. refresh_token d = jwt_encode env claims \<and> jc_type claims = ''refresh'' \<and> jc_sub claims = user_id \<and>
          jc_jti claims = refresh_jti d))
     (create_token_pair env user_id email) db w"
  by (simp add: create_token_pair_def create_access_token_def jwt_create_refresh_token_def create_jwt_def jwt_manager_encode_def)
     (auto intro!: exI)

lemma store_session_step:
  "jc_type claims = ''refresh'' \<Longrightarrow> jc_sub claims = user_id \<Longrightarrow> jc_jti claims = jti \<Longrightarrow>
   ensures (\<lambda>s db' w'. opened_session env user_id (jwt_encode env claims) (row_id s) db')
     (create_refresh_token env user_id jti device name ip agent location expires) db w"
  by (auto simp: create_refresh_token_def ensures_create_in Let_def new_base_def session.defs base_model.defs
      dest!: create_row_snoc intro!: opened_sessionI split: sum.split)

lemma finish_step:
  "opened_session env user_id token sid db \<Longrightarrow>
   ensures (\<lambda>_. ensures (\<lambda>_ db' w'. opened_session env user_id token sid db' \<and> aw_committed w' = db')
       (record_attempt env (Some user_id) email dev True None))
     (count_login_attempt env email ip True) db w"
  by (auto simp: count_login_attempt_def record_attempt_def record_login_attempt_def ensures_create_in Let_def opened_session_def
      split: sum.split)

lemma session_step:
  "ensures (\<lambda>(u', tokens, sid) db' w'. row_id u' = row_id u \<and> opened_session env (row_id u) (refresh_token tokens) sid db' \<and> aw_committed w' = db')
     (login_session_step env email dev u) db w"
  unfolding login_session_step_def update_user_def ensures_andthen ensures_auth_now ensures_update_in
  by (rule ensures_mono [OF token_pair_step], elim conjE exE, rule ensures_mono [OF store_session_step])
     (auto simp: token_pair_from_dict_def token_pair.defs intro!: finish_step)


text \<open>All of it: the account behind a login that returned, as it was when the request came in.\<close>

definition login_checked ::
  "'r auth_env \<Rightarrow> string \<Rightarrow> string \<Rightarrow> string option \<Rightarrow> string option \<Rightarrow> auth_db \<Rightarrow> 'r auth_world \<Rightarrow> user \<Rightarrow> bool" where
  "login_checked env email password mfa_code new_password db w u \<longleftrightarrow>
     password_passed env email password (auth_time_at env (aw_clock w)) db u \<and>
     (u_mfa_enabled u \<longrightarrow> (\<exists>code. mfa_code = Some code \<and> code \<noteq> [] \<and> second_factor env db (row_id u) code (clock_readings env w))) \<and>
     (u_must_change_password u \<longrightarrow> (\<exists>new. new_password = Some new \<and> acceptable_change env db u new))"

lemma login_checkedI:
  assumes "password_passed env email password (auth_time_at env (aw_clock w)) db u" and "aw_clock w \<le> aw_clock w'"
    and "u_mfa_enabled u \<longrightarrow> (\<exists>code. mfa_code = Some code \<and> code \<noteq> [] \<and> second_factor env db (row_id u) code (clock_readings env w'))"
    and "u_must_change_password u \<longrightarrow> (\<exists>new. new_password = Some new \<and> acceptable_change env db' u new)"
    and "password_histories db' = password_histories db"
  shows "login_checked env email password mfa_code new_password db w u"
  using assms second_factor_later [of env db "row_id u" _ w' w]
  by (auto simp: login_checked_def acceptable_change_def get_recent_password_hashes_def)

lemma login_step:
  "ensures (\<lambda>(u, tokens, sid) db' w'.
       (\<exists>u0. login_checked env (py_lower (py_strip raw)) password mfa_code new_password db w u0 \<and> row_id u = row_id u0) \<and>
       opened_session env (row_id u) (refresh_token tokens) sid db' \<and> aw_committed w' = db')
     (login env raw password dev mfa_code new_password) db w"
  unfolding login_def Let_def ensures_andthen
  apply (rule ensures_mono [OF password_step], elim conjE, hypsubst)
  apply (rule ensures_mono [OF mfa_step], elim conjE)
  apply (rule ensures_mono [OF change_step], elim conjE)
  by (rule ensures_mono [OF session_step]) (auto intro: login_checkedI)

end
