(* ===== verification/Login.thy ===== *)
theory Login
  imports AuthRules
begin

section \<open>Who can log in\<close>

text \<open>
  The other direction of \<open>login_sound\<close>: an account that passes the checks gets its tokens. What can
  stop such a login is the rate limit of the address, the configuration that forbids signing,
  an undecryptable second factor, or a clash of identifiers; the hypotheses exclude these.
\<close>

subsection \<open>The steps every method is made of\<close>

lemma yields_auth_now [simp]:
  "yields P (auth_now env) = (\<lambda>db w. P (auth_time_at env (aw_clock w)) db (w\<lparr>aw_clock := Suc (aw_clock w)\<rparr>))"
  by (simp add: auth_now_def)

lemma yields_draw [simp]:
  "yields P (draw source) = (\<lambda>db w. P (source (aw_supply w)) db (w\<lparr>aw_supply := Suc (aw_supply w)\<rparr>))"
  by (simp add: draw_def)

lemma yields_auth_uuid4 [simp]:
  "yields P (auth_uuid4 env) = (\<lambda>db w. P (auth_uuid_at env (aw_supply w)) db (w\<lparr>aw_supply := Suc (aw_supply w)\<rparr>))"
  by (simp add: auth_uuid4_def)

lemma yields_auth_db_now [simp]: "yields P (auth_db_now env) = (\<lambda>db w. P (auth_time_at env (aw_clock w)) db w)"
  by (simp add: auth_db_now_def)

lemma yields_commit [simp]: "yields P commit = (\<lambda>db w. P () db (w\<lparr>aw_committed := db\<rparr>))"
  by (intro ext) (simp add: yields_def commit_def)

lemma yields_redis [simp]:
  "yields P (redis_get env k) = (\<lambda>db w. P (ar_get (redis_server env) k (aw_redis w)) db w)"
  "yields Q (redis_write f) = (\<lambda>db w. Q () db (w\<lparr>aw_redis := f (aw_redis w)\<rparr>))"
  by (simp_all add: redis_get_def redis_write_def)

lemma yields_update_in [simp]:
  "yields P (update_in env upd inst data) =
     (\<lambda>db w. P (assign (auth_time_at env (aw_clock w)) data (version inst) inst)
               (upd (update_row (auth_time_at env (aw_clock w)) data inst) db) w)"
  by (simp add: update_in_def)

lemma yields_create_in:
  "yields P (create_in env get upd uniq columns) = (\<lambda>db w.
     let r = base_model.extend (new_base (auth_uuid_at env (aw_supply w)) (auth_time_at env (aw_clock w)) None) columns;
         w' = w\<lparr>aw_supply := Suc (aw_supply w)\<rparr>
     in case create_row uniq r (get db) of Inl e \<Rightarrow> False | Inr t \<Rightarrow> P r (upd (\<lambda>_. t) db) w')"
  by (intro ext) (simp add: create_in_def Let_def split: sum.split)

lemma yields_hash [simp]:
  "yields P (hash_or_too_weak env password) =
     (\<lambda>db w. validate_strength password = Inr () \<and> P (pw_hash env (aw_supply w) password) db (w\<lparr>aw_supply := Suc (aw_supply w)\<rparr>))"
  by (intro ext, cases "validate_strength password")
     (auto simp: hash_or_too_weak_def PasswordManager_hash_def yields_def catching_def prog_simps draw_def)

lemma yields_history [simp]:
  "yields P (reject_recent_passwords env user_id password) =
     (\<lambda>db w. (password_history_limit env \<le> 0 \<or>
        \<not> list_ex (verify_password_safe env password) (get_recent_password_hashes user_id (password_history_limit env) db)) \<and>
        P () db w)"
  by (intro ext) (auto simp: reject_recent_passwords_def)


subsection \<open>Identifiers that do not clash\<close>

definition unused_from :: "'r auth_env \<Rightarrow> nat \<Rightarrow> string set \<Rightarrow> bool" where
  "unused_from env n S \<longleftrightarrow> (\<forall>k \<ge> n. auth_uuid_at env k \<notin> S)"

definition storable :: "'r auth_env \<Rightarrow> nat \<Rightarrow> auth_db \<Rightarrow> bool" where
  "storable env n db \<longleftrightarrow>
     inj (auth_uuid_at env) \<and>
     distinct (map row_id (sessions db)) \<and> distinct (map sn_refresh_token_jti (sessions db)) \<and>
     distinct (map row_id (password_histories db)) \<and> distinct (map row_id (login_attempts db)) \<and>
     unused_from env n (row_id ` set (sessions db) \<union> sn_refresh_token_jti ` set (sessions db) \<union>
       row_id ` set (password_histories db) \<union> row_id ` set (login_attempts db))"

lemma storableD:
  assumes "storable env n db" and "n \<le> k"
  shows "s \<in> set (sessions db) \<Longrightarrow> auth_uuid_at env k \<noteq> row_id s \<and> auth_uuid_at env k \<noteq> sn_refresh_token_jti s"
    and "p \<in> set (password_histories db) \<Longrightarrow> auth_uuid_at env k \<noteq> row_id p"
    and "a \<in> set (login_attempts db) \<Longrightarrow> auth_uuid_at env k \<noteq> row_id a"
  using assms by (auto simp: storable_def unused_from_def)

lemma storable_distinct:
  assumes "storable env n db"
  shows "distinct (map row_id (sessions db))" "distinct (map sn_refresh_token_jti (sessions db))"
    "distinct (map row_id (password_histories db))" "distinct (map row_id (login_attempts db))" "inj (auth_uuid_at env)"
  using assms by (simp_all add: storable_def)


subsection \<open>The steps of the login\<close>

definition under_rate_limit :: "'r auth_env \<Rightarrow> string \<Rightarrow> string \<Rightarrow> 'r \<Rightarrow> bool" where
  "under_rate_limit env email ip r \<longleftrightarrow>
     (\<forall>n. ar_get (redis_server env) (LOGIN_RATE_LIMIT_KEY email ip) r = Some (CountValue n) \<longrightarrow> n < max_login_attempts env)"

text \<open>The second factor holds whenever the clock is read, and the enrolled secret decrypts.\<close>

definition steady_second_factor :: "'r auth_env \<Rightarrow> auth_db \<Rightarrow> uuid \<Rightarrow> string \<Rightarrow> datetime set \<Rightarrow> bool" where
  "steady_second_factor env db user_id code moments \<longleftrightarrow>
     (\<forall>t \<in> moments. second_factor env db user_id code {t}) \<and>
     (\<forall>c. get_mfa_credential user_id db = Some c \<longrightarrow> fernet_decrypt env (mc_secret_encrypted c) \<noteq> None)"

lemma yields_password_step:
  assumes "password_passed env email password (auth_time_at env (aw_clock w)) db u"
    and "under_rate_limit env email (di_ip_address dev) (aw_redis w)"
  shows "yields (\<lambda>u' db' w'. u' = u \<and> db' = db \<and> aw_supply w' = aw_supply w \<and> aw_clock w \<le> aw_clock w')
    (login_password_step env email password dev) db w"
  using assms
  by (auto simp: login_password_step_def check_rate_limit_def check_account_lock_def password_passed_def under_rate_limit_def Let_def
      split: option.split auth_value.split)

lemma yields_second_factor:
  assumes "steady_second_factor env db user_id code (clock_readings env w)"
  shows "yields (\<lambda>ok db' w'. ok \<and> sessions db' = sessions db \<and> password_histories db' = password_histories db \<and>
      login_attempts db' = login_attempts db \<and> aw_supply w' = aw_supply w)
    (verify_mfa_or_recovery_code env user_id code) db w"
proof -
  have "auth_time_at env (aw_clock w) \<in> clock_readings env w" by (simp add: clock_readings_def)
  then show ?thesis using assms
    by (auto simp: steady_second_factor_def second_factor_def verify_mfa_or_recovery_code_def verify_totp_def decrypt_secret_def
        verify_code_def mark_recovery_code_used_def get_active_recovery_code_def split: option.split)
qed

lemma yields_mfa_step:
  assumes "u_mfa_enabled u \<longrightarrow> (\<exists>code. mfa_code = Some code \<and> code \<noteq> [] \<and> steady_second_factor env db (row_id u) code (clock_readings env w))"
  shows "yields (\<lambda>_ db' w'. sessions db' = sessions db \<and> password_histories db' = password_histories db \<and>
      login_attempts db' = login_attempts db \<and> aw_supply w' = aw_supply w)
    (login_mfa_step env email dev mfa_code u) db w"
  using assms
  by (auto simp: login_mfa_step_def absent_def intro!: yields_mono [OF yields_second_factor])

lemma yields_change_step:
  assumes "u_must_change_password u \<longrightarrow> (\<exists>new. new_password = Some new \<and> acceptable_change env db u new)"
    and "storable env (aw_supply w) db"
  shows "yields (\<lambda>u' db' w'. storable env (aw_supply w') db') (login_change_step env email dev new_password u) db w"
  using assms
  by (auto simp: login_change_step_def absent_def acceptable_change_def set_password_def update_user_def add_password_history_def
      yields_create_in create_row_def storable_def unused_from_def Let_def dest: injD)

lemma yields_session_step:
  assumes "storable env (aw_supply w) db" and "\<not> signing_forbidden env"
  shows "yields (\<lambda>_ _ _. True) (login_session_step env email dev u) db w"
  using storableD [OF assms(1)] storable_distinct [OF assms(1)] assms(2)
  by (auto simp: login_session_step_def update_user_def create_token_pair_def create_access_token_def jwt_create_refresh_token_def
      create_jwt_def jwt_manager_encode_def create_refresh_token_def count_login_attempt_def record_attempt_def record_login_attempt_def
      yields_create_in create_row_def Let_def session.defs base_model.defs new_base_def dest: injD)



subsection \<open>Soundness and completeness\<close>

text \<open>C14. A login that returned tokens has seen an active, verified account that is not locked, its
  password, where the account asks for it a valid second factor, and where the password was
  temporary an acceptable new one; and the refresh token it returned names an active session of
  that account, in the committed tables.\<close>

theorem login_sound:
  assumes "login env raw password dev mfa_code new_password (db, w) = (Inr (u, tokens, sid), (db', w'))"
  shows "(\<exists>u0. login_checked env (py_lower (py_strip raw)) password mfa_code new_password db w u0 \<and> row_id u = row_id u0) \<and>
    opened_session env (row_id u) (refresh_token tokens) sid db' \<and> aw_committed w' = db'"
  using ensuresD [OF login_step assms] by simp

definition login_ready ::
  "'r auth_env \<Rightarrow> string \<Rightarrow> string \<Rightarrow> device_info \<Rightarrow> string option \<Rightarrow> string option \<Rightarrow> auth_db \<Rightarrow> 'r auth_world \<Rightarrow> user \<Rightarrow> bool" where
  "login_ready env email password dev mfa_code new_password db w u \<longleftrightarrow>
     password_passed env email password (auth_time_at env (aw_clock w)) db u \<and>
     (u_mfa_enabled u \<longrightarrow> (\<exists>code. mfa_code = Some code \<and> code \<noteq> [] \<and> steady_second_factor env db (row_id u) code (clock_readings env w))) \<and>
     (u_must_change_password u \<longrightarrow> (\<exists>new. new_password = Some new \<and> acceptable_change env db u new)) \<and>
     under_rate_limit env email (di_ip_address dev) (aw_redis w) \<and> storable env (aw_supply w) db \<and> \<not> signing_forbidden env"

lemma steady_later:
  "steady_second_factor env db user_id code (clock_readings env w) \<Longrightarrow> aw_clock w \<le> aw_clock w' \<Longrightarrow>
   steady_second_factor env db user_id code (clock_readings env w')"
  by (auto simp: steady_second_factor_def clock_readings_def)

lemma storable_same:
  "storable env n db \<Longrightarrow> sessions db' = sessions db \<Longrightarrow> password_histories db' = password_histories db \<Longrightarrow>
   login_attempts db' = login_attempts db \<Longrightarrow> storable env n db'"
  by (simp add: storable_def)

lemma acceptable_same:
  "acceptable_change env db u new \<Longrightarrow> password_histories db' = password_histories db \<Longrightarrow> acceptable_change env db' u new"
  by (simp add: acceptable_change_def get_recent_password_hashes_def)

lemma yields_login:
  assumes ready: "login_ready env (py_lower (py_strip raw)) password dev mfa_code new_password db w u"
  shows "yields (\<lambda>_ _ _. True) (login env raw password dev mfa_code new_password) db w"
proof -
  let ?email = "py_lower (py_strip raw)"
  have mfa: "yields (\<lambda>_ db' w'. sessions db' = sessions db \<and> password_histories db' = password_histories db \<and>
      login_attempts db' = login_attempts db \<and> aw_supply w' = aw_supply w) (login_mfa_step env ?email dev mfa_code u) db w1"
    if "aw_clock w \<le> aw_clock w1" "aw_supply w1 = aw_supply w" for w1
  proof -
    have "u_mfa_enabled u \<longrightarrow> (\<exists>code. mfa_code = Some code \<and> code \<noteq> [] \<and> steady_second_factor env db (row_id u) code (clock_readings env w1))"
      using ready steady_later [OF _ that(1)] by (auto simp: login_ready_def)
    from yields_mfa_step [OF this, of ?email dev] that(2) show ?thesis by simp
  qed
  have change: "yields (\<lambda>u' db' w'. storable env (aw_supply w') db') (login_change_step env ?email dev new_password u) db1 w1"
    if "sessions db1 = sessions db" "password_histories db1 = password_histories db" "login_attempts db1 = login_attempts db"
      "aw_supply w1 = aw_supply w" for db1 w1
  proof (rule yields_change_step)
    show "storable env (aw_supply w1) db1" using ready that by (simp add: login_ready_def storable_def)
    show "u_must_change_password u \<longrightarrow> (\<exists>new. new_password = Some new \<and> acceptable_change env db1 u new)"
      using ready acceptable_same [OF _ that(2)] by (auto simp: login_ready_def)
  qed
  have signing: "\<not> signing_forbidden env" using ready by (simp add: login_ready_def)
  have "yields (\<lambda>u' db' w'. u' = u \<and> db' = db \<and> aw_supply w' = aw_supply w \<and> aw_clock w \<le> aw_clock w')
    (login_password_step env ?email password dev) db w"
    using ready by (intro yields_password_step) (simp_all add: login_ready_def)
  then show ?thesis
    unfolding login_def Let_def yields_andthen
    by (rule yields_mono, elim conjE, hypsubst)
       (rule yields_mono [OF mfa], assumption+, elim conjE, rule yields_mono [OF change], assumption+,
        rule yields_session_step [OF _ signing])
qed



subsection \<open>The sample account\<close>

lemma sample_uuids: "inj (auth_uuid_at sample_auth_env)"
  by (simp add: sample_auth_env_def inj_def)

lemma sample_ready:
  "login_ready sample_auth_env (py_lower (py_strip '' Alice@Example.com'')) ''Correct-Horse-9'' sample_device (Some ''424242'') None
     sample_auth_db sample_auth_world sample_user"
proof -
  have "password_passed sample_auth_env (py_lower (py_strip '' Alice@Example.com'')) ''Correct-Horse-9''
      (auth_time_at sample_auth_env 0) sample_auth_db sample_user"
  proof -
    have "get_user_by_email (py_lower (py_strip '' Alice@Example.com'')) sample_auth_db = Some sample_user" by code_simp
    moreover have "u_is_active sample_user \<and> u_is_verified sample_user \<and> u_locked_until sample_user = None \<and>
      verify_password_safe sample_auth_env ''Correct-Horse-9'' (u_password_hash sample_user)" by code_simp
    ultimately show ?thesis by (simp add: password_passed_def)
  qed
  moreover have "\<not> u_must_change_password sample_user" by code_simp
  moreover have "steady_second_factor sample_auth_env sample_auth_db (row_id sample_user) ''424242'' moments" for moments
  proof -
    have "(case get_mfa_credential (row_id sample_user) sample_auth_db of None \<Rightarrow> False | Some c \<Rightarrow> mc_secret_encrypted c = ''424242'')"
      by code_simp
    then obtain c where "get_mfa_credential (row_id sample_user) sample_auth_db = Some c" "mc_secret_encrypted c = ''424242''"
      by (auto split: option.splits)
    then show ?thesis by (auto simp: steady_second_factor_def second_factor_def sample_auth_env_def)
  qed
  moreover have "storable sample_auth_env 0 sample_auth_db"
    using sample_uuids by (simp add: storable_def unused_from_def sample_auth_db_def)
  ultimately show ?thesis
    by (simp add: login_ready_def under_rate_limit_def sample_auth_world_def) (simp add: sample_auth_env_def sample_redis_server_def)
qed


theorem login_sound_witness:
  "\<exists>u tokens sid s'.
     login sample_auth_env '' Alice@Example.com'' ''Correct-Horse-9'' sample_device (Some ''424242'') None
       (sample_auth_db, sample_auth_world) = (Inr (u, tokens, sid), s') \<and>
     opened_session sample_auth_env (row_id u) (refresh_token tokens) sid (fst s')"
proof -
  from yieldsD [OF yields_login [OF sample_ready]] obtain v db' w' where run:
    "login sample_auth_env '' Alice@Example.com'' ''Correct-Horse-9'' sample_device (Some ''424242'') None
       (sample_auth_db, sample_auth_world) = (Inr v, (db', w'))" by blast
  obtain u tokens sid where "v = (u, tokens, sid)" by (cases v)
  with run login_sound [of sample_auth_env "'' Alice@Example.com''" "''Correct-Horse-9''" sample_device "Some ''424242''" None
      sample_auth_db sample_auth_world u tokens sid db' w']
  show ?thesis by auto
qed

end
