(* ===== verification/AuthSessions.thy ===== *)
theory AuthSessions
  imports AuthRules
begin

section \<open>The life of a refresh token\<close>

text \<open>
  What happens to sessions over any history of authentication requests, of any users, returning
  or raising. A refresh token is the identifier stored in a session row; the statements here are
  about tokens that are dead: no active session carries them. A dead token stays dead, because
  no request reactivates a session and every token that is written is freshly drawn.
\<close>

subsection \<open>The requests\<close>

datatype auth_call =
    Register string string string string string "string option" string string
  | Login string string device_info "string option" "string option"
  | Refresh string
  | Logout uuid
  | LogoutAll uuid
  | ChangePassword uuid string string
  | InitiatePasswordReset string
  | ResetPassword string string
  | VerifyEmail string
  | ResendVerification string
  | EnrollMfa uuid
  | EnableMfa uuid string
  | DisableMfa uuid string string
  | RegenerateRecoveryCodes uuid string
  | ListSessions uuid
  | RevokeSession uuid
  | CleanupExpiredSessions
  | CreateApiKey uuid uuid string "datetime option"
  | RevokeApiKey uuid "uuid option"
  | Authenticate "string option" "string option" "uuid option"

definition unit_of :: "('r, 'a) aprog \<Rightarrow> ('r, unit) aprog" where
  "unit_of m = andthen m (\<lambda>_. ret ())"

fun run_auth :: "'r auth_env \<Rightarrow> auth_call \<Rightarrow> ('r, unit) aprog" where
  "run_auth env (Register fn ln email name pw phone tz lang) = unit_of (register env fn ln email name pw phone tz lang)"
| "run_auth env (Login email pw dev mfa new) = unit_of (login env email pw dev mfa new)"
| "run_auth env (Refresh token) = unit_of (refresh env token)"
| "run_auth env (Logout sid) = logout env sid"
| "run_auth env (LogoutAll uid) = unit_of (logout_all env uid)"
| "run_auth env (ChangePassword uid old new) = change_password env uid old new"
| "run_auth env (InitiatePasswordReset email) = initiate_password_reset env email"
| "run_auth env (ResetPassword token new) = reset_password env token new"
| "run_auth env (VerifyEmail token) = unit_of (verify_email env token)"
| "run_auth env (ResendVerification email) = resend_verification env email"
| "run_auth env (EnrollMfa uid) = unit_of (enroll_mfa env uid)"
| "run_auth env (EnableMfa uid code) = unit_of (verify_and_enable_mfa env uid code)"
| "run_auth env (DisableMfa uid pw code) = disable_mfa env uid pw code"
| "run_auth env (RegenerateRecoveryCodes uid code) = unit_of (regenerate_recovery_codes env uid code)"
| "run_auth env (ListSessions uid) = unit_of (list_sessions env uid)"
| "run_auth env (RevokeSession sid) = revoke_session env sid"
| "run_auth env CleanupExpiredSessions = unit_of (cleanup_expired_sessions env)"
| "run_auth env (CreateApiKey actor org name expires) = unit_of (create_api_key env actor org name expires)"
| "run_auth env (RevokeApiKey key org) = unit_of (revoke_api_key env key org)"
| "run_auth env (Authenticate key bearer org) = unit_of (get_current_user env key bearer org)"

definition auth_step :: "'r auth_env \<Rightarrow> auth_db \<times> 'r auth_world \<Rightarrow> auth_db \<times> 'r auth_world \<Rightarrow> bool" where
  "auth_step env s s' \<longleftrightarrow> (\<exists>call. s' = snd (auth_request (run_auth env call) s))"


subsection \<open>Where a session comes from\<close>

definition issued_from :: "'r auth_env \<Rightarrow> nat \<Rightarrow> string \<Rightarrow> bool" where
  "issued_from env n jti \<longleftrightarrow> (\<exists>k \<ge> n. jti = auth_uuid_at env k)"

text \<open>Every session after a step was there before, with the same token and not less active, or its
  token was drawn at or after position \<open>n\<close> of the random source.\<close>

definition descends :: "'r auth_env \<Rightarrow> nat \<Rightarrow> session list \<Rightarrow> session list \<Rightarrow> bool" where
  "descends env n old new \<longleftrightarrow>
     (\<forall>s \<in> set new.
        (\<exists>r \<in> set old. sn_refresh_token_jti r = sn_refresh_token_jti s \<and> (sn_is_active s \<longrightarrow> sn_is_active r)) \<or>
        issued_from env n (sn_refresh_token_jti s))"

text \<open>The tables a request works on and the ones it has committed, from position \<open>n\<close> on.\<close>

definition keeps_track :: "'r auth_env \<Rightarrow> nat \<Rightarrow> auth_db \<times> 'r auth_world \<Rightarrow> auth_db \<times> 'r auth_world \<Rightarrow> bool" where
  "keeps_track env n s s' \<longleftrightarrow>
     (n \<le> aw_supply (snd s) \<longrightarrow>
        n \<le> aw_supply (snd s') \<and>
        (\<forall>new \<in> {sessions (fst s'), sessions (aw_committed (snd s'))}.
         \<exists>old \<in> {sessions (fst s), sessions (aw_committed (snd s))}. descends env n old new))"

lemma descends_refl: "descends env n t t"
  by (auto simp: descends_def)

lemma descends_trans: "descends env n a b \<Longrightarrow> descends env n b c \<Longrightarrow> descends env n a c"
  unfolding descends_def by metis

lemma descends_subset: "set new \<subseteq> set old \<Longrightarrow> descends env n old new"
  unfolding descends_def by auto

lemma keeps_track_trans: "keeps_track env n s t \<Longrightarrow> keeps_track env n t u \<Longrightarrow> keeps_track env n s u"
  unfolding keeps_track_def using descends_trans by meson

interpretation track: state_relation "keeps_track env n" for env n
  by unfold_locales (simp add: keeps_track_def descends_refl, erule (1) keeps_track_trans)

text \<open>A state that keeps its sessions.\<close>

lemma keeps_track_same:
  "sessions db' = sessions db \<Longrightarrow> aw_committed w' = aw_committed w \<or> aw_committed w' = db' \<Longrightarrow> aw_supply w \<le> aw_supply w' \<Longrightarrow>
   keeps_track env n (db, w) (db', w')"
  unfolding keeps_track_def by (auto intro: descends_refl)

text \<open>Relying on a token that an earlier step of the same request drew.\<close>

lemma stays_drawn:
  assumes m: "stays (keeps_track env n) m" and drawn: "\<And>db w. n \<le> aw_supply w \<Longrightarrow> ensures (\<lambda>v _ _. Q v) m db w"
    and f: "\<And>v. Q v \<Longrightarrow> stays (keeps_track env n) (f v)"
  shows "stays (keeps_track env n) (andthen m f)"
  unfolding stays_def
proof
  fix s :: "auth_db \<times> 'a auth_world"
  obtain db w where s: "s = (db, w)" by (cases s)
  obtain r s1 where run: "m s = (r, s1)" by (cases "m s")
  have step: "keeps_track env n s s1" using stays_result [OF m run] .
  show "keeps_track env n s (snd (andthen m f s))"
  proof (cases r)
    case (Inl e)
    with run step show ?thesis by (simp add: andthen_def)
  next
    case (Inr v)
    obtain db1 w1 where s1: "s1 = (db1, w1)" by (cases s1)
    show ?thesis
    proof (cases "n \<le> aw_supply w")
      case True
      with drawn [OF True, of db] run Inr s s1 have "Q v" by (simp add: ensures_def)
      obtain r2 s2 where run2: "f v s1 = (r2, s2)" by (cases "f v s1")
      from keeps_track_trans [OF step stays_result [OF f [OF \<open>Q v\<close>] run2]] run run2 Inr show ?thesis by (simp add: andthen_def)
    qed (simp add: keeps_track_def s)
  qed
qed



subsection \<open>Every request keeps track\<close>

named_theorems track_steps \<open>operations after which every session is accounted for\<close>

lemma track_now [track_steps]: "stays (keeps_track env n) (auth_now env')"
  and track_draw [track_steps]: "stays (keeps_track env n) (draw source)"
  and track_draws [track_steps]: "stays (keeps_track env n) (draws k source)"
  and track_uuid4 [track_steps]: "stays (keeps_track env n) (auth_uuid4 env')"
  and track_db_now [track_steps]: "stays (keeps_track env n) (auth_db_now env')"
  and track_commit [track_steps]: "stays (keeps_track env n) commit"
  and track_redis_get [track_steps]: "stays (keeps_track env n) (redis_get env' key)"
  and track_redis_write [track_steps]: "stays (keeps_track env n) (redis_write g)"
  and track_redis_run [track_steps]: "stays (keeps_track env n) (redis_run h)"
  by (auto simp: stays_def auth_now_def draw_def draws_def auth_uuid4_def auth_db_now_def commit_def redis_get_def redis_write_def
      redis_run_def prog_simps split_def intro!: keeps_track_same)

lemma track_modifies [track_steps]: "(\<And>db. sessions (h db) = sessions db) \<Longrightarrow> stays (keeps_track env n) (modifies_db h)"
  by (auto simp: stays_def prog_simps intro!: keeps_track_same)

lemma track_stores:
  "(\<And>db db'. h db = Inr db' \<Longrightarrow> sessions db' = sessions db) \<Longrightarrow> stays (keeps_track env n) (stores_db wrap h)"
  by (auto simp: stays_def stores_db_def intro!: keeps_track_same split: sum.split)

lemma track_create_in [track_steps]:
  "(\<And>f db. sessions (upd f db) = sessions db) \<Longrightarrow> stays (keeps_track env n) (create_in env' get upd uniq columns)"
  unfolding create_in_def Let_def
  by (intro track.stays_control track_steps track_stores) (auto split: sum.splits)

lemma track_update_in [track_steps]:
  "(\<And>f db. sessions (upd f db) = sessions db) \<Longrightarrow> stays (keeps_track env n) (update_in env' upd inst data)"
  unfolding update_in_def by (intro track.stays_control track_steps) simp

text \<open>Writes of the sessions table.\<close>

lemma keeps_track_sessions:
  "descends env n (sessions db) t \<Longrightarrow> keeps_track env n (db, w) (sessions_update (\<lambda>_. t) db, w)"
  unfolding keeps_track_def by (auto intro: descends_refl)

lemma track_sessions_modifies:
  "(\<And>t. descends env n t (g t)) \<Longrightarrow> stays (keeps_track env n) (modifies_db (sessions_update g))"
  using keeps_track_sessions by (fastforce simp: stays_def prog_simps keeps_track_def intro: descends_refl)

lemma track_sessions_stores:
  "(\<And>db db'. h db = Inr db' \<Longrightarrow> descends env n (sessions db) (sessions db')) \<Longrightarrow> stays (keeps_track env n) (stores_db wrap h)"
  by (auto simp: stays_def stores_db_def keeps_track_def intro: descends_refl split: sum.split)

lemma descends_deactivate: "descends env n t (update_row now (\<lambda>r. r\<lparr>sn_is_active := False\<rparr>) s t)"
  by (auto simp: descends_def update_row_def assign_def)

lemma track_deactivate [track_steps]:
  "stays (keeps_track env n) (update_in env' sessions_update s (\<lambda>r. r\<lparr>sn_is_active := False\<rparr>))"
  unfolding update_in_def
  by (intro track.stays_control track_steps track_sessions_modifies descends_deactivate)

lemma track_delete [track_steps]: "stays (keeps_track env n) (modifies_db (sessions_update (delete_row s)))"
  by (rule track_sessions_modifies) (auto simp: delete_row_def intro!: descends_subset)

lemma descends_grow:
  "(\<And>s. s \<in> set new \<Longrightarrow> s \<in> set old \<or> issued_from env n (sn_refresh_token_jti s)) \<Longrightarrow> descends env n old new"
  unfolding descends_def by metis

lemma track_rotate:
  "issued_from env n jti \<Longrightarrow> stays (keeps_track env n) (rotate_refresh_token env s jti expected)"
  unfolding rotate_refresh_token_def Let_def
  by (intro track.stays_control track_steps track_sessions_stores)
     (auto intro!: descends_grow split: if_splits)

lemma track_create_session:
  "issued_from env n jti \<Longrightarrow> stays (keeps_track env n) (create_refresh_token env user_id jti device name ip agent location expires)"
  unfolding create_refresh_token_def create_in_def Let_def
  by (intro track.stays_control track_steps track_sessions_stores)
     (auto simp: create_row_def session.defs base_model.defs new_base_def intro!: descends_grow split: sum.splits if_splits)


lemma drawn_token_pair:
  "n \<le> aw_supply w \<Longrightarrow> ensures (\<lambda>d _ _. issued_from env n (refresh_jti d)) (create_token_pair env user_id email) db w"
  by (auto simp: create_token_pair_def create_access_token_def jwt_create_refresh_token_def create_jwt_def jwt_manager_encode_def
      issued_from_def intro!: exI [of _ "Suc (aw_supply w)"])

text \<open>The operations, in the order of theories \<open>Auth\<close> and \<open>AuthService\<close>.\<close>

lemma track_passwords [track_steps]:
  "stays (keeps_track env n) (PasswordManager_hash env' pw)" "stays (keeps_track env n) (hash_or_too_weak env' pw)"
  "stays (keeps_track env n) (reject_recent_passwords env' uid pw)" "stays (keeps_track env n) (add_password_history env' uid h)"
  "stays (keeps_track env n) (update_user env' u data)" "stays (keeps_track env n) (set_password env' u h)"
  unfolding PasswordManager_hash_def hash_or_too_weak_def reject_recent_passwords_def add_password_history_def update_user_def
    set_password_def
  by (rule track.stays_control track_steps | (simp; fail))+

lemma track_tokens [track_steps]:
  "stays (keeps_track env n) (issue_cache_token env' key uid lifetime)" "stays (keeps_track env n) (peek_cache_token env' key token)"
  "stays (keeps_track env n) (consume_cache_token env' key token)" "stays (keeps_track env n) (enqueue_mail receiver mail)"
  "stays (keeps_track env n) (create_token_pair env' uid email)"
  unfolding issue_cache_token_def peek_cache_token_def consume_cache_token_def enqueue_mail_def create_token_pair_def
    create_access_token_def jwt_create_refresh_token_def create_jwt_def jwt_manager_encode_def
  by (rule track.stays_control track_steps | (simp; fail))+

lemma track_attempts [track_steps]:
  "stays (keeps_track env n) (count_login_attempt env' email ip ok)" "stays (keeps_track env n) (check_account_lock env' locked)"
  "stays (keeps_track env n) (record_attempt env' uid email dev ok reason)" "stays (keeps_track env n) (fail_login env' uid email dev why e)"
  "stays (keeps_track env n) (register_failed_attempt env' u)"
  unfolding count_login_attempt_def check_account_lock_def record_attempt_def record_login_attempt_def fail_login_def
    register_failed_attempt_def Let_def
  by (rule track.stays_control track_steps | (simp; fail))+

lemma track_rate_limit [track_steps]: "stays (keeps_track env n) (check_rate_limit env' email ip)"
  unfolding check_rate_limit_def Let_def
  by (rule track.stays_control track_steps | (simp split: auth_value.split; intro conjI allI impI))+

lemma track_mfa [track_steps]:
  "stays (keeps_track env n) (decrypt_secret env' c)" "stays (keeps_track env n) (verify_code env' secret code)"
  "stays (keeps_track env n) (verify_totp env' uid code)" "stays (keeps_track env n) (mark_recovery_code_used env' rc)"
  "stays (keeps_track env n) (verify_mfa_or_recovery_code env' uid code)"
  unfolding decrypt_secret_def verify_code_def verify_totp_def mark_recovery_code_used_def verify_mfa_or_recovery_code_def
  by (rule track.stays_control track_steps | (simp; fail))+

lemma track_login_steps [track_steps]:
  "stays (keeps_track env n) (login_password_step env' email pw dev)" "stays (keeps_track env n) (login_mfa_step env' email dev mfa u)"
  "stays (keeps_track env n) (login_change_step env' email dev new u)"
  unfolding login_password_step_def login_mfa_step_def login_change_step_def
  by (rule track.stays_control track_steps | (simp; fail))+

lemma track_session_step [track_steps]: "stays (keeps_track env n) (login_session_step env email dev u)"
  unfolding login_session_step_def
  by (intro track.stays_control track_steps stays_drawn [OF _ drawn_token_pair] track_create_session) simp_all

lemma track_login: "stays (keeps_track env n) (login env email pw dev mfa new)"
  unfolding login_def Let_def by (intro track.stays_control track_steps)

lemma track_refresh: "stays (keeps_track env n) (refresh env token)"
  unfolding refresh_def refresh_check_def refresh_write_def
  by (intro track.stays_control track_steps stays_drawn [OF _ drawn_token_pair] track_rotate) simp_all

lemma track_revocations [track_steps]:
  "stays (keeps_track env n) (repo_revoke_session env' sid)" "stays (keeps_track env n) (revoke_all_sessions env' uid)"
  "stays (keeps_track env n) (get_active_sessions env' uid)" "stays (keeps_track env n) (cleanup_expired_sessions env')"
  unfolding repo_revoke_session_def revoke_all_sessions_def get_active_sessions_def cleanup_expired_sessions_def
  by (rule track.stays_control track_steps)+

lemma track_codes [track_steps]:
  "stays (keeps_track env n) (replace_recovery_codes env' uid hashes)" "stays (keeps_track env n) (generate_recovery_codes env' count)"
  "stays (keeps_track env n) (issue_recovery_codes env' uid)"
proof -
  show replace: "stays (keeps_track env n) (replace_recovery_codes env' uid hashes)" for hashes
    unfolding replace_recovery_codes_def
    by (intro track.stays_control track_steps track_stores) (auto split: sum.splits)
  show generate: "stays (keeps_track env n) (generate_recovery_codes env' count)" for count
    by (induction count) (auto intro!: track.stays_control track_steps)
  show "stays (keeps_track env n) (issue_recovery_codes env' uid)"
    unfolding issue_recovery_codes_def by (intro track.stays_control replace generate)
qed

lemma track_user_requests:
  "stays (keeps_track env n) (register env' fn ln email name pw phone tz lang)" "stays (keeps_track env n) (verify_email env' token)"
  "stays (keeps_track env n) (resend_verification env' email)" "stays (keeps_track env n) (initiate_password_reset env' email)"
  "stays (keeps_track env n) (change_password env' uid old new)" "stays (keeps_track env n) (reset_password env' token new)"
  unfolding register_def create_user_def verify_email_def resend_verification_def initiate_password_reset_def change_password_def
    reset_password_def reset_check_def reset_write_def
  by (rule track.stays_control track_steps | (simp; fail))+

lemma track_mfa_requests:
  "stays (keeps_track env n) (enroll_mfa env' uid)" "stays (keeps_track env n) (verify_and_enable_mfa env' uid code)"
  "stays (keeps_track env n) (disable_mfa env' uid pw code)" "stays (keeps_track env n) (regenerate_recovery_codes env' uid code)"
  unfolding enroll_mfa_def verify_and_enable_mfa_def disable_mfa_def regenerate_recovery_codes_def
  by (rule track.stays_control track_steps | (simp; fail))+

lemma track_key_requests:
  "stays (keeps_track env n) (create_api_key env' actor org name expires)" "stays (keeps_track env n) (revoke_api_key env' key org')"
  "stays (keeps_track env n) (get_current_user env' x_key bearer header)"
  unfolding create_api_key_def generate_plaintext_key_def revoke_api_key_def get_api_key_def enforce_key_scope_def get_current_user_def
    resolve_user_from_api_key_def resolve_active_key_def resolve_user_from_jwt_def Let_def
  by (rule track.stays_control track_steps track_stores | (auto split: sum.splits; fail))+

lemma track_run: "stays (keeps_track env n) (run_auth env call)"
  by (cases call)
     (simp_all add: unit_of_def logout_def logout_all_def list_sessions_def revoke_session_def track.stays_andthen track.stays_ret
       track_login track_refresh track_user_requests track_mfa_requests track_key_requests track_revocations)



subsection \<open>Histories\<close>

lemma request_tracks:
  assumes "auth_step env (db, w) (db', w')" and "n \<le> aw_supply w"
  shows "n \<le> aw_supply w' \<and> descends env n (sessions db) (sessions db')"
proof -
  from assms(1) obtain call where step: "(db', w') = snd (auth_request (run_auth env call) (db, w))" by (auto simp: auth_step_def)
  obtain r db1 w1 where run: "run_auth env call (db, w\<lparr>aw_committed := db\<rparr>) = (r, (db1, w1))" by (metis prod.exhaust)
  from stays_result [OF track_run run] assms(2)
  have "n \<le> aw_supply w1" "descends env n (sessions db) (sessions db1)" "descends env n (sessions db) (sessions (aw_committed w1))"
    by (simp_all add: keeps_track_def)
  with run step show ?thesis by (cases r) (auto simp: auth_request_def)
qed

lemma history_tracks:
  assumes "(auth_step env)\<^sup>*\<^sup>* s s'" and "n \<le> aw_supply (snd s)"
  shows "n \<le> aw_supply (snd s') \<and> descends env n (sessions (fst s)) (sessions (fst s'))"
  using assms
proof (induction rule: rtranclp_induct)
  case (step s1 s2)
  then show ?case
    using request_tracks [of env "fst s1" "snd s1" "fst s2" "snd s2" n] descends_trans by auto
qed (simp add: descends_refl)

text \<open>No active session carries the token.\<close>

definition dead :: "string \<Rightarrow> session list \<Rightarrow> bool" where
  "dead jti t \<longleftrightarrow> (\<forall>s \<in> set t. sn_refresh_token_jti s = jti \<longrightarrow> \<not> sn_is_active s)"

lemma dead_forever:
  assumes "(auth_step env)\<^sup>*\<^sup>* s s'" and "dead (auth_uuid_at env k) (sessions (fst s))" and "k < aw_supply (snd s)"
    and "inj (auth_uuid_at env)"
  shows "dead (auth_uuid_at env k) (sessions (fst s'))"
proof -
  have "descends env (Suc k) (sessions (fst s)) (sessions (fst s'))"
    using history_tracks [OF assms(1), of "Suc k"] assms(3) by simp
  moreover have "\<not> issued_from env (Suc k) (auth_uuid_at env k)" using assms(4) by (auto simp: issued_from_def dest: injD)
  ultimately show ?thesis using assms(2) unfolding dead_def descends_def by metis
qed

text \<open>PyJWT gives back the payload a token was signed with, whenever it does not refuse the token.\<close>

definition decodes_to :: "'r auth_env \<Rightarrow> string \<Rightarrow> jwt_claims \<Rightarrow> bool" where
  "decodes_to env token claims \<longleftrightarrow> (\<forall>t c. jwt_decode env t token = Inr c \<longrightarrow> c = claims)"

lemma refresh_dead:
  assumes "decodes_to env token claims" and "dead (jc_jti claims) (sessions db)"
  shows "\<exists>m. fst (refresh env token (db, w)) = Inl (InvalidTokenError m)"
proof (cases "validate_token env token ''refresh'' (auth_time_at env (aw_clock w))")
  case (Inl e)
  then show ?thesis by (simp add: refresh_def refresh_check_def auth_now_def prog_simps)
next
  case (Inr c)
  with assms(1) have c: "c = claims" by (auto simp: validate_token_def decodes_to_def split: sum.splits if_splits)
  show ?thesis
  proof (cases "get_session_by_refresh_token (jc_jti claims) db")
    case None
    with Inr c show ?thesis by (simp add: refresh_def refresh_check_def auth_now_def prog_simps invalid_refresh_def)
  next
    case (Some s)
    then have "s \<in> set (sessions db)" "sn_refresh_token_jti s = jc_jti claims"
      unfolding get_session_by_refresh_token_def using first_row_Some by blast+
    with assms(2) have "\<not> sn_is_active s" by (simp add: dead_def)
    with Inr c Some show ?thesis by (simp add: refresh_def refresh_check_def auth_now_def prog_simps invalid_refresh_def)
  qed
qed

text \<open>What is dead after a request is refused after every history that follows.\<close>

lemma dead_token_refused:
  assumes "(auth_step env)\<^sup>*\<^sup>* s s'" and "dead (jc_jti claims) (sessions (fst s))" and "jc_jti claims = auth_uuid_at env k"
    and "k < aw_supply (snd s)" and "inj (auth_uuid_at env)" and "decodes_to env token claims"
  shows "\<exists>m. fst (refresh env token s') = Inl (InvalidTokenError m)"
  using dead_forever [OF assms(1) _ assms(4,5)] assms(2,3) refresh_dead [OF assms(6), of "fst s'" "snd s'"] by simp

end
