(* ===== verification/TokenRules.thy ===== *)
theory TokenRules
  imports AuthSessions Login
begin

section \<open>Tokens that stop working\<close>

text \<open>
  Which operations kill a refresh token, for good: using it once, a password change or reset of
  its owner, and logging out. Each operation leaves the token dead in the sense of theory
  \<open>AuthSessions\<close>, and dead tokens are refused after every history that follows.
\<close>

subsection \<open>Using a token\<close>

lemma refresh_check_found:
  assumes "decodes_to env token claims"
  shows "ensures (\<lambda>(jti, s, u) db' w'. jti = jc_jti claims \<and> db' = db \<and> aw_supply w' = aw_supply w \<and>
      s \<in> set (sessions db) \<and> sn_refresh_token_jti s = jc_jti claims \<and> sn_is_active s)
    (refresh_check env token) db w"
proof -
  have "s \<in> set (sessions db) \<and> sn_refresh_token_jti s = jti" if "get_session_by_refresh_token jti db = Some s" for s jti
    using that first_row_Some unfolding get_session_by_refresh_token_def by blast
  moreover have "c = claims" if "map_sum InvalidTokenError id (validate_token env token ty now) = Inr c" for c ty now
    using that assms by (auto simp: validate_token_def decodes_to_def split: sum.splits if_splits)
  ultimately show ?thesis
    by (auto simp: refresh_check_def split: sum.split option.split)
qed

text \<open>The table after the rotation of a session's token.\<close>

definition rotated :: "session \<Rightarrow> string \<Rightarrow> string \<Rightarrow> datetime \<Rightarrow> session list \<Rightarrow> session list" where
  "rotated s expected j now t =
     map (\<lambda>r. if rotates s expected r then r\<lparr>sn_refresh_token_jti := j, sn_last_activity_at := now, updated_at := now\<rparr> else r) t"

lemma ensures_rotate [simp]:
  "ensures P (rotate_refresh_token env s j expected) = (\<lambda>db w.
     let now = auth_time_at env (aw_clock w); t = rotated s expected j now (sessions db)
     in distinct (map sn_refresh_token_jti t) \<longrightarrow>
        P (list_ex (rotates s expected) (sessions db)) (sessions_update (\<lambda>_. t) db) (w\<lparr>aw_clock := Suc (aw_clock w)\<rparr>))"
  by (intro ext) (simp add: rotate_refresh_token_def rotated_def Let_def)

lemma drawn_pair:
  "ensures (\<lambda>d db' w'. db' = db \<and> aw_supply w \<le> aw_supply w' \<and> issued_from env (aw_supply w) (refresh_jti d))
     (create_token_pair env user_id email) db w"
  by (auto simp: create_token_pair_def create_access_token_def jwt_create_refresh_token_def create_jwt_def jwt_manager_encode_def
      issued_from_def intro!: exI [of _ "Suc (aw_supply w)"])

lemma refresh_rotates:
  assumes "decodes_to env token claims"
  shows "ensures (\<lambda>_ db' w'. aw_supply w \<le> aw_supply w' \<and>
      (\<exists>s j now. s \<in> set (sessions db) \<and> sn_refresh_token_jti s = jc_jti claims \<and> sn_is_active s \<and> issued_from env (aw_supply w) j \<and>
         sessions db' = rotated s (jc_jti claims) j now (sessions db)))
    (refresh env token) db w"
  unfolding refresh_def ensures_andthen
  by (rule ensures_mono [OF refresh_check_found [OF assms]])
     (fastforce simp: refresh_write_def Let_def split: prod.splits intro!: ensures_mono [OF drawn_pair])

text \<open>The rotated token is gone from the table.\<close>

lemma dead_rotated:
  assumes "distinct (map sn_refresh_token_jti t)" and "s \<in> set t" and "sn_refresh_token_jti s = jti" and "sn_is_active s" and "j \<noteq> jti"
  shows "dead jti (rotated s jti j now t)"
proof -
  have "r = s" if "r \<in> set t" "sn_refresh_token_jti r = jti" for r
    using that assms(1-3) by (metis distinct_map inj_onD)
  with assms(3-5) show ?thesis by (auto simp: dead_def rotated_def rotates_def)
qed

text \<open>C16. A refresh token works once: after a refresh that returned, the same token is refused after every
  further history of authentication requests, whatever they are and in whatever order.\<close>

theorem refresh_single_use:
  assumes "inj (auth_uuid_at env)" and "decodes_to env token claims"
    and "jc_jti claims = auth_uuid_at env k" and "k < aw_supply w" and "distinct (map sn_refresh_token_jti (sessions db))"
    and "refresh env token (db, w) = (Inr pair, s1)" and "(auth_step env)\<^sup>*\<^sup>* s1 s2"
  shows "\<exists>m. fst (refresh env token s2) = Inl (InvalidTokenError m)"
proof -
  obtain db1 w1 where s1: "s1 = (db1, w1)" by (cases s1)
  from ensuresD [OF refresh_rotates [OF assms(2)] assms(6) [unfolded s1]] obtain s j now
    where rot: "sessions db1 = rotated s (jc_jti claims) j now (sessions db)" and later: "aw_supply w \<le> aw_supply w1"
      and s: "s \<in> set (sessions db)" "sn_refresh_token_jti s = jc_jti claims" "sn_is_active s" and j: "issued_from env (aw_supply w) j"
    by blast
  have "j \<noteq> jc_jti claims" using j assms(1,3,4) by (auto simp: issued_from_def dest: injD)
  from dead_rotated [OF assms(5) s this] rot have "dead (jc_jti claims) (sessions (fst s1))" by (simp add: s1)
  from dead_token_refused [OF assms(7) this assms(3) _ assms(1,2)] later assms(4) show ?thesis by (simp add: s1)
qed


definition sample_session :: session where
  "sample_session =
     base_model.extend (new_base ''sess'' 0 None)
       (session.fields ''alice'' ''dev'' None ''10.0.0.1'' ''browser'' None ''id-'' (seconds 90000) 0 True)"

definition signed_in_db :: auth_db where
  "signed_in_db = sample_auth_db\<lparr>sessions := [sample_session]\<rparr>"

definition signed_in_world :: "sample_redis auth_world" where
  "signed_in_world = sample_auth_world\<lparr>aw_supply := 1\<rparr>"

definition sample_claims :: jwt_claims where
  "sample_claims = \<lparr>jc_sub = ''alice'', jc_email = ''alice@example.com'', jc_jti = ''id-'', jc_type = ''refresh'', jc_iat = 1000, jc_exp = 9000\<rparr>"

lemma sample_decodes: "decodes_to sample_auth_env ''rid-'' sample_claims"
  by (simp add: decodes_to_def sample_auth_env_def sample_claims_def)

lemma sample_refresh_returns: "\<not> isl (fst (refresh sample_auth_env ''rid-'' (signed_in_db, signed_in_world)))"
  by code_simp

theorem refresh_single_use_witness:
  "\<exists>pair s1. refresh sample_auth_env ''rid-'' (signed_in_db, signed_in_world) = (Inr pair, s1) \<and>
     (\<exists>m. fst (refresh sample_auth_env ''rid-'' (snd (auth_request (run_auth sample_auth_env (Refresh ''rid-'')) s1))) =
       Inl (InvalidTokenError m))"
proof -
  obtain r s1 where run: "refresh sample_auth_env ''rid-'' (signed_in_db, signed_in_world) = (r, s1)" by (metis prod.exhaust)
  with sample_refresh_returns obtain pair where "r = Inr pair" by (cases r) auto
  moreover have "(auth_step sample_auth_env)\<^sup>*\<^sup>* s1 (snd (auth_request (run_auth sample_auth_env (Refresh ''rid-'')) s1))"
    unfolding auth_step_def by blast
  moreover have "jc_jti sample_claims = auth_uuid_at sample_auth_env 0" "0 < aw_supply signed_in_world"
    "distinct (map sn_refresh_token_jti (sessions signed_in_db))" by code_simp+
  ultimately show ?thesis
    using run refresh_single_use [OF sample_uuids sample_decodes] by blast
qed


subsection \<open>Changing the password\<close>

abbreviation deactivated :: "datetime \<Rightarrow> session \<Rightarrow> session list \<Rightarrow> session list" where
  "deactivated now s t \<equiv> update_row now (\<lambda>r. r\<lparr>sn_is_active := False\<rparr>) s t"

lemma ensures_revoke_loop:
  "ensures (\<lambda>_ db' w'. w' = w \<and> sessions db' = fold (deactivated (auth_time_at env (aw_clock w))) rows (sessions db))
     (for_each (\<lambda>s _. andthen (update_in env sessions_update s (\<lambda>r. r\<lparr>sn_is_active := False\<rparr>)) (\<lambda>_. ret ())) rows ()) db w"
proof (induction rows arbitrary: db)
  case (Cons s rows)
  from Cons [of "sessions_update (deactivated (auth_time_at env (aw_clock w)) s) db"] show ?case by simp
qed simp

text \<open>A row that is still active after the loop is one of the old rows, and the loop did not meet it.\<close>

lemma still_active:
  "s \<in> set (fold (deactivated now) rows t) \<Longrightarrow>
   \<exists>r \<in> set t. row_id r = row_id s \<and> sn_refresh_token_jti r = sn_refresh_token_jti s \<and> (sn_is_active s \<longrightarrow> sn_is_active r \<and> row_id r \<notin> row_id ` set rows)"
proof (induction rows arbitrary: t)
  case (Cons a rows)
  then have "s \<in> set (fold (deactivated now) rows (deactivated now a t))" by simp
  from Cons.IH [OF this] obtain r where r: "r \<in> set (deactivated now a t)" "row_id r = row_id s"
    "sn_refresh_token_jti r = sn_refresh_token_jti s" "sn_is_active s \<longrightarrow> sn_is_active r \<and> row_id r \<notin> row_id ` set rows" by blast
  from r(1) obtain q where "q \<in> set t" "r = (if row_id q = row_id a then assign now (\<lambda>r. r\<lparr>sn_is_active := False\<rparr>) (version a) q else q)"
    by (auto simp: update_row_def)
  with r(2-4) show ?case by (intro bexI [of _ q]) (auto simp: assign_def split: if_splits)
qed auto

definition signed_out :: "uuid \<Rightarrow> session list \<Rightarrow> session list \<Rightarrow> bool" where
  "signed_out user_id old new \<longleftrightarrow>
     (\<forall>s \<in> set new. \<exists>r \<in> set old. sn_refresh_token_jti r = sn_refresh_token_jti s \<and>
        (sn_is_active s \<longrightarrow> sn_user_id r \<noteq> user_id \<or> is_deleted r))"

lemma ensures_revoke_all:
  "ensures (\<lambda>_ db' w'. w' = w \<and> signed_out user_id (sessions db) (sessions db')) (revoke_all_sessions env user_id) db w"
proof -
  let ?rows = "get_all (\<lambda>s. sn_user_id s = user_id \<and> sn_is_active s) created_at DESC False None (sessions db)"
  have "signed_out user_id (sessions db) (fold (deactivated now) ?rows (sessions db))" for now
    unfolding signed_out_def
    by (rule ballI, drule still_active) (fastforce simp: get_all_def)
  then show ?thesis
    unfolding revoke_all_sessions_def ensures_andthen ensures_reads_db
    by (intro ensures_mono [OF ensures_revoke_loop]) auto
qed

lemma dead_signed_out:
  assumes "signed_out user_id old new" and "distinct (map sn_refresh_token_jti old)"
    and "s \<in> set old" and "sn_user_id s = user_id" and "\<not> is_deleted s"
  shows "dead (sn_refresh_token_jti s) new"
proof -
  have "r = s" if "r \<in> set old" "sn_refresh_token_jti r = sn_refresh_token_jti s" for r
    using that assms(2,3) by (metis distinct_map inj_onD)
  with assms show ?thesis unfolding dead_def signed_out_def by metis
qed

lemma change_signs_out:
  "ensures (\<lambda>_ db' w'. signed_out user_id (sessions db) (sessions db')) (change_password env user_id current new) db w"
proof -
  have revoke: "ensures (\<lambda>_ db' w'. signed_out user_id (sessions db) (sessions db')) (revoke_all_sessions env user_id) db1 w1"
    if "sessions db1 = sessions db" for db1 w1
    using ensures_revoke_all [of w1 user_id db1 env] that by (auto elim: ensures_mono)
  show ?thesis
    by (auto simp: change_password_def intro!: ensures_mono [OF set_password_step] revoke split: option.split)
qed

definition reset_target :: "'r auth_env \<Rightarrow> string \<Rightarrow> 'r \<Rightarrow> uuid option" where
  "reset_target env token r =
     (case ar_get (redis_server env) (RESET_TOKEN_KEY (hash_token env token)) r of Some (UserIdValue i) \<Rightarrow> Some i | _ \<Rightarrow> None)"

lemma reset_signs_out:
  assumes "reset_target env token (aw_redis w) = Some user_id"
  shows "ensures (\<lambda>_ db' w'. signed_out user_id (sessions db) (sessions db')) (reset_password env token new) db w"
proof -
  have revoke: "ensures (\<lambda>_ db' w'. signed_out user_id (sessions db) (sessions db')) (revoke_all_sessions env user_id) db1 w1"
    if "sessions db1 = sessions db" for db1 w1
    using ensures_revoke_all [of w1 user_id db1 env] that by (auto elim: ensures_mono)
  have owner: "row_id u = user_id" if "get_user_by_id user_id db = Some u" for u
    using that get_by_id_Some unfolding get_user_by_id_def by blast
  show ?thesis
    using assms owner
    by (auto simp: reset_password_def reset_check_def reset_write_def peek_cache_token_def consume_cache_token_def reset_target_def
        intro!: ensures_mono [OF set_password_step] revoke split: option.splits auth_value.splits)
qed

text \<open>C17. A password change and a password reset sign the user out everywhere, for good: every refresh token of
  a session the user had at that moment is refused after every further history of requests.\<close>

theorem password_change_ends_sessions:
  assumes "inj (auth_uuid_at env)" and "decodes_to env token claims"
    and "jc_jti claims = auth_uuid_at env k" and "k < aw_supply w" and "distinct (map sn_refresh_token_jti (sessions db))"
    and "s \<in> set (sessions db)" and "sn_user_id s = user_id" and "\<not> is_deleted s" and "sn_refresh_token_jti s = jc_jti claims"
    and "change_password env user_id current new (db, w) = (Inr (), s1) \<or>
         reset_target env reset_token (aw_redis w) = Some user_id \<and> reset_password env reset_token new (db, w) = (Inr (), s1)"
    and "(auth_step env)\<^sup>*\<^sup>* s1 s2"
  shows "\<exists>m. fst (refresh env token s2) = Inl (InvalidTokenError m)"
proof -
  obtain db1 w1 where s1: "s1 = (db1, w1)" by (cases s1)
  have "signed_out user_id (sessions db) (sessions db1)"
    using assms(10) ensuresD [OF change_signs_out] ensuresD [OF reset_signs_out] unfolding s1 by metis
  from dead_signed_out [OF this assms(5-8)] have "dead (jc_jti claims) (sessions (fst s1))" by (simp add: s1 assms(9))
  moreover have "keeps_track env (aw_supply w) (db, w) s1"
    using assms(10) stays_result [OF track_user_requests(5)] stays_result [OF track_user_requests(6)] by metis
  then have "k < aw_supply (snd s1)" using assms(4) by (simp add: keeps_track_def)
  ultimately show ?thesis by (intro dead_token_refused [OF assms(11) _ assms(3) _ assms(1,2)])
qed

lemma sample_change_returns:
  "fst (change_password sample_auth_env ''alice'' ''Correct-Horse-9'' ''Other-Horse-10'' (signed_in_db, signed_in_world)) = Inr ()"
  by code_simp

theorem password_change_ends_sessions_witness:
  "\<exists>s1. change_password sample_auth_env ''alice'' ''Correct-Horse-9'' ''Other-Horse-10'' (signed_in_db, signed_in_world) = (Inr (), s1) \<and>
     (\<exists>m. fst (refresh sample_auth_env ''rid-'' (snd (auth_request (run_auth sample_auth_env (LogoutAll ''bob'')) s1))) =
       Inl (InvalidTokenError m))"
proof -
  obtain s1 where run:
    "change_password sample_auth_env ''alice'' ''Correct-Horse-9'' ''Other-Horse-10'' (signed_in_db, signed_in_world) = (Inr (), s1)"
    using sample_change_returns by (metis prod.collapse)
  moreover have "(auth_step sample_auth_env)\<^sup>*\<^sup>* s1 (snd (auth_request (run_auth sample_auth_env (LogoutAll ''bob'')) s1))"
    unfolding auth_step_def by blast
  moreover have "jc_jti sample_claims = auth_uuid_at sample_auth_env 0" "0 < aw_supply signed_in_world"
    "distinct (map sn_refresh_token_jti (sessions signed_in_db))" "sn_user_id sample_session = ''alice''" "\<not> is_deleted sample_session"
    "sn_refresh_token_jti sample_session = jc_jti sample_claims" by code_simp+
  moreover have "sample_session \<in> set (sessions signed_in_db)" by (simp add: signed_in_db_def)
  ultimately show ?thesis
    using password_change_ends_sessions [OF sample_uuids sample_decodes] by metis
qed

end
