(* ===== verification/Lockout.thy ===== *)
theory Lockout
  imports TokenRules
begin

section \<open>Guessing a password\<close>

text \<open>
  The lock of an account over a series of login requests with wrong passwords, from any devices and
  addresses. Each of them raises, so its session is rolled back; the count of failures survives
  because \<open>record_login_attempt\<close> commits in the middle of the request.
\<close>

subsection \<open>The steps every method is made of\<close>

lemma raises_primitive [simp]:
  "raises P (auth_now env) = (\<lambda>_ _. False)" "raises P' (draw source) = (\<lambda>_ _. False)" "raises P (auth_db_now env) = (\<lambda>_ _. False)"
  "raises P'' (auth_uuid4 env) = (\<lambda>_ _. False)" "raises Q (redis_get env k) = (\<lambda>_ _. False)" "raises Q' (redis_write f) = (\<lambda>_ _. False)"
  "raises Q' commit = (\<lambda>_ _. False)"
  by (simp_all add: auth_now_def draw_def auth_db_now_def auth_uuid4_def redis_get_def redis_write_def)
     (intro ext, simp add: raises_def commit_def)

lemma raises_redis_run [simp]: "raises P (redis_run f) = (\<lambda>_ _. False)"
  by (simp add: redis_run_def split_def)

lemma yields_redis_run [simp]:
  "yields P (redis_run f) = (\<lambda>db w. P (fst (f (aw_redis w))) db (w\<lparr>aw_redis := snd (f (aw_redis w))\<rparr>))"
  by (simp add: redis_run_def split_def)

lemma raises_update_in [simp]: "raises P (update_in env upd inst data) = (\<lambda>_ _. False)"
  by (simp add: update_in_def)

lemma raises_create_in:
  "raises P (create_in env get upd uniq columns) = (\<lambda>db w.
     let r = base_model.extend (new_base (auth_uuid_at env (aw_supply w)) (auth_time_at env (aw_clock w)) None) columns;
         w' = w\<lparr>aw_supply := Suc (aw_supply w)\<rparr>
     in case create_row uniq r (get db) of Inl e \<Rightarrow> P (AuthDbError e) db w' | Inr t \<Rightarrow> False)"
  by (intro ext) (simp add: create_in_def Let_def split: sum.split)


subsection \<open>One guess\<close>

text \<open>The account after a failure that counts, at the time \<open>now\<close>.\<close>

definition failed_row :: "'r auth_env \<Rightarrow> datetime \<Rightarrow> datetime \<Rightarrow> user \<Rightarrow> user \<Rightarrow> user" where
  "failed_row env now stamp u r =
     assign stamp (\<lambda>r. r\<lparr>u_failed_login_attempts := u_failed_login_attempts u + 1,
       u_locked_until := (if max_login_attempts env \<le> u_failed_login_attempts u + 1
         then Some (now + minutes (account_lockout_minutes env)) else u_locked_until u)\<rparr>) (version u) r"

definition with_failure :: "'r auth_env \<Rightarrow> datetime \<Rightarrow> datetime \<Rightarrow> user \<Rightarrow> user list \<Rightarrow> user list" where
  "with_failure env now stamp u t = map (\<lambda>r. if row_id r = row_id u then failed_row env now stamp u r else r) t"

definition attempts_storable :: "'r auth_env \<Rightarrow> nat \<Rightarrow> auth_db \<Rightarrow> bool" where
  "attempts_storable env n db \<longleftrightarrow>
     distinct (map row_id (login_attempts db)) \<and> (\<forall>k \<ge> n. auth_uuid_at env k \<notin> row_id ` set (login_attempts db))"

definition wrong_password :: auth_exc where
  "wrong_password = InvalidCredentialsError ''Invalid email or password''"

definition unlocked :: "user \<Rightarrow> datetime \<Rightarrow> bool" where
  "unlocked u now \<longleftrightarrow> (\<forall>t. u_locked_until u = Some t \<longrightarrow> t \<le> now)"

lemma yields_record_attempt:
  assumes "attempts_storable env (aw_supply w) db"
  shows "yields (\<lambda>_ db' w'. aw_committed w' = db' \<and> aw_clock w' = aw_clock w \<and> aw_supply w' = Suc (aw_supply w) \<and>
      (\<exists>a. db' = login_attempts_update (\<lambda>_. login_attempts db @ [a]) db \<and> row_id a = auth_uuid_at env (aw_supply w)))
    (record_attempt env user_id email dev False reason) db w"
  using assms
  by (auto simp: record_attempt_def record_login_attempt_def count_login_attempt_def yields_create_in create_row_def
      attempts_storable_def Let_def)

text \<open>A failure that is recorded and then raised.\<close>

lemma raises_fail_login:
  assumes "attempts_storable env (aw_supply w) db"
  shows "raises (\<lambda>e' db' w'. e' = e \<and> aw_committed w' = db' \<and> aw_clock w' = aw_clock w \<and> aw_supply w' = Suc (aw_supply w) \<and>
      (\<exists>a. db' = login_attempts_update (\<lambda>_. login_attempts db @ [a]) db \<and> row_id a = auth_uuid_at env (aw_supply w)))
    (fail_login env user_id email dev reason e) db w"
  unfolding fail_login_def raises_andthen raises_raise
  by (rule disjI2, rule yields_mono [OF yields_record_attempt [OF assms]]) simp

lemma yields_register_failed:
  "yields (\<lambda>_ db' w'. aw_clock w \<le> aw_clock w' \<and> aw_supply w' = aw_supply w \<and> login_attempts db' = login_attempts db \<and>
      (\<exists>n stamp. aw_clock w \<le> n \<and>
        users db' = with_failure env (auth_time_at env n) stamp u (users db)))
    (register_failed_attempt env u) db w"
  by (auto simp: register_failed_attempt_def update_user_def with_failure_def failed_row_def update_row_def Let_def)

text \<open>A guess that reaches the password raises, and has committed the failure.\<close>

definition failure_counted :: "'r auth_env \<Rightarrow> user \<Rightarrow> auth_db \<Rightarrow> 'r auth_world \<Rightarrow> auth_db \<Rightarrow> 'r auth_world \<Rightarrow> bool" where
  "failure_counted env u db w db' w' \<longleftrightarrow>
     aw_committed w' = db' \<and> aw_clock w \<le> aw_clock w' \<and> aw_supply w' = Suc (aw_supply w) \<and>
     (\<exists>n stamp. aw_clock w \<le> n \<and>
        users db' = with_failure env (auth_time_at env n) stamp u (users db)) \<and>
     (\<exists>a. login_attempts db' = login_attempts db @ [a] \<and> row_id a = auth_uuid_at env (aw_supply w))"

lemma raises_wrong_password:
  assumes "attempts_storable env (aw_supply w) db" and "aw_supply w1 = aw_supply w" and "aw_clock w \<le> aw_clock w1"
  shows "raises (\<lambda>e db' w'. e = wrong_password \<and> failure_counted env u db w db' w')
    (andthen (register_failed_attempt env u) (\<lambda>_. fail_login env (Some (row_id u)) email dev reason wrong_password)) db w1"
  unfolding raises_andthen
  apply (rule disjI2, rule yields_mono [OF yields_register_failed], elim conjE)
  apply (rule raises_mono [OF raises_fail_login])
  using assms by (auto simp: failure_counted_def attempts_storable_def) (metis order_trans)

lemma yields_rate_limit:
  "under_rate_limit env email ip (aw_redis w) \<Longrightarrow> P () db w \<Longrightarrow> yields P (check_rate_limit env email ip) db w"
  by (auto simp: check_rate_limit_def under_rate_limit_def Let_def split: option.split auth_value.split)

lemma guess_counts:
  assumes "get_user_by_email (py_lower (py_strip raw)) db = Some u" and "u_is_active u"
    and "under_rate_limit env (py_lower (py_strip raw)) (di_ip_address dev) (aw_redis w)"
    and "unlocked u (auth_time_at env (aw_clock w))" and "\<not> verify_password_safe env password (u_password_hash u)"
    and "attempts_storable env (aw_supply w) db"
  shows "raises (\<lambda>e db' w'. e = wrong_password \<and> failure_counted env u db w db' w')
    (login env raw password dev mfa_code new_password) db w"
proof -
  let ?email = "py_lower (py_strip raw)" and ?Q = "\<lambda>e db' w'. e = wrong_password \<and> failure_counted env u db w db' w'"
  let ?fail = "andthen (register_failed_attempt env u) (\<lambda>_. fail_login env (Some (row_id u)) ?email dev ''invalid_password'' wrong_password) ::
    ('a, user) aprog"
  have lock: "yields (\<lambda>_. raises ?Q ?fail) (check_account_lock env (u_locked_until u)) db w"
    using raises_wrong_password [OF assms(6), of w] raises_wrong_password [OF assms(6), of "w\<lparr>aw_clock := Suc (aw_clock w)\<rparr>"] assms(4)
    by (auto simp: check_account_lock_def unlocked_def simp del: raises_andthen split: option.split)
  have "raises ?Q (login_password_step env ?email password dev) db w"
    unfolding login_password_step_def raises_andthen [where m = "check_rate_limit _ _ _"]
    by (rule disjI2, rule yields_rate_limit [OF assms(3)]) (use lock assms(1,2,5) in \<open>simp add: wrong_password_def\<close>)
  then show ?thesis by (simp add: login_def Let_def)
qed


text \<open>A guess that is turned away before the password is looked at leaves the tables alone.\<close>

lemma guess_turned_away:
  assumes "get_user_by_email (py_lower (py_strip raw)) db = Some u" and "u_is_active u"
    and "\<not> under_rate_limit env (py_lower (py_strip raw)) (di_ip_address dev) (aw_redis w) \<or> \<not> unlocked u (auth_time_at env (aw_clock w))"
  shows "raises (\<lambda>e db' w'. e \<noteq> wrong_password \<and> db' = db \<and> aw_committed w' = aw_committed w \<and> aw_clock w \<le> aw_clock w' \<and>
      aw_supply w' = aw_supply w) (login env raw password dev mfa_code new_password) db w"
proof -
  let ?email = "py_lower (py_strip raw)"
  let ?Q = "\<lambda>e db' w'. e \<noteq> wrong_password \<and> db' = db \<and> aw_committed w' = aw_committed w \<and> aw_clock w \<le> aw_clock w' \<and> aw_supply w' = aw_supply w"
  have "raises ?Q (login_password_step env ?email password dev) db w"
  proof (cases "under_rate_limit env ?email (di_ip_address dev) (aw_redis w)")
    case False
    then have "raises ?Q (check_rate_limit env ?email (di_ip_address dev)) db w"
      by (auto simp: check_rate_limit_def under_rate_limit_def wrong_password_def Let_def)
    then show ?thesis unfolding login_password_step_def by (subst raises_andthen) (rule disjI1)
  next
    case True
    with assms(3) have "raises ?Q (check_account_lock env (u_locked_until u)) db w"
      by (auto simp: check_account_lock_def unlocked_def wrong_password_def split: option.split)
    with True assms(1,2) show ?thesis
      unfolding login_password_step_def raises_andthen [where m = "check_rate_limit _ _ _"]
      by (intro disjI2 yields_rate_limit) simp_all
  qed
  then show ?thesis by (simp add: login_def Let_def)
qed

text \<open>The request around it, and what it answers.\<close>

type_synonym guess = "string \<times> device_info \<times> string option \<times> string option"

definition guess_request :: "'r auth_env \<Rightarrow> string \<Rightarrow> guess \<Rightarrow> ('r, user \<times> token_pair \<times> uuid) aprog" where
  "guess_request env raw = (\<lambda>(password, dev, mfa_code, new_password). auth_request (login env raw password dev mfa_code new_password))"

lemma guess_outcome:
  assumes "get_user_by_email (py_lower (py_strip raw)) db = Some u" and "u_is_active u"
    and "\<not> verify_password_safe env (fst g) (u_password_hash u)" and "attempts_storable env (aw_supply w) db"
  obtains (counts) db' w' where "guess_request env raw g (db, w) = (Inl wrong_password, (db', w'))" "failure_counted env u db w db' w'"
      "unlocked u (auth_time_at env (aw_clock w))"
  | (turned_away) e w' where "guess_request env raw g (db, w) = (Inl e, (db, w'))" "e \<noteq> wrong_password"
      "aw_clock w \<le> aw_clock w'" "aw_supply w' = aw_supply w"
proof -
  obtain password dev mfa_code new_password where g: "g = (password, dev, mfa_code, new_password)" by (cases g)
  let ?w = "w\<lparr>aw_committed := db\<rparr>"
  show ?thesis
  proof (cases "under_rate_limit env (py_lower (py_strip raw)) (di_ip_address dev) (aw_redis w) \<and> unlocked u (auth_time_at env (aw_clock w))")
    case True
    then have "raises (\<lambda>e db' w'. e = wrong_password \<and> failure_counted env u db ?w db' w') (login env raw password dev mfa_code new_password) db ?w"
      using assms g by (intro guess_counts) simp_all
    then obtain db' w' where "login env raw password dev mfa_code new_password (db, ?w) = (Inl wrong_password, (db', w'))"
      "failure_counted env u db ?w db' w'" by (auto simp: raises_def)
    with True show ?thesis by (intro counts [of db' w']) (simp_all add: guess_request_def g auth_request_def failure_counted_def)
  next
    case False
    then have "raises (\<lambda>e db' w'. e \<noteq> wrong_password \<and> db' = db \<and> aw_committed w' = aw_committed ?w \<and> aw_clock ?w \<le> aw_clock w' \<and>
      aw_supply w' = aw_supply ?w) (login env raw password dev mfa_code new_password) db ?w"
      using assms by (intro guess_turned_away) auto
    then obtain e w' where "login env raw password dev mfa_code new_password (db, ?w) = (Inl e, (db, w'))" "e \<noteq> wrong_password"
      "aw_committed w' = db" "aw_clock w \<le> aw_clock w'" "aw_supply w' = aw_supply w" by (auto simp: raises_def)
    then show ?thesis by (intro turned_away [of e w']) (simp_all add: guess_request_def g auth_request_def)
  qed
qed

text \<open>The account is found again after a failure.\<close>

lemma first_row_map:
  assumes "\<And>r. P (f r) = P r" and "\<And>r. created_at (f r) = created_at r" and "\<And>r. is_deleted (f r) = is_deleted r"
  shows "first_row P (map f t) = map_option f (first_row P t)"
  using get_all_map [of P f created_at, OF assms] by (simp add: first_row_def split: list.split)

lemma found_again:
  assumes "get_user_by_email email db = Some u" and "users db' = with_failure env now stamp u (users db)"
  shows "get_user_by_email email db' = Some (failed_row env now stamp u u)"
  using assms unfolding get_user_by_email_def with_failure_def
  by (simp add: first_row_map failed_row_def assign_def)



subsection \<open>A series of guesses\<close>

definition wrong_answers :: "(auth_exc + 'a) list \<Rightarrow> nat" where
  "wrong_answers rs = length (filter (\<lambda>r. r = Inl wrong_password) rs)"

lemma wrong_answers_Cons:
  "run g s = (r, s') \<Longrightarrow> wrong_answers (fst (run_guesses run (g # gs) s)) =
     (if r = Inl wrong_password then 1 else 0) + wrong_answers (fst (run_guesses run gs s'))"
  by (simp add: wrong_answers_def split_def)

text \<open>All readings of the clock from now on fall into one lockout period that begins at \<open>t\<close>.\<close>

definition within_lockout :: "'r auth_env \<Rightarrow> datetime \<Rightarrow> 'r auth_world \<Rightarrow> bool" where
  "within_lockout env t w \<longleftrightarrow>
     (\<forall>n \<ge> aw_clock w. t \<le> auth_time_at env n \<and> auth_time_at env n < t + minutes (account_lockout_minutes env))"

lemma within_later: "within_lockout env t w \<Longrightarrow> aw_clock w \<le> aw_clock w' \<Longrightarrow> within_lockout env t w'"
  by (simp add: within_lockout_def)

lemma storable_later:
  assumes "failure_counted env u db w db' w'" and "inj (auth_uuid_at env)" and "attempts_storable env (aw_supply w) db"
  shows "attempts_storable env (aw_supply w') db'"
proof -
  from assms(1) obtain a where a: "login_attempts db' = login_attempts db @ [a]" "row_id a = auth_uuid_at env (aw_supply w)"
    "aw_supply w' = Suc (aw_supply w)" by (auto simp: failure_counted_def)
  have "auth_uuid_at env k \<noteq> auth_uuid_at env (aw_supply w)" if "Suc (aw_supply w) \<le> k" for k
    using that injD [OF assms(2)] by fastforce
  with a assms(3) show ?thesis by (simp add: attempts_storable_def)
qed

text \<open>Once the account is locked for the rest of the period, no guess is looked at.\<close>

lemma locked_guesses:
  assumes "get_user_by_email (py_lower (py_strip raw)) db = Some u" and "u_is_active u"
    and "list_all (\<lambda>g. \<not> verify_password_safe env (fst g) (u_password_hash u)) gs" and "attempts_storable env (aw_supply w) db"
    and "within_lockout env t w" and "u_locked_until u = Some l" and "t + minutes (account_lockout_minutes env) \<le> l"
  shows "wrong_answers (fst (run_guesses (guess_request env raw) gs (db, w))) = 0"
  using assms
proof (induction gs arbitrary: w)
  case (Cons g gs)
  from Cons.prems(3) have wrong: "\<not> verify_password_safe env (fst g) (u_password_hash u)" by simp
  show ?case
  proof (rule guess_outcome [OF Cons.prems(1,2) wrong Cons.prems(4)], goal_cases counts turned_away)
    case (counts db' w')
    with Cons.prems(5-7) have False by (fastforce simp: unlocked_def within_lockout_def)
    then show ?thesis ..
  next
    case (turned_away e w')
    with Cons.IH [of w'] Cons.prems within_later [OF Cons.prems(5), of w'] show ?thesis
      by (simp del: run_guesses.simps add: wrong_answers_Cons)
  qed
qed (simp add: wrong_answers_def)

lemma guesses_bounded:
  assumes "get_user_by_email (py_lower (py_strip raw)) db = Some u" and "u_is_active u"
    and "list_all (\<lambda>g. \<not> verify_password_safe env (fst g) (u_password_hash u)) gs" and "attempts_storable env (aw_supply w) db"
    and "within_lockout env t w" and "inj (auth_uuid_at env)"
  shows "int (wrong_answers (fst (run_guesses (guess_request env raw) gs (db, w)))) \<le> max 1 (max_login_attempts env - u_failed_login_attempts u)"
  using assms
proof (induction gs arbitrary: db w u)
  case (Cons g gs)
  from Cons.prems(3) have wrong: "\<not> verify_password_safe env (fst g) (u_password_hash u)"
    and rest: "list_all (\<lambda>g. \<not> verify_password_safe env (fst g) (u_password_hash u)) gs" by simp_all
  show ?case
  proof (rule guess_outcome [OF Cons.prems(1,2) wrong Cons.prems(4)], goal_cases counts turned_away)
    case (counts db' w')
    then obtain n stamp where n: "aw_clock w \<le> n" and users: "users db' = with_failure env (auth_time_at env n) stamp u (users db)"
      by (auto simp: failure_counted_def)
    let ?u = "failed_row env (auth_time_at env n) stamp u u"
    have found: "get_user_by_email (py_lower (py_strip raw)) db' = Some ?u" using found_again [OF Cons.prems(1) users] .
    have u: "u_is_active ?u" "list_all (\<lambda>g. \<not> verify_password_safe env (fst g) (u_password_hash ?u)) gs"
      "u_failed_login_attempts ?u = u_failed_login_attempts u + 1"
      using Cons.prems(2) rest by (simp_all add: failed_row_def assign_def)
    have store: "attempts_storable env (aw_supply w') db'" using storable_later [OF counts(2) Cons.prems(6,4)] .
    have window: "within_lockout env t w'" using within_later [OF Cons.prems(5)] counts(2) by (simp add: failure_counted_def)
    have head: "int (wrong_answers (fst (run_guesses (guess_request env raw) (g # gs) (db, w)))) =
        1 + int (wrong_answers (fst (run_guesses (guess_request env raw) gs (db', w'))))"
      using counts(1) by (simp del: run_guesses.simps add: wrong_answers_Cons)
    show ?thesis
    proof (cases "max_login_attempts env \<le> u_failed_login_attempts u + 1")
      case True
      then have "u_locked_until ?u = Some (auth_time_at env n + minutes (account_lockout_minutes env))"
        by (simp add: failed_row_def assign_def)
      moreover have "t \<le> auth_time_at env n" using Cons.prems(5) n by (simp add: within_lockout_def)
      ultimately have "wrong_answers (fst (run_guesses (guess_request env raw) gs (db', w'))) = 0"
        using locked_guesses [OF found u(1,2) store window] by simp
      with head show ?thesis by simp
    next
      case False
      with head Cons.IH [OF found u(1,2) store window Cons.prems(6)] u(3) show ?thesis by simp
    qed
  next
    case (turned_away e w')
    with Cons.IH [OF Cons.prems(1,2) rest, of w'] Cons.prems(4-6) within_later [OF Cons.prems(5), of w'] show ?thesis
      by (simp del: run_guesses.simps add: wrong_answers_Cons)
  qed
qed (simp add: wrong_answers_def)


text \<open>C18. However many wrong passwords are tried on an active account within one lockout period, from any
  devices, and although every such request raises and is rolled back: at most as many of them are
  compared with the stored password as failures were left before the lock (one, when none was
  left). The others are answered by the lock or by the rate limit.\<close>

theorem password_guesses_bounded:
  assumes "get_user_by_email (py_lower (py_strip raw)) db = Some u" and "u_is_active u"
    and "list_all (\<lambda>g. \<not> verify_password_safe env (fst g) (u_password_hash u)) gs" and "attempts_storable env (aw_supply w) db"
    and "within_lockout env t w" and "inj (auth_uuid_at env)"
  shows "int (wrong_answers (fst (run_guesses (guess_request env raw) gs (db, w)))) \<le> max 1 (max_login_attempts env - u_failed_login_attempts u)"
  using assms by (rule guesses_bounded)

definition frozen_env :: "sample_redis auth_env" where
  "frozen_env = sample_auth_env\<lparr>auth_time_at := (\<lambda>n. seconds 1000)\<rparr>"

theorem password_guesses_bounded_witness:
  "int (wrong_answers (fst (run_guesses (guess_request frozen_env ''Alice@example.com'')
     (replicate 9 (''Wrong-Horse-99'', sample_device, None, None)) (sample_auth_db, sample_auth_world)))) \<le> 5"
proof -
  let ?gs = "replicate 9 (''Wrong-Horse-99'', sample_device, None, None) :: guess list"
  have user: "get_user_by_email (py_lower (py_strip ''Alice@example.com'')) sample_auth_db = Some sample_user" by code_simp
  have active: "u_is_active sample_user" and left: "max_login_attempts frozen_env - u_failed_login_attempts sample_user = 5"
    and wrong: "list_all (\<lambda>g. \<not> verify_password_safe frozen_env (fst g) (u_password_hash sample_user)) ?gs" by code_simp+
  have store: "attempts_storable frozen_env (aw_supply sample_auth_world) sample_auth_db"
    by (simp add: attempts_storable_def sample_auth_db_def)
  have window: "within_lockout frozen_env (seconds 1000) sample_auth_world"
    by (simp add: within_lockout_def frozen_env_def sample_auth_env_def)
  have "inj (auth_uuid_at frozen_env)" using sample_uuids by (simp add: frozen_env_def)
  from password_guesses_bounded [OF user active wrong store window this] left show ?thesis by simp
qed

end
