(* ===== verification/AuthGaps.thy ===== *)
theory AuthGaps
  imports Lockout
begin

section \<open>Where authentication does not do what its documentation says\<close>

text \<open>
  Reachable behaviour that the comments of the code exclude: a recovery code that is spent by a
  login which asks for a retry, one reset token used by two overlapping requests, a password
  rule that never applies, and a fresh token refused in the second of a forced logout.
\<close>

subsection \<open>A recovery code lost on the way\<close>

definition no_totp :: "'r auth_env \<Rightarrow> auth_db \<Rightarrow> uuid \<Rightarrow> string \<Rightarrow> bool" where
  "no_totp env db user_id code \<longleftrightarrow>
     (case get_mfa_credential user_id db of
        None \<Rightarrow> True
      | Some c \<Rightarrow> (\<exists>secret. fernet_decrypt env (mc_secret_encrypted c) = Some secret \<and> (\<forall>t. \<not> totp_verify env secret code t)))"

definition burnt :: "recovery_code \<Rightarrow> auth_db \<Rightarrow> auth_db \<Rightarrow> bool" where
  "burnt c db db' \<longleftrightarrow>
     mfa_credentials db' = mfa_credentials db \<and>
     (\<exists>stamp now. recovery_codes db' = update_row stamp (\<lambda>r. r\<lparr>rc_used_at := Some now\<rparr>) c (recovery_codes db))"

lemma yields_burn:
  assumes "no_totp env db user_id code" and "get_active_recovery_code user_id (hash_recovery_code env code) db = Some c"
  shows "yields (\<lambda>ok db' w'. ok \<and> burnt c db db' \<and> login_attempts db' = login_attempts db \<and> aw_supply w' = aw_supply w)
    (verify_mfa_or_recovery_code env user_id code) db w"
  using assms
  by (auto simp: no_totp_def burnt_def verify_mfa_or_recovery_code_def verify_totp_def decrypt_secret_def verify_code_def
      mark_recovery_code_used_def split: option.splits)

lemma burnt_code_gone:
  assumes "burnt c db db'" and "get_active_recovery_code user_id h db = Some c" and "distinct (map rc_code_hash (recovery_codes db))"
  shows "get_active_recovery_code user_id h db' = None"
proof -
  have c: "c \<in> set (recovery_codes db)" "rc_code_hash c = h"
    using assms(2) by (auto simp: get_active_recovery_code_def find_Some_iff)
  obtain stamp now where codes: "recovery_codes db' = update_row stamp (\<lambda>r. r\<lparr>rc_used_at := Some now\<rparr>) c (recovery_codes db)"
    using assms(1) by (auto simp: burnt_def)
  have "rc_used_at r' \<noteq> None" if r': "r' \<in> set (recovery_codes db')" and h: "rc_code_hash r' = h" for r'
  proof -
    from r' obtain r where r: "r \<in> set (recovery_codes db)"
      and new: "r' = (if row_id r = row_id c then assign stamp (\<lambda>r. r\<lparr>rc_used_at := Some now\<rparr>) (version c) r else r)"
      by (auto simp: codes update_row_def)
    then have "rc_code_hash r = rc_code_hash c" using h c(2) by (simp add: assign_def split: if_splits)
    then have "r = c" using r c(1) assms(3) by (metis distinct_map inj_onD)
    then show ?thesis by (simp add: new assign_def)
  qed
  then show ?thesis unfolding get_active_recovery_code_def find_None_iff by blast
qed

text \<open>The request that asks for a new password spends the recovery code it was made with, for good: it
  ends in \<open>PasswordChangeRequiredError\<close>, whose message asks to retry the same login with a new
  password, but the code has been marked as used in the committed tables, and no login can
  succeed with it any more.\<close>

theorem recovery_code_burnt:
  assumes "password_passed env (py_lower (py_strip raw)) password (auth_time_at env (aw_clock w)) db u"
    and "under_rate_limit env (py_lower (py_strip raw)) (di_ip_address dev) (aw_redis w)"
    and "u_mfa_enabled u" and "u_must_change_password u" and "code \<noteq> []" and "no_totp env db (row_id u) code"
    and "get_active_recovery_code (row_id u) (hash_recovery_code env code) db = Some c"
    and "distinct (map rc_code_hash (recovery_codes db))" and "attempts_storable env (aw_supply w) db"
  shows "\<exists>db' w'. guess_request env raw (password, dev, Some code, None) (db, w) = (Inl PasswordChangeRequiredError, (db', w')) \<and>
    get_active_recovery_code (row_id u) (hash_recovery_code env code) db' = None \<and>
    \<not> second_factor env db' (row_id u) code moments"
proof -
  let ?email = "py_lower (py_strip raw)" and ?w = "w\<lparr>aw_committed := db\<rparr>"
  let ?Q = "\<lambda>e db' w'. e = PasswordChangeRequiredError \<and> aw_committed w' = db' \<and> burnt c db db'"
  have change: "raises ?Q (login_change_step env ?email dev None u) db1 w1"
    if "burnt c db db1" "login_attempts db1 = login_attempts db" "aw_supply w1 = aw_supply w" for db1 w1
  proof -
    have "login_change_step env ?email dev None u = fail_login env (Some (row_id u)) ?email dev ''password_change_required'' PasswordChangeRequiredError"
      using assms(4) by (simp add: login_change_step_def absent_def)
    moreover have "attempts_storable env (aw_supply w1) db1" using assms(9) that by (simp add: attempts_storable_def)
    ultimately show ?thesis
      using that(1) by (auto simp: burnt_def intro!: raises_mono [OF raises_fail_login] exI)
  qed
  have mfa: "yields (\<lambda>_. raises ?Q (login_change_step env ?email dev None u)) (login_mfa_step env ?email dev (Some code) u) db w1"
    if "aw_supply w1 = aw_supply w" for w1
    using assms(3,5) that
    by (auto simp: login_mfa_step_def absent_def intro!: yields_mono [OF yields_burn [OF assms(6,7)]] change)
  have "yields (\<lambda>u. yields (\<lambda>_. raises ?Q (login_change_step env ?email dev None u)) (login_mfa_step env ?email dev (Some code) u))
      (login_password_step env ?email password dev) db ?w"
    using assms(1,2) by (auto intro!: yields_mono [OF yields_password_step] mfa)
  then have "raises ?Q (login env raw password dev (Some code) None) db ?w"
    unfolding login_def Let_def raises_andthen
    by - (rule disjI2, erule yields_mono, rule disjI2, erule yields_mono, erule disjI1)
  then obtain db' w' where run: "login env raw password dev (Some code) None (db, ?w) = (Inl PasswordChangeRequiredError, (db', w'))"
    and burnt: "aw_committed w' = db'" "burnt c db db'" by (auto simp: raises_def)
  have gone: "get_active_recovery_code (row_id u) (hash_recovery_code env code) db' = None"
    using burnt_code_gone [OF burnt(2) assms(7,8)] .
  moreover have "\<not> second_factor env db' (row_id u) code moments"
    using gone assms(6) burnt(2)
    by (auto simp: second_factor_def no_totp_def burnt_def get_mfa_credential_def split: option.splits)
  ultimately show ?thesis using run burnt(1) by (simp add: guess_request_def auth_request_def)
qed


definition temporary_user :: user where
  "temporary_user = sample_user\<lparr>u_must_change_password := True\<rparr>"

definition temporary_db :: auth_db where
  "temporary_db = sample_auth_db\<lparr>users := [temporary_user]\<rparr>"

definition sample_code :: recovery_code where
  "sample_code = base_model.extend (new_base ''code'' 0 None) (recovery_code.fields ''alice'' ''s:ABCDE-FGHJK'' None)"

theorem recovery_code_burnt_witness:
  "\<exists>db' w'. guess_request sample_auth_env ''alice@example.com'' (''Correct-Horse-9'', sample_device, Some ''ABCDE-FGHJK'', None)
       (temporary_db, sample_auth_world) = (Inl PasswordChangeRequiredError, (db', w')) \<and>
     get_active_recovery_code ''alice'' (hash_recovery_code sample_auth_env ''ABCDE-FGHJK'') db' = None"
proof -
  have "get_user_by_email (py_lower (py_strip ''alice@example.com'')) temporary_db = Some temporary_user" by code_simp
  moreover have "u_is_active temporary_user \<and> u_is_verified temporary_user \<and> u_locked_until temporary_user = None \<and>
      verify_password_safe sample_auth_env ''Correct-Horse-9'' (u_password_hash temporary_user)" by code_simp
  ultimately have "password_passed sample_auth_env (py_lower (py_strip ''alice@example.com'')) ''Correct-Horse-9''
      (auth_time_at sample_auth_env (aw_clock sample_auth_world)) temporary_db temporary_user" by (simp add: password_passed_def)
  moreover have "under_rate_limit sample_auth_env (py_lower (py_strip ''alice@example.com'')) (di_ip_address sample_device)
      (aw_redis sample_auth_world)" by (simp add: under_rate_limit_def sample_auth_env_def sample_redis_server_def sample_auth_world_def)
  moreover have "u_mfa_enabled temporary_user" "u_must_change_password temporary_user" "row_id temporary_user = ''alice''"
    "distinct (map rc_code_hash (recovery_codes temporary_db))" by code_simp+
  moreover have "no_totp sample_auth_env temporary_db (row_id temporary_user) ''ABCDE-FGHJK''"
  proof -
    have "(case get_mfa_credential (row_id temporary_user) temporary_db of None \<Rightarrow> False | Some c \<Rightarrow> mc_secret_encrypted c = ''424242'')"
      by code_simp
    then show ?thesis by (auto simp: no_totp_def sample_auth_env_def split: option.splits)
  qed
  moreover have "get_active_recovery_code (row_id temporary_user) (hash_recovery_code sample_auth_env ''ABCDE-FGHJK'') temporary_db =
      Some sample_code" by code_simp
  moreover have "attempts_storable sample_auth_env (aw_supply sample_auth_world) temporary_db"
    by (simp add: attempts_storable_def temporary_db_def sample_auth_db_def)
  ultimately show ?thesis
    using recovery_code_burnt [of sample_auth_env "''alice@example.com''" "''Correct-Horse-9''" sample_auth_world temporary_db temporary_user
      sample_device "''ABCDE-FGHJK''" sample_code "{}"] by auto
qed


subsection \<open>Two resets with one token\<close>

text \<open>\<open>_consume_cache_token\<close> is a GET and a DELETE. \<open>reset_password\<close> is therefore a check, a GET, a guard, a
  DELETE and the writes.\<close>

definition spend_token :: "'r auth_env \<Rightarrow> string \<Rightarrow> ('r, unit) aprog" where
  "spend_token env token = redis_write (ar_delete (redis_server env) (RESET_TOKEN_KEY (hash_token env token)))"

definition token_still_there :: "'r auth_env \<Rightarrow> string \<Rightarrow> ('r, unit) aprog" where
  "token_still_there env token =
     andthen (peek_cache_token env RESET_TOKEN_KEY token) (\<lambda>v. guard (v \<noteq> None) invalid_reset)"

lemma reset_password_steps:
  "reset_password env token new =
     andthen (reset_check env token new) (\<lambda>uh.
     andthen (token_still_there env token) (\<lambda>_.
     andthen (spend_token env token) (\<lambda>_.
     reset_write env uh)))"
  by (simp add: reset_password_def consume_cache_token_def token_still_there_def spend_token_def andthen_assoc)
     (intro ext, auto simp: andthen_def prog_simps split: prod.splits sum.splits option.splits)

text \<open>One schedule of two requests with the same token: both pass the checks and read the token before
  either of them deletes it.\<close>

definition reset_schedule :: "'r auth_env \<Rightarrow> string \<Rightarrow> string \<Rightarrow> string \<Rightarrow> ('r, unit) aprog" where
  "reset_schedule env token first second =
     andthen (reset_check env token first) (\<lambda>a.
     andthen (reset_check env token second) (\<lambda>b.
     andthen (token_still_there env token) (\<lambda>_.
     andthen (token_still_there env token) (\<lambda>_.
     andthen (spend_token env token) (\<lambda>_.
     andthen (reset_write env a) (\<lambda>_.
     andthen (spend_token env token) (\<lambda>_.
     reset_write env b)))))))"

definition resettable :: "'r auth_env \<Rightarrow> uuid \<Rightarrow> auth_db \<Rightarrow> string \<Rightarrow> bool" where
  "resettable env user_id db new \<longleftrightarrow>
     validate_strength new = Inr () \<and>
     (password_history_limit env \<le> 0 \<or>
      \<not> list_ex (verify_password_safe env new) (get_recent_password_hashes user_id (password_history_limit env) db))"

definition history_storable :: "'r auth_env \<Rightarrow> nat \<Rightarrow> auth_db \<Rightarrow> bool" where
  "history_storable env n db \<longleftrightarrow>
     distinct (map row_id (password_histories db)) \<and> (\<forall>k \<ge> n. auth_uuid_at env k \<notin> row_id ` set (password_histories db))"

lemma yields_reset_check:
  assumes "reset_target env token (aw_redis w) = Some user_id" and "get_user_by_id user_id db = Some u" and "resettable env user_id db new"
  shows "yields (\<lambda>uh db' w'. uh = (u, pw_hash env (aw_supply w) new) \<and> db' = db \<and> aw_redis w' = aw_redis w \<and> aw_supply w' = Suc (aw_supply w))
    (reset_check env token new) db w"
  using assms
  by (auto simp: reset_check_def peek_cache_token_def reset_target_def resettable_def split: option.splits auth_value.splits)

lemma yields_still_there:
  "reset_target env token (aw_redis w) \<noteq> None \<Longrightarrow> P () db w \<Longrightarrow> yields P (token_still_there env token) db w"
  by (auto simp: token_still_there_def peek_cache_token_def reset_target_def split: option.splits auth_value.splits)

lemma yields_spend [simp]:
  "yields P (spend_token env token) =
     (\<lambda>db w. P () db (w\<lparr>aw_redis := ar_delete (redis_server env) (RESET_TOKEN_KEY (hash_token env token)) (aw_redis w)\<rparr>))"
  by (simp add: spend_token_def)

lemma yields_revoke_all:
  "yields (\<lambda>_ db' w'. w' = w \<and> users db' = users db \<and> password_histories db' = password_histories db) (revoke_all_sessions env user_id) db w"
proof -
  have "yields (\<lambda>_ db' w'. w' = w \<and> users db' = users db \<and> password_histories db' = password_histories db)
     (for_each (\<lambda>s _. andthen (update_in env sessions_update s (\<lambda>r. r\<lparr>sn_is_active := False\<rparr>)) (\<lambda>_. ret ())) rows ()) db1 w"
    if "users db1 = users db" "password_histories db1 = password_histories db" for rows db1
    using that by (induction rows arbitrary: db1) auto
  then show ?thesis by (auto simp: revoke_all_sessions_def)
qed

text \<open>The writes of one reset: the stored password and one row of the history.\<close>

definition reset_applied :: "'r auth_env \<Rightarrow> user \<Rightarrow> string \<Rightarrow> auth_db \<Rightarrow> auth_db \<Rightarrow> bool" where
  "reset_applied env u h db db' \<longleftrightarrow>
     map ph_password_hash (password_histories db') = map ph_password_hash (password_histories db) @ [h] \<and>
     (\<forall>r \<in> set (users db'). row_id r = row_id u \<longrightarrow> u_password_hash r = h)"

lemma yields_reset_write:
  assumes "history_storable env (aw_supply w) db" and "inj (auth_uuid_at env)"
  shows "yields (\<lambda>_ db' w'. reset_applied env u h db db' \<and> history_storable env (aw_supply w') db' \<and> aw_supply w' = Suc (aw_supply w))
    (reset_write env (u, h)) db w"
proof -
  have fresh: "auth_uuid_at env k \<noteq> auth_uuid_at env (aw_supply w)" if "Suc (aw_supply w) \<le> k" for k
    using that injD [OF assms(2)] by fastforce
  have "yields (\<lambda>_ db' w'. reset_applied env u h db db' \<and> history_storable env (aw_supply w') db' \<and> aw_supply w' = Suc (aw_supply w))
    (set_password env u h) db w"
    using assms(1) fresh
    by (auto simp: set_password_def update_user_def add_password_history_def yields_create_in create_row_def history_storable_def
        reset_applied_def update_row_def assign_def password_history.defs base_model.defs new_base_def Let_def)
  then show ?thesis
    by (auto simp: reset_write_def history_storable_def reset_applied_def elim!: yields_mono intro!: yields_mono [OF yields_revoke_all])
qed

text \<open>Two resets can both be applied with one token: in this schedule both requests return, both passwords
  are written to the history, and the second one is the one that is stored.\<close>

theorem reset_token_race:
  assumes "reset_target env token (aw_redis w) = Some user_id" and "get_user_by_id user_id db = Some u"
    and "resettable env user_id db first" and "resettable env user_id db second"
    and "history_storable env (aw_supply w) db" and "inj (auth_uuid_at env)"
  shows "\<exists>db1 db2 w2 h1 h2. reset_schedule env token first second (db, w) = (Inr (), (db2, w2)) \<and>
    h1 = pw_hash env (aw_supply w) first \<and> h2 = pw_hash env (Suc (aw_supply w)) second \<and>
    reset_applied env u h1 db db1 \<and> reset_applied env u h2 db1 db2"
proof -
  let ?h1 = "pw_hash env (aw_supply w) first" and ?h2 = "pw_hash env (Suc (aw_supply w)) second"
  let ?P = "\<lambda>_ db2 _. \<exists>db1. reset_applied env u ?h1 db db1 \<and> reset_applied env u ?h2 db1 db2"
  have later: "history_storable env n db" if "aw_supply w \<le> n" for n using assms(5) that by (simp add: history_storable_def)
  have writes: "yields ?P (andthen (spend_token env token) (\<lambda>_. andthen (reset_write env (u, ?h1)) (\<lambda>_.
      andthen (spend_token env token) (\<lambda>_. reset_write env (u, ?h2))))) db w1" if "aw_supply w \<le> aw_supply w1" for w1
    using later [OF that] assms(6)
    by (auto intro!: yields_mono [OF yields_reset_write] yields_mono [OF yields_reset_write, where Q = ?P])
  have "yields ?P (reset_schedule env token first second) db w"
    unfolding reset_schedule_def yields_andthen [where m = "reset_check _ _ _"] yields_andthen [where m = "token_still_there _ _"]
    by (rule yields_mono [OF yields_reset_check [OF assms(1-3)]], elim conjE)
       (use assms(1,2,4) writes in \<open>auto simp del: yields_andthen intro!: yields_mono [OF yields_reset_check] yields_still_there\<close>)
  then show ?thesis by (auto simp: yields_def)
qed


definition reset_requested :: "sample_redis auth_world" where
  "reset_requested = sample_auth_world\<lparr>aw_redis := [(RESET_TOKEN_KEY ''s:token'', UserIdValue ''alice'')]\<rparr>"

theorem reset_token_race_witness:
  "\<exists>db1 db2 w2. reset_schedule sample_auth_env ''token'' ''First-Horse-10'' ''Second-Horse-11'' (sample_auth_db, reset_requested) = (Inr (), (db2, w2)) \<and>
     reset_applied sample_auth_env sample_user ''h:First-Horse-10'' sample_auth_db db1 \<and>
     reset_applied sample_auth_env sample_user ''h:Second-Horse-11'' db1 db2"
proof -
  have target: "reset_target sample_auth_env ''token'' (aw_redis reset_requested) = Some ''alice''"
    and user: "get_user_by_id ''alice'' sample_auth_db = Some sample_user"
    and first: "resettable sample_auth_env ''alice'' sample_auth_db ''First-Horse-10''"
    and second: "resettable sample_auth_env ''alice'' sample_auth_db ''Second-Horse-11''" by code_simp+
  have "history_storable sample_auth_env (aw_supply reset_requested) sample_auth_db"
    by (simp add: history_storable_def sample_auth_db_def)
  from reset_token_race [OF target user first second this sample_uuids] show ?thesis
    by (auto simp: sample_auth_env_def)
qed


subsection \<open>The list of common passwords\<close>

text \<open>The last rule of the password policy never applies: every entry of the list of common passwords is
  shorter than the minimum length, which is checked first.\<close>

theorem common_passwords_unreachable:
  "validate_strength password \<noteq> Inl ''Password is too common. Please choose a stronger password''"
proof -
  have "list_all (\<lambda>p. length p < MIN_LENGTH) COMMON_PASSWORDS" by code_simp
  then have "py_lower password \<notin> set COMMON_PASSWORDS" if "\<not> length password < MIN_LENGTH"
    using that by (auto simp: list_all_iff py_lower_def)
  then show ?thesis by (auto simp: validate_strength_def)
qed


subsection \<open>Access tokens after a forced logout\<close>

text \<open>The token was signed at the instant \<open>t\<close>: its \<open>iat\<close> is the whole second.\<close>

definition signed_at :: "datetime \<Rightarrow> jwt_claims \<Rightarrow> bool" where
  "signed_at t claims \<longleftrightarrow> jc_iat claims = timestamp t"

lemma timestamp_floor: "seconds (timestamp t) \<le> t"
  by (simp add: timestamp_def seconds_def)

text \<open>A token that still authenticates a request was signed no earlier than the user's tokens were
  invalidated.\<close>

theorem accepted_token_is_recent:
  assumes "decodes_to env token claims" and "signed_at issued_at claims"
    and "resolve_user_from_jwt env token (db, w) = (Inr u, s')" and "u_tokens_invalidated_at u = Some t"
  shows "t \<le> issued_at \<and> u_is_active u \<and> get_user_by_id (jc_sub claims) db = Some u"
proof -
  obtain db' w' where s': "s' = (db', w')" by (cases s')
  have "c = claims" if "map_sum f id (validate_token env token ty now) = Inr c" for c ty now and f :: "string \<Rightarrow> auth_exc"
    using that assms(1) by (auto simp: validate_token_def decodes_to_def split: sum.splits if_splits)
  then have "ensures (\<lambda>u _ _. get_user_by_id (jc_sub claims) db = Some u \<and> u_is_active u \<and>
      (\<forall>t. u_tokens_invalidated_at u = Some t \<longrightarrow> \<not> seconds (jc_iat claims) < t)) (resolve_user_from_jwt env token) db w"
    by (auto simp: resolve_user_from_jwt_def split: sum.split option.split)
  from ensuresD [OF this assms(3) [unfolded s']] assms(2,4) timestamp_floor [of issued_at] show ?thesis
    by (auto simp: signed_at_def)
qed

text \<open>The converse fails within one second: a token signed after the invalidation, in the same second, is
  refused, because its \<open>iat\<close> is rounded down and the instant of the invalidation is not.\<close>

theorem relogin_same_second_refused:
  assumes "jwt_decode env (auth_time_at env (aw_clock w)) token = Inr claims" and "jc_type claims = ''access''"
    and "signed_at issued_at claims" and "get_user_by_id (jc_sub claims) db = Some u" and "u_is_active u"
    and "u_tokens_invalidated_at u = Some t" and "t \<le> issued_at" and "timestamp issued_at = timestamp t" and "\<not> 1000000 dvd t"
  shows "fst (resolve_user_from_jwt env token (db, w)) = Inl (UnauthorizedError ''Session has been terminated'')"
proof -
  have "seconds (timestamp t) \<noteq> t" using assms(9) by (metis dvd_triv_right seconds_def timestamp_def)
  then have "seconds (jc_iat claims) < t" using timestamp_floor [of t] assms(3,8) by (simp add: signed_at_def)
  with assms show ?thesis
    by (simp add: resolve_user_from_jwt_def validate_token_def auth_now_def prog_simps unauthorized_def)
qed

end
