(* ===== verification/Organizations.thy ===== *)
theory Organizations
  imports Auth "HOL-Library.AList" "HOL-Library.List_Lexorder" "HOL-Library.Char_ord"
begin

section \<open>Organizations\<close>

text \<open>
  \<open>app/domains/organization/service.py\<close> (\<open>OrganizationService\<close>) and \<open>repository.py\<close>: the tree of organizations,
  their life cycle, branding and memberships. The programs work on the identity tables of theory
  \<open>Auth\<close>. The payload of an update is a record of optional columns; an explicit null for a column
  that the table declares NOT NULL is refused by the database and is left out.
\<close>

subsection \<open>Writes\<close>

definition create_by ::
  "'r auth_env \<Rightarrow> uuid option \<Rightarrow> (auth_db \<Rightarrow> 'a base_model_scheme list) \<Rightarrow>
   (('a base_model_scheme list \<Rightarrow> 'a base_model_scheme list) \<Rightarrow> auth_db \<Rightarrow> auth_db) \<Rightarrow>
   ('a base_model_scheme list \<Rightarrow> bool) \<Rightarrow> 'a \<Rightarrow> ('r, 'a base_model_scheme) aprog" where
  "create_by env actor get upd uniq columns =
     andthen (auth_uuid4 env) (\<lambda>i.
     andthen (auth_db_now env) (\<lambda>now.
     let r = base_model.extend (new_base i now actor) columns
     in andthen (stores_db AuthDbError (\<lambda>db.
          case create_row uniq r (get db) of Inl e \<Rightarrow> Inl e | Inr t \<Rightarrow> Inr (upd (\<lambda>_. t) db))) (\<lambda>_.
        ret r)))"

text \<open>An update whose flush checks a unique index.\<close>

definition update_unique ::
  "'r auth_env \<Rightarrow> (auth_db \<Rightarrow> 'a base_model_scheme list) \<Rightarrow>
   (('a base_model_scheme list \<Rightarrow> 'a base_model_scheme list) \<Rightarrow> auth_db \<Rightarrow> auth_db) \<Rightarrow>
   ('a base_model_scheme list \<Rightarrow> bool) \<Rightarrow> 'a base_model_scheme \<Rightarrow>
   ('a base_model_scheme \<Rightarrow> 'a base_model_scheme) \<Rightarrow> ('r, 'a base_model_scheme) aprog" where
  "update_unique env get upd uniq inst data =
     andthen (auth_db_now env) (\<lambda>now.
     andthen (stores_db AuthDbError (\<lambda>db.
       let t = update_row now data inst (get db)
       in if uniq t then Inr (upd (\<lambda>_. t) db) else Inl DuplicateRecordError)) (\<lambda>_.
     ret (assign now data (version inst) inst)))"

definition org_audit :: "uuid option \<Rightarrow> string \<Rightarrow> string \<Rightarrow> uuid \<Rightarrow> string \<Rightarrow> (string \<times> string) list \<Rightarrow> uuid \<Rightarrow> ('r, unit) aprog" where
  "org_audit actor action entity_type entity description metadata org =
     modifies_db (auth_audits_update (\<lambda>t. t @
       [\<lparr>ae_actor_user_id = actor, ae_action = action, ae_entity_type = entity_type, ae_entity_id = Some entity,
         ae_description = description, ae_metadata = metadata, ae_organization_id = Some org, ae_location_id = None\<rparr>]))"



subsection \<open>Repository\<close>

definition org_by_id :: "bool \<Rightarrow> uuid \<Rightarrow> auth_db \<Rightarrow> organization_row option" where
  "org_by_id include_deleted i db = get_by_id include_deleted i (org_rows db)"

definition org_by_slug :: "string \<Rightarrow> bool \<Rightarrow> auth_db \<Rightarrow> organization_row option" where
  "org_by_slug slug include_deleted db =
     (case get_all (\<lambda>o'. og_slug o' = slug) created_at DESC include_deleted (Some 1) (org_rows db) of
        [] \<Rightarrow> None | o' # _ \<Rightarrow> Some o')"

definition org_children :: "uuid \<Rightarrow> auth_db \<Rightarrow> organization_row list" where
  "org_children i db = get_all (\<lambda>o'. og_parent o' = Some i) og_name ASC False None (org_rows db)"

text \<open>The walk up the parents, with the identifiers already seen and the steps that are left.\<close>

fun org_parent_walk :: "auth_db \<Rightarrow> nat \<Rightarrow> uuid list \<Rightarrow> organization_row \<Rightarrow> organization_row list" where
  "org_parent_walk db 0 seen current = []"
| "org_parent_walk db (Suc left) seen current =
     (case og_parent current of
        None \<Rightarrow> []
      | Some p \<Rightarrow>
          (case org_by_id False p db of
             None \<Rightarrow> []
           | Some parent \<Rightarrow>
               if row_id parent \<in> set seen then []
               else parent # org_parent_walk db left (row_id parent # seen) parent))"

definition org_parent_chain :: "uuid \<Rightarrow> nat \<Rightarrow> auth_db \<Rightarrow> organization_row list" where
  "org_parent_chain i max_depth db =
     (case org_by_id False i db of None \<Rightarrow> [] | Some o' \<Rightarrow> org_parent_walk db max_depth [i] o')"

definition get_membership :: "uuid \<Rightarrow> uuid \<Rightarrow> auth_db \<Rightarrow> organization_member option" where
  "get_membership org user db =
     first_row (\<lambda>m. om_organization_id m = org \<and> om_user_id m = user) (org_members db)"

definition get_membership_by_id :: "uuid \<Rightarrow> auth_db \<Rightarrow> organization_member option" where
  "get_membership_by_id i db = get_by_id False i (org_members db)"

definition members_with_status :: "uuid \<Rightarrow> MembershipStatus option \<Rightarrow> auth_db \<Rightarrow> organization_member list" where
  "members_with_status org status db =
     get_all (\<lambda>m. om_organization_id m = org \<and> (case status of None \<Rightarrow> True | Some s \<Rightarrow> om_status m = s))
       created_at DESC False None (org_members db)"

definition list_user_memberships :: "uuid \<Rightarrow> MembershipStatus option \<Rightarrow> auth_db \<Rightarrow> organization_member list" where
  "list_user_memberships user status db =
     get_all (\<lambda>m. om_user_id m = user \<and> (case status of None \<Rightarrow> True | Some s \<Rightarrow> om_status m = s))
       created_at DESC False None (org_members db)"

definition count_active_members :: "uuid \<Rightarrow> auth_db \<Rightarrow> nat" where
  "count_active_members org db =
     count_rows (\<lambda>m. om_organization_id m = org \<and> om_status m = MEMBER_ACTIVE) False (org_members db)"


subsection \<open>Organizations\<close>

definition MAX_HIERARCHY_DEPTH :: nat where
  "MAX_HIERARCHY_DEPTH = 50"

definition org_normalize_slug :: "string \<Rightarrow> string" where
  "org_normalize_slug slug = py_lower (py_strip slug)"

definition org_get :: "uuid \<Rightarrow> bool \<Rightarrow> ('r, organization_row) aprog" where
  "org_get i include_deleted =
     andthen (reads_db (org_by_id include_deleted i)) (\<lambda>found.
     orelse found (OrganizationNotFoundError i))"

definition org_list_children :: "uuid \<Rightarrow> ('r, organization_row list) aprog" where
  "org_list_children i =
     andthen (org_get i False) (\<lambda>o'.
     andthen (guard (org_is_msp o') (NotAnMspOrganizationError i)) (\<lambda>_.
     reads_db (org_children i)))"

definition enforce_tenant_access :: "organization_row \<Rightarrow> uuid option \<Rightarrow> ('r, unit) aprog" where
  "enforce_tenant_access o' requesting =
     guard (requesting = None \<or> requesting = Some (row_id o') \<or> requesting = og_parent o') CrossOrganizationAccessError"

definition assert_valid_parent :: "uuid \<Rightarrow> uuid option \<Rightarrow> ('r, unit) aprog" where
  "assert_valid_parent parent_id current =
     andthen (case current of
         None \<Rightarrow> ret ()
       | Some i \<Rightarrow> guard (parent_id \<noteq> i) (CircularOrganizationHierarchyError i parent_id)) (\<lambda>_.
     andthen (reads_db (org_by_id False parent_id)) (\<lambda>found.
     andthen (orelse found (OrganizationNotFoundError parent_id)) (\<lambda>parent.
     andthen (guard (org_is_msp parent) (NotAnMspOrganizationError parent_id)) (\<lambda>_.
     case current of
       None \<Rightarrow> ret ()
     | Some i \<Rightarrow>
         andthen (reads_db (org_parent_chain parent_id MAX_HIERARCHY_DEPTH)) (\<lambda>chain.
         guard (\<not> list_ex (\<lambda>a. row_id a = i) chain) (CircularOrganizationHierarchyError i parent_id))))))"

record org_create =
  oc_name :: string
  oc_slug :: string
  oc_contact_email :: string
  oc_legal_name :: "string option"
  oc_org_type :: OrganizationType
  oc_status :: OrganizationStatus
  oc_parent :: "uuid option"
  oc_contact_phone :: "string option"
  oc_timezone :: string
  oc_default_locale :: string
  oc_settings :: org_settings
  oc_subscription_tier :: "string option"

definition unique_slugs :: "organization_row list \<Rightarrow> bool" where
  "unique_slugs t \<longleftrightarrow> distinct (map og_slug t)"

definition create_organization :: "'r auth_env \<Rightarrow> uuid option \<Rightarrow> org_create \<Rightarrow> ('r, organization_row) aprog" where
  "create_organization env actor c =
     (let slug = org_normalize_slug (oc_slug c)
      in andthen (reads_db (org_by_slug slug True)) (\<lambda>same.
         andthen (guard (same = None) (DuplicateSlugError slug)) (\<lambda>_.
         andthen (case oc_parent c of None \<Rightarrow> ret () | Some p \<Rightarrow> assert_valid_parent p None) (\<lambda>_.
         andthen (create_by env actor org_rows org_rows_update unique_slugs
           (organization_row.fields (oc_name c) slug (oc_legal_name c) (oc_org_type c) (oc_status c) (oc_parent c)
              (py_lower (oc_contact_email c)) (oc_contact_phone c) (oc_timezone c) (oc_default_locale c) (oc_settings c)
              (oc_subscription_tier c))) (\<lambda>o'.
         andthen (org_audit actor ''organization_created'' ''organization'' (row_id o')
           (''Organization '' @ in_quotes (og_name o') @ '' created'') [] (row_id o')) (\<lambda>_.
         ret o'))))))"


text \<open>The payload of an update: \<open>None\<close> for a key that is absent.\<close>

record org_patch =
  pa_name :: "string option"
  pa_slug :: "string option"
  pa_legal_name :: "string option option"
  pa_org_type :: "OrganizationType option"
  pa_parent :: "uuid option option"
  pa_contact_email :: "string option"
  pa_contact_phone :: "string option option"
  pa_timezone :: "string option"
  pa_default_locale :: "string option"
  pa_settings :: "org_settings option"
  pa_subscription_tier :: "string option option"

definition given :: "'a option \<Rightarrow> 'a \<Rightarrow> 'a" where
  "given v old = (case v of None \<Rightarrow> old | Some x \<Rightarrow> x)"

definition apply_org_patch :: "org_patch \<Rightarrow> uuid option \<Rightarrow> organization_row \<Rightarrow> organization_row" where
  "apply_org_patch p actor r =
     r\<lparr>og_name := given (pa_name p) (og_name r), og_slug := given (map_option org_normalize_slug (pa_slug p)) (og_slug r),
       og_legal_name := given (pa_legal_name p) (og_legal_name r), og_org_type := given (pa_org_type p) (og_org_type r),
       og_parent := given (pa_parent p) (og_parent r),
       og_contact_email := given (map_option py_lower (pa_contact_email p)) (og_contact_email r),
       og_contact_phone := given (pa_contact_phone p) (og_contact_phone r), og_timezone := given (pa_timezone p) (og_timezone r),
       og_default_locale := given (pa_default_locale p) (og_default_locale r), og_settings := given (pa_settings p) (og_settings r),
       og_subscription_tier := given (pa_subscription_tier p) (og_subscription_tier r), updated_by := actor\<rparr>"

definition update_organization_row ::
  "'r auth_env \<Rightarrow> organization_row \<Rightarrow> (organization_row \<Rightarrow> organization_row) \<Rightarrow> ('r, organization_row) aprog" where
  "update_organization_row env o' data = update_unique env org_rows org_rows_update unique_slugs o' data"

definition check_new_slug :: "organization_row \<Rightarrow> string option \<Rightarrow> ('r, unit) aprog" where
  "check_new_slug o' v =
     (case v of
        None \<Rightarrow> ret ()
      | Some slug \<Rightarrow>
          andthen (reads_db (org_by_slug (org_normalize_slug slug) True)) (\<lambda>existing.
          guard (case existing of None \<Rightarrow> True | Some e \<Rightarrow> row_id e = row_id o') (DuplicateSlugError (org_normalize_slug slug))))"

definition check_new_type :: "organization_row \<Rightarrow> OrganizationType option \<Rightarrow> ('r, unit) aprog" where
  "check_new_type o' v =
     (if v = None \<or> \<not> org_is_msp o' \<or> v = Some MSP then ret ()
      else andthen (reads_db (org_children (row_id o'))) (\<lambda>children.
           guard (children = []) (MspDowngradeWithChildrenError (row_id o'))))"

definition update_organization_check :: "uuid \<Rightarrow> uuid option \<Rightarrow> org_patch \<Rightarrow> ('r, organization_row) aprog" where
  "update_organization_check i requesting p =
     andthen (org_get i False) (\<lambda>o'.
     andthen (enforce_tenant_access o' requesting) (\<lambda>_.
     andthen (guard (og_status o' \<noteq> ORG_ARCHIVED) (OrganizationArchivedError i)) (\<lambda>_.
     andthen (check_new_slug o' (pa_slug p)) (\<lambda>_.
     andthen (case pa_parent p of Some (Some parent) \<Rightarrow> assert_valid_parent parent (Some (row_id o')) | _ \<Rightarrow> ret ()) (\<lambda>_.
     andthen (check_new_type o' (pa_org_type p)) (\<lambda>_.
     ret o'))))))"

definition update_organization_write :: "'r auth_env \<Rightarrow> uuid option \<Rightarrow> org_patch \<Rightarrow> organization_row \<Rightarrow> ('r, organization_row) aprog" where
  "update_organization_write env actor p o' =
     andthen (update_organization_row env o' (apply_org_patch p actor)) (\<lambda>updated.
     andthen (org_audit actor ''organization_updated'' ''organization'' (row_id updated)
       (''Organization '' @ in_quotes (og_name updated) @ '' updated'') [] (row_id updated)) (\<lambda>_.
     ret updated))"

definition update_organization ::
  "'r auth_env \<Rightarrow> uuid option \<Rightarrow> uuid \<Rightarrow> uuid option \<Rightarrow> org_patch \<Rightarrow> ('r, organization_row) aprog" where
  "update_organization env actor i requesting p =
     andthen (update_organization_check i requesting p) (update_organization_write env actor p)"

definition archive_organization :: "'r auth_env \<Rightarrow> uuid option \<Rightarrow> uuid \<Rightarrow> uuid option \<Rightarrow> ('r, organization_row) aprog" where
  "archive_organization env actor i requesting =
     andthen (org_get i False) (\<lambda>o'.
     andthen (enforce_tenant_access o' requesting) (\<lambda>_.
     andthen (update_organization_row env o' (\<lambda>r. r\<lparr>og_status := ORG_ARCHIVED, updated_by := actor\<rparr>)) (\<lambda>updated.
     andthen (auth_now env) (\<lambda>now.
     andthen (modifies_db (org_rows_update (soft_delete now updated))) (\<lambda>_.
     andthen (org_audit actor ''organization_archived'' ''organization'' (row_id updated)
       (''Organization '' @ in_quotes (og_name updated) @ '' archived'') [] (row_id updated)) (\<lambda>_.
     ret (mark_deleted now updated)))))))"

definition set_org_status ::
  "'r auth_env \<Rightarrow> uuid option \<Rightarrow> uuid \<Rightarrow> uuid option \<Rightarrow> OrganizationStatus \<Rightarrow> string \<Rightarrow> ('r, organization_row) aprog" where
  "set_org_status env actor i requesting new_status action =
     andthen (org_get i False) (\<lambda>o'.
     andthen (enforce_tenant_access o' requesting) (\<lambda>_.
     andthen (guard (og_status o' \<noteq> ORG_ARCHIVED) (OrganizationArchivedError i)) (\<lambda>_.
     andthen (update_organization_row env o' (\<lambda>r. r\<lparr>og_status := new_status, updated_by := actor\<rparr>)) (\<lambda>updated.
     andthen (org_audit actor action ''organization'' (row_id updated)
       (''Organization '' @ in_quotes (og_name updated) @ '' '' @ OrganizationStatus_value new_status) [] (row_id updated)) (\<lambda>_.
     ret updated)))))"

definition suspend_organization :: "'r auth_env \<Rightarrow> uuid option \<Rightarrow> uuid \<Rightarrow> uuid option \<Rightarrow> ('r, organization_row) aprog" where
  "suspend_organization env actor i requesting = set_org_status env actor i requesting ORG_SUSPENDED ''organization_suspended''"

definition activate_organization :: "'r auth_env \<Rightarrow> uuid option \<Rightarrow> uuid \<Rightarrow> uuid option \<Rightarrow> ('r, organization_row) aprog" where
  "activate_organization env actor i requesting = set_org_status env actor i requesting ORG_ACTIVE ''organization_activated''"

definition org_sync_subscription_tier :: "'r auth_env \<Rightarrow> uuid \<Rightarrow> string option \<Rightarrow> ('r, organization_row) aprog" where
  "org_sync_subscription_tier env i tier =
     andthen (org_get i False) (\<lambda>o'.
     update_organization_row env o' (\<lambda>r. r\<lparr>og_subscription_tier := tier\<rparr>))"


subsection \<open>Branding\<close>

definition domain_char :: "char \<Rightarrow> bool" where
  "domain_char c \<longleftrightarrow> in_range (CHR ''A'') (CHR ''Z'') c \<or> in_range (CHR ''a'') (CHR ''z'') c \<or> in_range (CHR ''0'') (CHR ''9'') c \<or> c = CHR ''-''"

definition domain_label :: "string \<Rightarrow> bool" where
  "domain_label l \<longleftrightarrow>
     1 \<le> length l \<and> length l \<le> 63 \<and> list_all domain_char l \<and> hd l \<noteq> CHR ''-'' \<and> last l \<noteq> CHR ''-''"

fun split_labels :: "string \<Rightarrow> string \<Rightarrow> string list" where
  "split_labels acc [] = [rev acc]"
| "split_labels acc (c # cs) = (if c = CHR ''.'' then rev acc # split_labels [] cs else split_labels (c # acc) cs)"

definition normalize_custom_domain :: "string \<Rightarrow> auth_exc + string" where
  "normalize_custom_domain value =
     (let normalized = py_lower (py_strip value); labels = split_labels [] normalized
      in if 2 \<le> length labels \<and> list_all domain_label labels then Inr normalized
         else Inl (InvalidBrandingFieldError (''Invalid custom domain: '' @ in_quotes value)))"

definition branding_of :: "organization_row \<Rightarrow> (string \<times> string) list" where
  "branding_of o' = (case os_branding (og_settings o') of None \<Rightarrow> [] | Some b \<Rightarrow> b)"

definition get_branding :: "uuid \<Rightarrow> uuid option \<Rightarrow> ('r, (string \<times> string) list) aprog" where
  "get_branding i requesting =
     andthen (org_get i False) (\<lambda>o'.
     andthen (enforce_tenant_access o' requesting) (\<lambda>_.
     ret (branding_of o')))"

definition normalize_branding :: "(string \<times> string option) list \<Rightarrow> auth_exc + (string \<times> string) list" where
  "normalize_branding data =
     (let present = List.map_filter (\<lambda>(k, v). map_option (Pair k) v) data
      in if \<not> list_ex (\<lambda>(k, _). k = ''custom_domain'') present
         then Inr (map (\<lambda>(k, v). (k, if k = ''support_email'' then py_lower v else v)) present)
         else case normalize_custom_domain (the (map_of present ''custom_domain'')) of
           Inl e \<Rightarrow> Inl e
         | Inr d \<Rightarrow> Inr (map (\<lambda>(k, v). (k, if k = ''custom_domain'' then d else if k = ''support_email'' then py_lower v else v)) present))"

definition update_branding ::
  "'r auth_env \<Rightarrow> uuid \<Rightarrow> uuid option \<Rightarrow> uuid option \<Rightarrow> (string \<times> string option) list \<Rightarrow> ('r, (string \<times> string) list) aprog" where
  "update_branding env i actor requesting data =
     andthen (org_get i False) (\<lambda>o'.
     andthen (enforce_tenant_access o' requesting) (\<lambda>_.
     andthen (guard (og_status o' \<noteq> ORG_ARCHIVED) (OrganizationArchivedError i)) (\<lambda>_.
     andthen (lift_result (normalize_branding data)) (\<lambda>update_data.
     let branding = fold (\<lambda>(k, v). AList.update k v) update_data (branding_of o');
         settings = (og_settings o')\<lparr>os_branding := Some branding\<rparr>
     in andthen (update_organization_row env o' (\<lambda>r. r\<lparr>og_settings := settings, updated_by := actor\<rparr>)) (\<lambda>_.
        andthen (org_audit actor ''organization_branding_updated'' ''organization'' (row_id o')
          (''Organization '' @ in_quotes (og_name o') @ '' branding updated'') [] (row_id o')) (\<lambda>_.
        ret branding))))))"



subsection \<open>Memberships\<close>

definition list_members :: "uuid \<Rightarrow> MembershipStatus option \<Rightarrow> ('r, organization_member list) aprog" where
  "list_members org status =
     andthen (org_get org False) (\<lambda>_.
     reads_db (members_with_status org status))"

definition list_user_organizations :: "uuid \<Rightarrow> MembershipStatus option \<Rightarrow> ('r, organization_member list) aprog" where
  "list_user_organizations user status = reads_db (list_user_memberships user status)"

definition update_membership ::
  "'r auth_env \<Rightarrow> organization_member \<Rightarrow> (organization_member \<Rightarrow> organization_member) \<Rightarrow> ('r, organization_member) aprog" where
  "update_membership env m data = update_unique env org_members org_members_update one_active_membership m data"

definition get_member_in_organization :: "uuid \<Rightarrow> uuid \<Rightarrow> ('r, organization_member) aprog" where
  "get_member_in_organization org member_id =
     andthen (reads_db (get_membership_by_id member_id)) (\<lambda>found.
     andthen (orelse found (OrganizationMembershipNotFoundError member_id)) (\<lambda>m.
     andthen (guard (om_organization_id m = org) (OrganizationMembershipNotFoundError member_id)) (\<lambda>_.
     ret m)))"

definition invite_member ::
  "'r auth_env \<Rightarrow> uuid \<Rightarrow> uuid \<Rightarrow> uuid \<Rightarrow> uuid option \<Rightarrow> bool \<Rightarrow> ('r, organization_member) aprog" where
  "invite_member env actor org user requesting primary =
     andthen (org_get org False) (\<lambda>o'.
     andthen (enforce_tenant_access o' requesting) (\<lambda>_.
     andthen (guard (og_status o' \<noteq> ORG_ARCHIVED) (OrganizationArchivedError org)) (\<lambda>_.
     andthen (reads_db (get_membership org user)) (\<lambda>existing.
     andthen (case existing of
         None \<Rightarrow> ret ()
       | Some m \<Rightarrow>
           if om_status m = MEMBER_ACTIVE \<or> om_status m = INVITED then raise (DuplicateMembershipError org user)
           else guard (om_status m \<noteq> MEMBER_SUSPENDED) (MembershipSuspendedError org user)) (\<lambda>_.
     andthen (auth_now env) (\<lambda>now.
     andthen (create_by env (Some actor) org_members org_members_update one_active_membership
       (organization_member.fields org user INVITED (Some actor) now None primary)) (\<lambda>m.
     andthen (org_audit (Some actor) ''organization_member_invited'' ''organization_member'' (row_id m)
       (''User '' @ user @ '' invited to organization '' @ org) [(''target_user_id'', user)] org) (\<lambda>_.
     ret m))))))))"

definition accept_invite :: "'r auth_env \<Rightarrow> uuid \<Rightarrow> uuid \<Rightarrow> uuid \<Rightarrow> ('r, organization_member) aprog" where
  "accept_invite env user org member_id =
     andthen (get_member_in_organization org member_id) (\<lambda>m.
     andthen (guard (om_user_id m = user) (OrganizationMembershipNotFoundError member_id)) (\<lambda>_.
     andthen (guard (om_status m = INVITED) (InvalidMembershipStatusTransitionError
       (''Membership '' @ member_id @ '' is not in an invited state and cannot be accepted''))) (\<lambda>_.
     andthen (auth_now env) (\<lambda>now.
     andthen (update_membership env m (\<lambda>r. r\<lparr>om_status := MEMBER_ACTIVE, om_joined_at := Some now, updated_by := Some user\<rparr>)) (\<lambda>updated.
     andthen (org_audit (Some user) ''organization_member_accepted'' ''organization_member'' (row_id updated)
       (''User '' @ user @ '' accepted invite to organization '' @ org) [] org) (\<lambda>_.
     ret updated))))))"

text \<open>The guard that \<open>remove_member\<close> and \<open>change_member_status\<close> share.\<close>

definition assert_not_last :: "uuid \<Rightarrow> organization_member \<Rightarrow> ('r, unit) aprog" where
  "assert_not_last org m =
     (if om_status m \<noteq> MEMBER_ACTIVE then ret ()
      else andthen (reads_db (count_active_members org)) (\<lambda>n. guard (\<not> n \<le> 1) (LastActiveMemberError org)))"

definition remove_member :: "'r auth_env \<Rightarrow> uuid \<Rightarrow> uuid \<Rightarrow> uuid \<Rightarrow> uuid option \<Rightarrow> ('r, organization_member) aprog" where
  "remove_member env actor org member_id requesting =
     andthen (org_get org False) (\<lambda>o'.
     andthen (enforce_tenant_access o' requesting) (\<lambda>_.
     andthen (get_member_in_organization org member_id) (\<lambda>m.
     andthen (guard (om_status m \<noteq> REMOVED) (InvalidMembershipStatusTransitionError
       (''Membership '' @ member_id @ '' has already been removed''))) (\<lambda>_.
     andthen (assert_not_last org m) (\<lambda>_.
     andthen (update_membership env m (\<lambda>r. r\<lparr>om_status := REMOVED, updated_by := Some actor\<rparr>)) (\<lambda>updated.
     andthen (org_audit (Some actor) ''organization_member_removed'' ''organization_member'' (row_id updated)
       (''Membership '' @ member_id @ '' removed from organization '' @ org) [(''target_user_id'', om_user_id m)] org) (\<lambda>_.
     ret updated)))))))"

definition change_member_status ::
  "'r auth_env \<Rightarrow> uuid \<Rightarrow> uuid \<Rightarrow> uuid \<Rightarrow> MembershipStatus \<Rightarrow> ('r, organization_member) aprog" where
  "change_member_status env actor org member_id new_status =
     andthen (get_member_in_organization org member_id) (\<lambda>m.
     andthen (if new_status = REMOVED then assert_not_last org m else ret ()) (\<lambda>_.
     andthen (update_membership env m (\<lambda>r. r\<lparr>om_status := new_status, updated_by := Some actor\<rparr>)) (\<lambda>updated.
     andthen (org_audit (Some actor) ''organization_member_status_changed'' ''organization_member'' (row_id updated)
       (''Membership '' @ member_id @ '' status changed to '' @ in_quotes (MembershipStatus_value new_status))
       [(''target_user_id'', om_user_id m)] org) (\<lambda>_.
     ret updated))))"

text \<open>\<open>scoping.enforce_target_organization\<close>, the guard of handlers that take the organization from the path.\<close>

definition enforce_target_organization :: "uuid \<Rightarrow> uuid option \<Rightarrow> ('r, unit) aprog" where
  "enforce_target_organization target requesting =
     (if requesting = None \<or> requesting = Some target then ret ()
      else andthen (org_get target False) (\<lambda>o'. guard (og_parent o' = requesting) CrossOrganizationAccessError))"

end
