(* ===== verification/OrganizationTree.thy ===== *)
theory OrganizationTree
  imports Organizations AuthRules
begin

section \<open>The tree of organizations\<close>

text \<open>
  Every history of organization requests keeps the tables well formed: identifiers and slugs are
  unique, parents exist, and only an MSP organization has children. The parent relation stays
  free of cycles as long as no chain of parents is as long as the walk that looks for a cycle.
\<close>

subsection \<open>The steps every method is made of\<close>

lemma ensures_update_unique [simp]:
  "ensures P (update_unique env get upd uniq inst data) = (\<lambda>db w.
     let now = auth_time_at env (aw_clock w); t = update_row now data inst (get db)
     in uniq t \<longrightarrow> P (assign now data (version inst) inst) (upd (\<lambda>_. t) db) w)"
  by (intro ext) (simp add: update_unique_def Let_def)

lemma ensures_create_by:
  "ensures P (create_by env actor get upd uniq columns) = (\<lambda>db w.
     let r = base_model.extend (new_base (auth_uuid_at env (aw_supply w)) (auth_time_at env (aw_clock w)) actor) columns;
         w' = w\<lparr>aw_supply := Suc (aw_supply w)\<rparr>
     in case create_row uniq r (get db) of Inl e \<Rightarrow> True | Inr t \<Rightarrow> P r (upd (\<lambda>_. t) db) w')"
  by (intro ext) (simp add: create_by_def Let_def split: sum.split)

lemma ensures_org_get [simp]:
  "ensures P (org_get i d) = (\<lambda>db w. case org_by_id d i db of None \<Rightarrow> True | Some o' \<Rightarrow> P o' db w)"
  by (simp add: org_get_def)

lemma ensures_tenant [simp]:
  "ensures P (enforce_tenant_access o' requesting) =
     (\<lambda>db w. (requesting = None \<or> requesting = Some (row_id o') \<or> requesting = og_parent o') \<longrightarrow> P () db w)"
  by (simp add: enforce_tenant_access_def)

lemma ensures_org_audit [simp]:
  "ensures P (org_audit actor action ty entity description metadata org) =
     (\<lambda>db w. P () (auth_audits_update (\<lambda>t. t @ [\<lparr>ae_actor_user_id = actor, ae_action = action, ae_entity_type = ty,
        ae_entity_id = Some entity, ae_description = description, ae_metadata = metadata, ae_organization_id = Some org,
        ae_location_id = None\<rparr>]) db) w)"
  by (simp add: org_audit_def)


subsection \<open>The requests\<close>

datatype org_call =
    CreateOrganization "uuid option" org_create
  | UpdateOrganization "uuid option" uuid "uuid option" org_patch
  | ArchiveOrganization "uuid option" uuid "uuid option"
  | SuspendOrganization "uuid option" uuid "uuid option"
  | ActivateOrganization "uuid option" uuid "uuid option"
  | SyncSubscriptionTier uuid "string option"
  | UpdateBranding uuid "uuid option" "uuid option" "(string \<times> string option) list"
  | InviteMember uuid uuid uuid "uuid option" bool
  | AcceptInvite uuid uuid uuid
  | RemoveMember uuid uuid uuid "uuid option"
  | ChangeMemberStatus uuid uuid uuid MembershipStatus

definition discard_result :: "('r, 'a) aprog \<Rightarrow> ('r, unit) aprog" where
  "discard_result m = andthen m (\<lambda>_. ret ())"

fun run_org :: "'r auth_env \<Rightarrow> org_call \<Rightarrow> ('r, unit) aprog" where
  "run_org env (CreateOrganization actor c) = discard_result (create_organization env actor c)"
| "run_org env (UpdateOrganization actor i requesting p) = discard_result (update_organization env actor i requesting p)"
| "run_org env (ArchiveOrganization actor i requesting) = discard_result (archive_organization env actor i requesting)"
| "run_org env (SuspendOrganization actor i requesting) = discard_result (suspend_organization env actor i requesting)"
| "run_org env (ActivateOrganization actor i requesting) = discard_result (activate_organization env actor i requesting)"
| "run_org env (SyncSubscriptionTier i tier) = discard_result (org_sync_subscription_tier env i tier)"
| "run_org env (UpdateBranding i actor requesting data) = discard_result (update_branding env i actor requesting data)"
| "run_org env (InviteMember actor i user requesting primary) = discard_result (invite_member env actor i user requesting primary)"
| "run_org env (AcceptInvite user i member) = discard_result (accept_invite env user i member)"
| "run_org env (RemoveMember actor i member requesting) = discard_result (remove_member env actor i member requesting)"
| "run_org env (ChangeMemberStatus actor i member status) = discard_result (change_member_status env actor i member status)"


subsection \<open>What a request does to the tree\<close>

definition parent_edges :: "organization_row list \<Rightarrow> (uuid \<times> uuid) set" where
  "parent_edges t =
     {(row_id r, row_id q) | r q. r \<in> set t \<and> q \<in> set t \<and> \<not> is_deleted r \<and> \<not> is_deleted q \<and> og_parent r = Some (row_id q)}"

definition parents_are_msp :: "organization_row list \<Rightarrow> bool" where
  "parents_are_msp t \<longleftrightarrow>
     (\<forall>r \<in> set t. \<forall>q \<in> set t. \<not> is_deleted r \<and> \<not> is_deleted q \<and> og_parent r = Some (row_id q) \<longrightarrow> org_is_msp q)"

definition tree_ok :: "organization_row list \<Rightarrow> bool" where
  "tree_ok t \<longleftrightarrow>
     distinct (map row_id t) \<and> unique_slugs t \<and> parents_are_msp t \<and>
     (\<forall>r \<in> set t. \<forall>p. og_parent r = Some p \<longrightarrow> p \<in> row_id ` set t)"

text \<open>The parent of organization \<open>x\<close> becomes \<open>p\<close>.\<close>

definition valid_parent :: "auth_db \<Rightarrow> uuid \<Rightarrow> uuid option \<Rightarrow> bool" where
  "valid_parent db p current \<longleftrightarrow>
     (\<exists>q. org_by_id False p db = Some q \<and> org_is_msp q) \<and>
     (\<forall>x. current = Some x \<longrightarrow> p \<noteq> x \<and> x \<notin> row_id ` set (org_parent_chain p MAX_HIERARCHY_DEPTH db))"

lemma ensures_valid_parent [simp]:
  "ensures P (assert_valid_parent p current) = (\<lambda>db w. valid_parent db p current \<longrightarrow> P () db w)"
  by (intro ext) (auto simp: assert_valid_parent_def valid_parent_def list_ex_iff image_iff split: option.splits)

text \<open>A row is replaced by one with the same identifier and fate, and a new parent or type only as
  far as the checks allowed.\<close>

definition reparented :: "auth_db \<Rightarrow> organization_row list \<Rightarrow> bool" where
  "reparented db t' \<longleftrightarrow>
     (\<exists>x f. unique_slugs t' \<and> t' = map (\<lambda>r. if row_id r = x then f r else r) (org_rows db) \<and>
        (\<forall>r. row_id (f r) = row_id r \<and> (is_deleted r \<longrightarrow> is_deleted (f r))) \<and>
        (\<forall>r. og_parent (f r) = og_parent r \<or> og_parent (f r) = None \<or>
           (\<exists>p. og_parent (f r) = Some p \<and> valid_parent db p (Some x))) \<and>
        (\<forall>r. row_id r = x \<and> org_is_msp r \<and> r \<in> set (org_rows db) \<and> \<not> is_deleted r \<longrightarrow> org_is_msp (f r) \<or> org_children x db = []))"

definition added :: "auth_db \<Rightarrow> organization_row list \<Rightarrow> bool" where
  "added db t' \<longleftrightarrow>
     (\<exists>r. t' = org_rows db @ [r] \<and> distinct (map row_id t') \<and> unique_slugs t' \<and>
        (\<forall>p. og_parent r = Some p \<longrightarrow> valid_parent db p None))"


lemma reparented_update:
  assumes "unique_slugs (update_row now data o' (org_rows db))"
    and "\<And>r. og_parent (data r) = og_parent r \<or> og_parent (data r) = None \<or>
          (\<exists>p. og_parent (data r) = Some p \<and> valid_parent db p (Some (row_id o')))"
    and "\<And>r. row_id r = row_id o' \<Longrightarrow> org_is_msp r \<Longrightarrow> r \<in> set (org_rows db) \<Longrightarrow> \<not> is_deleted r \<Longrightarrow>
          org_is_msp (data r) \<or> org_children (row_id o') db = []"
  shows "reparented db (update_row now data o' (org_rows db))"
  unfolding reparented_def
  by (rule exI [of _ "row_id o'"], rule exI [of _ "assign now data (version o')"])
     (use assms in \<open>auto simp: update_row_def assign_def org_is_msp_def\<close>)

lemma reparented_kept:
  "unique_slugs (update_row now data o' (org_rows db)) \<Longrightarrow> (\<And>r. og_parent (data r) = og_parent r) \<Longrightarrow>
   (\<And>r. og_org_type (data r) = og_org_type r) \<Longrightarrow> reparented db (update_row now data o' (org_rows db))"
  by (rule reparented_update) (simp_all add: org_is_msp_def)

definition tree_step :: "auth_db \<Rightarrow> auth_db \<Rightarrow> bool" where
  "tree_step db db' \<longleftrightarrow> org_rows db' = org_rows db \<or> reparented db (org_rows db') \<or> added db (org_rows db')"

lemma create_tree: "ensures (\<lambda>_ db' _. tree_step db db') (create_organization env actor c) db w"
  by (auto simp: create_organization_def Let_def ensures_create_by tree_step_def added_def create_row_def organization_row.defs
      base_model.defs new_base_def split: option.split sum.splits if_splits)

text \<open>What the checks of an update have established.\<close>

definition update_allowed :: "auth_db \<Rightarrow> uuid \<Rightarrow> org_patch \<Rightarrow> organization_row \<Rightarrow> bool" where
  "update_allowed db i p o' \<longleftrightarrow>
     org_by_id False i db = Some o' \<and> (\<forall>q. pa_parent p = Some (Some q) \<longrightarrow> valid_parent db q (Some (row_id o'))) \<and>
     (pa_org_type p = None \<or> \<not> org_is_msp o' \<or> pa_org_type p = Some MSP \<or> org_children (row_id o') db = [])"

lemma update_checked:
  "ensures (\<lambda>o' db' w'. db' = db \<and> w' = w \<and> update_allowed db i p o') (update_organization_check i requesting p) db w"
  unfolding update_organization_check_def check_new_slug_def check_new_type_def
  by (auto simp: update_allowed_def split: option.split)

lemma found_is_row:
  assumes "org_by_id False i db = Some o'" and "distinct (map row_id (org_rows db))" and "r \<in> set (org_rows db)" and "row_id r = row_id o'"
  shows "r = o'"
  using assms get_by_id_Some [of False i "org_rows db" o'] unfolding org_by_id_def by (metis distinct_map inj_onD)

lemma update_tree:
  assumes "distinct (map row_id (org_rows db))"
  shows "ensures (\<lambda>_ db' _. tree_step db db') (update_organization env actor i requesting p) db w"
proof -
  have "reparented db (update_row now (apply_org_patch p actor) o' (org_rows db))"
    if "update_allowed db i p o'" "unique_slugs (update_row now (apply_org_patch p actor) o' (org_rows db))" for o' now
    using that(2)
  proof (rule reparented_update)
    show "og_parent (apply_org_patch p actor r) = og_parent r \<or> og_parent (apply_org_patch p actor r) = None \<or>
        (\<exists>q. og_parent (apply_org_patch p actor r) = Some q \<and> valid_parent db q (Some (row_id o')))" for r
      using that(1) by (auto simp: update_allowed_def apply_org_patch_def given_def split: option.splits)
    show "org_is_msp (apply_org_patch p actor r) \<or> org_children (row_id o') db = []"
      if "row_id r = row_id o'" "org_is_msp r" "r \<in> set (org_rows db)" "\<not> is_deleted r" for r
      using that found_is_row [OF _ assms, of i o' r] \<open>update_allowed db i p o'\<close>
      by (auto simp: update_allowed_def apply_org_patch_def given_def org_is_msp_def split: option.splits)
  qed
  then show ?thesis
    unfolding update_organization_def ensures_andthen
    by (intro ensures_mono [OF update_checked])
       (auto simp: update_organization_write_def update_organization_row_def tree_step_def Let_def)
qed

lemma status_tree:
  "ensures (\<lambda>_ db' _. tree_step db db') (set_org_status env actor i requesting st action) db w"
  "ensures (\<lambda>_ db' _. tree_step db db') (org_sync_subscription_tier env i tier) db w"
  "ensures (\<lambda>_ db' _. tree_step db db') (update_branding env i actor requesting data) db w"
  unfolding set_org_status_def org_sync_subscription_tier_def update_branding_def update_organization_row_def Let_def
  by (auto simp: tree_step_def Let_def intro!: reparented_kept split: option.split sum.split)

lemma archive_tree: "ensures (\<lambda>_ db' _. tree_step db db') (archive_organization env actor i requesting) db w"
proof -
  have "reparented db (soft_delete later (assign now data v o') (update_row now data o' (org_rows db)))"
    if "unique_slugs (update_row now data o' (org_rows db))" "\<And>r. og_parent (data r) = og_parent r" "\<And>r. og_org_type (data r) = og_org_type r"
      "\<And>r. og_slug (data r) = og_slug r" for now later v data o'
  proof -
    let ?f = "\<lambda>r. mark_deleted later (assign now data (version o') r)"
    have shape: "soft_delete later (assign now data v o') (update_row now data o' (org_rows db)) =
        map (\<lambda>r. if row_id r = row_id o' then ?f r else r) (org_rows db)"
      by (simp add: soft_delete_def update_row_def)
    have "map og_slug (map (\<lambda>r. if row_id r = row_id o' then ?f r else r) (org_rows db)) = map og_slug (update_row now data o' (org_rows db))"
      by (simp add: update_row_def mark_deleted_def)
    with that(1) have "unique_slugs (map (\<lambda>r. if row_id r = row_id o' then ?f r else r) (org_rows db))" by (simp add: unique_slugs_def del: map_map)
    with that(2,3) show ?thesis
      unfolding reparented_def shape
      by (intro exI [of _ "row_id o'"] exI [of _ ?f]) (auto simp: assign_def mark_deleted_def org_is_msp_def)
  qed
  then show ?thesis
    by (auto simp: archive_organization_def update_organization_row_def tree_step_def Let_def split: option.split)
qed

lemma member_tree:
  "ensures (\<lambda>_ db' _. tree_step db db') (invite_member env user i user' requesting primary) db w"
  "ensures (\<lambda>_ db' _. tree_step db db') (accept_invite env user i member) db w"
  "ensures (\<lambda>_ db' _. tree_step db db') (remove_member env user i member requesting) db w"
  "ensures (\<lambda>_ db' _. tree_step db db') (change_member_status env user i member st') db w"
  unfolding invite_member_def accept_invite_def remove_member_def change_member_status_def get_member_in_organization_def
    assert_not_last_def update_membership_def
  by (auto simp: tree_step_def ensures_create_by Let_def split: option.split sum.split)

lemma run_tree:
  "distinct (map row_id (org_rows db)) \<Longrightarrow> ensures (\<lambda>_ db' _. tree_step db db') (run_org env call) db w"
  by (cases call)
     (simp_all add: discard_result_def suspend_organization_def activate_organization_def create_tree update_tree archive_tree status_tree
       member_tree)


subsection \<open>Well-formedness\<close>

lemma org_by_id_row: "org_by_id False p db = Some q \<Longrightarrow> q \<in> set (org_rows db) \<and> row_id q = p \<and> \<not> is_deleted q"
  unfolding org_by_id_def using get_by_id_Some by blast

lemma in_children: "r \<in> set (org_children x db) \<longleftrightarrow> r \<in> set (org_rows db) \<and> \<not> is_deleted r \<and> og_parent r = Some x"
  by (auto simp: org_children_def get_all_def)

lemma no_children:
  "org_children x db = [] \<Longrightarrow> r \<in> set (org_rows db) \<Longrightarrow> \<not> is_deleted r \<Longrightarrow> og_parent r \<noteq> Some x"
  using in_children [of r x db] by auto

lemma reparented_ok:
  assumes ok: "tree_ok (org_rows db)" and step: "reparented db t'"
  shows "tree_ok t'"
proof -
  let ?t = "org_rows db"
  from step obtain x f where slugs: "unique_slugs t'" and t': "t' = map (\<lambda>r. if row_id r = x then f r else r) ?t"
    and ids: "\<And>r. row_id (f r) = row_id r" "\<And>r. is_deleted r \<Longrightarrow> is_deleted (f r)"
    and parent: "\<And>r. og_parent (f r) = og_parent r \<or> og_parent (f r) = None \<or> (\<exists>p. og_parent (f r) = Some p \<and> valid_parent db p (Some x))"
    and kind: "\<And>r. row_id r = x \<Longrightarrow> org_is_msp r \<Longrightarrow> r \<in> set ?t \<Longrightarrow> \<not> is_deleted r \<Longrightarrow> org_is_msp (f r) \<or> org_children x db = []"
    unfolding reparented_def by blast
  have same_ids: "map row_id t' = map row_id ?t" by (simp add: t' ids)
  then have id_set: "row_id ` set t' = row_id ` set ?t" by (metis set_map)
  have origin: "\<exists>r0 \<in> set ?t. r = (if row_id r0 = x then f r0 else r0)" if "r \<in> set t'" for r using that by (auto simp: t')
  have valid: "\<exists>q \<in> set ?t. row_id q = p \<and> org_is_msp q \<and> \<not> is_deleted q \<and> p \<noteq> x" if "valid_parent db p (Some x)" for p
    using that org_by_id_row unfolding valid_parent_def by blast
  have "parents_are_msp t'"
    unfolding parents_are_msp_def
  proof (intro ballI impI)
    fix r q assume r: "r \<in> set t'" and q: "q \<in> set t'" and live: "\<not> is_deleted r \<and> \<not> is_deleted q \<and> og_parent r = Some (row_id q)"
    obtain r0 where r0: "r0 \<in> set ?t" "r = (if row_id r0 = x then f r0 else r0)" using origin [OF r] by blast
    obtain q0 where q0: "q0 \<in> set ?t" "q = (if row_id q0 = x then f q0 else q0)" using origin [OF q] by blast
    have qid: "row_id q0 = row_id q" and rlive: "\<not> is_deleted r0" and qlive: "\<not> is_deleted q0" using r0 q0 live ids by (auto split: if_splits)
    have uniq: "a = b" if "a \<in> set ?t" "b \<in> set ?t" "row_id a = row_id b" for a b
      using ok that unfolding tree_ok_def by (metis distinct_map inj_onD)
    consider (old) "og_parent r0 = Some (row_id q0)" | (new) "row_id r0 = x" "valid_parent db (row_id q0) (Some x)"
      using parent [of r0] r0(2) live qid by (auto split: if_splits)
    then show "org_is_msp q"
    proof cases
      case old
      then have msp: "org_is_msp q0" using ok r0(1) q0(1) rlive qlive by (auto simp: tree_ok_def parents_are_msp_def)
      show ?thesis
      proof (cases "row_id q0 = x")
        case True
        with old rlive r0(1) no_children [of x db r0] kind [OF True msp q0(1) qlive] q0(2) show ?thesis by auto
      qed (use msp q0(2) in simp)
    next
      case new
      from valid [OF new(2)] obtain q1 where "q1 \<in> set ?t" "row_id q1 = row_id q0" "org_is_msp q1" "row_id q0 \<noteq> x" by blast
      with uniq [of q1 q0] q0 show ?thesis by simp
    qed
  qed
  moreover have "p \<in> row_id ` set t'" if r: "r \<in> set t'" and p: "og_parent r = Some p" for r p
  proof -
    obtain r0 where "r0 \<in> set ?t" "r = (if row_id r0 = x then f r0 else r0)" using origin [OF r] by blast
    with p parent [of r0] valid ok show ?thesis unfolding id_set tree_ok_def by (fastforce split: if_splits)
  qed
  ultimately show ?thesis using ok slugs same_ids by (simp add: tree_ok_def)
qed

lemma added_ok:
  assumes ok: "tree_ok (org_rows db)" and step: "added db t'"
  shows "tree_ok t'"
proof -
  from step obtain r where t': "t' = org_rows db @ [r]" and uniq: "distinct (map row_id t')" "unique_slugs t'"
    and valid: "\<And>p. og_parent r = Some p \<Longrightarrow> valid_parent db p None" unfolding added_def by blast
  have parent: "\<exists>q \<in> set (org_rows db). row_id q = p \<and> org_is_msp q" if "og_parent r = Some p" for p
    using valid [OF that] org_by_id_row unfolding valid_parent_def by blast
  have "parents_are_msp t'"
    unfolding parents_are_msp_def
  proof (intro ballI impI)
    fix a q assume "a \<in> set t'" "q \<in> set t'" and live: "\<not> is_deleted a \<and> \<not> is_deleted q \<and> og_parent a = Some (row_id q)"
    moreover have "b = c" if "b \<in> set t'" "c \<in> set t'" "row_id b = row_id c" for b c
      using uniq(1) that by (metis distinct_map inj_onD)
    ultimately show "org_is_msp q"
      using ok parent t' uniq(1) unfolding tree_ok_def parents_are_msp_def by (auto; metis imageI)
  qed
  with ok parent uniq t' show ?thesis unfolding tree_ok_def by (auto; metis imageI)
qed

text \<open>Organizations never disappear, and an archived one stays archived.\<close>

definition keeps_organizations :: "auth_db \<Rightarrow> auth_db \<Rightarrow> bool" where
  "keeps_organizations db db' \<longleftrightarrow>
     (\<forall>r \<in> set (org_rows db). \<exists>r' \<in> set (org_rows db'). row_id r' = row_id r \<and> (is_deleted r \<longrightarrow> is_deleted r'))"

lemma tree_step_ok: "tree_ok (org_rows db) \<Longrightarrow> tree_step db db' \<Longrightarrow> tree_ok (org_rows db')"
  unfolding tree_step_def by (elim disjE) (simp, erule (1) reparented_ok, erule (1) added_ok)

lemma keeps_refl: "org_rows db' = org_rows db \<Longrightarrow> keeps_organizations db db'"
  unfolding keeps_organizations_def by auto

lemma keeps_trans:
  assumes "keeps_organizations a b" and "keeps_organizations b c"
  shows "keeps_organizations a c"
  unfolding keeps_organizations_def
proof
  fix r assume "r \<in> set (org_rows a)"
  then obtain r1 where "r1 \<in> set (org_rows b)" "row_id r1 = row_id r" "is_deleted r \<longrightarrow> is_deleted r1"
    using assms(1) by (auto simp: keeps_organizations_def)
  moreover from this(1) obtain r2 where "r2 \<in> set (org_rows c)" "row_id r2 = row_id r1" "is_deleted r1 \<longrightarrow> is_deleted r2"
    using assms(2) by (auto simp: keeps_organizations_def)
  ultimately show "\<exists>r' \<in> set (org_rows c). row_id r' = row_id r \<and> (is_deleted r \<longrightarrow> is_deleted r')" by auto
qed

lemma tree_step_keeps:
  assumes "tree_step db db'"
  shows "keeps_organizations db db'"
proof -
  consider (same) "org_rows db' = org_rows db" | (move) "reparented db (org_rows db')" | (add) "added db (org_rows db')"
    using assms by (auto simp: tree_step_def)
  then show ?thesis
  proof cases
    case move
    then obtain x f where t': "org_rows db' = map (\<lambda>r. if row_id r = x then f r else r) (org_rows db)"
      and f: "\<And>r. row_id (f r) = row_id r \<and> (is_deleted r \<longrightarrow> is_deleted (f r))" unfolding reparented_def by blast
    show ?thesis unfolding keeps_organizations_def t'
    proof
      fix r assume "r \<in> set (org_rows db)"
      then have "(if row_id r = x then f r else r) \<in> set (map (\<lambda>r. if row_id r = x then f r else r) (org_rows db))" by simp
      with f [of r] show "\<exists>r' \<in> set (map (\<lambda>r. if row_id r = x then f r else r) (org_rows db)).
        row_id r' = row_id r \<and> (is_deleted r \<longrightarrow> is_deleted r')" by (intro bexI) auto
    qed
  qed (auto simp: keeps_organizations_def added_def)
qed

lemma run_tree_step:
  assumes "tree_ok (org_rows db)" and "run_org env call (db, x) = (Inr v, (db', x'))"
  shows "tree_step db db'"
proof -
  have "distinct (map row_id (org_rows db))" using assms(1) by (simp add: tree_ok_def)
  from ensuresD [OF run_tree [OF this] assms(2)] show ?thesis .
qed

interpretation org_requests: request_contract "run_org env" "\<lambda>db. tree_ok (org_rows db)" keeps_organizations for env
proof
  fix c and db db' :: auth_db and x x' :: "'a auth_world" and v
  assume "run_org env c (db, x) = (Inr v, (db', x'))" "tree_ok (org_rows db)"
  then show "tree_ok (org_rows db')" "keeps_organizations db db'"
    using run_tree_step tree_step_ok tree_step_keeps by blast+
next
  show "keeps_organizations db db" for db by (rule keeps_refl) simp
  show "keeps_organizations a b \<Longrightarrow> keeps_organizations b c \<Longrightarrow> keeps_organizations a c" for a b c by (rule keeps_trans)
qed

text \<open>C19. After every history of organization and membership requests, of any callers, each in its own
  session: identifiers and slugs are unique, every parent exists, only MSP organizations have
  children, and no organization has disappeared or come back from the archive.\<close>

theorem organization_tree:
  assumes "tree_ok (org_rows db)"
  shows "tree_ok (org_rows (fst (run_requests (run_org env) calls (db, w)))) \<and>
    keeps_organizations db (fst (run_requests (run_org env) calls (db, w)))"
  using org_requests.history [OF assms] .


subsection \<open>No cycles\<close>

text \<open>No chain of parents is as long as the walk of \<open>get_parent_chain\<close>.\<close>

definition shallow :: "auth_db \<Rightarrow> bool" where
  "shallow db \<longleftrightarrow> (\<forall>r \<in> set (org_rows db). length (org_parent_chain (row_id r) MAX_HIERARCHY_DEPTH db) < MAX_HIERARCHY_DEPTH)"

lemma edge_parent:
  assumes "distinct (map row_id (org_rows db))" and "cur \<in> set (org_rows db)" and "(row_id cur, p) \<in> parent_edges (org_rows db)"
  shows "og_parent cur = Some p \<and> (\<exists>q. org_by_id False p db = Some q \<and> row_id q = p \<and> q \<in> set (org_rows db))"
proof -
  from assms(3) obtain r q where rq: "r \<in> set (org_rows db)" "q \<in> set (org_rows db)" "row_id r = row_id cur" "row_id q = p"
    "\<not> is_deleted q" "og_parent r = Some p" by (auto simp: parent_edges_def)
  have "r = cur" using rq(1,3) assms(1,2) by (metis distinct_map inj_onD)
  moreover have "org_by_id False p db = Some q" unfolding org_by_id_def using rq(2,4,5) assms(1) by (auto intro: get_by_id_I)
  ultimately show ?thesis using rq by auto
qed

text \<open>A walk that ends before its steps are used up has met every ancestor.\<close>

lemma walk_complete:
  assumes "distinct (map row_id (org_rows db))" and "acyclic (parent_edges (org_rows db))"
    and "cur \<in> set (org_rows db)" and "(row_id cur, a) \<in> (parent_edges (org_rows db))\<^sup>+"
    and "\<forall>s \<in> set seen. (s, row_id cur) \<in> (parent_edges (org_rows db))\<^sup>*"
    and "length (org_parent_walk db n seen cur) < n"
  shows "\<exists>q \<in> set (org_parent_walk db n seen cur). row_id q = a"
  using assms(3-6)
proof (induction n arbitrary: seen cur)
  case (Suc n)
  let ?E = "parent_edges (org_rows db)"
  from Suc.prems(2) obtain p where p: "(row_id cur, p) \<in> ?E" "(p, a) \<in> ?E\<^sup>*" by (meson tranclD)
  from edge_parent [OF assms(1) Suc.prems(1) p(1)] obtain q where q: "og_parent cur = Some p" "org_by_id False p db = Some q"
    "row_id q = p" "q \<in> set (org_rows db)" by blast
  have fresh: "row_id q \<notin> set seen"
  proof
    assume "row_id q \<in> set seen"
    then have "(p, row_id cur) \<in> ?E\<^sup>*" using Suc.prems(3) q(3) by simp
    then have "(p, p) \<in> ?E\<^sup>+" using p(1) by (rule rtrancl_into_trancl1)
    then show False using assms(2) by (auto simp: acyclic_def)
  qed
  show ?case
  proof (cases "a = p")
    case True
    then show ?thesis using q fresh by auto
  next
    case False
    then have "(row_id q, a) \<in> ?E\<^sup>+" using p(2) q(3) by (metis rtranclD)
    moreover have "\<forall>s \<in> set (row_id q # seen). (s, row_id q) \<in> ?E\<^sup>*"
      using Suc.prems(3) p(1) q(3) by (auto intro: rtrancl_into_rtrancl)
    moreover have "length (org_parent_walk db n (row_id q # seen) q) < n" using Suc.prems(4) q fresh by simp
    ultimately show ?thesis using Suc.IH [OF q(4), of "row_id q # seen"] q fresh by auto
  qed
qed simp

lemma valid_parent_acyclic:
  assumes "tree_ok (org_rows db)" and "acyclic (parent_edges (org_rows db))" and "shallow db" and "valid_parent db p (Some x)"
  shows "acyclic (insert (x, p) (parent_edges (org_rows db)))"
proof -
  let ?E = "parent_edges (org_rows db)"
  from assms(4) obtain q where q: "org_by_id False p db = Some q" and "p \<noteq> x"
    and chain: "x \<notin> row_id ` set (org_parent_chain p MAX_HIERARCHY_DEPTH db)" by (auto simp: valid_parent_def)
  note row = org_by_id_row [OF q]
  have "(p, x) \<notin> ?E\<^sup>*"
  proof
    assume "(p, x) \<in> ?E\<^sup>*"
    then have reach: "(row_id q, x) \<in> ?E\<^sup>+" using \<open>p \<noteq> x\<close> row by (metis rtranclD)
    have "length (org_parent_walk db MAX_HIERARCHY_DEPTH [p] q) < MAX_HIERARCHY_DEPTH"
      using assms(3) row q by (force simp: shallow_def org_parent_chain_def)
    then have "\<exists>a \<in> set (org_parent_walk db MAX_HIERARCHY_DEPTH [p] q). row_id a = x"
      using assms(1) row by (intro walk_complete [OF _ assms(2) _ reach]) (auto simp: tree_ok_def)
    with chain q show False by (auto simp: org_parent_chain_def)
  qed
  with assms(2) show ?thesis by (simp add: acyclic_insert)
qed

lemma parent_edgesI:
  "r \<in> set t \<Longrightarrow> q \<in> set t \<Longrightarrow> \<not> is_deleted r \<Longrightarrow> \<not> is_deleted q \<Longrightarrow> og_parent r = Some (row_id q) \<Longrightarrow>
   (row_id r, row_id q) \<in> parent_edges t"
  by (auto simp: parent_edges_def)

lemma reparented_edges:
  assumes "tree_ok (org_rows db)" and "reparented db t'"
  shows "parent_edges t' \<subseteq> parent_edges (org_rows db) \<or>
    (\<exists>x p. valid_parent db p (Some x) \<and> parent_edges t' \<subseteq> insert (x, p) (parent_edges (org_rows db)))"
proof -
  let ?t = "org_rows db"
  from assms(2) obtain x f where t': "t' = map (\<lambda>r. if row_id r = x then f r else r) ?t"
    and f: "\<And>r. row_id (f r) = row_id r" "\<And>r. is_deleted r \<Longrightarrow> is_deleted (f r)"
    and parent: "\<And>r. og_parent (f r) = og_parent r \<or> og_parent (f r) = None \<or> (\<exists>p. og_parent (f r) = Some p \<and> valid_parent db p (Some x))"
    unfolding reparented_def by blast
  have edge: "(a, b) \<in> parent_edges ?t \<or> a = x \<and> (\<exists>r \<in> set ?t. row_id r = x \<and> og_parent (f r) = Some b \<and> valid_parent db b (Some x))"
    if "(a, b) \<in> parent_edges t'" for a b
  proof -
    from that obtain r' q' where e: "r' \<in> set t'" "q' \<in> set t'" "\<not> is_deleted r'" "\<not> is_deleted q'" "og_parent r' = Some b"
      "row_id r' = a" "row_id q' = b" by (auto simp: parent_edges_def)
    from e(1) obtain r where r: "r \<in> set ?t" "r' = (if row_id r = x then f r else r)" by (auto simp: t')
    from e(2) obtain q where q: "q \<in> set ?t" "q' = (if row_id q = x then f q else q)" by (auto simp: t')
    have "row_id r = a" "row_id q = b" "\<not> is_deleted r" "\<not> is_deleted q" using r(2) q(2) e f by (auto split: if_splits)
    note rows = this
    show ?thesis
    proof (cases "og_parent r = Some b")
      case True
      with rows r(1) q(1) show ?thesis by (auto intro: parent_edgesI)
    next
      case False
      then have "row_id r = x" "og_parent (f r) = Some b" using r(2) e(5) by (auto split: if_splits)
      with False parent [of r] rows r(1) show ?thesis by auto
    qed
  qed
  show ?thesis
  proof (cases "\<exists>r b. r \<in> set ?t \<and> row_id r = x \<and> og_parent (f r) = Some b \<and> valid_parent db b (Some x)")
    case True
    then obtain r b where r: "r \<in> set ?t" "row_id r = x" "og_parent (f r) = Some b" "valid_parent db b (Some x)" by blast
    have "r' = r" if "r' \<in> set ?t" "row_id r' = x" for r'
      using that r(1,2) assms(1) unfolding tree_ok_def by (metis distinct_map inj_onD)
    with edge r have "parent_edges t' \<subseteq> insert (x, b) (parent_edges ?t)" by fastforce
    with r(4) show ?thesis by blast
  next
    case False
    with edge have "parent_edges t' \<subseteq> parent_edges ?t" by (intro subrelI) blast
    then show ?thesis ..
  qed
qed

lemma tree_step_acyclic:
  assumes ok: "tree_ok (org_rows db)" and acyclic: "acyclic (parent_edges (org_rows db))" and "shallow db" and "tree_step db db'"
  shows "acyclic (parent_edges (org_rows db'))"
proof -
  let ?E = "parent_edges (org_rows db)"
  consider (same) "org_rows db' = org_rows db" | (move) "reparented db (org_rows db')" | (add) "added db (org_rows db')"
    using assms(4) by (auto simp: tree_step_def)
  then show ?thesis
  proof cases
    case same
    then show ?thesis using acyclic by simp
  next
    case move
    from reparented_edges [OF ok move] show ?thesis
      using acyclic_subset acyclic valid_parent_acyclic [OF ok acyclic assms(3)] by metis
  next
    case add
    then obtain r where t': "org_rows db' = org_rows db @ [r]" and ids: "distinct (map row_id (org_rows db @ [r]))"
      and valid: "\<And>p. og_parent r = Some p \<Longrightarrow> valid_parent db p None" unfolding added_def by metis
    have new: "row_id r \<notin> row_id ` set (org_rows db)" using ids by simp
    have sub: "parent_edges (org_rows db') \<subseteq> {(row_id r, p) | p. og_parent r = Some p} \<union> ?E"
      using ok new unfolding t' parent_edges_def tree_ok_def by auto
    show ?thesis
    proof (cases "og_parent r")
      case None
      with sub acyclic show ?thesis by (auto intro: acyclic_subset)
    next
      case (Some p)
      from valid [OF Some] obtain q where "org_by_id False p db = Some q" by (auto simp: valid_parent_def)
      from org_by_id_row [OF this] have p: "p \<in> row_id ` set (org_rows db)" by auto
      have "?E \<subseteq> row_id ` set (org_rows db) \<times> row_id ` set (org_rows db)" by (auto simp: parent_edges_def)
      then have "?E\<^sup>+ \<subseteq> row_id ` set (org_rows db) \<times> row_id ` set (org_rows db)" by (rule trancl_subset_Sigma)
      moreover have "p \<noteq> row_id r" using p new by metis
      ultimately have "(p, row_id r) \<notin> ?E\<^sup>*" using new by (blast dest: rtranclD)
      with acyclic have "acyclic (insert (row_id r, p) ?E)" by (simp add: acyclic_insert)
      moreover have "parent_edges (org_rows db') \<subseteq> insert (row_id r, p) ?E" using sub Some by auto
      ultimately show ?thesis by (rule acyclic_subset)
    qed
  qed
qed

text \<open>The parents stay shallow along a history of requests.\<close>

fun shallow_along :: "'r auth_env \<Rightarrow> org_call list \<Rightarrow> auth_db \<times> 'r auth_world \<Rightarrow> bool" where
  "shallow_along env [] s = True"
| "shallow_along env (c # cs) s =
     (shallow (fst s) \<and> shallow_along env cs (snd (with_db_session (run_org env c) s)))"

lemma request_acyclic:
  assumes "tree_ok (org_rows db)" and "acyclic (parent_edges (org_rows db))" and "shallow db"
  shows "acyclic (parent_edges (org_rows (fst (snd (with_db_session (run_org env c) (db, w))))))"
proof -
  obtain r db' w' where r: "run_org env c (db, w) = (r, (db', w'))" by (metis prod.exhaust)
  show ?thesis
  proof (cases r)
    case (Inr v)
    with r have "run_org env c (db, w) = (Inr v, (db', w'))" by simp
    from tree_step_acyclic [OF assms run_tree_step [OF assms(1) this]] r Inr show ?thesis
      by (simp add: with_db_session_def)
  qed (use assms(2) r in \<open>simp add: with_db_session_def\<close>)
qed

text \<open>C21. No history of requests that are handled one after the other closes a cycle of parents, as long
  as no chain of parents reaches the 50 steps after which the walk of the cycle check gives up.\<close>

theorem hierarchy_acyclic:
  assumes "tree_ok (org_rows db)" and "acyclic (parent_edges (org_rows db))" and "shallow_along env calls (db, w)"
  shows "acyclic (parent_edges (org_rows (fst (run_requests (run_org env) calls (db, w)))))"
  using assms
proof (induction calls arbitrary: db w)
  case (Cons c cs)
  obtain db' w' where s: "snd (with_db_session (run_org env c) (db, w)) = (db', w')" by (metis prod.exhaust)
  from Cons.prems(3) s have along: "shallow db" "shallow_along env cs (db', w')" by simp_all
  have "tree_ok (org_rows db')" using org_requests.request_step(1) [OF Cons.prems(1), of env c w] s by simp
  moreover have "acyclic (parent_edges (org_rows db'))"
    using request_acyclic [OF Cons.prems(1,2) along(1), of env c w] s by simp
  ultimately show ?case using Cons.IH along(2) s by simp
qed simp

end
