(* ===== verification/OrganizationGaps.thy ===== *)
theory OrganizationGaps
  imports OrganizationTree Login
begin

section \<open>Where the rules on organizations end\<close>

text \<open>
  A small platform of two managed-service providers, on which the rules of \<open>OrganizationTree\<close> are
  tried; the guard on the last active member, and the request that goes around it; and two
  updates, each checked before the other one is written, that make each organization the parent
  of the other.
\<close>

subsection \<open>A small platform\<close>

definition sample_msp :: "uuid \<Rightarrow> uuid option \<Rightarrow> organization_row" where
  "sample_msp i parent =
     base_model.extend (new_base i 0 None)
       (organization_row.fields i i None MSP ORG_ACTIVE parent (i @ ''@example.com'') None ''UTC'' ''en''
          \<lparr>os_branding = None, os_other = []\<rparr> None)"

definition sample_member :: "uuid \<Rightarrow> uuid \<Rightarrow> organization_member" where
  "sample_member org user =
     base_model.extend (new_base (org @ user) 0 None) (organization_member.fields org user MEMBER_ACTIVE None 0 (Some 0) False)"

definition sample_platform :: auth_db where
  "sample_platform =
     sample_auth_db\<lparr>org_rows := [sample_msp ''north'' None, sample_msp ''south'' None], org_members := [sample_member ''north'' ''alice'']\<rparr>"

definition no_patch :: org_patch where
  "no_patch = org_patch.make None None None None None None None None None None None"

definition set_parent :: "uuid \<Rightarrow> org_patch" where
  "set_parent p = no_patch\<lparr>pa_parent := Some (Some p)\<rparr>"

lemma sample_platform_ok: "tree_ok (org_rows sample_platform)"
  by (auto simp: tree_ok_def unique_slugs_def parents_are_msp_def org_is_msp_def sample_platform_def sample_msp_def
      organization_row.defs base_model.defs new_base_def)

theorem organization_tree_witness:
  "tree_ok (org_rows (fst (run_requests (run_org sample_auth_env)
     [UpdateOrganization None ''south'' None (set_parent ''north''), ArchiveOrganization None ''north'' None] (sample_platform, sample_auth_world))))"
  using organization_tree [OF sample_platform_ok, of sample_auth_env
    "[UpdateOrganization None ''south'' None (set_parent ''north''), ArchiveOrganization None ''north'' None]" sample_auth_world] by simp

theorem hierarchy_acyclic_witness:
  "acyclic (parent_edges (org_rows (fst (run_requests (run_org sample_auth_env)
     [UpdateOrganization None ''south'' None (set_parent ''north''), UpdateOrganization None ''north'' None (set_parent ''south'')]
     (sample_platform, sample_auth_world)))))"
proof -
  have roots: "parent_edges (org_rows sample_platform) = {}"
    by (auto simp: parent_edges_def sample_platform_def sample_msp_def organization_row.defs base_model.defs new_base_def)
  have along: "shallow_along sample_auth_env
      [UpdateOrganization None ''south'' None (set_parent ''north''), UpdateOrganization None ''north'' None (set_parent ''south'')]
      (sample_platform, sample_auth_world)" by code_simp
  show ?thesis by (rule hierarchy_acyclic [OF sample_platform_ok _ along]) (simp add: roots acyclic_def)
qed


subsection \<open>The last active member\<close>

lemma count_update:
  assumes "distinct (map row_id t)" and "m \<in> set t" and "\<not> is_deleted m" and "P m"
    and "\<And>r. row_id r = row_id m \<Longrightarrow> \<not> P (assign now data (version m) r)"
  shows "Suc (count_rows P False (update_row now data m t)) = count_rows P False t"
  using assms
proof (induction t)
  case (Cons r t)
  have other: "update_row now data m t = t" if "row_id m \<notin> row_id ` set t"
    unfolding update_row_def by (rule map_idI) (use that in \<open>force simp: image_iff\<close>)
  show ?case
  proof (cases "m = r")
    case True
    then have "row_id m \<notin> row_id ` set t" using Cons.prems(1) by simp
    from other [OF this] True Cons.prems(3,4) Cons.prems(5) [of r] show ?thesis
      by (simp add: count_rows_def update_row_def base_select_def)
  next
    case False
    then have "m \<in> set t" "row_id r \<noteq> row_id m" using Cons.prems(1,2) by auto
    with Cons show ?thesis by (auto simp: count_rows_def update_row_def base_select_def)
  qed
qed simp

lemma count_active_audit [simp]: "count_active_members org (auth_audits_update f db) = count_active_members org db"
  by (simp add: count_active_members_def)

lemma count_unchanged:
  assumes "distinct (map row_id t)" and "get_by_id False i t = Some m" and "\<not> P m" and "\<And>r. \<not> P (assign now data (version m) r)"
  shows "count_rows P False (update_row now data m t) = count_rows P False t"
proof -
  have "m \<in> set t" using get_by_id_Some [OF assms(2)] by simp
  then have "r = m" if "r \<in> set t" "row_id r = row_id m" for r using that assms(1) by (metis distinct_map inj_onD)
  then have "map (\<lambda>r. \<not> is_deleted r \<and> P r) (update_row now data m t) = map (\<lambda>r. \<not> is_deleted r \<and> P r) t"
    using assms(3,4) by (auto simp: update_row_def)
  then have "length (filter id (map (\<lambda>r. \<not> is_deleted r \<and> P r) (update_row now data m t))) =
      length (filter id (map (\<lambda>r. \<not> is_deleted r \<and> P r) t))" by simp
  then show ?thesis by (simp add: count_rows_def base_select_def filter_map comp_def conj_commute)
qed

lemma deactivation_counts:
  assumes "get_membership_by_id i db = Some m" and "om_status m = MEMBER_ACTIVE" and "om_organization_id m = org"
    and "distinct (map row_id (org_members db))" and "status \<noteq> MEMBER_ACTIVE"
  shows "Suc (count_active_members org (org_members_update
     (\<lambda>_. update_row now (\<lambda>r. r\<lparr>om_status := status, updated_by := actor\<rparr>) m (org_members db)) db')) = count_active_members org db"
  using assms get_by_id_Some [of False i "org_members db" m] unfolding count_active_members_def get_membership_by_id_def
  by (auto intro!: count_update simp: assign_def)

lemma deactivation_unique:
  assumes "one_active_membership t" and "status \<noteq> MEMBER_ACTIVE"
  shows "one_active_membership (update_row now (\<lambda>r. r\<lparr>om_status := status, updated_by := actor\<rparr>) m t)"
proof -
  let ?pair = "\<lambda>m. (om_organization_id m, om_user_id m)" and ?active = "filter (\<lambda>m. om_status m = MEMBER_ACTIVE)"
  have "map ?pair (?active (update_row now (\<lambda>r. r\<lparr>om_status := status, updated_by := actor\<rparr>) m t)) =
      map ?pair (filter (\<lambda>r. row_id r \<noteq> row_id m) (?active t))"
    using assms(2) by (induction t) (auto simp: update_row_def assign_def)
  moreover have "distinct (map ?pair (filter (\<lambda>r. row_id r \<noteq> row_id m) (?active t)))"
    by (rule distinct_map_filter) (use assms(1) in \<open>simp add: one_active_membership_def\<close>)
  ultimately show ?thesis unfolding one_active_membership_def by simp
qed

text \<open>\<open>remove_member\<close> leaves an organization that has an active member with one.\<close>

theorem active_member_remains:
  assumes "distinct (map row_id (org_members db))" and "0 < count_active_members org db"
    and "remove_member env actor org i requesting (db, w) = (Inr m', (db', w'))"
  shows "0 < count_active_members org db'"
proof -
  let ?u = "\<lambda>now m. org_members_update (\<lambda>_. update_row now (\<lambda>r. r\<lparr>om_status := REMOVED, updated_by := Some actor\<rparr>) m (org_members db))"
  have idle: "count_active_members org (?u now m db1) = count_active_members org db"
    if "get_membership_by_id i db = Some m" "om_status m \<noteq> MEMBER_ACTIVE" for now m db1
    using that assms(1) unfolding count_active_members_def get_membership_by_id_def
    by (simp, intro count_unchanged) (simp_all add: assign_def)
  have left: "0 < count_active_members org (?u now m db1)"
    if "get_membership_by_id i db = Some m" "om_organization_id m = org" "om_status m = MEMBER_ACTIVE \<longrightarrow> \<not> count_active_members org db \<le> 1"
    for now m db1
    using that idle [OF that(1)] deactivation_counts [OF that(1) _ that(2) assms(1), of REMOVED now "Some actor" db1] assms(2)
    by (cases "om_status m = MEMBER_ACTIVE") auto
  have "ensures (\<lambda>_ db' _. 0 < count_active_members org db') (remove_member env actor org i requesting) db w"
    using left
    by (auto simp: remove_member_def get_member_in_organization_def assert_not_last_def update_membership_def Let_def split: option.split)
  from ensuresD [OF this assms(3)] show ?thesis .
qed

text \<open>\<open>change_member_status\<close> only has that guard for the status \<open>REMOVED\<close>: suspending the last active member
  succeeds, and the organization is left with no active member.\<close>

theorem last_member_suspended:
  assumes "get_membership_by_id i db = Some m" and "om_organization_id m = org" and "om_status m = MEMBER_ACTIVE"
    and "count_active_members org db = 1" and "distinct (map row_id (org_members db))" and "one_active_membership (org_members db)"
  shows "\<exists>m' db' w'. change_member_status env actor org i MEMBER_SUSPENDED (db, w) = (Inr m', (db', w')) \<and>
    count_active_members org db' = 0"
proof -
  let ?u = "\<lambda>now. update_row now (\<lambda>r. r\<lparr>om_status := MEMBER_SUSPENDED, updated_by := Some actor\<rparr>) m (org_members db)"
  have "count_active_members org (org_members_update (\<lambda>_. ?u now) db) = 0" for now
    using deactivation_counts [OF assms(1,3,2,5), of MEMBER_SUSPENDED now "Some actor" db] assms(4) by simp
  moreover have "one_active_membership (?u now)" for now by (rule deactivation_unique [OF assms(6)]) simp
  ultimately have "yields (\<lambda>_ db' _. count_active_members org db' = 0) (change_member_status env actor org i MEMBER_SUSPENDED) db w"
    using assms(1,2)
    by (simp add: change_member_status_def get_member_in_organization_def update_membership_def update_unique_def org_audit_def Let_def)
  then show ?thesis by (auto simp: yields_def)
qed

theorem last_member_suspended_witness:
  "\<exists>m' db' w'. change_member_status sample_auth_env ''root'' ''north'' ''northalice'' MEMBER_SUSPENDED (sample_platform, sample_auth_world) =
     (Inr m', (db', w')) \<and> count_active_members ''north'' db' = 0"
proof -
  have member: "get_membership_by_id ''northalice'' sample_platform = Some (sample_member ''north'' ''alice'')"
    and "om_organization_id (sample_member ''north'' ''alice'') = ''north''" "om_status (sample_member ''north'' ''alice'') = MEMBER_ACTIVE"
    "count_active_members ''north'' sample_platform = 1" "distinct (map row_id (org_members sample_platform))"
    "one_active_membership (org_members sample_platform)" by code_simp+
  from last_member_suspended [OF this] show ?thesis .
qed

definition crowded_platform :: auth_db where
  "crowded_platform = sample_platform\<lparr>org_members := [sample_member ''north'' ''alice'', sample_member ''north'' ''bob'']\<rparr>"

theorem active_member_remains_witness:
  "case remove_member sample_auth_env ''root'' ''north'' ''northalice'' None (crowded_platform, sample_auth_world) of
     (Inl e, s) \<Rightarrow> False | (Inr m', (db', w')) \<Rightarrow> 0 < count_active_members ''north'' db'"
proof -
  have returns: "\<not> isl (fst (remove_member sample_auth_env ''root'' ''north'' ''northalice'' None (crowded_platform, sample_auth_world)))" by code_simp
  have members: "distinct (map row_id (org_members crowded_platform))" "0 < count_active_members ''north'' crowded_platform" by code_simp+
  obtain r db' w' where run: "remove_member sample_auth_env ''root'' ''north'' ''northalice'' None (crowded_platform, sample_auth_world) = (r, (db', w'))"
    by (metis prod.exhaust)
  with returns obtain m' where "r = Inr m'" by (cases r) auto
  with run active_member_remains [OF members] show ?thesis by simp
qed


subsection \<open>Two parents at the same time\<close>

text \<open>Two updates whose transactions overlap: each is checked on the tables as they were before the other one
  was written.\<close>

definition crossed_updates ::
  "'r auth_env \<Rightarrow> (uuid option \<times> uuid \<times> uuid option \<times> org_patch) \<Rightarrow> (uuid option \<times> uuid \<times> uuid option \<times> org_patch) \<Rightarrow> ('r, unit) aprog" where
  "crossed_updates env first second =
     (case (first, second) of ((actor1, i, requesting1, p), (actor2, j, requesting2, q)) \<Rightarrow>
        andthen (update_organization_check i requesting1 p) (\<lambda>a.
        andthen (update_organization_check j requesting2 q) (\<lambda>b.
        andthen (update_organization_write env actor1 p a) (\<lambda>_.
        andthen (update_organization_write env actor2 q b) (\<lambda>_. ret ())))))"

lemma update_parent_slugs: "unique_slugs t \<Longrightarrow> unique_slugs (update_row now (apply_org_patch (set_parent p) actor) o' t)"
proof -
  have "map og_slug (update_row now (apply_org_patch (set_parent p) actor) o' t) = map og_slug t"
    by (simp add: update_row_def assign_def apply_org_patch_def set_parent_def no_patch_def org_patch.defs given_def)
  then show "unique_slugs t \<Longrightarrow> ?thesis" by (simp add: unique_slugs_def)
qed

lemma check_parent:
  "yields P (update_organization_check i None (set_parent p)) db w \<longleftrightarrow>
     (\<exists>o'. org_by_id False i db = Some o' \<and> og_status o' \<noteq> ORG_ARCHIVED \<and> valid_parent db p (Some (row_id o')) \<and> P o' db w)"
  by (auto simp: update_organization_check_def org_get_def enforce_tenant_access_def check_new_slug_def check_new_type_def set_parent_def
      no_patch_def org_patch.defs assert_valid_parent_def valid_parent_def list_ex_iff image_iff split: option.splits)

text \<open>Two administrators who move each of two unrelated providers under the other one: when the checks of
  both requests run before the writes, both requests return and each organization is the
  parent of the other, a cycle that the check exists to prevent.\<close>

theorem crossed_parents:
  assumes "org_by_id False i db = Some a" and "org_by_id False j db = Some b" and "i \<noteq> j"
    and "valid_parent db j (Some i)" and "valid_parent db i (Some j)"
    and "og_status a \<noteq> ORG_ARCHIVED" and "og_status b \<noteq> ORG_ARCHIVED" and "tree_ok (org_rows db)"
  shows "\<exists>db' w'. crossed_updates env (actor1, i, None, set_parent j) (actor2, j, None, set_parent i) (db, w) = (Inr (), (db', w')) \<and>
    (i, j) \<in> parent_edges (org_rows db') \<and> (j, i) \<in> parent_edges (org_rows db')"
proof -
  note row_a = org_by_id_row [OF assms(1)] and row_b = org_by_id_row [OF assms(2)]
  let ?now = "auth_time_at env (aw_clock w)" and ?a = "apply_org_patch (set_parent j) actor1" and ?b = "apply_org_patch (set_parent i) actor2"
  let ?t = "update_row ?now ?b b (update_row ?now ?a a (org_rows db))"
  have slugs: "unique_slugs (org_rows db)" using assms(8) by (simp add: tree_ok_def)
  have a': "assign ?now ?a (version a) a \<in> set ?t" using row_a row_b assms(3) by (force simp: update_row_def assign_def)
  have b': "assign ?now ?b (version b) b \<in> set ?t" using row_a row_b assms(3) by (force simp: update_row_def assign_def)
  have edges: "(i, j) \<in> parent_edges ?t" "(j, i) \<in> parent_edges ?t"
    using parent_edgesI [OF a' b'] parent_edgesI [OF b' a'] row_a row_b
    by (auto simp: assign_def apply_org_patch_def set_parent_def given_def)
  have "yields (\<lambda>_ db' _. (i, j) \<in> parent_edges (org_rows db') \<and> (j, i) \<in> parent_edges (org_rows db'))
      (crossed_updates env (actor1, i, None, set_parent j) (actor2, j, None, set_parent i)) db w"
    using assms(1,2,4-7) row_a row_b edges slugs
    by (simp add: crossed_updates_def check_parent update_organization_write_def update_organization_row_def update_unique_def org_audit_def
        update_parent_slugs Let_def)
  then show ?thesis by (auto simp: yields_def)
qed

theorem crossed_parents_witness:
  "\<exists>db' w'. crossed_updates sample_auth_env (None, ''north'', None, set_parent ''south'') (None, ''south'', None, set_parent ''north'')
     (sample_platform, sample_auth_world) = (Inr (), (db', w')) \<and>
     (''north'', ''south'') \<in> parent_edges (org_rows db') \<and> (''south'', ''north'') \<in> parent_edges (org_rows db')"
proof -
  have north: "org_by_id False ''north'' sample_platform = Some (sample_msp ''north'' None)"
    and south: "org_by_id False ''south'' sample_platform = Some (sample_msp ''south'' None)" by code_simp+
  have "org_parent_chain ''north'' MAX_HIERARCHY_DEPTH sample_platform = []" "org_parent_chain ''south'' MAX_HIERARCHY_DEPTH sample_platform = []"
    "org_is_msp (sample_msp ''north'' None)" "org_is_msp (sample_msp ''south'' None)"
    and active: "og_status (sample_msp ''north'' None) \<noteq> ORG_ARCHIVED" "og_status (sample_msp ''south'' None) \<noteq> ORG_ARCHIVED" by code_simp+
  with north south have "valid_parent sample_platform ''south'' (Some ''north'')" "valid_parent sample_platform ''north'' (Some ''south'')"
    by (simp_all add: valid_parent_def)
  from crossed_parents [OF north south _ this active sample_platform_ok] show ?thesis by simp
qed

end
