(* ===== verification/Platform.thy ===== *)
theory Platform
  imports OrganizationData Progress Calendar Rbac
begin

section \<open>What the venue services share\<close>

text \<open>
  The tables of organizations, locations and guests, the exceptions, and the environment of the services
  that work for one venue (\<open>domains/location\<close>, \<open>domains/policy\<close>, \<open>domains/guest\<close>). The environment
  is a clock that is read again at every \<open>datetime.now\<close>, a supply of fresh ids and the time zone
  database. The record of the tables is extended by the domains that build on each other, so
  that a policy request or a guest login runs the location service on the same database.
\<close>

datatype (plugins only: code) platform_exc =
    OrganizationNotFoundError uuid
  | OrganizationArchivedError uuid
  | OrganizationSuspendedNewServiceError uuid string
  | LocationNotFoundError uuid
  | DuplicateLocationSlugError uuid string
  | LocationArchivedError uuid
  | CrossOrganizationLocationAccessError
  | CrossLocationScopeAccessError
  | CrossOrganizationPolicyAccessError
  | PolicyNotFoundError uuid
  | PolicyVersionNotFoundError uuid
  | PolicyRulesValidationError string string
  | InvalidPolicyVersionStatusTransitionError string string
  | PolicyRollbackTargetMismatchError uuid uuid
  | PolicyRollbackTargetNotPublishedError uuid
  | PolicyAssignmentNotFoundError uuid
  | PolicyAssignmentRequiresPublishedVersionError uuid
  | InvalidPolicyAssignmentScopeTypeError string
  | PolicyAssignmentScopeIdNotAllowedError
  | PolicyAssignmentScopeIdRequiredError string
  | InvalidPolicyAssignmentTargetTypeError string
  | PolicyAssignmentTargetIdNotAllowedError
  | PolicyAssignmentTargetIdRequiredError string
  | PolicyAssignmentTargetUserNotFoundError uuid
  | PolicyAssignmentTargetRoleNotFoundError uuid
  | PolicyAssignmentTargetGuestNotFoundError uuid
  | PolicyAssignmentGuestAlreadyMappedError uuid uuid uuid
  | GuestNotFoundError uuid
  | GuestBlockedError "string option"
  | RouterNotFoundError uuid
  | RouterNotEligibleForGuestSessionError uuid string
  | CrossOrganizationGuestAccessError
  | CrossLocationGuestAccessError
  | GuestSessionNotFoundError uuid
  | CrossOrganizationGuestSessionAccessError
  | CrossLocationGuestSessionAccessError
  | InvalidSessionStatusTransitionError string string
  | InvalidExtensionMinutesError int
  | SessionTerminationCooldownError int
  | NoReconnectableSessionError uuid
  | ConcurrentSessionLimitExceededError uuid int
  | GuestDeviceLimitExceededError uuid int
  | FairUsagePolicyExceededError uuid string string int int
  | GuestTeamSharedQuotaExceededError
  | VenueGateError string
  | PlatformDbError db_error


subsection \<open>The environment\<close>

text \<open>\<open>zone_known\<close>, \<open>utc_offset\<close> and \<open>wall_offset\<close> are \<open>ZoneInfo\<close>: whether the name is a zone, the offset at an
  instant, and the offset that applies to a wall-clock time.\<close>

record platform_env =
  time_at :: "nat \<Rightarrow> datetime"
  uuid_at :: "nat \<Rightarrow> uuid"
  zone_known :: "string \<Rightarrow> bool"
  utc_offset :: "string \<Rightarrow> datetime \<Rightarrow> int"
  wall_offset :: "string \<Rightarrow> int \<Rightarrow> int"

record platform_world =
  pw_clock :: nat
  pw_supply :: nat

type_synonym ('db, 'a) pprog = "('db \<times> platform_world, platform_exc, 'a) prog"

definition pnow :: "platform_env \<Rightarrow> ('db, datetime) pprog" where
  "pnow env =
     andthen (reads_world pw_clock) (\<lambda>n.
     andthen (modifies_world (\<lambda>w. w\<lparr>pw_clock := Suc n\<rparr>)) (\<lambda>_. ret (time_at env n)))"

definition puuid4 :: "platform_env \<Rightarrow> ('db, uuid) pprog" where
  "puuid4 env =
     andthen (reads_world pw_supply) (\<lambda>n.
     andthen (modifies_world (\<lambda>w. w\<lparr>pw_supply := Suc n\<rparr>)) (\<lambda>_. ret (uuid_at env n)))"

text \<open>The instant the database stamps on a row.\<close>

definition pdb_now :: "platform_env \<Rightarrow> ('db, datetime) pprog" where
  "pdb_now env = reads_world (\<lambda>w. time_at env (pw_clock w))"

definition insert_in ::
  "platform_env \<Rightarrow> uuid option \<Rightarrow> ('db \<Rightarrow> 'a base_model_scheme list) \<Rightarrow>
   (('a base_model_scheme list \<Rightarrow> 'a base_model_scheme list) \<Rightarrow> 'db \<Rightarrow> 'db) \<Rightarrow>
   ('a base_model_scheme list \<Rightarrow> bool) \<Rightarrow> 'a \<Rightarrow> ('db, 'a base_model_scheme) pprog" where
  "insert_in env actor get upd uniq columns =
     andthen (puuid4 env) (\<lambda>i.
     andthen (pdb_now env) (\<lambda>now.
     let r = base_model.extend (new_base i now actor) columns
     in andthen (stores_db PlatformDbError (\<lambda>db.
          case create_row uniq r (get db) of Inl e \<Rightarrow> Inl e | Inr t \<Rightarrow> Inr (upd (\<lambda>_. t) db))) (\<lambda>_.
        ret r)))"

definition save_in ::
  "platform_env \<Rightarrow> ('db \<Rightarrow> 'a base_model_scheme list) \<Rightarrow>
   (('a base_model_scheme list \<Rightarrow> 'a base_model_scheme list) \<Rightarrow> 'db \<Rightarrow> 'db) \<Rightarrow>
   ('a base_model_scheme list \<Rightarrow> bool) \<Rightarrow> 'a base_model_scheme \<Rightarrow>
   ('a base_model_scheme \<Rightarrow> 'a base_model_scheme) \<Rightarrow> ('db, 'a base_model_scheme) pprog" where
  "save_in env get upd uniq inst data =
     andthen (pdb_now env) (\<lambda>now.
     andthen (stores_db PlatformDbError (\<lambda>db.
       let t = update_row now data inst (get db)
       in if uniq t then Inr (upd (\<lambda>_. t) db) else Inl DuplicateRecordError)) (\<lambda>_.
     ret (assign now data (version inst) inst)))"


subsection \<open>Organizations, locations and guests\<close>

datatype LocationStatus = LOC_ACTIVE | LOC_INACTIVE | LOC_SUSPENDED | LOC_ARCHIVED

fun LocationStatus_value :: "LocationStatus \<Rightarrow> string" where
  "LocationStatus_value LOC_ACTIVE = ''active''"
| "LocationStatus_value LOC_INACTIVE = ''inactive''"
| "LocationStatus_value LOC_SUSPENDED = ''suspended''"
| "LocationStatus_value LOC_ARCHIVED = ''archived''"

record location_row = base_model +
  lo_organization_id :: uuid
  lo_name :: string
  lo_slug :: string
  lo_status :: LocationStatus
  lo_property_type :: "string option"
  lo_location_code :: "string option"
  lo_city :: string
  lo_country :: string
  lo_timezone :: string
  lo_contact_email :: "string option"

text \<open>Of a guest the columns that the session and policy services read or write.\<close>

record guest_row = base_model +
  gu_organization_id :: uuid
  gu_location_id :: "uuid option"
  gu_identifier :: string
  gu_display_name :: "string option"
  gu_email :: "string option"
  gu_first_seen_at :: datetime
  gu_last_seen_at :: datetime
  gu_total_visit_count :: int
  gu_is_blocked :: bool
  gu_blocked_reason :: "string option"

record site_db =
  site_orgs :: "organization_row list"
  site_locations :: "location_row list"
  site_counters :: counters
  site_audits :: "audit_entry list"
  site_guests :: "guest_row list"

text \<open>\<open>uq_locations_organization_id_slug\<close> and the partial index \<open>uq_locations_location_code\<close>.\<close>

definition location_keys :: "location_row list \<Rightarrow> bool" where
  "location_keys t \<longleftrightarrow>
     distinct (map (\<lambda>l. (lo_organization_id l, lo_slug l)) t) \<and>
     distinct (List.map_filter lo_location_code t)"

definition site_get_organization :: "uuid \<Rightarrow> bool \<Rightarrow> ('a site_db_scheme, organization_row) pprog" where
  "site_get_organization i include_deleted =
     andthen (reads_db (\<lambda>db. get_by_id include_deleted i (site_orgs db))) (\<lambda>found.
     orelse found (OrganizationNotFoundError i))"

definition site_audit ::
  "uuid option \<Rightarrow> string \<Rightarrow> string \<Rightarrow> uuid \<Rightarrow> string \<Rightarrow> uuid option \<Rightarrow> uuid option \<Rightarrow> ('a site_db_scheme, unit) pprog" where
  "site_audit actor action entity_type entity description org location =
     modifies_db (site_audits_update (\<lambda>t. t @
       [\<lparr>ae_actor_user_id = actor, ae_action = action, ae_entity_type = entity_type, ae_entity_id = Some entity,
         ae_description = description, ae_metadata = [], ae_organization_id = org, ae_location_id = location\<rparr>]))"


subsection \<open>The calculi on these programs\<close>

lemma ensures_pnow [simp]:
  "ensures P (pnow env) = (\<lambda>db w. P (time_at env (pw_clock w)) db (w\<lparr>pw_clock := Suc (pw_clock w)\<rparr>))"
  and yields_pnow [simp]:
  "yields P (pnow env) = (\<lambda>db w. P (time_at env (pw_clock w)) db (w\<lparr>pw_clock := Suc (pw_clock w)\<rparr>))"
  by (intro ext, simp add: pnow_def)+

lemma ensures_pdb_now [simp]: "ensures P (pdb_now env) = (\<lambda>db w. P (time_at env (pw_clock w)) db w)"
  and yields_pdb_now [simp]: "yields P (pdb_now env) = (\<lambda>db w. P (time_at env (pw_clock w)) db w)"
  by (intro ext, simp add: pdb_now_def)+

lemma ensures_puuid4 [simp]:
  "ensures P (puuid4 env) = (\<lambda>db w. P (uuid_at env (pw_supply w)) db (w\<lparr>pw_supply := Suc (pw_supply w)\<rparr>))"
  and yields_puuid4 [simp]:
  "yields P (puuid4 env) = (\<lambda>db w. P (uuid_at env (pw_supply w)) db (w\<lparr>pw_supply := Suc (pw_supply w)\<rparr>))"
  by (intro ext, simp add: puuid4_def)+

lemma ensures_insert_in:
  "ensures P (insert_in env actor get upd uniq columns) = (\<lambda>db w.
     let r = base_model.extend (new_base (uuid_at env (pw_supply w)) (time_at env (pw_clock w)) actor) columns;
         w' = w\<lparr>pw_supply := Suc (pw_supply w)\<rparr>
     in distinct (map row_id (get db @ [r])) \<and> uniq (get db @ [r]) \<longrightarrow> P r (upd (\<lambda>_. get db @ [r]) db) w')"
  and yields_insert_in:
  "yields P (insert_in env actor get upd uniq columns) = (\<lambda>db w.
     let r = base_model.extend (new_base (uuid_at env (pw_supply w)) (time_at env (pw_clock w)) actor) columns;
         w' = w\<lparr>pw_supply := Suc (pw_supply w)\<rparr>
     in distinct (map row_id (get db @ [r])) \<and> uniq (get db @ [r]) \<and> P r (upd (\<lambda>_. get db @ [r]) db) w')"
  by (intro ext, auto simp: insert_in_def create_row_def Let_def)+

lemma ensures_save_in [simp]:
  "ensures P (save_in env get upd uniq inst data) = (\<lambda>db w.
     let now = time_at env (pw_clock w); t = update_row now data inst (get db)
     in uniq t \<longrightarrow> P (assign now data (version inst) inst) (upd (\<lambda>_. t) db) w)"
  and yields_save_in [simp]:
  "yields P (save_in env get upd uniq inst data) = (\<lambda>db w.
     let now = time_at env (pw_clock w); t = update_row now data inst (get db)
     in uniq t \<and> P (assign now data (version inst) inst) (upd (\<lambda>_. t) db) w)"
  by (intro ext, simp add: save_in_def Let_def)+

lemma ensures_site_organization [simp]:
  "ensures P (site_get_organization i d) = (\<lambda>db w. case get_by_id d i (site_orgs db) of None \<Rightarrow> True | Some o' \<Rightarrow> P o' db w)"
  and yields_site_organization [simp]:
  "yields P (site_get_organization i d) = (\<lambda>db w. case get_by_id d i (site_orgs db) of None \<Rightarrow> False | Some o' \<Rightarrow> P o' db w)"
  by (intro ext, simp add: site_get_organization_def)+

end
