(* ===== verification/Locations.thy ===== *)
theory Locations
  imports Platform
begin

section \<open>Locations\<close>

text \<open>
  \<open>LocationService\<close> of \<open>app/domains/location/service.py\<close> with its repository, its code generator
  (\<open>number_generator.py\<close>) and the guard of \<open>scoping.py\<close>. The payload of an update is a record of
  optional columns. Of the address the columns the service transforms or searches are kept. The
  rules follow the model: slugs and codes stay unique, a location stays with its organization, an
  archived one is final, and another tenant's request changes nothing.
\<close>

subsection \<open>The code of a location\<close>

text \<open>The calendar year of an instant: the year whose first day is not after the day of the instant and
  whose successor's is.\<close>

definition ordinal_of :: "datetime \<Rightarrow> int" where
  "ordinal_of t = t div days 1 + EPOCH_ORDINAL"

definition year_of_ordinal :: "int \<Rightarrow> int" where
  "year_of_ordinal d =
     (let y = (d - 1) * 400 div 146097 + 1
      in if d \<le> days_before_year y then y - 1 else if days_before_year (y + 1) < d then y + 1 else y)"

definition year_of :: "datetime \<Rightarrow> int" where
  "year_of t = year_of_ordinal (ordinal_of t)"

definition LOCATION_CODE_PREFIX :: string where
  "LOCATION_CODE_PREFIX = ''LOC''"

definition location_counter_key :: "int \<Rightarrow> string" where
  "location_counter_key year = ''location:'' @ show_int year"

definition format_location_code :: "int \<Rightarrow> nat \<Rightarrow> string" where
  "format_location_code year seqno = LOCATION_CODE_PREFIX @ ''-'' @ show_int year @ ''-'' @ zero_padded 6 seqno"

definition generate_location_code :: "datetime \<Rightarrow> ('a site_db_scheme, string) pprog" where
  "generate_location_code moment =
     andthen (reads_db (\<lambda>db. increment_and_get_next (location_counter_key (year_of moment)) (site_counters db))) (\<lambda>(seqno, t).
     andthen (modifies_db (site_counters_update (\<lambda>_. t))) (\<lambda>_.
     ret (format_location_code (year_of moment) seqno)))"

definition peek_next :: "string \<Rightarrow> counters \<Rightarrow> nat" where
  "peek_next key t = (case map_of t key of None \<Rightarrow> 0 | Some v \<Rightarrow> v) + 1"

definition preview_next_location_code :: "platform_env \<Rightarrow> ('a site_db_scheme, string) pprog" where
  "preview_next_location_code env =
     andthen (pnow env) (\<lambda>moment.
     andthen (reads_db (\<lambda>db. peek_next (location_counter_key (year_of moment)) (site_counters db))) (\<lambda>seqno.
     ret (format_location_code (year_of moment) seqno)))"


subsection \<open>Reads and guards\<close>

definition location_by_id :: "bool \<Rightarrow> uuid \<Rightarrow> 'a site_db_scheme \<Rightarrow> location_row option" where
  "location_by_id include_deleted i db = get_by_id include_deleted i (site_locations db)"

definition location_by_slug :: "uuid \<Rightarrow> string \<Rightarrow> 'a site_db_scheme \<Rightarrow> location_row option" where
  "location_by_slug org slug db =
     (case get_all (\<lambda>l. lo_organization_id l = org \<and> lo_slug l = slug) created_at DESC False (Some 1) (site_locations db) of
        [] \<Rightarrow> None | l # _ \<Rightarrow> Some l)"

definition location_slug :: "string \<Rightarrow> string" where
  "location_slug slug = py_lower (py_strip slug)"

text \<open>\<open>_assert_organization_accessible\<close> and \<open>_enforce_organization_scope\<close>: the same rule, for an organization
  named by the request and for the one of a stored location.\<close>

definition assert_organization_accessible :: "uuid \<Rightarrow> uuid option \<Rightarrow> ('a site_db_scheme, unit) pprog" where
  "assert_organization_accessible org requesting =
     (if requesting = None \<or> requesting = Some org then ret ()
      else andthen (site_get_organization org True) (\<lambda>o'.
           guard (og_parent o' = requesting) CrossOrganizationLocationAccessError))"

definition enforce_organization_scope :: "location_row \<Rightarrow> uuid option \<Rightarrow> ('a site_db_scheme, unit) pprog" where
  "enforce_organization_scope l requesting = assert_organization_accessible (lo_organization_id l) requesting"

definition assert_organization_active :: "uuid \<Rightarrow> bool \<Rightarrow> ('a site_db_scheme, unit) pprog" where
  "assert_organization_active org for_new_service =
     andthen (site_get_organization org False) (\<lambda>o'.
     andthen (guard (og_status o' \<noteq> ORG_ARCHIVED) (OrganizationArchivedError org)) (\<lambda>_.
     guard (\<not> (for_new_service \<and> og_status o' = ORG_SUSPENDED)) (OrganizationSuspendedNewServiceError org ''locations'')))"

definition get_location :: "uuid \<Rightarrow> uuid option \<Rightarrow> bool \<Rightarrow> ('a site_db_scheme, location_row) pprog" where
  "get_location i requesting include_deleted =
     andthen (reads_db (location_by_id include_deleted i)) (\<lambda>found.
     andthen (orelse found (LocationNotFoundError i)) (\<lambda>l.
     andthen (enforce_organization_scope l requesting) (\<lambda>_.
     ret l)))"

definition get_location_by_slug :: "uuid \<Rightarrow> string \<Rightarrow> ('a site_db_scheme, location_row) pprog" where
  "get_location_by_slug org slug =
     andthen (reads_db (location_by_slug org (location_slug slug))) (\<lambda>found.
     orelse found (LocationNotFoundError slug))"

text \<open>The guard of \<open>scoping.py\<close> on a location named by the request.\<close>

definition enforce_target_location :: "uuid option \<Rightarrow> uuid option \<Rightarrow> uuid option \<Rightarrow> ('db, unit) pprog" where
  "enforce_target_location target requesting_org scope_location =
     guard (requesting_org = None \<or> target = None \<or> scope_location = None \<or> target = scope_location) CrossLocationScopeAccessError"


subsection \<open>Writes\<close>

definition location_audit :: "uuid option \<Rightarrow> string \<Rightarrow> location_row \<Rightarrow> string \<Rightarrow> ('a site_db_scheme, unit) pprog" where
  "location_audit actor action l what =
     site_audit actor action ''location'' (row_id l) (''Location '' @ in_quotes (lo_name l) @ '' '' @ what)
       (Some (lo_organization_id l)) (Some (row_id l))"

definition save_location ::
  "platform_env \<Rightarrow> location_row \<Rightarrow> (location_row \<Rightarrow> location_row) \<Rightarrow> ('a site_db_scheme, location_row) pprog" where
  "save_location env l data = save_in env site_locations site_locations_update location_keys l data"

record location_create =
  lc_name :: string
  lc_slug :: string
  lc_status :: LocationStatus
  lc_property_type :: "string option"
  lc_city :: string
  lc_country :: string
  lc_timezone :: string
  lc_contact_email :: "string option"

definition lower_or_null :: "string option \<Rightarrow> string option" where
  "lower_or_null v = (case v of None \<Rightarrow> None | Some s \<Rightarrow> if s = [] then None else Some (py_lower s))"

definition create_location ::
  "platform_env \<Rightarrow> uuid option \<Rightarrow> uuid \<Rightarrow> uuid option \<Rightarrow> location_create \<Rightarrow> ('a site_db_scheme, location_row) pprog" where
  "create_location env actor org requesting c =
     andthen (assert_organization_accessible org requesting) (\<lambda>_.
     andthen (assert_organization_active org True) (\<lambda>_.
     andthen (reads_db (location_by_slug org (location_slug (lc_slug c)))) (\<lambda>same.
     andthen (guard (same = None) (DuplicateLocationSlugError org (location_slug (lc_slug c)))) (\<lambda>_.
     andthen (pnow env) (\<lambda>moment.
     andthen (generate_location_code moment) (\<lambda>code.
     andthen (insert_in env actor site_locations site_locations_update location_keys
       (location_row.fields org (lc_name c) (location_slug (lc_slug c)) (lc_status c) (lc_property_type c) (Some code)
          (lc_city c) (py_upper (lc_country c)) (lc_timezone c) (lower_or_null (lc_contact_email c)))) (\<lambda>l.
     andthen (location_audit actor ''location_created'' l ''created'') (\<lambda>_.
     ret l))))))))"

record location_patch =
  lp_name :: "string option"
  lp_slug :: "string option"
  lp_property_type :: "string option option"
  lp_city :: "string option"
  lp_country :: "string option"
  lp_timezone :: "string option"
  lp_contact_email :: "string option option"

definition or_old :: "'a option \<Rightarrow> 'a \<Rightarrow> 'a" where
  "or_old v old = (case v of None \<Rightarrow> old | Some x \<Rightarrow> x)"

definition apply_location_patch :: "location_patch \<Rightarrow> uuid option \<Rightarrow> location_row \<Rightarrow> location_row" where
  "apply_location_patch p actor l =
     l\<lparr>lo_name := or_old (lp_name p) (lo_name l), lo_slug := or_old (map_option location_slug (lp_slug p)) (lo_slug l),
       lo_property_type := or_old (lp_property_type p) (lo_property_type l), lo_city := or_old (lp_city p) (lo_city l),
       lo_country := or_old (map_option py_upper (lp_country p)) (lo_country l),
       lo_timezone := or_old (lp_timezone p) (lo_timezone l),
       lo_contact_email := or_old (map_option (map_option py_lower) (lp_contact_email p)) (lo_contact_email l),
       updated_by := actor\<rparr>"

definition check_location_slug :: "location_row \<Rightarrow> string option \<Rightarrow> ('a site_db_scheme, unit) pprog" where
  "check_location_slug l v =
     (case v of
        None \<Rightarrow> ret ()
      | Some slug \<Rightarrow>
          andthen (reads_db (location_by_slug (lo_organization_id l) (location_slug slug))) (\<lambda>existing.
          guard (case existing of None \<Rightarrow> True | Some e \<Rightarrow> row_id e = row_id l)
            (DuplicateLocationSlugError (lo_organization_id l) (location_slug slug))))"

definition update_location ::
  "platform_env \<Rightarrow> uuid option \<Rightarrow> uuid \<Rightarrow> uuid option \<Rightarrow> location_patch \<Rightarrow> ('a site_db_scheme, location_row) pprog" where
  "update_location env actor i requesting p =
     andthen (get_location i requesting False) (\<lambda>l.
     andthen (guard (lo_status l \<noteq> LOC_ARCHIVED) (LocationArchivedError i)) (\<lambda>_.
     andthen (check_location_slug l (lp_slug p)) (\<lambda>_.
     andthen (save_location env l (apply_location_patch p actor)) (\<lambda>updated.
     andthen (location_audit actor ''location_updated'' updated ''updated'') (\<lambda>_.
     ret updated)))))"

definition archive_location ::
  "platform_env \<Rightarrow> uuid option \<Rightarrow> uuid \<Rightarrow> uuid option \<Rightarrow> ('a site_db_scheme, location_row) pprog" where
  "archive_location env actor i requesting =
     andthen (get_location i requesting False) (\<lambda>l.
     andthen (save_location env l (\<lambda>r. r\<lparr>lo_status := LOC_ARCHIVED, updated_by := actor\<rparr>)) (\<lambda>updated.
     andthen (pnow env) (\<lambda>now.
     andthen (modifies_db (site_locations_update (soft_delete now updated))) (\<lambda>_.
     andthen (location_audit actor ''location_archived'' updated ''archived'') (\<lambda>_.
     ret (mark_deleted now updated))))))"

definition set_location_status ::
  "platform_env \<Rightarrow> uuid option \<Rightarrow> uuid \<Rightarrow> uuid option \<Rightarrow> LocationStatus \<Rightarrow> string \<Rightarrow> ('a site_db_scheme, location_row) pprog" where
  "set_location_status env actor i requesting new_status action =
     andthen (get_location i requesting False) (\<lambda>l.
     andthen (guard (lo_status l \<noteq> LOC_ARCHIVED) (LocationArchivedError i)) (\<lambda>_.
     andthen (save_location env l (\<lambda>r. r\<lparr>lo_status := new_status, updated_by := actor\<rparr>)) (\<lambda>updated.
     andthen (location_audit actor action updated (LocationStatus_value new_status)) (\<lambda>_.
     ret updated))))"

definition suspend_location :: "platform_env \<Rightarrow> uuid option \<Rightarrow> uuid \<Rightarrow> uuid option \<Rightarrow> ('a site_db_scheme, location_row) pprog" where
  "suspend_location env actor i requesting = set_location_status env actor i requesting LOC_SUSPENDED ''location_suspended''"

definition activate_location :: "platform_env \<Rightarrow> uuid option \<Rightarrow> uuid \<Rightarrow> uuid option \<Rightarrow> ('a site_db_scheme, location_row) pprog" where
  "activate_location env actor i requesting = set_location_status env actor i requesting LOC_ACTIVE ''location_activated''"

end
