(* ===== verification/GuardedTables.thy ===== *)
theory GuardedTables
  imports Database
begin

section \<open>Tables whose rows have an owner\<close>

text \<open>
  A table is changed by callers who may act for some owners only. \<open>guarded\<close> relates two versions of
  such a table: no row is removed, a row that changed keeps what \<open>keep\<close> says and belongs to an owner the
  caller may act for, and so does every row that is new.
\<close>

locale guarded_rows =
  fixes keep :: "'r \<Rightarrow> 'r \<Rightarrow> bool" and owner :: "'r \<Rightarrow> 'o"
  assumes keep_refl: "keep r r"
    and keep_trans: "keep r r' \<Longrightarrow> keep r' r'' \<Longrightarrow> keep r r''"
    and keep_owner: "keep r r' \<Longrightarrow> owner r' = owner r"
begin

definition guarded :: "('o \<Rightarrow> bool) \<Rightarrow> 'r list \<Rightarrow> 'r list \<Rightarrow> bool" where
  "guarded ok t t' \<longleftrightarrow>
     (\<forall>r \<in> set t. \<exists>r' \<in> set t'. keep r r' \<and> (ok (owner r) \<or> r' = r)) \<and>
     (\<forall>r' \<in> set t'. r' \<in> set t \<or> ok (owner r'))"

lemma guarded_refl [simp]: "guarded ok t t"
  unfolding guarded_def using keep_refl by blast

lemma guarded_trans:
  assumes "guarded ok a b" and "guarded ok' b c" and "\<And>k. ok' k \<Longrightarrow> ok k"
  shows "guarded ok a c"
proof -
  have "\<exists>r'' \<in> set c. keep r r'' \<and> (ok (owner r) \<or> r'' = r)" if "r \<in> set a" for r
  proof -
    from assms(1) that obtain r' where r': "r' \<in> set b" "keep r r'" "ok (owner r) \<or> r' = r" unfolding guarded_def by blast
    with assms(2) obtain r'' where r'': "r'' \<in> set c" "keep r' r''" "ok' (owner r') \<or> r'' = r'" unfolding guarded_def by blast
    with r' assms(3) keep_owner [OF r'(2)] show ?thesis by (metis keep_trans)
  qed
  moreover have "r \<in> set a \<or> ok (owner r)" if "r \<in> set c" for r using that assms unfolding guarded_def by blast
  ultimately show ?thesis by (simp add: guarded_def)
qed

lemma guarded_map:
  assumes "\<And>r. r \<in> set t \<Longrightarrow> P r \<Longrightarrow> keep r (f r) \<and> ok (owner r)"
  shows "guarded ok t (map (\<lambda>r. if P r then f r else r) t)"
proof -
  have "keep r (if P r then f r else r) \<and> (ok (owner r) \<or> (if P r then f r else r) = r)" if "r \<in> set t" for r
    using assms [OF that] keep_refl by simp
  moreover have "(if P r then f r else r) \<in> set t \<or> ok (owner (if P r then f r else r))" if "r \<in> set t" for r
    using assms [OF that] keep_owner that by auto
  ultimately show ?thesis unfolding guarded_def by (auto simp only: set_map)
qed

lemma guarded_append: "ok (owner r) \<Longrightarrow> guarded ok t (t @ [r])"
  unfolding guarded_def using keep_refl by auto

lemma guarded_new: "guarded ok t t' \<Longrightarrow> r \<in> set t' \<Longrightarrow> r \<in> set t \<or> ok (owner r)"
  by (auto simp: guarded_def)

lemma guarded_kept: "guarded ok t t' \<Longrightarrow> r \<in> set t \<Longrightarrow> \<exists>r' \<in> set t'. keep r r' \<and> (ok (owner r) \<or> r' = r)"
  by (auto simp: guarded_def)

lemma guarded_same:
  assumes "guarded ok t t'" and "\<not> ok k"
  shows "{r \<in> set t'. owner r = k} = {r \<in> set t. owner r = k}"
  using assms guarded_new guarded_kept keep_owner by blast

end

text \<open>A row found by its id is the only one with that id.\<close>

lemma row_unique:
  "distinct (map row_id t) \<Longrightarrow> get_by_id d i t = Some r \<Longrightarrow> r' \<in> set t \<Longrightarrow> row_id r' = i \<Longrightarrow> r' = r"
  by (metis get_by_id_Some distinct_map inj_onD)

lemma map_row_id_soft_delete [simp]: "map row_id (soft_delete now r t) = map row_id t"
  by (simp add: soft_delete_def mark_deleted_def)

lemma distinct_ids_map: "(\<And>r. r \<in> set t \<Longrightarrow> row_id (f r) = row_id r) \<Longrightarrow> distinct (map (row_id \<circ> f) t) = distinct (map row_id t)"
  by (simp cong: map_cong)

end
