(* ===== verification/LocationRules.thy ===== *)
theory LocationRules
  imports Locations GuardedTables
begin

section \<open>The rules of locations\<close>

text \<open>
  Over every history of location requests the table keeps its unique keys; a location keeps its
  organization and its code, is never removed, and its archival is final; a caller who acts for
  an organization changes the locations of that organization and of its direct children only.
  Then the calendar year of a code, and the slug of an archived location, which stays taken.
\<close>

subsection \<open>Requests\<close>

datatype location_call =
    CreateLocation "uuid option" uuid location_create
  | UpdateLocation "uuid option" uuid location_patch
  | ArchiveLocation "uuid option" uuid
  | SuspendLocation "uuid option" uuid
  | ActivateLocation "uuid option" uuid

fun run_location :: "platform_env \<Rightarrow> uuid option \<Rightarrow> location_call \<Rightarrow> ('a site_db_scheme, location_row) pprog" where
  "run_location env requesting (CreateLocation actor org c) = create_location env actor org requesting c"
| "run_location env requesting (UpdateLocation actor i p) = update_location env actor i requesting p"
| "run_location env requesting (ArchiveLocation actor i) = archive_location env actor i requesting"
| "run_location env requesting (SuspendLocation actor i) = suspend_location env actor i requesting"
| "run_location env requesting (ActivateLocation actor i) = activate_location env actor i requesting"


subsection \<open>What a request does to the table\<close>

definition site_ok :: "'a site_db_scheme \<Rightarrow> bool" where
  "site_ok db \<longleftrightarrow> distinct (map row_id (site_locations db)) \<and> location_keys (site_locations db)"

text \<open>The organizations a caller may act for.\<close>

definition within_reach :: "'a site_db_scheme \<Rightarrow> uuid option \<Rightarrow> uuid \<Rightarrow> bool" where
  "within_reach db requesting org \<longleftrightarrow>
     requesting = None \<or> requesting = Some org \<or>
     (\<exists>o'. get_by_id True org (site_orgs db) = Some o' \<and> og_parent o' = requesting)"

definition succeeds_as :: "location_row \<Rightarrow> location_row \<Rightarrow> bool" where
  "succeeds_as l l' \<longleftrightarrow>
     row_id l' = row_id l \<and> lo_organization_id l' = lo_organization_id l \<and> lo_location_code l' = lo_location_code l \<and>
     (is_deleted l \<longrightarrow> is_deleted l') \<and> (lo_status l = LOC_ARCHIVED \<longrightarrow> lo_status l' = LOC_ARCHIVED)"

interpretation located: guarded_rows succeeds_as lo_organization_id
  by unfold_locales (auto simp: succeeds_as_def)

definition location_leads :: "uuid option \<Rightarrow> 'a site_db_scheme \<Rightarrow> 'a site_db_scheme \<Rightarrow> bool" where
  "location_leads requesting db db' \<longleftrightarrow>
     site_orgs db' = site_orgs db \<and>
     located.guarded (within_reach db requesting) (site_locations db) (site_locations db')"

lemma leads_refl: "location_leads requesting db db"
  by (simp add: location_leads_def)

lemma leads_trans:
  assumes "location_leads requesting a b" and "location_leads requesting b c"
  shows "location_leads requesting a c"
proof -
  have "within_reach b requesting = within_reach a requesting" using assms(1) by (simp add: location_leads_def within_reach_def fun_eq_iff)
  with assms show ?thesis by (auto simp: location_leads_def intro: located.guarded_trans)
qed

lemma leads_map:
  assumes "site_orgs db' = site_orgs db" and "site_locations db' = map (\<lambda>r. if row_id r = i then f r else r) (site_locations db)"
    and "\<And>r. r \<in> set (site_locations db) \<Longrightarrow> row_id r = i \<Longrightarrow> succeeds_as r (f r) \<and> within_reach db requesting (lo_organization_id r)"
  shows "location_leads requesting db db'"
  using assms by (simp add: location_leads_def located.guarded_map)

lemma leads_append:
  "site_orgs db' = site_orgs db \<Longrightarrow> site_locations db' = site_locations db @ [r] \<Longrightarrow> within_reach db requesting (lo_organization_id r) \<Longrightarrow> location_leads requesting db db'"
  by (simp add: location_leads_def located.guarded_append)

lemma ensures_accessible [simp]:
  "ensures P (assert_organization_accessible org requesting) = (\<lambda>db w. within_reach db requesting org \<longrightarrow> P () db w)"
  by (intro ext) (auto simp: assert_organization_accessible_def within_reach_def split: option.splits)

lemma ensures_get_location [simp]:
  "ensures P (get_location i requesting d) = (\<lambda>db w. \<forall>l. location_by_id d i db = Some l \<and> within_reach db requesting (lo_organization_id l) \<longrightarrow> P l db w)"
  by (intro ext) (auto simp: get_location_def enforce_organization_scope_def split: option.splits)

lemma location_row_unique:
  "site_ok db \<Longrightarrow> location_by_id d i db = Some l \<Longrightarrow> r \<in> set (site_locations db) \<Longrightarrow> row_id r = i \<Longrightarrow> r = l"
  unfolding site_ok_def location_by_id_def by (blast intro: row_unique)

text \<open>One row saved under new values.\<close>

definition saved_as :: "uuid option \<Rightarrow> 'a site_db_scheme \<Rightarrow> 'a site_db_scheme \<Rightarrow> bool" where
  "saved_as requesting db db' \<longleftrightarrow> site_ok db' \<and> location_leads requesting db db'"

lemma ensures_save_location:
  assumes "site_ok db" and "location_by_id False i db = Some l" and "within_reach db requesting (lo_organization_id l)"
    and "\<And>now r. r = l \<Longrightarrow> succeeds_as r (assign now data (version l) r)"
    and "\<And>now. site_ok (site_locations_update (\<lambda>_. update_row now data l (site_locations db)) db) \<Longrightarrow>
      location_leads requesting db (site_locations_update (\<lambda>_. update_row now data l (site_locations db)) db) \<Longrightarrow>
      P (assign now data (version l) l) (site_locations_update (\<lambda>_. update_row now data l (site_locations db)) db) w"
  shows "ensures P (save_location env l data) db w"
proof -
  have i: "row_id l = i" using assms(2) get_by_id_Some unfolding location_by_id_def by blast
  have leads: "location_leads requesting db (site_locations_update (\<lambda>_. update_row now data l (site_locations db)) db)" for now
  proof (rule leads_map [where i = i and f = "assign now data (version l)"])
    fix r assume r: "r \<in> set (site_locations db)" "row_id r = i"
    with location_row_unique [OF assms(1,2)] have "r = l" .
    with assms(3,4) show "succeeds_as r (assign now data (version l) r) \<and> within_reach db requesting (lo_organization_id r)" by simp
  qed (simp_all add: update_row_def i)
  have ids: "map row_id (update_row now data l t) = map row_id t" for now t by (simp add: update_row_def assign_def)
  show ?thesis using assms(1) assms(5) leads by (auto simp: save_location_def site_ok_def ids Let_def)
qed


lemma ensures_location_audit [simp]:
  "ensures P (location_audit actor action l what) = (\<lambda>db w. P () (site_audits_update (\<lambda>t. t @
     [\<lparr>ae_actor_user_id = actor, ae_action = action, ae_entity_type = ''location'', ae_entity_id = Some (row_id l),
       ae_description = ''Location '' @ in_quotes (lo_name l) @ '' '' @ what, ae_metadata = [],
       ae_organization_id = Some (lo_organization_id l), ae_location_id = Some (row_id l)\<rparr>]) db) w)"
  by (simp add: location_audit_def site_audit_def)

lemma saved_audit [simp]: "saved_as requesting db (site_audits_update f db') = saved_as requesting db db'"
  by (simp add: saved_as_def site_ok_def location_leads_def)

lemma create_location_step:
  assumes "site_ok db"
  shows "ensures (\<lambda>_ db' _. saved_as requesting db db') (create_location env actor org requesting c) db w"
  using assms
  by (auto simp: create_location_def assert_organization_active_def generate_location_code_def ensures_insert_in saved_as_def site_ok_def
      Let_def split_def location_row.defs base_model.defs intro: leads_append split: option.splits)

lemma update_location_step:
  assumes "site_ok db"
  shows "ensures (\<lambda>_ db' _. saved_as requesting db db') (update_location env actor i requesting p) db w"
proof -
  have "ensures (\<lambda>l' db' w'. saved_as requesting db db') (save_location env l (apply_location_patch p actor)) db w'"
    if "location_by_id False i db = Some l" "within_reach db requesting (lo_organization_id l)" "lo_status l \<noteq> LOC_ARCHIVED" for l w'
    using that by (intro ensures_save_location [OF assms that(1,2)])
      (auto simp: saved_as_def succeeds_as_def assign_def apply_location_patch_def)
  then show ?thesis
    by (auto simp: update_location_def check_location_slug_def split: option.splits elim: ensures_mono)
qed

lemma status_location_step:
  assumes "site_ok db"
  shows "ensures (\<lambda>_ db' _. saved_as requesting db db') (set_location_status env actor i requesting status action) db w"
proof -
  have "ensures (\<lambda>l' db' w'. saved_as requesting db db') (save_location env l (\<lambda>r. r\<lparr>lo_status := status, updated_by := actor\<rparr>)) db w'"
    if "location_by_id False i db = Some l" "within_reach db requesting (lo_organization_id l)" "lo_status l \<noteq> LOC_ARCHIVED" for l w'
    using that by (intro ensures_save_location [OF assms that(1,2)]) (auto simp: saved_as_def succeeds_as_def assign_def)
  then show ?thesis by (auto simp: set_location_status_def elim: ensures_mono)
qed

lemma location_keys_map:
  assumes "\<And>r. lo_organization_id (f r) = lo_organization_id r \<and> lo_slug (f r) = lo_slug r \<and> lo_location_code (f r) = lo_location_code r"
  shows "location_keys (map f t) = location_keys t"
proof -
  have "List.map_filter lo_location_code (map f t) = List.map_filter lo_location_code t"
    using assms by (induction t) (simp_all add: map_filter_simps split: option.split)
  then show ?thesis using assms by (simp add: location_keys_def comp_def)
qed

lemma soft_delete_step:
  assumes "site_ok db" and "\<And>r. r \<in> set (site_locations db) \<Longrightarrow> row_id r = row_id l \<Longrightarrow> within_reach db requesting (lo_organization_id r)"
  shows "saved_as requesting db (site_locations_update (soft_delete now l) db)"
proof -
  have "location_leads requesting db (site_locations_update (soft_delete now l) db)"
    using assms(2) by (intro leads_map [where i = "row_id l" and f = "mark_deleted now"]) (auto simp: soft_delete_def succeeds_as_def mark_deleted_def)
  moreover have "location_keys (soft_delete now l t) = location_keys t" for t
    unfolding soft_delete_def by (rule location_keys_map) (simp add: mark_deleted_def)
  ultimately show ?thesis using assms(1) by (simp add: saved_as_def site_ok_def)
qed


lemma archive_location_step:
  assumes "site_ok db"
  shows "ensures (\<lambda>_ db' _. saved_as requesting db db') (archive_location env actor i requesting) db w"
proof -
  let ?f = "\<lambda>r :: location_row. r\<lparr>lo_status := LOC_ARCHIVED, updated_by := actor\<rparr>"
  have "ensures (\<lambda>l' db' w'. \<forall>now. saved_as requesting db (site_locations_update (soft_delete now l') db')) (save_location env l ?f) db w'"
    if l: "location_by_id False i db = Some l" "within_reach db requesting (lo_organization_id l)" for l w'
  proof (intro ensures_save_location [OF assms l])
    fix now
    let ?db = "site_locations_update (\<lambda>_. update_row now ?f l (site_locations db)) db"
    assume ok: "site_ok ?db" and leads: "location_leads requesting db ?db"
    have "within_reach ?db requesting (lo_organization_id r)" if r: "r \<in> set (site_locations ?db)" "row_id r = row_id l" for r
    proof -
      from r obtain r0 where r0: "r0 \<in> set (site_locations db)" "row_id r0 = row_id l" "lo_organization_id r = lo_organization_id r0"
        by (auto simp: update_row_def assign_def split: if_splits)
      moreover have "row_id l = i" using l(1) get_by_id_Some unfolding location_by_id_def by blast
      ultimately have "r0 = l" using location_row_unique [OF assms l(1)] by simp
      with r0(3) l(2) show ?thesis by (simp add: within_reach_def)
    qed
    then have "saved_as requesting ?db (site_locations_update (soft_delete now' l) ?db)" for now' by (intro soft_delete_step [OF ok])
    then have "saved_as requesting db (site_locations_update (soft_delete now' l) ?db)" for now'
      using leads_trans [OF leads] unfolding saved_as_def by blast
    moreover have "soft_delete now' (assign now ?f (version l) l) = soft_delete now' l" for now'
      by (simp add: soft_delete_def assign_def fun_eq_iff)
    ultimately show "\<forall>now'. saved_as requesting db (site_locations_update (soft_delete now' (assign now ?f (version l) l)) ?db)" by simp
  qed (auto simp: succeeds_as_def assign_def)
  note saved = this
  have "ensures (\<lambda>l' db' w'. saved_as requesting db (site_locations_update (soft_delete (time_at env (pw_clock w')) l') db')) (save_location env l ?f) db w"
    if "location_by_id False i db = Some l" "within_reach db requesting (lo_organization_id l)" for l
    by (rule ensures_mono [OF saved [OF that]]) simp
  then show ?thesis by (auto simp: archive_location_def)
qed

lemma run_location_step:
  "site_ok db \<Longrightarrow> ensures (\<lambda>_ db' _. saved_as requesting db db') (run_location env requesting call) db w"
  by (cases call) (simp_all add: create_location_step update_location_step archive_location_step status_location_step
      suspend_location_def activate_location_def)

interpretation location_requests: request_contract "run_location env requesting" site_ok "location_leads requesting" for env requesting
proof
  fix c and db db' :: "'a site_db_scheme" and x x' v
  assume "run_location env requesting c (db, x) = (Inr v, (db', x'))" "site_ok db"
  with ensuresD [OF run_location_step this(1)] show "site_ok db'" "location_leads requesting db db'" by (auto simp: saved_as_def)
qed (auto simp: leads_refl intro: leads_trans)

text \<open>C20. After every history of location requests of one caller, each in its own session: slugs are unique in
  their organization, codes on the platform; every location is still there, in its organization
  and with its code, and an archived one is archived; and a caller who acts for an organization
  has created and changed no location outside that organization and its direct children.\<close>

theorem location_history:
  assumes "site_ok db"
  shows "site_ok (fst (run_requests (run_location env requesting) calls (db, w))) \<and>
    location_leads requesting db (fst (run_requests (run_location env requesting) calls (db, w)))"
  using location_requests.history [OF assms] .


subsection \<open>The year of a code\<close>

lemma quotient_bounds:
  fixes n z :: int
  assumes "0 < n"
  shows "n * (z div n) \<le> z" and "z \<le> n * (z div n) + (n - 1)"
proof -
  have "z = n * (z div n) + z mod n" by simp
  moreover have "0 \<le> z mod n" "z mod n < n" using assms by simp_all
  ultimately show "n * (z div n) \<le> z" "z \<le> n * (z div n) + (n - 1)" by linarith+
qed

lemma days_before_year_bounds:
  "146097 * (y - 1) - 699 \<le> 400 * days_before_year y" "400 * days_before_year y \<le> 146097 * (y - 1) + 396"
proof -
  define z a b c where "z = y - 1" and "a = z div 4" and "b = z div 100" and "c = z div 400"
  have "4 * a \<le> z" "z \<le> 4 * a + 3" "100 * b \<le> z" "z \<le> 100 * b + 99" "400 * c \<le> z" "z \<le> 400 * c + 399"
    unfolding a_def b_def c_def using quotient_bounds [of 4 z] quotient_bounds [of 100 z] quotient_bounds [of 400 z] by simp_all
  moreover have "days_before_year y = z * 365 + a - b + c" by (simp add: days_before_year_def a_def b_def c_def z_def Let_def)
  ultimately show "146097 * (y - 1) - 699 \<le> 400 * days_before_year y" "400 * days_before_year y \<le> 146097 * (y - 1) + 396"
    by (simp_all add: algebra_simps z_def)
qed

text \<open>The year found for a day is the one whose days include it.\<close>

theorem year_of_ordinal_correct:
  "days_before_year (year_of_ordinal d) < d \<and> d \<le> days_before_year (year_of_ordinal d + 1)"
proof -
  define z where "z = (d - 1) * 400 div 146097"
  have z: "146097 * z \<le> 400 * (d - 1)" "400 * (d - 1) \<le> 146097 * z + 146096"
    unfolding z_def using quotient_bounds [of 146097 "(d - 1) * 400"] by simp_all
  have low: "days_before_year z < d" using days_before_year_bounds(2) [of z] z(1) by (simp add: algebra_simps)
  have "d - 2 \<le> days_before_year (z + 2)" using days_before_year_bounds(1) [of "z + 2"] z(2) by (simp add: algebra_simps)
  then have high: "d \<le> days_before_year (z + 3)" using year_length [of "z + 2"] by (simp add: add.commute split: if_splits)
  have year: "year_of_ordinal d = (if d \<le> days_before_year (z + 1) then z else if days_before_year (z + 2) < d then z + 2 else z + 1)"
    unfolding year_of_ordinal_def Let_def z_def [symmetric] by (simp add: add.commute)
  then have succ: "year_of_ordinal d + 1 = (if d \<le> days_before_year (z + 1) then z + 1 else if days_before_year (z + 2) < d then z + 3 else z + 2)"
    by simp
  show ?thesis unfolding succ unfolding year using low high by simp
qed


subsection \<open>The slug of an archived location\<close>

text \<open>The check for a duplicate slug does not see archived locations, the unique index does: the slug of an
  archived location can never be used again in its organization, and a request that tries fails
  with the database's error instead of \<open>DuplicateLocationSlugError\<close>, without having stored anything.\<close>

theorem archived_slug_blocked:
  assumes "l \<in> set (site_locations db)" and "lo_organization_id l = org" and "lo_slug l = location_slug (lc_slug c)"
    and "location_by_slug org (location_slug (lc_slug c)) db = None"
    and "get_by_id False org (site_orgs db) = Some o'" and "og_status o' = ORG_ACTIVE"
  shows "fst (create_location env actor org None c (db, w)) = Inl (PlatformDbError DuplicateRecordError)"
proof -
  have "\<not> location_keys (site_locations db @ [r])" if "lo_organization_id r = org" "lo_slug r = location_slug (lc_slug c)" for r
    using assms(1-3) that by (force simp: location_keys_def)
  then have "raises (\<lambda>e _ _. e = PlatformDbError DuplicateRecordError) (create_location env actor org None c) db w"
    using assms(4-6)
    by (auto simp: create_location_def assert_organization_accessible_def assert_organization_active_def site_get_organization_def pnow_def
        generate_location_code_def insert_in_def puuid4_def pdb_now_def create_row_def split_def Let_def location_row.defs base_model.defs)
  then show ?thesis by (auto simp: raises_def)
qed


subsection \<open>A small deployment\<close>

definition sample_platform_env :: platform_env where
  "sample_platform_env =
     \<lparr>time_at = (\<lambda>n. days 20000 + minutes (int n)), uuid_at = (\<lambda>n. ''id-'' @ replicate n CHR ''i''), zone_known = (\<lambda>_. True),
      utc_offset = (\<lambda>_ _. minutes 330), wall_offset = (\<lambda>_ _. minutes 330)\<rparr>"

definition sample_org :: "uuid \<Rightarrow> uuid option \<Rightarrow> organization_row" where
  "sample_org i parent =
     base_model.extend (new_base i 0 None)
       (organization_row.fields i i None MSP ORG_ACTIVE parent (i @ ''@example.com'') None ''Asia/Kolkata'' ''en''
          \<lparr>os_branding = None, os_other = []\<rparr> None)"

definition sample_location :: "uuid \<Rightarrow> uuid \<Rightarrow> location_row" where
  "sample_location i org =
     base_model.extend (new_base i 0 None)
       (location_row.fields org i i LOC_ACTIVE None (Some (''LOC-'' @ i)) ''Pune'' ''IN'' ''Asia/Kolkata'' None)"

definition sample_site :: site_db where
  "sample_site =
     \<lparr>site_orgs = [sample_org ''acme'' None, sample_org ''rival'' None],
      site_locations = [sample_location ''lobby'' ''acme'', sample_location ''annex'' ''rival''], site_counters = [], site_audits = [], site_guests = []\<rparr>"

definition sample_pworld :: platform_world where
  "sample_pworld = \<lparr>pw_clock = 0, pw_supply = 0\<rparr>"

definition sample_lobby :: location_create where
  "sample_lobby = \<lparr>lc_name = ''Lobby'', lc_slug = '' Lobby'', lc_status = LOC_ACTIVE, lc_property_type = None, lc_city = ''Pune'',
     lc_country = ''in'', lc_timezone = ''UTC'', lc_contact_email = None\<rparr>"

theorem location_history_witness:
  "site_ok (fst (run_requests (run_location sample_platform_env (Some ''acme''))
     [CreateLocation None ''acme'' (sample_lobby\<lparr>lc_slug := ''pool''\<rparr>), ArchiveLocation None ''annex'', ArchiveLocation None ''lobby'']
     (sample_site, sample_pworld)))"
proof -
  have "site_ok sample_site" by code_simp
  from location_history [OF this] show ?thesis by blast
qed

definition archived_site :: site_db where
  "archived_site = sample_site\<lparr>site_locations := [(sample_location ''lobby'' ''acme'')\<lparr>lo_status := LOC_ARCHIVED, is_deleted := True\<rparr>]\<rparr>"

theorem archived_slug_blocked_witness:
  "fst (create_location sample_platform_env None ''acme'' None sample_lobby (archived_site, sample_pworld)) =
     Inl (PlatformDbError DuplicateRecordError)"
proof -
  let ?l = "(sample_location ''lobby'' ''acme'')\<lparr>lo_status := LOC_ARCHIVED, is_deleted := True\<rparr>"
  have "?l \<in> set (site_locations archived_site)" by (simp add: archived_site_def)
  moreover have "lo_organization_id ?l = ''acme''" "lo_slug ?l = location_slug (lc_slug sample_lobby)"
    "location_by_slug ''acme'' (location_slug (lc_slug sample_lobby)) archived_site = None"
    "get_by_id False ''acme'' (site_orgs archived_site) = Some (sample_org ''acme'' None)"
    "og_status (sample_org ''acme'' None) = ORG_ACTIVE" by code_simp+
  ultimately show ?thesis by (rule archived_slug_blocked)
qed

end
