(* ===== verification/AccessTier.thy ===== *)
theory AccessTier
  imports Locations "HOL-Library.AList"
begin

section \<open>Access tiers\<close>

text \<open>
  \<open>app/domains/policy/access_tier.py\<close>: what a guest's tier says, how it is read from the stored
  rules of a bandwidth policy, how it is laid over the rules of the venue, and the login hours.
  The rules of a policy are a JSON object, a list of keys with values; a \<open>float\<close> is the rational
  number it denotes.
\<close>

subsection \<open>Stored rules\<close>

datatype (plugins only: code) json =
    JNull
  | JBool bool
  | JInt int
  | JFloat rat
  | JStr string
  | JArr "json list"
  | JObj "(string \<times> json) list"

type_synonym json_object = "(string \<times> json) list"

definition json_get :: "string \<Rightarrow> json_object \<Rightarrow> json" where
  "json_get key d = (case map_of d key of None \<Rightarrow> JNull | Some v \<Rightarrow> v)"

definition json_update :: "json_object \<Rightarrow> json_object \<Rightarrow> json_object" where
  "json_update d e = fold (\<lambda>(k, v). AList.update k v) e d"

datatype PolicyType =
    PT_AUTHN | PT_SESSION | PT_BANDWIDTH | PT_FUP | PT_BUSINESS_HOURS | PT_ACCESS | PT_VLAN | PT_QOS | PT_ROUTING | PT_VOUCHER | PT_DEVICE


subsection \<open>Reading a tier\<close>

text \<open>\<open>int(value)\<close> cuts a fraction towards zero.\<close>

definition truncated :: "rat \<Rightarrow> int" where
  "truncated q = (if 0 \<le> q then \<lfloor>q\<rfloor> else \<lceil>q\<rceil>)"

definition positive_int :: "bool \<Rightarrow> int \<Rightarrow> int option" where
  "positive_int allow_zero n = (if n < 0 \<or> n = 0 \<and> \<not> allow_zero then None else Some n)"

fun positive_int_or_none :: "bool \<Rightarrow> json \<Rightarrow> int option" where
  "positive_int_or_none allow_zero (JInt n) = positive_int allow_zero n"
| "positive_int_or_none allow_zero (JFloat q) = positive_int allow_zero (truncated q)"
| "positive_int_or_none _ _ = None"

datatype reset_period = PerSession | Daily | Weekly | Monthly

definition spaced :: "string \<Rightarrow> string" where
  "spaced s = map (\<lambda>c. if c = CHR 0x5F \<or> c = CHR ''-'' then CHR '' '' else c) s"

fun normalize_reset_period :: "json \<Rightarrow> reset_period option" where
  "normalize_reset_period (JStr s) =
     (let key = spaced (py_lower (py_strip s))
      in if key \<in> {''per session'', ''session'', ''each session''} then Some PerSession
         else if key \<in> {''daily'', ''day'', ''per day''} then Some Daily
         else if key \<in> {''weekly'', ''week'', ''per week''} then Some Weekly
         else if key \<in> {''monthly'', ''month'', ''per month''} then Some Monthly
         else None)"
| "normalize_reset_period _ = None"

definition UNIT_TO_MB :: "(string \<times> int) list" where
  "UNIT_TO_MB = [(''mb'', 1), (''gb'', 1024), (''tb'', 1024 * 1024)]"

text \<open>\<open>str(data_limit.get("unit") or "MB")\<close>: a value that counts as false is \<open>"MB"\<close>; the text of any other
  value that is not a string is none of the units.\<close>

fun unit_text :: "json \<Rightarrow> string option" where
  "unit_text (JStr s) = Some (if s = [] then ''MB'' else s)"
| "unit_text JNull = Some ''MB''"
| "unit_text (JBool b) = (if b then None else Some ''MB'')"
| "unit_text (JInt n) = (if n = 0 then Some ''MB'' else None)"
| "unit_text (JFloat q) = (if q = 0 then Some ''MB'' else None)"
| "unit_text (JArr xs) = (if xs = [] then Some ''MB'' else None)"
| "unit_text (JObj d) = (if d = [] then Some ''MB'' else None)"

definition unit_factor :: "json \<Rightarrow> int option" where
  "unit_factor u = (case unit_text u of None \<Rightarrow> None | Some s \<Rightarrow> map_of UNIT_TO_MB (py_lower (py_strip s)))"

fun data_limit_to_mb :: "json \<Rightarrow> int option" where
  "data_limit_to_mb (JObj d) =
     (case json_get ''quota'' d of
        JInt n \<Rightarrow> if n < 0 then None else map_option (\<lambda>factor. n * factor) (unit_factor (json_get ''unit'' d))
      | JFloat q \<Rightarrow> if q < 0 then None else map_option (\<lambda>factor. \<lceil>q * of_int factor\<rceil>) (unit_factor (json_get ''unit'' d))
      | _ \<Rightarrow> None)"
| "data_limit_to_mb _ = None"

record access_tier =
  at_policy_id :: uuid
  at_name :: "string option"
  at_download_rate_kbps :: "int option"
  at_upload_rate_kbps :: "int option"
  at_session_timeout_minutes :: "int option"
  at_idle_timeout_minutes :: "int option"
  at_devices_per_user :: "int option"
  at_daily_limit_minutes :: "int option"
  at_data_limit_mb :: "int option"
  at_data_limit_period :: "reset_period option"
  at_login_hours :: "json_object option"

definition session_data_limit_mb :: "access_tier \<Rightarrow> int option" where
  "session_data_limit_mb tier =
     (if at_data_limit_period tier = Some PerSession \<and> at_data_limit_mb tier \<noteq> Some 0 then at_data_limit_mb tier else None)"

definition access_tier_from_rules :: "uuid \<Rightarrow> json_object \<Rightarrow> string option \<Rightarrow> access_tier" where
  "access_tier_from_rules policy_id rules name =
     (let data_limit = json_get ''data_limit'' rules;
          period = (case data_limit of JObj d \<Rightarrow> normalize_reset_period (json_get ''resets'' d) | _ \<Rightarrow> None);
          limit_mb = (if period = None then None else data_limit_to_mb data_limit)
      in \<lparr>at_policy_id = policy_id, at_name = name,
          at_download_rate_kbps = positive_int_or_none True (json_get ''download_rate_kbps'' rules),
          at_upload_rate_kbps = positive_int_or_none True (json_get ''upload_rate_kbps'' rules),
          at_session_timeout_minutes = positive_int_or_none False (json_get ''session_timeout_minutes'' rules),
          at_idle_timeout_minutes = positive_int_or_none False (json_get ''idle_timeout_minutes'' rules),
          at_devices_per_user = positive_int_or_none False (json_get ''devices_per_user'' rules),
          at_daily_limit_minutes = positive_int_or_none True (json_get ''daily_limit_minutes'' rules),
          at_data_limit_mb = limit_mb, at_data_limit_period = (if limit_mb = None then None else period),
          at_login_hours = (case json_get ''login_hours'' rules of JObj d \<Rightarrow> Some d | _ \<Rightarrow> None)\<rparr>)"


subsection \<open>Laying a tier over the rules of the venue\<close>

fun DATA_LIMIT_PERIOD_KEY :: "reset_period \<Rightarrow> string option" where
  "DATA_LIMIT_PERIOD_KEY Daily = Some ''daily_data_limit_mb''"
| "DATA_LIMIT_PERIOD_KEY Weekly = Some ''weekly_data_limit_mb''"
| "DATA_LIMIT_PERIOD_KEY Monthly = Some ''monthly_data_limit_mb''"
| "DATA_LIMIT_PERIOD_KEY PerSession = None"

definition FUP_DATA_LIMIT_KEYS :: "string list" where
  "FUP_DATA_LIMIT_KEYS = [''daily_data_limit_mb'', ''weekly_data_limit_mb'', ''monthly_data_limit_mb'']"

definition put_if_set :: "string \<Rightarrow> int option \<Rightarrow> json_object \<Rightarrow> json_object" where
  "put_if_set key v d = (case v of None \<Rightarrow> d | Some n \<Rightarrow> AList.update key (JInt n) d)"

definition put_data_limit :: "access_tier \<Rightarrow> json_object \<Rightarrow> json_object" where
  "put_data_limit tier d =
     (case at_data_limit_period tier of
        None \<Rightarrow> d
      | Some period \<Rightarrow>
          (let cleared = fold (\<lambda>key. AList.update key JNull) FUP_DATA_LIMIT_KEYS d
           in case (DATA_LIMIT_PERIOD_KEY period, at_data_limit_mb tier) of
                (Some key, Some mb) \<Rightarrow> if mb = 0 then cleared else AList.update key (JInt mb) cleared
              | _ \<Rightarrow> cleared))"

definition tier_overrides :: "PolicyType \<Rightarrow> access_tier \<Rightarrow> json_object" where
  "tier_overrides policy_type tier =
     (case policy_type of
        PT_SESSION \<Rightarrow>
          put_if_set ''idle_timeout_minutes'' (at_idle_timeout_minutes tier)
            (put_if_set ''session_timeout_minutes'' (at_session_timeout_minutes tier) [])
      | PT_DEVICE \<Rightarrow> put_if_set ''max_devices_per_guest'' (at_devices_per_user tier) []
      | PT_FUP \<Rightarrow>
          put_data_limit tier
            (case at_daily_limit_minutes tier of
               None \<Rightarrow> []
             | Some n \<Rightarrow> [(''daily_time_limit_minutes'', if n = 0 then JNull else JInt n)])
      | _ \<Rightarrow> [])"

text \<open>\<open>_with_access_tier\<close> of the guest service.\<close>

definition with_access_tier :: "PolicyType \<Rightarrow> json_object \<Rightarrow> access_tier option \<Rightarrow> json_object" where
  "with_access_tier policy_type rules tier =
     (case tier of
        None \<Rightarrow> rules
      | Some t \<Rightarrow> (let overrides = tier_overrides policy_type t in if overrides = [] then rules else json_update rules overrides))"


subsection \<open>Login hours\<close>

text \<open>
  \<open>parse\<close> is \<open>time.fromisoformat\<close> on the stripped text. Two aware times of one zone are compared and
  subtracted by their wall clocks, so the whole computation is on the wall clock of the zone.
\<close>

record wall_time =
  wt_hour :: int
  wt_minute :: int
  wt_second :: int
  wt_microsecond :: int

type_synonym time_parser = "string \<Rightarrow> wall_time option"

fun parse_hhmm :: "time_parser \<Rightarrow> json \<Rightarrow> wall_time option" where
  "parse_hhmm parse (JStr s) = parse (py_strip s)"
| "parse_hhmm parse _ = None"

definition DAY_INDEX :: "(string \<times> int) list" where
  "DAY_INDEX = [(''mon'', 0), (''tue'', 1), (''wed'', 2), (''thu'', 3), (''fri'', 4), (''sat'', 5), (''sun'', 6)]"

fun day_index :: "json \<Rightarrow> int option" where
  "day_index (JStr s) = map_of DAY_INDEX (take 3 (py_lower (py_strip s)))"
| "day_index _ = None"

text \<open>A list of no days, or a value that counts as false, is every day.\<close>

fun day_indexes :: "json \<Rightarrow> int list option" where
  "day_indexes (JArr xs) =
     (if xs = [] then Some [0..6]
      else let found = List.map_filter day_index xs in if found = [] then None else Some found)"
| "day_indexes JNull = Some [0..6]"
| "day_indexes (JBool b) = (if b then None else Some [0..6])"
| "day_indexes (JInt n) = (if n = 0 then Some [0..6] else None)"
| "day_indexes (JFloat q) = (if q = 0 then Some [0..6] else None)"
| "day_indexes (JStr s) = (if s = [] then Some [0..6] else None)"
| "day_indexes (JObj d) = (if d = [] then Some [0..6] else None)"

definition zone_or_utc :: "platform_env \<Rightarrow> string option \<Rightarrow> string" where
  "zone_or_utc env tz_name =
     (case tz_name of None \<Rightarrow> ''UTC'' | Some z \<Rightarrow> if z \<noteq> [] \<and> zone_known env z then z else ''UTC'')"

definition wall_clock :: "platform_env \<Rightarrow> string option \<Rightarrow> datetime \<Rightarrow> int" where
  "wall_clock env tz_name t = t + utc_offset env (zone_or_utc env tz_name) t"

definition hours :: "int \<Rightarrow> int" where
  "hours n = minutes (60 * n)"

definition wall_microseconds :: "wall_time \<Rightarrow> int" where
  "wall_microseconds w = hours (wt_hour w) + minutes (wt_minute w) + seconds (wt_second w) + wt_microsecond w"

definition weekday_of :: "int \<Rightarrow> int" where
  "weekday_of day = (day + EPOCH_ORDINAL + 6) mod 7"

definition login_window :: "wall_time \<Rightarrow> wall_time \<Rightarrow> int \<Rightarrow> int \<times> int" where
  "login_window start end' day =
     (let opens = days day + hours (wt_hour start) + minutes (wt_minute start);
          closes = days day + hours (wt_hour end') + minutes (wt_minute end') + seconds 59 + 999999
      in (opens,
          if start = end' then opens + days 1 - 1
          else if wall_microseconds end' < wall_microseconds start then closes + days 1 else closes))"

datatype standing = NoRestriction | Closed | SecondsLeft int

definition standing_in :: "wall_time \<Rightarrow> wall_time \<Rightarrow> int list \<Rightarrow> int \<Rightarrow> int \<Rightarrow> standing option" where
  "standing_in start end' on moment day =
     (let (opens, closes) = login_window start end' day
      in if weekday_of day \<in> set on \<and> opens \<le> moment \<and> moment \<le> closes
         then Some (SecondsLeft (max (ceil_div (closes - moment) (seconds 1)) 1)) else None)"

definition login_hours_standing ::
  "platform_env \<Rightarrow> time_parser \<Rightarrow> json_object option \<Rightarrow> string option \<Rightarrow> datetime \<Rightarrow> standing" where
  "login_hours_standing env parse login_hours tz_name now =
     (case login_hours of
        None \<Rightarrow> NoRestriction
      | Some h \<Rightarrow>
          (case (parse_hhmm parse (json_get ''start_time'' h), parse_hhmm parse (json_get ''end_time'' h), day_indexes (json_get ''days'' h)) of
             (Some start, Some end', Some on) \<Rightarrow>
               (let moment = wall_clock env tz_name now; today = moment div days 1
                in case standing_in start end' on moment today of
                     Some s \<Rightarrow> s
                   | None \<Rightarrow>
                       (case standing_in start end' on moment (today - 1) of Some s \<Rightarrow> s | None \<Rightarrow> Closed))
           | _ \<Rightarrow> NoRestriction))"

end
