(* ===== verification/TierRules.thy ===== *)
theory TierRules
  imports AccessTier LocationRules
begin

section \<open>The rules of access tiers\<close>

text \<open>
  The precedence of a tier over the venue, field by field, against a table of what the tier says
  about each key; and the login hours, against the windows of all days.
\<close>

subsection \<open>Precedence\<close>

text \<open>What a tier says about a key of the rules: nothing, or a value that replaces the venue's.\<close>

definition tier_value :: "PolicyType \<Rightarrow> access_tier \<Rightarrow> string \<Rightarrow> json option" where
  "tier_value policy_type tier key =
     (case policy_type of
        PT_SESSION \<Rightarrow>
          if key = ''session_timeout_minutes'' then map_option JInt (at_session_timeout_minutes tier)
          else if key = ''idle_timeout_minutes'' then map_option JInt (at_idle_timeout_minutes tier) else None
      | PT_DEVICE \<Rightarrow> if key = ''max_devices_per_guest'' then map_option JInt (at_devices_per_user tier) else None
      | PT_FUP \<Rightarrow>
          if key = ''daily_time_limit_minutes''
          then map_option (\<lambda>n. if n = 0 then JNull else JInt n) (at_daily_limit_minutes tier)
          else if key \<in> set FUP_DATA_LIMIT_KEYS
          then map_option (\<lambda>period. case at_data_limit_mb tier of
                  None \<Rightarrow> JNull
                | Some mb \<Rightarrow> if DATA_LIMIT_PERIOD_KEY period = Some key \<and> mb \<noteq> 0 then JInt mb else JNull) (at_data_limit_period tier)
          else None
      | _ \<Rightarrow> None)"

lemma map_of_json_update: "distinct (map fst e) \<Longrightarrow> map_of (json_update d e) = map_of d ++ map_of e"
  unfolding json_update_def
proof (induction e arbitrary: d)
  case (Cons p e)
  then have "map_of e (fst p) = None" by (simp add: map_of_eq_None_iff)
  with Cons show ?case by (cases p) (auto simp: update_conv' map_add_def fun_eq_iff split: option.splits)
qed simp

lemma distinct_put_if_set: "distinct (map fst d) \<Longrightarrow> distinct (map fst (put_if_set key v d))"
  by (simp add: put_if_set_def distinct_update split: option.split)

lemma distinct_put_data_limit: "distinct (map fst d) \<Longrightarrow> distinct (map fst (put_data_limit tier d))"
  by (simp add: put_data_limit_def FUP_DATA_LIMIT_KEYS_def Let_def distinct_update split: option.split)

lemma distinct_overrides: "distinct (map fst (tier_overrides policy_type tier))"
  by (cases policy_type) (simp_all add: tier_overrides_def distinct_put_if_set distinct_put_data_limit split: option.split)

lemma map_of_put_if_set: "map_of (put_if_set key v d) k = (if k = key \<and> v \<noteq> None then map_option JInt v else map_of d k)"
  by (simp add: put_if_set_def update_conv' split: option.split)

lemma map_of_put_data_limit:
  "map_of (put_data_limit tier d) k =
     (if at_data_limit_period tier \<noteq> None \<and> k \<in> set FUP_DATA_LIMIT_KEYS then tier_value PT_FUP tier k else map_of d k)"
proof (cases "at_data_limit_period tier")
  case (Some period)
  then show ?thesis
    by (cases period) (auto simp: put_data_limit_def tier_value_def FUP_DATA_LIMIT_KEYS_def Let_def update_conv' split: option.split)
qed (simp add: put_data_limit_def)

lemma map_of_overrides: "map_of (tier_overrides policy_type tier) key = tier_value policy_type tier key"
proof (cases policy_type)
  case PT_FUP
  have "''daily_time_limit_minutes'' \<notin> set FUP_DATA_LIMIT_KEYS" by (simp add: FUP_DATA_LIMIT_KEYS_def)
  with PT_FUP show ?thesis by (auto simp: tier_overrides_def map_of_put_data_limit tier_value_def split: option.split)
qed (simp_all add: tier_overrides_def tier_value_def map_of_put_if_set split: option.split)

text \<open>A field the tier sets replaces the value of the venue, a field it does not set leaves it, and no other
  key changes. "No limit" clears a cap: a tier never writes a cap of zero minutes or of zero
  megabytes. A data limit replaces the caps of all three periods.\<close>

theorem tier_precedence:
  "json_get key (with_access_tier policy_type rules (Some tier)) =
     (case tier_value policy_type tier key of None \<Rightarrow> json_get key rules | Some v \<Rightarrow> v)"
  using map_of_json_update [OF distinct_overrides, of rules policy_type tier] map_of_overrides [of policy_type tier key]
  by (auto simp: with_access_tier_def json_get_def Let_def map_add_def split: option.splits)


subsection \<open>Login hours\<close>

definition valid_wall :: "wall_time \<Rightarrow> bool" where
  "valid_wall w \<longleftrightarrow> 0 \<le> wt_hour w \<and> wt_hour w < 24 \<and> 0 \<le> wt_minute w \<and> wt_minute w < 60 \<and>
     0 \<le> wt_second w \<and> wt_second w < 60 \<and> 0 \<le> wt_microsecond w \<and> wt_microsecond w < 1000000"

text \<open>The window that starts on a day.\<close>

definition open_at :: "wall_time \<Rightarrow> wall_time \<Rightarrow> int list \<Rightarrow> int \<Rightarrow> int \<Rightarrow> bool" where
  "open_at start end' on moment day \<longleftrightarrow>
     weekday_of day \<in> set on \<and> fst (login_window start end' day) \<le> moment \<and> moment \<le> snd (login_window start end' day)"

lemmas clock_defs = days_linear hours_def minutes_def seconds_def

lemma overnight_minute:
  assumes "valid_wall start" and "valid_wall end'" and "wall_microseconds end' < wall_microseconds start"
  shows "60 * wt_hour end' + wt_minute end' \<le> 60 * wt_hour start + wt_minute start"
proof (rule ccontr)
  assume "\<not> ?thesis"
  then have "60 * wt_hour start + wt_minute start + 1 \<le> 60 * wt_hour end' + wt_minute end'" by simp
  then have "(60 * wt_hour start + wt_minute start + 1) * 60000000 \<le> (60 * wt_hour end' + wt_minute end') * 60000000"
    by (rule mult_right_mono) simp
  with assms show False by (simp add: valid_wall_def wall_microseconds_def clock_defs algebra_simps)
qed

lemma window_bounds:
  assumes "valid_wall start" and "valid_wall end'"
  shows "days day \<le> fst (login_window start end' day)" and "snd (login_window start end' day) < days day + 2 * days 1"
    and "snd (login_window start end' day) < fst (login_window start end' day) + days 1 + minutes 1"
  using assms overnight_minute [OF assms] by (auto simp: login_window_def valid_wall_def Let_def clock_defs)

lemma open_today_or_yesterday:
  assumes "valid_wall start" and "valid_wall end'" and "open_at start end' on moment day"
  shows "day = moment div days 1 \<or> day = moment div days 1 - 1"
proof -
  define q where "q = moment div days 1"
  have "q * days 1 \<le> moment" "moment < (q + 1) * days 1"
    using quotient_bounds [of "days 1" moment] by (simp_all add: q_def days_linear algebra_simps)
  moreover have "day * days 1 \<le> moment" "moment < (day + 2) * days 1"
    using window_bounds [OF assms(1,2), of day] assms(3) by (auto simp: open_at_def days_linear algebra_simps)
  ultimately have "day * days 1 < (q + 1) * days 1" "q * days 1 < (day + 2) * days 1" by simp_all
  then have "day < q + 1" "q < day + 2" by (simp_all add: days_linear)
  then show ?thesis by (auto simp: q_def)
qed

lemma standing_in_alt:
  "standing_in start end' on moment day =
     (if open_at start end' on moment day
      then Some (SecondsLeft (max (ceil_div (snd (login_window start end' day) - moment) (seconds 1)) 1)) else None)"
  by (simp add: standing_in_def open_at_def split_def Let_def)

lemma seconds_left_bounds:
  fixes c :: int
  assumes "0 \<le> c" and "s = max (ceil_div c (seconds 1)) 1"
  shows "seconds (s - 1) \<le> c" and "c \<le> seconds s" and "1 \<le> s"
  using assms ceil_div_bounds [of "seconds 1" c] by (auto simp: seconds_def max_def algebra_simps)

text \<open>C38. A sign-in is refused exactly when no window of any day contains the moment: to look at the windows
  of today and yesterday is enough. Inside a window the allowance is at least a second, ends
  within a second of the closing, and is at most a day and a minute.\<close>

theorem login_hours_decided:
  assumes "parse_hhmm parse (json_get ''start_time'' h) = Some start" and "parse_hhmm parse (json_get ''end_time'' h) = Some end'"
    and "day_indexes (json_get ''days'' h) = Some on" and "valid_wall start" and "valid_wall end'"
  shows "case login_hours_standing env parse (Some h) tz now of
           NoRestriction \<Rightarrow> False
         | Closed \<Rightarrow> \<not> (\<exists>day. open_at start end' on (wall_clock env tz now) day)
         | SecondsLeft s \<Rightarrow> 1 \<le> s \<and> s \<le> 86460 \<and> (\<exists>day. open_at start end' on (wall_clock env tz now) day \<and>
             wall_clock env tz now + seconds (s - 1) \<le> snd (login_window start end' day) \<and>
             snd (login_window start end' day) \<le> wall_clock env tz now + seconds s)"
proof -
  define m where "m = wall_clock env tz now"
  have inside: "1 \<le> s \<and> s \<le> 86460 \<and> (\<exists>day. open_at start end' on m day \<and>
      m + seconds (s - 1) \<le> snd (login_window start end' day) \<and> snd (login_window start end' day) \<le> m + seconds s)"
    if "open_at start end' on m day" and s: "s = max (ceil_div (snd (login_window start end' day) - m) (seconds 1)) 1" for day s
  proof -
    have "0 \<le> snd (login_window start end' day) - m" using that(1) by (simp add: open_at_def)
    note b = seconds_left_bounds [OF this s]
    have "snd (login_window start end' day) - m < days 1 + minutes 1"
      using window_bounds(3) [OF assms(4,5), of day] that(1) by (auto simp: open_at_def)
    with b(1) have "s \<le> 86460" by (simp add: clock_defs)
    with b that(1) show ?thesis by (intro conjI exI [of _ day]) auto
  qed
  have outside: "\<not> open_at start end' on m day"
    if "\<not> open_at start end' on m (m div days 1)" "\<not> open_at start end' on m (m div days 1 - 1)" for day
    using open_today_or_yesterday [OF assms(4,5), of on m day] that by auto
  show ?thesis using inside outside assms(1-3)
    unfolding m_def [symmetric]
    by (auto simp: login_hours_standing_def standing_in_alt Let_def m_def [symmetric] split: if_splits)
qed


definition at_ten :: wall_time where
  "at_ten = \<lparr>wt_hour = 22, wt_minute = 0, wt_second = 0, wt_microsecond = 0\<rparr>"

definition at_six :: wall_time where
  "at_six = \<lparr>wt_hour = 6, wt_minute = 0, wt_second = 0, wt_microsecond = 0\<rparr>"

definition sample_parser :: time_parser where
  "sample_parser s = (if s = ''22:00'' then Some at_ten else if s = ''06:00'' then Some at_six else None)"

definition sample_hours :: json_object where
  "sample_hours = [(''days'', JArr [JStr ''Friday'']), (''start_time'', JStr ''22:00''), (''end_time'', JStr '' 06:00'')]"

text \<open>On a Saturday at three in the morning the window of Friday night is open for three hours and a minute more.\<close>

theorem login_hours_decided_witness:
  "weekday_of 20001 = 5 \<and>
   (\<exists>day. open_at at_ten at_six [4] (days 20001 + hours 3) day \<and>
      snd (login_window at_ten at_six day) \<le> days 20001 + hours 3 + seconds 10860)"
proof -
  have "parse_hhmm sample_parser (json_get ''start_time'' sample_hours) = Some at_ten"
    "parse_hhmm sample_parser (json_get ''end_time'' sample_hours) = Some at_six"
    "day_indexes (json_get ''days'' sample_hours) = Some [4]" "valid_wall at_ten" "valid_wall at_six" by code_simp+
  note decided = login_hours_decided [OF this, of sample_platform_env None "days 20001 + hours 3 - minutes 330"]
  have now: "wall_clock sample_platform_env None (days 20001 + hours 3 - minutes 330) = days 20001 + hours 3" by code_simp
  have "login_hours_standing sample_platform_env sample_parser (Some sample_hours) None (days 20001 + hours 3 - minutes 330) = SecondsLeft 10860"
    by code_simp
  moreover have "weekday_of 20001 = 5" by code_simp
  ultimately show ?thesis using decided unfolding now by auto
qed

end
