(* ===== verification/Policy.thy ===== *)
theory Policy
  imports AccessTier
begin

section \<open>Policies\<close>

text \<open>
  \<open>PolicyService\<close> of \<open>app/domains/policy/service.py\<close> with its validators, its repository and the resolver. A
  policy has numbered versions and points at the live one; an assignment attaches it to a place
  (the WHERE axis) and, on a second axis, to everyone there, a user, a role or a guest. The rules of
  a version are validated by the Pydantic schema of their type, the parameter \<open>schema\<close>.
\<close>

subsection \<open>Data\<close>

datatype PolicyAssignmentTargetType = TARGET_NONE | TARGET_USER | TARGET_ROLE | TARGET_GUEST | TARGET_MEMBERS

fun target_value :: "PolicyAssignmentTargetType \<Rightarrow> string" where
  "target_value TARGET_NONE = ''none''"
| "target_value TARGET_USER = ''user''"
| "target_value TARGET_ROLE = ''role''"
| "target_value TARGET_GUEST = ''guest''"
| "target_value TARGET_MEMBERS = ''members''"

definition parse_target :: "string \<Rightarrow> PolicyAssignmentTargetType option" where
  "parse_target s = find (\<lambda>t. target_value t = s) [TARGET_NONE, TARGET_USER, TARGET_ROLE, TARGET_GUEST, TARGET_MEMBERS]"

datatype PolicyVersionStatus = PV_DRAFT | PV_PUBLISHED

fun PolicyVersionStatus_value :: "PolicyVersionStatus \<Rightarrow> string" where
  "PolicyVersionStatus_value PV_DRAFT = ''draft''"
| "PolicyVersionStatus_value PV_PUBLISHED = ''published''"

fun POLICY_VERSION_STATUS_TRANSITIONS :: "PolicyVersionStatus \<Rightarrow> PolicyVersionStatus list" where
  "POLICY_VERSION_STATUS_TRANSITIONS PV_DRAFT = [PV_PUBLISHED]"
| "POLICY_VERSION_STATUS_TRANSITIONS PV_PUBLISHED = []"

fun PolicyType_value :: "PolicyType \<Rightarrow> string" where
  "PolicyType_value PT_AUTHN = ''authn''"
| "PolicyType_value PT_SESSION = ''session''"
| "PolicyType_value PT_BANDWIDTH = ''bandwidth''"
| "PolicyType_value PT_FUP = ''fup''"
| "PolicyType_value PT_BUSINESS_HOURS = ''business_hours''"
| "PolicyType_value PT_ACCESS = ''access''"
| "PolicyType_value PT_VLAN = ''vlan''"
| "PolicyType_value PT_QOS = ''qos''"
| "PolicyType_value PT_ROUTING = ''routing''"
| "PolicyType_value PT_VOUCHER = ''voucher''"
| "PolicyType_value PT_DEVICE = ''device''"

fun PLATFORM_DEFAULT_RULES :: "PolicyType \<Rightarrow> json_object" where
  "PLATFORM_DEFAULT_RULES PT_SESSION =
     [(''session_timeout_minutes'', JInt 240), (''max_concurrent_sessions_per_guest'', JInt 20), (''idle_timeout_minutes'', JInt 30),
      (''termination_reconnect_cooldown_minutes'', JInt 60), (''reconnect_grace_minutes'', JInt 30)]"
| "PLATFORM_DEFAULT_RULES PT_AUTHN = [(''max_attempts_per_window'', JInt 30), (''window_minutes'', JInt 1)]"
| "PLATFORM_DEFAULT_RULES PT_DEVICE = [(''max_devices_per_guest'', JInt 3), (''require_known_device'', JBool False)]"
| "PLATFORM_DEFAULT_RULES _ = []"

record policy_row = base_model +
  pl_organization_id :: "uuid option"
  pl_policy_type :: PolicyType
  pl_name :: string
  pl_description :: "string option"
  pl_is_active :: bool
  pl_current_version_id :: "uuid option"
  pl_created_by_user_id :: "uuid option"

record policy_version = base_model +
  pv_policy_id :: uuid
  pv_version_number :: int
  pv_status :: PolicyVersionStatus
  pv_rules :: json_object
  pv_published_at :: "datetime option"
  pv_created_by_user_id :: "uuid option"

record policy_assignment = base_model +
  pa_policy_id :: uuid
  pa_scope_type :: ScopeType
  pa_scope_id :: "uuid option"
  pa_target_type :: PolicyAssignmentTargetType
  pa_target_id :: "uuid option"
  pa_priority :: int
  pa_is_active :: bool
  pa_created_by_user_id :: "uuid option"

text \<open>Of a role the service reads the organization, of a user only that it exists.\<close>

record tenant_role = base_model +
  tr_organization_id :: "uuid option"

record policy_db = site_db +
  pd_policies :: "policy_row list"
  pd_versions :: "policy_version list"
  pd_assignments :: "policy_assignment list"
  pd_users :: "base_model list"
  pd_roles :: "tenant_role list"

definition version_keys :: "policy_version list \<Rightarrow> bool" where
  "version_keys t \<longleftrightarrow> distinct (map (\<lambda>v. (pv_policy_id v, pv_version_number v)) t)"


subsection \<open>Validators\<close>

definition validate_version_status_transition :: "PolicyVersionStatus \<Rightarrow> PolicyVersionStatus \<Rightarrow> platform_exc + unit" where
  "validate_version_status_transition current target =
     (if target \<in> set (POLICY_VERSION_STATUS_TRANSITIONS current) then Inr ()
      else Inl (InvalidPolicyVersionStatusTransitionError (PolicyVersionStatus_value current) (PolicyVersionStatus_value target)))"

definition validate_assignment_scope :: "string \<Rightarrow> uuid option \<Rightarrow> platform_exc + ScopeType" where
  "validate_assignment_scope scope_type scope_id =
     (case parse_scope scope_type of
        None \<Rightarrow> Inl (InvalidPolicyAssignmentScopeTypeError scope_type)
      | Some s \<Rightarrow>
          if s = GLOBAL then (if scope_id \<noteq> None then Inl PolicyAssignmentScopeIdNotAllowedError else Inr s)
          else if scope_id = None then Inl (PolicyAssignmentScopeIdRequiredError scope_type) else Inr s)"

definition validate_assignment_target :: "string \<Rightarrow> uuid option \<Rightarrow> platform_exc + PolicyAssignmentTargetType" where
  "validate_assignment_target target_type target_id =
     (case parse_target target_type of
        None \<Rightarrow> Inl (InvalidPolicyAssignmentTargetTypeError target_type)
      | Some t \<Rightarrow>
          if t \<in> {TARGET_NONE, TARGET_MEMBERS}
          then (if target_id \<noteq> None then Inl PolicyAssignmentTargetIdNotAllowedError else Inr t)
          else if target_id = None then Inl (PolicyAssignmentTargetIdRequiredError target_type) else Inr t)"

type_synonym rules_schema = "PolicyType \<Rightarrow> json_object \<Rightarrow> string + json_object"

definition validate_rules :: "rules_schema \<Rightarrow> PolicyType \<Rightarrow> json_object \<Rightarrow> platform_exc + json_object" where
  "validate_rules schema policy_type rules =
     (case schema policy_type rules of
        Inl why \<Rightarrow> Inl (PolicyRulesValidationError (PolicyType_value policy_type) why)
      | Inr validated \<Rightarrow> Inr validated)"


subsection \<open>The resolver\<close>

fun SCOPE_SPECIFICITY :: "ScopeType \<Rightarrow> int" where
  "SCOPE_SPECIFICITY GLOBAL = 0"
| "SCOPE_SPECIFICITY ORGANIZATION = 1"
| "SCOPE_SPECIFICITY LOCATION = 2"
| "SCOPE_SPECIFICITY _ = -1"

fun TARGET_SPECIFICITY :: "PolicyAssignmentTargetType \<Rightarrow> int" where
  "TARGET_SPECIFICITY TARGET_NONE = 0"
| "TARGET_SPECIFICITY TARGET_ROLE = 1"
| "TARGET_SPECIFICITY TARGET_USER = 2"
| "TARGET_SPECIFICITY TARGET_GUEST = 3"
| "TARGET_SPECIFICITY TARGET_MEMBERS = -1"

definition resolution_key :: "policy_assignment \<Rightarrow> int \<times> int \<times> int \<times> datetime \<times> string" where
  "resolution_key a =
     (TARGET_SPECIFICITY (pa_target_type a), SCOPE_SPECIFICITY (pa_scope_type a), pa_priority a, created_at a, row_id a)"

text \<open>Python's \<open>max\<close> keeps the first of the largest elements.\<close>

fun max_by :: "('a \<Rightarrow> 'k::linorder) \<Rightarrow> 'a list \<Rightarrow> 'a option" where
  "max_by key [] = None"
| "max_by key (x # xs) = Some (foldl (\<lambda>m y. if key m < key y then y else m) x xs)"

definition resolve_winner :: "policy_assignment list \<Rightarrow> policy_assignment option" where
  "resolve_winner candidates = max_by resolution_key candidates"


subsection \<open>Repository statements\<close>

definition policy_by_id :: "uuid \<Rightarrow> 'a policy_db_scheme \<Rightarrow> policy_row option" where
  "policy_by_id i db = get_by_id False i (pd_policies db)"

definition version_by_id :: "uuid \<Rightarrow> 'a policy_db_scheme \<Rightarrow> policy_version option" where
  "version_by_id i db = get_by_id False i (pd_versions db)"

definition assignment_by_id :: "uuid \<Rightarrow> 'a policy_db_scheme \<Rightarrow> policy_assignment option" where
  "assignment_by_id i db = get_by_id False i (pd_assignments db)"

definition list_versions_for_policy :: "uuid \<Rightarrow> 'a policy_db_scheme \<Rightarrow> policy_version list" where
  "list_versions_for_policy i db = get_all (\<lambda>v. pv_policy_id v = i) pv_version_number ASC False None (pd_versions db)"

definition get_next_version_number :: "uuid \<Rightarrow> 'a policy_db_scheme \<Rightarrow> int" where
  "get_next_version_number i db =
     (case map pv_version_number (filter (\<lambda>v. pv_policy_id v = i \<and> \<not> is_deleted v) (pd_versions db)) of
        [] \<Rightarrow> 1 | ns \<Rightarrow> foldl max (hd ns) ns + 1)"

definition list_assignments_for_policy :: "uuid \<Rightarrow> 'a policy_db_scheme \<Rightarrow> policy_assignment list" where
  "list_assignments_for_policy i db = get_all (\<lambda>a. pa_policy_id a = i) created_at DESC False None (pd_assignments db)"

definition live_policy :: "PolicyType \<Rightarrow> policy_row \<Rightarrow> bool" where
  "live_policy policy_type p \<longleftrightarrow> pl_is_active p \<and> \<not> is_deleted p \<and> pl_policy_type p = policy_type"

definition scope_matches :: "uuid option \<Rightarrow> uuid option \<Rightarrow> policy_assignment \<Rightarrow> bool" where
  "scope_matches org location a \<longleftrightarrow>
     pa_scope_type a = GLOBAL \<or>
     org \<noteq> None \<and> pa_scope_type a = ORGANIZATION \<and> pa_scope_id a = org \<or>
     location \<noteq> None \<and> pa_scope_type a = LOCATION \<and> pa_scope_id a = location"

definition target_matches :: "uuid option \<Rightarrow> uuid list \<Rightarrow> uuid option \<Rightarrow> policy_assignment \<Rightarrow> bool" where
  "target_matches user role_ids guest a \<longleftrightarrow>
     pa_target_type a = TARGET_NONE \<or>
     user \<noteq> None \<and> pa_target_type a = TARGET_USER \<and> pa_target_id a = user \<or>
     guest \<noteq> None \<and> pa_target_type a = TARGET_GUEST \<and> pa_target_id a = guest \<or>
     pa_target_type a = TARGET_ROLE \<and> (case pa_target_id a of None \<Rightarrow> False | Some i \<Rightarrow> i \<in> set role_ids)"

definition list_candidate_assignments ::
  "PolicyType \<Rightarrow> uuid option \<Rightarrow> uuid option \<Rightarrow> uuid option \<Rightarrow> uuid list \<Rightarrow> uuid option \<Rightarrow> 'a policy_db_scheme \<Rightarrow> policy_assignment list" where
  "list_candidate_assignments policy_type org location user role_ids guest db =
     filter (\<lambda>a. pa_is_active a \<and> \<not> is_deleted a \<and>
       list_ex (\<lambda>p. row_id p = pa_policy_id a \<and> live_policy policy_type p \<and> pl_current_version_id p \<noteq> None) (pd_policies db) \<and>
       scope_matches org location a \<and> target_matches user role_ids guest a) (pd_assignments db)"

definition find_active_target_assignment ::
  "PolicyType \<Rightarrow> PolicyAssignmentTargetType \<Rightarrow> uuid \<Rightarrow> uuid option \<Rightarrow> uuid option \<Rightarrow> 'a policy_db_scheme \<Rightarrow> policy_assignment option" where
  "find_active_target_assignment policy_type target_type target exclude org db =
     (case sort_key created_at (filter (\<lambda>a. pa_is_active a \<and> \<not> is_deleted a \<and> pa_target_type a = target_type \<and> pa_target_id a = Some target \<and>
        list_ex (\<lambda>p. row_id p = pa_policy_id a \<and> live_policy policy_type p \<and> (org \<noteq> None \<longrightarrow> pl_organization_id p = org)) (pd_policies db) \<and>
        exclude \<noteq> Some (pa_policy_id a)) (pd_assignments db)) of
        [] \<Rightarrow> None | a # _ \<Rightarrow> Some a)"

definition count_active_guest_members :: "uuid list \<Rightarrow> 'a policy_db_scheme \<Rightarrow> (uuid \<times> nat) list" where
  "count_active_guest_members policies db =
     filter (\<lambda>(_, n). 0 < n) (map (\<lambda>i. (i, length (filter (\<lambda>a. pa_policy_id a = i \<and> pa_is_active a \<and> \<not> is_deleted a \<and> pa_target_type a = TARGET_GUEST)
       (pd_assignments db)))) (remdups policies))"

definition get_guest_organization_id :: "uuid \<Rightarrow> 'a site_db_scheme \<Rightarrow> uuid option" where
  "get_guest_organization_id guest db = map_option gu_organization_id (get_by_id False guest (site_guests db))"


subsection \<open>Policies and versions\<close>

definition enforce_read_scope :: "uuid option \<Rightarrow> uuid option \<Rightarrow> ('db, unit) pprog" where
  "enforce_read_scope policy_org requesting =
     guard (policy_org = None \<or> requesting = None \<or> policy_org = requesting) CrossOrganizationPolicyAccessError"

definition get_policy :: "uuid \<Rightarrow> uuid option \<Rightarrow> ('a policy_db_scheme, policy_row) pprog" where
  "get_policy i requesting =
     andthen (reads_db (policy_by_id i)) (\<lambda>found.
     andthen (orelse found (PolicyNotFoundError i)) (\<lambda>p.
     andthen (enforce_read_scope (pl_organization_id p) requesting) (\<lambda>_.
     ret p)))"

definition policy_audit :: "uuid option \<Rightarrow> string \<Rightarrow> policy_row \<Rightarrow> string \<Rightarrow> ('a site_db_scheme, unit) pprog" where
  "policy_audit actor action p description = site_audit actor action ''policy'' (row_id p) description (pl_organization_id p) None"

definition save_policy ::
  "platform_env \<Rightarrow> policy_row \<Rightarrow> (policy_row \<Rightarrow> policy_row) \<Rightarrow> ('a policy_db_scheme, policy_row) pprog" where
  "save_policy env p data = save_in env pd_policies pd_policies_update (\<lambda>_. True) p data"

definition save_assignment ::
  "platform_env \<Rightarrow> policy_assignment \<Rightarrow> (policy_assignment \<Rightarrow> policy_assignment) \<Rightarrow> ('a policy_db_scheme, policy_assignment) pprog" where
  "save_assignment env a data = save_in env pd_assignments pd_assignments_update (\<lambda>_. True) a data"

definition create_policy ::
  "platform_env \<Rightarrow> uuid option \<Rightarrow> uuid option \<Rightarrow> uuid option \<Rightarrow> PolicyType \<Rightarrow> string \<Rightarrow> string option \<Rightarrow> ('a policy_db_scheme, policy_row) pprog" where
  "create_policy env actor requesting org policy_type name description =
     andthen (case org of
        None \<Rightarrow> guard (requesting = None) CrossOrganizationPolicyAccessError
      | Some i \<Rightarrow>
          andthen (guard (requesting = None \<or> requesting = Some i) CrossOrganizationPolicyAccessError) (\<lambda>_.
          andthen (site_get_organization i False) (\<lambda>_. ret ()))) (\<lambda>_.
     andthen (insert_in env actor pd_policies pd_policies_update (\<lambda>_. True)
       (policy_row.fields org policy_type name description True None actor)) (\<lambda>p.
     andthen (policy_audit actor ''policy_created'' p
       (''Policy '' @ in_quotes name @ '' ('' @ PolicyType_value policy_type @ '') created'')) (\<lambda>_.
     ret p)))"

definition deactivate_policy :: "platform_env \<Rightarrow> uuid option \<Rightarrow> uuid \<Rightarrow> uuid option \<Rightarrow> ('a policy_db_scheme, policy_row) pprog" where
  "deactivate_policy env actor i requesting =
     andthen (get_policy i requesting) (\<lambda>p.
     andthen (save_policy env p (\<lambda>r. r\<lparr>pl_is_active := False, updated_by := actor\<rparr>)) (\<lambda>updated.
     andthen (policy_audit actor ''policy_deactivated'' updated (''Policy '' @ in_quotes (pl_name updated) @ '' deactivated'')) (\<lambda>_.
     ret updated)))"

definition create_version ::
  "platform_env \<Rightarrow> rules_schema \<Rightarrow> uuid option \<Rightarrow> uuid \<Rightarrow> uuid option \<Rightarrow> json_object \<Rightarrow> ('a policy_db_scheme, policy_version) pprog" where
  "create_version env schema actor i requesting rules =
     andthen (get_policy i requesting) (\<lambda>p.
     andthen (lift_result (validate_rules schema (pl_policy_type p) rules)) (\<lambda>validated.
     andthen (reads_db (get_next_version_number (row_id p))) (\<lambda>n.
     insert_in env actor pd_versions pd_versions_update version_keys
       (policy_version.fields (row_id p) n PV_DRAFT validated None actor))))"

definition publish_version ::
  "platform_env \<Rightarrow> uuid option \<Rightarrow> uuid \<Rightarrow> uuid \<Rightarrow> uuid option \<Rightarrow> ('a policy_db_scheme, policy_version) pprog" where
  "publish_version env actor i vid requesting =
     andthen (get_policy i requesting) (\<lambda>p.
     andthen (reads_db (version_by_id vid)) (\<lambda>found.
     andthen (orelse (case found of None \<Rightarrow> None | Some v \<Rightarrow> if pv_policy_id v = row_id p then Some v else None) (PolicyVersionNotFoundError vid)) (\<lambda>v.
     andthen (lift_result (validate_version_status_transition (pv_status v) PV_PUBLISHED)) (\<lambda>_.
     andthen (pnow env) (\<lambda>now.
     andthen (save_in env pd_versions pd_versions_update version_keys v
       (\<lambda>r. r\<lparr>pv_status := PV_PUBLISHED, pv_published_at := Some now, updated_by := actor\<rparr>)) (\<lambda>updated.
     andthen (save_policy env p (\<lambda>r. r\<lparr>pl_current_version_id := Some (row_id updated), updated_by := actor\<rparr>)) (\<lambda>_.
     andthen (policy_audit actor ''policy_version_published'' p
       (''Policy '' @ in_quotes (pl_name p) @ '' version '' @ show_int (pv_version_number updated) @ '' published'')) (\<lambda>_.
     ret updated))))))))"

definition rollback ::
  "platform_env \<Rightarrow> uuid option \<Rightarrow> uuid \<Rightarrow> uuid \<Rightarrow> uuid option \<Rightarrow> ('a policy_db_scheme, policy_row) pprog" where
  "rollback env actor i target_id requesting =
     andthen (get_policy i requesting) (\<lambda>p.
     andthen (reads_db (version_by_id target_id)) (\<lambda>found.
     andthen (orelse found (PolicyVersionNotFoundError target_id)) (\<lambda>target.
     andthen (guard (pv_policy_id target = row_id p) (PolicyRollbackTargetMismatchError (row_id p) target_id)) (\<lambda>_.
     andthen (guard (pv_status target = PV_PUBLISHED) (PolicyRollbackTargetNotPublishedError target_id)) (\<lambda>_.
     andthen (save_policy env p (\<lambda>r. r\<lparr>pl_current_version_id := Some (row_id target), updated_by := actor\<rparr>)) (\<lambda>updated.
     andthen (policy_audit actor ''policy_rolled_back'' updated
       (''Policy '' @ in_quotes (pl_name updated) @ '' rolled back to version '' @ show_int (pv_version_number target))) (\<lambda>_.
     ret updated)))))))"


subsection \<open>Assignments\<close>

definition is_owned_by :: "uuid \<Rightarrow> uuid \<Rightarrow> 'a site_db_scheme \<Rightarrow> bool" where
  "is_owned_by target owner db \<longleftrightarrow>
     target = owner \<or>
     (case get_by_id False target (site_orgs db) of None \<Rightarrow> False | Some o' \<Rightarrow> og_parent o' = Some owner)"

definition owned_if_known :: "uuid \<Rightarrow> uuid option \<Rightarrow> 'a site_db_scheme \<Rightarrow> bool" where
  "owned_if_known target owner db \<longleftrightarrow> (case owner of None \<Rightarrow> True | Some o' \<Rightarrow> is_owned_by target o' db)"

definition policy_owner :: "policy_row \<Rightarrow> uuid option \<Rightarrow> uuid option" where
  "policy_owner p requesting = (if pl_organization_id p \<noteq> None then pl_organization_id p else requesting)"

definition check_assignment_place :: "uuid option \<Rightarrow> ScopeType \<Rightarrow> uuid option \<Rightarrow> ('a policy_db_scheme, unit) pprog" where
  "check_assignment_place owner scope_type scope_id =
     (case (scope_type, scope_id) of
        (ORGANIZATION, Some org) \<Rightarrow>
          andthen (site_get_organization org False) (\<lambda>_.
          andthen (reads_db (owned_if_known org owner)) (\<lambda>owned.
          guard owned CrossOrganizationPolicyAccessError))
      | (LOCATION, Some location) \<Rightarrow> andthen (get_location location owner False) (\<lambda>_. ret ())
      | _ \<Rightarrow> ret ())"

definition check_assignment_target :: "uuid option \<Rightarrow> PolicyAssignmentTargetType \<Rightarrow> uuid option \<Rightarrow> ('a policy_db_scheme, unit) pprog" where
  "check_assignment_target owner target_type target_id =
     (case (target_type, target_id) of
        (TARGET_USER, Some i) \<Rightarrow>
          andthen (reads_db (\<lambda>db. get_by_id False i (pd_users db))) (\<lambda>found.
          guard (found \<noteq> None) (PolicyAssignmentTargetUserNotFoundError i))
      | (TARGET_ROLE, Some i) \<Rightarrow>
          andthen (reads_db (\<lambda>db. get_by_id False i (pd_roles db))) (\<lambda>found.
          andthen (orelse found (PolicyAssignmentTargetRoleNotFoundError i)) (\<lambda>role.
          andthen (reads_db (\<lambda>db. case tr_organization_id role of None \<Rightarrow> True | Some org \<Rightarrow> owned_if_known org owner db)) (\<lambda>owned.
          guard owned (PolicyAssignmentTargetRoleNotFoundError i))))
      | (TARGET_GUEST, Some i) \<Rightarrow>
          andthen (reads_db (get_guest_organization_id i)) (\<lambda>found.
          andthen (orelse found (PolicyAssignmentTargetGuestNotFoundError i)) (\<lambda>org.
          andthen (reads_db (owned_if_known org owner)) (\<lambda>owned.
          guard owned (PolicyAssignmentTargetGuestNotFoundError i))))
      | _ \<Rightarrow> ret ())"

definition check_one_group :: "policy_row \<Rightarrow> PolicyAssignmentTargetType \<Rightarrow> uuid option \<Rightarrow> ('a policy_db_scheme, unit) pprog" where
  "check_one_group p target_type target_id =
     (case target_id of
        Some guest \<Rightarrow>
          if target_type = TARGET_GUEST \<and> pl_policy_type p = PT_BANDWIDTH
          then andthen (reads_db (find_active_target_assignment PT_BANDWIDTH TARGET_GUEST guest (Some (row_id p)) (pl_organization_id p))) (\<lambda>existing.
               case existing of
                 None \<Rightarrow> ret ()
               | Some a \<Rightarrow> raise (PolicyAssignmentGuestAlreadyMappedError guest (pa_policy_id a) (row_id a)))
          else ret ()
      | None \<Rightarrow> ret ())"

record assignment_request =
  ar_scope_type :: string
  ar_scope_id :: "uuid option"
  ar_priority :: int
  ar_target_type :: string
  ar_target_id :: "uuid option"

definition create_assignment ::
  "platform_env \<Rightarrow> uuid option \<Rightarrow> uuid \<Rightarrow> uuid option \<Rightarrow> assignment_request \<Rightarrow> ('a policy_db_scheme, policy_assignment) pprog" where
  "create_assignment env actor i requesting c =
     andthen (get_policy i requesting) (\<lambda>p.
     andthen (guard (pl_current_version_id p \<noteq> None) (PolicyAssignmentRequiresPublishedVersionError (row_id p))) (\<lambda>_.
     andthen (lift_result (validate_assignment_scope (ar_scope_type c) (ar_scope_id c))) (\<lambda>scope_type.
     andthen (lift_result (validate_assignment_target (ar_target_type c) (ar_target_id c))) (\<lambda>target_type.
     andthen (guard (\<not> (scope_type = GLOBAL \<and> target_type = TARGET_NONE \<and> policy_owner p requesting \<noteq> None)) CrossOrganizationPolicyAccessError) (\<lambda>_.
     andthen (check_assignment_place (policy_owner p requesting) scope_type (ar_scope_id c)) (\<lambda>_.
     andthen (check_assignment_target (policy_owner p requesting) target_type (ar_target_id c)) (\<lambda>_.
     andthen (check_one_group p target_type (ar_target_id c)) (\<lambda>_.
     andthen (insert_in env actor pd_assignments pd_assignments_update (\<lambda>_. True)
       (policy_assignment.fields (row_id p) scope_type (ar_scope_id c) target_type (ar_target_id c) (ar_priority c) True actor)) (\<lambda>a.
     andthen (policy_audit actor ''policy_assignment_created'' p
       (''Policy '' @ in_quotes (pl_name p) @ '' assigned to '' @ ar_scope_type c @ (case ar_scope_id c of None \<Rightarrow> [] | Some s \<Rightarrow> '' '' @ s))) (\<lambda>_.
     ret a))))))))))"

definition list_assignments :: "uuid \<Rightarrow> uuid option \<Rightarrow> ('a policy_db_scheme, policy_assignment list) pprog" where
  "list_assignments i requesting =
     andthen (get_policy i requesting) (\<lambda>p. reads_db (list_assignments_for_policy (row_id p)))"

definition get_guest_group_assignment :: "uuid \<Rightarrow> uuid option \<Rightarrow> 'a policy_db_scheme \<Rightarrow> policy_assignment option" where
  "get_guest_group_assignment guest requesting db =
     (case find_active_target_assignment PT_BANDWIDTH TARGET_GUEST guest None requesting db of
        None \<Rightarrow> None
      | Some a \<Rightarrow>
          if requesting = None then Some a
          else case policy_by_id (pa_policy_id a) db of
                 None \<Rightarrow> None
               | Some p \<Rightarrow> if pl_organization_id p \<noteq> requesting then None else Some a)"

definition mapping_types :: "PolicyAssignmentTargetType set" where
  "mapping_types = {TARGET_NONE, TARGET_MEMBERS}"

definition siblings_of :: "policy_assignment \<Rightarrow> policy_row \<Rightarrow> 'a policy_db_scheme \<Rightarrow> policy_assignment list" where
  "siblings_of unmapped p db =
     filter (\<lambda>a. pa_is_active a \<and> row_id a \<noteq> row_id unmapped \<and> pa_scope_type a = pa_scope_type unmapped \<and> pa_scope_id a = pa_scope_id unmapped)
       (list_assignments_for_policy (row_id p) db)"

definition release_members_of_unmapped_scope ::
  "platform_env \<Rightarrow> uuid option \<Rightarrow> policy_row \<Rightarrow> policy_assignment \<Rightarrow> ('a policy_db_scheme, int) pprog" where
  "release_members_of_unmapped_scope env actor p unmapped =
     (if pa_target_type unmapped \<notin> mapping_types \<or> pa_scope_id unmapped = None then ret 0
      else andthen (reads_db (siblings_of unmapped p)) (\<lambda>siblings.
           if list_ex (\<lambda>a. pa_target_type a \<in> mapping_types) siblings then ret 0
           else andthen (for_each (\<lambda>a n.
                  if pa_target_type a \<noteq> TARGET_GUEST then ret n
                  else andthen (save_assignment env a (\<lambda>r. r\<lparr>pa_is_active := False, updated_by := actor\<rparr>)) (\<lambda>_. ret (n + 1))) siblings 0) (\<lambda>released.
                if released = 0 then ret 0
                else andthen (policy_audit actor ''policy_assignment_deactivated'' p
                       (''Policy '' @ in_quotes (pl_name p) @ '' unmapped from '' @ scope_value (pa_scope_type unmapped) @ '' '' @
                        (case pa_scope_id unmapped of None \<Rightarrow> ''None'' | Some s \<Rightarrow> s) @ '': '' @ show_int released @ '' member mapping(s) ended'')) (\<lambda>_.
                     ret released))))"

definition deactivate_assignment ::
  "platform_env \<Rightarrow> uuid option \<Rightarrow> uuid \<Rightarrow> uuid \<Rightarrow> uuid option \<Rightarrow> ('a policy_db_scheme, policy_assignment) pprog" where
  "deactivate_assignment env actor i aid requesting =
     andthen (get_policy i requesting) (\<lambda>p.
     andthen (reads_db (assignment_by_id aid)) (\<lambda>found.
     andthen (orelse (case found of None \<Rightarrow> None | Some a \<Rightarrow> if pa_policy_id a = row_id p then Some a else None) (PolicyAssignmentNotFoundError aid)) (\<lambda>a.
     andthen (save_assignment env a (\<lambda>r. r\<lparr>pa_is_active := False, updated_by := actor\<rparr>)) (\<lambda>updated.
     andthen (policy_audit actor ''policy_assignment_deactivated'' p (''Policy assignment '' @ row_id updated @ '' deactivated'')) (\<lambda>_.
     andthen (release_members_of_unmapped_scope env actor p updated) (\<lambda>_.
     ret updated))))))"

definition member_counts :: "uuid list \<Rightarrow> ('a policy_db_scheme, (uuid \<times> nat) list) pprog" where
  "member_counts policies = reads_db (count_active_guest_members policies)"


subsection \<open>Resolution\<close>

record resolved_policy =
  re_policy_type :: PolicyType
  re_organization_id :: "uuid option"
  re_location_id :: "uuid option"
  re_rules :: json_object
  re_source :: string
  re_user_id :: "uuid option"
  re_guest_id :: "uuid option"

record resolution_request =
  rq_policy_type :: PolicyType
  rq_organization_id :: "uuid option"
  rq_location_id :: "uuid option"
  rq_user_id :: "uuid option"
  rq_role_ids :: "uuid list"
  rq_guest_id :: "uuid option"

definition resolved_as :: "resolution_request \<Rightarrow> json_object \<Rightarrow> string \<Rightarrow> resolved_policy" where
  "resolved_as q rules source =
     \<lparr>re_policy_type = rq_policy_type q, re_organization_id = rq_organization_id q, re_location_id = rq_location_id q, re_rules = rules,
      re_source = source, re_user_id = rq_user_id q, re_guest_id = rq_guest_id q\<rparr>"

definition resolved_default :: "resolution_request \<Rightarrow> resolved_policy" where
  "resolved_default q = resolved_as q (PLATFORM_DEFAULT_RULES (rq_policy_type q)) ''platform_default''"

definition tenant_parent :: "uuid \<Rightarrow> 'a site_db_scheme \<Rightarrow> uuid option" where
  "tenant_parent tenant db = (case get_by_id False tenant (site_orgs db) of None \<Rightarrow> None | Some o' \<Rightarrow> og_parent o')"

text \<open>The organizations whose policies may govern a tenant: none (the platform), itself, its parent.\<close>

definition governs :: "uuid \<Rightarrow> 'a site_db_scheme \<Rightarrow> uuid option \<Rightarrow> bool" where
  "governs tenant db policy_org \<longleftrightarrow>
     policy_org = None \<or> policy_org = Some tenant \<or> (tenant_parent tenant db \<noteq> None \<and> policy_org = tenant_parent tenant db)"

definition drop_foreign_candidates :: "policy_assignment list \<Rightarrow> uuid option \<Rightarrow> 'a policy_db_scheme \<Rightarrow> policy_assignment list" where
  "drop_foreign_candidates candidates tenant db =
     (case tenant of
        None \<Rightarrow> candidates
      | Some t \<Rightarrow> filter (\<lambda>a. governs t db (case policy_by_id (pa_policy_id a) db of None \<Rightarrow> None | Some p \<Rightarrow> pl_organization_id p)) candidates)"

definition candidates_for :: "resolution_request \<Rightarrow> uuid option \<Rightarrow> 'a policy_db_scheme \<Rightarrow> policy_assignment list" where
  "candidates_for q tenant db =
     drop_foreign_candidates (list_candidate_assignments (rq_policy_type q) (rq_organization_id q) (rq_location_id q) (rq_user_id q)
       (rq_role_ids q) (rq_guest_id q) db) tenant db"

definition resolution_source :: "policy_row \<Rightarrow> policy_assignment \<Rightarrow> string" where
  "resolution_source p a =
     (if pa_target_type a \<noteq> TARGET_NONE then target_value (pa_target_type a) @ '':'' @ (case pa_target_id a of None \<Rightarrow> ''None'' | Some t \<Rightarrow> t)
      else case pa_scope_id a of
             Some s \<Rightarrow> scope_value (pa_scope_type a) @ '':'' @ s
           | None \<Rightarrow> scope_value (pa_scope_type a) @ '':'' @ row_id p)"

definition resolved_by :: "resolution_request \<Rightarrow> policy_assignment option \<Rightarrow> 'a policy_db_scheme \<Rightarrow> resolved_policy" where
  "resolved_by q winner db =
     (case winner of
        None \<Rightarrow> resolved_default q
      | Some a \<Rightarrow>
          (case policy_by_id (pa_policy_id a) db of
             None \<Rightarrow> resolved_default q
           | Some p \<Rightarrow>
               (case pl_current_version_id p of
                  None \<Rightarrow> resolved_default q
                | Some vid \<Rightarrow>
                    resolved_as q (case version_by_id vid db of None \<Rightarrow> [] | Some v \<Rightarrow> pv_rules v) (resolution_source p a))))"

definition resolution_tenant :: "resolution_request \<Rightarrow> ('a policy_db_scheme, uuid option) pprog" where
  "resolution_tenant q =
     (case (rq_location_id q, rq_organization_id q) of
        (Some location, Some org) \<Rightarrow> andthen (get_location location (Some org) False) (\<lambda>_. ret (Some org))
      | (Some location, None) \<Rightarrow> andthen (get_location location None False) (\<lambda>l. ret (Some (lo_organization_id l)))
      | (None, org) \<Rightarrow> ret org)"

definition resolve_effective_policy :: "resolution_request \<Rightarrow> ('a policy_db_scheme, resolved_policy) pprog" where
  "resolve_effective_policy q =
     andthen (resolution_tenant q) (\<lambda>tenant.
     andthen (reads_db (candidates_for q tenant)) (\<lambda>candidates.
     reads_db (resolved_by q (resolve_winner candidates))))"

text \<open>Python's \<open>sorted\<close> with \<open>reverse\<close> keeps the order of equal elements.\<close>

definition sorted_reverse :: "('a \<Rightarrow> 'k::linorder) \<Rightarrow> 'a list \<Rightarrow> 'a list" where
  "sorted_reverse key xs = rev (sort_key key (rev xs))"

definition tier_of :: "uuid \<Rightarrow> 'a policy_db_scheme \<Rightarrow> policy_assignment \<Rightarrow> access_tier option" where
  "tier_of org db a =
     (case policy_by_id (pa_policy_id a) db of
        None \<Rightarrow> None
      | Some p \<Rightarrow>
          (case pl_current_version_id p of
             None \<Rightarrow> None
           | Some vid \<Rightarrow>
               if pl_organization_id p \<noteq> None \<and> pl_organization_id p \<noteq> Some org then None
               else case version_by_id vid db of
                      None \<Rightarrow> None
                    | Some v \<Rightarrow> Some (access_tier_from_rules (row_id p) (pv_rules v) (Some (pl_name p)))))"

fun first_some :: "('a \<Rightarrow> 'b option) \<Rightarrow> 'a list \<Rightarrow> 'b option" where
  "first_some f [] = None"
| "first_some f (x # xs) = (case f x of Some y \<Rightarrow> Some y | None \<Rightarrow> first_some f xs)"

definition resolve_access_tier :: "uuid option \<Rightarrow> uuid option \<Rightarrow> uuid option \<Rightarrow> 'a policy_db_scheme \<Rightarrow> access_tier option" where
  "resolve_access_tier organization location guest db =
     (case (guest, organization) of
        (Some g, Some org) \<Rightarrow>
          (let candidates = list_candidate_assignments PT_BANDWIDTH (Some org) location None [] (Some g) db;
               mapped = filter (\<lambda>a. pa_target_type a = TARGET_GUEST \<and> pa_target_id a = Some g) candidates
           in first_some (tier_of org db) (sorted_reverse resolution_key mapped))
      | _ \<Rightarrow> None)"

end
