(* ===== verification/PolicyRules.thy ===== *)
theory PolicyRules
  imports Policy LocationRules
begin

section \<open>The rules of policies\<close>

text \<open>
  Over every history of policy requests: versions are append-only, numbered without repetition, and a
  published one never changes; the live pointer of a policy names a published version of that
  policy; a guest is mapped into at most one bandwidth policy of an owner; and a caller changes only
  what belongs to its organization or to the platform.
\<close>

subsection \<open>Requests\<close>

datatype policy_call =
    CreatePolicy "uuid option" "uuid option" PolicyType string "string option"
  | DeactivatePolicy "uuid option" uuid
  | CreateVersion "uuid option" uuid json_object
  | PublishVersion "uuid option" uuid uuid
  | Rollback "uuid option" uuid uuid
  | CreateAssignment "uuid option" uuid assignment_request
  | DeactivateAssignment "uuid option" uuid uuid

definition ignoring :: "('s, 'e, 'a) prog \<Rightarrow> ('s, 'e, unit) prog" where
  "ignoring m = andthen m (\<lambda>_. ret ())"

fun run_policy :: "platform_env \<Rightarrow> rules_schema \<Rightarrow> uuid option \<Rightarrow> policy_call \<Rightarrow> ('a policy_db_scheme, unit) pprog" where
  "run_policy env schema requesting (CreatePolicy actor org t name d) = ignoring (create_policy env actor requesting org t name d)"
| "run_policy env schema requesting (DeactivatePolicy actor i) = ignoring (deactivate_policy env actor i requesting)"
| "run_policy env schema requesting (CreateVersion actor i rules) = ignoring (create_version env schema actor i requesting rules)"
| "run_policy env schema requesting (PublishVersion actor i v) = ignoring (publish_version env actor i v requesting)"
| "run_policy env schema requesting (Rollback actor i v) = ignoring (rollback env actor i v requesting)"
| "run_policy env schema requesting (CreateAssignment actor i c) = ignoring (create_assignment env actor i requesting c)"
| "run_policy env schema requesting (DeactivateAssignment actor i a) = ignoring (deactivate_assignment env actor i a requesting)"


subsection \<open>The invariant\<close>

definition policy_ids :: "'a policy_db_scheme \<Rightarrow> bool" where
  "policy_ids db \<longleftrightarrow>
     distinct (map row_id (pd_policies db)) \<and> distinct (map row_id (pd_versions db)) \<and> distinct (map row_id (pd_assignments db)) \<and>
     version_keys (pd_versions db)"

definition live_pointers :: "'a policy_db_scheme \<Rightarrow> bool" where
  "live_pointers db \<longleftrightarrow>
     (\<forall>p \<in> set (pd_policies db). \<forall>vid. pl_current_version_id p = Some vid \<longrightarrow>
        (\<exists>v \<in> set (pd_versions db). row_id v = vid \<and> pv_policy_id v = row_id p \<and> pv_status v = PV_PUBLISHED \<and> \<not> is_deleted v))"

definition policy_refs :: "'a policy_db_scheme \<Rightarrow> bool" where
  "policy_refs db \<longleftrightarrow>
     (\<forall>v \<in> set (pd_versions db). pv_policy_id v \<in> set (map row_id (pd_policies db))) \<and>
     (\<forall>a \<in> set (pd_assignments db). pa_policy_id a \<in> set (map row_id (pd_policies db)))"

text \<open>Guest \<open>g\<close> is mapped into policy \<open>p\<close> by assignment \<open>a\<close>.\<close>

definition maps_guest :: "uuid \<Rightarrow> policy_assignment \<Rightarrow> policy_row \<Rightarrow> bool" where
  "maps_guest g a p \<longleftrightarrow>
     pa_is_active a \<and> \<not> is_deleted a \<and> pa_target_type a = TARGET_GUEST \<and> pa_target_id a = Some g \<and>
     pa_policy_id a = row_id p \<and> live_policy PT_BANDWIDTH p"

definition one_group :: "'a policy_db_scheme \<Rightarrow> bool" where
  "one_group db \<longleftrightarrow>
     (\<forall>p \<in> set (pd_policies db). \<forall>q \<in> set (pd_policies db). \<forall>a \<in> set (pd_assignments db). \<forall>b \<in> set (pd_assignments db). \<forall>g.
        pl_organization_id p = pl_organization_id q \<and> maps_guest g a p \<and> maps_guest g b q \<longrightarrow> p = q)"

definition policy_ok :: "'a policy_db_scheme \<Rightarrow> bool" where
  "policy_ok db \<longleftrightarrow> policy_ids db \<and> live_pointers db \<and> policy_refs db \<and> one_group db"


subsection \<open>What a request may change\<close>

definition may_write :: "uuid option \<Rightarrow> uuid option \<Rightarrow> bool" where
  "may_write requesting org \<longleftrightarrow> org = None \<or> requesting = None \<or> org = requesting"

definition writable :: "uuid option \<Rightarrow> 'a policy_db_scheme \<Rightarrow> uuid \<Rightarrow> bool" where
  "writable requesting db i \<longleftrightarrow> (\<forall>p \<in> set (pd_policies db). row_id p = i \<longrightarrow> may_write requesting (pl_organization_id p))"

definition policy_keeps :: "policy_row \<Rightarrow> policy_row \<Rightarrow> bool" where
  "policy_keeps p p' \<longleftrightarrow>
     row_id p' = row_id p \<and> pl_organization_id p' = pl_organization_id p \<and> pl_policy_type p' = pl_policy_type p \<and>
     pl_name p' = pl_name p \<and> is_deleted p' = is_deleted p \<and> (pl_is_active p' \<longrightarrow> pl_is_active p)"

definition version_keeps :: "policy_version \<Rightarrow> policy_version \<Rightarrow> bool" where
  "version_keeps v v' \<longleftrightarrow>
     row_id v' = row_id v \<and> pv_policy_id v' = pv_policy_id v \<and> pv_version_number v' = pv_version_number v \<and> pv_rules v' = pv_rules v \<and>
     (pv_status v = PV_PUBLISHED \<longrightarrow> v' = v)"

definition assignment_keeps :: "policy_assignment \<Rightarrow> policy_assignment \<Rightarrow> bool" where
  "assignment_keeps a a' \<longleftrightarrow>
     row_id a' = row_id a \<and> pa_policy_id a' = pa_policy_id a \<and> pa_scope_type a' = pa_scope_type a \<and> pa_scope_id a' = pa_scope_id a \<and>
     pa_target_type a' = pa_target_type a \<and> pa_target_id a' = pa_target_id a \<and> pa_priority a' = pa_priority a \<and>
     is_deleted a' = is_deleted a \<and> (pa_is_active a' \<longrightarrow> pa_is_active a)"

interpretation policies: guarded_rows policy_keeps pl_organization_id
  by unfold_locales (auto simp: policy_keeps_def)

interpretation versions: guarded_rows version_keeps pv_policy_id
  by unfold_locales (auto simp: version_keeps_def)

interpretation assignments: guarded_rows assignment_keeps pa_policy_id
  by unfold_locales (auto simp: assignment_keeps_def)

definition policy_leads :: "uuid option \<Rightarrow> 'a policy_db_scheme \<Rightarrow> 'a policy_db_scheme \<Rightarrow> bool" where
  "policy_leads requesting db db' \<longleftrightarrow>
     site_orgs db' = site_orgs db \<and> site_locations db' = site_locations db \<and> site_guests db' = site_guests db \<and>
     policies.guarded (may_write requesting) (pd_policies db) (pd_policies db') \<and>
     versions.guarded (writable requesting db) (pd_versions db) (pd_versions db') \<and>
     assignments.guarded (writable requesting db) (pd_assignments db) (pd_assignments db')"

lemma policy_leads_refl: "policy_leads requesting db db"
  by (simp add: policy_leads_def)

lemma writable_back:
  assumes "policies.guarded (may_write requesting) (pd_policies a) (pd_policies b)" and "writable requesting b k"
  shows "writable requesting a k"
  unfolding writable_def
proof safe
  fix p assume p: "p \<in> set (pd_policies a)" "k = row_id p"
  with policies.guarded_kept [OF assms(1)] obtain p' where "p' \<in> set (pd_policies b)" "policy_keeps p p'" by blast
  with assms(2) p(2) show "may_write requesting (pl_organization_id p)" unfolding writable_def policy_keeps_def by metis
qed

lemma policy_leads_trans:
  assumes "policy_leads requesting a b" and "policy_leads requesting b c"
  shows "policy_leads requesting a c"
proof -
  have earlier: "writable requesting a k" if "writable requesting b k" for k
    using writable_back [OF _ that] assms(1) unfolding policy_leads_def by blast
  show ?thesis using assms earlier unfolding policy_leads_def
    by (auto intro: policies.guarded_trans versions.guarded_trans assignments.guarded_trans)
qed

definition policy_step :: "uuid option \<Rightarrow> 'a policy_db_scheme \<Rightarrow> 'a policy_db_scheme \<Rightarrow> bool" where
  "policy_step requesting db db' \<longleftrightarrow> policy_ok db' \<and> policy_leads requesting db db'"

lemma policy_step_trans: "policy_step requesting a b \<Longrightarrow> policy_step requesting b c \<Longrightarrow> policy_step requesting a c"
  unfolding policy_step_def using policy_leads_trans by blast

lemma policy_step_audit [simp]: "policy_step requesting db (site_audits_update f db') = policy_step requesting db db'"
  by (simp add: policy_step_def policy_ok_def policy_ids_def live_pointers_def policy_refs_def one_group_def policy_leads_def)


subsection \<open>One table changed\<close>

lemma step_policies:
  assumes ok: "policy_ok db" and "\<And>r. r \<in> set (pd_policies db) \<Longrightarrow> policy_keeps r (f r)"
    and "\<And>r. r \<in> set (pd_policies db) \<Longrightarrow> f r = r \<or> may_write requesting (pl_organization_id r)"
    and pointer: "\<And>r vid. r \<in> set (pd_policies db) \<Longrightarrow> pl_current_version_id (f r) = Some vid \<Longrightarrow>
      \<exists>v \<in> set (pd_versions db). row_id v = vid \<and> pv_policy_id v = row_id r \<and> pv_status v = PV_PUBLISHED \<and> \<not> is_deleted v"
  shows "policy_step requesting db (pd_policies_update (\<lambda>_. map f (pd_policies db)) db)"
proof -
  have ids: "distinct (map (row_id \<circ> f) (pd_policies db)) = distinct (map row_id (pd_policies db))" using assms(2) by (intro distinct_ids_map) (simp add: policy_keeps_def)
  let ?g = "\<lambda>r. if f r \<noteq> r then f r else r"
  have "policies.guarded (may_write requesting) (pd_policies db) (map ?g (pd_policies db))"
    using assms(2,3) by (intro policies.guarded_map) auto
  moreover have "map ?g (pd_policies db) = map f (pd_policies db)" by simp
  ultimately have guarded: "policies.guarded (may_write requesting) (pd_policies db) (map f (pd_policies db))" by metis
  have "p = q" if "p \<in> set (pd_policies db)" "q \<in> set (pd_policies db)" "a \<in> set (pd_assignments db)" "b \<in> set (pd_assignments db)"
    "pl_organization_id (f p) = pl_organization_id (f q)" "maps_guest g a (f p)" "maps_guest g b (f q)" for p q a b g
  proof -
    have "maps_guest g a p" "maps_guest g b q" "pl_organization_id p = pl_organization_id q"
      using assms(2) [OF that(1)] assms(2) [OF that(2)] that(5-7) by (auto simp: maps_guest_def policy_keeps_def live_policy_def)
    then show ?thesis using ok that(1-4) unfolding policy_ok_def one_group_def by blast
  qed
  then have "one_group (pd_policies_update (\<lambda>_. map f (pd_policies db)) db)" unfolding one_group_def by simp metis
  moreover have "live_pointers (pd_policies_update (\<lambda>_. map f (pd_policies db)) db)"
    using pointer assms(2) by (fastforce simp: live_pointers_def policy_keeps_def)
  moreover have "policy_ids (pd_policies_update (\<lambda>_. map f (pd_policies db)) db)" "policy_refs (pd_policies_update (\<lambda>_. map f (pd_policies db)) db)"
    using ok ids assms(2) by (force simp: policy_ok_def policy_ids_def policy_refs_def policy_keeps_def image_iff)+
  ultimately show ?thesis using guarded by (simp add: policy_step_def policy_ok_def policy_leads_def)
qed

lemma step_new_policy:
  assumes ok: "policy_ok db" and fresh: "distinct (map row_id (pd_policies db @ [p]))"
    and "pl_current_version_id p = None" and "may_write requesting (pl_organization_id p)"
  shows "policy_step requesting db (pd_policies_update (\<lambda>_. pd_policies db @ [p]) db)"
proof -
  have "row_id p \<notin> set (map row_id (pd_policies db))" using fresh by simp
  then have "\<not> maps_guest g a p" if "a \<in> set (pd_assignments db)" for g a
    using ok that unfolding policy_ok_def policy_refs_def maps_guest_def by metis
  then have "one_group (pd_policies_update (\<lambda>_. pd_policies db @ [p]) db)"
    using ok unfolding policy_ok_def one_group_def by simp
  with assms show ?thesis
    by (auto simp: policy_step_def policy_ok_def policy_ids_def live_pointers_def policy_refs_def policy_leads_def policies.guarded_append)
qed

lemma step_versions:
  assumes ok: "policy_ok db" and "version_keys (map f (pd_versions db))" and "\<And>r. r \<in> set (pd_versions db) \<Longrightarrow> version_keeps r (f r)"
    and "\<And>r. r \<in> set (pd_versions db) \<Longrightarrow> f r = r \<or> writable requesting db (pv_policy_id r)"
  shows "policy_step requesting db (pd_versions_update (\<lambda>_. map f (pd_versions db)) db)"
proof -
  let ?g = "\<lambda>r. if f r \<noteq> r then f r else r"
  have "versions.guarded (writable requesting db) (pd_versions db) (map ?g (pd_versions db))"
    using assms(3,4) by (intro versions.guarded_map) auto
  moreover have "map ?g (pd_versions db) = map f (pd_versions db)" by simp
  ultimately have guarded: "versions.guarded (writable requesting db) (pd_versions db) (map f (pd_versions db))" by metis
  have "distinct (map (row_id \<circ> f) (pd_versions db)) = distinct (map row_id (pd_versions db))" using assms(3) by (intro distinct_ids_map) (simp add: version_keeps_def)
  then have "policy_ids (pd_versions_update (\<lambda>_. map f (pd_versions db)) db)"
    using ok assms(2) by (simp add: policy_ok_def policy_ids_def)
  moreover have "f v = v" if "v \<in> set (pd_versions db)" "pv_status v = PV_PUBLISHED" for v
    using assms(3) [OF that(1)] that(2) by (simp add: version_keeps_def)
  then have "live_pointers (pd_versions_update (\<lambda>_. map f (pd_versions db)) db)"
    using ok unfolding policy_ok_def live_pointers_def by simp metis
  moreover have "policy_refs (pd_versions_update (\<lambda>_. map f (pd_versions db)) db)"
    using ok assms(3) by (auto simp: policy_ok_def policy_refs_def version_keeps_def)
  ultimately show ?thesis using guarded ok by (simp add: policy_step_def policy_ok_def policy_leads_def one_group_def)
qed

lemma step_new_version:
  assumes "policy_ok db" and "distinct (map row_id (pd_versions db @ [v]))" and "version_keys (pd_versions db @ [v])"
    and "pv_policy_id v \<in> set (map row_id (pd_policies db))" and "writable requesting db (pv_policy_id v)"
  shows "policy_step requesting db (pd_versions_update (\<lambda>_. pd_versions db @ [v]) db)"
  using assms
  by (auto simp: policy_step_def policy_ok_def policy_ids_def live_pointers_def policy_refs_def one_group_def policy_leads_def versions.guarded_append)

lemma step_assignments:
  assumes ok: "policy_ok db" and "\<And>r. r \<in> set (pd_assignments db) \<Longrightarrow> assignment_keeps r (f r)"
    and "\<And>r. r \<in> set (pd_assignments db) \<Longrightarrow> f r = r \<or> writable requesting db (pa_policy_id r)"
  shows "policy_step requesting db (pd_assignments_update (\<lambda>_. map f (pd_assignments db)) db)"
proof -
  let ?g = "\<lambda>r. if f r \<noteq> r then f r else r"
  have "assignments.guarded (writable requesting db) (pd_assignments db) (map ?g (pd_assignments db))"
    using assms(2,3) by (intro assignments.guarded_map) auto
  moreover have "map ?g (pd_assignments db) = map f (pd_assignments db)" by simp
  ultimately have guarded: "assignments.guarded (writable requesting db) (pd_assignments db) (map f (pd_assignments db))" by metis
  have "distinct (map (row_id \<circ> f) (pd_assignments db)) = distinct (map row_id (pd_assignments db))" using assms(2) by (intro distinct_ids_map) (simp add: assignment_keeps_def)
  then have "policy_ids (pd_assignments_update (\<lambda>_. map f (pd_assignments db)) db)"
    using ok by (simp add: policy_ok_def policy_ids_def)
  moreover have "maps_guest g a p" if "a \<in> set (pd_assignments db)" "maps_guest g (f a) p" for g a p
    using assms(2) [OF that(1)] that(2) by (auto simp: maps_guest_def assignment_keeps_def)
  then have "one_group (pd_assignments_update (\<lambda>_. map f (pd_assignments db)) db)"
    using ok unfolding policy_ok_def one_group_def by simp meson
  moreover have "policy_refs (pd_assignments_update (\<lambda>_. map f (pd_assignments db)) db)"
    using ok assms(2) by (auto simp: policy_ok_def policy_refs_def assignment_keeps_def)
  ultimately show ?thesis using guarded ok by (simp add: policy_step_def policy_ok_def policy_leads_def live_pointers_def)
qed

lemma step_new_assignment:
  assumes ok: "policy_ok db" and "distinct (map row_id (pd_assignments db @ [a]))" and p: "p \<in> set (pd_policies db)" "pa_policy_id a = row_id p"
    and "writable requesting db (row_id p)"
    and alone: "\<And>g b q. maps_guest g a p \<Longrightarrow> b \<in> set (pd_assignments db) \<Longrightarrow> q \<in> set (pd_policies db) \<Longrightarrow> maps_guest g b q \<Longrightarrow>
      pl_organization_id q = pl_organization_id p \<Longrightarrow> q = p"
  shows "policy_step requesting db (pd_assignments_update (\<lambda>_. pd_assignments db @ [a]) db)"
proof -
  have only: "p' = p" if "p' \<in> set (pd_policies db)" "maps_guest g a p'" for p' g
    using that p ok by (metis distinct_map_inj maps_guest_def policy_ids_def policy_ok_def)
  have "one_group (pd_assignments_update (\<lambda>_. pd_assignments db @ [a]) db)"
    unfolding one_group_def
  proof (intro ballI allI impI, elim conjE)
    fix p1 p2 a1 a2 g
    assume r: "p1 \<in> set (pd_policies (pd_assignments_update (\<lambda>_. pd_assignments db @ [a]) db))"
      "p2 \<in> set (pd_policies (pd_assignments_update (\<lambda>_. pd_assignments db @ [a]) db))"
      "a1 \<in> set (pd_assignments (pd_assignments_update (\<lambda>_. pd_assignments db @ [a]) db))"
      "a2 \<in> set (pd_assignments (pd_assignments_update (\<lambda>_. pd_assignments db @ [a]) db))"
      and m: "pl_organization_id p1 = pl_organization_id p2" "maps_guest g a1 p1" "maps_guest g a2 p2"
    consider "a1 = a" "a2 = a" | "a1 = a" "a2 \<in> set (pd_assignments db)" | "a1 \<in> set (pd_assignments db)" "a2 = a"
      | "a1 \<in> set (pd_assignments db)" "a2 \<in> set (pd_assignments db)" using r(3,4) by auto
    then show "p1 = p2"
    proof cases
      case 4
      then show ?thesis using ok r(1,2) m unfolding policy_ok_def one_group_def by simp blast
    qed (use only alone r(1,2) m in \<open>simp; metis\<close>)+
  qed
  then show ?thesis using assms(1-5)
    by (auto simp: policy_step_def policy_ok_def policy_ids_def live_pointers_def policy_refs_def policy_leads_def assignments.guarded_append)
qed


subsection \<open>The operations\<close>

lemma ensures_get_policy [simp]:
  "ensures P (get_policy i requesting) = (\<lambda>db w. \<forall>p. policy_by_id i db = Some p \<and> may_write requesting (pl_organization_id p) \<longrightarrow> P p db w)"
  by (intro ext) (auto simp: get_policy_def enforce_read_scope_def may_write_def split: option.splits)

lemma ensures_policy_audit [simp]:
  "ensures P (policy_audit actor action p what) = (\<lambda>db w. P () (site_audits_update (\<lambda>t. t @
     [\<lparr>ae_actor_user_id = actor, ae_action = action, ae_entity_type = ''policy'', ae_entity_id = Some (row_id p), ae_description = what,
       ae_metadata = [], ae_organization_id = pl_organization_id p, ae_location_id = None\<rparr>]) db) w)"
  by (simp add: policy_audit_def site_audit_def)

lemma policy_found:
  assumes "policy_ok db" and "policy_by_id i db = Some p"
  shows "p \<in> set (pd_policies db)" and "row_id p = i" and "\<And>r. r \<in> set (pd_policies db) \<Longrightarrow> row_id r = i \<Longrightarrow> r = p"
  using assms get_by_id_Some [of False i "pd_policies db" p] row_unique [of "pd_policies db" False i p]
  by (auto simp: policy_by_id_def policy_ok_def policy_ids_def)

lemma writable_found: "policy_ok db \<Longrightarrow> policy_by_id i db = Some p \<Longrightarrow> may_write requesting (pl_organization_id p) \<Longrightarrow> writable requesting db (row_id p)"
  using policy_found unfolding writable_def by metis

text \<open>A saved row of each table.\<close>

lemma step_save_policy:
  assumes ok: "policy_ok db" and p: "policy_by_id i db = Some p" "may_write requesting (pl_organization_id p)"
    and keeps: "policy_keeps p (assign now data (version p) p)"
    and pointer: "\<And>vid. pl_current_version_id (assign now data (version p) p) = Some vid \<Longrightarrow>
      \<exists>v \<in> set (pd_versions db). row_id v = vid \<and> pv_policy_id v = row_id p \<and> pv_status v = PV_PUBLISHED \<and> \<not> is_deleted v"
  shows "policy_step requesting db (pd_policies_update (\<lambda>_. update_row now data p (pd_policies db)) db)"
proof -
  have found: "r = p" if "r \<in> set (pd_policies db)" "row_id r = row_id p" for r
    using policy_found [OF ok p(1)] that by metis
  have "\<exists>v \<in> set (pd_versions db). row_id v = vid \<and> pv_policy_id v = row_id r \<and> pv_status v = PV_PUBLISHED \<and> \<not> is_deleted v"
    if "r \<in> set (pd_policies db)" "pl_current_version_id r = Some vid" for r vid
    using ok that unfolding policy_ok_def live_pointers_def by blast
  then show ?thesis unfolding update_row_def
    using p(2) keeps pointer policies.keep_refl by (intro step_policies [OF ok]) (auto split: if_splits dest: found)
qed

lemma step_save_assignment:
  assumes ok: "policy_ok db" and "writable requesting db k" and "\<And>r. r \<in> set (pd_assignments db) \<Longrightarrow> row_id r = row_id a \<Longrightarrow> pa_policy_id r = k"
  shows "policy_step requesting db
    (pd_assignments_update (\<lambda>_. update_row now (\<lambda>r. r\<lparr>pa_is_active := False, updated_by := actor\<rparr>) a (pd_assignments db)) db)"
  unfolding update_row_def using assms(2,3) assignments.keep_refl
  by (intro step_assignments [OF ok]) (auto simp: assignment_keeps_def assign_def)

lemma step_publish_row:
  assumes ok: "policy_ok db" and v: "version_by_id i db = Some v" "pv_status v = PV_DRAFT" "writable requesting db (pv_policy_id v)"
    and data: "data = (\<lambda>r. r\<lparr>pv_status := PV_PUBLISHED, pv_published_at := Some t, updated_by := actor\<rparr>)"
    and keys: "version_keys (update_row now data v (pd_versions db))"
  shows "policy_step requesting db (pd_versions_update (\<lambda>_. update_row now data v (pd_versions db)) db)"
proof -
  have i: "row_id v = i" using v(1) get_by_id_Some unfolding version_by_id_def by blast
  have found: "r = v" if "r \<in> set (pd_versions db)" "row_id r = row_id v" for r
    using that ok v(1) i row_unique [of "pd_versions db" False i v] unfolding version_by_id_def policy_ok_def policy_ids_def by blast
  show ?thesis using keys unfolding update_row_def
    by (intro step_versions [OF ok]) (auto simp: data version_keeps_def assign_def v(2,3) versions.keep_refl dest: found)
qed

lemma create_policy_step:
  "policy_ok db \<Longrightarrow> ensures (\<lambda>_ db' _. policy_step requesting db db') (create_policy env actor requesting org t name d) db w"
  by (auto simp: create_policy_def ensures_insert_in Let_def policy_row.defs base_model.defs may_write_def intro!: step_new_policy split: option.splits)

lemma deactivate_policy_step:
  assumes "policy_ok db"
  shows "ensures (\<lambda>_ db' _. policy_step requesting db db') (deactivate_policy env actor i requesting) db w"
proof -
  have "\<exists>v \<in> set (pd_versions db). row_id v = vid \<and> pv_policy_id v = row_id p \<and> pv_status v = PV_PUBLISHED \<and> \<not> is_deleted v"
    if "policy_by_id i db = Some p" "pl_current_version_id p = Some vid" for p vid
    using assms policy_found(1) [OF assms that(1)] that(2) unfolding policy_ok_def live_pointers_def by blast
  then show ?thesis
    by (auto simp: deactivate_policy_def save_policy_def Let_def policy_keeps_def assign_def intro!: step_save_policy [OF assms])
qed

lemma create_version_step:
  assumes "policy_ok db"
  shows "ensures (\<lambda>_ db' _. policy_step requesting db db') (create_version env schema actor i requesting rules) db w"
  using policy_found(1) [OF assms] writable_found [OF assms]
  by (auto simp: create_version_def ensures_insert_in Let_def policy_version.defs base_model.defs intro!: step_new_version [OF assms] split: sum.splits)

lemma rollback_step:
  assumes "policy_ok db"
  shows "ensures (\<lambda>_ db' _. policy_step requesting db db') (rollback env actor i target requesting) db w"
  using get_by_id_Some [of False target "pd_versions db"]
  by (auto simp: rollback_def save_policy_def Let_def policy_keeps_def assign_def version_by_id_def intro!: step_save_policy [OF assms] split: option.splits)

lemma publish_version_step:
  assumes ok: "policy_ok db"
  shows "ensures (\<lambda>_ db' _. policy_step requesting db db') (publish_version env actor i vid requesting) db w"
proof -
  have "policy_step requesting db (pd_policies_update (\<lambda>_. update_row now2 (\<lambda>r. r\<lparr>pl_current_version_id := Some (row_id v), updated_by := actor\<rparr>) p (pd_policies db))
      (pd_versions_update (\<lambda>_. update_row now data v (pd_versions db)) db))"
    if p: "policy_by_id i db = Some p" "may_write requesting (pl_organization_id p)"
      and v: "version_by_id vid db = Some v" "pv_policy_id v = row_id p" "pv_status v = PV_DRAFT"
      and keys: "version_keys (update_row now data v (pd_versions db))"
      and data: "data = (\<lambda>r. r\<lparr>pv_status := PV_PUBLISHED, pv_published_at := Some t, updated_by := actor\<rparr>)" for p v data now now2 t
  proof -
    let ?db = "pd_versions_update (\<lambda>_. update_row now data v (pd_versions db)) db"
    have first: "policy_step requesting db ?db"
      using writable_found [OF ok p] v keys data by (intro step_publish_row [OF ok v(1,3)]) simp_all
    have row: "v \<in> set (pd_versions db)" "\<not> is_deleted v" using v(1) get_by_id_Some unfolding version_by_id_def by blast+
    from row(1) have "assign now data (version v) v \<in> set (pd_versions ?db)" by (auto simp: update_row_def image_iff intro!: bexI [of _ v])
    then have "\<exists>v' \<in> set (pd_versions ?db). row_id v' = row_id v \<and> pv_policy_id v' = row_id p \<and> pv_status v' = PV_PUBLISHED \<and> \<not> is_deleted v'"
      by (rule bexI [rotated]) (simp add: assign_def data v(2) row(2))
    moreover have "policy_by_id i ?db = Some p" using p(1) by (simp add: policy_by_id_def)
    ultimately have "policy_step requesting ?db (pd_policies_update (\<lambda>_. update_row now2
        (\<lambda>r. r\<lparr>pl_current_version_id := Some (row_id v), updated_by := actor\<rparr>) p (pd_policies ?db)) ?db)"
      using first p(2) v(2) by (intro step_save_policy) (auto simp: policy_step_def policy_keeps_def assign_def)
    with first show ?thesis by (auto intro: policy_step_trans)
  qed
  note published = this
  have draft: "pv_status v = PV_DRAFT" if "validate_version_status_transition (pv_status v) PV_PUBLISHED = Inr u" for v u
    using that by (cases "pv_status v") (simp_all add: validate_version_status_transition_def)
  show ?thesis
    by (auto simp: publish_version_def save_policy_def Let_def intro!: published dest!: draft split: option.splits if_splits sum.splits)
qed

lemma sort_key_member: "x \<in> set xs \<Longrightarrow> sort_key k xs \<noteq> []"
  by (metis empty_iff list.set(1) set_sort)

lemma found_none:
  assumes "find_active_target_assignment t target g exclude org db = None" and "b \<in> set (pd_assignments db)" and "q \<in> set (pd_policies db)"
    and "pa_is_active b" and "\<not> is_deleted b" and "pa_target_type b = target" and "pa_target_id b = Some g" and "pa_policy_id b = row_id q"
    and "live_policy t q" and "exclude \<noteq> Some (row_id q)"
  shows "org \<noteq> None \<and> pl_organization_id q \<noteq> org"
proof (rule ccontr)
  let ?found = "filter (\<lambda>a. pa_is_active a \<and> \<not> is_deleted a \<and> pa_target_type a = target \<and> pa_target_id a = Some g \<and>
        list_ex (\<lambda>p. row_id p = pa_policy_id a \<and> live_policy t p \<and> (org \<noteq> None \<longrightarrow> pl_organization_id p = org)) (pd_policies db) \<and>
        exclude \<noteq> Some (pa_policy_id a)) (pd_assignments db)"
  assume "\<not> ?thesis"
  with assms(2-10) have "b \<in> set ?found" by (auto simp: list_ex_iff)
  then have "sort_key created_at ?found \<noteq> []" by (rule sort_key_member)
  moreover have "sort_key created_at ?found = []" using assms(1) unfolding find_active_target_assignment_def
    by (cases "sort_key created_at ?found") (simp_all only: list.case option.distinct)
  ultimately show False by contradiction
qed

lemma create_assignment_step:
  assumes ok: "policy_ok db"
  shows "ensures (\<lambda>_ db' _. policy_step requesting db db') (create_assignment env actor i requesting c) db w"
proof -
  have added: "policy_step requesting db (pd_assignments_update (\<lambda>_. pd_assignments db @ [a]) db)"
    if p: "policy_by_id i db = Some p" "may_write requesting (pl_organization_id p)"
      and a: "distinct (map row_id (pd_assignments db @ [a]))" "pa_policy_id a = row_id p"
      and alone: "\<And>g. pa_target_id a = Some g \<Longrightarrow> pa_target_type a = TARGET_GUEST \<Longrightarrow> pl_policy_type p = PT_BANDWIDTH \<Longrightarrow>
        find_active_target_assignment PT_BANDWIDTH TARGET_GUEST g (Some (row_id p)) (pl_organization_id p) db = None" for p a
  proof (rule step_new_assignment [OF ok a(1) policy_found(1) [OF ok p(1)] a(2) writable_found [OF ok p]])
    fix g b q
    assume m: "maps_guest g a p" and b: "b \<in> set (pd_assignments db)" "q \<in> set (pd_policies db)" "maps_guest g b q"
      and org: "pl_organization_id q = pl_organization_id p"
    have "find_active_target_assignment PT_BANDWIDTH TARGET_GUEST g (Some (row_id p)) (pl_organization_id p) db = None"
      using m alone by (simp add: maps_guest_def live_policy_def)
    from found_none [OF this b(1,2)] b(3) org have "\<not> row_id p \<noteq> row_id q" unfolding maps_guest_def by auto
    then have "row_id q = row_id p" by simp
    then show "q = p" using policy_found(2,3) [OF ok p(1)] b(2) by metis
  qed
  have place: "ensures P (check_assignment_place owner s i') db w'" if "P () db w'" for P :: "unit \<Rightarrow> 'a policy_db_scheme \<Rightarrow> platform_world \<Rightarrow> bool" and owner s i' w'
    using that by (auto simp: check_assignment_place_def split: ScopeType.split option.split)
  have target: "ensures P (check_assignment_target owner s i') db w'" if "P () db w'" for P :: "unit \<Rightarrow> 'a policy_db_scheme \<Rightarrow> platform_world \<Rightarrow> bool" and owner s i' w'
    using that by (auto simp: check_assignment_target_def split: PolicyAssignmentTargetType.split option.split)
  show ?thesis
    by (auto simp: create_assignment_def check_one_group_def ensures_insert_in Let_def policy_assignment.defs base_model.defs
        intro!: place target added split: sum.splits option.splits)
qed

lemma assignment_in_step:
  assumes "policy_step requesting db db'" and "a \<in> set (pd_assignments db)" and "r \<in> set (pd_assignments db')" and "row_id r = row_id a"
  shows "pa_policy_id r = pa_policy_id a"
proof -
  obtain a' where a': "a' \<in> set (pd_assignments db')" "assignment_keeps a a'"
    using assms(1,2) assignments.guarded_kept unfolding policy_step_def policy_leads_def by blast
  then have "a' = r" using assms by (metis assignment_keeps_def distinct_map_inj policy_ids_def policy_ok_def policy_step_def)
  with a'(2) show ?thesis by (simp add: assignment_keeps_def)
qed

lemma release_step:
  assumes ok: "policy_ok db" and w: "writable requesting db (row_id p)"
  shows "ensures (\<lambda>_ db' _. policy_step requesting db db') (release_members_of_unmapped_scope env actor p unmapped) db w"
proof -
  let ?inv = "\<lambda>_ db' _. policy_step requesting db db' \<and> pd_policies db' = pd_policies db"
  have refl: "policy_step requesting db db" using ok by (simp add: policy_step_def policy_leads_refl)
  have loop: "ensures ?inv (for_each (\<lambda>a n.
      if pa_target_type a \<noteq> TARGET_GUEST then ret n
      else andthen (save_assignment env a (\<lambda>r. r\<lparr>pa_is_active := False, updated_by := actor\<rparr>)) (\<lambda>_. ret (n + 1))) (siblings_of unmapped p db) (0 :: int)) db w'" for w' :: platform_world
  proof (rule ensures_for_each)
    show "?inv (0 :: int) db w'" using refl by simp
    fix a and n :: int and db' :: "'a policy_db_scheme" and w'' :: platform_world
    assume a: "a \<in> set (siblings_of unmapped p db)" and inv: "policy_step requesting db db' \<and> pd_policies db' = pd_policies db"
    from a have a: "a \<in> set (pd_assignments db)" "pa_policy_id a = row_id p"
      by (auto simp: siblings_of_def list_assignments_for_policy_def get_all_def)
    have "writable requesting db' (row_id p)" using w inv by (simp add: writable_def)
    moreover have "pa_policy_id r = row_id p" if "r \<in> set (pd_assignments db')" "row_id r = row_id a" for r
      using assignment_in_step [OF conjunct1 [OF inv] a(1) that] a(2) by simp
    ultimately have "policy_step requesting db' (pd_assignments_update (\<lambda>_. update_row now
        (\<lambda>r. r\<lparr>pa_is_active := False, updated_by := actor\<rparr>) a (pd_assignments db')) db')" for now
      using inv by (intro step_save_assignment) (simp_all add: policy_step_def)
    then have "policy_step requesting db (pd_assignments_update (\<lambda>_. update_row now
        (\<lambda>r. r\<lparr>pa_is_active := False, updated_by := actor\<rparr>) a (pd_assignments db')) db')" for now
      using inv policy_step_trans by blast
    then show "ensures ?inv (if pa_target_type a \<noteq> TARGET_GUEST then ret n
        else andthen (save_assignment env a (\<lambda>r. r\<lparr>pa_is_active := False, updated_by := actor\<rparr>)) (\<lambda>_. ret (n + 1))) db' w''"
      using inv by (simp add: save_assignment_def Let_def)
  qed
  have "ensures (\<lambda>_ db' _. policy_step requesting db db') (for_each (\<lambda>a n.
      if pa_target_type a \<noteq> TARGET_GUEST then ret n
      else andthen (save_assignment env a (\<lambda>r. r\<lparr>pa_is_active := False, updated_by := actor\<rparr>)) (\<lambda>_. ret (n + 1))) (siblings_of unmapped p db) (0 :: int)) db w'" for w' :: platform_world
    by (rule ensures_mono [OF loop]) simp
  with refl show ?thesis by (auto simp: release_members_of_unmapped_scope_def)
qed

lemma deactivate_assignment_step:
  assumes ok: "policy_ok db"
  shows "ensures (\<lambda>_ db' _. policy_step requesting db db') (deactivate_assignment env actor i aid requesting) db w"
proof -
  have "ensures (\<lambda>_ db' _. policy_step requesting db db') (release_members_of_unmapped_scope env actor p updated)
      (site_audits_update f (pd_assignments_update (\<lambda>_. update_row now (\<lambda>r. r\<lparr>pa_is_active := False, updated_by := actor\<rparr>) a (pd_assignments db)) db)) w'"
    if p: "policy_by_id i db = Some p" "may_write requesting (pl_organization_id p)"
      and a: "assignment_by_id aid db = Some a" "pa_policy_id a = row_id p" for p a updated now f w'
  proof -
    let ?db = "site_audits_update f (pd_assignments_update (\<lambda>_. update_row now (\<lambda>r. r\<lparr>pa_is_active := False, updated_by := actor\<rparr>) a (pd_assignments db)) db)"
    have i: "row_id a = aid" using a(1) get_by_id_Some unfolding assignment_by_id_def by blast
    have "r = a" if "r \<in> set (pd_assignments db)" "row_id r = row_id a" for r
      using that ok a(1) i row_unique [of "pd_assignments db" False aid a] unfolding assignment_by_id_def policy_ok_def policy_ids_def by blast
    then have first: "policy_step requesting db ?db"
      using step_save_assignment [OF ok writable_found [OF ok p], of a] a(2) by auto
    have "ensures (\<lambda>_ db' _. policy_step requesting ?db db') (release_members_of_unmapped_scope env actor p updated) ?db w'"
      using first writable_found [OF ok p] by (intro release_step) (simp_all add: policy_step_def writable_def)
    then show ?thesis by (rule ensures_mono) (use first policy_step_trans in blast)
  qed
  then show ?thesis by (auto simp: deactivate_assignment_def save_assignment_def Let_def split: option.splits if_splits)
qed

lemma run_policy_step:
  "policy_ok db \<Longrightarrow> ensures (\<lambda>_ db' _. policy_step requesting db db') (run_policy env schema requesting call) db w"
  by (cases call) (simp_all add: ignoring_def create_policy_step deactivate_policy_step create_version_step publish_version_step rollback_step
      create_assignment_step deactivate_assignment_step)

interpretation policy_requests: request_contract "run_policy env schema requesting" policy_ok "policy_leads requesting" for env schema requesting
proof
  fix c and db db' :: "'a policy_db_scheme" and x x' v
  assume "run_policy env schema requesting c (db, x) = (Inr v, (db', x'))" "policy_ok db"
  with ensuresD [OF run_policy_step this(1)] show "policy_ok db'" "policy_leads requesting db db'" by (auto simp: policy_step_def)
qed (auto simp: policy_leads_refl intro: policy_leads_trans)


end
