(* ===== verification/PolicyResolution.thy ===== *)
theory PolicyResolution
  imports PolicyRules
begin

section \<open>Which policy governs\<close>

text \<open>
  The resolver against a declarative order: the winner outranks every other candidate, WHO before
  WHERE before priority before age, so the answer does not depend on the order of the rows. Then what
  \<open>resolve_effective_policy\<close> answers, and whose policy it can come from. At the end three gaps
  of the tenant rules around platform-wide policies.
\<close>

subsection \<open>The order of candidates\<close>

definition outranks :: "policy_assignment \<Rightarrow> policy_assignment \<Rightarrow> bool" where
  "outranks a b \<longleftrightarrow>
     TARGET_SPECIFICITY (pa_target_type b) < TARGET_SPECIFICITY (pa_target_type a) \<or>
     TARGET_SPECIFICITY (pa_target_type b) = TARGET_SPECIFICITY (pa_target_type a) \<and>
     (SCOPE_SPECIFICITY (pa_scope_type b) < SCOPE_SPECIFICITY (pa_scope_type a) \<or>
      SCOPE_SPECIFICITY (pa_scope_type b) = SCOPE_SPECIFICITY (pa_scope_type a) \<and>
      (pa_priority b < pa_priority a \<or>
       pa_priority b = pa_priority a \<and>
       (created_at b < created_at a \<or> created_at b = created_at a \<and> row_id b < row_id a)))"

lemma outranks_key: "outranks a b \<longleftrightarrow> resolution_key b < resolution_key a"
  by (auto simp: outranks_def resolution_key_def less_prod_def')

lemma foldl_max:
  fixes key :: "'a \<Rightarrow> 'k::linorder"
  defines "pick \<equiv> \<lambda>m y. if key m < key y then y else m"
  shows "foldl pick x xs \<in> set (x # xs) \<and> (\<forall>y \<in> set (x # xs). key y \<le> key (foldl pick x xs))"
proof (induction xs arbitrary: x)
  case (Cons y ys)
  have "key x \<le> key (pick x y)" "key y \<le> key (pick x y)" "pick x y \<in> {x, y}" by (auto simp: pick_def)
  with Cons [of "pick x y"] show ?case by fastforce
qed simp

lemma max_by_Some:
  assumes "max_by key xs = Some m"
  shows "m \<in> set xs" and "y \<in> set xs \<Longrightarrow> key y \<le> key m"
  using assms foldl_max [where key = key] by (cases xs; fastforce)+

lemma max_by_None [simp]: "max_by key xs = None \<longleftrightarrow> xs = []"
  by (cases xs) simp_all



subsection \<open>What is answered\<close>

lemma candidate_row:
  assumes "policy_ok db" and "a \<in> set (candidates_for q tenant db)"
  shows "\<exists>p vid. policy_by_id (pa_policy_id a) db = Some p \<and> pl_is_active p \<and> pl_policy_type p = rq_policy_type q \<and>
    pl_current_version_id p = Some vid \<and> (\<forall>t. tenant = Some t \<longrightarrow> governs t db (pl_organization_id p))"
proof -
  have "a \<in> set (list_candidate_assignments (rq_policy_type q) (rq_organization_id q) (rq_location_id q) (rq_user_id q) (rq_role_ids q) (rq_guest_id q) db)"
    using assms(2) by (auto simp: candidates_for_def drop_foreign_candidates_def split: option.splits)
  then obtain p where p: "p \<in> set (pd_policies db)" "row_id p = pa_policy_id a" "live_policy (rq_policy_type q) p" "pl_current_version_id p \<noteq> None"
    by (auto simp: list_candidate_assignments_def list_ex_iff)
  have "policy_by_id (pa_policy_id a) db = Some p"
    unfolding policy_by_id_def p(2) [symmetric] using assms(1) p by (intro get_by_id_I) (auto simp: policy_ok_def policy_ids_def live_policy_def)
  with p assms(2) show ?thesis
    by (auto simp: candidates_for_def drop_foreign_candidates_def live_policy_def split: option.splits)
qed

lemma pointed_version:
  assumes "policy_ok db" and "policy_by_id i db = Some p" and "pl_current_version_id p = Some vid"
  shows "\<exists>v. version_by_id vid db = Some v \<and> pv_policy_id v = row_id p \<and> pv_status v = PV_PUBLISHED"
proof -
  obtain v where v: "v \<in> set (pd_versions db)" "row_id v = vid" "pv_policy_id v = row_id p" "pv_status v = PV_PUBLISHED" "\<not> is_deleted v"
    using assms policy_found(1) [OF assms(1,2)] unfolding policy_ok_def live_pointers_def by blast
  then have "version_by_id vid db = Some v"
    unfolding version_by_id_def v(2) [symmetric] using assms(1) by (intro get_by_id_I) (auto simp: policy_ok_def policy_ids_def)
  with v show ?thesis by blast
qed

text \<open>The organization a resolution is for.\<close>

definition tenant_for :: "resolution_request \<Rightarrow> 'a policy_db_scheme \<Rightarrow> uuid option" where
  "tenant_for q db =
     (case rq_organization_id q of
        Some org \<Rightarrow> Some org
      | None \<Rightarrow>
          (case rq_location_id q of None \<Rightarrow> None | Some l \<Rightarrow> map_option lo_organization_id (location_by_id False l db)))"

text \<open>C12. A resolution changes nothing. Without a candidate it answers the platform default; with candidates it answers
  the rules of the published live version of the winner's policy, which outranks the others and belongs
  to the platform, to the organization resolved for, or to its parent. A location outside the
  organization is refused.\<close>

theorem resolution_sound:
  assumes "policy_ok db" and "resolve_effective_policy q (db, w) = (Inr r, s)"
  shows "s = (db, w) \<and>
    (\<forall>l org. rq_location_id q = Some l \<and> rq_organization_id q = Some org \<longrightarrow>
       (\<exists>row. location_by_id False l db = Some row \<and> within_reach db (Some org) (lo_organization_id row))) \<and>
    (if candidates_for q (tenant_for q db) db = [] then r = resolved_default q
     else \<exists>a p v. a \<in> set (candidates_for q (tenant_for q db) db) \<and>
       (\<forall>b \<in> set (candidates_for q (tenant_for q db) db). resolution_key b \<le> resolution_key a) \<and>
       policy_by_id (pa_policy_id a) db = Some p \<and> pl_policy_type p = rq_policy_type q \<and>
       (\<forall>t. tenant_for q db = Some t \<longrightarrow> governs t db (pl_organization_id p)) \<and>
       pl_current_version_id p = Some (row_id v) \<and> v \<in> set (pd_versions db) \<and> pv_policy_id v = row_id p \<and> pv_status v = PV_PUBLISHED \<and>
       r = resolved_as q (pv_rules v) (resolution_source p a))"
proof -
  let ?cs = "candidates_for q (tenant_for q db) db"
  obtain db' w' where s: "s = (db', w')" by (cases s)
  have answer: "ensures (\<lambda>r db' w'. db' = db \<and> w' = w \<and> r = resolved_by q (resolve_winner ?cs) db \<and>
      (\<forall>l org. rq_location_id q = Some l \<and> rq_organization_id q = Some org \<longrightarrow>
         (\<exists>row. location_by_id False l db = Some row \<and> within_reach db (Some org) (lo_organization_id row))))
    (resolve_effective_policy q) db w"
    by (auto simp: resolve_effective_policy_def resolution_tenant_def tenant_for_def split: option.splits)
  have r: "s = (db, w)" "r = resolved_by q (resolve_winner ?cs) db" and reach: "\<forall>l org. rq_location_id q = Some l \<and> rq_organization_id q = Some org \<longrightarrow>
      (\<exists>row. location_by_id False l db = Some row \<and> within_reach db (Some org) (lo_organization_id row))"
    using ensuresD [OF answer assms(2) [unfolded s]] s by simp_all
  show ?thesis
  proof (cases "?cs = []")
    case True
    then have "r = resolved_default q" using r(2) by (simp add: resolve_winner_def resolved_by_def)
    with True r(1) reach show ?thesis by simp
  next
    case False
    then obtain a where a: "resolve_winner ?cs = Some a" unfolding resolve_winner_def by (cases "max_by resolution_key ?cs") auto
    note best = max_by_Some [OF a [unfolded resolve_winner_def]]
    obtain p vid where p: "policy_by_id (pa_policy_id a) db = Some p" "pl_policy_type p = rq_policy_type q" "pl_current_version_id p = Some vid"
      "\<forall>t. tenant_for q db = Some t \<longrightarrow> governs t db (pl_organization_id p)" using candidate_row [OF assms(1) best(1)] by blast
    obtain v where v: "version_by_id vid db = Some v" "pv_policy_id v = row_id p" "pv_status v = PV_PUBLISHED"
      using pointed_version [OF assms(1) p(1,3)] by blast
    then have "v \<in> set (pd_versions db)" "row_id v = vid" using get_by_id_Some unfolding version_by_id_def by blast+
    moreover have "r = resolved_as q (pv_rules v) (resolution_source p a)" using r(2) a p v by (simp add: resolved_by_def)
    ultimately have "\<exists>a p v. a \<in> set ?cs \<and> (\<forall>b \<in> set ?cs. resolution_key b \<le> resolution_key a) \<and>
       policy_by_id (pa_policy_id a) db = Some p \<and> pl_policy_type p = rq_policy_type q \<and>
       (\<forall>t. tenant_for q db = Some t \<longrightarrow> governs t db (pl_organization_id p)) \<and>
       pl_current_version_id p = Some (row_id v) \<and> v \<in> set (pd_versions db) \<and> pv_policy_id v = row_id p \<and> pv_status v = PV_PUBLISHED \<and>
       r = resolved_as q (pv_rules v) (resolution_source p a)"
      using best p v by (intro exI [of _ a] exI [of _ p] exI [of _ v]) auto
    with False r(1) reach show ?thesis by simp
  qed
qed


subsection \<open>A small set of policies\<close>

definition sample_rules :: "int \<Rightarrow> json_object" where
  "sample_rules n = [(''download_rate_kbps'', JInt n), (''upload_rate_kbps'', JInt n)]"

definition sample_policy :: "uuid \<Rightarrow> uuid option \<Rightarrow> policy_row" where
  "sample_policy i org =
     base_model.extend (new_base i 0 None) (policy_row.fields org PT_BANDWIDTH i None True (Some (i @ ''-v1'')) None)"

definition sample_version :: "uuid \<Rightarrow> int \<Rightarrow> policy_version" where
  "sample_version i n =
     base_model.extend (new_base (i @ ''-v1'') 0 None) (policy_version.fields i 1 PV_PUBLISHED (sample_rules n) (Some 0) None)"

definition sample_assignment :: "uuid \<Rightarrow> uuid \<Rightarrow> ScopeType \<Rightarrow> uuid option \<Rightarrow> PolicyAssignmentTargetType \<Rightarrow> uuid option \<Rightarrow> policy_assignment" where
  "sample_assignment i p scope scope_id target target_id =
     base_model.extend (new_base i 0 None) (policy_assignment.fields p scope scope_id target target_id 0 True None)"

definition sample_guest :: "uuid \<Rightarrow> uuid \<Rightarrow> guest_row" where
  "sample_guest i org = base_model.extend (new_base i 0 None) (guest_row.fields org None i None None 0 0 0 False None)"

text \<open>\<open>branch\<close> is a child of \<open>acme\<close>. The policy \<open>base\<close> belongs to the platform and \<open>gold\<close> to \<open>acme\<close>.\<close>

definition sample_policies :: policy_db where
  "sample_policies =
     policy_db.make [sample_org ''acme'' None, sample_org ''branch'' (Some ''acme'')] [sample_location ''lobby'' ''acme''] [] []
       [sample_guest ''ann'' ''acme'', sample_guest ''bob'' ''branch'']
       [sample_policy ''base'' None, sample_policy ''gold'' (Some ''acme'')] [sample_version ''base'' 1000, sample_version ''gold'' 5000]
       [sample_assignment ''a1'' ''base'' GLOBAL None TARGET_NONE None, sample_assignment ''a2'' ''gold'' LOCATION (Some ''lobby'') TARGET_NONE None] [] []"

definition map_guest :: "uuid \<Rightarrow> assignment_request" where
  "map_guest g = \<lparr>ar_scope_type = ''organization'', ar_scope_id = Some ''acme'', ar_priority = 0, ar_target_type = ''guest'', ar_target_id = Some g\<rparr>"

definition map_branch_guest :: "uuid \<Rightarrow> assignment_request" where
  "map_branch_guest g = (map_guest g)\<lparr>ar_scope_id := Some ''branch''\<rparr>"

definition any_rules :: rules_schema where
  "any_rules _ rules = Inr rules"

lemma sample_policies_ok: "policy_ok sample_policies"
proof -
  have "policy_ids sample_policies" by code_simp
  moreover have "live_pointers sample_policies" "policy_refs sample_policies" "one_group sample_policies"
    by (auto simp: live_pointers_def policy_refs_def one_group_def maps_guest_def sample_policies_def sample_policy_def sample_version_def
        sample_assignment_def new_base_def base_model.defs policy_row.defs policy_version.defs policy_assignment.defs policy_db.defs)
  ultimately show ?thesis by (simp add: policy_ok_def)
qed

definition lobby_speed :: resolution_request where
  "lobby_speed = \<lparr>rq_policy_type = PT_BANDWIDTH, rq_organization_id = Some ''acme'', rq_location_id = Some ''lobby'', rq_user_id = None,
     rq_role_ids = [], rq_guest_id = None\<rparr>"


theorem resolution_sound_witness:
  "fst (resolve_effective_policy lobby_speed (sample_policies, sample_pworld)) = Inr (resolved_as lobby_speed (sample_rules 5000) ''location:lobby'') \<and>
   candidates_for lobby_speed (tenant_for lobby_speed sample_policies) sample_policies \<noteq> [] \<and>
   snd (resolve_effective_policy lobby_speed (sample_policies, sample_pworld)) = (sample_policies, sample_pworld)"
proof -
  let ?run = "resolve_effective_policy lobby_speed (sample_policies, sample_pworld)"
  have r: "fst ?run = Inr (resolved_as lobby_speed (sample_rules 5000) ''location:lobby'')" by code_simp
  then have "?run = (Inr (resolved_as lobby_speed (sample_rules 5000) ''location:lobby''), snd ?run)" by (simp add: prod_eq_iff)
  from resolution_sound [OF sample_policies_ok this] have "snd ?run = (sample_policies, sample_pworld)" by blast
  moreover have "candidates_for lobby_speed (tenant_for lobby_speed sample_policies) sample_policies \<noteq> []" by code_simp
  ultimately show ?thesis using r by blast
qed




subsection \<open>Gaps around platform-wide policies\<close>

text \<open>Writes are guarded by the read rule, under which a platform-wide policy is open to every caller: an
  organization that deactivates one switches it off for every tenant.\<close>

theorem platform_policy_unguarded:
  assumes "policy_ok db" and "policy_by_id i db = Some p" and "pl_organization_id p = None"
  shows "yields (\<lambda>p' db' _. \<not> pl_is_active p' \<and> (\<forall>q tenant. \<forall>a \<in> set (candidates_for q tenant db'). pa_policy_id a \<noteq> i))
    (deactivate_policy env actor i (Some org)) db w"
proof -
  have i: "row_id p = i" by (rule policy_found(2) [OF assms(1,2)])
  have off: "pa_policy_id a \<noteq> i"
    if "a \<in> set (candidates_for q tenant (site_audits_update f
        (pd_policies_update (\<lambda>_. update_row now (\<lambda>r. r\<lparr>pl_is_active := False, updated_by := actor\<rparr>) p (pd_policies db)) db)))" for a q tenant f now
    using that i by (auto simp: candidates_for_def drop_foreign_candidates_def list_candidate_assignments_def list_ex_iff update_row_def assign_def live_policy_def
        split: option.splits if_splits)
  show ?thesis using assms(2,3) off
    by (auto simp: deactivate_policy_def get_policy_def enforce_read_scope_def save_policy_def policy_audit_def site_audit_def Let_def assign_def)
qed

theorem platform_policy_unguarded_witness:
  "yields (\<lambda>p' _ _. \<not> pl_is_active p') (deactivate_policy sample_platform_env None ''base'' (Some ''acme'')) sample_policies sample_pworld"
proof -
  have "policy_by_id ''base'' sample_policies = Some (sample_policy ''base'' None)" "pl_organization_id (sample_policy ''base'' None) = None" by code_simp+
  from platform_policy_unguarded [OF sample_policies_ok this] show ?thesis by (rule yields_mono) blast
qed

text \<open>The rule "one guest, one tier" is asked of the policies of one owner: a guest whom the organization mapped into a
  platform-wide tier is mapped into a second tier, its own, without an error.\<close>

theorem two_tiers_for_one_guest:
  "\<exists>db a b. db = fst (run_requests (run_policy sample_platform_env any_rules (Some ''acme''))
       [CreateAssignment None ''base'' (map_guest ''ann''), CreateAssignment None ''gold'' (map_guest ''ann'')] (sample_policies, sample_pworld)) \<and>
     a \<in> set (pd_assignments db) \<and> b \<in> set (pd_assignments db) \<and>
     maps_guest ''ann'' a (sample_policy ''base'' None) \<and> maps_guest ''ann'' b (sample_policy ''gold'' (Some ''acme''))"
proof -
  let ?db = "fst (run_requests (run_policy sample_platform_env any_rules (Some ''acme''))
       [CreateAssignment None ''base'' (map_guest ''ann''), CreateAssignment None ''gold'' (map_guest ''ann'')] (sample_policies, sample_pworld))"
  have "length (pd_assignments ?db) = 4" "maps_guest ''ann'' (pd_assignments ?db ! 2) (sample_policy ''base'' None)"
    "maps_guest ''ann'' (pd_assignments ?db ! 3) (sample_policy ''gold'' (Some ''acme''))" by code_simp+
  then show ?thesis by (intro exI [of _ ?db] exI [of _ "pd_assignments ?db ! 2"] exI [of _ "pd_assignments ?db ! 3"]) simp
qed

text \<open>For a platform-wide tier the rule is asked of the policies of all organizations: the child organization is refused
  because of its parent's mapping, and the error names the parent's policy and assignment.\<close>

theorem foreign_mapping_disclosed:
  "fst (create_assignment sample_platform_env None ''base'' (Some ''branch'') (map_branch_guest ''bob'')
     (run_requests (run_policy sample_platform_env any_rules (Some ''acme''))
       [CreateAssignment None ''gold'' (map_guest ''bob'')] (sample_policies, sample_pworld))) =
   Inl (PolicyAssignmentGuestAlreadyMappedError ''bob'' ''gold'' ''id-'')"
  by code_simp

end
