(* ===== verification/GuestData.thy ===== *)
theory GuestData
  imports Policy
begin

section \<open>Guest sessions: data\<close>

text \<open>
  The tables and validators of \<open>app/domains/guest\<close> that the session engine works on
  (\<open>models.py\<close>, \<open>constants.py\<close>, \<open>validators.py\<close>, the statements of \<open>repository.py\<close>). The services it calls
  and that are not modelled here, the router domain, the device terminator, the venue gates of the
  captive portal and the team quota, are the fields of \<open>guest_hooks\<close>.
\<close>

subsection \<open>Tables\<close>

datatype GuestSessionStatus = SESSION_ACTIVE | SESSION_DISCONNECTED | SESSION_EXPIRED | SESSION_TERMINATED | SESSION_PAUSED

fun GuestSessionStatus_value :: "GuestSessionStatus \<Rightarrow> string" where
  "GuestSessionStatus_value SESSION_ACTIVE = ''active''"
| "GuestSessionStatus_value SESSION_DISCONNECTED = ''disconnected''"
| "GuestSessionStatus_value SESSION_EXPIRED = ''expired''"
| "GuestSessionStatus_value SESSION_TERMINATED = ''terminated''"
| "GuestSessionStatus_value SESSION_PAUSED = ''paused''"

fun GUEST_SESSION_STATUS_TRANSITIONS :: "GuestSessionStatus \<Rightarrow> GuestSessionStatus list" where
  "GUEST_SESSION_STATUS_TRANSITIONS SESSION_ACTIVE = [SESSION_DISCONNECTED, SESSION_EXPIRED, SESSION_TERMINATED, SESSION_PAUSED]"
| "GUEST_SESSION_STATUS_TRANSITIONS SESSION_PAUSED = [SESSION_ACTIVE, SESSION_DISCONNECTED, SESSION_TERMINATED]"
| "GUEST_SESSION_STATUS_TRANSITIONS SESSION_DISCONNECTED = []"
| "GUEST_SESSION_STATUS_TRANSITIONS SESSION_EXPIRED = []"
| "GUEST_SESSION_STATUS_TRANSITIONS SESSION_TERMINATED = []"

datatype QuotaPeriodType = QUOTA_DAILY | QUOTA_WEEKLY | QUOTA_MONTHLY

fun QuotaPeriodType_value :: "QuotaPeriodType \<Rightarrow> string" where
  "QuotaPeriodType_value QUOTA_DAILY = ''daily''"
| "QuotaPeriodType_value QUOTA_WEEKLY = ''weekly''"
| "QuotaPeriodType_value QUOTA_MONTHLY = ''monthly''"

definition quota_periods :: "QuotaPeriodType list" where
  "quota_periods = [QUOTA_DAILY, QUOTA_WEEKLY, QUOTA_MONTHLY]"

definition DEFAULT_SESSION_TIMEOUT_MINUTES :: int where "DEFAULT_SESSION_TIMEOUT_MINUTES = 240"
definition DEFAULT_IDLE_TIMEOUT_MINUTES :: int where "DEFAULT_IDLE_TIMEOUT_MINUTES = 30"
definition SESSION_ACTIVITY_GRACE_MINUTES :: int where "SESSION_ACTIVITY_GRACE_MINUTES = 10"
definition TERMINATION_RECONNECT_COOLDOWN_MINUTES :: int where "TERMINATION_RECONNECT_COOLDOWN_MINUTES = 60"
definition RECONNECT_GRACE_MINUTES :: int where "RECONNECT_GRACE_MINUTES = 30"
definition DEFAULT_MAX_CONCURRENT_SESSIONS_PER_GUEST :: int where "DEFAULT_MAX_CONCURRENT_SESSIONS_PER_GUEST = 20"
definition DEFAULT_MAX_DEVICES_PER_GUEST :: int where "DEFAULT_MAX_DEVICES_PER_GUEST = 3"
definition BYTES_PER_MB :: int where "BYTES_PER_MB = 1024 * 1024"

record guest_device = base_model +
  gd_guest_id :: uuid
  gd_mac_address :: string
  gd_device_name :: "string option"
  gd_first_seen_at :: datetime
  gd_last_seen_at :: datetime

record guest_session = base_model +
  se_guest_id :: uuid
  se_device_id :: "uuid option"
  se_router_id :: uuid
  se_location_id :: uuid
  se_organization_id :: uuid
  se_auth_method :: string
  se_voucher_id :: "uuid option"
  se_status :: GuestSessionStatus
  se_started_at :: datetime
  se_ended_at :: "datetime option"
  se_last_activity_at :: datetime
  se_ip_address :: "string option"
  se_user_agent :: "string option"
  se_accept_language :: "string option"
  se_bytes_uploaded :: int
  se_bytes_downloaded :: int
  se_data_limit_mb :: "int option"
  se_session_timeout_minutes :: "int option"
  se_idle_timeout_minutes :: "int option"
  se_disconnect_reason :: "string option"
  se_disconnect_enforced :: "bool option"

record quota_usage = base_model +
  qu_guest_id :: uuid
  qu_organization_id :: uuid
  qu_period_type :: QuotaPeriodType
  qu_period_start :: datetime
  qu_bytes_used :: int
  qu_minutes_used :: int
  qu_last_accrued_at :: "datetime option"

record guest_db = policy_db +
  ge_devices :: "guest_device list"
  ge_sessions :: "guest_session list"
  ge_quotas :: "quota_usage list"

definition session_is_active :: "guest_session \<Rightarrow> bool" where
  "session_is_active s \<longleftrightarrow> se_status s = SESSION_ACTIVE"

definition total_bytes :: "guest_session \<Rightarrow> int" where
  "total_bytes s = se_bytes_uploaded s + se_bytes_downloaded s"

definition device_keys :: "guest_device list \<Rightarrow> bool" where
  "device_keys t \<longleftrightarrow> distinct (map gd_mac_address t)"

definition quota_keys :: "quota_usage list \<Rightarrow> bool" where
  "quota_keys t \<longleftrightarrow> distinct (map (\<lambda>u. (qu_guest_id u, qu_period_type u)) t)"


subsection \<open>The services around the session engine\<close>

text \<open>
  \<open>gh_end_on_router\<close> is the terminator: \<open>None\<close> if it raised, otherwise the removals it reports, if it
  says. \<open>gh_venue_gate\<close> is the refusal of the Open Hours and access control checks, if any.
  \<open>gh_router include_deleted\<close> is \<open>RouterService.get_router\<close>.
\<close>

record router_view =
  rt_id :: uuid
  rt_status :: string
  rt_nas_only :: bool

record guest_hooks =
  gh_end_on_router :: "(platform_world \<Rightarrow> guest_session \<Rightarrow> string \<Rightarrow> int option option) option"
  gh_router :: "bool \<Rightarrow> uuid \<Rightarrow> router_view option"
  gh_venue_gate :: "platform_world \<Rightarrow> guest_row \<Rightarrow> uuid \<Rightarrow> string option \<Rightarrow> string option"
  gh_team_over_quota :: "uuid \<Rightarrow> bool"
  gh_cut_dispatcher :: bool
  gh_caller_scope :: location_scope


subsection \<open>Validators\<close>

definition validate_session_status_transition :: "GuestSessionStatus \<Rightarrow> GuestSessionStatus \<Rightarrow> platform_exc + unit" where
  "validate_session_status_transition current target =
     (if target \<in> set (GUEST_SESSION_STATUS_TRANSITIONS current) then Inr ()
      else Inl (InvalidSessionStatusTransitionError (GuestSessionStatus_value current) (GuestSessionStatus_value target)))"

definition session_idle_cutoff_minutes :: "guest_session \<Rightarrow> int" where
  "session_idle_cutoff_minutes s =
     (case (se_idle_timeout_minutes s, se_session_timeout_minutes s) of
        (None, None) \<Rightarrow> DEFAULT_IDLE_TIMEOUT_MINUTES
      | (Some i, None) \<Rightarrow> i
      | (None, Some t) \<Rightarrow> t
      | (Some i, Some t) \<Rightarrow> min i t)"

text \<open>The comparisons of elapsed minutes, floats in the code, are exact on microseconds.\<close>

definition is_session_timed_out :: "guest_session \<Rightarrow> datetime \<Rightarrow> bool" where
  "is_session_timed_out s now \<longleftrightarrow>
     minutes (session_idle_cutoff_minutes s + SESSION_ACTIVITY_GRACE_MINUTES) \<le> now - se_last_activity_at s"

definition has_session_overrun_time_limit :: "guest_session \<Rightarrow> datetime \<Rightarrow> bool" where
  "has_session_overrun_time_limit s now \<longleftrightarrow>
     (case se_session_timeout_minutes s of
        None \<Rightarrow> False
      | Some t \<Rightarrow> minutes (t + SESSION_ACTIVITY_GRACE_MINUTES) \<le> now - se_started_at s)"

definition is_session_stale :: "guest_session \<Rightarrow> datetime \<Rightarrow> bool \<Rightarrow> bool" where
  "is_session_stale s now activity_is_observable \<longleftrightarrow>
     (if activity_is_observable then is_session_timed_out s now \<or> has_session_overrun_time_limit s now
      else has_session_overrun_time_limit s now)"

definition has_session_reached_time_limit :: "guest_session \<Rightarrow> datetime \<Rightarrow> bool" where
  "has_session_reached_time_limit s now \<longleftrightarrow>
     (case se_session_timeout_minutes s of None \<Rightarrow> False | Some t \<Rightarrow> minutes t \<le> now - se_started_at s)"

record router_activity_read =
  ra_applies :: bool
  ra_read_at :: "datetime option"

definition idle_verdict_is_evidenced :: "guest_session \<Rightarrow> router_activity_read option \<Rightarrow> bool" where
  "idle_verdict_is_evidenced s read =
     (case read of
        None \<Rightarrow> True
      | Some r \<Rightarrow>
          \<not> ra_applies r \<or> 0 < total_bytes s \<or>
          (case ra_read_at r of
             None \<Rightarrow> False
           | Some t \<Rightarrow> se_last_activity_at s + minutes (session_idle_cutoff_minutes s) \<le> t))"

definition is_quota_exceeded :: "guest_session \<Rightarrow> bool" where
  "is_quota_exceeded s \<longleftrightarrow> (case se_data_limit_mb s of None \<Rightarrow> False | Some mb \<Rightarrow> mb * BYTES_PER_MB \<le> total_bytes s)"

definition is_limit_reached :: "int \<Rightarrow> int \<Rightarrow> bool" where
  "is_limit_reached count limit \<longleftrightarrow> limit \<le> count"

definition normalize_mac_address :: "string \<Rightarrow> string" where
  "normalize_mac_address mac = py_upper (py_strip mac)"

definition validate_extension_minutes :: "int \<Rightarrow> platform_exc + unit" where
  "validate_extension_minutes n = (if n \<le> 0 then Inl (InvalidExtensionMinutesError n) else Inr ())"

text \<open>The date of a local midnight: its year, the number of its day in the year, and its day of the month.\<close>

definition day_of_month :: "int \<Rightarrow> int" where
  "day_of_month ordinal =
     (let y = year_of_ordinal ordinal; d = ordinal - days_before_year y;
          m = int (length (filter (\<lambda>m. days_before_month y (int m) < d) [1..<13]))
      in d - days_before_month y m)"

definition compute_period_start :: "platform_env \<Rightarrow> QuotaPeriodType \<Rightarrow> datetime \<Rightarrow> string \<Rightarrow> datetime" where
  "compute_period_start env period now tz_name =
     (let today = wall_clock env (Some tz_name) now div days 1;
          first_day = (case period of
              QUOTA_DAILY \<Rightarrow> today
            | QUOTA_WEEKLY \<Rightarrow> today - weekday_of today
            | QUOTA_MONTHLY \<Rightarrow> today - (day_of_month (today + EPOCH_ORDINAL) - 1));
          local_start = days first_day
      in local_start - wall_offset env (zone_or_utc env (Some tz_name)) local_start)"


subsection \<open>Repository statements\<close>

definition session_by_id :: "uuid \<Rightarrow> 'a guest_db_scheme \<Rightarrow> guest_session option" where
  "session_by_id i db = get_by_id False i (ge_sessions db)"

definition list_sessions_for_guest :: "uuid \<Rightarrow> nat option \<Rightarrow> 'a guest_db_scheme \<Rightarrow> guest_session list" where
  "list_sessions_for_guest guest limit db = get_all (\<lambda>s. se_guest_id s = guest) se_started_at DESC False limit (ge_sessions db)"

definition get_latest_session_for_guest :: "uuid \<Rightarrow> 'a guest_db_scheme \<Rightarrow> guest_session option" where
  "get_latest_session_for_guest guest db = (case list_sessions_for_guest guest (Some 1) db of [] \<Rightarrow> None | s # _ \<Rightarrow> Some s)"

text \<open>PostgreSQL sorts NULL first in descending order; a terminated session without an end does not occur
  below.\<close>

definition get_latest_terminated_session_for_guest :: "uuid \<Rightarrow> 'a guest_db_scheme \<Rightarrow> guest_session option" where
  "get_latest_terminated_session_for_guest guest db =
     (let found = filter (\<lambda>s. se_guest_id s = guest \<and> se_status s = SESSION_TERMINATED \<and> \<not> is_deleted s) (ge_sessions db)
      in case filter (\<lambda>s. se_ended_at s = None) found of
           s # _ \<Rightarrow> Some s
         | [] \<Rightarrow> max_by (\<lambda>s. case se_ended_at s of None \<Rightarrow> 0 | Some t \<Rightarrow> t) found)"

definition active_session :: "(guest_session \<Rightarrow> bool) \<Rightarrow> guest_session \<Rightarrow> bool" where
  "active_session P s \<longleftrightarrow> P s \<and> se_status s = SESSION_ACTIVE"

definition count_active_sessions_for_guest :: "uuid \<Rightarrow> 'a guest_db_scheme \<Rightarrow> int" where
  "count_active_sessions_for_guest guest db = int (count_rows (active_session (\<lambda>s. se_guest_id s = guest)) False (ge_sessions db))"

definition count_active_devices_for_guest :: "uuid \<Rightarrow> uuid option \<Rightarrow> 'a guest_db_scheme \<Rightarrow> int" where
  "count_active_devices_for_guest guest exclude db =
     int (length (remdups (List.map_filter se_device_id
       (filter (\<lambda>s. se_guest_id s = guest \<and> se_status s = SESSION_ACTIVE \<and> \<not> is_deleted s \<and> (exclude = None \<or> se_device_id s \<noteq> exclude))
         (ge_sessions db)))))"

definition list_active_sessions_for_guest :: "uuid \<Rightarrow> 'a guest_db_scheme \<Rightarrow> guest_session list" where
  "list_active_sessions_for_guest guest db =
     get_all (active_session (\<lambda>s. se_guest_id s = guest)) created_at DESC False None (ge_sessions db)"

definition list_active_sessions_for_router :: "uuid \<Rightarrow> 'a guest_db_scheme \<Rightarrow> guest_session list" where
  "list_active_sessions_for_router router db =
     get_all (active_session (\<lambda>s. se_router_id s = router)) created_at DESC False None (ge_sessions db)"

definition least_ignoring_null :: "int option \<Rightarrow> int option \<Rightarrow> int option" where
  "least_ignoring_null a b = (case a of None \<Rightarrow> b | Some x \<Rightarrow> (case b of None \<Rightarrow> Some x | Some y \<Rightarrow> Some (min x y)))"

definition timed_out_where :: "datetime \<Rightarrow> guest_session \<Rightarrow> bool" where
  "timed_out_where now s \<longleftrightarrow>
     (let idle_cutoff = (case least_ignoring_null (se_idle_timeout_minutes s) (se_session_timeout_minutes s) of
            None \<Rightarrow> DEFAULT_IDLE_TIMEOUT_MINUTES | Some n \<Rightarrow> n)
      in se_last_activity_at s + minutes (idle_cutoff + SESSION_ACTIVITY_GRACE_MINUTES) < now \<or>
         (case se_session_timeout_minutes s of
            None \<Rightarrow> False | Some t \<Rightarrow> se_started_at s + minutes (t + SESSION_ACTIVITY_GRACE_MINUTES) < now))"

definition list_timed_out_sessions :: "datetime \<Rightarrow> 'a guest_db_scheme \<Rightarrow> guest_session list" where
  "list_timed_out_sessions now db =
     filter (\<lambda>s. se_status s = SESSION_ACTIVE \<and> \<not> is_deleted s \<and> timed_out_where now s) (ge_sessions db)"

definition device_by_mac :: "string \<Rightarrow> 'a guest_db_scheme \<Rightarrow> guest_device option" where
  "device_by_mac mac db = (case get_all (\<lambda>d. gd_mac_address d = mac) created_at DESC False (Some 1) (ge_devices db) of [] \<Rightarrow> None | d # _ \<Rightarrow> Some d)"

definition get_quota_usage :: "uuid \<Rightarrow> QuotaPeriodType \<Rightarrow> 'a guest_db_scheme \<Rightarrow> quota_usage option" where
  "get_quota_usage guest period db =
     (case get_all (\<lambda>u. qu_guest_id u = guest \<and> qu_period_type u = period) created_at DESC False (Some 1) (ge_quotas db) of
        [] \<Rightarrow> None | u # _ \<Rightarrow> Some u)"

definition get_quota_usages :: "uuid \<Rightarrow> QuotaPeriodType list \<Rightarrow> 'a guest_db_scheme \<Rightarrow> quota_usage list" where
  "get_quota_usages guest periods db =
     filter (\<lambda>u. qu_guest_id u = guest \<and> qu_period_type u \<in> set periods \<and> \<not> is_deleted u) (ge_quotas db)"

definition get_organization_timezone :: "uuid \<Rightarrow> 'a site_db_scheme \<Rightarrow> string" where
  "get_organization_timezone org db =
     (case find (\<lambda>o'. row_id o' = org) (site_orgs db) of
        None \<Rightarrow> ''UTC'' | Some o' \<Rightarrow> if og_timezone o' = [] then ''UTC'' else og_timezone o')"

definition list_all_quota_usages_with_org_timezone :: "'a guest_db_scheme \<Rightarrow> (quota_usage \<times> string) list" where
  "list_all_quota_usages_with_org_timezone db =
     concat (map (\<lambda>u. map (\<lambda>o'. (u, og_timezone o')) (filter (\<lambda>o'. row_id o' = qu_organization_id u) (site_orgs db))) (ge_quotas db))"

definition list_active_guest_org_pairs :: "'a guest_db_scheme \<Rightarrow> (uuid \<times> uuid \<times> uuid) list" where
  "list_active_guest_org_pairs db =
     remdups (map (\<lambda>s. (se_guest_id s, se_organization_id s, se_location_id s))
       (filter (\<lambda>s. se_status s = SESSION_ACTIVE \<and> \<not> is_deleted s) (ge_sessions db)))"

end
