(* ===== verification/GuestSessions.thy ===== *)
theory GuestSessions
  imports GuestData
begin

section \<open>Guest sessions: operations\<close>

text \<open>
  The session engine of \<open>app/domains/guest/service.py\<close>: the end of a session and the live disconnect
  that follows, pause, resume and extension, reconnect, the reuse or creation of a session at a sign-in,
  and the sweep of stale sessions. The row lock of \<open>get_guest_for_update\<close> orders concurrent sign-ins; a
  run here is one request after the other.
\<close>

subsection \<open>Access\<close>

definition enforce_tenant_scope :: "uuid \<Rightarrow> uuid option \<Rightarrow> ('db, unit) pprog" where
  "enforce_tenant_scope org requesting = guard (requesting = None \<or> requesting = Some org) CrossOrganizationGuestAccessError"

definition get_session :: "guest_hooks \<Rightarrow> uuid \<Rightarrow> uuid option \<Rightarrow> ('a guest_db_scheme, guest_session) pprog" where
  "get_session hooks i requesting =
     andthen (reads_db (session_by_id i)) (\<lambda>found.
     andthen (orelse found (GuestSessionNotFoundError i)) (\<lambda>s.
     andthen (enforce_tenant_scope (se_organization_id s) requesting) (\<lambda>_.
     andthen (lift_result (enforce_entity_location (Some (se_location_id s)) (gh_caller_scope hooks) CrossLocationGuestAccessError)) (\<lambda>_.
     ret s))))"

definition require_guest :: "guest_hooks \<Rightarrow> uuid \<Rightarrow> uuid option \<Rightarrow> ('a guest_db_scheme, guest_row) pprog" where
  "require_guest hooks i requesting =
     andthen (reads_db (\<lambda>db. get_by_id False i (site_guests db))) (\<lambda>found.
     andthen (orelse found (GuestNotFoundError i)) (\<lambda>g.
     andthen (enforce_tenant_scope (gu_organization_id g) requesting) (\<lambda>_.
     andthen (lift_result (enforce_entity_location (gu_location_id g) (gh_caller_scope hooks) CrossLocationGuestAccessError)) (\<lambda>_.
     ret g))))"

definition reject_if_blocked :: "guest_row \<Rightarrow> ('db, unit) pprog" where
  "reject_if_blocked g = guard (\<not> gu_is_blocked g) (GuestBlockedError (gu_blocked_reason g))"

definition get_eligible_router :: "guest_hooks \<Rightarrow> uuid \<Rightarrow> ('db, router_view) pprog" where
  "get_eligible_router hooks i =
     andthen (orelse (gh_router hooks False i) (RouterNotFoundError i)) (\<lambda>r.
     andthen (guard (rt_status r \<notin> {''decommissioned'', ''suspended''}) (RouterNotEligibleForGuestSessionError (rt_id r) (rt_status r))) (\<lambda>_.
     ret r))"

definition save_session ::
  "platform_env \<Rightarrow> guest_session \<Rightarrow> (guest_session \<Rightarrow> guest_session) \<Rightarrow> ('a guest_db_scheme, guest_session) pprog" where
  "save_session env s data = save_in env ge_sessions ge_sessions_update (\<lambda>_. True) s data"

definition save_guest ::
  "platform_env \<Rightarrow> guest_row \<Rightarrow> (guest_row \<Rightarrow> guest_row) \<Rightarrow> ('a guest_db_scheme, guest_row) pprog" where
  "save_guest env g data = save_in env site_guests site_guests_update (\<lambda>_. True) g data"

definition because :: "string option \<Rightarrow> string" where
  "because reason = (case reason of None \<Rightarrow> [] | Some r \<Rightarrow> if r = [] then [] else '': '' @ r)"

definition session_audit :: "uuid option \<Rightarrow> string \<Rightarrow> guest_session \<Rightarrow> string \<Rightarrow> ('a guest_db_scheme, unit) pprog" where
  "session_audit actor action s what =
     site_audit actor action ''guest'' (row_id s) (''Guest session '' @ row_id s @ '' '' @ what) (Some (se_organization_id s)) (Some (se_location_id s))"


subsection \<open>The live disconnect\<close>

definition record_enforced :: "platform_env \<Rightarrow> guest_session \<Rightarrow> bool \<Rightarrow> ('a guest_db_scheme, unit) pprog" where
  "record_enforced env s enforced = andthen (save_session env s (\<lambda>r. r\<lparr>se_disconnect_enforced := Some enforced\<rparr>)) (\<lambda>_. ret ())"

definition end_on_router :: "guest_hooks \<Rightarrow> guest_session \<Rightarrow> guest_row \<Rightarrow> ('a guest_db_scheme, int option option option) pprog" where
  "end_on_router hooks s g =
     reads_world (\<lambda>w. map_option (\<lambda>terminator. terminator w s (gu_identifier g)) (gh_end_on_router hooks))"

definition issue_live_disconnect ::
  "platform_env \<Rightarrow> guest_hooks \<Rightarrow> bool \<Rightarrow> guest_session \<Rightarrow> ('a guest_db_scheme, bool option) pprog" where
  "issue_live_disconnect env hooks already_ended_on_device s =
     (if already_ended_on_device then ret None
      else andthen (reads_db (\<lambda>db. get_by_id False (se_guest_id s) (site_guests db))) (\<lambda>found.
           case found of
             None \<Rightarrow> andthen (record_enforced env s False) (\<lambda>_. ret None)
           | Some g \<Rightarrow>
               andthen (end_on_router hooks s g) (\<lambda>outcome.
               case outcome of
                 None \<Rightarrow> andthen (record_enforced env s False) (\<lambda>_. ret None)
               | Some None \<Rightarrow> andthen (record_enforced env s False) (\<lambda>_. ret (Some False))
               | Some (Some removed) \<Rightarrow>
                   (case removed of
                      None \<Rightarrow> ret None
                    | Some n \<Rightarrow> if n < 1 then ret None else andthen (record_enforced env s True) (\<lambda>_. ret (Some True))))))"


subsection \<open>Ending, pausing and extending\<close>

definition disconnect_session ::
  "platform_env \<Rightarrow> guest_hooks \<Rightarrow> uuid option \<Rightarrow> uuid \<Rightarrow> uuid option \<Rightarrow> string option \<Rightarrow> bool \<Rightarrow> ('a guest_db_scheme, guest_session) pprog" where
  "disconnect_session env hooks actor i requesting reason already_ended_on_device =
     andthen (get_session hooks i requesting) (\<lambda>s.
     andthen (lift_result (validate_session_status_transition (se_status s) SESSION_DISCONNECTED)) (\<lambda>_.
     andthen (pnow env) (\<lambda>now.
     andthen (save_session env s (\<lambda>r. r\<lparr>se_status := SESSION_DISCONNECTED, se_ended_at := Some now, se_disconnect_reason := reason, updated_by := actor\<rparr>)) (\<lambda>updated.
     andthen (if actor \<noteq> None then session_audit actor ''guest_session_disconnected'' updated (''disconnected'' @ because reason) else ret ()) (\<lambda>_.
     andthen (issue_live_disconnect env hooks already_ended_on_device updated) (\<lambda>_.
     ret updated))))))"

definition terminate_session ::
  "platform_env \<Rightarrow> guest_hooks \<Rightarrow> uuid option \<Rightarrow> uuid \<Rightarrow> uuid option \<Rightarrow> string option \<Rightarrow> ('a guest_db_scheme, guest_session) pprog" where
  "terminate_session env hooks actor i requesting reason =
     andthen (get_session hooks i requesting) (\<lambda>s.
     andthen (lift_result (validate_session_status_transition (se_status s) SESSION_TERMINATED)) (\<lambda>_.
     andthen (pnow env) (\<lambda>now.
     andthen (save_session env s (\<lambda>r. r\<lparr>se_status := SESSION_TERMINATED, se_ended_at := Some now, se_disconnect_reason := reason, updated_by := actor\<rparr>)) (\<lambda>updated.
     andthen (session_audit actor ''guest_session_terminated'' updated (''terminated'' @ because reason)) (\<lambda>_.
     andthen (issue_live_disconnect env hooks False updated) (\<lambda>_.
     ret updated))))))"

definition pause_session ::
  "platform_env \<Rightarrow> guest_hooks \<Rightarrow> uuid option \<Rightarrow> uuid \<Rightarrow> uuid option \<Rightarrow> string option \<Rightarrow> ('a guest_db_scheme, guest_session) pprog" where
  "pause_session env hooks actor i requesting reason =
     andthen (get_session hooks i requesting) (\<lambda>s.
     andthen (lift_result (validate_session_status_transition (se_status s) SESSION_PAUSED)) (\<lambda>_.
     andthen (save_session env s (\<lambda>r. r\<lparr>se_status := SESSION_PAUSED, se_disconnect_reason := reason, updated_by := actor\<rparr>)) (\<lambda>updated.
     andthen (session_audit actor ''guest_session_paused'' updated (''paused'' @ because reason)) (\<lambda>_.
     andthen (issue_live_disconnect env hooks False updated) (\<lambda>_.
     ret updated)))))"

definition resume_session ::
  "platform_env \<Rightarrow> guest_hooks \<Rightarrow> uuid option \<Rightarrow> uuid \<Rightarrow> uuid option \<Rightarrow> ('a guest_db_scheme, guest_session) pprog" where
  "resume_session env hooks actor i requesting =
     andthen (get_session hooks i requesting) (\<lambda>s.
     andthen (lift_result (validate_session_status_transition (se_status s) SESSION_ACTIVE)) (\<lambda>_.
     andthen (pnow env) (\<lambda>now.
     andthen (save_session env s (\<lambda>r. r\<lparr>se_status := SESSION_ACTIVE, se_disconnect_reason := None, se_last_activity_at := now, updated_by := actor\<rparr>)) (\<lambda>updated.
     andthen (session_audit actor ''guest_session_resumed'' updated ''resumed'') (\<lambda>_.
     ret updated)))))"

definition extended_timeout :: "guest_session \<Rightarrow> int \<Rightarrow> int" where
  "extended_timeout s additional = (case se_session_timeout_minutes s of None \<Rightarrow> 0 | Some t \<Rightarrow> t) + additional"

definition extend_session ::
  "platform_env \<Rightarrow> guest_hooks \<Rightarrow> uuid option \<Rightarrow> uuid \<Rightarrow> uuid option \<Rightarrow> int \<Rightarrow> ('a guest_db_scheme, guest_session) pprog" where
  "extend_session env hooks actor i requesting additional =
     andthen (lift_result (validate_extension_minutes additional)) (\<lambda>_.
     andthen (get_session hooks i requesting) (\<lambda>s.
     andthen (guard (se_status s \<in> {SESSION_ACTIVE, SESSION_PAUSED})
       (InvalidSessionStatusTransitionError (GuestSessionStatus_value (se_status s)) (GuestSessionStatus_value (se_status s)))) (\<lambda>_.
     andthen (pnow env) (\<lambda>now.
     andthen (save_session env s (\<lambda>r. r\<lparr>se_session_timeout_minutes := Some (extended_timeout s additional), se_last_activity_at := now, updated_by := actor\<rparr>)) (\<lambda>updated.
     andthen (session_audit actor ''guest_session_extended'' updated (''extended by '' @ show_int additional @ '' minute(s)'')) (\<lambda>_.
     ret updated))))))"


subsection \<open>Devices\<close>

definition create_device ::
  "platform_env \<Rightarrow> uuid \<Rightarrow> string \<Rightarrow> string option \<Rightarrow> datetime \<Rightarrow> ('a guest_db_scheme, guest_device) pprog" where
  "create_device env guest mac name now =
     insert_in env None ge_devices ge_devices_update device_keys (guest_device.fields guest mac name now now)"

definition get_or_create_device ::
  "platform_env \<Rightarrow> uuid \<Rightarrow> string \<Rightarrow> string option \<Rightarrow> ('a guest_db_scheme, guest_device) pprog" where
  "get_or_create_device env guest mac_address name =
     andthen (pnow env) (\<lambda>now.
     andthen (reads_db (device_by_mac (normalize_mac_address mac_address))) (\<lambda>found.
     case found of
       None \<Rightarrow> create_device env guest (normalize_mac_address mac_address) name now
     | Some d \<Rightarrow>
         save_in env ge_devices ge_devices_update device_keys d (\<lambda>r. r\<lparr>gd_last_seen_at := now, gd_guest_id := guest,
           gd_device_name := (if name \<noteq> None then name else gd_device_name r)\<rparr>)))"


subsection \<open>Creating and reusing a session\<close>

record session_grant =
  sg_auth_method :: string
  sg_voucher_id :: "uuid option"
  sg_ip_address :: "string option"
  sg_user_agent :: "string option"
  sg_accept_language :: "string option"
  sg_data_limit_mb :: "int option"
  sg_session_timeout_minutes :: "int option"
  sg_idle_timeout_minutes :: "int option"

definition create_session ::
  "platform_env \<Rightarrow> guest_row \<Rightarrow> guest_device option \<Rightarrow> router_view \<Rightarrow> uuid \<Rightarrow> session_grant \<Rightarrow> ('a guest_db_scheme, guest_session) pprog" where
  "create_session env g device router location grant =
     andthen (pnow env) (\<lambda>now.
     insert_in env None ge_sessions ge_sessions_update (\<lambda>_. True)
       (guest_session.fields (row_id g) (map_option row_id device) (rt_id router) location (gu_organization_id g) (sg_auth_method grant)
          (sg_voucher_id grant) SESSION_ACTIVE now None now (sg_ip_address grant) (sg_user_agent grant) (sg_accept_language grant) 0 0
          (sg_data_limit_mb grant) (sg_session_timeout_minutes grant) (sg_idle_timeout_minutes grant) None None))"

fun first_unless :: "('a \<Rightarrow> bool) \<Rightarrow> ('a \<Rightarrow> bool) \<Rightarrow> 'a list \<Rightarrow> 'a option" where
  "first_unless P Q [] = None"
| "first_unless P Q (x # xs) = (if P x then (if Q x then None else Some x) else first_unless P Q xs)"

definition find_reusable_active_session ::
  "platform_env \<Rightarrow> uuid \<Rightarrow> uuid \<Rightarrow> uuid option \<Rightarrow> ('a guest_db_scheme, guest_session option) pprog" where
  "find_reusable_active_session env guest router device =
     (if device = None then ret None
      else andthen (pnow env) (\<lambda>now.
           reads_db (\<lambda>db. first_unless (\<lambda>s. se_router_id s = router \<and> se_device_id s = device) (\<lambda>s. has_session_reached_time_limit s now)
             (list_active_sessions_for_guest guest db))))"

definition reuse_with :: "router_view \<Rightarrow> session_grant \<Rightarrow> datetime \<Rightarrow> guest_session \<Rightarrow> guest_session" where
  "reuse_with router grant now s =
     s\<lparr>se_last_activity_at := now, se_data_limit_mb := sg_data_limit_mb grant, se_session_timeout_minutes := sg_session_timeout_minutes grant,
       se_idle_timeout_minutes := sg_idle_timeout_minutes grant, se_auth_method := sg_auth_method grant,
       se_ip_address := (if sg_ip_address grant \<noteq> None then sg_ip_address grant else se_ip_address s),
       se_voucher_id := (if sg_voucher_id grant \<noteq> None then sg_voucher_id grant else if rt_nas_only router then None else se_voucher_id s)\<rparr>"

definition reuse_or_create_session ::
  "platform_env \<Rightarrow> guest_row \<Rightarrow> guest_device option \<Rightarrow> router_view \<Rightarrow> uuid \<Rightarrow> session_grant \<Rightarrow> ('a guest_db_scheme, guest_session \<times> bool) pprog" where
  "reuse_or_create_session env g device router location grant =
     andthen (find_reusable_active_session env (row_id g) (rt_id router) (map_option row_id device)) (\<lambda>reusable.
     case reusable of
       Some s \<Rightarrow>
         andthen (pnow env) (\<lambda>now.
         andthen (save_session env s (reuse_with router grant now)) (\<lambda>reused. ret (reused, False)))
     | None \<Rightarrow> andthen (create_session env g device router location grant) (\<lambda>s. ret (s, True)))"

definition bump_guest_visit :: "platform_env \<Rightarrow> guest_row \<Rightarrow> ('a guest_db_scheme, guest_row) pprog" where
  "bump_guest_visit env g =
     andthen (pnow env) (\<lambda>now.
     save_guest env g (\<lambda>r. r\<lparr>gu_last_seen_at := now, gu_total_visit_count := gu_total_visit_count g + 1\<rparr>))"

definition block_guest ::
  "platform_env \<Rightarrow> guest_hooks \<Rightarrow> uuid option \<Rightarrow> uuid \<Rightarrow> uuid option \<Rightarrow> string option \<Rightarrow> ('a guest_db_scheme, guest_row) pprog" where
  "block_guest env hooks actor i requesting reason =
     andthen (require_guest hooks i requesting) (\<lambda>g.
     andthen (save_guest env g (\<lambda>r. r\<lparr>gu_is_blocked := True, gu_blocked_reason := reason, updated_by := actor\<rparr>)) (\<lambda>updated.
     andthen (site_audit actor ''guest_blocked'' ''guest'' (row_id updated) (''Guest '' @ in_quotes (gu_identifier updated) @ '' blocked'' @ because reason)
       (Some (gu_organization_id updated)) (gu_location_id updated)) (\<lambda>_.
     ret updated)))"

definition unblock_guest ::
  "platform_env \<Rightarrow> guest_hooks \<Rightarrow> uuid option \<Rightarrow> uuid \<Rightarrow> uuid option \<Rightarrow> ('a guest_db_scheme, guest_row) pprog" where
  "unblock_guest env hooks actor i requesting =
     andthen (require_guest hooks i requesting) (\<lambda>g.
     andthen (save_guest env g (\<lambda>r. r\<lparr>gu_is_blocked := False, gu_blocked_reason := None, updated_by := actor\<rparr>)) (\<lambda>updated.
     andthen (site_audit actor ''guest_unblocked'' ''guest'' (row_id updated) (''Guest '' @ in_quotes (gu_identifier updated) @ '' unblocked'')
       (Some (gu_organization_id updated)) (gu_location_id updated)) (\<lambda>_.
     ret updated)))"


subsection \<open>Reconnect\<close>

definition cooldown_remaining :: "datetime \<Rightarrow> guest_session option \<Rightarrow> int option" where
  "cooldown_remaining now terminated =
     (case terminated of
        None \<Rightarrow> None
      | Some s \<Rightarrow>
          (case se_ended_at s of
             None \<Rightarrow> None
           | Some t \<Rightarrow>
               (let cooldown_until = t + minutes TERMINATION_RECONNECT_COOLDOWN_MINUTES
                in if now < cooldown_until then Some (max ((cooldown_until - now) div minutes 1 + 1) 1) else None)))"

definition within_grace :: "datetime \<Rightarrow> guest_session \<Rightarrow> bool" where
  "within_grace now prior \<longleftrightarrow>
     se_status prior = SESSION_TERMINATED \<or>
     \<not> minutes RECONNECT_GRACE_MINUTES < now - (case se_ended_at prior of Some t \<Rightarrow> t | None \<Rightarrow> se_last_activity_at prior)"

definition grant_of :: "guest_session \<Rightarrow> string option \<Rightarrow> session_grant" where
  "grant_of prior ip_address =
     \<lparr>sg_auth_method = se_auth_method prior, sg_voucher_id = se_voucher_id prior, sg_ip_address = ip_address, sg_user_agent = se_user_agent prior,
      sg_accept_language = se_accept_language prior, sg_data_limit_mb = se_data_limit_mb prior,
      sg_session_timeout_minutes = se_session_timeout_minutes prior, sg_idle_timeout_minutes = se_idle_timeout_minutes prior\<rparr>"

definition device_for_reconnect ::
  "platform_env \<Rightarrow> guest_row \<Rightarrow> string option \<Rightarrow> guest_session \<Rightarrow> ('a guest_db_scheme, guest_device option) pprog" where
  "device_for_reconnect env g device_mac prior =
     (if device_mac \<noteq> None \<and> device_mac \<noteq> Some [] then andthen (get_or_create_device env (row_id g) (the device_mac) None) (\<lambda>d. ret (Some d))
      else case se_device_id prior of
             None \<Rightarrow> ret None
           | Some i \<Rightarrow> reads_db (\<lambda>db. get_by_id False i (ge_devices db)))"

record reconnect_request =
  rc_guest_id :: uuid
  rc_router_id :: uuid
  rc_location_id :: uuid
  rc_device_mac :: "string option"
  rc_ip_address :: "string option"

definition reconnect ::
  "platform_env \<Rightarrow> guest_hooks \<Rightarrow> uuid option \<Rightarrow> reconnect_request \<Rightarrow> ('a guest_db_scheme, guest_session) pprog" where
  "reconnect env hooks requesting c =
     andthen (require_guest hooks (rc_guest_id c) requesting) (\<lambda>g.
     andthen (reject_if_blocked g) (\<lambda>_.
     andthen (pnow env) (\<lambda>now.
     andthen (reads_db (get_latest_terminated_session_for_guest (row_id g))) (\<lambda>terminated.
     andthen (case cooldown_remaining now terminated of None \<Rightarrow> ret () | Some n \<Rightarrow> raise (SessionTerminationCooldownError n)) (\<lambda>_.
     andthen (reads_db (get_latest_session_for_guest (row_id g))) (\<lambda>found.
     andthen (orelse found (NoReconnectableSessionError (row_id g))) (\<lambda>prior.
     if se_status prior = SESSION_ACTIVE then ret prior
     else
       andthen (guard (within_grace now prior) (NoReconnectableSessionError (row_id g))) (\<lambda>_.
       andthen (reads_world (\<lambda>w. gh_venue_gate hooks w g (rc_location_id c) (rc_device_mac c))) (\<lambda>refusal.
       andthen (case refusal of None \<Rightarrow> ret () | Some why \<Rightarrow> raise (VenueGateError why)) (\<lambda>_.
       andthen (get_eligible_router hooks (rc_router_id c)) (\<lambda>router.
       andthen (device_for_reconnect env g (rc_device_mac c) prior) (\<lambda>device.
       andthen (create_session env g device router (rc_location_id c) (grant_of prior (rc_ip_address c))) (\<lambda>s.
       andthen (bump_guest_visit env g) (\<lambda>_.
       ret s))))))))))))))"


subsection \<open>Sweeps\<close>

text \<open>
  \<open>reporting\<close> asks a venue whether its activity is reported and \<open>reads\<close> a router when its host table was
  last read; \<open>None\<close> in the place of an answer is a lookup that failed. Both are asked once per venue or
  router in a run.
\<close>

type_synonym activity_reporting = "(uuid \<Rightarrow> uuid \<Rightarrow> bool option) option"
type_synonym activity_reads = "(uuid \<Rightarrow> router_activity_read option) option"

definition venue_observable :: "activity_reporting \<Rightarrow> guest_session \<Rightarrow> bool" where
  "venue_observable reporting s \<longleftrightarrow>
     (case reporting of None \<Rightarrow> True | Some ask \<Rightarrow> ask (se_organization_id s) (se_location_id s) = Some True)"

definition read_of :: "activity_reads \<Rightarrow> guest_session \<Rightarrow> router_activity_read option" where
  "read_of reads' s =
     (case reads' of
        None \<Rightarrow> None
      | Some ask \<Rightarrow> Some (case ask (se_router_id s) of None \<Rightarrow> \<lparr>ra_applies = True, ra_read_at = None\<rparr> | Some r \<Rightarrow> r))"

definition session_observable :: "activity_reporting \<Rightarrow> activity_reads \<Rightarrow> guest_session \<Rightarrow> bool" where
  "session_observable reporting reads' s \<longleftrightarrow> venue_observable reporting s \<and> idle_verdict_is_evidenced s (read_of reads' s)"

definition expire_session :: "platform_env \<Rightarrow> guest_session \<Rightarrow> datetime \<Rightarrow> string \<Rightarrow> ('a guest_db_scheme, guest_session) pprog" where
  "expire_session env s now reason =
     save_session env s (\<lambda>r. r\<lparr>se_status := SESSION_EXPIRED, se_ended_at := Some now, se_disconnect_reason := Some reason\<rparr>)"

definition timeout_reason :: "bool \<Rightarrow> string" where
  "timeout_reason observable = (if observable then ''inactivity_timeout'' else ''session_time_limit_reached'')"

definition expire_if_stale ::
  "platform_env \<Rightarrow> guest_hooks \<Rightarrow> activity_reporting \<Rightarrow> activity_reads \<Rightarrow> datetime \<Rightarrow> guest_session \<Rightarrow> guest_session list \<Rightarrow>
   ('a guest_db_scheme, guest_session list) pprog" where
  "expire_if_stale env hooks reporting reads' now s expired =
     (let observable = session_observable reporting reads' s
      in if \<not> is_session_stale s now observable then ret expired
         else andthen (expire_session env s now (timeout_reason observable)) (\<lambda>updated.
              andthen (issue_live_disconnect env hooks False updated) (\<lambda>_.
              ret (expired @ [updated]))))"

definition enforce_session_timeouts ::
  "platform_env \<Rightarrow> guest_hooks \<Rightarrow> activity_reporting \<Rightarrow> activity_reads \<Rightarrow> ('a guest_db_scheme, guest_session list) pprog" where
  "enforce_session_timeouts env hooks reporting reads' =
     andthen (pnow env) (\<lambda>now.
     andthen (reads_db (list_timed_out_sessions now)) (\<lambda>candidates.
     for_each (expire_if_stale env hooks reporting reads' now) candidates []))"

definition close_sessions_for_nas_restart ::
  "platform_env \<Rightarrow> uuid \<Rightarrow> string \<Rightarrow> ('a guest_db_scheme, guest_session list) pprog" where
  "close_sessions_for_nas_restart env router reason =
     andthen (pnow env) (\<lambda>now.
     andthen (reads_db (list_active_sessions_for_router router)) (\<lambda>sessions.
     for_each (\<lambda>s closed.
       andthen (save_session env s (\<lambda>r. r\<lparr>se_status := SESSION_DISCONNECTED, se_ended_at := Some now, se_disconnect_reason := Some reason\<rparr>)) (\<lambda>updated.
       ret (closed @ [updated]))) sessions []))"

end
