(* ===== verification/GuestQuota.thy ===== *)
theory GuestQuota
  imports GuestSessions
begin

section \<open>Guest sessions: limits and quotas\<close>

text \<open>
  The limits of \<open>app/domains/guest/service.py\<close>: concurrent sessions, devices, the fair-usage quotas
  with their rollover, the accounting of traffic (\<open>record_usage\<close>) and of online time. The limits are
  resolved by the policy service on the same database. Where the code reads a number from resolved
  rules the schema of their type admits an integer or null.
\<close>

subsection \<open>Resolved limits\<close>

fun rule_int :: "json \<Rightarrow> int option" where
  "rule_int (JInt n) = Some n"
| "rule_int _ = None"

definition rule_or :: "int \<Rightarrow> string \<Rightarrow> json_object \<Rightarrow> int" where
  "rule_or fallback key rules = (case rule_int (json_get key rules) of None \<Rightarrow> fallback | Some n \<Rightarrow> n)"

definition guest_rules :: "PolicyType \<Rightarrow> uuid option \<Rightarrow> uuid option \<Rightarrow> uuid option \<Rightarrow> ('a guest_db_scheme, json_object) pprog" where
  "guest_rules policy_type org location guest =
     andthen (resolve_effective_policy \<lparr>rq_policy_type = policy_type, rq_organization_id = org, rq_location_id = location,
       rq_user_id = None, rq_role_ids = [], rq_guest_id = guest\<rparr>) (\<lambda>resolved.
     ret (re_rules resolved))"

definition resolve_session_policy_rules :: "uuid option \<Rightarrow> uuid option \<Rightarrow> uuid option \<Rightarrow> ('a guest_db_scheme, json_object) pprog" where
  "resolve_session_policy_rules org location guest =
     catching (andthen (guest_rules PT_SESSION org location guest) (\<lambda>rules. ret (filter (\<lambda>(_, v). v \<noteq> JNull) rules))) (\<lambda>_. ret [])"

definition resolve_device_limit :: "uuid option \<Rightarrow> uuid option \<Rightarrow> uuid option \<Rightarrow> ('a guest_db_scheme, int) pprog" where
  "resolve_device_limit org location guest =
     catching (andthen (guest_rules PT_DEVICE org location guest) (\<lambda>rules. ret (rule_or DEFAULT_MAX_DEVICES_PER_GUEST ''max_devices_per_guest'' rules)))
       (\<lambda>_. ret DEFAULT_MAX_DEVICES_PER_GUEST)"

definition resolve_session_timeout_minutes ::
  "uuid option \<Rightarrow> uuid option \<Rightarrow> uuid option \<Rightarrow> access_tier option \<Rightarrow> ('a guest_db_scheme, int) pprog" where
  "resolve_session_timeout_minutes org location guest tier =
     andthen (resolve_session_policy_rules org location guest) (\<lambda>rules.
     ret (case tier of
            Some t \<Rightarrow> (case at_session_timeout_minutes t of
                Some n \<Rightarrow> if n \<noteq> 0 then n else rule_or DEFAULT_SESSION_TIMEOUT_MINUTES ''session_timeout_minutes'' rules
              | None \<Rightarrow> rule_or DEFAULT_SESSION_TIMEOUT_MINUTES ''session_timeout_minutes'' rules)
          | None \<Rightarrow> rule_or DEFAULT_SESSION_TIMEOUT_MINUTES ''session_timeout_minutes'' rules))"

definition enforce_concurrent_session_limit :: "uuid \<Rightarrow> uuid option \<Rightarrow> uuid option \<Rightarrow> ('a guest_db_scheme, unit) pprog" where
  "enforce_concurrent_session_limit guest org location =
     andthen (reads_db (count_active_sessions_for_guest guest)) (\<lambda>active_count.
     andthen (resolve_session_policy_rules org location (Some guest)) (\<lambda>rules.
     let limit = rule_or DEFAULT_MAX_CONCURRENT_SESSIONS_PER_GUEST ''max_concurrent_sessions_per_guest'' rules
     in guard (\<not> is_limit_reached active_count limit) (ConcurrentSessionLimitExceededError guest limit)))"

definition tier_devices :: "access_tier option \<Rightarrow> int \<Rightarrow> int" where
  "tier_devices tier limit =
     (case tier of None \<Rightarrow> limit | Some t \<Rightarrow> (case at_devices_per_user t of None \<Rightarrow> limit | Some n \<Rightarrow> n))"

definition enforce_device_limit ::
  "uuid \<Rightarrow> string option \<Rightarrow> uuid option \<Rightarrow> uuid option \<Rightarrow> access_tier option \<Rightarrow> ('a guest_db_scheme, guest_device option) pprog" where
  "enforce_device_limit guest mac_address org location tier =
     (case mac_address of
        None \<Rightarrow> ret None
      | Some mac \<Rightarrow>
          if mac = [] then ret None
          else
            andthen (reads_db (device_by_mac (normalize_mac_address mac))) (\<lambda>existing.
            let exclude = (case existing of None \<Rightarrow> None | Some d \<Rightarrow> if gd_guest_id d = guest then Some (row_id d) else None)
            in andthen (reads_db (count_active_devices_for_guest guest exclude)) (\<lambda>online.
               andthen (resolve_device_limit org location (Some guest)) (\<lambda>resolved.
               let limit = tier_devices tier resolved
               in andthen (guard (\<not> is_limit_reached online limit) (GuestDeviceLimitExceededError guest limit)) (\<lambda>_.
                  ret existing)))))"


subsection \<open>Quota rows\<close>

definition rolled_over :: "datetime \<Rightarrow> quota_usage \<Rightarrow> quota_usage" where
  "rolled_over period_start u = u\<lparr>qu_period_start := period_start, qu_bytes_used := 0, qu_minutes_used := 0, qu_last_accrued_at := None\<rparr>"

definition save_quota ::
  "platform_env \<Rightarrow> quota_usage \<Rightarrow> (quota_usage \<Rightarrow> quota_usage) \<Rightarrow> ('a guest_db_scheme, quota_usage) pprog" where
  "save_quota env u data = save_in env ge_quotas ge_quotas_update quota_keys u data"

definition create_quota_usage ::
  "platform_env \<Rightarrow> uuid \<Rightarrow> uuid \<Rightarrow> QuotaPeriodType \<Rightarrow> datetime \<Rightarrow> ('a guest_db_scheme, quota_usage) pprog" where
  "create_quota_usage env guest org period period_start =
     insert_in env None ge_quotas ge_quotas_update quota_keys (quota_usage.fields guest org period period_start 0 0 None)"

text \<open>The rollover of one row, shared by the single and the batched read.\<close>

definition reset_or_create ::
  "platform_env \<Rightarrow> uuid \<Rightarrow> uuid \<Rightarrow> QuotaPeriodType \<Rightarrow> datetime \<Rightarrow> quota_usage option \<Rightarrow> ('a guest_db_scheme, quota_usage) pprog" where
  "reset_or_create env guest org period period_start usage =
     (case usage of
        None \<Rightarrow> create_quota_usage env guest org period period_start
      | Some u \<Rightarrow> if qu_period_start u < period_start then save_quota env u (rolled_over period_start) else ret u)"

definition get_or_reset_quota_usage ::
  "platform_env \<Rightarrow> uuid \<Rightarrow> uuid \<Rightarrow> string \<Rightarrow> datetime \<Rightarrow> QuotaPeriodType \<Rightarrow> ('a guest_db_scheme, quota_usage) pprog" where
  "get_or_reset_quota_usage env guest org tz_name now period =
     andthen (reads_db (get_quota_usage guest period)) (\<lambda>usage.
     reset_or_create env guest org period (compute_period_start env period now tz_name) usage)"

definition existing_usage :: "QuotaPeriodType \<Rightarrow> quota_usage list \<Rightarrow> quota_usage option" where
  "existing_usage period rows = map_of (map (\<lambda>u. (qu_period_type u, u)) (rev rows)) period"

definition get_or_reset_quota_usages ::
  "platform_env \<Rightarrow> uuid \<Rightarrow> uuid \<Rightarrow> QuotaPeriodType list \<Rightarrow> string \<Rightarrow> datetime \<Rightarrow>
   ('a guest_db_scheme, (QuotaPeriodType \<times> quota_usage) list) pprog" where
  "get_or_reset_quota_usages env guest org periods tz_name now =
     andthen (reads_db (get_quota_usages guest periods)) (\<lambda>rows.
     for_each (\<lambda>period resolved.
       andthen (reset_or_create env guest org period (compute_period_start env period now tz_name) (existing_usage period rows)) (\<lambda>u.
       ret (resolved @ [(period, u)]))) periods [])"

definition run_quota_reset :: "platform_env \<Rightarrow> datetime \<Rightarrow> ('a guest_db_scheme, int) pprog" where
  "run_quota_reset env now =
     andthen (reads_db list_all_quota_usages_with_org_timezone) (\<lambda>entries.
     for_each (\<lambda>(u, tz_name) reset_count.
       let period_start = compute_period_start env (qu_period_type u) now tz_name
       in if qu_period_start u < period_start
          then andthen (save_quota env u (rolled_over period_start)) (\<lambda>_. ret (reset_count + 1)) else ret reset_count) entries 0)"


subsection \<open>Fair usage\<close>

fun data_limit_key :: "QuotaPeriodType \<Rightarrow> string" where
  "data_limit_key QUOTA_DAILY = ''daily_data_limit_mb''"
| "data_limit_key QUOTA_WEEKLY = ''weekly_data_limit_mb''"
| "data_limit_key QUOTA_MONTHLY = ''monthly_data_limit_mb''"

fun FUP_TIME_LIMIT_RULE_KEY :: "QuotaPeriodType \<Rightarrow> string" where
  "FUP_TIME_LIMIT_RULE_KEY QUOTA_DAILY = ''daily_time_limit_minutes''"
| "FUP_TIME_LIMIT_RULE_KEY QUOTA_WEEKLY = ''weekly_time_limit_minutes''"
| "FUP_TIME_LIMIT_RULE_KEY QUOTA_MONTHLY = ''monthly_time_limit_minutes''"

definition data_limit :: "json_object \<Rightarrow> QuotaPeriodType \<Rightarrow> int option" where
  "data_limit rules period = rule_int (json_get (data_limit_key period) rules)"

definition time_limit :: "json_object \<Rightarrow> QuotaPeriodType \<Rightarrow> int option" where
  "time_limit rules period = rule_int (json_get (FUP_TIME_LIMIT_RULE_KEY period) rules)"

definition any_limit :: "(QuotaPeriodType \<Rightarrow> int option) \<Rightarrow> bool" where
  "any_limit limits \<longleftrightarrow> list_ex (\<lambda>p. limits p \<noteq> None \<and> limits p \<noteq> Some 0) quota_periods"

definition check_usage :: "uuid \<Rightarrow> json_object \<Rightarrow> QuotaPeriodType \<Rightarrow> quota_usage \<Rightarrow> platform_exc + unit" where
  "check_usage guest rules period u =
     (case data_limit rules period of
        Some mb \<Rightarrow>
          if is_limit_reached (qu_bytes_used u) (mb * BYTES_PER_MB)
          then Inl (FairUsagePolicyExceededError guest (QuotaPeriodType_value period) ''data'' mb (qu_bytes_used u div BYTES_PER_MB))
          else (case time_limit rules period of
                  Some m \<Rightarrow> if is_limit_reached (qu_minutes_used u) m
                      then Inl (FairUsagePolicyExceededError guest (QuotaPeriodType_value period) ''time'' m (qu_minutes_used u)) else Inr ()
                | None \<Rightarrow> Inr ())
      | None \<Rightarrow>
          (case time_limit rules period of
             Some m \<Rightarrow> if is_limit_reached (qu_minutes_used u) m
                 then Inl (FairUsagePolicyExceededError guest (QuotaPeriodType_value period) ''time'' m (qu_minutes_used u)) else Inr ()
           | None \<Rightarrow> Inr ()))"

definition enforce_fup_quota ::
  "platform_env \<Rightarrow> guest_hooks \<Rightarrow> uuid \<Rightarrow> uuid \<Rightarrow> uuid option \<Rightarrow> access_tier option \<Rightarrow> ('a guest_db_scheme, unit) pprog" where
  "enforce_fup_quota env hooks guest org location tier =
     andthen (guard (\<not> gh_team_over_quota hooks guest) GuestTeamSharedQuotaExceededError) (\<lambda>_.
     andthen (guest_rules PT_FUP (Some org) location (Some guest)) (\<lambda>resolved.
     let rules = with_access_tier PT_FUP resolved tier
     in if \<not> any_limit (data_limit rules) \<and> \<not> any_limit (time_limit rules) then ret ()
        else
          andthen (reads_db (get_organization_timezone org)) (\<lambda>tz_name.
          andthen (pnow env) (\<lambda>now.
          let capped = filter (\<lambda>p. data_limit rules p \<noteq> None \<or> time_limit rules p \<noteq> None) quota_periods
          in andthen (get_or_reset_quota_usages env guest org capped tz_name now) (\<lambda>usages.
             for_each (\<lambda>(period, u) _. lift_result (check_usage guest rules period u)) usages ())))))"

text \<open>\<open>_aruba_access_tier\<close>: only a NAS-only router has tiers, and a failed lookup is no tier.\<close>

definition aruba_access_tier :: "guest_hooks \<Rightarrow> uuid \<Rightarrow> uuid \<Rightarrow> uuid \<Rightarrow> uuid \<Rightarrow> ('a guest_db_scheme, access_tier option) pprog" where
  "aruba_access_tier hooks router org location guest =
     (case gh_router hooks True router of
        None \<Rightarrow> ret None
      | Some r \<Rightarrow> if rt_nas_only r then reads_db (resolve_access_tier (Some org) (Some location) (Some guest)) else ret None)"

definition track_fup_data_usage ::
  "platform_env \<Rightarrow> uuid \<Rightarrow> uuid \<Rightarrow> uuid \<Rightarrow> int \<Rightarrow> datetime \<Rightarrow> access_tier option \<Rightarrow> ('a guest_db_scheme, QuotaPeriodType option) pprog" where
  "track_fup_data_usage env guest org location delta now tier =
     (if delta \<le> 0 then ret None
      else catching
        (andthen (reads_db (get_organization_timezone org)) (\<lambda>tz_name.
         andthen (guest_rules PT_FUP (Some org) (Some location) (Some guest)) (\<lambda>resolved.
         let rules = with_access_tier PT_FUP resolved tier
         in andthen (get_or_reset_quota_usages env guest org quota_periods tz_name now) (\<lambda>usages.
            for_each (\<lambda>(period, u) violated.
              andthen (save_quota env u (\<lambda>r. r\<lparr>qu_bytes_used := qu_bytes_used u + delta\<rparr>)) (\<lambda>u'.
              ret (case violated of
                     Some p \<Rightarrow> Some p
                   | None \<Rightarrow> (case data_limit rules period of
                       None \<Rightarrow> None
                     | Some mb \<Rightarrow> if is_limit_reached (qu_bytes_used u') (mb * BYTES_PER_MB) then Some period else None)))) usages None))))
        (\<lambda>_. ret None))"


subsection \<open>Accounting\<close>

definition on_nas_only_router :: "guest_hooks \<Rightarrow> guest_session \<Rightarrow> bool" where
  "on_nas_only_router hooks s = (case gh_router hooks True (se_router_id s) of None \<Rightarrow> False | Some r \<Rightarrow> rt_nas_only r)"

definition end_nas_only_session_via_cloud :: "guest_hooks \<Rightarrow> guest_session \<Rightarrow> ('a guest_db_scheme, bool) pprog" where
  "end_nas_only_session_via_cloud hooks s =
     andthen (reads_db (\<lambda>db. get_by_id False (se_guest_id s) (site_guests db))) (\<lambda>found.
     case found of
       None \<Rightarrow> ret False
     | Some g \<Rightarrow>
         andthen (end_on_router hooks s g) (\<lambda>outcome.
         ret (case outcome of Some (Some (Some n)) \<Rightarrow> 1 \<le> n | _ \<Rightarrow> False)))"

definition expire_nas_only_session_over_cap ::
  "platform_env \<Rightarrow> guest_session \<Rightarrow> datetime \<Rightarrow> string \<Rightarrow> ('a guest_db_scheme, guest_session) pprog" where
  "expire_nas_only_session_over_cap env s now reason =
     save_session env s (\<lambda>r. r\<lparr>se_status := SESSION_EXPIRED, se_ended_at := Some now, se_disconnect_reason := Some reason,
       se_disconnect_enforced := Some True\<rparr>)"

definition cap_reason :: "bool \<Rightarrow> QuotaPeriodType option \<Rightarrow> string" where
  "cap_reason session_cap_reached violated =
     (if session_cap_reached then ''data_limit_exceeded''
      else ''fup_data_quota_exceeded_'' @ (case violated of None \<Rightarrow> ''None'' | Some p \<Rightarrow> QuotaPeriodType_value p))"

definition add_usage :: "int \<Rightarrow> int \<Rightarrow> datetime \<Rightarrow> guest_session \<Rightarrow> guest_session" where
  "add_usage up down now s =
     s\<lparr>se_bytes_uploaded := se_bytes_uploaded s + max up 0, se_bytes_downloaded := se_bytes_downloaded s + max down 0, se_last_activity_at := now\<rparr>"

definition end_over_cap ::
  "platform_env \<Rightarrow> guest_hooks \<Rightarrow> datetime \<Rightarrow> bool \<Rightarrow> QuotaPeriodType option \<Rightarrow> guest_session \<Rightarrow> ('a guest_db_scheme, guest_session) pprog" where
  "end_over_cap env hooks now session_cap_reached violated s =
     (if \<not> session_cap_reached \<and> violated = None then ret s
      else if on_nas_only_router hooks s then
        (if gh_cut_dispatcher hooks then ret s
         else andthen (end_nas_only_session_via_cloud hooks s) (\<lambda>ended.
              if ended then expire_nas_only_session_over_cap env s now (cap_reason session_cap_reached violated) else ret s))
      else
        andthen (expire_session env s now (cap_reason session_cap_reached violated)) (\<lambda>expired.
        andthen (issue_live_disconnect env hooks False expired) (\<lambda>_.
        ret expired)))"

definition record_usage ::
  "platform_env \<Rightarrow> guest_hooks \<Rightarrow> uuid \<Rightarrow> int \<Rightarrow> int \<Rightarrow> ('a guest_db_scheme, guest_session) pprog" where
  "record_usage env hooks i up down =
     andthen (reads_db (session_by_id i)) (\<lambda>found.
     andthen (orelse found (GuestSessionNotFoundError i)) (\<lambda>s.
     if \<not> session_is_active s then ret s
     else
       andthen (pnow env) (\<lambda>now.
       andthen (save_session env s (add_usage up down now)) (\<lambda>updated.
       let delta = max up 0 + max down 0
       in andthen (if 0 < delta then aruba_access_tier hooks (se_router_id updated) (se_organization_id updated) (se_location_id updated) (se_guest_id updated)
                   else ret None) (\<lambda>tier.
          andthen (track_fup_data_usage env (se_guest_id updated) (se_organization_id updated) (se_location_id updated) delta now tier) (\<lambda>violated.
          end_over_cap env hooks now (is_quota_exceeded updated) violated updated))))))"


subsection \<open>Connected time\<close>

datatype connected_since = NotAsked | SkipTimeAccrual | Since datetime

definition first_occurrences :: "'a list \<Rightarrow> 'a list" where
  "first_occurrences xs = rev (remdups (rev xs))"

definition stricter :: "int option \<Rightarrow> int option \<Rightarrow> int option" where
  "stricter current candidate =
     (case candidate of None \<Rightarrow> current | Some c \<Rightarrow> (case current of None \<Rightarrow> Some c | Some n \<Rightarrow> Some (min n c)))"

definition merged_time_limits ::
  "(uuid \<Rightarrow> uuid \<Rightarrow> uuid \<Rightarrow> access_tier option) \<Rightarrow> uuid \<Rightarrow> uuid \<Rightarrow> uuid list \<Rightarrow> ('a guest_db_scheme, QuotaPeriodType \<Rightarrow> int option) pprog" where
  "merged_time_limits tier_lookup guest org locations =
     for_each (\<lambda>location limits.
       andthen (guest_rules PT_FUP (Some org) (Some location) (Some guest)) (\<lambda>resolved.
       let rules = with_access_tier PT_FUP resolved (tier_lookup guest org location)
       in ret (\<lambda>p. stricter (limits p) (time_limit rules p)))) locations (\<lambda>_. None)"

definition accrue_from :: "connected_since \<Rightarrow> quota_usage \<Rightarrow> datetime" where
  "accrue_from online u =
     (let start = (case qu_last_accrued_at u of Some t \<Rightarrow> t | None \<Rightarrow> qu_period_start u)
      in case online of Since t \<Rightarrow> max start t | _ \<Rightarrow> start)"

definition accrue_period ::
  "platform_env \<Rightarrow> uuid \<Rightarrow> uuid \<Rightarrow> string \<Rightarrow> datetime \<Rightarrow> connected_since \<Rightarrow> (QuotaPeriodType \<Rightarrow> int option) \<Rightarrow> QuotaPeriodType \<Rightarrow>
   int \<times> QuotaPeriodType option \<Rightarrow> ('a guest_db_scheme, int \<times> QuotaPeriodType option) pprog" where
  "accrue_period env guest org tz_name now online limits period acc =
     andthen (get_or_reset_quota_usage env guest org tz_name now period) (\<lambda>u.
     let elapsed = max 0 ((now - accrue_from online u) div minutes 1)
     in andthen (if 0 < elapsed
                 then save_quota env u (\<lambda>r. r\<lparr>qu_minutes_used := qu_minutes_used u + elapsed, qu_last_accrued_at := Some now\<rparr>)
                 else ret u) (\<lambda>u'.
        ret (fst acc + (if 0 < elapsed then 1 else 0),
             case snd acc of
               Some p \<Rightarrow> Some p
             | None \<Rightarrow> (case limits period of
                 None \<Rightarrow> None
               | Some m \<Rightarrow> if is_limit_reached (qu_minutes_used u') m then Some period else None))))"

definition expire_all_sessions ::
  "platform_env \<Rightarrow> guest_hooks \<Rightarrow> uuid \<Rightarrow> datetime \<Rightarrow> QuotaPeriodType \<Rightarrow> int \<Rightarrow> ('a guest_db_scheme, int) pprog" where
  "expire_all_sessions env hooks guest now period count =
     andthen (reads_db (list_active_sessions_for_guest guest)) (\<lambda>sessions.
     for_each (\<lambda>s n.
       andthen (expire_session env s now (''fup_time_quota_exceeded_'' @ QuotaPeriodType_value period)) (\<lambda>updated.
       andthen (issue_live_disconnect env hooks False updated) (\<lambda>_.
       ret (n + 1)))) sessions count)"

definition accrue_guest ::
  "platform_env \<Rightarrow> guest_hooks \<Rightarrow> (uuid \<Rightarrow> uuid \<Rightarrow> uuid \<Rightarrow> access_tier option) \<Rightarrow> (uuid \<Rightarrow> connected_since) \<Rightarrow> datetime \<Rightarrow>
   (uuid \<times> uuid \<times> uuid) list \<Rightarrow> uuid \<times> uuid \<Rightarrow> int \<times> int \<Rightarrow> ('a guest_db_scheme, int \<times> int) pprog" where
  "accrue_guest env hooks tier_lookup connected_lookup now pairs key counts =
     (let guest = fst key; org = snd key; locations = map (\<lambda>(_, _, l). l) (filter (\<lambda>(g, o', _). (g, o') = key) pairs)
      in andthen (reads_db (get_organization_timezone org)) (\<lambda>tz_name.
         andthen (merged_time_limits tier_lookup guest org locations) (\<lambda>limits.
         if \<not> any_limit limits \<or> connected_lookup guest = SkipTimeAccrual then ret counts
         else
           andthen (for_each (accrue_period env guest org tz_name now (connected_lookup guest) limits) quota_periods (0, None)) (\<lambda>(accrued, violated).
           andthen (case violated of None \<Rightarrow> ret (snd counts) | Some p \<Rightarrow> expire_all_sessions env hooks guest now p (snd counts)) (\<lambda>expired.
           ret (fst counts + accrued, expired))))))"

definition run_fup_time_accrual ::
  "platform_env \<Rightarrow> guest_hooks \<Rightarrow> (uuid \<Rightarrow> uuid \<Rightarrow> uuid \<Rightarrow> access_tier option) \<Rightarrow> (uuid \<Rightarrow> connected_since) \<Rightarrow> datetime \<Rightarrow>
   ('a guest_db_scheme, int \<times> int) pprog" where
  "run_fup_time_accrual env hooks tier_lookup connected_lookup now =
     andthen (reads_db list_active_guest_org_pairs) (\<lambda>pairs.
     for_each (accrue_guest env hooks tier_lookup connected_lookup now pairs) (first_occurrences (map (\<lambda>(g, o', _). (g, o')) pairs)) (0, 0))"

end
