(* ===== verification/GuestRules.thy ===== *)
theory GuestRules
  imports GuestQuota LocationRules
begin

section \<open>The rules of guest sessions\<close>

text \<open>
  Sessions are append-only: over every history of requests, accounting packets and sweeps a session is
  never removed, keeps its guest, place and start, its byte counters never fall, and once it has
  ended nothing of it changes but the note whether the device was really cut off. It has an end time
  exactly when it has ended. A caller who acts for an organization changes its sessions only.
\<close>

subsection \<open>The invariant and the relation\<close>

definition ended :: "guest_session \<Rightarrow> bool" where
  "ended s \<longleftrightarrow> GUEST_SESSION_STATUS_TRANSITIONS (se_status s) = []"

definition session_fine :: "guest_session \<Rightarrow> bool" where
  "session_fine s \<longleftrightarrow> (se_ended_at s \<noteq> None) = ended s \<and> 0 \<le> se_bytes_uploaded s \<and> 0 \<le> se_bytes_downloaded s"

definition guest_ok :: "'a guest_db_scheme \<Rightarrow> bool" where
  "guest_ok db \<longleftrightarrow> distinct (map row_id (ge_sessions db)) \<and> distinct (map row_id (site_guests db)) \<and> (\<forall>s \<in> set (ge_sessions db). session_fine s)"

definition session_keeps :: "guest_session \<Rightarrow> guest_session \<Rightarrow> bool" where
  "session_keeps s s' \<longleftrightarrow>
     row_id s' = row_id s \<and> se_guest_id s' = se_guest_id s \<and> se_router_id s' = se_router_id s \<and> se_location_id s' = se_location_id s \<and>
     se_organization_id s' = se_organization_id s \<and> se_started_at s' = se_started_at s \<and>
     se_bytes_uploaded s \<le> se_bytes_uploaded s' \<and> se_bytes_downloaded s \<le> se_bytes_downloaded s' \<and>
     (ended s \<longrightarrow> (\<exists>e v t. s' = s\<lparr>se_disconnect_enforced := e, version := v, updated_at := t\<rparr>))"

definition guest_keeps :: "guest_row \<Rightarrow> guest_row \<Rightarrow> bool" where
  "guest_keeps g g' \<longleftrightarrow> row_id g' = row_id g \<and> gu_organization_id g' = gu_organization_id g \<and> gu_identifier g' = gu_identifier g"

lemma ended_frozen [simp]: "ended (s\<lparr>se_disconnect_enforced := e, version := v, updated_at := t\<rparr>) = ended s"
  by (simp add: ended_def)

interpretation sessions: guarded_rows session_keeps se_organization_id
proof
  show "session_keeps r r" for r
  proof -
    have "r = r\<lparr>se_disconnect_enforced := se_disconnect_enforced r, version := version r, updated_at := updated_at r\<rparr>" by simp
    then show ?thesis unfolding session_keeps_def by blast
  qed
  show "session_keeps r r''" if "session_keeps r r'" "session_keeps r' r''" for r r' r''
  proof -
    have "\<exists>e v t. r'' = r\<lparr>se_disconnect_enforced := e, version := v, updated_at := t\<rparr>" if live: "ended r"
    proof -
      obtain e v t where r': "r' = r\<lparr>se_disconnect_enforced := e, version := v, updated_at := t\<rparr>"
        using \<open>session_keeps r r'\<close> live unfolding session_keeps_def by blast
      then have "ended r'" using live by simp
      then obtain e' v' t' where "r'' = r'\<lparr>se_disconnect_enforced := e', version := v', updated_at := t'\<rparr>"
        using \<open>session_keeps r' r''\<close> unfolding session_keeps_def by blast
      with r' show ?thesis by auto
    qed
    with that show ?thesis unfolding session_keeps_def by force
  qed
qed (simp add: session_keeps_def)

interpretation guests: guarded_rows guest_keeps gu_organization_id
  by unfold_locales (auto simp: guest_keeps_def)

definition guest_leads :: "(uuid \<Rightarrow> bool) \<Rightarrow> 'a guest_db_scheme \<Rightarrow> 'a guest_db_scheme \<Rightarrow> bool" where
  "guest_leads ok db db' \<longleftrightarrow>
     site_orgs db' = site_orgs db \<and> sessions.guarded ok (ge_sessions db) (ge_sessions db') \<and> guests.guarded ok (site_guests db) (site_guests db')"

lemma guest_leads_refl: "guest_leads ok db db"
  by (simp add: guest_leads_def)

lemma guest_leads_trans: "guest_leads ok a b \<Longrightarrow> guest_leads ok b c \<Longrightarrow> guest_leads ok a c"
  unfolding guest_leads_def using sessions.guarded_trans guests.guarded_trans by metis

definition guest_step :: "(uuid \<Rightarrow> bool) \<Rightarrow> 'a guest_db_scheme \<Rightarrow> 'a guest_db_scheme \<Rightarrow> bool" where
  "guest_step ok db db' \<longleftrightarrow> guest_ok db' \<and> guest_leads ok db db'"

text \<open>A step that leaves the sessions of other ids as they are.\<close>

definition session_step :: "(uuid \<Rightarrow> bool) \<Rightarrow> uuid \<Rightarrow> 'a guest_db_scheme \<Rightarrow> 'a guest_db_scheme \<Rightarrow> bool" where
  "session_step ok i db db' \<longleftrightarrow> guest_step ok db db' \<and> (\<forall>r \<in> set (ge_sessions db). row_id r = i \<or> r \<in> set (ge_sessions db'))"

lemma guest_step_refl: "guest_ok db \<Longrightarrow> guest_step ok db db"
  by (simp add: guest_step_def guest_leads_refl)

lemma guest_step_trans: "guest_step ok a b \<Longrightarrow> guest_step ok b c \<Longrightarrow> guest_step ok a c"
  unfolding guest_step_def using guest_leads_trans by blast

lemma session_step_refl: "guest_ok db \<Longrightarrow> session_step ok i db db"
  by (simp add: session_step_def guest_step_refl)

lemma session_step_trans: "session_step ok i a b \<Longrightarrow> session_step ok i b c \<Longrightarrow> session_step ok i a c"
  unfolding session_step_def using guest_step_trans by blast

lemma session_step_guest: "session_step ok i a b \<Longrightarrow> guest_step ok a b"
  by (simp add: session_step_def)

text \<open>Steps do not look at the audit log, the quotas and the devices.\<close>

lemma guest_step_frame [simp]:
  "guest_step ok db (site_audits_update f db') = guest_step ok db db'"
  "guest_step ok db (ge_quotas_update h db') = guest_step ok db db'"
  "guest_step ok db (ge_devices_update k db') = guest_step ok db db'"
  by (simp_all add: guest_step_def guest_ok_def guest_leads_def)

lemma session_step_frame [simp]:
  "session_step ok i db (site_audits_update f db') = session_step ok i db db'"
  by (simp add: session_step_def)


subsection \<open>One row saved\<close>

definition owned :: "(uuid \<Rightarrow> bool) \<Rightarrow> 'a guest_db_scheme \<Rightarrow> uuid \<Rightarrow> bool" where
  "owned ok db i \<longleftrightarrow> (\<forall>r \<in> set (ge_sessions db). row_id r = i \<longrightarrow> ok (se_organization_id r))"

lemma step_session_row:
  assumes "guest_ok db" and "owned ok db (row_id s)"
    and "\<And>r. r \<in> set (ge_sessions db) \<Longrightarrow> row_id r = row_id s \<Longrightarrow>
      session_keeps r (assign now data (version s) r) \<and> session_fine (assign now data (version s) r)"
  shows "session_step ok (row_id s) db (ge_sessions_update (\<lambda>_. update_row now data s (ge_sessions db)) db)"
proof -
  have "sessions.guarded ok (ge_sessions db) (update_row now data s (ge_sessions db))"
    unfolding update_row_def using assms(2,3) by (intro sessions.guarded_map) (auto simp: owned_def)
  moreover have "session_fine r" if "r \<in> set (update_row now data s (ge_sessions db))" for r
    using that assms(1,3) by (auto simp: update_row_def guest_ok_def split: if_splits)
  moreover have "r \<in> set (update_row now data s (ge_sessions db))" if "r \<in> set (ge_sessions db)" "row_id r \<noteq> row_id s" for r
    using that by (auto simp: update_row_def image_iff intro!: bexI [of _ r])
  ultimately show ?thesis using assms(1) by (auto simp: session_step_def guest_step_def guest_ok_def guest_leads_def)
qed

lemma owned_step: "session_step ok i db db' \<Longrightarrow> owned ok db i \<Longrightarrow> owned ok db' i"
  unfolding session_step_def guest_step_def guest_leads_def owned_def using sessions.guarded_new by blast

lemma session_found:
  assumes "guest_ok db" and "session_by_id i db = Some s"
  shows "s \<in> set (ge_sessions db)" and "row_id s = i" and "session_fine s" and "r \<in> set (ge_sessions db) \<Longrightarrow> row_id r = row_id s \<Longrightarrow> r = s"
proof -
  show s: "s \<in> set (ge_sessions db)" "row_id s = i" using assms(2) get_by_id_Some unfolding session_by_id_def by blast+
  show "session_fine s" using assms(1) s(1) by (simp add: guest_ok_def)
  show "r = s" if "r \<in> set (ge_sessions db)" "row_id r = row_id s"
    using that s assms row_unique [of "ge_sessions db" False i s] by (auto simp: guest_ok_def session_by_id_def)
qed

lemma ensures_save_session:
  assumes "guest_ok db" and "owned ok db (row_id s)"
    and "\<And>r now. r \<in> set (ge_sessions db) \<Longrightarrow> row_id r = row_id s \<Longrightarrow>
      session_keeps r (assign now data (version s) r) \<and> session_fine (assign now data (version s) r)"
    and "\<And>s' db'. session_step ok (row_id s) db db' \<Longrightarrow> row_id s' = row_id s \<Longrightarrow> P s' db' w"
  shows "ensures P (save_session env s data) db w"
  using assms step_session_row [OF assms(1,2,3)] by (simp add: save_session_def Let_def)

lemma record_enforced_step:
  assumes "guest_ok db" and "owned ok db (row_id s)"
  shows "ensures (\<lambda>_ db' _. session_step ok (row_id s) db db') (record_enforced env s b) db w"
proof -
  have "session_keeps r (assign now (\<lambda>r. r\<lparr>se_disconnect_enforced := Some b\<rparr>) (version s) r) \<and>
      session_fine (assign now (\<lambda>r. r\<lparr>se_disconnect_enforced := Some b\<rparr>) (version s) r)" if "r \<in> set (ge_sessions db)" for r now
  proof -
    have r: "assign now (\<lambda>r. r\<lparr>se_disconnect_enforced := Some b\<rparr>) (version s) r =
        r\<lparr>se_disconnect_enforced := Some b, version := version s + 1, updated_at := now\<rparr>" by (simp add: assign_def)
    have "session_fine r" using that assms(1) by (simp add: guest_ok_def)
    then have "session_fine (r\<lparr>se_disconnect_enforced := Some b, version := version s + 1, updated_at := now\<rparr>)"
      by (simp add: session_fine_def)
    moreover have "session_keeps r (r\<lparr>se_disconnect_enforced := Some b, version := version s + 1, updated_at := now\<rparr>)"
      unfolding session_keeps_def by (simp, blast)
    ultimately show ?thesis unfolding r by blast
  qed
  then show ?thesis unfolding record_enforced_def ensures_andthen ensures_ret
    by (intro ensures_save_session [OF assms]) simp_all
qed

lemma live_disconnect_step:
  assumes "guest_ok db" and "owned ok db (row_id s)"
  shows "ensures (\<lambda>_ db' _. session_step ok (row_id s) db db') (issue_live_disconnect env hooks b s) db w"
  using assms by (auto simp: issue_live_disconnect_def end_on_router_def session_step_refl intro: record_enforced_step split: option.splits)


subsection \<open>The operations\<close>

definition mine :: "uuid option \<Rightarrow> uuid \<Rightarrow> bool" where
  "mine requesting org \<longleftrightarrow> requesting = None \<or> requesting = Some org"

lemma ensures_get_session:
  "(\<And>s. session_by_id i db = Some s \<Longrightarrow> mine requesting (se_organization_id s) \<Longrightarrow> ensures P (f s) db w) \<Longrightarrow>
   ensures P (andthen (get_session hooks i requesting) f) db w"
  by (auto simp: get_session_def enforce_tenant_scope_def mine_def split: option.splits sum.splits)

lemma ensures_require_guest:
  "(\<And>g. get_by_id False i (site_guests db) = Some g \<Longrightarrow> mine requesting (gu_organization_id g) \<Longrightarrow> ensures P (f g) db w) \<Longrightarrow>
   ensures P (andthen (require_guest hooks i requesting) f) db w"
  by (auto simp: require_guest_def enforce_tenant_scope_def mine_def split: option.splits sum.splits)

lemma ensures_lift_then: "(\<And>v. r = Inr v \<Longrightarrow> ensures P (f v) db w) \<Longrightarrow> ensures P (andthen (lift_result r) f) db w"
  by (auto split: sum.splits)

lemma ensures_now_then: "(\<And>now w'. ensures P (f now) db w') \<Longrightarrow> ensures P (andthen (pnow env) f) db w"
  by simp

lemma owned_found: "guest_ok db \<Longrightarrow> session_by_id i db = Some s \<Longrightarrow> ok (se_organization_id s) \<Longrightarrow> owned ok db (row_id s)"
  unfolding owned_def using session_found(4) by metis

text \<open>A session that has not ended may take any new status that agrees with its end time.\<close>

definition changes_to :: "guest_session \<Rightarrow> guest_session \<Rightarrow> bool" where
  "changes_to s s' \<longleftrightarrow>
     se_guest_id s' = se_guest_id s \<and> se_router_id s' = se_router_id s \<and> se_location_id s' = se_location_id s \<and>
     se_organization_id s' = se_organization_id s \<and> se_started_at s' = se_started_at s \<and>
     se_bytes_uploaded s \<le> se_bytes_uploaded s' \<and> se_bytes_downloaded s \<le> se_bytes_downloaded s' \<and>
     (se_ended_at s' \<noteq> None) = ended s'"

lemma save_live_session:
  assumes ok: "guest_ok db" and s: "s \<in> set (ge_sessions db)" "\<not> ended s" "may (se_organization_id s)" and data: "changes_to s (data s)"
  shows "ensures (\<lambda>s' db' _. session_step may (row_id s) db db' \<and> owned may db' (row_id s) \<and> row_id s' = row_id s) (save_session env s data) db w"
proof -
  have only: "r = s" if "r \<in> set (ge_sessions db)" "row_id r = row_id s" for r
    using that s(1) ok by (metis distinct_map_inj guest_ok_def)
  have fine: "session_fine s" using ok s(1) by (simp add: guest_ok_def)
  have owned: "owned may db (row_id s)" unfolding owned_def using only s(3) by blast
  show ?thesis
  proof (rule ensures_save_session [OF ok owned])
    show "session_keeps r (assign now data (version s) r) \<and> session_fine (assign now data (version s) r)"
      if "r \<in> set (ge_sessions db)" "row_id r = row_id s" for r now
      using only [OF that] fine s(2) data by (auto simp: session_keeps_def session_fine_def changes_to_def assign_def ended_def)
  qed (use owned owned_step in blast)
qed

definition only_audits :: "('a guest_db_scheme, 'b) pprog \<Rightarrow> bool" where
  "only_audits m \<longleftrightarrow> (\<forall>db w. ensures (\<lambda>_ db' _. \<exists>f. db' = site_audits_update f db) m db w)"

lemma only_audits_intros [simp]: "only_audits (ret v)" "only_audits (session_audit actor action s what)"
proof -
  have "\<exists>f. db = site_audits_update f db" for db :: "'a guest_db_scheme" by (rule exI [of _ id]) simp
  then show "only_audits (ret v :: ('a guest_db_scheme, _) pprog)" unfolding only_audits_def by simp
qed (auto simp: only_audits_def session_audit_def site_audit_def)

lemma owned_audit [simp]: "owned ok (site_audits_update f db) i = owned ok db i"
  by (simp add: owned_def)

lemma guest_ok_audit [simp]: "guest_ok (site_audits_update f db) = guest_ok db"
  by (simp add: guest_ok_def)

text \<open>The shape of every operation that ends or pauses a session: save, audit, cut the device off.\<close>

lemma save_and_cut:
  assumes ok: "guest_ok db" and s: "s \<in> set (ge_sessions db)" "\<not> ended s" "may (se_organization_id s)" and data: "changes_to s (data s)"
    and audits: "\<And>u. only_audits (audit u)"
  shows "ensures (\<lambda>_ db' _. session_step may (row_id s) db db')
    (andthen (save_session env s data) (\<lambda>u. andthen (audit u) (\<lambda>_. andthen (issue_live_disconnect env hooks b u) (\<lambda>_. ret (k u))))) db w"
  unfolding ensures_andthen ensures_ret
proof (rule ensures_mono [OF save_live_session [OF ok s(1,2), where may = may and data = data, OF s(3) data]])
  fix u :: guest_session and db1 :: "'a guest_db_scheme" and w1 :: platform_world
  assume u: "session_step may (row_id s) db db1 \<and> owned may db1 (row_id s) \<and> row_id u = row_id s"
  then have ok1: "guest_ok db1" by (simp add: session_step_def guest_step_def)
  show "ensures (\<lambda>_. ensures (\<lambda>_ db' _. session_step may (row_id s) db db') (issue_live_disconnect env hooks b u)) (audit u) db1 w1"
  proof (rule ensures_mono [OF audits [unfolded only_audits_def, rule_format]])
    fix v db2 w2
    assume "\<exists>f. db2 = site_audits_update f db1"
    then obtain f where db2: "db2 = site_audits_update f db1" by blast
    have "ensures (\<lambda>_ db' _. session_step may (row_id u) db2 db') (issue_live_disconnect env hooks b u) db2 w2"
      using ok1 u db2 by (intro live_disconnect_step) simp_all
    then show "ensures (\<lambda>_ db' _. session_step may (row_id s) db db') (issue_live_disconnect env hooks b u) db2 w2"
    proof (rule ensures_mono)
      fix v' db3 w3
      assume "session_step may (row_id u) db2 db3"
      moreover have "session_step may (row_id s) db db2" using u db2 by simp
      ultimately show "session_step may (row_id s) db db3" using u session_step_trans by metis
    qed
  qed
qed

lemma save_and_audit:
  assumes "guest_ok db" and "s \<in> set (ge_sessions db)" "\<not> ended s" "may (se_organization_id s)" and "changes_to s (data s)"
    and audits: "\<And>u. only_audits (audit u)"
  shows "ensures (\<lambda>_ db' _. session_step may (row_id s) db db') (andthen (save_session env s data) (\<lambda>u. andthen (audit u) (\<lambda>_. ret u))) db w"
  unfolding ensures_andthen ensures_ret
proof (rule ensures_mono [OF save_live_session [OF assms(1-3), where may = may and data = data, OF assms(4,5)]])
  fix u :: guest_session and db1 :: "'a guest_db_scheme" and w1 :: platform_world
  assume u: "session_step may (row_id s) db db1 \<and> owned may db1 (row_id s) \<and> row_id u = row_id s"
  show "ensures (\<lambda>_ db' _. session_step may (row_id s) db db') (audit u) db1 w1"
    by (rule ensures_mono [OF audits [unfolded only_audits_def, rule_format]]) (use u in auto)
qed

lemma transition_live: "validate_session_status_transition (se_status s) target = Inr v \<Longrightarrow> \<not> ended s"
  by (cases "se_status s") (auto simp: validate_session_status_transition_def ended_def split: if_splits)

lemma live_no_end: "session_fine s \<Longrightarrow> \<not> ended s \<Longrightarrow> se_ended_at s = None"
  by (simp add: session_fine_def)

lemmas session_entry = ensures_get_session ensures_lift_then ensures_now_then

lemma end_step:
  assumes "guest_ok db" and "session_by_id i db = Some s" and "may (se_organization_id s)" and "\<not> ended s" and "changes_to s (data s)"
    and "\<And>u. only_audits (audit u)"
  shows "ensures (\<lambda>_ db' _. guest_step may db db')
    (andthen (save_session env s data) (\<lambda>u. andthen (audit u) (\<lambda>_. andthen (issue_live_disconnect env hooks b u) (\<lambda>_. ret u)))) db w"
  by (rule ensures_mono [OF save_and_cut [OF assms(1) session_found(1) [OF assms(1,2)] assms(4), where may = may and data = data and audit = audit and k = "\<lambda>u. u", OF assms(3,5,6)]])
    (rule session_step_guest)

lemma stay_step:
  assumes "guest_ok db" and "session_by_id i db = Some s" and "may (se_organization_id s)" and "\<not> ended s" and "changes_to s (data s)"
    and "\<And>u. only_audits (audit u)"
  shows "ensures (\<lambda>_ db' _. guest_step may db db') (andthen (save_session env s data) (\<lambda>u. andthen (audit u) (\<lambda>_. ret u))) db w"
  by (rule ensures_mono [OF save_and_audit [OF assms(1) session_found(1) [OF assms(1,2)] assms(4), where may = may and data = data and audit = audit, OF assms(3,5,6)]])
    (rule session_step_guest)

lemma disconnect_step:
  assumes ok: "guest_ok db"
  shows "ensures (\<lambda>_ db' _. guest_step (mine requesting) db db') (disconnect_session env hooks actor i requesting reason already) db w"
  unfolding disconnect_session_def
  by (intro session_entry end_step [OF ok]) (auto simp: changes_to_def ended_def dest!: transition_live)

lemma terminate_step:
  assumes ok: "guest_ok db"
  shows "ensures (\<lambda>_ db' _. guest_step (mine requesting) db db') (terminate_session env hooks actor i requesting reason) db w"
  unfolding terminate_session_def
  by (intro session_entry end_step [OF ok]) (auto simp: changes_to_def ended_def dest!: transition_live)

lemma pause_step:
  assumes ok: "guest_ok db"
  shows "ensures (\<lambda>_ db' _. guest_step (mine requesting) db db') (pause_session env hooks actor i requesting reason) db w"
  unfolding pause_session_def
  by (intro session_entry end_step [OF ok])
    (auto simp: changes_to_def ended_def live_no_end [OF session_found(3) [OF ok]] dest!: transition_live)

lemma resume_step:
  assumes ok: "guest_ok db"
  shows "ensures (\<lambda>_ db' _. guest_step (mine requesting) db db') (resume_session env hooks actor i requesting) db w"
  unfolding resume_session_def
  by (intro session_entry stay_step [OF ok])
    (auto simp: changes_to_def ended_def live_no_end [OF session_found(3) [OF ok]] dest!: transition_live)

lemma extend_step:
  assumes ok: "guest_ok db"
  shows "ensures (\<lambda>_ db' _. guest_step (mine requesting) db db') (extend_session env hooks actor i requesting n) db w"
proof -
  have "ensures (\<lambda>_ db' _. guest_step (mine requesting) db db')
      (andthen (guard (se_status s \<in> {SESSION_ACTIVE, SESSION_PAUSED}) e) (\<lambda>_. andthen (pnow env) (\<lambda>now.
       andthen (save_session env s (\<lambda>r. r\<lparr>se_session_timeout_minutes := Some (extended_timeout s n), se_last_activity_at := now, updated_by := actor\<rparr>)) (\<lambda>u.
       andthen (session_audit actor a u what) (\<lambda>_. ret u))))) db w'"
    if s: "session_by_id i db = Some s" "mine requesting (se_organization_id s)" for s e a what w'
  proof (cases "se_status s \<in> {SESSION_ACTIVE, SESSION_PAUSED}")
    case True
    then have live: "\<not> ended s" by (auto simp: ended_def)
    have "ensures (\<lambda>_ db' _. guest_step (mine requesting) db db')
        (andthen (pnow env) (\<lambda>now.
         andthen (save_session env s (\<lambda>r. r\<lparr>se_session_timeout_minutes := Some (extended_timeout s n), se_last_activity_at := now, updated_by := actor\<rparr>)) (\<lambda>u.
         andthen (session_audit actor a u what) (\<lambda>_. ret u)))) db w'"
      using live live_no_end [OF session_found(3) [OF ok s(1)] live]
      by (intro session_entry stay_step [OF ok s(1)]) (auto simp: changes_to_def ended_def s(2))
    with True show ?thesis by simp
  qed simp
  then show ?thesis unfolding extend_session_def by (intro session_entry) auto
qed

end
