(* ===== verification/GuestEngine.thy ===== *)
theory GuestEngine
  imports GuestRules
begin

section \<open>Histories of the session engine\<close>

text \<open>
  Sign-in, reconnect, accounting and the sweeps on top of the steps of \<open>GuestRules\<close>, and what holds over
  every history: of the requests of one caller, and of requests mixed with accounting packets and
  background sweeps.
\<close>

subsection \<open>Programs that leave sessions and guests alone\<close>

definition quiet :: "'a guest_db_scheme \<Rightarrow> 'a guest_db_scheme \<Rightarrow> bool" where
  "quiet db db' \<longleftrightarrow> ge_sessions db' = ge_sessions db \<and> site_guests db' = site_guests db \<and> site_orgs db' = site_orgs db"

interpretation quietly: step_relation quiet
  by unfold_locales (auto simp: quiet_def)

lemma quiet_step: "quiet db db' \<Longrightarrow> guest_ok db \<Longrightarrow> session_step ok i db db'"
  by (simp add: quiet_def session_step_def guest_step_def guest_ok_def guest_leads_def)

lemma quiet_step_before: "quiet db db1 \<Longrightarrow> session_step ok i db1 db' \<Longrightarrow> session_step ok i db db'"
  by (simp add: quiet_def session_step_def guest_step_def guest_ok_def guest_leads_def)

lemma quiet_insert: "(\<And>t db. quiet db (upd t db)) \<Longrightarrow> honours quiet (insert_in env actor get upd uniq columns)"
  unfolding insert_in_def puuid4_def pdb_now_def Let_def
  by (intro quietly.honours_control quietly.honours_stores) (auto split: sum.splits)

lemma quiet_save: "(\<And>t db. quiet db (upd t db)) \<Longrightarrow> honours quiet (save_in env get upd uniq inst data)"
  unfolding save_in_def pdb_now_def Let_def
  by (intro quietly.honours_control quietly.honours_stores) (auto split: if_splits)

lemma quiet_now: "honours quiet (pnow env)"
  unfolding pnow_def by (intro quietly.honours_control)

lemma quiet_rules: "honours quiet (guest_rules t org location guest)"
  unfolding guest_rules_def resolve_effective_policy_def resolution_tenant_def get_location_def enforce_organization_scope_def
    assert_organization_accessible_def site_get_organization_def
  by (intro quietly.honours_control)

lemma quiet_device: "honours quiet (get_or_create_device env guest mac name)"
  unfolding get_or_create_device_def create_device_def
  by (intro quietly.honours_control quiet_insert quiet_save quiet_now) (simp_all add: quiet_def)

lemma quiet_save_quota: "honours quiet (save_quota env u data)"
  unfolding save_quota_def by (intro quiet_save) (simp add: quiet_def)

lemma quiet_reset: "honours quiet (reset_or_create env guest org period start u)"
  unfolding reset_or_create_def create_quota_usage_def
  by (intro quietly.honours_control quiet_insert quiet_save_quota) (simp add: quiet_def)

lemma quiet_usages: "honours quiet (get_or_reset_quota_usages env guest org periods tz now)"
  unfolding get_or_reset_quota_usages_def by (intro quietly.honours_control quiet_reset)

lemma quiet_track: "honours quiet (track_fup_data_usage env guest org location delta now tier)"
  unfolding track_fup_data_usage_def Let_def split_def
  by (intro quietly.honours_control quiet_rules quiet_usages quiet_save_quota)

lemma quiet_tier: "honours quiet (aruba_access_tier hooks router org location guest)"
  unfolding aruba_access_tier_def by (intro quietly.honours_control)

lemma quiet_quota_reset: "honours quiet (run_quota_reset env now)"
  unfolding run_quota_reset_def Let_def split_def by (intro quietly.honours_control quiet_save_quota)

lemma quiet_enforce: "honours quiet (enforce_fup_quota env hooks guest org location tier)"
  unfolding enforce_fup_quota_def Let_def split_def by (intro quietly.honours_control quiet_rules quiet_usages quiet_now)

lemma quiet_limits: "honours quiet (merged_time_limits tiers guest org locations)"
  unfolding merged_time_limits_def Let_def by (intro quietly.honours_control quiet_rules)

lemma quiet_accrue_period: "honours quiet (accrue_period env guest org tz now online limits period acc)"
  unfolding accrue_period_def get_or_reset_quota_usage_def Let_def
  by (intro quietly.honours_control quiet_reset quiet_save_quota)

text \<open>A quiet step first, and the rest of the program from a database that looks the same.\<close>

lemma after_quiet:
  assumes "honours quiet m" and "\<And>v db1 w1. quiet db db1 \<Longrightarrow> ensures P (f v) db1 w1"
  shows "ensures P (andthen m f) db w"
  unfolding ensures_andthen by (rule ensures_mono [OF ensures_honours [OF assms(1)] assms(2)])



subsection \<open>The row that was saved\<close>

lemma save_live_row:
  assumes "guest_ok db" and "s \<in> set (ge_sessions db)" "\<not> ended s" "may (se_organization_id s)" and "changes_to s (data s)"
    and "\<And>now. ended (assign now data (version s) s) = ended (data s)"
    and "\<And>u db1 now. session_step may (row_id s) db db1 \<Longrightarrow> guest_ok db1 \<Longrightarrow> u \<in> set (ge_sessions db1) \<Longrightarrow> u = assign now data (version s) s \<Longrightarrow>
      P u db1 w"
  shows "ensures P (save_session env s data) db w"
proof -
  have "ensures (\<lambda>u db1 w'. session_step may (row_id s) db db1) (save_session env s data) db w"
    by (rule ensures_mono [OF save_live_session [OF assms(1-3), where may = may and data = data, OF assms(4,5)]]) blast
  moreover have "assign now data (version s) s \<in> set (update_row now data s (ge_sessions db))" for now
    using assms(2) by (force simp: update_row_def)
  ultimately show ?thesis
    using assms(7) by (auto simp: save_session_def Let_def session_step_def guest_step_def)
qed

lemma live_expire:
  "\<not> ended s \<Longrightarrow> changes_to s (s\<lparr>se_status := SESSION_EXPIRED, se_ended_at := Some now, se_disconnect_reason := why, se_disconnect_enforced := e\<rparr>)"
  "\<not> ended s \<Longrightarrow> changes_to s (s\<lparr>se_status := SESSION_EXPIRED, se_ended_at := Some now, se_disconnect_reason := why\<rparr>)"
  "\<not> ended s \<Longrightarrow> changes_to s (s\<lparr>se_status := SESSION_DISCONNECTED, se_ended_at := Some now, se_disconnect_reason := why\<rparr>)"
  by (simp_all add: changes_to_def ended_def)

lemma expire_step:
  assumes "guest_ok db" and "s \<in> set (ge_sessions db)" "\<not> ended s" "may (se_organization_id s)"
  shows "ensures (\<lambda>_ db' _. session_step may (row_id s) db db')
    (andthen (expire_session env s now why) (\<lambda>u. andthen (issue_live_disconnect env hooks b u) (\<lambda>_. ret (k u)))) db w"
proof -
  have "ensures (\<lambda>_ db' _. session_step may (row_id s) db db')
    (andthen (expire_session env s now why) (\<lambda>u. andthen (ret ()) (\<lambda>_. andthen (issue_live_disconnect env hooks b u) (\<lambda>_. ret (k u))))) db w"
    unfolding expire_session_def by (rule save_and_cut [OF assms(1-3)]) (simp_all add: assms(3,4) live_expire(2))
  then show ?thesis by simp
qed

lemma restart_step:
  assumes "guest_ok db" and "s \<in> set (ge_sessions db)" "\<not> ended s" "may (se_organization_id s)"
  shows "ensures (\<lambda>_ db' _. session_step may (row_id s) db db')
    (andthen (save_session env s (\<lambda>r. r\<lparr>se_status := SESSION_DISCONNECTED, se_ended_at := Some now, se_disconnect_reason := why\<rparr>)) (\<lambda>u. ret (k u))) db w"
  unfolding ensures_andthen ensures_ret
  by (rule ensures_mono [OF save_live_session [OF assms(1-3), where may = may]]) (simp_all add: assms(3,4) live_expire(3))


subsection \<open>Accounting\<close>

lemma end_over_cap_step:
  assumes ok: "guest_ok db" and s: "s \<in> set (ge_sessions db)" "\<not> ended s" "may (se_organization_id s)"
  shows "ensures (\<lambda>_ db' _. session_step may (row_id s) db db') (end_over_cap env hooks now capped violated s) db w"
proof -
  have cloud: "ensures (\<lambda>_ db' _. session_step may (row_id s) db db') (expire_nas_only_session_over_cap env s now why) db w" for why
    unfolding expire_nas_only_session_over_cap_def
    by (rule ensures_mono [OF save_live_session [OF ok s(1,2), where may = may]]) (simp_all add: s(2,3) live_expire(1))
  have "ensures (\<lambda>_ db' _. session_step may (row_id s) db db')
      (andthen (end_nas_only_session_via_cloud hooks s) (\<lambda>ended.
        if ended then expire_nas_only_session_over_cap env s now why else ret s)) db w" for why
    using cloud session_step_refl [OF ok]
    by (auto simp: end_nas_only_session_via_cloud_def end_on_router_def split: option.splits)
  moreover have "ensures (\<lambda>_ db' _. session_step may (row_id s) db db')
      (andthen (expire_session env s now why) (\<lambda>u. andthen (issue_live_disconnect env hooks False u) (\<lambda>_. ret u))) db w" for why
    by (rule expire_step [OF ok s(1,2), where may = may, OF s(3)])
  ultimately show ?thesis unfolding end_over_cap_def using session_step_refl [OF ok]
    by (simp del: ensures_andthen)
qed

lemma record_usage_step:
  assumes ok: "guest_ok db" and may: "\<And>s. session_by_id i db = Some s \<Longrightarrow> may (se_organization_id s)"
  shows "ensures (\<lambda>_ db' _. guest_step may db db') (record_usage env hooks i up down) db w"
proof -
  have "ensures (\<lambda>_ db' _. guest_step may db db')
      (andthen (pnow env) (\<lambda>now. andthen (save_session env s (add_usage up down now)) (\<lambda>u.
       andthen (if 0 < max up 0 + max down 0 then aruba_access_tier hooks (se_router_id u) (se_organization_id u) (se_location_id u) (se_guest_id u) else ret None) (\<lambda>tier.
       andthen (track_fup_data_usage env (se_guest_id u) (se_organization_id u) (se_location_id u) (max up 0 + max down 0) now tier) (\<lambda>violated.
       end_over_cap env hooks now (is_quota_exceeded u) violated u))))) db w'"
    if found: "session_by_id i db = Some s" and active: "session_is_active s" for s w'
  proof (rule ensures_now_then, subst ensures_andthen, rule save_live_row [OF ok])
    note s = session_found(1,3) [OF ok found]
    show live: "\<not> ended s" using active by (simp add: session_is_active_def ended_def)
    show "s \<in> set (ge_sessions db)" by (rule s(1))
    show "may (se_organization_id s)" by (rule may [OF found])
    fix now
    show "changes_to s (add_usage up down now s)"
      using live live_no_end [OF s(2) live] by (simp add: changes_to_def add_usage_def ended_def)
    show "ended (assign t (add_usage up down now) (version s) s) = ended (add_usage up down now s)" for t
      by (simp add: assign_def ended_def)
    fix u db1 now' w1
    assume step: "session_step may (row_id s) db db1" and ok1: "guest_ok db1" and u: "u \<in> set (ge_sessions db1)" "u = assign now' (add_usage up down now) (version s) s"
    have u': "\<not> ended u" "row_id u = row_id s" "may (se_organization_id u)"
      using live may [OF found] by (simp_all add: u(2) assign_def add_usage_def ended_def)
    show "ensures (\<lambda>_ db' _. guest_step may db db')
      (andthen (if 0 < max up 0 + max down 0 then aruba_access_tier hooks (se_router_id u) (se_organization_id u) (se_location_id u) (se_guest_id u) else ret None) (\<lambda>tier.
       andthen (track_fup_data_usage env (se_guest_id u) (se_organization_id u) (se_location_id u) (max up 0 + max down 0) now tier) (\<lambda>violated.
       end_over_cap env hooks now (is_quota_exceeded u) violated u))) db1 w1"
    proof (rule after_quiet [OF quietly.honours_if [OF quiet_tier quietly.honours_ret]], rule after_quiet [OF quiet_track])
      fix tier violated db2 w2 db3 w3
      assume "quiet db1 db2" "quiet db2 db3"
      then have q: "quiet db1 db3" by (rule quietly.step_trans)
      then have "guest_ok db3" "u \<in> set (ge_sessions db3)" using ok1 u(1) by (auto simp: quiet_def guest_ok_def)
      then show "ensures (\<lambda>_ db' _. guest_step may db db') (end_over_cap env hooks now (is_quota_exceeded u) violated u) db3 w3"
        using u' by (intro ensures_mono [OF end_over_cap_step [where may = may]])
          (auto intro: session_step_guest session_step_trans [OF step] quiet_step_before [OF q])
    qed
  qed
  then show ?thesis unfolding record_usage_def Let_def using guest_step_refl [OF ok]
    by (auto simp del: ensures_andthen simp: ensures_andthen [of _ "reads_db _"] ensures_andthen [of _ "orelse _ _"] split: option.splits)
qed



subsection \<open>Sweeps over several sessions\<close>

text \<open>A loop over rows that were read before it: each round leaves the rows of the later ones as they were read.\<close>

lemma sweep_step:
  assumes "guest_ok db" and "distinct (map row_id ss)" and "set ss \<subseteq> set (ge_sessions db)"
    and "\<And>s v db w. s \<in> set ss \<Longrightarrow> guest_ok db \<Longrightarrow> s \<in> set (ge_sessions db) \<Longrightarrow>
      ensures (\<lambda>_ db' _. session_step ok (row_id s) db db') (body s v) db w"
  shows "ensures (\<lambda>_ db' _. guest_step ok db db') (for_each body ss v) db w"
  using assms
proof (induction ss arbitrary: v db w)
  case Nil
  then show ?case by (simp add: guest_step_refl)
next
  case (Cons s ss v db w)
  have "ensures (\<lambda>v. ensures (\<lambda>_ db' _. guest_step ok db db') (for_each body ss v)) (body s v) db w"
  proof (rule ensures_mono)
    show "ensures (\<lambda>_ db' _. session_step ok (row_id s) db db') (body s v) db w" using Cons.prems by simp
    fix v' db1 w1
    assume step: "session_step ok (row_id s) db db1"
    then have kept: "row_id r = row_id s \<or> r \<in> set (ge_sessions db1)" if "r \<in> set (ge_sessions db)" for r
      using that by (simp add: session_step_def)
    have "r \<in> set (ge_sessions db1)" if "r \<in> set ss" for r
      using kept [of r] that Cons.prems(2,3) by (force simp: image_iff)
    then have "set ss \<subseteq> set (ge_sessions db1)" by blast
    moreover have "guest_ok db1" using step by (simp add: session_step_def guest_step_def)
    ultimately have "ensures (\<lambda>_ db' _. guest_step ok db1 db') (for_each body ss v') db1 w1"
      using Cons.prems(2,4) by (intro Cons.IH) simp_all
    then show "ensures (\<lambda>_ db' _. guest_step ok db db') (for_each body ss v') db1 w1"
      by (rule ensures_mono) (rule guest_step_trans [OF session_step_guest [OF step]])
  qed
  then show ?case by simp
qed

lemma distinct_sorted_ids: "distinct (map row_id t) \<Longrightarrow> distinct (map row_id (get_all P k d b None t))"
proof -
  assume "distinct (map row_id t)"
  then have "distinct t" "inj_on row_id (set t)" by (simp_all add: distinct_map)
  then show ?thesis unfolding distinct_map by (auto simp: get_all_def apply_sorting_def base_select_def Let_def intro: inj_on_subset split: option.splits sort_order.splits)
qed

lemma get_all_rows: "s \<in> set (get_all P k d b None t) \<Longrightarrow> s \<in> set t \<and> P s"
  by (auto simp: get_all_def Let_def split: option.splits sort_order.splits if_splits)

lemma live_active: "se_status s = SESSION_ACTIVE \<Longrightarrow> \<not> ended s"
  by (simp add: ended_def)

lemma timeouts_step:
  assumes ok: "guest_ok db"
  shows "ensures (\<lambda>_ db' _. guest_step (\<lambda>_. True) db db') (enforce_session_timeouts env hooks reporting reads') db w"
proof -
  have "ensures (\<lambda>_ db' _. session_step (\<lambda>_. True) (row_id s) db1 db') (expire_if_stale env hooks reporting reads' now s v) db1 w1"
    if "se_status s = SESSION_ACTIVE" "guest_ok db1" "s \<in> set (ge_sessions db1)" for s v db1 w1 now
    unfolding expire_if_stale_def Let_def
    using session_step_refl [OF that(2)]
    by (simp del: ensures_andthen) (intro impI expire_step [OF that(2,3) live_active [OF that(1)]] TrueI)
  then have "ensures (\<lambda>_ db' _. guest_step (\<lambda>_. True) db db') (for_each (expire_if_stale env hooks reporting reads' now) (list_timed_out_sessions now db) []) db w1" for now w1
  proof (intro sweep_step [OF ok])
    show "distinct (map row_id (list_timed_out_sessions now db))"
      using ok by (simp add: list_timed_out_sessions_def guest_ok_def distinct_map_filter)
  qed (auto simp: list_timed_out_sessions_def)
  then show ?thesis by (simp add: enforce_session_timeouts_def)
qed

lemma nas_restart_step:
  assumes ok: "guest_ok db"
  shows "ensures (\<lambda>_ db' _. guest_step (\<lambda>_. True) db db') (close_sessions_for_nas_restart env router why) db w"
proof -
  let ?body = "\<lambda>now s closed. andthen (save_session env s (\<lambda>r. r\<lparr>se_status := SESSION_DISCONNECTED, se_ended_at := Some now, se_disconnect_reason := Some why\<rparr>)) (\<lambda>updated.
       ret (closed @ [updated]))"
  have "ensures (\<lambda>_ db' _. guest_step (\<lambda>_. True) db db') (for_each (?body now) (list_active_sessions_for_router router db) []) db w1" for now w1
  proof (rule sweep_step [OF ok])
    show "distinct (map row_id (list_active_sessions_for_router router db))"
      using ok by (simp add: list_active_sessions_for_router_def guest_ok_def distinct_sorted_ids)
    show "set (list_active_sessions_for_router router db) \<subseteq> set (ge_sessions db)"
      by (auto simp: list_active_sessions_for_router_def dest: get_all_rows)
    fix s v and db1 :: "'a guest_db_scheme" and w1
    assume "s \<in> set (list_active_sessions_for_router router db)" and s: "guest_ok db1" "s \<in> set (ge_sessions db1)"
    then have "\<not> ended s" by (auto simp: list_active_sessions_for_router_def active_session_def live_active dest: get_all_rows)
    then show "ensures (\<lambda>_ db' _. session_step (\<lambda>_. True) (row_id s) db1 db') (?body now s v) db1 w1" by (intro restart_step [OF s]) simp_all
  qed
  then show ?thesis by (simp add: close_sessions_for_nas_restart_def)
qed

lemma expire_all_step:
  assumes ok: "guest_ok db"
  shows "ensures (\<lambda>_ db' _. guest_step (\<lambda>_. True) db db') (expire_all_sessions env hooks guest now period count) db w"
proof -
  let ?body = "\<lambda>s n. andthen (expire_session env s now (''fup_time_quota_exceeded_'' @ QuotaPeriodType_value period)) (\<lambda>u.
    andthen (issue_live_disconnect env hooks False u) (\<lambda>_. ret (n + 1)))"
  have "ensures (\<lambda>_ db' _. guest_step (\<lambda>_. True) db db') (for_each ?body (list_active_sessions_for_guest guest db) count) db w"
  proof (rule sweep_step [OF ok])
    show "distinct (map row_id (list_active_sessions_for_guest guest db))"
      using ok by (simp add: list_active_sessions_for_guest_def guest_ok_def distinct_sorted_ids)
    show "set (list_active_sessions_for_guest guest db) \<subseteq> set (ge_sessions db)"
      by (auto simp: list_active_sessions_for_guest_def dest: get_all_rows)
    fix s n and db1 :: "'a guest_db_scheme" and w1
    assume "s \<in> set (list_active_sessions_for_guest guest db)" and s: "guest_ok db1" "s \<in> set (ge_sessions db1)"
    then have "\<not> ended s" by (auto simp: list_active_sessions_for_guest_def active_session_def live_active dest: get_all_rows)
    then show "ensures (\<lambda>_ db' _. session_step (\<lambda>_. True) (row_id s) db1 db') (?body s n) db1 w1" by (intro expire_step [OF s]) simp_all
  qed
  then show ?thesis by (simp add: expire_all_sessions_def)
qed

lemma quiet_guest_step: "quiet db db1 \<Longrightarrow> guest_step ok db1 db' \<Longrightarrow> guest_step ok db db'"
  by (simp add: quiet_def guest_step_def guest_ok_def guest_leads_def)

lemma quiet_ok: "quiet db db1 \<Longrightarrow> guest_ok db \<Longrightarrow> guest_ok db1"
  by (simp add: quiet_def guest_ok_def)

lemma accrue_guest_step:
  assumes ok: "guest_ok db"
  shows "ensures (\<lambda>_ db' _. guest_step (\<lambda>_. True) db db') (accrue_guest env hooks tiers online now pairs key counts) db w"
proof -
  have rest: "ensures (\<lambda>_ db' _. guest_step (\<lambda>_. True) db db')
      (andthen (case violated of None \<Rightarrow> ret (snd counts) | Some p \<Rightarrow> expire_all_sessions env hooks guest now p (snd counts)) (\<lambda>expired. ret (a, expired))) db1 w1"
    if q: "quiet db db1" for violated guest a db1 w1
  proof -
    have "ensures (\<lambda>_ db' _. guest_step (\<lambda>_. True) db1 db') (case violated of None \<Rightarrow> ret (snd counts) | Some p \<Rightarrow> expire_all_sessions env hooks guest now p (snd counts)) db1 w1"
      using quiet_ok [OF q ok] by (cases violated) (auto intro: guest_step_refl expire_all_step)
    then show ?thesis unfolding ensures_andthen ensures_ret by (rule ensures_mono) (rule quiet_guest_step [OF q])
  qed
  show ?thesis unfolding accrue_guest_def Let_def split_def
    apply (simp del: ensures_andthen add: ensures_andthen [of _ "reads_db _"])
    apply (rule after_quiet [OF quiet_limits])
    apply (simp del: ensures_andthen, intro conjI impI)
     apply (rule quiet_guest_step, assumption, rule guest_step_refl, erule quiet_ok, rule ok)
    apply (rule after_quiet [OF quietly.honours_for_each [OF quiet_accrue_period]])
    apply (rule rest, erule (1) quietly.step_trans)
    done
qed

lemma time_accrual_step:
  assumes ok: "guest_ok db"
  shows "ensures (\<lambda>_ db' _. guest_step (\<lambda>_. True) db db') (run_fup_time_accrual env hooks tiers online now) db w"
proof -
  have "ensures (\<lambda>_ db' _. guest_step (\<lambda>_. True) db db') (for_each (accrue_guest env hooks tiers online now pairs) keys counts) db w" for pairs keys counts
  proof (rule ensures_for_each)
    show "guest_step (\<lambda>_. True) db db" by (rule guest_step_refl [OF ok])
    fix i v and db1 :: "'a guest_db_scheme" and w1
    assume step: "guest_step (\<lambda>_. True) db db1"
    then have "guest_ok db1" by (simp add: guest_step_def)
    then show "ensures (\<lambda>_ db' _. guest_step (\<lambda>_. True) db db') (accrue_guest env hooks tiers online now pairs i v) db1 w1"
      by (rule ensures_mono [OF accrue_guest_step]) (rule guest_step_trans [OF step])
  qed
  then show ?thesis by (simp add: run_fup_time_accrual_def)
qed



subsection \<open>New sessions and guests\<close>

lemma create_session_step:
  assumes "guest_ok db" and "may (gu_organization_id g)"
  shows "ensures (\<lambda>_ db' _. guest_step may db db' \<and> site_guests db' = site_guests db) (create_session env g device router location grant) db w"
proof -
  have "guest_step may db (ge_sessions_update (\<lambda>_. ge_sessions db @ [s]) db)"
    if "distinct (map row_id (ge_sessions db @ [s]))" "may (se_organization_id s)" "session_fine s" for s
    using that assms(1) by (auto simp: guest_step_def guest_ok_def guest_leads_def sessions.guarded_append)
  with assms show ?thesis
    by (auto simp: create_session_def ensures_insert_in Let_def session_fine_def ended_def guest_session.defs base_model.defs new_base_def)
qed

lemma save_guest_step:
  assumes "guest_ok db" and "\<And>r. r \<in> set (site_guests db) \<Longrightarrow> row_id r = row_id g \<Longrightarrow> may (gu_organization_id r)"
    and "\<And>r now. guest_keeps r (assign now data (version g) r)"
  shows "ensures (\<lambda>_ db' _. guest_step may db db') (save_guest env g data) db w"
proof -
  have "guests.guarded may (site_guests db) (update_row now data g (site_guests db))" for now
    unfolding update_row_def using assms(2,3) by (intro guests.guarded_map) auto
  with assms(1) show ?thesis
    by (auto simp: save_guest_def Let_def guest_step_def guest_ok_def guest_leads_def)
qed

lemma guest_found:
  assumes "guest_ok db" and "get_by_id False i (site_guests db) = Some g"
  shows "row_id g = i" and "r \<in> set (site_guests db) \<Longrightarrow> row_id r = row_id g \<Longrightarrow> r = g"
proof -
  show i: "row_id g = i" using assms(2) get_by_id_Some by blast
  show "r = g" if "r \<in> set (site_guests db)" "row_id r = row_id g"
    using row_unique [OF _ assms(2) that(1)] assms(1) that(2) i by (simp add: guest_ok_def)
qed

lemma save_and_audit_guest:
  assumes "guest_ok db" and "get_by_id False i (site_guests db) = Some g" and "mine requesting (gu_organization_id g)"
    and "\<And>r now. guest_keeps r (assign now data (version g) r)"
  shows "ensures (\<lambda>_ db' _. guest_step (mine requesting) db db')
    (andthen (save_guest env g data) (\<lambda>u. andthen (site_audit actor action kind (entity u) (what u) (org u) (place u)) (\<lambda>_. ret u))) db w"
proof -
  have "ensures (\<lambda>_ db' _. guest_step (mine requesting) db db') (save_guest env g data) db w"
  proof (rule save_guest_step [OF assms(1)])
    show "mine requesting (gu_organization_id r)" if "r \<in> set (site_guests db)" "row_id r = row_id g" for r
      using guest_found(2) [OF assms(1,2) that] assms(3) by simp
  qed (rule assms(4))
  then show ?thesis by (simp add: site_audit_def)
qed

lemma block_step:
  "guest_ok db \<Longrightarrow> ensures (\<lambda>_ db' _. guest_step (mine requesting) db db') (block_guest env hooks actor i requesting why) db w"
  unfolding block_guest_def
  by (intro ensures_require_guest save_and_audit_guest) (auto simp: guest_keeps_def assign_def)

lemma unblock_step:
  "guest_ok db \<Longrightarrow> ensures (\<lambda>_ db' _. guest_step (mine requesting) db db') (unblock_guest env hooks actor i requesting) db w"
  unfolding unblock_guest_def
  by (intro ensures_require_guest save_and_audit_guest) (auto simp: guest_keeps_def assign_def)

lemma quiet_for_reconnect: "honours quiet (device_for_reconnect env g mac prior)"
  unfolding device_for_reconnect_def by (intro quietly.honours_control quiet_device)

lemma derive_step:
  assumes ok: "guest_ok db" and g: "get_by_id False i (site_guests db) = Some g" "mine requesting (gu_organization_id g)"
  shows "ensures (\<lambda>_ db' _. guest_step (mine requesting) db db')
    (andthen (device_for_reconnect env g mac prior) (\<lambda>device. andthen (create_session env g device router location grant) (\<lambda>s.
     andthen (bump_guest_visit env g) (\<lambda>_. ret s)))) db w"
proof (rule after_quiet [OF quiet_for_reconnect])
  fix device db1 w1 assume q: "quiet db db1"
  have ok1: "guest_ok db1" by (rule quiet_ok [OF q ok])
  have "ensures (\<lambda>_ db' _. guest_step (mine requesting) db1 db')
    (andthen (create_session env g device router location grant) (\<lambda>s. andthen (bump_guest_visit env g) (\<lambda>_. ret s))) db1 w1"
    unfolding ensures_andthen ensures_ret
  proof (rule ensures_mono [OF create_session_step [OF ok1, where may = "mine requesting", OF g(2)]])
    fix s db2 w2 assume made: "guest_step (mine requesting) db1 db2 \<and> site_guests db2 = site_guests db1"
    have "mine requesting (gu_organization_id r)" if "r \<in> set (site_guests db2)" "row_id r = row_id g" for r
      using that made q guest_found(2) [OF ok g(1), of r] g(2) by (simp add: quiet_def)
    then have "ensures (\<lambda>_ db' _. guest_step (mine requesting) db2 db') (save_guest env g data) db2 w3"
      if "\<And>r now. guest_keeps r (assign now data (version g) r)" for data w3
      using made that by (intro save_guest_step) (auto simp: guest_step_def)
    then have "ensures (\<lambda>_ db' _. guest_step (mine requesting) db2 db') (bump_guest_visit env g) db2 w2"
      by (auto simp: bump_guest_visit_def guest_keeps_def assign_def)
    then show "ensures (\<lambda>_ db' _. guest_step (mine requesting) db1 db') (bump_guest_visit env g) db2 w2"
      by (rule ensures_mono) (use made guest_step_trans in blast)
  qed
  then show "ensures (\<lambda>_ db' _. guest_step (mine requesting) db db')
    (andthen (create_session env g device router location grant) (\<lambda>s. andthen (bump_guest_visit env g) (\<lambda>_. ret s))) db1 w1"
    by (rule ensures_mono) (rule quiet_guest_step [OF q])
qed

lemma reconnect_step:
  assumes ok: "guest_ok db"
  shows "ensures (\<lambda>_ db' _. guest_step (mine requesting) db db') (reconnect env hooks requesting c) db w"
proof -
  have derived: "ensures (\<lambda>_ db' _. guest_step (mine requesting) db db')
    (andthen (device_for_reconnect env g (rc_device_mac c) prior) (\<lambda>device. andthen (create_session env g device router location grant) (\<lambda>s.
     andthen (bump_guest_visit env g) (\<lambda>_. ret s)))) db w"
    if "get_by_id False i (site_guests db) = Some g" "mine requesting (gu_organization_id g)" for i g prior router location grant w
    by (rule derive_step [OF ok that])
  show ?thesis unfolding reconnect_def
    by (rule ensures_require_guest)
      (use derived guest_step_refl [OF ok] in \<open>auto simp: reject_if_blocked_def get_eligible_router_def split: option.splits\<close>)
qed

lemma reuse_step:
  assumes ok: "guest_ok db"
  shows "ensures (\<lambda>_ db' _. guest_step (\<lambda>_. True) db db') (reuse_or_create_session env g device router location grant) db w"
proof -
  have reuse: "ensures (\<lambda>_ db' _. guest_step (\<lambda>_. True) db db') (save_session env s (reuse_with router grant now)) db w'"
    if "s \<in> set (list_active_sessions_for_guest guest db)" for s guest now w'
  proof -
    have s: "s \<in> set (ge_sessions db)" "\<not> ended s"
      using that by (auto simp: list_active_sessions_for_guest_def active_session_def live_active dest: get_all_rows)
    have "se_ended_at s = None" using live_no_end [OF _ s(2)] ok s(1) by (simp add: guest_ok_def)
    with s(2) show ?thesis
      by (intro ensures_mono [OF save_live_session [OF ok s, where may = "\<lambda>_. True"]])
        (auto simp: changes_to_def reuse_with_def ended_def intro: session_step_guest)
  qed
  have first: "s \<in> set xs" if "first_unless P Q xs = Some s" for P Q xs and s :: guest_session
    using that by (induction xs) (auto split: if_splits)
  have new: "ensures (\<lambda>_ db' _. guest_step (\<lambda>_. True) db db') (create_session env g device router location grant) db w'" for w'
    by (rule ensures_mono [OF create_session_step [OF ok, where may = "\<lambda>_. True"]]) simp_all
  show ?thesis
    unfolding reuse_or_create_session_def find_reusable_active_session_def
    using new by (cases device) (auto intro: reuse dest: first split: option.splits)
qed



subsection \<open>Histories\<close>

datatype session_call =
    DisconnectSession "uuid option" uuid "string option" bool
  | TerminateSession "uuid option" uuid "string option"
  | PauseSession "uuid option" uuid "string option"
  | ResumeSession "uuid option" uuid
  | ExtendSession "uuid option" uuid int
  | BlockGuest "uuid option" uuid "string option"
  | UnblockGuest "uuid option" uuid
  | Reconnect reconnect_request

fun run_session_call :: "platform_env \<Rightarrow> guest_hooks \<Rightarrow> uuid option \<Rightarrow> session_call \<Rightarrow> ('a guest_db_scheme, unit) pprog" where
  "run_session_call env hooks requesting (DisconnectSession actor i why already) = andthen (disconnect_session env hooks actor i requesting why already) (\<lambda>_. ret ())"
| "run_session_call env hooks requesting (TerminateSession actor i why) = andthen (terminate_session env hooks actor i requesting why) (\<lambda>_. ret ())"
| "run_session_call env hooks requesting (PauseSession actor i why) = andthen (pause_session env hooks actor i requesting why) (\<lambda>_. ret ())"
| "run_session_call env hooks requesting (ResumeSession actor i) = andthen (resume_session env hooks actor i requesting) (\<lambda>_. ret ())"
| "run_session_call env hooks requesting (ExtendSession actor i n) = andthen (extend_session env hooks actor i requesting n) (\<lambda>_. ret ())"
| "run_session_call env hooks requesting (BlockGuest actor i why) = andthen (block_guest env hooks actor i requesting why) (\<lambda>_. ret ())"
| "run_session_call env hooks requesting (UnblockGuest actor i) = andthen (unblock_guest env hooks actor i requesting) (\<lambda>_. ret ())"
| "run_session_call env hooks requesting (Reconnect c) = andthen (reconnect env hooks requesting c) (\<lambda>_. ret ())"

lemma session_call_step:
  "guest_ok db \<Longrightarrow> ensures (\<lambda>_ db' _. guest_step (mine requesting) db db') (run_session_call env hooks requesting call) db w"
  by (cases call) (simp_all add: disconnect_step terminate_step pause_step resume_step extend_step block_step unblock_step reconnect_step)

interpretation session_requests: request_contract "run_session_call env hooks requesting" guest_ok "guest_leads (mine requesting)" for env hooks requesting
proof
  fix c v x x' and db db' :: "'a guest_db_scheme"
  assume "run_session_call env hooks requesting c (db, x) = (Inr v, (db', x'))" "guest_ok db"
  with ensuresD [OF session_call_step this(1)] show "guest_ok db'" "guest_leads (mine requesting) db db'" by (auto simp: guest_step_def)
qed (auto simp: guest_leads_refl intro: guest_leads_trans)

text \<open>Requests of several callers, sign-ins, accounting packets and sweeps in one history.\<close>

datatype engine_call =
    CallerRequest "uuid option" session_call
  | OpenSession guest_row "guest_device option" router_view uuid session_grant
  | RecordUsage uuid int int
  | EnforceSessionTimeouts activity_reporting activity_reads
  | NasRestart uuid string
  | FupTimeAccrual "uuid \<Rightarrow> uuid \<Rightarrow> uuid \<Rightarrow> access_tier option" "uuid \<Rightarrow> connected_since" datetime
  | QuotaReset datetime

fun run_engine_call :: "platform_env \<Rightarrow> guest_hooks \<Rightarrow> engine_call \<Rightarrow> ('a guest_db_scheme, unit) pprog" where
  "run_engine_call env hooks (CallerRequest requesting c) = run_session_call env hooks requesting c"
| "run_engine_call env hooks (OpenSession g d r l grant) = andthen (reuse_or_create_session env g d r l grant) (\<lambda>_. ret ())"
| "run_engine_call env hooks (RecordUsage i up down) = andthen (record_usage env hooks i up down) (\<lambda>_. ret ())"
| "run_engine_call env hooks (EnforceSessionTimeouts reporting reads') = andthen (enforce_session_timeouts env hooks reporting reads') (\<lambda>_. ret ())"
| "run_engine_call env hooks (NasRestart r why) = andthen (close_sessions_for_nas_restart env r why) (\<lambda>_. ret ())"
| "run_engine_call env hooks (FupTimeAccrual tiers online now) = andthen (run_fup_time_accrual env hooks tiers online now) (\<lambda>_. ret ())"
| "run_engine_call env hooks (QuotaReset now) = andthen (run_quota_reset env now) (\<lambda>_. ret ())"

lemma guest_step_any: "guest_step ok db db' \<Longrightarrow> guest_step (\<lambda>_. True) db db'"
  unfolding guest_step_def guest_leads_def sessions.guarded_def guests.guarded_def by blast

lemma engine_call_step:
  assumes ok: "guest_ok db"
  shows "ensures (\<lambda>_ db' _. guest_step (\<lambda>_. True) db db') (run_engine_call env hooks call) db w"
proof (cases call)
  case (CallerRequest requesting c)
  then show ?thesis using ensures_mono [OF session_call_step [OF ok] guest_step_any] by simp
next
  case (QuotaReset now)
  have "ensures (\<lambda>_ db' _. guest_step (\<lambda>_. True) db db') (run_quota_reset env now) db w"
    by (rule ensures_mono [OF ensures_honours [OF quiet_quota_reset] session_step_guest [OF quiet_step [OF _ ok]]])
  with QuotaReset show ?thesis by simp
qed (simp_all add: ok reuse_step record_usage_step timeouts_step nas_restart_step time_accrual_step)

interpretation engine: request_contract "run_engine_call env hooks" guest_ok "guest_leads (\<lambda>_. True)" for env hooks
proof
  fix c v x x' and db db' :: "'a guest_db_scheme"
  assume "run_engine_call env hooks c (db, x) = (Inr v, (db', x'))" "guest_ok db"
  with ensuresD [OF engine_call_step this(1)] show "guest_ok db'" "guest_leads (\<lambda>_. True) db db'" by (auto simp: guest_step_def)
qed (auto simp: guest_leads_refl intro: guest_leads_trans)


definition sessions_of :: "uuid \<Rightarrow> 'a guest_db_scheme \<Rightarrow> guest_session set" where
  "sessions_of org db = {s \<in> set (ge_sessions db). se_organization_id s = org}"

definition guests_of :: "uuid \<Rightarrow> 'a guest_db_scheme \<Rightarrow> guest_row set" where
  "guests_of org db = {g \<in> set (site_guests db). gu_organization_id g = org}"

text \<open>C11. A caller who acts for an organization, whatever the requests, neither opens nor changes a session of another
  organization, and leaves its guests as they are.\<close>

theorem session_isolation:
  assumes "guest_ok db" and "other \<noteq> org"
  shows "sessions_of other (fst (run_requests (run_session_call env hooks (Some org)) calls (db, w))) = sessions_of other db \<and>
    guests_of other (fst (run_requests (run_session_call env hooks (Some org)) calls (db, w))) = guests_of other db"
proof -
  have "\<not> mine (Some org) other" using assms(2) by (simp add: mine_def)
  note other = sessions.guarded_same [where ok = "mine (Some org)" and k = other, OF _ this]
    guests.guarded_same [where ok = "mine (Some org)" and k = other, OF _ this]
  show ?thesis
    using session_requests.history_leads [OF assms(1), where requesting = "Some org" and env = env and hooks = hooks and cs = calls and x = w]
    by (simp add: guest_leads_def sessions_of_def guests_of_def other)
qed

end
