(* ===== verification/GuestSweep.thy ===== *)
theory GuestSweep
  imports GuestEngine
begin

section \<open>What the sweeps do\<close>

text \<open>
  The sweep of stale sessions and the rollover of quotas, exactly: which rows they change and how, that they
  return, and that the SQL filter and the Python predicate agree. Then the batched read of the quota rows
  against the single reads, and the cooldown after a termination.
\<close>

subsection \<open>Loops that each change one row\<close>

definition replaced :: "('db \<Rightarrow> 'r base_model_scheme list) \<Rightarrow> ('r base_model_scheme \<Rightarrow> 'r base_model_scheme \<Rightarrow> bool) \<Rightarrow> 'r base_model_scheme \<Rightarrow> 'db \<Rightarrow> 'db \<Rightarrow> bool" where
  "replaced get Q s db db' \<longleftrightarrow>
     (\<exists>s'. row_id s' = row_id s \<and> Q s s' \<and> get db' = map (\<lambda>r. if row_id r = row_id s then s' else r) (get db))"

definition replaced_all :: "('db \<Rightarrow> 'r base_model_scheme list) \<Rightarrow> ('r base_model_scheme \<Rightarrow> 'r base_model_scheme \<Rightarrow> bool) \<Rightarrow> 'r base_model_scheme list \<Rightarrow> 'db \<Rightarrow> 'db \<Rightarrow> bool" where
  "replaced_all get Q ss db db' \<longleftrightarrow>
     (\<exists>f. get db' = map f (get db) \<and> (\<forall>r \<in> set (get db). row_id (f r) = row_id r \<and> (if r \<in> set ss then Q r (f r) else f r = r)))"

lemma replaced_first:
  assumes "distinct (map row_id (get db))" and "s \<in> set (get db)" and "row_id s \<notin> row_id ` set ss"
    and "replaced get Q s db db1" and "replaced_all get Q ss db1 db2"
  shows "replaced_all get Q (s # ss) db db2"
proof -
  obtain s' where s': "row_id s' = row_id s" "Q s s'" and db1: "get db1 = map (\<lambda>r. if row_id r = row_id s then s' else r) (get db)"
    using assms(4) unfolding replaced_def by blast
  obtain f where db2: "get db2 = map f (get db1)"
    and f: "\<forall>r \<in> set (get db1). row_id (f r) = row_id r \<and> (if r \<in> set ss then Q r (f r) else f r = r)"
    using assms(5) unfolding replaced_all_def by blast
  let ?g = "\<lambda>r. f (if row_id r = row_id s then s' else r)"
  have only: "r = s" if "r \<in> set (get db)" "row_id r = row_id s" for r
    using distinct_map_inj [OF assms(1) that(1) assms(2) that(2)] .
  have "row_id (?g r) = row_id r \<and> (if r \<in> set (s # ss) then Q r (?g r) else ?g r = r)" if "r \<in> set (get db)" for r
  proof (cases "row_id r = row_id s")
    case True
    then have r: "r = s" using only that by blast
    have "s' \<in> set (get db1)" using that True unfolding db1 by force
    moreover have "s' \<notin> set ss" using assms(3) s'(1) by (metis imageI)
    ultimately have "f s' = s'" using f by auto
    then show ?thesis using r s' by simp
  next
    case False
    then have "r \<in> set (get db1)" using that unfolding db1 by force
    then show ?thesis using f False by auto
  qed
  moreover have "get db2 = map ?g (get db)" unfolding db2 db1 by simp
  ultimately show ?thesis unfolding replaced_all_def by blast
qed

lemma replaced_others: "replaced get Q s db db1 \<Longrightarrow> r \<in> set (get db) \<Longrightarrow> row_id r \<noteq> row_id s \<Longrightarrow> r \<in> set (get db1)"
  by (force simp: replaced_def)

lemma replaced_ids: "replaced get Q s db db1 \<Longrightarrow> map row_id (get db1) = map row_id (get db)"
  by (auto simp: replaced_def)

lemma replaced_again:
  assumes "get db1 = map (\<lambda>r. if row_id r = row_id s then u else r) (get db)" and "row_id u = row_id s"
    and "replaced get E u db1 db2" and "\<And>u'. E u u' \<Longrightarrow> Q s u'"
  shows "replaced get Q s db db2"
proof -
  obtain u' where u': "row_id u' = row_id u" "E u u'" and db2: "get db2 = map (\<lambda>r. if row_id r = row_id u then u' else r) (get db1)"
    using assms(3) unfolding replaced_def by blast
  have "get db2 = map (\<lambda>r. if row_id r = row_id s then u' else r) (get db)"
    unfolding db2 assms(1) using assms(2) by auto
  with u' assms(2,4) show ?thesis unfolding replaced_def by (intro exI [of _ u']) simp
qed

lemma replaced_mono: "replaced get E s db db' \<Longrightarrow> (\<And>s'. E s s' \<Longrightarrow> Q s s') \<Longrightarrow> replaced get Q s db db'"
  unfolding replaced_def by blast

lemma replaced_by_itself:
  assumes "distinct (map row_id (get db))" and "s \<in> set (get db)" and "Q s s"
  shows "replaced get Q s db db"
proof -
  have "map (\<lambda>r. if row_id r = row_id s then s else r) (get db) = get db"
    using distinct_map_inj [OF assms(1) _ assms(2)] by (intro map_idI) auto
  with assms(3) show ?thesis unfolding replaced_def by (intro exI [of _ s]) simp
qed

text \<open>\<open>T\<close> describes the loop's variable after the rows handled so far.\<close>

lemma row_sweep:
  assumes "distinct (map row_id (get db))" and "fine db" and "distinct (map row_id ss)" and "set ss \<subseteq> set (get db)" and "T pre v"
    and body: "\<And>pre s v db w. s \<in> set ss \<Longrightarrow> distinct (map row_id (get db)) \<Longrightarrow> fine db \<Longrightarrow> s \<in> set (get db) \<Longrightarrow> T pre v \<Longrightarrow>
      yields (\<lambda>v' db' _. fine db' \<and> T (pre @ [s]) v' \<and> replaced get Q s db db') (body s v) db w"
  shows "yields (\<lambda>v' db' _. fine db' \<and> T (pre @ ss) v' \<and> replaced_all get Q ss db db') (for_each body ss v) db w"
  using assms
proof (induction ss arbitrary: pre v db w)
  case Nil
  then show ?case by (auto simp: replaced_all_def intro: exI [of _ id])
next
  case (Cons s ss pre v db w)
  have "yields (\<lambda>v. yields (\<lambda>v' db' _. fine db' \<and> T (pre @ s # ss) v' \<and> replaced_all get Q (s # ss) db db') (for_each body ss v)) (body s v) db w"
  proof (rule yields_mono)
    show "yields (\<lambda>v' db' _. fine db' \<and> T (pre @ [s]) v' \<and> replaced get Q s db db') (body s v) db w"
      using Cons.prems by simp
    fix v1 db1 w1
    assume first: "fine db1 \<and> T (pre @ [s]) v1 \<and> replaced get Q s db db1"
    then have r: "replaced get Q s db db1" by blast
    have fresh: "row_id s \<notin> row_id ` set ss" using Cons.prems(3) by simp
    have "r \<in> set (get db1)" if "r \<in> set ss" for r
    proof (rule replaced_others [OF r])
      show "row_id r \<noteq> row_id s" using that fresh by (metis imageI)
    qed (use that Cons.prems(4) in auto)
    then have "yields (\<lambda>v' db' _. fine db' \<and> T ((pre @ [s]) @ ss) v' \<and> replaced_all get Q ss db1 db') (for_each body ss v1) db1 w1"
      using first Cons.prems replaced_ids [OF r] by (intro Cons.IH) auto
    then show "yields (\<lambda>v' db' _. fine db' \<and> T (pre @ s # ss) v' \<and> replaced_all get Q (s # ss) db db') (for_each body ss v1) db1 w1"
      by (rule yields_mono) (use replaced_first [OF Cons.prems(1) _ fresh r] Cons.prems(4) in auto)
  qed
  then show ?case by simp
qed

lemma update_row_replaces:
  assumes "distinct (map row_id t)" and "s \<in> set t"
  shows "update_row now data s t = map (\<lambda>r. if row_id r = row_id s then assign now data (version s) s else r) t"
proof -
  have "r = s" if "r \<in> set t" "row_id r = row_id s" for r using distinct_map_inj [OF assms(1) that(1) assms(2) that(2)] .
  then show ?thesis unfolding update_row_def by auto
qed



subsection \<open>The sweep of stale sessions\<close>

definition swept :: "activity_reporting \<Rightarrow> activity_reads \<Rightarrow> datetime \<Rightarrow> guest_session \<Rightarrow> bool" where
  "swept reporting reads' now s \<longleftrightarrow>
     se_status s = SESSION_ACTIVE \<and> \<not> is_deleted s \<and> timed_out_where now s \<and> is_session_stale s now (session_observable reporting reads' s)"

definition expired_as :: "datetime \<Rightarrow> string \<Rightarrow> guest_session \<Rightarrow> guest_session \<Rightarrow> bool" where
  "expired_as now reason s s' \<longleftrightarrow>
     (\<exists>e v t. s' = s\<lparr>se_status := SESSION_EXPIRED, se_ended_at := Some now, se_disconnect_reason := Some reason,
       se_disconnect_enforced := e, version := v, updated_at := t\<rparr>)"

definition after_sweep :: "activity_reporting \<Rightarrow> activity_reads \<Rightarrow> datetime \<Rightarrow> guest_session \<Rightarrow> guest_session \<Rightarrow> bool" where
  "after_sweep reporting reads' now s s' \<longleftrightarrow>
     (let observable = session_observable reporting reads' s
      in if is_session_stale s now observable then expired_as now (timeout_reason observable) s s' else s' = s)"

lemma yields_save_session:
  assumes "distinct (map row_id (ge_sessions db))" and "r \<in> set (ge_sessions db)" and "row_id s = row_id r"
    and "\<And>now. P (assign now data (version s) s)
      (ge_sessions_update (\<lambda>_. map (\<lambda>x. if row_id x = row_id r then assign now data (version s) r else x) (ge_sessions db)) db) w"
  shows "yields P (save_session env s data) db w"
proof -
  have "x = r" if "x \<in> set (ge_sessions db)" "row_id x = row_id r" for x using distinct_map_inj [OF assms(1) that(1) assms(2) that(2)] .
  then have "update_row now data s (ge_sessions db) = map (\<lambda>x. if row_id x = row_id r then assign now data (version s) r else x) (ge_sessions db)" for now
    unfolding update_row_def using assms(3) by auto
  then show ?thesis using assms(4) by (simp add: save_session_def Let_def)
qed

text \<open>The live disconnect returns in every case, and notes at most whether it was enforced.\<close>

definition enforcement_of :: "guest_session \<Rightarrow> guest_session \<Rightarrow> bool" where
  "enforcement_of s s' \<longleftrightarrow> (\<exists>e v t. s' = s\<lparr>se_disconnect_enforced := e, version := v, updated_at := t\<rparr>)"

lemma record_enforced_row:
  assumes "distinct (map row_id (ge_sessions db))" and "s \<in> set (ge_sessions db)"
  shows "yields (\<lambda>_ db' _. replaced ge_sessions enforcement_of s db db') (record_enforced env s b) db w"
proof -
  have "replaced ge_sessions enforcement_of s db
      (ge_sessions_update (\<lambda>_. map (\<lambda>x. if row_id x = row_id s then assign now (\<lambda>r. r\<lparr>se_disconnect_enforced := Some b\<rparr>) (version s) s else x) (ge_sessions db)) db)" for now
    unfolding replaced_def enforcement_of_def
    by (rule exI [of _ "assign now (\<lambda>r. r\<lparr>se_disconnect_enforced := Some b\<rparr>) (version s) s"]) (auto simp: assign_def)
  then show ?thesis unfolding record_enforced_def yields_andthen yields_ret by (intro yields_save_session [OF assms refl])
qed

lemma live_disconnect_row:
  assumes "distinct (map row_id (ge_sessions db))" and "s \<in> set (ge_sessions db)"
  shows "yields (\<lambda>_ db' _. replaced ge_sessions enforcement_of s db db') (issue_live_disconnect env hooks b s) db w"
proof -
  have "enforcement_of s s" unfolding enforcement_of_def
    by (intro exI [of _ "se_disconnect_enforced s"] exI [of _ "version s"] exI [of _ "updated_at s"]) simp
  then have "replaced ge_sessions enforcement_of s db db" by (intro replaced_by_itself [where get = ge_sessions] assms)
  then show ?thesis using record_enforced_row [OF assms]
    by (auto simp: issue_live_disconnect_def end_on_router_def split: option.splits)
qed


text \<open>One session ended by the engine: saved as expired, then cut off.\<close>

lemma expire_row:
  assumes ids: "distinct (map row_id (ge_sessions db))" and s: "s \<in> set (ge_sessions db)"
    and P: "\<And>u db' w'. row_id u = row_id s \<Longrightarrow> replaced ge_sessions (expired_as now why) s db db' \<Longrightarrow> P (k u) db' w'"
  shows "yields P (andthen (expire_session env s now why) (\<lambda>u. andthen (issue_live_disconnect env hooks b u) (\<lambda>_. ret (k u)))) db w"
  unfolding expire_session_def yields_andthen yields_ret
proof (rule yields_save_session [OF ids s refl])
  fix t
  let ?u = "assign t (\<lambda>r. r\<lparr>se_status := SESSION_EXPIRED, se_ended_at := Some now, se_disconnect_reason := Some why\<rparr>) (version s) s"
  let ?db = "ge_sessions_update (\<lambda>_. map (\<lambda>x. if row_id x = row_id s then ?u else x) (ge_sessions db)) db"
  have u: "row_id ?u = row_id s" by (simp add: assign_def)
  have sessions: "ge_sessions ?db = map (\<lambda>x. if row_id x = row_id s then ?u else x) (ge_sessions db)" by simp
  have ids': "map row_id (ge_sessions ?db) = map row_id (ge_sessions db)" using u by auto
  have "?u \<in> set (ge_sessions ?db)" unfolding sessions using s by force
  then have "yields (\<lambda>_ db' _. replaced ge_sessions enforcement_of ?u ?db db') (issue_live_disconnect env hooks b ?u) ?db w"
    using ids unfolding ids' [symmetric] by (rule live_disconnect_row [rotated])
  then show "yields (\<lambda>_. P (k ?u)) (issue_live_disconnect env hooks b ?u) ?db w"
  proof (rule yields_mono)
    fix v db' w'
    assume "replaced ge_sessions enforcement_of ?u ?db db'"
    then have "replaced ge_sessions (expired_as now why) s db db'"
      by (rule replaced_again [where get = ge_sessions, OF sessions u]) (auto simp: enforcement_of_def expired_as_def assign_def)
    with P u show "P (k ?u) db' w'" by blast
  qed
qed

text \<open>C13. The sweep returns; it lists and expires exactly the active sessions that are stale at its time, on the activity or,
  where nobody observes that, on the time limit alone, and leaves every other session as it was.\<close>

theorem sweep_exact:
  assumes "distinct (map row_id (ge_sessions db))"
  shows "yields (\<lambda>expired db' _.
      map row_id expired = map row_id (filter (swept reporting reads' (time_at env (pw_clock w))) (ge_sessions db)) \<and>
      (\<exists>f. ge_sessions db' = map f (ge_sessions db) \<and>
        (\<forall>s \<in> set (ge_sessions db). if swept reporting reads' (time_at env (pw_clock w)) s
           then expired_as (time_at env (pw_clock w)) (timeout_reason (session_observable reporting reads' s)) s (f s) else f s = s)))
    (enforce_session_timeouts env hooks reporting reads') db w"
proof -
  let ?now = "time_at env (pw_clock w)"
  let ?obs = "session_observable reporting reads'"
  let ?stale = "\<lambda>s. is_session_stale s ?now (?obs s)"
  let ?Q = "after_sweep reporting reads' ?now"
  let ?T = "\<lambda>ss expired. map row_id expired = map row_id (filter ?stale ss)"
  let ?body = "expire_if_stale env hooks reporting reads' ?now"
  let ?ss = "list_timed_out_sessions ?now db"
  have body: "yields (\<lambda>v' db' _. True \<and> ?T (pre @ [s]) v' \<and> replaced ge_sessions ?Q s db1 db') (?body s v) db1 w1"
    if s: "distinct (map row_id (ge_sessions db1))" "s \<in> set (ge_sessions db1)" and v: "?T pre v" for pre s v db1 w1
  proof (cases "?stale s")
    case True
    then have "replaced ge_sessions ?Q s db1 db2" if "replaced ge_sessions (expired_as ?now (timeout_reason (?obs s))) s db1 db2" for db2
      by (intro replaced_mono [OF that]) (simp add: after_sweep_def)
    with True v show ?thesis unfolding expire_if_stale_def Let_def
      by (simp del: yields_andthen) (intro expire_row [OF s], simp)
  next
    case False
    with v show ?thesis using replaced_by_itself [where get = ge_sessions and Q = ?Q, OF s] by (simp add: expire_if_stale_def after_sweep_def)
  qed
  have "distinct (map row_id ?ss)" using assms by (simp add: list_timed_out_sessions_def distinct_map_filter)
  then have "yields (\<lambda>v' db' _. True \<and> ?T ([] @ ?ss) v' \<and> replaced_all ge_sessions ?Q ?ss db db') (for_each ?body ?ss []) db (w\<lparr>pw_clock := Suc (pw_clock w)\<rparr>)"
    using assms by (intro row_sweep body) (auto simp: list_timed_out_sessions_def)
  then have "yields (\<lambda>v' db' _. ?T ?ss v' \<and> replaced_all ge_sessions ?Q ?ss db db') (enforce_session_timeouts env hooks reporting reads') db w"
    by (simp add: enforce_session_timeouts_def)
  then show ?thesis
  proof (rule yields_mono)
    fix v db' w'
    assume *: "?T ?ss v \<and> replaced_all ge_sessions ?Q ?ss db db'"
    have listed: "filter ?stale ?ss = filter (swept reporting reads' ?now) (ge_sessions db)"
      by (auto simp: list_timed_out_sessions_def swept_def intro!: filter_cong)
    obtain f where db': "ge_sessions db' = map f (ge_sessions db)"
      and f: "\<forall>r \<in> set (ge_sessions db). row_id (f r) = row_id r \<and> (if r \<in> set ?ss then ?Q r (f r) else f r = r)"
      using * unfolding replaced_all_def by blast
    have row: "if swept reporting reads' ?now s then expired_as ?now (timeout_reason (?obs s)) s (f s) else f s = s" if "s \<in> set (ge_sessions db)" for s
    proof -
      have "if s \<in> set ?ss then ?Q s (f s) else f s = s" using f that by blast
      moreover have "s \<in> set ?ss \<and> ?stale s \<longleftrightarrow> swept reporting reads' ?now s" using that by (auto simp: list_timed_out_sessions_def swept_def)
      ultimately show ?thesis by (auto simp: after_sweep_def Let_def split: if_splits)
    qed
    have "map row_id v = map row_id (filter (swept reporting reads' ?now) (ge_sessions db))" using * listed by simp
    with db' row show "map row_id v = map row_id (filter (swept reporting reads' ?now) (ge_sessions db)) \<and>
      (\<exists>f. ge_sessions db' = map f (ge_sessions db) \<and>
        (\<forall>s \<in> set (ge_sessions db). if swept reporting reads' ?now s then expired_as ?now (timeout_reason (?obs s)) s (f s) else f s = s))"
      by blast
  qed
qed



text \<open>C26. The SQL filter of the sweep is the Python predicate one microsecond earlier, NULL columns included: \<open>LEAST\<close> skips
  a NULL as the predicate does, and the strict comparison is the only difference.\<close>

theorem timed_out_agrees: "timed_out_where now s \<longleftrightarrow> is_session_stale s (now - 1) True"
proof -
  have "(case least_ignoring_null (se_idle_timeout_minutes s) (se_session_timeout_minutes s) of None \<Rightarrow> DEFAULT_IDLE_TIMEOUT_MINUTES | Some n \<Rightarrow> n) =
      session_idle_cutoff_minutes s"
    by (simp add: least_ignoring_null_def session_idle_cutoff_minutes_def split: option.splits)
  then show ?thesis
    by (auto simp: timed_out_where_def is_session_stale_def is_session_timed_out_def has_session_overrun_time_limit_def split: option.splits)
qed

text \<open>A session without a time limit at a venue whose activity nobody observes is never swept.\<close>

theorem unobserved_never_swept:
  assumes "distinct (map row_id (ge_sessions db))" and "s \<in> set (ge_sessions db)"
    and "se_session_timeout_minutes s = None" and "\<not> session_observable reporting reads' s"
  shows "yields (\<lambda>_ db' _. s \<in> set (ge_sessions db')) (enforce_session_timeouts env hooks reporting reads') db w"
proof (rule yields_mono [OF sweep_exact [OF assms(1)]])
  fix v db' w'
  assume "map row_id v = map row_id (filter (swept reporting reads' (time_at env (pw_clock w))) (ge_sessions db)) \<and>
    (\<exists>f. ge_sessions db' = map f (ge_sessions db) \<and>
      (\<forall>s \<in> set (ge_sessions db). if swept reporting reads' (time_at env (pw_clock w)) s
         then expired_as (time_at env (pw_clock w)) (timeout_reason (session_observable reporting reads' s)) s (f s) else f s = s))"
  then obtain f where db': "ge_sessions db' = map f (ge_sessions db)"
    and f: "\<forall>s \<in> set (ge_sessions db). if swept reporting reads' (time_at env (pw_clock w)) s
       then expired_as (time_at env (pw_clock w)) (timeout_reason (session_observable reporting reads' s)) s (f s) else f s = s" by blast
  have "\<not> swept reporting reads' (time_at env (pw_clock w)) s"
    using assms(3,4) by (simp add: swept_def is_session_stale_def has_session_overrun_time_limit_def)
  with f assms(2) have "f s = s" by auto
  with assms(2) show "s \<in> set (ge_sessions db')" unfolding db' by force
qed


subsection \<open>The rollover of quotas\<close>

definition timezone_of :: "'a site_db_scheme \<Rightarrow> quota_usage \<Rightarrow> string option" where
  "timezone_of db u = map_option og_timezone (find (\<lambda>o'. row_id o' = qu_organization_id u) (site_orgs db))"

definition overdue :: "platform_env \<Rightarrow> datetime \<Rightarrow> 'a site_db_scheme \<Rightarrow> quota_usage \<Rightarrow> bool" where
  "overdue env now db u \<longleftrightarrow>
     (case timezone_of db u of None \<Rightarrow> False | Some tz \<Rightarrow> qu_period_start u < compute_period_start env (qu_period_type u) now tz)"

definition rolled_as :: "platform_env \<Rightarrow> datetime \<Rightarrow> string \<Rightarrow> quota_usage \<Rightarrow> quota_usage \<Rightarrow> bool" where
  "rolled_as env now tz u u' \<longleftrightarrow>
     (let start = compute_period_start env (qu_period_type u) now tz
      in if qu_period_start u < start then (\<exists>v t. u' = (rolled_over start u)\<lparr>version := v, updated_at := t\<rparr>) else u' = u)"

lemma filter_unique:
  assumes "distinct (map row_id t)"
  shows "filter (\<lambda>r. row_id r = i) t = (case find (\<lambda>r. row_id r = i) t of None \<Rightarrow> [] | Some r \<Rightarrow> [r])"
  using assms
proof (induction t)
  case (Cons r t)
  have "filter (\<lambda>r'. row_id r' = row_id r) t = []" unfolding filter_empty_conv using Cons.prems by (metis distinct.simps(2) imageI list.map(2) list.set_map)
  with Cons show ?case by (cases "row_id r = i") auto
qed simp

lemma quota_entries:
  assumes "distinct (map row_id (site_orgs db))"
  shows "list_all_quota_usages_with_org_timezone db = map (\<lambda>u. (u, the (timezone_of db u))) (filter (\<lambda>u. timezone_of db u \<noteq> None) (ge_quotas db))"
proof -
  have "map (\<lambda>o'. (u, og_timezone o')) (filter (\<lambda>o'. row_id o' = qu_organization_id u) (site_orgs db)) =
      (case timezone_of db u of None \<Rightarrow> [] | Some tz \<Rightarrow> [(u, tz)])" for u
    unfolding filter_unique [OF assms] timezone_of_def by (simp split: option.splits)
  then have "concat (map (\<lambda>u. map (\<lambda>o'. (u, og_timezone o')) (filter (\<lambda>o'. row_id o' = qu_organization_id u) (site_orgs db))) us) =
      map (\<lambda>u. (u, the (timezone_of db u))) (filter (\<lambda>u. timezone_of db u \<noteq> None) us)" for us
    by (induction us) (auto split: option.splits)
  then show ?thesis unfolding list_all_quota_usages_with_org_timezone_def .
qed

lemma for_each_map: "for_each body (map g is) = for_each (\<lambda>i. body (g i)) is"
proof (induction "is")
  case (Cons i "is")
  then show ?case by (intro ext) simp
qed (intro ext, simp)

lemma quota_keys_map:
  "(\<And>u. u \<in> set t \<Longrightarrow> qu_guest_id (f u) = qu_guest_id u \<and> qu_period_type (f u) = qu_period_type u) \<Longrightarrow> quota_keys (map f t) = quota_keys t"
  unfolding quota_keys_def by (simp add: comp_def cong: map_cong)

lemma rolled_assign: "assign t (rolled_over start) n u = (rolled_over start u)\<lparr>version := n + 1, updated_at := t\<rparr>"
  by (simp add: assign_def rolled_over_def)

lemma roll_over_row:
  assumes ids: "distinct (map row_id (ge_quotas db))" and keys: "quota_keys (ge_quotas db)" and u: "u \<in> set (ge_quotas db)"
    and due: "qu_period_start u < compute_period_start env (qu_period_type u) now tz"
  shows "yields (\<lambda>_ db' _. quota_keys (ge_quotas db') \<and> replaced ge_quotas (rolled_as env now tz) u db db')
    (save_quota env u (rolled_over (compute_period_start env (qu_period_type u) now tz))) db w"
proof -
  let ?start = "compute_period_start env (qu_period_type u) now tz"
  let ?u = "\<lambda>t. assign t (rolled_over ?start) (version u) u"
  have t: "update_row t (rolled_over ?start) u (ge_quotas db) = map (\<lambda>r. if row_id r = row_id u then ?u t else r) (ge_quotas db)" for t
    by (rule update_row_replaces [OF ids u])
  have only: "r = u" if "r \<in> set (ge_quotas db)" "row_id r = row_id u" for r using distinct_map_inj [OF ids that(1) u that(2)] .
  have "quota_keys (map (\<lambda>r. if row_id r = row_id u then ?u t else r) (ge_quotas db)) = quota_keys (ge_quotas db)" for t
    by (rule quota_keys_map) (auto simp: assign_def rolled_over_def dest: only)
  moreover have "replaced ge_quotas (rolled_as env now tz) u db (ge_quotas_update (\<lambda>_. map (\<lambda>r. if row_id r = row_id u then ?u t else r) (ge_quotas db)) db)" for t
  proof -
    have "rolled_as env now tz u (?u t)" unfolding rolled_as_def rolled_assign Let_def using due by auto
    moreover have "row_id (?u t) = row_id u" by (simp add: assign_def rolled_over_def)
    ultimately show ?thesis unfolding replaced_def by (intro exI [of _ "?u t"]) simp
  qed
  ultimately show ?thesis using keys by (simp add: save_quota_def Let_def t)
qed

text \<open>C24. The rollover returns the number of rows whose period has passed in their organization's time zone; those start the
  current period with nothing used, every other row is left as it is, and no row is overdue afterwards.\<close>

theorem quota_reset_exact:
  assumes "distinct (map row_id (ge_quotas db))" and "quota_keys (ge_quotas db)" and "distinct (map row_id (site_orgs db))"
  shows "yields (\<lambda>n db' _. n = int (length (filter (overdue env now db) (ge_quotas db))) \<and>
      (\<exists>f. ge_quotas db' = map f (ge_quotas db) \<and>
        (\<forall>u \<in> set (ge_quotas db). case timezone_of db u of None \<Rightarrow> f u = u | Some tz \<Rightarrow> rolled_as env now tz u (f u))) \<and>
      (\<forall>u \<in> set (ge_quotas db'). \<not> overdue env now db u))
    (run_quota_reset env now) db w"
proof -
  let ?us = "filter (\<lambda>u. timezone_of db u \<noteq> None) (ge_quotas db)"
  let ?tz = "\<lambda>u. the (timezone_of db u)"
  let ?Q = "\<lambda>u. rolled_as env now (?tz u) u"
  let ?start = "\<lambda>u. compute_period_start env (qu_period_type u) now (?tz u)"
  let ?T = "\<lambda>us n. n = int (length (filter (\<lambda>u. qu_period_start u < ?start u) us))"
  let ?body = "\<lambda>u n. if qu_period_start u < ?start u then andthen (save_quota env u (rolled_over (?start u))) (\<lambda>_. ret (n + 1)) else ret n"
  have body: "yields (\<lambda>n' db' _. quota_keys (ge_quotas db') \<and> ?T (pre @ [u]) n' \<and> replaced ge_quotas ?Q u db1 db') (?body u n) db1 w1"
    if u: "distinct (map row_id (ge_quotas db1))" "quota_keys (ge_quotas db1)" "u \<in> set (ge_quotas db1)" and n: "?T pre n" for pre u n db1 w1
  proof (cases "qu_period_start u < ?start u")
    case True
    have "replaced ge_quotas ?Q u db1 db2" if "replaced ge_quotas (rolled_as env now (?tz u)) u db1 db2" for db2
      using that by (simp add: replaced_def)
    with True n show ?thesis by (auto intro!: yields_mono [OF roll_over_row [OF u True]])
  next
    case False
    then have "?Q u u" by (simp add: rolled_as_def)
    with False n u show ?thesis using replaced_by_itself [where get = ge_quotas and Q = ?Q, OF u(1,3)] by simp
  qed
  have "distinct (map row_id ?us)" using assms(1) by (simp add: distinct_map_filter)
  then have "yields (\<lambda>n db' _. quota_keys (ge_quotas db') \<and> ?T ([] @ ?us) n \<and> replaced_all ge_quotas ?Q ?us db db') (for_each ?body ?us 0) db w"
    using assms by (intro row_sweep body) auto
  then have "yields (\<lambda>n db' _. ?T ?us n \<and> replaced_all ge_quotas ?Q ?us db db') (run_quota_reset env now) db w"
    unfolding run_quota_reset_def Let_def yields_andthen yields_reads_db quota_entries [OF assms(3)] for_each_map prod.case
    by (rule yields_mono) simp
  then show ?thesis
  proof (rule yields_mono)
    fix n db' w'
    assume *: "?T ?us n \<and> replaced_all ge_quotas ?Q ?us db db'"
    have "filter (\<lambda>u. qu_period_start u < ?start u) ?us = filter (overdue env now db) (ge_quotas db)"
      by (auto simp: overdue_def intro!: filter_cong split: option.splits)
    with * have n: "n = int (length (filter (overdue env now db) (ge_quotas db)))" by simp
    obtain f where db': "ge_quotas db' = map f (ge_quotas db)"
      and f: "\<forall>u \<in> set (ge_quotas db). row_id (f u) = row_id u \<and> (if u \<in> set ?us then ?Q u (f u) else f u = u)"
      using * unfolding replaced_all_def by blast
    have row: "case timezone_of db u of None \<Rightarrow> f u = u | Some tz \<Rightarrow> rolled_as env now tz u (f u)" if "u \<in> set (ge_quotas db)" for u
      using f [rule_format, OF that] that by (auto split: option.splits)
    have "\<not> overdue env now db (f u)" if "u \<in> set (ge_quotas db)" for u
    proof (cases "timezone_of db u")
      case None
      then show ?thesis using row [OF that] by (simp add: overdue_def)
    next
      case (Some tz)
      then have "rolled_as env now tz u (f u)" using row [OF that] by simp
      moreover have "timezone_of db (f u) = Some tz" using Some calculation by (auto simp: rolled_as_def Let_def timezone_of_def rolled_over_def split: if_splits)
      ultimately show ?thesis by (auto simp: overdue_def rolled_as_def Let_def rolled_over_def split: if_splits)
    qed
    with n db' row show "n = int (length (filter (overdue env now db) (ge_quotas db))) \<and>
      (\<exists>f. ge_quotas db' = map f (ge_quotas db) \<and>
        (\<forall>u \<in> set (ge_quotas db). case timezone_of db u of None \<Rightarrow> f u = u | Some tz \<Rightarrow> rolled_as env now tz u (f u))) \<and>
      (\<forall>u \<in> set (ge_quotas db'). \<not> overdue env now db u)" by auto
  qed
qed



subsection \<open>The batched read of the quota rows\<close>

definition usage_rows :: "uuid \<Rightarrow> QuotaPeriodType \<Rightarrow> quota_usage list \<Rightarrow> quota_usage list" where
  "usage_rows guest p t = filter (\<lambda>u. (qu_guest_id u, qu_period_type u) = (guest, p) \<and> \<not> is_deleted u) t"

definition found_usage :: "quota_usage list \<Rightarrow> quota_usage option" where
  "found_usage us = (case us of [] \<Rightarrow> None | u # _ \<Rightarrow> Some u)"

lemma at_most_one:
  assumes "distinct (map k xs)"
  shows "filter (\<lambda>x. k x = i \<and> P x) xs = [] \<or> (\<exists>x. filter (\<lambda>x. k x = i \<and> P x) xs = [x])"
  using assms
proof (induction xs)
  case (Cons x xs)
  have "filter (\<lambda>y. k y = k x \<and> P y) xs = []" unfolding filter_empty_conv using Cons.prems by (metis distinct.simps(2) imageI list.map(2) list.set_map)
  with Cons show ?case by auto
qed simp

lemma usage_rows_cases: "quota_keys t \<Longrightarrow> usage_rows guest p t = [] \<or> (\<exists>u. usage_rows guest p t = [u])"
  unfolding usage_rows_def quota_keys_def by (rule at_most_one)

lemma single_read:
  assumes "quota_keys (ge_quotas db)"
  shows "get_quota_usage guest p db = found_usage (usage_rows guest p (ge_quotas db))"
proof -
  have "filter (\<lambda>u. qu_guest_id u = guest \<and> qu_period_type u = p) (base_select False (ge_quotas db)) = usage_rows guest p (ge_quotas db)"
    by (auto simp: base_select_def usage_rows_def intro!: filter_cong)
  then show ?thesis using usage_rows_cases [OF assms, of guest p]
    by (auto simp: get_quota_usage_def get_all_def apply_sorting_def found_usage_def)
qed

lemma map_of_key: "map_of (map (\<lambda>u. (k u, u)) us) p = (case filter (\<lambda>u. k u = p) us of [] \<Rightarrow> None | u # _ \<Rightarrow> Some u)"
  by (induction us) auto

lemma batched_read:
  assumes "quota_keys (ge_quotas db)" and "p \<in> set periods"
  shows "existing_usage p (get_quota_usages guest periods db) = found_usage (usage_rows guest p (ge_quotas db))"
proof -
  have rows: "filter (\<lambda>u. qu_period_type u = p) (get_quota_usages guest periods db) = usage_rows guest p (ge_quotas db)"
    using assms(2) by (auto simp: get_quota_usages_def usage_rows_def intro!: filter_cong)
  have "filter (\<lambda>u. qu_period_type u = p) (rev (get_quota_usages guest periods db)) = rev (usage_rows guest p (ge_quotas db))"
    by (simp only: rev_filter [symmetric] rows)
  then show ?thesis using usage_rows_cases [OF assms(1), of guest p]
    by (auto simp: existing_usage_def map_of_key found_usage_def)
qed

lemma usage_rows_update:
  assumes "\<And>r. r \<in> set t \<Longrightarrow> row_id r = row_id u \<Longrightarrow> qu_period_type r \<noteq> p" and "\<And>r. qu_period_type (data r) = qu_period_type r"
  shows "usage_rows guest p (update_row now data u t) = usage_rows guest p t"
  using assms(1)
proof (induction t)
  case (Cons r t)
  then show ?case using assms(2) by (auto simp: usage_rows_def update_row_def assign_def)
qed (simp add: usage_rows_def update_row_def)

lemma usage_row_found: "found_usage (usage_rows guest p t) = Some u \<Longrightarrow> u \<in> set t \<and> qu_period_type u = p"
  by (auto simp: found_usage_def usage_rows_def split: list.splits dest: filter_eq_ConsD)

lemma reset_leaves_others:
  assumes "distinct (map row_id (ge_quotas db))" and "quota_keys (ge_quotas db)"
  shows "ensures (\<lambda>_ db' _. distinct (map row_id (ge_quotas db')) \<and> quota_keys (ge_quotas db') \<and>
      (\<forall>p'. p' \<noteq> p \<longrightarrow> usage_rows guest p' (ge_quotas db') = usage_rows guest p' (ge_quotas db)))
    (reset_or_create env guest org p start (found_usage (usage_rows guest p (ge_quotas db)))) db w"
proof (cases "found_usage (usage_rows guest p (ge_quotas db))")
  case None
  then show ?thesis
    by (auto simp: reset_or_create_def create_quota_usage_def ensures_insert_in Let_def usage_rows_def quota_usage.defs base_model.defs new_base_def)
next
  case (Some u)
  note u = usage_row_found [OF Some]
  have ids: "map row_id (update_row now data u t) = map row_id t" for now data t by (simp add: update_row_def assign_def)
  have "usage_rows guest p' (update_row now (rolled_over start) u (ge_quotas db)) = usage_rows guest p' (ge_quotas db)" if "p' \<noteq> p" for p' now
  proof (rule usage_rows_update)
    show "qu_period_type r \<noteq> p'" if "r \<in> set (ge_quotas db)" "row_id r = row_id u" for r
      using distinct_map_inj [OF assms(1) that(1) conjunct1 [OF u] that(2)] u \<open>p' \<noteq> p\<close> by simp
  qed (simp add: rolled_over_def)
  with Some assms show ?thesis by (simp add: reset_or_create_def save_quota_def Let_def ids)
qed

text \<open>C25. Reading all periods of a guest in one query gives what reading them one after the other gives: the same rows and
  the same database, or the same error.\<close>

theorem quota_batch_agrees:
  assumes "distinct (map row_id (ge_quotas db))" and "quota_keys (ge_quotas db)" and "distinct periods"
  shows "get_or_reset_quota_usages env guest org periods tz now (db, w) =
    for_each (\<lambda>p resolved. andthen (get_or_reset_quota_usage env guest org tz now p) (\<lambda>u. ret (resolved @ [(p, u)]))) periods [] (db, w)"
proof -
  let ?rows = "get_quota_usages guest periods db"
  let ?start = "\<lambda>p. compute_period_start env p now tz"
  let ?batch = "\<lambda>p resolved. andthen (reset_or_create env guest org p (?start p) (existing_usage p ?rows)) (\<lambda>u. ret (resolved @ [(p, u)]))"
  let ?single = "\<lambda>p resolved. andthen (get_or_reset_quota_usage env guest org tz now p) (\<lambda>u. ret (resolved @ [(p, u)]))"
  have "for_each ?batch ps v (db1, w1) = for_each ?single ps v (db1, w1)"
    if "distinct ps" "distinct (map row_id (ge_quotas db1))" "quota_keys (ge_quotas db1)"
      "\<forall>p \<in> set ps. existing_usage p ?rows = found_usage (usage_rows guest p (ge_quotas db1))" for ps v db1 w1
    using that
  proof (induction ps arbitrary: v db1 w1)
    case (Cons p ps)
    let ?m = "reset_or_create env guest org p (?start p) (found_usage (usage_rows guest p (ge_quotas db1)))"
    have single: "get_or_reset_quota_usage env guest org tz now p (db1, w1) = ?m (db1, w1)"
      using single_read [OF Cons.prems(3)] by (simp add: get_or_reset_quota_usage_def andthen_def reads_db_def reads_def)
    obtain r db2 w2 where run: "?m (db1, w1) = (r, (db2, w2))" by (metis prod.exhaust)
    show ?case
    proof (cases r)
      case (Inl e)
      with run single Cons.prems(4) show ?thesis by (simp add: andthen_def)
    next
      case (Inr u)
      from ensuresD [OF reset_leaves_others [OF Cons.prems(2,3)] run [unfolded Inr]]
      have after: "distinct (map row_id (ge_quotas db2))" "quota_keys (ge_quotas db2)"
        "\<forall>p'. p' \<noteq> p \<longrightarrow> usage_rows guest p' (ge_quotas db2) = usage_rows guest p' (ge_quotas db1)" by blast+
      have "for_each ?batch ps (v @ [(p, u)]) (db2, w2) = for_each ?single ps (v @ [(p, u)]) (db2, w2)"
        using Cons.prems after by (intro Cons.IH) auto
      with run single Cons.prems(4) Inr show ?thesis by (simp add: andthen_def ret_def)
    qed
  qed simp
  from this [OF assms(3,1,2)] batched_read [OF assms(2)] show ?thesis
    by (simp add: get_or_reset_quota_usages_def andthen_def reads_db_def reads_def)
qed


subsection \<open>The cooldown after a termination\<close>

text \<open>C37. A guest whose session was terminated less than the cooldown ago cannot reconnect: the request fails and names the
  minutes left, between one and the length of the cooldown plus one.\<close>

theorem terminated_cannot_reconnect:
  assumes "get_by_id False (rc_guest_id c) (site_guests db) = Some g" and "mine requesting (gu_organization_id g)"
    and "enforce_entity_location (gu_location_id g) (gh_caller_scope hooks) CrossLocationGuestAccessError = Inr v" and "\<not> gu_is_blocked g"
    and "get_latest_terminated_session_for_guest (row_id g) db = Some s" and "se_ended_at s = Some t"
    and "t \<le> time_at env (pw_clock w)" and "time_at env (pw_clock w) < t + minutes TERMINATION_RECONNECT_COOLDOWN_MINUTES"
  shows "raises (\<lambda>e db' _. db' = db \<and> (\<exists>n. e = SessionTerminationCooldownError n \<and> 1 \<le> n \<and> n \<le> TERMINATION_RECONNECT_COOLDOWN_MINUTES + 1))
    (reconnect env hooks requesting c) db w"
proof -
  let ?now = "time_at env (pw_clock w)" and ?cd = TERMINATION_RECONNECT_COOLDOWN_MINUTES
  have "(t + minutes ?cd - ?now) div minutes 1 \<le> minutes ?cd div minutes 1"
    using assms(7) by (intro zdiv_mono1) (simp_all add: minutes_def seconds_def)
  moreover have "0 \<le> (t + minutes ?cd - ?now) div minutes 1"
    using assms(8) by (intro pos_imp_zdiv_nonneg_iff [THEN iffD2]) (simp_all add: minutes_def seconds_def)
  moreover have "minutes ?cd div minutes 1 = ?cd" by (simp add: minutes_def seconds_def TERMINATION_RECONNECT_COOLDOWN_MINUTES_def)
  ultimately have "\<exists>n. cooldown_remaining ?now (Some s) = Some n \<and> 1 \<le> n \<and> n \<le> ?cd + 1"
    using assms(6,8) by (simp add: cooldown_remaining_def Let_def)
  then show ?thesis using assms(1-5)
    by (auto simp: reconnect_def require_guest_def enforce_tenant_scope_def mine_def reject_if_blocked_def raises_andthen)
qed

end
