(* ===== verification/GuestGaps.thy ===== *)
theory GuestGaps
  imports GuestSweep PolicyResolution
begin

section \<open>Guest sessions: samples and gaps\<close>

text \<open>
  A small deployment on which the theorems of the session engine are instantiated, and the places where the
  engine does something else than its documentation says: a reconnect past a pause or past a data cap or
  beside another active session, an extension that ends a session, a cap of zero that is no cap, and
  the first accrual of online time.
\<close>

subsection \<open>A small deployment\<close>

definition sample_now :: datetime where
  "sample_now = time_at sample_platform_env 0"

definition sample_session :: "uuid \<Rightarrow> uuid \<Rightarrow> uuid \<Rightarrow> GuestSessionStatus \<Rightarrow> datetime \<Rightarrow> datetime option \<Rightarrow> guest_session" where
  "sample_session i guest org status started ended_at =
     base_model.extend (new_base i started None)
       (guest_session.fields guest None ''r1'' ''lobby'' org ''otp'' None status started ended_at started None None None 0 0
          (Some 100) (Some 240) (Some 30) None None)"

definition sample_quota :: "uuid \<Rightarrow> uuid \<Rightarrow> QuotaPeriodType \<Rightarrow> quota_usage" where
  "sample_quota i guest period = base_model.extend (new_base i 0 None) (quota_usage.fields guest ''acme'' period 0 5 7 None)"

definition sample_hooks :: guest_hooks where
  "sample_hooks =
     \<lparr>gh_end_on_router = Some (\<lambda>_ _ _. Some (Some 1)), gh_router = (\<lambda>_ i. Some \<lparr>rt_id = i, rt_status = ''online'', rt_nas_only = False\<rparr>),
      gh_venue_gate = (\<lambda>_ _ _ _. None), gh_team_over_quota = (\<lambda>_. False), gh_cut_dispatcher = False, gh_caller_scope = None\<rparr>"

definition fup_policy :: "json_object \<Rightarrow> policy_row \<times> policy_version \<times> policy_assignment" where
  "fup_policy rules =
     (base_model.extend (new_base ''fup'' 0 None) (policy_row.fields (Some ''acme'') PT_FUP ''fup'' None True (Some ''fup-v1'') None),
      base_model.extend (new_base ''fup-v1'' 0 None) (policy_version.fields ''fup'' 1 PV_PUBLISHED rules (Some 0) None),
      sample_assignment ''fup-a'' ''fup'' ORGANIZATION (Some ''acme'') TARGET_NONE None)"

text \<open>\<open>ann\<close> and \<open>bob\<close> are guests of \<open>acme\<close>, \<open>eve\<close> of \<open>rival\<close>; the FUP policy of \<open>acme\<close> has the given rules.\<close>

definition sample_guests :: "json_object \<Rightarrow> guest_session list \<Rightarrow> guest_db" where
  "sample_guests rules sessions =
     (let fup = fup_policy rules
      in guest_db.make [sample_org ''acme'' None, sample_org ''rival'' None] [sample_location ''lobby'' ''acme'', sample_location ''annex'' ''rival''] [] []
           [sample_guest ''ann'' ''acme'', sample_guest ''bob'' ''acme'', sample_guest ''eve'' ''rival'']
           [fst fup] [fst (snd fup)] [snd (snd fup)] [] []
           [] sessions [sample_quota ''q1'' ''bob'' QUOTA_DAILY, sample_quota ''q2'' ''bob'' QUOTA_MONTHLY])"

definition sample_floor :: guest_db where
  "sample_floor = sample_guests []
     [sample_session ''s1'' ''ann'' ''acme'' SESSION_ACTIVE (sample_now - minutes 300) None,
      sample_session ''s2'' ''bob'' ''acme'' SESSION_ACTIVE (sample_now - minutes 5) None,
      sample_session ''s3'' ''eve'' ''rival'' SESSION_PAUSED (sample_now - minutes 5) None]"

lemma sample_floor_ok: "guest_ok sample_floor"
proof -
  have "distinct (map row_id (ge_sessions sample_floor))" "distinct (map row_id (site_guests sample_floor))" by code_simp+
  moreover have "\<forall>s \<in> set (ge_sessions sample_floor). session_fine s"
    by (auto simp: sample_floor_def sample_guests_def sample_session_def session_fine_def ended_def Let_def
        guest_db.defs guest_session.defs base_model.defs)
  ultimately show ?thesis by (simp add: guest_ok_def)
qed



theorem session_isolation_witness:
  "sessions_of ''rival'' (fst (run_requests (run_session_call sample_platform_env sample_hooks (Some ''acme''))
     [DisconnectSession None ''s3'' None False, BlockGuest None ''eve'' None, TerminateSession None ''s1'' None] (sample_floor, sample_pworld))) =
   sessions_of ''rival'' sample_floor"
proof -
  have "''rival'' \<noteq> ''acme''" by simp
  from session_isolation [OF sample_floor_ok this] show ?thesis by blast
qed

lemma sample_floor_ids: "distinct (map row_id (ge_sessions sample_floor))"
  using sample_floor_ok by (simp add: guest_ok_def)

theorem sweep_exact_witness:
  "yields (\<lambda>expired _ _. map row_id expired = [''s1'']) (enforce_session_timeouts sample_platform_env sample_hooks None None) sample_floor sample_pworld"
proof -
  have "map row_id (filter (swept None None (time_at sample_platform_env (pw_clock sample_pworld))) (ge_sessions sample_floor)) = [''s1'']" by code_simp
  with sweep_exact [OF sample_floor_ids, where env = sample_platform_env and w = sample_pworld and reporting = None and reads' = None and hooks = sample_hooks]
  show ?thesis by (auto elim: yields_mono)
qed

theorem unobserved_never_swept_witness:
  "yields (\<lambda>_ db' _. (sample_session ''s1'' ''ann'' ''acme'' SESSION_ACTIVE 0 None)\<lparr>se_session_timeout_minutes := None\<rparr> \<in> set (ge_sessions db'))
    (enforce_session_timeouts sample_platform_env sample_hooks (Some (\<lambda>_ _. Some False)) None)
    (sample_guests [] [(sample_session ''s1'' ''ann'' ''acme'' SESSION_ACTIVE 0 None)\<lparr>se_session_timeout_minutes := None\<rparr>]) sample_pworld"
proof (rule unobserved_never_swept)
  let ?s = "(sample_session ''s1'' ''ann'' ''acme'' SESSION_ACTIVE 0 None)\<lparr>se_session_timeout_minutes := None\<rparr>"
  show "distinct (map row_id (ge_sessions (sample_guests [] [?s])))" "\<not> session_observable (Some (\<lambda>_ _. Some False)) None ?s" by code_simp+
  show "?s \<in> set (ge_sessions (sample_guests [] [?s]))" by (simp add: sample_guests_def Let_def guest_db.defs)
qed simp

theorem quota_reset_exact_witness:
  "yields (\<lambda>n _ _. n = 2) (run_quota_reset sample_platform_env sample_now) sample_floor sample_pworld"
proof -
  have "distinct (map row_id (ge_quotas sample_floor))" "quota_keys (ge_quotas sample_floor)" "distinct (map row_id (site_orgs sample_floor))" by code_simp+
  note reset = quota_reset_exact [OF this, where env = sample_platform_env and now = sample_now and w = sample_pworld]
  have "int (length (filter (overdue sample_platform_env sample_now sample_floor) (ge_quotas sample_floor))) = 2" by code_simp
  with reset show ?thesis by (auto elim: yields_mono)
qed

theorem quota_batch_agrees_witness:
  "get_or_reset_quota_usages sample_platform_env ''bob'' ''acme'' quota_periods ''UTC'' sample_now (sample_floor, sample_pworld) =
   for_each (\<lambda>p resolved. andthen (get_or_reset_quota_usage sample_platform_env ''bob'' ''acme'' ''UTC'' sample_now p) (\<lambda>u. ret (resolved @ [(p, u)])))
     quota_periods [] (sample_floor, sample_pworld)"
proof -
  have "distinct (map row_id (ge_quotas sample_floor))" "quota_keys (ge_quotas sample_floor)" "distinct quota_periods" by code_simp+
  then show ?thesis by (rule quota_batch_agrees)
qed

definition to_lobby :: "uuid \<Rightarrow> reconnect_request" where
  "to_lobby guest = \<lparr>rc_guest_id = guest, rc_router_id = ''r1'', rc_location_id = ''lobby'', rc_device_mac = None, rc_ip_address = None\<rparr>"

definition thrown_out :: guest_db where
  "thrown_out = sample_guests [] [sample_session ''s1'' ''ann'' ''acme'' SESSION_TERMINATED (sample_now - minutes 90) (Some (sample_now - minutes 20))]"

theorem terminated_cannot_reconnect_witness:
  "raises (\<lambda>e db' _. db' = thrown_out \<and> (\<exists>n. e = SessionTerminationCooldownError n \<and> 1 \<le> n \<and> n \<le> TERMINATION_RECONNECT_COOLDOWN_MINUTES + 1))
    (reconnect sample_platform_env sample_hooks (Some ''acme'') (to_lobby ''ann'')) thrown_out sample_pworld"
proof (rule terminated_cannot_reconnect)
  show "get_by_id False (rc_guest_id (to_lobby ''ann'')) (site_guests thrown_out) = Some (sample_guest ''ann'' ''acme'')" by code_simp
  show "mine (Some ''acme'') (gu_organization_id (sample_guest ''ann'' ''acme''))" by code_simp
  show "enforce_entity_location (gu_location_id (sample_guest ''ann'' ''acme'')) (gh_caller_scope sample_hooks) CrossLocationGuestAccessError = Inr ()" by code_simp
  show "\<not> gu_is_blocked (sample_guest ''ann'' ''acme'')" by code_simp
  show "get_latest_terminated_session_for_guest (row_id (sample_guest ''ann'' ''acme'')) thrown_out =
    Some (sample_session ''s1'' ''ann'' ''acme'' SESSION_TERMINATED (sample_now - minutes 90) (Some (sample_now - minutes 20)))" by code_simp
  show "se_ended_at (sample_session ''s1'' ''ann'' ''acme'' SESSION_TERMINATED (sample_now - minutes 90) (Some (sample_now - minutes 20))) =
    Some (sample_now - minutes 20)" by (simp add: sample_session_def guest_session.defs base_model.defs)
  show "sample_now - minutes 20 \<le> time_at sample_platform_env (pw_clock sample_pworld)" by code_simp
  show "time_at sample_platform_env (pw_clock sample_pworld) < sample_now - minutes 20 + minutes TERMINATION_RECONNECT_COOLDOWN_MINUTES" by code_simp
qed



subsection \<open>Reconnect\<close>

text \<open>What a reconnect that is let through does: a new active session with the limits of the latest one and nothing
  used; the sessions before stay as they are.\<close>

theorem reconnect_derives:
  assumes "get_by_id False (rc_guest_id c) (site_guests db) = Some g" and "mine requesting (gu_organization_id g)"
    and "enforce_entity_location (gu_location_id g) (gh_caller_scope hooks) CrossLocationGuestAccessError = Inr u" and "\<not> gu_is_blocked g"
    and "cooldown_remaining (time_at env (pw_clock w)) (get_latest_terminated_session_for_guest (row_id g) db) = None"
    and "get_latest_session_for_guest (row_id g) db = Some prior" and "se_status prior \<noteq> SESSION_ACTIVE" and "within_grace (time_at env (pw_clock w)) prior"
    and "\<And>world. gh_venue_gate hooks world g (rc_location_id c) None = None" and "rc_device_mac c = None" and "se_device_id prior = None"
    and "gh_router hooks False (rc_router_id c) = Some r" and "rt_status r \<notin> {''decommissioned'', ''suspended''}"
    and "distinct (map row_id (ge_sessions db))" and "uuid_at env (pw_supply w) \<notin> row_id ` set (ge_sessions db)"
  shows "yields (\<lambda>s db' _. ge_sessions db' = ge_sessions db @ [s] \<and> se_guest_id s = row_id g \<and> se_organization_id s = gu_organization_id g \<and>
      se_status s = SESSION_ACTIVE \<and> se_bytes_uploaded s = 0 \<and> se_bytes_downloaded s = 0 \<and>
      se_data_limit_mb s = se_data_limit_mb prior \<and> se_session_timeout_minutes s = se_session_timeout_minutes prior \<and>
      se_idle_timeout_minutes s = se_idle_timeout_minutes prior \<and> se_voucher_id s = se_voucher_id prior)
    (reconnect env hooks requesting c) db w"
  using assms
  by (auto simp: reconnect_def require_guest_def enforce_tenant_scope_def mine_def reject_if_blocked_def get_eligible_router_def
      device_for_reconnect_def create_session_def bump_guest_visit_def save_guest_def yields_insert_in grant_of_def Let_def
      guest_session.defs base_model.defs new_base_def)

definition hung_up :: guest_db where
  "hung_up = sample_guests [] [sample_session ''s1'' ''ann'' ''acme'' SESSION_DISCONNECTED (sample_now - minutes 90) (Some (sample_now - minutes 20))]"

theorem reconnect_derives_witness:
  "yields (\<lambda>s db' _. ge_sessions db' = ge_sessions hung_up @ [s] \<and> se_status s = SESSION_ACTIVE \<and> se_data_limit_mb s = Some 100)
    (reconnect sample_platform_env sample_hooks (Some ''acme'') (to_lobby ''ann'')) hung_up sample_pworld"
proof -
  let ?prior = "sample_session ''s1'' ''ann'' ''acme'' SESSION_DISCONNECTED (sample_now - minutes 90) (Some (sample_now - minutes 20))"
  let ?g = "sample_guest ''ann'' ''acme''"
  have "get_by_id False (rc_guest_id (to_lobby ''ann'')) (site_guests hung_up) = Some ?g" "mine (Some ''acme'') (gu_organization_id ?g)"
    "enforce_entity_location (gu_location_id ?g) (gh_caller_scope sample_hooks) CrossLocationGuestAccessError = Inr ()" "\<not> gu_is_blocked ?g"
    "cooldown_remaining (time_at sample_platform_env (pw_clock sample_pworld)) (get_latest_terminated_session_for_guest (row_id ?g) hung_up) = None"
    "get_latest_session_for_guest (row_id ?g) hung_up = Some ?prior" "se_status ?prior \<noteq> SESSION_ACTIVE"
    "within_grace (time_at sample_platform_env (pw_clock sample_pworld)) ?prior" by code_simp+
  moreover have "gh_venue_gate sample_hooks world ?g (rc_location_id (to_lobby ''ann'')) None = None" for world by (simp add: sample_hooks_def)
  moreover have "rc_device_mac (to_lobby ''ann'') = None" "se_device_id ?prior = None"
    "gh_router sample_hooks False (rc_router_id (to_lobby ''ann'')) = Some \<lparr>rt_id = ''r1'', rt_status = ''online'', rt_nas_only = False\<rparr>"
    "rt_status \<lparr>rt_id = ''r1'', rt_status = ''online'', rt_nas_only = False\<rparr> \<notin> {''decommissioned'', ''suspended''}"
    "distinct (map row_id (ge_sessions hung_up))" "uuid_at sample_platform_env (pw_supply sample_pworld) \<notin> row_id ` set (ge_sessions hung_up)" by code_simp+
  ultimately have "yields (\<lambda>s db' _. ge_sessions db' = ge_sessions hung_up @ [s] \<and> se_guest_id s = row_id ?g \<and> se_organization_id s = gu_organization_id ?g \<and>
      se_status s = SESSION_ACTIVE \<and> se_bytes_uploaded s = 0 \<and> se_bytes_downloaded s = 0 \<and>
      se_data_limit_mb s = se_data_limit_mb ?prior \<and> se_session_timeout_minutes s = se_session_timeout_minutes ?prior \<and>
      se_idle_timeout_minutes s = se_idle_timeout_minutes ?prior \<and> se_voucher_id s = se_voucher_id ?prior)
    (reconnect sample_platform_env sample_hooks (Some ''acme'') (to_lobby ''ann'')) hung_up sample_pworld" by (rule reconnect_derives)
  moreover have "se_data_limit_mb ?prior = Some 100" by code_simp
  ultimately show ?thesis by (auto elim: yields_mono)
qed

definition after_reconnect :: "guest_session list \<Rightarrow> (platform_exc + guest_session) \<times> (uuid \<times> GuestSessionStatus \<times> int option \<times> int) list" where
  "after_reconnect before =
     (let run = reconnect sample_platform_env sample_hooks None (to_lobby ''ann'') (sample_guests [] before, sample_pworld)
      in (fst run, map (\<lambda>s. (row_id s, se_status s, se_data_limit_mb s, total_bytes s)) (ge_sessions (fst (snd run)))))"

text \<open>The documentation derives a session from a terminal one. A paused session is not terminal: the guest an
  administrator paused five minutes ago is online again in a second session.\<close>

theorem paused_guest_reconnects:
  "snd (after_reconnect [sample_session ''s1'' ''ann'' ''acme'' SESSION_PAUSED (sample_now - minutes 5) None]) =
   [(''s1'', SESSION_PAUSED, Some 100, 0), (''id-'', SESSION_ACTIVE, Some 100, 0)]"
  by code_simp

text \<open>It also promises never to open a second concurrent session, but looks at the latest session only: with an older
  one active, the guest holds two.\<close>

theorem reconnect_opens_second_session:
  "snd (after_reconnect [sample_session ''s1'' ''ann'' ''acme'' SESSION_ACTIVE (sample_now - minutes 60) None,
     sample_session ''s2'' ''ann'' ''acme'' SESSION_DISCONNECTED (sample_now - minutes 30) (Some (sample_now - minutes 5))]) =
   [(''s1'', SESSION_ACTIVE, Some 100, 0), (''s2'', SESSION_DISCONNECTED, Some 100, 0), (''id-'', SESSION_ACTIVE, Some 100, 0)]"
  by code_simp

text \<open>After a session that the data cap has ended, a reconnect grants the whole cap anew.\<close>

theorem reconnect_renews_data_cap:
  "snd (after_reconnect [(sample_session ''s1'' ''ann'' ''acme'' SESSION_EXPIRED (sample_now - minutes 30) (Some (sample_now - minutes 1)))
       \<lparr>se_bytes_downloaded := 100 * BYTES_PER_MB, se_disconnect_reason := Some ''data_limit_exceeded''\<rparr>]) =
   [(''s1'', SESSION_EXPIRED, Some 100, 104857600), (''id-'', SESSION_ACTIVE, Some 100, 0)]"
  by code_simp


subsection \<open>Extension, caps of zero, and the first accrual\<close>

text \<open>An extension of a session without a time limit sets one, counted from its start: a session that has been open for
  longer is past its new limit at once.\<close>

theorem extension_ends_unlimited_session:
  assumes "session_by_id i db = Some s" and "mine requesting (se_organization_id s)"
    and "enforce_entity_location (Some (se_location_id s)) (gh_caller_scope hooks) CrossLocationGuestAccessError = Inr u"
    and "se_status s = SESSION_ACTIVE" and "se_session_timeout_minutes s = None" and "0 < n"
    and "minutes (n + SESSION_ACTIVITY_GRACE_MINUTES) \<le> time_at env (pw_clock w) - se_started_at s"
  shows "yields (\<lambda>s' _ _. se_session_timeout_minutes s' = Some n \<and> has_session_overrun_time_limit s' (time_at env (pw_clock w)))
    (extend_session env hooks actor i requesting n) db w"
  using assms
  by (auto simp: extend_session_def validate_extension_minutes_def get_session_def enforce_tenant_scope_def mine_def save_session_def
      session_audit_def site_audit_def extended_timeout_def has_session_overrun_time_limit_def assign_def Let_def)

theorem extension_ends_unlimited_session_witness:
  "yields (\<lambda>s' _ _. se_session_timeout_minutes s' = Some 30 \<and> has_session_overrun_time_limit s' sample_now)
    (extend_session sample_platform_env sample_hooks None ''s1'' None 30)
    (sample_guests [] [(sample_session ''s1'' ''ann'' ''acme'' SESSION_ACTIVE 0 None)\<lparr>se_session_timeout_minutes := None\<rparr>]) sample_pworld"
proof -
  let ?s = "(sample_session ''s1'' ''ann'' ''acme'' SESSION_ACTIVE 0 None)\<lparr>se_session_timeout_minutes := None\<rparr>"
  have "session_by_id ''s1'' (sample_guests [] [?s]) = Some ?s" "mine None (se_organization_id ?s)"
    "enforce_entity_location (Some (se_location_id ?s)) (gh_caller_scope sample_hooks) CrossLocationGuestAccessError = Inr ()"
    "se_status ?s = SESSION_ACTIVE" "se_session_timeout_minutes ?s = None" "(0::int) < 30"
    "minutes (30 + SESSION_ACTIVITY_GRACE_MINUTES) \<le> time_at sample_platform_env (pw_clock sample_pworld) - se_started_at ?s" by code_simp+
  from extension_ends_unlimited_session [OF this] show ?thesis by (simp add: sample_now_def sample_pworld_def)
qed

text \<open>A daily cap of zero, which the schema admits, is enforced together with another cap and ignored alone.\<close>

theorem zero_cap_ignored:
  "fst (enforce_fup_quota sample_platform_env sample_hooks ''ann'' ''acme'' None None
     (sample_guests [(''daily_data_limit_mb'', JInt 0)] [], sample_pworld)) = Inr () \<and>
   fst (enforce_fup_quota sample_platform_env sample_hooks ''ann'' ''acme'' None None
     (sample_guests [(''daily_data_limit_mb'', JInt 0), (''monthly_data_limit_mb'', JInt 500)] [], sample_pworld)) =
   Inl (FairUsagePolicyExceededError ''ann'' ''daily'' ''data'' 0 0)"
proof
  show "fst (enforce_fup_quota sample_platform_env sample_hooks ''ann'' ''acme'' None None
     (sample_guests [(''daily_data_limit_mb'', JInt 0)] [], sample_pworld)) = Inr ()" by code_simp
  show "fst (enforce_fup_quota sample_platform_env sample_hooks ''ann'' ''acme'' None None
     (sample_guests [(''daily_data_limit_mb'', JInt 0), (''monthly_data_limit_mb'', JInt 500)] [], sample_pworld)) =
   Inl (FairUsagePolicyExceededError ''ann'' ''daily'' ''data'' 0 0)" by code_simp
qed

text \<open>Online time is counted from the start of the period on: the first sweep after a sign-in at 05:30 local time
  charges the whole morning to a session two minutes old and ends it.\<close>

theorem first_accrual_charges_the_day:
  "(let run = run_fup_time_accrual sample_platform_env sample_hooks (\<lambda>_ _ _. None) (\<lambda>_. NotAsked) (sample_now + minutes 2)
      (sample_guests [(''daily_time_limit_minutes'', JInt 120)] [sample_session ''s1'' ''ann'' ''acme'' SESSION_ACTIVE sample_now None], sample_pworld)
    in (fst run, map se_status (ge_sessions (fst (snd run))), map se_disconnect_reason (ge_sessions (fst (snd run))))) =
   (Inr (3, 1), [SESSION_EXPIRED], [Some ''fup_time_quota_exceeded_daily''])"
  by code_simp

end
