(* ===== verification/Spec2Isabelle.thy ===== *)
theory Spec2Isabelle
  imports Prelude Database RateLimit Rbac Voucher VoucherLifecycle VoucherRace VoucherAdmin VoucherTenancy
    Otp Credits CreditLedger CreditBooks Billing
    LicenseLifecycle Accounts PaymentRules InvoiceRules CouponRules RenewalRules RenewalOutcomes
    EntitlementCache RenewalGaps
    Login AuthSessions TokenRules Lockout AuthGaps OrganizationTree OrganizationGaps
    LocationRules TierRules PolicyResolution GuestGaps
begin

text \<open>
  \<^bold>\<open>CloudGuest: a verification of the core of the guest WiFi platform.\<close>

  CloudGuest (\<open>src/backend/app\<close>) is a FastAPI application over PostgreSQL and Redis that sells
  and controls guest WiFi access for organizations and their locations. A request runs in one
  database session (\<open>database/session.py\<close>): it is authorized by the role engine (\<open>domains/rbac\<close>),
  handled by a domain service that reads and writes rows through the generic repository
  (\<open>database/repositories\<close>), and committed, or rolled back when it raises. Staff sign in through
  \<open>domains/auth\<close> and belong to organizations (\<open>domains/organization\<close>), which form a tree under
  managed-service providers; an organization has locations (\<open>domains/location\<close>) and policies
  (\<open>domains/policy\<close>) that are assigned to places, users and guests and resolved when a guest is
  online (\<open>domains/guest\<close>). Guests log in with vouchers (\<open>domains/voucher\<close>) or one-time codes
  (\<open>domains/otp\<close>), both throttled in Redis. Organizations hold a license for a plan and pay for it
  through \<open>domains/billing\<close> (subscriptions, payments, invoices, coupons, a renewal sweep, webhooks
  of the payment providers), where marketing campaigns spend prepaid credits.

  \<^bold>\<open>How the program is modelled.\<close> A service method is a program \<open>'s \<Rightarrow> ('e + 'a) \<times> 's\<close> (theory
  \<open>Prelude\<close>) with one constructor of an error datatype per exception class it raises. The state
  is a pair of a managed part, which \<open>with_db_session\<close> restores when the program raises, and an
  unmanaged part (Redis, messages sent, entries written on an independent connection), which it
  does not. A table is the list of its rows in insertion order; a row is a record that extends
  \<open>base_model\<close>. What the source obtains from outside is an argument: fresh ids, clock reads
  (one argument position per read, so no two reads are assumed equal), random tapes, the
  digest function, the providers, and the Redis server. Redis is the record \<open>redis_ops\<close> with the
  documented behaviour of \<open>INCR\<close>, \<open>EXPIRE\<close> and \<open>TTL\<close> as the named hypotheses \<open>redis_laws\<close>, which
  a concrete store satisfies. Python integers are \<open>int\<close>, an instant is an \<open>int\<close> count of
  microseconds, a \<open>Decimal\<close> is a \<open>rat\<close>, a \<open>UUID\<close> is its text.

  \<^bold>\<open>The theories.\<close>
  \<^item> \<open>Prelude\<close>: programs and their rules, the Python string methods, decimal rendering, lists.
  \<^item> \<open>Database\<close>: \<open>models.base.BaseModel\<close>, \<open>GenericRepository\<close> (lookup, listing, optimistic update,
    soft delete), pagination, the request session; the locale \<open>request_contract\<close>: an invariant
    and a transition relation that every returning request keeps hold over every history.
  \<^item> \<open>RateLimit\<close>: \<open>VoucherRedemptionRateLimiter\<close> and \<open>OtpRateLimiter\<close>.
  \<^item> \<open>Rbac\<close>: \<open>authorization.py\<close>, \<open>service.py\<close> and \<open>repository.py\<close> of \<open>domains/rbac\<close>: scopes, role
    hierarchy, grants and overrides, the cached form of grants, the escalation guard, denial
    audit, location confinement of listings.
  \<^item> \<open>Voucher\<close>: the data, repository statements and \<open>VoucherService\<close>. \<open>VoucherLifecycle\<close>: the locale
    \<open>status_graph\<close> (interpreted for batches and for vouchers), the well-formedness \<open>db_wf\<close> and the
    relation \<open>evolves\<close> that every administrative command keeps. \<open>VoucherRace\<close>: redemption as two
    atomic steps, the check and the conditional \<open>UPDATE\<close>, interleaved arbitrarily with each other
    and with administrative requests. \<open>VoucherAdmin\<close>, \<open>VoucherTenancy\<close>: properties.
  \<^item> \<open>Otp\<close>: \<open>OtpService\<close>, its table and validators, and its properties.
  \<^item> \<open>Credits\<close>: \<open>CreditWalletService\<close> and its repository; \<open>CreditLedger\<close>: its calls as commands, the
    contract \<open>books\<close> (an interpretation of \<open>request_contract\<close>); \<open>CreditBooks\<close>: properties.
  \<^item> \<open>StatusGraph\<close>, \<open>Transitions\<close>, \<open>Outcomes\<close>, \<open>Progress\<close>: the proof calculi the components share. Tables
    whose rows move along a graph of statuses (locales \<open>status_moves\<close>, \<open>status_graph\<close>); \<open>try\<close> and \<open>for\<close>
    as program combinators, and relations that every step of a program keeps (\<open>honours\<close>, locale
    \<open>step_relation\<close>; \<open>stays\<close>, locale \<open>state_relation\<close>); what holds of a run that returns (\<open>ensures\<close>); runs
    that return (\<open>yields\<close>) and runs that raise (\<open>raises\<close>).
  \<^item> \<open>Billing\<close>: \<open>validators.py\<close> and \<open>number_generator.py\<close> of \<open>domains/billing\<close>, and their properties;
    \<open>Calendar\<close>: \<open>datetime\<close> as the billing services use it.
  \<^item> \<open>BillingData\<close>: tables, repository, exceptions and environment of the billing services. \<open>Usage\<close>,
    \<open>License\<close>, \<open>Coupon\<close>, \<open>Subscriptions\<close>, \<open>Payments\<close> (with the Stripe and Razorpay gateways), \<open>Renewal\<close>,
    \<open>Invoices\<close>, \<open>Webhooks\<close>: one theory per service of \<open>service.py\<close>, \<open>payment_gateways.py\<close>,
    \<open>renewal_service.py\<close> and \<open>webhooks.py\<close>. \<open>Footprints\<close>: which tables each operation can change, the
    gateway contract as the locales \<open>payment_gateway\<close> and \<open>payment_gateway_protocol\<close>. \<open>BillingHistory\<close>:
    all requests, tasks and webhooks as one step relation; the locale \<open>history_relation\<close> carries a
    relation from single operations to histories. \<open>Accounts\<close>, \<open>LicenseLifecycle\<close>, \<open>PaymentRules\<close>,
    \<open>InvoiceRules\<close>, \<open>CouponRules\<close>, \<open>RenewalRules\<close>, \<open>RenewalOutcomes\<close>, \<open>EntitlementCache\<close>, \<open>RenewalGaps\<close>:
    properties; \<open>BillingSample\<close>: the concrete organization their witnesses use.
  \<^item> \<open>OrganizationData\<close>, \<open>Auth\<close>: the tables of accounts, sessions, second factors, API keys,
    organizations and members, and the environment of the identity services (clock, supply of ids,
    Argon2, SHA-256, Fernet, TOTP, PyJWT, Redis). \<open>AuthService\<close>: \<open>AuthService\<close>, \<open>AuthSecurity\<close>,
    \<open>JWTManager\<close>, \<open>PasswordManager\<close>, \<open>mfa.py\<close>, \<open>ApiKeyService\<close> and \<open>get_current_user\<close>. A login commits
    before it raises, so here the session keeps the tables as last committed (\<open>aw_committed\<close>,
    \<open>auth_request\<close>). \<open>AuthRules\<close>, \<open>Login\<close>, \<open>AuthSessions\<close>, \<open>TokenRules\<close>, \<open>Lockout\<close>, \<open>AuthGaps\<close>: properties;
    \<open>AuthSample\<close>: a concrete account.
  \<^item> \<open>Organizations\<close>: \<open>OrganizationService\<close>, its repository and \<open>scoping.py\<close>. \<open>OrganizationTree\<close>: the
    invariant of the hierarchy (an interpretation of \<open>request_contract\<close>) and its absence of cycles;
    \<open>OrganizationGaps\<close>: the last active member, overlapping updates, and a concrete platform.
  \<^item> \<open>GuardedTables\<close>: tables whose rows have an owner (locale \<open>guarded_rows\<close>). \<open>Platform\<close>: errors,
    environment and tables the services of a site share.
  \<^item> \<open>Locations\<close>: \<open>LocationService\<close>, its repository, the location codes and \<open>scoping.py\<close>; \<open>LocationRules\<close>:
    properties and a concrete site.
  \<^item> \<open>AccessTier\<close>: \<open>access_tier.py\<close>, the limits a tier of guests carries and its login hours; \<open>TierRules\<close>:
    properties. \<open>Policy\<close>: \<open>PolicyService\<close>, resolver and repository; \<open>PolicyRules\<close>: the invariant of versions and
    assignments (an interpretation of \<open>request_contract\<close>, three of \<open>guarded_rows\<close>); \<open>PolicyResolution\<close>: which
    policy governs, and gaps of the tenant rules.
  \<^item> \<open>GuestData\<close>: tables, validators and repository statements of guest sessions; the services around
    them that are not modelled are the fields of \<open>guest_hooks\<close>. \<open>GuestSessions\<close>: the session engine of
    \<open>GuestService\<close>, reconnect and the sweep of stale sessions; \<open>GuestQuota\<close>: limits, quotas, accounting of
    traffic and online time. \<open>GuestRules\<close>, \<open>GuestEngine\<close>: the invariant of sessions and the histories of
    the engine (two interpretations of \<open>request_contract\<close>); \<open>GuestSweep\<close>: what the sweeps do, exactly;
    \<open>GuestGaps\<close>: a concrete deployment and gaps.

  \<^bold>\<open>What the theorems show.\<close>
  \<^item> Vouchers: under every interleaving no voucher is used more often than its batch allows
    (\<open>redemptions_within_limit\<close>), a use has one winner, a redeemable voucher is redeemed; histories
    of administrative requests keep the tables well formed and statuses move only along the
    transition graph; issued codes are fresh and well formed; imports partition; revocation
    cascades; organizations are isolated from each other; typed codes resolve.
  \<^item> Access: a passed check rests on a live grant and no denial; a role can be assigned only
    by someone who holds all it carries; the parent walk ends; cached grants read back unchanged;
    denials are recorded although the request is rolled back.
  \<^item> One-time codes: a code is accepted once and only in its lifetime, the code sent is the code
    accepted, a contact is not flooded. Two theorems record defects: the lockout counter is lost
    with the rolled back request, and the consumption of a code is not atomic.
  \<^item> Credits: after every history the books balance, money is conserved, a recorded request is
    never applied twice, alerts fire once per crossing, reservations are whole units and
    releases leave exactly what is held. One theorem shows that reservations are not kept apart
    by campaign.
  \<^item> Billing rules: discounts stay within the amount, the GST split adds up, month arithmetic is
    calendar-correct, document numbers are gapless and unique.
  \<^item> Billing services, over every history of requests, sweeps and webhooks: licenses move along
    their transition graph and there is one per organization; subscriptions and licenses agree;
    refunds never exceed the payment; a payment request with a used key makes no provider call;
    invoices keep their amounts and move forward; coupon uses are counted; the sweep returns and
    cancels what has lapsed; a renewal pays for the period it grants; a license expires only after
    its grace period; the cached license gate refines the gate on the table. Three theorems record
    defects: the sweep never invalidates that cache, a past-due subscription is resumed unpaid, a
    webhook whose handling raised is never applied.
  \<^item> Authentication: a login that returns has checked password, lock, second factor and demanded
    password change, and a login that passes them returns; a refresh token works once; a password
    change or reset ends every session for good; password guesses are bounded by the lock although
    every failed request is rolled back. Theorems on defects: a recovery code is spent by the
    request that asks for a retry, a reset token can be used by two overlapping requests, the list
    of common passwords is never consulted, a token signed in the second of a forced logout is
    refused.
  \<^item> Organizations: identifiers and slugs are unique, parents exist and are providers, nothing
    disappears, no cycle arises from requests handled one after the other, removal leaves an active
    member. Theorems on defects: overlapping updates close a cycle, suspension empties an
    organization.
  \<^item> Locations: slugs and codes stay unique, a location stays in its organization, archival is final,
    callers stay within their organization and its children. The slug of an archived location is lost.
  \<^item> Policies: the live version of a policy is one of its published versions over every history; the
    resolver picks the candidate that outranks all others; a resolution answers from a policy of
    the platform, the tenant or its parent; a set field of a tier wins, login hours are decided by the
    windows of two days. Gaps: writes to platform-wide policies are unguarded, a guest can have
    two tiers, a refusal names another tenant's row.
  \<^item> Guest sessions: sessions are append-only and end once over every history of the engine; a caller
    changes sessions and guests of its organization only; the sweep expires exactly the stale
    sessions, its SQL filter and its predicate agree; the quota rollover is exact; the batched quota
    read equals the single reads; a terminated guest has to wait. Gaps: a reconnect gets past a pause, a
    data cap and the rule of one session; an extension can end a session; a cap of zero alone is
    ignored; the first accrual charges the time since midnight.

  \<^bold>\<open>Bounds.\<close> Code generation runs at most \<open>CODE_GENERATION_MAX_ROUNDS\<close> rounds, as in the source, and
  raises when they are used up; the parent walks take the source's \<open>max_depth\<close> (50 for
  organizations: \<open>hierarchy_acyclic\<close> states what that bound costs). \<open>py_replace\<close> takes
  the length of its text as fuel, and consumes at least one character per step. No other
  definition has a bound that the source does not have.

  \<^bold>\<open>What is not modelled.\<close> HTTP routing, schemas and serialization; the HTML of e-mails and the
  PDF and CSV exports; the selection of providers from settings; hashing and signing; device
  and network I/O. SQL runs at the isolation the source relies on: one statement is one step,
  a row lock or a unique upsert serializes its callers. \<open>Decimal\<close> results beyond 28 digits and
  non-ASCII case mapping are outside the model.

  Of the guest domain the sign-in methods, profiles, whitelist and opening-hours sweeps, RADIUS and
  analytics are left out; so are user administration, campaign dispatch, team quotas, routers and
  their provisioning, network configuration, monitoring and role administration, which are
  mostly record keeping over the modelled repository or drive devices.
\<close>

end
